(* ===== verification/Prelude.thy ===== *)
theory Prelude
  imports Main "HOL-Library.AList" "HOL-Library.Sublist"
begin

text \<open>
  The vocabulary every component of the development shares: the exceptions the NestJS
  services throw, computations that may throw after having changed the state (an
  \<^verbatim>\<open>async\<close> method of a service), the JavaScript string operations the sources use, and the
  generic lemmas that carry the component proofs.
\<close>

named_theorems prog_simps \<open>unfolding rules for the computations of the model\<close>
named_theorems preserves_intros \<open>structural rules for \<open>preserves\<close>\<close>

section \<open>Exceptions\<close>

text \<open>
  The HTTP exceptions of \<^verbatim>\<open>@nestjs/common\<close>, each with its message, and \<open>JsError\<close> for a
  plain \<^verbatim>\<open>Error\<close> (an unhandled 500) or for a failure of a driver.
\<close>

datatype exn =
    BadRequestException string
  | NotFoundException string
  | ConflictException string
  | ForbiddenException string
  | UnauthorizedException string
  | ServiceUnavailableException string
  | TooManyRequests string
  | JsError string

text \<open>\<^verbatim>\<open>(err as Error).message\<close>.\<close>

fun exn_message :: "exn \<Rightarrow> string" where
  "exn_message (BadRequestException m) = m"
| "exn_message (NotFoundException m) = m"
| "exn_message (ConflictException m) = m"
| "exn_message (ForbiddenException m) = m"
| "exn_message (UnauthorizedException m) = m"
| "exn_message (ServiceUnavailableException m) = m"
| "exn_message (TooManyRequests m) = m"
| "exn_message (JsError m) = m"

section \<open>Computations\<close>

text \<open>
  A computation over states \<open>'s\<close> either throws or returns; in both cases it yields the state
  it has reached, because an exception in JavaScript does not undo the writes made before it.
\<close>

type_synonym ('s, 'a) prog = "'s \<Rightarrow> (exn + 'a) \<times> 's"

definition return :: "'a \<Rightarrow> ('s, 'a) prog" where
  "return x = (\<lambda>s. (Inr x, s))"

definition throw :: "exn \<Rightarrow> ('s, 'a) prog" where
  "throw e = (\<lambda>s. (Inl e, s))"

definition andThen :: "('s, 'a) prog \<Rightarrow> ('a \<Rightarrow> ('s, 'b) prog) \<Rightarrow> ('s, 'b) prog" where
  "andThen m f = (\<lambda>s. case m s of (Inl e, s') \<Rightarrow> (Inl e, s') | (Inr x, s') \<Rightarrow> f x s')"

definition try_catch :: "('s, 'a) prog \<Rightarrow> (exn \<Rightarrow> ('s, 'a) prog) \<Rightarrow> ('s, 'a) prog" where
  "try_catch m h = (\<lambda>s. case m s of (Inl e, s') \<Rightarrow> h e s' | (Inr x, s') \<Rightarrow> (Inr x, s'))"

definition get_state :: "('s, 's) prog" where
  "get_state = (\<lambda>s. (Inr s, s))"

definition modify :: "('s \<Rightarrow> 's) \<Rightarrow> ('s, unit) prog" where
  "modify f = (\<lambda>s. (Inr (), f s))"

definition guard :: "bool \<Rightarrow> exn \<Rightarrow> ('s, unit) prog" where
  "guard b e = (if b then return () else throw e)"

definition of_result :: "exn + 'a \<Rightarrow> ('s, 'a) prog" where
  "of_result r = (\<lambda>s. (r, s))"

text \<open>\<^verbatim>\<open>for (const x of xs)\<close> with an accumulator: the first exception stops the loop.\<close>

fun foldProg :: "('a \<Rightarrow> 'b \<Rightarrow> ('s, 'b) prog) \<Rightarrow> 'a list \<Rightarrow> 'b \<Rightarrow> ('s, 'b) prog" where
  "foldProg f [] acc = return acc"
| "foldProg f (x # xs) acc = andThen (f x acc) (foldProg f xs)"

lemma return_apply [prog_simps]: "return x s = (Inr x, s)"
  by (simp add: return_def)

lemma throw_apply [prog_simps]: "throw e s = (Inl e, s)"
  by (simp add: throw_def)

lemma get_state_apply [prog_simps]: "get_state s = (Inr s, s)"
  by (simp add: get_state_def)

lemma modify_apply [prog_simps]: "modify f s = (Inr (), f s)"
  by (simp add: modify_def)

lemma of_result_apply [prog_simps]: "of_result r s = (r, s)"
  by (simp add: of_result_def)

lemma guard_apply [prog_simps]: "guard b e s = (if b then (Inr (), s) else (Inl e, s))"
  by (simp add: guard_def return_def throw_def)

lemma andThen_assoc: "andThen (andThen m f) g = andThen m (\<lambda>x. andThen (f x) g)"
  by (rule ext) (simp add: andThen_def split: prod.splits sum.splits)

lemma andThen_return [simp]: "andThen (return x) f = f x"
  by (simp add: andThen_def return_def)

lemma andThen_throw [simp]: "andThen (throw e) f = throw e"
  by (simp add: andThen_def throw_def)

lemma andThen_guard_True [simp]: "andThen (guard True e) f = f ()"
  by (simp add: guard_def)

lemma andThen_guard_False [simp]: "andThen (guard False e) f = throw e"
  by (simp add: guard_def)

lemma andThen_Inr [prog_simps]: "m s = (Inr x, s1) \<Longrightarrow> andThen m f s = f x s1"
  by (simp add: andThen_def)

lemma andThen_Inl [prog_simps]: "m s = (Inl e, s1) \<Longrightarrow> andThen m f s = (Inl e, s1)"
  by (simp add: andThen_def)

text \<open>A sequence returns exactly when both parts do: the inversion rule of the proofs.\<close>

lemma andThen_eq_Inr_iff:
  "andThen m f s = (Inr y, s') \<longleftrightarrow> (\<exists>x s1. m s = (Inr x, s1) \<and> f x s1 = (Inr y, s'))"
  by (auto simp: andThen_def split: prod.splits sum.splits)

lemma andThen_eq_Inl_iff:
  "andThen m f s = (Inl e, s') \<longleftrightarrow>
     m s = (Inl e, s') \<or> (\<exists>x s1. m s = (Inr x, s1) \<and> f x s1 = (Inl e, s'))"
  by (auto simp: andThen_def split: prod.splits sum.splits)

lemma guard_eq_Inr_iff: "guard b e s = (Inr u, s') \<longleftrightarrow> b \<and> s' = s"
  by (auto simp: guard_apply)

lemma guard_eq_Inl_iff: "guard b e s = (Inl e', s') \<longleftrightarrow> \<not> b \<and> e' = e \<and> s' = s"
  by (auto simp: guard_apply)

lemma return_eq_iff: "return x s = (Inr y, s') \<longleftrightarrow> y = x \<and> s' = s"
  by (auto simp: return_apply)

lemma return_neq_Inl: "return x s \<noteq> (Inl e, s')"
  by (simp add: return_apply)

lemma throw_neq_Inr: "throw e s \<noteq> (Inr y, s')"
  by (simp add: throw_apply)

lemma throw_eq_Inl_iff: "throw e s = (Inl e', s') \<longleftrightarrow> e' = e \<and> s' = s"
  by (auto simp: throw_apply)

lemma try_catch_eq_Inr_iff:
  "try_catch m h s = (Inr y, s') \<longleftrightarrow>
     m s = (Inr y, s') \<or> (\<exists>e s1. m s = (Inl e, s1) \<and> h e s1 = (Inr y, s'))"
  by (auto simp: try_catch_def split: prod.splits sum.splits)

lemmas prog_elims =
  andThen_eq_Inr_iff guard_eq_Inr_iff return_eq_iff throw_neq_Inr try_catch_eq_Inr_iff

text \<open>The same inversions as elimination rules, for computations that look something up or throw.\<close>

lemma andThen_InrE:
  assumes "andThen m f s = (Inr y, s')"
  obtains x s1 where "m s = (Inr x, s1)" "f x s1 = (Inr y, s')"
  using assms by (auto simp: andThen_eq_Inr_iff)

lemma option_throw_InrE:
  assumes "(case x of None \<Rightarrow> throw e | Some a \<Rightarrow> k a) s = (Inr y, s')"
  obtains a where "x = Some a" "k a s = (Inr y, s')"
  using assms by (cases x) (auto simp: throw_apply)

lemma list_throw_InrE:
  assumes "(case xs of [] \<Rightarrow> throw e | a # as \<Rightarrow> k a as) s = (Inr y, s')"
  obtains a as where "xs = a # as" "k a as s = (Inr y, s')"
  using assms by (cases xs) (auto simp: throw_apply)

lemma if_throw_InrE:
  assumes "(if b then throw e else m) s = (Inr y, s')"
  obtains "\<not> b" "m s = (Inr y, s')"
  using assms by (cases b) (auto simp: throw_apply)

lemma return_InrE:
  assumes "return x s = (Inr y, s')"
  obtains "y = x" "s' = s"
  using assms by (auto simp: return_apply)

lemma of_result_InrE:
  assumes "of_result r s = (Inr y, s')"
  obtains "r = Inr y" "s' = s"
  using assms by (auto simp: of_result_apply)

lemmas prog_invs = andThen_InrE option_throw_InrE list_throw_InrE if_throw_InrE return_InrE of_result_InrE

text \<open>A loop that returns keeps what every turn keeps.\<close>

lemma foldProg_invariant:
  assumes "foldProg f xs acc s = (Inr acc', s')" and "I acc s"
    and "\<And>x a t a' t'. x \<in> set xs \<Longrightarrow> f x a t = (Inr a', t') \<Longrightarrow> I a t \<Longrightarrow> I a' t'"
  shows "I acc' s'"
  using assms
proof (induction xs arbitrary: acc s)
  case Nil
  then show ?case by (auto simp: return_apply)
next
  case (Cons x xs)
  from Cons.prems(1) obtain a t where step: "f x acc s = (Inr a, t)" "foldProg f xs a t = (Inr acc', s')"
    by (auto simp: andThen_eq_Inr_iff)
  have "I a t" using step(1) Cons.prems(2,3) by (meson list.set_intros(1))
  then show ?case using Cons.IH[OF step(2)] Cons.prems(3) by (meson list.set_intros(2))
qed

text \<open>A loop that only reads, sums up and collects one result per element.\<close>

lemma foldProg_collect:
  assumes step: "\<And>x a ys s r s'. f x (a, ys) s = (Inr r, s') \<Longrightarrow> s' = s \<and> (\<exists>y. r = (g a y, ys @ [y]) \<and> R x y s)"
    and "foldProg f xs (a, ys) s = (Inr (a', ys'), s')"
  shows "s' = s \<and> (\<exists>zs. ys' = ys @ zs \<and> list_all2 (\<lambda>x y. R x y s) xs zs \<and> a' = foldl g a zs)"
  using assms(2)
proof (induction xs arbitrary: a ys)
  case Nil
  then show ?case by (auto simp: return_apply)
next
  case (Cons x xs)
  then obtain r s1 where fx: "f x (a, ys) s = (Inr r, s1)" and "foldProg f xs r s1 = (Inr (a', ys'), s')"
    by (auto simp: andThen_eq_Inr_iff)
  moreover obtain y where "s1 = s" "r = (g a y, ys @ [y])" "R x y s" using step[OF fx] by blast
  ultimately show ?case using Cons.IH[of "g a y" "ys @ [y]"] by auto
qed

section \<open>What a computation leaves unchanged\<close>

text \<open>
  \<open>preserves f m\<close>: whatever \<open>m\<close> does, and also when it throws, the observation \<open>f\<close> of the
  state is the same before and after. Frame and isolation properties are stated with it.
\<close>

definition preserves :: "('s \<Rightarrow> 'o) \<Rightarrow> ('s, 'a) prog \<Rightarrow> bool" where
  "preserves f m \<longleftrightarrow> (\<forall>s. f (snd (m s)) = f s)"

lemma preservesD: "preserves f m \<Longrightarrow> m s = (r, s') \<Longrightarrow> f s' = f s"
  by (metis preserves_def snd_conv)

lemma preservesI: "(\<And>s r s'. m s = (r, s') \<Longrightarrow> f s' = f s) \<Longrightarrow> preserves f m"
  by (metis preserves_def surjective_pairing)

lemma preserves_return [preserves_intros]: "preserves f (return x)"
  by (simp add: preserves_def return_def)

lemma preserves_throw [preserves_intros]: "preserves f (throw e)"
  by (simp add: preserves_def throw_def)

lemma preserves_guard [preserves_intros]: "preserves f (guard b e)"
  by (simp add: preserves_def guard_apply)

lemma preserves_of_result [preserves_intros]: "preserves f (of_result r)"
  by (simp add: preserves_def of_result_def)

lemma preserves_get_state [preserves_intros]: "preserves f get_state"
  by (simp add: preserves_def get_state_def)

lemma preserves_modify: "(\<And>s. f (g s) = f s) \<Longrightarrow> preserves f (modify g)"
  by (simp add: preserves_def modify_def)

lemma preserves_andThen [preserves_intros]:
  "preserves f m \<Longrightarrow> (\<And>x. preserves f (k x)) \<Longrightarrow> preserves f (andThen m k)"
  by (simp add: preserves_def andThen_def split: prod.splits sum.splits) (metis snd_conv)

lemma preserves_try_catch [preserves_intros]:
  "preserves f m \<Longrightarrow> (\<And>e. preserves f (h e)) \<Longrightarrow> preserves f (try_catch m h)"
  by (simp add: preserves_def try_catch_def split: prod.splits sum.splits) (metis snd_conv)

lemma preserves_if [preserves_intros]:
  "(b \<Longrightarrow> preserves f m) \<Longrightarrow> (\<not> b \<Longrightarrow> preserves f n) \<Longrightarrow> preserves f (if b then m else n)"
  by simp

lemma preserves_case_option [preserves_intros]:
  "(x = None \<Longrightarrow> preserves f m) \<Longrightarrow> (\<And>a. x = Some a \<Longrightarrow> preserves f (k a)) \<Longrightarrow>
   preserves f (case x of None \<Rightarrow> m | Some a \<Rightarrow> k a)"
  by (cases x) simp_all

lemma preserves_case_list [preserves_intros]:
  "(xs = [] \<Longrightarrow> preserves f m) \<Longrightarrow> (\<And>a as. xs = a # as \<Longrightarrow> preserves f (k a as)) \<Longrightarrow>
   preserves f (case xs of [] \<Rightarrow> m | a # as \<Rightarrow> k a as)"
  by (cases xs) simp_all

lemma preserves_case_prod [preserves_intros]:
  "(\<And>a b. preserves f (k a b)) \<Longrightarrow> preserves f (case p of (a, b) \<Rightarrow> k a b)"
  by (cases p) simp

lemma preserves_Let [preserves_intros]:
  "(\<And>x. x = t \<Longrightarrow> preserves f (k x)) \<Longrightarrow> preserves f (let x = t in k x)"
  by simp

lemma preserves_foldProg [preserves_intros]:
  "(\<And>x acc. preserves f (g x acc)) \<Longrightarrow> preserves f (foldProg g xs acc)"
  by (induction xs arbitrary: acc) (auto intro: preserves_return preserves_andThen)

lemma preserves_compose: "preserves f m \<Longrightarrow> preserves (\<lambda>s. g (f s)) m"
  by (simp add: preserves_def)

section \<open>What a computation may change\<close>

text \<open>
  \<open>along R m\<close>: every run of \<open>m\<close>, also one that throws, takes the state along \<open>R\<close>. When \<open>R\<close> is
  reflexive and transitive (the locale \<open>change\<close>) this is a property of sequences, handlers, loops.
\<close>

definition along :: "('s \<Rightarrow> 's \<Rightarrow> bool) \<Rightarrow> ('s, 'a) prog \<Rightarrow> bool" where
  "along R m \<longleftrightarrow> (\<forall>s. R s (snd (m s)))"

lemma alongD: "along R m \<Longrightarrow> m s = (r, s') \<Longrightarrow> R s s'"
  by (metis along_def snd_conv)

lemma alongI: "(\<And>s r s'. m s = (r, s') \<Longrightarrow> R s s') \<Longrightarrow> along R m"
  by (metis along_def surjective_pairing)

lemma along_mono: "along R m \<Longrightarrow> (\<And>s s'. R s s' \<Longrightarrow> R' s s') \<Longrightarrow> along R' m"
  by (simp add: along_def)

locale change =
  fixes R :: "'s \<Rightarrow> 's \<Rightarrow> bool"
  assumes stays: "R s s" and joins: "R s1 s2 \<Longrightarrow> R s2 s3 \<Longrightarrow> R s1 s3"
begin

lemma along_preserves: "preserves (\<lambda>s. s) m \<Longrightarrow> along R m"
  by (simp add: preserves_def along_def stays)

lemma along_return: "along R (return x)"
  by (simp add: along_def return_def stays)

lemma along_throw: "along R (throw e)"
  by (simp add: along_def throw_def stays)

lemma along_of_result: "along R (of_result r)"
  by (simp add: along_def of_result_def stays)

lemma along_andThen: "along R m \<Longrightarrow> (\<And>x. along R (k x)) \<Longrightarrow> along R (andThen m k)"
  by (simp add: along_def andThen_def split: prod.splits sum.splits) (metis joins snd_conv)

lemma along_try_catch: "along R m \<Longrightarrow> (\<And>e. along R (h e)) \<Longrightarrow> along R (try_catch m h)"
  by (simp add: along_def try_catch_def split: prod.splits sum.splits) (metis joins snd_conv)

lemma along_if: "(b \<Longrightarrow> along R m) \<Longrightarrow> (\<not> b \<Longrightarrow> along R n) \<Longrightarrow> along R (if b then m else n)"
  by simp

lemma along_option:
  "(x = None \<Longrightarrow> along R m) \<Longrightarrow> (\<And>a. x = Some a \<Longrightarrow> along R (k a)) \<Longrightarrow>
   along R (case x of None \<Rightarrow> m | Some a \<Rightarrow> k a)"
  by (cases x) simp_all

lemma along_foldProg: "(\<And>x acc. along R (g x acc)) \<Longrightarrow> along R (foldProg g xs acc)"
  by (induction xs arbitrary: acc) (auto intro: along_return along_andThen)

lemmas along_intros =
  along_return along_throw along_of_result along_andThen along_try_catch along_if along_option along_foldProg

end

section \<open>Failing without a trace\<close>

text \<open>
  \<open>fails_clean f m\<close>: when \<open>m\<close> throws, the observation \<open>f\<close> is as before; \<open>never_fails m\<close>: it does
  not throw. A sequence fails cleanly when it first reads, writes once, and then cannot fail.
\<close>

definition fails_clean :: "('s \<Rightarrow> 'o) \<Rightarrow> ('s, 'a) prog \<Rightarrow> bool" where
  "fails_clean f m \<longleftrightarrow> (\<forall>s e s'. m s = (Inl e, s') \<longrightarrow> f s' = f s)"

definition never_fails :: "('s, 'a) prog \<Rightarrow> bool" where
  "never_fails m \<longleftrightarrow> (\<forall>s. \<exists>x s'. m s = (Inr x, s'))"

named_theorems clean_intros \<open>structural rules for \<open>fails_clean\<close> and \<open>never_fails\<close>\<close>

lemma fails_cleanD: "fails_clean f m \<Longrightarrow> m s = (Inl e, s') \<Longrightarrow> f s' = f s"
  by (simp add: fails_clean_def)

lemma fails_clean_preserves: "preserves f m \<Longrightarrow> fails_clean f m"
  by (auto simp: fails_clean_def dest: preservesD)

lemma fails_clean_never: "never_fails m \<Longrightarrow> fails_clean f m"
  unfolding fails_clean_def never_fails_def by (metis Inl_Inr_False Pair_inject)

lemma fails_clean_throw [clean_intros]: "fails_clean f (throw e)"
  by (simp add: fails_clean_def throw_apply)

lemma fails_clean_read:
  "preserves f m \<Longrightarrow> (\<And>x. fails_clean f (k x)) \<Longrightarrow> fails_clean f (andThen m k)"
  unfolding fails_clean_def andThen_eq_Inl_iff by (metis preservesD)

lemma fails_clean_write:
  assumes "fails_clean f m" "\<And>x. never_fails (k x)"
  shows "fails_clean f (andThen m k)"
  unfolding fails_clean_def
proof (intro allI impI)
  fix s e s' assume "andThen m k s = (Inl e, s')"
  then consider "m s = (Inl e, s')" | x s1 where "k x s1 = (Inl e, s')" by (auto simp: andThen_eq_Inl_iff)
  then show "f s' = f s"
  proof cases
    case 1
    then show ?thesis using assms(1) by (auto dest: fails_cleanD)
  next
    case 2
    then have False using assms(2)[of x] unfolding never_fails_def by (metis Inl_Inr_False Pair_inject)
    then show ?thesis ..
  qed
qed

lemma fails_clean_option [clean_intros]:
  "(x = None \<Longrightarrow> fails_clean f m) \<Longrightarrow> (\<And>a. x = Some a \<Longrightarrow> fails_clean f (k a)) \<Longrightarrow>
   fails_clean f (case x of None \<Rightarrow> m | Some a \<Rightarrow> k a)"
  by (cases x) simp_all

lemma fails_clean_if [clean_intros]:
  "(b \<Longrightarrow> fails_clean f m) \<Longrightarrow> (\<not> b \<Longrightarrow> fails_clean f n) \<Longrightarrow> fails_clean f (if b then m else n)"
  by simp

lemma never_fails_return [clean_intros]: "never_fails (return x)"
  by (simp add: never_fails_def return_apply)

lemma never_fails_modify [clean_intros]: "never_fails (modify f)"
  by (simp add: never_fails_def modify_apply)

lemma never_fails_andThen [clean_intros]:
  "never_fails m \<Longrightarrow> (\<And>x. never_fails (k x)) \<Longrightarrow> never_fails (andThen m k)"
  unfolding never_fails_def by (metis andThen_Inr)

lemma never_fails_try [clean_intros]: "(\<And>e. never_fails (h e)) \<Longrightarrow> never_fails (try_catch m h)"
  unfolding never_fails_def try_catch_def by (auto split: prod.splits sum.splits)

lemma never_fails_if [clean_intros]:
  "(b \<Longrightarrow> never_fails m) \<Longrightarrow> (\<not> b \<Longrightarrow> never_fails n) \<Longrightarrow> never_fails (if b then m else n)"
  by simp

lemma never_fails_option [clean_intros]:
  "(x = None \<Longrightarrow> never_fails m) \<Longrightarrow> (\<And>a. x = Some a \<Longrightarrow> never_fails (k a)) \<Longrightarrow>
   never_fails (case x of None \<Rightarrow> m | Some a \<Rightarrow> k a)"
  by (cases x) simp_all

section \<open>What a computation keeps\<close>

text \<open>A computation that keeps a property of the database, whatever its result.\<close>

definition keeps :: "('d \<Rightarrow> bool) \<Rightarrow> ('d, 'a) prog \<Rightarrow> bool" where
  "keeps I m \<longleftrightarrow> (\<forall>s r s'. I s \<longrightarrow> m s = (r, s') \<longrightarrow> I s')"

lemma keepsI: "(\<And>s r s'. I s \<Longrightarrow> m s = (r, s') \<Longrightarrow> I s') \<Longrightarrow> keeps I m"
  by (auto simp: keeps_def)

lemma keepsD: "keeps I m \<Longrightarrow> I s \<Longrightarrow> m s = (r, s') \<Longrightarrow> I s'"
  by (auto simp: keeps_def)

lemma keeps_reads: "preserves (\<lambda>s. s) m \<Longrightarrow> keeps I m"
  by (auto simp: keeps_def dest: preservesD)

lemma keeps_return: "keeps I (return x)"
  by (simp add: keeps_def return_def)

text \<open>A read, then a continuation that may use what it read.\<close>

lemma keeps_read_then:
  assumes "preserves (\<lambda>s. s) m" and "\<And>x s r s'. m s = (Inr x, s) \<Longrightarrow> I s \<Longrightarrow> f x s = (r, s') \<Longrightarrow> I s'"
  shows "keeps I (andThen m f)"
proof (rule keepsI)
  fix s r s' assume I: "I s" and run: "andThen m f s = (r, s')"
  obtain y s1 where m: "m s = (y, s1)" by (meson surj_pair)
  have s1: "s1 = s" using preservesD[OF assms(1) m] by simp
  show "I s'"
  proof (cases y)
    case (Inl e)
    then show ?thesis using run m s1 I by (simp add: andThen_def)
  next
    case (Inr x)
    then show ?thesis using run m s1 I assms(2)[of s x r s'] by (simp add: andThen_def)
  qed
qed

lemma keeps_throw: "keeps I (throw e)"
  by (simp add: keeps_def throw_def)

lemma keeps_andThen: "keeps I m \<Longrightarrow> (\<And>x. keeps I (f x)) \<Longrightarrow> keeps I (andThen m f)"
proof (rule keepsI)
  fix s r s' assume m: "keeps I m" and f: "\<And>x. keeps I (f x)" and I: "I s" and run: "andThen m f s = (r, s')"
  obtain y s1 where y: "m s = (y, s1)" by (meson surj_pair)
  have I1: "I s1" by (rule keepsD[OF m I y])
  show "I s'"
  proof (cases y)
    case (Inl e)
    then show ?thesis using run y I1 by (simp add: andThen_def)
  next
    case (Inr x)
    then have "f x s1 = (r, s')" using run y by (simp add: andThen_def)
    then show ?thesis by (rule keepsD[OF f I1])
  qed
qed

lemma keeps_if: "(b \<Longrightarrow> keeps I m) \<Longrightarrow> (\<not> b \<Longrightarrow> keeps I n) \<Longrightarrow> keeps I (if b then m else n)"
  by simp

lemma keeps_option: "keeps I n \<Longrightarrow> (\<And>x. keeps I (f x)) \<Longrightarrow> keeps I (case y of None \<Rightarrow> n | Some x \<Rightarrow> f x)"
  by (cases y) simp_all

text \<open>The continuation after a row was found.\<close>

lemma keeps_found:
  assumes "preserves (\<lambda>s. s) m" and "\<And>x s r s'. m s = (Inr (Some x), s) \<Longrightarrow> I s \<Longrightarrow> f x s = (r, s') \<Longrightarrow> I s'"
  shows "keeps I (andThen m (\<lambda>found. case found of None \<Rightarrow> throw e | Some x \<Rightarrow> f x))"
proof (rule keeps_read_then[OF assms(1)])
  fix x s r s'
  assume "m s = (Inr x, s)" "I s" "(case x of None \<Rightarrow> throw e | Some y \<Rightarrow> f y) s = (r, s')"
  then show "I s'" by (cases x) (auto simp: throw_def dest: assms(2))
qed

lemmas keeps_intros = keeps_return keeps_throw keeps_andThen keeps_if keeps_option

section \<open>JavaScript values and strings\<close>

text \<open>
  \<^verbatim>\<open>null\<close> and \<^verbatim>\<open>undefined\<close> are \<open>None\<close>; a string is falsy when it is absent or empty.
\<close>

fun truthy :: "string option \<Rightarrow> bool" where
  "truthy None = False"
| "truthy (Some s) = (s \<noteq> [])"

lemma truthy_iff: "truthy x \<longleftrightarrow> (\<exists>s. x = Some s \<and> s \<noteq> [])"
  by (cases x) auto

text \<open>\<^verbatim>\<open>x || d\<close> on optional strings, and \<^verbatim>\<open>x || null\<close>.\<close>

definition or_else :: "string option \<Rightarrow> string \<Rightarrow> string" where
  "or_else x d = (case x of None \<Rightarrow> d | Some s \<Rightarrow> if s = [] then d else s)"

definition or_null :: "string option \<Rightarrow> string option" where
  "or_null x = (if truthy x then x else None)"

definition js_space :: "char \<Rightarrow> bool" where
  "js_space c \<longleftrightarrow> c \<in> set [CHR 0x20, CHR 0x09, CHR 0x0A, CHR 0x0B, CHR 0x0C, CHR 0x0D]"

definition js_trim :: "string \<Rightarrow> string" where
  "js_trim s = rev (dropWhile js_space (rev (dropWhile js_space s)))"

definition upper_char :: "char \<Rightarrow> char" where
  "upper_char c = (if 97 \<le> (of_char c :: nat) \<and> (of_char c :: nat) \<le> 122
                   then char_of ((of_char c :: nat) - 32) else c)"

definition lower_char :: "char \<Rightarrow> char" where
  "lower_char c = (if 65 \<le> (of_char c :: nat) \<and> (of_char c :: nat) \<le> 90
                   then char_of ((of_char c :: nat) + 32) else c)"

definition toUpperCase :: "string \<Rightarrow> string" where
  "toUpperCase s = map upper_char s"

definition toLowerCase :: "string \<Rightarrow> string" where
  "toLowerCase s = map lower_char s"

definition startsWith :: "string \<Rightarrow> string \<Rightarrow> bool" where
  "startsWith s p \<longleftrightarrow> prefix p s"

definition endsWith :: "string \<Rightarrow> string \<Rightarrow> bool" where
  "endsWith s p \<longleftrightarrow> suffix p s"

text \<open>\<^verbatim>\<open>s.split(c)\<close> for a one-character separator: never the empty list.\<close>

fun split_on :: "char \<Rightarrow> string \<Rightarrow> string list" where
  "split_on c [] = [[]]"
| "split_on c (x # xs) =
     (if x = c then [] # split_on c xs
      else case split_on c xs of [] \<Rightarrow> [[x]] | w # ws \<Rightarrow> (x # w) # ws)"

text \<open>\<^verbatim>\<open>xs[i]\<close> of an array, \<open>None\<close> (undefined) out of range.\<close>

definition js_index :: "'a list \<Rightarrow> nat \<Rightarrow> 'a option" where
  "js_index xs i = (if i < length xs then Some (xs ! i) else None)"

text \<open>\<^verbatim>\<open>xs.join(s)\<close>.\<close>

fun join_with :: "string \<Rightarrow> string list \<Rightarrow> string" where
  "join_with s [] = []"
| "join_with s [x] = x"
| "join_with s (x # y # zs) = x @ s @ join_with s (y # zs)"

text \<open>\<^verbatim>\<open>s.slice(-n)\<close>.\<close>

definition slice_last :: "nat \<Rightarrow> string \<Rightarrow> string" where
  "slice_last n s = drop (length s - n) s"

text \<open>Decimal digits of a non-negative integer, as in a template string.\<close>

function show_int :: "int \<Rightarrow> string" where
  "show_int n = (if n < 10 then [char_of (48 + n)]
                 else show_int (n div 10) @ [char_of (48 + n mod 10)])"
  by auto

termination
  by (relation "measure nat") auto

declare show_int.simps [simp del]

lemma split_on_not_Nil [simp]: "split_on c s \<noteq> []"
  by (induction s) (auto split: list.splits)

lemma split_on_no_sep: "c \<notin> set s \<Longrightarrow> split_on c s = [s]"
  by (induction s) auto

lemma split_on_append_sep: "c \<notin> set s \<Longrightarrow> split_on c (s @ c # t) = s # split_on c t"
  by (induction s) auto

lemma length_slice_last: "length (slice_last n s) = min n (length s)"
  by (simp add: slice_last_def)

lemma length_show_int_pos: "0 < length (show_int n)"
  by (subst show_int.simps) simp

lemma js_trim_Nil [simp]: "js_trim [] = []"
  by (simp add: js_trim_def)

text \<open>\<^verbatim>\<open>Array.prototype.find\<close> and \<^verbatim>\<open>includes\<close> are \<open>List.find\<close> and membership.\<close>

lemma find_SomeD: "List.find P xs = Some x \<Longrightarrow> x \<in> set xs \<and> P x"
  by (auto simp: find_Some_iff)

lemma list_all2_mem2: "list_all2 R xs ys \<Longrightarrow> y \<in> set ys \<Longrightarrow> \<exists>x \<in> set xs. R x y"
  by (induction rule: list_all2_induct) auto

lemma map_of_update_spread: "map_of (AList.update k v w) = (map_of w)(k \<mapsto> v)"
  by (rule update_conv')

end
