(* ===== verification/JS_Number.thy ===== *)
theory JS_Number
  imports Complex_Main "HOL-Library.Log_Nat" Prelude
begin

text \<open>
  JavaScript numbers. Prices, taxes and discounts are IEEE-754 binary64 values: every
  operation of the pricing code is computed exactly on the rationals and then rounded to the
  nearest number with a 53-bit significand, ties to even (\<open>fl\<close>). Overflow to infinity and
  NaN are values of \<open>jsnum\<close>; the sign of zero is not distinguished and the exponent has no
  lower bound (gradual underflow starts at \<open>2 ^ -1022\<close>, far below a cent).
\<close>

section \<open>Rounding to binary64\<close>

text \<open>The exponent \<open>e\<close> with \<open>2 ^ e \<le> x < 2 ^ (e + 1)\<close>, computed from the bit lengths.\<close>

definition expo :: "rat \<Rightarrow> int" where
  "expo x = (let (p, q) = quotient_of x; e = bitlen p - bitlen q
             in if 2 powi e \<le> x then e else e - 1)"

definition rne :: "rat \<Rightarrow> int" where
  "rne y = (let f = \<lfloor>y\<rfloor>; d = y - of_int f in
            if d < 1/2 then f else if 1/2 < d then f + 1 else if even f then f else f + 1)"

definition ulp :: "rat \<Rightarrow> rat" where
  "ulp x = 2 powi (expo x - 52)"

definition fl :: "rat \<Rightarrow> rat" where
  "fl x = (if x = 0 then 0 else of_int (rne (x / ulp \<bar>x\<bar>)) * ulp \<bar>x\<bar>)"

subsection \<open>The exponent\<close>

lemma powi2_pos [simp]: "(0::rat) < 2 powi k"
  by simp

lemma powi2_mono: "a \<le> b \<Longrightarrow> (2::rat) powi a \<le> 2 powi b"
  by (rule power_int_increasing) simp_all

lemma powi2_less_iff: "(2::rat) powi a < 2 powi b \<longleftrightarrow> a < b"
  by (meson leD leI powi2_mono power_int_strict_increasing rel_simps(49) one_less_numeral_iff semiring_norm(76))

lemma powi2_add1: "(2::rat) powi (k + 1) = 2 * 2 powi k"
  by (simp add: power_int_add_1')

lemma bitlen_powi:
  assumes "0 < (p::int)"
  shows "(2::rat) powi (bitlen p - 1) \<le> of_int p" and "(of_int p :: rat) < 2 powi (bitlen p)"
proof -
  have b: "2 ^ nat (bitlen p - 1) \<le> p" "p < 2 ^ nat (bitlen p)"
    using bitlen_bounds[OF assms] by auto
  have pos: "0 < bitlen p" using assms bitlen_eq_zero_iff[of p] bitlen_nonneg[of p] by linarith
  show "(2::rat) powi (bitlen p - 1) \<le> of_int p"
    using b(1) pos by (simp add: power_int_def)
  show "(of_int p :: rat) < 2 powi (bitlen p)"
    using b(2) pos by (simp add: power_int_def)
qed

lemma expo_bounds:
  assumes "0 < x"
  shows "2 powi (expo x) \<le> x" and "x < 2 powi (expo x + 1)"
proof -
  obtain p q where pq: "quotient_of x = (p, q)" by (cases "quotient_of x")
  have q: "0 < q" using pq quotient_of_denom_pos by blast
  have x: "x = of_int p / of_int q" using pq quotient_of_div by blast
  have p: "0 < p" using assms q x by (simp add: zero_less_divide_iff)
  let ?e = "bitlen p - bitlen q"
  have up: "x < 2 powi (?e + 1)"
  proof -
    have "of_int p < (2::rat) powi (bitlen p)" by (rule bitlen_powi(2)[OF p])
    also have "\<dots> = 2 powi (?e + 1) * 2 powi (bitlen q - 1)"
      by (simp flip: power_int_add)
    also have "\<dots> \<le> 2 powi (?e + 1) * of_int q"
      using bitlen_powi(1)[OF q] by (intro mult_left_mono) simp_all
    finally show ?thesis using q by (simp add: x divide_less_eq)
  qed
  have lo: "2 powi (?e - 1) \<le> x"
  proof -
    have "2 powi (?e - 1) * of_int q \<le> (2::rat) powi (?e - 1) * 2 powi (bitlen q)"
      using bitlen_powi(2)[OF q] by (intro mult_left_mono) simp_all
    also have "\<dots> = 2 powi (bitlen p - 1)" by (simp flip: power_int_add)
    also have "\<dots> \<le> of_int p" by (rule bitlen_powi(1)[OF p])
    finally show ?thesis using q by (simp add: x le_divide_eq)
  qed
  show "2 powi (expo x) \<le> x" using lo by (simp add: expo_def pq Let_def)
  show "x < 2 powi (expo x + 1)" using up by (auto simp: expo_def pq Let_def not_le)
qed

lemma expo_eqI:
  assumes "2 powi e \<le> x" and "x < 2 powi (e + 1)"
  shows "expo x = e"
proof -
  have "0 < x" using assms(1) powi2_pos less_le_trans by blast
  then have b: "2 powi (expo x) \<le> x" "x < 2 powi (expo x + 1)" by (rule expo_bounds)+
  have "(2::rat) powi (expo x) < 2 powi (e + 1)" "(2::rat) powi e < 2 powi (expo x + 1)"
    using b assms by linarith+
  then show ?thesis by (simp add: powi2_less_iff)
qed

lemma expo_mono: "0 < x \<Longrightarrow> x \<le> y \<Longrightarrow> expo x \<le> expo y"
proof -
  assume x: "0 < x" and xy: "x \<le> y"
  have "2 powi (expo x) \<le> x" by (rule expo_bounds(1)[OF x])
  also have "x \<le> y" by (rule xy)
  also have "y < 2 powi (expo y + 1)" using x xy by (intro expo_bounds(2)) linarith
  finally show ?thesis by (simp add: powi2_less_iff)
qed

subsection \<open>Round to nearest, ties to even\<close>

lemma rne_cases:
  obtains "rne y = \<lfloor>y\<rfloor>" "y - of_int \<lfloor>y\<rfloor> \<le> 1/2" | "rne y = \<lfloor>y\<rfloor> + 1" "1/2 \<le> y - of_int \<lfloor>y\<rfloor>"
  by (cases "y - of_int \<lfloor>y\<rfloor> < 1/2"; cases "1/2 < y - of_int \<lfloor>y\<rfloor>"; cases "even \<lfloor>y\<rfloor>")
    (auto simp: rne_def Let_def)

lemma rne_error: "\<bar>of_int (rne y) - y\<bar> \<le> 1/2"
proof -
  have b: "of_int \<lfloor>y\<rfloor> \<le> y" "y < of_int \<lfloor>y\<rfloor> + 1" by linarith+
  have "of_int (rne y) = (of_int \<lfloor>y\<rfloor> :: rat) \<and> y - of_int \<lfloor>y\<rfloor> \<le> 1/2 \<or>
        of_int (rne y) = (of_int \<lfloor>y\<rfloor> :: rat) + 1 \<and> 1/2 \<le> y - of_int \<lfloor>y\<rfloor>"
    by (cases y rule: rne_cases) simp_all
  with b show ?thesis unfolding abs_le_iff by linarith
qed

lemma rne_of_int [simp]: "rne (of_int n) = n"
  by (simp add: rne_def)

lemma rne_mono:
  assumes "x \<le> y" shows "rne x \<le> rne y"
proof (cases "\<lfloor>x\<rfloor> = \<lfloor>y\<rfloor>")
  case True
  then show ?thesis using assms by (auto simp: rne_def Let_def)
next
  case False
  then have "\<lfloor>x\<rfloor> + 1 \<le> \<lfloor>y\<rfloor>" using floor_mono[OF assms] by linarith
  moreover have "rne x \<le> \<lfloor>x\<rfloor> + 1" "\<lfloor>y\<rfloor> \<le> rne y" by (auto simp: rne_def Let_def)
  ultimately show ?thesis by linarith
qed

lemma rne_minus: "rne (- y) = - rne y"
proof (cases "y = of_int \<lfloor>y\<rfloor>")
  case True
  then obtain n where "y = of_int n" by blast
  then show ?thesis by (metis rne_of_int of_int_minus)
next
  case False
  define f where "f = \<lfloor>y\<rfloor>"
  have y: "of_int f < y" "y < of_int f + 1" using False f_def by linarith+
  have f': "\<lfloor>- y\<rfloor> = - f - 1" by (rule floor_unique) (use y in auto)
  consider "y - of_int f < 1/2" | "y - of_int f > 1/2" | "y - of_int f = 1/2" by linarith
  then show ?thesis
    by cases (auto simp: rne_def Let_def f' f_def[symmetric] field_simps)
qed

subsection \<open>The rounding function\<close>

lemma ulp_pos [simp]: "0 < ulp x"
  by (simp add: ulp_def)

lemma ulp_le: "0 < x \<Longrightarrow> ulp x \<le> x / 2 ^ 52"
proof -
  assume "0 < x"
  then have "2 powi (expo x) \<le> x" by (rule expo_bounds(1))
  moreover have "ulp x = 2 powi (expo x) / 2 ^ 52"
    by (simp add: ulp_def power_int_diff)
  ultimately show ?thesis by (simp add: divide_right_mono)
qed

lemma fl_0 [simp]: "fl 0 = 0"
  by (simp add: fl_def)

lemma fl_minus: "fl (- x) = - fl x"
  by (simp add: fl_def rne_minus)

lemma fl_error_ulp: "\<bar>fl x - x\<bar> \<le> ulp \<bar>x\<bar> / 2"
proof (cases "x = 0")
  case True
  then show ?thesis by (simp add: less_imp_le)
next
  case False
  let ?u = "ulp \<bar>x\<bar>"
  have "fl x - x = (of_int (rne (x / ?u)) - x / ?u) * ?u"
    using False by (simp add: fl_def left_diff_distrib) (metis ulp_pos less_irrefl nonzero_eq_divide_eq)
  then have "\<bar>fl x - x\<bar> = \<bar>of_int (rne (x / ?u)) - x / ?u\<bar> * ?u"
    by (simp add: abs_mult less_imp_le)
  also have "\<dots> \<le> 1/2 * ?u"
    by (rule mult_right_mono[OF rne_error]) (simp add: less_imp_le)
  finally show ?thesis by simp
qed

lemma fl_error: "\<bar>fl x - x\<bar> \<le> \<bar>x\<bar> / 2 ^ 53"
proof (cases "x = 0")
  case False
  then have "ulp \<bar>x\<bar> \<le> \<bar>x\<bar> / 2 ^ 52" by (intro ulp_le) simp
  with fl_error_ulp[of x] show ?thesis by simp
qed simp

lemma fl_scaled:
  assumes n: "\<bar>n\<bar> \<le> 2 ^ 52 * 2" and x: "x = of_int n * 2 powi k"
  shows "fl x = x"
proof (cases "n = 0")
  case True
  then show ?thesis by (simp add: x)
next
  case False
  let ?a = "\<bar>x\<bar>"
  have a: "?a = of_int \<bar>n\<bar> * 2 powi k" by (simp add: x abs_mult)
  have apos: "0 < ?a" using False by (simp add: x)
  have nle: "(of_int \<bar>n\<bar> :: rat) \<le> 2 powi 53"
    using n by (simp add: power_int_def)
  have "2 powi (expo ?a) \<le> ?a" by (rule expo_bounds(1)[OF apos])
  also have "?a \<le> 2 powi 53 * 2 powi k"
    unfolding a by (intro mult_right_mono nle) (simp add: less_imp_le)
  also have "\<dots> = 2 powi (53 + k)" by (simp add: power_int_add)
  finally have e: "expo ?a \<le> 53 + k" using powi2_less_iff[of "53 + k" "expo ?a"] by linarith
  have "\<exists>m::int. x = of_int m * ulp ?a"
  proof (cases "expo ?a \<le> 52 + k")
    case True
    then obtain j where j: "k - (expo ?a - 52) = int j" using nonneg_int_cases[of "k - (expo ?a - 52)"] by auto
    then have k: "k = (expo ?a - 52) + int j" by linarith
    have "(2::rat) powi ((expo ?a - 52) + int j) = 2 powi (expo ?a - 52) * 2 powi (int j)"
      by (rule power_int_add) simp
    then have "(2::rat) powi k = ulp ?a * 2 ^ j"
      unfolding k[symmetric] ulp_def power_int_of_nat .
    then have "x = of_int (n * 2 ^ j) * ulp ?a"
      using x by (simp add: mult_ac)
    then show ?thesis by blast
  next
    case False
    then have ek: "expo ?a = 53 + k" using e by linarith
    have "2 powi (53 + k) \<le> ?a" using expo_bounds(1)[OF apos] by (simp add: ek)
    then have "?a = 2 powi 53 * 2 powi k"
      using nle unfolding a by (simp add: power_int_add)
    moreover have "ulp ?a = 2 powi (k + 1)" by (simp add: ulp_def ek add.commute)
    ultimately have "?a = of_int (2 ^ 52) * ulp ?a"
      unfolding powi2_add1 by simp
    then have "x = of_int (2 ^ 52) * ulp ?a \<or> x = of_int (- (2 ^ 52)) * ulp ?a"
      by (auto simp: abs_if split: if_splits)
    then show ?thesis by blast
  qed
  then obtain m where m: "x = of_int m * ulp ?a" by blast
  have "x / ulp ?a = of_int m"
    by (subst m) (simp add: less_imp_neq[OF ulp_pos, symmetric])
  then show ?thesis using m by (simp add: fl_def)
qed

lemma fl_of_int: "\<bar>n\<bar> \<le> 2 ^ 53 \<Longrightarrow> fl (of_int n) = of_int n"
  by (rule fl_scaled[of n _ 0]) simp_all

lemma powi_expo_ulp: "2 powi (expo x) = ulp x * of_int (2 ^ 52)"
  by (simp add: ulp_def power_int_diff)

lemma powi_expo_ulp1: "2 powi (expo x + 1) = ulp x * of_int (2 ^ 53)"
  by (simp add: powi2_add1 powi_expo_ulp)

lemma fl_eq_scaled:
  assumes "0 < x"
  shows "fl x = of_int (rne (x / ulp x)) * ulp x"
    and "2 ^ 52 \<le> rne (x / ulp x)" and "rne (x / ulp x) \<le> 2 ^ 53"
proof -
  have "of_int (2 ^ 52) \<le> x / ulp x"
    using expo_bounds(1)[OF assms] unfolding powi_expo_ulp
    by (simp only: pos_le_divide_eq[OF ulp_pos] mult.commute)
  from rne_mono[OF this] show "2 ^ 52 \<le> rne (x / ulp x)" unfolding rne_of_int .
  have "x / ulp x \<le> of_int (2 ^ 53)"
    using less_imp_le[OF expo_bounds(2)[OF assms]] unfolding powi_expo_ulp1
    by (simp only: pos_divide_le_eq[OF ulp_pos] mult.commute)
  from rne_mono[OF this] show "rne (x / ulp x) \<le> 2 ^ 53" unfolding rne_of_int .
  show "fl x = of_int (rne (x / ulp x)) * ulp x" using assms by (simp add: fl_def)
qed

lemma fl_binade:
  assumes "0 < x"
  shows "2 powi (expo x) \<le> fl x" and "fl x \<le> 2 powi (expo x + 1)"
  unfolding powi_expo_ulp powi_expo_ulp1 fl_eq_scaled(1)[OF assms] mult.commute[of "ulp x"]
  using fl_eq_scaled(2,3)[OF assms]
  by (intro mult_right_mono; simp only: of_int_le_iff less_imp_le[OF ulp_pos])+

lemma fl_idem [simp]: "fl (fl x) = fl x"
proof -
  have pos: "fl (fl y) = fl y" if "0 < y" for y
    by (rule fl_scaled[of "rne (y / ulp y)" _ "expo y - 52"])
      (use fl_eq_scaled[OF that] in \<open>simp_all add: ulp_def\<close>)
  consider "x = 0" | "0 < x" | "0 < - x" by linarith
  then show ?thesis
  proof cases
    case 3
    then have "fl (fl (- x)) = fl (- x)" by (rule pos)
    then show ?thesis by (simp add: fl_minus)
  qed (simp_all add: pos)
qed

lemma fl_pos: "0 < x \<Longrightarrow> 0 < fl x"
  using fl_binade(1) powi2_pos less_le_trans by blast

lemma fl_mono_pos:
  assumes "0 < x" "x \<le> y" shows "fl x \<le> fl y"
proof (cases "expo x = expo y")
  case True
  have y: "0 < y" using assms by linarith
  have "rne (x / ulp x) \<le> rne (y / ulp x)"
    by (rule rne_mono) (simp add: assms divide_right_mono less_imp_le)
  moreover have "ulp y = ulp x" using True by (simp add: ulp_def)
  ultimately show ?thesis
    by (simp add: fl_eq_scaled(1) assms y less_imp_le mult_right_mono)
next
  case False
  then have "expo x + 1 \<le> expo y" using expo_mono[OF assms] by linarith
  then have "(2::rat) powi (expo x + 1) \<le> 2 powi (expo y)" by (rule powi2_mono)
  with fl_binade(2)[OF assms(1)] fl_binade(1)[of y] assms show ?thesis by linarith
qed

lemma fl_nonneg: "0 \<le> x \<Longrightarrow> 0 \<le> fl x"
  using fl_pos[of x] by (cases "x = 0") auto

lemma fl_nonpos: "x \<le> 0 \<Longrightarrow> fl x \<le> 0"
  using fl_nonneg[of "- x"] by (simp add: fl_minus)

lemma fl_mono: assumes "x \<le> y" shows "fl x \<le> fl y"
proof -
  consider "0 < x" | "x \<le> 0" "0 \<le> y" | "y < 0" by linarith
  then show ?thesis
  proof cases
    case 1 then show ?thesis using assms by (rule fl_mono_pos)
  next
    case 2 then show ?thesis using fl_nonpos[of x] fl_nonneg[of y] by linarith
  next
    case 3
    then have "fl (- y) \<le> fl (- x)" using assms by (intro fl_mono_pos) auto
    then show ?thesis by (simp add: fl_minus)
  qed
qed

lemma fl_numeral [simp]: "(numeral n :: int) \<le> 2 ^ 53 \<Longrightarrow> fl (numeral n) = numeral n"
  using fl_of_int[of "numeral n"] by simp

lemma fl_1 [simp]: "fl 1 = 1"
  using fl_of_int[of 1] by simp

section \<open>Number values\<close>

datatype jsnum = Fin rat | PosInf | NegInf | NaN

text \<open>The value of an exact result: rounded, and an infinity from \<open>2 ^ 1024\<close> on.\<close>

definition mk_num :: "rat \<Rightarrow> jsnum" where
  "mk_num x = (let r = fl x in
               if 2 ^ 1024 \<le> r then PosInf else if r \<le> - (2 ^ 1024) then NegInf else Fin r)"

fun isFinite :: "jsnum \<Rightarrow> bool" where
  "isFinite (Fin x) = True"
| "isFinite _ = False"

fun js_neg :: "jsnum \<Rightarrow> jsnum" where
  "js_neg (Fin x) = Fin (- x)"
| "js_neg PosInf = NegInf"
| "js_neg NegInf = PosInf"
| "js_neg NaN = NaN"

fun js_add :: "jsnum \<Rightarrow> jsnum \<Rightarrow> jsnum" where
  "js_add (Fin x) (Fin y) = mk_num (x + y)"
| "js_add NaN _ = NaN"
| "js_add _ NaN = NaN"
| "js_add PosInf NegInf = NaN"
| "js_add NegInf PosInf = NaN"
| "js_add PosInf _ = PosInf"
| "js_add NegInf _ = NegInf"
| "js_add (Fin x) y = y"

definition js_sub :: "jsnum \<Rightarrow> jsnum \<Rightarrow> jsnum" where
  "js_sub x y = js_add x (js_neg y)"

fun js_mul :: "jsnum \<Rightarrow> jsnum \<Rightarrow> jsnum" where
  "js_mul (Fin x) (Fin y) = mk_num (x * y)"
| "js_mul NaN _ = NaN"
| "js_mul _ NaN = NaN"
| "js_mul (Fin x) y = (if x = 0 then NaN else if 0 < x then y else js_neg y)"
| "js_mul x (Fin y) = (if y = 0 then NaN else if 0 < y then x else js_neg x)"
| "js_mul PosInf y = y"
| "js_mul NegInf y = js_neg y"

text \<open>Division by a non-zero constant, the only divisor the pricing code has (100).\<close>

fun js_div_const :: "jsnum \<Rightarrow> rat \<Rightarrow> jsnum" where
  "js_div_const (Fin x) c = mk_num (x / c)"
| "js_div_const NaN c = NaN"
| "js_div_const y c = (if 0 < c then y else js_neg y)"

fun js_le :: "jsnum \<Rightarrow> jsnum \<Rightarrow> bool" where
  "js_le NaN _ = False"
| "js_le _ NaN = False"
| "js_le (Fin x) (Fin y) = (x \<le> y)"
| "js_le NegInf _ = True"
| "js_le _ PosInf = True"
| "js_le _ _ = False"

text \<open>\<^verbatim>\<open>Math.min\<close> of two numbers.\<close>

definition js_min :: "jsnum \<Rightarrow> jsnum \<Rightarrow> jsnum" where
  "js_min x y = (if x = NaN \<or> y = NaN then NaN else if js_le x y then x else y)"

text \<open>
  \<^verbatim>\<open>Number(x.toFixed(2))\<close>: the integer \<open>n\<close> for which \<open>n / 100\<close> is closest to \<open>\<bar>x\<bar>\<close>, the
  larger one on a tie, read back as a number. From \<open>10 ^ 21\<close> on \<^verbatim>\<open>toFixed\<close> prints the number
  itself.
\<close>

fun round2 :: "jsnum \<Rightarrow> jsnum" where
  "round2 (Fin x) = (if 10 ^ 21 \<le> \<bar>x\<bar> then Fin x
                     else mk_num (sgn x * of_int \<lfloor>100 * \<bar>x\<bar> + 1/2\<rfloor> / 100))"
| "round2 y = y"

text \<open>\<^verbatim>\<open>Number(d)\<close> for a \<^verbatim>\<open>Decimal\<close> column value, and for an integer.\<close>

definition num_of_decimal :: "rat \<Rightarrow> jsnum" where
  "num_of_decimal d = mk_num d"

definition num_of_int :: "int \<Rightarrow> jsnum" where
  "num_of_int n = mk_num (of_int n)"

subsection \<open>Arithmetic in the range of money\<close>

lemma fl_abs_le: "\<bar>x\<bar> \<le> of_int n \<Longrightarrow> n \<le> 2 ^ 53 \<Longrightarrow> \<bar>fl x\<bar> \<le> of_int n"
proof -
  assume x: "\<bar>x\<bar> \<le> of_int n" and n: "n \<le> 2 ^ 53"
  then have "0 \<le> n" by (metis abs_ge_zero of_int_0_le_iff order_trans)
  with n have f: "fl (of_int n) = of_int n" by (intro fl_of_int) simp
  have "fl x \<le> fl (of_int n)" "fl (- x) \<le> fl (of_int n)" using x by (intro fl_mono; linarith)+
  with f show ?thesis by (simp add: fl_minus abs_le_iff)
qed

definition money_max :: int where
  "money_max = 10 ^ 12"

lemma mk_num_Fin:
  assumes "\<bar>x\<bar> \<le> of_int money_max" shows "mk_num x = Fin (fl x)"
proof -
  have "\<bar>fl x\<bar> \<le> of_int money_max"
    by (rule fl_abs_le[OF assms]) (simp add: money_max_def)
  also have "(of_int money_max :: rat) < 2 ^ 1024" by (simp add: money_max_def)
  finally show ?thesis by (auto simp: mk_num_def Let_def abs_le_iff)
qed

text \<open>Evaluation of amounts of money needs no comparison with the largest number.\<close>

text \<open>The same for everything within the range of exact integers.\<close>

lemma mk_num_Fin53: "\<bar>x\<bar> \<le> 2 ^ 53 \<Longrightarrow> mk_num x = Fin (fl x)"
proof -
  assume "\<bar>x\<bar> \<le> 2 ^ 53"
  then have "\<bar>fl x\<bar> \<le> 2 ^ 53" using fl_abs_le[of x "2 ^ 53"] by simp
  moreover have "(2 :: rat) ^ 53 < 2 ^ 1024" by (rule power_strict_increasing) simp_all
  ultimately show ?thesis by (auto simp: mk_num_def Let_def)
qed

lemma mk_num_code [code]:
  "mk_num x = (if \<bar>x\<bar> \<le> 1000000000000 then Fin (fl x)
               else let y = fl x in if 2 ^ 1024 \<le> y then PosInf else if y \<le> - (2 ^ 1024) then NegInf else Fin y)"
  using mk_num_Fin[of x] by (simp add: money_max_def mk_num_def)

lemma round2_code [code]:
  "round2 (Fin x) = (if 1000000000000000000000 \<le> \<bar>x\<bar> then Fin x
                     else mk_num (sgn x * of_int \<lfloor>100 * \<bar>x\<bar> + 1/2\<rfloor> / 100))"
  "round2 PosInf = PosInf" "round2 NegInf = NegInf" "round2 NaN = NaN"
  by simp_all

lemma round2_Fin:
  assumes "\<bar>x\<bar> \<le> 10 ^ 11"
  shows "round2 (Fin x) = Fin (fl (sgn x * of_int \<lfloor>100 * \<bar>x\<bar> + 1/2\<rfloor> / 100))"
proof -
  let ?n = "\<lfloor>100 * \<bar>x\<bar> + 1/2\<rfloor>"
  have n0: "0 \<le> ?n" by simp
  have n: "(of_int ?n :: rat) / 100 \<le> of_int money_max"
    using assms by (simp add: money_max_def)
  have "\<bar>sgn x * of_int ?n / 100\<bar> \<le> (of_int ?n :: rat) / 100"
    using n0 by (simp add: abs_mult abs_sgn_eq)
  then have "mk_num (sgn x * of_int ?n / 100) = Fin (fl (sgn x * of_int ?n / 100))"
    using n by (intro mk_num_Fin) linarith
  moreover have "\<not> 10 ^ 21 \<le> \<bar>x\<bar>" using assms by simp
  ultimately show ?thesis by simp
qed

subsection \<open>Accumulated relative error\<close>

text \<open>
  \<open>rclose m x v\<close>: the computed value \<open>x\<close> differs from the exact non-negative value \<open>v\<close> by at
  most \<open>m\<close> roundings. Sums of non-negative terms and products with exact factors keep it.
\<close>

definition ueps :: rat where
  "ueps = 1 / 2 ^ 53"

definition rclose :: "nat \<Rightarrow> rat \<Rightarrow> rat \<Rightarrow> bool" where
  "rclose m x v \<longleftrightarrow> 0 \<le> v \<and> v * (1 - ueps) ^ m \<le> x \<and> x \<le> v * (1 + ueps) ^ m"

lemma ueps_bounds: "0 < ueps" "ueps < 1"
  by (simp_all add: ueps_def)

lemma rclose_exact: "0 \<le> v \<Longrightarrow> rclose 0 v v"
  by (simp add: rclose_def)

lemma rclose_nonneg: "rclose m x v \<Longrightarrow> 0 \<le> x"
  unfolding rclose_def using ueps_bounds
  by (meson diff_ge_0_iff_ge less_imp_le mult_nonneg_nonneg order_trans zero_le_power)

lemma rclose_mono:
  assumes "rclose m x v" and "m \<le> n" shows "rclose n x v"
proof -
  have "(1 - ueps) ^ n \<le> (1 - ueps) ^ m" using assms(2) ueps_bounds
    by (intro power_decreasing) auto
  moreover have "(1 + ueps) ^ m \<le> (1 + ueps) ^ n" using assms(2) ueps_bounds
    by (intro power_increasing) auto
  ultimately show ?thesis
    using assms(1) unfolding rclose_def by (meson mult_left_mono order_trans)
qed

lemma rclose_fl:
  assumes "rclose m x v" shows "rclose (Suc m) (fl x) v"
proof -
  have x: "0 \<le> x" by (rule rclose_nonneg[OF assms])
  have "\<bar>fl x - x\<bar> \<le> x * ueps" using fl_error[of x] x by (simp add: ueps_def)
  then have lo: "x * (1 - ueps) \<le> fl x" and up: "fl x \<le> x * (1 + ueps)"
    by (simp_all add: algebra_simps abs_le_iff)
  have "v * (1 - ueps) ^ m * (1 - ueps) \<le> x * (1 - ueps)"
    using assms ueps_bounds by (intro mult_right_mono) (auto simp: rclose_def)
  moreover have "x * (1 + ueps) \<le> v * (1 + ueps) ^ m * (1 + ueps)"
    using assms ueps_bounds by (intro mult_right_mono) (auto simp: rclose_def)
  ultimately show ?thesis using assms lo up by (simp add: rclose_def mult_ac)
qed

lemma rclose_add: "rclose m x v \<Longrightarrow> rclose m y w \<Longrightarrow> rclose m (x + y) (v + w)"
  by (auto simp: rclose_def distrib_right)

lemma rclose_mult:
  assumes "rclose m x v" "0 \<le> q" shows "rclose m (x * q) (v * q)"
proof -
  have e: "v * q * c = (v * c) * q" for c by simp
  have "v * (1 - ueps) ^ m * q \<le> x * q" "x * q \<le> v * (1 + ueps) ^ m * q"
    using assms by (auto simp: rclose_def intro: mult_right_mono)
  then show ?thesis using assms unfolding rclose_def e by simp
qed

lemma one_plus_ueps_power: "of_nat m * ueps \<le> 1/2 \<Longrightarrow> (1 + ueps) ^ m \<le> 1 + 2 * of_nat m * ueps"
proof (induction m)
  case (Suc m)
  have m: "of_nat m * ueps \<le> 1/2" using Suc.prems ueps_bounds by (simp add: algebra_simps)
  have "(1 + ueps) ^ Suc m \<le> (1 + 2 * of_nat m * ueps) * (1 + ueps)"
    using Suc.IH[OF m] ueps_bounds by (simp add: mult.commute mult_left_mono)
  also have "\<dots> = 1 + 2 * of_nat m * ueps + ueps + 2 * (of_nat m * ueps) * ueps"
    by (simp add: algebra_simps)
  also have "2 * (of_nat m * ueps) * ueps \<le> 1 * ueps"
    using m ueps_bounds by (intro mult_right_mono) auto
  finally show ?case by (simp add: algebra_simps)
qed simp

lemma rclose_abs_error:
  assumes "rclose m x v" and m: "of_nat m * ueps \<le> 1/2"
  shows "\<bar>x - v\<bar> \<le> 2 * v * (of_nat m * ueps)"
proof -
  have v: "0 \<le> v" using assms(1) by (simp add: rclose_def)
  have "x \<le> v * (1 + 2 * of_nat m * ueps)"
    using assms(1) one_plus_ueps_power[OF m] v unfolding rclose_def by (meson mult_left_mono order_trans)
  moreover have "1 + of_nat m * (- ueps) \<le> (1 + - ueps) ^ m"
    using ueps_bounds by (intro Bernoulli_inequality) simp
  then have "v * (1 - of_nat m * ueps) \<le> x"
    using assms(1) v unfolding rclose_def by (simp, meson mult_left_mono order_trans)
  moreover have "0 \<le> v * (of_nat m * ueps)" using v ueps_bounds by simp
  ultimately show ?thesis by (simp add: abs_le_iff algebra_simps)
qed

subsection \<open>Rounding to cents\<close>

definition cents :: "rat \<Rightarrow> int" where
  "cents x = \<lfloor>100 * x + 1/2\<rfloor>"

lemma cents_mono: "x \<le> y \<Longrightarrow> cents x \<le> cents y"
  unfolding cents_def by (rule floor_mono) simp

lemma cents_nonneg: "0 \<le> x \<Longrightarrow> 0 \<le> cents x"
  unfolding cents_def by simp

lemma cents_near:
  assumes "\<bar>x - of_int k / 100\<bar> \<le> 1/400" shows "cents x = k"
proof -
  have "of_int k / 100 - 1/400 \<le> x" "x \<le> of_int k / 100 + 1/400" using assms by linarith+
  then show ?thesis unfolding cents_def by (intro floor_unique) linarith+
qed

lemma cents_0 [simp]: "cents 0 = 0"
  by (rule cents_near) simp

lemma round2_nonneg:
  assumes "0 \<le> x" "x \<le> 10 ^ 11"
  shows "round2 (Fin x) = Fin (fl (of_int (cents x) / 100))"
proof (cases "x = 0")
  case True
  then show ?thesis using round2_Fin[of x] assms by simp
next
  case False
  then show ?thesis using round2_Fin[of x] assms by (simp add: cents_def)
qed

text \<open>A result just below zero is printed as zero by \<^verbatim>\<open>toFixed(2)\<close>.\<close>

lemma round2_small_neg:
  assumes "\<bar>x\<bar> < 1/200" shows "round2 (Fin x) = Fin 0"
proof -
  have "\<lfloor>100 * \<bar>x\<bar> + 1/2\<rfloor> = 0" by (rule floor_unique) (use assms in auto)
  moreover have "\<bar>x\<bar> \<le> 10 ^ 11" using assms by simp
  ultimately show ?thesis using round2_Fin[of x] by simp
qed

lemma round2_ge_0:
  assumes "- (1/250) \<le> x" "x \<le> 10 ^ 11"
  shows "\<exists>r. round2 (Fin x) = Fin r \<and> 0 \<le> r"
proof (cases "0 \<le> x")
  case True
  then have "0 \<le> fl (of_int (cents x) / 100)" by (intro fl_nonneg) (simp add: cents_nonneg)
  then show ?thesis using round2_nonneg[OF True assms(2)] by (auto simp del: round2.simps)
next
  case False
  then have "\<bar>x\<bar> < 1/200" using assms(1) by (simp add: abs_if)
  then show ?thesis using round2_small_neg by auto
qed

lemma fl_cents_error:
  assumes "0 \<le> k" "k \<le> 10 ^ 11" shows "fl (of_int k / 100) \<le> of_int k / 100 + 1/4000"
proof -
  let ?x = "of_int k / 100 :: rat"
  have "\<bar>fl ?x - ?x\<bar> \<le> \<bar>?x\<bar> / 2 ^ 53" by (rule fl_error)
  also have "\<dots> \<le> 10 ^ 9 / 2 ^ 53" using assms by (intro divide_right_mono) (simp_all add: abs_if)
  also have "\<dots> \<le> 1/4000" by simp
  finally show ?thesis by linarith
qed

end
