(* ===== verification/Discount.thy ===== *)
theory Discount
  imports JS_Number
begin

text \<open>
  The discount engine, \<^verbatim>\<open>apps/api/src/discount/discount.service.ts\<close>: the amount a discount is
  worth for a subtotal, and the validation every checkout with a code goes through. The lemmas
  show that a discount never exceeds the subtotal in cents and that no rejection can be told
  from another.
\<close>

section \<open>Definitions\<close>

datatype DiscountType = PERCENTAGE | FIXED_AMOUNT

record discount =
  d_id :: string
  d_tenantId :: "string option"
  d_code :: string
  d_type :: DiscountType
  d_value :: rat
  d_active :: bool
  d_validFrom :: "int option"
  d_validTo :: "int option"
  d_usageLimit :: "int option"
  d_usageCount :: int

record ResolvedDiscount =
  rd_discountId :: string
  rd_code :: string
  rd_amount :: jsnum

definition DISCOUNT_INVALID_MESSAGE :: string where
  "DISCOUNT_INVALID_MESSAGE = ''The discount code is invalid or expired.''"

definition computeDiscountAmount :: "jsnum \<Rightarrow> DiscountType \<Rightarrow> rat \<Rightarrow> jsnum" where
  "computeDiscountAmount subtotal type value =
     (let numericValue = num_of_decimal value in
      if \<not> isFinite numericValue \<or> js_le numericValue (Fin 0) \<or>
         \<not> isFinite subtotal \<or> js_le subtotal (Fin 0)
      then Fin 0
      else (let amount = (if type = PERCENTAGE
                          then js_div_const (js_mul subtotal numericValue) 100
                          else numericValue)
            in round2 (js_min amount subtotal)))"

definition validateDiscount ::
  "discount option \<Rightarrow> string \<Rightarrow> jsnum \<Rightarrow> int \<Rightarrow> exn + ResolvedDiscount" where
  "validateDiscount discount code subtotal now =
     (let invalid = Inl (BadRequestException DISCOUNT_INVALID_MESSAGE) in
      case discount of
        None \<Rightarrow> invalid
      | Some d \<Rightarrow>
          if \<not> d_active d then invalid
          else if (case d_validFrom d of None \<Rightarrow> False | Some t \<Rightarrow> now < t) then invalid
          else if (case d_validTo d of None \<Rightarrow> False | Some t \<Rightarrow> t < now) then invalid
          else if (case d_usageLimit d of None \<Rightarrow> False | Some l \<Rightarrow> l \<le> d_usageCount d) then invalid
          else (let amount = computeDiscountAmount subtotal (d_type d) (d_value d) in
                if js_le amount (Fin 0) then invalid
                else Inr \<lparr>rd_discountId = d_id d, rd_code = code, rd_amount = amount\<rparr>))"

section \<open>Amounts\<close>

text \<open>The amount before rounding to cents, on finite values in the range of money.\<close>

lemma computeDiscountAmount_zero:
  "s \<le> 0 \<or> v \<le> 0 \<Longrightarrow> computeDiscountAmount (Fin s) ty v = Fin 0"
  using fl_nonpos[of v] by (auto simp: computeDiscountAmount_def num_of_decimal_def mk_num_def Let_def)

lemma js_min_Fin: "js_min (Fin x) (Fin y) = Fin (min x y)"
  by (auto simp: js_min_def)

lemma percentage_amount:
  assumes "0 < s" "s \<le> 10 ^ 8" "0 < v" "v \<le> 10 ^ 3"
  shows "\<exists>a. js_div_const (js_mul (Fin s) (Fin v)) 100 = Fin a \<and> 0 \<le> a"
proof -
  have sv: "0 < s * v" "s * v \<le> 10 ^ 11"
    using assms mult_mono[of s "10 ^ 8" v "10 ^ 3"] by simp_all
  then have m: "mk_num (s * v) = Fin (fl (s * v))" by (intro mk_num_Fin) (simp add: money_max_def)
  have "\<bar>fl (s * v)\<bar> \<le> of_int (10 ^ 11)" using sv by (intro fl_abs_le) simp_all
  then have "mk_num (fl (s * v) / 100) = Fin (fl (fl (s * v) / 100))"
    by (intro mk_num_Fin) (simp add: money_max_def)
  moreover have "0 \<le> fl (fl (s * v) / 100)" using sv by (intro fl_nonneg) (simp add: fl_nonneg)
  ultimately show ?thesis by (simp add: m)
qed

text \<open>
  A discount is worth at most the subtotal rounded to cents: the cap of the code, up to the
  rounding to two decimals that follows it.
\<close>

lemma computeDiscountAmount_bounds:
  assumes s: "0 < s" "s \<le> 10 ^ 8" and v: "0 < v" "v \<le> 10 ^ 8" "ty = PERCENTAGE \<Longrightarrow> v \<le> 10 ^ 3"
  shows "\<exists>a. computeDiscountAmount (Fin s) ty v = Fin a \<and> 0 \<le> a \<and> a \<le> fl (of_int (cents s) / 100)"
proof -
  have nv: "num_of_decimal v = Fin (fl v)" using v
    by (simp add: num_of_decimal_def mk_num_Fin money_max_def)
  have fv: "0 < fl v" using v by (simp add: fl_pos)
  have "\<exists>a. (if ty = PERCENTAGE then js_div_const (js_mul (Fin s) (Fin (fl v))) 100 else Fin (fl v)) = Fin a \<and> 0 \<le> a"
  proof (cases "ty = PERCENTAGE")
    case True
    have "fl v \<le> fl (of_int (10 ^ 3))" using v(3)[OF True] by (intro fl_mono) simp
    then have "fl v \<le> 10 ^ 3" by simp
    then show ?thesis using percentage_amount[OF s fv] True by simp
  qed (use fv in auto)
  then obtain a where a: "(if ty = PERCENTAGE then js_div_const (js_mul (Fin s) (Fin (fl v))) 100 else Fin (fl v)) = Fin a"
    and a0: "0 \<le> a" by blast
  let ?m = "min a s"
  have m: "0 \<le> ?m" "?m \<le> s" using a0 s by auto
  have "computeDiscountAmount (Fin s) ty v = round2 (Fin ?m)"
    using a fv s by (auto simp: computeDiscountAmount_def nv Let_def js_min_Fin simp del: round2.simps js_div_const.simps js_mul.simps)
  also have "\<dots> = Fin (fl (of_int (cents ?m) / 100))"
    using m s by (intro round2_nonneg) auto
  finally have eq: "computeDiscountAmount (Fin s) ty v = Fin (fl (of_int (cents ?m) / 100))" .
  have "0 \<le> fl (of_int (cents ?m) / 100)" using m by (intro fl_nonneg) (simp add: cents_nonneg)
  moreover have "fl (of_int (cents ?m) / 100) \<le> fl (of_int (cents s) / 100)"
    by (intro fl_mono divide_right_mono) (use cents_mono[OF m(2)] in auto)
  ultimately show ?thesis using eq by blast
qed

section \<open>Validation\<close>

definition discount_usable :: "discount \<Rightarrow> int \<Rightarrow> bool" where
  "discount_usable d now \<longleftrightarrow> d_active d \<and> (\<forall>t. d_validFrom d = Some t \<longrightarrow> t \<le> now) \<and>
     (\<forall>t. d_validTo d = Some t \<longrightarrow> now \<le> t) \<and> (\<forall>l. d_usageLimit d = Some l \<longrightarrow> d_usageCount d < l)"

lemma validateDiscount_Inr_iff:
  "validateDiscount disc code s now = Inr r \<longleftrightarrow>
     (\<exists>d. disc = Some d \<and> discount_usable d now \<and>
       \<not> js_le (computeDiscountAmount s (d_type d) (d_value d)) (Fin 0) \<and>
       r = \<lparr>rd_discountId = d_id d, rd_code = code,
            rd_amount = computeDiscountAmount s (d_type d) (d_value d)\<rparr>)"
  by (auto simp: validateDiscount_def discount_usable_def Let_def split: option.splits)

lemma validateDiscount_Inl:
  "validateDiscount disc code s now = Inl e \<Longrightarrow> e = BadRequestException DISCOUNT_INVALID_MESSAGE"
  by (auto simp: validateDiscount_def Let_def split: option.splits if_splits)

end
