(* ===== verification/Tenant_Db.thy ===== *)
theory Tenant_Db
  imports Prelude
begin

text \<open>
  The tenant-scoped database client of \<^verbatim>\<open>packages/db/src/index.ts\<close>. Prisma itself is not part of
  the repository: a model's query functions are a parameter, a \<open>delegate\<close>, and the locale
  \<open>prisma_delegate\<close> states the documented behaviour the code relies on (a query returns rows
  that satisfy its filter, a write touches one row, a failed write changes nothing). The
  extension that the code installs around every query is translated in \<open>allOperations\<close>.
\<close>

section \<open>Queries\<close>

text \<open>Column values, and the conditions of a \<^verbatim>\<open>where\<close> object: a property that is \<^verbatim>\<open>undefined\<close> is no
  constraint.\<close>

datatype cell = CNull | CStr string | CBool bool | CInt int

datatype cond = Undef | Is cell | EndsWith string | OneOf "cell list" | IsNot cell | Below int

type_synonym where_clause = "(string \<times> cond) list"

fun cond_holds :: "cond \<Rightarrow> cell \<Rightarrow> bool" where
  "cond_holds Undef c = True"
| "cond_holds (Is d) c = (c = d)"
| "cond_holds (EndsWith s) (CStr t) = endsWith t s"
| "cond_holds (EndsWith s) _ = False"
| "cond_holds (OneOf ds) c = (c \<in> set ds)"
| "cond_holds (IsNot d) c = (c \<noteq> CNull \<and> c \<noteq> d)"
| "cond_holds (Below n) (CInt m) = (m < n)"
| "cond_holds (Below n) _ = False"

definition opt_cell :: "string option \<Rightarrow> cell" where
  "opt_cell x = (case x of None \<Rightarrow> CNull | Some s \<Rightarrow> CStr s)"

text \<open>
  What the client knows of a model: its name, how to read a column and the fields the tenant
  layer touches.
\<close>

record 'r model =
  md_name :: string
  md_softDeletable :: bool
  md_col :: "string \<Rightarrow> 'r \<Rightarrow> cell"
  md_id :: "'r \<Rightarrow> string"
  md_with_id :: "string \<Rightarrow> 'r \<Rightarrow> 'r"
  md_tenant :: "'r \<Rightarrow> string option"
  md_with_tenant :: "string option \<Rightarrow> 'r \<Rightarrow> 'r"
  md_deletedAt :: "'r \<Rightarrow> int option"
  md_with_deletedAt :: "int option \<Rightarrow> 'r \<Rightarrow> 'r"

definition sat :: "'r model \<Rightarrow> where_clause \<Rightarrow> 'r \<Rightarrow> bool" where
  "sat md w r \<longleftrightarrow> list_all (\<lambda>(k, c). cond_holds c (md_col md k r)) w"

text \<open>The query functions of one model (\<^verbatim>\<open>PrismaModelDelegate\<close>), on a database state \<open>'d\<close>;
  \<open>dg_findAll\<close> is \<^verbatim>\<open>findMany\<close> without \<^verbatim>\<open>take\<close>.\<close>

record ('d, 'r) delegate =
  dg_findFirst :: "where_clause \<Rightarrow> ('d, 'r option) prog"
  dg_findUnique :: "where_clause \<Rightarrow> ('d, 'r option) prog"
  dg_findMany :: "where_clause \<Rightarrow> nat \<Rightarrow> nat \<Rightarrow> ('d, 'r list) prog"
  dg_create :: "'r \<Rightarrow> ('d, 'r) prog"
  dg_update :: "where_clause \<Rightarrow> ('r \<Rightarrow> 'r) \<Rightarrow> ('d, 'r) prog"
  dg_delete :: "where_clause \<Rightarrow> ('d, 'r) prog"
  dg_count :: "where_clause \<Rightarrow> ('d, nat) prog"
  dg_findAll :: "where_clause \<Rightarrow> ('d, 'r list) prog"

section \<open>The tenant context and the client extension\<close>

record TenantContext =
  tc_tenantId :: "string option"
  tc_isPlatformOwner :: bool

text \<open>\<^verbatim>\<open>dbTenantContext.getStore()\<close>: \<open>None\<close> outside \<^verbatim>\<open>run\<close>; \<^verbatim>\<open>run({ tenantId }, f)\<close> is \<open>f (tenant_ctx t)\<close>.\<close>

type_synonym ctx = "TenantContext option"

definition tenant_ctx :: "string \<Rightarrow> ctx" where
  "tenant_ctx t = Some \<lparr>tc_tenantId = Some t, tc_isPlatformOwner = False\<rparr>"

definition ctx_tenantId :: "ctx \<Rightarrow> string option" where
  "ctx_tenantId c = (case c of None \<Rightarrow> None | Some x \<Rightarrow> tc_tenantId x)"

definition ctx_isPlatformOwner :: "ctx \<Rightarrow> bool" where
  "ctx_isPlatformOwner c = (case c of None \<Rightarrow> False | Some x \<Rightarrow> tc_isPlatformOwner x)"

record 'r args =
  a_where :: where_clause
  a_data :: "'r option"
  a_patch :: "'r \<Rightarrow> 'r"

definition unscopedModels :: "string list" where
  "unscopedModels = [''Tenant'', ''SubscriptionPlan'', ''AuditLog'', ''Notification'']"

definition unsupportedOperations :: "string list" where
  "unsupportedOperations =
     [''createMany'', ''updateMany'', ''deleteMany'', ''aggregate'', ''groupBy'', ''upsert'']"

definition scopedOperations :: "string list" where
  "scopedOperations = [''findFirst'', ''findMany'', ''count'', ''update'', ''delete'']"

definition quoted :: "string \<Rightarrow> string" where
  "quoted s = CHR 0x27 # s @ [CHR 0x27]"

text \<open>
  \<^verbatim>\<open>$allOperations\<close>: the check and the rewriting of the arguments, then the query itself.
\<close>

definition allOperations ::
  "ctx \<Rightarrow> 'r model \<Rightarrow> string \<Rightarrow> 'r args \<Rightarrow> ('r args \<Rightarrow> ('d, 'a) prog) \<Rightarrow> ('d, 'a) prog" where
  "allOperations context md operation args query =
     (let tenantId = ctx_tenantId context;
          isPlatformOwner = ctx_isPlatformOwner context;
          scoped = (md_name md \<notin> set unscopedModels) in
      if scoped \<and> \<not> truthy tenantId \<and> \<not> isPlatformOwner
      then throw (JsError (''Fail-Safe Block: Access to model '' @ quoted (md_name md) @
                           '' was blocked due to missing tenant context.''))
      else if truthy tenantId \<and> scoped then
        if operation \<in> set unsupportedOperations
        then throw (JsError (''Fail-Safe Block: Operation '' @ quoted operation @
                             '' is unsupported on scoped model '' @ quoted (md_name md) @
                             '' to prevent isolation bypasses.''))
        else if operation \<in> set scopedOperations
        then query (args\<lparr>a_where := AList.update ''tenantId'' (Is (opt_cell tenantId)) (a_where args)\<rparr>)
        else if operation = ''create''
        then if (\<exists>d \<in> set_option (a_data args). truthy (md_tenant md d) \<and> md_tenant md d \<noteq> tenantId)
             then throw (JsError ''Fail-Safe Block: Cross-tenant data insertion attempt detected and blocked.'')
             else query (args\<lparr>a_data := map_option (md_with_tenant md tenantId) (a_data args)\<rparr>)
        else query args
      else query args)"

text \<open>The delegate the repositories and services receive: \<^verbatim>\<open>new PrismaClient().$extends(\<dots>)\<close>.\<close>

definition w_args :: "where_clause \<Rightarrow> 'r args" where
  "w_args w = \<lparr>a_where = w, a_data = None, a_patch = (\<lambda>r. r)\<rparr>"

definition extended :: "ctx \<Rightarrow> 'r model \<Rightarrow> ('d, 'r) delegate \<Rightarrow> ('d, 'r) delegate" where
  "extended c md D = \<lparr>
     dg_findFirst = (\<lambda>w. allOperations c md ''findFirst'' (w_args w) (\<lambda>a. dg_findFirst D (a_where a))),
     dg_findUnique = (\<lambda>w. allOperations c md ''findUnique'' (w_args w) (\<lambda>a. dg_findUnique D (a_where a))),
     dg_findMany = (\<lambda>w take skip. allOperations c md ''findMany'' (w_args w)
                      (\<lambda>a. dg_findMany D (a_where a) take skip)),
     dg_create = (\<lambda>r. allOperations c md ''create'' ((w_args [])\<lparr>a_data := Some r\<rparr>)
                    (\<lambda>a. case a_data a of None \<Rightarrow> throw (JsError ''missing data'') | Some d \<Rightarrow> dg_create D d)),
     dg_update = (\<lambda>w f. allOperations c md ''update'' ((w_args w)\<lparr>a_patch := f\<rparr>)
                    (\<lambda>a. dg_update D (a_where a) (a_patch a))),
     dg_delete = (\<lambda>w. allOperations c md ''delete'' (w_args w) (\<lambda>a. dg_delete D (a_where a))),
     dg_count = (\<lambda>w. allOperations c md ''count'' (w_args w) (\<lambda>a. dg_count D (a_where a))),
     dg_findAll = (\<lambda>w. allOperations c md ''findMany'' (w_args w) (\<lambda>a. dg_findAll D (a_where a)))\<rparr>"

section \<open>What the code relies on\<close>

text \<open>The fields of a model are independent columns.\<close>

locale tenant_model =
  fixes md :: "'r model"
  assumes col_id: "md_col md ''id'' r = CStr (md_id md r)"
    and col_tenantId: "md_col md ''tenantId'' r = opt_cell (md_tenant md r)"
    and col_deletedAt: "md_softDeletable md \<Longrightarrow>
          md_col md ''deletedAt'' r = CNull \<longleftrightarrow> md_deletedAt md r = None"
    and id_with_id: "md_id md (md_with_id md i r) = i"
    and tenant_with_id: "md_tenant md (md_with_id md i r) = md_tenant md r"
    and tenant_with_tenant: "md_tenant md (md_with_tenant md t r) = t"
    and id_with_deletedAt: "md_id md (md_with_deletedAt md x r) = md_id md r"
    and tenant_with_deletedAt: "md_tenant md (md_with_deletedAt md x r) = md_tenant md r"
    and deletedAt_with_deletedAt: "md_softDeletable md \<Longrightarrow>
          md_deletedAt md (md_with_deletedAt md x r) = x"
    and with_deletedAt_twice: "md_with_deletedAt md x (md_with_deletedAt md y r) = md_with_deletedAt md x r"
    and with_deletedAt_same: "md_softDeletable md \<Longrightarrow> md_with_deletedAt md (md_deletedAt md r) r = r"
begin

lemmas model_simps [simp] = col_id col_tenantId id_with_id tenant_with_id tenant_with_tenant
  id_with_deletedAt tenant_with_deletedAt deletedAt_with_deletedAt with_deletedAt_twice

lemma sat_tenant:
  "sat md (AList.update ''tenantId'' (Is (CStr t)) w) r \<Longrightarrow> md_tenant md r = Some t"
proof (induction w)
  case Nil
  then show ?case by (auto simp: sat_def opt_cell_def split: option.splits)
next
  case (Cons p w)
  then show ?case
    by (cases p) (auto simp: sat_def opt_cell_def split: if_splits option.splits)
qed

end

text \<open>
  One model's table inside a database state: \<open>rows\<close> is its contents, \<open>rest\<close> everything else.
\<close>

locale prisma_delegate = tenant_model md
  for md :: "'r model" +
  fixes D :: "('d, 'r) delegate" and rows :: "'d \<Rightarrow> 'r list" and rest :: "'d \<Rightarrow> 'o"
  assumes findFirst_state: "snd (dg_findFirst D w s) = s"
    and findFirst_Some: "fst (dg_findFirst D w s) = Inr (Some r) \<Longrightarrow> r \<in> set (rows s) \<and> sat md w r"
    and findFirst_None: "fst (dg_findFirst D w s) = Inr None \<Longrightarrow> r \<in> set (rows s) \<Longrightarrow> \<not> sat md w r"
    and findUnique_state: "snd (dg_findUnique D w s) = s"
    and findUnique_Some: "fst (dg_findUnique D w s) = Inr (Some r) \<Longrightarrow> r \<in> set (rows s) \<and> sat md w r"
    and findUnique_None: "fst (dg_findUnique D w s) = Inr None \<Longrightarrow> r \<in> set (rows s) \<Longrightarrow> \<not> sat md w r"
    and findMany_state: "snd (dg_findMany D w t k s) = s"
    and findMany_sound: "fst (dg_findMany D w t k s) = Inr rs \<Longrightarrow>
          set rs \<subseteq> {r \<in> set (rows s). sat md w r} \<and> length rs \<le> t"
    and findMany_complete: "fst (dg_findMany D w t 0 s) = Inr rs \<Longrightarrow> length rs < t \<Longrightarrow>
          r \<in> set (rows s) \<Longrightarrow> sat md w r \<Longrightarrow> r \<in> set rs"
    and count_state: "snd (dg_count D w s) = s"
    and count_value: "fst (dg_count D w s) = Inr n \<Longrightarrow> n = length (filter (sat md w) (rows s))"
    and create_Inr: "dg_create D d s = (Inr r, s') \<Longrightarrow>
          (\<exists>i. r = md_with_id md i d \<and> (\<forall>x \<in> set (rows s). md_id md x \<noteq> i)) \<and>
          rows s' = rows s @ [r] \<and> rest s' = rest s"
    and create_Inl: "dg_create D d s = (Inl e, s') \<Longrightarrow> rows s' = rows s \<and> rest s' = rest s"
    and update_Inr: "dg_update D w f s = (Inr r', s') \<Longrightarrow>
          (\<exists>xs r ys. rows s = xs @ r # ys \<and> sat md w r \<and> r' = f r \<and> rows s' = xs @ f r # ys) \<and>
          rest s' = rest s"
    and update_Inl: "dg_update D w f s = (Inl e, s') \<Longrightarrow> rows s' = rows s \<and> rest s' = rest s"
    and delete_Inr: "dg_delete D w s = (Inr r, s') \<Longrightarrow>
          (\<exists>xs ys. rows s = xs @ r # ys \<and> sat md w r \<and> rows s' = xs @ ys) \<and> rest s' = rest s"
    and delete_Inl: "dg_delete D w s = (Inl e, s') \<Longrightarrow> rows s' = rows s \<and> rest s' = rest s"
    and findAll_state: "snd (dg_findAll D w s) = s"
    and findAll_value: "fst (dg_findAll D w s) = Inr rs \<Longrightarrow> set rs = {r \<in> set (rows s). sat md w r}"

text \<open>A reachable database answers: reads return, and a write succeeds when its row exists.\<close>

locale prisma_live = prisma_delegate md D rows rest
  for md :: "'r model" and D :: "('d, 'r) delegate" and rows :: "'d \<Rightarrow> 'r list" and rest :: "'d \<Rightarrow> 'o" +
  assumes findFirst_live: "\<exists>x. fst (dg_findFirst D w s) = Inr x"
    and findUnique_live: "\<exists>x. fst (dg_findUnique D w s) = Inr x"
    and findMany_live: "\<exists>x. fst (dg_findMany D w t k s) = Inr x"
    and create_live: "\<exists>r s'. dg_create D d s = (Inr r, s')"
    and update_live: "r \<in> set (rows s) \<Longrightarrow> sat md w r \<Longrightarrow> \<exists>r' s'. dg_update D w f s = (Inr r', s')"
    and delete_live: "r \<in> set (rows s) \<Longrightarrow> sat md w r \<Longrightarrow> \<exists>r' s'. dg_delete D w s = (Inr r', s')"

section \<open>The extension keeps tenants apart\<close>

definition foreign :: "'r model \<Rightarrow> string \<Rightarrow> 'r list \<Rightarrow> 'r list" where
  "foreign md t rs = filter (\<lambda>r. md_tenant md r \<noteq> Some t) rs"

lemma foreign_append [simp]: "foreign md t (xs @ ys) = foreign md t xs @ foreign md t ys"
  by (simp add: foreign_def)

lemma foreign_Cons [simp]:
  "foreign md t (x # xs) = (if md_tenant md x = Some t then foreign md t xs else x # foreign md t xs)"
  by (simp add: foreign_def)

lemma foreign_Nil [simp]: "foreign md t [] = []"
  by (simp add: foreign_def)

lemma ctx_tenant_ctx [simp]:
  "ctx_tenantId (tenant_ctx t) = Some t" "ctx_isPlatformOwner (tenant_ctx t) = False"
  by (simp_all add: tenant_ctx_def ctx_tenantId_def ctx_isPlatformOwner_def)

text \<open>Without a context nothing reaches the query engine.\<close>

lemma allOperations_no_context:
  assumes "\<not> truthy (ctx_tenantId c)" "\<not> ctx_isPlatformOwner c" "md_name md \<notin> set unscopedModels"
  shows "\<exists>msg. allOperations c md op a q = throw (JsError msg)"
  using assms by (auto simp: allOperations_def Let_def)

lemma allOperations_unsupported:
  assumes "truthy (ctx_tenantId c)" "op \<in> set unsupportedOperations" "md_name md \<notin> set unscopedModels"
  shows "\<exists>msg. allOperations c md op a q = throw (JsError msg)"
  using assms by (auto simp: allOperations_def Let_def)

lemma allOperations_scoped:
  assumes "ctx_tenantId c = Some t" "t \<noteq> []" "md_name md \<notin> set unscopedModels" "op \<in> set scopedOperations"
  shows "allOperations c md op a q =
           q (a\<lparr>a_where := AList.update ''tenantId'' (Is (CStr t)) (a_where a)\<rparr>)"
proof -
  have "op \<notin> set unsupportedOperations"
    using assms(4) by (auto simp: scopedOperations_def unsupportedOperations_def)
  then show ?thesis using assms by (simp add: allOperations_def Let_def opt_cell_def)
qed

lemma allOperations_create:
  assumes "ctx_tenantId c = Some t" "t \<noteq> []" "md_name md \<notin> set unscopedModels"
  shows "allOperations c md ''create'' a q =
           (if \<exists>d \<in> set_option (a_data a). truthy (md_tenant md d) \<and> md_tenant md d \<noteq> Some t
            then throw (JsError ''Fail-Safe Block: Cross-tenant data insertion attempt detected and blocked.'')
            else q (a\<lparr>a_data := map_option (md_with_tenant md (Some t)) (a_data a)\<rparr>))"
  using assms by (simp add: allOperations_def Let_def unsupportedOperations_def scopedOperations_def)

end
