(* ===== verification/Tenant_Repository.thy ===== *)
theory Tenant_Repository
  imports Tenant_Db
begin

text \<open>
  \<^verbatim>\<open>packages/db/src/repositories/BaseTenantRepository.ts\<close>: the operations every tenant-scoped
  repository inherits, over the delegate of its model. The lemmas, proved once over the
  documented behaviour of the delegate, show that a repository working in the context of a
  tenant returns rows of that tenant only and never changes a row of another one, whatever the
  operation and also when it throws.
\<close>

section \<open>Operations\<close>

definition scopedWhere :: "'r model \<Rightarrow> where_clause \<Rightarrow> string option \<Rightarrow> where_clause" where
  "scopedWhere md wh tenantId =
     (if \<not> truthy tenantId then
        (let base = wh in
         if md_softDeletable md \<and> ''deletedAt'' \<notin> fst ` set base
         then AList.update ''deletedAt'' (Is CNull) base else base)
      else
        (let base = AList.update ''tenantId'' (Is (opt_cell tenantId)) wh in
         if md_softDeletable md \<and> ''deletedAt'' \<notin> fst ` set base
         then AList.update ''deletedAt'' (Is CNull) base else base))"

definition getTenantId :: "ctx \<Rightarrow> exn + string option" where
  "getTenantId context =
     (if ctx_isPlatformOwner context \<and> \<not> truthy (ctx_tenantId context) then Inr None
      else if \<not> truthy (ctx_tenantId context)
      then Inl (JsError ''Fail-Safe Block: Access denied due to missing or unresolved tenant context.'')
      else Inr (ctx_tenantId context))"

definition where_id :: "string \<Rightarrow> where_clause" where
  "where_id i = [(''id'', Is (CStr i))]"

definition findById :: "ctx \<Rightarrow> 'r model \<Rightarrow> ('d, 'r) delegate \<Rightarrow> string \<Rightarrow> ('d, 'r option) prog" where
  "findById c md delegate i =
     andThen (of_result (getTenantId c)) (\<lambda>tenantId.
       dg_findFirst delegate (scopedWhere md (where_id i) tenantId))"

definition DEFAULT_MAX_ROWS :: nat where
  "DEFAULT_MAX_ROWS = 500"

definition findMany ::
  "ctx \<Rightarrow> 'r model \<Rightarrow> ('d, 'r) delegate \<Rightarrow> where_clause \<Rightarrow> nat option \<Rightarrow> nat option \<Rightarrow> ('d, 'r list) prog" where
  "findMany c md delegate wh limit skip =
     andThen (of_result (getTenantId c)) (\<lambda>tenantId.
       dg_findMany delegate (scopedWhere md wh tenantId)
         (case limit of None \<Rightarrow> DEFAULT_MAX_ROWS | Some n \<Rightarrow> n)
         (case skip of None \<Rightarrow> 0 | Some n \<Rightarrow> n))"

definition repo_create :: "ctx \<Rightarrow> 'r model \<Rightarrow> ('d, 'r) delegate \<Rightarrow> 'r \<Rightarrow> ('d, 'r) prog" where
  "repo_create c md delegate data =
     andThen (of_result (getTenantId c)) (\<lambda>tenantId.
       if truthy (md_tenant md data) \<and> md_tenant md data \<noteq> tenantId
       then throw (JsError ''Fail-Safe Block: Cross-tenant data insertion attempt detected and blocked.'')
       else dg_create delegate (md_with_tenant md tenantId data))"

definition not_found_block :: "string \<Rightarrow> exn" where
  "not_found_block i = JsError (''Fail-Safe Block: The requested resource with ID ['' @ i @
     ''] was not found or is inaccessible under this tenant context.'')"

definition repo_update :: "ctx \<Rightarrow> 'r model \<Rightarrow> ('d, 'r) delegate \<Rightarrow> string \<Rightarrow> ('r \<Rightarrow> 'r) \<Rightarrow> ('d, 'r) prog" where
  "repo_update c md delegate i data =
     andThen (of_result (getTenantId c)) (\<lambda>tenantId.
     andThen (dg_findFirst delegate (scopedWhere md (where_id i) tenantId)) (\<lambda>entity.
       case entity of
         None \<Rightarrow> throw (not_found_block i)
       | Some e \<Rightarrow> dg_update delegate (where_id (md_id md e)) data))"

definition repo_delete :: "ctx \<Rightarrow> 'r model \<Rightarrow> ('d, 'r) delegate \<Rightarrow> string \<Rightarrow> ('d, 'r) prog" where
  "repo_delete c md delegate i =
     andThen (of_result (getTenantId c)) (\<lambda>tenantId.
     andThen (dg_findFirst delegate (scopedWhere md (where_id i) tenantId)) (\<lambda>entity.
       case entity of
         None \<Rightarrow> throw (not_found_block i)
       | Some e \<Rightarrow> dg_delete delegate (where_id (md_id md e))))"

definition findByIdIncludingDeleted ::
  "ctx \<Rightarrow> 'r model \<Rightarrow> ('d, 'r) delegate \<Rightarrow> string \<Rightarrow> ('d, 'r option) prog" where
  "findByIdIncludingDeleted c md delegate i =
     andThen (of_result (getTenantId c)) (\<lambda>tenantId.
       dg_findFirst delegate (scopedWhere md [(''id'', Is (CStr i)), (''deletedAt'', Undef)] tenantId))"

text \<open>\<^verbatim>\<open>{ ...extraData, deletedAt: now }\<close>: the tombstone is written after the extra fields.\<close>

definition softDelete ::
  "ctx \<Rightarrow> 'r model \<Rightarrow> ('d, 'r) delegate \<Rightarrow> int \<Rightarrow> string \<Rightarrow> ('r \<Rightarrow> 'r) \<Rightarrow> ('d, 'r) prog" where
  "softDelete c md delegate now i extraData =
     andThen (findByIdIncludingDeleted c md delegate i) (\<lambda>entity.
       case entity of
         None \<Rightarrow> throw (not_found_block i)
       | Some e \<Rightarrow>
           if md_deletedAt md e \<noteq> None then return e
           else dg_update delegate (where_id (md_id md e))
                  (\<lambda>r. md_with_deletedAt md (Some now) (extraData r)))"

definition restore ::
  "ctx \<Rightarrow> 'r model \<Rightarrow> ('d, 'r) delegate \<Rightarrow> string \<Rightarrow> ('r \<Rightarrow> 'r) \<Rightarrow> ('d, 'r) prog" where
  "restore c md delegate i extraData =
     andThen (findByIdIncludingDeleted c md delegate i) (\<lambda>entity.
       case entity of
         None \<Rightarrow> throw (not_found_block i)
       | Some e \<Rightarrow>
           if md_deletedAt md e = None then return e
           else dg_update delegate (where_id (md_id md e))
                  (\<lambda>r. md_with_deletedAt md None (extraData r)))"

definition repo_count :: "ctx \<Rightarrow> 'r model \<Rightarrow> ('d, 'r) delegate \<Rightarrow> where_clause \<Rightarrow> ('d, nat) prog" where
  "repo_count c md delegate wh =
     andThen (of_result (getTenantId c)) (\<lambda>tenantId. dg_count delegate (scopedWhere md wh tenantId))"

section \<open>The context check\<close>

lemma getTenantId_tenant [simp]: "t \<noteq> [] \<Longrightarrow> getTenantId (tenant_ctx t) = Inr (Some t)"
  by (simp add: getTenantId_def)

lemma getTenantId_Inl:
  "\<not> truthy (ctx_tenantId c) \<Longrightarrow> \<not> ctx_isPlatformOwner c \<Longrightarrow>
   getTenantId c = Inl (JsError ''Fail-Safe Block: Access denied due to missing or unresolved tenant context.'')"
  by (simp add: getTenantId_def)

lemma of_result_andThen [simp]:
  "andThen (of_result (Inr x)) f = f x" "andThen (of_result (Inl e)) f = throw e"
  by (simp_all add: andThen_def of_result_def throw_def)

section \<open>Isolation, once for every model\<close>

context prisma_delegate
begin

lemma findFirst_eqD:
  "dg_findFirst D w s = (Inr (Some r), s') \<Longrightarrow> s' = s \<and> r \<in> set (rows s) \<and> sat md w r"
  using findFirst_state[of w s] findFirst_Some[of w s r] by (metis fst_conv snd_conv)

lemma findUnique_eqD:
  "dg_findUnique D w s = (Inr (Some r), s') \<Longrightarrow> s' = s \<and> r \<in> set (rows s) \<and> sat md w r"
  using findUnique_state[of w s] findUnique_Some[of w s r] by (metis fst_conv snd_conv)

lemma findMany_memD:
  "dg_findMany D w t k s = (Inr rs, s') \<Longrightarrow> r \<in> set rs \<Longrightarrow> r \<in> set (rows s) \<and> sat md w r"
  using findMany_sound[of w t k s rs] by auto

lemma findFirst_preserves: "preserves f (dg_findFirst D w)"
  by (simp add: preserves_def findFirst_state)

lemma findUnique_preserves: "preserves f (dg_findUnique D w)"
  by (simp add: preserves_def findUnique_state)

lemma findMany_preserves: "preserves f (dg_findMany D w t k)"
  by (simp add: preserves_def findMany_state)

lemma count_preserves: "preserves f (dg_count D w)"
  by (simp add: preserves_def count_state)

lemma create_rest: "preserves rest (dg_create D d)"
proof (rule preservesI)
  fix s r s' assume "dg_create D d s = (r, s')"
  then show "rest s' = rest s" by (cases r) (auto dest: create_Inr create_Inl)
qed

lemma update_rest: "preserves rest (dg_update D w f)"
proof (rule preservesI)
  fix s r s' assume "dg_update D w f s = (r, s')"
  then show "rest s' = rest s" by (cases r) (auto dest: update_Inr update_Inl)
qed

lemma delete_rest: "preserves rest (dg_delete D w)"
proof (rule preservesI)
  fix s r s' assume "dg_delete D w s = (r, s')"
  then show "rest s' = rest s" by (cases r) (auto dest: delete_Inr delete_Inl)
qed

lemma findAll_preserves: "preserves f (dg_findAll D w)"
  by (simp add: preserves_def findAll_state)

lemma findAll_eqD: "dg_findAll D w s = (Inr rs, s') \<Longrightarrow> s' = s \<and> set rs = {r \<in> set (rows s). sat md w r}"
  using findAll_state[of w s] findAll_value[of w s rs] by (metis fst_conv snd_conv)

lemmas read_preserves = findFirst_preserves findUnique_preserves findMany_preserves count_preserves findAll_preserves

end

text \<open>The operations of a repository whose model is subject to the extension, in the context of
  the tenant \<open>t\<close>.\<close>

locale tenant_repository = prisma_delegate md D rows rest
  for md :: "'r model" and D :: "('d, 'r) delegate" and rows :: "'d \<Rightarrow> 'r list" and rest :: "'d \<Rightarrow> 'o" +
  assumes scoped: "md_name md \<notin> set unscopedModels"
begin

lemma ext_findFirst:
  "t \<noteq> [] \<Longrightarrow> dg_findFirst (extended (tenant_ctx t) md D) w =
     dg_findFirst D (AList.update ''tenantId'' (Is (CStr t)) w)"
  by (simp add: extended_def allOperations_scoped scoped scopedOperations_def w_args_def)

lemma ext_findMany:
  "t \<noteq> [] \<Longrightarrow> dg_findMany (extended (tenant_ctx t) md D) w =
     dg_findMany D (AList.update ''tenantId'' (Is (CStr t)) w)"
  by (simp add: extended_def allOperations_scoped scoped scopedOperations_def w_args_def)

lemma ext_findAll:
  "t \<noteq> [] \<Longrightarrow> dg_findAll (extended (tenant_ctx t) md D) w =
     dg_findAll D (AList.update ''tenantId'' (Is (CStr t)) w)"
  by (simp add: extended_def allOperations_scoped scoped scopedOperations_def w_args_def)

lemma ext_count:
  "t \<noteq> [] \<Longrightarrow> dg_count (extended (tenant_ctx t) md D) w =
     dg_count D (AList.update ''tenantId'' (Is (CStr t)) w)"
  by (simp add: extended_def allOperations_scoped scoped scopedOperations_def w_args_def)

lemma ext_update:
  "t \<noteq> [] \<Longrightarrow> dg_update (extended (tenant_ctx t) md D) w f =
     dg_update D (AList.update ''tenantId'' (Is (CStr t)) w) f"
  by (simp add: extended_def allOperations_scoped scoped scopedOperations_def w_args_def)

lemma ext_delete:
  "t \<noteq> [] \<Longrightarrow> dg_delete (extended (tenant_ctx t) md D) w =
     dg_delete D (AList.update ''tenantId'' (Is (CStr t)) w)"
  by (simp add: extended_def allOperations_scoped scoped scopedOperations_def w_args_def)

lemma ext_create:
  "t \<noteq> [] \<Longrightarrow> dg_create (extended (tenant_ctx t) md D) d =
     (if truthy (md_tenant md d) \<and> md_tenant md d \<noteq> Some t
      then throw (JsError ''Fail-Safe Block: Cross-tenant data insertion attempt detected and blocked.'')
      else dg_create D (md_with_tenant md (Some t) d))"
  by (simp add: extended_def allOperations_create scoped w_args_def)

text \<open>\<^verbatim>\<open>findUnique\<close> is not among the operations the extension rewrites.\<close>

lemma ext_findUnique:
  "t \<noteq> [] \<Longrightarrow> dg_findUnique (extended (tenant_ctx t) md D) w = dg_findUnique D w"
  by (simp add: extended_def allOperations_def scoped w_args_def unsupportedOperations_def
      scopedOperations_def Let_def)

lemmas ext_simps = ext_findFirst ext_findMany ext_findAll ext_count ext_update ext_delete ext_create ext_findUnique

text \<open>The filters of the lookups by id, evaluated.\<close>

lemma scoped_id_where:
  "t \<noteq> [] \<Longrightarrow> AList.update ''tenantId'' (Is (CStr t)) (scopedWhere md (where_id i) (Some t)) =
     [(''id'', Is (CStr i)), (''tenantId'', Is (CStr t))] @
     (if md_softDeletable md then [(''deletedAt'', Is CNull)] else [])"
  by (simp add: scopedWhere_def where_id_def opt_cell_def Let_def)

lemma scoped_id_deleted_where:
  "t \<noteq> [] \<Longrightarrow> AList.update ''tenantId'' (Is (CStr t))
       (scopedWhere md [(''id'', Is (CStr i)), (''deletedAt'', Undef)] (Some t)) =
     [(''id'', Is (CStr i)), (''deletedAt'', Undef), (''tenantId'', Is (CStr t))]"
  by (simp add: scopedWhere_def opt_cell_def Let_def)

lemma sat_scoped_id:
  "t \<noteq> [] \<Longrightarrow>
   sat md (AList.update ''tenantId'' (Is (CStr t)) (scopedWhere md (where_id i) (Some t))) r \<longleftrightarrow>
     md_id md r = i \<and> md_tenant md r = Some t \<and> (md_softDeletable md \<longrightarrow> md_deletedAt md r = None)"
  by (auto simp: scoped_id_where sat_def opt_cell_def col_deletedAt split: option.splits)

lemma sat_scoped_id_deleted:
  "t \<noteq> [] \<Longrightarrow>
   sat md (AList.update ''tenantId'' (Is (CStr t))
     (scopedWhere md [(''id'', Is (CStr i)), (''deletedAt'', Undef)] (Some t))) r \<longleftrightarrow>
     md_id md r = i \<and> md_tenant md r = Some t"
  by (auto simp: scoped_id_deleted_where sat_def opt_cell_def split: option.splits)

lemma sat_id_tenant:
  "sat md (AList.update ''tenantId'' (Is (CStr t)) (where_id i)) r \<longleftrightarrow>
     md_id md r = i \<and> md_tenant md r = Some t"
  by (auto simp: where_id_def sat_def opt_cell_def split: option.splits)

text \<open>What the lookups return.\<close>

lemma findById_Some:
  assumes "t \<noteq> []" and "findById (tenant_ctx t) md (extended (tenant_ctx t) md D) i s = (Inr (Some r), s')"
  shows "s' = s \<and> r \<in> set (rows s) \<and> md_id md r = i \<and> md_tenant md r = Some t \<and>
         (md_softDeletable md \<longrightarrow> md_deletedAt md r = None)"
  using assms findFirst_eqD
  by (fastforce simp: findById_def ext_findFirst sat_scoped_id)

lemma findById_None:
  assumes "t \<noteq> []" and "findById (tenant_ctx t) md (extended (tenant_ctx t) md D) i s = (Inr None, s')"
    and "r \<in> set (rows s)" "md_id md r = i" "md_tenant md r = Some t"
  shows "md_softDeletable md \<and> md_deletedAt md r \<noteq> None"
proof -
  let ?w = "AList.update ''tenantId'' (Is (CStr t)) (scopedWhere md (where_id i) (Some t))"
  have "fst (dg_findFirst D ?w s) = Inr None"
    using assms(1,2) by (simp add: findById_def ext_findFirst)
  then have "\<not> sat md ?w r" by (rule findFirst_None) (rule assms(3))
  then show ?thesis using assms by (simp add: sat_scoped_id)
qed

lemma findByIdIncludingDeleted_Some:
  assumes "t \<noteq> []"
    and "findByIdIncludingDeleted (tenant_ctx t) md (extended (tenant_ctx t) md D) i s = (Inr (Some r), s')"
  shows "s' = s \<and> r \<in> set (rows s) \<and> md_id md r = i \<and> md_tenant md r = Some t"
  using assms findFirst_eqD
  by (fastforce simp: findByIdIncludingDeleted_def ext_findFirst sat_scoped_id_deleted)

lemma findMany_rows:
  assumes "t \<noteq> []"
    and "findMany (tenant_ctx t) md (extended (tenant_ctx t) md D) w lim skip s = (Inr rs, s')"
  shows "s' = s \<and> (\<forall>r \<in> set rs. r \<in> set (rows s) \<and> md_tenant md r = Some t) \<and>
         (lim = None \<longrightarrow> length rs \<le> DEFAULT_MAX_ROWS)"
proof -
  let ?w = "AList.update ''tenantId'' (Is (CStr t)) (scopedWhere md w (Some t))"
  let ?n = "case lim of None \<Rightarrow> DEFAULT_MAX_ROWS | Some n \<Rightarrow> n"
  let ?k = "case skip of None \<Rightarrow> 0 | Some n \<Rightarrow> n"
  have eq: "dg_findMany D ?w ?n ?k s = (Inr rs, s')"
    using assms by (simp add: findMany_def ext_findMany)
  then have "s' = s" using findMany_state[of ?w ?n ?k s] by simp
  moreover have "set rs \<subseteq> {r \<in> set (rows s). sat md ?w r} \<and> length rs \<le> ?n"
    using findMany_sound[of ?w ?n ?k s rs] by (simp add: eq)
  ultimately show ?thesis using sat_tenant[of t] by fastforce
qed

text \<open>What the writes do.\<close>

lemma create_row:
  assumes "t \<noteq> []" and "repo_create (tenant_ctx t) md (extended (tenant_ctx t) md D) d s = (Inr r, s')"
  shows "md_tenant md r = Some t \<and> rows s' = rows s @ [r] \<and> rest s' = rest s \<and>
         (\<exists>i. r = md_with_id md i (md_with_tenant md (Some t) (md_with_tenant md (Some t) d)) \<and>
              (\<forall>x \<in> set (rows s). md_id md x \<noteq> i))"
proof -
  have "dg_create D (md_with_tenant md (Some t) (md_with_tenant md (Some t) d)) s = (Inr r, s')"
    using assms by (auto simp: repo_create_def ext_create throw_apply split: if_splits)
  from create_Inr[OF this] show ?thesis by auto
qed

lemma create_cross_tenant:
  assumes "t \<noteq> []" "md_tenant md d = Some u" "u \<noteq> []" "u \<noteq> t"
  shows "repo_create (tenant_ctx t) md (extended (tenant_ctx t) md D) d s =
    (Inl (JsError ''Fail-Safe Block: Cross-tenant data insertion attempt detected and blocked.''), s)"
  using assms by (simp add: repo_create_def throw_apply)

lemma update_row:
  assumes "t \<noteq> []" and "repo_update (tenant_ctx t) md (extended (tenant_ctx t) md D) i f s = (Inr r', s')"
  shows "\<exists>xs r ys. rows s = xs @ r # ys \<and> md_id md r = i \<and> md_tenant md r = Some t \<and>
           r' = f r \<and> rows s' = xs @ f r # ys \<and> rest s' = rest s"
proof -
  let ?E = "extended (tenant_ctx t) md D"
  obtain e s1 where f1: "dg_findFirst ?E (scopedWhere md (where_id i) (Some t)) s = (Inr (Some e), s1)"
    and u1: "dg_update ?E (where_id (md_id md e)) f s1 = (Inr r', s')"
    using assms by (auto simp: repo_update_def prog_elims throw_apply split: option.splits)
  have e: "s1 = s" "md_id md e = i"
    using findFirst_eqD[OF f1[unfolded ext_findFirst[OF assms(1)]]] assms(1) by (simp_all add: sat_scoped_id)
  show ?thesis
    using update_Inr[OF u1[unfolded ext_update[OF assms(1)]]] e by (auto simp: sat_id_tenant)
qed

lemma update_failed:
  assumes "t \<noteq> []" and "repo_update (tenant_ctx t) md (extended (tenant_ctx t) md D) i f s = (Inl e, s')"
  shows "rows s' = rows s \<and> rest s' = rest s"
proof -
  let ?E = "extended (tenant_ctx t) md D"
  obtain r s1 where r: "dg_findFirst ?E (scopedWhere md (where_id i) (Some t)) s = (r, s1)" by force
  have s1: "s1 = s" using r findFirst_state by (metis ext_findFirst[OF assms(1)] snd_conv)
  consider (stop) "s' = s" | (upd) x where "dg_update ?E (where_id (md_id md x)) f s = (Inl e, s')"
    using assms r s1 by (auto simp: repo_update_def andThen_def of_result_def throw_apply split: sum.splits option.splits)
  then show ?thesis
  proof cases
    case upd
    then show ?thesis using update_Inl by (simp add: ext_update assms(1))
  qed simp
qed


text \<open>An update changes at most the row of the tenant with that id, whether or not it returns.\<close>

lemma update_rows:
  assumes "t \<noteq> []" "repo_update (tenant_ctx t) md (extended (tenant_ctx t) md D) i f s = (r, s')"
  shows "list_all2 (\<lambda>x x'. x' = x \<or> md_tenant md x = Some t \<and> md_id md x = i \<and> x' = f x) (rows s) (rows s') \<and>
         rest s' = rest s"
proof (cases r)
  case (Inl e)
  then show ?thesis using update_failed[OF assms[unfolded Inl]] by (simp add: list.rel_refl)
next
  case (Inr y)
  obtain xs x ys where "rows s = xs @ x # ys" "md_id md x = i" "md_tenant md x = Some t" "rows s' = xs @ f x # ys" "rest s' = rest s"
    using update_row[OF assms[unfolded Inr]] by blast
  then show ?thesis by (simp add: list_all2_append list.rel_refl)
qed

text \<open>Rows of other tenants, and the rest of the database, are never touched.\<close>

abbreviation others :: "string \<Rightarrow> 'd \<Rightarrow> 'r list \<times> 'o" where
  "others t s \<equiv> (foreign md t (rows s), rest s)"

lemma ext_update_others:
  assumes "t \<noteq> []" and "\<And>r. md_tenant md r = Some t \<Longrightarrow> md_tenant md (f r) = Some t"
  shows "preserves (others t) (dg_update (extended (tenant_ctx t) md D) (where_id i) f)"
proof (rule preservesI)
  fix s r s' assume *: "dg_update (extended (tenant_ctx t) md D) (where_id i) f s = (r, s')"
  show "others t s' = others t s"
  proof (cases r)
    case (Inl e)
    then show ?thesis using * update_Inl by (simp add: ext_update assms(1))
  next
    case (Inr r')
    then have "dg_update D (AList.update ''tenantId'' (Is (CStr t)) (where_id i)) f s = (Inr r', s')"
      using * by (simp add: ext_update assms(1))
    from update_Inr[OF this] show ?thesis using assms(2) by (auto simp: sat_id_tenant)
  qed
qed

lemma ext_delete_others:
  assumes "t \<noteq> []"
  shows "preserves (others t) (dg_delete (extended (tenant_ctx t) md D) (where_id i))"
proof (rule preservesI)
  fix s r s' assume *: "dg_delete (extended (tenant_ctx t) md D) (where_id i) s = (r, s')"
  show "others t s' = others t s"
  proof (cases r)
    case (Inl e)
    then show ?thesis using * delete_Inl by (simp add: ext_delete assms(1))
  next
    case (Inr r')
    then have "dg_delete D (AList.update ''tenantId'' (Is (CStr t)) (where_id i)) s = (Inr r', s')"
      using * by (simp add: ext_delete assms(1))
    from delete_Inr[OF this] show ?thesis by (auto simp: sat_id_tenant)
  qed
qed

lemma ext_create_others:
  assumes "t \<noteq> []" shows "preserves (others t) (dg_create (extended (tenant_ctx t) md D) d)"
proof (rule preservesI)
  fix s r s' assume *: "dg_create (extended (tenant_ctx t) md D) d s = (r, s')"
  then show "others t s' = others t s"
    by (cases r) (auto simp: ext_create assms throw_apply split: if_splits dest: create_Inr create_Inl)
qed

lemma ext_read_others:
  "t \<noteq> [] \<Longrightarrow> preserves g (dg_findFirst (extended (tenant_ctx t) md D) w)"
  "t \<noteq> [] \<Longrightarrow> preserves g (dg_findUnique (extended (tenant_ctx t) md D) w)"
  "t \<noteq> [] \<Longrightarrow> preserves g (dg_findMany (extended (tenant_ctx t) md D) w n k)"
  "t \<noteq> [] \<Longrightarrow> preserves g (dg_count (extended (tenant_ctx t) md D) w)"
  "t \<noteq> [] \<Longrightarrow> preserves g (dg_findAll (extended (tenant_ctx t) md D) w)"
  by (simp_all add: ext_simps read_preserves)

lemma repo_reads_preserve:
  assumes "t \<noteq> []"
  shows "preserves g (findById (tenant_ctx t) md (extended (tenant_ctx t) md D) i)"
    and "preserves g (findByIdIncludingDeleted (tenant_ctx t) md (extended (tenant_ctx t) md D) i)"
    and "preserves g (findMany (tenant_ctx t) md (extended (tenant_ctx t) md D) w lim skip)"
    and "preserves g (repo_count (tenant_ctx t) md (extended (tenant_ctx t) md D) w)"
  using assms
  by (simp_all add: findById_def findByIdIncludingDeleted_def findMany_def repo_count_def ext_read_others)

lemma repo_create_others:
  "t \<noteq> [] \<Longrightarrow> preserves (others t) (repo_create (tenant_ctx t) md (extended (tenant_ctx t) md D) d)"
  by (auto simp: repo_create_def intro!: preserves_intros ext_create_others)

lemma repo_update_others:
  "t \<noteq> [] \<Longrightarrow> (\<And>r. md_tenant md r = Some t \<Longrightarrow> md_tenant md (f r) = Some t) \<Longrightarrow>
   preserves (others t) (repo_update (tenant_ctx t) md (extended (tenant_ctx t) md D) i f)"
  by (auto simp: repo_update_def intro!: preserves_intros ext_update_others ext_read_others)

lemma repo_delete_others:
  "t \<noteq> [] \<Longrightarrow> preserves (others t) (repo_delete (tenant_ctx t) md (extended (tenant_ctx t) md D) i)"
  by (auto simp: repo_delete_def intro!: preserves_intros ext_delete_others ext_read_others)

lemma softDelete_others:
  "t \<noteq> [] \<Longrightarrow> (\<And>r. md_tenant md r = Some t \<Longrightarrow> md_tenant md (f r) = Some t) \<Longrightarrow>
   preserves (others t) (softDelete (tenant_ctx t) md (extended (tenant_ctx t) md D) now i f)"
  by (auto simp: softDelete_def intro!: preserves_intros ext_update_others repo_reads_preserve)

lemma restore_others:
  "t \<noteq> [] \<Longrightarrow> (\<And>r. md_tenant md r = Some t \<Longrightarrow> md_tenant md (f r) = Some t) \<Longrightarrow>
   preserves (others t) (restore (tenant_ctx t) md (extended (tenant_ctx t) md D) i f)"
  by (auto simp: restore_def intro!: preserves_intros ext_update_others repo_reads_preserve)

text \<open>Soft deletion hides a row and restoring it brings the same row back.\<close>

lemma unique_row:
  assumes "distinct (map (md_id md) rs)" "r \<in> set rs" "r' \<in> set rs" "md_id md r = md_id md r'"
  shows "r = r'"
  using assms by (metis distinct_map inj_onD)

lemma softDelete_cases:
  assumes "t \<noteq> []" and "softDelete (tenant_ctx t) md (extended (tenant_ctx t) md D) now i f s = (Inr r, s')"
  obtains (already) "s' = s" "r \<in> set (rows s)" "md_id md r = i" "md_tenant md r = Some t" "md_deletedAt md r \<noteq> None"
  | (fresh) e xs x ys where "e \<in> set (rows s)" "md_id md e = i" "md_tenant md e = Some t" "md_deletedAt md e = None"
      "rows s = xs @ x # ys" "md_id md x = i" "md_tenant md x = Some t"
      "r = md_with_deletedAt md (Some now) (f x)" "rows s' = xs @ r # ys"
proof -
  let ?E = "extended (tenant_ctx t) md D"
  obtain e s1 where find: "findByIdIncludingDeleted (tenant_ctx t) md ?E i s = (Inr (Some e), s1)"
    and k: "(if md_deletedAt md e \<noteq> None then return e
             else dg_update ?E (where_id (md_id md e)) (\<lambda>r. md_with_deletedAt md (Some now) (f r))) s1 = (Inr r, s')"
    using assms(2) by (auto simp: softDelete_def prog_elims throw_apply split: option.splits)
  have e: "s1 = s" "e \<in> set (rows s)" "md_id md e = i" "md_tenant md e = Some t"
    using findByIdIncludingDeleted_Some[OF assms(1) find] by auto
  show thesis
  proof (cases "md_deletedAt md e = None")
    case True
    then have u: "dg_update D (AList.update ''tenantId'' (Is (CStr t)) (where_id i))
        (\<lambda>r. md_with_deletedAt md (Some now) (f r)) s = (Inr r, s')"
      using k e by (simp add: ext_update assms(1))
    show thesis using update_Inr[OF u] fresh[OF e(2,3,4) True] by (auto simp: sat_id_tenant)
  next
    case False
    then show thesis using k e already by (simp add: return_apply)
  qed
qed

lemma softDelete_hides:
  assumes t: "t \<noteq> []" and soft: "md_softDeletable md" and uniq: "distinct (map (md_id md) (rows s))"
    and keep: "\<And>r. md_id md (f r) = md_id md r"
    and del: "softDelete (tenant_ctx t) md (extended (tenant_ctx t) md D) now i f s = (Inr r, s')"
    and look: "findById (tenant_ctx t) md (extended (tenant_ctx t) md D) i s' = (Inr x, s'')"
  shows "x = None"
proof (rule ccontr)
  assume "x \<noteq> None"
  then obtain y where y: "y \<in> set (rows s')" "md_id md y = i" "md_deletedAt md y = None"
    using findById_Some[OF t, of i s'] look soft by auto
  from t del show False
  proof (cases rule: softDelete_cases)
    case already
    then show False using unique_row[OF uniq, of r y] y by auto
  next
    case (fresh e xs x ys)
    have "map (md_id md) (rows s') = map (md_id md) (rows s)" using fresh keep by simp
    then have "r = y" using unique_row[of "rows s'" r y] uniq y fresh keep by simp
    moreover have "md_deletedAt md r = Some now" using fresh(8) soft by simp
    ultimately show False using y(3) by simp
  qed
qed

lemma softDelete_restore:
  assumes t: "t \<noteq> []" and soft: "md_softDeletable md" and uniq: "distinct (map (md_id md) (rows s))"
    and live: "e \<in> set (rows s)" "md_id md e = i" "md_deletedAt md e = None"
    and del: "softDelete (tenant_ctx t) md (extended (tenant_ctx t) md D) now i (\<lambda>r. r) s = (Inr r, s1)"
    and res: "restore (tenant_ctx t) md (extended (tenant_ctx t) md D) i (\<lambda>r. r) s1 = (Inr r2, s2)"
  shows "r2 = e \<and> rows s2 = rows s"
  using t del
proof (cases rule: softDelete_cases)
  case already
  then show ?thesis using unique_row[OF uniq, of r e] live by auto
next
  case (fresh e' xs x ys)
  have xe: "x = e" using unique_row[OF uniq, of x e] fresh live by auto
  have uniq1: "distinct (map (md_id md) (rows s1))" using uniq fresh by simp
  let ?E = "extended (tenant_ctx t) md D"
  obtain d s1' where find: "findByIdIncludingDeleted (tenant_ctx t) md ?E i s1 = (Inr (Some d), s1')"
    and k: "(if md_deletedAt md d = None then return d
             else dg_update ?E (where_id (md_id md d)) (md_with_deletedAt md None)) s1' = (Inr r2, s2)"
    using res by (auto simp: restore_def prog_elims throw_apply split: option.splits)
  have d: "s1' = s1" "d \<in> set (rows s1)" "md_id md d = i"
    using findByIdIncludingDeleted_Some[OF t find] by auto
  then have dr: "d = r" using unique_row[OF uniq1, of d r] fresh by simp
  then have "dg_update D (AList.update ''tenantId'' (Is (CStr t)) (where_id i)) (md_with_deletedAt md None) s1 = (Inr r2, s2)"
    using k d fresh soft by (simp add: ext_update t)
  from update_Inr[OF this] obtain as q bs where q: "rows s1 = as @ q # bs" "md_id md q = i"
    "r2 = md_with_deletedAt md None q" "rows s2 = as @ r2 # bs" by (auto simp: sat_id_tenant)
  have "r \<in> set (rows s1)" "md_id md r = i" using fresh by simp_all
  then have qr: "q = r" using unique_row[OF uniq1, of q r] q(1,2) by simp
  have "r2 = e" using q(3) qr fresh(8) xe live(3) with_deletedAt_same[OF soft, of e] by simp
  moreover have "as = xs \<and> bs = ys"
    using q(1) fresh(9) qr uniq1 by (metis append_Cons_eq_iff distinct_map not_distinct_conv_prefix
        append.assoc distinct.simps(2) distinct_append)
  ultimately show ?thesis using q fresh xe by simp
qed

end

end
