(* ===== verification/Json.thy ===== *)
theory Json
  imports Prelude
begin

text \<open>
  \<^verbatim>\<open>JSON.stringify\<close> and \<^verbatim>\<open>JSON.parse\<close> on the values the services keep in Redis: null, booleans,
  integers, strings, arrays and objects. Numbers are the integers; a fraction or an exponent is
  outside the model and does not parse. The fuel of the parser is the length of its input, and
  every printed value parses back within it.
\<close>

datatype json = JNull | JBool bool | JNum int | JStr string | JArr "json list" | JObj "(string \<times> json) list"

section \<open>Printing\<close>

definition hex_digit :: "nat \<Rightarrow> char" where
  "hex_digit n = (if n < 10 then char_of (48 + n) else char_of (87 + n))"

definition esc_char :: "char \<Rightarrow> string" where
  "esc_char c =
     (if c = CHR 0x22 then [CHR 0x5C, CHR 0x22]
      else if c = CHR 0x5C then [CHR 0x5C, CHR 0x5C]
      else if c = CHR 0x08 then [CHR 0x5C, CHR ''b'']
      else if c = CHR 0x0C then [CHR 0x5C, CHR ''f'']
      else if c = CHR 0x0A then [CHR 0x5C, CHR ''n'']
      else if c = CHR 0x0D then [CHR 0x5C, CHR ''r'']
      else if c = CHR 0x09 then [CHR 0x5C, CHR ''t'']
      else if (of_char c :: nat) < 32
      then [CHR 0x5C, CHR ''u'', CHR ''0'', CHR ''0'', hex_digit (of_char c div 16), hex_digit (of_char c mod 16)]
      else [c])"

definition json_quote :: "string \<Rightarrow> string" where
  "json_quote s = CHR 0x22 # concat (map esc_char s) @ [CHR 0x22]"

fun stringify :: "json \<Rightarrow> string" where
  "stringify JNull = ''null''"
| "stringify (JBool b) = (if b then ''true'' else ''false'')"
| "stringify (JNum n) = (if n < 0 then CHR ''-'' # show_int (- n) else show_int n)"
| "stringify (JStr s) = json_quote s"
| "stringify (JArr vs) = ''['' @ join_with '','' (map stringify vs) @ '']''"
| "stringify (JObj ms) = ''{'' @ join_with '','' (map (\<lambda>(k, v). json_quote k @ '':'' @ stringify v) ms) @ ''}''"

section \<open>Parsing\<close>

definition json_space :: "char \<Rightarrow> bool" where
  "json_space c \<longleftrightarrow> c \<in> set [CHR 0x20, CHR 0x09, CHR 0x0A, CHR 0x0D]"

definition skip_ws :: "string \<Rightarrow> string" where
  "skip_ws s = dropWhile json_space s"

definition is_digit :: "char \<Rightarrow> bool" where
  "is_digit c \<longleftrightarrow> 48 \<le> (of_char c :: nat) \<and> (of_char c :: nat) \<le> 57"

definition hex_val :: "char \<Rightarrow> nat option" where
  "hex_val c = (let n = of_char c in
     if 48 \<le> n \<and> n \<le> 57 then Some (n - 48)
     else if 97 \<le> n \<and> n \<le> 102 then Some (n - 87)
     else if 65 \<le> n \<and> n \<le> 70 then Some (n - 55)
     else None)"

definition unescape :: "char \<Rightarrow> char option" where
  "unescape c =
     (if c = CHR 0x22 \<or> c = CHR 0x5C \<or> c = CHR ''/'' then Some c
      else if c = CHR ''b'' then Some (CHR 0x08)
      else if c = CHR ''f'' then Some (CHR 0x0C)
      else if c = CHR ''n'' then Some (CHR 0x0A)
      else if c = CHR ''r'' then Some (CHR 0x0D)
      else if c = CHR ''t'' then Some (CHR 0x09)
      else None)"

text \<open>The code unit of four hexadecimal digits, when it is one of the characters of the model.\<close>

definition hex4 :: "char \<Rightarrow> char \<Rightarrow> char \<Rightarrow> char \<Rightarrow> char option" where
  "hex4 a b c d = (case (hex_val a, hex_val b, hex_val c, hex_val d) of
     (Some 0, Some 0, Some x, Some y) \<Rightarrow> Some (char_of (16 * x + y))
   | _ \<Rightarrow> None)"

definition cons_fst :: "'a \<Rightarrow> ('a list \<times> 'b) option \<Rightarrow> ('a list \<times> 'b) option" where
  "cons_fst x r = map_option (\<lambda>(xs, y). (x # xs, y)) r"

fun parse_chars :: "string \<Rightarrow> (string \<times> string) option" where
  "parse_chars [] = None"
| "parse_chars (c # cs) =
     (if c = CHR 0x22 then Some ([], cs)
      else if c = CHR 0x5C then
        (case cs of
           [] \<Rightarrow> None
         | e # es \<Rightarrow>
             if e = CHR ''u'' then
               (case es of
                  h1 # h2 # h3 # h4 # rest \<Rightarrow>
                    (case hex4 h1 h2 h3 h4 of None \<Rightarrow> None | Some x \<Rightarrow> cons_fst x (parse_chars rest))
                | _ \<Rightarrow> None)
             else (case unescape e of None \<Rightarrow> None | Some x \<Rightarrow> cons_fst x (parse_chars es)))
      else if (of_char c :: nat) < 32 then None
      else cons_fst c (parse_chars cs))"

definition digits_val :: "string \<Rightarrow> int" where
  "digits_val ds = foldl (\<lambda>a c. 10 * a + (of_char c - 48)) 0 ds"

definition parse_nat :: "string \<Rightarrow> (int \<times> string) option" where
  "parse_nat s =
     (let ds = takeWhile is_digit s; rest = dropWhile is_digit s in
      if ds = [] \<or> (hd ds = CHR ''0'' \<and> tl ds \<noteq> []) then None
      else if rest \<noteq> [] \<and> hd rest \<in> set ''.eE'' then None
      else Some (digits_val ds, rest))"

definition parse_word :: "string \<Rightarrow> json \<Rightarrow> string \<Rightarrow> (json \<times> string) option" where
  "parse_word w v s = (if take (length w) s = w then Some (v, drop (length w) s) else None)"

fun parse_value :: "nat \<Rightarrow> string \<Rightarrow> (json \<times> string) option"
  and parse_elems :: "nat \<Rightarrow> string \<Rightarrow> (json list \<times> string) option"
  and parse_members :: "nat \<Rightarrow> string \<Rightarrow> ((string \<times> json) list \<times> string) option" where
  "parse_value 0 s = None"
| "parse_value (Suc n) s =
     (case skip_ws s of
        [] \<Rightarrow> None
      | c # cs \<Rightarrow>
          if c = CHR 0x22 then map_option (\<lambda>(x, r). (JStr x, r)) (parse_chars cs)
          else if c = CHR ''['' then
            (let r = skip_ws cs in
             if r \<noteq> [] \<and> hd r = CHR '']'' then Some (JArr [], tl r)
             else map_option (\<lambda>(vs, r). (JArr vs, r)) (parse_elems n r))
          else if c = CHR ''{'' then
            (let r = skip_ws cs in
             if r \<noteq> [] \<and> hd r = CHR ''}'' then Some (JObj [], tl r)
             else map_option (\<lambda>(ms, r). (JObj ms, r)) (parse_members n r))
          else if c = CHR ''n'' then parse_word ''null'' JNull (c # cs)
          else if c = CHR ''t'' then parse_word ''true'' (JBool True) (c # cs)
          else if c = CHR ''f'' then parse_word ''false'' (JBool False) (c # cs)
          else if c = CHR ''-'' then map_option (\<lambda>(x, r). (JNum (- x), r)) (parse_nat cs)
          else map_option (\<lambda>(x, r). (JNum x, r)) (parse_nat (c # cs)))"
| "parse_elems 0 s = None"
| "parse_elems (Suc n) s =
     (case parse_value (Suc n) s of
        None \<Rightarrow> None
      | Some (v, r) \<Rightarrow>
          (case skip_ws r of
             [] \<Rightarrow> None
           | c # cs \<Rightarrow>
               if c = CHR '']'' then Some ([v], cs)
               else if c = CHR '','' then cons_fst v (parse_elems n cs)
               else None))"
| "parse_members 0 s = None"
| "parse_members (Suc n) s =
     (case skip_ws s of
        [] \<Rightarrow> None
      | q # qs \<Rightarrow>
          if q \<noteq> CHR 0x22 then None
          else (case parse_chars qs of
                  None \<Rightarrow> None
                | Some (k, r) \<Rightarrow>
                    (case skip_ws r of
                       [] \<Rightarrow> None
                     | col # vs \<Rightarrow>
                         if col \<noteq> CHR '':'' then None
                         else (case parse_value n vs of
                                 None \<Rightarrow> None
                               | Some (v, r') \<Rightarrow>
                                   (case skip_ws r' of
                                      [] \<Rightarrow> None
                                    | c # cs \<Rightarrow>
                                        if c = CHR ''}'' then Some ([(k, v)], cs)
                                        else if c = CHR '','' then cons_fst (k, v) (parse_members n cs)
                                        else None)))))"

text \<open>\<^verbatim>\<open>JSON.parse\<close>: the whole text is one value.\<close>

definition json_parse :: "string \<Rightarrow> exn + json" where
  "json_parse s = (case parse_value (Suc (length s)) s of
     Some (v, r) \<Rightarrow> if skip_ws r = [] then Inr v else Inl (JsError ''Unexpected token in JSON'')
   | None \<Rightarrow> Inl (JsError ''Unexpected token in JSON''))"

section \<open>Strings\<close>

lemma of_char_hex_digit:
  "n < 16 \<Longrightarrow> (of_char (hex_digit n) :: nat) = (if n < 10 then 48 + n else 87 + n)"
  by (simp add: hex_digit_def)

lemma hex_val_digit: "n < 16 \<Longrightarrow> hex_val (hex_digit n) = Some n"
  by (simp add: hex_val_def of_char_hex_digit Let_def)

lemma hex_val_0 [simp]: "hex_val CHR ''0'' = Some 0"
  by (simp add: hex_val_def)

lemma hex4_control:
  assumes "(of_char c :: nat) < 32"
  shows "hex4 CHR ''0'' CHR ''0'' (hex_digit (of_char c div 16)) (hex_digit (of_char c mod 16)) = Some c"
proof -
  have "(of_char c :: nat) div 16 < 16" using assms by simp
  moreover have "16 * (of_char c div 16) + of_char c mod 16 = (of_char c :: nat)" by (rule mult_div_mod_eq)
  ultimately show ?thesis by (simp add: hex4_def hex_val_digit)
qed

lemma parse_esc_char: "parse_chars (esc_char c @ rest) = cons_fst c (parse_chars rest)"
proof -
  consider (quote) "c = CHR 0x22" | (slash) "c = CHR 0x5C" | (b) "c = CHR 0x08" | (f) "c = CHR 0x0C" | (n) "c = CHR 0x0A"
    | (r) "c = CHR 0x0D" | (t) "c = CHR 0x09"
    | (other) "c \<notin> {CHR 0x22, CHR 0x5C, CHR 0x08, CHR 0x0C, CHR 0x0A, CHR 0x0D, CHR 0x09}" by blast
  then show ?thesis
  proof cases
    case other
    then show ?thesis by (simp add: esc_char_def hex4_control)
  qed (simp_all add: esc_char_def unescape_def)
qed

lemma parse_json_quote: "parse_chars (concat (map esc_char s) @ CHR 0x22 # r) = Some (s, r)"
  by (induction s) (simp_all add: parse_esc_char cons_fst_def)

section \<open>Integers\<close>

lemma of_char_digit: "0 \<le> n \<Longrightarrow> n < 10 \<Longrightarrow> (of_char (char_of (48 + n) :: char) :: int) = 48 + n"
  by (simp add: of_char_of)

lemma is_digit_int: "is_digit c \<longleftrightarrow> 48 \<le> (of_char c :: int) \<and> (of_char c :: int) \<le> 57"
proof -
  have "(of_char c :: int) = int (of_char c)" by (simp only: of_nat_of_char)
  then show ?thesis unfolding is_digit_def by linarith
qed

lemma digits_val_snoc: "digits_val (ds @ [c]) = 10 * digits_val ds + (of_char c - 48)"
  by (simp add: digits_val_def)

lemma show_int_digits: "0 \<le> n \<Longrightarrow> digits_val (show_int n) = n \<and> (\<forall>c \<in> set (show_int n). is_digit c)"
proof (induction n rule: show_int.induct)
  case (1 n)
  show ?case
  proof (cases "n < 10")
    case True
    then show ?thesis using 1(2) by (subst show_int.simps)
        (simp add: show_int.simps[of n] digits_val_def is_digit_int of_char_digit)
  next
    case False
    then have IH: "digits_val (show_int (n div 10)) = n div 10" "\<forall>c \<in> set (show_int (n div 10)). is_digit c" using 1 by auto
    have m: "0 \<le> n mod 10" "n mod 10 < 10" by simp_all
    show ?thesis
      unfolding show_int.simps[of n] using False IH m
      by (simp add: digits_val_snoc of_char_digit is_digit_int)
  qed
qed

lemma show_int_nonempty [simp]: "show_int n \<noteq> []"
  using length_show_int_pos[of n] by auto

lemma show_int_lead: "0 \<le> n \<Longrightarrow> tl (show_int n) \<noteq> [] \<Longrightarrow> hd (show_int n) \<noteq> CHR ''0''"
proof (induction n rule: show_int.induct)
  case (1 n)
  show ?case
  proof (cases "n < 10")
    case True
    then show ?thesis using 1(3) by (simp add: show_int.simps[of n])
  next
    case False
    have "hd (show_int (n div 10)) \<noteq> CHR ''0''"
    proof (cases "tl (show_int (n div 10)) = []")
      case True
      have "n div 10 < 10"
      proof (rule ccontr)
        assume "\<not> n div 10 < 10"
        then have "show_int (n div 10) = show_int (n div 10 div 10) @ [char_of (48 + n div 10 mod 10)]"
          by (simp add: show_int.simps[of "n div 10"])
        then show False using True by (cases "show_int (n div 10 div 10)") simp_all
      qed
      then have "show_int (n div 10) = [char_of (48 + n div 10)]" by (simp add: show_int.simps[of "n div 10"])
      moreover have "char_of (48 + n div 10) \<noteq> (CHR ''0'' :: char)"
      proof
        assume "char_of (48 + n div 10) = CHR ''0''"
        then have "(of_char (char_of (48 + n div 10) :: char) :: int) = 48" by simp
        then show False using of_char_digit[of "n div 10"] \<open>n div 10 < 10\<close> False by simp
      qed
      ultimately show ?thesis by simp
    qed (use 1 False in auto)
    then show ?thesis using False by (simp add: show_int.simps[of n])
  qed
qed

text \<open>What may follow a value: the end, or a separator.\<close>

definition stops :: "string \<Rightarrow> bool" where
  "stops r \<longleftrightarrow> r = [] \<or> hd r \<in> {CHR '','', CHR '']'', CHR ''}''}"

lemma parse_show_int:
  assumes "0 \<le> n" "stops r"
  shows "parse_nat (show_int n @ r) = Some (n, r)"
proof -
  note d = show_int_digits[OF assms(1)]
  have nd: "r \<noteq> [] \<Longrightarrow> \<not> is_digit (hd r) \<and> hd r \<notin> set ''.eE''"
    using assms(2) by (auto simp: stops_def is_digit_def)
  then have "takeWhile is_digit r = []" "dropWhile is_digit r = r" by (cases r; simp)+
  then have "takeWhile is_digit (show_int n @ r) = show_int n" "dropWhile is_digit (show_int n @ r) = r"
    using d by simp_all
  then show ?thesis using d nd show_int_lead[OF assms(1)] by (auto simp: parse_nat_def Let_def)
qed

section \<open>Printed values parse back\<close>

lemma skip_ws_Cons [simp]: "\<not> json_space c \<Longrightarrow> skip_ws (c # cs) = c # cs"
  by (simp add: skip_ws_def)

lemma digit_head:
  assumes "0 \<le> n" obtains c cs where "show_int n = c # cs" "is_digit c"
  using show_int_digits[OF assms] by (cases "show_int n") auto

lemma digit_not_special:
  assumes "is_digit c"
  shows "c \<notin> {CHR 0x22, CHR ''['', CHR ''{'', CHR ''n'', CHR ''t'', CHR ''f'', CHR ''-'', CHR '']'', CHR ''}''} \<and> \<not> json_space c"
  using assms by (auto simp: is_digit_def json_space_def)

lemma stringify_head: "\<exists>c cs. stringify v = c # cs \<and> \<not> json_space c \<and> c \<noteq> CHR '']''"
proof (cases v)
  case (JNum n)
  show ?thesis
  proof (cases "n < 0")
    case False
    then obtain c cs where "show_int n = c # cs" "is_digit c" using digit_head[of n] by auto
    then show ?thesis using JNum False digit_not_special[of c] by auto
  qed (simp add: JNum json_space_def)
qed (auto simp: json_quote_def json_space_def)

lemma skip_ws_stringify [simp]: "skip_ws (stringify v @ r) = stringify v @ r"
  using stringify_head[of v] by auto

lemma stringify_not_Nil: "stringify v \<noteq> []"
  using stringify_head[of v] by auto

lemma join_with_Cons: "xs \<noteq> [] \<Longrightarrow> join_with s (x # xs) = x @ s @ join_with s xs"
  by (cases xs) simp_all

lemma stops_Cons [simp]: "stops (c # r) \<longleftrightarrow> c \<in> {CHR '','', CHR '']'', CHR ''}''}"
  by (simp add: stops_def)

lemma not_json_space [simp]:
  "\<not> json_space CHR '','' " "\<not> json_space CHR '']''" "\<not> json_space CHR ''}''" "\<not> json_space CHR '':''"
  "\<not> json_space CHR 0x22" "\<not> json_space CHR ''[''" "\<not> json_space CHR ''{''"
  by (simp_all add: json_space_def)

lemma parse_elems_join:
  assumes "\<And>v n r. v \<in> set vs \<Longrightarrow> length (stringify v) \<le> n \<Longrightarrow> stops r \<Longrightarrow> parse_value n (stringify v @ r) = Some (v, r)"
    and "vs \<noteq> []" "length (join_with '','' (map stringify vs)) \<le> n"
  shows "parse_elems n (join_with '','' (map stringify vs) @ CHR '']'' # r) = Some (vs, r)"
  using assms
proof (induction vs arbitrary: n)
  case (Cons v vs)
  obtain m where n: "n = Suc m"
    using Cons.prems(3) stringify_not_Nil[of v] by (cases n; cases vs) auto
  show ?case
  proof (cases "vs = []")
    case True
    then show ?thesis using Cons.prems(1)[of v "Suc m" "CHR '']'' # r"] Cons.prems(3) n by simp
  next
    case False
    let ?j = "join_with '','' (map stringify vs)"
    have j: "join_with '','' (map stringify (v # vs)) = stringify v @ CHR '','' # ?j"
      using False by (simp add: join_with_Cons)
    have len: "length (stringify v) \<le> Suc m" "length ?j \<le> m" using Cons.prems(3) n unfolding j by simp_all
    have "parse_elems m (?j @ CHR '']'' # r) = Some (vs, r)"
      using Cons.IH[OF _ False len(2)] Cons.prems(1) by simp
    then show ?thesis using Cons.prems(1)[of v "Suc m" "CHR '','' # ?j @ CHR '']'' # r"] len
      unfolding j n by (simp add: cons_fst_def)
  qed
qed simp

abbreviation member_text :: "string \<times> json \<Rightarrow> string" where
  "member_text m \<equiv> (case m of (k, v) \<Rightarrow> json_quote k @ '':'' @ stringify v)"

lemma parse_members_join:
  assumes "\<And>k v n r. (k, v) \<in> set ms \<Longrightarrow> length (stringify v) \<le> n \<Longrightarrow> stops r \<Longrightarrow> parse_value n (stringify v @ r) = Some (v, r)"
    and "ms \<noteq> []" "length (join_with '','' (map member_text ms)) \<le> n"
  shows "parse_members n (join_with '','' (map member_text ms) @ CHR ''}'' # r) = Some (ms, r)"
  using assms
proof (induction ms arbitrary: n)
  case (Cons x ms)
  obtain k v where x: "x = (k, v)" by (cases x)
  obtain m where n: "n = Suc m"
    using Cons.prems(3) by (cases n; cases ms) (auto simp: x json_quote_def)
  show ?case
  proof (cases "ms = []")
    case True
    have "length (stringify v) \<le> m" using Cons.prems(3) True by (simp add: x n json_quote_def)
    then show ?thesis using Cons.prems(1)[of k v m "CHR ''}'' # r"] True
      by (simp add: x n json_quote_def parse_json_quote)
  next
    case False
    let ?j = "join_with '','' (map member_text ms)"
    have j: "join_with '','' (map member_text (x # ms)) = json_quote k @ CHR '':'' # stringify v @ CHR '','' # ?j"
      using False by (simp add: join_with_Cons x)
    have len: "length (stringify v) \<le> m" "length ?j \<le> m" using Cons.prems(3) n unfolding j by (simp_all add: json_quote_def)
    have "parse_members m (?j @ CHR ''}'' # r) = Some (ms, r)"
      by (rule Cons.IH[OF Cons.prems(1) False len(2)]) auto
    then show ?thesis using Cons.prems(1)[of k v m "CHR '','' # ?j @ CHR ''}'' # r"] len
      unfolding j n by (simp add: x cons_fst_def json_quote_def parse_json_quote)
  qed
qed simp

lemma hd_join_stringify:
  "vs \<noteq> [] \<Longrightarrow> \<exists>c cs. join_with '','' (map stringify vs) @ r = c # cs \<and> \<not> json_space c \<and> c \<noteq> CHR '']''"
  using stringify_head[of "hd vs"] by (cases vs; cases "tl vs") auto

lemma hd_join_members: "ms \<noteq> [] \<Longrightarrow> \<exists>cs. join_with '','' (map member_text ms) @ r = CHR 0x22 # cs"
  by (cases ms; cases "tl ms") (auto simp: json_quote_def)

lemma parse_stringify: "length (stringify v) \<le> n \<Longrightarrow> stops r \<Longrightarrow> parse_value n (stringify v @ r) = Some (v, r)"
proof (induction v arbitrary: n r)
  case (JNum k)
  then obtain m where n: "n = Suc m" using stringify_not_Nil[of "JNum k"] by (cases n) auto
  show ?case
  proof (cases "k < 0")
    case True
    then show ?thesis using parse_show_int[of "- k" r] JNum.prems(2) by (simp add: n json_space_def)
  next
    case False
    then obtain c cs where c: "show_int k = c # cs" "is_digit c" using digit_head[of k] by auto
    then show ?thesis using False parse_show_int[of k r] JNum.prems(2) digit_not_special[OF c(2)] by (simp add: n)
  qed
next
  case (JArr vs)
  then obtain m where n: "n = Suc m" by (cases n) auto
  show ?case
  proof (cases "vs = []")
    case False
    obtain c cs where c: "join_with '','' (map stringify vs) @ CHR '']'' # r = c # cs" "\<not> json_space c" "c \<noteq> CHR '']''"
      using hd_join_stringify[OF False] by blast
    have "parse_elems m (join_with '','' (map stringify vs) @ CHR '']'' # r) = Some (vs, r)"
      using JArr False by (intro parse_elems_join) (auto simp: n)
    then show ?thesis using c by (simp add: n)
  qed (simp add: n)
next
  case (JObj ms)
  then obtain m where n: "n = Suc m" by (cases n) auto
  show ?case
  proof (cases "ms = []")
    case False
    obtain cs where c: "join_with '','' (map member_text ms) @ CHR ''}'' # r = CHR 0x22 # cs" using hd_join_members[OF False] by blast
    have "parse_members m (join_with '','' (map member_text ms) @ CHR ''}'' # r) = Some (ms, r)"
      using JObj False by (intro parse_members_join) (fastforce simp: n)+
    then show ?thesis using c by (simp add: n)
  qed (simp add: n)
next
  case (JBool b)
  then show ?case by (cases n; cases b) (auto simp: parse_word_def json_space_def)
next
  case JNull
  then show ?case by (cases n) (auto simp: parse_word_def json_space_def)
next
  case (JStr s)
  then show ?case by (cases n) (auto simp: json_quote_def parse_json_quote)
qed

lemma json_parse_stringify [simp]: "json_parse (stringify v) = Inr v"
  using parse_stringify[of v "Suc (length (stringify v))" "[]"] by (simp add: json_parse_def stops_def skip_ws_def)

declare stringify.simps [simp del]

lemma stringify_inj: "stringify v = stringify w \<longleftrightarrow> v = w"
  by (metis json_parse_stringify sum.inject(2))

end
