(* ===== verification/Schema.thy ===== *)
theory Schema
  imports Discount Tenant_Repository Json
begin

text \<open>
  The data of the platform: the enumerations of \<^verbatim>\<open>packages/types/src/enums.ts\<close>, the rows of
  \<^verbatim>\<open>packages/types/src/models.ts\<close> and \<^verbatim>\<open>packages/db/prisma/schema.prisma\<close> that the modelled
  services read and write, the descriptor of each tenant-scoped model (with the interpretation
  of \<open>tenant_model\<close> that discharges its laws) and the state a service works on: the database
  and the messages it has sent. Dates are milliseconds since the epoch, decimal columns are
  rationals, and the prices an order records are the numbers the service computed. A
  \<open>tenantId\<close> that is \<open>None\<close> is a field the caller left out.
\<close>

section \<open>Enumerations\<close>

datatype SubscriptionStatus = TRIALING | ACTIVE | PAST_DUE | UNPAID | CANCELED

datatype TenantStatus = TRIALING | ACTIVE | PAST_DUE | UNPAID | CANCELED

datatype TableStatus = VACANT | OCCUPIED | RESERVED | DIRTY

datatype OrderType = DINE_IN | TAKE_AWAY | DELIVERY

datatype OrderStatus = DRAFT | PENDING | ACCEPTED | PREPARING | READY | COMPLETED | CANCELLED

text \<open>The name of a status, as the column holds it.\<close>

fun show_status :: "OrderStatus \<Rightarrow> string" where
  "show_status OrderStatus.DRAFT = ''DRAFT''"
| "show_status OrderStatus.PENDING = ''PENDING''"
| "show_status OrderStatus.ACCEPTED = ''ACCEPTED''"
| "show_status OrderStatus.PREPARING = ''PREPARING''"
| "show_status OrderStatus.READY = ''READY''"
| "show_status OrderStatus.COMPLETED = ''COMPLETED''"
| "show_status OrderStatus.CANCELLED = ''CANCELLED''"

datatype CookingStatus = PENDING | PREPARING | COOKED | SERVED

datatype PaymentMethodType = CASH | CREDIT_CARD | APPLE_PAY | LOCAL_WALLET

datatype MediaType = IMAGE | LOGO | BANNER | AVATAR | DOCUMENT

fun show_mediaType :: "MediaType \<Rightarrow> string" where
  "show_mediaType IMAGE = ''IMAGE''"
| "show_mediaType LOGO = ''LOGO''"
| "show_mediaType BANNER = ''BANNER''"
| "show_mediaType AVATAR = ''AVATAR''"
| "show_mediaType DOCUMENT = ''DOCUMENT''"

datatype PaymentStatus = PENDING | AUTHORIZED | PAID | FAILED | REFUNDED

section \<open>Rows and models\<close>

definition date_cell :: "int option \<Rightarrow> cell" where
  "date_cell x = (case x of None \<Rightarrow> CNull | Some n \<Rightarrow> CInt n)"

lemma date_cell_CNull [simp]: "date_cell x = CNull \<longleftrightarrow> x = None"
  by (simp add: date_cell_def split: option.splits)

record tenant =
  tn_id :: string
  tn_name :: string
  tn_subdomain :: string
  tn_customDomain :: "string option"
  tn_status :: TenantStatus
  tn_logoUrl :: "string option"
  tn_bannerUrl :: "string option"
  tn_primaryColor :: string
  tn_secondaryColor :: string
  tn_stripeCustomerId :: "string option"
  tn_branding :: "(string \<times> json) list option"
  tn_createdAt :: int
  tn_updatedAt :: int
  tn_deletedAt :: "int option"

record restaurant =
  rs_id :: string
  rs_tenantId :: "string option"
  rs_name :: string
  rs_currency :: string
  rs_timezone :: string
  rs_taxPercentage :: rat
  rs_createdAt :: int
  rs_updatedAt :: int
  rs_deletedAt :: "int option"

definition restaurant_col :: "string \<Rightarrow> restaurant \<Rightarrow> cell" where
  "restaurant_col k r =
     (if k = ''id'' then CStr (rs_id r)
      else if k = ''tenantId'' then opt_cell (rs_tenantId r)
      else if k = ''name'' then CStr (rs_name r)
      else if k = ''currency'' then CStr (rs_currency r)
      else if k = ''timezone'' then CStr (rs_timezone r)
      else if k = ''createdAt'' then CInt (rs_createdAt r)
      else if k = ''updatedAt'' then CInt (rs_updatedAt r)
      else if k = ''deletedAt'' then date_cell (rs_deletedAt r)
      else CNull)"

definition restaurant_model :: "restaurant model" where
  "restaurant_model = \<lparr>md_name = ''Restaurant'', md_softDeletable = True, md_col = restaurant_col,
     md_id = rs_id, md_with_id = (\<lambda>i. rs_id_update (\<lambda>_. i)),
     md_tenant = rs_tenantId, md_with_tenant = (\<lambda>t. rs_tenantId_update (\<lambda>_. t)),
     md_deletedAt = rs_deletedAt, md_with_deletedAt = (\<lambda>x. rs_deletedAt_update (\<lambda>_. x))\<rparr>"

interpretation restaurant_md: tenant_model restaurant_model
  by unfold_locales (simp_all add: restaurant_model_def restaurant_col_def)

lemma restaurant_model_simps [simp]:
  "md_softDeletable restaurant_model = True" "md_id restaurant_model = rs_id" "md_tenant restaurant_model = rs_tenantId"
  "md_name restaurant_model \<notin> set unscopedModels"
  by (simp_all add: restaurant_model_def unscopedModels_def)

record branch =
  br_id :: string
  br_tenantId :: "string option"
  br_restaurantId :: string
  br_name :: string
  br_address :: string
  br_latitude :: "rat option"
  br_longitude :: "rat option"
  br_phoneNumber :: string
  br_operatingHours :: string
  br_isActive :: bool
  br_createdAt :: int
  br_updatedAt :: int
  br_deletedAt :: "int option"

definition branch_col :: "string \<Rightarrow> branch \<Rightarrow> cell" where
  "branch_col k r =
     (if k = ''id'' then CStr (br_id r)
      else if k = ''tenantId'' then opt_cell (br_tenantId r)
      else if k = ''restaurantId'' then CStr (br_restaurantId r)
      else if k = ''name'' then CStr (br_name r)
      else if k = ''address'' then CStr (br_address r)
      else if k = ''phoneNumber'' then CStr (br_phoneNumber r)
      else if k = ''operatingHours'' then CStr (br_operatingHours r)
      else if k = ''isActive'' then CBool (br_isActive r)
      else if k = ''createdAt'' then CInt (br_createdAt r)
      else if k = ''updatedAt'' then CInt (br_updatedAt r)
      else if k = ''deletedAt'' then date_cell (br_deletedAt r)
      else CNull)"

definition branch_model :: "branch model" where
  "branch_model = \<lparr>md_name = ''Branch'', md_softDeletable = True, md_col = branch_col,
     md_id = br_id, md_with_id = (\<lambda>i. br_id_update (\<lambda>_. i)),
     md_tenant = br_tenantId, md_with_tenant = (\<lambda>t. br_tenantId_update (\<lambda>_. t)),
     md_deletedAt = br_deletedAt, md_with_deletedAt = (\<lambda>x. br_deletedAt_update (\<lambda>_. x))\<rparr>"

interpretation branch_md: tenant_model branch_model
  by unfold_locales (simp_all add: branch_model_def branch_col_def)

lemma branch_model_simps [simp]:
  "md_softDeletable branch_model = True" "md_id branch_model = br_id" "md_tenant branch_model = br_tenantId"
  "md_name branch_model \<notin> set unscopedModels"
  by (simp_all add: branch_model_def unscopedModels_def)

record dining_table =
  tb_id :: string
  tb_tenantId :: "string option"
  tb_branchId :: string
  tb_number :: string
  tb_seatingCapacity :: int
  tb_qrCodeToken :: string
  tb_status :: TableStatus
  tb_createdAt :: int
  tb_updatedAt :: int
  tb_deletedAt :: "int option"

definition dining_table_col :: "string \<Rightarrow> dining_table \<Rightarrow> cell" where
  "dining_table_col k r =
     (if k = ''id'' then CStr (tb_id r)
      else if k = ''tenantId'' then opt_cell (tb_tenantId r)
      else if k = ''branchId'' then CStr (tb_branchId r)
      else if k = ''number'' then CStr (tb_number r)
      else if k = ''seatingCapacity'' then CInt (tb_seatingCapacity r)
      else if k = ''qrCodeToken'' then CStr (tb_qrCodeToken r)
      else if k = ''createdAt'' then CInt (tb_createdAt r)
      else if k = ''updatedAt'' then CInt (tb_updatedAt r)
      else if k = ''deletedAt'' then date_cell (tb_deletedAt r)
      else CNull)"

definition dining_table_model :: "dining_table model" where
  "dining_table_model = \<lparr>md_name = ''Table'', md_softDeletable = True, md_col = dining_table_col,
     md_id = tb_id, md_with_id = (\<lambda>i. tb_id_update (\<lambda>_. i)),
     md_tenant = tb_tenantId, md_with_tenant = (\<lambda>t. tb_tenantId_update (\<lambda>_. t)),
     md_deletedAt = tb_deletedAt, md_with_deletedAt = (\<lambda>x. tb_deletedAt_update (\<lambda>_. x))\<rparr>"

interpretation dining_table_md: tenant_model dining_table_model
  by unfold_locales (simp_all add: dining_table_model_def dining_table_col_def)

lemma dining_table_model_simps [simp]:
  "md_softDeletable dining_table_model = True" "md_id dining_table_model = tb_id" "md_tenant dining_table_model = tb_tenantId"
  "md_name dining_table_model \<notin> set unscopedModels"
  by (simp_all add: dining_table_model_def unscopedModels_def)

record product =
  pr_id :: string
  pr_tenantId :: "string option"
  pr_categoryId :: string
  pr_name :: string
  pr_description :: "string option"
  pr_imageUrl :: "string option"
  pr_basePrice :: rat
  pr_isAvailable :: bool
  pr_calories :: "int option"
  pr_preparationTime :: int
  pr_createdAt :: int
  pr_updatedAt :: int
  pr_deletedAt :: "int option"

definition product_col :: "string \<Rightarrow> product \<Rightarrow> cell" where
  "product_col k r =
     (if k = ''id'' then CStr (pr_id r)
      else if k = ''tenantId'' then opt_cell (pr_tenantId r)
      else if k = ''categoryId'' then CStr (pr_categoryId r)
      else if k = ''name'' then CStr (pr_name r)
      else if k = ''description'' then opt_cell (pr_description r)
      else if k = ''imageUrl'' then opt_cell (pr_imageUrl r)
      else if k = ''isAvailable'' then CBool (pr_isAvailable r)
      else if k = ''calories'' then date_cell (pr_calories r)
      else if k = ''preparationTime'' then CInt (pr_preparationTime r)
      else if k = ''createdAt'' then CInt (pr_createdAt r)
      else if k = ''updatedAt'' then CInt (pr_updatedAt r)
      else if k = ''deletedAt'' then date_cell (pr_deletedAt r)
      else CNull)"

definition product_model :: "product model" where
  "product_model = \<lparr>md_name = ''Product'', md_softDeletable = True, md_col = product_col,
     md_id = pr_id, md_with_id = (\<lambda>i. pr_id_update (\<lambda>_. i)),
     md_tenant = pr_tenantId, md_with_tenant = (\<lambda>t. pr_tenantId_update (\<lambda>_. t)),
     md_deletedAt = pr_deletedAt, md_with_deletedAt = (\<lambda>x. pr_deletedAt_update (\<lambda>_. x))\<rparr>"

interpretation product_md: tenant_model product_model
  by unfold_locales (simp_all add: product_model_def product_col_def)

lemma product_model_simps [simp]:
  "md_softDeletable product_model = True" "md_id product_model = pr_id" "md_tenant product_model = pr_tenantId"
  "md_name product_model \<notin> set unscopedModels"
  by (simp_all add: product_model_def unscopedModels_def)

record productSize =
  ps_id :: string
  ps_tenantId :: "string option"
  ps_productId :: string
  ps_name :: string
  ps_priceAdjustment :: rat

definition productSize_col :: "string \<Rightarrow> productSize \<Rightarrow> cell" where
  "productSize_col k r =
     (if k = ''id'' then CStr (ps_id r)
      else if k = ''tenantId'' then opt_cell (ps_tenantId r)
      else if k = ''productId'' then CStr (ps_productId r)
      else if k = ''name'' then CStr (ps_name r)
      else CNull)"

definition productSize_model :: "productSize model" where
  "productSize_model = \<lparr>md_name = ''ProductSize'', md_softDeletable = False, md_col = productSize_col,
     md_id = ps_id, md_with_id = (\<lambda>i. ps_id_update (\<lambda>_. i)),
     md_tenant = ps_tenantId, md_with_tenant = (\<lambda>t. ps_tenantId_update (\<lambda>_. t)),
     md_deletedAt = (\<lambda>_. None), md_with_deletedAt = (\<lambda>_ r. r)\<rparr>"

interpretation productSize_md: tenant_model productSize_model
  by unfold_locales (simp_all add: productSize_model_def productSize_col_def)

lemma productSize_model_simps [simp]:
  "md_softDeletable productSize_model = False" "md_id productSize_model = ps_id" "md_tenant productSize_model = ps_tenantId"
  "md_name productSize_model \<notin> set unscopedModels"
  by (simp_all add: productSize_model_def unscopedModels_def)

record productVariant =
  pv_id :: string
  pv_tenantId :: "string option"
  pv_productId :: string
  pv_sku :: "string option"
  pv_name :: string
  pv_price :: rat
  pv_stockQuantity :: int

definition productVariant_col :: "string \<Rightarrow> productVariant \<Rightarrow> cell" where
  "productVariant_col k r =
     (if k = ''id'' then CStr (pv_id r)
      else if k = ''tenantId'' then opt_cell (pv_tenantId r)
      else if k = ''productId'' then CStr (pv_productId r)
      else if k = ''sku'' then opt_cell (pv_sku r)
      else if k = ''name'' then CStr (pv_name r)
      else if k = ''stockQuantity'' then CInt (pv_stockQuantity r)
      else CNull)"

definition productVariant_model :: "productVariant model" where
  "productVariant_model = \<lparr>md_name = ''ProductVariant'', md_softDeletable = False, md_col = productVariant_col,
     md_id = pv_id, md_with_id = (\<lambda>i. pv_id_update (\<lambda>_. i)),
     md_tenant = pv_tenantId, md_with_tenant = (\<lambda>t. pv_tenantId_update (\<lambda>_. t)),
     md_deletedAt = (\<lambda>_. None), md_with_deletedAt = (\<lambda>_ r. r)\<rparr>"

interpretation productVariant_md: tenant_model productVariant_model
  by unfold_locales (simp_all add: productVariant_model_def productVariant_col_def)

lemma productVariant_model_simps [simp]:
  "md_softDeletable productVariant_model = False" "md_id productVariant_model = pv_id" "md_tenant productVariant_model = pv_tenantId"
  "md_name productVariant_model \<notin> set unscopedModels"
  by (simp_all add: productVariant_model_def unscopedModels_def)

record productAddon =
  pa_id :: string
  pa_tenantId :: "string option"
  pa_productId :: string
  pa_name :: string
  pa_minSelections :: int
  pa_maxSelections :: int

definition productAddon_col :: "string \<Rightarrow> productAddon \<Rightarrow> cell" where
  "productAddon_col k r =
     (if k = ''id'' then CStr (pa_id r)
      else if k = ''tenantId'' then opt_cell (pa_tenantId r)
      else if k = ''productId'' then CStr (pa_productId r)
      else if k = ''name'' then CStr (pa_name r)
      else if k = ''minSelections'' then CInt (pa_minSelections r)
      else if k = ''maxSelections'' then CInt (pa_maxSelections r)
      else CNull)"

definition productAddon_model :: "productAddon model" where
  "productAddon_model = \<lparr>md_name = ''ProductAddon'', md_softDeletable = False, md_col = productAddon_col,
     md_id = pa_id, md_with_id = (\<lambda>i. pa_id_update (\<lambda>_. i)),
     md_tenant = pa_tenantId, md_with_tenant = (\<lambda>t. pa_tenantId_update (\<lambda>_. t)),
     md_deletedAt = (\<lambda>_. None), md_with_deletedAt = (\<lambda>_ r. r)\<rparr>"

interpretation productAddon_md: tenant_model productAddon_model
  by unfold_locales (simp_all add: productAddon_model_def productAddon_col_def)

lemma productAddon_model_simps [simp]:
  "md_softDeletable productAddon_model = False" "md_id productAddon_model = pa_id" "md_tenant productAddon_model = pa_tenantId"
  "md_name productAddon_model \<notin> set unscopedModels"
  by (simp_all add: productAddon_model_def unscopedModels_def)

record addonItem =
  ai_id :: string
  ai_tenantId :: "string option"
  ai_addonGroupId :: string
  ai_name :: string
  ai_price :: rat
  ai_isAvailable :: bool

definition addonItem_col :: "string \<Rightarrow> addonItem \<Rightarrow> cell" where
  "addonItem_col k r =
     (if k = ''id'' then CStr (ai_id r)
      else if k = ''tenantId'' then opt_cell (ai_tenantId r)
      else if k = ''addonGroupId'' then CStr (ai_addonGroupId r)
      else if k = ''name'' then CStr (ai_name r)
      else if k = ''isAvailable'' then CBool (ai_isAvailable r)
      else CNull)"

definition addonItem_model :: "addonItem model" where
  "addonItem_model = \<lparr>md_name = ''AddonItem'', md_softDeletable = False, md_col = addonItem_col,
     md_id = ai_id, md_with_id = (\<lambda>i. ai_id_update (\<lambda>_. i)),
     md_tenant = ai_tenantId, md_with_tenant = (\<lambda>t. ai_tenantId_update (\<lambda>_. t)),
     md_deletedAt = (\<lambda>_. None), md_with_deletedAt = (\<lambda>_ r. r)\<rparr>"

interpretation addonItem_md: tenant_model addonItem_model
  by unfold_locales (simp_all add: addonItem_model_def addonItem_col_def)

lemma addonItem_model_simps [simp]:
  "md_softDeletable addonItem_model = False" "md_id addonItem_model = ai_id" "md_tenant addonItem_model = ai_tenantId"
  "md_name addonItem_model \<notin> set unscopedModels"
  by (simp_all add: addonItem_model_def unscopedModels_def)

definition discount_col :: "string \<Rightarrow> discount \<Rightarrow> cell" where
  "discount_col k r =
     (if k = ''id'' then CStr (d_id r)
      else if k = ''tenantId'' then opt_cell (d_tenantId r)
      else if k = ''code'' then CStr (d_code r)
      else if k = ''active'' then CBool (d_active r)
      else if k = ''usageCount'' then CInt (d_usageCount r)
      else CNull)"

definition discount_model :: "discount model" where
  "discount_model = \<lparr>md_name = ''Discount'', md_softDeletable = False, md_col = discount_col,
     md_id = d_id, md_with_id = (\<lambda>i. d_id_update (\<lambda>_. i)),
     md_tenant = d_tenantId, md_with_tenant = (\<lambda>t. d_tenantId_update (\<lambda>_. t)),
     md_deletedAt = (\<lambda>_. None), md_with_deletedAt = (\<lambda>_ r. r)\<rparr>"

interpretation discount_md: tenant_model discount_model
  by unfold_locales (simp_all add: discount_model_def discount_col_def)

lemma discount_model_simps [simp]:
  "md_softDeletable discount_model = False" "md_id discount_model = d_id" "md_tenant discount_model = d_tenantId"
  "md_name discount_model \<notin> set unscopedModels"
  by (simp_all add: discount_model_def unscopedModels_def)

record order =
  od_id :: string
  od_tenantId :: "string option"
  od_branchId :: string
  od_customerId :: "string option"
  od_tableId :: "string option"
  od_orderNumber :: string
  od_type :: OrderType
  od_paymentMethod :: PaymentMethodType
  od_status :: OrderStatus
  od_subtotal :: jsnum
  od_taxAmount :: jsnum
  od_discountAmount :: jsnum
  od_discountId :: "string option"
  od_discountCode :: "string option"
  od_tipAmount :: jsnum
  od_total :: jsnum
  od_specialNotes :: "string option"
  od_createdAt :: int
  od_updatedAt :: int

definition order_col :: "string \<Rightarrow> order \<Rightarrow> cell" where
  "order_col k r =
     (if k = ''id'' then CStr (od_id r)
      else if k = ''tenantId'' then opt_cell (od_tenantId r)
      else if k = ''branchId'' then CStr (od_branchId r)
      else if k = ''customerId'' then opt_cell (od_customerId r)
      else if k = ''tableId'' then opt_cell (od_tableId r)
      else if k = ''orderNumber'' then CStr (od_orderNumber r)
      else if k = ''status'' then CStr (show_status (od_status r))
      else if k = ''discountId'' then opt_cell (od_discountId r)
      else if k = ''discountCode'' then opt_cell (od_discountCode r)
      else if k = ''specialNotes'' then opt_cell (od_specialNotes r)
      else if k = ''createdAt'' then CInt (od_createdAt r)
      else if k = ''updatedAt'' then CInt (od_updatedAt r)
      else CNull)"

definition order_model :: "order model" where
  "order_model = \<lparr>md_name = ''Order'', md_softDeletable = False, md_col = order_col,
     md_id = od_id, md_with_id = (\<lambda>i. od_id_update (\<lambda>_. i)),
     md_tenant = od_tenantId, md_with_tenant = (\<lambda>t. od_tenantId_update (\<lambda>_. t)),
     md_deletedAt = (\<lambda>_. None), md_with_deletedAt = (\<lambda>_ r. r)\<rparr>"

interpretation order_md: tenant_model order_model
  by unfold_locales (simp_all add: order_model_def order_col_def)

lemma order_model_simps [simp]:
  "md_softDeletable order_model = False" "md_id order_model = od_id" "md_tenant order_model = od_tenantId"
  "md_name order_model \<notin> set unscopedModels"
  by (simp_all add: order_model_def unscopedModels_def)

record orderItemAddon =
  oa_id :: string
  oa_tenantId :: "string option"
  oa_addonItemId :: string
  oa_price :: rat

record orderItem =
  oi_id :: string
  oi_tenantId :: "string option"
  oi_orderId :: string
  oi_productId :: string
  oi_variantId :: "string option"
  oi_sizeId :: "string option"
  oi_quantity :: int
  oi_unitPrice :: jsnum
  oi_totalPrice :: jsnum
  oi_cookingStatus :: CookingStatus
  oi_orderItemAddons :: "orderItemAddon list"

definition orderItem_col :: "string \<Rightarrow> orderItem \<Rightarrow> cell" where
  "orderItem_col k r =
     (if k = ''id'' then CStr (oi_id r)
      else if k = ''tenantId'' then opt_cell (oi_tenantId r)
      else if k = ''orderId'' then CStr (oi_orderId r)
      else if k = ''productId'' then CStr (oi_productId r)
      else if k = ''variantId'' then opt_cell (oi_variantId r)
      else if k = ''sizeId'' then opt_cell (oi_sizeId r)
      else if k = ''quantity'' then CInt (oi_quantity r)
      else CNull)"

definition orderItem_model :: "orderItem model" where
  "orderItem_model = \<lparr>md_name = ''OrderItem'', md_softDeletable = False, md_col = orderItem_col,
     md_id = oi_id, md_with_id = (\<lambda>i. oi_id_update (\<lambda>_. i)),
     md_tenant = oi_tenantId, md_with_tenant = (\<lambda>t. oi_tenantId_update (\<lambda>_. t)),
     md_deletedAt = (\<lambda>_. None), md_with_deletedAt = (\<lambda>_ r. r)\<rparr>"

interpretation orderItem_md: tenant_model orderItem_model
  by unfold_locales (simp_all add: orderItem_model_def orderItem_col_def)

lemma orderItem_model_simps [simp]:
  "md_softDeletable orderItem_model = False" "md_id orderItem_model = oi_id" "md_tenant orderItem_model = oi_tenantId"
  "md_name orderItem_model \<notin> set unscopedModels"
  by (simp_all add: orderItem_model_def unscopedModels_def)

record kitchenQueue =
  kq_id :: string
  kq_tenantId :: "string option"
  kq_branchId :: string
  kq_orderId :: string
  kq_ticketNumber :: string
  kq_priority :: string
  kq_startedCookingAt :: "int option"
  kq_completedCookingAt :: "int option"

definition kitchenQueue_col :: "string \<Rightarrow> kitchenQueue \<Rightarrow> cell" where
  "kitchenQueue_col k r =
     (if k = ''id'' then CStr (kq_id r)
      else if k = ''tenantId'' then opt_cell (kq_tenantId r)
      else if k = ''branchId'' then CStr (kq_branchId r)
      else if k = ''orderId'' then CStr (kq_orderId r)
      else if k = ''ticketNumber'' then CStr (kq_ticketNumber r)
      else if k = ''priority'' then CStr (kq_priority r)
      else if k = ''startedCookingAt'' then date_cell (kq_startedCookingAt r)
      else if k = ''completedCookingAt'' then date_cell (kq_completedCookingAt r)
      else CNull)"

definition kitchenQueue_model :: "kitchenQueue model" where
  "kitchenQueue_model = \<lparr>md_name = ''KitchenQueue'', md_softDeletable = False, md_col = kitchenQueue_col,
     md_id = kq_id, md_with_id = (\<lambda>i. kq_id_update (\<lambda>_. i)),
     md_tenant = kq_tenantId, md_with_tenant = (\<lambda>t. kq_tenantId_update (\<lambda>_. t)),
     md_deletedAt = (\<lambda>_. None), md_with_deletedAt = (\<lambda>_ r. r)\<rparr>"

interpretation kitchenQueue_md: tenant_model kitchenQueue_model
  by unfold_locales (simp_all add: kitchenQueue_model_def kitchenQueue_col_def)

lemma kitchenQueue_model_simps [simp]:
  "md_softDeletable kitchenQueue_model = False" "md_id kitchenQueue_model = kq_id" "md_tenant kitchenQueue_model = kq_tenantId"
  "md_name kitchenQueue_model \<notin> set unscopedModels"
  by (simp_all add: kitchenQueue_model_def unscopedModels_def)

record payment =
  py_id :: string
  py_tenantId :: "string option"
  py_orderId :: string
  py_paymentMethod :: PaymentMethodType
  py_status :: PaymentStatus
  py_amount :: jsnum
  py_transactionReference :: "string option"
  py_completedAt :: "int option"

definition payment_col :: "string \<Rightarrow> payment \<Rightarrow> cell" where
  "payment_col k r =
     (if k = ''id'' then CStr (py_id r)
      else if k = ''tenantId'' then opt_cell (py_tenantId r)
      else if k = ''orderId'' then CStr (py_orderId r)
      else if k = ''transactionReference'' then opt_cell (py_transactionReference r)
      else if k = ''completedAt'' then date_cell (py_completedAt r)
      else CNull)"

definition payment_model :: "payment model" where
  "payment_model = \<lparr>md_name = ''Payment'', md_softDeletable = False, md_col = payment_col,
     md_id = py_id, md_with_id = (\<lambda>i. py_id_update (\<lambda>_. i)),
     md_tenant = py_tenantId, md_with_tenant = (\<lambda>t. py_tenantId_update (\<lambda>_. t)),
     md_deletedAt = (\<lambda>_. None), md_with_deletedAt = (\<lambda>_ r. r)\<rparr>"

interpretation payment_md: tenant_model payment_model
  by unfold_locales (simp_all add: payment_model_def payment_col_def)

lemma payment_model_simps [simp]:
  "md_softDeletable payment_model = False" "md_id payment_model = py_id" "md_tenant payment_model = py_tenantId"
  "md_name payment_model \<notin> set unscopedModels"
  by (simp_all add: payment_model_def unscopedModels_def)

record invoice =
  iv_id :: string
  iv_tenantId :: "string option"
  iv_orderId :: string
  iv_invoiceNumber :: string
  iv_pdfUrl :: string

definition invoice_col :: "string \<Rightarrow> invoice \<Rightarrow> cell" where
  "invoice_col k r =
     (if k = ''id'' then CStr (iv_id r)
      else if k = ''tenantId'' then opt_cell (iv_tenantId r)
      else if k = ''orderId'' then CStr (iv_orderId r)
      else if k = ''invoiceNumber'' then CStr (iv_invoiceNumber r)
      else if k = ''pdfUrl'' then CStr (iv_pdfUrl r)
      else CNull)"

definition invoice_model :: "invoice model" where
  "invoice_model = \<lparr>md_name = ''Invoice'', md_softDeletable = False, md_col = invoice_col,
     md_id = iv_id, md_with_id = (\<lambda>i. iv_id_update (\<lambda>_. i)),
     md_tenant = iv_tenantId, md_with_tenant = (\<lambda>t. iv_tenantId_update (\<lambda>_. t)),
     md_deletedAt = (\<lambda>_. None), md_with_deletedAt = (\<lambda>_ r. r)\<rparr>"

interpretation invoice_md: tenant_model invoice_model
  by unfold_locales (simp_all add: invoice_model_def invoice_col_def)

lemma invoice_model_simps [simp]:
  "md_softDeletable invoice_model = False" "md_id invoice_model = iv_id" "md_tenant invoice_model = iv_tenantId"
  "md_name invoice_model \<notin> set unscopedModels"
  by (simp_all add: invoice_model_def unscopedModels_def)

record customer =
  cu_id :: string
  cu_tenantId :: "string option"
  cu_firstName :: string
  cu_lastName :: string
  cu_email :: string
  cu_phoneNumber :: "string option"
  cu_loyaltyPoints :: int
  cu_createdAt :: int
  cu_updatedAt :: int
  cu_deletedAt :: "int option"

definition customer_col :: "string \<Rightarrow> customer \<Rightarrow> cell" where
  "customer_col k r =
     (if k = ''id'' then CStr (cu_id r)
      else if k = ''tenantId'' then opt_cell (cu_tenantId r)
      else if k = ''firstName'' then CStr (cu_firstName r)
      else if k = ''lastName'' then CStr (cu_lastName r)
      else if k = ''email'' then CStr (cu_email r)
      else if k = ''phoneNumber'' then opt_cell (cu_phoneNumber r)
      else if k = ''loyaltyPoints'' then CInt (cu_loyaltyPoints r)
      else if k = ''createdAt'' then CInt (cu_createdAt r)
      else if k = ''updatedAt'' then CInt (cu_updatedAt r)
      else if k = ''deletedAt'' then date_cell (cu_deletedAt r)
      else CNull)"

definition customer_model :: "customer model" where
  "customer_model = \<lparr>md_name = ''Customer'', md_softDeletable = True, md_col = customer_col,
     md_id = cu_id, md_with_id = (\<lambda>i. cu_id_update (\<lambda>_. i)),
     md_tenant = cu_tenantId, md_with_tenant = (\<lambda>t. cu_tenantId_update (\<lambda>_. t)),
     md_deletedAt = cu_deletedAt, md_with_deletedAt = (\<lambda>x. cu_deletedAt_update (\<lambda>_. x))\<rparr>"

interpretation customer_md: tenant_model customer_model
  by unfold_locales (simp_all add: customer_model_def customer_col_def)

lemma customer_model_simps [simp]:
  "md_softDeletable customer_model = True" "md_id customer_model = cu_id" "md_tenant customer_model = cu_tenantId"
  "md_name customer_model \<notin> set unscopedModels"
  by (simp_all add: customer_model_def unscopedModels_def)

record subscriptionPlan =
  sp_id :: string
  sp_name :: string
  sp_stripePriceId :: string
  sp_maxBranches :: int
  sp_maxRestaurants :: int
  sp_maxProductsPerBranch :: int
  sp_allowCustomDomains :: bool
  sp_allowOnlinePayments :: bool
  sp_allowAnalytics :: bool
  sp_priceMonthly :: rat
  sp_priceYearly :: rat
  sp_createdAt :: int

record subscription =
  sb_id :: string
  sb_tenantId :: "string option"
  sb_planId :: string
  sb_stripeSubscriptionId :: "string option"
  sb_status :: SubscriptionStatus
  sb_currentPeriodStart :: int
  sb_currentPeriodEnd :: int
  sb_cancelAtPeriodEnd :: bool
  sb_canceledAt :: "int option"
  sb_createdAt :: int

definition subscription_col :: "string \<Rightarrow> subscription \<Rightarrow> cell" where
  "subscription_col k r =
     (if k = ''id'' then CStr (sb_id r)
      else if k = ''tenantId'' then opt_cell (sb_tenantId r)
      else if k = ''planId'' then CStr (sb_planId r)
      else if k = ''stripeSubscriptionId'' then opt_cell (sb_stripeSubscriptionId r)
      else if k = ''currentPeriodStart'' then CInt (sb_currentPeriodStart r)
      else if k = ''currentPeriodEnd'' then CInt (sb_currentPeriodEnd r)
      else if k = ''cancelAtPeriodEnd'' then CBool (sb_cancelAtPeriodEnd r)
      else if k = ''canceledAt'' then date_cell (sb_canceledAt r)
      else if k = ''createdAt'' then CInt (sb_createdAt r)
      else CNull)"

definition subscription_model :: "subscription model" where
  "subscription_model = \<lparr>md_name = ''Subscription'', md_softDeletable = False, md_col = subscription_col,
     md_id = sb_id, md_with_id = (\<lambda>i. sb_id_update (\<lambda>_. i)),
     md_tenant = sb_tenantId, md_with_tenant = (\<lambda>t. sb_tenantId_update (\<lambda>_. t)),
     md_deletedAt = (\<lambda>_. None), md_with_deletedAt = (\<lambda>_ r. r)\<rparr>"

interpretation subscription_md: tenant_model subscription_model
  by unfold_locales (simp_all add: subscription_model_def subscription_col_def)

lemma subscription_model_simps [simp]:
  "md_softDeletable subscription_model = False" "md_id subscription_model = sb_id" "md_tenant subscription_model = sb_tenantId"
  "md_name subscription_model \<notin> set unscopedModels"
  by (simp_all add: subscription_model_def unscopedModels_def)

record webhook =
  wh_id :: string
  wh_tenantId :: "string option"
  wh_targetUrl :: string
  wh_secretKey :: string
  wh_events :: "string list"
  wh_isActive :: bool
  wh_createdAt :: int

definition webhook_col :: "string \<Rightarrow> webhook \<Rightarrow> cell" where
  "webhook_col k r =
     (if k = ''id'' then CStr (wh_id r)
      else if k = ''tenantId'' then opt_cell (wh_tenantId r)
      else if k = ''targetUrl'' then CStr (wh_targetUrl r)
      else if k = ''secretKey'' then CStr (wh_secretKey r)
      else if k = ''isActive'' then CBool (wh_isActive r)
      else if k = ''createdAt'' then CInt (wh_createdAt r)
      else CNull)"

definition webhook_model :: "webhook model" where
  "webhook_model = \<lparr>md_name = ''Webhook'', md_softDeletable = False, md_col = webhook_col,
     md_id = wh_id, md_with_id = (\<lambda>i. wh_id_update (\<lambda>_. i)),
     md_tenant = wh_tenantId, md_with_tenant = (\<lambda>t. wh_tenantId_update (\<lambda>_. t)),
     md_deletedAt = (\<lambda>_. None), md_with_deletedAt = (\<lambda>_ r. r)\<rparr>"

interpretation webhook_md: tenant_model webhook_model
  by unfold_locales (simp_all add: webhook_model_def webhook_col_def)

lemma webhook_model_simps [simp]:
  "md_softDeletable webhook_model = False" "md_id webhook_model = wh_id" "md_tenant webhook_model = wh_tenantId"
  "md_name webhook_model \<notin> set unscopedModels"
  by (simp_all add: webhook_model_def unscopedModels_def)

record media =
  me_id :: string
  me_tenantId :: "string option"
  me_entityType :: string
  me_entityId :: string
  me_mediaType :: MediaType
  me_originalName :: string
  me_mimeType :: string
  me_originalFileSize :: int
  me_fileSize :: int
  me_checksum :: string
  me_width :: "int option"
  me_height :: "int option"
  me_storageKey :: string
  me_storageProvider :: string
  me_originalUrl :: string
  me_thumbnailUrl :: "string option"
  me_mediumUrl :: "string option"
  me_largeUrl :: "string option"
  me_status :: string
  me_createdAt :: int
  me_updatedAt :: int

definition media_col :: "string \<Rightarrow> media \<Rightarrow> cell" where
  "media_col k r =
     (if k = ''id'' then CStr (me_id r)
      else if k = ''tenantId'' then opt_cell (me_tenantId r)
      else if k = ''entityType'' then CStr (me_entityType r)
      else if k = ''entityId'' then CStr (me_entityId r)
      else if k = ''mediaType'' then CStr (show_mediaType (me_mediaType r))
      else if k = ''originalName'' then CStr (me_originalName r)
      else if k = ''mimeType'' then CStr (me_mimeType r)
      else if k = ''originalFileSize'' then CInt (me_originalFileSize r)
      else if k = ''fileSize'' then CInt (me_fileSize r)
      else if k = ''checksum'' then CStr (me_checksum r)
      else if k = ''width'' then date_cell (me_width r)
      else if k = ''height'' then date_cell (me_height r)
      else if k = ''storageKey'' then CStr (me_storageKey r)
      else if k = ''storageProvider'' then CStr (me_storageProvider r)
      else if k = ''originalUrl'' then CStr (me_originalUrl r)
      else if k = ''thumbnailUrl'' then opt_cell (me_thumbnailUrl r)
      else if k = ''mediumUrl'' then opt_cell (me_mediumUrl r)
      else if k = ''largeUrl'' then opt_cell (me_largeUrl r)
      else if k = ''status'' then CStr (me_status r)
      else if k = ''createdAt'' then CInt (me_createdAt r)
      else if k = ''updatedAt'' then CInt (me_updatedAt r)
      else CNull)"

definition media_model :: "media model" where
  "media_model = \<lparr>md_name = ''Media'', md_softDeletable = False, md_col = media_col,
     md_id = me_id, md_with_id = (\<lambda>i. me_id_update (\<lambda>_. i)),
     md_tenant = me_tenantId, md_with_tenant = (\<lambda>t. me_tenantId_update (\<lambda>_. t)),
     md_deletedAt = (\<lambda>_. None), md_with_deletedAt = (\<lambda>_ r. r)\<rparr>"

interpretation media_md: tenant_model media_model
  by unfold_locales (simp_all add: media_model_def media_col_def)

lemma media_model_simps [simp]:
  "md_softDeletable media_model = False" "md_id media_model = me_id" "md_tenant media_model = me_tenantId"
  "md_name media_model \<notin> set unscopedModels"
  by (simp_all add: media_model_def unscopedModels_def)

record deviceToken =
  dt_id :: string
  dt_tenantId :: "string option"
  dt_userId :: string
  dt_token :: string
  dt_deviceType :: string
  dt_createdAt :: int
  dt_updatedAt :: int

definition deviceToken_col :: "string \<Rightarrow> deviceToken \<Rightarrow> cell" where
  "deviceToken_col k r =
     (if k = ''id'' then CStr (dt_id r)
      else if k = ''tenantId'' then opt_cell (dt_tenantId r)
      else if k = ''userId'' then CStr (dt_userId r)
      else if k = ''token'' then CStr (dt_token r)
      else if k = ''deviceType'' then CStr (dt_deviceType r)
      else if k = ''createdAt'' then CInt (dt_createdAt r)
      else if k = ''updatedAt'' then CInt (dt_updatedAt r)
      else CNull)"

definition deviceToken_model :: "deviceToken model" where
  "deviceToken_model = \<lparr>md_name = ''DeviceToken'', md_softDeletable = False, md_col = deviceToken_col,
     md_id = dt_id, md_with_id = (\<lambda>i. dt_id_update (\<lambda>_. i)),
     md_tenant = dt_tenantId, md_with_tenant = (\<lambda>t. dt_tenantId_update (\<lambda>_. t)),
     md_deletedAt = (\<lambda>_. None), md_with_deletedAt = (\<lambda>_ r. r)\<rparr>"

interpretation deviceToken_md: tenant_model deviceToken_model
  by unfold_locales (simp_all add: deviceToken_model_def deviceToken_col_def)

lemma deviceToken_model_simps [simp]:
  "md_softDeletable deviceToken_model = False" "md_id deviceToken_model = dt_id" "md_tenant deviceToken_model = dt_tenantId"
  "md_name deviceToken_model \<notin> set unscopedModels"
  by (simp_all add: deviceToken_model_def unscopedModels_def)

record notification =
  nt_id :: string
  nt_tenantId :: "string option"
  nt_recipientType :: string
  nt_recipientId :: string
  nt_title :: string
  nt_body :: string
  nt_type :: string
  nt_isRead :: bool
  nt_createdAt :: int

definition notification_col :: "string \<Rightarrow> notification \<Rightarrow> cell" where
  "notification_col k r =
     (if k = ''id'' then CStr (nt_id r)
      else if k = ''tenantId'' then opt_cell (nt_tenantId r)
      else if k = ''recipientType'' then CStr (nt_recipientType r)
      else if k = ''recipientId'' then CStr (nt_recipientId r)
      else if k = ''title'' then CStr (nt_title r)
      else if k = ''body'' then CStr (nt_body r)
      else if k = ''type'' then CStr (nt_type r)
      else if k = ''isRead'' then CBool (nt_isRead r)
      else if k = ''createdAt'' then CInt (nt_createdAt r)
      else CNull)"

definition notification_model :: "notification model" where
  "notification_model = \<lparr>md_name = ''Notification'', md_softDeletable = False, md_col = notification_col,
     md_id = nt_id, md_with_id = (\<lambda>i. nt_id_update (\<lambda>_. i)),
     md_tenant = nt_tenantId, md_with_tenant = (\<lambda>t. nt_tenantId_update (\<lambda>_. t)),
     md_deletedAt = (\<lambda>_. None), md_with_deletedAt = (\<lambda>_ r. r)\<rparr>"

interpretation notification_md: tenant_model notification_model
  by unfold_locales (simp_all add: notification_model_def notification_col_def)

lemma notification_model_simps [simp]:
  "md_softDeletable notification_model = False" "md_id notification_model = nt_id" "md_tenant notification_model = nt_tenantId"
  "md_name notification_model \<in> set unscopedModels"
  by (simp_all add: notification_model_def unscopedModels_def)

record user =
  us_id :: string
  us_tenantId :: "string option"
  us_firstName :: string
  us_lastName :: string
  us_email :: string
  us_passwordHash :: string
  us_phoneNumber :: "string option"
  us_isActive :: bool
  us_mfaSecret :: "string option"
  us_mfaEnabled :: bool
  us_lastLoginAt :: "int option"
  us_createdAt :: int
  us_updatedAt :: int
  us_deletedAt :: "int option"
  us_userRoles :: "string list"
  us_userBranches :: "string list"

definition user_col :: "string \<Rightarrow> user \<Rightarrow> cell" where
  "user_col k r =
     (if k = ''id'' then CStr (us_id r)
      else if k = ''tenantId'' then opt_cell (us_tenantId r)
      else if k = ''firstName'' then CStr (us_firstName r)
      else if k = ''lastName'' then CStr (us_lastName r)
      else if k = ''email'' then CStr (us_email r)
      else if k = ''passwordHash'' then CStr (us_passwordHash r)
      else if k = ''phoneNumber'' then opt_cell (us_phoneNumber r)
      else if k = ''isActive'' then CBool (us_isActive r)
      else if k = ''mfaSecret'' then opt_cell (us_mfaSecret r)
      else if k = ''mfaEnabled'' then CBool (us_mfaEnabled r)
      else if k = ''lastLoginAt'' then date_cell (us_lastLoginAt r)
      else if k = ''createdAt'' then CInt (us_createdAt r)
      else if k = ''updatedAt'' then CInt (us_updatedAt r)
      else if k = ''deletedAt'' then date_cell (us_deletedAt r)
      else CNull)"

definition user_model :: "user model" where
  "user_model = \<lparr>md_name = ''User'', md_softDeletable = True, md_col = user_col,
     md_id = us_id, md_with_id = (\<lambda>i. us_id_update (\<lambda>_. i)),
     md_tenant = us_tenantId, md_with_tenant = (\<lambda>t. us_tenantId_update (\<lambda>_. t)),
     md_deletedAt = us_deletedAt, md_with_deletedAt = (\<lambda>x. us_deletedAt_update (\<lambda>_. x))\<rparr>"

interpretation user_md: tenant_model user_model
  by unfold_locales (simp_all add: user_model_def user_col_def)

lemma user_model_simps [simp]:
  "md_softDeletable user_model = True" "md_id user_model = us_id" "md_tenant user_model = us_tenantId"
  "md_name user_model \<notin> set unscopedModels"
  by (simp_all add: user_model_def unscopedModels_def)

record permission =
  pm_action :: string
  pm_resource :: string

record category =
  ct_id :: string
  ct_tenantId :: "string option"
  ct_restaurantId :: string
  ct_name :: string
  ct_sortOrder :: int
  ct_isActive :: bool
  ct_createdAt :: int
  ct_updatedAt :: int
  ct_deletedAt :: "int option"

definition category_col :: "string \<Rightarrow> category \<Rightarrow> cell" where
  "category_col k r =
     (if k = ''id'' then CStr (ct_id r)
      else if k = ''tenantId'' then opt_cell (ct_tenantId r)
      else if k = ''restaurantId'' then CStr (ct_restaurantId r)
      else if k = ''name'' then CStr (ct_name r)
      else if k = ''sortOrder'' then CInt (ct_sortOrder r)
      else if k = ''isActive'' then CBool (ct_isActive r)
      else if k = ''createdAt'' then CInt (ct_createdAt r)
      else if k = ''updatedAt'' then CInt (ct_updatedAt r)
      else if k = ''deletedAt'' then date_cell (ct_deletedAt r)
      else CNull)"

definition category_model :: "category model" where
  "category_model = \<lparr>md_name = ''Category'', md_softDeletable = True, md_col = category_col,
     md_id = ct_id, md_with_id = (\<lambda>i. ct_id_update (\<lambda>_. i)),
     md_tenant = ct_tenantId, md_with_tenant = (\<lambda>t. ct_tenantId_update (\<lambda>_. t)),
     md_deletedAt = ct_deletedAt, md_with_deletedAt = (\<lambda>x. ct_deletedAt_update (\<lambda>_. x))\<rparr>"

interpretation category_md: tenant_model category_model
  by unfold_locales (simp_all add: category_model_def category_col_def)

lemma category_model_simps [simp]:
  "md_softDeletable category_model = True" "md_id category_model = ct_id" "md_tenant category_model = ct_tenantId"
  "md_name category_model \<notin> set unscopedModels"
  by (simp_all add: category_model_def unscopedModels_def)

record role =
  ro_id :: string
  ro_tenantId :: "string option"
  ro_name :: string
  ro_displayName :: string
  ro_description :: "string option"
  ro_createdAt :: int
  ro_rolePermissions :: "permission list"

definition role_col :: "string \<Rightarrow> role \<Rightarrow> cell" where
  "role_col k r =
     (if k = ''id'' then CStr (ro_id r)
      else if k = ''tenantId'' then opt_cell (ro_tenantId r)
      else if k = ''name'' then CStr (ro_name r)
      else if k = ''displayName'' then CStr (ro_displayName r)
      else if k = ''description'' then opt_cell (ro_description r)
      else if k = ''createdAt'' then CInt (ro_createdAt r)
      else CNull)"

definition role_model :: "role model" where
  "role_model = \<lparr>md_name = ''Role'', md_softDeletable = False, md_col = role_col,
     md_id = ro_id, md_with_id = (\<lambda>i. ro_id_update (\<lambda>_. i)),
     md_tenant = ro_tenantId, md_with_tenant = (\<lambda>t. ro_tenantId_update (\<lambda>_. t)),
     md_deletedAt = (\<lambda>_. None), md_with_deletedAt = (\<lambda>_ r. r)\<rparr>"

interpretation role_md: tenant_model role_model
  by unfold_locales (simp_all add: role_model_def role_col_def)

lemma role_model_simps [simp]:
  "md_softDeletable role_model = False" "md_id role_model = ro_id" "md_tenant role_model = ro_tenantId"
  "md_name role_model \<notin> set unscopedModels"
  by (simp_all add: role_model_def unscopedModels_def)

end
