(* ===== verification/Memory_Db.thy ===== *)
theory Memory_Db
  imports Tenant_Repository
begin

text \<open>
  A table held in memory: an executable delegate over any state that has the table as a
  component. It shows that the behaviour \<open>prisma_delegate\<close> and \<open>prisma_live\<close> ask of the
  database client can be met, and it is what concrete runs of the services are evaluated on.
\<close>

section \<open>The delegate\<close>

fun update_first :: "('a \<Rightarrow> bool) \<Rightarrow> ('a \<Rightarrow> 'a) \<Rightarrow> 'a list \<Rightarrow> ('a \<times> 'a list) option" where
  "update_first P f [] = None"
| "update_first P f (x # xs) =
     (if P x then Some (f x, f x # xs)
      else case update_first P f xs of None \<Rightarrow> None | Some (y, ys) \<Rightarrow> Some (y, x # ys))"

fun remove_first :: "('a \<Rightarrow> bool) \<Rightarrow> 'a list \<Rightarrow> ('a \<times> 'a list) option" where
  "remove_first P [] = None"
| "remove_first P (x # xs) =
     (if P x then Some (x, xs)
      else case remove_first P xs of None \<Rightarrow> None | Some (y, ys) \<Rightarrow> Some (y, x # ys))"

text \<open>An identifier longer than all the given ones.\<close>

definition fresh_id :: "string list \<Rightarrow> string" where
  "fresh_id ids = replicate (Suc (sum_list (map length ids))) (CHR ''x'')"

definition mem_delegate ::
  "'r model \<Rightarrow> ('d \<Rightarrow> 'r list) \<Rightarrow> ('r list \<Rightarrow> 'd \<Rightarrow> 'd) \<Rightarrow> ('d, 'r) delegate" where
  "mem_delegate md get put = \<lparr>
     dg_findFirst = (\<lambda>w s. (Inr (List.find (sat md w) (get s)), s)),
     dg_findUnique = (\<lambda>w s. (Inr (List.find (sat md w) (get s)), s)),
     dg_findMany = (\<lambda>w t k s. (Inr (take t (drop k (filter (sat md w) (get s)))), s)),
     dg_create = (\<lambda>d s. let r = md_with_id md (fresh_id (map (md_id md) (get s))) d
                        in (Inr r, put (get s @ [r]) s)),
     dg_update = (\<lambda>w f s. case update_first (sat md w) f (get s) of
                            None \<Rightarrow> (Inl (JsError ''Record to update not found.''), s)
                          | Some (r, rs) \<Rightarrow> (Inr r, put rs s)),
     dg_delete = (\<lambda>w s. case remove_first (sat md w) (get s) of
                          None \<Rightarrow> (Inl (JsError ''Record to delete does not exist.''), s)
                        | Some (r, rs) \<Rightarrow> (Inr r, put rs s)),
     dg_count = (\<lambda>w s. (Inr (length (filter (sat md w) (get s))), s)),
     dg_findAll = (\<lambda>w s. (Inr (filter (sat md w) (get s)), s))\<rparr>"

section \<open>Its behaviour\<close>

lemma update_first_SomeD:
  "update_first P f xs = Some (y, ys) \<Longrightarrow>
     \<exists>as x bs. xs = as @ x # bs \<and> P x \<and> y = f x \<and> ys = as @ f x # bs"
proof (induction xs arbitrary: y ys)
  case (Cons a xs)
  show ?case
  proof (cases "P a")
    case True
    then show ?thesis using Cons.prems by (intro exI[of _ "[]"]) auto
  next
    case False
    then obtain zs where zs: "update_first P f xs = Some (y, zs)" "ys = a # zs"
      using Cons.prems by (auto split: option.splits)
    from Cons.IH[OF zs(1)] obtain as x bs where
      "xs = as @ x # bs" "P x" "y = f x" "zs = as @ f x # bs" by blast
    then show ?thesis using zs(2) by (intro exI[of _ "a # as"]) auto
  qed
qed simp

lemma update_first_None: "update_first P f xs = None \<longleftrightarrow> (\<forall>x \<in> set xs. \<not> P x)"
  by (induction xs) (auto split: option.splits)

lemma remove_first_SomeD:
  "remove_first P xs = Some (y, ys) \<Longrightarrow> \<exists>as bs. xs = as @ y # bs \<and> P y \<and> ys = as @ bs"
proof (induction xs arbitrary: y ys)
  case (Cons a xs)
  show ?case
  proof (cases "P a")
    case True
    then show ?thesis using Cons.prems by (intro exI[of _ "[]"] exI[of _ xs]) auto
  next
    case False
    then obtain zs where zs: "remove_first P xs = Some (y, zs)" "ys = a # zs"
      using Cons.prems by (auto split: option.splits)
    from Cons.IH[OF zs(1)] obtain as bs where "xs = as @ y # bs" "P y" "zs = as @ bs" by blast
    then show ?thesis using zs(2) by (intro exI[of _ "a # as"] exI[of _ bs]) auto
  qed
qed simp

lemma remove_first_None: "remove_first P xs = None \<longleftrightarrow> (\<forall>x \<in> set xs. \<not> P x)"
  by (induction xs) (auto split: option.splits)

lemma fresh_id_fresh: "fresh_id ids \<notin> set ids"
proof
  let ?i = "fresh_id ids"
  assume i: "?i \<in> set ids"
  have "length ?i \<le> sum_list (map length ids)" using i by (intro member_le_sum_list) auto
  then show False by (simp add: fresh_id_def)
qed

text \<open>A component of a state that can be read and replaced: the shape of a table.\<close>

locale table_lens = tenant_model md
  for md :: "'r model" +
  fixes get :: "'d \<Rightarrow> 'r list" and put :: "'r list \<Rightarrow> 'd \<Rightarrow> 'd"
  assumes get_put: "get (put xs s) = xs"
    and put_put: "put xs (put ys s) = put xs s"

sublocale table_lens \<subseteq> live: prisma_live md "mem_delegate md get put" get "put []"
proof (unfold_locales, goal_cases)
  case (2 w s r)
  then show ?case by (auto simp: mem_delegate_def find_Some_iff)
next
  case (3 w s r)
  then show ?case by (auto simp: mem_delegate_def find_None_iff)
next
  case (5 w s r)
  then show ?case by (auto simp: mem_delegate_def find_Some_iff)
next
  case (6 w s r)
  then show ?case by (auto simp: mem_delegate_def find_None_iff)
next
  case (8 w t k s rs)
  then show ?case by (auto simp: mem_delegate_def dest!: in_set_takeD in_set_dropD)
next
  case (12 d s r s')
  let ?i = "fresh_id (map (md_id md) (get s))"
  have "\<forall>x \<in> set (get s). md_id md x \<noteq> ?i"
    using fresh_id_fresh[of "map (md_id md) (get s)"] by force
  then show ?case
    using 12 by (auto simp: mem_delegate_def Let_def get_put put_put intro!: exI[of _ ?i])
next
  case (14 w f s r' s')
  then show ?case
    by (auto simp: mem_delegate_def get_put put_put split: option.splits dest!: update_first_SomeD) blast
next
  case (16 w s r s')
  then show ?case
    by (auto simp: mem_delegate_def get_put put_put split: option.splits dest!: remove_first_SomeD) blast
next
  case (24 r s w f)
  then have "update_first (sat md w) f (get s) \<noteq> None" by (auto simp: update_first_None)
  then show ?case by (auto simp: mem_delegate_def)
next
  case (25 r s w)
  then have "remove_first (sat md w) (get s) \<noteq> None" by (auto simp: remove_first_None)
  then show ?case by (auto simp: mem_delegate_def)
qed (auto simp: mem_delegate_def Let_def split: option.splits prod.splits)

end
