(* ===== verification/Database.thy ===== *)
theory Database
  imports Schema Memory_Db
begin

text \<open>
  The database as the services see it: the Prisma client (the generated code of
  \<^verbatim>\<open>packages/db/src/generated-client\<close> and the engine behind it) is a parameter, one delegate per
  model plus the queries that span several tables, and \<open>prisma_client\<close> states what its
  documentation promises, in terms of the tables \<open>T d\<close> a database state \<open>d\<close> holds.
  \<open>mem_prisma\<close> is an executable client over tables in memory, on which the locale is
  interpreted and concrete runs are evaluated.
\<close>

section \<open>Tables and joined rows\<close>

record tables =
  t_tenants :: "tenant list"
  t_plans :: "subscriptionPlan list"
  t_permissions :: "permission list"
  t_notifications :: "notification list"
  t_restaurants :: "restaurant list"
  t_branches :: "branch list"
  t_diningTables :: "dining_table list"
  t_products :: "product list"
  t_productSizes :: "productSize list"
  t_productVariants :: "productVariant list"
  t_productAddons :: "productAddon list"
  t_addonItems :: "addonItem list"
  t_discounts :: "discount list"
  t_orders :: "order list"
  t_orderItems :: "orderItem list"
  t_kitchenQueues :: "kitchenQueue list"
  t_payments :: "payment list"
  t_invoices :: "invoice list"
  t_customers :: "customer list"
  t_subscriptions :: "subscription list"
  t_webhooks :: "webhook list"
  t_medias :: "media list"
  t_deviceTokens :: "deviceToken list"
  t_users :: "user list"
  t_roles :: "role list"
  t_categories :: "category list"

text \<open>An order item with the relations the ticket queries include, and a ticket with its order.\<close>

record itemJoin =
  ij_item :: orderItem
  ij_product :: "product option"
  ij_size :: "productSize option"
  ij_addonItems :: "addonItem option list"

record ticketJoin =
  tj_queue :: kitchenQueue
  tj_order :: order
  tj_items :: "itemJoin list"

text \<open>A user with the roles and the live branches the user queries include.\<close>

record userJoin =
  uj_user :: user
  uj_roles :: "role list"
  uj_branchIds :: "string list"

definition user_roles :: "tables \<Rightarrow> user \<Rightarrow> role set" where
  "user_roles X u = {r \<in> set (t_roles X). ro_id r \<in> set (us_userRoles u)}"

definition user_join :: "tables \<Rightarrow> userJoin \<Rightarrow> bool" where
  "user_join X j \<longleftrightarrow> uj_user j \<in> set (t_users X) \<and> set (uj_roles j) = user_roles X (uj_user j) \<and>
     set (uj_branchIds j) = {b \<in> set (us_userBranches (uj_user j)). \<exists>br \<in> set (t_branches X). br_id br = b \<and> br_deletedAt br = None}"

text \<open>What the menu query includes: the categories with their products, and those with their options.\<close>

record addonJoin =
  aj_group :: productAddon
  aj_items :: "addonItem list"

record productJoin =
  pj_product :: product
  pj_sizes :: "productSize list"
  pj_variants :: "productVariant list"
  pj_addons :: "addonJoin list"

record categoryJoin =
  cj_category :: category
  cj_products :: "productJoin list"

text \<open>The nested reads go by the foreign key; only the outermost \<^verbatim>\<open>where\<close> is rewritten by the extension.\<close>

definition addon_join :: "tables \<Rightarrow> string \<Rightarrow> addonJoin \<Rightarrow> bool" where
  "addon_join X i j \<longleftrightarrow> aj_group j \<in> set (t_productAddons X) \<and> pa_productId (aj_group j) = i \<and>
     set (aj_items j) = {x \<in> set (t_addonItems X). ai_addonGroupId x = pa_id (aj_group j) \<and> ai_isAvailable x}"

definition product_join :: "tables \<Rightarrow> string \<Rightarrow> productJoin \<Rightarrow> bool" where
  "product_join X c j \<longleftrightarrow> pj_product j \<in> set (t_products X) \<and> pr_categoryId (pj_product j) = c \<and>
     pr_isAvailable (pj_product j) \<and> pr_deletedAt (pj_product j) = None \<and>
     set (pj_sizes j) = {x \<in> set (t_productSizes X). ps_productId x = pr_id (pj_product j)} \<and>
     set (pj_variants j) = {x \<in> set (t_productVariants X). pv_productId x = pr_id (pj_product j)} \<and>
     (\<forall>a \<in> set (pj_addons j). addon_join X (pr_id (pj_product j)) a) \<and>
     aj_group ` set (pj_addons j) = {x \<in> set (t_productAddons X). pa_productId x = pr_id (pj_product j)}"

definition category_join :: "tables \<Rightarrow> nat \<Rightarrow> categoryJoin \<Rightarrow> bool" where
  "category_join X n j \<longleftrightarrow> cj_category j \<in> set (t_categories X) \<and> length (cj_products j) \<le> n \<and>
     (\<forall>p \<in> set (cj_products j). product_join X (ct_id (cj_category j)) p) \<and>
     (length (cj_products j) < n \<longrightarrow> pj_product ` set (cj_products j) =
        {x \<in> set (t_products X). pr_categoryId x = ct_id (cj_category j) \<and> pr_isAvailable x \<and> pr_deletedAt x = None})"

text \<open>Whether a user holds a role of that name and tenant.\<close>

definition holds_role :: "tables \<Rightarrow> string \<Rightarrow> string \<Rightarrow> user \<Rightarrow> bool" where
  "holds_role X name t u \<longleftrightarrow>
     (\<exists>r \<in> set (t_roles X). ro_id r \<in> set (us_userRoles u) \<and> ro_name r = name \<and> ro_tenantId r = Some t)"

section \<open>The client\<close>

record 'd prisma =
  px_tenant_findUnique :: "string \<Rightarrow> ('d, tenant option) prog"
  px_tenant_findBySubdomain :: "string \<Rightarrow> ('d, tenant option) prog"
  px_tenant_findByCustomDomain :: "string \<Rightarrow> ('d, tenant option) prog"
  px_tenant_findByStripeCustomer :: "string \<Rightarrow> ('d, tenant option) prog"
  px_tenant_update :: "string \<Rightarrow> (tenant \<Rightarrow> tenant) \<Rightarrow> ('d, tenant) prog"
  px_tenant_create :: "tenant \<Rightarrow> ('d, tenant) prog"
  px_permission_findMany :: "('d, permission list) prog"
  px_userRole_create :: "string \<Rightarrow> string \<Rightarrow> ('d, unit) prog"
  px_rolePermission_createMany :: "string \<Rightarrow> permission list \<Rightarrow> ('d, unit) prog"
  px_role_findOldest :: "string \<Rightarrow> string \<Rightarrow> ('d, role option) prog"
  px_notification :: "('d, notification) delegate"
  px_media_deleteMany :: "where_clause \<Rightarrow> ('d, nat) prog"
  px_category_findManyMenu :: "where_clause \<Rightarrow> nat \<Rightarrow> nat \<Rightarrow> ('d, categoryJoin list) prog"
  px_subscriptionPlan_findMany :: "('d, subscriptionPlan list) prog"
  px_subscriptionPlan_findUnique :: "string \<Rightarrow> ('d, subscriptionPlan option) prog"
  px_subscription_findFirstJoined :: "where_clause \<Rightarrow> ('d, (subscription \<times> subscriptionPlan option) option) prog"
  px_subscription_updateMany :: "where_clause \<Rightarrow> (subscription \<Rightarrow> subscription) \<Rightarrow> ('d, nat) prog"
  px_restaurant :: "('d, restaurant) delegate"
  px_branch :: "('d, branch) delegate"
  px_table :: "('d, dining_table) delegate"
  px_product :: "('d, product) delegate"
  px_productSize :: "('d, productSize) delegate"
  px_productVariant :: "('d, productVariant) delegate"
  px_productAddon :: "('d, productAddon) delegate"
  px_addonItem :: "('d, addonItem) delegate"
  px_discount :: "('d, discount) delegate"
  px_order :: "('d, order) delegate"
  px_orderItem :: "('d, orderItem) delegate"
  px_kitchenQueue :: "('d, kitchenQueue) delegate"
  px_payment :: "('d, payment) delegate"
  px_invoice :: "('d, invoice) delegate"
  px_customer :: "('d, customer) delegate"
  px_subscription :: "('d, subscription) delegate"
  px_webhook :: "('d, webhook) delegate"
  px_media :: "('d, media) delegate"
  px_deviceToken :: "('d, deviceToken) delegate"
  px_user :: "('d, user) delegate"
  px_role :: "('d, role) delegate"
  px_category :: "('d, category) delegate"
  px_order_createWithItems :: "order \<Rightarrow> orderItem list \<Rightarrow> ('d, order \<times> orderItem list) prog"
  px_orderItem_findManyJoined :: "where_clause \<Rightarrow> ('d, itemJoin list) prog"
  px_kitchenQueue_findManyJoined :: "where_clause \<Rightarrow> OrderStatus list \<Rightarrow> ('d, ticketJoin list) prog"
  px_branch_findUniqueJoined :: "string \<Rightarrow> ('d, (branch \<times> restaurant option) option) prog"
  px_user_findFirstJoined :: "where_clause \<Rightarrow> ('d, userJoin option) prog"
  px_user_findManyJoined :: "where_clause \<Rightarrow> string option \<Rightarrow> nat \<Rightarrow> nat \<Rightarrow> ('d, userJoin list) prog"
  px_user_countWithRole :: "where_clause \<Rightarrow> string \<Rightarrow> string \<Rightarrow> ('d, nat) prog"
  px_advisoryLock :: "string \<Rightarrow> ('d, unit) prog"
  px_commit :: "'d \<Rightarrow> exn + 'd"
  px_rollback :: "'d \<Rightarrow> 'd \<Rightarrow> 'd"

text \<open>
  \<^verbatim>\<open>prisma.$transaction(async (tx) => \<dots>)\<close>: the body runs on the open transaction; it is rolled
  back when the body throws or the commit fails.
\<close>

definition transaction :: "'d prisma \<Rightarrow> ('d, 'a) prog \<Rightarrow> ('d, 'a) prog" where
  "transaction P m = (\<lambda>d. case m d of
     (Inl e, d1) \<Rightarrow> (Inl e, px_rollback P d d1)
   | (Inr x, d1) \<Rightarrow> (case px_commit P d1 of
                       Inl e \<Rightarrow> (Inl e, px_rollback P d d1)
                     | Inr d2 \<Rightarrow> (Inr x, d2)))"

text \<open>What of an order item is data of the caller: everything but the keys the database assigns.\<close>

definition item_data :: "orderItem \<Rightarrow> orderItem" where
  "item_data x = x\<lparr>oi_id := [], oi_orderId := [],
     oi_orderItemAddons := map (oa_id_update (\<lambda>_. [])) (oi_orderItemAddons x)\<rparr>"

text \<open>Everything in the database that does not belong to the tenant \<open>t\<close>.\<close>

definition other_tenants :: "string \<Rightarrow> tables \<Rightarrow> tables" where
  "other_tenants t X = X\<lparr>
     t_restaurants := foreign restaurant_model t (t_restaurants X),
     t_branches := foreign branch_model t (t_branches X),
     t_diningTables := foreign dining_table_model t (t_diningTables X),
     t_products := foreign product_model t (t_products X),
     t_productSizes := foreign productSize_model t (t_productSizes X),
     t_productVariants := foreign productVariant_model t (t_productVariants X),
     t_productAddons := foreign productAddon_model t (t_productAddons X),
     t_addonItems := foreign addonItem_model t (t_addonItems X),
     t_discounts := foreign discount_model t (t_discounts X),
     t_orders := foreign order_model t (t_orders X),
     t_orderItems := foreign orderItem_model t (t_orderItems X),
     t_kitchenQueues := foreign kitchenQueue_model t (t_kitchenQueues X),
     t_payments := foreign payment_model t (t_payments X),
     t_invoices := foreign invoice_model t (t_invoices X),
     t_customers := foreign customer_model t (t_customers X),
     t_subscriptions := foreign subscription_model t (t_subscriptions X),
     t_webhooks := foreign webhook_model t (t_webhooks X),
     t_medias := foreign media_model t (t_medias X),
     t_deviceTokens := foreign deviceToken_model t (t_deviceTokens X),
     t_users := foreign user_model t (t_users X),
     t_roles := foreign role_model t (t_roles X),
     t_categories := foreign category_model t (t_categories X)\<rparr>"

locale prisma_client =
  fixes P :: "'d prisma" and T :: "'d \<Rightarrow> tables"
  assumes tenant_state: "snd (px_tenant_findUnique P i d) = d"
    and tenant_Some: "fst (px_tenant_findUnique P i d) = Inr (Some tn) \<Longrightarrow> tn \<in> set (t_tenants (T d)) \<and> tn_id tn = i"
    and tenant_None: "fst (px_tenant_findUnique P i d) = Inr None \<Longrightarrow> tn \<in> set (t_tenants (T d)) \<Longrightarrow> tn_id tn \<noteq> i"
    and restaurant_delegate: "prisma_delegate restaurant_model (px_restaurant P) (\<lambda>d. t_restaurants (T d)) (\<lambda>d. (T d)\<lparr>t_restaurants := []\<rparr>)"
    and branch_delegate: "prisma_delegate branch_model (px_branch P) (\<lambda>d. t_branches (T d)) (\<lambda>d. (T d)\<lparr>t_branches := []\<rparr>)"
    and dining_table_delegate: "prisma_delegate dining_table_model (px_table P) (\<lambda>d. t_diningTables (T d)) (\<lambda>d. (T d)\<lparr>t_diningTables := []\<rparr>)"
    and product_delegate: "prisma_delegate product_model (px_product P) (\<lambda>d. t_products (T d)) (\<lambda>d. (T d)\<lparr>t_products := []\<rparr>)"
    and productSize_delegate: "prisma_delegate productSize_model (px_productSize P) (\<lambda>d. t_productSizes (T d)) (\<lambda>d. (T d)\<lparr>t_productSizes := []\<rparr>)"
    and productVariant_delegate: "prisma_delegate productVariant_model (px_productVariant P) (\<lambda>d. t_productVariants (T d)) (\<lambda>d. (T d)\<lparr>t_productVariants := []\<rparr>)"
    and productAddon_delegate: "prisma_delegate productAddon_model (px_productAddon P) (\<lambda>d. t_productAddons (T d)) (\<lambda>d. (T d)\<lparr>t_productAddons := []\<rparr>)"
    and addonItem_delegate: "prisma_delegate addonItem_model (px_addonItem P) (\<lambda>d. t_addonItems (T d)) (\<lambda>d. (T d)\<lparr>t_addonItems := []\<rparr>)"
    and discount_delegate: "prisma_delegate discount_model (px_discount P) (\<lambda>d. t_discounts (T d)) (\<lambda>d. (T d)\<lparr>t_discounts := []\<rparr>)"
    and order_delegate: "prisma_delegate order_model (px_order P) (\<lambda>d. t_orders (T d)) (\<lambda>d. (T d)\<lparr>t_orders := []\<rparr>)"
    and orderItem_delegate: "prisma_delegate orderItem_model (px_orderItem P) (\<lambda>d. t_orderItems (T d)) (\<lambda>d. (T d)\<lparr>t_orderItems := []\<rparr>)"
    and kitchenQueue_delegate: "prisma_delegate kitchenQueue_model (px_kitchenQueue P) (\<lambda>d. t_kitchenQueues (T d)) (\<lambda>d. (T d)\<lparr>t_kitchenQueues := []\<rparr>)"
    and payment_delegate: "prisma_delegate payment_model (px_payment P) (\<lambda>d. t_payments (T d)) (\<lambda>d. (T d)\<lparr>t_payments := []\<rparr>)"
    and invoice_delegate: "prisma_delegate invoice_model (px_invoice P) (\<lambda>d. t_invoices (T d)) (\<lambda>d. (T d)\<lparr>t_invoices := []\<rparr>)"
    and customer_delegate: "prisma_delegate customer_model (px_customer P) (\<lambda>d. t_customers (T d)) (\<lambda>d. (T d)\<lparr>t_customers := []\<rparr>)"
    and subscription_delegate: "prisma_delegate subscription_model (px_subscription P) (\<lambda>d. t_subscriptions (T d)) (\<lambda>d. (T d)\<lparr>t_subscriptions := []\<rparr>)"
    and webhook_delegate: "prisma_delegate webhook_model (px_webhook P) (\<lambda>d. t_webhooks (T d)) (\<lambda>d. (T d)\<lparr>t_webhooks := []\<rparr>)"
    and media_delegate: "prisma_delegate media_model (px_media P) (\<lambda>d. t_medias (T d)) (\<lambda>d. (T d)\<lparr>t_medias := []\<rparr>)"
    and deviceToken_delegate: "prisma_delegate deviceToken_model (px_deviceToken P) (\<lambda>d. t_deviceTokens (T d)) (\<lambda>d. (T d)\<lparr>t_deviceTokens := []\<rparr>)"
    and user_delegate: "prisma_delegate user_model (px_user P) (\<lambda>d. t_users (T d)) (\<lambda>d. (T d)\<lparr>t_users := []\<rparr>)"
    and role_delegate: "prisma_delegate role_model (px_role P) (\<lambda>d. t_roles (T d)) (\<lambda>d. (T d)\<lparr>t_roles := []\<rparr>)"
    and category_delegate: "prisma_delegate category_model (px_category P) (\<lambda>d. t_categories (T d)) (\<lambda>d. (T d)\<lparr>t_categories := []\<rparr>)"
    and createWithItems_Inr: "px_order_createWithItems P ord its d = (Inr (ord', its'), d') \<Longrightarrow>
          (\<exists>i. ord' = ord\<lparr>od_id := i\<rparr> \<and> i \<notin> od_id ` set (t_orders (T d))) \<and>
          map item_data its' = map item_data its \<and> (\<forall>x \<in> set its'. oi_orderId x = od_id ord') \<and>
          T d' = (T d)\<lparr>t_orders := t_orders (T d) @ [ord'], t_orderItems := t_orderItems (T d) @ its'\<rparr>"
    and createWithItems_Inl: "px_order_createWithItems P ord its d = (Inl e, d') \<Longrightarrow> T d' = T d"
    and itemJoin_state: "snd (px_orderItem_findManyJoined P w d) = d"
    and itemJoin_sound: "fst (px_orderItem_findManyJoined P w d) = Inr js \<Longrightarrow> j \<in> set js \<Longrightarrow>
          ij_item j \<in> set (t_orderItems (T d)) \<and> sat orderItem_model w (ij_item j) \<and>
          (\<forall>p. ij_product j = Some p \<longrightarrow> p \<in> set (t_products (T d)) \<and> pr_id p = oi_productId (ij_item j))"
    and ticketJoin_state: "snd (px_kitchenQueue_findManyJoined P w ss d) = d"
    and ticketJoin_sound: "fst (px_kitchenQueue_findManyJoined P w ss d) = Inr ks \<Longrightarrow> k \<in> set ks \<Longrightarrow>
          tj_queue k \<in> set (t_kitchenQueues (T d)) \<and> sat kitchenQueue_model w (tj_queue k) \<and>
          tj_order k \<in> set (t_orders (T d)) \<and> od_id (tj_order k) = kq_orderId (tj_queue k) \<and>
          od_status (tj_order k) \<in> set ss \<and>
          (\<forall>x \<in> set (tj_items k). ij_item x \<in> set (t_orderItems (T d)) \<and> oi_orderId (ij_item x) = od_id (tj_order k))"
    and ticketJoin_sorted: "fst (px_kitchenQueue_findManyJoined P w ss d) = Inr ks \<Longrightarrow>
          sorted (map (\<lambda>j. od_createdAt (tj_order j)) ks)"
    and branchJoin_state: "snd (px_branch_findUniqueJoined P i d) = d"
    and branchJoin_Some: "fst (px_branch_findUniqueJoined P i d) = Inr (Some (b, r)) \<Longrightarrow>
          b \<in> set (t_branches (T d)) \<and> br_id b = i"
    and userJoin_state: "snd (px_user_findFirstJoined P w d) = d"
    and userJoin_Some: "fst (px_user_findFirstJoined P w d) = Inr (Some uj) \<Longrightarrow> user_join (T d) uj \<and> sat user_model w (uj_user uj)"
    and userJoin_None: "fst (px_user_findFirstJoined P w d) = Inr None \<Longrightarrow> u \<in> set (t_users (T d)) \<Longrightarrow> \<not> sat user_model w u"
    and userJoins_state: "snd (px_user_findManyJoined P w bid n m d) = d"
    and userJoins_sound: "fst (px_user_findManyJoined P w bid n m d) = Inr ujs \<Longrightarrow> length ujs \<le> n \<and>
          (\<forall>x \<in> set ujs. user_join (T d) x \<and> sat user_model w (uj_user x) \<and> (\<forall>i. bid = Some i \<longrightarrow> i \<in> set (us_userBranches (uj_user x))))"
    and countRole_state: "snd (px_user_countWithRole P w nm t d) = d"
    and countRole_value: "fst (px_user_countWithRole P w nm t d) = Inr n \<Longrightarrow>
          n = length (filter (\<lambda>u. sat user_model w u \<and> holds_role (T d) nm t u) (t_users (T d)))"
    and subdomain_state: "snd (px_tenant_findBySubdomain P i d) = d"
    and subdomain_Some: "fst (px_tenant_findBySubdomain P i d) = Inr (Some tn) \<Longrightarrow> tn \<in> set (t_tenants (T d)) \<and> tn_subdomain tn = i"
    and customDomain_state: "snd (px_tenant_findByCustomDomain P i d) = d"
    and customDomain_Some: "fst (px_tenant_findByCustomDomain P i d) = Inr (Some tn) \<Longrightarrow>
          tn \<in> set (t_tenants (T d)) \<and> tn_customDomain tn = Some i"
    and stripeCustomer_state: "snd (px_tenant_findByStripeCustomer P i d) = d"
    and stripeCustomer_Some: "fst (px_tenant_findByStripeCustomer P i d) = Inr (Some tn) \<Longrightarrow>
          tn \<in> set (t_tenants (T d)) \<and> tn_stripeCustomerId tn = Some i"
    and tenant_update_Inr: "px_tenant_update P i f d = (Inr tn, d') \<Longrightarrow>
          \<exists>xs x ys. t_tenants (T d) = xs @ x # ys \<and> tn_id x = i \<and> tn = f x \<and> T d' = (T d)\<lparr>t_tenants := xs @ f x # ys\<rparr>"
    and tenant_update_Inl: "px_tenant_update P i f d = (Inl e, d') \<Longrightarrow> T d' = T d"
    and plan_state: "snd (px_subscriptionPlan_findUnique P i d) = d"
    and plan_Some: "fst (px_subscriptionPlan_findUnique P i d) = Inr (Some pl) \<Longrightarrow> pl \<in> set (t_plans (T d)) \<and> sp_id pl = i"
    and subscriptionJoin_state: "snd (px_subscription_findFirstJoined P w d) = d"
    and subscriptionJoin_Some: "fst (px_subscription_findFirstJoined P w d) = Inr (Some (sb, po)) \<Longrightarrow>
          sb \<in> set (t_subscriptions (T d)) \<and> sat subscription_model w sb \<and>
          (\<forall>p. po = Some p \<longrightarrow> p \<in> set (t_plans (T d)) \<and> sp_id p = sb_planId sb) \<and>
          (\<forall>x \<in> set (t_subscriptions (T d)). sat subscription_model w x \<longrightarrow> sb_createdAt x \<le> sb_createdAt sb)"
    and subscriptionMany_Inr: "px_subscription_updateMany P w g d = (Inr n, d') \<Longrightarrow>
          T d' = (T d)\<lparr>t_subscriptions := map (\<lambda>x. if sat subscription_model w x then g x else x) (t_subscriptions (T d))\<rparr>"
    and subscriptionMany_Inl: "px_subscription_updateMany P w g d = (Inl e, d') \<Longrightarrow> T d' = T d"
    and advisoryLock_state: "T (snd (px_advisoryLock P lk d)) = T d"
    and commit_Inr: "px_commit P d = Inr d' \<Longrightarrow> T d' = T d"
    and rollback: "T (px_rollback P d d') = T d"
    and subdomain_None: "fst (px_tenant_findBySubdomain P i d) = Inr None \<Longrightarrow> tn \<in> set (t_tenants (T d)) \<Longrightarrow> tn_subdomain tn \<noteq> i"
    and customDomain_None: "fst (px_tenant_findByCustomDomain P i d) = Inr None \<Longrightarrow> tn \<in> set (t_tenants (T d)) \<Longrightarrow> tn_customDomain tn \<noteq> Some i"
    and tenant_create_Inr: "px_tenant_create P tnew d = (Inr tn, d') \<Longrightarrow>
          (\<exists>i. tn = tnew\<lparr>tn_id := i\<rparr> \<and> i \<noteq> [] \<and> i \<notin> tn_id ` set (t_tenants (T d))) \<and> T d' = (T d)\<lparr>t_tenants := t_tenants (T d) @ [tn]\<rparr>"
    and tenant_create_Inl: "px_tenant_create P tnew d = (Inl e, d') \<Longrightarrow> T d' = T d"
    and permissions_state: "snd (px_permission_findMany P d) = d"
    and permissions_value: "fst (px_permission_findMany P d) = Inr pms \<Longrightarrow> set pms = set (t_permissions (T d))"
    and userRole_Inr: "px_userRole_create P uid rid d = (Inr yu, d') \<Longrightarrow>
          T d' = (T d)\<lparr>t_users := map (\<lambda>x. if us_id x = uid then x\<lparr>us_userRoles := us_userRoles x @ [rid]\<rparr> else x) (t_users (T d))\<rparr>"
    and userRole_Inl: "px_userRole_create P uid rid d = (Inl e, d') \<Longrightarrow> T d' = T d"
    and rolePermission_Inr: "px_rolePermission_createMany P rid pms d = (Inr yu, d') \<Longrightarrow>
          T d' = (T d)\<lparr>t_roles := map (\<lambda>x. if ro_id x = rid then x\<lparr>ro_rolePermissions := ro_rolePermissions x @ pms\<rparr> else x) (t_roles (T d))\<rparr>"
    and rolePermission_Inl: "px_rolePermission_createMany P rid pms d = (Inl e, d') \<Longrightarrow> T d' = T d"
    and oldestRole_state: "snd (px_role_findOldest P nm i d) = d"
    and oldestRole_Some: "fst (px_role_findOldest P nm i d) = Inr (Some rol) \<Longrightarrow>
          rol \<in> set (t_roles (T d)) \<and> ro_name rol = nm \<and> ro_id rol \<noteq> i \<and>
          (\<forall>x \<in> set (t_roles (T d)). ro_name x = nm \<and> ro_id x \<noteq> i \<longrightarrow> ro_createdAt rol \<le> ro_createdAt x)"
    and oldestRole_None: "fst (px_role_findOldest P nm i d) = Inr None \<Longrightarrow> rol \<in> set (t_roles (T d)) \<Longrightarrow> ro_name rol = nm \<Longrightarrow> ro_id rol = i"
    and notification_delegate: "prisma_delegate notification_model (px_notification P) (\<lambda>d. t_notifications (T d)) (\<lambda>d. (T d)\<lparr>t_notifications := []\<rparr>)"
    and mediaMany_Inr: "px_media_deleteMany P w d = (Inr n, d') \<Longrightarrow>
          T d' = (T d)\<lparr>t_medias := filter (\<lambda>x. \<not> sat media_model w x) (t_medias (T d))\<rparr>"
    and mediaMany_Inl: "px_media_deleteMany P w d = (Inl e, d') \<Longrightarrow> T d' = T d"
    and menuJoin_state: "snd (px_category_findManyMenu P w n m d) = d"
    and menuJoin_sound: "fst (px_category_findManyMenu P w n m d) = Inr cs \<Longrightarrow> length cs \<le> n \<and>
          (\<forall>c \<in> set cs. category_join (T d) m c \<and> sat category_model w (cj_category c))"
    and menuJoin_complete: "fst (px_category_findManyMenu P w n m d) = Inr cs \<Longrightarrow> length cs < n \<Longrightarrow>
          cj_category ` set cs = {x \<in> set (t_categories (T d)). sat category_model w x}"
    and menuJoin_sorted: "fst (px_category_findManyMenu P w n m d) = Inr cs \<Longrightarrow> sorted (map (\<lambda>c. ct_sortOrder (cj_category c)) cs)"
    and plans_state: "snd (px_subscriptionPlan_findMany P d) = d"
    and plans_value: "fst (px_subscriptionPlan_findMany P d) = Inr pls \<Longrightarrow> set pls = set (t_plans (T d)) \<and> sorted (map sp_priceMonthly pls)"

sublocale prisma_client \<subseteq> restaurants: tenant_repository restaurant_model "px_restaurant P" "\<lambda>d. t_restaurants (T d)" "\<lambda>d. (T d)\<lparr>t_restaurants := []\<rparr>"
  by (intro tenant_repository.intro tenant_repository_axioms.intro restaurant_delegate) simp

sublocale prisma_client \<subseteq> branches: tenant_repository branch_model "px_branch P" "\<lambda>d. t_branches (T d)" "\<lambda>d. (T d)\<lparr>t_branches := []\<rparr>"
  by (intro tenant_repository.intro tenant_repository_axioms.intro branch_delegate) simp

sublocale prisma_client \<subseteq> diningTables: tenant_repository dining_table_model "px_table P" "\<lambda>d. t_diningTables (T d)" "\<lambda>d. (T d)\<lparr>t_diningTables := []\<rparr>"
  by (intro tenant_repository.intro tenant_repository_axioms.intro dining_table_delegate) simp

sublocale prisma_client \<subseteq> products: tenant_repository product_model "px_product P" "\<lambda>d. t_products (T d)" "\<lambda>d. (T d)\<lparr>t_products := []\<rparr>"
  by (intro tenant_repository.intro tenant_repository_axioms.intro product_delegate) simp

sublocale prisma_client \<subseteq> productSizes: tenant_repository productSize_model "px_productSize P" "\<lambda>d. t_productSizes (T d)" "\<lambda>d. (T d)\<lparr>t_productSizes := []\<rparr>"
  by (intro tenant_repository.intro tenant_repository_axioms.intro productSize_delegate) simp

sublocale prisma_client \<subseteq> productVariants: tenant_repository productVariant_model "px_productVariant P" "\<lambda>d. t_productVariants (T d)" "\<lambda>d. (T d)\<lparr>t_productVariants := []\<rparr>"
  by (intro tenant_repository.intro tenant_repository_axioms.intro productVariant_delegate) simp

sublocale prisma_client \<subseteq> productAddons: tenant_repository productAddon_model "px_productAddon P" "\<lambda>d. t_productAddons (T d)" "\<lambda>d. (T d)\<lparr>t_productAddons := []\<rparr>"
  by (intro tenant_repository.intro tenant_repository_axioms.intro productAddon_delegate) simp

sublocale prisma_client \<subseteq> addonItems: tenant_repository addonItem_model "px_addonItem P" "\<lambda>d. t_addonItems (T d)" "\<lambda>d. (T d)\<lparr>t_addonItems := []\<rparr>"
  by (intro tenant_repository.intro tenant_repository_axioms.intro addonItem_delegate) simp

sublocale prisma_client \<subseteq> discounts: tenant_repository discount_model "px_discount P" "\<lambda>d. t_discounts (T d)" "\<lambda>d. (T d)\<lparr>t_discounts := []\<rparr>"
  by (intro tenant_repository.intro tenant_repository_axioms.intro discount_delegate) simp

sublocale prisma_client \<subseteq> orders: tenant_repository order_model "px_order P" "\<lambda>d. t_orders (T d)" "\<lambda>d. (T d)\<lparr>t_orders := []\<rparr>"
  by (intro tenant_repository.intro tenant_repository_axioms.intro order_delegate) simp

sublocale prisma_client \<subseteq> orderItems: tenant_repository orderItem_model "px_orderItem P" "\<lambda>d. t_orderItems (T d)" "\<lambda>d. (T d)\<lparr>t_orderItems := []\<rparr>"
  by (intro tenant_repository.intro tenant_repository_axioms.intro orderItem_delegate) simp

sublocale prisma_client \<subseteq> kitchenQueues: tenant_repository kitchenQueue_model "px_kitchenQueue P" "\<lambda>d. t_kitchenQueues (T d)" "\<lambda>d. (T d)\<lparr>t_kitchenQueues := []\<rparr>"
  by (intro tenant_repository.intro tenant_repository_axioms.intro kitchenQueue_delegate) simp

sublocale prisma_client \<subseteq> payments: tenant_repository payment_model "px_payment P" "\<lambda>d. t_payments (T d)" "\<lambda>d. (T d)\<lparr>t_payments := []\<rparr>"
  by (intro tenant_repository.intro tenant_repository_axioms.intro payment_delegate) simp

sublocale prisma_client \<subseteq> invoices: tenant_repository invoice_model "px_invoice P" "\<lambda>d. t_invoices (T d)" "\<lambda>d. (T d)\<lparr>t_invoices := []\<rparr>"
  by (intro tenant_repository.intro tenant_repository_axioms.intro invoice_delegate) simp

sublocale prisma_client \<subseteq> customers: tenant_repository customer_model "px_customer P" "\<lambda>d. t_customers (T d)" "\<lambda>d. (T d)\<lparr>t_customers := []\<rparr>"
  by (intro tenant_repository.intro tenant_repository_axioms.intro customer_delegate) simp

sublocale prisma_client \<subseteq> subscriptions: tenant_repository subscription_model "px_subscription P" "\<lambda>d. t_subscriptions (T d)" "\<lambda>d. (T d)\<lparr>t_subscriptions := []\<rparr>"
  by (intro tenant_repository.intro tenant_repository_axioms.intro subscription_delegate) simp

sublocale prisma_client \<subseteq> webhooks: tenant_repository webhook_model "px_webhook P" "\<lambda>d. t_webhooks (T d)" "\<lambda>d. (T d)\<lparr>t_webhooks := []\<rparr>"
  by (intro tenant_repository.intro tenant_repository_axioms.intro webhook_delegate) simp

sublocale prisma_client \<subseteq> medias: tenant_repository media_model "px_media P" "\<lambda>d. t_medias (T d)" "\<lambda>d. (T d)\<lparr>t_medias := []\<rparr>"
  by (intro tenant_repository.intro tenant_repository_axioms.intro media_delegate) simp

sublocale prisma_client \<subseteq> deviceTokens: tenant_repository deviceToken_model "px_deviceToken P" "\<lambda>d. t_deviceTokens (T d)" "\<lambda>d. (T d)\<lparr>t_deviceTokens := []\<rparr>"
  by (intro tenant_repository.intro tenant_repository_axioms.intro deviceToken_delegate) simp

sublocale prisma_client \<subseteq> users: tenant_repository user_model "px_user P" "\<lambda>d. t_users (T d)" "\<lambda>d. (T d)\<lparr>t_users := []\<rparr>"
  by (intro tenant_repository.intro tenant_repository_axioms.intro user_delegate) simp

sublocale prisma_client \<subseteq> roles: tenant_repository role_model "px_role P" "\<lambda>d. t_roles (T d)" "\<lambda>d. (T d)\<lparr>t_roles := []\<rparr>"
  by (intro tenant_repository.intro tenant_repository_axioms.intro role_delegate) simp

sublocale prisma_client \<subseteq> categories: tenant_repository category_model "px_category P" "\<lambda>d. t_categories (T d)" "\<lambda>d. (T d)\<lparr>t_categories := []\<rparr>"
  by (intro tenant_repository.intro tenant_repository_axioms.intro category_delegate) simp

text \<open>The rows of the other tenants, one table at a time.\<close>

lemma restaurants_split:
  "(other_tenants t (X\<lparr>t_restaurants := []\<rparr>))\<lparr>t_restaurants := foreign restaurant_model t (t_restaurants X)\<rparr> = other_tenants t X"
  by (rule tables.equality) (simp_all add: other_tenants_def)

lemma restaurants_only: "X'\<lparr>t_restaurants := []\<rparr> = X\<lparr>t_restaurants := []\<rparr> \<Longrightarrow> X' = X\<lparr>t_restaurants := t_restaurants X'\<rparr>"
  by (drule arg_cong[where f = "t_restaurants_update (\<lambda>_. t_restaurants X')"]) simp

lemma branches_split:
  "(other_tenants t (X\<lparr>t_branches := []\<rparr>))\<lparr>t_branches := foreign branch_model t (t_branches X)\<rparr> = other_tenants t X"
  by (rule tables.equality) (simp_all add: other_tenants_def)

lemma branches_only: "X'\<lparr>t_branches := []\<rparr> = X\<lparr>t_branches := []\<rparr> \<Longrightarrow> X' = X\<lparr>t_branches := t_branches X'\<rparr>"
  by (drule arg_cong[where f = "t_branches_update (\<lambda>_. t_branches X')"]) simp

lemma diningTables_split:
  "(other_tenants t (X\<lparr>t_diningTables := []\<rparr>))\<lparr>t_diningTables := foreign dining_table_model t (t_diningTables X)\<rparr> = other_tenants t X"
  by (rule tables.equality) (simp_all add: other_tenants_def)

lemma diningTables_only: "X'\<lparr>t_diningTables := []\<rparr> = X\<lparr>t_diningTables := []\<rparr> \<Longrightarrow> X' = X\<lparr>t_diningTables := t_diningTables X'\<rparr>"
  by (drule arg_cong[where f = "t_diningTables_update (\<lambda>_. t_diningTables X')"]) simp

lemma products_split:
  "(other_tenants t (X\<lparr>t_products := []\<rparr>))\<lparr>t_products := foreign product_model t (t_products X)\<rparr> = other_tenants t X"
  by (rule tables.equality) (simp_all add: other_tenants_def)

lemma products_only: "X'\<lparr>t_products := []\<rparr> = X\<lparr>t_products := []\<rparr> \<Longrightarrow> X' = X\<lparr>t_products := t_products X'\<rparr>"
  by (drule arg_cong[where f = "t_products_update (\<lambda>_. t_products X')"]) simp

lemma productSizes_split:
  "(other_tenants t (X\<lparr>t_productSizes := []\<rparr>))\<lparr>t_productSizes := foreign productSize_model t (t_productSizes X)\<rparr> = other_tenants t X"
  by (rule tables.equality) (simp_all add: other_tenants_def)

lemma productSizes_only: "X'\<lparr>t_productSizes := []\<rparr> = X\<lparr>t_productSizes := []\<rparr> \<Longrightarrow> X' = X\<lparr>t_productSizes := t_productSizes X'\<rparr>"
  by (drule arg_cong[where f = "t_productSizes_update (\<lambda>_. t_productSizes X')"]) simp

lemma productVariants_split:
  "(other_tenants t (X\<lparr>t_productVariants := []\<rparr>))\<lparr>t_productVariants := foreign productVariant_model t (t_productVariants X)\<rparr> = other_tenants t X"
  by (rule tables.equality) (simp_all add: other_tenants_def)

lemma productVariants_only: "X'\<lparr>t_productVariants := []\<rparr> = X\<lparr>t_productVariants := []\<rparr> \<Longrightarrow> X' = X\<lparr>t_productVariants := t_productVariants X'\<rparr>"
  by (drule arg_cong[where f = "t_productVariants_update (\<lambda>_. t_productVariants X')"]) simp

lemma productAddons_split:
  "(other_tenants t (X\<lparr>t_productAddons := []\<rparr>))\<lparr>t_productAddons := foreign productAddon_model t (t_productAddons X)\<rparr> = other_tenants t X"
  by (rule tables.equality) (simp_all add: other_tenants_def)

lemma productAddons_only: "X'\<lparr>t_productAddons := []\<rparr> = X\<lparr>t_productAddons := []\<rparr> \<Longrightarrow> X' = X\<lparr>t_productAddons := t_productAddons X'\<rparr>"
  by (drule arg_cong[where f = "t_productAddons_update (\<lambda>_. t_productAddons X')"]) simp

lemma addonItems_split:
  "(other_tenants t (X\<lparr>t_addonItems := []\<rparr>))\<lparr>t_addonItems := foreign addonItem_model t (t_addonItems X)\<rparr> = other_tenants t X"
  by (rule tables.equality) (simp_all add: other_tenants_def)

lemma addonItems_only: "X'\<lparr>t_addonItems := []\<rparr> = X\<lparr>t_addonItems := []\<rparr> \<Longrightarrow> X' = X\<lparr>t_addonItems := t_addonItems X'\<rparr>"
  by (drule arg_cong[where f = "t_addonItems_update (\<lambda>_. t_addonItems X')"]) simp

lemma discounts_split:
  "(other_tenants t (X\<lparr>t_discounts := []\<rparr>))\<lparr>t_discounts := foreign discount_model t (t_discounts X)\<rparr> = other_tenants t X"
  by (rule tables.equality) (simp_all add: other_tenants_def)

lemma discounts_only: "X'\<lparr>t_discounts := []\<rparr> = X\<lparr>t_discounts := []\<rparr> \<Longrightarrow> X' = X\<lparr>t_discounts := t_discounts X'\<rparr>"
  by (drule arg_cong[where f = "t_discounts_update (\<lambda>_. t_discounts X')"]) simp

lemma orders_split:
  "(other_tenants t (X\<lparr>t_orders := []\<rparr>))\<lparr>t_orders := foreign order_model t (t_orders X)\<rparr> = other_tenants t X"
  by (rule tables.equality) (simp_all add: other_tenants_def)

lemma orders_only: "X'\<lparr>t_orders := []\<rparr> = X\<lparr>t_orders := []\<rparr> \<Longrightarrow> X' = X\<lparr>t_orders := t_orders X'\<rparr>"
  by (drule arg_cong[where f = "t_orders_update (\<lambda>_. t_orders X')"]) simp

lemma orderItems_split:
  "(other_tenants t (X\<lparr>t_orderItems := []\<rparr>))\<lparr>t_orderItems := foreign orderItem_model t (t_orderItems X)\<rparr> = other_tenants t X"
  by (rule tables.equality) (simp_all add: other_tenants_def)

lemma orderItems_only: "X'\<lparr>t_orderItems := []\<rparr> = X\<lparr>t_orderItems := []\<rparr> \<Longrightarrow> X' = X\<lparr>t_orderItems := t_orderItems X'\<rparr>"
  by (drule arg_cong[where f = "t_orderItems_update (\<lambda>_. t_orderItems X')"]) simp

lemma kitchenQueues_split:
  "(other_tenants t (X\<lparr>t_kitchenQueues := []\<rparr>))\<lparr>t_kitchenQueues := foreign kitchenQueue_model t (t_kitchenQueues X)\<rparr> = other_tenants t X"
  by (rule tables.equality) (simp_all add: other_tenants_def)

lemma kitchenQueues_only: "X'\<lparr>t_kitchenQueues := []\<rparr> = X\<lparr>t_kitchenQueues := []\<rparr> \<Longrightarrow> X' = X\<lparr>t_kitchenQueues := t_kitchenQueues X'\<rparr>"
  by (drule arg_cong[where f = "t_kitchenQueues_update (\<lambda>_. t_kitchenQueues X')"]) simp

lemma payments_split:
  "(other_tenants t (X\<lparr>t_payments := []\<rparr>))\<lparr>t_payments := foreign payment_model t (t_payments X)\<rparr> = other_tenants t X"
  by (rule tables.equality) (simp_all add: other_tenants_def)

lemma payments_only: "X'\<lparr>t_payments := []\<rparr> = X\<lparr>t_payments := []\<rparr> \<Longrightarrow> X' = X\<lparr>t_payments := t_payments X'\<rparr>"
  by (drule arg_cong[where f = "t_payments_update (\<lambda>_. t_payments X')"]) simp

lemma invoices_split:
  "(other_tenants t (X\<lparr>t_invoices := []\<rparr>))\<lparr>t_invoices := foreign invoice_model t (t_invoices X)\<rparr> = other_tenants t X"
  by (rule tables.equality) (simp_all add: other_tenants_def)

lemma invoices_only: "X'\<lparr>t_invoices := []\<rparr> = X\<lparr>t_invoices := []\<rparr> \<Longrightarrow> X' = X\<lparr>t_invoices := t_invoices X'\<rparr>"
  by (drule arg_cong[where f = "t_invoices_update (\<lambda>_. t_invoices X')"]) simp

lemma customers_split:
  "(other_tenants t (X\<lparr>t_customers := []\<rparr>))\<lparr>t_customers := foreign customer_model t (t_customers X)\<rparr> = other_tenants t X"
  by (rule tables.equality) (simp_all add: other_tenants_def)

lemma customers_only: "X'\<lparr>t_customers := []\<rparr> = X\<lparr>t_customers := []\<rparr> \<Longrightarrow> X' = X\<lparr>t_customers := t_customers X'\<rparr>"
  by (drule arg_cong[where f = "t_customers_update (\<lambda>_. t_customers X')"]) simp

lemma subscriptions_split:
  "(other_tenants t (X\<lparr>t_subscriptions := []\<rparr>))\<lparr>t_subscriptions := foreign subscription_model t (t_subscriptions X)\<rparr> = other_tenants t X"
  by (rule tables.equality) (simp_all add: other_tenants_def)

lemma subscriptions_only: "X'\<lparr>t_subscriptions := []\<rparr> = X\<lparr>t_subscriptions := []\<rparr> \<Longrightarrow> X' = X\<lparr>t_subscriptions := t_subscriptions X'\<rparr>"
  by (drule arg_cong[where f = "t_subscriptions_update (\<lambda>_. t_subscriptions X')"]) simp

lemma webhooks_split:
  "(other_tenants t (X\<lparr>t_webhooks := []\<rparr>))\<lparr>t_webhooks := foreign webhook_model t (t_webhooks X)\<rparr> = other_tenants t X"
  by (rule tables.equality) (simp_all add: other_tenants_def)

lemma webhooks_only: "X'\<lparr>t_webhooks := []\<rparr> = X\<lparr>t_webhooks := []\<rparr> \<Longrightarrow> X' = X\<lparr>t_webhooks := t_webhooks X'\<rparr>"
  by (drule arg_cong[where f = "t_webhooks_update (\<lambda>_. t_webhooks X')"]) simp

lemma medias_split:
  "(other_tenants t (X\<lparr>t_medias := []\<rparr>))\<lparr>t_medias := foreign media_model t (t_medias X)\<rparr> = other_tenants t X"
  by (rule tables.equality) (simp_all add: other_tenants_def)

lemma medias_only: "X'\<lparr>t_medias := []\<rparr> = X\<lparr>t_medias := []\<rparr> \<Longrightarrow> X' = X\<lparr>t_medias := t_medias X'\<rparr>"
  by (drule arg_cong[where f = "t_medias_update (\<lambda>_. t_medias X')"]) simp

lemma deviceTokens_split:
  "(other_tenants t (X\<lparr>t_deviceTokens := []\<rparr>))\<lparr>t_deviceTokens := foreign deviceToken_model t (t_deviceTokens X)\<rparr> = other_tenants t X"
  by (rule tables.equality) (simp_all add: other_tenants_def)

lemma deviceTokens_only: "X'\<lparr>t_deviceTokens := []\<rparr> = X\<lparr>t_deviceTokens := []\<rparr> \<Longrightarrow> X' = X\<lparr>t_deviceTokens := t_deviceTokens X'\<rparr>"
  by (drule arg_cong[where f = "t_deviceTokens_update (\<lambda>_. t_deviceTokens X')"]) simp

lemma users_split:
  "(other_tenants t (X\<lparr>t_users := []\<rparr>))\<lparr>t_users := foreign user_model t (t_users X)\<rparr> = other_tenants t X"
  by (rule tables.equality) (simp_all add: other_tenants_def)

lemma users_only: "X'\<lparr>t_users := []\<rparr> = X\<lparr>t_users := []\<rparr> \<Longrightarrow> X' = X\<lparr>t_users := t_users X'\<rparr>"
  by (drule arg_cong[where f = "t_users_update (\<lambda>_. t_users X')"]) simp

lemma roles_split:
  "(other_tenants t (X\<lparr>t_roles := []\<rparr>))\<lparr>t_roles := foreign role_model t (t_roles X)\<rparr> = other_tenants t X"
  by (rule tables.equality) (simp_all add: other_tenants_def)

lemma roles_only: "X'\<lparr>t_roles := []\<rparr> = X\<lparr>t_roles := []\<rparr> \<Longrightarrow> X' = X\<lparr>t_roles := t_roles X'\<rparr>"
  by (drule arg_cong[where f = "t_roles_update (\<lambda>_. t_roles X')"]) simp

lemma categories_split:
  "(other_tenants t (X\<lparr>t_categories := []\<rparr>))\<lparr>t_categories := foreign category_model t (t_categories X)\<rparr> = other_tenants t X"
  by (rule tables.equality) (simp_all add: other_tenants_def)

lemma categories_only: "X'\<lparr>t_categories := []\<rparr> = X\<lparr>t_categories := []\<rparr> \<Longrightarrow> X' = X\<lparr>t_categories := t_categories X'\<rparr>"
  by (drule arg_cong[where f = "t_categories_update (\<lambda>_. t_categories X')"]) simp

context prisma_client
begin

text \<open>A frame of one table gives the frame of the whole database.\<close>

lemma restaurants_frame:
  "preserves (\<lambda>d. (foreign restaurant_model t (t_restaurants (T d)), (T d)\<lparr>t_restaurants := []\<rparr>)) m \<Longrightarrow>
   preserves (\<lambda>d. other_tenants t (T d)) m"
  by (drule preserves_compose[where g = "\<lambda>(f, r). (other_tenants t r)\<lparr>t_restaurants := f\<rparr>"])
    (simp only: split_conv restaurants_split)

lemma branches_frame:
  "preserves (\<lambda>d. (foreign branch_model t (t_branches (T d)), (T d)\<lparr>t_branches := []\<rparr>)) m \<Longrightarrow>
   preserves (\<lambda>d. other_tenants t (T d)) m"
  by (drule preserves_compose[where g = "\<lambda>(f, r). (other_tenants t r)\<lparr>t_branches := f\<rparr>"])
    (simp only: split_conv branches_split)

lemma diningTables_frame:
  "preserves (\<lambda>d. (foreign dining_table_model t (t_diningTables (T d)), (T d)\<lparr>t_diningTables := []\<rparr>)) m \<Longrightarrow>
   preserves (\<lambda>d. other_tenants t (T d)) m"
  by (drule preserves_compose[where g = "\<lambda>(f, r). (other_tenants t r)\<lparr>t_diningTables := f\<rparr>"])
    (simp only: split_conv diningTables_split)

lemma products_frame:
  "preserves (\<lambda>d. (foreign product_model t (t_products (T d)), (T d)\<lparr>t_products := []\<rparr>)) m \<Longrightarrow>
   preserves (\<lambda>d. other_tenants t (T d)) m"
  by (drule preserves_compose[where g = "\<lambda>(f, r). (other_tenants t r)\<lparr>t_products := f\<rparr>"])
    (simp only: split_conv products_split)

lemma productSizes_frame:
  "preserves (\<lambda>d. (foreign productSize_model t (t_productSizes (T d)), (T d)\<lparr>t_productSizes := []\<rparr>)) m \<Longrightarrow>
   preserves (\<lambda>d. other_tenants t (T d)) m"
  by (drule preserves_compose[where g = "\<lambda>(f, r). (other_tenants t r)\<lparr>t_productSizes := f\<rparr>"])
    (simp only: split_conv productSizes_split)

lemma productVariants_frame:
  "preserves (\<lambda>d. (foreign productVariant_model t (t_productVariants (T d)), (T d)\<lparr>t_productVariants := []\<rparr>)) m \<Longrightarrow>
   preserves (\<lambda>d. other_tenants t (T d)) m"
  by (drule preserves_compose[where g = "\<lambda>(f, r). (other_tenants t r)\<lparr>t_productVariants := f\<rparr>"])
    (simp only: split_conv productVariants_split)

lemma productAddons_frame:
  "preserves (\<lambda>d. (foreign productAddon_model t (t_productAddons (T d)), (T d)\<lparr>t_productAddons := []\<rparr>)) m \<Longrightarrow>
   preserves (\<lambda>d. other_tenants t (T d)) m"
  by (drule preserves_compose[where g = "\<lambda>(f, r). (other_tenants t r)\<lparr>t_productAddons := f\<rparr>"])
    (simp only: split_conv productAddons_split)

lemma addonItems_frame:
  "preserves (\<lambda>d. (foreign addonItem_model t (t_addonItems (T d)), (T d)\<lparr>t_addonItems := []\<rparr>)) m \<Longrightarrow>
   preserves (\<lambda>d. other_tenants t (T d)) m"
  by (drule preserves_compose[where g = "\<lambda>(f, r). (other_tenants t r)\<lparr>t_addonItems := f\<rparr>"])
    (simp only: split_conv addonItems_split)

lemma discounts_frame:
  "preserves (\<lambda>d. (foreign discount_model t (t_discounts (T d)), (T d)\<lparr>t_discounts := []\<rparr>)) m \<Longrightarrow>
   preserves (\<lambda>d. other_tenants t (T d)) m"
  by (drule preserves_compose[where g = "\<lambda>(f, r). (other_tenants t r)\<lparr>t_discounts := f\<rparr>"])
    (simp only: split_conv discounts_split)

lemma orders_frame:
  "preserves (\<lambda>d. (foreign order_model t (t_orders (T d)), (T d)\<lparr>t_orders := []\<rparr>)) m \<Longrightarrow>
   preserves (\<lambda>d. other_tenants t (T d)) m"
  by (drule preserves_compose[where g = "\<lambda>(f, r). (other_tenants t r)\<lparr>t_orders := f\<rparr>"])
    (simp only: split_conv orders_split)

lemma orderItems_frame:
  "preserves (\<lambda>d. (foreign orderItem_model t (t_orderItems (T d)), (T d)\<lparr>t_orderItems := []\<rparr>)) m \<Longrightarrow>
   preserves (\<lambda>d. other_tenants t (T d)) m"
  by (drule preserves_compose[where g = "\<lambda>(f, r). (other_tenants t r)\<lparr>t_orderItems := f\<rparr>"])
    (simp only: split_conv orderItems_split)

lemma kitchenQueues_frame:
  "preserves (\<lambda>d. (foreign kitchenQueue_model t (t_kitchenQueues (T d)), (T d)\<lparr>t_kitchenQueues := []\<rparr>)) m \<Longrightarrow>
   preserves (\<lambda>d. other_tenants t (T d)) m"
  by (drule preserves_compose[where g = "\<lambda>(f, r). (other_tenants t r)\<lparr>t_kitchenQueues := f\<rparr>"])
    (simp only: split_conv kitchenQueues_split)

lemma payments_frame:
  "preserves (\<lambda>d. (foreign payment_model t (t_payments (T d)), (T d)\<lparr>t_payments := []\<rparr>)) m \<Longrightarrow>
   preserves (\<lambda>d. other_tenants t (T d)) m"
  by (drule preserves_compose[where g = "\<lambda>(f, r). (other_tenants t r)\<lparr>t_payments := f\<rparr>"])
    (simp only: split_conv payments_split)

lemma invoices_frame:
  "preserves (\<lambda>d. (foreign invoice_model t (t_invoices (T d)), (T d)\<lparr>t_invoices := []\<rparr>)) m \<Longrightarrow>
   preserves (\<lambda>d. other_tenants t (T d)) m"
  by (drule preserves_compose[where g = "\<lambda>(f, r). (other_tenants t r)\<lparr>t_invoices := f\<rparr>"])
    (simp only: split_conv invoices_split)

lemma customers_frame:
  "preserves (\<lambda>d. (foreign customer_model t (t_customers (T d)), (T d)\<lparr>t_customers := []\<rparr>)) m \<Longrightarrow>
   preserves (\<lambda>d. other_tenants t (T d)) m"
  by (drule preserves_compose[where g = "\<lambda>(f, r). (other_tenants t r)\<lparr>t_customers := f\<rparr>"])
    (simp only: split_conv customers_split)

lemma subscriptions_frame:
  "preserves (\<lambda>d. (foreign subscription_model t (t_subscriptions (T d)), (T d)\<lparr>t_subscriptions := []\<rparr>)) m \<Longrightarrow>
   preserves (\<lambda>d. other_tenants t (T d)) m"
  by (drule preserves_compose[where g = "\<lambda>(f, r). (other_tenants t r)\<lparr>t_subscriptions := f\<rparr>"])
    (simp only: split_conv subscriptions_split)

lemma webhooks_frame:
  "preserves (\<lambda>d. (foreign webhook_model t (t_webhooks (T d)), (T d)\<lparr>t_webhooks := []\<rparr>)) m \<Longrightarrow>
   preserves (\<lambda>d. other_tenants t (T d)) m"
  by (drule preserves_compose[where g = "\<lambda>(f, r). (other_tenants t r)\<lparr>t_webhooks := f\<rparr>"])
    (simp only: split_conv webhooks_split)

lemma medias_frame:
  "preserves (\<lambda>d. (foreign media_model t (t_medias (T d)), (T d)\<lparr>t_medias := []\<rparr>)) m \<Longrightarrow>
   preserves (\<lambda>d. other_tenants t (T d)) m"
  by (drule preserves_compose[where g = "\<lambda>(f, r). (other_tenants t r)\<lparr>t_medias := f\<rparr>"])
    (simp only: split_conv medias_split)

lemma deviceTokens_frame:
  "preserves (\<lambda>d. (foreign deviceToken_model t (t_deviceTokens (T d)), (T d)\<lparr>t_deviceTokens := []\<rparr>)) m \<Longrightarrow>
   preserves (\<lambda>d. other_tenants t (T d)) m"
  by (drule preserves_compose[where g = "\<lambda>(f, r). (other_tenants t r)\<lparr>t_deviceTokens := f\<rparr>"])
    (simp only: split_conv deviceTokens_split)

lemma users_frame:
  "preserves (\<lambda>d. (foreign user_model t (t_users (T d)), (T d)\<lparr>t_users := []\<rparr>)) m \<Longrightarrow>
   preserves (\<lambda>d. other_tenants t (T d)) m"
  by (drule preserves_compose[where g = "\<lambda>(f, r). (other_tenants t r)\<lparr>t_users := f\<rparr>"])
    (simp only: split_conv users_split)

lemma roles_frame:
  "preserves (\<lambda>d. (foreign role_model t (t_roles (T d)), (T d)\<lparr>t_roles := []\<rparr>)) m \<Longrightarrow>
   preserves (\<lambda>d. other_tenants t (T d)) m"
  by (drule preserves_compose[where g = "\<lambda>(f, r). (other_tenants t r)\<lparr>t_roles := f\<rparr>"])
    (simp only: split_conv roles_split)

lemma categories_frame:
  "preserves (\<lambda>d. (foreign category_model t (t_categories (T d)), (T d)\<lparr>t_categories := []\<rparr>)) m \<Longrightarrow>
   preserves (\<lambda>d. other_tenants t (T d)) m"
  by (drule preserves_compose[where g = "\<lambda>(f, r). (other_tenants t r)\<lparr>t_categories := f\<rparr>"])
    (simp only: split_conv categories_split)

lemmas table_frames = restaurants_frame branches_frame diningTables_frame products_frame productSizes_frame productVariants_frame productAddons_frame addonItems_frame discounts_frame orders_frame orderItems_frame kitchenQueues_frame payments_frame invoices_frame customers_frame subscriptions_frame webhooks_frame medias_frame deviceTokens_frame users_frame roles_frame categories_frame

lemmas table_writes = restaurants_frame[OF restaurants.ext_update_others] restaurants_frame[OF restaurants.ext_delete_others] restaurants_frame[OF restaurants.ext_create_others] restaurants_frame[OF restaurants.repo_create_others] restaurants_frame[OF restaurants.repo_update_others] restaurants_frame[OF restaurants.repo_delete_others] restaurants_frame[OF restaurants.softDelete_others] restaurants_frame[OF restaurants.restore_others]
  branches_frame[OF branches.ext_update_others] branches_frame[OF branches.ext_delete_others] branches_frame[OF branches.ext_create_others] branches_frame[OF branches.repo_create_others] branches_frame[OF branches.repo_update_others] branches_frame[OF branches.repo_delete_others] branches_frame[OF branches.softDelete_others] branches_frame[OF branches.restore_others]
  diningTables_frame[OF diningTables.ext_update_others] diningTables_frame[OF diningTables.ext_delete_others] diningTables_frame[OF diningTables.ext_create_others] diningTables_frame[OF diningTables.repo_create_others] diningTables_frame[OF diningTables.repo_update_others] diningTables_frame[OF diningTables.repo_delete_others] diningTables_frame[OF diningTables.softDelete_others] diningTables_frame[OF diningTables.restore_others]
  products_frame[OF products.ext_update_others] products_frame[OF products.ext_delete_others] products_frame[OF products.ext_create_others] products_frame[OF products.repo_create_others] products_frame[OF products.repo_update_others] products_frame[OF products.repo_delete_others] products_frame[OF products.softDelete_others] products_frame[OF products.restore_others]
  productSizes_frame[OF productSizes.ext_update_others] productSizes_frame[OF productSizes.ext_delete_others] productSizes_frame[OF productSizes.ext_create_others] productSizes_frame[OF productSizes.repo_create_others] productSizes_frame[OF productSizes.repo_update_others] productSizes_frame[OF productSizes.repo_delete_others] productSizes_frame[OF productSizes.softDelete_others] productSizes_frame[OF productSizes.restore_others]
  productVariants_frame[OF productVariants.ext_update_others] productVariants_frame[OF productVariants.ext_delete_others] productVariants_frame[OF productVariants.ext_create_others] productVariants_frame[OF productVariants.repo_create_others] productVariants_frame[OF productVariants.repo_update_others] productVariants_frame[OF productVariants.repo_delete_others] productVariants_frame[OF productVariants.softDelete_others] productVariants_frame[OF productVariants.restore_others]
  productAddons_frame[OF productAddons.ext_update_others] productAddons_frame[OF productAddons.ext_delete_others] productAddons_frame[OF productAddons.ext_create_others] productAddons_frame[OF productAddons.repo_create_others] productAddons_frame[OF productAddons.repo_update_others] productAddons_frame[OF productAddons.repo_delete_others] productAddons_frame[OF productAddons.softDelete_others] productAddons_frame[OF productAddons.restore_others]
  addonItems_frame[OF addonItems.ext_update_others] addonItems_frame[OF addonItems.ext_delete_others] addonItems_frame[OF addonItems.ext_create_others] addonItems_frame[OF addonItems.repo_create_others] addonItems_frame[OF addonItems.repo_update_others] addonItems_frame[OF addonItems.repo_delete_others] addonItems_frame[OF addonItems.softDelete_others] addonItems_frame[OF addonItems.restore_others]
  discounts_frame[OF discounts.ext_update_others] discounts_frame[OF discounts.ext_delete_others] discounts_frame[OF discounts.ext_create_others] discounts_frame[OF discounts.repo_create_others] discounts_frame[OF discounts.repo_update_others] discounts_frame[OF discounts.repo_delete_others] discounts_frame[OF discounts.softDelete_others] discounts_frame[OF discounts.restore_others]
  orders_frame[OF orders.ext_update_others] orders_frame[OF orders.ext_delete_others] orders_frame[OF orders.ext_create_others] orders_frame[OF orders.repo_create_others] orders_frame[OF orders.repo_update_others] orders_frame[OF orders.repo_delete_others] orders_frame[OF orders.softDelete_others] orders_frame[OF orders.restore_others]
  orderItems_frame[OF orderItems.ext_update_others] orderItems_frame[OF orderItems.ext_delete_others] orderItems_frame[OF orderItems.ext_create_others] orderItems_frame[OF orderItems.repo_create_others] orderItems_frame[OF orderItems.repo_update_others] orderItems_frame[OF orderItems.repo_delete_others] orderItems_frame[OF orderItems.softDelete_others] orderItems_frame[OF orderItems.restore_others]
  kitchenQueues_frame[OF kitchenQueues.ext_update_others] kitchenQueues_frame[OF kitchenQueues.ext_delete_others] kitchenQueues_frame[OF kitchenQueues.ext_create_others] kitchenQueues_frame[OF kitchenQueues.repo_create_others] kitchenQueues_frame[OF kitchenQueues.repo_update_others] kitchenQueues_frame[OF kitchenQueues.repo_delete_others] kitchenQueues_frame[OF kitchenQueues.softDelete_others] kitchenQueues_frame[OF kitchenQueues.restore_others]
  payments_frame[OF payments.ext_update_others] payments_frame[OF payments.ext_delete_others] payments_frame[OF payments.ext_create_others] payments_frame[OF payments.repo_create_others] payments_frame[OF payments.repo_update_others] payments_frame[OF payments.repo_delete_others] payments_frame[OF payments.softDelete_others] payments_frame[OF payments.restore_others]
  invoices_frame[OF invoices.ext_update_others] invoices_frame[OF invoices.ext_delete_others] invoices_frame[OF invoices.ext_create_others] invoices_frame[OF invoices.repo_create_others] invoices_frame[OF invoices.repo_update_others] invoices_frame[OF invoices.repo_delete_others] invoices_frame[OF invoices.softDelete_others] invoices_frame[OF invoices.restore_others]
  customers_frame[OF customers.ext_update_others] customers_frame[OF customers.ext_delete_others] customers_frame[OF customers.ext_create_others] customers_frame[OF customers.repo_create_others] customers_frame[OF customers.repo_update_others] customers_frame[OF customers.repo_delete_others] customers_frame[OF customers.softDelete_others] customers_frame[OF customers.restore_others]
  subscriptions_frame[OF subscriptions.ext_update_others] subscriptions_frame[OF subscriptions.ext_delete_others] subscriptions_frame[OF subscriptions.ext_create_others] subscriptions_frame[OF subscriptions.repo_create_others] subscriptions_frame[OF subscriptions.repo_update_others] subscriptions_frame[OF subscriptions.repo_delete_others] subscriptions_frame[OF subscriptions.softDelete_others] subscriptions_frame[OF subscriptions.restore_others]
  webhooks_frame[OF webhooks.ext_update_others] webhooks_frame[OF webhooks.ext_delete_others] webhooks_frame[OF webhooks.ext_create_others] webhooks_frame[OF webhooks.repo_create_others] webhooks_frame[OF webhooks.repo_update_others] webhooks_frame[OF webhooks.repo_delete_others] webhooks_frame[OF webhooks.softDelete_others] webhooks_frame[OF webhooks.restore_others]
  medias_frame[OF medias.ext_update_others] medias_frame[OF medias.ext_delete_others] medias_frame[OF medias.ext_create_others] medias_frame[OF medias.repo_create_others] medias_frame[OF medias.repo_update_others] medias_frame[OF medias.repo_delete_others] medias_frame[OF medias.softDelete_others] medias_frame[OF medias.restore_others]
  deviceTokens_frame[OF deviceTokens.ext_update_others] deviceTokens_frame[OF deviceTokens.ext_delete_others] deviceTokens_frame[OF deviceTokens.ext_create_others] deviceTokens_frame[OF deviceTokens.repo_create_others] deviceTokens_frame[OF deviceTokens.repo_update_others] deviceTokens_frame[OF deviceTokens.repo_delete_others] deviceTokens_frame[OF deviceTokens.softDelete_others] deviceTokens_frame[OF deviceTokens.restore_others]
  users_frame[OF users.ext_update_others] users_frame[OF users.ext_delete_others] users_frame[OF users.ext_create_others] users_frame[OF users.repo_create_others] users_frame[OF users.repo_update_others] users_frame[OF users.repo_delete_others] users_frame[OF users.softDelete_others] users_frame[OF users.restore_others]
  roles_frame[OF roles.ext_update_others] roles_frame[OF roles.ext_delete_others] roles_frame[OF roles.ext_create_others] roles_frame[OF roles.repo_create_others] roles_frame[OF roles.repo_update_others] roles_frame[OF roles.repo_delete_others] roles_frame[OF roles.softDelete_others] roles_frame[OF roles.restore_others]
  categories_frame[OF categories.ext_update_others] categories_frame[OF categories.ext_delete_others] categories_frame[OF categories.ext_create_others] categories_frame[OF categories.repo_create_others] categories_frame[OF categories.repo_update_others] categories_frame[OF categories.repo_delete_others] categories_frame[OF categories.softDelete_others] categories_frame[OF categories.restore_others]

lemmas repo_reads = restaurants.repo_reads_preserve restaurants.ext_read_others
  branches.repo_reads_preserve branches.ext_read_others
  diningTables.repo_reads_preserve diningTables.ext_read_others
  products.repo_reads_preserve products.ext_read_others
  productSizes.repo_reads_preserve productSizes.ext_read_others
  productVariants.repo_reads_preserve productVariants.ext_read_others
  productAddons.repo_reads_preserve productAddons.ext_read_others
  addonItems.repo_reads_preserve addonItems.ext_read_others
  discounts.repo_reads_preserve discounts.ext_read_others
  orders.repo_reads_preserve orders.ext_read_others
  orderItems.repo_reads_preserve orderItems.ext_read_others
  kitchenQueues.repo_reads_preserve kitchenQueues.ext_read_others
  payments.repo_reads_preserve payments.ext_read_others
  invoices.repo_reads_preserve invoices.ext_read_others
  customers.repo_reads_preserve customers.ext_read_others
  subscriptions.repo_reads_preserve subscriptions.ext_read_others
  webhooks.repo_reads_preserve webhooks.ext_read_others
  medias.repo_reads_preserve medias.ext_read_others
  deviceTokens.repo_reads_preserve deviceTokens.ext_read_others
  users.repo_reads_preserve users.ext_read_others
  roles.repo_reads_preserve roles.ext_read_others
  categories.repo_reads_preserve categories.ext_read_others

lemma tenant_read: "preserves f (px_tenant_findUnique P i)"
  by (simp add: preserves_def tenant_state)

lemma join_reads:
  "preserves f (px_orderItem_findManyJoined P w)" "preserves f (px_kitchenQueue_findManyJoined P w ss)"
  "preserves f (px_branch_findUniqueJoined P i)" "preserves f (px_user_findFirstJoined P w)"
  "preserves f (px_user_findManyJoined P w b n k)" "preserves f (px_user_countWithRole P w nm t)"
  "preserves f (px_tenant_findBySubdomain P i)" "preserves f (px_tenant_findByCustomDomain P i)"
  "preserves f (px_tenant_findByStripeCustomer P i)" "preserves f (px_subscriptionPlan_findUnique P i)"
  "preserves f (px_subscription_findFirstJoined P w)" "preserves f (px_permission_findMany P)"
  "preserves f (px_role_findOldest P nm i)" "preserves f (px_category_findManyMenu P w n k)"
  "preserves f (px_subscriptionPlan_findMany P)"
  by (simp_all add: preserves_def itemJoin_state ticketJoin_state branchJoin_state userJoin_state userJoins_state
      countRole_state subdomain_state customDomain_state stripeCustomer_state plan_state subscriptionJoin_state
      permissions_state oldestRole_state menuJoin_state plans_state)

lemma lock_read: "preserves (\<lambda>d. f (T d)) (px_advisoryLock P k)"
  by (simp add: preserves_def advisoryLock_state)

lemma preserves_transaction:
  "preserves (\<lambda>d. f (T d)) m \<Longrightarrow> preserves (\<lambda>d. f (T d)) (transaction P m)"
  by (rule preservesI)
    (auto simp: transaction_def preserves_def rollback commit_Inr split: prod.splits sum.splits,
      metis snd_conv)

text \<open>A transaction that throws has changed nothing; one that returns has run its body.\<close>

lemma transaction_Inl: "transaction P m d = (Inl e, d') \<Longrightarrow> T d' = T d"
  by (auto simp: transaction_def rollback split: prod.splits sum.splits)

lemma transaction_Inr: "transaction P m d = (Inr x, d') \<Longrightarrow> \<exists>d1. m d = (Inr x, d1) \<and> T d' = T d1"
  by (auto simp: transaction_def commit_Inr split: prod.splits sum.splits)

end

section \<open>A client in memory\<close>

definition the_id :: "('r \<Rightarrow> string) \<Rightarrow> 'r list \<Rightarrow> string \<Rightarrow> 'r option" where
  "the_id f rs i = List.find (\<lambda>r. f r = i) rs"

definition join_item :: "tables \<Rightarrow> orderItem \<Rightarrow> itemJoin" where
  "join_item X x = \<lparr>ij_item = x, ij_product = the_id pr_id (t_products X) (oi_productId x),
     ij_size = (case oi_sizeId x of None \<Rightarrow> None | Some i \<Rightarrow> the_id ps_id (t_productSizes X) i),
     ij_addonItems = map (\<lambda>a. the_id ai_id (t_addonItems X) (oa_addonItemId a)) (oi_orderItemAddons x)\<rparr>"

definition join_tickets :: "tables \<Rightarrow> where_clause \<Rightarrow> OrderStatus list \<Rightarrow> ticketJoin list" where
  "join_tickets X w ss = sort_key (\<lambda>j. od_createdAt (tj_order j))
     [\<lparr>tj_queue = q, tj_order = ord,
       tj_items = map (join_item X) (filter (\<lambda>x. oi_orderId x = od_id ord) (t_orderItems X))\<rparr>.
      q \<leftarrow> t_kitchenQueues X, ord \<leftarrow> t_orders X,
      sat kitchenQueue_model w q \<and> od_id ord = kq_orderId q \<and> od_status ord \<in> set ss]"

definition mem_createWithItems :: "order \<Rightarrow> orderItem list \<Rightarrow> (tables, order \<times> orderItem list) prog" where
  "mem_createWithItems ord its X =
     (let i = fresh_id (map od_id (t_orders X));
          base = fresh_id (map oi_id (t_orderItems X));
          its' = map (\<lambda>(n, x). x\<lparr>oi_id := base @ show_int (int n), oi_orderId := i\<rparr>) (enumerate 0 its) in
      (Inr (ord\<lparr>od_id := i\<rparr>, its'),
       X\<lparr>t_orders := t_orders X @ [ord\<lparr>od_id := i\<rparr>], t_orderItems := t_orderItems X @ its'\<rparr>))"

definition join_user :: "tables \<Rightarrow> user \<Rightarrow> userJoin" where
  "join_user X u = \<lparr>uj_user = u, uj_roles = filter (\<lambda>r. ro_id r \<in> set (us_userRoles u)) (t_roles X),
     uj_branchIds = filter (\<lambda>b. \<exists>br \<in> set (t_branches X). br_id br = b \<and> br_deletedAt br = None) (us_userBranches u)\<rparr>"

fun update_first :: "('r \<Rightarrow> bool) \<Rightarrow> ('r \<Rightarrow> 'r) \<Rightarrow> 'r list \<Rightarrow> ('r \<times> 'r list) option" where
  "update_first q f [] = None"
| "update_first q f (x # xs) = (if q x then Some (f x, f x # xs) else map_option (\<lambda>(y, ys). (y, x # ys)) (update_first q f xs))"

definition mem_updateTenant :: "string \<Rightarrow> (tenant \<Rightarrow> tenant) \<Rightarrow> (tables, tenant) prog" where
  "mem_updateTenant i f X = (case update_first (\<lambda>tn. tn_id tn = i) f (t_tenants X) of
     None \<Rightarrow> (Inl (JsError ''Record to update not found''), X)
   | Some (tn, tns) \<Rightarrow> (Inr tn, X\<lparr>t_tenants := tns\<rparr>))"

fun newest :: "('r \<Rightarrow> int) \<Rightarrow> 'r list \<Rightarrow> 'r option" where
  "newest f [] = None"
| "newest f (x # xs) = (case newest f xs of None \<Rightarrow> Some x | Some y \<Rightarrow> if f y \<le> f x then Some x else Some y)"

definition join_product :: "tables \<Rightarrow> product \<Rightarrow> productJoin" where
  "join_product X p = \<lparr>pj_product = p, pj_sizes = filter (\<lambda>x. ps_productId x = pr_id p) (t_productSizes X),
     pj_variants = filter (\<lambda>x. pv_productId x = pr_id p) (t_productVariants X),
     pj_addons = map (\<lambda>g. \<lparr>aj_group = g, aj_items = filter (\<lambda>x. ai_addonGroupId x = pa_id g \<and> ai_isAvailable x) (t_addonItems X)\<rparr>)
       (filter (\<lambda>g. pa_productId g = pr_id p) (t_productAddons X))\<rparr>"

definition join_category :: "tables \<Rightarrow> nat \<Rightarrow> category \<Rightarrow> categoryJoin" where
  "join_category X n c = \<lparr>cj_category = c, cj_products = map (join_product X) (take n
     (filter (\<lambda>p. pr_categoryId p = ct_id c \<and> pr_isAvailable p \<and> pr_deletedAt p = None) (t_products X)))\<rparr>"

definition mem_createTenant :: "tenant \<Rightarrow> (tables, tenant) prog" where
  "mem_createTenant x X = (let tn = x\<lparr>tn_id := fresh_id ([] # map tn_id (t_tenants X))\<rparr> in (Inr tn, X\<lparr>t_tenants := t_tenants X @ [tn]\<rparr>))"

definition mem_prisma :: "tables prisma" where
  "mem_prisma = \<lparr>
     px_tenant_findUnique = (\<lambda>i X. (Inr (the_id tn_id (t_tenants X) i), X)),
     px_tenant_findBySubdomain = (\<lambda>i X. (Inr (the_id tn_subdomain (t_tenants X) i), X)),
     px_tenant_findByCustomDomain = (\<lambda>i X. (Inr (List.find (\<lambda>tn. tn_customDomain tn = Some i) (t_tenants X)), X)),
     px_tenant_findByStripeCustomer = (\<lambda>i X. (Inr (List.find (\<lambda>tn. tn_stripeCustomerId tn = Some i) (t_tenants X)), X)),
     px_tenant_update = mem_updateTenant,
     px_tenant_create = mem_createTenant,
     px_permission_findMany = (\<lambda>X. (Inr (t_permissions X), X)),
     px_userRole_create = (\<lambda>u r X. (Inr (), X\<lparr>t_users := map (\<lambda>x. if us_id x = u then x\<lparr>us_userRoles := us_userRoles x @ [r]\<rparr> else x) (t_users X)\<rparr>)),
     px_rolePermission_createMany = (\<lambda>r ps X. (Inr (), X\<lparr>t_roles := map (\<lambda>x. if ro_id x = r
        then x\<lparr>ro_rolePermissions := ro_rolePermissions x @ ps\<rparr> else x) (t_roles X)\<rparr>)),
     px_role_findOldest = (\<lambda>nm i X. (Inr (newest (\<lambda>x. - ro_createdAt x) (filter (\<lambda>x. ro_name x = nm \<and> ro_id x \<noteq> i) (t_roles X))), X)),
     px_notification = mem_delegate notification_model t_notifications (\<lambda>rs. t_notifications_update (\<lambda>_. rs)),
     px_media_deleteMany = (\<lambda>w X. (Inr (length (filter (sat media_model w) (t_medias X))),
        X\<lparr>t_medias := filter (\<lambda>x. \<not> sat media_model w x) (t_medias X)\<rparr>)),
     px_category_findManyMenu = (\<lambda>w n m X. (Inr (map (join_category X m)
        (take n (sort_key ct_sortOrder (filter (sat category_model w) (t_categories X))))), X)),
     px_subscriptionPlan_findMany = (\<lambda>X. (Inr (sort_key sp_priceMonthly (t_plans X)), X)),
     px_subscriptionPlan_findUnique = (\<lambda>i X. (Inr (the_id sp_id (t_plans X) i), X)),
     px_subscription_findFirstJoined = (\<lambda>w X. (Inr (map_option (\<lambda>b. (b, the_id sp_id (t_plans X) (sb_planId b)))
        (newest sb_createdAt (filter (sat subscription_model w) (t_subscriptions X)))), X)),
     px_subscription_updateMany = (\<lambda>w g X. (Inr (length (filter (sat subscription_model w) (t_subscriptions X))),
        X\<lparr>t_subscriptions := map (\<lambda>x. if sat subscription_model w x then g x else x) (t_subscriptions X)\<rparr>)),
     px_restaurant = mem_delegate restaurant_model t_restaurants (\<lambda>rs. t_restaurants_update (\<lambda>_. rs)),
     px_branch = mem_delegate branch_model t_branches (\<lambda>rs. t_branches_update (\<lambda>_. rs)),
     px_table = mem_delegate dining_table_model t_diningTables (\<lambda>rs. t_diningTables_update (\<lambda>_. rs)),
     px_product = mem_delegate product_model t_products (\<lambda>rs. t_products_update (\<lambda>_. rs)),
     px_productSize = mem_delegate productSize_model t_productSizes (\<lambda>rs. t_productSizes_update (\<lambda>_. rs)),
     px_productVariant = mem_delegate productVariant_model t_productVariants (\<lambda>rs. t_productVariants_update (\<lambda>_. rs)),
     px_productAddon = mem_delegate productAddon_model t_productAddons (\<lambda>rs. t_productAddons_update (\<lambda>_. rs)),
     px_addonItem = mem_delegate addonItem_model t_addonItems (\<lambda>rs. t_addonItems_update (\<lambda>_. rs)),
     px_discount = mem_delegate discount_model t_discounts (\<lambda>rs. t_discounts_update (\<lambda>_. rs)),
     px_order = mem_delegate order_model t_orders (\<lambda>rs. t_orders_update (\<lambda>_. rs)),
     px_orderItem = mem_delegate orderItem_model t_orderItems (\<lambda>rs. t_orderItems_update (\<lambda>_. rs)),
     px_kitchenQueue = mem_delegate kitchenQueue_model t_kitchenQueues (\<lambda>rs. t_kitchenQueues_update (\<lambda>_. rs)),
     px_payment = mem_delegate payment_model t_payments (\<lambda>rs. t_payments_update (\<lambda>_. rs)),
     px_invoice = mem_delegate invoice_model t_invoices (\<lambda>rs. t_invoices_update (\<lambda>_. rs)),
     px_customer = mem_delegate customer_model t_customers (\<lambda>rs. t_customers_update (\<lambda>_. rs)),
     px_subscription = mem_delegate subscription_model t_subscriptions (\<lambda>rs. t_subscriptions_update (\<lambda>_. rs)),
     px_webhook = mem_delegate webhook_model t_webhooks (\<lambda>rs. t_webhooks_update (\<lambda>_. rs)),
     px_media = mem_delegate media_model t_medias (\<lambda>rs. t_medias_update (\<lambda>_. rs)),
     px_deviceToken = mem_delegate deviceToken_model t_deviceTokens (\<lambda>rs. t_deviceTokens_update (\<lambda>_. rs)),
     px_user = mem_delegate user_model t_users (\<lambda>rs. t_users_update (\<lambda>_. rs)),
     px_role = mem_delegate role_model t_roles (\<lambda>rs. t_roles_update (\<lambda>_. rs)),
     px_category = mem_delegate category_model t_categories (\<lambda>rs. t_categories_update (\<lambda>_. rs)),
     px_order_createWithItems = mem_createWithItems,
     px_orderItem_findManyJoined = (\<lambda>w X. (Inr (map (join_item X) (filter (sat orderItem_model w) (t_orderItems X))), X)),
     px_kitchenQueue_findManyJoined = (\<lambda>w ss X. (Inr (join_tickets X w ss), X)),
     px_branch_findUniqueJoined = (\<lambda>i X. (Inr (map_option (\<lambda>b. (b, the_id rs_id (t_restaurants X) (br_restaurantId b)))
                                                (the_id br_id (t_branches X) i)), X)),
     px_user_findFirstJoined = (\<lambda>w X. (Inr (map_option (join_user X) (List.find (sat user_model w) (t_users X))), X)),
     px_user_findManyJoined = (\<lambda>w b n k X. (Inr (map (join_user X) (take n (drop k
        (filter (\<lambda>u. sat user_model w u \<and> (\<forall>i \<in> set_option b. i \<in> set (us_userBranches u))) (t_users X))))), X)),
     px_user_countWithRole = (\<lambda>w nm t X. (Inr (length (filter (\<lambda>u. sat user_model w u \<and> holds_role X nm t u) (t_users X))), X)),
     px_advisoryLock = (\<lambda>k X. (Inr (), X)),
     px_commit = Inr,
     px_rollback = (\<lambda>d _. d)\<rparr>"

interpretation mem_restaurants: table_lens restaurant_model t_restaurants "\<lambda>rs. t_restaurants_update (\<lambda>_. rs)"
  by unfold_locales simp_all

interpretation mem_branches: table_lens branch_model t_branches "\<lambda>rs. t_branches_update (\<lambda>_. rs)"
  by unfold_locales simp_all

interpretation mem_diningTables: table_lens dining_table_model t_diningTables "\<lambda>rs. t_diningTables_update (\<lambda>_. rs)"
  by unfold_locales simp_all

interpretation mem_products: table_lens product_model t_products "\<lambda>rs. t_products_update (\<lambda>_. rs)"
  by unfold_locales simp_all

interpretation mem_productSizes: table_lens productSize_model t_productSizes "\<lambda>rs. t_productSizes_update (\<lambda>_. rs)"
  by unfold_locales simp_all

interpretation mem_productVariants: table_lens productVariant_model t_productVariants "\<lambda>rs. t_productVariants_update (\<lambda>_. rs)"
  by unfold_locales simp_all

interpretation mem_productAddons: table_lens productAddon_model t_productAddons "\<lambda>rs. t_productAddons_update (\<lambda>_. rs)"
  by unfold_locales simp_all

interpretation mem_addonItems: table_lens addonItem_model t_addonItems "\<lambda>rs. t_addonItems_update (\<lambda>_. rs)"
  by unfold_locales simp_all

interpretation mem_discounts: table_lens discount_model t_discounts "\<lambda>rs. t_discounts_update (\<lambda>_. rs)"
  by unfold_locales simp_all

interpretation mem_orders: table_lens order_model t_orders "\<lambda>rs. t_orders_update (\<lambda>_. rs)"
  by unfold_locales simp_all

interpretation mem_orderItems: table_lens orderItem_model t_orderItems "\<lambda>rs. t_orderItems_update (\<lambda>_. rs)"
  by unfold_locales simp_all

interpretation mem_kitchenQueues: table_lens kitchenQueue_model t_kitchenQueues "\<lambda>rs. t_kitchenQueues_update (\<lambda>_. rs)"
  by unfold_locales simp_all

interpretation mem_payments: table_lens payment_model t_payments "\<lambda>rs. t_payments_update (\<lambda>_. rs)"
  by unfold_locales simp_all

interpretation mem_invoices: table_lens invoice_model t_invoices "\<lambda>rs. t_invoices_update (\<lambda>_. rs)"
  by unfold_locales simp_all

interpretation mem_customers: table_lens customer_model t_customers "\<lambda>rs. t_customers_update (\<lambda>_. rs)"
  by unfold_locales simp_all

interpretation mem_subscriptions: table_lens subscription_model t_subscriptions "\<lambda>rs. t_subscriptions_update (\<lambda>_. rs)"
  by unfold_locales simp_all

interpretation mem_webhooks: table_lens webhook_model t_webhooks "\<lambda>rs. t_webhooks_update (\<lambda>_. rs)"
  by unfold_locales simp_all

interpretation mem_medias: table_lens media_model t_medias "\<lambda>rs. t_medias_update (\<lambda>_. rs)"
  by unfold_locales simp_all

interpretation mem_deviceTokens: table_lens deviceToken_model t_deviceTokens "\<lambda>rs. t_deviceTokens_update (\<lambda>_. rs)"
  by unfold_locales simp_all

interpretation mem_users: table_lens user_model t_users "\<lambda>rs. t_users_update (\<lambda>_. rs)"
  by unfold_locales simp_all

interpretation mem_roles: table_lens role_model t_roles "\<lambda>rs. t_roles_update (\<lambda>_. rs)"
  by unfold_locales simp_all

interpretation mem_categories: table_lens category_model t_categories "\<lambda>rs. t_categories_update (\<lambda>_. rs)"
  by unfold_locales simp_all

interpretation mem_notifications: table_lens notification_model t_notifications "\<lambda>rs. t_notifications_update (\<lambda>_. rs)"
  by unfold_locales simp_all

lemmas mem_live = mem_restaurants.live.prisma_delegate_axioms
  mem_branches.live.prisma_delegate_axioms
  mem_diningTables.live.prisma_delegate_axioms
  mem_products.live.prisma_delegate_axioms
  mem_productSizes.live.prisma_delegate_axioms
  mem_productVariants.live.prisma_delegate_axioms
  mem_productAddons.live.prisma_delegate_axioms
  mem_addonItems.live.prisma_delegate_axioms
  mem_discounts.live.prisma_delegate_axioms
  mem_orders.live.prisma_delegate_axioms
  mem_orderItems.live.prisma_delegate_axioms
  mem_kitchenQueues.live.prisma_delegate_axioms
  mem_payments.live.prisma_delegate_axioms
  mem_invoices.live.prisma_delegate_axioms
  mem_customers.live.prisma_delegate_axioms
  mem_subscriptions.live.prisma_delegate_axioms
  mem_webhooks.live.prisma_delegate_axioms
  mem_medias.live.prisma_delegate_axioms
  mem_deviceTokens.live.prisma_delegate_axioms
  mem_users.live.prisma_delegate_axioms
  mem_roles.live.prisma_delegate_axioms
  mem_categories.live.prisma_delegate_axioms
  mem_notifications.live.prisma_delegate_axioms

lemma the_id_Some: "the_id f rs i = Some r \<Longrightarrow> r \<in> set rs \<and> f r = i"
  by (auto simp: the_id_def find_Some_iff)

lemma the_id_None: "the_id f rs i = None \<Longrightarrow> r \<in> set rs \<Longrightarrow> f r \<noteq> i"
  by (auto simp: the_id_def find_None_iff)

lemma mem_createWithItems_row:
  assumes "mem_createWithItems ord its X = (Inr (ord', its'), X')"
  shows "(\<exists>i. ord' = ord\<lparr>od_id := i\<rparr> \<and> i \<notin> od_id ` set (t_orders X)) \<and>
         map item_data its' = map item_data its \<and> (\<forall>x \<in> set its'. oi_orderId x = od_id ord') \<and>
         X' = X\<lparr>t_orders := t_orders X @ [ord'], t_orderItems := t_orderItems X @ its'\<rparr>"
proof -
  let ?i = "fresh_id (map od_id (t_orders X))"
  have "?i \<notin> od_id ` set (t_orders X)" using fresh_id_fresh[of "map od_id (t_orders X)"] by simp
  moreover have "map item_data (map (\<lambda>(n, x). x\<lparr>oi_id := b @ show_int (int n), oi_orderId := j\<rparr>) (enumerate k its)) =
      map item_data its" for b j k
    by (induction its arbitrary: k) (simp_all add: item_data_def)
  ultimately show ?thesis
    using assms by (auto simp: mem_createWithItems_def Let_def intro!: exI[of _ ?i])
qed

lemma join_tickets_mem:
  assumes "j \<in> set (join_tickets X w ss)"
  shows "tj_queue j \<in> set (t_kitchenQueues X) \<and> sat kitchenQueue_model w (tj_queue j) \<and>
         tj_order j \<in> set (t_orders X) \<and> od_id (tj_order j) = kq_orderId (tj_queue j) \<and>
         od_status (tj_order j) \<in> set ss \<and>
         (\<forall>x \<in> set (tj_items j). ij_item x \<in> set (t_orderItems X) \<and> oi_orderId (ij_item x) = od_id (tj_order j))"
  using assms by (auto simp: join_tickets_def join_item_def)

lemma join_user_join: "u \<in> set (t_users X) \<Longrightarrow> user_join X (join_user X u)"
  by (auto simp: join_user_def user_join_def user_roles_def)

lemma join_user_user [simp]: "uj_user (join_user X u) = u"
  by (simp add: join_user_def)

lemma update_first_Some: "update_first q f xs = Some (y, ys) \<Longrightarrow> \<exists>as x bs. xs = as @ x # bs \<and> q x \<and> y = f x \<and> ys = as @ f x # bs"
proof (induction xs arbitrary: y ys)
  case (Cons x xs)
  show ?case
  proof (cases "q x")
    case True
    then show ?thesis using Cons.prems by (auto intro: exI[of _ "[]"])
  next
    case False
    then obtain zs where z: "update_first q f xs = Some (y, zs)" "ys = x # zs" using Cons.prems by auto
    from Cons.IH[OF z(1)] obtain as w bs where "xs = as @ w # bs" "q w" "y = f w" "zs = as @ f w # bs" by blast
    then show ?thesis using z(2) by (intro exI[of _ "x # as"]) auto
  qed
qed simp

lemma newest_None: "newest f xs = None \<longleftrightarrow> xs = []"
  by (cases xs) (auto split: option.splits)

lemma newest_Some: "newest f xs = Some y \<Longrightarrow> y \<in> set xs \<and> (\<forall>x \<in> set xs. f x \<le> f y)"
proof (induction xs arbitrary: y)
  case (Cons x xs)
  show ?case
  proof (cases "newest f xs")
    case None
    then show ?thesis using Cons.prems by (simp add: newest_None)
  next
    case (Some z)
    then show ?thesis using Cons.prems Cons.IH[OF Some] by (auto split: if_splits)
  qed
qed simp

lemma mem_createTenant_row:
  assumes "mem_createTenant x X = (Inr tn, X')"
  shows "(\<exists>i. tn = x\<lparr>tn_id := i\<rparr> \<and> i \<noteq> [] \<and> i \<notin> tn_id ` set (t_tenants X)) \<and> X' = X\<lparr>t_tenants := t_tenants X @ [tn]\<rparr>"
proof -
  let ?i = "fresh_id ([] # map tn_id (t_tenants X))"
  have "?i \<noteq> []" "?i \<notin> tn_id ` set (t_tenants X)" using fresh_id_fresh[of "[] # map tn_id (t_tenants X)"] by auto
  then show ?thesis using assms by (auto simp: mem_createTenant_def Let_def intro!: exI[of _ ?i])
qed

lemma join_product_join:
  "p \<in> set (t_products X) \<Longrightarrow> pr_isAvailable p \<Longrightarrow> pr_deletedAt p = None \<Longrightarrow> product_join X (pr_categoryId p) (join_product X p)"
  by (auto simp: product_join_def join_product_def addon_join_def image_image)

lemma join_product_product [simp]: "pj_product (join_product X p) = p"
  by (simp add: join_product_def)

lemma join_category_category [simp]: "cj_category (join_category X n c) = c"
  by (simp add: join_category_def)

lemma join_category_join: "c \<in> set (t_categories X) \<Longrightarrow> category_join X n (join_category X n c)"
  unfolding category_join_def
  by (auto simp: join_category_def image_image dest!: in_set_takeD intro: join_product_join) (metis join_product_join)

lemma join_categories_all:
  assumes "cs = map (join_category X m) (take n (sort_key ct_sortOrder (filter Q (t_categories X))))" and "length cs < n"
  shows "cj_category ` set cs = {x \<in> set (t_categories X). Q x}"
proof -
  have "take n (sort_key ct_sortOrder (filter Q (t_categories X))) = sort_key ct_sortOrder (filter Q (t_categories X))"
    using assms by (intro take_all) simp
  then show ?thesis by (auto simp: assms(1) image_image)
qed

lemma sorted_map_take: "sorted (map f xs) \<Longrightarrow> sorted (map f (take n xs))"
  by (metis sorted_wrt_take take_map)

interpretation mem: prisma_client mem_prisma "\<lambda>X. X"
proof (rule prisma_client.intro, goal_cases)
  case (2 i d tn)
  then show ?case by (auto simp: mem_prisma_def dest: the_id_Some)
next
  case (3 i d tn)
  then show ?case by (auto simp: mem_prisma_def dest: the_id_None)
next
  case (26 ord its d ord' its' d')
  then show ?case by (intro mem_createWithItems_row) (simp add: mem_prisma_def)
next
  case (29 w d js j)
  then show ?case by (auto simp: mem_prisma_def join_item_def dest!: the_id_Some)
next
  case (31 w ss d ks k)
  then show ?case by (intro join_tickets_mem) (simp add: mem_prisma_def)
next
  case (32 w ss d ks)
  then show ?case by (auto simp: mem_prisma_def join_tickets_def)
next
  case (34 i d b r)
  then show ?case by (auto simp: mem_prisma_def dest: the_id_Some)
next
  case (36 w d j)
  then show ?case by (auto simp: mem_prisma_def find_Some_iff join_user_join)
next
  case (37 w d u)
  then show ?case by (auto simp: mem_prisma_def find_None_iff)
next
  case (39 w b n k d js)
  then show ?case by (auto simp: mem_prisma_def dest!: in_set_takeD in_set_dropD intro!: join_user_join)
next
  case (41 w nm t d n)
  then show ?case by (simp add: mem_prisma_def)
next
  case (43 i d tn)
  then show ?case by (auto simp: mem_prisma_def dest: the_id_Some)
next
  case (45 i d tn)
  then show ?case by (auto simp: mem_prisma_def find_Some_iff)
next
  case (47 i d tn)
  then show ?case by (auto simp: mem_prisma_def find_Some_iff)
next
  case (48 i f d tn d')
  then show ?case by (auto simp: mem_prisma_def mem_updateTenant_def split: option.splits dest!: update_first_Some)
next
  case (51 i d pl)
  then show ?case by (auto simp: mem_prisma_def dest: the_id_Some)
next
  case (53 w d b pl)
  then show ?case by (auto simp: mem_prisma_def dest!: newest_Some the_id_Some)
next
  case (59 i d tn)
  then show ?case by (auto simp: mem_prisma_def dest: the_id_None)
next
  case (60 i d tn)
  then show ?case by (auto simp: mem_prisma_def find_None_iff)
next
  case (61 x d tn d')
  then show ?case by (intro mem_createTenant_row) (simp add: mem_prisma_def)
next
  case (70 nm i d r)
  then show ?case by (force simp: mem_prisma_def dest!: newest_Some)
next
  case (71 nm i d x)
  then show ?case by (auto simp: mem_prisma_def newest_None filter_empty_conv)
next
  case (76 w n m d cs)
  then show ?case by (auto simp: mem_prisma_def join_category_join dest!: in_set_takeD)
next
  case (77 w n m d cs)
  then show ?case by (intro join_categories_all[where m = m]) (simp_all add: mem_prisma_def)
next
  case (78 w n m d cs)
  then show ?case by (auto simp: mem_prisma_def comp_def sorted_map_take)
qed (auto simp: mem_prisma_def mem_createWithItems_def mem_updateTenant_def mem_createTenant_def Let_def mem_live split: option.splits)

end
