(* ===== verification/World.thy ===== *)
theory World
  imports Database
begin

text \<open>
  What the services of \<^verbatim>\<open>apps/api/src\<close> work on: the database, the messages they have handed to
  the outside (the KDS room broadcasts, the outbound webhooks, SMS and e-mail), and the
  environment of a call (the clock, \<^verbatim>\<open>Math.random\<close>, the optional services that were injected and
  what the libraries behind them answer).
\<close>

section \<open>Messages\<close>

record ticketItem =
  ti_orderItemId :: string
  ti_name :: string
  ti_quantity :: int
  ti_size :: "string option"
  ti_addons :: "string list"
  ti_cookingStatus :: CookingStatus

record invoiceMail =
  im_invoiceNumber :: string
  im_orderNumber :: string
  im_customerName :: string
  im_branchName :: string
  im_subtotal :: jsnum
  im_taxAmount :: jsnum
  im_total :: jsnum
  im_pdfUrl :: string
  im_companyName :: string

datatype payload =
    OrderPayload order
  | OrderWithItems order "orderItem list"
  | TicketPayload string string string "ticketItem list"
  | ItemUpdated string string CookingStatus int
  | ItemUpdatedLegacy string string CookingStatus CookingStatus
  | PriorityChanged string string string
  | RecordPayload "(string \<times> json) list"

text \<open>The domain event of \<^verbatim>\<open>billing/events/billing-status-changed.event.ts\<close>.\<close>

record BillingStatusChangedEvent =
  bs_tenantId :: string
  bs_previousStatus :: string
  bs_newStatus :: string
  bs_eventType :: string
  bs_eventId :: string
  bs_timestamp :: int

datatype message =
    Emit string string string string int payload
  | WebhookDispatch "string option" string payload
  | OrderStatusSms string string OrderStatus "string option"
  | InvoiceEmail string invoiceMail
  | PasswordResetEmail string string string
  | BillingStatusChanged BillingStatusChangedEvent

text \<open>The room an emission goes to; the other messages go to no room.\<close>

fun emit_room :: "message \<Rightarrow> string option" where
  "emit_room (Emit room event tenantId branchId timestamp p) = Some room"
| "emit_room _ = None"

section \<open>State and environment\<close>

record 'd world =
  w_db :: 'd
  w_out :: "message list"

text \<open>
  A gateway whose \<^verbatim>\<open>server\<close> is not initialised has \<open>None\<close>; otherwise whether
  \<^verbatim>\<open>server.to(room).emit(event, ..)\<close> returns rather than throws is for the library to say.
\<close>

record gateway =
  gw_server :: "(string \<Rightarrow> string \<Rightarrow> bool) option"

record pdfInput =
  pi_invoiceNumber :: string
  pi_orderNumber :: string
  pi_companyName :: string
  pi_branchName :: string
  pi_customerName :: string
  pi_subtotal :: jsnum
  pi_taxAmount :: jsnum
  pi_discountAmount :: jsnum
  pi_total :: jsnum
  pi_issuedAt :: int

record env =
  ev_now :: int
  ev_year :: int
  ev_random :: rat
  ev_kdsGateway :: "gateway option"
  ev_webhookService :: bool
  ev_emailService :: bool
  ev_smsService :: bool
  ev_invoicePdfService :: "(pdfInput \<Rightarrow> exn + string) option"
  ev_invoiceStorageService :: "(string option \<Rightarrow> string \<Rightarrow> string \<Rightarrow> exn + string) option"

definition liftDb :: "('d, 'a) prog \<Rightarrow> ('d world, 'a) prog" where
  "liftDb m = (\<lambda>w. case m (w_db w) of (r, d) \<Rightarrow> (r, w\<lparr>w_db := d\<rparr>))"

definition send :: "message \<Rightarrow> ('d world, unit) prog" where
  "send x = modify (\<lambda>w. w\<lparr>w_out := w_out w @ [x]\<rparr>)"

text \<open>\<^verbatim>\<open>Math.floor\<close> of a finite number, and \<^verbatim>\<open>Number(x) || 0\<close>.\<close>

fun js_floor :: "jsnum \<Rightarrow> int" where
  "js_floor (Fin x) = \<lfloor>x\<rfloor>"
| "js_floor _ = 0"

fun or_zero :: "jsnum \<Rightarrow> jsnum" where
  "or_zero NaN = Fin 0"
| "or_zero x = x"

text \<open>\<^verbatim>\<open>Math.floor(lo + Math.random() * len)\<close>.\<close>

definition random_int :: "env \<Rightarrow> int \<Rightarrow> int \<Rightarrow> int" where
  "random_int env lo len =
     js_floor (js_add (num_of_int lo) (js_mul (Fin (ev_random env)) (num_of_int len)))"

section \<open>Rules\<close>

lemma liftDb_eq_Inr_iff:
  "liftDb m w = (Inr x, w') \<longleftrightarrow> (\<exists>d. m (w_db w) = (Inr x, d) \<and> w' = w\<lparr>w_db := d\<rparr>)"
  by (auto simp: liftDb_def split: prod.splits)

lemma liftDb_eq_Inl_iff:
  "liftDb m w = (Inl e, w') \<longleftrightarrow> (\<exists>d. m (w_db w) = (Inl e, d) \<and> w' = w\<lparr>w_db := d\<rparr>)"
  by (auto simp: liftDb_def split: prod.splits)

lemma liftDb_InrE:
  assumes "liftDb m w = (Inr x, w')"
  obtains d where "m (w_db w) = (Inr x, d)" "w' = w\<lparr>w_db := d\<rparr>"
  using assms by (auto simp: liftDb_eq_Inr_iff)

lemma liftDb_apply [prog_simps]:
  "m (w_db w) = (r, d) \<Longrightarrow> liftDb m w = (r, w\<lparr>w_db := d\<rparr>)"
  by (simp add: liftDb_def)

lemma send_apply [prog_simps]: "send x w = (Inr (), w\<lparr>w_out := w_out w @ [x]\<rparr>)"
  by (simp add: send_def modify_def)

lemma preserves_liftDb [preserves_intros]:
  "preserves f m \<Longrightarrow> preserves (\<lambda>w. f (w_db w)) (liftDb m)"
  by (rule preservesI) (auto simp: liftDb_def preserves_def split: prod.splits, metis snd_conv)

lemma preserves_liftDb_out [preserves_intros]: "preserves w_out (liftDb m)"
  by (rule preservesI) (auto simp: liftDb_def split: prod.splits)

lemma preserves_send_db [preserves_intros]: "preserves (\<lambda>w. f (w_db w)) (send x)"
  by (simp add: preserves_def send_apply)

lemma never_fails_send [clean_intros]: "never_fails (send x)"
  by (simp add: send_def never_fails_modify)

lemma fails_clean_liftDb: "fails_clean f m \<Longrightarrow> fails_clean (\<lambda>w. f (w_db w)) (liftDb m)"
  by (auto simp: fails_clean_def liftDb_eq_Inl_iff)

text \<open>\<^verbatim>\<open>Math.floor(a / b)\<close> in binary64 is the integer quotient, up to the largest exact integer.\<close>

lemma floor_quotient:
  assumes "0 \<le> n" "n < 2 ^ 53" "0 < c"
  shows "js_floor (js_div_const (num_of_int n) (of_int c)) = n div c"
proof -
  let ?x = "of_int n / of_int c :: rat"
  have c1: "(1::rat) \<le> of_int c" using assms(3) by simp
  have n: "(of_int n :: rat) < 2 ^ 53" using assms(2) by (metis of_int_less_iff of_int_numeral of_int_power)
  have "?x * 1 \<le> ?x * of_int c" by (rule mult_left_mono[OF c1]) (use assms in simp)
  then have x: "0 \<le> ?x" "?x < 2 ^ 53" using assms c1 n by (simp_all add: order_le_less_trans)
  have num: "num_of_int n = Fin (of_int n)"
    using mk_num_Fin53[of "of_int n"] assms n fl_of_int[of n] by (simp add: num_of_int_def)
  have run: "js_floor (js_div_const (num_of_int n) (of_int c)) = \<lfloor>fl ?x\<rfloor>"
    using mk_num_Fin53[of ?x] x num assms(3) by simp
  have q: "of_int (n div c) \<le> ?x" by (metis floor_divide_of_int_eq of_int_floor_le)
  have "0 \<le> n div c" "n div c \<le> n"
    using assms zdiv_mono2[of n 1 c] by (simp_all add: pos_imp_zdiv_nonneg_iff)
  then have "fl (of_int (n div c)) = of_int (n div c)" using assms(2) by (intro fl_of_int) simp
  then have lo: "of_int (n div c) \<le> fl ?x" using fl_mono[OF q] by simp
  have "n < (n div c + 1) * c" using assms(3) by (metis div_mult_mod_eq add.commute add_strict_left_mono
        distrib_right mult_1 pos_mod_bound)
  then have "n + 1 \<le> (n div c + 1) * c" by simp
  then have "(of_int (n + 1) :: rat) \<le> of_int ((n div c + 1) * c)" by (simp only: of_int_le_iff)
  then have up: "?x + 1 / of_int c \<le> of_int (n div c + 1)" using assms(3) by (simp add: field_simps)
  have "\<bar>fl ?x - ?x\<bar> \<le> ?x / 2 ^ 53" using fl_error[of ?x] x by simp
  moreover have "?x / 2 ^ 53 < 1 / of_int c" using assms n by (simp add: field_simps)
  ultimately have "fl ?x < of_int (n div c + 1)" using up by linarith
  then have "\<lfloor>fl ?x\<rfloor> = n div c" using lo by (intro floor_unique) simp_all
  then show ?thesis using run by simp
qed

lemma along_liftDb: "along R m \<Longrightarrow> along (\<lambda>w w'. R (w_db w) (w_db w')) (liftDb m)"
  by (rule alongI) (auto simp: liftDb_def split: prod.splits dest: alongD)

end
