(* ===== verification/Kds_Broadcast.thy ===== *)
theory Kds_Broadcast
  imports World
begin

text \<open>
  The broadcasting half of \<^verbatim>\<open>apps/api/src/kds/kds.gateway.ts\<close>: the rooms, one per tenant and
  branch, and the emission of an event to exactly one of them.
\<close>

section \<open>Definitions\<close>

definition getRoomName :: "string \<Rightarrow> string \<Rightarrow> string" where
  "getRoomName tenantId branchId = ''tenant:'' @ tenantId @ '':branch:'' @ branchId"

definition broadcastOrderEvent ::
  "env \<Rightarrow> gateway \<Rightarrow> string \<Rightarrow> string \<Rightarrow> string \<Rightarrow> payload \<Rightarrow> ('d world, unit) prog" where
  "broadcastOrderEvent env g tenantId branchId eventName p =
     (if tenantId = [] \<or> branchId = [] then return ()
      else let roomName = getRoomName tenantId branchId in
        case gw_server g of
          None \<Rightarrow> return ()
        | Some emits \<Rightarrow>
            if emits roomName eventName
            then send (Emit roomName eventName tenantId branchId (ev_now env) p)
            else throw (JsError ''socket.io emit failed''))"

definition emitOrderCreated :: "env \<Rightarrow> gateway \<Rightarrow> string \<Rightarrow> string \<Rightarrow> payload \<Rightarrow> ('d world, unit) prog" where
  "emitOrderCreated env g tenantId branchId ord = broadcastOrderEvent env g tenantId branchId ''order.created'' ord"

definition emitOrderAccepted :: "env \<Rightarrow> gateway \<Rightarrow> string \<Rightarrow> string \<Rightarrow> payload \<Rightarrow> ('d world, unit) prog" where
  "emitOrderAccepted env g tenantId branchId ord = broadcastOrderEvent env g tenantId branchId ''order.accepted'' ord"

definition emitOrderPreparing :: "env \<Rightarrow> gateway \<Rightarrow> string \<Rightarrow> string \<Rightarrow> payload \<Rightarrow> ('d world, unit) prog" where
  "emitOrderPreparing env g tenantId branchId ord = broadcastOrderEvent env g tenantId branchId ''order.preparing'' ord"

definition emitOrderReady :: "env \<Rightarrow> gateway \<Rightarrow> string \<Rightarrow> string \<Rightarrow> payload \<Rightarrow> ('d world, unit) prog" where
  "emitOrderReady env g tenantId branchId ord = broadcastOrderEvent env g tenantId branchId ''order.ready'' ord"

definition emitOrderCompleted :: "env \<Rightarrow> gateway \<Rightarrow> string \<Rightarrow> string \<Rightarrow> payload \<Rightarrow> ('d world, unit) prog" where
  "emitOrderCompleted env g tenantId branchId ord = broadcastOrderEvent env g tenantId branchId ''order.completed'' ord"

definition emitOrderCancelled :: "env \<Rightarrow> gateway \<Rightarrow> string \<Rightarrow> string \<Rightarrow> payload \<Rightarrow> ('d world, unit) prog" where
  "emitOrderCancelled env g tenantId branchId ord = broadcastOrderEvent env g tenantId branchId ''order.cancelled'' ord"

definition emitTicketCreated ::
  "env \<Rightarrow> gateway \<Rightarrow> string \<Rightarrow> string \<Rightarrow> string \<Rightarrow> string \<Rightarrow> string \<Rightarrow> ticketItem list \<Rightarrow> ('d world, unit) prog" where
  "emitTicketCreated env g tenantId branchId ticketId ticketNumber priority items =
     broadcastOrderEvent env g tenantId branchId ''ticket.created'' (TicketPayload ticketId ticketNumber priority items)"

definition emitTicketPriorityChanged ::
  "env \<Rightarrow> gateway \<Rightarrow> string \<Rightarrow> string \<Rightarrow> string \<Rightarrow> string \<Rightarrow> string \<Rightarrow> ('d world, unit) prog" where
  "emitTicketPriorityChanged env g tenantId branchId ticketId oldPriority newPriority =
     broadcastOrderEvent env g tenantId branchId ''ticket.priority_changed''
       (PriorityChanged ticketId oldPriority newPriority)"

section \<open>Rooms and broadcasts\<close>

lemma split_at_separator:
  "c \<notin> set xs \<Longrightarrow> c \<notin> set ys \<Longrightarrow> xs @ c # as = ys @ c # bs \<longleftrightarrow> xs = ys \<and> as = bs"
proof (induction xs arbitrary: ys)
  case Nil
  then show ?case by (cases ys) auto
next
  case (Cons x xs)
  then show ?case by (cases ys) auto
qed

text \<open>A tenant id without a colon is recovered from the name of its rooms.\<close>

lemma getRoomName_inj:
  assumes "CHR '':'' \<notin> set t" "CHR '':'' \<notin> set t'"
  shows "getRoomName t b = getRoomName t' b' \<longleftrightarrow> t = t' \<and> b = b'"
proof -
  have "getRoomName t b = getRoomName t' b' \<longleftrightarrow>
        t @ CHR '':'' # ''branch:'' @ b = t' @ CHR '':'' # ''branch:'' @ b'"
    by (simp add: getRoomName_def)
  then show ?thesis unfolding split_at_separator[OF assms] by simp
qed

text \<open>What a broadcast may add to the messages: one emission, to the room of its arguments.\<close>

definition room_only :: "string \<Rightarrow> string \<Rightarrow> message list \<Rightarrow> bool" where
  "room_only t b ms \<longleftrightarrow> (\<forall>m \<in> set ms. \<forall>r. emit_room m = Some r \<longrightarrow> r = getRoomName t b)"

lemma room_only_simps [simp]:
  "room_only t b []" "room_only t b (xs @ ys) \<longleftrightarrow> room_only t b xs \<and> room_only t b ys"
  "room_only t b [Emit r ev t' b' n p] \<longleftrightarrow> r = getRoomName t b"
  "room_only t b [WebhookDispatch x ev p]" "room_only t b [OrderStatusSms y z u v]"
  "room_only t b [InvoiceEmail y im]"
  by (auto simp: room_only_def)

lemma broadcast_db: "preserves (\<lambda>w. f (w_db w)) (broadcastOrderEvent env g t b ev p)"
  by (auto simp: broadcastOrderEvent_def Let_def intro!: preserves_intros)

lemma broadcast_out:
  "broadcastOrderEvent env g t b ev p w = (r, w') \<Longrightarrow>
   \<exists>ms. w_out w' = w_out w @ ms \<and> room_only t b ms"
  by (auto simp: broadcastOrderEvent_def Let_def prog_simps split: if_splits option.splits)

end
