(* ===== verification/Order_Service.thy ===== *)
theory Order_Service
  imports Kds_Broadcast
begin

text \<open>
  \<^verbatim>\<open>apps/api/src/order/order.service.ts\<close>: the checkout pipeline of staff and QR guests, the
  order state machine, invoicing and the notifications that accompany them, over the database
  client \<open>P\<close> and in the tenant context \<open>c\<close> of the request.
\<close>

section \<open>Requests\<close>

record OrderItemSelectionDto =
  is_productId :: string
  is_sizeId :: "string option"
  is_variantId :: "string option"
  is_quantity :: int
  is_addons :: "string list option"

record CreateOrderRequestDto =
  co_branchId :: string
  co_tableId :: "string option"
  co_qrCodeToken :: "string option"
  co_type :: OrderType
  co_specialNotes :: "string option"
  co_items :: "OrderItemSelectionDto list"
  co_paymentMethod :: PaymentMethodType
  co_discountCode :: "string option"

section \<open>Events\<close>

definition mapStatusToEvent :: "OrderStatus \<Rightarrow> string option" where
  "mapStatusToEvent status = Some (case status of
     OrderStatus.DRAFT \<Rightarrow> ''order.created''
   | OrderStatus.PENDING \<Rightarrow> ''order.created''
   | OrderStatus.ACCEPTED \<Rightarrow> ''order.accepted''
   | OrderStatus.PREPARING \<Rightarrow> ''order.preparing''
   | OrderStatus.READY \<Rightarrow> ''order.ready''
   | OrderStatus.COMPLETED \<Rightarrow> ''order.completed''
   | OrderStatus.CANCELLED \<Rightarrow> ''order.cancelled'')"

text \<open>An exception of the broadcast skips the webhook and is swallowed.\<close>

definition emitKdsEvent ::
  "env \<Rightarrow> string option \<Rightarrow> string \<Rightarrow> string \<Rightarrow> payload \<Rightarrow> ('d world, unit) prog" where
  "emitKdsEvent env tenantId branchId eventName ord =
     try_catch
       (andThen
         (case ev_kdsGateway env of
            None \<Rightarrow> return ()
          | Some g \<Rightarrow>
              if \<not> truthy tenantId \<or> branchId = [] then return ()
              else broadcastOrderEvent env g (or_else tenantId []) branchId eventName ord)
         (\<lambda>_. if ev_webhookService env then send (WebhookDispatch tenantId eventName ord) else return ()))
       (\<lambda>err. return ())"

section \<open>Checkout\<close>

text \<open>The price of one unit: a variant replaces the base price, a size adjusts it.\<close>

definition resolveUnitPrice ::
  "'d prisma \<Rightarrow> ctx \<Rightarrow> OrderItemSelectionDto \<Rightarrow> product \<Rightarrow> ('d, jsnum) prog" where
  "resolveUnitPrice P c item pr =
     (let unitPrice = num_of_decimal (pr_basePrice pr) in
      if truthy (is_variantId item) then
        (let variantId = or_else (is_variantId item) [] in
         andThen (dg_findFirst (extended c productVariant_model (px_productVariant P))
                    [(''id'', Is (CStr variantId)), (''productId'', Is (CStr (pr_id pr)))])
           (\<lambda>variant. case variant of
              None \<Rightarrow> throw (BadRequestException (''Variant ['' @ variantId @ ''] is invalid for product ['' @
                        is_productId item @ ''].''))
            | Some v \<Rightarrow>
                if pv_stockQuantity v \<le> 0
                then throw (BadRequestException (''Variant ['' @ variantId @ ''] for product ['' @
                        is_productId item @ ''] is out of stock.''))
                else return (num_of_decimal (pv_price v))))
      else if truthy (is_sizeId item) then
        (let sizeId = or_else (is_sizeId item) [] in
         andThen (findMany c productSize_model (extended c productSize_model (px_productSize P))
                    [(''id'', Is (CStr sizeId)), (''productId'', Is (CStr (pr_id pr)))] None None)
           (\<lambda>sizes. case sizes of
              [] \<Rightarrow> throw (BadRequestException (''Sizing modifier ['' @ sizeId @ ''] is invalid for this product.''))
            | s # _ \<Rightarrow> return (js_add unitPrice (num_of_decimal (ps_priceAdjustment s)))))
      else return unitPrice)"

definition resolveAddon ::
  "'d prisma \<Rightarrow> ctx \<Rightarrow> string \<Rightarrow> string \<Rightarrow> jsnum \<times> orderItemAddon list \<Rightarrow>
   ('d, jsnum \<times> orderItemAddon list) prog" where
  "resolveAddon P c userTenantId addonItemId acc =
     andThen (findMany c addonItem_model (extended c addonItem_model (px_addonItem P))
                [(''id'', Is (CStr addonItemId))] None None)
       (\<lambda>found. case found of
          [] \<Rightarrow> throw (BadRequestException (''Selected addon ['' @ addonItemId @ ''] is unavailable.''))
        | a # _ \<Rightarrow>
            if \<not> ai_isAvailable a
            then throw (BadRequestException (''Selected addon ['' @ addonItemId @ ''] is unavailable.''))
            else return (js_add (fst acc) (num_of_decimal (ai_price a)),
                         snd acc @ [\<lparr>oa_id = [], oa_tenantId = Some userTenantId,
                                     oa_addonItemId = ai_id a, oa_price = ai_price a\<rparr>]))"

text \<open>One turn of the loop over the requested items.\<close>

definition resolveItem ::
  "'d prisma \<Rightarrow> ctx \<Rightarrow> string \<Rightarrow> OrderItemSelectionDto \<Rightarrow> jsnum \<times> orderItem list \<Rightarrow>
   ('d, jsnum \<times> orderItem list) prog" where
  "resolveItem P c userTenantId item acc =
     andThen (findById c product_model (extended c product_model (px_product P)) (is_productId item))
       (\<lambda>found. case (case found of None \<Rightarrow> None | Some p \<Rightarrow> if pr_isAvailable p then Some p else None) of
          None \<Rightarrow> throw (NotFoundException (''Product with ID ['' @ is_productId item @ ''] is unavailable or missing.''))
        | Some pr \<Rightarrow>
            andThen (resolveUnitPrice P c item pr) (\<lambda>unitPrice.
            andThen (foldProg (resolveAddon P c userTenantId)
                       (case is_addons item of None \<Rightarrow> [] | Some as \<Rightarrow> as) (Fin 0, []))
              (\<lambda>(lineAddonsTotal, addonsToCreate).
                let totalLinePrice = js_mul (js_add unitPrice lineAddonsTotal) (num_of_int (is_quantity item)) in
                return (js_add (fst acc) totalLinePrice,
                        snd acc @ [\<lparr>oi_id = [], oi_tenantId = Some userTenantId, oi_orderId = [],
                          oi_productId = pr_id pr, oi_variantId = or_null (is_variantId item),
                          oi_sizeId = or_null (is_sizeId item), oi_quantity = is_quantity item,
                          oi_unitPrice = unitPrice, oi_totalPrice = totalLinePrice,
                          oi_cookingStatus = CookingStatus.PENDING,
                          oi_orderItemAddons = addonsToCreate\<rparr>]))))"

definition orderNumberOf :: "env \<Rightarrow> string" where
  "orderNumberOf env = ''ORD-'' @ show_int (ev_year env) @ ''-'' @ show_int (random_int env 10000 90000)"

text \<open>\<^verbatim>\<open>tx.order.create\<close> with its nested items, as the client extension lets it through.\<close>

definition order_createWithItems ::
  "'d prisma \<Rightarrow> ctx \<Rightarrow> order \<Rightarrow> orderItem list \<Rightarrow> ('d, order \<times> orderItem list) prog" where
  "order_createWithItems P c data its =
     allOperations c order_model ''create'' ((w_args [])\<lparr>a_data := Some data\<rparr>)
       (\<lambda>a. case a_data a of None \<Rightarrow> throw (JsError ''missing data'') | Some d \<Rightarrow> px_order_createWithItems P d its)"

text \<open>The discount lookup, validation and usage increment inside the transaction.\<close>

definition applyDiscount ::
  "'d prisma \<Rightarrow> ctx \<Rightarrow> env \<Rightarrow> string \<Rightarrow> string option \<Rightarrow> jsnum \<Rightarrow> ('d, string option \<times> jsnum) prog" where
  "applyDiscount P c env userTenantId discountCode subtotal =
     (if truthy discountCode then
        (let code = or_else discountCode [] in
         andThen (dg_findUnique (extended c discount_model (px_discount P))
                    [(''tenantId'', Is (CStr userTenantId)), (''code'', Is (CStr code))])
           (\<lambda>discount. andThen (of_result (validateDiscount discount code subtotal (ev_now env)))
           (\<lambda>resolved. andThen (dg_update (extended c discount_model (px_discount P))
                                   (where_id (rd_discountId resolved))
                                   (\<lambda>d. d\<lparr>d_usageCount := d_usageCount d + 1\<rparr>))
           (\<lambda>_. return (Some (rd_discountId resolved), rd_amount resolved)))))
      else return (None, Fin 0))"

definition checkoutTransaction ::
  "'d prisma \<Rightarrow> ctx \<Rightarrow> env \<Rightarrow> CreateOrderRequestDto \<Rightarrow> string \<Rightarrow> jsnum \<Rightarrow> jsnum \<Rightarrow> orderItem list \<Rightarrow>
   ('d, order \<times> orderItem list) prog" where
  "checkoutTransaction P c env dto userTenantId subtotal taxAmount orderItemsToCreate =
     (let orderNumber = orderNumberOf env;
          discountCode = (if truthy (co_discountCode dto)
                          then Some (toUpperCase (js_trim (or_else (co_discountCode dto) []))) else None) in
      andThen (applyDiscount P c env userTenantId discountCode subtotal) (\<lambda>(discountId, discountAmount).
        let total = round2 (js_sub (js_add subtotal taxAmount) discountAmount) in
        andThen (order_createWithItems P c
                   \<lparr>od_id = [], od_tenantId = Some userTenantId, od_branchId = co_branchId dto,
                    od_customerId = None, od_tableId = or_null (co_tableId dto), od_orderNumber = orderNumber,
                    od_type = co_type dto, od_paymentMethod = co_paymentMethod dto,
                    od_status = OrderStatus.PENDING, od_subtotal = subtotal, od_taxAmount = taxAmount,
                    od_discountAmount = discountAmount, od_discountId = discountId,
                    od_discountCode = discountCode, od_tipAmount = Fin 0, od_total = total,
                    od_specialNotes = or_null (co_specialNotes dto),
                    od_createdAt = ev_now env, od_updatedAt = ev_now env\<rparr>
                   orderItemsToCreate)
          (\<lambda>created. andThen (dg_create (extended c kitchenQueue_model (px_kitchenQueue P))
                               \<lparr>kq_id = [], kq_tenantId = Some userTenantId, kq_branchId = co_branchId dto,
                                kq_orderId = od_id (fst created), kq_ticketNumber = slice_last 3 orderNumber,
                                kq_priority = ''NORMAL'', kq_startedCookingAt = None, kq_completedCookingAt = None\<rparr>)
          (\<lambda>_. return created))))"

text \<open>The lines of a ticket, named through the joined rows.\<close>

definition ticketItemOf :: "itemJoin \<Rightarrow> ticketItem" where
  "ticketItemOf j = \<lparr>ti_orderItemId = oi_id (ij_item j),
     ti_name = or_else (map_option pr_name (ij_product j)) ''Unknown Product'',
     ti_quantity = oi_quantity (ij_item j),
     ti_size = or_null (map_option ps_name (ij_size j)),
     ti_addons = filter (\<lambda>s. s \<noteq> []) (map ai_name (concat (map (\<lambda>a. case a of None \<Rightarrow> [] | Some x \<Rightarrow> [x]) (ij_addonItems j)))),
     ti_cookingStatus = oi_cookingStatus (ij_item j)\<rparr>"

definition broadcastTicketCreated ::
  "'d prisma \<Rightarrow> ctx \<Rightarrow> env \<Rightarrow> CreateOrderRequestDto \<Rightarrow> string \<Rightarrow> order \<Rightarrow> ('d world, unit) prog" where
  "broadcastTicketCreated P c env dto userTenantId ord =
     (case ev_kdsGateway env of
        None \<Rightarrow> return ()
      | Some g \<Rightarrow> try_catch
          (andThen (liftDb (allOperations c orderItem_model ''findMany'' (w_args [(''orderId'', Is (CStr (od_id ord)))])
                              (\<lambda>a. px_orderItem_findManyJoined P (a_where a))))
             (\<lambda>itemsWithNames. emitTicketCreated env g userTenantId (co_branchId dto) (od_id ord)
                (slice_last 3 (orderNumberOf env)) ''NORMAL'' (map ticketItemOf itemsWithNames)))
          (\<lambda>err. return ()))"

definition validateTable :: "'d prisma \<Rightarrow> ctx \<Rightarrow> CreateOrderRequestDto \<Rightarrow> branch \<Rightarrow> ('d, unit) prog" where
  "validateTable P c dto br =
     (if truthy (co_tableId dto) then
        andThen (findById c dining_table_model (extended c dining_table_model (px_table P)) (or_else (co_tableId dto) []))
          (\<lambda>table. case table of
             None \<Rightarrow> throw (NotFoundException (''The selected table with ID ['' @ or_else (co_tableId dto) [] @ ''] was not found.''))
           | Some tb \<Rightarrow>
               if tb_branchId tb \<noteq> br_id br
               then throw (BadRequestException ''The selected table does not belong to the selected branch.'')
               else return ())
      else return ())"

text \<open>Everything before the transaction: only reads.\<close>

definition prepareCheckout ::
  "'d prisma \<Rightarrow> ctx \<Rightarrow> CreateOrderRequestDto \<Rightarrow> string \<Rightarrow> ('d, jsnum \<times> jsnum \<times> orderItem list) prog" where
  "prepareCheckout P c dto userTenantId =
     andThen (findById c branch_model (extended c branch_model (px_branch P)) (co_branchId dto)) (\<lambda>branch.
     case branch of
       None \<Rightarrow> throw (NotFoundException (''The selected branch with ID ['' @ co_branchId dto @ ''] was not found.''))
     | Some br \<Rightarrow>
     andThen (findById c restaurant_model (extended c restaurant_model (px_restaurant P)) (br_restaurantId br)) (\<lambda>restaurant.
     case restaurant of
       None \<Rightarrow> throw (NotFoundException ''The parent restaurant brand was not found under this tenant context.'')
     | Some rs \<Rightarrow>
     andThen (validateTable P c dto br) (\<lambda>_.
     andThen (foldProg (resolveItem P c userTenantId) (co_items dto) (Fin 0, [])) (\<lambda>(subtotal, orderItemsToCreate).
       let taxRate = js_div_const (num_of_decimal (rs_taxPercentage rs)) 100;
           taxAmount = round2 (js_mul subtotal taxRate) in
       return (subtotal, taxAmount, orderItemsToCreate)))))"

definition createOrder ::
  "'d prisma \<Rightarrow> ctx \<Rightarrow> env \<Rightarrow> CreateOrderRequestDto \<Rightarrow> string \<Rightarrow> ('d world, order \<times> orderItem list) prog" where
  "createOrder P c env dto userTenantId =
     andThen (liftDb (prepareCheckout P c dto userTenantId)) (\<lambda>(subtotal, taxAmount, orderItemsToCreate).
     andThen (liftDb (transaction P
                (checkoutTransaction P c env dto userTenantId subtotal taxAmount orderItemsToCreate))) (\<lambda>created.
     andThen (broadcastTicketCreated P c env dto userTenantId (fst created)) (\<lambda>_.
     andThen (emitKdsEvent env (Some userTenantId) (co_branchId dto) ''order.created''
                (OrderWithItems (fst created) (snd created))) (\<lambda>_.
     return created))))"

definition findByQrCodeToken :: "'d prisma \<Rightarrow> ctx \<Rightarrow> string \<Rightarrow> ('d, dining_table option) prog" where
  "findByQrCodeToken P c qrCodeToken =
     andThen (of_result (getTenantId c)) (\<lambda>tenantId.
       dg_findFirst (extended c dining_table_model (px_table P))
         [(''qrCodeToken'', Is (CStr qrCodeToken)), (''tenantId'', Is (opt_cell tenantId)), (''deletedAt'', Is CNull)])"

definition createGuestOrder ::
  "'d prisma \<Rightarrow> env \<Rightarrow> CreateOrderRequestDto \<Rightarrow> string \<Rightarrow> ('d world, order \<times> orderItem list) prog" where
  "createGuestOrder P env dto guestTenantId =
     (if guestTenantId = []
      then throw (BadRequestException ''Tenant context is required for guest checkout.'')
      else let c = tenant_ctx guestTenantId in
        if \<not> truthy (co_qrCodeToken dto) \<or> js_trim (or_else (co_qrCodeToken dto) []) = []
        then throw (BadRequestException ''A valid qrCodeToken is required for guest checkout.'')
        else andThen (liftDb (findByQrCodeToken P c (or_else (co_qrCodeToken dto) []))) (\<lambda>table.
          case table of
            None \<Rightarrow> throw (NotFoundException ''The scanned QR code could not be resolved.'')
          | Some tb \<Rightarrow>
              if co_branchId dto \<noteq> tb_branchId tb
              then throw (BadRequestException ''The order target branch does not match the scanned table branch.'')
              else if truthy (co_tableId dto) \<and> co_tableId dto \<noteq> Some (tb_id tb)
              then throw (BadRequestException ''The order target table does not match the scanned QR table.'')
              else (let dto' = dto\<lparr>co_branchId := tb_branchId tb, co_tableId := Some (tb_id tb)\<rparr> in
                andThen (liftDb (px_tenant_findUnique P guestTenantId)) (\<lambda>tenant.
                  if (\<exists>tn \<in> set_option tenant. tn_status tn = UNPAID \<or> tn_status tn = CANCELED)
                  then throw (ForbiddenException ''Online ordering is temporarily unavailable for this restaurant.'')
                  else createOrder P c env dto' guestTenantId))))"

section \<open>Lookups\<close>

definition getOrder :: "'d prisma \<Rightarrow> ctx \<Rightarrow> string \<Rightarrow> ('d world, order) prog" where
  "getOrder P c i =
     andThen (liftDb (findById c order_model (extended c order_model (px_order P)) i)) (\<lambda>ord.
       case ord of
         None \<Rightarrow> throw (NotFoundException (''Order with ID ['' @ i @ ''] was not found.''))
       | Some x \<Rightarrow> return x)"

definition getOrders :: "'d prisma \<Rightarrow> ctx \<Rightarrow> string option \<Rightarrow> ('d world, order list) prog" where
  "getOrders P c branchId =
     liftDb (findMany c order_model (extended c order_model (px_order P))
       (if truthy branchId then [(''branchId'', Is (opt_cell branchId))] else []) None None)"

section \<open>Invoices\<close>

definition joinNames :: "string \<Rightarrow> string \<Rightarrow> string" where
  "joinNames a b = (if a = [] then b else if b = [] then a else a @ '' '' @ b)"

text \<open>The display data of an invoice; a failing query keeps what was resolved before it.\<close>

definition resolveInvoiceNames :: "'d prisma \<Rightarrow> ctx \<Rightarrow> order \<Rightarrow> ('d, string \<times> string \<times> string) prog" where
  "resolveInvoiceNames P c ord =
     (let customerStep =
            (if truthy (od_customerId ord) then
               andThen (dg_findUnique (extended c customer_model (px_customer P)) (where_id (or_else (od_customerId ord) [])))
                 (\<lambda>customer. return (case customer of
                    None \<Rightarrow> ''Valued Customer''
                  | Some x \<Rightarrow> or_else (Some (joinNames (cu_firstName x) (cu_lastName x))) ''Valued Customer''))
             else return ''Valued Customer'');
          branchStep = allOperations c branch_model ''findUnique'' (w_args (where_id (od_branchId ord)))
                         (\<lambda>a. px_branch_findUniqueJoined P (od_branchId ord)) in
      andThen (try_catch (andThen customerStep (\<lambda>n. return (n, True))) (\<lambda>err. return (''Valued Customer'', False)))
        (\<lambda>(customerName, continues).
          let defaults = (customerName, od_branchId ord, ''Zayjar Restaurant'') in
          if \<not> continues then return defaults
          else try_catch (andThen branchStep (\<lambda>branch. return (case branch of
                 None \<Rightarrow> defaults
               | Some (b, r) \<Rightarrow> (customerName, br_name b, or_else (map_option rs_name r) ''Zayjar Restaurant''))))
               (\<lambda>err. return defaults)))"

definition renderAndStoreInvoicePdf ::
  "env \<Rightarrow> string \<Rightarrow> order \<Rightarrow> string \<Rightarrow> string \<Rightarrow> string \<Rightarrow> string" where
  "renderAndStoreInvoicePdf env invoiceNumber ord customerName branchName companyName =
     (let fallback = ''https://cdn.zayjar.com/invoices/'' @ invoiceNumber @ ''.pdf'' in
      case (ev_invoicePdfService env, ev_invoiceStorageService env) of
        (Some generate, Some storePdf) \<Rightarrow>
          (case generate \<lparr>pi_invoiceNumber = invoiceNumber, pi_orderNumber = od_orderNumber ord,
                pi_companyName = companyName, pi_branchName = branchName, pi_customerName = customerName,
                pi_subtotal = or_zero (od_subtotal ord), pi_taxAmount = or_zero (od_taxAmount ord),
                pi_discountAmount = or_zero (od_discountAmount ord), pi_total = or_zero (od_total ord),
                pi_issuedAt = ev_now env\<rparr> of
             Inl e \<Rightarrow> fallback
           | Inr pdf \<Rightarrow> (case storePdf (od_tenantId ord) invoiceNumber pdf of Inl e \<Rightarrow> fallback | Inr url \<Rightarrow> url))
      | _ \<Rightarrow> fallback)"

definition invoiceNumberOf :: "env \<Rightarrow> string" where
  "invoiceNumberOf env = ''INV-'' @ show_int (ev_year env) @ ''-'' @ show_int (random_int env 100000 900000)"

definition generateInvoice :: "'d prisma \<Rightarrow> ctx \<Rightarrow> env \<Rightarrow> order \<Rightarrow> ('d world, invoice) prog" where
  "generateInvoice P c env ord =
     (let invoiceNumber = invoiceNumberOf env in
      andThen (liftDb (resolveInvoiceNames P c ord)) (\<lambda>(customerName, branchName, companyName).
      let pdfUrl = renderAndStoreInvoicePdf env invoiceNumber ord customerName branchName companyName in
      andThen (liftDb (repo_create c invoice_model (extended c invoice_model (px_invoice P))
                 \<lparr>iv_id = [], iv_tenantId = od_tenantId ord, iv_orderId = od_id ord,
                  iv_invoiceNumber = invoiceNumber, iv_pdfUrl = pdfUrl\<rparr>)) (\<lambda>inv.
      andThen (if ev_emailService env then
                 send (InvoiceEmail ''customer@example.com''
                   \<lparr>im_invoiceNumber = invoiceNumber, im_orderNumber = od_orderNumber ord,
                    im_customerName = customerName, im_branchName = branchName,
                    im_subtotal = od_subtotal ord, im_taxAmount = od_taxAmount ord, im_total = od_total ord,
                    im_pdfUrl = pdfUrl, im_companyName = companyName\<rparr>)
               else return ()) (\<lambda>_.
      return inv))))"

section \<open>The state machine\<close>

fun allowedTransitions :: "OrderStatus \<Rightarrow> OrderStatus list" where
  "allowedTransitions OrderStatus.DRAFT = [OrderStatus.PENDING, OrderStatus.CANCELLED]"
| "allowedTransitions OrderStatus.PENDING = [OrderStatus.ACCEPTED, OrderStatus.CANCELLED]"
| "allowedTransitions OrderStatus.ACCEPTED = [OrderStatus.PREPARING, OrderStatus.CANCELLED]"
| "allowedTransitions OrderStatus.PREPARING = [OrderStatus.READY, OrderStatus.CANCELLED]"
| "allowedTransitions OrderStatus.READY = [OrderStatus.COMPLETED, OrderStatus.CANCELLED]"
| "allowedTransitions OrderStatus.COMPLETED = []"
| "allowedTransitions OrderStatus.CANCELLED = []"

definition validateStateTransition :: "OrderStatus \<Rightarrow> OrderStatus \<Rightarrow> exn + unit" where
  "validateStateTransition current nxt =
     (let routes = allowedTransitions current in
      if nxt \<notin> set routes
      then Inl (BadRequestException (''Forbidden transition: Cannot move order from ['' @ show_status current @
                  ''] directly to ['' @ show_status nxt @ ''].''))
      else Inr ())"

text \<open>The client sets the \<^verbatim>\<open>@updatedAt\<close> column on every update.\<close>

definition set_order_status :: "env \<Rightarrow> OrderStatus \<Rightarrow> order \<Rightarrow> order" where
  "set_order_status env status ord = ord\<lparr>od_status := status, od_updatedAt := ev_now env\<rparr>"

definition updateOrderStatus :: "'d prisma \<Rightarrow> ctx \<Rightarrow> env \<Rightarrow> string \<Rightarrow> OrderStatus \<Rightarrow> ('d world, order) prog" where
  "updateOrderStatus P c env i status =
     andThen (liftDb (findById c order_model (extended c order_model (px_order P)) i)) (\<lambda>found.
     case found of
       None \<Rightarrow> throw (NotFoundException (''Order with ID ['' @ i @ ''] was not found.''))
     | Some ord \<Rightarrow>
     andThen (of_result (validateStateTransition (od_status ord) status)) (\<lambda>_.
     andThen (liftDb (repo_update c order_model (extended c order_model (px_order P)) i (set_order_status env status))) (\<lambda>updatedOrder.
     andThen (if status = OrderStatus.COMPLETED
              then andThen (generateInvoice P c env updatedOrder) (\<lambda>_. return ()) else return ()) (\<lambda>_.
     andThen (case mapStatusToEvent status of
                None \<Rightarrow> return ()
              | Some eventName \<Rightarrow> emitKdsEvent env (od_tenantId updatedOrder) (od_branchId updatedOrder) eventName
                                    (OrderPayload updatedOrder)) (\<lambda>_.
     andThen (if status = OrderStatus.READY \<and> ev_smsService env
              then send (OrderStatusSms ''+12025550144'' (od_orderNumber updatedOrder) status (od_tenantId updatedOrder))
              else return ()) (\<lambda>_.
     return updatedOrder))))))"

definition cancelOrder :: "'d prisma \<Rightarrow> ctx \<Rightarrow> env \<Rightarrow> string \<Rightarrow> ('d world, order) prog" where
  "cancelOrder P c env i =
     andThen (liftDb (findById c order_model (extended c order_model (px_order P)) i)) (\<lambda>found.
     case found of
       None \<Rightarrow> throw (NotFoundException (''Order with ID ['' @ i @ ''] was not found.''))
     | Some ord \<Rightarrow>
       if od_status ord = OrderStatus.COMPLETED
       then throw (ConflictException ''Completed orders cannot be cancelled.'')
       else
     andThen (liftDb (repo_update c order_model (extended c order_model (px_order P)) i
                        (set_order_status env OrderStatus.CANCELLED))) (\<lambda>cancelledOrder.
     andThen (emitKdsEvent env (od_tenantId cancelledOrder) (od_branchId cancelledOrder) ''order.cancelled''
                (OrderPayload cancelledOrder)) (\<lambda>_.
     return cancelledOrder)))"

end
