(* ===== verification/Order_Correct.thy ===== *)
theory Order_Correct
  imports Order_Service
begin

text \<open>
  The order service over any database client that behaves as documented: what each step of a
  checkout leaves alone, that a failed checkout leaves no trace, what a successful one has
  written, and what the state machine allows.
\<close>

section \<open>Isolation and frames\<close>

context prisma_client
begin

lemma resolveUnitPrice_reads: "t \<noteq> [] \<Longrightarrow> preserves f (resolveUnitPrice P (tenant_ctx t) item pr)"
  by (auto simp: resolveUnitPrice_def Let_def intro!: preserves_intros repo_reads)

lemma resolveAddon_reads: "t \<noteq> [] \<Longrightarrow> preserves f (resolveAddon P (tenant_ctx t) u i acc)"
  by (auto simp: resolveAddon_def intro!: preserves_intros repo_reads)

lemma resolveItem_reads: "t \<noteq> [] \<Longrightarrow> preserves f (resolveItem P (tenant_ctx t) u item acc)"
  by (auto simp: resolveItem_def Let_def
      intro!: preserves_intros repo_reads resolveUnitPrice_reads resolveAddon_reads)

lemma validateTable_reads: "t \<noteq> [] \<Longrightarrow> preserves f (validateTable P (tenant_ctx t) dto br)"
  by (auto simp: validateTable_def intro!: preserves_intros repo_reads)

lemma prepareCheckout_reads: "t \<noteq> [] \<Longrightarrow> preserves f (prepareCheckout P (tenant_ctx t) dto u)"
  by (auto simp: prepareCheckout_def Let_def intro!: preserves_intros repo_reads resolveItem_reads validateTable_reads)

end

text \<open>The items a checkout collects all carry the tenant of the request.\<close>

definition own_items :: "string \<Rightarrow> orderItem list \<Rightarrow> bool" where
  "own_items t its \<longleftrightarrow> (\<forall>x \<in> set its. oi_tenantId x = Some t)"

lemma own_items_data:
  assumes "map item_data its' = map item_data its" "own_items t its"
  shows "own_items t its'"
  unfolding own_items_def
proof
  fix x assume "x \<in> set its'"
  then have "item_data x \<in> set (map item_data its)" using assms(1) by (metis image_eqI set_map)
  then obtain y where "y \<in> set its" "item_data x = item_data y" by auto
  moreover have "oi_tenantId (item_data z) = oi_tenantId z" for z by (simp add: item_data_def)
  ultimately show "oi_tenantId x = Some t" using assms(2) by (metis own_items_def)
qed

lemma foreign_own_items: "own_items t its \<Longrightarrow> foreign orderItem_model t its = []"
  by (simp add: own_items_def foreign_def)

lemma resolveItem_own:
  "resolveItem P c t item (s, its) d = (Inr (s', its'), d') \<Longrightarrow> own_items t its \<Longrightarrow> own_items t its'"
  by (auto simp: resolveItem_def Let_def own_items_def prog_elims split: option.splits if_splits)

lemma foldItems_own:
  assumes "foldProg (resolveItem P c t) items (s, its) d = (Inr (s', its'), d')" "own_items t its"
  shows "own_items t its'"
proof -
  have "(\<lambda>a _. own_items t (snd a)) (s', its') d'"
    by (rule foldProg_invariant[OF assms(1)])
      (use assms(2) resolveItem_own in \<open>auto simp: split_paired_all\<close>)
  then show ?thesis by simp
qed

lemma prepareCheckout_InrE:
  assumes "prepareCheckout P c dto u d = (Inr (s, tax, its), d')"
  obtains br rs d1 d2 d3 where
    "findById c branch_model (extended c branch_model (px_branch P)) (co_branchId dto) d = (Inr (Some br), d1)"
    "findById c restaurant_model (extended c restaurant_model (px_restaurant P)) (br_restaurantId br) d1 = (Inr (Some rs), d2)"
    "validateTable P c dto br d2 = (Inr (), d3)"
    "foldProg (resolveItem P c u) (co_items dto) (Fin 0, []) d3 = (Inr (s, its), d')"
    "tax = round2 (js_mul s (js_div_const (num_of_decimal (rs_taxPercentage rs)) 100))"
  using assms unfolding prepareCheckout_def Let_def case_prod_beta
  apply (rule andThen_InrE)
  apply (erule option_throw_InrE)
  apply (erule andThen_InrE)
  apply (erule option_throw_InrE)
  apply (erule andThen_InrE)
  apply (erule andThen_InrE)
  apply (erule return_InrE)
  apply simp
  done

lemma prepareCheckout_own:
  assumes "prepareCheckout P c dto t d = (Inr (s, tax, its), d')"
  shows "own_items t its"
  using assms by (rule prepareCheckout_InrE) (erule foldItems_own, simp add: own_items_def)

context prisma_client
begin

abbreviation outside :: "string \<Rightarrow> 'd \<Rightarrow> tables" where
  "outside t d \<equiv> other_tenants t (T d)"

lemma order_createWithItems_scoped:
  "t \<noteq> [] \<Longrightarrow> od_tenantId ord = Some t \<Longrightarrow>
   order_createWithItems P (tenant_ctx t) ord its = px_order_createWithItems P ord its"
  by (simp add: order_createWithItems_def allOperations_create w_args_def)
    (simp add: order_model_def, metis order.surjective order.update_convs(2))

lemma createWithItems_others:
  assumes "own_items t its" "od_tenantId ord = Some t"
  shows "preserves (outside t) (px_order_createWithItems P ord its)"
proof (rule preservesI)
  fix d r d' assume *: "px_order_createWithItems P ord its d = (r, d')"
  show "outside t d' = outside t d"
  proof (cases r)
    case (Inl e)
    then show ?thesis using * createWithItems_Inl by simp
  next
    case (Inr x)
    obtain ord' its' where x: "x = (ord', its')" by (cases x)
    note law = createWithItems_Inr[OF *[unfolded Inr x]]
    have "foreign order_model t [ord'] = []" using law assms(2) by auto
    moreover have "foreign orderItem_model t its' = []"
      using law assms(1) by (intro foreign_own_items own_items_data[of its' its]) auto
    moreover have "T d' = (T d)\<lparr>t_orders := t_orders (T d) @ [ord'], t_orderItems := t_orderItems (T d) @ its'\<rparr>"
      using law by blast
    ultimately show ?thesis by (simp add: other_tenants_def)
  qed
qed

lemma applyDiscount_others:
  "t \<noteq> [] \<Longrightarrow> preserves (outside t) (applyDiscount P (tenant_ctx t) env t code s)"
  by (auto simp: applyDiscount_def Let_def
      intro!: preserves_intros repo_reads table_writes)

lemma checkoutTransaction_others:
  "t \<noteq> [] \<Longrightarrow> own_items t its \<Longrightarrow>
   preserves (outside t) (checkoutTransaction P (tenant_ctx t) env dto t s tax its)"
  by (auto simp: checkoutTransaction_def Let_def order_createWithItems_scoped
      intro!: preserves_intros applyDiscount_others createWithItems_others table_writes)

lemma emitKdsEvent_db: "preserves (\<lambda>w. f (w_db w)) (emitKdsEvent env tid b ev p)"
  by (auto simp: emitKdsEvent_def intro!: preserves_intros broadcast_db)

lemma itemJoin_read:
  "t \<noteq> [] \<Longrightarrow> preserves f (allOperations (tenant_ctx t) orderItem_model ''findMany'' (w_args w)
     (\<lambda>a. px_orderItem_findManyJoined P (a_where a)))"
  by (simp add: allOperations_scoped scopedOperations_def join_reads)

lemma broadcastTicketCreated_db:
  "t \<noteq> [] \<Longrightarrow> preserves (\<lambda>w. f (w_db w)) (broadcastTicketCreated P (tenant_ctx t) env dto u ord)"
  by (auto simp: broadcastTicketCreated_def emitTicketCreated_def
      intro!: preserves_intros broadcast_db itemJoin_read)

text \<open>A broadcast never makes an operation fail.\<close>

lemma emitKdsEvent_returns: "\<exists>w'. emitKdsEvent env tid b ev p w = (Inr (), w') \<and> w_db w' = w_db w"
proof -
  obtain r w' where eq: "emitKdsEvent env tid b ev p w = (r, w')" by force
  then have "w_db w' = w_db w" using preservesD[OF emitKdsEvent_db[of "\<lambda>d. d"]] by blast
  moreover have "r = Inr ()"
    using eq by (cases r) (auto simp: emitKdsEvent_def try_catch_def return_def split: prod.splits sum.splits)
  ultimately show ?thesis using eq by blast
qed

lemma broadcastTicketCreated_returns:
  assumes "t \<noteq> []"
  shows "\<exists>w'. broadcastTicketCreated P (tenant_ctx t) env dto u ord w = (Inr (), w') \<and> w_db w' = w_db w"
proof -
  obtain r w' where eq: "broadcastTicketCreated P (tenant_ctx t) env dto u ord w = (r, w')" by force
  then have "w_db w' = w_db w"
    using preservesD[OF broadcastTicketCreated_db[OF assms, of "\<lambda>d. d"]] by blast
  moreover have "r = Inr ()"
    using eq by (cases r) (auto simp: broadcastTicketCreated_def try_catch_def return_def
        split: prod.splits sum.splits option.splits)
  ultimately show ?thesis using eq by blast
qed

text \<open>A checkout is its reads, its transaction and messages.\<close>

lemma createOrder_InrE:
  assumes "t \<noteq> []" "createOrder P (tenant_ctx t) env dto u w = (Inr x, w')"
  obtains s tax its d2 where
    "prepareCheckout P (tenant_ctx t) dto u (w_db w) = (Inr (s, tax, its), w_db w)"
    "transaction P (checkoutTransaction P (tenant_ctx t) env dto u s tax its) (w_db w) = (Inr x, d2)"
    "w_db w' = d2"
proof -
  from assms(2) obtain p w1 where prep: "liftDb (prepareCheckout P (tenant_ctx t) dto u) w = (Inr p, w1)"
    and k: "(case p of (s, tax, its) \<Rightarrow>
       andThen (liftDb (transaction P (checkoutTransaction P (tenant_ctx t) env dto u s tax its))) (\<lambda>created.
       andThen (broadcastTicketCreated P (tenant_ctx t) env dto u (fst created)) (\<lambda>_.
       andThen (emitKdsEvent env (Some u) (co_branchId dto) ''order.created''
                (OrderWithItems (fst created) (snd created))) (\<lambda>_. return created)))) w1 = (Inr x, w')"
    unfolding createOrder_def by (rule andThen_InrE)
  obtain s tax its where p: "p = (s, tax, its)" by (cases p)
  from prep obtain d1 where d1: "prepareCheckout P (tenant_ctx t) dto u (w_db w) = (Inr p, d1)" "w1 = w\<lparr>w_db := d1\<rparr>"
    by (rule liftDb_InrE)
  have "d1 = w_db w" using preservesD[OF prepareCheckout_reads[OF assms(1), of "\<lambda>d. d"] d1(1)] by simp
  from k[unfolded p split_conv] obtain created w2 where
    tr: "liftDb (transaction P (checkoutTransaction P (tenant_ctx t) env dto u s tax its)) w1 = (Inr created, w2)"
    and rest: "andThen (broadcastTicketCreated P (tenant_ctx t) env dto u (fst created)) (\<lambda>_.
       andThen (emitKdsEvent env (Some u) (co_branchId dto) ''order.created''
                (OrderWithItems (fst created) (snd created))) (\<lambda>_. return created)) w2 = (Inr x, w')"
    by (rule andThen_InrE)
  obtain w3 where w3: "broadcastTicketCreated P (tenant_ctx t) env dto u (fst created) w2 = (Inr (), w3)" "w_db w3 = w_db w2"
    using broadcastTicketCreated_returns[OF assms(1)] by blast
  obtain w4 where w4: "emitKdsEvent env (Some u) (co_branchId dto) ''order.created''
      (OrderWithItems (fst created) (snd created)) w3 = (Inr (), w4)" "w_db w4 = w_db w3"
    using emitKdsEvent_returns by blast
  have "created = x \<and> w_db w' = w_db w2" using rest w3 w4 by (simp add: andThen_def return_def)
  then show thesis using that[of s tax its "w_db w2"] d1 p tr \<open>d1 = w_db w\<close>
    by (auto elim!: liftDb_InrE)
qed

lemma createOrder_others:
  assumes "t \<noteq> []"
  shows "preserves (\<lambda>w. outside t (w_db w)) (createOrder P (tenant_ctx t) env dto t)"
proof (rule preservesI)
  fix w r w' assume run: "createOrder P (tenant_ctx t) env dto t w = (r, w')"
  obtain p d1 where prep: "prepareCheckout P (tenant_ctx t) dto t (w_db w) = (p, d1)" by force
  have d1: "d1 = w_db w" using preservesD[OF prepareCheckout_reads[OF assms, of "\<lambda>d. d"] prep] by simp
  show "outside t (w_db w') = outside t (w_db w)"
  proof (cases p)
    case (Inl e)
    then show ?thesis using run prep d1 by (simp add: createOrder_def andThen_def liftDb_def)
  next
    case (Inr q)
    obtain s tax its where q: "q = (s, tax, its)" by (cases q)
    have own: "own_items t its" using prep Inr q by (auto intro: prepareCheckout_own)
    have "preserves (\<lambda>w. outside t (w_db w))
       (andThen (liftDb (transaction P (checkoutTransaction P (tenant_ctx t) env dto t s tax its))) (\<lambda>created.
        andThen (broadcastTicketCreated P (tenant_ctx t) env dto t (fst created)) (\<lambda>_.
        andThen (emitKdsEvent env (Some t) (co_branchId dto) ''order.created''
                (OrderWithItems (fst created) (snd created))) (\<lambda>_. return created))))" (is "preserves _ ?m")
      by (intro preserves_intros preserves_transaction checkoutTransaction_others
          broadcastTicketCreated_db emitKdsEvent_db assms own)
    moreover have "?m w = (r, w')"
      using run prep d1 Inr q by (simp add: createOrder_def andThen_def liftDb_def)
    ultimately show ?thesis by (rule preservesD)
  qed
qed

lemma createOrder_atomic:
  assumes "t \<noteq> []" "createOrder P (tenant_ctx t) env dto u w = (Inl e, w')"
  shows "T (w_db w') = T (w_db w)"
proof -
  obtain p d1 where prep: "prepareCheckout P (tenant_ctx t) dto u (w_db w) = (p, d1)" by force
  have d1: "d1 = w_db w" using preservesD[OF prepareCheckout_reads[OF assms(1), of "\<lambda>d. d"] prep] by simp
  show ?thesis
  proof (cases p)
    case (Inl e)
    then show ?thesis using assms prep d1 by (auto simp: createOrder_def andThen_def liftDb_def)
  next
    case (Inr q)
    obtain s tax its where q: "q = (s, tax, its)" by (cases q)
    let ?m = "transaction P (checkoutTransaction P (tenant_ctx t) env dto u s tax its)"
    obtain r d2 where tr: "?m (w_db w) = (r, d2)" by force
    show ?thesis
    proof (cases r)
      case (Inl e')
      then have "w_db w' = d2"
        using assms prep d1 \<open>p = Inr q\<close> q tr by (auto simp: createOrder_def andThen_def liftDb_def)
      then show ?thesis using transaction_Inl[OF tr[unfolded Inl]] by simp
    next
      case (Inr created)
      let ?w = "w\<lparr>w_db := d2\<rparr>"
      obtain w3 where w3: "broadcastTicketCreated P (tenant_ctx t) env dto u (fst created) ?w = (Inr (), w3)"
        using broadcastTicketCreated_returns[OF assms(1)] by blast
      obtain w4 where w4: "emitKdsEvent env (Some u) (co_branchId dto) ''order.created''
          (OrderWithItems (fst created) (snd created)) w3 = (Inr (), w4)"
        using emitKdsEvent_returns by blast
      have "createOrder P (tenant_ctx t) env dto u w = (Inr created, w4)"
        using prep d1 \<open>p = Inr q\<close> q tr Inr w3 w4
        by (simp add: createOrder_def andThen_def liftDb_def return_def)
      then show ?thesis using assms(2) by simp
    qed
  qed
qed

end

section \<open>Prices come from the database\<close>

definition unit_price_ok :: "tables \<Rightarrow> string \<Rightarrow> OrderItemSelectionDto \<Rightarrow> product \<Rightarrow> jsnum \<Rightarrow> bool" where
  "unit_price_ok X t sel p u \<longleftrightarrow>
     (if truthy (is_variantId sel)
      then \<exists>v \<in> set (t_productVariants X). Some (pv_id v) = is_variantId sel \<and> pv_tenantId v = Some t \<and>
             pv_productId v = pr_id p \<and> 0 < pv_stockQuantity v \<and> u = num_of_decimal (pv_price v)
      else if truthy (is_sizeId sel)
      then \<exists>z \<in> set (t_productSizes X). Some (ps_id z) = is_sizeId sel \<and> ps_tenantId z = Some t \<and>
             ps_productId z = pr_id p \<and>
             u = js_add (num_of_decimal (pr_basePrice p)) (num_of_decimal (ps_priceAdjustment z))
      else u = num_of_decimal (pr_basePrice p))"

definition addon_ok :: "tables \<Rightarrow> string \<Rightarrow> string \<Rightarrow> orderItemAddon \<Rightarrow> bool" where
  "addon_ok X t i a \<longleftrightarrow> (\<exists>x \<in> set (t_addonItems X). ai_id x = i \<and> ai_tenantId x = Some t \<and>
     ai_isAvailable x \<and> oa_addonItemId a = i \<and> oa_price a = ai_price x)"

definition addons_total :: "orderItemAddon list \<Rightarrow> jsnum" where
  "addons_total as = foldl (\<lambda>s a. js_add s (num_of_decimal (oa_price a))) (Fin 0) as"

text \<open>A line of an order is priced from rows of the tenant, whatever the client sent.\<close>

definition priced_line :: "tables \<Rightarrow> string \<Rightarrow> OrderItemSelectionDto \<Rightarrow> orderItem \<Rightarrow> bool" where
  "priced_line X t sel x \<longleftrightarrow>
     (\<exists>p \<in> set (t_products X). pr_id p = is_productId sel \<and> pr_tenantId p = Some t \<and>
        pr_deletedAt p = None \<and> pr_isAvailable p \<and> oi_productId x = pr_id p \<and>
        unit_price_ok X t sel p (oi_unitPrice x)) \<and>
     list_all2 (addon_ok X t) (case is_addons sel of None \<Rightarrow> [] | Some as \<Rightarrow> as) (oi_orderItemAddons x) \<and>
     oi_quantity x = is_quantity sel \<and> oi_cookingStatus x = CookingStatus.PENDING \<and>
     oi_totalPrice x = js_mul (js_add (oi_unitPrice x) (addons_total (oi_orderItemAddons x)))
                         (num_of_int (is_quantity sel))"

lemma sat_variant:
  "sat productVariant_model [(''id'', Is (CStr i)), (''productId'', Is (CStr p)), (''tenantId'', Is (CStr t))] v \<longleftrightarrow>
     pv_id v = i \<and> pv_productId v = p \<and> pv_tenantId v = Some t"
  by (auto simp: sat_def productVariant_model_def productVariant_col_def opt_cell_def split: option.splits)

lemma sat_size:
  "sat productSize_model [(''id'', Is (CStr i)), (''productId'', Is (CStr p)), (''tenantId'', Is (CStr t))] v \<longleftrightarrow>
     ps_id v = i \<and> ps_productId v = p \<and> ps_tenantId v = Some t"
  by (auto simp: sat_def productSize_model_def productSize_col_def opt_cell_def split: option.splits)

lemma sat_addon:
  "sat addonItem_model [(''id'', Is (CStr i)), (''tenantId'', Is (CStr t))] v \<longleftrightarrow>
     ai_id v = i \<and> ai_tenantId v = Some t"
  by (auto simp: sat_def addonItem_model_def addonItem_col_def opt_cell_def split: option.splits)

lemma truthy_or_else: "truthy x \<Longrightarrow> Some (or_else x d) = x"
  by (cases x) (auto simp: or_else_def)

context prisma_client
begin

lemma variant_lookup:
  assumes "t \<noteq> []" "dg_findFirst (extended (tenant_ctx t) productVariant_model (px_productVariant P))
             [(''id'', Is (CStr i)), (''productId'', Is (CStr p))] d = (Inr (Some v), d')"
  shows "v \<in> set (t_productVariants (T d)) \<and> pv_id v = i \<and> pv_productId v = p \<and> pv_tenantId v = Some t"
  using productVariants.findFirst_eqD[OF assms(2)[unfolded productVariants.ext_findFirst[OF assms(1)]]]
  by (simp add: sat_variant)

lemma size_lookup:
  assumes "t \<noteq> []" "findMany (tenant_ctx t) productSize_model (extended (tenant_ctx t) productSize_model (px_productSize P))
             [(''id'', Is (CStr i)), (''productId'', Is (CStr p))] None None d = (Inr zs, d')" "z \<in> set zs"
  shows "z \<in> set (t_productSizes (T d)) \<and> ps_id z = i \<and> ps_productId z = p \<and> ps_tenantId z = Some t"
  using assms
  by (auto simp: findMany_def scopedWhere_def Let_def productSizes.ext_findMany opt_cell_def sat_size
      dest: productSizes.findMany_memD)

lemma addon_lookup:
  assumes "t \<noteq> []" "findMany (tenant_ctx t) addonItem_model (extended (tenant_ctx t) addonItem_model (px_addonItem P))
             [(''id'', Is (CStr i))] None None d = (Inr zs, d')" "z \<in> set zs"
  shows "z \<in> set (t_addonItems (T d)) \<and> ai_id z = i \<and> ai_tenantId z = Some t"
  using assms
  by (auto simp: findMany_def scopedWhere_def Let_def addonItems.ext_findMany opt_cell_def sat_addon
      dest: addonItems.findMany_memD)

lemma resolveUnitPrice_ok:
  assumes "t \<noteq> []" "resolveUnitPrice P (tenant_ctx t) sel p d = (Inr u, d')"
  shows "unit_price_ok (T d) t sel p u"
proof -
  consider (variant) "truthy (is_variantId sel)" | (size) "\<not> truthy (is_variantId sel)" "truthy (is_sizeId sel)"
    | (base) "\<not> truthy (is_variantId sel)" "\<not> truthy (is_sizeId sel)" by blast
  then show ?thesis
  proof cases
    case variant
    with assms obtain v d1 where v: "dg_findFirst (extended (tenant_ctx t) productVariant_model (px_productVariant P))
        [(''id'', Is (CStr (or_else (is_variantId sel) []))), (''productId'', Is (CStr (pr_id p)))] d = (Inr (Some v), d1)"
      "\<not> pv_stockQuantity v \<le> 0" "u = num_of_decimal (pv_price v)"
      by (auto simp: resolveUnitPrice_def Let_def elim!: prog_invs)
    show ?thesis using variant_lookup[OF assms(1) v(1)] v(2,3) variant truthy_or_else[OF variant, of "[]"]
      by (auto simp: unit_price_ok_def intro!: bexI[of _ v])
  next
    case size
    with assms obtain z zs d1 where z: "findMany (tenant_ctx t) productSize_model
        (extended (tenant_ctx t) productSize_model (px_productSize P))
        [(''id'', Is (CStr (or_else (is_sizeId sel) []))), (''productId'', Is (CStr (pr_id p)))] None None d = (Inr (z # zs), d1)"
      "u = js_add (num_of_decimal (pr_basePrice p)) (num_of_decimal (ps_priceAdjustment z))"
      by (auto simp: resolveUnitPrice_def Let_def elim!: prog_invs)
    show ?thesis using size_lookup[OF assms(1) z(1)] z(2) size truthy_or_else[OF size(2), of "[]"]
      by (auto simp: unit_price_ok_def intro!: bexI[of _ z])
  next
    case base
    then show ?thesis using assms by (auto simp: resolveUnitPrice_def unit_price_ok_def Let_def elim!: prog_invs)
  qed
qed

lemma resolveAddon_ok:
  assumes "t \<noteq> []" "resolveAddon P (tenant_ctx t) t i (a, ys) d = (Inr r, d')"
  shows "d' = d \<and> (\<exists>y. r = (js_add a (num_of_decimal (oa_price y)), ys @ [y]) \<and> addon_ok (T d) t i y)"
proof -
  from assms(2) obtain z zs d1 where z: "findMany (tenant_ctx t) addonItem_model
        (extended (tenant_ctx t) addonItem_model (px_addonItem P)) [(''id'', Is (CStr i))] None None d = (Inr (z # zs), d1)"
      "ai_isAvailable z" and r: "r = (js_add a (num_of_decimal (ai_price z)),
        ys @ [\<lparr>oa_id = [], oa_tenantId = Some t, oa_addonItemId = ai_id z, oa_price = ai_price z\<rparr>])"
    by (auto simp: resolveAddon_def elim!: prog_invs)
  have "d' = d" using preservesD[OF resolveAddon_reads[OF assms(1), of "\<lambda>d. d"] assms(2)] by simp
  then show ?thesis using addon_lookup[OF assms(1) z(1)] z(2) r by (auto simp: addon_ok_def)
qed

lemma resolveItem_ok:
  assumes "t \<noteq> []" "resolveItem P (tenant_ctx t) t sel (a, ys) d = (Inr r, d')"
  shows "d' = d \<and> (\<exists>y. r = (js_add a (oi_totalPrice y), ys @ [y]) \<and> priced_line (T d) t sel y)"
proof -
  let ?c = "tenant_ctx t" let ?as = "case is_addons sel of None \<Rightarrow> [] | Some as \<Rightarrow> as"
  from assms(2) obtain o1 d1 where 1: "findById ?c product_model (extended ?c product_model (px_product P)) (is_productId sel) d = (Inr o1, d1)"
    and 2: "(case (case o1 of None \<Rightarrow> None | Some p \<Rightarrow> if pr_isAvailable p then Some p else None) of
          None \<Rightarrow> throw (NotFoundException (''Product with ID ['' @ is_productId sel @ ''] is unavailable or missing.''))
        | Some pr \<Rightarrow>
            andThen (resolveUnitPrice P ?c sel pr) (\<lambda>unitPrice.
            andThen (foldProg (resolveAddon P ?c t) ?as (Fin 0, []))
              (\<lambda>(lineAddonsTotal, addonsToCreate).
                let totalLinePrice = js_mul (js_add unitPrice lineAddonsTotal) (num_of_int (is_quantity sel)) in
                return (js_add (fst (a, ys)) totalLinePrice,
                        snd (a, ys) @ [\<lparr>oi_id = [], oi_tenantId = Some t, oi_orderId = [],
                          oi_productId = pr_id pr, oi_variantId = or_null (is_variantId sel),
                          oi_sizeId = or_null (is_sizeId sel), oi_quantity = is_quantity sel,
                          oi_unitPrice = unitPrice, oi_totalPrice = totalLinePrice,
                          oi_cookingStatus = CookingStatus.PENDING,
                          oi_orderItemAddons = addonsToCreate\<rparr>])))) d1 = (Inr r, d')"
    unfolding resolveItem_def by (rule andThen_InrE)
  from 2 obtain p where p: "o1 = Some p" "pr_isAvailable p"
    by (rule option_throw_InrE) (auto split: option.splits if_splits)
  have prow: "d1 = d" "p \<in> set (t_products (T d))" "pr_id p = is_productId sel" "pr_tenantId p = Some t" "pr_deletedAt p = None"
    using products.findById_Some[OF assms(1) 1[unfolded p]] by (auto simp: product_model_def)
  from 2[unfolded p] p prow obtain u d2 asum al d3 where
    u: "resolveUnitPrice P ?c sel p d = (Inr u, d2)"
    and al: "foldProg (resolveAddon P ?c t) ?as (Fin 0, []) d2 = (Inr (asum, al), d3)"
    and r: "r = (js_add a (js_mul (js_add u asum) (num_of_int (is_quantity sel))),
       ys @ [\<lparr>oi_id = [], oi_tenantId = Some t, oi_orderId = [], oi_productId = pr_id p,
          oi_variantId = or_null (is_variantId sel), oi_sizeId = or_null (is_sizeId sel), oi_quantity = is_quantity sel,
          oi_unitPrice = u, oi_totalPrice = js_mul (js_add u asum) (num_of_int (is_quantity sel)),
          oi_cookingStatus = CookingStatus.PENDING, oi_orderItemAddons = al\<rparr>])"
    by (auto simp: Let_def elim!: andThen_InrE return_InrE)
  have d2: "d2 = d" using preservesD[OF resolveUnitPrice_reads[OF assms(1), of "\<lambda>d. d"] u] by simp
  have al': "list_all2 (addon_ok (T d) t) ?as al \<and> asum = addons_total al"
    using foldProg_collect[where g = "\<lambda>a y. js_add a (num_of_decimal (oa_price y))" and R = "\<lambda>x y s. addon_ok (T s) t x y",
        OF resolveAddon_ok[OF assms(1)] al[unfolded d2]] by (simp add: addons_total_def)
  have "d' = d" using preservesD[OF resolveItem_reads[OF assms(1), of "\<lambda>d. d"] assms(2)] by simp
  then show ?thesis using resolveUnitPrice_ok[OF assms(1) u] prow p al' r by (auto simp: priced_line_def)
qed

lemma foldItems_priced:
  assumes "t \<noteq> []" "foldProg (resolveItem P (tenant_ctx t) t) sels (Fin 0, []) d = (Inr (s, its), d')"
  shows "list_all2 (priced_line (T d) t) sels its \<and> s = foldl js_add (Fin 0) (map oi_totalPrice its)"
  using foldProg_collect[where g = "\<lambda>a y. js_add a (oi_totalPrice y)" and R = "\<lambda>x y s. priced_line (T s) t x y",
      OF resolveItem_ok[OF assms(1)] assms(2)] by (simp add: foldl_map)

end

section \<open>What a checkout writes\<close>

text \<open>
  The discount part of a checkout: no code leaves the discounts alone; a code names a usable
  discount of the tenant, whose amount is charged and whose usage counter goes up by one.
\<close>

definition discount_effect ::
  "int \<Rightarrow> string \<Rightarrow> string option \<Rightarrow> jsnum \<Rightarrow> discount list \<Rightarrow> string option \<Rightarrow> jsnum \<Rightarrow> discount list \<Rightarrow> bool" where
  "discount_effect now t code s ds did amount ds' \<longleftrightarrow>
     (if truthy code
      then \<exists>x xs y ys. x \<in> set ds \<and> d_tenantId x = Some t \<and> Some (d_code x) = code \<and> discount_usable x now \<and>
             amount = computeDiscountAmount s (d_type x) (d_value x) \<and> \<not> js_le amount (Fin 0) \<and>
             did = Some (d_id x) \<and> ds = xs @ y # ys \<and> d_id y = d_id x \<and> d_tenantId y = Some t \<and>
             ds' = xs @ y\<lparr>d_usageCount := d_usageCount y + 1\<rparr> # ys
      else did = None \<and> amount = Fin 0 \<and> ds' = ds)"

text \<open>\<^verbatim>\<open>dto.discountCode ? dto.discountCode.trim().toUpperCase() : null\<close>\<close>

definition normal_code :: "CreateOrderRequestDto \<Rightarrow> string option" where
  "normal_code dto = (if truthy (co_discountCode dto)
                      then Some (toUpperCase (js_trim (or_else (co_discountCode dto) []))) else None)"

text \<open>The abstract effect of a checkout on the tables.\<close>

definition checkout_effect ::
  "env \<Rightarrow> CreateOrderRequestDto \<Rightarrow> string \<Rightarrow> tables \<Rightarrow> order \<Rightarrow> orderItem list \<Rightarrow> tables \<Rightarrow> bool" where
  "checkout_effect env dto t X ord its X' \<longleftrightarrow>
     (\<exists>k ds. X' = X\<lparr>t_discounts := ds, t_orders := t_orders X @ [ord], t_orderItems := t_orderItems X @ its,
                  t_kitchenQueues := t_kitchenQueues X @ [k]\<rparr> \<and>
        kq_tenantId k = Some t \<and> kq_branchId k = co_branchId dto \<and> kq_orderId k = od_id ord \<and>
        kq_priority k = ''NORMAL'' \<and> kq_ticketNumber k = slice_last 3 (od_orderNumber ord) \<and>
        discount_effect (ev_now env) t (normal_code dto) (od_subtotal ord) (t_discounts X)
          (od_discountId ord) (od_discountAmount ord) ds) \<and>
     od_id ord \<notin> od_id ` set (t_orders X) \<and> (\<forall>x \<in> set its. oi_orderId x = od_id ord) \<and>
     od_tenantId ord = Some t \<and> od_branchId ord = co_branchId dto \<and> od_tableId ord = or_null (co_tableId dto) \<and>
     od_status ord = OrderStatus.PENDING \<and> od_type ord = co_type dto \<and> od_paymentMethod ord = co_paymentMethod dto \<and>
     od_discountCode ord = normal_code dto \<and>
     list_all2 (priced_line X t) (co_items dto) its \<and>
     od_subtotal ord = foldl js_add (Fin 0) (map oi_totalPrice its) \<and>
     (\<exists>br \<in> set (t_branches X). \<exists>rs \<in> set (t_restaurants X).
        br_id br = co_branchId dto \<and> br_tenantId br = Some t \<and> br_deletedAt br = None \<and>
        rs_id rs = br_restaurantId br \<and> rs_tenantId rs = Some t \<and> rs_deletedAt rs = None \<and>
        od_taxAmount ord = round2 (js_mul (od_subtotal ord) (js_div_const (num_of_decimal (rs_taxPercentage rs)) 100))) \<and>
     od_total ord = round2 (js_sub (js_add (od_subtotal ord) (od_taxAmount ord)) (od_discountAmount ord))"

lemma priced_line_data:
  assumes "item_data x = item_data y" shows "priced_line X t sel x \<longleftrightarrow> priced_line X t sel y"
proof -
  let ?as = "oi_orderItemAddons x" and ?bs = "oi_orderItemAddons y"
  have m: "map (oa_id_update (\<lambda>_. [])) ?as = map (oa_id_update (\<lambda>_. [])) ?bs"
    and f: "oi_productId x = oi_productId y" "oi_unitPrice x = oi_unitPrice y" "oi_quantity x = oi_quantity y"
      "oi_cookingStatus x = oi_cookingStatus y" "oi_totalPrice x = oi_totalPrice y"
    using arg_cong[OF assms, of oi_orderItemAddons] arg_cong[OF assms, of oi_productId]
      arg_cong[OF assms, of oi_unitPrice] arg_cong[OF assms, of oi_quantity]
      arg_cong[OF assms, of oi_cookingStatus] arg_cong[OF assms, of oi_totalPrice]
    by (simp_all add: item_data_def)
  have blank: "list_all2 (addon_ok X t) is as = list_all2 (addon_ok X t) is (map (oa_id_update (\<lambda>_. [])) as)" for "is" as
    by (auto simp: list_all2_map2 addon_ok_def[abs_def])
  have total: "addons_total as = addons_total (map (oa_id_update (\<lambda>_. [])) as)" for as
    by (simp add: addons_total_def foldl_map)
  show ?thesis
    unfolding priced_line_def f blank[of _ ?as] blank[of _ ?bs] total[of ?as] total[of ?bs] m ..
qed

lemma list_all2_priced_data:
  "map item_data xs = map item_data ys \<Longrightarrow>
   list_all2 (priced_line X t) sels xs \<longleftrightarrow> list_all2 (priced_line X t) sels ys"
  by (auto simp: list_all2_conv_all_nth dest: map_eq_imp_length_eq)
    (metis map_eq_imp_length_eq nth_map priced_line_data)+

lemma map_totalPrice_data:
  assumes "map item_data xs = map item_data ys" shows "map oi_totalPrice xs = map oi_totalPrice ys"
proof -
  have "oi_totalPrice z = oi_totalPrice (item_data z)" for z by (simp add: item_data_def)
  then show ?thesis using arg_cong[OF assms, of "map oi_totalPrice"] by (simp add: comp_def)
qed

lemma sat_code:
  "sat discount_model [(''tenantId'', Is (CStr t)), (''code'', Is (CStr k))] x \<longleftrightarrow> d_tenantId x = Some t \<and> d_code x = k"
  by (auto simp: sat_def discount_model_def discount_col_def opt_cell_def split: option.splits)

context prisma_client
begin

lemma applyDiscount_InrD:
  assumes "t \<noteq> []" "applyDiscount P (tenant_ctx t) env t code s d = (Inr (did, amount), d')"
  shows "\<exists>ds. T d' = (T d)\<lparr>t_discounts := ds\<rparr> \<and>
           discount_effect (ev_now env) t code s (t_discounts (T d)) did amount ds"
proof (cases "truthy code")
  case False
  then show ?thesis using assms
    by (auto simp: applyDiscount_def discount_effect_def return_apply intro!: exI[of _ "t_discounts (T d)"])
next
  case True
  let ?E = "extended (tenant_ctx t) discount_model (px_discount P)" and ?k = "or_else code []"
  from assms(2) True obtain disc d1 r y' where
    find: "dg_findUnique ?E [(''tenantId'', Is (CStr t)), (''code'', Is (CStr ?k))] d = (Inr disc, d1)"
    and val: "validateDiscount disc ?k s (ev_now env) = Inr r"
    and upd: "dg_update ?E (where_id (rd_discountId r)) (\<lambda>x. x\<lparr>d_usageCount := d_usageCount x + 1\<rparr>) d1 = (Inr y', d')"
    and res: "did = Some (rd_discountId r)" "amount = rd_amount r"
    by (auto simp: applyDiscount_def Let_def elim!: prog_invs)
  have d1: "d1 = d" using preservesD[OF discounts.ext_read_others(2)[OF assms(1), of "\<lambda>d. d"] find] by simp
  from val obtain x where x: "disc = Some x" "discount_usable x (ev_now env)"
    "\<not> js_le (computeDiscountAmount s (d_type x) (d_value x)) (Fin 0)"
    "rd_discountId r = d_id x" "rd_amount r = computeDiscountAmount s (d_type x) (d_value x)"
    by (auto simp: validateDiscount_Inr_iff)
  have row: "x \<in> set (t_discounts (T d))" "d_tenantId x = Some t" "d_code x = ?k"
    using discounts.findUnique_eqD[OF find[unfolded discounts.ext_findUnique[OF assms(1)] x(1)]]
    by (auto simp: sat_code)
  obtain xs y ys where y: "t_discounts (T d) = xs @ y # ys" "d_id y = d_id x" "d_tenantId y = Some t"
    "t_discounts (T d') = xs @ y\<lparr>d_usageCount := d_usageCount y + 1\<rparr> # ys"
    "(T d')\<lparr>t_discounts := []\<rparr> = (T d)\<lparr>t_discounts := []\<rparr>"
    using discounts.update_Inr[OF upd[unfolded discounts.ext_update[OF assms(1)]]] d1 x(4)
    by (auto simp: discounts.sat_id_tenant)
  have "discount_effect (ev_now env) t code s (t_discounts (T d)) did amount (t_discounts (T d'))"
    unfolding discount_effect_def if_P[OF True]
    by (rule exI[of _ x], rule exI[of _ xs], rule exI[of _ y], rule exI[of _ ys])
      (use row x res y(1-4) truthy_or_else[OF True, of "[]"] in simp)
  then show ?thesis using discounts_only[OF y(5)] by blast
qed

lemma checkoutTransaction_InrE:
  assumes "t \<noteq> []" "checkoutTransaction P (tenant_ctx t) env dto t s tax its d = (Inr (ord, its'), d')"
  obtains ds did amount k where
    "discount_effect (ev_now env) t (normal_code dto) s (t_discounts (T d)) did amount ds"
    "ord = \<lparr>od_id = od_id ord, od_tenantId = Some t, od_branchId = co_branchId dto,
                    od_customerId = None, od_tableId = or_null (co_tableId dto), od_orderNumber = orderNumberOf env,
                    od_type = co_type dto, od_paymentMethod = co_paymentMethod dto,
                    od_status = OrderStatus.PENDING, od_subtotal = s, od_taxAmount = tax,
                    od_discountAmount = amount, od_discountId = did,
                    od_discountCode = normal_code dto, od_tipAmount = Fin 0,
                    od_total = round2 (js_sub (js_add s tax) amount),
                    od_specialNotes = or_null (co_specialNotes dto),
                    od_createdAt = ev_now env, od_updatedAt = ev_now env\<rparr>"
    "od_id ord \<notin> od_id ` set (t_orders (T d))"
    "map item_data its' = map item_data its" "\<forall>x \<in> set its'. oi_orderId x = od_id ord"
    "T d' = (T d)\<lparr>t_discounts := ds, t_orders := t_orders (T d) @ [ord], t_orderItems := t_orderItems (T d) @ its',
                  t_kitchenQueues := t_kitchenQueues (T d) @ [k]\<rparr>"
    "kq_tenantId k = Some t" "kq_branchId k = co_branchId dto" "kq_orderId k = od_id ord"
    "kq_priority k = ''NORMAL''" "kq_ticketNumber k = slice_last 3 (orderNumberOf env)"
proof -
  let ?o = "\<lambda>did amount. \<lparr>od_id = [], od_tenantId = Some t, od_branchId = co_branchId dto,
                    od_customerId = None, od_tableId = or_null (co_tableId dto), od_orderNumber = orderNumberOf env,
                    od_type = co_type dto, od_paymentMethod = co_paymentMethod dto,
                    od_status = OrderStatus.PENDING, od_subtotal = s, od_taxAmount = tax,
                    od_discountAmount = amount, od_discountId = did,
                    od_discountCode = normal_code dto, od_tipAmount = Fin 0,
                    od_total = round2 (js_sub (js_add s tax) amount),
                    od_specialNotes = or_null (co_specialNotes dto),
                    od_createdAt = ev_now env, od_updatedAt = ev_now env\<rparr>"
  let ?k = "\<lambda>i. \<lparr>kq_id = [], kq_tenantId = Some t, kq_branchId = co_branchId dto,
                  kq_orderId = i, kq_ticketNumber = slice_last 3 (orderNumberOf env),
                  kq_priority = ''NORMAL'', kq_startedCookingAt = None, kq_completedCookingAt = None\<rparr>"
  let ?E = "extended (tenant_ctx t) kitchenQueue_model (px_kitchenQueue P)"
  from assms(2) obtain did amount d1 d2 k where
    dis: "applyDiscount P (tenant_ctx t) env t (normal_code dto) s d = (Inr (did, amount), d1)"
    and ord: "order_createWithItems P (tenant_ctx t) (?o did amount) its d1 = (Inr (ord, its'), d2)"
    and kit: "dg_create ?E (?k (od_id ord)) d2 = (Inr k, d')"
    unfolding checkoutTransaction_def Let_def normal_code_def[symmetric]
    by (elim andThen_InrE) (auto elim!: andThen_InrE return_InrE)
  obtain ds where ds: "T d1 = (T d)\<lparr>t_discounts := ds\<rparr>"
    "discount_effect (ev_now env) t (normal_code dto) s (t_discounts (T d)) did amount ds"
    using applyDiscount_InrD[OF assms(1) dis] by blast
  have "px_order_createWithItems P (?o did amount) its d1 = (Inr (ord, its'), d2)"
    using ord by (simp add: order_createWithItems_scoped assms(1))
  note o_law = createWithItems_Inr[OF this]
  have kc: "dg_create (px_kitchenQueue P) (?k (od_id ord)) d2 = (Inr k, d')"
    using kit by (simp add: kitchenQueues.ext_create assms(1) throw_apply split: if_splits)
      (simp add: kitchenQueue_model_def)
  note k_law = kitchenQueues.create_Inr[OF kc]
  have k: "T d' = (T d2)\<lparr>t_kitchenQueues := t_kitchenQueues (T d2) @ [k]\<rparr>"
    using k_law kitchenQueues_only[of "T d'" "T d2"] by simp
  have Td': "T d' = (T d)\<lparr>t_discounts := ds, t_orders := t_orders (T d) @ [ord], t_orderItems := t_orderItems (T d) @ its',
                  t_kitchenQueues := t_kitchenQueues (T d) @ [k]\<rparr>"
    using k o_law ds(1) by simp
  show thesis
    by (rule that[of did amount ds k])
      (use ds Td' o_law k_law in \<open>auto simp: kitchenQueue_model_def\<close>)
qed

lemma createOrder_effect:
  assumes t: "t \<noteq> []" and run: "createOrder P (tenant_ctx t) env dto t w = (Inr (ord, its), w')"
  shows "checkout_effect env dto t (T (w_db w)) ord its (T (w_db w'))"
proof -
  let ?X = "T (w_db w)"
  obtain s tax its0 d2 where
    prep: "prepareCheckout P (tenant_ctx t) dto t (w_db w) = (Inr (s, tax, its0), w_db w)"
    and tr: "transaction P (checkoutTransaction P (tenant_ctx t) env dto t s tax its0) (w_db w) = (Inr (ord, its), d2)"
    and w': "w_db w' = d2"
    by (rule createOrder_InrE[OF t run])
  obtain br rs d1 d3 d4 where
    br: "findById (tenant_ctx t) branch_model (extended (tenant_ctx t) branch_model (px_branch P)) (co_branchId dto) (w_db w) = (Inr (Some br), d1)"
    and rs: "findById (tenant_ctx t) restaurant_model (extended (tenant_ctx t) restaurant_model (px_restaurant P)) (br_restaurantId br) d1 = (Inr (Some rs), d3)"
    and tb: "validateTable P (tenant_ctx t) dto br d3 = (Inr (), d4)"
    and fold: "foldProg (resolveItem P (tenant_ctx t) t) (co_items dto) (Fin 0, []) d4 = (Inr (s, its0), w_db w)"
    and tax: "tax = round2 (js_mul s (js_div_const (num_of_decimal (rs_taxPercentage rs)) 100))"
    by (rule prepareCheckout_InrE[OF prep])
  note br' = branches.findById_Some[OF t br] and rs' = restaurants.findById_Some[OF t rs]
  have d4: "d4 = w_db w"
    using preservesD[OF validateTable_reads[OF t, of "\<lambda>d. d"] tb] br' rs' by simp
  have priced: "list_all2 (priced_line ?X t) (co_items dto) its0" "s = foldl js_add (Fin 0) (map oi_totalPrice its0)"
    using foldItems_priced[OF t fold] d4 by auto
  obtain d5 where body: "checkoutTransaction P (tenant_ctx t) env dto t s tax its0 (w_db w) = (Inr (ord, its), d5)"
    and d5: "T d2 = T d5" using transaction_Inr[OF tr] by blast
  show ?thesis
  proof (rule checkoutTransaction_InrE[OF t body])
    fix ds did amount k
    assume eff: "discount_effect (ev_now env) t (normal_code dto) s (t_discounts ?X) did amount ds"
      and ord: "ord = \<lparr>od_id = od_id ord, od_tenantId = Some t, od_branchId = co_branchId dto,
                    od_customerId = None, od_tableId = or_null (co_tableId dto), od_orderNumber = orderNumberOf env,
                    od_type = co_type dto, od_paymentMethod = co_paymentMethod dto,
                    od_status = OrderStatus.PENDING, od_subtotal = s, od_taxAmount = tax,
                    od_discountAmount = amount, od_discountId = did,
                    od_discountCode = normal_code dto, od_tipAmount = Fin 0,
                    od_total = round2 (js_sub (js_add s tax) amount),
                    od_specialNotes = or_null (co_specialNotes dto),
                    od_createdAt = ev_now env, od_updatedAt = ev_now env\<rparr>" (is "_ = ?o")
      and rest: "od_id ord \<notin> od_id ` set (t_orders ?X)" "\<forall>x \<in> set its. oi_orderId x = od_id ord"
      and data: "map item_data its = map item_data its0"
      and X': "T d5 = ?X\<lparr>t_discounts := ds, t_orders := t_orders ?X @ [ord], t_orderItems := t_orderItems ?X @ its,
                  t_kitchenQueues := t_kitchenQueues ?X @ [k]\<rparr>"
      and k: "kq_tenantId k = Some t" "kq_branchId k = co_branchId dto" "kq_orderId k = od_id ord"
        "kq_priority k = ''NORMAL''" "kq_ticketNumber k = slice_last 3 (orderNumberOf env)"
    have f: "od_tenantId ord = Some t" "od_branchId ord = co_branchId dto" "od_tableId ord = or_null (co_tableId dto)"
      "od_status ord = OrderStatus.PENDING" "od_type ord = co_type dto" "od_paymentMethod ord = co_paymentMethod dto"
      "od_discountCode ord = normal_code dto" "od_subtotal ord = s" "od_taxAmount ord = tax" "od_discountId ord = did"
      "od_discountAmount ord = amount" "od_total ord = round2 (js_sub (js_add s tax) amount)"
      "od_orderNumber ord = orderNumberOf env"
      by (subst ord, simp)+
    have "br_id br = co_branchId dto \<and> br_tenantId br = Some t \<and> br_deletedAt br = None \<and> br \<in> set (t_branches ?X)"
      "rs_id rs = br_restaurantId br \<and> rs_tenantId rs = Some t \<and> rs_deletedAt rs = None \<and> rs \<in> set (t_restaurants ?X)"
      using br' rs' by (auto simp: branch_model_def restaurant_model_def)
    then show ?thesis
      using eff rest k priced list_all2_priced_data[OF data] map_totalPrice_data[OF data] X' d5 w' tax
      by (auto simp: checkout_effect_def f)
  qed
qed

end

end
