(* ===== verification/Order_Total.thy ===== *)
theory Order_Total
  imports Order_Correct
begin

text \<open>
  The amount a checkout charges, in binary64 arithmetic: the computed subtotal stays within a
  quarter of a cent of the exact sum of the prices, so a discount, which the code caps at the
  subtotal before rounding it to cents, can never make the total negative.
\<close>

section \<open>Computed amounts of money\<close>

text \<open>\<open>money m b z\<close>: \<open>z\<close> is finite, at most \<open>m\<close> roundings away from an exact number of cents
  that is at most \<open>b\<close>.\<close>

definition money :: "nat \<Rightarrow> rat \<Rightarrow> jsnum \<Rightarrow> bool" where
  "money m b z \<longleftrightarrow> (\<exists>x v. z = Fin x \<and> fl x = x \<and> rclose m x v \<and> v \<le> b \<and> 100 * v \<in> \<int>)"

lemma moneyI: "z = Fin x \<Longrightarrow> fl x = x \<Longrightarrow> rclose m x v \<Longrightarrow> v \<le> b \<Longrightarrow> 100 * v \<in> \<int> \<Longrightarrow> money m b z"
  unfolding money_def by blast

lemma moneyE:
  assumes "money m b z"
  obtains x v where "z = Fin x" "fl x = x" "rclose m x v" "v \<le> b" "100 * v \<in> \<int>"
  using assms unfolding money_def by blast

lemma money_mono: "money m b z \<Longrightarrow> m \<le> n \<Longrightarrow> b \<le> c \<Longrightarrow> money n c z"
  by (erule moneyE) (auto intro: moneyI rclose_mono)

lemma money_zero: "money 0 0 (Fin 0)"
  by (rule moneyI[of _ 0 _ 0]) (auto intro: rclose_exact)

lemma rclose_le_double:
  assumes "rclose m x v" "m \<le> 1000" shows "x \<le> 2 * v"
proof -
  have "of_nat m * ueps \<le> of_nat 1000 * ueps" using assms(2) ueps_bounds by (intro mult_right_mono) auto
  also have "\<dots> \<le> 1/2" by (simp add: ueps_def)
  finally have m: "of_nat m * ueps \<le> 1/2" .
  have v: "0 \<le> v" using assms(1) by (simp add: rclose_def)
  have "\<bar>x - v\<bar> \<le> 2 * v * (of_nat m * ueps)" by (rule rclose_abs_error[OF assms(1) m])
  also have "\<dots> \<le> 2 * v * (1/2)" using m v by (intro mult_left_mono) auto
  finally show ?thesis by simp
qed

lemma money_decimal:
  assumes "0 \<le> p" "p \<le> b" "b \<le> 10 ^ 9" "100 * p \<in> \<int>"
  shows "money 1 b (num_of_decimal p)"
proof (rule moneyI)
  show "num_of_decimal p = Fin (fl p)"
    using assms by (simp add: num_of_decimal_def mk_num_Fin money_max_def)
  show "rclose 1 (fl p) p" using rclose_fl[OF rclose_exact[OF assms(1)]] by simp
qed (use assms in auto)

lemma money_add:
  assumes "money m b x" "money m c y" "b + c \<le> 10 ^ 9" "m \<le> 1000"
  shows "money (Suc m) (b + c) (js_add x y)"
proof -
  obtain x' v where x: "x = Fin x'" "rclose m x' v" "v \<le> b" "100 * v \<in> \<int>"
    using assms(1) by (rule moneyE)
  obtain y' u where y: "y = Fin y'" "rclose m y' u" "u \<le> c" "100 * u \<in> \<int>"
    using assms(2) by (rule moneyE)
  have r: "rclose m (x' + y') (v + u)" using x y by (intro rclose_add)
  have "0 \<le> x' + y'" using r by (rule rclose_nonneg)
  moreover have "x' + y' \<le> 2 * (v + u)" using r assms(4) by (rule rclose_le_double)
  ultimately have "js_add x y = Fin (fl (x' + y'))"
    using x y assms(3) by (simp add: mk_num_Fin money_max_def)
  then show ?thesis
    by (rule moneyI[OF _ _ rclose_fl[OF r]]) (use x y in \<open>auto simp: distrib_left\<close>)
qed

lemma money_mult:
  assumes "money m b x" "0 \<le> q" "q \<le> 10 ^ 6" "b * of_int q \<le> 10 ^ 9" "m \<le> 1000"
  shows "money (Suc m) (b * of_int q) (js_mul x (num_of_int q))"
proof -
  obtain x' v where x: "x = Fin x'" "rclose m x' v" "v \<le> b" "100 * v \<in> \<int>"
    using assms(1) by (rule moneyE)
  have q: "num_of_int q = Fin (of_int q)"
    using assms(2,3) by (simp add: num_of_int_def mk_num_Fin money_max_def fl_of_int)
  have r: "rclose m (x' * of_int q) (v * of_int q)" using x assms(2) by (intro rclose_mult) auto
  have vq: "v * of_int q \<le> b * of_int q" using x(3) assms(2) by (intro mult_right_mono) auto
  have "0 \<le> x' * of_int q" using r by (rule rclose_nonneg)
  moreover have "x' * of_int q \<le> 2 * (v * of_int q)" using r assms(5) by (rule rclose_le_double)
  ultimately have "js_mul x (num_of_int q) = Fin (fl (x' * of_int q))"
    using x q vq assms(4) by (simp add: mk_num_Fin money_max_def)
  moreover have "100 * (v * of_int q) \<in> \<int>"
    using Ints_mult[OF x(4) Ints_of_int[of q]] by (simp add: mult.assoc)
  ultimately show ?thesis by (intro moneyI[OF _ _ rclose_fl[OF r] vq]) auto
qed

lemma money_sum:
  assumes "\<And>y. y \<in> set ys \<Longrightarrow> money m b (f y)" "money m a z" "0 \<le> b"
    "a + of_nat (length ys) * b \<le> 10 ^ 9" "m + length ys \<le> 1000"
  shows "money (m + length ys) (a + of_nat (length ys) * b) (foldl (\<lambda>s y. js_add s (f y)) z ys)"
  using assms
proof (induction ys arbitrary: m a z)
  case (Cons y ys)
  let ?n = "of_nat (length ys) * b"
  have n: "0 \<le> ?n" using Cons.prems(3) by simp
  have b: "a + b + ?n \<le> 10 ^ 9" using Cons.prems(4) by (simp add: algebra_simps)
  have step: "money (Suc m) (a + b) (js_add z (f y))"
    using Cons.prems b n by (intro money_add) (auto intro: order_trans[of _ "a + b + ?n"])
  have "money (Suc m + length ys) (a + b + ?n) (foldl (\<lambda>s y. js_add s (f y)) (js_add z (f y)) ys)"
    using Cons.prems b
    by (intro Cons.IH[OF _ step]) (auto intro: money_mono[OF Cons.prems(1)])
  then show ?case by (simp add: algebra_simps)
qed simp

section \<open>The subtotal\<close>

text \<open>
  The range the result is stated for: prices of at most 1000 in whole cents, at most 40 lines of
  at most 100 pieces with at most 20 addons, a tax of at most 100 per cent, discounts within the
  column type \<^verbatim>\<open>Decimal(10, 2)\<close> and percentages of at most 1000.
\<close>

definition price_ok :: "rat \<Rightarrow> bool" where
  "price_ok p \<longleftrightarrow> 0 \<le> p \<and> p \<le> 1000 \<and> 100 * p \<in> \<int>"

definition menu_ok :: "tables \<Rightarrow> bool" where
  "menu_ok X \<longleftrightarrow> (\<forall>p \<in> set (t_products X). price_ok (pr_basePrice p)) \<and>
     (\<forall>v \<in> set (t_productVariants X). price_ok (pv_price v)) \<and>
     (\<forall>z \<in> set (t_productSizes X). price_ok (ps_priceAdjustment z)) \<and>
     (\<forall>a \<in> set (t_addonItems X). price_ok (ai_price a)) \<and>
     (\<forall>r \<in> set (t_restaurants X). 0 \<le> rs_taxPercentage r \<and> rs_taxPercentage r \<le> 100) \<and>
     (\<forall>d \<in> set (t_discounts X). d_value d \<le> 10 ^ 8 \<and> (d_type d = PERCENTAGE \<longrightarrow> d_value d \<le> 1000))"

definition request_ok :: "CreateOrderRequestDto \<Rightarrow> bool" where
  "request_ok dto \<longleftrightarrow> length (co_items dto) \<le> 40 \<and>
     (\<forall>i \<in> set (co_items dto). 1 \<le> is_quantity i \<and> is_quantity i \<le> 100 \<and>
        length (case is_addons i of None \<Rightarrow> [] | Some as \<Rightarrow> as) \<le> 20)"

lemma money_price: "price_ok p \<Longrightarrow> money (Suc 0) 1000 (num_of_decimal p)"
  unfolding One_nat_def[symmetric] by (rule money_decimal) (auto simp: price_ok_def)

lemma unit_price_money:
  assumes "menu_ok X" "p \<in> set (t_products X)" "unit_price_ok X t sel p u"
  shows "money 2 2000 u"
proof -
  have base: "money (Suc 0) 1000 (num_of_decimal (pr_basePrice p))" using assms by (auto simp: menu_ok_def intro: money_price)
  consider v where "v \<in> set (t_productVariants X)" "u = num_of_decimal (pv_price v)"
    | z where "z \<in> set (t_productSizes X)"
        "u = js_add (num_of_decimal (pr_basePrice p)) (num_of_decimal (ps_priceAdjustment z))"
    | "u = num_of_decimal (pr_basePrice p)"
    using assms(3) by (auto simp: unit_price_ok_def split: if_splits)
  then show ?thesis
  proof cases
    case 1
    then have "money (Suc 0) 1000 u" using assms(1) by (auto simp: menu_ok_def intro: money_price)
    then show ?thesis by (rule money_mono) auto
  next
    case 2
    have "money (Suc 0) 1000 (num_of_decimal (ps_priceAdjustment z))"
      using 2 assms(1) by (auto simp: menu_ok_def intro: money_price)
    then have "money (Suc (Suc 0)) (1000 + 1000) u" unfolding 2(2) by (intro money_add base) auto
    then show ?thesis by (rule money_mono) auto
  next
    case 3
    then show ?thesis using base by (auto intro: money_mono)
  qed
qed

lemma addons_money:
  assumes "menu_ok X" "list_all2 (addon_ok X t) is as" "length is \<le> 20"
  shows "money 21 20000 (addons_total as)"
proof -
  have n: "length as \<le> 20" using assms(2,3) by (simp add: list_all2_lengthD)
  then have n': "(of_nat (length as) :: rat) \<le> 20" by (metis of_nat_le_iff of_nat_numeral)
  have p: "money (Suc 0) 1000 (num_of_decimal (oa_price a))" if "a \<in> set as" for a
  proof -
    from list_all2_mem2[OF assms(2) that] obtain i where "addon_ok X t i a" by blast
    then show ?thesis using assms(1) by (auto simp: addon_ok_def menu_ok_def intro!: money_price)
  qed
  have "money (Suc 0 + length as) (0 + of_nat (length as) * 1000) (addons_total as)"
    unfolding addons_total_def using n money_mono[OF money_zero, of "Suc 0" 0]
    using n' by (intro money_sum p) auto
  then show ?thesis by (rule money_mono) (use n n' in auto)
qed

lemma line_money:
  assumes "menu_ok X" "priced_line X t sel x" "1 \<le> is_quantity sel" "is_quantity sel \<le> 100"
    "length (case is_addons sel of None \<Rightarrow> [] | Some as \<Rightarrow> as) \<le> 20"
  shows "money 23 2200000 (oi_totalPrice x)"
proof -
  obtain p where p: "p \<in> set (t_products X)" "unit_price_ok X t sel p (oi_unitPrice x)"
    using assms(2) by (auto simp: priced_line_def)
  have "money 21 2000 (oi_unitPrice x)" using unit_price_money[OF assms(1) p] by (rule money_mono) auto
  moreover have "money 21 20000 (addons_total (oi_orderItemAddons x))"
    using assms(2,5) by (intro addons_money[OF assms(1)]) (auto simp: priced_line_def)
  ultimately have a: "money (Suc 21) (2000 + 20000) (js_add (oi_unitPrice x) (addons_total (oi_orderItemAddons x)))"
    by (rule money_add) auto
  have q: "(22000 :: rat) * of_int (is_quantity sel) \<le> 22000 * 100"
    using assms(4) by (intro mult_left_mono) auto
  have "money (Suc (Suc 21)) ((2000 + 20000) * of_int (is_quantity sel)) (oi_totalPrice x)"
  proof -
    have "oi_totalPrice x = js_mul (js_add (oi_unitPrice x) (addons_total (oi_orderItemAddons x)))
            (num_of_int (is_quantity sel))" using assms(2) by (simp add: priced_line_def)
    then show ?thesis using money_mult[OF a, of "is_quantity sel"] assms(3,4) q by simp
  qed
  then show ?thesis by (rule money_mono) (use q in auto)
qed

lemma subtotal_money:
  assumes "menu_ok X" "list_all2 (priced_line X t) (co_items dto) its" "request_ok dto"
  shows "money 63 88000000 (foldl js_add (Fin 0) (map oi_totalPrice its))"
proof -
  have n: "length its \<le> 40" using assms(2,3) by (simp add: request_ok_def list_all2_lengthD)
  then have n': "(of_nat (length its) :: rat) \<le> 40" by (metis of_nat_le_iff of_nat_numeral)
  have l: "money 23 2200000 (oi_totalPrice x)" if "x \<in> set its" for x
  proof -
    from list_all2_mem2[OF assms(2) that] obtain i
      where "i \<in> set (co_items dto)" "priced_line X t i x" by blast
    then show ?thesis using assms(3) by (intro line_money[OF assms(1)]) (auto simp: request_ok_def)
  qed
  have "money (23 + length its) (0 + of_nat (length its) * 2200000)
      (foldl (\<lambda>s y. js_add s (oi_totalPrice y)) (Fin 0) its)"
    using n n' money_mono[OF money_zero, of 23 0] by (intro money_sum l) auto
  moreover have "of_nat (length its) * (2200000 :: rat) \<le> 40 * 2200000"
    using n' by simp
  ultimately have "money 63 88000000 (foldl (\<lambda>s y. js_add s (oi_totalPrice y)) (Fin 0) its)"
    by (elim money_mono) (use n in auto)
  then show ?thesis by (simp add: foldl_map)
qed

section \<open>The total\<close>

text \<open>A subtotal is within a quarter of a cent of an exact number of cents.\<close>

lemma money_near_cents:
  assumes "money 63 88000000 (Fin s)"
  shows "0 \<le> s \<and> s \<le> 10 ^ 8 \<and> \<bar>s - of_int (cents s) / 100\<bar> \<le> 1/400 \<and> 0 \<le> cents s"
proof -
  obtain v where v: "rclose 63 s v" "v \<le> 88000000" "100 * v \<in> \<int>" using assms by (auto elim: moneyE)
  then obtain k where k: "100 * v = of_int k" by (auto elim: Ints_cases)
  then have vk: "v = of_int k / 100" by simp
  have v0: "0 \<le> v" using v(1) by (simp add: rclose_def)
  have "of_nat 63 * ueps \<le> 1/2" by (simp add: ueps_def)
  from rclose_abs_error[OF v(1) this] have "\<bar>s - v\<bar> \<le> 2 * v * (of_nat 63 * ueps)" .
  also have "\<dots> \<le> 2 * 88000000 * (of_nat 63 * ueps)"
    using v(2) ueps_bounds by (intro mult_right_mono mult_left_mono) auto
  also have "\<dots> \<le> 1/400" by (simp add: ueps_def)
  finally have e: "\<bar>s - v\<bar> \<le> 1/400" .
  then have c: "cents s = k" unfolding vk by (rule cents_near)
  have "0 \<le> k" using v0 vk by simp
  moreover have "s \<le> 88000000 + 1/400" using e v(2) by linarith
  then have "s \<le> 10 ^ 8" by simp
  ultimately show ?thesis using e c vk rclose_nonneg[OF v(1)] by simp
qed

lemma total_nonneg:
  assumes s: "money 63 88000000 (Fin s)" and tax: "0 \<le> tax" "tax \<le> 10 ^ 9"
    and a: "0 \<le> a" "a \<le> fl (of_int (cents s) / 100)"
  shows "\<exists>r. round2 (js_sub (js_add (Fin s) (Fin tax)) (Fin a)) = Fin r \<and> 0 \<le> r"
proof -
  note near = money_near_cents[OF s]
  let ?c = "of_int (cents s) / 100 :: rat"
  have fs: "fl s = s" using s by (auto elim: moneyE)
  have sum: "js_add (Fin s) (Fin tax) = Fin (fl (s + tax))"
    using near tax by (simp add: mk_num_Fin money_max_def)
  have ge: "s \<le> fl (s + tax)" using fl_mono[of s "s + tax"] tax fs by simp
  have le: "\<bar>fl (s + tax)\<bar> \<le> of_int (10 ^ 10)" using near tax by (intro fl_abs_le) auto
  have "?c \<le> s + 1/400" using near by linarith
  then have ck: "cents s \<le> 10 ^ 11" using near by simp
  have ac: "a \<le> s + 1/256" using a(2) fl_cents_error[of "cents s"] near ck \<open>?c \<le> s + 1/400\<close> by linarith
  have bound: "\<bar>fl (s + tax) - a\<bar> \<le> of_int money_max"
  proof -
    have "\<bar>fl (s + tax) - a\<bar> \<le> \<bar>fl (s + tax)\<bar> + a" using a(1) by linarith
    also have "\<dots> \<le> of_int (10 ^ 10) + (10 ^ 8 + 1/256)" using le ac near by (intro add_mono) auto
    also have "\<dots> \<le> of_int money_max" by (simp add: money_max_def)
    finally show ?thesis .
  qed
  have "js_sub (Fin (fl (s + tax))) (Fin a) = Fin (fl (fl (s + tax) - a))"
    using mk_num_Fin[OF bound] by (simp add: js_sub_def)
  moreover have "fl (- (1/256)) \<le> fl (fl (s + tax) - a)" using ge ac by (intro fl_mono) linarith
  moreover have "fl (- (1/256)) = - (1/256 :: rat)"
    by (rule fl_scaled[of "-1" _ "-8"]) (simp_all add: power_int_def power_divide)
  moreover have "\<bar>fl (fl (s + tax) - a)\<bar> \<le> of_int (10 ^ 11)"
    using le a(1) ac near by (intro fl_abs_le) auto
  ultimately show ?thesis using sum round2_ge_0[of "fl (fl (s + tax) - a)"] by auto
qed

text \<open>The tax a checkout adds is a non-negative amount.\<close>

lemma tax_nonneg:
  assumes "0 \<le> s" "s \<le> 10 ^ 8" "0 \<le> p" "p \<le> 100"
  shows "\<exists>x. round2 (js_mul (Fin s) (js_div_const (num_of_decimal p) 100)) = Fin x \<and> 0 \<le> x \<and> x \<le> 10 ^ 9"
proof -
  have fp: "0 \<le> fl p" "fl p \<le> 100"
    using assms fl_nonneg[of p] fl_mono[of p 100] by auto
  have d: "js_div_const (num_of_decimal p) 100 = Fin (fl (fl p / 100))"
    using assms fp by (simp add: num_of_decimal_def mk_num_Fin money_max_def)
  let ?r = "fl (fl p / 100)"
  have r: "0 \<le> ?r" "?r \<le> 1" using fp fl_nonneg[of "fl p / 100"] fl_mono[of "fl p / 100" 1] by auto
  have sr: "0 \<le> s * ?r" "s * ?r \<le> 10 ^ 8" using assms r mult_mono[of s "10 ^ 8" ?r 1] by auto
  have m: "js_mul (Fin s) (Fin ?r) = Fin (fl (s * ?r))" using sr by (simp add: mk_num_Fin money_max_def)
  let ?x = "fl (s * ?r)"
  have x: "0 \<le> ?x" "?x \<le> 10 ^ 8" using sr fl_nonneg[of "s * ?r"] fl_mono[of "s * ?r" "10 ^ 8"] fl_of_int[of "10 ^ 8"] by auto
  have c: "0 \<le> cents ?x" "cents ?x \<le> 10 ^ 10 "
    using x cents_nonneg[of ?x] cents_mono[of ?x "10 ^ 8"] by (auto simp: cents_def)
  have "0 \<le> fl (of_int (cents ?x) / 100)" using c by (intro fl_nonneg) simp
  moreover have "\<bar>fl (of_int (cents ?x) / 100)\<bar> \<le> of_int (10 ^ 8)" using c by (intro fl_abs_le) auto
  ultimately have "0 \<le> fl (of_int (cents ?x) / 100)" "fl (of_int (cents ?x) / 100) \<le> 10 ^ 9" by auto
  then show ?thesis using round2_nonneg[of ?x] x m d by auto
qed

text \<open>Every checkout effect on a well-formed menu has a total of at least zero.\<close>

lemma checkout_effect_total:
  assumes eff: "checkout_effect env dto t X ord its X'" and menu: "menu_ok X" and req: "request_ok dto"
  shows "\<exists>r. od_total ord = Fin r \<and> 0 \<le> r"
proof -
  have m: "money 63 88000000 (od_subtotal ord)"
    using eff subtotal_money[OF menu _ req, of t its] by (simp add: checkout_effect_def)
  then obtain s where s: "od_subtotal ord = Fin s" by (auto elim: moneyE)
  note near = money_near_cents[OF m[unfolded s]]
  obtain rs where "rs \<in> set (t_restaurants X)"
    "od_taxAmount ord = round2 (js_mul (Fin s) (js_div_const (num_of_decimal (rs_taxPercentage rs)) 100))"
    using eff s by (auto simp: checkout_effect_def)
  then obtain tax where tax: "od_taxAmount ord = Fin tax" "0 \<le> tax" "tax \<le> 10 ^ 9"
    using tax_nonneg[of s "rs_taxPercentage rs"] near menu by (auto simp: menu_ok_def)
  obtain ds where de: "discount_effect (ev_now env) t (normal_code dto) (Fin s) (t_discounts X)
      (od_discountId ord) (od_discountAmount ord) ds" using eff s by (auto simp: checkout_effect_def)
  have "\<exists>a. od_discountAmount ord = Fin a \<and> 0 \<le> a \<and> a \<le> fl (of_int (cents s) / 100)"
  proof (cases "truthy (normal_code dto)")
    case False
    then show ?thesis using de near by (auto simp: discount_effect_def intro!: fl_nonneg)
  next
    case True
    then obtain d where d: "d \<in> set (t_discounts X)"
      "od_discountAmount ord = computeDiscountAmount (Fin s) (d_type d) (d_value d)"
      "\<not> js_le (od_discountAmount ord) (Fin 0)" using de by (auto simp: discount_effect_def)
    have v: "d_value d \<le> 10 ^ 8" "d_type d = PERCENTAGE \<Longrightarrow> d_value d \<le> 10 ^ 3"
      using d(1) menu by (auto simp: menu_ok_def)
    have "\<not> (s \<le> 0 \<or> d_value d \<le> 0)"
      using d(2,3) computeDiscountAmount_zero[of s "d_value d" "d_type d"] by auto
    then have pos: "0 < s" "0 < d_value d" by auto
    show ?thesis using computeDiscountAmount_bounds[OF pos(1) _ pos(2) v] near d(2) by simp
  qed
  then obtain a where "od_discountAmount ord = Fin a" "0 \<le> a" "a \<le> fl (of_int (cents s) / 100)" by blast
  then have "\<exists>r. round2 (js_sub (js_add (Fin s) (Fin tax)) (od_discountAmount ord)) = Fin r \<and> 0 \<le> r"
    using total_nonneg[OF m[unfolded s] tax(2,3)] by simp
  then show ?thesis using eff s tax(1) by (simp add: checkout_effect_def)
qed

end
