(* ===== verification/Order_Lifecycle.thy ===== *)
theory Order_Lifecycle
  imports Order_Total
begin

text \<open>
  The life of an order after checkout: the state machine of \<^verbatim>\<open>validateStateTransition\<close> and
  \<^verbatim>\<open>cancelOrder\<close>, what a status update writes (with the invoice of a completed order), and the
  guest checkout that binds an order to the scanned table.
\<close>

section \<open>The state machine\<close>

lemma validateStateTransition_Inr_iff:
  "validateStateTransition a b = Inr u \<longleftrightarrow> b \<in> set (allowedTransitions a)"
  by (auto simp: validateStateTransition_def Let_def)

text \<open>
  The transitions an order can make: those the state machine allows, and the cancellation of an
  order that is not completed.
\<close>

inductive order_step :: "OrderStatus \<Rightarrow> OrderStatus \<Rightarrow> bool" where
  update: "b \<in> set (allowedTransitions a) \<Longrightarrow> order_step a b"
| cancel: "a \<noteq> OrderStatus.COMPLETED \<Longrightarrow> order_step a OrderStatus.CANCELLED"

inductive_simps order_step_simps: "order_step a b"

inductive_cases order_step_completed: "order_step OrderStatus.COMPLETED b"

fun status_rank :: "OrderStatus \<Rightarrow> nat" where
  "status_rank OrderStatus.DRAFT = 0"
| "status_rank OrderStatus.PENDING = 1"
| "status_rank OrderStatus.ACCEPTED = 2"
| "status_rank OrderStatus.PREPARING = 3"
| "status_rank OrderStatus.READY = 4"
| "status_rank OrderStatus.COMPLETED = 5"
| "status_rank OrderStatus.CANCELLED = 6"

lemma order_step_rank: "order_step a b \<Longrightarrow> status_rank a < status_rank b \<or> a = b \<and> b = OrderStatus.CANCELLED"
  by (cases a) (auto simp: order_step_simps)

lemma order_reach_rank: "order_step\<^sup>*\<^sup>* a b \<Longrightarrow> status_rank a \<le> status_rank b"
  by (induction rule: rtranclp_induct) (auto dest: order_step_rank)

lemma order_reach_terminal:
  assumes "order_step\<^sup>*\<^sup>* a b" "a \<in> {OrderStatus.COMPLETED, OrderStatus.CANCELLED}"
  shows "b = a"
  using assms(1)
proof (induction rule: rtranclp_induct)
  case (step y z)
  then show ?case using assms(2) by (auto simp: order_step_simps)
qed simp

text \<open>An order that has been completed went through every stage of the kitchen.\<close>

lemma order_step_into:
  "order_step a b \<Longrightarrow> b \<noteq> OrderStatus.CANCELLED \<Longrightarrow> status_rank b = Suc (status_rank a)"
  by (cases a) (auto simp: order_step_simps)

lemma order_reach_uncancelled:
  assumes "order_step\<^sup>*\<^sup>* a b" "b \<noteq> OrderStatus.CANCELLED"
  shows "a \<noteq> OrderStatus.CANCELLED \<and>
         (\<forall>s. status_rank a \<le> status_rank s \<and> status_rank s \<le> status_rank b \<longrightarrow> order_step\<^sup>*\<^sup>* a s \<and> order_step\<^sup>*\<^sup>* s b)"
  using assms
proof (induction rule: rtranclp_induct)
  case base
  have "s = a" if "status_rank s = status_rank a" for s using that by (cases s; cases a) auto
  then show ?case using base by (auto dest: le_antisym)
next
  case (step y z)
  have y: "y \<noteq> OrderStatus.CANCELLED" using step.hyps(2) step.prems by (auto simp: order_step_simps)
  note IH = step.IH[OF y] and r = order_step_into[OF step.hyps(2) step.prems]
  have "order_step\<^sup>*\<^sup>* a s \<and> order_step\<^sup>*\<^sup>* s z" if s: "status_rank a \<le> status_rank s" "status_rank s \<le> status_rank z" for s
  proof (cases "status_rank s \<le> status_rank y")
    case True
    then show ?thesis using IH s step.hyps(2) by (meson rtranclp.rtrancl_into_rtrancl)
  next
    case False
    then have "s = z" using s r by (cases s; cases z) auto
    then show ?thesis using step.hyps by auto
  qed
  then show ?case using IH by blast
qed

section \<open>Status updates\<close>

context prisma_client
begin

lemma resolveInvoiceNames_reads:
  assumes "t \<noteq> []" shows "preserves f (resolveInvoiceNames P (tenant_ctx t) ord)"
proof -
  have b: "preserves f (allOperations (tenant_ctx t) branch_model ''findUnique'' (w_args w)
     (\<lambda>a. px_branch_findUniqueJoined P i))" for w i
    using assms by (simp add: allOperations_def Let_def unsupportedOperations_def scopedOperations_def join_reads)
  show ?thesis
    using assms by (auto simp: resolveInvoiceNames_def Let_def intro!: preserves_intros repo_reads b)
qed

lemma generateInvoice_others:
  "t \<noteq> [] \<Longrightarrow> preserves (\<lambda>w. outside t (w_db w)) (generateInvoice P (tenant_ctx t) env ord)"
  by (auto simp: generateInvoice_def Let_def intro!: preserves_intros resolveInvoiceNames_reads table_writes)

lemma set_order_status_tenant [simp]:
  "od_tenantId (set_order_status env st ord) = od_tenantId ord" "od_id (set_order_status env st ord) = od_id ord"
  "od_status (set_order_status env st ord) = st"
  by (simp_all add: set_order_status_def)

lemma updateOrderStatus_others:
  "t \<noteq> [] \<Longrightarrow> preserves (\<lambda>w. outside t (w_db w)) (updateOrderStatus P (tenant_ctx t) env i st)"
  by (auto simp: updateOrderStatus_def
      intro!: preserves_intros repo_reads table_writes generateInvoice_others emitKdsEvent_db)

lemma cancelOrder_others:
  "t \<noteq> [] \<Longrightarrow> preserves (\<lambda>w. outside t (w_db w)) (cancelOrder P (tenant_ctx t) env i)"
  by (auto simp: cancelOrder_def intro!: preserves_intros repo_reads table_writes emitKdsEvent_db)

lemma createGuestOrder_others:
  "preserves (\<lambda>w. outside t (w_db w)) (createGuestOrder P env dto t)"
  by (auto simp: createGuestOrder_def findByQrCodeToken_def Let_def
      intro!: preserves_intros repo_reads tenant_read createOrder_others)

lemma generateInvoice_InrD:
  assumes "t \<noteq> []" "od_tenantId ord = Some t" "generateInvoice P (tenant_ctx t) env ord w = (Inr iv, w')"
  shows "T (w_db w') = (T (w_db w))\<lparr>t_invoices := t_invoices (T (w_db w)) @ [iv]\<rparr> \<and>
         iv_tenantId iv = Some t \<and> iv_orderId iv = od_id ord \<and> iv_invoiceNumber iv = invoiceNumberOf env"
proof -
  let ?E = "extended (tenant_ctx t) invoice_model (px_invoice P)"
  from assms(3) obtain n w1 pdfUrl w2 where names: "liftDb (resolveInvoiceNames P (tenant_ctx t) ord) w = (Inr n, w1)"
    and cr: "liftDb (repo_create (tenant_ctx t) invoice_model ?E
               \<lparr>iv_id = [], iv_tenantId = od_tenantId ord, iv_orderId = od_id ord,
                iv_invoiceNumber = invoiceNumberOf env, iv_pdfUrl = pdfUrl\<rparr>) w1 = (Inr iv, w2)"
    and w': "w_db w' = w_db w2"
    unfolding generateInvoice_def Let_def
    by (elim andThen_InrE) (auto elim!: andThen_InrE return_InrE simp: send_apply return_apply split: if_splits)
  have w1: "w_db w1 = w_db w"
    using preservesD[OF preserves_liftDb[OF resolveInvoiceNames_reads[OF assms(1), of "\<lambda>d. d"]] names] by simp
  obtain d2 where d2: "repo_create (tenant_ctx t) invoice_model ?E
               \<lparr>iv_id = [], iv_tenantId = od_tenantId ord, iv_orderId = od_id ord,
                iv_invoiceNumber = invoiceNumberOf env, iv_pdfUrl = pdfUrl\<rparr> (w_db w) = (Inr iv, d2)" "w_db w2 = d2"
    using cr w1 by (auto elim!: liftDb_InrE)
  note row = invoices.create_row[OF assms(1) d2(1)]
  have "T d2 = (T (w_db w))\<lparr>t_invoices := t_invoices (T d2)\<rparr>" using row by (intro invoices_only) simp
  then show ?thesis using row d2(2) w' by (auto simp: invoice_model_def)
qed

lemma emit_status_db:
  "preserves w_db (case mapStatusToEvent st of None \<Rightarrow> return ()
     | Some eventName \<Rightarrow> emitKdsEvent env tid b eventName p)"
  using emitKdsEvent_db[of "\<lambda>d. d"] by (auto intro!: preserves_intros)

text \<open>What a successful status update has written.\<close>

lemma updateOrderStatus_effect:
  assumes t: "t \<noteq> []" and uniq: "distinct (map od_id (t_orders (T (w_db w))))"
    and run: "updateOrderStatus P (tenant_ctx t) env i st w = (Inr ord', w')"
  shows "\<exists>xs ord ys iv. t_orders (T (w_db w)) = xs @ ord # ys \<and> od_id ord = i \<and> od_tenantId ord = Some t \<and>
     st \<in> set (allowedTransitions (od_status ord)) \<and> ord' = set_order_status env st ord \<and>
     iv_orderId iv = i \<and> iv_tenantId iv = Some t \<and>
     T (w_db w') = (T (w_db w))\<lparr>t_orders := xs @ ord' # ys,
        t_invoices := t_invoices (T (w_db w)) @ (if st = OrderStatus.COMPLETED then [iv] else [])\<rparr>"
proof -
  let ?E = "extended (tenant_ctx t) order_model (px_order P)" and ?X = "T (w_db w)"
  from run obtain found w1 where f: "liftDb (findById (tenant_ctx t) order_model ?E i) w = (Inr found, w1)"
    and k1: "(case found of None \<Rightarrow> throw (NotFoundException (''Order with ID ['' @ i @ ''] was not found.''))
     | Some ord \<Rightarrow>
     andThen (of_result (validateStateTransition (od_status ord) st)) (\<lambda>_.
     andThen (liftDb (repo_update (tenant_ctx t) order_model ?E i (set_order_status env st))) (\<lambda>updatedOrder.
     andThen (if st = OrderStatus.COMPLETED
              then andThen (generateInvoice P (tenant_ctx t) env updatedOrder) (\<lambda>_. return ()) else return ()) (\<lambda>_.
     andThen (case mapStatusToEvent st of
                None \<Rightarrow> return ()
              | Some eventName \<Rightarrow> emitKdsEvent env (od_tenantId updatedOrder) (od_branchId updatedOrder) eventName
                                    (OrderPayload updatedOrder)) (\<lambda>_.
     andThen (if st = OrderStatus.READY \<and> ev_smsService env
              then send (OrderStatusSms ''+12025550144'' (od_orderNumber updatedOrder) st (od_tenantId updatedOrder))
              else return ()) (\<lambda>_.
     return updatedOrder)))))) w1 = (Inr ord', w')"
    unfolding updateOrderStatus_def by (rule andThen_InrE)
  from k1 obtain ord w2 u w3 w4 where found: "found = Some ord"
    and val: "validateStateTransition (od_status ord) st = Inr ()"
    and upd: "liftDb (repo_update (tenant_ctx t) order_model ?E i (set_order_status env st)) w1 = (Inr u, w2)"
    and inv: "(if st = OrderStatus.COMPLETED
              then andThen (generateInvoice P (tenant_ctx t) env u) (\<lambda>_. return ()) else return ()) w2 = (Inr (), w3)"
    and emit: "(case mapStatusToEvent st of None \<Rightarrow> return ()
              | Some eventName \<Rightarrow> emitKdsEvent env (od_tenantId u) (od_branchId u) eventName (OrderPayload u)) w3 = (Inr (), w4)"
    and sms: "(if st = OrderStatus.READY \<and> ev_smsService env
              then send (OrderStatusSms ''+12025550144'' (od_orderNumber u) st (od_tenantId u)) else return ()) w4 = (Inr (), w')"
    and res: "ord' = u"
    by (elim option_throw_InrE andThen_InrE of_result_InrE return_InrE) auto
  have w4: "w_db w4 = w_db w3" using preservesD[OF emit_status_db emit] .
  have w': "w_db w' = w_db w4" using sms by (auto simp: send_apply return_apply split: if_splits)
  obtain d1 where d1: "findById (tenant_ctx t) order_model ?E i (w_db w) = (Inr (Some ord), d1)" "w1 = w\<lparr>w_db := d1\<rparr>"
    using f found by (auto elim: liftDb_InrE)
  have ord: "d1 = w_db w" "ord \<in> set (t_orders ?X)" "od_id ord = i" "od_tenantId ord = Some t"
    using orders.findById_Some[OF t d1(1)] by auto
  obtain d2 where d2: "repo_update (tenant_ctx t) order_model ?E i (set_order_status env st) (w_db w) = (Inr u, d2)"
    "w_db w2 = d2" using upd d1(2) ord(1) by (auto elim!: liftDb_InrE)
  obtain xs x ys where x: "t_orders ?X = xs @ x # ys" "od_id x = i" "u = set_order_status env st x"
    "t_orders (T d2) = xs @ u # ys" "(T d2)\<lparr>t_orders := []\<rparr> = ?X\<lparr>t_orders := []\<rparr>"
    using orders.update_row[OF t d2(1)] by auto
  have xo: "x = ord" using orders.unique_row[of "t_orders ?X" x ord] uniq ord x(1,2) by simp
  have T2: "T (w_db w2) = ?X\<lparr>t_orders := xs @ u # ys\<rparr>" using orders_only[OF x(5)] x(4) d2(2) by simp
  have "\<exists>iv. iv_orderId iv = i \<and> iv_tenantId iv = Some t \<and> T (w_db w3) = (T (w_db w2))\<lparr>t_invoices :=
      t_invoices ?X @ (if st = OrderStatus.COMPLETED then [iv] else [])\<rparr>"
  proof (cases "st = OrderStatus.COMPLETED")
    case True
    then obtain iv where "generateInvoice P (tenant_ctx t) env u w2 = (Inr iv, w3)"
      using inv by (auto elim!: andThen_InrE return_InrE)
    from generateInvoice_InrD[OF t _ this] show ?thesis using True T2 x(3) xo ord by auto
  next
    case False
    then have "w3 = w2" using inv by (simp add: return_apply)
    then show ?thesis using False T2
      by (intro exI[of _ "\<lparr>iv_id = [], iv_tenantId = Some t, iv_orderId = i, iv_invoiceNumber = [], iv_pdfUrl = []\<rparr>"]) simp
  qed
  then obtain iv where iv: "iv_orderId iv = i" "iv_tenantId iv = Some t"
    "T (w_db w3) = (T (w_db w2))\<lparr>t_invoices := t_invoices ?X @ (if st = OrderStatus.COMPLETED then [iv] else [])\<rparr>" by blast
  have "T (w_db w') = ?X\<lparr>t_orders := xs @ ord' # ys,
      t_invoices := t_invoices ?X @ (if st = OrderStatus.COMPLETED then [iv] else [])\<rparr>"
    unfolding w' w4 iv(3) T2 res by simp
  moreover have "st \<in> set (allowedTransitions (od_status ord))" using val by (simp add: validateStateTransition_Inr_iff)
  ultimately show ?thesis using x(1) x(3)[folded res] xo ord(3,4) iv(1,2) by blast
qed

text \<open>A transition the state machine does not allow is refused and changes nothing.\<close>

lemma updateOrderStatus_rejected:
  assumes t: "t \<noteq> []"
    and find: "findById (tenant_ctx t) order_model (extended (tenant_ctx t) order_model (px_order P)) i (w_db w) = (Inr (Some ord), d)"
    and bad: "st \<notin> set (allowedTransitions (od_status ord))"
  shows "\<exists>msg. updateOrderStatus P (tenant_ctx t) env i st w = (Inl (BadRequestException msg), w)"
proof -
  have "d = w_db w" using orders.findById_Some[OF t find] by simp
  then have l: "liftDb (findById (tenant_ctx t) order_model (extended (tenant_ctx t) order_model (px_order P)) i) w = (Inr (Some ord), w)"
    using find by (simp add: liftDb_def)
  obtain msg where "validateStateTransition (od_status ord) st = Inl (BadRequestException msg)"
    using bad by (auto simp: validateStateTransition_def Let_def)
  then show ?thesis by (simp add: updateOrderStatus_def andThen_def l of_result_def)
qed

text \<open>
  A status update that is not a completion, and a cancellation, either happen or change nothing.
  (Completing an order writes the order before its invoice, outside any transaction.)
\<close>

lemma emitKdsEvent_never_fails: "never_fails (emitKdsEvent env tid b ev p)"
  by (simp add: emitKdsEvent_def never_fails_try never_fails_return)

lemma order_update_clean:
  assumes "t \<noteq> []"
  shows "fails_clean T (repo_update (tenant_ctx t) order_model (extended (tenant_ctx t) order_model (px_order P)) i f)"
  unfolding fails_clean_def
proof (intro allI impI)
  fix d e d'
  assume "repo_update (tenant_ctx t) order_model (extended (tenant_ctx t) order_model (px_order P)) i f d = (Inl e, d')"
  from orders.update_failed[OF assms this] show "T d' = T d" using orders_only[of "T d'" "T d"] by simp
qed

lemma updateOrderStatus_clean:
  assumes "t \<noteq> []" "st \<noteq> OrderStatus.COMPLETED"
  shows "fails_clean (\<lambda>w. T (w_db w)) (updateOrderStatus P (tenant_ctx t) env i st)"
  unfolding updateOrderStatus_def
  by (intro fails_clean_read fails_clean_write preserves_liftDb preserves_of_result fails_clean_liftDb
      orders.repo_reads_preserve order_update_clean clean_intros emitKdsEvent_never_fails assms)
    (use assms in simp)

lemma cancelOrder_clean:
  assumes "t \<noteq> []"
  shows "fails_clean (\<lambda>w. T (w_db w)) (cancelOrder P (tenant_ctx t) env i)"
  unfolding cancelOrder_def
  by (intro fails_clean_read fails_clean_write preserves_liftDb fails_clean_liftDb
      orders.repo_reads_preserve order_update_clean clean_intros emitKdsEvent_never_fails assms)

lemma cancelOrder_effect:
  assumes t: "t \<noteq> []" and uniq: "distinct (map od_id (t_orders (T (w_db w))))"
    and run: "cancelOrder P (tenant_ctx t) env i w = (Inr ord', w')"
  shows "\<exists>xs ord ys. t_orders (T (w_db w)) = xs @ ord # ys \<and> od_id ord = i \<and> od_tenantId ord = Some t \<and>
     od_status ord \<noteq> OrderStatus.COMPLETED \<and> ord' = set_order_status env OrderStatus.CANCELLED ord \<and>
     T (w_db w') = (T (w_db w))\<lparr>t_orders := xs @ ord' # ys\<rparr>"
proof -
  let ?E = "extended (tenant_ctx t) order_model (px_order P)" and ?X = "T (w_db w)"
  let ?f = "set_order_status env OrderStatus.CANCELLED"
  from run obtain ord w1 u w2 where f: "liftDb (findById (tenant_ctx t) order_model ?E i) w = (Inr (Some ord), w1)"
    and st: "od_status ord \<noteq> OrderStatus.COMPLETED"
    and upd: "liftDb (repo_update (tenant_ctx t) order_model ?E i ?f) w1 = (Inr u, w2)"
    and emit: "emitKdsEvent env (od_tenantId u) (od_branchId u) ''order.cancelled'' (OrderPayload u) w2 = (Inr (), w')"
    and res: "ord' = u"
    unfolding cancelOrder_def
    by (elim andThen_InrE option_throw_InrE if_throw_InrE return_InrE) auto
  have w': "w_db w' = w_db w2" using preservesD[OF emitKdsEvent_db[of "\<lambda>d. d"] emit] .
  obtain d1 where d1: "findById (tenant_ctx t) order_model ?E i (w_db w) = (Inr (Some ord), d1)" "w1 = w\<lparr>w_db := d1\<rparr>"
    using f by (rule liftDb_InrE)
  have ord: "d1 = w_db w" "ord \<in> set (t_orders ?X)" "od_id ord = i" "od_tenantId ord = Some t"
    using orders.findById_Some[OF t d1(1)] by auto
  obtain d2 where d2: "repo_update (tenant_ctx t) order_model ?E i ?f (w_db w) = (Inr u, d2)" "w_db w2 = d2"
    using upd d1(2) ord(1) by (auto elim!: liftDb_InrE)
  obtain xs x ys where x: "t_orders ?X = xs @ x # ys" "od_id x = i" "u = ?f x"
    "t_orders (T d2) = xs @ u # ys" "(T d2)\<lparr>t_orders := []\<rparr> = ?X\<lparr>t_orders := []\<rparr>"
    using orders.update_row[OF t d2(1)] by auto
  have xo: "x = ord" using orders.unique_row[of "t_orders ?X" x ord] uniq ord x(1,2) by simp
  have "T (w_db w') = ?X\<lparr>t_orders := xs @ ord' # ys\<rparr>" using orders_only[OF x(5)] x(4) d2(2) w' res by simp
  then show ?thesis using x(1) x(3)[folded res] xo ord(3,4) st by blast
qed

section \<open>Guests\<close>

lemma sat_qr:
  "sat dining_table_model [(''qrCodeToken'', Is (CStr q)), (''tenantId'', Is (CStr t)), (''deletedAt'', Is CNull)] tb \<longleftrightarrow>
     tb_qrCodeToken tb = q \<and> tb_tenantId tb = Some t \<and> tb_deletedAt tb = None"
  by (auto simp: sat_def dining_table_model_def dining_table_col_def opt_cell_def split: option.splits)

lemma findByQrCodeToken_Some:
  assumes "t \<noteq> []" "findByQrCodeToken P (tenant_ctx t) q d = (Inr (Some tb), d')"
  shows "d' = d \<and> tb \<in> set (t_diningTables (T d)) \<and> tb_qrCodeToken tb = q \<and> tb_tenantId tb = Some t \<and> tb_deletedAt tb = None"
proof -
  have "dg_findFirst (px_table P) [(''qrCodeToken'', Is (CStr q)), (''tenantId'', Is (CStr t)), (''deletedAt'', Is CNull)] d = (Inr (Some tb), d')"
    using assms by (simp add: findByQrCodeToken_def diningTables.ext_findFirst opt_cell_def)
  from diningTables.findFirst_eqD[OF this] show ?thesis by (simp add: sat_qr)
qed

text \<open>A guest order is bound to the table of the scanned code, under a tenant that may take orders.\<close>

lemma createGuestOrder_InrE:
  assumes run: "createGuestOrder P env dto t w = (Inr (ord, its), w')"
  obtains tb where "t \<noteq> []" "tb \<in> set (t_diningTables (T (w_db w)))" "Some (tb_qrCodeToken tb) = co_qrCodeToken dto"
    "tb_tenantId tb = Some t" "tb_deletedAt tb = None" "co_branchId dto = tb_branchId tb"
    "\<exists>st. fst (px_tenant_findUnique P t (w_db w)) = Inr st \<and> (\<forall>tn. st = Some tn \<longrightarrow> tn_status tn \<notin> {UNPAID, CANCELED})"
    "checkout_effect env (dto\<lparr>co_tableId := Some (tb_id tb)\<rparr>) t (T (w_db w)) ord its (T (w_db w'))"
proof -
  let ?c = "tenant_ctx t" and ?q = "or_else (co_qrCodeToken dto) []"
  have t: "t \<noteq> []" and q: "truthy (co_qrCodeToken dto)"
    using run by (auto simp: createGuestOrder_def throw_apply Let_def split: if_splits)
  from run t q obtain tb w1 tn w2 where f: "liftDb (findByQrCodeToken P ?c ?q) w = (Inr (Some tb), w1)"
    and b: "co_branchId dto = tb_branchId tb"
    and g: "liftDb (px_tenant_findUnique P t) w1 = (Inr tn, w2)"
    and ok: "\<not> (\<exists>x \<in> set_option tn. tn_status x = UNPAID \<or> tn_status x = CANCELED)"
    and co: "createOrder P ?c env (dto\<lparr>co_branchId := tb_branchId tb, co_tableId := Some (tb_id tb)\<rparr>) t w2 = (Inr (ord, its), w')"
    unfolding createGuestOrder_def Let_def
    by (elim if_throw_InrE andThen_InrE option_throw_InrE) (auto elim!: if_throw_InrE andThen_InrE)
  obtain d1 where d1: "findByQrCodeToken P ?c ?q (w_db w) = (Inr (Some tb), d1)" "w1 = w\<lparr>w_db := d1\<rparr>"
    using f by (rule liftDb_InrE)
  note tb = findByQrCodeToken_Some[OF t d1(1)]
  obtain d2 where d2: "px_tenant_findUnique P t (w_db w) = (Inr tn, d2)" "w2 = w1\<lparr>w_db := d2\<rparr>"
    using g d1(2) tb by (auto elim!: liftDb_InrE)
  have w2: "w_db w2 = w_db w" using d2 tenant_state[of t "w_db w"] by simp
  have "dto\<lparr>co_branchId := tb_branchId tb, co_tableId := Some (tb_id tb)\<rparr> = dto\<lparr>co_tableId := Some (tb_id tb)\<rparr>"
    using b by simp
  then have "checkout_effect env (dto\<lparr>co_tableId := Some (tb_id tb)\<rparr>) t (T (w_db w)) ord its (T (w_db w'))"
    using createOrder_effect[OF t co] w2 by simp
  moreover have "Some (tb_qrCodeToken tb) = co_qrCodeToken dto" using tb truthy_or_else[OF q] by simp
  moreover have "\<exists>st. fst (px_tenant_findUnique P t (w_db w)) = Inr st \<and> (\<forall>tn. st = Some tn \<longrightarrow> tn_status tn \<notin> {UNPAID, CANCELED})"
    using d2(1) ok by auto
  ultimately show thesis using that t tb b by blast
qed

end

end
