(* ===== verification/Sample_Data.thy ===== *)
theory Sample_Data
  imports Order_Lifecycle
begin

text \<open>
  A small database with two tenants, on which the services are run: the concrete inputs at which
  the properties of the development are instantiated.
\<close>

definition sample_restaurant :: restaurant where
  "sample_restaurant = \<lparr>rs_id = ''r1'', rs_tenantId = Some ''t1'', rs_name = ''Diner'', rs_currency = ''USD'',
     rs_timezone = ''UTC'', rs_taxPercentage = 10, rs_createdAt = 0, rs_updatedAt = 0, rs_deletedAt = None\<rparr>"

definition sample_branch :: branch where
  "sample_branch = \<lparr>br_id = ''b1'', br_tenantId = Some ''t1'', br_restaurantId = ''r1'', br_name = ''Main'',
     br_address = ''Street'', br_latitude = None, br_longitude = None, br_phoneNumber = ''1'',
     br_operatingHours = ''all'', br_isActive = True, br_createdAt = 0, br_updatedAt = 0, br_deletedAt = None\<rparr>"

definition sample_table :: dining_table where
  "sample_table = \<lparr>tb_id = ''tb1'', tb_tenantId = Some ''t1'', tb_branchId = ''b1'', tb_number = ''1'',
     tb_seatingCapacity = 4, tb_qrCodeToken = ''qr1'', tb_status = VACANT, tb_createdAt = 0, tb_updatedAt = 0,
     tb_deletedAt = None\<rparr>"

definition sample_product :: product where
  "sample_product = \<lparr>pr_id = ''p1'', pr_tenantId = Some ''t1'', pr_categoryId = ''c1'', pr_name = ''Soup'',
     pr_description = None, pr_imageUrl = None, pr_basePrice = 4, pr_isAvailable = True, pr_calories = None,
     pr_preparationTime = 20, pr_createdAt = 0, pr_updatedAt = 0, pr_deletedAt = None\<rparr>"

definition sample_size :: productSize where
  "sample_size = \<lparr>ps_id = ''s1'', ps_tenantId = Some ''t1'', ps_productId = ''p1'', ps_name = ''Large'',
     ps_priceAdjustment = 1\<rparr>"

definition sample_addon :: addonItem where
  "sample_addon = \<lparr>ai_id = ''a1'', ai_tenantId = Some ''t1'', ai_addonGroupId = ''g1'', ai_name = ''Bread'',
     ai_price = 1, ai_isAvailable = True\<rparr>"

definition sample_discount :: discount where
  "sample_discount = \<lparr>d_id = ''d1'', d_tenantId = Some ''t1'', d_code = ''TEN'', d_type = PERCENTAGE, d_value = 10,
     d_active = True, d_validFrom = None, d_validTo = None, d_usageLimit = Some 5, d_usageCount = 0\<rparr>"

definition sample_order :: "string \<Rightarrow> string \<Rightarrow> OrderStatus \<Rightarrow> order" where
  "sample_order t i st = \<lparr>od_id = i, od_tenantId = Some t, od_branchId = ''b1'', od_customerId = None,
     od_tableId = None, od_orderNumber = ''ORD-2026-10000'', od_type = DINE_IN, od_paymentMethod = CASH,
     od_status = st, od_subtotal = Fin 4, od_taxAmount = Fin 0, od_discountAmount = Fin 0, od_discountId = None,
     od_discountCode = None, od_tipAmount = Fin 0, od_total = Fin 4, od_specialNotes = None,
     od_createdAt = 0, od_updatedAt = 0\<rparr>"

definition sample_tenant :: "string \<Rightarrow> tenant" where
  "sample_tenant i = \<lparr>tn_id = i, tn_name = i, tn_subdomain = i, tn_customDomain = None, tn_status = ACTIVE,
     tn_logoUrl = None, tn_bannerUrl = None, tn_primaryColor = ''#000000'', tn_secondaryColor = ''#FFFFFF'',
     tn_stripeCustomerId = None, tn_branding = None, tn_createdAt = 0, tn_updatedAt = 0, tn_deletedAt = None\<rparr>"

definition sample_plan :: subscriptionPlan where
  "sample_plan = \<lparr>sp_id = ''pl1'', sp_name = ''Basic'', sp_stripePriceId = ''price1'', sp_maxBranches = 2, sp_maxRestaurants = 1,
     sp_maxProductsPerBranch = 1, sp_allowCustomDomains = False, sp_allowOnlinePayments = True, sp_allowAnalytics = False,
     sp_priceMonthly = 10, sp_priceYearly = 100, sp_createdAt = 0\<rparr>"

definition sample_subscription :: "string \<Rightarrow> string \<Rightarrow> SubscriptionStatus \<Rightarrow> subscription" where
  "sample_subscription t i st = \<lparr>sb_id = i, sb_tenantId = Some t, sb_planId = ''pl1'', sb_stripeSubscriptionId = None,
     sb_status = st, sb_currentPeriodStart = 0, sb_currentPeriodEnd = 100, sb_cancelAtPeriodEnd = False,
     sb_canceledAt = None, sb_createdAt = 0\<rparr>"

definition sample_tables :: tables where
  "sample_tables = \<lparr>t_tenants = [sample_tenant ''t1'', sample_tenant ''t2''], t_plans = [sample_plan], t_permissions = [], t_notifications = [], t_restaurants = [sample_restaurant],
     t_branches = [sample_branch], t_diningTables = [sample_table], t_products = [sample_product],
     t_productSizes = [sample_size], t_productVariants = [], t_productAddons = [], t_addonItems = [sample_addon],
     t_discounts = [sample_discount],
     t_orders = [sample_order ''t1'' ''o1'' OrderStatus.READY, sample_order ''t2'' ''o2'' OrderStatus.PENDING],
     t_orderItems = [], t_kitchenQueues = [], t_payments = [], t_invoices = [], t_customers = [],
     t_subscriptions = [sample_subscription ''t1'' ''s1'' SubscriptionStatus.ACTIVE, sample_subscription ''t2'' ''s2'' SubscriptionStatus.CANCELED],
     t_webhooks = [], t_medias = [], t_deviceTokens = [],
     t_users = [], t_roles = [], t_categories = []\<rparr>"

definition sample_world :: "tables world" where
  "sample_world = \<lparr>w_db = sample_tables, w_out = []\<rparr>"

definition sample_env :: env where
  "sample_env = \<lparr>ev_now = 1000, ev_year = 2026, ev_random = 0,
     ev_kdsGateway = Some \<lparr>gw_server = Some (\<lambda>_ _. True)\<rparr>, ev_webhookService = True, ev_emailService = True,
     ev_smsService = True, ev_invoicePdfService = None, ev_invoiceStorageService = None\<rparr>"

definition sample_dto :: CreateOrderRequestDto where
  "sample_dto = \<lparr>co_branchId = ''b1'', co_tableId = None, co_qrCodeToken = Some ''qr1'', co_type = DINE_IN,
     co_specialNotes = None,
     co_items = [\<lparr>is_productId = ''p1'', is_sizeId = Some ''s1'', is_variantId = None, is_quantity = 2,
                  is_addons = Some [''a1'']\<rparr>],
     co_paymentMethod = CASH, co_discountCode = Some ''ten''\<rparr>"

end
