(* ===== verification/Tenant_Properties.thy ===== *)
theory Tenant_Properties
  imports Sample_Data
begin

text \<open>
  Properties of the tenant-scoped database layer, for every model and every client that behaves
  as documented, with their instances on the in-memory client.
\<close>

text \<open>C1. Tenant isolation of the repository: whatever a repository does in the context of a
  tenant (create, update, delete, soft-delete, restore), and also when it throws, the rows of
  every other tenant and all other tables are exactly as before, as long as the caller's patch
  does not itself reassign the tenant of a row.\<close>

theorem repository_isolation:
  assumes "tenant_repository md D rows rest" "t \<noteq> []"
    and "\<And>r. md_tenant md r = Some t \<Longrightarrow> md_tenant md (f r) = Some t"
  shows "preserves (\<lambda>s. (foreign md t (rows s), rest s)) (repo_create (tenant_ctx t) md (extended (tenant_ctx t) md D) d) \<and>
         preserves (\<lambda>s. (foreign md t (rows s), rest s)) (repo_update (tenant_ctx t) md (extended (tenant_ctx t) md D) i f) \<and>
         preserves (\<lambda>s. (foreign md t (rows s), rest s)) (repo_delete (tenant_ctx t) md (extended (tenant_ctx t) md D) i) \<and>
         preserves (\<lambda>s. (foreign md t (rows s), rest s)) (softDelete (tenant_ctx t) md (extended (tenant_ctx t) md D) now i f) \<and>
         preserves (\<lambda>s. (foreign md t (rows s), rest s)) (restore (tenant_ctx t) md (extended (tenant_ctx t) md D) i f)"
  by (intro conjI tenant_repository.repo_create_others[OF assms(1,2)] tenant_repository.repo_update_others[OF assms(1,2)]
      tenant_repository.repo_delete_others[OF assms(1,2)] tenant_repository.softDelete_others[OF assms(1,2)]
      tenant_repository.restore_others[OF assms(1,2)] assms(3))

text \<open>The update of another tenant's order on the sample database: refused, nothing changed.\<close>

theorem repository_isolation_witness:
  "foreign order_model ''t1'' (t_orders (snd (repo_update (tenant_ctx ''t1'') order_model
       (extended (tenant_ctx ''t1'') order_model (px_order mem_prisma)) ''o1'' (set_order_status sample_env OrderStatus.COMPLETED)
       sample_tables))) = [sample_order ''t2'' ''o2'' OrderStatus.PENDING]"
proof -
  have "preserves (\<lambda>s. (foreign order_model ''t1'' (t_orders s), s\<lparr>t_orders := []\<rparr>))
     (repo_update (tenant_ctx ''t1'') order_model (extended (tenant_ctx ''t1'') order_model (px_order mem_prisma)) ''o1''
        (set_order_status sample_env OrderStatus.COMPLETED))"
    by (rule repository_isolation[OF mem.orders.tenant_repository_axioms, THEN conjunct2, THEN conjunct1])
      (simp_all add: set_order_status_def)
  then have "foreign order_model ''t1'' (t_orders (snd (repo_update (tenant_ctx ''t1'') order_model
       (extended (tenant_ctx ''t1'') order_model (px_order mem_prisma)) ''o1'' (set_order_status sample_env OrderStatus.COMPLETED)
       sample_tables))) = foreign order_model ''t1'' (t_orders sample_tables)"
    by (simp add: preserves_def)
  then show ?thesis by (simp add: sample_tables_def sample_order_def)
qed

text \<open>What a repository returns belongs to the tenant of the context: a lookup by id returns
  a stored row of that tenant with that id, never a soft-deleted one, and a listing returns only
  rows of that tenant, at most \<open>DEFAULT_MAX_ROWS\<close> of them unless a limit is given.\<close>

theorem repository_reads_own:
  assumes "tenant_repository md D rows rest" "t \<noteq> []"
  shows "(findById (tenant_ctx t) md (extended (tenant_ctx t) md D) i s = (Inr (Some r), s1) \<longrightarrow>
           s1 = s \<and> r \<in> set (rows s) \<and> md_id md r = i \<and> md_tenant md r = Some t \<and>
           (md_softDeletable md \<longrightarrow> md_deletedAt md r = None)) \<and>
         (findMany (tenant_ctx t) md (extended (tenant_ctx t) md D) w limit skip s = (Inr rs, s2) \<longrightarrow>
           s2 = s \<and> (\<forall>r \<in> set rs. r \<in> set (rows s) \<and> md_tenant md r = Some t) \<and>
           (limit = None \<longrightarrow> length rs \<le> DEFAULT_MAX_ROWS))"
  by (intro conjI[of "_ \<longrightarrow> _" "_ \<longrightarrow> _"] impI)
    (erule tenant_repository.findById_Some[OF assms], erule tenant_repository.findMany_rows[OF assms])

theorem repository_reads_own_witness:
  "\<exists>r. findById (tenant_ctx ''t1'') order_model (extended (tenant_ctx ''t1'') order_model (px_order mem_prisma)) ''o1'' sample_tables
        = (Inr (Some r), sample_tables) \<and> od_tenantId r = Some ''t1''"
proof -
  have run: "findById (tenant_ctx ''t1'') order_model (extended (tenant_ctx ''t1'') order_model (px_order mem_prisma)) ''o1'' sample_tables
        = (Inr (Some (sample_order ''t1'' ''o1'' OrderStatus.READY)), sample_tables)"
    by code_simp
  with repository_reads_own[OF mem.orders.tenant_repository_axioms, of "''t1''" "''o1''" sample_tables
      "sample_order ''t1'' ''o1'' OrderStatus.READY" sample_tables]
  show ?thesis by simp
qed

text \<open>Fail-safe: outside a tenant context (no tenant, or an empty one) and without the platform
  owner flag, no query on a tenant-scoped model reaches the database: every operation of the
  extended client throws and leaves the state as it was.\<close>

theorem no_context_no_access:
  assumes "\<not> truthy (ctx_tenantId c)" "\<not> ctx_isPlatformOwner c" "md_name md \<notin> set unscopedModels"
  shows "(\<exists>m. dg_findFirst (extended c md D) w s = (Inl (JsError m), s)) \<and>
         (\<exists>m. dg_findUnique (extended c md D) w s = (Inl (JsError m), s)) \<and>
         (\<exists>m. dg_findMany (extended c md D) w n k s = (Inl (JsError m), s)) \<and>
         (\<exists>m. dg_create (extended c md D) d s = (Inl (JsError m), s)) \<and>
         (\<exists>m. dg_update (extended c md D) w f s = (Inl (JsError m), s)) \<and>
         (\<exists>m. dg_delete (extended c md D) w s = (Inl (JsError m), s)) \<and>
         (\<exists>m. dg_count (extended c md D) w s = (Inl (JsError m), s))"
  using assms by (simp add: extended_def allOperations_def Let_def throw_apply)

theorem no_context_no_access_witness:
  "\<exists>m. dg_delete (extended None order_model (px_order mem_prisma)) (where_id ''o1'') sample_tables = (Inl (JsError m), sample_tables)"
  using no_context_no_access[of None order_model "px_order mem_prisma"]
  by (simp add: ctx_tenantId_def ctx_isPlatformOwner_def)

text \<open>Cross-tenant writes: creating a row that names another tenant is refused, by the
  repository and by the client extension below it, and a row that is created carries the tenant of
  the context.\<close>

theorem create_stays_in_tenant:
  assumes "tenant_repository md D rows rest" "t \<noteq> []"
  shows "(truthy (md_tenant md d) \<and> md_tenant md d \<noteq> Some t \<longrightarrow>
            (\<exists>m. repo_create (tenant_ctx t) md (extended (tenant_ctx t) md D) d s = (Inl (JsError m), s)) \<and>
            (\<exists>m. dg_create (extended (tenant_ctx t) md D) d s = (Inl (JsError m), s))) \<and>
         (repo_create (tenant_ctx t) md (extended (tenant_ctx t) md D) d s = (Inr r, s') \<longrightarrow>
            md_tenant md r = Some t \<and> rows s' = rows s @ [r] \<and> rest s' = rest s)"
proof (intro conjI impI)
  assume bad: "truthy (md_tenant md d) \<and> md_tenant md d \<noteq> Some t"
  show "\<exists>m. repo_create (tenant_ctx t) md (extended (tenant_ctx t) md D) d s = (Inl (JsError m), s)"
    using bad assms(2) by (auto simp: repo_create_def throw_apply)
  show "\<exists>m. dg_create (extended (tenant_ctx t) md D) d s = (Inl (JsError m), s)"
    using bad by (simp add: tenant_repository.ext_create[OF assms] throw_apply)
qed (use tenant_repository.create_row[OF assms] in blast)+

theorem create_stays_in_tenant_witness:
  "\<exists>m. repo_create (tenant_ctx ''t1'') order_model (extended (tenant_ctx ''t1'') order_model (px_order mem_prisma))
         (sample_order ''t2'' ''o3'' OrderStatus.DRAFT) sample_tables = (Inl (JsError m), sample_tables)"
  using create_stays_in_tenant[OF mem.orders.tenant_repository_axioms, of "''t1''" "sample_order ''t2'' ''o3'' OrderStatus.DRAFT"]
  by (simp add: sample_order_def)



text \<open>The bulk operations whose filters the extension cannot rewrite are refused on every scoped
  model, with or without a query behind them.\<close>

theorem bulk_operations_refused:
  assumes "truthy (ctx_tenantId c)" "md_name md \<notin> set unscopedModels"
    and "op \<in> {''createMany'', ''updateMany'', ''deleteMany'', ''aggregate'', ''groupBy'', ''upsert''}"
  shows "\<exists>m. \<forall>s. allOperations c md op a q s = (Inl (JsError m), s)"
  using allOperations_unsupported[OF assms(1) _ assms(2), of op a q] assms(3)
  by (auto simp: unsupportedOperations_def throw_apply)

theorem bulk_operations_refused_witness:
  "\<exists>m. \<forall>s. allOperations (tenant_ctx ''t1'') order_model ''updateMany'' (w_args []) (\<lambda>_. return (7 :: nat)) (s :: nat)
        = (Inl (JsError m), s)"
  using bulk_operations_refused[of "tenant_ctx ''t1''" order_model "''updateMany''"] by simp

end
