(* ===== verification/Order_Messages.thy ===== *)
theory Order_Messages
  imports Order_Lifecycle
begin

text \<open>
  What the order service tells the outside: every emission goes to the room of one tenant and
  branch, and no notification influences the result of an operation or what it stores.
\<close>

section \<open>Rooms\<close>

text \<open>\<open>sends_to t b m\<close>: \<open>m\<close> only adds messages, and emits to the room of \<open>t\<close> and \<open>b\<close> only.\<close>

definition sends_to :: "string \<Rightarrow> string \<Rightarrow> ('d world, 'a) prog \<Rightarrow> bool" where
  "sends_to t b m \<longleftrightarrow> (\<forall>w r w'. m w = (r, w') \<longrightarrow> (\<exists>ms. w_out w' = w_out w @ ms \<and> room_only t b ms))"

named_theorems sends_intros \<open>structural rules for \<open>sends_to\<close>\<close>

lemma sends_toD: "sends_to t b m \<Longrightarrow> m w = (r, w') \<Longrightarrow> \<exists>ms. w_out w' = w_out w @ ms \<and> room_only t b ms"
  by (simp add: sends_to_def)

lemma sends_quiet: "preserves w_out m \<Longrightarrow> sends_to t b m"
  unfolding sends_to_def by (metis append_Nil2 preservesD room_only_simps(1))

lemma sends_return [sends_intros]: "sends_to t b (return x)"
  by (simp add: sends_quiet preserves_return)

lemma sends_throw [sends_intros]: "sends_to t b (throw e)"
  by (simp add: sends_quiet preserves_throw)

lemma sends_of_result [sends_intros]: "sends_to t b (of_result r)"
  by (simp add: sends_quiet preserves_of_result)

lemma sends_liftDb [sends_intros]: "sends_to t b (liftDb m)"
  by (simp add: sends_quiet preserves_liftDb_out)

lemma sends_broadcast [sends_intros]: "sends_to t b (broadcastOrderEvent env g t b ev p)"
  unfolding sends_to_def by (auto dest: broadcast_out)

lemma sends_webhook [sends_intros]: "sends_to t b (send (WebhookDispatch x ev p))"
  by (simp add: sends_to_def send_apply)

lemma sends_sms [sends_intros]: "sends_to t b (send (OrderStatusSms x y z u))"
  by (simp add: sends_to_def send_apply)

lemma sends_email [sends_intros]: "sends_to t b (send (InvoiceEmail x y))"
  by (simp add: sends_to_def send_apply)

lemma sends_trans:
  assumes "w_out w1 = w_out w @ ms" "room_only t b ms" "w_out w2 = w_out w1 @ ms'" "room_only t b ms'"
  shows "\<exists>ms. w_out w2 = w_out w @ ms \<and> room_only t b ms"
  by (rule exI[of _ "ms @ ms'"]) (simp add: assms)

lemma sends_andThen [sends_intros]:
  assumes "sends_to t b m" "\<And>x. sends_to t b (k x)" shows "sends_to t b (andThen m k)"
  unfolding sends_to_def
proof (intro allI impI)
  fix w r w' assume run: "andThen m k w = (r, w')"
  obtain r1 w1 where m: "m w = (r1, w1)" by force
  obtain ms where ms: "w_out w1 = w_out w @ ms" "room_only t b ms" using sends_toD[OF assms(1) m] by blast
  show "\<exists>ms. w_out w' = w_out w @ ms \<and> room_only t b ms"
  proof (cases r1)
    case (Inl e)
    then show ?thesis using run m ms by (auto simp: andThen_def)
  next
    case (Inr x)
    then have "k x w1 = (r, w')" using run m by (simp add: andThen_def)
    from sends_toD[OF assms(2) this] show ?thesis using ms by (auto intro: sends_trans)
  qed
qed

lemma sends_try_catch [sends_intros]:
  assumes "sends_to t b m" "\<And>e. sends_to t b (h e)" shows "sends_to t b (try_catch m h)"
  unfolding sends_to_def
proof (intro allI impI)
  fix w r w' assume run: "try_catch m h w = (r, w')"
  obtain r1 w1 where m: "m w = (r1, w1)" by force
  obtain ms where ms: "w_out w1 = w_out w @ ms" "room_only t b ms" using sends_toD[OF assms(1) m] by blast
  show "\<exists>ms. w_out w' = w_out w @ ms \<and> room_only t b ms"
  proof (cases r1)
    case (Inr x)
    then show ?thesis using run m ms by (auto simp: try_catch_def)
  next
    case (Inl e)
    then have "h e w1 = (r, w')" using run m by (simp add: try_catch_def)
    from sends_toD[OF assms(2) this] show ?thesis using ms by (auto intro: sends_trans)
  qed
qed

lemma sends_if [sends_intros]:
  "(c \<Longrightarrow> sends_to t b m) \<Longrightarrow> (\<not> c \<Longrightarrow> sends_to t b n) \<Longrightarrow> sends_to t b (if c then m else n)"
  by simp

lemma sends_option [sends_intros]:
  "(x = None \<Longrightarrow> sends_to t b m) \<Longrightarrow> (\<And>a. x = Some a \<Longrightarrow> sends_to t b (k a)) \<Longrightarrow>
   sends_to t b (case x of None \<Rightarrow> m | Some a \<Rightarrow> k a)"
  by (cases x) simp_all

lemma sends_prod [sends_intros]:
  "(\<And>x y. sends_to t b (k x y)) \<Longrightarrow> sends_to t b (case p of (x, y) \<Rightarrow> k x y)"
  by (cases p) simp

lemma sends_foldProg [sends_intros]:
  "(\<And>x acc. sends_to t b (g x acc)) \<Longrightarrow> sends_to t b (foldProg g xs acc)"
  by (induction xs arbitrary: acc) (auto intro: sends_return sends_andThen)

lemma sends_emitKdsEvent [sends_intros]: "sends_to t b (emitKdsEvent env (Some t) b ev p)"
  by (auto simp: emitKdsEvent_def or_else_def intro!: sends_intros)

lemma sends_ticket [sends_intros]: "sends_to t (co_branchId dto) (broadcastTicketCreated P c env dto t ord)"
  by (auto simp: broadcastTicketCreated_def emitTicketCreated_def intro!: sends_intros)

lemma createOrder_rooms: "sends_to t (co_branchId dto) (createOrder P c env dto t)"
  by (auto simp: createOrder_def intro!: sends_intros)

lemma generateInvoice_rooms: "sends_to t b (generateInvoice P c env ord)"
  by (auto simp: generateInvoice_def Let_def intro!: sends_intros)

text \<open>After a write that returned a row of the tenant, everything goes to the room of that row.\<close>

definition sends_tenant :: "string \<Rightarrow> ('d world, 'a) prog \<Rightarrow> bool" where
  "sends_tenant t m \<longleftrightarrow> (\<forall>w r w'. m w = (r, w') \<longrightarrow> (\<exists>b ms. w_out w' = w_out w @ ms \<and> room_only t b ms))"

lemma sends_tenantI: "sends_to t b m \<Longrightarrow> sends_tenant t m"
  unfolding sends_to_def sends_tenant_def by blast

lemma sends_tenant_option:
  "(x = None \<Longrightarrow> sends_tenant t m) \<Longrightarrow> (\<And>a. x = Some a \<Longrightarrow> sends_tenant t (k a)) \<Longrightarrow>
   sends_tenant t (case x of None \<Rightarrow> m | Some a \<Rightarrow> k a)"
  by (cases x) simp_all

lemma sends_tenant_if:
  "(c \<Longrightarrow> sends_tenant t m) \<Longrightarrow> (\<not> c \<Longrightarrow> sends_tenant t n) \<Longrightarrow> sends_tenant t (if c then m else n)"
  by simp

lemma sends_tenant_throw: "sends_tenant t (throw e)"
  by (rule sends_tenantI, rule sends_throw)

lemma sends_tenant_after:
  assumes "preserves w_out m" "\<And>x w w1. m w = (Inr x, w1) \<Longrightarrow> sends_tenant t (k x)"
  shows "sends_tenant t (andThen m k)"
  unfolding sends_tenant_def
proof (intro allI impI)
  fix w r w' assume run: "andThen m k w = (r, w')"
  obtain r1 w1 where m: "m w = (r1, w1)" by force
  have out: "w_out w1 = w_out w" by (rule preservesD[OF assms(1) m])
  show "\<exists>b ms. w_out w' = w_out w @ ms \<and> room_only t b ms"
  proof (cases r1)
    case (Inl e)
    then show ?thesis using run m out by (auto simp: andThen_def intro: exI[of _ "[]"])
  next
    case (Inr x)
    then have "k x w1 = (r, w')" using run m by (simp add: andThen_def)
    then show ?thesis using assms(2)[OF m[unfolded Inr]] out unfolding sends_tenant_def by metis
  qed
qed

context prisma_client
begin

lemma updated_order_tenant:
  assumes "t \<noteq> []"
    "liftDb (repo_update (tenant_ctx t) order_model (extended (tenant_ctx t) order_model (px_order P)) i (set_order_status env st)) w
       = (Inr u, w')"
  shows "od_tenantId u = Some t"
proof -
  obtain d where "repo_update (tenant_ctx t) order_model (extended (tenant_ctx t) order_model (px_order P)) i
      (set_order_status env st) (w_db w) = (Inr u, d)" using assms(2) by (rule liftDb_InrE)
  from orders.update_row[OF assms(1) this] show ?thesis by auto
qed

lemma updateOrderStatus_rooms:
  assumes "t \<noteq> []" shows "sends_tenant t (updateOrderStatus P (tenant_ctx t) env i st)"
proof -
  let ?E = "extended (tenant_ctx t) order_model (px_order P)" let ?f = "set_order_status env st"
  have body: "sends_tenant t (andThen (liftDb (repo_update (tenant_ctx t) order_model ?E i ?f)) (\<lambda>u.
     andThen (if st = OrderStatus.COMPLETED
              then andThen (generateInvoice P (tenant_ctx t) env u) (\<lambda>_. return ()) else return ()) (\<lambda>_.
     andThen (case mapStatusToEvent st of
                None \<Rightarrow> return ()
              | Some eventName \<Rightarrow> emitKdsEvent env (od_tenantId u) (od_branchId u) eventName (OrderPayload u)) (\<lambda>_.
     andThen (if st = OrderStatus.READY \<and> ev_smsService env
              then send (OrderStatusSms ''+12025550144'' (od_orderNumber u) st (od_tenantId u))
              else return ()) (\<lambda>_. return u)))))" (is "sends_tenant t (andThen _ ?k)")
  proof (rule sends_tenant_after[OF preserves_liftDb_out])
    fix u w w1 assume "liftDb (repo_update (tenant_ctx t) order_model ?E i ?f) w = (Inr u, w1)"
    then have u: "od_tenantId u = Some t" by (rule updated_order_tenant[OF assms])
    show "sends_tenant t (?k u)"
      unfolding u by (rule sends_tenantI[of t "od_branchId u"]) (intro sends_intros generateInvoice_rooms)
  qed
  show ?thesis
    unfolding updateOrderStatus_def
    by (rule sends_tenant_after[OF preserves_liftDb_out], rule sends_tenant_option, rule sends_tenant_throw,
        rule sends_tenant_after[OF preserves_of_result], rule body)
qed

lemma cancelOrder_rooms:
  assumes "t \<noteq> []" shows "sends_tenant t (cancelOrder P (tenant_ctx t) env i)"
proof -
  let ?E = "extended (tenant_ctx t) order_model (px_order P)" let ?f = "set_order_status env OrderStatus.CANCELLED"
  have body: "sends_tenant t (andThen (liftDb (repo_update (tenant_ctx t) order_model ?E i ?f)) (\<lambda>u.
     andThen (emitKdsEvent env (od_tenantId u) (od_branchId u) ''order.cancelled'' (OrderPayload u)) (\<lambda>_. return u)))"
  proof (rule sends_tenant_after[OF preserves_liftDb_out])
    fix u w w1 assume "liftDb (repo_update (tenant_ctx t) order_model ?E i ?f) w = (Inr u, w1)"
    then have u: "od_tenantId u = Some t" by (rule updated_order_tenant[OF assms])
    show "sends_tenant t (andThen (emitKdsEvent env (od_tenantId u) (od_branchId u) ''order.cancelled'' (OrderPayload u)) (\<lambda>_. return u))"
      unfolding u by (rule sends_tenantI[of t "od_branchId u"]) (intro sends_intros)
  qed
  show ?thesis
    unfolding cancelOrder_def
    by (rule sends_tenant_after[OF preserves_liftDb_out], rule sends_tenant_option, rule sends_tenant_throw,
        rule sends_tenant_if, rule sends_tenant_throw, rule body)
qed

section \<open>Notifications do not matter\<close>

text \<open>The result of a checkout and the database it leaves are those of its reads and its transaction.\<close>

lemma createOrder_result:
  assumes "t \<noteq> []"
  shows "(fst (createOrder P (tenant_ctx t) env dto u w), w_db (snd (createOrder P (tenant_ctx t) env dto u w))) =
         andThen (prepareCheckout P (tenant_ctx t) dto u) (\<lambda>(s, tax, its).
           transaction P (checkoutTransaction P (tenant_ctx t) env dto u s tax its)) (w_db w)"
proof -
  obtain p d1 where prep: "prepareCheckout P (tenant_ctx t) dto u (w_db w) = (p, d1)" by force
  show ?thesis
  proof (cases p)
    case (Inl e)
    then show ?thesis using prep by (simp add: createOrder_def andThen_def liftDb_def)
  next
    case (Inr q)
    obtain s tax its where q: "q = (s, tax, its)" by (cases q)
    obtain r d2 where tr: "transaction P (checkoutTransaction P (tenant_ctx t) env dto u s tax its) d1 = (r, d2)" by force
    show ?thesis
    proof (cases r)
      case (Inl e)
      then show ?thesis using prep \<open>p = Inr q\<close> q tr by (simp add: createOrder_def andThen_def liftDb_def)
    next
      case (Inr created)
      obtain w3 where w3: "broadcastTicketCreated P (tenant_ctx t) env dto u (fst created) (w\<lparr>w_db := d2\<rparr>) = (Inr (), w3)"
        "w_db w3 = d2" using broadcastTicketCreated_returns[OF assms, of env dto u "fst created" "w\<lparr>w_db := d2\<rparr>"] by auto
      obtain w4 where w4: "emitKdsEvent env (Some u) (co_branchId dto) ''order.created''
          (OrderWithItems (fst created) (snd created)) w3 = (Inr (), w4)" "w_db w4 = w_db w3"
        using emitKdsEvent_returns by blast
      show ?thesis
        using prep \<open>p = Inr q\<close> q tr Inr w3 w4 by (simp add: createOrder_def andThen_def liftDb_def return_def)
    qed
  qed
qed

end

end
