(* ===== verification/Sample_Runs.thy ===== *)
theory Sample_Runs
  imports Order_Messages Sample_Data
begin

text \<open>
  Runs of the services on the sample database, evaluated by the simplifier: that the operations
  return (or throw) there is what the instances of the properties start from.
\<close>

section \<open>Concrete runs\<close>

lemma sample_checkout_returns:
  "case fst (createOrder mem_prisma (tenant_ctx ''t1'') sample_env sample_dto ''t1'' sample_world) of
     Inl _ \<Rightarrow> False | Inr _ \<Rightarrow> True"
  by code_simp

lemma sample_checkout:
  obtains ord its w' where
    "createOrder mem_prisma (tenant_ctx ''t1'') sample_env sample_dto ''t1'' sample_world = (Inr (ord, its), w')"
proof -
  obtain r w' where run: "createOrder mem_prisma (tenant_ctx ''t1'') sample_env sample_dto ''t1'' sample_world = (r, w')"
    by force
  then obtain x where "r = Inr x" using sample_checkout_returns by (cases r) auto
  then show thesis using run that by (cases x) auto
qed

definition bad_dto :: CreateOrderRequestDto where
  "bad_dto = sample_dto\<lparr>co_discountCode := Some ''nope''\<rparr>"

lemma bad_checkout_throws:
  "case fst (createOrder mem_prisma (tenant_ctx ''t1'') sample_env bad_dto ''t1'' sample_world) of
     Inl e \<Rightarrow> e = BadRequestException DISCOUNT_INVALID_MESSAGE | Inr _ \<Rightarrow> False"
  by code_simp

text \<open>A guest orders the soup at its base price.\<close>

definition guest_dto :: CreateOrderRequestDto where
  "guest_dto = \<lparr>co_branchId = ''b1'', co_tableId = None, co_qrCodeToken = Some ''qr1'', co_type = DINE_IN,
     co_specialNotes = None,
     co_items = [\<lparr>is_productId = ''p1'', is_sizeId = None, is_variantId = None, is_quantity = 1, is_addons = None\<rparr>],
     co_paymentMethod = CASH, co_discountCode = None\<rparr>"

definition bound_dto :: CreateOrderRequestDto where
  "bound_dto = \<lparr>co_branchId = ''b1'', co_tableId = Some ''tb1'', co_qrCodeToken = Some ''qr1'', co_type = DINE_IN,
     co_specialNotes = None,
     co_items = [\<lparr>is_productId = ''p1'', is_sizeId = None, is_variantId = None, is_quantity = 1, is_addons = None\<rparr>],
     co_paymentMethod = CASH, co_discountCode = None\<rparr>"

lemma bound_prepare_returns:
  "case fst (prepareCheckout mem_prisma (tenant_ctx ''t1'') bound_dto ''t1'' sample_tables) of Inl _ \<Rightarrow> False | Inr _ \<Rightarrow> True"
  by code_simp

text \<open>In memory, the transaction of a checkout without a discount code always commits.\<close>

lemma mem_transaction_returns:
  assumes "t \<noteq> []" "\<not> truthy (co_discountCode dto)"
  shows "\<exists>x X'. transaction mem_prisma (checkoutTransaction mem_prisma (tenant_ctx t) env dto t s tax its) X = (Inr x, X')"
  using assms
  by (simp add: checkoutTransaction_def applyDiscount_def Let_def mem.order_createWithItems_scoped
      mem.kitchenQueues.ext_create kitchenQueue_model_simps transaction_def)
    (simp add: mem_prisma_def mem_createWithItems_def mem_delegate_def andThen_def return_def Let_def)

lemma bound_checkout_returns:
  "case fst (createOrder mem_prisma (tenant_ctx ''t1'') sample_env bound_dto ''t1'' sample_world) of Inl _ \<Rightarrow> False | Inr _ \<Rightarrow> True"
proof -
  obtain p X1 where p: "prepareCheckout mem_prisma (tenant_ctx ''t1'') bound_dto ''t1'' sample_tables = (p, X1)" by force
  obtain s tax its where q: "p = Inr (s, tax, its)" using p bound_prepare_returns by (cases p) auto
  have "\<not> truthy (co_discountCode bound_dto)" by (simp add: bound_dto_def)
  then obtain x X' where "transaction mem_prisma (checkoutTransaction mem_prisma (tenant_ctx ''t1'') sample_env bound_dto ''t1'' s tax its) X1
      = (Inr x, X')" using mem_transaction_returns[of "''t1''" bound_dto] by blast
  then have "fst (createOrder mem_prisma (tenant_ctx ''t1'') sample_env bound_dto ''t1'' sample_world) = Inr x"
    using mem.createOrder_result[of "''t1''" sample_env bound_dto "''t1''" sample_world] p q
    by (simp add: andThen_def sample_world_def)
  then show ?thesis by simp
qed

lemma guest_checkout_eq:
  "createGuestOrder mem_prisma sample_env guest_dto ''t1'' sample_world =
   createOrder mem_prisma (tenant_ctx ''t1'') sample_env bound_dto ''t1'' sample_world"
proof -
  have "findByQrCodeToken mem_prisma (tenant_ctx ''t1'') ''qr1'' sample_tables = (Inr (Some sample_table), sample_tables)"
    by code_simp
  then have find: "liftDb (findByQrCodeToken mem_prisma (tenant_ctx ''t1'') ''qr1'') sample_world = (Inr (Some sample_table), sample_world)"
    by (simp add: liftDb_def sample_world_def)
  have "px_tenant_findUnique mem_prisma ''t1'' sample_tables = (Inr (Some (sample_tenant ''t1'')), sample_tables)"
    by code_simp
  then have tn: "liftDb (px_tenant_findUnique mem_prisma ''t1'') sample_world = (Inr (Some (sample_tenant ''t1'')), sample_world)"
    by (simp add: liftDb_def sample_world_def)
  have tb: "tb_branchId sample_table = ''b1''" "tb_id sample_table = ''tb1''" "tn_status (sample_tenant ''t1'') = ACTIVE"
    by (simp_all add: sample_table_def sample_tenant_def)
  have q: "or_else (co_qrCodeToken guest_dto) [] = ''qr1''" "truthy (co_qrCodeToken guest_dto)" "js_trim ''qr1'' \<noteq> []"
    "co_branchId guest_dto = ''b1''" "co_tableId guest_dto = None"
    by code_simp+
  have "guest_dto\<lparr>co_branchId := ''b1'', co_tableId := Some ''tb1''\<rparr> = bound_dto"
    by (simp add: guest_dto_def bound_dto_def)
  then show ?thesis by (simp add: createGuestOrder_def Let_def andThen_def find tn tb q)
qed

lemma sample_guest_checkout:
  obtains ord its w' where "createGuestOrder mem_prisma sample_env guest_dto ''t1'' sample_world = (Inr (ord, its), w')"
proof -
  obtain r w' where run: "createGuestOrder mem_prisma sample_env guest_dto ''t1'' sample_world = (r, w')" by force
  then obtain x where "r = Inr x" using bound_checkout_returns guest_checkout_eq by (cases r) auto
  then show thesis using run that by (cases x) auto
qed

lemma sample_menu_ok: "menu_ok sample_tables"
  by (simp add: menu_ok_def sample_tables_def price_ok_def sample_product_def sample_size_def sample_addon_def
      sample_restaurant_def sample_discount_def)

lemma sample_request_ok: "request_ok sample_dto"
  by (simp add: request_ok_def sample_dto_def)

lemma sample_orders_distinct: "distinct (map od_id (t_orders (w_db sample_world)))"
  by (simp add: sample_world_def sample_tables_def sample_order_def)

end
