(* ===== verification/Order_Properties.thy ===== *)
theory Order_Properties
  imports Order_Messages Sample_Runs
begin

text \<open>
  Properties of the order service, for every database client that behaves as documented, with
  their instances on the sample database.
\<close>

section \<open>Checkout\<close>

text \<open>Tenant isolation of a checkout: whatever a checkout under tenant \<open>t\<close> does, and also when it
  throws, every row of every other tenant, in every table, is exactly as before.\<close>

theorem createOrder_isolated:
  assumes "prisma_client P T" "t \<noteq> []"
  shows "preserves (\<lambda>w. other_tenants t (T (w_db w))) (createOrder P (tenant_ctx t) env dto t)"
  by (rule prisma_client.createOrder_others[OF assms])

theorem createOrder_isolated_witness:
  "t_orders (other_tenants ''t1'' (w_db (snd (createOrder mem_prisma (tenant_ctx ''t1'') sample_env sample_dto ''t1'' sample_world))))
     = [sample_order ''t2'' ''o2'' OrderStatus.PENDING]"
proof -
  have "preserves (\<lambda>w. other_tenants ''t1'' (w_db w)) (createOrder mem_prisma (tenant_ctx ''t1'') sample_env sample_dto ''t1'')"
    by (rule createOrder_isolated[OF mem.prisma_client_axioms]) simp
  then have "other_tenants ''t1'' (w_db (snd (createOrder mem_prisma (tenant_ctx ''t1'') sample_env sample_dto ''t1'' sample_world)))
     = other_tenants ''t1'' (w_db sample_world)" by (simp add: preserves_def)
  then show ?thesis by (simp add: other_tenants_def sample_world_def sample_tables_def sample_order_def)
qed

text \<open>C3. Atomicity of a checkout: when it throws, at whatever point, the database holds exactly the
  tables it held before (no order, no items, no kitchen ticket, no discount use).\<close>

theorem createOrder_all_or_nothing:
  assumes "prisma_client P T" "t \<noteq> []" "createOrder P (tenant_ctx t) env dto u w = (Inl e, w')"
  shows "T (w_db w') = T (w_db w)"
  by (rule prisma_client.createOrder_atomic[OF assms])

theorem createOrder_all_or_nothing_witness:
  "w_db (snd (createOrder mem_prisma (tenant_ctx ''t1'') sample_env bad_dto ''t1'' sample_world)) = sample_tables"
proof -
  obtain r w' where run: "createOrder mem_prisma (tenant_ctx ''t1'') sample_env bad_dto ''t1'' sample_world = (r, w')" by force
  then obtain e where "r = Inl e" using bad_checkout_throws by (cases r) auto
  with createOrder_all_or_nothing[OF mem.prisma_client_axioms _ run[unfolded \<open>r = Inl e\<close>]] run
  show ?thesis by (simp add: sample_world_def)
qed

text \<open>C4. What a checkout does: a checkout that returns has appended one pending order of the tenant with
  a fresh id, its items and one kitchen ticket; every line is priced from available products,
  variants, sizes and addons stored for that tenant and never from the request; the tax comes from
  the restaurant of the branch; the total is subtotal plus tax minus discount, rounded to cents;
  a discount code was a usable one of the tenant and its usage counter went up by one; and
  nothing else changed.\<close>

theorem createOrder_refines_checkout:
  assumes "prisma_client P T" "t \<noteq> []" "createOrder P (tenant_ctx t) env dto t w = (Inr (ord, its), w')"
  shows "checkout_effect env dto t (T (w_db w)) ord its (T (w_db w'))"
  by (rule prisma_client.createOrder_effect[OF assms])

theorem createOrder_refines_checkout_witness:
  "\<exists>ord its w'. createOrder mem_prisma (tenant_ctx ''t1'') sample_env sample_dto ''t1'' sample_world = (Inr (ord, its), w') \<and>
     checkout_effect sample_env sample_dto ''t1'' sample_tables ord its (w_db w')"
proof (rule sample_checkout)
  fix ord its w'
  assume run: "createOrder mem_prisma (tenant_ctx ''t1'') sample_env sample_dto ''t1'' sample_world = (Inr (ord, its), w')"
  from createOrder_refines_checkout[OF mem.prisma_client_axioms _ run] run show ?thesis
    by (auto simp: sample_world_def)
qed

text \<open>C5. The total of a checkout is never negative, although the discount is rounded to cents after it
  was capped at the subtotal: for prices of at most 1000 in whole cents and orders of at most 40
  lines of at most 100 pieces, the binary64 arithmetic of the code yields a finite total of at
  least zero.\<close>

theorem checkout_total_nonneg:
  assumes "prisma_client P T" "t \<noteq> []" "createOrder P (tenant_ctx t) env dto t w = (Inr (ord, its), w')"
    and "menu_ok (T (w_db w))" "request_ok dto"
  shows "\<exists>r. od_total ord = Fin r \<and> 0 \<le> r"
  by (rule checkout_effect_total[OF prisma_client.createOrder_effect[OF assms(1-3)] assms(4,5)])

theorem checkout_total_nonneg_witness:
  "\<exists>ord its w' r. createOrder mem_prisma (tenant_ctx ''t1'') sample_env sample_dto ''t1'' sample_world = (Inr (ord, its), w') \<and>
     od_total ord = Fin r \<and> 0 \<le> r"
proof (rule sample_checkout)
  fix ord its w'
  assume run: "createOrder mem_prisma (tenant_ctx ''t1'') sample_env sample_dto ''t1'' sample_world = (Inr (ord, its), w')"
  have "menu_ok (w_db sample_world)" using sample_menu_ok by (simp add: sample_world_def)
  from checkout_total_nonneg[OF mem.prisma_client_axioms _ run this sample_request_ok] run show ?thesis by auto
qed

text \<open>Notifications are best effort: whether a KDS gateway or a webhook service is wired, and whether
  the socket server accepts or throws, a checkout returns the same result and leaves the same
  database.\<close>

theorem checkout_ignores_notifications:
  assumes "prisma_client P T" "t \<noteq> []"
  shows "let e2 = env\<lparr>ev_kdsGateway := g, ev_webhookService := b\<rparr> in
         fst (createOrder P (tenant_ctx t) e2 dto u w) = fst (createOrder P (tenant_ctx t) env dto u w) \<and>
         w_db (snd (createOrder P (tenant_ctx t) e2 dto u w)) = w_db (snd (createOrder P (tenant_ctx t) env dto u w))"
proof -
  let ?e2 = "env\<lparr>ev_kdsGateway := g, ev_webhookService := b\<rparr>"
  have num: "orderNumberOf ?e2 = orderNumberOf env" by (simp add: orderNumberOf_def random_int_def)
  have now: "ev_now ?e2 = ev_now env" by simp
  have "checkoutTransaction P (tenant_ctx t) ?e2 dto u s tax its = checkoutTransaction P (tenant_ctx t) env dto u s tax its"
    for s tax its
    unfolding checkoutTransaction_def applyDiscount_def num now ..
  then have "(fst (createOrder P (tenant_ctx t) ?e2 dto u w), w_db (snd (createOrder P (tenant_ctx t) ?e2 dto u w))) =
        (fst (createOrder P (tenant_ctx t) env dto u w), w_db (snd (createOrder P (tenant_ctx t) env dto u w)))"
    unfolding prisma_client.createOrder_result[OF assms] by simp
  then show ?thesis by (simp add: Let_def)
qed

theorem checkout_ignores_notifications_witness:
  "fst (createOrder mem_prisma (tenant_ctx ''t1'') (sample_env\<lparr>ev_kdsGateway := Some \<lparr>gw_server = Some (\<lambda>_ _. False)\<rparr>,
      ev_webhookService := True\<rparr>) sample_dto ''t1'' sample_world) =
   fst (createOrder mem_prisma (tenant_ctx ''t1'') sample_env sample_dto ''t1'' sample_world)"
  using checkout_ignores_notifications[OF mem.prisma_client_axioms, where t = "''t1''" and env = sample_env and
      g = "Some \<lparr>gw_server = Some (\<lambda>_ _. False)\<rparr>" and b = True]
  by (simp add: Let_def)

text \<open>Room isolation of the order events: everything a checkout, a status update or a cancellation
  under a tenant emits goes to one room, that of this tenant and one branch.\<close>

theorem order_events_one_room:
  assumes "prisma_client P T" "t \<noteq> []"
  shows "sends_to t (co_branchId dto) (createOrder P (tenant_ctx t) env dto t) \<and>
         sends_tenant t (updateOrderStatus P (tenant_ctx t) env i st) \<and>
         sends_tenant t (cancelOrder P (tenant_ctx t) env i)"
  by (intro conjI createOrder_rooms prisma_client.updateOrderStatus_rooms[OF assms] prisma_client.cancelOrder_rooms[OF assms])

theorem order_events_one_room_witness:
  "\<exists>b ms. w_out (snd (cancelOrder mem_prisma (tenant_ctx ''t1'') sample_env ''o1'' sample_world)) = ms \<and> ms \<noteq> [] \<and>
     room_only ''t1'' b ms"
proof -
  let ?m = "cancelOrder mem_prisma (tenant_ctx ''t1'') sample_env ''o1''"
  have "sends_tenant ''t1'' ?m"
    using order_events_one_room[OF mem.prisma_client_axioms, of "''t1''"] by simp
  then obtain b ms where "w_out (snd (?m sample_world)) = w_out sample_world @ ms" "room_only ''t1'' b ms"
    unfolding sends_tenant_def by (metis prod.collapse)
  moreover have "w_out (snd (?m sample_world)) \<noteq> []" by code_simp
  ultimately show ?thesis by (auto simp: sample_world_def)
qed

section \<open>Discounts\<close>

text \<open>The discount engine: a code that is refused is refused with one and the same message, whether it
  is unknown, inactive, outside its period, used up or worth nothing; a discount that is granted is
  usable now and positive, and at most the subtotal rounded to cents.\<close>

theorem discount_validation:
  assumes "0 < s" "s \<le> 10 ^ 8" "\<And>d. disc = Some d \<Longrightarrow> d_value d \<le> 10 ^ 8 \<and> (d_type d = PERCENTAGE \<longrightarrow> d_value d \<le> 10 ^ 3)"
  shows "(case validateDiscount disc code (Fin s) now of
            Inl e \<Rightarrow> e = BadRequestException DISCOUNT_INVALID_MESSAGE
          | Inr r \<Rightarrow> (\<exists>d a. disc = Some d \<and> discount_usable d now \<and> rd_discountId r = d_id d \<and>
                       rd_amount r = Fin a \<and> 0 < a \<and> a \<le> fl (of_int (cents s) / 100)))"
proof (cases "validateDiscount disc code (Fin s) now")
  case (Inl e)
  then show ?thesis by (simp add: validateDiscount_Inl)
next
  case (Inr r)
  then obtain d where d: "disc = Some d" "discount_usable d now" "rd_discountId r = d_id d"
    "rd_amount r = computeDiscountAmount (Fin s) (d_type d) (d_value d)" "\<not> js_le (rd_amount r) (Fin 0)"
    by (auto simp: validateDiscount_Inr_iff)
  have v: "0 < d_value d" using d(4,5) computeDiscountAmount_zero[of s "d_value d" "d_type d"] by fastforce
  from computeDiscountAmount_bounds[OF assms(1,2) v, of "d_type d"] assms(3)[OF d(1)]
  obtain a where "rd_amount r = Fin a" "a \<le> fl (of_int (cents s) / 100)" using d(4) by auto
  then show ?thesis using Inr d by auto
qed

theorem discount_validation_witness:
  "validateDiscount None ''X'' (Fin 12) 0 = Inl (BadRequestException DISCOUNT_INVALID_MESSAGE) \<and>
   (case validateDiscount (Some sample_discount) ''TEN'' (Fin 12) 1000 of Inl _ \<Rightarrow> False | Inr r \<Rightarrow> rd_discountId r = ''d1'')"
proof
  show "validateDiscount None ''X'' (Fin 12) 0 = Inl (BadRequestException DISCOUNT_INVALID_MESSAGE)"
    using discount_validation[where s = 12 and disc = None and code = "''X''" and now = 0] by (simp add: validateDiscount_def)
  show "case validateDiscount (Some sample_discount) ''TEN'' (Fin 12) 1000 of Inl _ \<Rightarrow> False | Inr r \<Rightarrow> rd_discountId r = ''d1''"
    by code_simp
qed

section \<open>The life of an order\<close>

text \<open>C6. A status update that returns moved the order along one allowed edge of the state machine, wrote
  that one order, and added exactly one invoice, for this order and tenant, when the order was
  completed and none otherwise.\<close>

theorem updateOrderStatus_moves_along_edge:
  assumes "prisma_client P T" "t \<noteq> []" "distinct (map od_id (t_orders (T (w_db w))))"
    and "updateOrderStatus P (tenant_ctx t) env i st w = (Inr ord', w')"
  shows "\<exists>xs ord ys iv. t_orders (T (w_db w)) = xs @ ord # ys \<and> od_id ord = i \<and> od_tenantId ord = Some t \<and>
     st \<in> set (allowedTransitions (od_status ord)) \<and> ord' = set_order_status env st ord \<and>
     iv_orderId iv = i \<and> iv_tenantId iv = Some t \<and>
     T (w_db w') = (T (w_db w))\<lparr>t_orders := xs @ ord' # ys,
        t_invoices := t_invoices (T (w_db w)) @ (if st = OrderStatus.COMPLETED then [iv] else [])\<rparr>"
  by (rule prisma_client.updateOrderStatus_effect[OF assms])

theorem updateOrderStatus_moves_along_edge_witness:
  "\<exists>ord' w' iv. updateOrderStatus mem_prisma (tenant_ctx ''t1'') sample_env ''o1'' OrderStatus.COMPLETED sample_world = (Inr ord', w') \<and>
     t_invoices (w_db w') = [iv] \<and> iv_orderId iv = ''o1''"
proof -
  let ?m = "updateOrderStatus mem_prisma (tenant_ctx ''t1'') sample_env ''o1'' OrderStatus.COMPLETED"
  obtain r w' where run: "?m sample_world = (r, w')" by force
  have "case fst (?m sample_world) of Inl _ \<Rightarrow> False | Inr _ \<Rightarrow> True" by code_simp
  then obtain ord' where r: "r = Inr ord'" using run by (cases r) auto
  from updateOrderStatus_moves_along_edge[OF mem.prisma_client_axioms _ sample_orders_distinct run[unfolded r]]
  obtain xs ys iv where "iv_orderId iv = ''o1''"
    "w_db w' = (w_db sample_world)\<lparr>t_orders := xs @ ord' # ys, t_invoices := t_invoices (w_db sample_world) @ [iv]\<rparr>" by auto
  then show ?thesis using run r by (auto simp: sample_world_def sample_tables_def)
qed

text \<open>A transition that is not an edge of the state machine is refused with a bad request and leaves
  the whole state, database and messages, untouched.\<close>

theorem forbidden_transition_refused:
  assumes "prisma_client P T" "t \<noteq> []"
    and "findById (tenant_ctx t) order_model (extended (tenant_ctx t) order_model (px_order P)) i (w_db w) = (Inr (Some ord), d)"
    and "st \<notin> set (allowedTransitions (od_status ord))"
  shows "\<exists>msg. updateOrderStatus P (tenant_ctx t) env i st w = (Inl (BadRequestException msg), w)"
  by (rule prisma_client.updateOrderStatus_rejected[OF assms])

theorem forbidden_transition_refused_witness:
  "\<exists>msg. updateOrderStatus mem_prisma (tenant_ctx ''t1'') sample_env ''o1'' OrderStatus.PENDING sample_world
           = (Inl (BadRequestException msg), sample_world)"
proof (rule forbidden_transition_refused[OF mem.prisma_client_axioms])
  show "findById (tenant_ctx ''t1'') order_model (extended (tenant_ctx ''t1'') order_model (px_order mem_prisma)) ''o1'' (w_db sample_world)
      = (Inr (Some (sample_order ''t1'' ''o1'' OrderStatus.READY)), sample_tables)" by code_simp
qed (simp_all add: sample_order_def)



text \<open>Status updates, cancellations and guest checkouts under a tenant leave every row of every other
  tenant as it was, also when they throw.\<close>

theorem order_operations_isolated:
  assumes "prisma_client P T" "t \<noteq> []"
  shows "preserves (\<lambda>w. other_tenants t (T (w_db w))) (updateOrderStatus P (tenant_ctx t) env i st) \<and>
         preserves (\<lambda>w. other_tenants t (T (w_db w))) (cancelOrder P (tenant_ctx t) env i) \<and>
         preserves (\<lambda>w. other_tenants t (T (w_db w))) (createGuestOrder P env dto t)"
  by (intro conjI prisma_client.updateOrderStatus_others[OF assms] prisma_client.cancelOrder_others[OF assms]
      prisma_client.createGuestOrder_others[OF assms(1)])

theorem order_operations_isolated_witness:
  "t_orders (other_tenants ''t1'' (w_db (snd (cancelOrder mem_prisma (tenant_ctx ''t1'') sample_env ''o1'' sample_world)))) =
     [sample_order ''t2'' ''o2'' OrderStatus.PENDING]"
proof -
  have "preserves (\<lambda>w. other_tenants ''t1'' (w_db w)) (cancelOrder mem_prisma (tenant_ctx ''t1'') sample_env ''o1'')"
    using order_operations_isolated[OF mem.prisma_client_axioms, of "''t1''"] by simp
  then have "other_tenants ''t1'' (w_db (snd (cancelOrder mem_prisma (tenant_ctx ''t1'') sample_env ''o1'' sample_world)))
     = other_tenants ''t1'' (w_db sample_world)" by (simp add: preserves_def)
  then show ?thesis by (simp add: other_tenants_def sample_world_def sample_tables_def sample_order_def)
qed

text \<open>A status update that does not complete the order, and a cancellation, either take effect or leave
  the database as it was; a cancellation that takes effect was of an order that was not completed.\<close>

theorem status_changes_all_or_nothing:
  assumes "prisma_client P T" "t \<noteq> []"
  shows "(st \<noteq> OrderStatus.COMPLETED \<longrightarrow> fails_clean (\<lambda>w. T (w_db w)) (updateOrderStatus P (tenant_ctx t) env i st)) \<and>
         fails_clean (\<lambda>w. T (w_db w)) (cancelOrder P (tenant_ctx t) env i) \<and>
         (distinct (map od_id (t_orders (T (w_db w)))) \<and> cancelOrder P (tenant_ctx t) env i w = (Inr ord', w') \<longrightarrow>
            (\<exists>xs ord ys. t_orders (T (w_db w)) = xs @ ord # ys \<and> od_id ord = i \<and> od_tenantId ord = Some t \<and>
               od_status ord \<noteq> OrderStatus.COMPLETED \<and> ord' = set_order_status env OrderStatus.CANCELLED ord \<and>
               T (w_db w') = (T (w_db w))\<lparr>t_orders := xs @ ord' # ys\<rparr>))"
  using prisma_client.updateOrderStatus_clean[OF assms] prisma_client.cancelOrder_clean[OF assms]
    prisma_client.cancelOrder_effect[OF assms] by blast

theorem status_changes_all_or_nothing_witness:
  "fails_clean (\<lambda>w. w_db w) (updateOrderStatus mem_prisma (tenant_ctx ''t1'') sample_env ''o1'' OrderStatus.READY)"
  using status_changes_all_or_nothing[OF mem.prisma_client_axioms, of "''t1''" OrderStatus.READY] by simp

text \<open>C8. A guest checkout that returns was made with the QR code of a live table of the tenant, for the
  branch of that table, under a tenant that is neither unpaid nor cancelled, and the order it
  created is the checkout of the same request bound to that table.\<close>

theorem guest_order_bound_to_table:
  assumes "prisma_client P T" "createGuestOrder P env dto t w = (Inr (ord, its), w')"
  shows "\<exists>tb. tb \<in> set (t_diningTables (T (w_db w))) \<and> Some (tb_qrCodeToken tb) = co_qrCodeToken dto \<and>
     tb_tenantId tb = Some t \<and> tb_deletedAt tb = None \<and> co_branchId dto = tb_branchId tb \<and>
     (\<exists>st. fst (px_tenant_findUnique P t (w_db w)) = Inr st \<and> (\<forall>tn. st = Some tn \<longrightarrow> tn_status tn \<notin> {UNPAID, CANCELED})) \<and>
     checkout_effect env (dto\<lparr>co_tableId := Some (tb_id tb)\<rparr>) t (T (w_db w)) ord its (T (w_db w'))"
  by (rule prisma_client.createGuestOrder_InrE[OF assms]) blast

theorem guest_order_bound_to_table_witness:
  "\<exists>ord its w'. createGuestOrder mem_prisma sample_env guest_dto ''t1'' sample_world = (Inr (ord, its), w') \<and>
     od_tableId ord = Some ''tb1''"
proof (rule sample_guest_checkout)
  fix ord its w'
  assume run: "createGuestOrder mem_prisma sample_env guest_dto ''t1'' sample_world = (Inr (ord, its), w')"
  from guest_order_bound_to_table[OF mem.prisma_client_axioms run]
  have "od_tableId ord = Some ''tb1''"
    by (auto simp: sample_world_def sample_tables_def sample_table_def checkout_effect_def or_null_def)
  then show ?thesis using run by blast
qed

end
