(* ===== verification/Kds_Service.thy ===== *)
theory Kds_Service
  imports Order_Messages
begin

text \<open>
  \<^verbatim>\<open>apps/api/src/kds/kds.service.ts\<close>: the kitchen display. \<open>getTickets\<close> lists the active tickets of
  a branch and escalates the late ones, \<open>updateCookingStatus\<close> moves an order item along the cooking
  state machine and stamps its ticket. The theory shows that both stay within the tenant, what a
  listing returns and writes, and what an update writes.
\<close>

section \<open>Tickets\<close>

record kdsTicket =
  kt_ticketId :: string
  kt_orderId :: string
  kt_ticketNumber :: string
  kt_priority :: string
  kt_elapsedMinutes :: int
  kt_createdAt :: int
  kt_orderStatus :: OrderStatus
  kt_items :: "ticketItem list"

definition activeStatuses :: "OrderStatus list" where
  "activeStatuses = [OrderStatus.PENDING, OrderStatus.ACCEPTED, OrderStatus.PREPARING, OrderStatus.READY]"

definition elapsedMinutesOf :: "env \<Rightarrow> order \<Rightarrow> int" where
  "elapsedMinutesOf env ord = js_floor (js_div_const (num_of_int (ev_now env - od_createdAt ord)) 60000)"

text \<open>\<^verbatim>\<open>oi.product?.preparationTime || 15\<close>, and the maximum over the items and 15.\<close>

definition prepTimeOf :: "itemJoin \<Rightarrow> int" where
  "prepTimeOf j = (case ij_product j of None \<Rightarrow> 15
     | Some p \<Rightarrow> if pr_preparationTime p = 0 then 15 else pr_preparationTime p)"

definition maxPrepTime :: "itemJoin list \<Rightarrow> int" where
  "maxPrepTime js = fold max (map prepTimeOf js) 15"

definition computedPriority :: "env \<Rightarrow> ticketJoin \<Rightarrow> string" where
  "computedPriority env k =
     (if elapsedMinutesOf env (tj_order k) > maxPrepTime (tj_items k) then ''RUSH'' else ''NORMAL'')"

text \<open>The escalation of one ticket: its failure is logged and swallowed.\<close>

definition escalateTicket ::
  "'d prisma \<Rightarrow> env \<Rightarrow> string \<Rightarrow> string \<Rightarrow> ticketJoin \<Rightarrow> ('d world, unit) prog" where
  "escalateTicket P env branchId tenantId k =
     (let kq = tj_queue k in
      if computedPriority env k = ''RUSH'' \<and> kq_priority kq \<noteq> ''RUSH'' then
        try_catch
          (andThen (liftDb (repo_update (tenant_ctx tenantId) kitchenQueue_model
                      (extended (tenant_ctx tenantId) kitchenQueue_model (px_kitchenQueue P)) (kq_id kq)
                      (\<lambda>r. r\<lparr>kq_priority := ''RUSH''\<rparr>)))
            (\<lambda>_. case ev_kdsGateway env of
                    None \<Rightarrow> return ()
                  | Some g \<Rightarrow> emitTicketPriorityChanged env g tenantId branchId (kq_id kq) (kq_priority kq) ''RUSH''))
          (\<lambda>err. return ())
      else return ())"

definition ticketOf :: "env \<Rightarrow> ticketJoin \<Rightarrow> kdsTicket" where
  "ticketOf env k = \<lparr>kt_ticketId = kq_id (tj_queue k), kt_orderId = od_id (tj_order k),
     kt_ticketNumber = kq_ticketNumber (tj_queue k), kt_priority = computedPriority env k,
     kt_elapsedMinutes = elapsedMinutesOf env (tj_order k), kt_createdAt = od_createdAt (tj_order k),
     kt_orderStatus = od_status (tj_order k), kt_items = map ticketItemOf (tj_items k)\<rparr>"

text \<open>\<^verbatim>\<open>Promise.all\<close> over the tickets: each task touches its own row, here run in the order of the array.\<close>

definition getTickets :: "'d prisma \<Rightarrow> env \<Rightarrow> string \<Rightarrow> string \<Rightarrow> ('d world, kdsTicket list) prog" where
  "getTickets P env branchId tenantId =
     (let c = tenant_ctx tenantId in
      andThen (liftDb (findById c branch_model (extended c branch_model (px_branch P)) branchId)) (\<lambda>branch.
      case branch of
        None \<Rightarrow> throw (NotFoundException (''Branch with ID ['' @ branchId @
                  ''] not found or inaccessible under tenant context.''))
      | Some _ \<Rightarrow>
      andThen (liftDb (allOperations c kitchenQueue_model ''findMany''
                 (w_args [(''tenantId'', Is (CStr tenantId)), (''branchId'', Is (CStr branchId))])
                 (\<lambda>a. px_kitchenQueue_findManyJoined P (a_where a) activeStatuses))) (\<lambda>kitchenQueues.
      foldProg (\<lambda>k acc. andThen (escalateTicket P env branchId tenantId k) (\<lambda>_. return (acc @ [ticketOf env k])))
        kitchenQueues [])))"

section \<open>Cooking status\<close>

fun show_cooking :: "CookingStatus \<Rightarrow> string" where
  "show_cooking CookingStatus.PENDING = ''PENDING''"
| "show_cooking CookingStatus.PREPARING = ''PREPARING''"
| "show_cooking CookingStatus.COOKED = ''COOKED''"
| "show_cooking CookingStatus.SERVED = ''SERVED''"

text \<open>The value of the enum a request names, if it names one.\<close>

definition cooking_of :: "string \<Rightarrow> CookingStatus option" where
  "cooking_of s = List.find (\<lambda>c. show_cooking c = s)
     [CookingStatus.PENDING, CookingStatus.PREPARING, CookingStatus.COOKED, CookingStatus.SERVED]"

fun allowedCooking :: "CookingStatus \<Rightarrow> CookingStatus list" where
  "allowedCooking CookingStatus.PENDING = [CookingStatus.PREPARING, CookingStatus.COOKED, CookingStatus.SERVED]"
| "allowedCooking CookingStatus.PREPARING = [CookingStatus.COOKED, CookingStatus.SERVED]"
| "allowedCooking CookingStatus.COOKED = [CookingStatus.SERVED]"
| "allowedCooking CookingStatus.SERVED = []"

definition validateCookingTransition :: "CookingStatus \<Rightarrow> CookingStatus \<Rightarrow> exn + unit" where
  "validateCookingTransition current nxt =
     (let routes = allowedCooking current in
      if current = nxt then Inr ()
      else if nxt \<notin> set routes
      then Inl (BadRequestException (''Forbidden cooking transition: Cannot move from ['' @ show_cooking current @
             ''] to ['' @ show_cooking nxt @ '']. Allowed: ['' @ join_with '', '' (map show_cooking routes) @ '']''))
      else Inr ())"

text \<open>The fields a status change stamps on the ticket; \<open>None\<close> when there is nothing to write.\<close>

definition ticketStamp :: "env \<Rightarrow> CookingStatus \<Rightarrow> kitchenQueue \<Rightarrow> (kitchenQueue \<Rightarrow> kitchenQueue) option" where
  "ticketStamp env status kq =
     (let started = (status = CookingStatus.PREPARING \<and> kq_startedCookingAt kq = None);
          completed = (status = CookingStatus.COOKED \<or> status = CookingStatus.SERVED) in
      if started then Some (\<lambda>r. r\<lparr>kq_startedCookingAt := Some (ev_now env)\<rparr>)
      else if completed then Some (\<lambda>r. r\<lparr>kq_completedCookingAt := Some (ev_now env)\<rparr>)
      else None)"

definition updateKitchenQueueTimestamps ::
  "'d prisma \<Rightarrow> env \<Rightarrow> string \<Rightarrow> CookingStatus \<Rightarrow> string \<Rightarrow> ('d, unit) prog" where
  "updateKitchenQueueTimestamps P env orderId status tenantId =
     (let c = tenant_ctx tenantId; E = extended c kitchenQueue_model (px_kitchenQueue P) in
      try_catch
        (andThen (dg_findFirst E [(''orderId'', Is (CStr orderId)), (''tenantId'', Is (CStr tenantId))])
          (\<lambda>kitchenQueue. case kitchenQueue of
             None \<Rightarrow> return ()
           | Some kq \<Rightarrow>
               (case ticketStamp env status kq of
                  None \<Rightarrow> return ()
                | Some f \<Rightarrow> andThen (repo_update c kitchenQueue_model E (kq_id kq) f) (\<lambda>_. return ()))))
        (\<lambda>err. return ()))"

definition broadcastItemUpdated ::
  "env \<Rightarrow> order \<Rightarrow> orderItem \<Rightarrow> CookingStatus \<Rightarrow> ('d world, unit) prog" where
  "broadcastItemUpdated env parentOrder updatedItem status =
     try_catch
       (case ev_kdsGateway env of
          None \<Rightarrow> return ()
        | Some g \<Rightarrow>
            andThen (broadcastOrderEvent env g (or_else (od_tenantId parentOrder) []) (od_branchId parentOrder)
                       ''ticket.item_updated''
                       (ItemUpdated (od_id parentOrder) (oi_id updatedItem) (oi_cookingStatus updatedItem) (ev_now env)))
              (\<lambda>_. broadcastOrderEvent env g (or_else (od_tenantId parentOrder) []) (od_branchId parentOrder)
                       ''order.item_updated''
                       (ItemUpdatedLegacy (od_id parentOrder) (oi_id updatedItem) status (oi_cookingStatus updatedItem))))
       (\<lambda>err. return ())"

record cookingUpdate =
  ck_orderItemId :: string
  ck_cookingStatus :: CookingStatus
  ck_updatedAt :: int

definition updateCookingStatus ::
  "'d prisma \<Rightarrow> env \<Rightarrow> string \<Rightarrow> string \<Rightarrow> string \<Rightarrow> ('d world, cookingUpdate) prog" where
  "updateCookingStatus P env orderItemId statusText tenantId =
     (let c = tenant_ctx tenantId; E = extended c orderItem_model (px_orderItem P) in
      case cooking_of statusText of
        None \<Rightarrow> throw (BadRequestException (''Invalid cooking status ['' @ statusText @ ''].''))
      | Some status \<Rightarrow>
      andThen (liftDb (findById c orderItem_model E orderItemId)) (\<lambda>found.
      case found of
        None \<Rightarrow> throw (NotFoundException (''Order item with ID ['' @ orderItemId @ ''] not found.''))
      | Some orderItem \<Rightarrow>
      andThen (of_result (validateCookingTransition (oi_cookingStatus orderItem) status)) (\<lambda>_.
      andThen (liftDb (repo_update c orderItem_model E orderItemId (\<lambda>r. r\<lparr>oi_cookingStatus := status\<rparr>))) (\<lambda>updatedItem.
      andThen (liftDb (dg_findFirst (extended c order_model (px_order P))
                 [(''id'', Is (CStr (oi_orderId orderItem))), (''tenantId'', Is (CStr tenantId))])) (\<lambda>parentOrder.
      andThen (case parentOrder of
                 None \<Rightarrow> return ()
               | Some po \<Rightarrow>
                   andThen (liftDb (updateKitchenQueueTimestamps P env (od_id po) status tenantId)) (\<lambda>_.
                   broadcastItemUpdated env po updatedItem status)) (\<lambda>_.
      return \<lparr>ck_orderItemId = oi_id updatedItem, ck_cookingStatus = oi_cookingStatus updatedItem,
              ck_updatedAt = ev_now env\<rparr>))))))"

section \<open>The clock and the priority\<close>

lemma elapsedMinutesOf_exact:
  assumes "od_createdAt ord \<le> ev_now env" "ev_now env - od_createdAt ord < 2 ^ 53"
  shows "elapsedMinutesOf env ord = (ev_now env - od_createdAt ord) div 60000"
  using floor_quotient[of "ev_now env - od_createdAt ord" 60000] assms by (simp add: elapsedMinutesOf_def)

lemma fold_max_less_iff: "fold max xs (a::int) < b \<longleftrightarrow> a < b \<and> (\<forall>x \<in> set xs. x < b)"
  by (induction xs arbitrary: a) auto

lemma computedPriority_RUSH_iff:
  "computedPriority env k = ''RUSH'' \<longleftrightarrow>
     15 < elapsedMinutesOf env (tj_order k) \<and> (\<forall>j \<in> set (tj_items k). prepTimeOf j < elapsedMinutesOf env (tj_order k))"
  by (auto simp: computedPriority_def maxPrepTime_def fold_max_less_iff)

section \<open>What a listing changes\<close>

text \<open>Only priorities of tickets of the tenant, and only to \<^verbatim>\<open>RUSH\<close>.\<close>

definition escalated :: "string \<Rightarrow> tables \<Rightarrow> tables \<Rightarrow> bool" where
  "escalated t X X' \<longleftrightarrow> (\<exists>qs. X' = X\<lparr>t_kitchenQueues := qs\<rparr> \<and>
     list_all2 (\<lambda>q q'. q' = q \<or> kq_tenantId q = Some t \<and> q' = q\<lparr>kq_priority := ''RUSH''\<rparr>) (t_kitchenQueues X) qs)"

lemma escalated_refl: "escalated t X X"
  unfolding escalated_def by (intro exI[of _ "t_kitchenQueues X"]) (simp add: list.rel_refl)

lemma escalated_trans:
  assumes "escalated t X Y" "escalated t Y Z" shows "escalated t X Z"
proof -
  let ?r = "\<lambda>q q'. q' = q \<or> kq_tenantId q = Some t \<and> q' = q\<lparr>kq_priority := ''RUSH''\<rparr>"
  obtain qs where qs: "Y = X\<lparr>t_kitchenQueues := qs\<rparr>" "list_all2 ?r (t_kitchenQueues X) qs"
    using assms(1) unfolding escalated_def by blast
  obtain rs where rs: "Z = Y\<lparr>t_kitchenQueues := rs\<rparr>" "list_all2 ?r qs rs"
    using assms(2) qs(1) unfolding escalated_def by auto
  have "list_all2 ?r (t_kitchenQueues X) rs"
    by (rule list_all2_trans[OF _ qs(2) rs(2)]) auto
  then show ?thesis using qs(1) rs(1) unfolding escalated_def by (intro exI[of _ rs]) simp
qed

interpretation escalation: change "escalated t" for t
  by unfold_locales (rule escalated_refl, erule (1) escalated_trans)

sublocale prisma_client \<subseteq> tickets: change "\<lambda>w w'. escalated t (T (w_db w)) (T (w_db w'))" for t
  by unfold_locales (auto intro: escalated_refl escalated_trans)

context prisma_client
begin

lemma quiet_db: "preserves w_db m \<Longrightarrow> along (\<lambda>w w'. escalated t (T (w_db w)) (T (w_db w'))) m"
  by (simp add: preserves_def along_def escalated_refl)

lemma kitchenQueue_update_escalated:
  assumes "t \<noteq> []"
  shows "along (\<lambda>d d'. escalated t (T d) (T d')) (repo_update (tenant_ctx t) kitchenQueue_model
           (extended (tenant_ctx t) kitchenQueue_model (px_kitchenQueue P)) i (\<lambda>r. r\<lparr>kq_priority := ''RUSH''\<rparr>))"
proof (rule alongI)
  fix d r d'
  assume "repo_update (tenant_ctx t) kitchenQueue_model (extended (tenant_ctx t) kitchenQueue_model (px_kitchenQueue P)) i
            (\<lambda>r. r\<lparr>kq_priority := ''RUSH''\<rparr>) d = (r, d')"
  from kitchenQueues.update_rows[OF assms this]
  have rows: "list_all2 (\<lambda>q q'. q' = q \<or> kq_tenantId q = Some t \<and> q' = q\<lparr>kq_priority := ''RUSH''\<rparr>)
      (t_kitchenQueues (T d)) (t_kitchenQueues (T d'))" and "(T d')\<lparr>t_kitchenQueues := []\<rparr> = (T d)\<lparr>t_kitchenQueues := []\<rparr>"
    by (auto elim: list.rel_mono_strong)
  then show "escalated t (T d) (T d')" unfolding escalated_def using kitchenQueues_only by blast
qed

lemma broadcast_quiet: "preserves w_db (broadcastOrderEvent env g t b ev p)"
  by (rule broadcast_db[of "\<lambda>d. d"])

lemma escalateTicket_along:
  "t \<noteq> [] \<Longrightarrow> along (\<lambda>w w'. escalated t (T (w_db w)) (T (w_db w'))) (escalateTicket P env b t k)"
  unfolding escalateTicket_def Let_def emitTicketPriorityChanged_def
  by (intro tickets.along_intros along_liftDb kitchenQueue_update_escalated quiet_db broadcast_quiet)

lemma escalateTicket_never_fails: "never_fails (escalateTicket P env b t k)"
  by (simp add: escalateTicket_def Let_def never_fails_if never_fails_try never_fails_return)

text \<open>The query of the listing, under the extension.\<close>

lemma ticket_query:
  "t \<noteq> [] \<Longrightarrow> allOperations (tenant_ctx t) kitchenQueue_model ''findMany''
       (w_args [(''tenantId'', Is (CStr t)), (''branchId'', Is (CStr b))])
       (\<lambda>a. px_kitchenQueue_findManyJoined P (a_where a) ss) =
   px_kitchenQueue_findManyJoined P [(''tenantId'', Is (CStr t)), (''branchId'', Is (CStr b))] ss"
  by (simp add: allOperations_scoped scopedOperations_def w_args_def)

lemma sat_ticket:
  "sat kitchenQueue_model [(''tenantId'', Is (CStr t)), (''branchId'', Is (CStr b))] q \<longleftrightarrow>
     kq_tenantId q = Some t \<and> kq_branchId q = b"
  by (auto simp: sat_def kitchenQueue_model_def kitchenQueue_col_def opt_cell_def split: option.splits)

lemma foldTickets:
  "foldProg (\<lambda>k acc. andThen (escalateTicket P env b t k) (\<lambda>_. return (acc @ [ticketOf env k]))) ks acc w = (r, w') \<Longrightarrow>
   r = Inr (acc @ map (ticketOf env) ks)"
proof (induction ks arbitrary: acc w)
  case Nil
  then show ?case by (simp add: return_apply)
next
  case (Cons k ks)
  obtain w1 where "escalateTicket P env b t k w = (Inr (), w1)"
    using escalateTicket_never_fails[of env b t k] unfolding never_fails_def by (metis old.unit.exhaust)
  then show ?case using Cons.IH[of "acc @ [ticketOf env k]" w1] Cons.prems by (simp add: andThen_def return_apply)
qed

lemma getTickets_along:
  assumes "t \<noteq> []"
  shows "along (\<lambda>w w'. escalated t (T (w_db w)) (T (w_db w'))) (getTickets P env b t)"
  unfolding getTickets_def Let_def ticket_query[OF assms]
  by (intro tickets.along_intros escalateTicket_along assms quiet_db preserves_liftDb branches.repo_reads_preserve join_reads)

lemma getTickets_Inr:
  assumes t: "t \<noteq> []" and run: "getTickets P env b t w = (Inr ts, w')"
  shows "\<exists>ks. ts = map (ticketOf env) ks \<and> sorted (map kt_createdAt ts) \<and>
     (\<forall>k \<in> set ks. tj_queue k \<in> set (t_kitchenQueues (T (w_db w))) \<and> kq_tenantId (tj_queue k) = Some t \<and>
        kq_branchId (tj_queue k) = b \<and> tj_order k \<in> set (t_orders (T (w_db w))) \<and>
        od_id (tj_order k) = kq_orderId (tj_queue k) \<and> od_status (tj_order k) \<in> set activeStatuses)"
proof -
  let ?w = "[(''tenantId'', Is (CStr t)), (''branchId'', Is (CStr b))]"
  let ?E = "extended (tenant_ctx t) branch_model (px_branch P)"
  obtain br w1 ks w2 where
    f: "liftDb (findById (tenant_ctx t) branch_model ?E b) w = (Inr br, w1)"
    and q: "liftDb (px_kitchenQueue_findManyJoined P ?w activeStatuses) w1 = (Inr ks, w2)"
    and loop: "foldProg (\<lambda>k acc. andThen (escalateTicket P env b t k) (\<lambda>_. return (acc @ [ticketOf env k]))) ks [] w2 = (Inr ts, w')"
    using run unfolding getTickets_def Let_def ticket_query[OF t]
    by (elim andThen_InrE option_throw_InrE) auto
  have w1: "w_db w1 = w_db w"
    using preservesD[OF preserves_liftDb[OF branches.repo_reads_preserve(1)[OF t, of "\<lambda>d. d"]] f] by simp
  have res: "fst (px_kitchenQueue_findManyJoined P ?w activeStatuses (w_db w)) = Inr ks"
    using q w1 by (auto elim!: liftDb_InrE)
  have ts: "ts = map (ticketOf env) ks" using foldTickets[OF loop] by simp
  have "map kt_createdAt ts = map (\<lambda>j. od_createdAt (tj_order j)) ks" by (simp add: ts ticketOf_def)
  then have "sorted (map kt_createdAt ts)" using ticketJoin_sorted[OF res] by simp
  then show ?thesis using ts ticketJoin_sound[OF res] by (intro exI[of _ ks]) (simp add: sat_ticket)
qed

lemma getTickets_others:
  "t \<noteq> [] \<Longrightarrow> preserves (\<lambda>w. other_tenants t (T (w_db w))) (getTickets P env b t)"
  by (auto simp: getTickets_def escalateTicket_def emitTicketPriorityChanged_def Let_def ticket_query
      intro!: preserves_intros repo_reads join_reads table_writes broadcast_db)

lemma getTickets_rooms: "sends_to t b (getTickets P env b t)"
  by (auto simp: getTickets_def escalateTicket_def emitTicketPriorityChanged_def Let_def intro!: sends_intros)

end

section \<open>The cooking state machine\<close>

text \<open>The stages of an item in the kitchen are linearly ordered.\<close>

fun cooking_rank :: "CookingStatus \<Rightarrow> nat" where
  "cooking_rank CookingStatus.PENDING = 0"
| "cooking_rank CookingStatus.PREPARING = 1"
| "cooking_rank CookingStatus.COOKED = 2"
| "cooking_rank CookingStatus.SERVED = 3"

lemma cooking_rank_inj: "cooking_rank a = cooking_rank b \<Longrightarrow> a = b"
  by (cases a; cases b) auto

instantiation CookingStatus :: linorder
begin

definition less_eq_CookingStatus :: "CookingStatus \<Rightarrow> CookingStatus \<Rightarrow> bool" where
  "less_eq_CookingStatus a b \<longleftrightarrow> cooking_rank a \<le> cooking_rank b"

definition less_CookingStatus :: "CookingStatus \<Rightarrow> CookingStatus \<Rightarrow> bool" where
  "less_CookingStatus a b \<longleftrightarrow> cooking_rank a < cooking_rank b"

instance
  by standard (auto simp: less_eq_CookingStatus_def less_CookingStatus_def dest: cooking_rank_inj)

end

text \<open>A transition is accepted exactly when it does not go back.\<close>

lemma validateCookingTransition_iff: "validateCookingTransition a b = Inr u \<longleftrightarrow> a \<le> b"
  by (cases a; cases b) (auto simp: validateCookingTransition_def less_eq_CookingStatus_def)

lemma validateCookingTransition_Inl:
  "\<not> a \<le> b \<Longrightarrow> \<exists>msg. validateCookingTransition a b = Inl (BadRequestException msg)"
  using validateCookingTransition_iff[of a b "()"]
  by (auto simp: validateCookingTransition_def Let_def split: if_splits)

lemma cooking_of_show: "cooking_of s = Some c \<longleftrightarrow> s = show_cooking c"
  by (cases c) (auto simp: cooking_of_def)

section \<open>What a status change writes\<close>

text \<open>A ticket after its order's item changed to \<open>st\<close>: the start is stamped once, the completion each time.\<close>

definition stamped :: "env \<Rightarrow> string \<Rightarrow> string \<Rightarrow> CookingStatus \<Rightarrow> kitchenQueue \<Rightarrow> kitchenQueue \<Rightarrow> bool" where
  "stamped env t orderId st q q' \<longleftrightarrow> q' = q \<or>
     kq_tenantId q = Some t \<and> kq_orderId q = orderId \<and>
     (st = CookingStatus.PREPARING \<and> kq_startedCookingAt q = None \<and> q' = q\<lparr>kq_startedCookingAt := Some (ev_now env)\<rparr> \<or>
      CookingStatus.COOKED \<le> st \<and> q' = q\<lparr>kq_completedCookingAt := Some (ev_now env)\<rparr>)"

lemma stamped_same [simp]: "stamped env t i st q q"
  by (simp add: stamped_def)

lemma ticketStamp_stamped:
  "ticketStamp env st q = Some f \<Longrightarrow> kq_tenantId q = Some t \<Longrightarrow> stamped env t (kq_orderId q) st q (f q)"
  by (auto simp: ticketStamp_def stamped_def less_eq_CookingStatus_def Let_def split: if_splits)

lemma ticketStamp_tenant: "ticketStamp env st q = Some f \<Longrightarrow> kq_tenantId (f r) = kq_tenantId r"
  by (auto simp: ticketStamp_def Let_def split: if_splits)

lemma sat_order_tenant:
  "sat kitchenQueue_model [(''orderId'', Is (CStr i)), (''tenantId'', Is (CStr t))] q \<longleftrightarrow>
     kq_orderId q = i \<and> kq_tenantId q = Some t"
  "sat order_model [(''id'', Is (CStr i)), (''tenantId'', Is (CStr t))] ord \<longleftrightarrow>
     od_id ord = i \<and> od_tenantId ord = Some t"
  by (auto simp: sat_def kitchenQueue_model_def kitchenQueue_col_def order_model_def order_col_def opt_cell_def
      split: option.splits)

context prisma_client
begin

lemma updateKitchenQueueTimestamps_rows:
  assumes t: "t \<noteq> []" and uniq: "distinct (map kq_id (t_kitchenQueues (T d)))"
    and run: "updateKitchenQueueTimestamps P env i st t d = (r, d')"
  shows "r = Inr () \<and> (T d')\<lparr>t_kitchenQueues := []\<rparr> = (T d)\<lparr>t_kitchenQueues := []\<rparr> \<and>
         list_all2 (stamped env t i st) (t_kitchenQueues (T d)) (t_kitchenQueues (T d'))"
proof -
  let ?E = "extended (tenant_ctx t) kitchenQueue_model (px_kitchenQueue P)"
  let ?w = "[(''orderId'', Is (CStr i)), (''tenantId'', Is (CStr t))]"
  obtain x d1 where find: "dg_findFirst ?E ?w d = (x, d1)" by force
  have look: "dg_findFirst (px_kitchenQueue P) ?w d = (x, d1)" using find by (simp add: kitchenQueues.ext_findFirst t)
  have d1: "d1 = d" using kitchenQueues.findFirst_state[of ?w d] look by simp
  consider (stop) "d' = d" "r = Inr ()"
    | (stamp) kq f y where "x = Inr (Some kq)" "ticketStamp env st kq = Some f"
        "repo_update (tenant_ctx t) kitchenQueue_model ?E (kq_id kq) f d = (y, d')" "r = Inr ()"
    using run find d1
    by (auto simp: updateKitchenQueueTimestamps_def Let_def try_catch_def andThen_def return_apply
        split: sum.splits option.splits prod.splits)
  then show ?thesis
  proof cases
    case stop
    then show ?thesis by (simp add: list.rel_refl)
  next
    case (stamp kq f y)
    have kq: "kq \<in> set (t_kitchenQueues (T d))" "kq_orderId kq = i" "kq_tenantId kq = Some t"
      using kitchenQueues.findFirst_eqD[OF look[unfolded stamp(1)]] by (auto simp: sat_order_tenant)
    note upd = kitchenQueues.update_rows[OF t stamp(3)]
    have "stamped env t i st q q'" if "q \<in> set (t_kitchenQueues (T d))"
      "q' = q \<or> kq_tenantId q = Some t \<and> kq_id q = kq_id kq \<and> q' = f q" for q q'
      using that kitchenQueues.unique_row[of "t_kitchenQueues (T d)" q kq] uniq kq ticketStamp_stamped[OF stamp(2) kq(3)]
      by auto
    then show ?thesis using upd stamp(4) by (auto elim!: list.rel_mono_strong)
  qed
qed

lemma updateKitchenQueueTimestamps_others:
  "t \<noteq> [] \<Longrightarrow> preserves (\<lambda>d. other_tenants t (T d)) (updateKitchenQueueTimestamps P env i st t)"
  by (auto simp: updateKitchenQueueTimestamps_def Let_def ticketStamp_tenant
      intro!: preserves_intros repo_reads table_writes)

lemma broadcastItemUpdated_db: "preserves (\<lambda>w. f (w_db w)) (broadcastItemUpdated env po it st)"
  by (auto simp: broadcastItemUpdated_def intro!: preserves_intros broadcast_db)

lemma updateCookingStatus_others:
  "t \<noteq> [] \<Longrightarrow> preserves (\<lambda>w. other_tenants t (T (w_db w))) (updateCookingStatus P env i st t)"
  by (auto simp: updateCookingStatus_def Let_def
      intro!: preserves_intros repo_reads table_writes updateKitchenQueueTimestamps_others broadcastItemUpdated_db)

lemma updateCookingStatus_InrE:
  assumes t: "t \<noteq> []" and run: "updateCookingStatus P env i txt t w = (Inr u, w')"
  obtains st it upd d1 po w2 where "txt = show_cooking st" "it \<in> set (t_orderItems (T (w_db w)))" "oi_id it = i"
    "oi_tenantId it = Some t" "oi_cookingStatus it \<le> st"
    "repo_update (tenant_ctx t) orderItem_model (extended (tenant_ctx t) orderItem_model (px_orderItem P)) i
       (\<lambda>r. r\<lparr>oi_cookingStatus := st\<rparr>) (w_db w) = (Inr upd, d1)"
    "w_db w2 = d1" "(case po of None \<Rightarrow> return ()
               | Some po \<Rightarrow>
                   andThen (liftDb (updateKitchenQueueTimestamps P env (od_id po) st t)) (\<lambda>_.
                   broadcastItemUpdated env po upd st)) w2 = (Inr (), w')"
    "\<forall>x. po = Some x \<longrightarrow> od_id x = oi_orderId it"
    "u = \<lparr>ck_orderItemId = oi_id upd, ck_cookingStatus = oi_cookingStatus upd, ck_updatedAt = ev_now env\<rparr>"
proof -
  let ?c = "tenant_ctx t" and ?f = "\<lambda>st r. r\<lparr>oi_cookingStatus := st\<rparr>"
  let ?E = "extended ?c orderItem_model (px_orderItem P)"
  let ?w = "\<lambda>it. [(''id'', Is (CStr (oi_orderId it))), (''tenantId'', Is (CStr t))]"
  obtain st it w1 upd w2 po w3 where c: "cooking_of txt = Some st"
    and f: "liftDb (findById ?c orderItem_model ?E i) w = (Inr (Some it), w1)"
    and v: "validateCookingTransition (oi_cookingStatus it) st = Inr ()"
    and up: "liftDb (repo_update ?c orderItem_model ?E i (?f st)) w1 = (Inr upd, w2)"
    and o: "liftDb (dg_findFirst (extended ?c order_model (px_order P)) (?w it)) w2 = (Inr po, w3)"
    and k: "(case po of None \<Rightarrow> return () | Some po \<Rightarrow> andThen (liftDb (updateKitchenQueueTimestamps P env (od_id po) st t)) (\<lambda>_.
                   broadcastItemUpdated env po upd st)) w3 = (Inr (), w')"
    and u: "u = \<lparr>ck_orderItemId = oi_id upd, ck_cookingStatus = oi_cookingStatus upd, ck_updatedAt = ev_now env\<rparr>"
    using run unfolding updateCookingStatus_def Let_def
    by (elim option_throw_InrE andThen_InrE of_result_InrE return_InrE) auto
  obtain d where d: "findById ?c orderItem_model ?E i (w_db w) = (Inr (Some it), d)" "w1 = w\<lparr>w_db := d\<rparr>"
    using f by (rule liftDb_InrE)
  note it = orderItems.findById_Some[OF t d(1)]
  obtain d1 where d1: "repo_update ?c orderItem_model ?E i (?f st) (w_db w) = (Inr upd, d1)" "w_db w2 = d1"
    using up d(2) it by (auto elim!: liftDb_InrE)
  have o': "fst (dg_findFirst (px_order P) (?w it) (w_db w2)) = Inr po" "w_db w3 = w_db w2"
    using o orders.findFirst_state[of "?w it" "w_db w2"] by (auto simp: orders.ext_findFirst t elim!: liftDb_InrE)
  have "\<forall>x. po = Some x \<longrightarrow> od_id x = oi_orderId it"
    using o'(1) orders.findFirst_Some[of "?w it" "w_db w2"] by (auto simp: sat_order_tenant)
  then show thesis
    using that[of st it upd d1 w3 po] c v it d1 o'(2) k u by (simp add: cooking_of_show validateCookingTransition_iff)
qed

lemma updateCookingStatus_effect:
  assumes t: "t \<noteq> []" and uniq: "distinct (map oi_id (t_orderItems (T (w_db w))))" "distinct (map kq_id (t_kitchenQueues (T (w_db w))))"
    and run: "updateCookingStatus P env i txt t w = (Inr u, w')"
  shows "\<exists>xs it ys st qs. t_orderItems (T (w_db w)) = xs @ it # ys \<and> oi_id it = i \<and> oi_tenantId it = Some t \<and>
     txt = show_cooking st \<and> oi_cookingStatus it \<le> st \<and> ck_cookingStatus u = st \<and>
     list_all2 (stamped env t (oi_orderId it) st) (t_kitchenQueues (T (w_db w))) qs \<and>
     T (w_db w') = (T (w_db w))\<lparr>t_orderItems := xs @ it\<lparr>oi_cookingStatus := st\<rparr> # ys, t_kitchenQueues := qs\<rparr>"
  using t run
proof (cases rule: updateCookingStatus_InrE)
  case (1 st it upd d1 po w2)
  let ?X = "T (w_db w)"
  obtain xs x ys where x: "t_orderItems ?X = xs @ x # ys" "oi_id x = i" "upd = x\<lparr>oi_cookingStatus := st\<rparr>"
    "t_orderItems (T d1) = xs @ upd # ys" "(T d1)\<lparr>t_orderItems := []\<rparr> = ?X\<lparr>t_orderItems := []\<rparr>"
    using orderItems.update_row[OF t 1(6)] by auto
  have "x = it" using orderItems.unique_row[of "t_orderItems ?X" x it] uniq(1) x(1,2) 1(2,3) by simp
  note x = x[unfolded this]
  have T1: "T d1 = ?X\<lparr>t_orderItems := xs @ upd # ys\<rparr>" using orderItems_only[OF x(5)] x(4) by simp
  have "\<exists>qs. list_all2 (stamped env t (oi_orderId it) st) (t_kitchenQueues ?X) qs \<and> T (w_db w') = (T d1)\<lparr>t_kitchenQueues := qs\<rparr>"
  proof (cases po)
    case None
    then have "w' = w2" using 1(8) by (simp add: return_apply)
    then show ?thesis using 1(7) T1 by (intro exI[of _ "t_kitchenQueues ?X"]) (simp add: list.rel_refl)
  next
    case (Some p)
    then obtain w4 where s: "liftDb (updateKitchenQueueTimestamps P env (od_id p) st t) w2 = (Inr (), w4)"
      and b: "broadcastItemUpdated env p upd st w4 = (Inr (), w')" using 1(8) by (auto elim!: andThen_InrE)
    have w': "w_db w' = w_db w4" by (rule preservesD[OF broadcastItemUpdated_db[of "\<lambda>d. d"] b])
    obtain d4 where d4: "updateKitchenQueueTimestamps P env (oi_orderId it) st t d1 = (Inr (), d4)" "w_db w4 = d4"
      using s Some 1(7,9) by (auto elim!: liftDb_InrE)
    note rows = updateKitchenQueueTimestamps_rows[OF t _ d4(1)]
    have "T d4 = (T d1)\<lparr>t_kitchenQueues := t_kitchenQueues (T d4)\<rparr>"
      using rows uniq(2) T1 by (intro kitchenQueues_only) simp
    then show ?thesis using rows uniq(2) T1 w' d4(2) by (intro exI[of _ "t_kitchenQueues (T d4)"]) simp
  qed
  then obtain qs where qs: "list_all2 (stamped env t (oi_orderId it) st) (t_kitchenQueues ?X) qs"
    "T (w_db w') = (T d1)\<lparr>t_kitchenQueues := qs\<rparr>" by blast
  have "ck_cookingStatus u = st" using 1(10) x(3) by simp
  moreover have "T (w_db w') = ?X\<lparr>t_orderItems := xs @ it\<lparr>oi_cookingStatus := st\<rparr> # ys, t_kitchenQueues := qs\<rparr>"
    unfolding qs(2) T1 x(3) by simp
  ultimately show ?thesis using x(1) 1(1,3,4,5) qs(1) by blast
qed

lemma updateCookingStatus_back:
  assumes t: "t \<noteq> []"
    and find: "findById (tenant_ctx t) orderItem_model (extended (tenant_ctx t) orderItem_model (px_orderItem P)) i (w_db w) = (Inr (Some it), d)"
    and less: "\<not> oi_cookingStatus it \<le> st"
  shows "\<exists>msg. updateCookingStatus P env i (show_cooking st) t w = (Inl (BadRequestException msg), w)"
proof -
  have "d = w_db w" using orderItems.findById_Some[OF t find] by simp
  then have l: "liftDb (findById (tenant_ctx t) orderItem_model (extended (tenant_ctx t) orderItem_model (px_orderItem P)) i) w = (Inr (Some it), w)"
    using find by (simp add: liftDb_def)
  have c: "cooking_of (show_cooking st) = Some st" by (simp add: cooking_of_show)
  show ?thesis using validateCookingTransition_Inl[OF less] by (auto simp: updateCookingStatus_def Let_def c andThen_def l of_result_def)
qed

end

end
