(* ===== verification/Kds_Properties.thy ===== *)
theory Kds_Properties
  imports Kds_Service Sample_Data
begin

text \<open>
  Properties of the kitchen display, for every database client that behaves as documented, with
  their instances on a small kitchen.
\<close>

definition sample_item :: orderItem where
  "sample_item = \<lparr>oi_id = ''oi1'', oi_tenantId = Some ''t1'', oi_orderId = ''o1'', oi_productId = ''p1'',
     oi_variantId = None, oi_sizeId = None, oi_quantity = 1, oi_unitPrice = Fin 4, oi_totalPrice = Fin 4,
     oi_cookingStatus = CookingStatus.PREPARING, oi_orderItemAddons = []\<rparr>"

definition sample_queue :: "string \<Rightarrow> string \<Rightarrow> string \<Rightarrow> kitchenQueue" where
  "sample_queue t i ordId = \<lparr>kq_id = i, kq_tenantId = Some t, kq_branchId = ''b1'', kq_orderId = ordId,
     kq_ticketNumber = ''000'', kq_priority = ''NORMAL'', kq_startedCookingAt = Some 7, kq_completedCookingAt = None\<rparr>"

definition sample_kitchen :: "tables world" where
  "sample_kitchen = \<lparr>w_db = sample_tables\<lparr>t_orderItems := [sample_item],
     t_kitchenQueues := [sample_queue ''t1'' ''k1'' ''o1'', sample_queue ''t2'' ''k2'' ''o2'']\<rparr>, w_out = []\<rparr>"

definition late_env :: env where
  "late_env = sample_env\<lparr>ev_now := 2400000\<rparr>"

text \<open>The kitchen display stays within its tenant: listing the tickets of a branch and changing the
  cooking status of an item leave every row of every other tenant as it was, also when they throw,
  and a listing emits to no room but that of the tenant and branch it lists.\<close>

theorem kds_isolated:
  assumes "prisma_client P T" "t \<noteq> []"
  shows "preserves (\<lambda>w. other_tenants t (T (w_db w))) (getTickets P env b t) \<and>
         preserves (\<lambda>w. other_tenants t (T (w_db w))) (updateCookingStatus P env i st t) \<and>
         sends_to t b (getTickets P env b t)"
  by (intro conjI prisma_client.getTickets_others[OF assms] prisma_client.updateCookingStatus_others[OF assms]
      prisma_client.getTickets_rooms[OF assms(1)])

theorem kds_isolated_witness:
  "t_kitchenQueues (other_tenants ''t1'' (w_db (snd (getTickets mem_prisma late_env ''b1'' ''t1'' sample_kitchen))))
     = [sample_queue ''t2'' ''k2'' ''o2'']"
proof -
  have "preserves (\<lambda>w. other_tenants ''t1'' (w_db w)) (getTickets mem_prisma late_env ''b1'' ''t1'')"
    by (rule kds_isolated[OF mem.prisma_client_axioms, THEN conjunct1]) simp
  then have "other_tenants ''t1'' (w_db (snd (getTickets mem_prisma late_env ''b1'' ''t1'' sample_kitchen)))
     = other_tenants ''t1'' (w_db sample_kitchen)" by (simp add: preserves_def)
  then show ?thesis by (simp add: other_tenants_def sample_kitchen_def sample_tables_def sample_queue_def)
qed





end
