(* ===== verification/Cache.thy ===== *)
theory Cache
  imports Json World
begin

text \<open>
  \<^verbatim>\<open>apps/api/src/common/cache/cache.service.ts\<close>: the cache-aside service over Redis. The Redis
  client and server are a parameter \<open>R\<close> over a store state; \<open>redis_store\<close> states what their
  documentation promises about the view \<open>V s m k\<close>, the value a key has at time \<open>m\<close> (milliseconds),
  and is interpreted on an association list with expiry times. The lemmas show what a cached read
  returns, and which writes can be relied on.
\<close>

section \<open>The Redis client\<close>

record 's redis =
  rd_get :: "int \<Rightarrow> string \<Rightarrow> ('s, string option) prog"
  rd_set :: "int \<Rightarrow> string \<Rightarrow> string \<Rightarrow> int \<Rightarrow> ('s, unit) prog"
  rd_set_latency :: "int \<Rightarrow> string \<Rightarrow> 's \<Rightarrow> int"
  rd_del :: "int \<Rightarrow> string \<Rightarrow> ('s, unit) prog"
  rd_flushDb :: "int \<Rightarrow> ('s, unit) prog"

text \<open>\<^verbatim>\<open>redisClient\<close> (null or not), \<^verbatim>\<open>isConnected\<close>, and the store behind the client.\<close>

record 's cache =
  ca_redisClient :: bool
  ca_isConnected :: bool
  ca_store :: 's

text \<open>The state of an application process: its cache and everything else.\<close>

record ('s, 'w) site =
  st_cache :: "'s cache"
  st_world :: 'w

definition liftRedis :: "('s, 'a) prog \<Rightarrow> (('s, 'w) site, 'a) prog" where
  "liftRedis m = (\<lambda>s. case m (ca_store (st_cache s)) of
     (r, x) \<Rightarrow> (r, s\<lparr>st_cache := (st_cache s)\<lparr>ca_store := x\<rparr>\<rparr>))"

definition liftWorld :: "('w, 'a) prog \<Rightarrow> (('s, 'w) site, 'a) prog" where
  "liftWorld m = (\<lambda>s. case m (st_world s) of (r, w) \<Rightarrow> (r, s\<lparr>st_world := w\<rparr>))"

section \<open>The service\<close>

definition cache_onModuleInit :: "string \<Rightarrow> exn + unit \<Rightarrow> 's cache \<Rightarrow> 's cache" where
  "cache_onModuleInit redisUrl connect c =
     (if redisUrl = [] \<or> redisUrl = ''none'' \<or> redisUrl = ''disabled''
      then c\<lparr>ca_redisClient := False, ca_isConnected := False\<rparr>
      else case connect of
             Inr _ \<Rightarrow> c\<lparr>ca_redisClient := True, ca_isConnected := True\<rparr>
           | Inl err \<Rightarrow> c\<lparr>ca_redisClient := False, ca_isConnected := False\<rparr>)"

datatype redisEvent = RedisError | RedisConnect | RedisReconnecting

definition cache_on :: "redisEvent \<Rightarrow> 's cache \<Rightarrow> 's cache" where
  "cache_on ev c = c\<lparr>ca_isConnected := (ev = RedisConnect)\<rparr>"

definition isCacheActive :: "'s cache \<Rightarrow> bool" where
  "isCacheActive c = ca_isConnected c"

definition online :: "('s, 'w) site \<Rightarrow> bool" where
  "online s \<longleftrightarrow> ca_redisClient (st_cache s) \<and> ca_isConnected (st_cache s)"

text \<open>\<^verbatim>\<open>if (!this.redisClient || !this.isConnected) { off } on\<close>.\<close>

definition if_online :: "(('s, 'w) site, 'a) prog \<Rightarrow> (('s, 'w) site, 'a) prog \<Rightarrow> (('s, 'w) site, 'a) prog" where
  "if_online on off = (\<lambda>s. if online s then on s else off s)"

definition cache_set :: "'s redis \<Rightarrow> int \<Rightarrow> string \<Rightarrow> json \<Rightarrow> int \<Rightarrow> (('s, 'w) site, unit) prog" where
  "cache_set R now key v ttlSeconds =
     if_online (try_catch (liftRedis (rd_set R now key (stringify v) ttlSeconds)) (\<lambda>err. return ())) (return ())"

text \<open>A hit is parsed and returned; a miss, an unreadable value and any error go to \<open>fetchFn\<close>.\<close>

definition cache_get ::
  "'s redis \<Rightarrow> int \<Rightarrow> string \<Rightarrow> (('s, 'w) site, json) prog \<Rightarrow> int \<Rightarrow> (('s, 'w) site, json) prog" where
  "cache_get R now key fetchFn ttlSeconds = if_online
     (try_catch
       (andThen (liftRedis (rd_get R now key)) (\<lambda>cachedValue. case cachedValue of
          Some x \<Rightarrow> of_result (json_parse x)
        | None \<Rightarrow> andThen fetchFn (\<lambda>result.
                   andThen (cache_set R now key result ttlSeconds) (\<lambda>_. return result))))
       (\<lambda>err. fetchFn))
     fetchFn"

definition STRICT_WRITE_TIMEOUT_MS :: int where
  "STRICT_WRITE_TIMEOUT_MS = 1500"

text \<open>The command is not cancelled by the timeout: it has run, but the caller sees an error.\<close>

definition withTimeout :: "('s \<Rightarrow> int) \<Rightarrow> int \<Rightarrow> ('s, 'a) prog \<Rightarrow> ('s, 'a) prog" where
  "withTimeout latency ms m = (\<lambda>s. case m s of (r, s') \<Rightarrow>
     if latency s \<le> ms then (r, s') else (Inl (JsError ''Redis command timed out''), s'))"

definition cache_setStrict :: "'s redis \<Rightarrow> int \<Rightarrow> string \<Rightarrow> json \<Rightarrow> int \<Rightarrow> (('s, 'w) site, bool) prog" where
  "cache_setStrict R now key v ttlSeconds = if_online
     (try_catch
       (andThen (liftRedis (withTimeout (rd_set_latency R now key) STRICT_WRITE_TIMEOUT_MS
                   (rd_set R now key (stringify v) ttlSeconds))) (\<lambda>_. return True))
       (\<lambda>err. return False))
     (return False)"

definition cache_del :: "'s redis \<Rightarrow> int \<Rightarrow> string \<Rightarrow> (('s, 'w) site, unit) prog" where
  "cache_del R now key =
     if_online (try_catch (liftRedis (rd_del R now key)) (\<lambda>err. return ())) (return ())"

definition cache_flush :: "'s redis \<Rightarrow> int \<Rightarrow> (('s, 'w) site, unit) prog" where
  "cache_flush R now =
     if_online (try_catch (liftRedis (rd_flushDb R now)) (\<lambda>err. return ())) (return ())"

section \<open>What Redis promises\<close>

text \<open>
  A command that failed may or may not have been executed, so after a failed write a key has its
  old value or the new one. Reads change nothing.
\<close>

definition stored :: "int \<Rightarrow> int \<Rightarrow> int \<Rightarrow> string \<Rightarrow> string option" where
  "stored now ttl m x = (if m < now + 1000 * ttl then Some x else None)"

locale redis_store =
  fixes R :: "'s redis" and V :: "'s \<Rightarrow> int \<Rightarrow> string \<Rightarrow> string option"
  assumes get_Inr: "rd_get R now k s = (Inr v, s') \<Longrightarrow> v = V s now k \<and> V s' = V s"
    and get_Inl: "rd_get R now k s = (Inl e, s') \<Longrightarrow> V s' = V s"
    and set_other: "rd_set R now k x ttl s = (r, s') \<Longrightarrow> l \<noteq> k \<Longrightarrow> V s' m l = V s m l"
    and set_Inr: "rd_set R now k x ttl s = (Inr u, s') \<Longrightarrow> now \<le> m \<Longrightarrow> V s' m k = stored now ttl m x"
    and set_Inl: "rd_set R now k x ttl s = (Inl e, s') \<Longrightarrow> now \<le> m \<Longrightarrow> V s' m k \<in> {V s m k, stored now ttl m x}"
    and del_other: "rd_del R now k s = (r, s') \<Longrightarrow> l \<noteq> k \<Longrightarrow> V s' m l = V s m l"
    and del_Inr: "rd_del R now k s = (Inr u, s') \<Longrightarrow> now \<le> m \<Longrightarrow> V s' m k = None"
    and flush_Inr: "rd_flushDb R now s = (Inr u, s') \<Longrightarrow> now \<le> m \<Longrightarrow> V s' m l = None"
    and flush_Inl: "rd_flushDb R now s = (Inl e, s') \<Longrightarrow> V s' m l \<in> {V s m l, None}"

section \<open>A store in memory\<close>

type_synonym mem_store = "(string \<times> string \<times> int) list"

definition mem_view :: "mem_store \<Rightarrow> int \<Rightarrow> string \<Rightarrow> string option" where
  "mem_view s m k = (case map_of s k of None \<Rightarrow> None | Some (x, e) \<Rightarrow> if m < e then Some x else None)"

text \<open>Redis refuses an expiry that is not positive.\<close>

definition mem_redis :: "mem_store redis" where
  "mem_redis = \<lparr>
     rd_get = (\<lambda>now k s. (Inr (mem_view s now k), s)),
     rd_set = (\<lambda>now k x ttl s. if ttl \<le> 0 then (Inl (JsError ''ERR invalid expire time''), s)
                               else (Inr (), AList.update k (x, now + 1000 * ttl) s)),
     rd_set_latency = (\<lambda>now k s. 1),
     rd_del = (\<lambda>now k s. (Inr (), AList.delete k s)),
     rd_flushDb = (\<lambda>now s. (Inr (), []))\<rparr>"

interpretation mem_redis: redis_store mem_redis mem_view
  by unfold_locales
    (auto simp: mem_redis_def mem_view_def stored_def update_conv' delete_conv' fun_eq_iff
      split: if_splits option.splits)

section \<open>Running the service\<close>

lemma liftRedis_apply: "m (ca_store (st_cache s)) = (r, x) \<Longrightarrow> liftRedis m s = (r, s\<lparr>st_cache := (st_cache s)\<lparr>ca_store := x\<rparr>\<rparr>)"
  by (simp add: liftRedis_def)

lemma liftRedisE:
  assumes "liftRedis m s = (r, s')"
  obtains x where "m (ca_store (st_cache s)) = (r, x)" "s' = s\<lparr>st_cache := (st_cache s)\<lparr>ca_store := x\<rparr>\<rparr>"
  using assms by (auto simp: liftRedis_def split: prod.splits)

lemma liftWorldE:
  assumes "liftWorld m s = (r, s')"
  obtains w where "m (st_world s) = (r, w)" "s' = s\<lparr>st_world := w\<rparr>"
  using assms by (auto simp: liftWorld_def split: prod.splits)

lemma online_update [simp]: "online (s\<lparr>st_world := w\<rparr>) = online s"
  "online (s\<lparr>st_cache := (st_cache s)\<lparr>ca_store := x\<rparr>\<rparr>) = online s"
  by (simp_all add: online_def)

lemma preserves_liftWorld [preserves_intros]: "preserves f m \<Longrightarrow> preserves (\<lambda>s. f (st_world s)) (liftWorld m)"
  by (rule preservesI) (auto simp: preserves_def elim!: liftWorldE, metis snd_conv)

lemma preserves_liftWorld_cache [preserves_intros]: "preserves (\<lambda>s. f (st_cache s)) (liftWorld m)"
  by (rule preservesI) (auto elim!: liftWorldE)

lemma preserves_liftRedis_world [preserves_intros]: "preserves (\<lambda>s. f (st_world s)) (liftRedis m)"
  by (rule preservesI) (auto elim!: liftRedisE)

lemma preserves_if_online [preserves_intros]: "preserves f m \<Longrightarrow> preserves f n \<Longrightarrow> preserves f (if_online m n)"
  by (simp add: preserves_def if_online_def)

lemma never_fails_if_online [clean_intros]: "never_fails m \<Longrightarrow> never_fails n \<Longrightarrow> never_fails (if_online m n)"
  by (simp add: never_fails_def if_online_def)

lemma cache_set_world [preserves_intros]: "preserves (\<lambda>s. f (st_world s)) (cache_set R now k v ttl)"
  unfolding cache_set_def by (intro preserves_intros)

lemma cache_setStrict_world [preserves_intros]: "preserves (\<lambda>s. f (st_world s)) (cache_setStrict R now k v ttl)"
  unfolding cache_setStrict_def by (intro preserves_intros)

lemma cache_del_world [preserves_intros]: "preserves (\<lambda>s. f (st_world s)) (cache_del R now k)"
  unfolding cache_del_def by (intro preserves_intros)

lemma cache_set_never_fails [clean_intros]: "never_fails (cache_set R now k v ttl)"
  unfolding cache_set_def by (intro clean_intros)

lemma cache_setStrict_never_fails [clean_intros]: "never_fails (cache_setStrict R now k v ttl)"
  unfolding cache_setStrict_def by (intro clean_intros)

lemma cache_get_world [preserves_intros]:
  "preserves (\<lambda>s. f (st_world s)) fetch \<Longrightarrow> preserves (\<lambda>s. f (st_world s)) (cache_get R now k fetch ttl)"
  unfolding cache_get_def by (intro preserves_intros)

context redis_store
begin

abbreviation view :: "('s, 'w) site \<Rightarrow> int \<Rightarrow> string \<Rightarrow> string option" where
  "view s \<equiv> V (ca_store (st_cache s))"

lemma cache_set_view:
  assumes "cache_set R now k v ttl s = (r, s')"
  shows "(l \<noteq> k \<longrightarrow> view s' m l = view s m l) \<and> (now \<le> m \<longrightarrow> view s' m k \<in> {view s m k, stored now ttl m (stringify v)}) \<and>
         online s' = online s"
proof (cases "online s")
  case True
  then obtain r1 x where x: "rd_set R now k (stringify v) ttl (ca_store (st_cache s)) = (r1, x)"
    and s': "s' = s\<lparr>st_cache := (st_cache s)\<lparr>ca_store := x\<rparr>\<rparr>"
    using assms by (auto simp: if_online_def cache_set_def try_catch_def return_def split: prod.splits sum.splits elim!: liftRedisE)
  show ?thesis using set_other[OF x] x s' by (cases r1) (auto dest: set_Inr set_Inl)
qed (use assms in \<open>simp add: if_online_def cache_set_def return_def\<close>)

text \<open>A strict write that reports success is in the store until it expires.\<close>

lemma cache_setStrict_view:
  assumes "cache_setStrict R now k v ttl s = (r, s')"
  shows "(l \<noteq> k \<longrightarrow> view s' m l = view s m l) \<and> online s' = online s \<and>
         (r = Inr True \<longrightarrow> online s \<and> (now \<le> m \<longrightarrow> view s' m k = stored now ttl m (stringify v)))"
proof (cases "online s")
  case True
  obtain r1 x where x: "rd_set R now k (stringify v) ttl (ca_store (st_cache s)) = (r1, x)" by force
  have s': "s' = s\<lparr>st_cache := (st_cache s)\<lparr>ca_store := x\<rparr>\<rparr>" and r: "r = Inr True \<longrightarrow> r1 = Inr ()"
    using assms True x
    by (auto simp: if_online_def cache_setStrict_def try_catch_def andThen_def withTimeout_def return_def liftRedis_def
        split: prod.splits sum.splits if_splits)
  show ?thesis using set_other[OF x] x s' r True by (auto dest: set_Inr)
qed (use assms in \<open>auto simp: if_online_def cache_setStrict_def return_def\<close>)

text \<open>What a cached read returns: the stored value, when Redis answers with one that parses.\<close>

lemma cache_get_hit:
  assumes "online s" "view s now k = Some (stringify v)" "fst (rd_get R now k (ca_store (st_cache s))) = Inr y"
  shows "\<exists>s'. cache_get R now k fetch ttl s = (Inr v, s') \<and> st_world s' = st_world s \<and> view s' = view s \<and> online s'"
proof -
  obtain x where x: "rd_get R now k (ca_store (st_cache s)) = (Inr y, x)" using assms(3) by (metis prod.collapse)
  have "y = Some (stringify v)" "V x = view s" using get_Inr[OF x] assms(2) by auto
  then show ?thesis using assms(1) liftRedis_apply[of "rd_get R now k", OF x]
    by (auto simp: if_online_def cache_get_def try_catch_def andThen_def of_result_def json_parse_stringify)
qed

text \<open>
  Cache-aside is transparent: when fetching only reads and a value under the key is the one that
  would be fetched, a cached read returns what fetching returns, and stays in that state.
\<close>

definition coherent :: "int \<Rightarrow> string \<Rightarrow> exn + json \<Rightarrow> ('s, 'w) site \<Rightarrow> bool" where
  "coherent now k r s \<longleftrightarrow> (\<forall>m x. now \<le> m \<longrightarrow> view s m k = Some x \<longrightarrow> (\<exists>v. r = Inr v \<and> x = stringify v))"

lemma cache_get_transparent:
  assumes fetch: "\<And>s'. st_world s' = st_world s \<Longrightarrow> fetch s' = (r, s')" and coh: "coherent now k r s"
    and run: "cache_get R now k fetch ttl s = (r', s')"
  shows "r' = r \<and> st_world s' = st_world s \<and> coherent now k r s' \<and> (l \<noteq> k \<longrightarrow> view s' m l = view s m l)"
proof (cases "online s")
  case False
  then show ?thesis using run fetch[OF refl] coh by (simp add: if_online_def cache_get_def)
next
  case True
  obtain y x where x: "rd_get R now k (ca_store (st_cache s)) = (y, x)" by force
  define s1 where "s1 = s\<lparr>st_cache := (st_cache s)\<lparr>ca_store := x\<rparr>\<rparr>"
  have l: "liftRedis (rd_get R now k) s = (y, s1)" by (simp add: s1_def liftRedis_apply[of "rd_get R now k", OF x])
  have s1: "st_world s1 = st_world s" "view s1 = view s" using x by (cases y; auto simp: s1_def dest: get_Inr get_Inl)+
  have f1: "fetch s1 = (r, s1)" by (rule fetch[OF s1(1)])
  have coh1: "coherent now k r s1" using coh by (simp add: coherent_def s1(2))
  show ?thesis
  proof (cases y)
    case (Inl e)
    then have "r' = r" "s' = s1" using run True l f1 by (auto simp: if_online_def cache_get_def try_catch_def andThen_def)
    then show ?thesis using s1 coh1 by simp
  next
    case (Inr c)
    show ?thesis
    proof (cases c)
      case (Some str)
      then obtain v where "r = Inr v" "str = stringify v" using coh get_Inr[OF x[unfolded Inr]] unfolding coherent_def by auto
      then have "r' = r" "s' = s1" using run True l Inr Some
        by (auto simp: if_online_def cache_get_def try_catch_def andThen_def of_result_def json_parse_stringify)
      then show ?thesis using s1 coh1 by simp
    next
      case None
      show ?thesis
      proof (cases r)
        case (Inl e)
        then have "r' = r" "s' = s1" using run True l Inr None f1 by (auto simp: if_online_def cache_get_def try_catch_def andThen_def)
        then show ?thesis using s1 coh1 by simp
      next
        case r: (Inr v)
        obtain u s2 where set: "cache_set R now k v ttl s1 = (Inr u, s2)"
          using cache_set_never_fails[of R now k v ttl] unfolding never_fails_def by blast
        have res: "r' = r" "s' = s2" using run True l Inr None f1 r set
          by (auto simp: if_online_def cache_get_def try_catch_def andThen_def return_def)
        have w: "st_world s2 = st_world s1" by (rule preservesD[OF cache_set_world[of "\<lambda>w. w"] set])
        note v = cache_set_view[OF set]
        have "coherent now k r s2" unfolding coherent_def
        proof (intro allI impI)
          fix m y assume "now \<le> m" "view s2 m k = Some y"
          then have "view s1 m k = Some y \<or> stored now ttl m (stringify v) = Some y" using v[of undefined m] by auto
          then show "\<exists>v. r = Inr v \<and> y = stringify v"
            using coh1 \<open>now \<le> m\<close> r unfolding coherent_def stored_def by (auto split: if_splits)
        qed
        then show ?thesis using res w s1 v[of l m] by simp
      qed
    qed
  qed
qed

end

context redis_store
begin

text \<open>A cached read or a write touches no other key, and does not change the connection.\<close>

definition only_key :: "string \<Rightarrow> ('s, 'w) site \<Rightarrow> ('s, 'w) site \<Rightarrow> bool" where
  "only_key k s s' \<longleftrightarrow> online s' = online s \<and> (\<forall>m l. l \<noteq> k \<longrightarrow> view s' m l = view s m l)"

end

sublocale redis_store \<subseteq> key: change "only_key k" for k
  by unfold_locales (simp_all add: only_key_def)

context redis_store
begin

lemma only_key_set: "along (only_key k) (cache_set R now k v ttl)"
proof (rule alongI)
  fix s r s' assume run: "cache_set R now k v ttl s = (r, s')"
  show "only_key k s s'" unfolding only_key_def using cache_set_view[OF run] by blast
qed

lemma only_key_read: "along (only_key k) (liftRedis (rd_get R now k))"
proof (rule alongI)
  fix s r s' assume "liftRedis (rd_get R now k) s = (r, s')"
  then obtain x where x: "rd_get R now k (ca_store (st_cache s)) = (r, x)"
    "s' = s\<lparr>st_cache := (st_cache s)\<lparr>ca_store := x\<rparr>\<rparr>" by (rule liftRedisE)
  then show "only_key k s s'" by (cases r) (auto simp: only_key_def dest: get_Inr get_Inl)
qed

lemma along_if_online: "along Q m \<Longrightarrow> along Q n \<Longrightarrow> along Q (if_online m n)"
  by (simp add: along_def if_online_def)

lemma only_key_get: "along (only_key k) fetch \<Longrightarrow> along (only_key k) (cache_get R now k fetch ttl)"
  unfolding cache_get_def by (intro along_if_online key.along_intros only_key_read only_key_set)

lemma cache_get_never_fails:
  "never_fails fetch \<Longrightarrow> never_fails (cache_get R now k fetch ttl)"
  unfolding cache_get_def by (intro never_fails_if_online never_fails_try)

end

end
