(* ===== verification/Base32.thy ===== *)
theory Base32
  imports Prelude "HOL-Library.Word"
begin

text \<open>
  The base-32 encoding of \<^verbatim>\<open>generateMfaSecret\<close> (\<^verbatim>\<open>auth.service.ts\<close>): the loop keeps its buffer in a
  32-bit JavaScript integer that overflows after four bytes. It is shown to produce the RFC 4648
  alphabet indices of the bit string of its input, read five bits at a time.
\<close>

unbundle bit_operations_syntax

section \<open>The loop\<close>

definition alphabet :: string where
  "alphabet = ''ABCDEFGHIJKLMNOPQRSTUVWXYZ234567''"

text \<open>\<^verbatim>\<open>while (bits >= 5)\<close>: the characters it appends; it leaves \<open>bits mod 5\<close> bits.\<close>

fun emit_groups :: "32 word \<Rightarrow> nat \<Rightarrow> string" where
  "emit_groups buf bits =
     (if 5 \<le> bits
      then alphabet ! unat (drop_bit (bits - 5) buf AND 31) # emit_groups buf (bits - 5)
      else [])"

declare emit_groups.simps [simp del]

fun encode_bytes :: "8 word list \<Rightarrow> 32 word \<Rightarrow> nat \<Rightarrow> string \<Rightarrow> string" where
  "encode_bytes [] buf bits out =
     (if 0 < bits then out @ [alphabet ! unat (push_bit (5 - bits) buf AND 31)] else out)"
| "encode_bytes (b # bs) buf bits out =
     (let v = push_bit 8 buf OR ucast b; n = bits + 8 in
      encode_bytes bs v (n mod 5) (out @ emit_groups v n))"

definition base32_encode :: "8 word list \<Rightarrow> string" where
  "base32_encode bytes = encode_bytes bytes 0 0 []"

section \<open>The reference\<close>

text \<open>The bits of a byte, most significant first; groups of five, the last one padded with zeros.\<close>

definition byte_bits :: "8 word \<Rightarrow> bool list" where
  "byte_bits b = map (bit b) (rev [0..<8])"

definition group_char :: "bool list \<Rightarrow> char" where
  "group_char g = alphabet ! horner_sum of_bool 2 (rev g)"

fun groups5 :: "bool list \<Rightarrow> string" where
  "groups5 (a # b # c # d # e # rest) = group_char [a, b, c, d, e] # groups5 rest"
| "groups5 [] = []"
| "groups5 rest = [group_char (rest @ replicate (5 - length rest) False)]"

section \<open>Equivalence\<close>

text \<open>The lowest \<open>n\<close> bits of the buffer, most significant first.\<close>

definition low_bits :: "nat \<Rightarrow> 32 word \<Rightarrow> bool list" where
  "low_bits n v = map (bit v) (rev [0..<n])"

lemma low_bits_Suc: "low_bits (Suc n) v = bit v n # low_bits n v"
  by (simp add: low_bits_def)

lemma low_bits_0 [simp]: "low_bits 0 v = []"
  by (simp add: low_bits_def)

lemma length_low_bits [simp]: "length (low_bits n v) = n"
  by (simp add: low_bits_def)

text \<open>Shifting a byte in appends its bits, as long as the buffer does not lose pending ones.\<close>

lemma low_bits_shift:
  assumes "n \<le> 24"
  shows "low_bits (n + 8) (push_bit 8 v OR ucast b) = low_bits n v @ byte_bits b"
proof -
  have hi: "bit (push_bit 8 v OR ucast b) (8 + i) = bit v i" if "i < n" for i
    using that assms bit_imp_le_length[of b "8 + i"] by (auto simp: bit_simps)
  have lo: "bit (push_bit 8 v OR ucast b) i = bit b i" if "i < 8" for i
    using that by (simp add: bit_simps)
  have "rev [0..<n + 8] = map (\<lambda>i. 8 + i) (rev [0..<n]) @ rev [0..<8]"
    by (simp add: rev_map[symmetric] map_add_upt add.commute upt_add_eq_append[of 0 8 n, simplified add.commute])
  then show ?thesis unfolding low_bits_def byte_bits_def by (auto simp: hi lo)
qed

lemma group_char_eq:
  "group_char (map (bit w) (rev [0..<5])) = alphabet ! unat (w AND 31)" for w :: "32 word"
proof -
  have "map (bit w) [0..<5] = map (bit (unat w)) [0..<5]" by (simp add: bit_unsigned_iff)
  then have "horner_sum of_bool 2 (map (bit w) [0..<5]) = unat (take_bit 5 w)"
    by (simp only: horner_sum_bit_eq_take_bit unsigned_take_bit_eq)
  moreover have "w AND 31 = take_bit 5 w" using take_bit_eq_mask[of 5 w] by (simp add: mask_eq_exp_minus_1)
  ultimately show ?thesis by (simp add: group_char_def rev_map)
qed

lemma low_bits_drop:
  assumes "k \<le> n"
  shows "low_bits n v = map (bit (drop_bit (n - k) v)) (rev [0..<k]) @ low_bits (n - k) v"
proof -
  obtain m where n: "n = m + k" using assms by (metis add.commute le_Suc_ex)
  have "rev [0..<m + k] = map (\<lambda>i. m + i) (rev [0..<k]) @ rev [0..<m]"
    using upt_add_eq_append[of 0 m k] by (simp add: rev_map[symmetric] map_add_upt add.commute)
  then show ?thesis by (simp add: n low_bits_def bit_drop_bit_eq)
qed

lemma groups5_append: "length g = 5 \<Longrightarrow> groups5 (g @ rest) = group_char g # groups5 rest"
  by (auto simp: eval_nat_numeral length_Suc_conv)

lemma emit_groups_ref:
  "groups5 (low_bits n v @ rest) = emit_groups v n @ groups5 (low_bits (n mod 5) v @ rest)"
proof (induction n rule: less_induct)
  case (less n)
  show ?case
  proof (cases "5 \<le> n")
    case True
    have "groups5 (low_bits n v @ rest) =
        group_char (map (bit (drop_bit (n - 5) v)) (rev [0..<5])) # groups5 (low_bits (n - 5) v @ rest)"
      unfolding low_bits_drop[OF True] by (simp add: groups5_append del: upt_rec_numeral)
    also have "\<dots> = emit_groups v n @ groups5 (low_bits (n mod 5) v @ rest)"
      using less[of "n - 5"] True le_mod_geq[of 5 n] by (subst emit_groups.simps) (simp add: group_char_eq)
    finally show ?thesis .
  qed (simp add: emit_groups.simps)
qed

text \<open>The final, padded group: the pending bits shifted to the left end of five.\<close>

lemma final_group:
  assumes "0 < n" "n < 5"
  shows "groups5 (low_bits n v) = [alphabet ! unat (push_bit (5 - n) v AND 31)]"
proof -
  let ?w = "push_bit (5 - n) v"
  have "low_bits n v @ replicate (5 - n) False = map (bit ?w) (rev [0..<5])"
    using assms by (auto simp: low_bits_def bit_push_bit_iff less_Suc_eq eval_nat_numeral numeral_eq_Suc)
  moreover have "groups5 (low_bits n v) = [group_char (low_bits n v @ replicate (5 - n) False)]"
    using assms by (auto simp: less_Suc_eq eval_nat_numeral low_bits_Suc)
  ultimately show ?thesis by (simp add: group_char_eq)
qed

lemma encode_bytes_ref:
  "n < 5 \<Longrightarrow> encode_bytes bs v n out = out @ groups5 (low_bits n v @ concat (map byte_bits bs))"
proof (induction bs arbitrary: v n out)
  case Nil
  then show ?case using final_group[of n v] by (cases "n = 0") simp_all
next
  case (Cons b bs)
  let ?v = "push_bit 8 v OR ucast b"
  have eq: "low_bits n v @ concat (map byte_bits (b # bs)) = low_bits (n + 8) ?v @ concat (map byte_bits bs)"
    using Cons.prems by (simp add: low_bits_shift)
  have "groups5 (low_bits n v @ concat (map byte_bits (b # bs))) =
      emit_groups ?v (n + 8) @ groups5 (low_bits ((n + 8) mod 5) ?v @ concat (map byte_bits bs))"
    unfolding eq by (rule emit_groups_ref)
  then show ?case using Cons.IH[of "(n + 8) mod 5" ?v "out @ emit_groups ?v (n + 8)"] by (simp add: Let_def)
qed

lemma base32_encode_ref: "base32_encode bytes = groups5 (concat (map byte_bits bytes))"
  by (simp add: base32_encode_def encode_bytes_ref)

lemma length_groups5: "length (groups5 bs) = (length bs + 4) div 5"
  by (induction bs rule: groups5.induct) simp_all

lemma length_base32: "length (base32_encode bytes) = (8 * length bytes + 4) div 5"
proof -
  have "length (concat (map byte_bits bytes)) = 8 * length bytes"
    by (induction bytes) (simp_all add: byte_bits_def)
  then show ?thesis by (simp add: base32_encode_ref length_groups5)
qed

end
