(* ===== verification/Auth_Service.thy ===== *)
theory Auth_Service
  imports Cache Base32
begin

text \<open>
  \<^verbatim>\<open>apps/api/src/auth/auth.service.ts\<close>: passwords, tokens, their revocation, MFA, login and password
  reset, over the database client \<open>P\<close>, the Redis client \<open>R\<close> and the request's tenant context \<open>c\<close>.
  The libraries behind it (\<^verbatim>\<open>@nestjs/jwt\<close>, \<^verbatim>\<open>argon2\<close>, \<^verbatim>\<open>speakeasy\<close>, \<^verbatim>\<open>qrcode\<close>, \<^verbatim>\<open>crypto\<close>) and the process
  environment are fields of \<open>authEnv\<close>.
\<close>

section \<open>Tokens and libraries\<close>

text \<open>The claims of a token; roles and permissions are absent from refresh tokens. Times are seconds.\<close>

record claims =
  cl_sub :: string
  cl_email :: string
  cl_tenantId :: "string option"
  cl_roles :: "string list option"
  cl_permissions :: "string list option"
  cl_iat :: int
  cl_exp :: int

text \<open>\<^verbatim>\<open>signAsync(payload, {secret, expiresIn})\<close> at a time, and \<^verbatim>\<open>verifyAsync(token, {secret})\<close> at a time.\<close>

record jwtService =
  jw_signAsync :: "string \<Rightarrow> int \<Rightarrow> int \<Rightarrow> claims \<Rightarrow> exn + string"
  jw_verifyAsync :: "string \<Rightarrow> int \<Rightarrow> string \<Rightarrow> exn + claims"

record authEnv =
  ae_now :: int
  ae_jwt :: jwtService
  ae_accessTokenSecret :: string
  ae_refreshTokenSecret :: string
  ae_argon2_hash :: "string \<Rightarrow> exn + string"
  ae_argon2_verify :: "string \<Rightarrow> string \<Rightarrow> exn + bool"
  ae_totp_verify :: "string option \<Rightarrow> string \<Rightarrow> exn + bool"
  ae_speakeasy_generateSecret :: "string \<Rightarrow> exn + string \<times> string"
  ae_qrcode_toDataURL :: "string \<Rightarrow> exn + string"
  ae_randomBytes :: "nat \<Rightarrow> nat \<Rightarrow> 8 word list"
  ae_DATABASE_URL :: "string option"
  ae_FRONTEND_URL :: "string option"
  ae_email_fails :: bool

definition accessTokenExpiry :: int where
  "accessTokenExpiry = 15 * 60"

definition refreshTokenExpiry :: int where
  "refreshTokenExpiry = 7 * 24 * 60 * 60"

text \<open>\<^verbatim>\<open>Math.floor(Date.now() / 1000)\<close>.\<close>

definition now_seconds :: "authEnv \<Rightarrow> int" where
  "now_seconds env = js_floor (js_div_const (num_of_int (ae_now env)) 1000)"

section \<open>JSON values in the code\<close>

fun json_truthy :: "json \<Rightarrow> bool" where
  "json_truthy JNull = False"
| "json_truthy (JBool b) = b"
| "json_truthy (JNum n) = (n \<noteq> 0)"
| "json_truthy (JStr s) = (s \<noteq> [])"
| "json_truthy _ = True"

text \<open>Property access: only an object has the properties the code reads; the last entry counts.\<close>

fun json_prop :: "string \<Rightarrow> json \<Rightarrow> json option" where
  "json_prop k (JObj ms) = map_of (rev ms) k"
| "json_prop k _ = None"

definition hex_string :: "8 word list \<Rightarrow> string" where
  "hex_string bs = concat (map (\<lambda>b. [hex_digit (unat b div 16), hex_digit (unat b mod 16)]) bs)"

section \<open>Passwords and tokens\<close>

definition hashPassword :: "authEnv \<Rightarrow> string \<Rightarrow> exn + string" where
  "hashPassword env password = ae_argon2_hash env password"

definition comparePassword :: "authEnv \<Rightarrow> string \<Rightarrow> string \<Rightarrow> bool" where
  "comparePassword env password hash = (case ae_argon2_verify env hash password of Inl err \<Rightarrow> False | Inr b \<Rightarrow> b)"

definition generateTokens ::
  "authEnv \<Rightarrow> string \<Rightarrow> string \<Rightarrow> string option \<Rightarrow> string list \<Rightarrow> string list \<Rightarrow> exn + string \<times> string" where
  "generateTokens env sub email tenantId roles permissions =
     (case jw_signAsync (ae_jwt env) (ae_accessTokenSecret env) accessTokenExpiry (now_seconds env)
             \<lparr>cl_sub = sub, cl_email = email, cl_tenantId = tenantId, cl_roles = Some roles,
              cl_permissions = Some permissions, cl_iat = 0, cl_exp = 0\<rparr> of
        Inl e \<Rightarrow> Inl e
      | Inr accessToken \<Rightarrow>
          (case jw_signAsync (ae_jwt env) (ae_refreshTokenSecret env) refreshTokenExpiry (now_seconds env)
                  \<lparr>cl_sub = sub, cl_email = email, cl_tenantId = tenantId, cl_roles = None,
                   cl_permissions = None, cl_iat = 0, cl_exp = 0\<rparr> of
             Inl e \<Rightarrow> Inl e
           | Inr refreshToken \<Rightarrow> Inr (accessToken, refreshToken)))"

record rotated =
  rt_accessToken :: string
  rt_refreshToken :: string
  rt_sub :: string

definition opt_list :: "'a list option \<Rightarrow> 'a list" where
  "opt_list x = (case x of None \<Rightarrow> [] | Some xs \<Rightarrow> xs)"

definition rotateRefreshToken ::
  "'s redis \<Rightarrow> authEnv \<Rightarrow> string \<Rightarrow> (('s, 'w) site, rotated) prog" where
  "rotateRefreshToken R env oldToken =
     try_catch
       (andThen (of_result (jw_verifyAsync (ae_jwt env) (ae_refreshTokenSecret env) (now_seconds env) oldToken)) (\<lambda>decoded.
        let sessionKey = ''blacklist:token:'' @ oldToken in
        andThen (cache_get R (ae_now env) sessionKey (return (JBool False)) 7200) (\<lambda>isBlacklisted.
        if json_truthy isBlacklisted
        then throw (UnauthorizedException ''This session token has been invalidated or blacklisted.'')
        else
        andThen (cache_set R (ae_now env) sessionKey (JBool True) (7 * 24 * 60 * 60)) (\<lambda>_.
        andThen (of_result (generateTokens env (cl_sub decoded) (cl_email decoded) (or_null (cl_tenantId decoded))
                   (opt_list (cl_roles decoded)) (opt_list (cl_permissions decoded)))) (\<lambda>(accessToken, refreshToken).
        return \<lparr>rt_accessToken = accessToken, rt_refreshToken = refreshToken, rt_sub = cl_sub decoded\<rparr>)))))
       (\<lambda>err. throw (UnauthorizedException ''Session refresh has failed. Please log in again.''))"

definition blacklistToken :: "'s redis \<Rightarrow> authEnv \<Rightarrow> string \<Rightarrow> int \<Rightarrow> (('s, 'w) site, unit) prog" where
  "blacklistToken R env token remainingSeconds =
     cache_set R (ae_now env) (''blacklist:access:'' @ token) (JBool True) remainingSeconds"

definition isTokenBlacklisted :: "'s redis \<Rightarrow> authEnv \<Rightarrow> string \<Rightarrow> (('s, 'w) site, json) prog" where
  "isTokenBlacklisted R env token =
     cache_get R (ae_now env) (''blacklist:access:'' @ token) (return (JBool False)) 7200"

definition USER_REVOCATION_TTL_SECONDS :: int where
  "USER_REVOCATION_TTL_SECONDS = 3600"

definition revocationKey :: "string \<Rightarrow> string" where
  "revocationKey userId = ''revoked:user:'' @ userId"

definition revokeAllUserTokens :: "'s redis \<Rightarrow> authEnv \<Rightarrow> string \<Rightarrow> (('s, 'w) site, unit) prog" where
  "revokeAllUserTokens R env userId =
     (if userId = [] then return ()
      else
        let cutoff = now_seconds env + 1 in
        andThen (cache_setStrict R (ae_now env) (revocationKey userId) (JNum cutoff) USER_REVOCATION_TTL_SECONDS)
          (\<lambda>persisted.
             if \<not> persisted
             then throw (ServiceUnavailableException
                    ''Unable to revoke active sessions right now. The change was not applied - please retry.'')
             else return ()))"

definition getUserRevocationCutoff :: "'s redis \<Rightarrow> authEnv \<Rightarrow> string \<Rightarrow> (('s, 'w) site, int) prog" where
  "getUserRevocationCutoff R env userId =
     (if userId = [] then return 0
      else andThen (cache_get R (ae_now env) (revocationKey userId) (return (JNum 0)) USER_REVOCATION_TTL_SECONDS)
             (\<lambda>v. return (case v of JNum n \<Rightarrow> n | _ \<Rightarrow> 0)))"

section \<open>Profile\<close>

record userProfile =
  up_id :: string
  up_tenantId :: "string option"
  up_email :: "string option"
  up_firstName :: "string option"
  up_lastName :: "string option"
  up_isActive :: "bool option"
  up_mfaEnabled :: "bool option"

text \<open>The lookup by id, in the tenant of the token when it has one; a failing query finds nobody.\<close>

definition findTokenUser :: "'d prisma \<Rightarrow> ctx \<Rightarrow> string \<Rightarrow> string option \<Rightarrow> ('d world, user option) prog" where
  "findTokenUser P c userId tenantId =
     (let E = extended c user_model (px_user P) in
      if truthy tenantId
      then liftDb (dg_findFirst E [(''id'', Is (CStr userId)), (''tenantId'', Is (CStr (or_else tenantId [])))])
      else liftDb (dg_findUnique E (where_id userId)))"

definition getMe :: "'d prisma \<Rightarrow> ctx \<Rightarrow> string \<Rightarrow> string option \<Rightarrow> ('d world, userProfile) prog" where
  "getMe P c userId tenantId =
     (if userId = [] then throw (UnauthorizedException ''User ID missing from token'')
      else
        andThen (try_catch (findTokenUser P c userId tenantId) (\<lambda>err. return None)) (\<lambda>user.
        return (case user of
          None \<Rightarrow> \<lparr>up_id = userId, up_tenantId = or_null tenantId, up_email = None, up_firstName = None,
                   up_lastName = None, up_isActive = None, up_mfaEnabled = None\<rparr>
        | Some u \<Rightarrow> \<lparr>up_id = us_id u, up_tenantId = us_tenantId u, up_email = Some (us_email u),
                     up_firstName = Some (us_firstName u), up_lastName = Some (us_lastName u),
                     up_isActive = Some (us_isActive u), up_mfaEnabled = Some (us_mfaEnabled u)\<rparr>)))"

section \<open>Multi-factor authentication\<close>

text \<open>\<^verbatim>\<open>Buffer.from(s).toString('base64')\<close>: three bytes to four characters, padded with \<^verbatim>\<open>=\<close>.\<close>

definition base64_char :: "nat \<Rightarrow> char" where
  "base64_char n = (''ABCDEFGHIJKLMNOPQRSTUVWXYZabcdefghijklmnopqrstuvwxyz0123456789+/'') ! (n mod 64)"

fun base64_encode :: "nat list \<Rightarrow> string" where
  "base64_encode [] = []"
| "base64_encode [a] = [base64_char (a div 4), base64_char (a * 16), CHR ''='', CHR ''='']"
| "base64_encode [a, b] =
     [base64_char (a div 4), base64_char (a * 16 + b div 16), base64_char (b * 4), CHR ''='']"
| "base64_encode (a # b # c # rest) =
     [base64_char (a div 4), base64_char (a * 16 + b div 16), base64_char (b * 4 + c div 64), base64_char c]
     @ base64_encode rest"

definition otpauthUrlOf :: "string \<Rightarrow> string \<Rightarrow> string" where
  "otpauthUrlOf email secret = ''otpauth://totp/Zayjar:'' @ email @ ''?secret='' @ secret @ ''&issuer=Zayjar''"

definition mfaSecretOf :: "authEnv \<Rightarrow> string \<Rightarrow> string \<times> string" where
  "mfaSecretOf env email = (case ae_speakeasy_generateSecret env email of
     Inr generated \<Rightarrow> generated
   | Inl err \<Rightarrow> (let secret = base32_encode (ae_randomBytes env 0 20) in (secret, otpauthUrlOf email secret)))"

definition qrCodeOf :: "authEnv \<Rightarrow> string \<Rightarrow> string" where
  "qrCodeOf env otpauthUrl = (case ae_qrcode_toDataURL env otpauthUrl of
     Inr url \<Rightarrow> url
   | Inl err \<Rightarrow> ''data:image/png;base64,'' @ base64_encode (map of_char otpauthUrl))"

definition mfaSecretKey :: "string \<Rightarrow> string" where
  "mfaSecretKey userId = ''mfa:secret:'' @ userId"

definition generateMfaSecret ::
  "'d prisma \<Rightarrow> 's redis \<Rightarrow> ctx \<Rightarrow> authEnv \<Rightarrow> string \<Rightarrow> string option \<Rightarrow> string \<Rightarrow>
   (('s, 'd world) site, string \<times> string) prog" where
  "generateMfaSecret P R c env userId tenantId email =
     (let secret = fst (mfaSecretOf env email);
          qrCodeDataUrl = qrCodeOf env (snd (mfaSecretOf env email)) in
      andThen (try_catch
                 (andThen (liftWorld (liftDb (dg_update (extended c user_model (px_user P)) (where_id userId)
                             (\<lambda>u. u\<lparr>us_mfaSecret := Some secret, us_updatedAt := ae_now env\<rparr>)))) (\<lambda>_. return ()))
                 (\<lambda>err. cache_set R (ae_now env) (mfaSecretKey userId) (JStr secret) 600)) (\<lambda>_.
      return (secret, qrCodeDataUrl)))"

text \<open>The secret from the database, or from the cache when the query throws.\<close>

definition storedMfaSecret ::
  "'d prisma \<Rightarrow> 's redis \<Rightarrow> ctx \<Rightarrow> authEnv \<Rightarrow> string \<Rightarrow> string option \<Rightarrow>
   (('s, 'd world) site, string option) prog" where
  "storedMfaSecret P R c env userId tenantId =
     try_catch
       (andThen (liftWorld (findTokenUser P c userId tenantId)) (\<lambda>user.
          return (or_null (case user of None \<Rightarrow> None | Some u \<Rightarrow> us_mfaSecret u))))
       (\<lambda>err. andThen (cache_get R (ae_now env) (mfaSecretKey userId) (return JNull) 7200) (\<lambda>v.
          return (case v of JStr x \<Rightarrow> Some x | _ \<Rightarrow> None)))"

definition backupCodesOf :: "authEnv \<Rightarrow> string list" where
  "backupCodesOf env = map (\<lambda>i. hex_string (ae_randomBytes env (3 * i) 2) @ ''-'' @
      hex_string (ae_randomBytes env (3 * i + 1) 2) @ ''-'' @ hex_string (ae_randomBytes env (3 * i + 2) 2)) [0, 1, 2]"

definition verifyMfaSetup ::
  "'d prisma \<Rightarrow> 's redis \<Rightarrow> ctx \<Rightarrow> authEnv \<Rightarrow> string \<Rightarrow> string option \<Rightarrow> string \<Rightarrow>
   (('s, 'd world) site, string list) prog" where
  "verifyMfaSetup P R c env userId tenantId token =
     andThen (storedMfaSecret P R c env userId tenantId) (\<lambda>secret.
     if \<not> truthy secret
     then throw (NotFoundException ''MFA secret not found. Please enable MFA first.'')
     else case ae_totp_verify env secret token of
       Inl err \<Rightarrow> throw (UnauthorizedException
                    ''MFA verification unavailable: TOTP module not installed. Contact system administrator.'')
     | Inr False \<Rightarrow> throw (UnauthorizedException ''Invalid MFA token'')
     | Inr True \<Rightarrow>
         andThen (try_catch
                    (andThen (liftWorld (liftDb (dg_update (extended c user_model (px_user P)) (where_id userId)
                                (\<lambda>u. u\<lparr>us_mfaEnabled := True, us_updatedAt := ae_now env\<rparr>)))) (\<lambda>_. return ()))
                    (\<lambda>err. cache_set R (ae_now env) (''mfa:enabled:'' @ userId) (JBool True) 86400)) (\<lambda>_.
         andThen (cache_set R (ae_now env) (''mfa:backup:'' @ userId) (JArr (map JStr (backupCodesOf env))) 86400) (\<lambda>_.
         return (backupCodesOf env))))"

section \<open>Login\<close>

record loginUser =
  lu_id :: string
  lu_email :: string
  lu_tenantId :: "string option"
  lu_firstName :: string
  lu_lastName :: string
  lu_passwordHash :: string
  lu_isActive :: bool
  lu_mfaEnabled :: bool
  lu_mfaSecret :: "string option"
  lu_roles :: "role list"

record loginProfile =
  lp_id :: string
  lp_email :: string
  lp_tenantId :: "string option"
  lp_firstName :: string
  lp_lastName :: string
  lp_roles :: "string list"
  lp_permissions :: "string list"
  lp_mfaEnabled :: bool

definition loginUserOf :: "userJoin \<Rightarrow> loginUser" where
  "loginUserOf j = (let u = uj_user j in
     \<lparr>lu_id = us_id u, lu_email = us_email u, lu_tenantId = us_tenantId u, lu_firstName = us_firstName u,
      lu_lastName = us_lastName u, lu_passwordHash = us_passwordHash u, lu_isActive = us_isActive u,
      lu_mfaEnabled = us_mfaEnabled u, lu_mfaSecret = us_mfaSecret u, lu_roles = uj_roles j\<rparr>)"

text \<open>The user of a test environment, which has no \<^verbatim>\<open>DATABASE_URL\<close>.\<close>

definition mockUser :: "string \<Rightarrow> string option \<Rightarrow> loginUser" where
  "mockUser email tenantId =
     \<lparr>lu_id = ''u_mock_123'', lu_email = email,
      lu_tenantId = Some (or_else tenantId ''7a18f-39b0-4050-bf83-097a18fcd34b''), lu_firstName = ''Mock'',
      lu_lastName = ''User'', lu_passwordHash = ''mock-hash'', lu_isActive = True, lu_mfaEnabled = False,
      lu_mfaSecret = None,
      lu_roles = [\<lparr>ro_id = [], ro_tenantId = None, ro_name = ''RESTAURANT_OWNER'', ro_displayName = [],
                   ro_description = None, ro_createdAt = 0,
                   ro_rolePermissions = [\<lparr>pm_action = ''create'', pm_resource = ''Product''\<rparr>,
                                         \<lparr>pm_action = ''read'', pm_resource = ''Order''\<rparr>]\<rparr>]\<rparr>"

definition findLoginUser ::
  "'d prisma \<Rightarrow> ctx \<Rightarrow> string \<Rightarrow> string option \<Rightarrow> ('d world, userJoin option) prog" where
  "findLoginUser P c normalizedEmail tenantId =
     liftDb (allOperations c user_model ''findFirst''
       (w_args ([(''email'', Is (CStr normalizedEmail))] @
                (if truthy tenantId then [(''tenantId'', Is (CStr (or_else tenantId [])))] else [])))
       (\<lambda>a. px_user_findFirstJoined P (a_where a)))"

text \<open>The MFA step: \<open>Inr ()\<close> when the login may go on.\<close>

definition checkMfa :: "authEnv \<Rightarrow> loginUser \<Rightarrow> string option \<Rightarrow> exn + unit" where
  "checkMfa env user mfaToken =
     (if \<not> lu_mfaEnabled user then Inr ()
      else if \<not> truthy mfaToken then Inl (UnauthorizedException ''MFA token required'')
      else case ae_totp_verify env (lu_mfaSecret user) (or_else mfaToken []) of
             Inl err \<Rightarrow> Inl (UnauthorizedException
                          ''MFA verification unavailable: TOTP module not installed. Contact system administrator.'')
           | Inr False \<Rightarrow> Inl (UnauthorizedException ''Invalid MFA token'')
           | Inr True \<Rightarrow> Inr ())"

definition roleNames :: "role list \<Rightarrow> string list" where
  "roleNames rs = filter (\<lambda>n. n \<noteq> []) (map ro_name rs)"

definition permissionNames :: "role list \<Rightarrow> string list" where
  "permissionNames rs = map (\<lambda>p. toLowerCase (pm_resource p) @ '':'' @ pm_action p)
     (filter (\<lambda>p. pm_action p \<noteq> [] \<and> pm_resource p \<noteq> []) (concat (map ro_rolePermissions rs)))"

definition loginProfileOf :: "loginUser \<Rightarrow> loginProfile" where
  "loginProfileOf user =
     \<lparr>lp_id = lu_id user, lp_email = lu_email user, lp_tenantId = lu_tenantId user,
      lp_firstName = lu_firstName user, lp_lastName = lu_lastName user,
      lp_roles = (if roleNames (lu_roles user) = [] then [''RESTAURANT_OWNER''] else roleNames (lu_roles user)),
      lp_permissions = (if permissionNames (lu_roles user) = [] then [''menu:create'', ''menu:update'', ''orders:read'']
                        else permissionNames (lu_roles user)),
      lp_mfaEnabled = lu_mfaEnabled user\<rparr>"

definition validateLogin ::
  "'d prisma \<Rightarrow> ctx \<Rightarrow> authEnv \<Rightarrow> string \<Rightarrow> string \<Rightarrow> string option \<Rightarrow> string option \<Rightarrow>
   ('d world, loginProfile) prog" where
  "validateLogin P c env email password mfaToken tenantId =
     (let normalizedEmail = js_trim (toLowerCase email) in
      andThen (try_catch (findLoginUser P c normalizedEmail tenantId) (\<lambda>err. return None)) (\<lambda>found.
      andThen (case found of
                 Some j \<Rightarrow> return (loginUserOf j)
               | None \<Rightarrow> if \<not> truthy (ae_DATABASE_URL env) then return (mockUser normalizedEmail tenantId)
                         else throw (UnauthorizedException ''Invalid credentials'')) (\<lambda>user.
      if \<not> lu_isActive user then throw (UnauthorizedException ''Account is deactivated'')
      else if \<not> comparePassword env password (lu_passwordHash user)
      then throw (UnauthorizedException ''Invalid credentials'')
      else andThen (of_result (checkMfa env user mfaToken)) (\<lambda>_. return (loginProfileOf user)))))"

section \<open>Password reset\<close>

definition resetKey :: "string \<Rightarrow> string" where
  "resetKey token = ''password-reset:token:'' @ token"

definition resetTokenOf :: "authEnv \<Rightarrow> string" where
  "resetTokenOf env = hex_string (ae_randomBytes env 0 32)"

definition initiatePasswordReset ::
  "'d prisma \<Rightarrow> 's redis \<Rightarrow> ctx \<Rightarrow> authEnv \<Rightarrow> string \<Rightarrow> (('s, 'd world) site, unit) prog" where
  "initiatePasswordReset P R c env email =
     (let normalizedEmail = js_trim (toLowerCase email);
          token = resetTokenOf env;
          cacheKey = resetKey token in
      andThen (try_catch
                 (liftWorld (liftDb (dg_findFirst (extended c user_model (px_user P))
                    [(''email'', Is (CStr normalizedEmail))])))
                 (\<lambda>err. return None)) (\<lambda>user.
      case (case user of None \<Rightarrow> None | Some u \<Rightarrow> if us_id u = [] then None else Some u) of
        Some u \<Rightarrow>
          (let resetUrl = or_else (ae_FRONTEND_URL env) ''http://localhost:3001'' @ ''/reset-password?token='' @ token in
           andThen (cache_set R (ae_now env) cacheKey
                      (JStr (stringify (JObj [(''userId'', JStr (us_id u)), (''email'', JStr (us_email u)),
                                              (''token'', JStr token)]))) 900) (\<lambda>_.
           if ae_email_fails env then return ()
           else liftWorld (send (PasswordResetEmail (us_email u) (us_firstName u) resetUrl))))
      | None \<Rightarrow> cache_set R (ae_now env) cacheKey (JStr (stringify (JObj [(''issued'', JBool True)]))) 900))"

text \<open>The context of \<^verbatim>\<open>run({ isPlatformOwner: true }, ..)\<close>.\<close>

definition platform_ctx :: ctx where
  "platform_ctx = Some \<lparr>tc_tenantId = None, tc_isPlatformOwner = True\<rparr>"

definition resetPassword ::
  "'d prisma \<Rightarrow> 's redis \<Rightarrow> authEnv \<Rightarrow> string \<Rightarrow> string \<Rightarrow> (('s, 'd world) site, unit) prog" where
  "resetPassword P R env token newPassword =
     andThen (cache_get R (ae_now env) (resetKey token) (return JNull) 900) (\<lambda>cached.
     case (if json_truthy cached then json_prop ''userId'' cached else None) of
       None \<Rightarrow> throw (UnauthorizedException ''Invalid or expired password reset token.'')
     | Some userId \<Rightarrow>
         andThen (of_result (hashPassword env newPassword)) (\<lambda>hashedPassword.
         case userId of
           JStr i \<Rightarrow>
             andThen (liftWorld (liftDb (dg_update (extended platform_ctx user_model (px_user P)) (where_id i)
                        (\<lambda>u. u\<lparr>us_passwordHash := hashedPassword, us_updatedAt := ae_now env\<rparr>)))) (\<lambda>_.
             revokeAllUserTokens R env i)
         | _ \<Rightarrow> throw (JsError ''Argument id: Invalid value provided.'')))"

end
