(* ===== verification/Auth_Correct.thy ===== *)
theory Auth_Correct
  imports Auth_Service
begin

text \<open>
  What the token library promises (\<open>jwt_library\<close>, interpreted on tokens that are printed JSON), and
  what follows for the authentication service: revocation markers, single use of refresh tokens,
  the claims of rotated tokens, and password reset.
\<close>

section \<open>The token library\<close>

text \<open>
  A signed token verifies under its secret until it expires, with the claims it was signed with, and
  under no other secret.
\<close>

locale jwt_library =
  fixes J :: jwtService
  assumes sign_verify: "jw_signAsync J sec ttl now c = Inr tok \<Longrightarrow> now \<le> m \<Longrightarrow> m < now + ttl \<Longrightarrow>
          jw_verifyAsync J sec m tok = Inr (c\<lparr>cl_iat := now, cl_exp := now + ttl\<rparr>)"
    and sign_expires: "jw_signAsync J sec ttl now c = Inr tok \<Longrightarrow> now + ttl \<le> m \<Longrightarrow> \<exists>e. jw_verifyAsync J sec m tok = Inl e"
    and sign_secret: "jw_signAsync J sec ttl now c = Inr tok \<Longrightarrow> sec' \<noteq> sec \<Longrightarrow> \<exists>e. jw_verifyAsync J sec' m tok = Inl e"
    and verify_unexpired: "jw_verifyAsync J sec m tok = Inr c \<Longrightarrow> m < cl_exp c"

text \<open>Tokens that carry their claims and the name of their secret in the clear.\<close>

definition opt_json :: "string option \<Rightarrow> json" where
  "opt_json x = (case x of None \<Rightarrow> JNull | Some s \<Rightarrow> JStr s)"

definition opts_json :: "string list option \<Rightarrow> json" where
  "opts_json x = (case x of None \<Rightarrow> JNull | Some xs \<Rightarrow> JArr (map JStr xs))"

fun json_opt :: "json \<Rightarrow> string option" where
  "json_opt (JStr s) = Some s"
| "json_opt _ = None"

fun json_opts :: "json \<Rightarrow> string list option" where
  "json_opts (JArr vs) = Some (map (\<lambda>v. case v of JStr s \<Rightarrow> s | _ \<Rightarrow> []) vs)"
| "json_opts _ = None"

definition clear_sign :: "string \<Rightarrow> int \<Rightarrow> int \<Rightarrow> claims \<Rightarrow> exn + string" where
  "clear_sign sec ttl now c = Inr (stringify (JArr [JStr sec, JStr (cl_sub c), JStr (cl_email c), opt_json (cl_tenantId c),
     opts_json (cl_roles c), opts_json (cl_permissions c), JNum now, JNum (now + ttl)]))"

definition clear_verify :: "string \<Rightarrow> int \<Rightarrow> string \<Rightarrow> exn + claims" where
  "clear_verify sec m tok = (case json_parse tok of
     Inr (JArr [JStr sec', JStr sub, JStr email, tid, roles, perms, JNum iat, JNum ex]) \<Rightarrow>
       if sec' \<noteq> sec then Inl (JsError ''invalid signature'')
       else if ex \<le> m then Inl (JsError ''jwt expired'')
       else Inr \<lparr>cl_sub = sub, cl_email = email, cl_tenantId = json_opt tid, cl_roles = json_opts roles,
                 cl_permissions = json_opts perms, cl_iat = iat, cl_exp = ex\<rparr>
   | _ \<Rightarrow> Inl (JsError ''jwt malformed''))"

definition clear_jwt :: jwtService where
  "clear_jwt = \<lparr>jw_signAsync = clear_sign, jw_verifyAsync = clear_verify\<rparr>"

lemma json_opt_inverse [simp]: "json_opt (opt_json x) = x"
  by (cases x) (simp_all add: opt_json_def)

lemma json_opts_inverse [simp]: "json_opts (opts_json x) = x"
  by (cases x) (simp_all add: opts_json_def comp_def)

lemma clear_verify_sign:
  "clear_sign sec ttl now c = Inr tok \<Longrightarrow> clear_verify sec' m tok =
     (if sec \<noteq> sec' then Inl (JsError ''invalid signature'') else if now + ttl \<le> m then Inl (JsError ''jwt expired'')
      else Inr (c\<lparr>cl_iat := now, cl_exp := now + ttl\<rparr>))"
  by (auto simp: clear_sign_def clear_verify_def json_parse_stringify)

interpretation clear_jwt: jwt_library clear_jwt
proof
  fix sec m tok c
  assume "jw_verifyAsync clear_jwt sec m tok = Inr c"
  then show "m < cl_exp c"
    by (auto simp: clear_jwt_def clear_verify_def split: sum.splits json.splits list.splits if_splits)
qed (auto simp: clear_jwt_def clear_verify_sign)

section \<open>Revocation markers\<close>

lemma now_seconds_exact:
  assumes "0 \<le> ae_now env" "ae_now env < 2 ^ 53" shows "now_seconds env = ae_now env div 1000"
  using floor_quotient[OF assms, of 1000] by (simp add: now_seconds_def)

lemma revokeAllUserTokens_world: "preserves (\<lambda>s. f (st_world s)) (revokeAllUserTokens R env i)"
  by (auto simp: revokeAllUserTokens_def Let_def intro!: preserves_intros)

context redis_store
begin

text \<open>A revocation that returns has put its cut-off into the store.\<close>

lemma revokeAllUserTokens_Inr:
  assumes "revokeAllUserTokens R env i s = (Inr u, s')" "i \<noteq> []"
  shows "online s' \<and> (ae_now env \<le> m \<longrightarrow>
     view s' m (revocationKey i) = stored (ae_now env) USER_REVOCATION_TTL_SECONDS m (stringify (JNum (now_seconds env + 1))))"
proof -
  have "cache_setStrict R (ae_now env) (revocationKey i) (JNum (now_seconds env + 1)) USER_REVOCATION_TTL_SECONDS s = (Inr True, s')"
    using assms by (auto simp: revokeAllUserTokens_def Let_def throw_apply return_apply elim!: andThen_InrE split: if_splits)
  from cache_setStrict_view[OF this] show ?thesis by simp
qed

lemma getUserRevocationCutoff_hit:
  assumes "online s" "i \<noteq> []" "view s (ae_now env) (revocationKey i) = Some (stringify (JNum n))"
    and "fst (rd_get R (ae_now env) (revocationKey i) (ca_store (st_cache s))) = Inr y"
  shows "\<exists>s'. getUserRevocationCutoff R env i s = (Inr n, s')"
  using cache_get_hit[OF assms(1,3,4), of "return (JNum 0)" USER_REVOCATION_TTL_SECONDS] assms(2)
  by (auto simp: getUserRevocationCutoff_def andThen_def return_def)

section \<open>Refresh tokens\<close>

text \<open>A blacklisted token, and one that does not verify, cannot be rotated.\<close>

lemma rotate_blacklisted:
  assumes "online s" "view s (ae_now env) (''blacklist:token:'' @ tok) = Some (stringify (JBool True))"
    and "fst (rd_get R (ae_now env) (''blacklist:token:'' @ tok) (ca_store (st_cache s))) = Inr y"
  shows "fst (rotateRefreshToken R env tok s) = Inl (UnauthorizedException ''Session refresh has failed. Please log in again.'')"
proof -
  obtain s' where "cache_get R (ae_now env) (''blacklist:token:'' @ tok) (return (JBool False)) 7200 s = (Inr (JBool True), s')"
    using cache_get_hit[OF assms] by blast
  then show ?thesis
    by (auto simp: rotateRefreshToken_def try_catch_def andThen_def of_result_def throw_def Let_def split: sum.splits)
qed

lemma rotateRefreshToken_InrE:
  assumes "rotateRefreshToken R env tok s = (Inr r, s')"
  obtains c b s1 s2 where "jw_verifyAsync (ae_jwt env) (ae_refreshTokenSecret env) (now_seconds env) tok = Inr c"
    "cache_get R (ae_now env) (''blacklist:token:'' @ tok) (return (JBool False)) 7200 s = (Inr b, s1)" "\<not> json_truthy b"
    "cache_set R (ae_now env) (''blacklist:token:'' @ tok) (JBool True) (7 * 24 * 60 * 60) s1 = (Inr (), s')"
    "generateTokens env (cl_sub c) (cl_email c) (or_null (cl_tenantId c)) (opt_list (cl_roles c)) (opt_list (cl_permissions c))
       = Inr (rt_accessToken r, rt_refreshToken r)" "rt_sub r = cl_sub c"
  using assms
  by (auto simp: rotateRefreshToken_def Let_def try_catch_eq_Inr_iff throw_apply
      elim!: andThen_InrE of_result_InrE return_InrE if_throw_InrE)

end

section \<open>Password reset\<close>

context redis_store
begin

text \<open>
  What a reset request leaves under its key is the JSON text of a JSON text, so what a later read
  returns is a string, and a string has no \<^verbatim>\<open>userId\<close>.
\<close>

definition reset_text :: "int \<Rightarrow> string \<Rightarrow> ('s, 'w) site \<Rightarrow> bool" where
  "reset_text now k s \<longleftrightarrow> (\<forall>m x. now \<le> m \<longrightarrow> view s m k = Some x \<longrightarrow> (\<exists>y. x = stringify (JStr y)))"

lemma resetPassword_text:
  assumes "reset_text (ae_now env) (resetKey tok) s"
  shows "fst (resetPassword P R env tok pw s) = Inl (UnauthorizedException ''Invalid or expired password reset token.'')"
proof -
  have "\<exists>v s'. cache_get R (ae_now env) (resetKey tok) (return JNull) 900 s = (Inr v, s') \<and> json_prop ''userId'' v = None"
  proof (cases "online s")
    case False
    then show ?thesis by (simp add: cache_get_def if_online_def return_def)
  next
    case True
    obtain y x where x: "rd_get R (ae_now env) (resetKey tok) (ca_store (st_cache s)) = (y, x)" by force
    note l = liftRedis_apply[of "rd_get R (ae_now env) (resetKey tok)", OF x]
    show ?thesis
    proof (cases y)
      case (Inl e)
      then show ?thesis using True l by (simp add: cache_get_def if_online_def try_catch_def andThen_def return_def)
    next
      case (Inr c)
      show ?thesis
      proof (cases c)
        case None
        then show ?thesis
          using True l Inr cache_set_never_fails[of R "ae_now env" "resetKey tok" JNull 900]
          by (auto simp: cache_get_def if_online_def try_catch_def andThen_def return_def never_fails_def
              split: prod.splits sum.splits)
      next
        case (Some str)
        then obtain z where "str = stringify (JStr z)"
          using assms get_Inr[OF x[unfolded Inr]] unfolding reset_text_def by auto
        then show ?thesis using True l Inr Some json_parse_stringify[of "JStr z"]
          by (simp add: cache_get_def if_online_def try_catch_def andThen_def of_result_def)
      qed
    qed
  qed
  then show ?thesis by (auto simp: resetPassword_def andThen_def throw_def)
qed

end

sublocale redis_store \<subseteq> reset: change "\<lambda>s s'. reset_text now k s \<longrightarrow> reset_text now k s'" for now k
  by unfold_locales blast+

context redis_store
begin

lemma reset_text_set: "along (\<lambda>s s'. reset_text now k s \<longrightarrow> reset_text now k s') (cache_set R now k (JStr x) 900)"
proof (rule alongI, rule impI)
  fix s r s' assume run: "cache_set R now k (JStr x) 900 s = (r, s')" and ok: "reset_text now k s"
  show "reset_text now k s'" unfolding reset_text_def
  proof (intro allI impI)
    fix m y assume m: "now \<le> m" "view s' m k = Some y"
    then consider "view s m k = Some y" | "stored now 900 m (stringify (JStr x)) = Some y"
      using cache_set_view[OF run, of undefined m] by auto
    then show "\<exists>z. y = stringify (JStr z)"
    proof cases
      case 1
      then show ?thesis using ok m(1) unfolding reset_text_def by blast
    next
      case 2
      then show ?thesis by (auto simp: stored_def split: if_splits)
    qed
  qed
qed

lemma reset_text_world: "along (\<lambda>s s'. reset_text now k s \<longrightarrow> reset_text now k s') (liftWorld m)"
  by (rule alongI) (auto simp: reset_text_def elim!: liftWorldE)

lemma initiatePasswordReset_text:
  "along (\<lambda>s s'. reset_text (ae_now env) (resetKey (resetTokenOf env)) s \<longrightarrow> reset_text (ae_now env) (resetKey (resetTokenOf env)) s')
     (initiatePasswordReset P R c env email)"
  unfolding initiatePasswordReset_def Let_def
  by (intro reset.along_intros reset_text_set reset_text_world)

end

section \<open>Login\<close>

text \<open>A query of the extended client that returned has run, in the tenant of the context if it has one.\<close>

lemma allOperations_findFirst_InrE:
  assumes "allOperations c md ''findFirst'' (w_args w) (\<lambda>a. q (a_where a)) s = (Inr x, s')"
  obtains w' where "q w' s = (Inr x, s')"
    "w' = w \<and> (\<not> truthy (ctx_tenantId c) \<or> md_name md \<in> set unscopedModels) \<or>
     w' = AList.update ''tenantId'' (Is (opt_cell (ctx_tenantId c))) w"
  using assms
  by (auto simp: allOperations_def Let_def throw_apply w_args_def unsupportedOperations_def scopedOperations_def
      split: if_splits)

lemma sat_update_other:
  "sat md (AList.update k c w) r \<Longrightarrow> (l, d) \<in> set w \<Longrightarrow> l \<noteq> k \<Longrightarrow> cond_holds d (md_col md l r)"
  by (induction w) (auto simp: sat_def list_all_iff split: if_splits)

lemma sat_mem: "sat md w r \<Longrightarrow> (l, d) \<in> set w \<Longrightarrow> cond_holds d (md_col md l r)"
  by (auto simp: sat_def list_all_iff)

context prisma_client
begin

lemma findLoginUser_Some:
  assumes "findLoginUser P c email tid w = (Inr (Some j), w')"
  shows "w' = w \<and> user_join (T (w_db w)) j \<and> us_email (uj_user j) = email \<and>
         (truthy tid \<and> ctx_tenantId c = tid \<longrightarrow> us_tenantId (uj_user j) = tid)"
proof -
  let ?w = "[(''email'', Is (CStr email))] @ (if truthy tid then [(''tenantId'', Is (CStr (or_else tid [])))] else [])"
  obtain d where d: "allOperations c user_model ''findFirst'' (w_args ?w) (\<lambda>a. px_user_findFirstJoined P (a_where a)) (w_db w)
      = (Inr (Some j), d)" "w' = w\<lparr>w_db := d\<rparr>"
    using assms unfolding findLoginUser_def by (auto elim: liftDb_InrE)
  from d(1) obtain v where v: "px_user_findFirstJoined P v (w_db w) = (Inr (Some j), d)"
    "v = ?w \<and> (\<not> truthy (ctx_tenantId c) \<or> md_name user_model \<in> set unscopedModels) \<or>
     v = AList.update ''tenantId'' (Is (opt_cell (ctx_tenantId c))) ?w"
    by (rule allOperations_findFirst_InrE[of c user_model ?w "px_user_findFirstJoined P"])
  have j: "user_join (T (w_db w)) j" "sat user_model v (uj_user j)" "d = w_db w"
    using userJoin_Some[of v "w_db w" j] userJoin_state[of v "w_db w"] v(1) by auto
  have "cond_holds (Is (CStr email)) (md_col user_model ''email'' (uj_user j))"
    using v(2)
  proof (elim disjE)
    assume "v = ?w \<and> (\<not> truthy (ctx_tenantId c) \<or> md_name user_model \<in> set unscopedModels)"
    then show ?thesis using sat_mem[OF j(2), of "''email''" "Is (CStr email)"] by simp
  next
    assume "v = AList.update ''tenantId'' (Is (opt_cell (ctx_tenantId c))) ?w"
    then show ?thesis using sat_update_other[of user_model "''tenantId''" _ ?w "uj_user j" "''email''" "Is (CStr email)"] j(2) by simp
  qed
  then have "us_email (uj_user j) = email" by (simp add: user_model_def user_col_def)
  moreover have "us_tenantId (uj_user j) = tid" if "truthy tid" "ctx_tenantId c = tid"
  proof -
    have "v = AList.update ''tenantId'' (Is (opt_cell tid)) ?w" using v(2) that by auto
    then have "v = AList.update ''tenantId'' (Is (CStr (or_else tid []))) ?w"
      using that(1) by (cases tid) (simp_all add: opt_cell_def or_else_def)
    from user_md.sat_tenant[OF j(2)[unfolded this]] show ?thesis
      using that(1) by (cases tid) (simp_all add: or_else_def)
  qed
  ultimately show ?thesis using j d(2) by simp
qed

lemma validateLogin_Inr:
  assumes "validateLogin P c env email pw mfaToken tid w = (Inr p, w')" "truthy (ae_DATABASE_URL env)"
  shows "\<exists>j. user_join (T (w_db w)) j \<and> us_email (uj_user j) = js_trim (toLowerCase email) \<and>
     (truthy tid \<and> ctx_tenantId c = tid \<longrightarrow> us_tenantId (uj_user j) = tid) \<and>
     us_isActive (uj_user j) \<and> ae_argon2_verify env (us_passwordHash (uj_user j)) pw = Inr True \<and>
     (us_mfaEnabled (uj_user j) \<longrightarrow> truthy mfaToken \<and>
        ae_totp_verify env (us_mfaSecret (uj_user j)) (or_else mfaToken []) = Inr True) \<and>
     p = loginProfileOf (loginUserOf j) \<and> w_out w' = w_out w"
proof -
  let ?e = "js_trim (toLowerCase email)"
  let ?find = "try_catch (findLoginUser P c ?e tid) (\<lambda>err. return None)"
  obtain found w1 where f: "?find w = (Inr found, w1)"
    using never_fails_try[of "\<lambda>_. return None" "findLoginUser P c ?e tid"] never_fails_return
    unfolding never_fails_def by metis
  have k: "(case found of Some j \<Rightarrow> return (loginUserOf j)
            | None \<Rightarrow> throw (UnauthorizedException ''Invalid credentials'')) w1 = (Inr u, w1) \<longleftrightarrow>
           (\<exists>j. found = Some j \<and> u = loginUserOf j)" for u
    by (auto simp: return_apply throw_apply split: option.splits)
  from assms f obtain u where u: "(case found of Some j \<Rightarrow> return (loginUserOf j)
            | None \<Rightarrow> throw (UnauthorizedException ''Invalid credentials'')) w1 = (Inr u, w1)"
    and ok: "lu_isActive u" "comparePassword env pw (lu_passwordHash u)" "checkMfa env u mfaToken = Inr ()" "p = loginProfileOf u" "w' = w1"
    by (auto simp: validateLogin_def Let_def throw_apply return_apply split: option.splits if_splits
        elim!: andThen_InrE of_result_InrE)
  obtain j where j: "found = Some j" "u = loginUserOf j" using u k by auto
  have "findLoginUser P c ?e tid w = (Inr (Some j), w1)"
    using f j(1) by (auto simp: try_catch_def return_def split: prod.splits sum.splits)
  note found = findLoginUser_Some[OF this]
  have "ae_argon2_verify env (us_passwordHash (uj_user j)) pw = Inr True"
    using ok(2) j(2) by (auto simp: comparePassword_def loginUserOf_def Let_def split: sum.splits)
  moreover have "us_mfaEnabled (uj_user j) \<longrightarrow> truthy mfaToken \<and>
        ae_totp_verify env (us_mfaSecret (uj_user j)) (or_else mfaToken []) = Inr True"
    using ok(3) j(2) by (auto simp: checkMfa_def loginUserOf_def Let_def split: sum.splits if_splits bool.splits)
  ultimately show ?thesis using found ok j by (intro exI[of _ j]) (simp add: loginUserOf_def Let_def)
qed

end

end
