(* ===== verification/Request_Context.thy ===== *)
theory Request_Context
  imports Auth_Correct Order_Service
begin

text \<open>
  How a request gets its tenant and its rights: \<^verbatim>\<open>common/middleware/tenant-context.middleware.ts\<close>,
  \<^verbatim>\<open>auth/strategies/jwt.strategy.ts\<close>, \<^verbatim>\<open>auth/casl-ability.factory.ts\<close> and
  \<^verbatim>\<open>auth/guards/rbac-permission.guard.ts\<close> of \<^verbatim>\<open>apps/api/src\<close>. The matching of rules by
  \<^verbatim>\<open>@casl/ability\<close> is a parameter with its documented semantics.
\<close>

section \<open>The tenant context middleware\<close>

datatype header = OneHeader string | ManyHeaders "string list"

record httpRequest =
  rq_host :: "string option"
  rq_authorization :: "string option"
  rq_xTenantId :: "header option"

text \<open>\<^verbatim>\<open>s.replace(pat, rep)\<close> on strings: the first occurrence.\<close>

fun replace_first :: "string \<Rightarrow> string \<Rightarrow> string \<Rightarrow> string" where
  "replace_first pat rep [] = (if pat = [] then rep else [])"
| "replace_first pat rep (c # cs) =
     (if startsWith (c # cs) pat then rep @ drop (length pat) (c # cs) else c # replace_first pat rep cs)"

text \<open>The second word of an \<^verbatim>\<open>Authorization\<close> header.\<close>

definition bearerToken :: "string \<Rightarrow> string option" where
  "bearerToken h = js_index (split_on (CHR '' '') h) 1"

definition isPlatformOwnerToken :: "authEnv \<Rightarrow> string option \<Rightarrow> bool" where
  "isPlatformOwnerToken env authHeader = (case authHeader of
     None \<Rightarrow> False
   | Some h \<Rightarrow>
       startsWith h ''Bearer '' \<and>
       (case bearerToken h of
          None \<Rightarrow> False
        | Some token \<Rightarrow>
            (case jw_verifyAsync (ae_jwt env) (ae_accessTokenSecret env) (now_seconds env) token of
               Inl err \<Rightarrow> False
             | Inr verified \<Rightarrow> (\<exists>role \<in> set (opt_list (cl_roles verified)). toUpperCase role = ''PLATFORM_OWNER''))))"

definition tenant_json :: "tenant option \<Rightarrow> json" where
  "tenant_json tn = (case tn of None \<Rightarrow> JNull | Some x \<Rightarrow> JStr (tn_id x))"

text \<open>The tenant of a header, a subdomain or a custom domain; cached values are ids or null.\<close>

definition resolveTenant ::
  "'d prisma \<Rightarrow> 's redis \<Rightarrow> authEnv \<Rightarrow> httpRequest \<Rightarrow> (('s, 'd world) site, json) prog" where
  "resolveTenant P R env req =
     (case (case rq_xTenantId req of Some (OneHeader h) \<Rightarrow> if h = [] then None else Some h | _ \<Rightarrow> None) of
        Some headerTenantId \<Rightarrow> return (JStr headerTenantId)
      | None \<Rightarrow>
          (let parsedHost = hd (split_on (CHR '':'') (or_else (rq_host req) [])) in
           if endsWith parsedHost ''.zayjar.com'' \<or> endsWith parsedHost ''.localhost'' then
             (let subdomain = replace_first ''.localhost'' [] (replace_first ''.zayjar.com'' [] parsedHost) in
              if subdomain \<noteq> [] \<and> subdomain \<noteq> ''www'' \<and> subdomain \<noteq> ''api''
              then cache_get R (ae_now env) (''subdomain:'' @ subdomain)
                     (andThen (liftWorld (liftDb (px_tenant_findBySubdomain P subdomain))) (\<lambda>tn. return (tenant_json tn))) 3600
              else return JNull)
           else
             cache_get R (ae_now env) (''custom_domain:'' @ parsedHost)
               (andThen (liftWorld (liftDb (px_tenant_findByCustomDomain P parsedHost))) (\<lambda>tn. return (tenant_json tn))) 3600))"

definition is_http_exn :: "exn \<Rightarrow> bool" where
  "is_http_exn e = (case e of ForbiddenException _ \<Rightarrow> True | NotFoundException _ \<Rightarrow> True | _ \<Rightarrow> False)"

text \<open>The context the rest of the request runs in, and \<^verbatim>\<open>req.tenantId\<close>.\<close>

definition tenantContext_use ::
  "'d prisma \<Rightarrow> 's redis \<Rightarrow> authEnv \<Rightarrow> httpRequest \<Rightarrow> (('s, 'd world) site, ctx \<times> string option) prog" where
  "tenantContext_use P R env req =
     (let isPlatformOwner = isPlatformOwnerToken env (rq_authorization req) in
      try_catch
        (andThen (resolveTenant P R env req) (\<lambda>v.
         let tenantId = json_opt v in
         if \<not> truthy tenantId \<and> \<not> isPlatformOwner
         then throw (ForbiddenException ''Access denied: Missing valid tenant context.'')
         else return (Some \<lparr>tc_tenantId = or_null tenantId, tc_isPlatformOwner = isPlatformOwner\<rparr>, tenantId)))
        (\<lambda>err. if is_http_exn err then throw err
               else throw (NotFoundException ''Unable to resolve active tenant domain context.'')))"

section \<open>The JWT strategy\<close>

record authenticatedUser =
  au_id :: string
  au_email :: string
  au_tenantId :: "string option"
  au_roles :: "string list"
  au_permissions :: "string list"
  au_branches :: "string list option"

definition header_value :: "header option \<Rightarrow> string option" where
  "header_value h = (case h of None \<Rightarrow> None | Some (OneHeader x) \<Rightarrow> Some x
     | Some (ManyHeaders xs) \<Rightarrow> js_index xs 0)"

text \<open>The reconciliation of the verified tenant with the header and the resolved context.\<close>

definition reconcileTenant ::
  "httpRequest \<Rightarrow> string option \<Rightarrow> ctx \<Rightarrow> bool \<Rightarrow> string option \<Rightarrow> exn + ctx" where
  "reconcileTenant req reqTenantId c isPlatformOwner tokenTenant =
     (if \<not> isPlatformOwner \<and> truthy tokenTenant then
        if truthy (header_value (rq_xTenantId req)) \<and> header_value (rq_xTenantId req) \<noteq> tokenTenant
        then Inl (ForbiddenException ''Tenant context mismatch: X-Tenant-ID does not match the authenticated tenant.'')
        else if truthy reqTenantId \<and> reqTenantId \<noteq> tokenTenant
        then Inl (ForbiddenException ''Tenant context mismatch: resolved tenant does not match the authenticated tenant.'')
        else Inr (map_option (\<lambda>store. store\<lparr>tc_tenantId := tokenTenant\<rparr>) c)
      else Inr c)"

definition jwtStrategy_validate ::
  "'s redis \<Rightarrow> authEnv \<Rightarrow> httpRequest \<Rightarrow> string option \<Rightarrow> ctx \<Rightarrow> claims \<Rightarrow>
   (('s, 'w) site, authenticatedUser \<times> ctx) prog" where
  "jwtStrategy_validate R env req reqTenantId c payload =
     andThen (case (if truthy (rq_authorization req) then rq_authorization req else None) of
                None \<Rightarrow> return (JBool False)
              | Some authHeader \<Rightarrow> isTokenBlacklisted R env (case bearerToken authHeader of None \<Rightarrow> ''undefined'' | Some x \<Rightarrow> x))
       (\<lambda>isBlacklisted.
     if json_truthy isBlacklisted
     then throw (UnauthorizedException ''This access token has been revoked or blacklisted.'')
     else
     andThen (getUserRevocationCutoff R env (cl_sub payload)) (\<lambda>revokedAt.
     if 0 < revokedAt \<and> cl_iat payload < revokedAt
     then throw (UnauthorizedException
            ''This access token has been revoked because the account was deactivated or removed.'')
     else case cl_roles payload of
       None \<Rightarrow> throw (JsError ''Cannot read properties of undefined'')
     | Some roles \<Rightarrow>
         andThen (of_result (reconcileTenant req reqTenantId c (''PLATFORM_OWNER'' \<in> set roles) (cl_tenantId payload))) (\<lambda>c'.
         return (\<lparr>au_id = cl_sub payload, au_email = cl_email payload, au_tenantId = cl_tenantId payload,
                  au_roles = roles, au_permissions = opt_list (cl_permissions payload), au_branches = None\<rparr>, c'))))"

section \<open>Abilities\<close>

text \<open>The two kinds of conditions the factory attaches to a rule.\<close>

datatype condition = StatusIs string | BranchNotIn "string list"

record rule =
  ru_inverted :: bool
  ru_action :: string
  ru_subject :: string
  ru_condition :: "condition option"

definition can_rule :: "string \<Rightarrow> string \<Rightarrow> rule" where
  "can_rule action subj = \<lparr>ru_inverted = False, ru_action = action, ru_subject = subj, ru_condition = None\<rparr>"

definition cannot_rule :: "string \<Rightarrow> string \<Rightarrow> condition \<Rightarrow> rule" where
  "cannot_rule action subj c = \<lparr>ru_inverted = True, ru_action = action, ru_subject = subj, ru_condition = Some c\<rparr>"

definition capitalize :: "string \<Rightarrow> string" where
  "capitalize s = (case s of [] \<Rightarrow> [] | c # cs \<Rightarrow> upper_char c # cs)"

definition permissionRules :: "string list \<Rightarrow> rule list" where
  "permissionRules perms = concat (map (\<lambda>permString.
     case split_on (CHR '':'') permString of [resource, action] \<Rightarrow> [can_rule action (capitalize resource)] | _ \<Rightarrow> []) perms)"

definition createForUser :: "authenticatedUser \<Rightarrow> rule list" where
  "createForUser user =
     (if ''PLATFORM_OWNER'' \<in> set (au_roles user) then [can_rule ''manage'' ''all'']
      else
        permissionRules (au_permissions user) @
        (if ''CASHIER'' \<in> set (au_roles user) then [cannot_rule ''update'' ''Order'' (StatusIs ''PAID'')] else []) @
        (if ''BRANCH_MANAGER'' \<in> set (au_roles user) \<and> opt_list (au_branches user) \<noteq> []
         then [cannot_rule ''read'' ''Order'' (BranchNotIn (opt_list (au_branches user))),
               cannot_rule ''update'' ''Product'' (BranchNotIn (opt_list (au_branches user)))] else []) @
        [can_rule ''read'' ''Tenant''])"

text \<open>The fields of a subject, \<^verbatim>\<open>undefined\<close> where it has none.\<close>

type_synonym fields = "string \<Rightarrow> cell option"

fun condition_holds :: "condition \<Rightarrow> fields \<Rightarrow> bool" where
  "condition_holds (StatusIs st) x = (x ''status'' = Some (CStr st))"
| "condition_holds (BranchNotIn bs) x = (\<forall>b \<in> set bs. x ''branchId'' \<noteq> Some (CStr b))"

definition rule_matches :: "string \<Rightarrow> string \<Rightarrow> fields \<Rightarrow> rule \<Rightarrow> bool" where
  "rule_matches action subj x r \<longleftrightarrow>
     (ru_action r = action \<or> ru_action r = ''manage'') \<and> (ru_subject r = subj \<or> ru_subject r = ''all'') \<and>
     (\<forall>c \<in> set_option (ru_condition r). condition_holds c x)"

text \<open>\<^verbatim>\<open>ability.can\<close>: of the rules that match, the one defined last decides; without one the answer is no.\<close>

type_synonym casl = "rule list \<Rightarrow> string \<Rightarrow> string \<Rightarrow> fields \<Rightarrow> bool"

locale casl_ability =
  fixes casl :: casl
  assumes last_rule: "casl rules action subj x =
    (case List.find (rule_matches action subj x) (rev rules) of None \<Rightarrow> False | Some r \<Rightarrow> \<not> ru_inverted r)"

definition last_match :: casl where
  "last_match rules action subj x =
    (case List.find (rule_matches action subj x) (rev rules) of None \<Rightarrow> False | Some r \<Rightarrow> \<not> ru_inverted r)"

interpretation last_match: casl_ability last_match
  by unfold_locales (simp add: last_match_def)

section \<open>The permission guard\<close>

definition hex_char :: "char \<Rightarrow> bool" where
  "hex_char c \<longleftrightarrow> hex_val c \<noteq> None"

definition UUID_PATTERN :: "string \<Rightarrow> bool" where
  "UUID_PATTERN s \<longleftrightarrow>
     map length (split_on (CHR ''-'') s) = [8, 4, 4, 4, 12] \<and> list_all (list_all hex_char) (split_on (CHR ''-'') s)"

record requiredPermission =
  rp_action :: string
  rp_resource :: string

text \<open>The request as the guard sees it: the user, and the path parameters and the body as objects.\<close>

record guardRequest =
  gr_user :: "authenticatedUser option"
  gr_params :: "(string \<times> cell) list"
  gr_body :: "(string \<times> cell) list"

fun cell_truthy :: "cell option \<Rightarrow> bool" where
  "cell_truthy (Some (CStr s)) = (s \<noteq> [])"
| "cell_truthy (Some (CBool b)) = b"
| "cell_truthy (Some (CInt n)) = (n \<noteq> 0)"
| "cell_truthy _ = False"

fun cell_text :: "cell option \<Rightarrow> string" where
  "cell_text (Some (CStr s)) = s"
| "cell_text (Some (CBool b)) = (if b then ''true'' else ''false'')"
| "cell_text (Some (CInt n)) = show_int n"
| "cell_text _ = ''null''"

definition recordIdOf :: "guardRequest \<Rightarrow> cell option" where
  "recordIdOf rq = (if cell_truthy (map_of (gr_params rq) ''id'') then map_of (gr_params rq) ''id''
                    else map_of (gr_body rq) ''id'')"

text \<open>One entry of the registry: a repository, and the fields of the row it finds.\<close>

definition repoLookup ::
  "ctx \<Rightarrow> 'r model \<Rightarrow> ('d, 'r) delegate \<Rightarrow> (string \<Rightarrow> 'r \<Rightarrow> cell) \<Rightarrow> bool \<Rightarrow> string \<Rightarrow> ('d, fields option) prog" where
  "repoLookup c md D col includeSoftDeleted i =
     andThen (if includeSoftDeleted then findByIdIncludingDeleted c md (extended c md D) i
              else findById c md (extended c md D) i)
       (\<lambda>r. return (map_option (\<lambda>x k. Some (col k x)) r))"

definition order_fields :: "string \<Rightarrow> order \<Rightarrow> cell" where
  "order_fields k ord = (if k = ''status'' then CStr (show_status (od_status ord)) else order_col k ord)"

definition tenant_fields :: "tenant \<Rightarrow> fields" where
  "tenant_fields tn = [''id'' \<mapsto> CStr (tn_id tn), ''name'' \<mapsto> CStr (tn_name tn), ''subdomain'' \<mapsto> CStr (tn_subdomain tn)]"

text \<open>The stored row behind an id: by repository, and for a tenant by the client itself.\<close>

definition findRealEntity ::
  "'d prisma \<Rightarrow> ctx \<Rightarrow> string \<Rightarrow> bool \<Rightarrow> string \<Rightarrow> ('d, fields option) prog" where
  "findRealEntity P c resource includeSoftDeleted i =
     (if resource = ''Product'' then repoLookup c product_model (px_product P) product_col includeSoftDeleted i
      else if resource = ''Category'' then repoLookup c category_model (px_category P) category_col includeSoftDeleted i
      else if resource = ''Customer'' then repoLookup c customer_model (px_customer P) customer_col includeSoftDeleted i
      else if resource = ''Restaurant'' then repoLookup c restaurant_model (px_restaurant P) restaurant_col includeSoftDeleted i
      else if resource = ''Order'' then repoLookup c order_model (px_order P) order_fields includeSoftDeleted i
      else if resource = ''Branch'' then repoLookup c branch_model (px_branch P) branch_col includeSoftDeleted i
      else if resource = ''User'' then repoLookup c user_model (px_user P) user_col includeSoftDeleted i
      else if resource = ''Table'' then repoLookup c dining_table_model (px_table P) dining_table_col includeSoftDeleted i
      else if resource = ''Tenant'' then
        andThen (px_tenant_findUnique P i) (\<lambda>r. return (map_option tenant_fields r))
      else return None)"

definition notFoundEntity :: "string \<Rightarrow> string \<Rightarrow> exn" where
  "notFoundEntity resource i =
     NotFoundException (''The requested '' @ resource @ '' with ID ['' @ i @ ''] was not found.'')"

definition canActivate ::
  "'d prisma \<Rightarrow> casl \<Rightarrow> ctx \<Rightarrow> bool \<Rightarrow> requiredPermission option \<Rightarrow> bool \<Rightarrow> guardRequest \<Rightarrow> ('d, bool) prog" where
  "canActivate P casl c isPublic required includeSoftDeleted request =
     (if isPublic then return True
      else case required of
        None \<Rightarrow> return True
      | Some req \<Rightarrow>
      (case gr_user request of
         None \<Rightarrow> throw (UnauthorizedException ''Authentication credentials were not resolved before authorization guards.'')
       | Some user \<Rightarrow>
          (let ability = createForUser user;
               action = rp_action req;
               resource = rp_resource req;
               recordId = recordIdOf request in
           andThen
             (if cell_truthy recordId \<and> action \<in> {''update'', ''delete'', ''read''} then
                if \<not> UUID_PATTERN (cell_text recordId) then throw (notFoundEntity resource (cell_text recordId))
                else andThen (findRealEntity P c resource includeSoftDeleted (cell_text recordId)) (\<lambda>realEntity.
                  case realEntity of
                    None \<Rightarrow> throw (notFoundEntity resource (cell_text recordId))
                  | Some x \<Rightarrow> return x)
              else return (map_of (gr_params request) ++ map_of (gr_body request)))
             (\<lambda>resourceInstance.
                if \<not> casl ability action resource resourceInstance
                then throw (ForbiddenException (''Access Denied: Your credentials lack the mandatory privilege ['' @
                       action @ '' on '' @ resource @ ''].''))
                else return True))))"

section \<open>What the middleware and the strategy establish\<close>

lemma tenantContext_use_InrE:
  assumes "tenantContext_use P R env req s = (Inr (c, rt), s')"
  obtains v where "resolveTenant P R env req s = (Inr v, s')" "rt = json_opt v"
    "c = Some \<lparr>tc_tenantId = or_null rt, tc_isPlatformOwner = isPlatformOwnerToken env (rq_authorization req)\<rparr>"
    "truthy rt \<or> isPlatformOwnerToken env (rq_authorization req)"
  using assms
  by (auto simp: tenantContext_use_def Let_def try_catch_eq_Inr_iff throw_apply
      elim!: andThen_InrE return_InrE if_throw_InrE split: if_splits)

lemma jwtStrategy_validate_InrE:
  assumes "jwtStrategy_validate R env req rt c payload s = (Inr (u, c'), s')"
  obtains roles where "cl_roles payload = Some roles"
    "reconcileTenant req rt c (''PLATFORM_OWNER'' \<in> set roles) (cl_tenantId payload) = Inr c'"
    "u = \<lparr>au_id = cl_sub payload, au_email = cl_email payload, au_tenantId = cl_tenantId payload,
          au_roles = roles, au_permissions = opt_list (cl_permissions payload), au_branches = None\<rparr>"
  using assms unfolding jwtStrategy_validate_def
  by (elim andThen_InrE if_throw_InrE option_throw_InrE of_result_InrE return_InrE) auto

lemma reconcileTenant_tenant:
  assumes "reconcileTenant req rt c owner tid = Inr c'" "\<not> owner" "truthy tid"
  shows "c' = map_option (\<lambda>st. st\<lparr>tc_tenantId := tid\<rparr>) c \<and> (truthy rt \<longrightarrow> rt = tid) \<and>
         (truthy (header_value (rq_xTenantId req)) \<longrightarrow> header_value (rq_xTenantId req) = tid)"
  using assms by (auto simp: reconcileTenant_def split: if_splits)

context redis_store
begin

lemma only_key_blacklisted: "along (only_key (''blacklist:access:'' @ t)) (isTokenBlacklisted R env t)"
  unfolding isTokenBlacklisted_def by (intro only_key_get key.along_return)

lemma never_fails_blacklisted: "never_fails (isTokenBlacklisted R env t)"
  unfolding isTokenBlacklisted_def by (intro cache_get_never_fails never_fails_return)

text \<open>A token whose issue time lies before the cut-off in the store is refused, whatever else it carries.\<close>

lemma validate_revoked:
  assumes on: "online s" and sub: "cl_sub payload \<noteq> []" and n: "0 < n" "cl_iat payload < n"
    and mark: "view s (ae_now env) (revocationKey (cl_sub payload)) = Some (stringify (JNum n))"
    and answers: "\<And>k x. \<exists>y. fst (rd_get R (ae_now env) k x) = Inr y"
  shows "\<exists>msg. fst (jwtStrategy_validate R env req rt c payload s) = Inl (UnauthorizedException msg)"
proof -
  let ?black = "case (if truthy (rq_authorization req) then rq_authorization req else None) of
                None \<Rightarrow> return (JBool False)
              | Some authHeader \<Rightarrow> isTokenBlacklisted R env (case bearerToken authHeader of None \<Rightarrow> ''undefined'' | Some x \<Rightarrow> x)"
  let ?k = "''blacklist:access:'' @ (case rq_authorization req of None \<Rightarrow> [] | Some h \<Rightarrow>
      (case bearerToken h of None \<Rightarrow> ''undefined'' | Some x \<Rightarrow> x))"
  have black: "along (only_key ?k) ?black \<and> never_fails ?black"
  proof (cases "rq_authorization req")
    case None
    then show ?thesis by (simp add: key.along_return never_fails_return)
  next
    case (Some h)
    show ?thesis
    proof (cases "h = []")
      case True
      then show ?thesis using Some by (simp add: key.along_return never_fails_return)
    next
      case False
      then show ?thesis using Some by (simp only: truthy.simps if_True not_False_eq_True option.case
            only_key_blacklisted never_fails_blacklisted simp_thms)
    qed
  qed
  then obtain b s1 where run: "?black s = (Inr b, s1)" unfolding never_fails_def by blast
  note b = run alongD[OF conjunct1[OF black] run]
  have "revocationKey (cl_sub payload) \<noteq> ?k" by (simp add: revocationKey_def)
  then have m1: "online s1" "view s1 (ae_now env) (revocationKey (cl_sub payload)) = Some (stringify (JNum n))"
    using b(2) on mark by (simp_all add: only_key_def)
  obtain y where "fst (rd_get R (ae_now env) (revocationKey (cl_sub payload)) (ca_store (st_cache s1))) = Inr y"
    using answers by blast
  from getUserRevocationCutoff_hit[OF m1(1) sub m1(2) this]
  obtain s2 where g: "getUserRevocationCutoff R env (cl_sub payload) s1 = (Inr n, s2)" by blast
  have "fst (andThen ?black k s) = fst (k b s1)" for k :: "json \<Rightarrow> (('s, 'a) site, authenticatedUser \<times> ctx) prog"
    by (simp add: andThen_def b(1))
  then show ?thesis unfolding jwtStrategy_validate_def using g n by (simp add: andThen_def throw_def)
qed

end

end
