(* ===== verification/Auth_Properties.thy ===== *)
theory Auth_Properties
  imports Request_Context Sample_Data
begin

text \<open>
  Properties of the cache and of authentication: cached reads, revocation of access tokens, single
  use of refresh tokens, login, and password reset. They hold for every Redis client that satisfies
  \<open>redis_store\<close>, every token library that satisfies \<open>jwt_library\<close> and every database client that
  satisfies \<open>prisma_client\<close>; the instances use the ones in memory.
\<close>

section \<open>Samples\<close>

definition sample_site :: "(mem_store, tables world) site" where
  "sample_site = \<lparr>st_cache = \<lparr>ca_redisClient = True, ca_isConnected = True, ca_store = []\<rparr>, st_world = sample_world\<rparr>"

definition sample_auth :: "int \<Rightarrow> authEnv" where
  "sample_auth now = \<lparr>ae_now = now, ae_jwt = clear_jwt, ae_accessTokenSecret = ''a'', ae_refreshTokenSecret = ''r'',
     ae_argon2_hash = (\<lambda>p. Inr (''h:'' @ p)), ae_argon2_verify = (\<lambda>h p. Inr (h = ''h:'' @ p)),
     ae_totp_verify = (\<lambda>sec tok. Inr (sec = Some tok)),
     ae_speakeasy_generateSecret = (\<lambda>email. Inl (JsError ''not installed'')),
     ae_qrcode_toDataURL = (\<lambda>url. Inl (JsError ''not installed'')),
     ae_randomBytes = (\<lambda>i n. replicate n (word_of_nat (7 * i + n))),
     ae_DATABASE_URL = Some ''postgres'', ae_FRONTEND_URL = None, ae_email_fails = False\<rparr>"

definition sample_user :: user where
  "sample_user = \<lparr>us_id = ''u1'', us_tenantId = Some ''t1'', us_firstName = ''Ann'', us_lastName = ''Lee'',
     us_email = ''ann@x.com'', us_passwordHash = ''h:pw'', us_phoneNumber = None, us_isActive = True,
     us_mfaSecret = Some ''123456'', us_mfaEnabled = True, us_lastLoginAt = None, us_createdAt = 0, us_updatedAt = 0,
     us_deletedAt = None, us_userRoles = [''ro1''], us_userBranches = []\<rparr>"

definition sample_role :: role where
  "sample_role = \<lparr>ro_id = ''ro1'', ro_tenantId = Some ''t1'', ro_name = ''CASHIER'', ro_displayName = ''Cashier'',
     ro_description = None, ro_createdAt = 0, ro_rolePermissions = [\<lparr>pm_action = ''read'', pm_resource = ''Order''\<rparr>]\<rparr>"

definition sample_staff :: "tables world" where
  "sample_staff = \<lparr>w_db = sample_tables\<lparr>t_users := [sample_user], t_roles := [sample_role]\<rparr>, w_out = []\<rparr>"

lemma sample_auth_env [simp]:
  "ae_now (sample_auth t) = t" "ae_jwt (sample_auth t) = clear_jwt" "ae_accessTokenSecret (sample_auth t) = ''a''"
  "ae_refreshTokenSecret (sample_auth t) = ''r''"
  by (simp_all add: sample_auth_def)

lemma sample_auth_seconds [simp]: "0 \<le> t \<Longrightarrow> t < 2 ^ 53 \<Longrightarrow> now_seconds (sample_auth t) = t div 1000"
  using now_seconds_exact[of "sample_auth t"] by simp

lemma sample_tokens:
  obtains tok rtok where "generateTokens (sample_auth 1000) ''u1'' ''u@x'' (Some ''t1'') [''OWNER''] [] = Inr (tok, rtok)"
    "\<exists>c. clear_verify ''a'' 300 tok = Inr c" "\<exists>c. clear_verify ''r'' 300 rtok = Inr c"
  by (auto simp: generateTokens_def clear_jwt_def clear_sign_def clear_verify_def accessTokenExpiry_def refreshTokenExpiry_def)

lemma online_sample [simp]: "online sample_site"
  by (simp add: online_def sample_site_def)

section \<open>The cache\<close>

text \<open>Cache-aside is transparent: as long as fetching only reads, and what the store holds under the
  key from now on is what fetching would return, a cached read returns exactly what fetching returns,
  whatever Redis does (offline, slow, failing), leaves the rest of the process as it was, and keeps
  that property of the key.\<close>

theorem cached_read_transparent:
  assumes "redis_store R V" "\<And>s'. st_world s' = st_world s \<Longrightarrow> fetch s' = (r, s')"
    and "\<And>m x. now \<le> m \<Longrightarrow> V (ca_store (st_cache s)) m k = Some x \<Longrightarrow> \<exists>v. r = Inr v \<and> x = stringify v"
    and "cache_get R now k fetch ttl s = (r', s')"
  shows "r' = r \<and> st_world s' = st_world s \<and>
         (now \<le> m \<and> V (ca_store (st_cache s')) m k = Some x \<longrightarrow> (\<exists>v. r = Inr v \<and> x = stringify v))"
proof -
  have "redis_store.coherent V now k r s" using assms(3) unfolding redis_store.coherent_def[OF assms(1)] by blast
  from redis_store.cache_get_transparent[OF assms(1,2) this assms(4), of k undefined] show ?thesis
    unfolding redis_store.coherent_def[OF assms(1)] by blast
qed

theorem cached_read_transparent_witness:
  "fst (cache_get mem_redis 5 ''k'' (return (JBool True)) 60 sample_site) = Inr (JBool True)"
proof -
  obtain r' s' where run: "cache_get mem_redis 5 ''k'' (return (JBool True)) 60 sample_site = (r', s')" by force
  have "r' = Inr (JBool True)"
    by (rule cached_read_transparent[OF mem_redis.redis_store_axioms _ _ run, THEN conjunct1])
      (simp_all add: return_def sample_site_def mem_view_def)
  then show ?thesis by (simp add: run)
qed

text \<open>What is cached is read back: after a write that Redis accepted, a read of the key before it
  expires returns the value written, for every JSON value, without fetching; when its lifetime is
  over the store holds nothing under the key.\<close>

theorem cache_round_trip:
  assumes "redis_store R V" "online s" "now \<le> m" "m < now + 1000 * ttl"
    and "fst (rd_set R now k (stringify v) ttl (ca_store (st_cache s))) = Inr ()"
    and "\<And>x. \<exists>y. fst (rd_get R m k x) = Inr y"
    and "cache_set R now k v ttl s = (Inr (), s1)"
  shows "(\<exists>s2. cache_get R m k fetch ttl' s1 = (Inr v, s2) \<and> st_world s2 = st_world s) \<and>
         V (ca_store (st_cache s1)) (now + 1000 * ttl) k = None"
proof -
  obtain x where x: "rd_set R now k (stringify v) ttl (ca_store (st_cache s)) = (Inr (), x)"
    using assms(5) by (metis prod.collapse)
  have s1: "s1 = s\<lparr>st_cache := (st_cache s)\<lparr>ca_store := x\<rparr>\<rparr>"
    using assms(2,7) liftRedis_apply[of "rd_set R now k (stringify v) ttl", OF x]
    by (simp add: cache_set_def if_online_def try_catch_def)
  have hit: "V (ca_store (st_cache s1)) m k = Some (stringify v)"
    "V (ca_store (st_cache s1)) (now + 1000 * ttl) k = None"
    using redis_store.set_Inr[OF assms(1) x] assms(3,4) by (simp_all add: s1 stored_def)
  obtain y where "fst (rd_get R m k (ca_store (st_cache s1))) = Inr y" using assms(6) by blast
  from redis_store.cache_get_hit[OF assms(1) _ hit(1) this, of fetch ttl'] show ?thesis
    using assms(2) hit(2) by (auto simp: s1)
qed

theorem cache_round_trip_witness:
  "\<exists>s1 s2. cache_set mem_redis 0 ''k'' (JArr [JNum (- 3), JStr ''x'']) 60 sample_site = (Inr (), s1) \<and>
     cache_get mem_redis 59999 ''k'' (throw (JsError ''not asked'')) 60 s1 = (Inr (JArr [JNum (- 3), JStr ''x'']), s2)"
proof -
  obtain u s1 where "cache_set mem_redis 0 ''k'' (JArr [JNum (- 3), JStr ''x'']) 60 sample_site = (Inr u, s1)"
    using cache_set_never_fails[of mem_redis 0 "''k''" "JArr [JNum (- 3), JStr ''x'']" 60] unfolding never_fails_def by blast
  then have run: "cache_set mem_redis 0 ''k'' (JArr [JNum (- 3), JStr ''x'']) 60 sample_site = (Inr (), s1)" by simp
  have "fst (rd_set mem_redis 0 ''k'' x 60 y) = Inr ()" "\<exists>z. fst (rd_get mem_redis m k y) = Inr z" for x y m k
    by (simp_all add: mem_redis_def)
  from cache_round_trip[OF mem_redis.redis_store_axioms _ _ _ this run, of 59999] run show ?thesis
    by (auto simp: online_def sample_site_def)
qed

section \<open>Tokens\<close>

context jwt_library
begin

lemma generateTokens_claims:
  assumes "generateTokens env sub email tid roles perms = Inr (tok, rtok)" "ae_jwt env = J"
  shows "jw_verifyAsync J (ae_accessTokenSecret env) m tok = Inr c \<Longrightarrow> now_seconds env \<le> m \<Longrightarrow>
           c = \<lparr>cl_sub = sub, cl_email = email, cl_tenantId = tid, cl_roles = Some roles, cl_permissions = Some perms,
                cl_iat = now_seconds env, cl_exp = now_seconds env + accessTokenExpiry\<rparr>"
    and "jw_verifyAsync J (ae_refreshTokenSecret env) m rtok = Inr c \<Longrightarrow> now_seconds env \<le> m \<Longrightarrow>
           c = \<lparr>cl_sub = sub, cl_email = email, cl_tenantId = tid, cl_roles = None, cl_permissions = None,
                cl_iat = now_seconds env, cl_exp = now_seconds env + refreshTokenExpiry\<rparr>"
proof -
  let ?a = "\<lparr>cl_sub = sub, cl_email = email, cl_tenantId = tid, cl_roles = Some roles,
              cl_permissions = Some perms, cl_iat = 0, cl_exp = 0\<rparr>"
  let ?r = "\<lparr>cl_sub = sub, cl_email = email, cl_tenantId = tid, cl_roles = None,
              cl_permissions = None, cl_iat = 0, cl_exp = 0\<rparr>"
  have a: "jw_signAsync J (ae_accessTokenSecret env) accessTokenExpiry (now_seconds env) ?a = Inr tok"
    and r: "jw_signAsync J (ae_refreshTokenSecret env) refreshTokenExpiry (now_seconds env) ?r = Inr rtok"
    using assms by (auto simp: generateTokens_def split: sum.splits)
  show "c = \<lparr>cl_sub = sub, cl_email = email, cl_tenantId = tid, cl_roles = Some roles, cl_permissions = Some perms,
                cl_iat = now_seconds env, cl_exp = now_seconds env + accessTokenExpiry\<rparr>"
    if "jw_verifyAsync J (ae_accessTokenSecret env) m tok = Inr c" "now_seconds env \<le> m"
    using sign_verify[OF a that(2)] sign_expires[OF a, of m] that(1) by (cases "m < now_seconds env + accessTokenExpiry") auto
  show "c = \<lparr>cl_sub = sub, cl_email = email, cl_tenantId = tid, cl_roles = None, cl_permissions = None,
                cl_iat = now_seconds env, cl_exp = now_seconds env + refreshTokenExpiry\<rparr>"
    if "jw_verifyAsync J (ae_refreshTokenSecret env) m rtok = Inr c" "now_seconds env \<le> m"
    using sign_verify[OF r that(2)] sign_expires[OF r, of m] that(1) by (cases "m < now_seconds env + refreshTokenExpiry") auto
qed

end

text \<open>An access token issued before a revocation cannot outlive the marker the revocation left.\<close>

lemma token_refused_after_revocation:
  assumes "redis_store R V" "jwt_library J"
    and issued: "generateTokens env0 i email tid roles perms = Inr (tok, rtok)" "ae_jwt env0 = J"
    and revoked: "revokeAllUserTokens R env1 i s1 = (Inr (), s2)" "i \<noteq> []"
    and times: "0 \<le> ae_now env0" "ae_now env0 \<le> ae_now env1" "ae_now env1 \<le> ae_now env2" "ae_now env2 < 2 ^ 53"
    and used: "jw_verifyAsync J (ae_accessTokenSecret env0) (now_seconds env2) tok = Inr payload"
    and kept: "online s3" "V (ca_store (st_cache s3)) (ae_now env2) (revocationKey i)
                  = V (ca_store (st_cache s2)) (ae_now env2) (revocationKey i)"
    and answers: "\<And>k x. \<exists>y. fst (rd_get R (ae_now env2) k x) = Inr y"
  shows "\<exists>msg. fst (jwtStrategy_validate R env2 req rt c payload s3) = Inl (UnauthorizedException msg)"
proof -
  have sec: "now_seconds env0 = ae_now env0 div 1000" "now_seconds env1 = ae_now env1 div 1000"
    "now_seconds env2 = ae_now env2 div 1000"
    using times by (simp_all add: now_seconds_exact)
  have mono: "now_seconds env0 \<le> now_seconds env1" "now_seconds env0 \<le> now_seconds env2" "0 \<le> now_seconds env1"
    using times by (simp_all add: sec zdiv_mono1 pos_imp_zdiv_nonneg_iff)
  note claims = jwt_library.generateTokens_claims(1)[OF assms(2) issued used mono(2)]
  have "now_seconds env2 < now_seconds env0 + 900"
    using jwt_library.verify_unexpired[OF assms(2) used] by (simp add: claims accessTokenExpiry_def)
  then have "ae_now env2 < ae_now env1 + 1000 * USER_REVOCATION_TTL_SECONDS"
    using times by (simp add: sec USER_REVOCATION_TTL_SECONDS_def)
  then have mark: "V (ca_store (st_cache s3)) (ae_now env2) (revocationKey (cl_sub payload))
      = Some (stringify (JNum (now_seconds env1 + 1)))"
    using redis_store.revokeAllUserTokens_Inr[OF assms(1) revoked, of "ae_now env2"] kept(2) times(3)
    by (simp add: claims stored_def)
  show ?thesis
    by (rule redis_store.validate_revoked[OF assms(1) kept(1) _ _ _ mark answers])
      (use revoked(2) mono in \<open>simp_all add: claims\<close>)
qed



lemma rotate_unverified:
  "jw_verifyAsync (ae_jwt env) (ae_refreshTokenSecret env) (now_seconds env) tok = Inl e \<Longrightarrow>
   fst (rotateRefreshToken R env tok s) = Inl (UnauthorizedException ''Session refresh has failed. Please log in again.'')"
  by (simp add: rotateRefreshToken_def try_catch_def andThen_def of_result_def throw_def)

context redis_store
begin

text \<open>A rotation leaves the token on the blacklist for seven days, when Redis takes the write.\<close>

lemma rotate_blacklists:
  assumes "rotateRefreshToken R env tok s = (Inr r, s')" "online s" "ae_now env \<le> m"
    and accepts: "\<And>k x ttl st. 0 < ttl \<Longrightarrow> fst (rd_set R (ae_now env) k x ttl st) = Inr ()"
  shows "view s' m (''blacklist:token:'' @ tok) = stored (ae_now env) (7 * 24 * 60 * 60) m (stringify (JBool True))"
proof -
  let ?k = "''blacklist:token:'' @ tok"
  obtain b s1 where get: "cache_get R (ae_now env) ?k (return (JBool False)) 7200 s = (Inr b, s1)"
    and set: "cache_set R (ae_now env) ?k (JBool True) (7 * 24 * 60 * 60) s1 = (Inr (), s')"
    using assms(1) by (auto elim: rotateRefreshToken_InrE)
  have on: "online s1" using alongD[OF only_key_get[OF key.along_return] get] assms(2) by (simp add: only_key_def)
  obtain x where x: "rd_set R (ae_now env) ?k (stringify (JBool True)) (7 * 24 * 60 * 60) (ca_store (st_cache s1)) = (Inr (), x)"
    using accepts[of "7 * 24 * 60 * 60" ?k "stringify (JBool True)" "ca_store (st_cache s1)"]
    by (cases "rd_set R (ae_now env) ?k (stringify (JBool True)) (7 * 24 * 60 * 60) (ca_store (st_cache s1))") simp
  have "s' = s1\<lparr>st_cache := (st_cache s1)\<lparr>ca_store := x\<rparr>\<rparr>"
    using on set liftRedis_apply[of "rd_set R (ae_now env) ?k (stringify (JBool True)) (7 * 24 * 60 * 60)", OF x]
    by (simp add: cache_set_def if_online_def try_catch_def)
  then show ?thesis using set_Inr[OF x assms(3)] by simp
qed

end



text \<open>A session loses its rights when it is refreshed: a refresh token carries no roles and no
  permissions, so the access token a rotation returns for it verifies with the same user and tenant but
  with none either, and the abilities built from it are those of a user without any permission, who may
  do nothing but read tenants.\<close>

theorem rotation_drops_rights:
  assumes "redis_store R V" "jwt_library J"
    and issued: "generateTokens env0 i email tid roles perms = Inr (tok, rtok)"
    and envs: "ae_jwt env0 = J" "ae_jwt env1 = J" "ae_refreshTokenSecret env1 = ae_refreshTokenSecret env0"
    and times: "0 \<le> ae_now env0" "ae_now env0 \<le> ae_now env1" "ae_now env1 < 2 ^ 53" "now_seconds env1 \<le> m"
    and rotation: "rotateRefreshToken R env1 rtok s1 = (Inr r, s2)"
    and used: "jw_verifyAsync J (ae_accessTokenSecret env1) m (rt_accessToken r) = Inr c"
    and user: "jwtStrategy_validate R' env2 req rt ctxt c s3 = (Inr (u, ctxt'), s4)"
  shows "cl_sub c = i \<and> cl_tenantId c = or_null tid \<and> cl_roles c = Some [] \<and> cl_permissions c = Some [] \<and>
         createForUser u = [can_rule ''read'' ''Tenant'']"
proof -
  obtain d where d: "jw_verifyAsync J (ae_refreshTokenSecret env0) (now_seconds env1) rtok = Inr d"
    and gen: "generateTokens env1 (cl_sub d) (cl_email d) (or_null (cl_tenantId d)) (opt_list (cl_roles d)) (opt_list (cl_permissions d))
       = Inr (rt_accessToken r, rt_refreshToken r)"
    using redis_store.rotateRefreshToken_InrE[OF assms(1) rotation] envs by metis
  have "now_seconds env0 \<le> now_seconds env1" using times by (simp add: now_seconds_exact zdiv_mono1)
  note d = jwt_library.generateTokens_claims(2)[OF assms(2) issued envs(1) d this]
  note c = jwt_library.generateTokens_claims(1)[OF assms(2) gen envs(2) used times(4)]
  have "cl_sub c = i \<and> cl_tenantId c = or_null tid \<and> cl_roles c = Some [] \<and> cl_permissions c = Some []"
    by (simp add: c d opt_list_def)
  moreover from user obtain rs where "cl_roles c = Some rs" "au_roles u = rs" "au_permissions u = opt_list (cl_permissions c)"
    by (rule jwtStrategy_validate_InrE) simp
  ultimately show ?thesis by (simp add: createForUser_def permissionRules_def opt_list_def)
qed

theorem rotation_drops_rights_witness:
  "\<exists>tok rtok r s2 c u ctxt' s4. generateTokens (sample_auth 1000) ''u1'' ''u@x'' (Some ''t1'') [''OWNER''] [] = Inr (tok, rtok) \<and>
     rotateRefreshToken mem_redis (sample_auth 300000) rtok sample_site = (Inr r, s2) \<and>
     jw_verifyAsync clear_jwt ''a'' 400 (rt_accessToken r) = Inr c \<and>
     jwtStrategy_validate mem_redis (sample_auth 400000)
        \<lparr>rq_host = None, rq_authorization = None, rq_xTenantId = None\<rparr> None None c sample_site = (Inr (u, ctxt'), s4) \<and>
     createForUser u = [can_rule ''read'' ''Tenant'']"
proof -
  obtain tok rtok where gen: "generateTokens (sample_auth 1000) ''u1'' ''u@x'' (Some ''t1'') [''OWNER''] [] = Inr (tok, rtok)"
    and pay: "\<exists>c. clear_verify ''r'' 300 rtok = Inr c" by (rule sample_tokens)
  then obtain r s2 c where rot: "rotateRefreshToken mem_redis (sample_auth 300000) rtok sample_site = (Inr r, s2)"
    and c: "jw_verifyAsync clear_jwt ''a'' 400 (rt_accessToken r) = Inr c" and roles: "\<exists>rs. cl_roles c = Some rs"
    by (auto simp: rotateRefreshToken_def try_catch_def andThen_def of_result_def Let_def cache_get_def cache_set_def if_online_def
        liftRedis_def mem_redis_def mem_view_def sample_site_def online_def return_def generateTokens_def clear_jwt_def clear_sign_def
        clear_verify_def accessTokenExpiry_def)
  have rec: "reconcileTenant \<lparr>rq_host = None, rq_authorization = None, rq_xTenantId = None\<rparr> None None b t = Inr None" for b t
    by (simp add: reconcileTenant_def header_value_def)
  have cut: "\<exists>s'. getUserRevocationCutoff mem_redis (sample_auth 400000) i sample_site = (Inr 0, s')" for i
    by (cases "i = []") (simp_all add: getUserRevocationCutoff_def andThen_def return_def cache_get_def cache_set_def if_online_def
        try_catch_def liftRedis_def mem_redis_def mem_view_def sample_site_def online_def USER_REVOCATION_TTL_SECONDS_def)
  obtain u ctxt' s4 where val: "jwtStrategy_validate mem_redis (sample_auth 400000)
        \<lparr>rq_host = None, rq_authorization = None, rq_xTenantId = None\<rparr> None None c sample_site = (Inr (u, ctxt'), s4)"
    using roles cut[of "cl_sub c"] by (auto simp: jwtStrategy_validate_def andThen_def return_def of_result_def rec)
  have "createForUser u = [can_rule ''read'' ''Tenant'']"
    by (rule rotation_drops_rights[OF mem_redis.redis_store_axioms clear_jwt.jwt_library_axioms gen _ _ _ _ _ _ _ rot _ val,
          of 400, THEN conjunct2, THEN conjunct2, THEN conjunct2, THEN conjunct2])
      (use c in simp_all)
  then show ?thesis using gen rot c val by blast
qed

section \<open>Password reset and login\<close>

text \<open>Password reset never succeeds: whatever a reset request stored under its token, presenting that
  token afterwards is refused as invalid, at any later time and for any new password. (The service
  stores the text of a JSON document through a cache that serialises again, and reads back a string.)\<close>

theorem password_reset_never_succeeds:
  assumes "redis_store R V"
    and fresh: "\<And>m. ae_now env \<le> m \<Longrightarrow> V (ca_store (st_cache s)) m (resetKey (resetTokenOf env)) = None"
    and request: "initiatePasswordReset P R c env email s = (r, s1)"
    and kept: "\<And>m. V (ca_store (st_cache s2)) m (resetKey (resetTokenOf env)) = V (ca_store (st_cache s1)) m (resetKey (resetTokenOf env))"
    and later: "ae_now env \<le> ae_now env'"
  shows "fst (resetPassword P' R env' (resetTokenOf env) newPassword s2)
           = Inl (UnauthorizedException ''Invalid or expired password reset token.'')"
proof -
  have "redis_store.reset_text V (ae_now env) (resetKey (resetTokenOf env)) s"
    using fresh by (simp add: redis_store.reset_text_def[OF assms(1)])
  then have "redis_store.reset_text V (ae_now env) (resetKey (resetTokenOf env)) s1"
    using alongD[OF redis_store.initiatePasswordReset_text[OF assms(1)] request] by blast
  then have "redis_store.reset_text V (ae_now env') (resetKey (resetTokenOf env)) s2"
    unfolding redis_store.reset_text_def[OF assms(1)] kept using later order_trans by blast
  then show ?thesis by (rule redis_store.resetPassword_text[OF assms(1)])
qed

theorem password_reset_never_succeeds_witness:
  "\<exists>r s1. initiatePasswordReset mem_prisma mem_redis None (sample_auth 0) ''a@b.c'' sample_site = (r, s1) \<and>
     fst (resetPassword mem_prisma mem_redis (sample_auth 60000) (resetTokenOf (sample_auth 0)) ''pw'' s1)
       = Inl (UnauthorizedException ''Invalid or expired password reset token.'')"
proof -
  obtain r s1 where run: "initiatePasswordReset mem_prisma mem_redis None (sample_auth 0) ''a@b.c'' sample_site = (r, s1)" by force
  from password_reset_never_succeeds[OF mem_redis.redis_store_axioms _ run refl, of "sample_auth 60000"]
  show ?thesis using run by (auto simp: sample_site_def mem_view_def)
qed

text \<open>C13. Login is sound: with a database configured, a login that returns found a stored user with the
  normalised e-mail (in the tenant asked for, when that is the tenant of the request), who is active, whose
  stored hash verifies against the password and whose second factor verifies when it is enabled; the profile
  is that user's. Its roles are the stored ones, or \<^verbatim>\<open>RESTAURANT_OWNER\<close> for a user without any.\<close>

theorem login_sound:
  assumes "prisma_client P T" "truthy (ae_DATABASE_URL env)"
    and "validateLogin P c env email pw mfaToken tid w = (Inr p, w')"
  shows "\<exists>j. user_join (T (w_db w)) j \<and> us_email (uj_user j) = js_trim (toLowerCase email) \<and>
     (truthy tid \<and> ctx_tenantId c = tid \<longrightarrow> us_tenantId (uj_user j) = tid) \<and>
     us_isActive (uj_user j) \<and> ae_argon2_verify env (us_passwordHash (uj_user j)) pw = Inr True \<and>
     (us_mfaEnabled (uj_user j) \<longrightarrow> truthy mfaToken \<and>
        ae_totp_verify env (us_mfaSecret (uj_user j)) (or_else mfaToken []) = Inr True) \<and>
     lp_id p = us_id (uj_user j) \<and> lp_tenantId p = us_tenantId (uj_user j) \<and>
     lp_roles p = (if roleNames (uj_roles j) = [] then [''RESTAURANT_OWNER''] else roleNames (uj_roles j)) \<and>
     w_out w' = w_out w"
proof -
  from prisma_client.validateLogin_Inr[OF assms(1,3,2)] show ?thesis
    by (elim exE conjE) (rule exI, intro conjI, assumption+, simp_all add: loginProfileOf_def loginUserOf_def Let_def)
qed

theorem login_sound_witness:
  "\<exists>p w'. validateLogin mem_prisma (tenant_ctx ''t1'') (sample_auth 0) '' Ann@X.com '' ''pw'' (Some ''123456'') None sample_staff
       = (Inr p, w') \<and> lp_id p = ''u1'' \<and> set (lp_roles p) = {''CASHIER''}"
proof -
  let ?m = "validateLogin mem_prisma (tenant_ctx ''t1'') (sample_auth 0) '' Ann@X.com '' ''pw'' (Some ''123456'') None"
  obtain r w' where run: "?m sample_staff = (r, w')" by force
  have "case fst (?m sample_staff) of Inl _ \<Rightarrow> False | Inr p \<Rightarrow> True" by code_simp
  then obtain p where r: "r = Inr p" using run by (cases r) auto
  have "truthy (ae_DATABASE_URL (sample_auth 0))" by (simp add: sample_auth_def)
  from login_sound[OF mem.prisma_client_axioms this run[unfolded r]]
  obtain j where j: "user_join (w_db sample_staff) j" "lp_id p = us_id (uj_user j)"
    "lp_roles p = (if roleNames (uj_roles j) = [] then [''RESTAURANT_OWNER''] else roleNames (uj_roles j))" by blast
  have users: "t_users (w_db sample_staff) = [sample_user]" "t_roles (w_db sample_staff) = [sample_role]"
    by (simp_all add: sample_staff_def)
  then have "uj_user j = sample_user" using j(1) by (simp add: user_join_def)
  moreover have "ro_id sample_role \<in> set (us_userRoles sample_user)" by (simp add: sample_role_def sample_user_def)
  ultimately have u: "uj_user j = sample_user" "set (uj_roles j) = {sample_role}"
    using j(1) users(2) unfolding user_join_def user_roles_def by auto
  from u(2) have "set (roleNames (uj_roles j)) = {''CASHIER''}" by (simp add: roleNames_def sample_role_def)
  then have "set (lp_roles p) = {''CASHIER''}" using j(3) by (metis list.set(1) insert_not_empty)
  moreover have "lp_id p = ''u1''" using j(2) u(1) by (simp add: sample_user_def)
  ultimately show ?thesis using run r by blast
qed

section \<open>MFA secrets\<close>

text \<open>The hand-written base-32 encoder of the MFA secret, which shifts bytes through a 32-bit buffer,
  computes what RFC 4648 prescribes without padding: the bits of the input in groups of five, the last one
  filled with zeros, each as its letter; a secret of \<open>n\<close> bytes has \<open>\<lceil>8 n / 5\<rceil>\<close> letters.\<close>

theorem base32_fallback_correct:
  "base32_encode bytes = groups5 (concat (map byte_bits bytes)) \<and>
   length (base32_encode bytes) = (8 * length bytes + 4) div 5"
  by (rule conjI[OF base32_encode_ref length_base32])

end
