(* ===== verification/Access_Properties.thy ===== *)
theory Access_Properties
  imports Request_Context Auth_Properties
begin

text \<open>
  Properties of the way a request gets its tenant and its rights: the tenant context after the
  middleware and the JWT strategy, and what the permission guard lets through.
\<close>

section \<open>The tenant of a request\<close>

text \<open>C14. The tenant of the verified token decides: when a request of a user who is not a platform owner has
  passed the middleware and the JWT strategy, and the token names a tenant, the rest of the request runs
  in exactly that tenant, and neither the header nor the resolved domain named another one. A token
  without a tenant, however, leaves the context as the middleware made it, so a tenant header the
  client chose is the tenant of the request.\<close>

theorem request_runs_in_token_tenant:
  assumes "tenantContext_use P R env req s = (Inr (c, rt), s1)"
    and "jwtStrategy_validate R env req rt c payload s1 = (Inr (u, c'), s2)"
    and "''PLATFORM_OWNER'' \<notin> set (opt_list (cl_roles payload))"
  shows "au_id u = cl_sub payload \<and> au_tenantId u = cl_tenantId payload \<and>
    (truthy (cl_tenantId payload) \<longrightarrow> ctx_tenantId c' = cl_tenantId payload \<and> (truthy rt \<longrightarrow> rt = cl_tenantId payload) \<and>
       (truthy (header_value (rq_xTenantId req)) \<longrightarrow> header_value (rq_xTenantId req) = cl_tenantId payload)) \<and>
    (\<not> truthy (cl_tenantId payload) \<longrightarrow> c' = c \<and>
       (rq_xTenantId req = Some (OneHeader h) \<and> h \<noteq> [] \<longrightarrow> ctx_tenantId c' = Some h))"
proof -
  from assms(1) obtain v where v: "resolveTenant P R env req s = (Inr v, s1)" "rt = json_opt v"
    "c = Some \<lparr>tc_tenantId = or_null rt, tc_isPlatformOwner = isPlatformOwnerToken env (rq_authorization req)\<rparr>"
    by (rule tenantContext_use_InrE)
  from assms(2) obtain roles where roles: "cl_roles payload = Some roles"
    and rec: "reconcileTenant req rt c (''PLATFORM_OWNER'' \<in> set roles) (cl_tenantId payload) = Inr c'"
    and u: "au_id u = cl_sub payload" "au_tenantId u = cl_tenantId payload"
    by (rule jwtStrategy_validate_InrE) simp
  have no: "''PLATFORM_OWNER'' \<notin> set roles" using assms(3) roles by (simp add: opt_list_def)
  have "ctx_tenantId c' = Some h" if "\<not> truthy (cl_tenantId payload)" "rq_xTenantId req = Some (OneHeader h)" "h \<noteq> []"
    using that rec v by (auto simp: reconcileTenant_def resolveTenant_def return_def or_null_def ctx_tenantId_def)
  moreover have "c' = c" if "\<not> truthy (cl_tenantId payload)" using that rec by (simp add: reconcileTenant_def)
  moreover have "ctx_tenantId (map_option (\<lambda>st. st\<lparr>tc_tenantId := x\<rparr>) c) = x" for x by (simp add: v(3) ctx_tenantId_def)
  ultimately show ?thesis using u reconcileTenant_tenant[OF rec no] by auto
qed

definition sample_request :: "string \<Rightarrow> httpRequest" where
  "sample_request t = \<lparr>rq_host = Some ''api.zayjar.com'', rq_authorization = Some ''Bearer x'', rq_xTenantId = Some (OneHeader t)\<rparr>"

definition sample_claims :: "string option \<Rightarrow> claims" where
  "sample_claims t = \<lparr>cl_sub = ''u1'', cl_email = ''ann@x.com'', cl_tenantId = t, cl_roles = Some [''CASHIER''],
     cl_permissions = Some [''order:update''], cl_iat = 0, cl_exp = 900\<rparr>"

theorem request_runs_in_token_tenant_witness:
  "(\<exists>c rt s1 u c' s2. tenantContext_use mem_prisma mem_redis (sample_auth 0) (sample_request ''t1'') sample_site = (Inr (c, rt), s1) \<and>
      jwtStrategy_validate mem_redis (sample_auth 0) (sample_request ''t1'') rt c (sample_claims (Some ''t1'')) s1 = (Inr (u, c'), s2) \<and>
      ctx_tenantId c' = Some ''t1'') \<and>
   (\<exists>c rt s1 u c' s2. tenantContext_use mem_prisma mem_redis (sample_auth 0) (sample_request ''t2'') sample_site = (Inr (c, rt), s1) \<and>
      jwtStrategy_validate mem_redis (sample_auth 0) (sample_request ''t2'') rt c (sample_claims None) s1 = (Inr (u, c'), s2) \<and>
      ctx_tenantId c' = Some ''t2'')"
proof -
  let ?m = "\<lambda>t tt. andThen (tenantContext_use mem_prisma mem_redis (sample_auth 0) (sample_request t)) (\<lambda>(c, rt).
      jwtStrategy_validate mem_redis (sample_auth 0) (sample_request t) rt c (sample_claims tt))"
  have run: "\<exists>c rt s1 u c' s2. tenantContext_use mem_prisma mem_redis (sample_auth 0) (sample_request t) sample_site = (Inr (c, rt), s1) \<and>
      jwtStrategy_validate mem_redis (sample_auth 0) (sample_request t) rt c (sample_claims tt) s1 = (Inr (u, c'), s2)"
    if ok: "case fst (?m t tt sample_site) of Inl _ \<Rightarrow> False | Inr _ \<Rightarrow> True" for t tt
  proof -
    obtain r s2 where m: "?m t tt sample_site = (r, s2)" by force
    then obtain x where "r = Inr x" using ok by (cases r) auto
    then show ?thesis using m by (cases x) (force elim: andThen_InrE)
  qed
  have no: "''PLATFORM_OWNER'' \<notin> set (opt_list (cl_roles (sample_claims tt)))" for tt by (simp add: sample_claims_def opt_list_def)
  have 1: "case fst (?m ''t1'' (Some ''t1'') sample_site) of Inl _ \<Rightarrow> False | Inr _ \<Rightarrow> True" by code_simp
  have 2: "case fst (?m ''t2'' None sample_site) of Inl _ \<Rightarrow> False | Inr _ \<Rightarrow> True" by code_simp
  have claims: "cl_tenantId (sample_claims tt) = tt" "rq_xTenantId (sample_request t) = Some (OneHeader t)" for tt t
    by (simp_all add: sample_claims_def sample_request_def)
  have "ctx_tenantId c' = Some ''t1''"
    if "tenantContext_use mem_prisma mem_redis (sample_auth 0) (sample_request ''t1'') sample_site = (Inr (c, rt), s1)"
      "jwtStrategy_validate mem_redis (sample_auth 0) (sample_request ''t1'') rt c (sample_claims (Some ''t1'')) s1 = (Inr (u, c'), s2)"
    for c rt s1 u c' s2
    using request_runs_in_token_tenant[OF that no] by (simp add: claims)
  moreover have "ctx_tenantId c' = Some ''t2''"
    if "tenantContext_use mem_prisma mem_redis (sample_auth 0) (sample_request ''t2'') sample_site = (Inr (c, rt), s1)"
      "jwtStrategy_validate mem_redis (sample_auth 0) (sample_request ''t2'') rt c (sample_claims None) s1 = (Inr (u, c'), s2)"
    for c rt s1 u c' s2
    using request_runs_in_token_tenant[OF that no, of "''t2''"] by (auto simp: claims)
  ultimately show ?thesis using run[OF 1] run[OF 2] by blast
qed

section \<open>The permission guard\<close>

context tenant_repository
begin

lemma repoLookup_Some:
  assumes "t \<noteq> []" "repoLookup (tenant_ctx t) md D col incl i s = (Inr (Some x), s')"
    and "\<And>r. col ''id'' r = CStr (md_id md r)" "\<And>r. col ''tenantId'' r = opt_cell (md_tenant md r)"
  shows "s' = s \<and> x ''id'' = Some (CStr i) \<and> x ''tenantId'' = Some (CStr t)"
proof -
  obtain r where r: "(if incl then findByIdIncludingDeleted (tenant_ctx t) md (extended (tenant_ctx t) md D) i
        else findById (tenant_ctx t) md (extended (tenant_ctx t) md D) i) s = (Inr (Some r), s')" "x = (\<lambda>k. Some (col k r))"
    using assms(2) by (auto simp: repoLookup_def elim!: andThen_InrE return_InrE dest!: sym[of "Some _" "map_option _ _"])
  then have "s' = s \<and> md_id md r = i \<and> md_tenant md r = Some t"
    using findById_Some[OF assms(1), of i s r s'] findByIdIncludingDeleted_Some[OF assms(1), of i s r s'] by (cases incl) auto
  then show ?thesis using assms(3,4) r(2) by (simp add: opt_cell_def)
qed

end

context prisma_client
begin

lemma findRealEntity_Some:
  assumes t: "t \<noteq> []" and find: "findRealEntity P (tenant_ctx t) resource incl i d = (Inr (Some x), d')" and "resource \<noteq> ''Tenant''"
  shows "d' = d \<and> x ''id'' = Some (CStr i) \<and> x ''tenantId'' = Some (CStr t)"
proof -
  have cols: "product_col ''id'' r1 = CStr (md_id product_model r1)" "product_col ''tenantId'' r1 = opt_cell (md_tenant product_model r1)"
    "category_col ''id'' r2 = CStr (md_id category_model r2)" "category_col ''tenantId'' r2 = opt_cell (md_tenant category_model r2)"
    "customer_col ''id'' r3 = CStr (md_id customer_model r3)" "customer_col ''tenantId'' r3 = opt_cell (md_tenant customer_model r3)"
    "restaurant_col ''id'' r4 = CStr (md_id restaurant_model r4)" "restaurant_col ''tenantId'' r4 = opt_cell (md_tenant restaurant_model r4)"
    "order_fields ''id'' r5 = CStr (md_id order_model r5)" "order_fields ''tenantId'' r5 = opt_cell (md_tenant order_model r5)"
    "branch_col ''id'' r6 = CStr (md_id branch_model r6)" "branch_col ''tenantId'' r6 = opt_cell (md_tenant branch_model r6)"
    "user_col ''id'' r7 = CStr (md_id user_model r7)" "user_col ''tenantId'' r7 = opt_cell (md_tenant user_model r7)"
    "dining_table_col ''id'' r8 = CStr (md_id dining_table_model r8)"
    "dining_table_col ''tenantId'' r8 = opt_cell (md_tenant dining_table_model r8)" for r1 r2 r3 r4 r5 r6 r7 r8
    by (simp_all add: product_col_def product_model_def category_col_def category_model_def customer_col_def customer_model_def
        restaurant_col_def restaurant_model_def order_fields_def order_col_def order_model_def branch_col_def branch_model_def
        user_col_def user_model_def dining_table_col_def dining_table_model_def)
  show ?thesis
    using find \<open>resource \<noteq> ''Tenant''\<close> unfolding findRealEntity_def
    by (simp add: return_apply split: if_splits)
      (erule products.repoLookup_Some[OF t] categories.repoLookup_Some[OF t] customers.repoLookup_Some[OF t]
        restaurants.repoLookup_Some[OF t] orders.repoLookup_Some[OF t] branches.repoLookup_Some[OF t]
        users.repoLookup_Some[OF t] diningTables.repoLookup_Some[OF t]; rule cols)+
qed

end

text \<open>What an ability grants, whatever the fields of the subject.\<close>

definition granted :: "authenticatedUser \<Rightarrow> string \<Rightarrow> string \<Rightarrow> bool" where
  "granted user action resource \<longleftrightarrow>
     ''PLATFORM_OWNER'' \<in> set (au_roles user) \<or> (action = ''read'' \<and> resource = ''Tenant'') \<or>
     (\<exists>p \<in> set (au_permissions user). \<exists>res act. split_on (CHR '':'') p = [res, act] \<and>
        act \<in> {action, ''manage''} \<and> capitalize res = resource)"

lemma upper_char_not_a: "upper_char c \<noteq> CHR ''a''"
proof
  assume eq: "upper_char c = CHR ''a''"
  have "of_char (upper_char c) = (if 97 \<le> (of_char c :: nat) \<and> (of_char c :: nat) \<le> 122 then of_char c - 32 else (of_char c :: nat))"
    by (auto simp: upper_char_def)
  then show False unfolding eq by (simp split: if_splits)
qed

lemma capitalize_not_all: "capitalize s \<noteq> ''all''"
  using upper_char_not_a by (auto simp: capitalize_def split: list.splits)

context casl_ability
begin

lemma casl_granted:
  assumes "casl (createForUser user) action resource x"
  shows "granted user action resource"
proof -
  obtain r where r: "r \<in> set (createForUser user)" "rule_matches action resource x r" "\<not> ru_inverted r"
    using assms by (auto simp: last_rule find_Some_iff split: option.splits) (metis nth_mem length_rev set_rev)
  show ?thesis
  proof (cases "''PLATFORM_OWNER'' \<in> set (au_roles user)")
    case False
    then consider "r \<in> set (permissionRules (au_permissions user))" | "r = can_rule ''read'' ''Tenant''"
      using r(1,3) by (auto simp: createForUser_def cannot_rule_def split: if_splits)
    then show ?thesis
    proof cases
      case 1
      then obtain p where p: "p \<in> set (au_permissions user)"
        "r \<in> set (case split_on (CHR '':'') p of [resource, action] \<Rightarrow> [can_rule action (capitalize resource)] | _ \<Rightarrow> [])"
        unfolding permissionRules_def by auto
      from p(2) obtain res act where "split_on (CHR '':'') p = [res, act]" "r = can_rule act (capitalize res)"
        by (cases "split_on (CHR '':'') p" rule: remdups_adj.cases) (auto split: list.splits)
      then show ?thesis using p(1) r(2) capitalize_not_all[of res]
        by (auto simp: granted_def rule_matches_def can_rule_def)
    qed (use r(2) in \<open>auto simp: granted_def rule_matches_def can_rule_def\<close>)
  qed (simp add: granted_def)
qed

end



end
