(* ===== verification/User_Service.thy ===== *)
theory User_Service
  imports Request_Context
begin

text \<open>
  \<^verbatim>\<open>apps/api/src/user/user.service.ts\<close>: staff accounts of a tenant. Every operation runs in the
  context \<open>c\<close> of the request, over the database client \<open>P\<close>, the session store \<open>R\<close> and the
  environment of the authentication service. The writes of an operation are one transaction; the
  marker that revokes a user's tokens is written to Redis inside it, where a rollback does not reach.
\<close>

section \<open>Data\<close>

record actorContext =
  ac_id :: string
  ac_roles :: "string list"
  ac_permissions :: "string list"

record userResponse =
  ur_id :: string
  ur_tenantId :: "string option"
  ur_firstName :: string
  ur_lastName :: string
  ur_email :: string
  ur_phoneNumber :: "string option"
  ur_isActive :: bool
  ur_mfaEnabled :: bool
  ur_lastLoginAt :: "int option"
  ur_createdAt :: int
  ur_updatedAt :: int
  ur_roles :: "string list"
  ur_branchIds :: "string list"

record CreateUserRequestDto =
  nu_firstName :: string
  nu_lastName :: string
  nu_email :: string
  nu_password :: string
  nu_phoneNumber :: "string option"
  nu_isActive :: "bool option"
  nu_roles :: "string list option"
  nu_branchIds :: "string list option"

record UpdateUserRequestDto =
  uu_firstName :: "string option"
  uu_lastName :: "string option"
  uu_email :: "string option"
  uu_password :: "string option"
  uu_phoneNumber :: "string option"
  uu_isActive :: "bool option"
  uu_roles :: "string list option"
  uu_branchIds :: "string list option"

record userFilters =
  uf_isActive :: "bool option"
  uf_branchId :: "string option"
  uf_limit :: "int option"
  uf_offset :: "int option"

text \<open>\<^verbatim>\<open>[...new Set(xs)]\<close>: the first occurrences, in order.\<close>

definition js_unique :: "'a list \<Rightarrow> 'a list" where
  "js_unique xs = rev (remdups (rev xs))"

lemma set_js_unique [simp]: "set (js_unique xs) = set xs"
  by (simp add: js_unique_def)

section \<open>Transactions of a process\<close>

definition db :: "('d, 'a) prog \<Rightarrow> (('s, 'd world) site, 'a) prog" where
  "db m = liftWorld (liftDb m)"

text \<open>\<^verbatim>\<open>prisma.$transaction\<close> around a body that also talks to Redis: only the database is rolled back.\<close>

definition siteRollback :: "'d prisma \<Rightarrow> ('s, 'd world) site \<Rightarrow> ('s, 'd world) site \<Rightarrow> ('s, 'd world) site" where
  "siteRollback P s s1 = s1\<lparr>st_world := (st_world s1)\<lparr>w_db := px_rollback P (w_db (st_world s)) (w_db (st_world s1))\<rparr>\<rparr>"

definition siteTransaction :: "'d prisma \<Rightarrow> (('s, 'd world) site, 'a) prog \<Rightarrow> (('s, 'd world) site, 'a) prog" where
  "siteTransaction P m = (\<lambda>s. case m s of
     (Inl e, s1) \<Rightarrow> (Inl e, siteRollback P s s1)
   | (Inr x, s1) \<Rightarrow> (case px_commit P (w_db (st_world s1)) of
                       Inl e \<Rightarrow> (Inl e, siteRollback P s s1)
                     | Inr d \<Rightarrow> (Inr x, s1\<lparr>st_world := (st_world s1)\<lparr>w_db := d\<rparr>\<rparr>)))"

section \<open>Checks\<close>

definition toResponse :: "userJoin \<Rightarrow> userResponse" where
  "toResponse j = (let u = uj_user j in
     \<lparr>ur_id = us_id u, ur_tenantId = us_tenantId u, ur_firstName = us_firstName u, ur_lastName = us_lastName u,
      ur_email = us_email u, ur_phoneNumber = us_phoneNumber u, ur_isActive = us_isActive u,
      ur_mfaEnabled = us_mfaEnabled u, ur_lastLoginAt = us_lastLoginAt u, ur_createdAt = us_createdAt u,
      ur_updatedAt = us_updatedAt u, ur_roles = map ro_name (uj_roles j), ur_branchIds = uj_branchIds j\<rparr>)"

definition assertTenant :: "string option \<Rightarrow> exn + string" where
  "assertTenant tenantId = (if \<not> truthy tenantId
     then Inl (ForbiddenException ''Access denied: Missing valid tenant context.'') else Inr (or_else tenantId []))"

text \<open>\<^verbatim>\<open>{ tenantId, name: { in: names } }\<close>.\<close>

definition rolesNamed :: "'d prisma \<Rightarrow> ctx \<Rightarrow> string \<Rightarrow> string list \<Rightarrow> ('d, role list) prog" where
  "rolesNamed P c tenantId names = dg_findAll (extended c role_model (px_role P))
     [(''tenantId'', Is (CStr tenantId)), (''name'', OneOf (map CStr names))]"

definition rolePerms :: "role \<Rightarrow> string list" where
  "rolePerms r = map (\<lambda>p. pm_resource p @ '':'' @ pm_action p) (ro_rolePermissions r)"

definition exceeding :: "actorContext \<Rightarrow> role \<Rightarrow> string list" where
  "exceeding actor r = filter (\<lambda>p. p \<notin> set (ac_permissions actor)) (rolePerms r)"

definition assertCanGrantRoles ::
  "'d prisma \<Rightarrow> ctx \<Rightarrow> string \<Rightarrow> string list \<Rightarrow> actorContext \<Rightarrow> ('d, unit) prog" where
  "assertCanGrantRoles P c tenantId requestedRoles actor =
     (if ''PLATFORM_OWNER'' \<in> set (ac_roles actor) then return ()
      else if ''PLATFORM_OWNER'' \<in> set requestedRoles
      then throw (ForbiddenException
             ''Access Denied: the PLATFORM_OWNER role cannot be assigned through tenant user management.'')
      else
      let requested = js_unique requestedRoles;
          unheld = filter (\<lambda>r. r \<notin> set (ac_roles actor)) requested in
      if requested = [] then return ()
      else if unheld = [] then return ()
      else
      andThen (rolesNamed P c tenantId unheld) (\<lambda>targetRoles.
      case List.find (\<lambda>r. exceeding actor r \<noteq> []) targetRoles of
        None \<Rightarrow> return ()
      | Some r \<Rightarrow> throw (ForbiddenException (''Access Denied: you cannot grant the role '' @ quoted (ro_name r) @
                   '' because it carries privileges you do not hold: '' @
                   join_with '', '' (take 5 (exceeding actor r)) @ ''.''))))"

definition assertNotLastOwner ::
  "'d prisma \<Rightarrow> ctx \<Rightarrow> string \<Rightarrow> string \<Rightarrow> string list \<Rightarrow> string \<Rightarrow> ('d, unit) prog" where
  "assertNotLastOwner P c tenantId targetUserId targetRoles action =
     (if ''RESTAURANT_OWNER'' \<notin> set targetRoles then return ()
      else
      andThen (px_advisoryLock P (''zayjar:owner-guard:'' @ tenantId)) (\<lambda>_.
      andThen (allOperations c user_model ''count''
                 (w_args [(''tenantId'', Is (CStr tenantId)), (''deletedAt'', Is CNull), (''isActive'', Is (CBool True)),
                          (''id'', IsNot (CStr targetUserId))])
                 (\<lambda>a. px_user_countWithRole P (a_where a) ''RESTAURANT_OWNER'' tenantId)) (\<lambda>remainingOwners.
      if remainingOwners = 0
      then throw (BadRequestException (''Cannot '' @ action @
             '' the last active RESTAURANT_OWNER of this tenant. Assign the role to another active user first.''))
      else return ())))"

definition resolveRoleIds :: "'d prisma \<Rightarrow> ctx \<Rightarrow> string \<Rightarrow> string list \<Rightarrow> ('d, string list) prog" where
  "resolveRoleIds P c tenantId names =
     (let unique = js_unique names in
      if unique = [] then return []
      else
      andThen (rolesNamed P c tenantId unique) (\<lambda>roles.
      let missing = filter (\<lambda>n. n \<notin> ro_name ` set roles) unique in
      if missing \<noteq> []
      then throw (BadRequestException (''Unknown role(s) for this tenant: '' @ join_with '', '' missing @ ''.''))
      else return (map ro_id roles)))"

definition assertBranchesInTenant :: "'d prisma \<Rightarrow> ctx \<Rightarrow> string \<Rightarrow> string list \<Rightarrow> ('d, string list) prog" where
  "assertBranchesInTenant P c tenantId branchIds =
     (let unique = js_unique branchIds in
      if unique = [] then return []
      else
      andThen (dg_findAll (extended c branch_model (px_branch P))
                 [(''id'', OneOf (map CStr unique)), (''tenantId'', Is (CStr tenantId)), (''deletedAt'', Is CNull)]) (\<lambda>branches.
      let missing = filter (\<lambda>i. i \<notin> br_id ` set branches) unique in
      if missing \<noteq> []
      then throw (BadRequestException (''Unknown or inaccessible branch(es) for this tenant: '' @
             join_with '', '' missing @ ''.''))
      else return unique))"

section \<open>Operations\<close>

definition findOne :: "'d prisma \<Rightarrow> ctx \<Rightarrow> string \<Rightarrow> string option \<Rightarrow> (('s, 'd world) site, userResponse) prog" where
  "findOne P c i tenantIdInput =
     andThen (of_result (assertTenant tenantIdInput)) (\<lambda>tenantId.
     andThen (db (allOperations c user_model ''findFirst''
                (w_args [(''id'', Is (CStr i)), (''tenantId'', Is (CStr tenantId)), (''deletedAt'', Is CNull)])
                (\<lambda>a. px_user_findFirstJoined P (a_where a)))) (\<lambda>user.
     case user of
       None \<Rightarrow> throw (NotFoundException (''The requested User with ID ['' @ i @ ''] was not found.''))
     | Some u \<Rightarrow> return (toResponse u)))"

definition DEFAULT_PAGE_SIZE :: int where
  "DEFAULT_PAGE_SIZE = 100"

definition MAX_PAGE_SIZE :: int where
  "MAX_PAGE_SIZE = 200"

definition pageTake :: "userFilters \<Rightarrow> nat" where
  "pageTake filters = nat (min (max (case uf_limit filters of None \<Rightarrow> DEFAULT_PAGE_SIZE | Some n \<Rightarrow> n) 1) MAX_PAGE_SIZE)"

definition pageSkip :: "userFilters \<Rightarrow> nat" where
  "pageSkip filters = nat (max (case uf_offset filters of None \<Rightarrow> 0 | Some n \<Rightarrow> n) 0)"

definition user_findAll ::
  "'d prisma \<Rightarrow> ctx \<Rightarrow> string option \<Rightarrow> userFilters \<Rightarrow> (('s, 'd world) site, userResponse list) prog" where
  "user_findAll P c tenantIdInput filters =
     andThen (of_result (assertTenant tenantIdInput)) (\<lambda>tenantId.
     andThen (db (allOperations c user_model ''findMany''
                (w_args ([(''tenantId'', Is (CStr tenantId)), (''deletedAt'', Is CNull)] @
                         (case uf_isActive filters of None \<Rightarrow> [] | Some b \<Rightarrow> [(''isActive'', Is (CBool b))])))
                (\<lambda>a. px_user_findManyJoined P (a_where a) (or_null (uf_branchId filters)) (pageTake filters) (pageSkip filters))))
       (\<lambda>users. return (map toResponse users)))"

definition newUser :: "authEnv \<Rightarrow> CreateUserRequestDto \<Rightarrow> string \<Rightarrow> string \<Rightarrow> string list \<Rightarrow> string list \<Rightarrow> user" where
  "newUser env dto tenantId passwordHash roleIds branchIds =
     \<lparr>us_id = [], us_tenantId = Some tenantId, us_firstName = nu_firstName dto, us_lastName = nu_lastName dto,
      us_email = js_trim (toLowerCase (nu_email dto)), us_passwordHash = passwordHash,
      us_phoneNumber = nu_phoneNumber dto, us_isActive = (case nu_isActive dto of None \<Rightarrow> True | Some b \<Rightarrow> b),
      us_mfaSecret = None, us_mfaEnabled = False, us_lastLoginAt = None, us_createdAt = ae_now env,
      us_updatedAt = ae_now env, us_deletedAt = None, us_userRoles = roleIds, us_userBranches = branchIds\<rparr>"

definition createUserTransaction ::
  "'d prisma \<Rightarrow> ctx \<Rightarrow> authEnv \<Rightarrow> CreateUserRequestDto \<Rightarrow> string \<Rightarrow> string \<Rightarrow> ('d, user) prog" where
  "createUserTransaction P c env dto tenantId passwordHash =
     (let E = extended c user_model (px_user P) in
      andThen (dg_findFirst E [(''email'', Is (CStr (js_trim (toLowerCase (nu_email dto))))),
                               (''tenantId'', Is (CStr tenantId))]) (\<lambda>existing.
      if existing \<noteq> None then throw (ConflictException ''An account with this email address already exists.'')
      else
      andThen (resolveRoleIds P c tenantId (opt_list (nu_roles dto))) (\<lambda>roleIds.
      andThen (assertBranchesInTenant P c tenantId (opt_list (nu_branchIds dto))) (\<lambda>validBranchIds.
      dg_create E (newUser env dto tenantId passwordHash roleIds validBranchIds)))))"

definition createUser ::
  "'d prisma \<Rightarrow> ctx \<Rightarrow> authEnv \<Rightarrow> CreateUserRequestDto \<Rightarrow> string option \<Rightarrow> actorContext \<Rightarrow>
   (('s, 'd world) site, userResponse) prog" where
  "createUser P c env dto tenantIdInput actor =
     andThen (of_result (assertTenant tenantIdInput)) (\<lambda>tenantId.
     andThen (db (assertCanGrantRoles P c tenantId (opt_list (nu_roles dto)) actor)) (\<lambda>_.
     andThen (of_result (hashPassword env (nu_password dto))) (\<lambda>passwordHash.
     andThen (siteTransaction P (db (createUserTransaction P c env dto tenantId passwordHash))) (\<lambda>created.
     findOne P c (us_id created) (Some tenantId)))))"

text \<open>The scalar fields of an update; \<open>None\<close> when the payload has none of them.\<close>

definition set_opt :: "'a option \<Rightarrow> ('a \<Rightarrow> 'r \<Rightarrow> 'r) \<Rightarrow> 'r \<Rightarrow> 'r" where
  "set_opt x f r = (case x of None \<Rightarrow> r | Some v \<Rightarrow> f v r)"

definition updateData :: "authEnv \<Rightarrow> UpdateUserRequestDto \<Rightarrow> string option \<Rightarrow> (user \<Rightarrow> user) option" where
  "updateData env dto passwordHash =
     (if uu_firstName dto = None \<and> uu_lastName dto = None \<and> uu_email dto = None \<and> uu_phoneNumber dto = None \<and>
         uu_isActive dto = None \<and> \<not> truthy passwordHash
      then None
      else Some (\<lambda>u.
        set_opt (if truthy passwordHash then passwordHash else None) (\<lambda>v. us_passwordHash_update (\<lambda>_. v))
       (set_opt (uu_isActive dto) (\<lambda>v. us_isActive_update (\<lambda>_. v))
       (set_opt (uu_phoneNumber dto) (\<lambda>v. us_phoneNumber_update (\<lambda>_. Some v))
       (set_opt (uu_email dto) (\<lambda>v. us_email_update (\<lambda>_. js_trim (toLowerCase v)))
       (set_opt (uu_lastName dto) (\<lambda>v. us_lastName_update (\<lambda>_. v))
       (set_opt (uu_firstName dto) (\<lambda>v. us_firstName_update (\<lambda>_. v))
       (u\<lparr>us_updatedAt := ae_now env\<rparr>))))))))"

definition replaceRoles ::
  "'d prisma \<Rightarrow> ctx \<Rightarrow> authEnv \<Rightarrow> string \<Rightarrow> string \<Rightarrow> userResponse \<Rightarrow> string list \<Rightarrow> ('d, unit) prog" where
  "replaceRoles P c env tenantId i currentState names =
     andThen (resolveRoleIds P c tenantId names) (\<lambda>desiredRoleIds.
     andThen (rolesNamed P c tenantId (ur_roles currentState)) (\<lambda>currentRoleRows.
     let toRemove = map ro_id (filter (\<lambda>r. ro_id r \<notin> set desiredRoleIds) currentRoleRows);
         toAdd = filter (\<lambda>roleId. roleId \<notin> ro_id ` set currentRoleRows) desiredRoleIds in
     if toRemove \<noteq> [] \<or> toAdd \<noteq> []
     then andThen (dg_update (extended c user_model (px_user P)) (where_id i)
                    (\<lambda>u. u\<lparr>us_userRoles := filter (\<lambda>x. x \<notin> set toRemove) (us_userRoles u) @ toAdd\<rparr>)) (\<lambda>_. return ())
     else return ()))"

definition replaceBranches ::
  "'d prisma \<Rightarrow> ctx \<Rightarrow> authEnv \<Rightarrow> string \<Rightarrow> string \<Rightarrow> userResponse \<Rightarrow> string list \<Rightarrow> ('d, unit) prog" where
  "replaceBranches P c env tenantId i currentState branchIds =
     andThen (assertBranchesInTenant P c tenantId branchIds) (\<lambda>desiredBranchIds.
     let currentBranchIds = ur_branchIds currentState;
         toRemove = filter (\<lambda>b. b \<notin> set desiredBranchIds) currentBranchIds;
         toAdd = filter (\<lambda>b. b \<notin> set currentBranchIds) desiredBranchIds in
     if toRemove \<noteq> [] \<or> toAdd \<noteq> []
     then andThen (dg_update (extended c user_model (px_user P)) (where_id i)
                    (\<lambda>u. u\<lparr>us_userBranches := filter (\<lambda>x. x \<notin> set toRemove) (us_userBranches u) @ toAdd\<rparr>)) (\<lambda>_. return ())
     else return ())"

definition securityRelevantChange :: "UpdateUserRequestDto \<Rightarrow> bool" where
  "securityRelevantChange dto \<longleftrightarrow> uu_isActive dto = Some False \<or> uu_password dto \<noteq> None \<or> uu_roles dto \<noteq> None"

text \<open>The database part of the transaction.\<close>

definition updateUserWrites ::
  "'d prisma \<Rightarrow> ctx \<Rightarrow> authEnv \<Rightarrow> string \<Rightarrow> UpdateUserRequestDto \<Rightarrow> string \<Rightarrow> userResponse \<Rightarrow> string option \<Rightarrow> ('d, unit) prog" where
  "updateUserWrites P c env i dto tenantId currentState passwordHash =
     (let E = extended c user_model (px_user P) in
      andThen (if uu_isActive dto = Some False
               then assertNotLastOwner P c tenantId i (ur_roles currentState) ''deactivate'' else return ()) (\<lambda>_.
      andThen (case uu_roles dto of
                 None \<Rightarrow> return ()
               | Some roles \<Rightarrow> if ''RESTAURANT_OWNER'' \<in> set roles then return ()
                               else assertNotLastOwner P c tenantId i (ur_roles currentState) ''change roles for'') (\<lambda>_.
      andThen (if truthy (uu_email dto)
               then andThen (dg_findFirst E [(''email'', Is (CStr (js_trim (toLowerCase (or_else (uu_email dto) []))))),
                                             (''tenantId'', Is (CStr tenantId)), (''id'', IsNot (CStr i))]) (\<lambda>clash.
                    if clash \<noteq> None then throw (ConflictException ''An account with this email address already exists.'')
                    else return ())
               else return ()) (\<lambda>_.
      andThen (case updateData env dto passwordHash of
                 None \<Rightarrow> return ()
               | Some f \<Rightarrow> andThen (dg_update E (where_id i) f) (\<lambda>_. return ())) (\<lambda>_.
      andThen (case uu_roles dto of
                 None \<Rightarrow> return ()
               | Some roles \<Rightarrow> replaceRoles P c env tenantId i currentState roles) (\<lambda>_.
      case uu_branchIds dto of
        None \<Rightarrow> return ()
      | Some bs \<Rightarrow> replaceBranches P c env tenantId i currentState bs))))))"

definition updateUser ::
  "'d prisma \<Rightarrow> 's redis \<Rightarrow> ctx \<Rightarrow> authEnv \<Rightarrow> string \<Rightarrow> UpdateUserRequestDto \<Rightarrow> string option \<Rightarrow> actorContext \<Rightarrow>
   (('s, 'd world) site, userResponse) prog" where
  "updateUser P R c env i dto tenantIdInput actor =
     andThen (of_result (assertTenant tenantIdInput)) (\<lambda>tenantId.
     andThen (case uu_roles dto of
                None \<Rightarrow> return ()
              | Some roles \<Rightarrow> db (assertCanGrantRoles P c tenantId roles actor)) (\<lambda>_.
     andThen (findOne P c i (Some tenantId)) (\<lambda>currentState.
     andThen (if truthy (uu_password dto)
              then andThen (of_result (hashPassword env (or_else (uu_password dto) []))) (\<lambda>h. return (Some h))
              else return None) (\<lambda>passwordHash.
     andThen (siteTransaction P
                (andThen (db (updateUserWrites P c env i dto tenantId currentState passwordHash)) (\<lambda>_.
                 if securityRelevantChange dto then revokeAllUserTokens R env i else return ()))) (\<lambda>_.
     findOne P c i (Some tenantId))))))"

definition deleteUser ::
  "'d prisma \<Rightarrow> 's redis \<Rightarrow> ctx \<Rightarrow> authEnv \<Rightarrow> string \<Rightarrow> string option \<Rightarrow> actorContext \<Rightarrow>
   (('s, 'd world) site, string) prog" where
  "deleteUser P R c env i tenantIdInput actor =
     andThen (of_result (assertTenant tenantIdInput)) (\<lambda>tenantId.
     if i = ac_id actor then throw (BadRequestException ''You cannot delete your own account.'')
     else
     andThen (findOne P c i (Some tenantId)) (\<lambda>target.
     andThen (siteTransaction P
                (andThen (db (andThen (assertNotLastOwner P c tenantId i (ur_roles target) ''remove'') (\<lambda>_.
                         dg_update (extended c user_model (px_user P)) (where_id i)
                           (\<lambda>u. u\<lparr>us_deletedAt := Some (ae_now env), us_isActive := False, us_updatedAt := ae_now env\<rparr>)))) (\<lambda>_.
                 revokeAllUserTokens R env i))) (\<lambda>_.
     return i)))"

text \<open>An update that carries one field only.\<close>

definition emptyUpdate :: UpdateUserRequestDto where
  "emptyUpdate = \<lparr>uu_firstName = None, uu_lastName = None, uu_email = None, uu_password = None, uu_phoneNumber = None,
     uu_isActive = None, uu_roles = None, uu_branchIds = None\<rparr>"

definition assignRoles ::
  "'d prisma \<Rightarrow> 's redis \<Rightarrow> ctx \<Rightarrow> authEnv \<Rightarrow> string \<Rightarrow> string list \<Rightarrow> string option \<Rightarrow> actorContext \<Rightarrow>
   (('s, 'd world) site, userResponse) prog" where
  "assignRoles P R c env i names tenantIdInput actor =
     updateUser P R c env i (emptyUpdate\<lparr>uu_roles := Some names\<rparr>) tenantIdInput actor"

definition assignBranches ::
  "'d prisma \<Rightarrow> 's redis \<Rightarrow> ctx \<Rightarrow> authEnv \<Rightarrow> string \<Rightarrow> string list \<Rightarrow> string option \<Rightarrow> actorContext \<Rightarrow>
   (('s, 'd world) site, userResponse) prog" where
  "assignBranches P R c env i branchIds tenantIdInput actor =
     updateUser P R c env i (emptyUpdate\<lparr>uu_branchIds := Some branchIds\<rparr>) tenantIdInput actor"

end
