(* ===== verification/User_Correct.thy ===== *)
theory User_Correct
  imports User_Service
begin

text \<open>
  What the staff operations read and write: the tenant boundary, how an update changes the row of
  its user and no other, which roles can be gained and lost, and what the guards establish.
\<close>

section \<open>Changes to one user\<close>

text \<open>
  \<open>user_change t roles dto u u'\<close>: how an update with the payload \<open>dto\<close> may change a user, in the tenant
  \<open>t\<close> with the role table \<open>roles\<close>. Roles gained are roles of the tenant that the payload names, roles
  lost are not; an active user stays active unless the payload deactivates.
\<close>

definition user_change :: "string \<Rightarrow> role list \<Rightarrow> UpdateUserRequestDto \<Rightarrow> user \<Rightarrow> user \<Rightarrow> bool" where
  "user_change t roles dto u u' \<longleftrightarrow>
     us_id u' = us_id u \<and> us_tenantId u' = us_tenantId u \<and> us_deletedAt u' = us_deletedAt u \<and>
     us_mfaSecret u' = us_mfaSecret u \<and> us_mfaEnabled u' = us_mfaEnabled u \<and>
     (uu_isActive dto \<noteq> Some False \<and> us_isActive u \<longrightarrow> us_isActive u') \<and>
     (\<forall>i \<in> set (us_userRoles u') - set (us_userRoles u). \<exists>r \<in> set roles. ro_id r = i \<and> ro_tenantId r = Some t \<and>
        (\<exists>names. uu_roles dto = Some names \<and> ro_name r \<in> set names)) \<and>
     (\<forall>i \<in> set (us_userRoles u) - set (us_userRoles u'). \<exists>names. uu_roles dto = Some names \<and>
        (\<forall>r \<in> set roles. ro_id r = i \<and> ro_tenantId r = Some t \<longrightarrow> ro_name r \<notin> set names))"

definition user_edited :: "string \<Rightarrow> string \<Rightarrow> UpdateUserRequestDto \<Rightarrow> tables \<Rightarrow> tables \<Rightarrow> bool" where
  "user_edited t i dto X X' \<longleftrightarrow> X'\<lparr>t_users := []\<rparr> = X\<lparr>t_users := []\<rparr> \<and>
     list_all2 (\<lambda>u u'. u' = u \<or> us_id u = i \<and> us_tenantId u = Some t \<and> user_change t (t_roles X) dto u u')
       (t_users X) (t_users X')"

text \<open>The users who can administer a tenant: not deleted, active, with the owner role of the tenant.\<close>

definition active_owner :: "tables \<Rightarrow> string \<Rightarrow> user \<Rightarrow> bool" where
  "active_owner X t u \<longleftrightarrow> u \<in> set (t_users X) \<and> us_tenantId u = Some t \<and> us_deletedAt u = None \<and> us_isActive u \<and>
     holds_role X ''RESTAURANT_OWNER'' t u"

text \<open>A role of the tenant that passed the gate: the actor has it, or has every permission it carries.\<close>

definition grantable :: "actorContext \<Rightarrow> role \<Rightarrow> bool" where
  "grantable actor r \<longleftrightarrow> ''PLATFORM_OWNER'' \<in> set (ac_roles actor) \<or>
     ro_name r \<noteq> ''PLATFORM_OWNER'' \<and> (ro_name r \<in> set (ac_roles actor) \<or> set (rolePerms r) \<subseteq> set (ac_permissions actor))"

lemma user_change_trans: "user_change t rs dto a b \<Longrightarrow> user_change t rs dto b c \<Longrightarrow> user_change t rs dto a c"
  unfolding user_change_def by (intro conjI; elim conjE) (simp, simp, simp, simp, simp, simp, blast, blast)

lemma user_edited_refl: "user_edited t i dto X X"
  by (simp add: user_edited_def list.rel_refl)

lemma rest_of_users:
  assumes "X'\<lparr>t_users := []\<rparr> = X\<lparr>t_users := []\<rparr>"
  shows "t_roles X' = t_roles X" "t_branches X' = t_branches X"
  using arg_cong[OF assms, of t_roles] arg_cong[OF assms, of t_branches] by simp_all

lemma user_edited_rest: "user_edited t i dto X X' \<Longrightarrow> X'\<lparr>t_users := []\<rparr> = X\<lparr>t_users := []\<rparr>"
  by (simp add: user_edited_def)

lemma user_edited_trans:
  assumes "user_edited t i dto X Y" "user_edited t i dto Y Z" shows "user_edited t i dto X Z"
proof -
  note roles = rest_of_users(1)[OF user_edited_rest[OF assms(1)]]
  have "list_all2 (\<lambda>u u'. u' = u \<or> us_id u = i \<and> us_tenantId u = Some t \<and> user_change t (t_roles X) dto u u') (t_users X) (t_users Z)"
    by (rule list_all2_trans[of "\<lambda>u u'. u' = u \<or> us_id u = i \<and> us_tenantId u = Some t \<and> user_change t (t_roles X) dto u u'"
          "\<lambda>u u'. u' = u \<or> us_id u = i \<and> us_tenantId u = Some t \<and> user_change t (t_roles X) dto u u'" _ _ "t_users Y"])
      (use assms roles in \<open>auto simp: user_edited_def intro: user_change_trans\<close>)
  then show ?thesis using assms by (simp add: user_edited_def)
qed

text \<open>The rows a user edit leaves alone, and the one it may change.\<close>

lemma user_edited_other: "user_edited t i dto X X' \<Longrightarrow> u \<in> set (t_users X) \<Longrightarrow> us_id u \<noteq> i \<Longrightarrow> u \<in> set (t_users X')"
  by (auto simp: user_edited_def list_all2_conv_all_nth in_set_conv_nth)

lemma user_edited_fwd:
  "user_edited t i dto X X' \<Longrightarrow> u \<in> set (t_users X) \<Longrightarrow>
   \<exists>u' \<in> set (t_users X'). u' = u \<or> us_id u = i \<and> us_tenantId u = Some t \<and> user_change t (t_roles X) dto u u'"
  by (fastforce simp: user_edited_def list_all2_conv_all_nth in_set_conv_nth)

lemma user_edited_bwd:
  "user_edited t i dto X X' \<Longrightarrow> u' \<in> set (t_users X') \<Longrightarrow>
   \<exists>u \<in> set (t_users X). u' = u \<or> us_id u = i \<and> us_tenantId u = Some t \<and> user_change t (t_roles X) dto u u'"
  by (fastforce simp: user_edited_def list_all2_conv_all_nth in_set_conv_nth)

sublocale prisma_client \<subseteq> edit: change "\<lambda>d d'. user_edited t i dto (T d) (T d')" for t i dto
  by unfold_locales (auto intro: user_edited_refl user_edited_trans)

context prisma_client
begin

lemma user_update_edits:
  assumes t: "t \<noteq> []"
    and f: "\<And>u. us_id u = i \<Longrightarrow> user_change t (t_roles (T d)) dto u (f u)"
    and run: "dg_update (extended (tenant_ctx t) user_model (px_user P)) (where_id i) f d = (r, d')"
  shows "user_edited t i dto (T d) (T d')"
proof (cases r)
  case (Inl e)
  have "t_users (T d') = t_users (T d) \<and> (T d')\<lparr>t_users := []\<rparr> = (T d)\<lparr>t_users := []\<rparr>"
    using users.update_Inl run[unfolded Inl users.ext_update[OF t]] by blast
  then show ?thesis by (simp add: user_edited_def list.rel_refl)
next
  case (Inr x)
  obtain xs u ys where u: "t_users (T d) = xs @ u # ys" "sat user_model (AList.update ''tenantId'' (Is (CStr t)) (where_id i)) u"
    "t_users (T d') = xs @ f u # ys" "(T d')\<lparr>t_users := []\<rparr> = (T d)\<lparr>t_users := []\<rparr>"
    using users.update_Inr run[unfolded Inr users.ext_update[OF t]] by blast
  have "us_id u = i" "us_tenantId u = Some t" using u(2) unfolding users.sat_id_tenant by (simp_all add: user_model_def)
  then show ?thesis using u f by (simp add: user_edited_def list_all2_append list.rel_refl)
qed

text \<open>Reads of the service leave the database as it is.\<close>

lemma rolesNamed_Inr:
  assumes t: "t \<noteq> []" and run: "rolesNamed P (tenant_ctx t) t names d = (Inr rs, d')"
  shows "d' = d \<and> set rs = {r \<in> set (t_roles (T d)). ro_tenantId r = Some t \<and> ro_name r \<in> set names}"
proof -
  have "d' = d \<and> set rs = {r \<in> set (t_roles (T d)). sat role_model [(''tenantId'', Is (CStr t)), (''name'', OneOf (map CStr names))] r}"
    using roles.findAll_eqD[of "[(''tenantId'', Is (CStr t)), (''name'', OneOf (map CStr names))]" d rs d'] run
    by (simp add: rolesNamed_def roles.ext_findAll[OF t])
  then show ?thesis by (auto simp: sat_def role_model_def role_col_def opt_cell_def split: option.splits)
qed

lemma rolesNamed_reads: "t \<noteq> [] \<Longrightarrow> preserves f (rolesNamed P (tenant_ctx t) tid names)"
  unfolding rolesNamed_def by (rule repo_reads)

lemma resolveRoleIds_reads: "t \<noteq> [] \<Longrightarrow> preserves f (resolveRoleIds P (tenant_ctx t) tid names)"
  unfolding resolveRoleIds_def Let_def by (intro preserves_intros rolesNamed_reads)

lemma resolveRoleIds_Inr:
  assumes t: "t \<noteq> []" and run: "resolveRoleIds P (tenant_ctx t) t names d = (Inr ids, d')"
  shows "d' = d \<and> set ids = ro_id ` {r \<in> set (t_roles (T d)). ro_tenantId r = Some t \<and> ro_name r \<in> set names}"
proof (cases "js_unique names = []")
  case True
  then have "set names = {}" by (metis set_empty2 set_js_unique)
  then show ?thesis using run True by (auto simp: resolveRoleIds_def return_apply)
next
  case False
  then obtain rs where "rolesNamed P (tenant_ctx t) t (js_unique names) d = (Inr rs, d')" "ids = map ro_id rs"
    using run by (auto simp: resolveRoleIds_def Let_def elim!: prog_invs split: if_splits)
  then show ?thesis using rolesNamed_Inr[OF t] by simp
qed

lemma assertBranches_reads: "t \<noteq> [] \<Longrightarrow> preserves f (assertBranchesInTenant P (tenant_ctx t) tid bs)"
  unfolding assertBranchesInTenant_def Let_def by (intro preserves_intros repo_reads)

lemmas user_query = allOperations_scoped scopedOperations_def w_args_def

lemma assertNotLastOwner_reads:
  "t \<noteq> [] \<Longrightarrow> preserves (\<lambda>d. f (T d)) (assertNotLastOwner P (tenant_ctx t) tid i rs act)"
  unfolding assertNotLastOwner_def
  by (auto simp: user_query intro!: preserves_intros lock_read join_reads)

lemma assertNotLastOwner_Inr:
  assumes t: "t \<noteq> []" and run: "assertNotLastOwner P (tenant_ctx t) t i rs act d = (Inr x, d')"
    and owner: "''RESTAURANT_OWNER'' \<in> set rs"
  shows "T d' = T d \<and> (\<exists>u. us_id u \<noteq> i \<and> active_owner (T d) t u)"
proof -
  let ?w = "[(''tenantId'', Is (CStr t)), (''deletedAt'', Is CNull), (''isActive'', Is (CBool True)), (''id'', IsNot (CStr i))]"
  obtain d1 n where d1: "px_advisoryLock P (''zayjar:owner-guard:'' @ t) d = (Inr (), d1)"
    and n: "px_user_countWithRole P ?w ''RESTAURANT_OWNER'' t d1 = (Inr n, d')" "n \<noteq> 0"
    using run owner by (auto simp: assertNotLastOwner_def t user_query elim!: prog_invs)
  have T: "T d1 = T d" "d' = d1" using advisoryLock_state[of "''zayjar:owner-guard:'' @ t" d] d1
    countRole_state[of ?w "''RESTAURANT_OWNER''" t d1] n by simp_all
  have "n = length (filter (\<lambda>u. sat user_model ?w u \<and> holds_role (T d1) ''RESTAURANT_OWNER'' t u) (t_users (T d1)))"
    by (rule countRole_value) (simp add: n)
  then obtain u where "u \<in> set (t_users (T d))" "sat user_model ?w u" "holds_role (T d) ''RESTAURANT_OWNER'' t u"
    using n(2) T by (auto simp: filter_empty_conv)
  then have "us_id u \<noteq> i \<and> active_owner (T d) t u"
    by (auto simp: active_owner_def sat_def user_model_def user_col_def opt_cell_def split: option.splits)
  then show ?thesis using T by auto
qed

text \<open>A step that only reads, as a run.\<close>

lemma read_run: "preserves (\<lambda>s. s) m \<Longrightarrow> \<exists>r. m s = (r, s)"
  by (metis preservesD surjective_pairing)

lemma update_returns_unit:
  "andThen m (\<lambda>_. return ()) s = (r, s') \<Longrightarrow> \<exists>x. m s = (x, s')"
  by (auto simp: andThen_def return_def split: prod.splits sum.splits)

lemma replaceRoles_edits:
  assumes t: "t \<noteq> []" and dto: "uu_roles dto = Some names"
  shows "along (\<lambda>d d'. user_edited t i dto (T d) (T d')) (replaceRoles P (tenant_ctx t) env t i cur names)"
proof (rule alongI)
  fix d r d' assume run: "replaceRoles P (tenant_ctx t) env t i cur names d = (r, d')"
  obtain r1 where r1: "resolveRoleIds P (tenant_ctx t) t names d = (r1, d)" using read_run[OF resolveRoleIds_reads[OF t]] by blast
  obtain r2 where r2: "rolesNamed P (tenant_ctx t) t (ur_roles cur) d = (r2, d)" using read_run[OF rolesNamed_reads[OF t]] by blast
  show "user_edited t i dto (T d) (T d')"
  proof (cases "\<exists>ids rows. r1 = Inr ids \<and> r2 = Inr rows")
    case False
    then have "d' = d" using run r1 r2 by (cases r1; cases r2) (auto simp: replaceRoles_def andThen_def)
    then show ?thesis by (simp add: user_edited_refl)
  next
    case True
    then obtain ids rows where ok: "r1 = Inr ids" "r2 = Inr rows" by blast
    note ids = resolveRoleIds_Inr[OF t r1[unfolded ok]]
    note rows = rolesNamed_Inr[OF t r2[unfolded ok]]
    let ?rem = "map ro_id (filter (\<lambda>r. ro_id r \<notin> set ids) rows)"
    let ?add = "filter (\<lambda>roleId. roleId \<notin> ro_id ` set rows) ids"
    let ?f = "\<lambda>u. u\<lparr>us_userRoles := filter (\<lambda>x. x \<notin> set ?rem) (us_userRoles u) @ ?add\<rparr>"
    have f: "user_change t (t_roles (T d)) dto u (?f u)" for u
      using ids by (auto simp: user_change_def dto) (metis (mono_tags, lifting) image_eqI mem_Collect_eq)
    show ?thesis
    proof (cases "?rem \<noteq> [] \<or> ?add \<noteq> []")
      case True
      then have "andThen (dg_update (extended (tenant_ctx t) user_model (px_user P)) (where_id i) ?f) (\<lambda>_. return ()) d = (r, d')"
        using run r1 r2 ok by (simp add: replaceRoles_def andThen_def Let_def)
      from update_returns_unit[OF this]
      obtain x where "dg_update (extended (tenant_ctx t) user_model (px_user P)) (where_id i) ?f d = (x, d')" ..
      then show ?thesis by (rule user_update_edits[OF t f])
    next
      case False
      then have "d' = d" using run r1 r2 ok by (auto simp: replaceRoles_def andThen_def Let_def return_def)
      then show ?thesis by (simp add: user_edited_refl)
    qed
  qed
qed

lemma user_update_along:
  assumes t: "t \<noteq> []" and f: "\<And>rs u. user_change t rs dto u (f u)"
  shows "along (\<lambda>d d'. user_edited t i dto (T d) (T d'))
     (dg_update (extended (tenant_ctx t) user_model (px_user P)) (where_id i) f)"
  by (rule alongI) (rule user_update_edits[OF t f])

lemma edit_read: "preserves (\<lambda>d. T d) m \<Longrightarrow> along (\<lambda>d d'. user_edited t i dto (T d) (T d')) m"
  by (rule alongI) (metis preservesD user_edited_refl)

lemma replaceBranches_edits:
  assumes t: "t \<noteq> []"
  shows "along (\<lambda>d d'. user_edited t i dto (T d) (T d')) (replaceBranches P (tenant_ctx t) env t i cur bs)"
  unfolding replaceBranches_def Let_def
  by (intro edit.along_intros edit_read assertBranches_reads[OF t] user_update_along[OF t]) (simp add: user_change_def)

lemma updateData_change: "updateData env dto h = Some f \<Longrightarrow> user_change t rs dto u (f u)"
  by (auto simp: updateData_def user_change_def set_opt_def split: option.splits if_splits)

lemma updateUserWrites_edits:
  assumes t: "t \<noteq> []"
  shows "along (\<lambda>d d'. user_edited t i dto (T d) (T d')) (updateUserWrites P (tenant_ctx t) env i dto t cur h)"
  unfolding updateUserWrites_def Let_def
  by (intro edit.along_intros edit_read assertNotLastOwner_reads[OF t] repo_reads[OF t] replaceRoles_edits[OF t]
      replaceBranches_edits[OF t] user_update_along[OF t] updateData_change)

section \<open>What the guards establish\<close>

lemma assertCanGrantRoles_reads: "t \<noteq> [] \<Longrightarrow> preserves f (assertCanGrantRoles P (tenant_ctx t) tid names actor)"
  unfolding assertCanGrantRoles_def Let_def by (intro preserves_intros rolesNamed_reads)

lemma assertCanGrantRoles_Inr:
  assumes t: "t \<noteq> []" and run: "assertCanGrantRoles P (tenant_ctx t) t names actor d = (Inr x, d')"
    and r: "r \<in> set (t_roles (T d))" "ro_tenantId r = Some t" "ro_name r \<in> set names"
  shows "grantable actor r"
proof (cases "''PLATFORM_OWNER'' \<in> set (ac_roles actor) \<or> ro_name r \<in> set (ac_roles actor)")
  case True
  then show ?thesis using run r by (auto simp: grantable_def assertCanGrantRoles_def throw_apply split: if_splits)
next
  case False
  let ?un = "filter (\<lambda>n. n \<notin> set (ac_roles actor)) (js_unique names)"
  have un: "ro_name r \<in> set ?un" using False r(3) by simp
  have ne: "?un \<noteq> []" by (metis un empty_iff empty_set)
  then have ne: "?un \<noteq> []" "js_unique names \<noteq> []" by (simp, metis filter.simps(1))
  obtain rs where rs: "rolesNamed P (tenant_ctx t) t ?un d = (Inr rs, d')"
    and ok: "List.find (\<lambda>r. exceeding actor r \<noteq> []) rs = None" and no: "''PLATFORM_OWNER'' \<notin> set names"
    using run False ne by (auto simp: assertCanGrantRoles_def Let_def throw_apply elim!: andThen_InrE return_InrE split: if_splits option.splits)
  have "r \<in> set rs" using rolesNamed_Inr[OF t rs] r un by simp
  then have "exceeding actor r = []" using ok by (auto simp: find_None_iff)
  then show ?thesis using no r(3) by (auto simp: grantable_def exceeding_def filter_empty_conv)
qed

lemma findOne_Inr:
  assumes t: "t \<noteq> []" and run: "findOne P (tenant_ctx t) i (Some t) s = (Inr x, s')"
  shows "s' = s \<and> (\<exists>j. x = toResponse j \<and> user_join (T (w_db (st_world s))) j \<and> us_id (uj_user j) = i \<and>
           us_tenantId (uj_user j) = Some t \<and> us_deletedAt (uj_user j) = None)"
proof -
  let ?w = "[(''id'', Is (CStr i)), (''tenantId'', Is (CStr t)), (''deletedAt'', Is CNull)]"
  obtain j d where d: "px_user_findFirstJoined P ?w (w_db (st_world s)) = (Inr (Some j), d)" and x: "x = toResponse j"
    and s': "s' = s\<lparr>st_world := (st_world s)\<lparr>w_db := d\<rparr>\<rparr>"
    using run t by (auto simp: findOne_def assertTenant_def or_else_def db_def user_query elim!: prog_invs liftWorldE liftDb_InrE)
  have "d = w_db (st_world s)" "user_join (T (w_db (st_world s))) j" "sat user_model ?w (uj_user j)"
    using userJoin_state[of ?w "w_db (st_world s)"] userJoin_Some[of ?w "w_db (st_world s)" j] d by simp_all
  then show ?thesis using x s'
    by (auto simp: sat_def user_model_def user_col_def opt_cell_def split: option.splits)
qed

end

section \<open>Transactions\<close>

context prisma_client
begin

lemma siteTransaction_Inl: "siteTransaction P m s = (Inl e, s') \<Longrightarrow> T (w_db (st_world s')) = T (w_db (st_world s))"
  by (auto simp: siteTransaction_def siteRollback_def rollback split: prod.splits sum.splits)

lemma siteTransaction_Inr:
  assumes "siteTransaction P m s = (Inr x, s')"
  obtains s1 where "m s = (Inr x, s1)" "T (w_db (st_world s')) = T (w_db (st_world s1))" "st_cache s' = st_cache s1"
  using assms by (auto simp: siteTransaction_def commit_Inr split: prod.splits sum.splits)

lemma preserves_siteTransaction [preserves_intros]:
  assumes "preserves (\<lambda>s. f (T (w_db (st_world s)))) m"
  shows "preserves (\<lambda>s. f (T (w_db (st_world s)))) (siteTransaction P m)"
proof (rule preservesI)
  fix s r s' assume run: "siteTransaction P m s = (r, s')"
  show "f (T (w_db (st_world s'))) = f (T (w_db (st_world s)))"
  proof (cases r)
    case (Inl e)
    then show ?thesis using siteTransaction_Inl[of m s e s'] run by simp
  next
    case (Inr x)
    from run[unfolded Inr] obtain s1 where "m s = (Inr x, s1)" "T (w_db (st_world s')) = T (w_db (st_world s1))"
      by (rule siteTransaction_Inr)
    then show ?thesis using preservesD[OF assms] by simp
  qed
qed

lemma preserves_db [preserves_intros]: "preserves f m \<Longrightarrow> preserves (\<lambda>s. f (w_db (st_world s))) (db m)"
  unfolding db_def by (intro preserves_liftWorld preserves_liftDb)

lemma findOne_reads: "t \<noteq> [] \<Longrightarrow> preserves (\<lambda>s. f (w_db (st_world s))) (findOne P (tenant_ctx t) i tid)"
  by (auto simp: findOne_def user_query intro!: preserves_intros join_reads)

lemma findAll_reads: "t \<noteq> [] \<Longrightarrow> preserves (\<lambda>s. f (w_db (st_world s))) (user_findAll P (tenant_ctx t) tid fs)"
  by (auto simp: user_findAll_def user_query intro!: preserves_intros join_reads)

section \<open>The tenant boundary\<close>

lemma user_md_tenant: "md_tenant user_model u = us_tenantId u"
  by (simp add: user_model_def)

lemma replaceRoles_others:
  "t \<noteq> [] \<Longrightarrow> preserves (\<lambda>d. other_tenants t (T d)) (replaceRoles P (tenant_ctx t) env tid i cur names)"
  by (auto simp: replaceRoles_def Let_def user_md_tenant intro!: preserves_intros rolesNamed_reads resolveRoleIds_reads table_writes)

lemma replaceBranches_others:
  "t \<noteq> [] \<Longrightarrow> preserves (\<lambda>d. other_tenants t (T d)) (replaceBranches P (tenant_ctx t) env tid i cur bs)"
  by (auto simp: replaceBranches_def Let_def user_md_tenant intro!: preserves_intros assertBranches_reads table_writes)

lemma updateData_tenant: "updateData env dto h = Some f \<Longrightarrow> us_tenantId (f u) = us_tenantId u"
  by (auto simp: updateData_def set_opt_def split: option.splits if_splits)

lemma updateUserWrites_others:
  "t \<noteq> [] \<Longrightarrow> preserves (\<lambda>d. other_tenants t (T d)) (updateUserWrites P (tenant_ctx t) env i dto tid cur h)"
  by (auto simp: updateUserWrites_def Let_def user_md_tenant updateData_tenant
      intro!: preserves_intros repo_reads assertNotLastOwner_reads replaceRoles_others replaceBranches_others table_writes)

lemma createUserTransaction_others:
  "t \<noteq> [] \<Longrightarrow> preserves (\<lambda>d. other_tenants t (T d)) (createUserTransaction P (tenant_ctx t) env dto tid h)"
  by (auto simp: createUserTransaction_def Let_def
      intro!: preserves_intros repo_reads resolveRoleIds_reads assertBranches_reads table_writes)

lemma createUser_others:
  "t \<noteq> [] \<Longrightarrow> preserves (\<lambda>s. other_tenants t (T (w_db (st_world s)))) (createUser P (tenant_ctx t) env dto tid actor)"
  unfolding createUser_def
  by (intro preserves_intros findOne_reads assertCanGrantRoles_reads createUserTransaction_others)

lemma updateUser_others:
  "t \<noteq> [] \<Longrightarrow> preserves (\<lambda>s. other_tenants t (T (w_db (st_world s)))) (updateUser P R (tenant_ctx t) env i dto tid actor)"
  unfolding updateUser_def
  by (intro preserves_intros findOne_reads assertCanGrantRoles_reads updateUserWrites_others
      revokeAllUserTokens_world[where f = "\<lambda>w. other_tenants t (T (w_db w))"])

lemma deleteUser_others:
  "t \<noteq> [] \<Longrightarrow> preserves (\<lambda>s. other_tenants t (T (w_db (st_world s)))) (deleteUser P R (tenant_ctx t) env i tid actor)"
  unfolding deleteUser_def
  by (intro preserves_intros findOne_reads assertNotLastOwner_reads
      revokeAllUserTokens_world[where f = "\<lambda>w. other_tenants t (T (w_db w))"] table_writes)
    (simp_all add: user_md_tenant)

section \<open>What the operations write\<close>

text \<open>
  An operation reads, runs one transaction and reads again: its outcome on the tables is none, or
  that of the transaction.
\<close>

lemma around_transaction:
  assumes pre: "preserves (\<lambda>s. T (w_db (st_world s))) m" and post: "\<And>x y. preserves (\<lambda>s. T (w_db (st_world s))) (k x y)"
    and run: "andThen m (\<lambda>x. andThen (siteTransaction P (tx x)) (k x)) s = (r, s')"
  shows "T (w_db (st_world s')) = T (w_db (st_world s)) \<or>
    (\<exists>x s1 y s2. m s = (Inr x, s1) \<and> tx x s1 = (Inr y, s2) \<and> T (w_db (st_world s1)) = T (w_db (st_world s)) \<and>
       T (w_db (st_world s')) = T (w_db (st_world s2)))"
proof -
  obtain r1 s1 where m: "m s = (r1, s1)" by force
  have T1: "T (w_db (st_world s1)) = T (w_db (st_world s))" by (rule preservesD[OF pre m])
  show ?thesis
  proof (cases r1)
    case (Inl e)
    then show ?thesis using run m T1 by (simp add: andThen_def)
  next
    case (Inr x)
    obtain r2 s2 where tr: "siteTransaction P (tx x) s1 = (r2, s2)" by force
    show ?thesis
    proof (cases r2)
      case (Inl e)
      then show ?thesis using run m Inr tr T1 siteTransaction_Inl[of "tx x" s1 e s2] by (simp add: andThen_def)
    next
      case r2: (Inr y)
      have "k x y s2 = (r, s')" using run m Inr tr r2 by (simp add: andThen_def)
      then have T2: "T (w_db (st_world s')) = T (w_db (st_world s2))" by (rule preservesD[OF post])
      from tr[unfolded r2] obtain s3 where "tx x s1 = (Inr y, s3)" "T (w_db (st_world s2)) = T (w_db (st_world s3))"
        by (rule siteTransaction_Inr)
      then show ?thesis using m Inr T1 T2 by auto
    qed
  qed
qed

text \<open>The part of \<open>updateUser\<close> before its transaction.\<close>

definition updateUserPrepare ::
  "ctx \<Rightarrow> authEnv \<Rightarrow> string \<Rightarrow> UpdateUserRequestDto \<Rightarrow> string option \<Rightarrow> actorContext \<Rightarrow>
   (('s, 'd world) site, string \<times> userResponse \<times> string option) prog" where
  "updateUserPrepare c env i dto tenantIdInput actor =
     andThen (of_result (assertTenant tenantIdInput)) (\<lambda>tenantId.
     andThen (case uu_roles dto of
                None \<Rightarrow> return ()
              | Some roles \<Rightarrow> db (assertCanGrantRoles P c tenantId roles actor)) (\<lambda>_.
     andThen (findOne P c i (Some tenantId)) (\<lambda>currentState.
     andThen (if truthy (uu_password dto)
              then andThen (of_result (hashPassword env (or_else (uu_password dto) []))) (\<lambda>h. return (Some h))
              else return None) (\<lambda>passwordHash. return (tenantId, currentState, passwordHash)))))"

lemma updateUser_split:
  "updateUser P R c env i dto tid actor =
     andThen (updateUserPrepare c env i dto tid actor) (\<lambda>x. andThen (siteTransaction P
       (case x of (tenantId, currentState, passwordHash) \<Rightarrow>
          andThen (db (updateUserWrites P c env i dto tenantId currentState passwordHash)) (\<lambda>_.
                 if securityRelevantChange dto then revokeAllUserTokens R env i else return ())))
       (\<lambda>_. findOne P c i (Some (fst x))))"
  unfolding updateUser_def updateUserPrepare_def andThen_assoc by (simp add: andThen_return)

lemma updateUserPrepare_reads:
  "t \<noteq> [] \<Longrightarrow> preserves (\<lambda>s. T (w_db (st_world s))) (updateUserPrepare (tenant_ctx t) env i dto tid actor)"
  unfolding updateUserPrepare_def by (intro preserves_intros findOne_reads assertCanGrantRoles_reads)

lemma updateUserWrites_guard:
  assumes t: "t \<noteq> []" and run: "updateUserWrites P (tenant_ctx t) env i dto t cur h d = (Inr x, d')"
    and owner: "''RESTAURANT_OWNER'' \<in> set (ur_roles cur)"
    and loses: "uu_isActive dto = Some False \<or> (\<exists>names. uu_roles dto = Some names \<and> ''RESTAURANT_OWNER'' \<notin> set names)"
  shows "\<exists>u. us_id u \<noteq> i \<and> active_owner (T d) t u"
proof -
  let ?g1 = "if uu_isActive dto = Some False then assertNotLastOwner P (tenant_ctx t) t i (ur_roles cur) ''deactivate'' else return ()"
  let ?g2 = "case uu_roles dto of None \<Rightarrow> return () | Some roles \<Rightarrow> if ''RESTAURANT_OWNER'' \<in> set roles then return ()
               else assertNotLastOwner P (tenant_ctx t) t i (ur_roles cur) ''change roles for''"
  obtain d1 d2 where g: "?g1 d = (Inr (), d1)" "?g2 d1 = (Inr (), d2)"
    using run unfolding updateUserWrites_def Let_def by (elim andThen_InrE) auto
  have "T d1 = T d" using g(1) preservesD[OF assertNotLastOwner_reads[OF t, where f = "\<lambda>X. X"]]
    by (auto simp: return_apply split: if_splits)
  then show ?thesis
    using loses g assertNotLastOwner_Inr[OF t _ owner, of i "''deactivate''" d "()" d1]
      assertNotLastOwner_Inr[OF t _ owner, of i "''change roles for''" d1 "()" d2] by auto
qed

lemma db_InrE:
  assumes "db m s = (Inr x, s')"
  obtains d where "m (w_db (st_world s)) = (Inr x, d)" "w_db (st_world s') = d" "st_cache s' = st_cache s"
  using assms unfolding db_def by (auto elim!: liftWorldE liftDb_InrE)

lemma updateUserPrepare_Inr:
  assumes t: "t \<noteq> []" and run: "updateUserPrepare (tenant_ctx t) env i dto (Some t) actor s = (Inr (tid, cur, h), s')"
  shows "tid = t \<and>
    (\<forall>names role. uu_roles dto = Some names \<longrightarrow> role \<in> set (t_roles (T (w_db (st_world s)))) \<longrightarrow> ro_tenantId role = Some t \<longrightarrow>
        ro_name role \<in> set names \<longrightarrow> grantable actor role) \<and>
    (\<exists>j. cur = toResponse j \<and> user_join (T (w_db (st_world s))) j \<and> us_id (uj_user j) = i \<and> us_tenantId (uj_user j) = Some t \<and>
       us_deletedAt (uj_user j) = None)"
proof -
  let ?g = "case uu_roles dto of None \<Rightarrow> return () | Some roles \<Rightarrow> db (assertCanGrantRoles P (tenant_ctx t) t roles actor)"
  obtain u s1 s2 where g: "?g s = (Inr u, s1)" and f: "findOne P (tenant_ctx t) i (Some t) s1 = (Inr cur, s2)" and tid: "tid = t"
    using run t by (auto simp: updateUserPrepare_def assertTenant_def or_else_def elim!: prog_invs)
  have "preserves (\<lambda>s. T (w_db (st_world s))) ?g" by (intro preserves_intros assertCanGrantRoles_reads t)
  then have T: "T (w_db (st_world s1)) = T (w_db (st_world s))" using g by (rule preservesD)
  have "grantable actor role" if names: "uu_roles dto = Some names"
    and role: "role \<in> set (t_roles (T (w_db (st_world s))))" "ro_tenantId role = Some t" "ro_name role \<in> set names" for names role
  proof -
    obtain d where "assertCanGrantRoles P (tenant_ctx t) t names actor (w_db (st_world s)) = (Inr u, d)"
      using g names by (auto elim: db_InrE)
    then show ?thesis by (rule assertCanGrantRoles_Inr[OF t _ role])
  qed
  then show ?thesis using findOne_Inr[OF t f] tid T by auto
qed

lemma updateUser_outcome:
  assumes t: "t \<noteq> []" and run: "updateUser P R (tenant_ctx t) env i dto (Some t) actor s = (r, s')"
  defines "X \<equiv> T (w_db (st_world s))" and "X' \<equiv> T (w_db (st_world s'))"
  shows "X' = X \<or> user_edited t i dto X X' \<and>
     (\<forall>names role. uu_roles dto = Some names \<longrightarrow> role \<in> set (t_roles X) \<longrightarrow> ro_tenantId role = Some t \<longrightarrow>
        ro_name role \<in> set names \<longrightarrow> grantable actor role) \<and>
     (\<exists>j. user_join X j \<and> us_id (uj_user j) = i \<and>
        (''RESTAURANT_OWNER'' \<in> ro_name ` set (uj_roles j) \<and>
         (uu_isActive dto = Some False \<or> (\<exists>names. uu_roles dto = Some names \<and> ''RESTAURANT_OWNER'' \<notin> set names)) \<longrightarrow>
           (\<exists>u. us_id u \<noteq> i \<and> active_owner X t u)))"
proof (cases "X' = X")
  case False
  from around_transaction[OF updateUserPrepare_reads[OF t] _ run[unfolded updateUser_split]]
  obtain tid cur h s1 y s2 where prep: "updateUserPrepare (tenant_ctx t) env i dto (Some t) actor s = (Inr (tid, cur, h), s1)"
    and tx: "andThen (db (updateUserWrites P (tenant_ctx t) env i dto tid cur h)) (\<lambda>_.
                 if securityRelevantChange dto then revokeAllUserTokens R env i else return ()) s1 = (Inr y, s2)"
    and T: "T (w_db (st_world s1)) = X" "X' = T (w_db (st_world s2))"
    using False findOne_reads[OF t] by (fastforce simp: X_def X'_def)
  note p = updateUserPrepare_Inr[OF t prep, folded X_def]
  obtain z d where w: "updateUserWrites P (tenant_ctx t) env i dto t cur h (w_db (st_world s1)) = (Inr z, d)" "T d = X'"
  proof -
    from tx obtain z s3 where z: "db (updateUserWrites P (tenant_ctx t) env i dto tid cur h) s1 = (Inr z, s3)"
      and rest: "(if securityRelevantChange dto then revokeAllUserTokens R env i else return ()) s3 = (Inr y, s2)"
      by (rule andThen_InrE)
    have "preserves (\<lambda>s. T (w_db (st_world s))) (if securityRelevantChange dto then revokeAllUserTokens R env i else return ())"
      by (intro preserves_intros revokeAllUserTokens_world[where f = "\<lambda>w. T (w_db w)"])
    then have "T (w_db (st_world s2)) = T (w_db (st_world s3))" using rest by (rule preservesD)
    then show ?thesis using z that p T by (auto elim!: db_InrE)
  qed
  have "user_edited t i dto X X'" using alongD[OF updateUserWrites_edits[OF t] w(1)] w(2) T(1) by simp
  moreover obtain j where j: "cur = toResponse j" "user_join X j" "us_id (uj_user j) = i" using p by blast
  moreover have "\<exists>u. us_id u \<noteq> i \<and> active_owner X t u"
    if "''RESTAURANT_OWNER'' \<in> ro_name ` set (uj_roles j)"
      "uu_isActive dto = Some False \<or> (\<exists>names. uu_roles dto = Some names \<and> ''RESTAURANT_OWNER'' \<notin> set names)"
    using updateUserWrites_guard[OF t w(1) _ that(2)] that(1) j(1) T(1) by (simp add: toResponse_def Let_def)
  ultimately show ?thesis using p by blast
qed simp

text \<open>A deletion that throws has changed nothing; one that returns has deactivated the row and revoked its tokens.\<close>

lemma deleteUser_Inl:
  assumes t: "t \<noteq> []" and run: "deleteUser P R (tenant_ctx t) env i tid actor s = (Inl e, s')"
  shows "T (w_db (st_world s')) = T (w_db (st_world s))"
proof -
  have "fails_clean (\<lambda>s. T (w_db (st_world s))) (deleteUser P R (tenant_ctx t) env i tid actor)"
    unfolding deleteUser_def
    by (intro fails_clean_read fails_clean_write clean_intros preserves_intros findOne_reads[OF t])
      (auto simp: fails_clean_def dest: siteTransaction_Inl)
  then show ?thesis using run by (rule fails_cleanD)
qed

lemma deleteUser_Inr:
  fixes s s' :: "('s, 'd world) site"
  assumes t: "t \<noteq> []" and run: "deleteUser P R (tenant_ctx t) env i (Some t) actor s = (Inr x, s')"
  defines "X \<equiv> T (w_db (st_world s))" and "X' \<equiv> T (w_db (st_world s'))"
  shows "i \<noteq> ac_id actor \<and> X'\<lparr>t_users := []\<rparr> = X\<lparr>t_users := []\<rparr> \<and>
    (\<exists>xs u ys. t_users X = xs @ u # ys \<and> us_id u = i \<and> us_tenantId u = Some t \<and>
       t_users X' = xs @ u\<lparr>us_deletedAt := Some (ae_now env), us_isActive := False, us_updatedAt := ae_now env\<rparr> # ys) \<and>
    (\<exists>j. user_join X j \<and> us_id (uj_user j) = i \<and>
       (''RESTAURANT_OWNER'' \<in> ro_name ` set (uj_roles j) \<longrightarrow> (\<exists>u. us_id u \<noteq> i \<and> active_owner X t u))) \<and>
    (\<exists>s1 s2 :: ('s, 'd world) site. revokeAllUserTokens R env i s1 = (Inr (), s2) \<and> st_cache s' = st_cache s2)"
proof -
  let ?f = "\<lambda>u. u\<lparr>us_deletedAt := Some (ae_now env), us_isActive := False, us_updatedAt := ae_now env\<rparr>"
  let ?E = "extended (tenant_ctx t) user_model (px_user P)"
  obtain cur s1 s2 where self: "i \<noteq> ac_id actor" and find: "findOne P (tenant_ctx t) i (Some t) s = (Inr cur, s1)"
    and tx: "siteTransaction P (andThen (db (andThen (assertNotLastOwner P (tenant_ctx t) t i (ur_roles cur) ''remove'')
             (\<lambda>_. dg_update ?E (where_id i) ?f))) (\<lambda>_. revokeAllUserTokens R env i)) s1 = (Inr (), s')"
    using run t by (auto simp: deleteUser_def assertTenant_def or_else_def elim!: prog_invs)
  from findOne_Inr[OF t find] obtain j where s1: "s1 = s" and j: "cur = toResponse j" "user_join X j" "us_id (uj_user j) = i"
    by (auto simp: X_def)
  from tx obtain s3 where body: "andThen (db (andThen (assertNotLastOwner P (tenant_ctx t) t i (ur_roles cur) ''remove'')
             (\<lambda>_. dg_update ?E (where_id i) ?f))) (\<lambda>_. revokeAllUserTokens R env i) s1 = (Inr (), s3)"
    and T3: "X' = T (w_db (st_world s3))" "st_cache s' = st_cache s3" unfolding X'_def by (rule siteTransaction_Inr)
  from body obtain y s4 where y: "db (andThen (assertNotLastOwner P (tenant_ctx t) t i (ur_roles cur) ''remove'')
             (\<lambda>_. dg_update ?E (where_id i) ?f)) s1 = (Inr y, s4)" and rev: "revokeAllUserTokens R env i s4 = (Inr (), s3)"
    by (rule andThen_InrE)
  have T4: "T (w_db (st_world s3)) = T (w_db (st_world s4))" by (rule preservesD[OF revokeAllUserTokens_world rev])
  obtain d1 d2 g where g: "assertNotLastOwner P (tenant_ctx t) t i (ur_roles cur) ''remove'' (w_db (st_world s)) = (Inr g, d1)"
    and u: "dg_update ?E (where_id i) ?f d1 = (Inr y, d2)" "w_db (st_world s4) = d2"
    using y s1 by (auto elim!: db_InrE andThen_InrE)
  have T1: "T d1 = X" unfolding X_def by (rule preservesD[OF assertNotLastOwner_reads[OF t, where f = "\<lambda>X. X"] g])
  obtain xs u ys where row: "t_users X = xs @ u # ys" "sat user_model (AList.update ''tenantId'' (Is (CStr t)) (where_id i)) u"
    "t_users (T d2) = xs @ ?f u # ys" "(T d2)\<lparr>t_users := []\<rparr> = X\<lparr>t_users := []\<rparr>"
    using users.update_Inr[OF u(1)[unfolded users.ext_update[OF t]]] unfolding T1 by blast
  have "us_id u = i" "us_tenantId u = Some t" using row(2) unfolding users.sat_id_tenant by (simp_all add: user_model_def)
  moreover have "\<exists>u. us_id u \<noteq> i \<and> active_owner X t u" if "''RESTAURANT_OWNER'' \<in> ro_name ` set (uj_roles j)"
    using assertNotLastOwner_Inr[OF t g] that j(1) by (simp add: X_def toResponse_def Let_def)
  moreover have "\<exists>s1 s2 :: ('s, 'd world) site. revokeAllUserTokens R env i s1 = (Inr (), s2) \<and> st_cache s' = st_cache s2" using rev T3(2) by blast
  moreover have "X' = T d2" using T3(1) T4 u(2) by simp
  ultimately show ?thesis using self row j by simp blast
qed

text \<open>A creation adds at most one row.\<close>

lemma createUserTransaction_Inr:
  assumes t: "t \<noteq> []" and run: "createUserTransaction P (tenant_ctx t) env dto t h d = (Inr u, d')"
  shows "t_users (T d') = t_users (T d) @ [u] \<and> (T d')\<lparr>t_users := []\<rparr> = (T d)\<lparr>t_users := []\<rparr> \<and>
    us_id u \<notin> us_id ` set (t_users (T d)) \<and> us_tenantId u = Some t \<and> us_passwordHash u = h \<and>
    (\<forall>v \<in> set (t_users (T d)). us_tenantId v = Some t \<longrightarrow> us_email v \<noteq> us_email u) \<and>
    set (us_userRoles u) = ro_id ` {r \<in> set (t_roles (T d)). ro_tenantId r = Some t \<and> ro_name r \<in> set (opt_list (nu_roles dto))}"
proof -
  let ?E = "extended (tenant_ctx t) user_model (px_user P)" and ?e = "js_trim (toLowerCase (nu_email dto))"
  let ?w = "[(''email'', Is (CStr ?e)), (''tenantId'', Is (CStr t))]"
  obtain d1 rs d2 bs d3 where ex: "dg_findFirst ?E ?w d = (Inr None, d1)"
    and rs: "resolveRoleIds P (tenant_ctx t) t (opt_list (nu_roles dto)) d1 = (Inr rs, d2)"
    and bs: "assertBranchesInTenant P (tenant_ctx t) t (opt_list (nu_branchIds dto)) d2 = (Inr bs, d3)"
    and cr: "dg_create ?E (newUser env dto t h rs bs) d3 = (Inr u, d')"
    using run unfolding createUserTransaction_def Let_def by (elim prog_invs) auto
  have d: "d1 = d" "d2 = d1" "d3 = d2"
    using preservesD[OF users.ext_read_others(1)[OF t, where g = "\<lambda>s. s"] ex]
      preservesD[OF resolveRoleIds_reads[OF t, where f = "\<lambda>s. s"] rs] preservesD[OF assertBranches_reads[OF t, where f = "\<lambda>s. s"] bs]
    by simp_all
  have none: "us_email v \<noteq> ?e" if "v \<in> set (t_users (T d))" "us_tenantId v = Some t" for v
  proof -
    have "\<not> sat user_model ?w v"
      using users.findFirst_None[of ?w d v] ex that(1) by (simp add: users.ext_findFirst[OF t])
    then show ?thesis using that(2) by (auto simp: sat_def user_model_def user_col_def opt_cell_def)
  qed
  have stamped: "md_tenant user_model (newUser env dto t h rs bs) = Some t"
    "md_with_tenant user_model (Some t) (newUser env dto t h rs bs) = newUser env dto t h rs bs"
    by (simp_all add: user_model_def newUser_def)
  have "dg_create (px_user P) (newUser env dto t h rs bs) d = (Inr u, d')"
    using cr unfolding users.ext_create[OF t] stamped by (simp add: d)
  from users.create_Inr[OF this] obtain i where u: "u = (newUser env dto t h rs bs)\<lparr>us_id := i\<rparr>"
    and i: "\<forall>x \<in> set (t_users (T d)). us_id x \<noteq> i" and row: "t_users (T d') = t_users (T d) @ [u]"
    "(T d')\<lparr>t_users := []\<rparr> = (T d)\<lparr>t_users := []\<rparr>"
    by (auto simp: user_model_def)
  have "set rs = ro_id ` {r \<in> set (t_roles (T d)). ro_tenantId r = Some t \<and> ro_name r \<in> set (opt_list (nu_roles dto))}"
    using resolveRoleIds_Inr[OF t rs] d by simp
  then show ?thesis using u i row none by (auto simp: newUser_def)
qed

lemma createUser_outcome:
  assumes t: "t \<noteq> []" and run: "createUser P (tenant_ctx t) env dto (Some t) actor s = (r, s')"
  defines "X \<equiv> T (w_db (st_world s))" and "X' \<equiv> T (w_db (st_world s'))"
  shows "X' = X \<or> (\<exists>u. t_users X' = t_users X @ [u] \<and> X'\<lparr>t_users := []\<rparr> = X\<lparr>t_users := []\<rparr> \<and>
    us_id u \<notin> us_id ` set (t_users X) \<and> us_tenantId u = Some t \<and>
    (\<forall>v \<in> set (t_users X). us_tenantId v = Some t \<longrightarrow> us_email v \<noteq> us_email u) \<and>
    (\<forall>i \<in> set (us_userRoles u). \<exists>role \<in> set (t_roles X). ro_id role = i \<and> ro_tenantId role = Some t \<and> grantable actor role))"
proof (cases "X' = X")
  case False
  let ?prep = "andThen (of_result (assertTenant (Some t))) (\<lambda>tenantId.
     andThen (db (assertCanGrantRoles P (tenant_ctx t) tenantId (opt_list (nu_roles dto)) actor)) (\<lambda>_.
     andThen (of_result (hashPassword env (nu_password dto))) (\<lambda>h. return (tenantId, h))))"
  have split: "createUser P (tenant_ctx t) env dto (Some t) actor = andThen ?prep (\<lambda>x. andThen (siteTransaction P
       (case x of (tenantId, h) \<Rightarrow> db (createUserTransaction P (tenant_ctx t) env dto tenantId h)))
       (\<lambda>created. findOne P (tenant_ctx t) (us_id created) (Some (fst x))))"
    unfolding createUser_def andThen_assoc by simp
  have "preserves (\<lambda>s. T (w_db (st_world s))) ?prep" by (intro preserves_intros assertCanGrantRoles_reads t)
  from around_transaction[OF this _ run[unfolded split]]
  obtain tid h s1 u s2 where prep: "?prep s = (Inr (tid, h), s1)"
    and tx: "db (createUserTransaction P (tenant_ctx t) env dto tid h) s1 = (Inr u, s2)"
    and T: "T (w_db (st_world s1)) = X" "X' = T (w_db (st_world s2))"
    using False findOne_reads[OF t] by (fastforce simp: X_def X'_def)
  obtain d where tid: "tid = t"
    and g: "assertCanGrantRoles P (tenant_ctx t) t (opt_list (nu_roles dto)) actor (w_db (st_world s)) = (Inr (), d)"
    using prep t by (auto simp: assertTenant_def or_else_def elim!: prog_invs db_InrE)
  from tx[unfolded tid] obtain d' where "createUserTransaction P (tenant_ctx t) env dto t h (w_db (st_world s1)) = (Inr u, d')" "T d' = X'"
    using T(2) by (auto elim!: db_InrE)
  note c = createUserTransaction_Inr[OF t this(1), unfolded this(2) T(1)]
  have "\<exists>role \<in> set (t_roles X). ro_id role = i \<and> ro_tenantId role = Some t \<and> grantable actor role" if "i \<in> set (us_userRoles u)" for i
    using that c assertCanGrantRoles_Inr[OF t g] by (auto simp: X_def)
  then show ?thesis using c by blast
qed simp

end

end
