(* ===== verification/User_Properties.thy ===== *)
theory User_Properties
  imports User_Correct Auth_Properties
begin

text \<open>
  Properties of staff management: the tenant boundary, no escalation of privileges, the tenant's
  last owner, and the end of a deleted user's sessions.
\<close>

section \<open>The tenant boundary\<close>

text \<open>Staff management stays within its tenant: creating, changing, deleting and listing users in the context
  of a tenant leave every row of every other tenant as it was, whatever the outcome and whatever tenant
  the caller names.\<close>

theorem users_isolated:
  assumes "prisma_client P T" "t \<noteq> []"
  shows "preserves (\<lambda>s. other_tenants t (T (w_db (st_world s)))) (createUser P (tenant_ctx t) env dto tid actor) \<and>
    preserves (\<lambda>s. other_tenants t (T (w_db (st_world s)))) (updateUser P R (tenant_ctx t) env i upd tid actor) \<and>
    preserves (\<lambda>s. other_tenants t (T (w_db (st_world s)))) (deleteUser P R (tenant_ctx t) env i tid actor) \<and>
    preserves (\<lambda>s. T (w_db (st_world s))) (user_findAll P (tenant_ctx t) tid filters) \<and>
    preserves (\<lambda>s. T (w_db (st_world s))) (findOne P (tenant_ctx t) i tid)"
  by (intro conjI prisma_client.createUser_others[OF assms] prisma_client.updateUser_others[OF assms]
      prisma_client.deleteUser_others[OF assms] prisma_client.findAll_reads[OF assms] prisma_client.findOne_reads[OF assms])

definition staff_site :: "(mem_store, tables world) site" where
  "staff_site = sample_site\<lparr>st_world := \<lparr>w_db = sample_tables\<lparr>
     t_users := [sample_user, sample_user\<lparr>us_id := ''u2'', us_email := ''bob@x.com'', us_userRoles := [''ro2'']\<rparr>,
                 sample_user\<lparr>us_id := ''u9'', us_tenantId := Some ''t2''\<rparr>],
     t_roles := [sample_role, sample_role\<lparr>ro_id := ''ro2'', ro_name := ''RESTAURANT_OWNER''\<rparr>]\<rparr>, w_out = []\<rparr>\<rparr>"

definition owner_actor :: actorContext where
  "owner_actor = \<lparr>ac_id = ''u2'', ac_roles = [''RESTAURANT_OWNER''], ac_permissions = [''Order:read'']\<rparr>"

theorem users_isolated_witness:
  "t_users (other_tenants ''t1'' (w_db (st_world (snd
      (deleteUser mem_prisma mem_redis (tenant_ctx ''t1'') (sample_auth 5) ''u1'' (Some ''t1'') owner_actor staff_site)))))
   = [sample_user\<lparr>us_id := ''u9'', us_tenantId := Some ''t2''\<rparr>]"
proof -
  have "preserves (\<lambda>s. other_tenants ''t1'' (w_db (st_world s)))
     (deleteUser mem_prisma mem_redis (tenant_ctx ''t1'') (sample_auth 5) ''u1'' (Some ''t1'') owner_actor)"
    by (rule users_isolated[OF mem.prisma_client_axioms, THEN conjunct2, THEN conjunct2, THEN conjunct1]) simp
  then have "other_tenants ''t1'' (w_db (st_world (snd
      (deleteUser mem_prisma mem_redis (tenant_ctx ''t1'') (sample_auth 5) ''u1'' (Some ''t1'') owner_actor staff_site))))
     = other_tenants ''t1'' (w_db (st_world staff_site))" by (simp add: preserves_def)
  then show ?thesis by (simp add: other_tenants_def staff_site_def sample_user_def user_model_def)
qed

section \<open>Privileges\<close>

text \<open>C16. No escalation of privileges: whatever a caller who is not a platform owner does, a role that a user
  of the tenant has afterwards and did not have before is a role of the tenant other than
  \<^verbatim>\<open>PLATFORM_OWNER\<close> that the caller has too, or all of whose permissions the caller has; this covers new
  users and changed ones.\<close>

theorem no_privilege_escalation:
  assumes "prisma_client P T" "t \<noteq> []" "''PLATFORM_OWNER'' \<notin> set (ac_roles actor)"
    and "createUser P (tenant_ctx t) env dto (Some t) actor s = (r, s') \<or>
         updateUser P R (tenant_ctx t) env i upd (Some t) actor s = (r, s')"
    and "u' \<in> set (t_users (T (w_db (st_world s'))))" "k \<in> set (us_userRoles u')"
  shows "(\<exists>u \<in> set (t_users (T (w_db (st_world s)))). us_id u = us_id u' \<and> k \<in> set (us_userRoles u)) \<or>
    (\<exists>role \<in> set (t_roles (T (w_db (st_world s)))). ro_id role = k \<and> ro_tenantId role = Some t \<and>
       ro_name role \<noteq> ''PLATFORM_OWNER'' \<and>
       (ro_name role \<in> set (ac_roles actor) \<or> set (rolePerms role) \<subseteq> set (ac_permissions actor)))"
proof -
  let ?X = "T (w_db (st_world s))" and ?X' = "T (w_db (st_world s'))"
  have grant: "grantable actor role \<Longrightarrow> ro_name role \<noteq> ''PLATFORM_OWNER'' \<and>
       (ro_name role \<in> set (ac_roles actor) \<or> set (rolePerms role) \<subseteq> set (ac_permissions actor))" for role
    using assms(3) by (simp add: grantable_def)
  show ?thesis
  proof (cases "u' \<in> set (t_users ?X)")
    case new: False
    from assms(4) show ?thesis
    proof
      assume "createUser P (tenant_ctx t) env dto (Some t) actor s = (r, s')"
      from prisma_client.createUser_outcome[OF assms(1,2) this]
      obtain u where u: "t_users ?X' = t_users ?X @ [u]" "\<forall>i \<in> set (us_userRoles u). \<exists>role \<in> set (t_roles ?X). ro_id role = i \<and>
          ro_tenantId role = Some t \<and> grantable actor role" using assms(5) new by auto
      then have "k \<in> set (us_userRoles u)" using assms(5,6) new by auto
      then show ?thesis using u(2) grant by blast
    next
      assume "updateUser P R (tenant_ctx t) env i upd (Some t) actor s = (r, s')"
      from prisma_client.updateUser_outcome[OF assms(1,2) this]
      have ed: "user_edited t i upd ?X ?X'" and ok: "\<And>names role. uu_roles upd = Some names \<Longrightarrow> role \<in> set (t_roles ?X) \<Longrightarrow>
          ro_tenantId role = Some t \<Longrightarrow> ro_name role \<in> set names \<Longrightarrow> grantable actor role" using assms(5) new by auto
      from user_edited_bwd[OF ed assms(5)] new obtain u where u: "u \<in> set (t_users ?X)" "user_change t (t_roles ?X) upd u u'" by blast
      show ?thesis
      proof (cases "k \<in> set (us_userRoles u)")
        case True
        then show ?thesis using u by (auto simp: user_change_def)
      next
        case False
        then obtain role names where "role \<in> set (t_roles ?X)" "ro_id role = k" "ro_tenantId role = Some t" "uu_roles upd = Some names"
          "ro_name role \<in> set names" using u(2) assms(6) unfolding user_change_def by blast
        then show ?thesis using ok grant by blast
      qed
    qed
  qed (use assms(6) in blast)
qed

definition sample_new_user :: CreateUserRequestDto where
  "sample_new_user = \<lparr>nu_firstName = ''Cy'', nu_lastName = ''Roe'', nu_email = ''cy@x.com'', nu_password = ''secret12'',
     nu_phoneNumber = None, nu_isActive = None, nu_roles = Some [''CASHIER''], nu_branchIds = None\<rparr>"

theorem no_privilege_escalation_witness:
  "\<exists>r s'. createUser mem_prisma (tenant_ctx ''t1'') (sample_auth 5) sample_new_user (Some ''t1'') owner_actor staff_site = (r, s') \<and>
     (\<forall>u' \<in> set (t_users (w_db (st_world s'))). \<forall>k \<in> set (us_userRoles u').
        (\<exists>u \<in> set (t_users (w_db (st_world staff_site))). us_id u = us_id u' \<and> k \<in> set (us_userRoles u)) \<or> k = ''ro1'' \<or> k = ''ro2'')"
proof -
  obtain r s' where run: "createUser mem_prisma (tenant_ctx ''t1'') (sample_auth 5) sample_new_user (Some ''t1'') owner_actor staff_site = (r, s')"
    by force
  have "''PLATFORM_OWNER'' \<notin> set (ac_roles owner_actor)" by (simp add: owner_actor_def)
  note esc = no_privilege_escalation[OF mem.prisma_client_axioms _ this disjI1[OF run]]
  have "ro_id role = ''ro1'' \<or> ro_id role = ''ro2''" if "role \<in> set (t_roles (w_db (st_world staff_site)))" for role
    using that by (auto simp: staff_site_def sample_role_def)
  then show ?thesis using run esc by blast
qed

section \<open>The last owner\<close>

text \<open>One staff operation of any caller in a tenant, whatever its outcome; operations run one after the other.\<close>

inductive staff_step :: "'d prisma \<Rightarrow> 's redis \<Rightarrow> string \<Rightarrow> ('s, 'd world) site \<Rightarrow> ('s, 'd world) site \<Rightarrow> bool"
  for P R t where
  create_step: "createUser P (tenant_ctx t) env dto (Some t) actor s = (r, s') \<Longrightarrow> staff_step P R t s s'"
| update_step: "updateUser P R (tenant_ctx t) env i upd (Some t) actor s = (r1, s') \<Longrightarrow> staff_step P R t s s'"
| delete_step: "deleteUser P R (tenant_ctx t) env i (Some t) actor s = (r2, s') \<Longrightarrow> staff_step P R t s s'"
| roles_step: "assignRoles P R (tenant_ctx t) env i names (Some t) actor s = (r1, s') \<Longrightarrow> staff_step P R t s s'"
| branches_step: "assignBranches P R (tenant_ctx t) env i bs (Some t) actor s = (r1, s') \<Longrightarrow> staff_step P R t s s'"

definition has_owner :: "string \<Rightarrow> tables \<Rightarrow> bool" where
  "has_owner t X \<longleftrightarrow> distinct (map us_id (t_users X)) \<and> (\<exists>u. active_owner X t u)"

lemma active_owner_kept:
  "active_owner X t u \<Longrightarrow> u \<in> set (t_users X') \<Longrightarrow> t_roles X' = t_roles X \<Longrightarrow> active_owner X' t u"
  by (simp add: active_owner_def holds_role_def)

lemma user_edited_ids: "user_edited t i dto X X' \<Longrightarrow> map us_id (t_users X') = map us_id (t_users X)"
  by (auto simp: user_edited_def list_all2_conv_all_nth user_change_def intro!: nth_equalityI)

lemma owner_role_listed:
  assumes "user_join X j" "active_owner X t (uj_user j)"
  shows "''RESTAURANT_OWNER'' \<in> ro_name ` set (uj_roles j)"
proof -
  obtain r where "r \<in> user_roles X (uj_user j)" "ro_name r = ''RESTAURANT_OWNER''"
    using assms(2) by (auto simp: user_roles_def active_owner_def holds_role_def)
  then show ?thesis using assms(1) unfolding user_join_def by (metis image_eqI)
qed

lemma user_change_lost:
  "user_change t rs dto u u' \<Longrightarrow> k \<in> set (us_userRoles u) \<Longrightarrow> k \<notin> set (us_userRoles u') \<Longrightarrow>
   \<exists>names. uu_roles dto = Some names \<and> (\<forall>r \<in> set rs. ro_id r = k \<and> ro_tenantId r = Some t \<longrightarrow> ro_name r \<notin> set names)"
  by (simp add: user_change_def)

lemma user_change_account:
  "user_change t rs dto u u' \<Longrightarrow> us_tenantId u' = us_tenantId u \<and> us_deletedAt u' = us_deletedAt u \<and>
     (uu_isActive dto \<noteq> Some False \<and> us_isActive u \<longrightarrow> us_isActive u')"
  by (simp add: user_change_def)

lemma same_id_same_user:
  "distinct (map us_id (t_users X)) \<Longrightarrow> u \<in> set (t_users X) \<Longrightarrow> v \<in> set (t_users X) \<Longrightarrow> us_id u = us_id v \<Longrightarrow> u = v"
  by (meson distinct_map inj_onD)

context prisma_client
begin

lemma update_keeps_owner:
  assumes t: "t \<noteq> []" and run: "updateUser P R (tenant_ctx t) env i upd (Some t) actor s = (r, s')"
    and own: "has_owner t (T (w_db (st_world s)))"
  shows "has_owner t (T (w_db (st_world s')))"
proof -
  let ?X = "T (w_db (st_world s))" and ?X' = "T (w_db (st_world s'))"
  obtain u where u: "active_owner ?X t u" using own by (auto simp: has_owner_def)
  note out = updateUser_outcome[OF t run]
  show ?thesis
  proof (cases "?X' = ?X")
    case False
    let ?loses = "uu_isActive upd = Some False \<or> (\<exists>names. uu_roles upd = Some names \<and> ''RESTAURANT_OWNER'' \<notin> set names)"
    from False out have ed: "user_edited t i upd ?X ?X'"
      and ex: "\<exists>j. user_join ?X j \<and> us_id (uj_user j) = i \<and>
        (''RESTAURANT_OWNER'' \<in> ro_name ` set (uj_roles j) \<and> ?loses \<longrightarrow> (\<exists>u. us_id u \<noteq> i \<and> active_owner ?X t u))" by blast+
    from ex obtain j where j: "user_join ?X j" "us_id (uj_user j) = i"
      "''RESTAURANT_OWNER'' \<in> ro_name ` set (uj_roles j) \<and> ?loses \<longrightarrow> (\<exists>u. us_id u \<noteq> i \<and> active_owner ?X t u)" by blast
    note roles = rest_of_users(1)[OF user_edited_rest[OF ed]]
    have other: "\<exists>v. active_owner ?X' t v" if "active_owner ?X t v" "us_id v \<noteq> i" for v
      using active_owner_kept[OF that(1) user_edited_other[OF ed _ that(2)] roles] that(1) by (auto simp: active_owner_def)
    have "\<exists>v. active_owner ?X' t v"
    proof (cases "us_id u = i")
      case True
      then have uj: "uj_user j = u" using same_id_same_user[of ?X "uj_user j" u] j(1,2) u own
        by (auto simp: has_owner_def user_join_def active_owner_def)
      show ?thesis
      proof (cases ?loses)
        case True
        then show ?thesis using j(3) owner_role_listed[OF j(1)] uj u other by auto
      next
        case keeps: False
        have "u \<in> set (t_users ?X)" using u by (simp add: active_owner_def)
        from user_edited_fwd[OF ed this] obtain u' where u': "u' \<in> set (t_users ?X')" "u' = u \<or> user_change t (t_roles ?X) upd u u'" by blast
        obtain ro where ro: "ro \<in> set (t_roles ?X)" "ro_id ro \<in> set (us_userRoles u)" "ro_name ro = ''RESTAURANT_OWNER''" "ro_tenantId ro = Some t"
          using u by (auto simp: active_owner_def holds_role_def)
        have "ro_id ro \<in> set (us_userRoles u')"
        proof (rule ccontr)
          assume "ro_id ro \<notin> set (us_userRoles u')"
          then obtain names where "uu_roles upd = Some names" "''RESTAURANT_OWNER'' \<notin> set names"
            using u'(2) ro user_change_lost[of t "t_roles ?X" upd u u' "ro_id ro"] by metis
          then show False using keeps by blast
        qed
        moreover have "us_tenantId u' = Some t \<and> us_deletedAt u' = None \<and> us_isActive u'"
          using u'(2) user_change_account[of t "t_roles ?X" upd u u'] u keeps by (auto simp: active_owner_def)
        ultimately have "active_owner ?X' t u'" using u'(1) ro roles unfolding active_owner_def holds_role_def by metis
        then show ?thesis ..
      qed
    qed (use other u in blast)
    then show ?thesis using own user_edited_ids[OF ed] by (simp add: has_owner_def)
  qed (use own in simp)
qed

lemma create_keeps_owner:
  assumes t: "t \<noteq> []" and run: "createUser P (tenant_ctx t) env dto (Some t) actor s = (r, s')"
    and own: "has_owner t (T (w_db (st_world s)))"
  shows "has_owner t (T (w_db (st_world s')))"
proof -
  let ?X = "T (w_db (st_world s))" and ?X' = "T (w_db (st_world s'))"
  from createUser_outcome[OF t run] show ?thesis
  proof
    assume "\<exists>u. t_users ?X' = t_users ?X @ [u] \<and> ?X'\<lparr>t_users := []\<rparr> = ?X\<lparr>t_users := []\<rparr> \<and>
      us_id u \<notin> us_id ` set (t_users ?X) \<and> us_tenantId u = Some t \<and>
      (\<forall>v \<in> set (t_users ?X). us_tenantId v = Some t \<longrightarrow> us_email v \<noteq> us_email u) \<and>
      (\<forall>i \<in> set (us_userRoles u). \<exists>role \<in> set (t_roles ?X). ro_id role = i \<and> ro_tenantId role = Some t \<and> grantable actor role)"
    then obtain u where u: "t_users ?X' = t_users ?X @ [u]" "t_roles ?X' = t_roles ?X" "us_id u \<notin> us_id ` set (t_users ?X)"
      using rest_of_users(1) by blast
    obtain v where "active_owner ?X t v" using own by (auto simp: has_owner_def)
    then have "active_owner ?X' t v" using u by (intro active_owner_kept[OF _ _ u(2)]) (auto simp: active_owner_def)
    then show ?thesis using own u by (auto simp: has_owner_def)
  qed (use own in simp)
qed

lemma delete_keeps_owner:
  assumes t: "t \<noteq> []" and run: "deleteUser P R (tenant_ctx t) env i (Some t) actor s = (r, s')"
    and own: "has_owner t (T (w_db (st_world s)))"
  shows "has_owner t (T (w_db (st_world s')))"
proof (cases r)
  case (Inl e)
  then show ?thesis using deleteUser_Inl[OF t run[unfolded Inl]] own by simp
next
  case (Inr x)
  let ?X = "T (w_db (st_world s))" and ?X' = "T (w_db (st_world s'))"
  note del = deleteUser_Inr[OF t run[unfolded Inr]]
  from del obtain xs w ys where row: "t_users ?X = xs @ w # ys" "us_id w = i"
    "t_users ?X' = xs @ w\<lparr>us_deletedAt := Some (ae_now env), us_isActive := False, us_updatedAt := ae_now env\<rparr> # ys" by blast
  from del obtain j where j: "user_join ?X j" "us_id (uj_user j) = i"
    "''RESTAURANT_OWNER'' \<in> ro_name ` set (uj_roles j) \<longrightarrow> (\<exists>u. us_id u \<noteq> i \<and> active_owner ?X t u)" by blast
  have roles: "t_roles ?X' = t_roles ?X" using del rest_of_users(1) by blast
  obtain u where u: "active_owner ?X t u" using own by (auto simp: has_owner_def)
  obtain v where v: "active_owner ?X t v" "us_id v \<noteq> i"
  proof (cases "us_id u = i")
    case True
    then have "uj_user j = u" using same_id_same_user[of ?X "uj_user j" u] j(1,2) u own
      by (auto simp: has_owner_def user_join_def active_owner_def)
    then show ?thesis using j(3) owner_role_listed[OF j(1)] u that by auto
  qed (use u that in blast)
  then have "v \<in> set (t_users ?X')" using row by (auto simp: active_owner_def)
  then have "active_owner ?X' t v" by (rule active_owner_kept[OF v(1) _ roles])
  then show ?thesis using own row by (auto simp: has_owner_def)
qed

lemma staff_step_keeps_owner:
  assumes "staff_step P R t s s'" "t \<noteq> []" "has_owner t (T (w_db (st_world s)))"
  shows "has_owner t (T (w_db (st_world s')))"
  using assms
  by cases (auto simp: assignRoles_def assignBranches_def dest: create_keeps_owner update_keeps_owner delete_keeps_owner)

end

text \<open>C17. A tenant never loses its last administrator: when user ids are unique and the tenant has a user who
  is active, not deleted and holds its \<^verbatim>\<open>RESTAURANT_OWNER\<close> role, then so it has after every sequence of
  staff operations by any callers with any outcomes, executed one after the other.\<close>

theorem tenant_keeps_an_owner:
  assumes "prisma_client P T" "t \<noteq> []" "(staff_step P R t)\<^sup>*\<^sup>* s s'"
    and "distinct (map us_id (t_users (T (w_db (st_world s)))))" "\<exists>u. active_owner (T (w_db (st_world s))) t u"
  shows "\<exists>u. active_owner (T (w_db (st_world s'))) t u"
proof -
  have "has_owner t (T (w_db (st_world s)))" using assms(4,5) by (simp add: has_owner_def)
  with assms(3) have "has_owner t (T (w_db (st_world s')))"
    by (induction rule: rtranclp_induct) (auto intro: prisma_client.staff_step_keeps_owner[OF assms(1) _ assms(2)])
  then show ?thesis by (simp add: has_owner_def)
qed

theorem tenant_keeps_an_owner_witness:
  "\<exists>u. active_owner (w_db (st_world (snd (deleteUser mem_prisma mem_redis (tenant_ctx ''t1'') (sample_auth 5) ''u2'' (Some ''t1'')
      (owner_actor\<lparr>ac_id := ''u1''\<rparr>) staff_site)))) ''t1'' u"
proof -
  let ?del = "deleteUser mem_prisma mem_redis (tenant_ctx ''t1'') (sample_auth 5) ''u2'' (Some ''t1'') (owner_actor\<lparr>ac_id := ''u1''\<rparr>) staff_site"
  have "staff_step mem_prisma mem_redis ''t1'' staff_site (snd ?del)"
    by (rule delete_step[of mem_prisma mem_redis "''t1''" "sample_auth 5" "''u2''" "owner_actor\<lparr>ac_id := ''u1''\<rparr>" staff_site "fst ?del"]) simp
  then have "(staff_step mem_prisma mem_redis ''t1'')\<^sup>*\<^sup>* staff_site (snd ?del)" by blast
  then show ?thesis
  proof (rule tenant_keeps_an_owner[OF mem.prisma_client_axioms, rotated])
    show "distinct (map us_id (t_users (w_db (st_world staff_site))))" by (simp add: staff_site_def sample_user_def)
    show "\<exists>u. active_owner (w_db (st_world staff_site)) ''t1'' u"
      by (rule exI[of _ "sample_user\<lparr>us_id := ''u2'', us_email := ''bob@x.com'', us_userRoles := [''ro2'']\<rparr>"])
        (simp add: active_owner_def holds_role_def staff_site_def sample_user_def sample_role_def)
  qed simp
qed

section \<open>The end of a session\<close>

text \<open>A deleted user is locked out, or nothing happened: a deletion that throws (also because the session store
  could not take the revocation) leaves the database as it was; one that returns has marked the user of the
  tenant deleted and inactive, and every access token issued to the user before is refused afterwards for as
  long as it would verify, while Redis is connected and answers.\<close>

theorem deleted_user_locked_out:
  assumes "prisma_client P T" "redis_store R V" "jwt_library J" "t \<noteq> []" "i \<noteq> []"
    and run: "deleteUser P R (tenant_ctx t) env1 i (Some t) actor s = (r, s')"
    and issued: "generateTokens env0 i email tid roles perms = Inr (tok, rtok)" "ae_jwt env0 = J"
    and times: "0 \<le> ae_now env0" "ae_now env0 \<le> ae_now env1" "ae_now env1 \<le> ae_now env2" "ae_now env2 < 2 ^ 53"
    and used: "jw_verifyAsync J (ae_accessTokenSecret env0) (now_seconds env2) tok = Inr payload"
    and answers: "\<And>k x. \<exists>y. fst (rd_get R (ae_now env2) k x) = Inr y"
  shows "case r of
      Inl e \<Rightarrow> T (w_db (st_world s')) = T (w_db (st_world s))
    | Inr _ \<Rightarrow> (\<exists>u \<in> set (t_users (T (w_db (st_world s')))). us_id u = i \<and> us_tenantId u = Some t \<and>
                  us_deletedAt u = Some (ae_now env1) \<and> \<not> us_isActive u) \<and>
               (\<exists>msg. fst (jwtStrategy_validate R env2 req rt c payload s') = Inl (UnauthorizedException msg))"
proof (cases r)
  case (Inl e)
  then show ?thesis using prisma_client.deleteUser_Inl[OF assms(1,4) run[unfolded Inl]] by simp
next
  case (Inr x)
  note del = prisma_client.deleteUser_Inr[OF assms(1,4) run[unfolded Inr]]
  from del obtain xs u ys where u: "us_id u = i" "us_tenantId u = Some t" "t_users (T (w_db (st_world s'))) =
      xs @ u\<lparr>us_deletedAt := Some (ae_now env1), us_isActive := False, us_updatedAt := ae_now env1\<rparr> # ys" by blast
  from del obtain s1 s2 :: "('b, 'a world) site" where rev: "revokeAllUserTokens R env1 i s1 = (Inr (), s2)" "st_cache s' = st_cache s2" by blast
  have "online s2" using redis_store.revokeAllUserTokens_Inr[OF assms(2) rev(1) assms(5)] by blast
  then have on: "online s'" using rev(2) by (simp add: online_def)
  have "\<exists>msg. fst (jwtStrategy_validate R env2 req rt c payload s') = Inl (UnauthorizedException msg)"
    by (rule token_refused_after_revocation[OF assms(2,3) issued rev(1) assms(5) times used on _ answers]) (simp add: rev(2))
  then show ?thesis using Inr u by auto
qed

theorem deleted_user_locked_out_witness:
  "\<exists>tok rtok s' payload. generateTokens (sample_auth 1000) ''u1'' ''u@x'' (Some ''t1'') [''OWNER''] [] = Inr (tok, rtok) \<and>
     deleteUser mem_prisma mem_redis (tenant_ctx ''t1'') (sample_auth 60000) ''u1'' (Some ''t1'') owner_actor staff_site = (Inr ''u1'', s') \<and>
     jw_verifyAsync clear_jwt ''a'' 300 tok = Inr payload \<and>
     (\<exists>msg. fst (jwtStrategy_validate mem_redis (sample_auth 300000)
        \<lparr>rq_host = None, rq_authorization = None, rq_xTenantId = None\<rparr> None None payload s') = Inl (UnauthorizedException msg))"
proof -
  let ?del = "deleteUser mem_prisma mem_redis (tenant_ctx ''t1'') (sample_auth 60000) ''u1'' (Some ''t1'') owner_actor"
  obtain tok rtok payload where gen: "generateTokens (sample_auth 1000) ''u1'' ''u@x'' (Some ''t1'') [''OWNER''] [] = Inr (tok, rtok)"
    and pay: "jw_verifyAsync clear_jwt ''a'' 300 tok = Inr payload"
    by (rule sample_tokens) (auto simp: clear_jwt_def)
  obtain r s' where run: "?del staff_site = (r, s')" by force
  have "case fst (?del staff_site) of Inl _ \<Rightarrow> False | Inr i \<Rightarrow> i = ''u1''" by code_simp
  then have r: "r = Inr ''u1''" using run by (cases r) auto
  have "case r of Inl e \<Rightarrow> w_db (st_world s') = w_db (st_world staff_site)
    | Inr _ \<Rightarrow> (\<exists>u \<in> set (t_users (w_db (st_world s'))). us_id u = ''u1'' \<and> us_tenantId u = Some ''t1'' \<and>
                  us_deletedAt u = Some (ae_now (sample_auth 60000)) \<and> \<not> us_isActive u) \<and>
      (\<exists>msg. fst (jwtStrategy_validate mem_redis (sample_auth 300000)
        \<lparr>rq_host = None, rq_authorization = None, rq_xTenantId = None\<rparr> None None payload s') = Inl (UnauthorizedException msg))"
    by (rule deleted_user_locked_out[OF mem.prisma_client_axioms mem_redis.redis_store_axioms clear_jwt.jwt_library_axioms _ _ run gen])
      (use pay in \<open>simp_all add: mem_redis_def\<close>)
  then show ?thesis using gen run r pay by auto
qed

end
