(* ===== verification/Kds_Gateway.thy ===== *)
theory Kds_Gateway
  imports Request_Context Kds_Broadcast
begin

text \<open>
  The connections of \<^verbatim>\<open>apps/api/src/kds/kds.gateway.ts\<close> and \<^verbatim>\<open>kds/guards/ws-jwt-auth.guard.ts\<close>: how a
  socket authenticates, joins the room of a branch and leaves it. A \<open>hub\<close> is an application process
  with its sockets. Socket.IO is modelled by what the handlers use of it: a socket's rooms, its data,
  \<^verbatim>\<open>emit\<close> to the client and \<^verbatim>\<open>disconnect\<close>, which leaves all rooms; whether \<^verbatim>\<open>join\<close> succeeds is for the
  adapter to say. The theory shows that a socket is only ever in rooms of the tenant of its verified token.
\<close>

section \<open>Sockets\<close>

record wsUser =
  wu_id :: string
  wu_email :: string
  wu_tenantId :: string
  wu_roles :: "string list"
  wu_permissions :: "string list"

datatype socketEvent = EmitError string | EmitConnected string string | EmitJoined string string string | EmitLeft string string

record socket =
  so_connected :: bool
  so_user :: "wsUser option"
  so_rooms :: "string list"
  so_events :: "socketEvent list"

record ('s, 'w) hub =
  hb_site :: "('s, 'w) site"
  hb_sockets :: "string \<Rightarrow> socket"

text \<open>The parts of a handshake that can carry the token; a value that is not a string counts as absent.\<close>

record handshake =
  hs_authToken :: "string option"
  hs_queryToken :: "string option"
  hs_authorization :: "header option"

text \<open>The body of a message: a string, an object with or without \<^verbatim>\<open>branchId\<close>, another value, or null.\<close>

datatype wsPayload = PString string | PObject "string option" | POther | PNull

record wsReply =
  wr_event :: string
  wr_room :: "string option"
  wr_message :: "string option"

definition onSite :: "(('s, 'w) site, 'a) prog \<Rightarrow> (('s, 'w) hub, 'a) prog" where
  "onSite m = (\<lambda>h. case m (hb_site h) of (r, s) \<Rightarrow> (r, h\<lparr>hb_site := s\<rparr>))"

definition updateSocket :: "string \<Rightarrow> (socket \<Rightarrow> socket) \<Rightarrow> (('s, 'w) hub, unit) prog" where
  "updateSocket cid f = modify (\<lambda>h. h\<lparr>hb_sockets := (hb_sockets h)(cid := f (hb_sockets h cid))\<rparr>)"

definition clientEmit :: "string \<Rightarrow> socketEvent \<Rightarrow> (('s, 'w) hub, unit) prog" where
  "clientEmit cid ev = updateSocket cid (\<lambda>k. k\<lparr>so_events := so_events k @ [ev]\<rparr>)"

definition clientDisconnect :: "string \<Rightarrow> (('s, 'w) hub, unit) prog" where
  "clientDisconnect cid = updateSocket cid (\<lambda>k. k\<lparr>so_connected := False, so_rooms := []\<rparr>)"

definition getSocket :: "string \<Rightarrow> (('s, 'w) hub, socket) prog" where
  "getSocket cid = (\<lambda>h. (Inr (hb_sockets h cid), h))"

section \<open>The handlers\<close>

definition extractToken :: "handshake \<Rightarrow> string option" where
  "extractToken hs =
     (if truthy (hs_authToken hs) then hs_authToken hs
      else if truthy (hs_queryToken hs) then hs_queryToken hs
      else case hs_authorization hs of
        Some (OneHeader h) \<Rightarrow> if startsWith h ''Bearer '' then bearerToken h else None
      | Some (ManyHeaders (h # _)) \<Rightarrow> if startsWith h ''Bearer '' then bearerToken h else None
      | _ \<Rightarrow> None)"

definition rejectConnection :: "string \<Rightarrow> string \<Rightarrow> (('s, 'w) hub, unit) prog" where
  "rejectConnection cid message = andThen (clientEmit cid (EmitError message)) (\<lambda>_. clientDisconnect cid)"

definition attachUser :: "string \<Rightarrow> claims \<Rightarrow> (('s, 'w) hub, unit) prog" where
  "attachUser cid payload =
     (let user = \<lparr>wu_id = cl_sub payload, wu_email = cl_email payload, wu_tenantId = or_else (cl_tenantId payload) [],
                  wu_roles = opt_list (cl_roles payload), wu_permissions = opt_list (cl_permissions payload)\<rparr> in
      andThen (updateSocket cid (\<lambda>k. k\<lparr>so_user := Some user\<rparr>)) (\<lambda>_.
      clientEmit cid (EmitConnected (wu_tenantId user) (wu_id user))))"

definition handleConnection ::
  "'s redis \<Rightarrow> authEnv \<Rightarrow> string \<Rightarrow> handshake \<Rightarrow> (('s, 'w) hub, unit) prog" where
  "handleConnection R env cid hs =
     try_catch
       (if \<not> truthy (extractToken hs) then rejectConnection cid ''Authentication required: Missing JWT token''
        else
        let token = or_else (extractToken hs) [] in
        case jw_verifyAsync (ae_jwt env) (ae_accessTokenSecret env) (now_seconds env) token of
          Inl err \<Rightarrow> rejectConnection cid ''Invalid or expired token''
        | Inr payload \<Rightarrow>
            andThen (onSite (isTokenBlacklisted R env token)) (\<lambda>isBlacklisted.
            if json_truthy isBlacklisted then rejectConnection cid ''Token has been revoked''
            else if \<not> truthy (cl_tenantId payload) then rejectConnection cid ''Tenant context missing in token''
            else
            attachUser cid payload))
       (\<lambda>err. rejectConnection cid ''Internal authentication error'')"

text \<open>Only a log line.\<close>

definition handleDisconnect :: "string \<Rightarrow> (('s, 'w) hub, unit) prog" where
  "handleDisconnect cid = return ()"

definition js_includes :: "string \<Rightarrow> string \<Rightarrow> bool" where
  "js_includes s p = list_ex (\<lambda>k. startsWith (drop k s) p) [0..<Suc (length s)]"

definition joinBranchId :: "wsPayload \<Rightarrow> string option" where
  "joinBranchId payload = (case payload of PString s \<Rightarrow> Some s | PObject b \<Rightarrow> b | _ \<Rightarrow> None)"

text \<open>\<^verbatim>\<open>!user || !user.tenantId\<close> is \<open>None\<close>.\<close>

definition socketUser :: "socket \<Rightarrow> wsUser option" where
  "socketUser client = (case so_user client of None \<Rightarrow> None | Some u \<Rightarrow> if wu_tenantId u = [] then None else Some u)"

text \<open>Joining, once the socket is known to be authenticated.\<close>

definition joinRoom ::
  "'d prisma \<Rightarrow> (string \<Rightarrow> exn + unit) \<Rightarrow> string \<Rightarrow> wsUser \<Rightarrow> wsPayload \<Rightarrow> (('s, 'd world) hub, wsReply option) prog" where
  "joinRoom P adapterJoin cid user payload =
     (if \<not> truthy (joinBranchId payload)
      then andThen (clientEmit cid (EmitError ''branchId is required to join room'')) (\<lambda>_.
           return (Some \<lparr>wr_event = ''error'', wr_room = None, wr_message = Some ''branchId required''\<rparr>))
      else
      let branchId = or_else (joinBranchId payload) [];
          c = tenant_ctx (wu_tenantId user) in
      try_catch
        (andThen (onSite (liftWorld (liftDb (findById c branch_model (extended c branch_model (px_branch P)) branchId)))) (\<lambda>branch.
         if branch = None
         then andThen (clientEmit cid (EmitError (''Branch '' @ branchId @ '' not found or inaccessible under tenant context''))) (\<lambda>_.
              return (Some \<lparr>wr_event = ''error'', wr_room = None, wr_message = Some ''Branch not found or access denied''\<rparr>))
         else
         let roomName = getRoomName (wu_tenantId user) branchId in
         andThen (of_result (adapterJoin roomName)) (\<lambda>_.
         andThen (updateSocket cid (\<lambda>k. k\<lparr>so_rooms := List.insert roomName (so_rooms k)\<rparr>)) (\<lambda>_.
         andThen (clientEmit cid (EmitJoined roomName branchId (wu_tenantId user))) (\<lambda>_.
         return (Some \<lparr>wr_event = ''joinedBranch'', wr_room = Some roomName, wr_message = None\<rparr>))))))
        (\<lambda>err.
           let message = (if js_includes (exn_message err) ''Fail-Safe Block''
                          then ''Tenant isolation violation: Branch not accessible'' else ''Failed to join branch room'') in
           andThen (clientEmit cid (EmitError message)) (\<lambda>_.
           return (Some \<lparr>wr_event = ''error'', wr_room = None, wr_message = Some message\<rparr>))))"

definition handleJoinBranch ::
  "'d prisma \<Rightarrow> (string \<Rightarrow> exn + unit) \<Rightarrow> string \<Rightarrow> wsPayload \<Rightarrow> (('s, 'd world) hub, wsReply option) prog" where
  "handleJoinBranch P adapterJoin cid payload =
     andThen (getSocket cid) (\<lambda>client.
     case socketUser client of
       None \<Rightarrow> andThen (clientEmit cid (EmitError ''Not authenticated'')) (\<lambda>_.
               andThen (clientDisconnect cid) (\<lambda>_. return None))
     | Some user \<Rightarrow> joinRoom P adapterJoin cid user payload)"

definition leaveRoom :: "string \<Rightarrow> wsUser \<Rightarrow> wsPayload \<Rightarrow> (('s, 'w) hub, wsReply option) prog" where
  "leaveRoom cid user payload =
     (if payload = PNull then throw (JsError ''Cannot read properties of null'')
      else if \<not> truthy (joinBranchId payload)
      then andThen (clientEmit cid (EmitError ''branchId required'')) (\<lambda>_. return None)
      else
      let branchId = or_else (joinBranchId payload) [];
          roomName = getRoomName (wu_tenantId user) branchId in
      andThen (updateSocket cid (\<lambda>k. k\<lparr>so_rooms := removeAll roomName (so_rooms k)\<rparr>)) (\<lambda>_.
      andThen (clientEmit cid (EmitLeft roomName branchId)) (\<lambda>_.
      return (Some \<lparr>wr_event = ''leftBranch'', wr_room = Some roomName, wr_message = None\<rparr>))))"

definition handleLeaveBranch :: "string \<Rightarrow> wsPayload \<Rightarrow> (('s, 'w) hub, wsReply option) prog" where
  "handleLeaveBranch cid payload =
     andThen (getSocket cid) (\<lambda>client.
     case socketUser client of
       None \<Rightarrow> andThen (clientEmit cid (EmitError ''Not authenticated'')) (\<lambda>_. return None)
     | Some user \<Rightarrow> leaveRoom cid user payload)"

text \<open>\<^verbatim>\<open>WsJwtAuthGuard.canActivate\<close>.\<close>

definition wsJwtAuthGuard :: "string \<Rightarrow> (('s, 'w) hub, bool) prog" where
  "wsJwtAuthGuard cid = andThen (getSocket cid) (\<lambda>client.
     case socketUser client of
       None \<Rightarrow> throw (JsError ''Unauthorized: Socket not authenticated'')
     | Some _ \<Rightarrow> return True)"

section \<open>What a handler does to the sockets\<close>

lemma updateSocket_run: "updateSocket cid f h = (Inr (), h\<lparr>hb_sockets := (hb_sockets h)(cid := f (hb_sockets h cid))\<rparr>)"
  by (simp add: updateSocket_def modify_def)

lemma onSite_sockets: "onSite m h = (r, h') \<Longrightarrow> hb_sockets h' = hb_sockets h"
  by (auto simp: onSite_def split: prod.splits)

text \<open>
  A socket of the user \<open>u\<close> in a run of a handler for it: it stays the user's, gains only rooms of the
  user's tenant, and no other socket changes.
\<close>

definition rooms_of :: "string \<Rightarrow> wsUser \<Rightarrow> ('s, 'w) hub \<Rightarrow> ('s, 'w) hub \<Rightarrow> bool" where
  "rooms_of cid u h h' \<longleftrightarrow> (so_user (hb_sockets h cid) = Some u \<longrightarrow>
     so_user (hb_sockets h' cid) = Some u \<and>
     (\<forall>room \<in> set (so_rooms (hb_sockets h' cid)). room \<in> set (so_rooms (hb_sockets h cid)) \<or>
        (\<exists>b. room = getRoomName (wu_tenantId u) b)) \<and>
     (\<forall>c. c \<noteq> cid \<longrightarrow> hb_sockets h' c = hb_sockets h c))"

interpretation rooms: change "rooms_of cid u" for cid u
  by unfold_locales (auto simp: rooms_of_def)

lemma rooms_onSite: "along (rooms_of cid u) (onSite m)"
  by (rule alongI) (auto simp: rooms_of_def dest!: onSite_sockets)

lemma rooms_update:
  assumes "\<And>k. so_user (f k) = so_user k"
    "\<And>k room. room \<in> set (so_rooms (f k)) \<Longrightarrow> room \<in> set (so_rooms k) \<or> (\<exists>b. room = getRoomName (wu_tenantId u) b)"
  shows "along (rooms_of cid u) (updateSocket cid f)"
  by (rule alongI) (use assms in \<open>auto simp: rooms_of_def updateSocket_run\<close>)

lemma rooms_emit: "along (rooms_of cid u) (clientEmit cid ev)"
  unfolding clientEmit_def by (rule rooms_update) auto

lemma rooms_disconnect: "along (rooms_of cid u) (clientDisconnect cid)"
  unfolding clientDisconnect_def by (rule rooms_update) auto

lemma getSocket_run: "andThen (getSocket cid) k h = k (hb_sockets h cid) h"
  by (simp add: andThen_def getSocket_def)

lemma join_rooms: "along (rooms_of cid u) (joinRoom P aj cid u p)"
  unfolding joinRoom_def Let_def
  by (intro rooms.along_intros rooms_onSite rooms_emit rooms_update) (auto split: if_splits)

lemma leave_rooms: "along (rooms_of cid u) (leaveRoom cid u p)"
  unfolding leaveRoom_def Let_def
  by (intro rooms.along_intros rooms_emit rooms_update) auto

text \<open>The rooms and the user of a socket that is being connected: none yet, and one from a verified token.\<close>

definition verified :: "jwtService \<Rightarrow> string \<Rightarrow> wsUser \<Rightarrow> bool" where
  "verified J sec u \<longleftrightarrow> (\<exists>m tok c. jw_verifyAsync J sec m tok = Inr c \<and> wu_id u = cl_sub c \<and>
     cl_tenantId c = Some (wu_tenantId u) \<and> wu_tenantId u \<noteq> [])"

definition newcomer :: "jwtService \<Rightarrow> string \<Rightarrow> socket \<Rightarrow> bool" where
  "newcomer J sec k \<longleftrightarrow> so_rooms k = [] \<and> (\<forall>u. so_user k = Some u \<longrightarrow> verified J sec u)"

definition connecting :: "jwtService \<Rightarrow> string \<Rightarrow> string \<Rightarrow> ('s, 'w) hub \<Rightarrow> ('s, 'w) hub \<Rightarrow> bool" where
  "connecting J sec cid h h' \<longleftrightarrow>
     (newcomer J sec (hb_sockets h cid) \<longrightarrow> newcomer J sec (hb_sockets h' cid)) \<and>
     (\<forall>c. c \<noteq> cid \<longrightarrow> hb_sockets h' c = hb_sockets h c)"

interpretation conn: change "connecting J sec cid" for J sec cid
  by unfold_locales (auto simp: connecting_def)

lemma connecting_update:
  assumes "\<And>k. so_rooms k = [] \<Longrightarrow> so_rooms (f k) = []"
    "\<And>k u. so_user (f k) = Some u \<Longrightarrow> so_user k = Some u \<or> verified J sec u"
  shows "along (connecting J sec cid) (updateSocket cid f)"
proof (rule alongI)
  fix h r h' assume run: "updateSocket cid f h = (r, h')"
  have "newcomer J sec k \<Longrightarrow> newcomer J sec (f k)" for k
    using assms unfolding newcomer_def by blast
  then show "connecting J sec cid h h'" using run by (auto simp: connecting_def updateSocket_run)
qed

lemma emit_connecting: "along (connecting J sec cid) (clientEmit cid ev)"
  unfolding clientEmit_def by (rule connecting_update) simp_all

lemma reject_connecting: "along (connecting J sec cid) (rejectConnection cid msg)"
  unfolding rejectConnection_def clientDisconnect_def
  by (intro conn.along_andThen emit_connecting connecting_update) simp_all

lemma attach_connecting:
  assumes "jw_verifyAsync J sec m tok = Inr c" "truthy (cl_tenantId c)"
  shows "along (connecting J sec cid) (attachUser cid c)"
proof -
  let ?u = "\<lparr>wu_id = cl_sub c, wu_email = cl_email c, wu_tenantId = or_else (cl_tenantId c) [],
          wu_roles = opt_list (cl_roles c), wu_permissions = opt_list (cl_permissions c)\<rparr>"
  have "verified J sec ?u"
    using assms unfolding verified_def by (cases "cl_tenantId c") (auto simp: or_else_def)
  then have "along (connecting J sec cid) (updateSocket cid (\<lambda>k. k\<lparr>so_user := Some ?u\<rparr>))"
    by (intro connecting_update) simp_all
  then show ?thesis unfolding attachUser_def Let_def
    by (rule conn.along_andThen) (rule emit_connecting)
qed

lemma connection_connects:
  assumes "ae_jwt env = J" "ae_accessTokenSecret env = sec"
  shows "along (connecting J sec cid) (handleConnection R env cid hs)"
proof -
  have site: "along (connecting J sec cid) (onSite m)" for m :: "(('s, 'w) site, json) prog"
    by (rule alongI) (auto simp: connecting_def dest!: onSite_sockets)
  show ?thesis unfolding handleConnection_def Let_def assms
    by (intro conn.along_try_catch conn.along_if reject_connecting)
       (auto split: sum.split intro!: conn.along_andThen conn.along_if reject_connecting site attach_connecting)
qed

section \<open>The sockets of a process over time\<close>

definition fresh_socket :: socket where
  "fresh_socket = \<lparr>so_connected = True, so_user = None, so_rooms = [], so_events = []\<rparr>"

definition open_socket :: "string \<Rightarrow> ('s, 'w) hub \<Rightarrow> ('s, 'w) hub" where
  "open_socket cid h = h\<lparr>hb_sockets := (hb_sockets h)(cid := fresh_socket)\<rparr>"

definition close_socket :: "string \<Rightarrow> ('s, 'w) hub \<Rightarrow> ('s, 'w) hub" where
  "close_socket cid h = snd (clientDisconnect cid h)"

text \<open>
  What can happen to the sockets of a process whose access tokens are signed with the secret \<open>sec\<close>: a
  client connects under an id that is not in use, with any handshake; a client asks to join or to leave
  a branch, with any payload; a connection closes; or something else in the application runs. The
  handlers may also throw.
\<close>

inductive hub_step ::
  "'s redis \<Rightarrow> 'd prisma \<Rightarrow> jwtService \<Rightarrow> string \<Rightarrow> ('s, 'd world) hub \<Rightarrow> ('s, 'd world) hub \<Rightarrow> bool"
  for R P J sec where
  opened: "hub_step R P J sec h h'"
    if "\<not> so_connected (hb_sockets h cid)" "ae_jwt env = J" "ae_accessTokenSecret env = sec"
      "handleConnection R env cid hs (open_socket cid h) = (r, h')"
| joined: "hub_step R P J sec h h'" if "handleJoinBranch P aj cid payload h = (r, h')"
| left: "hub_step R P J sec h h'" if "handleLeaveBranch cid payload h = (r, h')"
| closed: "hub_step R P J sec h h'" if "handleDisconnect cid (close_socket cid h) = (r, h')"
| elsewhere: "hub_step R P J sec h h'" if "hb_sockets h' = hb_sockets h"

definition admitted :: "jwtService \<Rightarrow> string \<Rightarrow> socket \<Rightarrow> bool" where
  "admitted J sec k \<longleftrightarrow> (\<forall>u. so_user k = Some u \<longrightarrow> verified J sec u) \<and>
     (\<forall>room \<in> set (so_rooms k). \<exists>u b. so_user k = Some u \<and> room = getRoomName (wu_tenantId u) b)"

lemma admitted_newcomer: "newcomer J sec k \<Longrightarrow> admitted J sec k"
  by (simp add: newcomer_def admitted_def)

lemma admitted_rooms_of:
  assumes "rooms_of cid u h h'" "so_user (hb_sockets h cid) = Some u" "\<forall>c. admitted J sec (hb_sockets h c)"
  shows "admitted J sec (hb_sockets h' c)"
proof (cases "c = cid")
  case True
  have "verified J sec u" using assms(2,3) unfolding admitted_def by blast
  moreover have "\<exists>b. room = getRoomName (wu_tenantId u) b" if "room \<in> set (so_rooms (hb_sockets h cid))" for room
    using assms(2,3) that unfolding admitted_def by fastforce
  ultimately show ?thesis using assms(1,2) True unfolding rooms_of_def admitted_def by auto
qed (use assms in \<open>simp add: rooms_of_def\<close>)

text \<open>A socket without a user is told so, and is disconnected when it wanted to join.\<close>

lemma admitted_update:
  assumes "\<forall>c. admitted J sec (hb_sockets h c)" "h' = snd (updateSocket cid f h)"
    "\<And>k. so_user (f k) = so_user k" "\<And>k. set (so_rooms (f k)) \<subseteq> set (so_rooms k)"
  shows "admitted J sec (hb_sockets h' c)"
proof -
  have "admitted J sec k \<Longrightarrow> admitted J sec (f k)" for k
    using assms(3,4) unfolding admitted_def by (metis subsetD)
  then show ?thesis using assms(1,2) by (simp add: updateSocket_run)
qed

lemma join_admitted:
  assumes "\<forall>c. admitted J sec (hb_sockets h c)" "handleJoinBranch P aj cid p h = (r, h')"
  shows "admitted J sec (hb_sockets h' c)"
proof (cases "socketUser (hb_sockets h cid)")
  case None
  then have "h' = snd (updateSocket cid (\<lambda>k. k\<lparr>so_events := so_events k @ [EmitError ''Not authenticated''],
      so_connected := False, so_rooms := []\<rparr>) h)"
    using assms(2) by (simp add: handleJoinBranch_def getSocket_def clientEmit_def clientDisconnect_def andThen_def
        updateSocket_run return_def)
  then show ?thesis by (rule admitted_update[OF assms(1)]) simp_all
next
  case (Some u)
  then have u: "so_user (hb_sockets h cid) = Some u" by (auto simp: socketUser_def split: option.splits if_splits)
  have "joinRoom P aj cid u p h = (r, h')" using assms(2) Some by (simp add: handleJoinBranch_def getSocket_run)
  from admitted_rooms_of[OF alongD[OF join_rooms this] u assms(1)] show ?thesis .
qed

lemma leave_admitted:
  assumes "\<forall>c. admitted J sec (hb_sockets h c)" "handleLeaveBranch cid p h = (r, h')"
  shows "admitted J sec (hb_sockets h' c)"
proof (cases "socketUser (hb_sockets h cid)")
  case None
  then have "h' = snd (updateSocket cid (\<lambda>k. k\<lparr>so_events := so_events k @ [EmitError ''Not authenticated'']\<rparr>) h)"
    using assms(2) by (simp add: handleLeaveBranch_def getSocket_def clientEmit_def andThen_def updateSocket_run return_def)
  then show ?thesis by (rule admitted_update[OF assms(1)]) simp_all
next
  case (Some u)
  then have u: "so_user (hb_sockets h cid) = Some u" by (auto simp: socketUser_def split: option.splits if_splits)
  have "leaveRoom cid u p h = (r, h')" using assms(2) Some by (simp add: handleLeaveBranch_def getSocket_run)
  from admitted_rooms_of[OF alongD[OF leave_rooms this] u assms(1)] show ?thesis .
qed

lemma opened_admitted:
  assumes "\<forall>c. admitted J sec (hb_sockets h c)" "ae_jwt env = J" "ae_accessTokenSecret env = sec"
    and run: "handleConnection R env cid hs (open_socket cid h) = (r, h')"
  shows "admitted J sec (hb_sockets h' c)"
proof -
  have "connecting J sec cid (open_socket cid h) h'" by (rule alongD[OF connection_connects[OF assms(2,3)] run])
  then show ?thesis using assms(1)
    by (cases "c = cid") (auto simp: connecting_def open_socket_def newcomer_def fresh_socket_def intro: admitted_newcomer)
qed

lemma hub_step_admitted:
  assumes "hub_step R P J sec h h'" "\<forall>c. admitted J sec (hb_sockets h c)"
  shows "\<forall>c. admitted J sec (hb_sockets h' c)"
  using assms(1)
proof cases
  case (closed cid r)
  then have "h' = snd (updateSocket cid (\<lambda>k. k\<lparr>so_connected := False, so_rooms := []\<rparr>) h)"
    by (simp add: handleDisconnect_def close_socket_def clientDisconnect_def return_def)
  then have "admitted J sec (hb_sockets h' c)" for c by (rule admitted_update[OF assms(2)]) simp_all
  then show ?thesis by blast
next
  case opened
  then show ?thesis using opened_admitted[OF assms(2)] by blast
next
  case joined
  then show ?thesis using join_admitted[OF assms(2)] by blast
next
  case left
  then show ?thesis using leave_admitted[OF assms(2)] by blast
qed (use assms(2) in simp)

lemma hub_steps_admitted:
  assumes "(hub_step R P J sec)\<^sup>*\<^sup>* h h'" "\<forall>c. admitted J sec (hb_sockets h c)"
  shows "admitted J sec (hb_sockets h' c)"
  using assms by (induction arbitrary: c) (metis hub_step_admitted)+

text \<open>The name of a room whose tenant and branch ids have no colon is the name of no other tenant's room.\<close>

lemma getRoomName_unique:
  assumes "CHR '':'' \<notin> set t" "CHR '':'' \<notin> set b" "getRoomName t b = getRoomName t' b'"
  shows "t' = t \<and> b' = b"
proof -
  have "count_list (getRoomName t b) CHR '':'' = 3" "count_list (getRoomName t' b') CHR '':'' = count_list t' CHR '':'' + count_list b' CHR '':'' + 3"
    using assms(1,2) by (simp_all add: getRoomName_def)
  then have "CHR '':'' \<notin> set t'" using assms(3) by (simp add: count_list_0_iff)
  from assms(3)[unfolded getRoomName_inj[OF assms(1) this]] show ?thesis by simp
qed

section \<open>Joining needs a branch of the tenant\<close>

lemma socketUser_Some: "socketUser k = Some u \<longleftrightarrow> so_user k = Some u \<and> wu_tenantId u \<noteq> []"
  by (auto simp: socketUser_def split: option.splits)

context prisma_client
begin

lemma joinRoom_own_branch:
  assumes u: "wu_tenantId u \<noteq> []" and run: "joinRoom P aj cid u p h = (r, h')"
    and new: "room \<in> set (so_rooms (hb_sockets h' cid))" "room \<notin> set (so_rooms (hb_sockets h cid))"
  shows "\<exists>br. br \<in> set (t_branches (T (w_db (st_world (hb_site h))))) \<and> br_tenantId br = Some (wu_tenantId u) \<and>
    br_deletedAt br = None \<and> joinBranchId p = Some (br_id br) \<and> room = getRoomName (wu_tenantId u) (br_id br) \<and>
    r = Inr (Some \<lparr>wr_event = ''joinedBranch'', wr_room = Some room, wr_message = None\<rparr>)"
proof -
  let ?c = "tenant_ctx (wu_tenantId u)"
  let ?b = "or_else (joinBranchId p) []"
  let ?d = "w_db (st_world (hb_site h))"
  have b: "truthy (joinBranchId p)" using run new
    by (auto simp: joinRoom_def andThen_def clientEmit_def updateSocket_run return_def split: if_splits)
  obtain q d where f: "findById ?c branch_model (extended ?c branch_model (px_branch P)) ?b ?d = (q, d)" by force
  have fl: "onSite (liftWorld (liftDb (findById ?c branch_model (extended ?c branch_model (px_branch P)) ?b))) h
      = (q, h\<lparr>hb_site := (hb_site h)\<lparr>st_world := (st_world (hb_site h))\<lparr>w_db := d\<rparr>\<rparr>\<rparr>)"
    by (simp add: onSite_def liftWorld_def liftDb_def f)
  note eval = joinRoom_def Let_def try_catch_def andThen_def fl clientEmit_def updateSocket_run return_def of_result_def
  have "q \<noteq> Inl e" "q \<noteq> Inr None" for e using run new b by (auto simp: eval)
  then obtain br where q: "q = Inr (Some br)" by (metis old.sum.exhaust option.exhaust)
  have "r = Inr (Some \<lparr>wr_event = ''joinedBranch'', wr_room = Some room, wr_message = None\<rparr>) \<and>
      room = getRoomName (wu_tenantId u) ?b"
    using run new b by (cases "aj (getRoomName (wu_tenantId u) ?b)") (auto simp: eval q)
  then show ?thesis using branches.findById_Some[OF u f[unfolded q]] b
    by (cases "joinBranchId p") (auto simp: branch_model_def or_else_def)
qed

end

end
