(* ===== verification/Gateway_Properties.thy ===== *)
theory Gateway_Properties
  imports Kds_Gateway Access_Properties
begin

text \<open>
  The sockets of the kitchen display: who hears a broadcast, and what joining a room requires, for
  every database client that behaves as documented.
\<close>

definition sample_hub :: "(mem_store, tables world) hub" where
  "sample_hub = \<lparr>hb_site = sample_site, hb_sockets = (\<lambda>_. fresh_socket\<lparr>so_connected := False\<rparr>)\<rparr>"

definition sample_handshake :: "string \<Rightarrow> handshake" where
  "sample_handshake tok = \<lparr>hs_authToken = None, hs_queryToken = Some tok, hs_authorization = None\<rparr>"

definition sample_token :: string where
  "sample_token = (case clear_sign ''a'' 0 900 (sample_claims (Some ''t1'')) of Inl _ \<Rightarrow> [] | Inr tok \<Rightarrow> tok)"

definition sample_opened :: "(mem_store, tables world) hub" where
  "sample_opened = snd (handleConnection mem_redis (sample_auth 1000) ''c1'' (sample_handshake sample_token) (open_socket ''c1'' sample_hub))"

definition sample_joined :: "(mem_store, tables world) hub" where
  "sample_joined = snd (handleJoinBranch mem_prisma (\<lambda>_. Inr ()) ''c1'' (PString ''b1'') sample_opened)"

lemma sample_run: "(hub_step mem_redis mem_prisma clear_jwt ''a'')\<^sup>*\<^sup>* sample_hub sample_joined"
proof -
  have "hub_step mem_redis mem_prisma clear_jwt ''a'' sample_hub sample_opened"
    unfolding sample_opened_def
    by (rule hub_step.opened[OF _ _ _ surjective_pairing]) (simp_all add: sample_hub_def)
  moreover have "hub_step mem_redis mem_prisma clear_jwt ''a'' sample_opened sample_joined"
    unfolding sample_joined_def by (rule hub_step.joined) (rule surjective_pairing)
  ultimately show ?thesis by (meson converse_rtranclp_into_rtranclp r_into_rtranclp)
qed

lemma sample_in_room: "getRoomName ''t1'' ''b1'' \<in> set (so_rooms (hb_sockets sample_joined ''c1''))"
  by code_simp

text \<open>C18. A broadcast stays in its tenant: whatever handshakes, join and leave requests and disconnects
  clients have sent since the process started with no sockets, a socket that is in the room of a
  tenant's branch belongs to a user whose token was verified with the access-token secret and carries
  that very tenant. (Tenant and branch ids are UUIDs: the room's have no colon.)\<close>

theorem broadcasts_stay_in_tenant:
  assumes "(hub_step R P J sec)\<^sup>*\<^sup>* h0 h" "\<forall>cid. so_user (hb_sockets h0 cid) = None \<and> so_rooms (hb_sockets h0 cid) = []"
    and "getRoomName t b \<in> set (so_rooms (hb_sockets h cid))" "CHR '':'' \<notin> set t" "CHR '':'' \<notin> set b"
  shows "\<exists>u m tok c. so_user (hb_sockets h cid) = Some u \<and> wu_tenantId u = t \<and>
    jw_verifyAsync J sec m tok = Inr c \<and> cl_sub c = wu_id u \<and> cl_tenantId c = Some t"
proof -
  have "admitted J sec (hb_sockets h cid)"
    by (rule hub_steps_admitted[OF assms(1)]) (use assms(2) in \<open>simp add: admitted_def\<close>)
  then obtain u b' where u: "so_user (hb_sockets h cid) = Some u" "verified J sec u"
    and room: "getRoomName t b = getRoomName (wu_tenantId u) b'" using assms(3) unfolding admitted_def by blast
  have "wu_tenantId u = t" using getRoomName_unique[OF assms(4,5) room] by simp
  then show ?thesis using u unfolding verified_def by metis
qed

theorem broadcasts_stay_in_tenant_witness:
  "\<exists>u. so_user (hb_sockets sample_joined ''c1'') = Some u \<and> wu_tenantId u = ''t1''"
  using broadcasts_stay_in_tenant[OF sample_run _ sample_in_room] by (auto simp: sample_hub_def fresh_socket_def)

text \<open>Joining needs a branch of the tenant: a request to join puts the socket in a room only when the
  branch that was asked for is in the database, not deleted, and belongs to the tenant of the
  socket's user; the reply then names that room.\<close>

theorem join_needs_own_branch:
  assumes "prisma_client P T" "handleJoinBranch P aj cid p h = (r, h')"
    and "room \<in> set (so_rooms (hb_sockets h' cid))" "room \<notin> set (so_rooms (hb_sockets h cid))"
  shows "\<exists>u br. so_user (hb_sockets h cid) = Some u \<and> br \<in> set (t_branches (T (w_db (st_world (hb_site h))))) \<and>
    br_tenantId br = Some (wu_tenantId u) \<and> br_deletedAt br = None \<and> joinBranchId p = Some (br_id br) \<and>
    room = getRoomName (wu_tenantId u) (br_id br) \<and>
    r = Inr (Some \<lparr>wr_event = ''joinedBranch'', wr_room = Some room, wr_message = None\<rparr>)"
proof (cases "socketUser (hb_sockets h cid)")
  case None
  then have "so_rooms (hb_sockets h' cid) = []" using assms(2)
    by (simp add: handleJoinBranch_def getSocket_def clientEmit_def clientDisconnect_def andThen_def
        updateSocket_run return_def) auto
  then show ?thesis using assms(3) by simp
next
  case (Some u)
  then have u: "so_user (hb_sockets h cid) = Some u" "wu_tenantId u \<noteq> []" by (simp_all add: socketUser_Some)
  have "joinRoom P aj cid u p h = (r, h')" using assms(2) Some by (simp add: handleJoinBranch_def getSocket_run)
  from prisma_client.joinRoom_own_branch[OF assms(1) u(2) this assms(3,4)] u(1) show ?thesis by blast
qed

theorem join_needs_own_branch_witness:
  "\<exists>br. br \<in> set (t_branches (w_db (st_world (hb_site sample_opened)))) \<and> br_tenantId br = Some ''t1'' \<and> br_id br = ''b1''"
proof -
  have new: "getRoomName ''t1'' ''b1'' \<notin> set (so_rooms (hb_sockets sample_opened ''c1''))" by code_simp
  have "map_option wu_tenantId (so_user (hb_sockets sample_opened ''c1'')) = Some ''t1''" by code_simp
  moreover obtain r where "handleJoinBranch mem_prisma (\<lambda>_. Inr ()) ''c1'' (PString ''b1'') sample_opened = (r, sample_joined)"
    unfolding sample_joined_def by (metis prod.collapse)
  ultimately show ?thesis
    using join_needs_own_branch[OF mem.prisma_client_axioms _ sample_in_room new] by (fastforce simp: joinBranchId_def)
qed

end
