(* ===== verification/Wallet_Service.thy ===== *)
theory Wallet_Service
  imports Request_Context
begin

text \<open>
  Payments: \<^verbatim>\<open>apps/api/src/payment/wallet.service.ts\<close> and the guards of \<^verbatim>\<open>payment.controller.ts\<close>. A \<open>till\<close>
  is the state of the services together with the calls made to the payment providers, so that a
  theorem can speak of what was charged. The Stripe library, \<^verbatim>\<open>fetch\<close> and the provider behind it are
  parameters; a time-out of \<^verbatim>\<open>fetch\<close> is an error like any other. What \<^verbatim>\<open>JSON.parse\<close> makes of a
  response of Tap is a parameter too, seen through the three properties the service reads, each as
  \<^verbatim>\<open>String\<close> prints it. A wallet type is one the request validation admits, or at least no property
  name of \<^verbatim>\<open>Object.prototype\<close>.
\<close>

section \<open>Requests, answers and state\<close>

record CreateWalletPaymentRequestDto =
  wp_orderId :: string
  wp_paymentMethod :: string
  wp_walletType :: "string option"
  wp_amount :: jsnum
  wp_currency :: "string option"
  wp_customerEmail :: "string option"
  wp_customerPhone :: "string option"
  wp_successUrl :: "string option"
  wp_cancelUrl :: "string option"

record providerStatus =
  pv_status :: string
  pv_settled :: bool
  pv_failed :: bool

record walletPaymentResult =
  wr_paymentId :: string
  wr_provider :: string
  wr_walletType :: string
  wr_amount :: jsnum
  wr_currency :: string
  wr_status :: string
  wr_nextAction :: "(string \<times> string) option"
  wr_redirectUrl :: "string option"
  wr_clientSecret :: "string option"
  wr_successUrl :: "string option"
  wr_cancelUrl :: "string option"

record verifyPaymentResult =
  vp_paymentId :: string
  vp_orderId :: string
  vp_status :: PaymentStatus
  vp_verified :: bool
  vp_amount :: jsnum
  vp_provider :: string
  vp_tenantId :: string

record stripeIntentRequest =
  si_amount :: jsnum
  si_currency :: string
  si_payment_method_types :: "string list"
  si_metadata :: "(string \<times> string) list"
  si_receipt_email :: "string option"

record tapChargeRequest =
  tc_amount :: jsnum
  tc_currency :: string
  tc_sourceId :: string
  tc_referenceOrder :: string
  tc_redirectUrl :: "string option"
  tc_customerEmail :: "string option"

record httpCall =
  hc_method :: string
  hc_url :: string
  hc_authorization :: string
  hc_body :: "tapChargeRequest option"

datatype providerCall =
    StripeCreate string stripeIntentRequest
  | StripeRetrieve string string
  | Fetch httpCall

record paymentIntent =
  it_id :: string
  it_status :: string
  it_client_secret :: "string option"

record httpResponse =
  hr_status :: int
  hr_text :: string

record tapCharge =
  ch_id :: "string option"
  ch_status :: "string option"
  ch_transactionUrl :: "string option"

record walletEnv =
  we_now :: int
  we_STRIPE_SECRET_KEY :: "string option"
  we_TAP_PAYMENTS_SECRET_KEY :: "string option"
  we_TAP_PAYMENTS_API_URL :: "string option"
  we_stripe :: "providerCall \<Rightarrow> exn + paymentIntent"
  we_fetch :: "httpCall \<Rightarrow> exn + httpResponse"
  we_parseCharge :: "string \<Rightarrow> exn + tapCharge"

record 'd till =
  tl_world :: "'d world"
  tl_calls :: "providerCall list"

definition inWorld :: "('d world, 'a) prog \<Rightarrow> ('d till, 'a) prog" where
  "inWorld m = (\<lambda>s. case m (tl_world s) of (r, w) \<Rightarrow> (r, s\<lparr>tl_world := w\<rparr>))"

definition callProvider :: "providerCall \<Rightarrow> exn + 'a \<Rightarrow> ('d till, 'a) prog" where
  "callProvider call answer = (\<lambda>s. (answer, s\<lparr>tl_calls := tl_calls s @ [call]\<rparr>))"

section \<open>Wallets and providers\<close>

definition REGIONAL_GATEWAYS :: "(string \<times> string) list" where
  "REGIONAL_GATEWAYS = [(''knet'', ''tap_payments''), (''benefit'', ''tap_payments''), (''mada'', ''tap_payments''),
     (''apple_pay'', ''stripe''), (''google_pay'', ''stripe'')]"

definition TAP_WALLETS :: "string list" where
  "TAP_WALLETS = [''knet'', ''benefit'', ''mada'']"

fun show_paymentMethod :: "PaymentMethodType \<Rightarrow> string" where
  "show_paymentMethod CASH = ''CASH''"
| "show_paymentMethod CREDIT_CARD = ''CREDIT_CARD''"
| "show_paymentMethod APPLE_PAY = ''APPLE_PAY''"
| "show_paymentMethod LOCAL_WALLET = ''LOCAL_WALLET''"

definition toPaymentMethod :: "string \<Rightarrow> PaymentMethodType" where
  "toPaymentMethod walletType =
     (if walletType = ''apple_pay'' \<or> walletType = ''google_pay'' then APPLE_PAY
      else if walletType \<in> set TAP_WALLETS then LOCAL_WALLET
      else if walletType = ''cash'' then CASH
      else CREDIT_CARD)"

definition assertProviderConfigured :: "string option \<Rightarrow> string \<Rightarrow> exn + string" where
  "assertProviderConfigured v rail =
     (if \<not> truthy v
      then Inl (ServiceUnavailableException (rail @ '' payments are not available: the payment provider is not configured.''))
      else Inr (or_else v []))"

text \<open>\<^verbatim>\<open>Math.round\<close>, and \<^verbatim>\<open>encodeURIComponent\<close>, which escapes the bytes of the UTF-8 encoding of a character.\<close>

fun js_round :: "jsnum \<Rightarrow> jsnum" where
  "js_round (Fin x) = mk_num (of_int \<lfloor>x + 1/2\<rfloor>)"
| "js_round y = y"

definition escape_byte :: "nat \<Rightarrow> string" where
  "escape_byte n = CHR ''%'' # map upper_char [hex_digit (n div 16), hex_digit (n mod 16)]"

definition escape_char :: "char \<Rightarrow> string" where
  "escape_char c = (let n = of_char c in
     if is_digit c \<or> 65 \<le> n \<and> n \<le> 90 \<or> 97 \<le> n \<and> n \<le> 122 \<or> c \<in> set (''-_.!~*()'' @ [CHR 0x27]) then [c]
     else if n < 128 then escape_byte n
     else escape_byte (192 + n div 64) @ escape_byte (128 + n mod 64))"

definition encodeURIComponent :: "string \<Rightarrow> string" where
  "encodeURIComponent s = concat (map escape_char s)"

text \<open>A parsed response without text is an empty object.\<close>

definition httpJson :: "walletEnv \<Rightarrow> httpCall \<Rightarrow> ('d till, tapCharge) prog" where
  "httpJson wenv call =
     andThen (callProvider (Fetch call) (we_fetch wenv call)) (\<lambda>res.
     if \<not> (200 \<le> hr_status res \<and> hr_status res \<le> 299)
     then throw (JsError (''provider responded '' @ show_int (hr_status res) @ '': '' @ take 200 (hr_text res)))
     else if hr_text res = [] then return \<lparr>ch_id = None, ch_status = None, ch_transactionUrl = None\<rparr>
     else of_result (we_parseCharge wenv (hr_text res)))"

definition tapUrl :: "walletEnv \<Rightarrow> string" where
  "tapUrl wenv = or_else (we_TAP_PAYMENTS_API_URL wenv) ''https://api.tap.company''"

section \<open>Creating a payment\<close>

definition stripeRequest :: "CreateWalletPaymentRequestDto \<Rightarrow> string \<Rightarrow> string \<Rightarrow> string \<Rightarrow> jsnum \<Rightarrow> stripeIntentRequest" where
  "stripeRequest dto walletType tenantId userId amount =
     \<lparr>si_amount = js_round (js_mul amount (Fin 100)),
      si_currency = toLowerCase (or_else (wp_currency dto) ''usd''),
      si_payment_method_types = (if walletType = ''apple_pay'' then [''card'', ''apple_pay''] else [''card'', ''google_pay'']),
      si_metadata = [(''tenantId'', tenantId), (''orderId'', wp_orderId dto), (''walletType'', walletType), (''userId'', userId)],
      si_receipt_email = wp_customerEmail dto\<rparr>"

definition createStripeWalletPayment ::
  "walletEnv \<Rightarrow> CreateWalletPaymentRequestDto \<Rightarrow> string \<Rightarrow> string \<Rightarrow> string \<Rightarrow> string \<Rightarrow> jsnum \<Rightarrow> ('d till, walletPaymentResult) prog" where
  "createStripeWalletPayment wenv dto walletType provider tenantId userId amount =
     andThen (of_result (assertProviderConfigured (we_STRIPE_SECRET_KEY wenv) walletType)) (\<lambda>stripeSecretKey.
     let call = StripeCreate stripeSecretKey (stripeRequest dto walletType tenantId userId amount) in
     try_catch
       (andThen (callProvider call (we_stripe wenv call)) (\<lambda>paymentIntent.
        return \<lparr>wr_paymentId = it_id paymentIntent, wr_provider = provider, wr_walletType = walletType, wr_amount = amount,
                wr_currency = or_else (wp_currency dto) ''USD'', wr_status = it_status paymentIntent,
                wr_nextAction = None, wr_redirectUrl = None, wr_clientSecret = it_client_secret paymentIntent,
                wr_successUrl = wp_successUrl dto, wr_cancelUrl = wp_cancelUrl dto\<rparr>))
       (\<lambda>err. throw (BadRequestException (''Failed to create '' @ walletType @ '' payment: '' @ exn_message err))))"

definition tapRequest :: "CreateWalletPaymentRequestDto \<Rightarrow> string \<Rightarrow> jsnum \<Rightarrow> tapChargeRequest" where
  "tapRequest dto walletType amount =
     \<lparr>tc_amount = amount, tc_currency = or_else (wp_currency dto) ''KWD'',
      tc_sourceId = (if walletType = ''knet'' then ''src_kw.knet''
                     else if walletType = ''benefit'' then ''src_bh.benefit'' else ''src_sa.mada''),
      tc_referenceOrder = wp_orderId dto, tc_redirectUrl = wp_successUrl dto,
      tc_customerEmail = or_null (wp_customerEmail dto)\<rparr>"

definition createTapPayment ::
  "walletEnv \<Rightarrow> CreateWalletPaymentRequestDto \<Rightarrow> string \<Rightarrow> string \<Rightarrow> jsnum \<Rightarrow> ('d till, walletPaymentResult) prog" where
  "createTapPayment wenv dto walletType provider amount =
     andThen (of_result (assertProviderConfigured (we_TAP_PAYMENTS_SECRET_KEY wenv) walletType)) (\<lambda>tapSecretKey.
     try_catch
       (andThen (httpJson wenv \<lparr>hc_method = ''POST'', hc_url = tapUrl wenv @ ''/v2/charges'',
                   hc_authorization = ''Bearer '' @ tapSecretKey, hc_body = Some (tapRequest dto walletType amount)\<rparr>) (\<lambda>charge.
        if \<not> truthy (ch_id charge) then throw (JsError ''Tap response did not include a charge id'')
        else
        return \<lparr>wr_paymentId = or_else (ch_id charge) [], wr_provider = provider, wr_walletType = walletType, wr_amount = amount,
                wr_currency = or_else (wp_currency dto) ''KWD'',
                wr_status = toLowerCase (case ch_status charge of None \<Rightarrow> ''INITIATED'' | Some s \<Rightarrow> s),
                wr_nextAction = map_option (\<lambda>url. (''redirect'', url)) (ch_transactionUrl charge),
                wr_redirectUrl = ch_transactionUrl charge, wr_clientSecret = None,
                wr_successUrl = wp_successUrl dto, wr_cancelUrl = wp_cancelUrl dto\<rparr>))
       (\<lambda>err. throw (BadRequestException (''Failed to create '' @ walletType @ '' payment via Tap: '' @ exn_message err))))"

definition walletTypeOf :: "CreateWalletPaymentRequestDto \<Rightarrow> string" where
  "walletTypeOf dto =
     (if truthy (wp_walletType dto) then or_else (wp_walletType dto) []
      else if wp_paymentMethod dto = ''APPLE_PAY'' then ''apple_pay''
      else if wp_paymentMethod dto = ''LOCAL_WALLET'' then ''knet''
      else ''credit_card'')"

definition createWithProvider ::
  "walletEnv \<Rightarrow> CreateWalletPaymentRequestDto \<Rightarrow> string \<Rightarrow> string \<Rightarrow> string \<Rightarrow> jsnum \<Rightarrow> ('d till, walletPaymentResult) prog" where
  "createWithProvider wenv dto walletType tenantId userId orderTotal =
     (let provider = (case map_of REGIONAL_GATEWAYS walletType of Some p \<Rightarrow> p | None \<Rightarrow> ''stripe'') in
      if walletType = ''apple_pay'' \<or> walletType = ''google_pay''
      then createStripeWalletPayment wenv dto walletType provider tenantId userId orderTotal
      else if walletType \<in> set TAP_WALLETS then createTapPayment wenv dto walletType provider orderTotal
      else return \<lparr>wr_paymentId = ''pos_'' @ walletType @ ''_'' @ wp_orderId dto, wr_provider = ''pos'', wr_walletType = walletType,
             wr_amount = orderTotal, wr_currency = or_else (wp_currency dto) ''USD'', wr_status = ''pending'',
             wr_nextAction = None, wr_redirectUrl = None, wr_clientSecret = None,
             wr_successUrl = wp_successUrl dto, wr_cancelUrl = wp_cancelUrl dto\<rparr>)"

definition createWalletPayment ::
  "'d prisma \<Rightarrow> walletEnv \<Rightarrow> CreateWalletPaymentRequestDto \<Rightarrow> string \<Rightarrow> string \<Rightarrow> ('d till, walletPaymentResult) prog" where
  "createWalletPayment P wenv dto tenantId userId =
     (let c = tenant_ctx tenantId; walletType = walletTypeOf dto in
      andThen (inWorld (liftDb (findById c order_model (extended c order_model (px_order P)) (wp_orderId dto)))) (\<lambda>found.
      case found of
        None \<Rightarrow> throw (NotFoundException (''Order with ID ['' @ wp_orderId dto @ ''] not found under tenant context''))
      | Some ord \<Rightarrow>
          if wp_paymentMethod dto \<notin> set (map show_paymentMethod [CASH, CREDIT_CARD, APPLE_PAY, LOCAL_WALLET])
          then throw (BadRequestException (''Invalid payment method ['' @ wp_paymentMethod dto @ '']''))
          else if map_of REGIONAL_GATEWAYS walletType = None \<and> walletType \<noteq> ''credit_card'' \<and> walletType \<noteq> ''cash''
          then throw (BadRequestException (''Unsupported wallet type ['' @ walletType @ '']. Supported: '' @
                 join_with '', '' (map fst REGIONAL_GATEWAYS) @ '', credit_card, cash''))
          else
          let orderTotal = od_total ord in
          if \<not> isFinite orderTotal \<or> js_le orderTotal (Fin 0)
          then throw (BadRequestException ''Order total is not payable.'')
          else
          andThen (createWithProvider wenv dto walletType tenantId userId orderTotal) (\<lambda>result.
          andThen (inWorld (liftDb (repo_create c payment_model (extended c payment_model (px_payment P))
             \<lparr>py_id = [], py_tenantId = None, py_orderId = wp_orderId dto, py_paymentMethod = toPaymentMethod walletType,
              py_status = PaymentStatus.PENDING, py_amount = orderTotal,
              py_transactionReference = Some (wr_provider result @ '':'' @ wr_paymentId result), py_completedAt = None\<rparr>))) (\<lambda>_.
          return (result\<lparr>wr_amount := orderTotal\<rparr>)))))"

section \<open>Verification and settlement\<close>

definition verificationError :: exn where
  "verificationError = ServiceUnavailableException ''Unable to verify the payment with the provider right now. Please retry.''"

definition fetchProviderStatus :: "walletEnv \<Rightarrow> string \<Rightarrow> string \<Rightarrow> ('d till, providerStatus) prog" where
  "fetchProviderStatus wenv provider paymentId =
     (if provider = ''stripe'' then
        andThen (of_result (assertProviderConfigured (we_STRIPE_SECRET_KEY wenv) ''stripe'')) (\<lambda>key.
        let call = StripeRetrieve key paymentId in
        try_catch
          (andThen (callProvider call (we_stripe wenv call)) (\<lambda>intent.
           let status = it_status intent in
           return \<lparr>pv_status = status, pv_settled = (status = ''succeeded''),
                   pv_failed = (status = ''canceled'' \<or> status = ''payment_failed'')\<rparr>))
          (\<lambda>err. throw verificationError))
      else if provider = ''tap_payments'' then
        andThen (of_result (assertProviderConfigured (we_TAP_PAYMENTS_SECRET_KEY wenv) ''tap'')) (\<lambda>key.
        try_catch
          (andThen (httpJson wenv \<lparr>hc_method = ''GET'', hc_url = tapUrl wenv @ ''/v2/charges/'' @ encodeURIComponent paymentId,
                      hc_authorization = ''Bearer '' @ key, hc_body = None\<rparr>) (\<lambda>charge.
           let status = toUpperCase (case ch_status charge of None \<Rightarrow> [] | Some s \<Rightarrow> s) in
           return \<lparr>pv_status = status, pv_settled = (status = ''CAPTURED''),
                   pv_failed = (status = ''FAILED'' \<or> status = ''DECLINED'' \<or> status = ''CANCELLED'')\<rparr>))
          (\<lambda>err. throw verificationError))
      else if provider = ''pos'' then return \<lparr>pv_status = ''PENDING'', pv_settled = False, pv_failed = False\<rparr>
      else throw (ServiceUnavailableException (''No verification path for provider ['' @ provider @ ''].'')))"

definition where_reference :: "string \<Rightarrow> where_clause" where
  "where_reference paymentId = [(''transactionReference'', EndsWith ('':'' @ paymentId))]"

definition findPayment :: "'d prisma \<Rightarrow> string \<Rightarrow> string \<Rightarrow> ('d till, payment option) prog" where
  "findPayment P tenantId paymentId =
     (let c = tenant_ctx tenantId in
      andThen (inWorld (liftDb (findMany c payment_model (extended c payment_model (px_payment P)) (where_reference paymentId) None None)))
        (\<lambda>matches. return (case matches of [] \<Rightarrow> None | p # _ \<Rightarrow> Some p)))"

definition referenceProvider :: "payment \<Rightarrow> string" where
  "referenceProvider row = or_else (Some (hd (split_on CHR '':'' (case py_transactionReference row of None \<Rightarrow> [] | Some s \<Rightarrow> s)))) ''unknown''"

definition terminal :: "PaymentStatus \<Rightarrow> bool" where
  "terminal st \<longleftrightarrow> st = PAID \<or> st = REFUNDED \<or> st = FAILED"

definition verifyResult :: "string \<Rightarrow> string \<Rightarrow> payment \<Rightarrow> PaymentStatus \<Rightarrow> verifyPaymentResult" where
  "verifyResult paymentId tenantId row st =
     \<lparr>vp_paymentId = paymentId, vp_orderId = py_orderId row, vp_status = st, vp_verified = (st = PAID),
      vp_amount = py_amount row, vp_provider = referenceProvider row, vp_tenantId = tenantId\<rparr>"

definition verifyPayment :: "'d prisma \<Rightarrow> walletEnv \<Rightarrow> string \<Rightarrow> string \<Rightarrow> ('d till, verifyPaymentResult) prog" where
  "verifyPayment P wenv paymentId tenantId =
     (let c = tenant_ctx tenantId in
      andThen (findPayment P tenantId paymentId) (\<lambda>record.
      case record of
        None \<Rightarrow> throw (NotFoundException (''Payment with reference ['' @ paymentId @ ''] was not found.''))
      | Some row \<Rightarrow>
          if terminal (py_status row) then return (verifyResult paymentId tenantId row (py_status row))
          else
          andThen (fetchProviderStatus wenv (referenceProvider row) paymentId) (\<lambda>providerStatus.
          let nextStatus = (if pv_settled providerStatus then PAID else if pv_failed providerStatus then FAILED else py_status row) in
          andThen
            (if nextStatus \<noteq> py_status row
             then andThen (inWorld (liftDb (repo_update c payment_model (extended c payment_model (px_payment P)) (py_id row)
                    (\<lambda>r. r\<lparr>py_status := nextStatus, py_completedAt := (if pv_settled providerStatus then Some (we_now wenv) else None)\<rparr>))))
                    (\<lambda>_. return ())
             else return ())
            (\<lambda>_. return (verifyResult paymentId tenantId row nextStatus)))))"

definition settleFromWebhook :: "'d prisma \<Rightarrow> walletEnv \<Rightarrow> string \<Rightarrow> string \<Rightarrow> bool \<Rightarrow> ('d till, unit) prog" where
  "settleFromWebhook P wenv providerPaymentId tenantId settled =
     (let c = tenant_ctx tenantId in
      andThen (findPayment P tenantId providerPaymentId) (\<lambda>record.
      case record of
        None \<Rightarrow> return ()
      | Some row \<Rightarrow>
          andThen (inWorld (liftDb (repo_update c payment_model (extended c payment_model (px_payment P)) (py_id row)
             (\<lambda>r. r\<lparr>py_status := (if settled then PAID else FAILED), py_completedAt := (if settled then Some (we_now wenv) else None)\<rparr>))))
             (\<lambda>_. return ())))"

definition listForOrder :: "'d prisma \<Rightarrow> string \<Rightarrow> string \<Rightarrow> ('d till, payment list) prog" where
  "listForOrder P orderId tenantId =
     (let c = tenant_ctx tenantId in
      inWorld (liftDb (findMany c payment_model (extended c payment_model (px_payment P)) [(''orderId'', Is (CStr orderId))] None None)))"

section \<open>The controller\<close>

definition requestTenant :: "authenticatedUser option \<Rightarrow> exn + authenticatedUser" where
  "requestTenant user = (case user of
     None \<Rightarrow> Inl (ForbiddenException ''Tenant context missing'')
   | Some u \<Rightarrow> if truthy (au_tenantId u) then Inr u else Inl (ForbiddenException ''Tenant context missing''))"

definition postWallet ::
  "'d prisma \<Rightarrow> walletEnv \<Rightarrow> CreateWalletPaymentRequestDto \<Rightarrow> authenticatedUser option \<Rightarrow> ('d till, walletPaymentResult) prog" where
  "postWallet P wenv dto user =
     andThen (of_result (requestTenant user)) (\<lambda>u. createWalletPayment P wenv dto (or_else (au_tenantId u) []) (au_id u))"

definition getVerify ::
  "'d prisma \<Rightarrow> walletEnv \<Rightarrow> string \<Rightarrow> authenticatedUser option \<Rightarrow> ('d till, verifyPaymentResult) prog" where
  "getVerify P wenv paymentId user =
     andThen (of_result (requestTenant user)) (\<lambda>u. verifyPayment P wenv paymentId (or_else (au_tenantId u) []))"

end
