(* ===== verification/Wallet_Correct.thy ===== *)
theory Wallet_Correct
  imports Wallet_Service
begin

text \<open>
  What the payment operations do: the calls a creation makes and the amounts in them, the row it
  records, and the transition a verification performs, with the frame of each.
\<close>

section \<open>Amounts\<close>

text \<open>An order total of \<open>n\<close> cents is charged as exactly \<open>n\<close> minor units.\<close>

lemma minor_units:
  assumes "0 \<le> n" "n \<le> 2 ^ 50"
  shows "js_round (js_mul (Fin (fl (of_int n / 100))) (Fin 100)) = Fin (of_int n)"
proof -
  define x where "x = (of_int n / 100 :: rat)"
  define y where "y = fl x * 100"
  define z where "z = fl y"
  have n: "0 \<le> (of_int n :: rat)" "(of_int n :: rat) \<le> 2 ^ 50" using assms
    by (simp, metis of_int_le_iff of_int_numeral of_int_power)
  have ex: "\<bar>fl x - x\<bar> \<le> x / 2 ^ 53" using fl_error[of x] n by (simp add: x_def)
  have ey: "\<bar>z - y\<bar> \<le> \<bar>y\<bar> / 2 ^ 53" unfolding z_def by (rule fl_error)
  have yn: "\<bar>y - of_int n\<bar> \<le> of_int n / 2 ^ 53" using ex by (simp add: y_def x_def abs_le_iff field_simps)
  have n8: "of_int n / 2 ^ 53 \<le> (1/8 :: rat)" using n by simp
  have "\<bar>y\<bar> \<le> 2 ^ 50 + 1" using yn n8 n by linarith
  then have yb: "\<bar>y\<bar> \<le> 2 ^ 51" by simp
  have "\<bar>z - of_int n\<bar> < 1/2"
  proof -
    have "\<bar>y\<bar> / 2 ^ 53 \<le> 1/4" using yb by simp
    then show ?thesis using ey yn n8 by linarith
  qed
  then have "of_int n \<le> z + 1/2" "z + 1/2 < of_int n + 1" by linarith+
  then have "\<lfloor>z + 1/2\<rfloor> = n" by (rule floor_unique)
  moreover have "mk_num y = Fin z" unfolding z_def by (rule mk_num_Fin53) (use yb in simp)
  moreover have "mk_num (of_int n) = Fin (of_int n)"
    using mk_num_Fin53[of "of_int n"] fl_of_int[of n] assms n by simp
  ultimately show ?thesis by (simp add: x_def[symmetric] y_def[symmetric])
qed

section \<open>Running on a till\<close>

lemma callProvider_run: "callProvider call a s = (a, s\<lparr>tl_calls := tl_calls s @ [call]\<rparr>)"
  by (simp add: callProvider_def)

lemma inWorld_liftDbE:
  assumes "inWorld (liftDb m) s = (r, s')"
  obtains d where "m (w_db (tl_world s)) = (r, d)" "tl_calls s' = tl_calls s" "w_db (tl_world s') = d"
    "w_out (tl_world s') = w_out (tl_world s)"
  using assms by (auto simp: inWorld_def liftDb_def split: prod.splits)

lemma inWorld_liftDb_run:
  "m (w_db (tl_world s)) = (r, d) \<Longrightarrow> inWorld (liftDb m) s = (r, s\<lparr>tl_world := (tl_world s)\<lparr>w_db := d\<rparr>\<rparr>)"
  by (simp add: inWorld_def liftDb_def)

lemma till_same [simp]: "s\<lparr>tl_world := (tl_world s)\<lparr>w_db := w_db (tl_world s)\<rparr>\<rparr> = s"
  by simp

text \<open>A conversation with a provider: nothing but calls of the form \<open>Q\<close> are appended, at most one.\<close>

definition asks :: "(providerCall \<Rightarrow> bool) \<Rightarrow> 'd till \<Rightarrow> 'd till \<Rightarrow> bool" where
  "asks Q s s' \<longleftrightarrow> tl_world s' = tl_world s \<and>
     (\<exists>cs. tl_calls s' = tl_calls s @ cs \<and> length cs \<le> 1 \<and> (\<forall>c \<in> set cs. Q c))"

lemma asks_refl: "asks Q s s"
  by (simp add: asks_def)

lemma asks_call: "Q c \<Longrightarrow> asks Q s (s\<lparr>tl_calls := tl_calls s @ [c]\<rparr>)"
  by (simp add: asks_def)

lemma asks_httpJson: "Q (Fetch call) \<Longrightarrow> httpJson wenv call s = (r, s') \<Longrightarrow> asks Q s s'"
  by (auto simp: httpJson_def andThen_def callProvider_run throw_def return_def of_result_def
      split: sum.splits if_splits intro: asks_call)

definition charge_of :: "jsnum \<Rightarrow> providerCall \<Rightarrow> bool" where
  "charge_of a call = (case call of
     StripeCreate _ q \<Rightarrow> si_amount q = js_round (js_mul a (Fin 100))
   | StripeRetrieve _ _ \<Rightarrow> False
   | Fetch hc \<Rightarrow> (case hc_body hc of None \<Rightarrow> False | Some q \<Rightarrow> tc_amount q = a))"

lemma stripe_asks:
  "createStripeWalletPayment wenv dto wt p t u a s = (r, s') \<Longrightarrow> asks (charge_of a) s s'"
  by (auto simp: createStripeWalletPayment_def andThen_def of_result_def try_catch_def callProvider_run return_def throw_def Let_def
      charge_of_def stripeRequest_def asks_refl split: sum.splits intro!: asks_call)

lemma tap_asks:
  assumes "createTapPayment wenv dto wt p a s = (r, s')"
  shows "asks (charge_of a) s s'"
proof (cases "assertProviderConfigured (we_TAP_PAYMENTS_SECRET_KEY wenv) wt")
  case (Inl e)
  then show ?thesis using assms by (simp add: createTapPayment_def throw_def asks_refl)
next
  case (Inr key)
  define call where "call = \<lparr>hc_method = ''POST'', hc_url = tapUrl wenv @ ''/v2/charges'', hc_authorization = ''Bearer '' @ key,
                hc_body = Some (tapRequest dto wt a)\<rparr>"
  obtain q s1 where h: "httpJson wenv call s = (q, s1)" by force
  have "asks (charge_of a) s s1"
    by (rule asks_httpJson[OF _ h]) (simp add: charge_of_def tapRequest_def call_def)
  moreover have "s' = s1" using assms unfolding createTapPayment_def Inr of_result_andThen call_def[symmetric]
    by (auto simp: try_catch_def andThen_def h throw_def return_def split: sum.splits if_splits)
  ultimately show ?thesis by simp
qed

lemma createWithProvider_asks:
  assumes "createWithProvider wenv dto wt t u a s = (r, s')"
  shows "asks (charge_of a) s s'"
  using assms stripe_asks tap_asks unfolding createWithProvider_def Let_def
  by (fastforce split: if_splits simp: return_def asks_refl)

text \<open>The status a provider reports when it is asked about a payment.\<close>

definition settled_by_provider :: "walletEnv \<Rightarrow> string \<Rightarrow> string \<Rightarrow> bool" where
  "settled_by_provider wenv provider paymentId \<longleftrightarrow>
     provider = ''stripe'' \<and> (\<exists>key it. we_STRIPE_SECRET_KEY wenv = Some key \<and>
        we_stripe wenv (StripeRetrieve key paymentId) = Inr it \<and> it_status it = ''succeeded'') \<or>
     provider = ''tap_payments'' \<and> (\<exists>key res ch st. we_TAP_PAYMENTS_SECRET_KEY wenv = Some key \<and>
        we_fetch wenv \<lparr>hc_method = ''GET'', hc_url = tapUrl wenv @ ''/v2/charges/'' @ encodeURIComponent paymentId,
                      hc_authorization = ''Bearer '' @ key, hc_body = None\<rparr> = Inr res \<and>
        we_parseCharge wenv (hr_text res) = Inr ch \<and> ch_status ch = Some st \<and> toUpperCase st = ''CAPTURED'')"

lemma configured_Inr: "assertProviderConfigured v rail = Inr key \<Longrightarrow> v = Some key"
  by (cases v) (auto simp: assertProviderConfigured_def or_else_def split: if_splits)

lemma httpJson_Inr:
  assumes "httpJson wenv call s = (Inr ch, s')"
  obtains (empty) "ch_status ch = None"
  | (answer) res where "we_fetch wenv call = Inr res" "we_parseCharge wenv (hr_text res) = Inr ch"
  using assms
  by (auto simp: httpJson_def andThen_def callProvider_run throw_def return_def of_result_def split: sum.splits if_splits)

lemma fetchProviderStatus_settled:
  assumes "fetchProviderStatus wenv p i s = (Inr st, s')" "pv_settled st"
  shows "settled_by_provider wenv p i"
proof (cases "p = ''tap_payments''")
  case True
  from assms(1) obtain key ch s1 where key: "assertProviderConfigured (we_TAP_PAYMENTS_SECRET_KEY wenv) ''tap'' = Inr key"
    and run: "httpJson wenv \<lparr>hc_method = ''GET'', hc_url = tapUrl wenv @ ''/v2/charges/'' @ encodeURIComponent i,
                      hc_authorization = ''Bearer '' @ key, hc_body = None\<rparr> s = (Inr ch, s1)"
    and st: "pv_settled st = (toUpperCase (case ch_status ch of None \<Rightarrow> [] | Some x \<Rightarrow> x) = ''CAPTURED'')"
    by (auto simp: fetchProviderStatus_def True prog_elims Let_def elim!: of_result_InrE)
  show ?thesis using run
  proof (cases rule: httpJson_Inr)
    case empty
    then show ?thesis using st assms(2) by (simp add: toUpperCase_def)
  next
    case (answer res)
    then show ?thesis using st assms(2) configured_Inr[OF key] True
      by (cases "ch_status ch") (auto simp: settled_by_provider_def toUpperCase_def)
  qed
next
  case False
  then show ?thesis using assms
    by (auto simp: fetchProviderStatus_def prog_elims Let_def callProvider_run settled_by_provider_def
        split: if_splits elim!: of_result_InrE dest!: configured_Inr)
qed

lemma fetchProviderStatus_world: "preserves tl_world (fetchProviderStatus wenv p i)"
proof (rule preservesI)
  fix s r s' assume run: "fetchProviderStatus wenv p i s = (r, s')"
  have "asks (\<lambda>_. True) s s1" if "httpJson wenv call s = (q, s1)" for call q s1
    by (rule asks_httpJson[OF _ that]) simp
  then have http: "tl_world s1 = tl_world s" if "httpJson wenv call s = (q, s1)" for call q s1
    using that unfolding asks_def by blast
  show "tl_world s' = tl_world s" using run
    by (auto simp: fetchProviderStatus_def andThen_def try_catch_def of_result_def throw_def return_def Let_def callProvider_run
        split: if_splits sum.splits prod.splits dest!: http)
qed

section \<open>Effects\<close>

definition settle_row :: "int \<Rightarrow> PaymentStatus \<Rightarrow> bool \<Rightarrow> payment \<Rightarrow> payment" where
  "settle_row now st settled row = row\<lparr>py_status := st, py_completedAt := (if settled then Some now else None)\<rparr>"

context prisma_client
begin

lemma findPayment_Some:
  assumes "t \<noteq> []" "findPayment P t i s = (Inr (Some row), s')"
  shows "tl_calls s' = tl_calls s \<and> w_db (tl_world s') = w_db (tl_world s) \<and>
    row \<in> set (t_payments (T (w_db (tl_world s)))) \<and> py_tenantId row = Some t \<and>
    (\<exists>ref. py_transactionReference row = Some ref \<and> endsWith ref ('':'' @ i))"
proof -
  let ?c = "tenant_ctx t"
  let ?D = "extended ?c payment_model (px_payment P)"
  obtain ms s1 where run: "inWorld (liftDb (findMany ?c payment_model ?D (where_reference i) None None)) s = (Inr ms, s1)"
    and eq: "(case ms of [] \<Rightarrow> None | p # _ \<Rightarrow> Some p) = Some row" and s': "s' = s1"
    using assms(2) by (auto simp: findPayment_def prog_elims Let_def)
  from run obtain d where d: "findMany ?c payment_model ?D (where_reference i) None None (w_db (tl_world s)) = (Inr ms, d)"
    and s1: "tl_calls s1 = tl_calls s" "w_db (tl_world s1) = d" by (rule inWorld_liftDbE)
  let ?w = "AList.update ''tenantId'' (Is (CStr t)) (scopedWhere payment_model (where_reference i) (Some t))"
  have "dg_findMany (px_payment P) ?w DEFAULT_MAX_ROWS 0 (w_db (tl_world s)) = (Inr ms, d)"
    using d assms(1) by (simp add: findMany_def payments.ext_findMany)
  moreover have "row \<in> set ms" using eq by (cases ms) auto
  ultimately have "sat payment_model ?w row" using payments.findMany_memD by metis
  then have "\<exists>ref. py_transactionReference row = Some ref \<and> endsWith ref ('':'' @ i)"
    using assms(1) by (auto simp: where_reference_def scopedWhere_def sat_def payment_model_def payment_col_def opt_cell_def
        split: option.splits)
  then show ?thesis using payments.findMany_rows[OF assms(1) d] \<open>row \<in> set ms\<close> s1 s' by auto
qed

lemma findPayment_db: "t \<noteq> [] \<Longrightarrow> findPayment P t i s = (r, s') \<Longrightarrow> w_db (tl_world s') = w_db (tl_world s)"
  using preservesD[OF payments.repo_reads_preserve(3)[of t "\<lambda>d. d"]]
  by (auto simp: findPayment_def andThen_def return_def Let_def split: prod.splits sum.splits elim!: inWorld_liftDbE)

text \<open>The row a creation records, and what it leaves when it throws.\<close>

lemma payment_create_effect:
  assumes "t \<noteq> []" "repo_create (tenant_ctx t) payment_model (extended (tenant_ctx t) payment_model (px_payment P)) d0 s = (r, s')"
  shows "(\<forall>e. r = Inl e \<longrightarrow> T s' = T s) \<and>
    (\<forall>y. r = Inr y \<longrightarrow> T s' = (T s)\<lparr>t_payments := t_payments (T s) @ [y]\<rparr> \<and> (\<exists>i. y = d0\<lparr>py_tenantId := Some t, py_id := i\<rparr>))"
proof (cases r)
  case (Inl e)
  have "t_payments (T s') = t_payments (T s) \<and> (T s')\<lparr>t_payments := []\<rparr> = (T s)\<lparr>t_payments := []\<rparr>"
    using assms Inl payments.create_Inl
    by (auto simp: repo_create_def payments.ext_create throw_apply split: if_splits)
  then show ?thesis using payments_only[of "T s'" "T s"] Inl by simp
next
  case (Inr y)
  from payments.create_row[OF assms(1) assms(2)[unfolded Inr]] show ?thesis
    using payments_only[of "T s'" "T s"] Inr by (auto simp: payment_model_def)
qed

lemma createWalletPayment_effect:
  assumes t: "t \<noteq> []" and run: "createWalletPayment P wenv dto t u s = (r, s')"
  obtains (refused) e where "r = Inl e" "T (w_db (tl_world s')) = T (w_db (tl_world s))" "tl_calls s' = tl_calls s"
  | (charged) ord cs where "ord \<in> set (t_orders (T (w_db (tl_world s))))" "od_id ord = wp_orderId dto" "od_tenantId ord = Some t"
      "isFinite (od_total ord)" "\<not> js_le (od_total ord) (Fin 0)"
      "tl_calls s' = tl_calls s @ cs" "length cs \<le> 1" "\<forall>c \<in> set cs. charge_of (od_total ord) c"
      "\<forall>e. r = Inl e \<longrightarrow> T (w_db (tl_world s')) = T (w_db (tl_world s))"
      "\<forall>res. r = Inr res \<longrightarrow> wr_amount res = od_total ord \<and> (\<exists>i. T (w_db (tl_world s')) =
         (T (w_db (tl_world s)))\<lparr>t_payments := t_payments (T (w_db (tl_world s))) @
           [\<lparr>py_id = i, py_tenantId = Some t, py_orderId = wp_orderId dto, py_paymentMethod = toPaymentMethod (walletTypeOf dto),
             py_status = PaymentStatus.PENDING, py_amount = od_total ord,
             py_transactionReference = Some (wr_provider res @ '':'' @ wr_paymentId res), py_completedAt = None\<rparr>]\<rparr>)"
proof -
  let ?c = "tenant_ctx t"
  let ?db = "w_db (tl_world s)"
  let ?wt = "walletTypeOf dto"
  obtain q d where f: "findById ?c order_model (extended ?c order_model (px_order P)) (wp_orderId dto) ?db = (q, d)" by force
  have "d = ?db" by (rule preservesD[OF orders.repo_reads_preserve(1)[OF t] f])
  then have fl: "inWorld (liftDb (findById ?c order_model (extended ?c order_model (px_order P)) (wp_orderId dto))) s = (q, s)"
    using f by (simp add: inWorld_liftDb_run)
  consider "\<exists>e. r = Inl e \<and> s' = s"
    | ord where "q = Inr (Some ord)" "isFinite (od_total ord)" "\<not> js_le (od_total ord) (Fin 0)"
        "andThen (createWithProvider wenv dto ?wt t u (od_total ord)) (\<lambda>result.
          andThen (inWorld (liftDb (repo_create ?c payment_model (extended ?c payment_model (px_payment P))
             \<lparr>py_id = [], py_tenantId = None, py_orderId = wp_orderId dto, py_paymentMethod = toPaymentMethod ?wt,
              py_status = PaymentStatus.PENDING, py_amount = od_total ord,
              py_transactionReference = Some (wr_provider result @ '':'' @ wr_paymentId result), py_completedAt = None\<rparr>))) (\<lambda>_.
          return (result\<lparr>wr_amount := od_total ord\<rparr>))) s = (r, s')"
    using run unfolding createWalletPayment_def Let_def andThen_def[of "inWorld _"] fl
    by (auto simp: throw_def split: sum.splits option.splits if_splits)
  then show thesis
  proof cases
    case 1
    then show ?thesis using refused by blast
  next
    case (2 ord)
    note ord = orders.findById_Some[OF t f[unfolded 2(1)]]
    obtain q2 s2 where p: "createWithProvider wenv dto ?wt t u (od_total ord) s = (q2, s2)" by force
    obtain cs where cs: "tl_calls s2 = tl_calls s @ cs" "length cs \<le> 1" "\<forall>c \<in> set cs. charge_of (od_total ord) c"
      and w: "tl_world s2 = tl_world s" using createWithProvider_asks[OF p] unfolding asks_def by blast
    show ?thesis
    proof (cases q2)
      case (Inl e)
      then have "r = Inl e" "s' = s2" using 2(4) by (auto simp: andThen_def p)
      then show ?thesis using charged[of ord cs] ord cs w 2(2,3) by (simp add: order_model_def)
    next
      case (Inr result)
      let ?d0 = "\<lparr>py_id = [], py_tenantId = None, py_orderId = wp_orderId dto, py_paymentMethod = toPaymentMethod ?wt,
              py_status = PaymentStatus.PENDING, py_amount = od_total ord,
              py_transactionReference = Some (wr_provider result @ '':'' @ wr_paymentId result), py_completedAt = None\<rparr>"
      obtain q3 d3 where c: "repo_create ?c payment_model (extended ?c payment_model (px_payment P)) ?d0 (w_db (tl_world s2)) = (q3, d3)"
        by force
      note eff = payment_create_effect[OF t c]
      have fin: "s' = s2\<lparr>tl_world := (tl_world s2)\<lparr>w_db := d3\<rparr>\<rparr>" "r = map_sum id (\<lambda>_. result\<lparr>wr_amount := od_total ord\<rparr>) q3"
        using 2(4) p c by (auto simp: Inr andThen_def inWorld_liftDb_run return_def split: sum.splits)
      have own: "ord \<in> set (t_orders (T ?db))" "od_id ord = wp_orderId dto" "od_tenantId ord = Some t"
        using ord by (simp_all add: order_model_def)
      have calls: "tl_calls s' = tl_calls s @ cs" "w_db (tl_world s') = d3" using fin(1) cs(1) by simp_all
      show ?thesis
      proof (cases q3)
        case (Inl e)
        then show ?thesis using charged[OF own 2(2,3) calls(1) cs(2,3)] eff fin(2) calls(2) w by simp
      next
        case (Inr y)
        then obtain i where "T d3 = (T ?db)\<lparr>t_payments := t_payments (T ?db) @ [?d0\<lparr>py_tenantId := Some t, py_id := i\<rparr>]\<rparr>"
          using eff w by auto
        moreover have "r = Inr (result\<lparr>wr_amount := od_total ord\<rparr>)" using Inr fin(2) by simp
        ultimately show ?thesis
          by (intro charged[OF own 2(2,3) calls(1) cs(2,3)]) (simp_all add: calls(2), blast)
      qed
    qed
  qed
qed

text \<open>The write of a new status, to the row that was found.\<close>

lemma payment_update_effect:
  assumes "t \<noteq> []" "repo_update (tenant_ctx t) payment_model (extended (tenant_ctx t) payment_model (px_payment P)) (py_id row) f s = (r, s')"
    and "row \<in> set (t_payments (T s))" "distinct (map py_id (t_payments (T s)))"
  obtains (failed) e where "r = Inl e" "T s' = T s"
  | (written) xs ys where "r = Inr (f row)" "t_payments (T s) = xs @ row # ys" "T s' = (T s)\<lparr>t_payments := xs @ f row # ys\<rparr>"
proof (cases r)
  case (Inl e)
  have "T s' = T s"
    using payments.update_failed[OF assms(1) assms(2)[unfolded Inl]] payments_only[of "T s'" "T s"] by simp
  then show ?thesis using failed Inl by blast
next
  case (Inr y)
  from payments.update_row[OF assms(1) assms(2)[unfolded Inr]] obtain xs x ys where
    x: "t_payments (T s) = xs @ x # ys" "py_id x = py_id row" "y = f x" "t_payments (T s') = xs @ f x # ys"
    and rest: "(T s')\<lparr>t_payments := []\<rparr> = (T s)\<lparr>t_payments := []\<rparr>" by auto
  have "x = row" using payments.unique_row[of "t_payments (T s)" x row] assms(3,4) x(1,2) by simp
  then show ?thesis using written x payments_only[OF rest] Inr by metis
qed

lemma verifyPayment_effect:
  assumes t: "t \<noteq> []" and uniq: "distinct (map py_id (t_payments (T (w_db (tl_world s)))))"
    and run: "verifyPayment P wenv i t s = (r, s')"
  obtains (failed) e where "r = Inl e" "T (w_db (tl_world s')) = T (w_db (tl_world s))"
  | (answered) row xs ys row' where
      "t_payments (T (w_db (tl_world s))) = xs @ row # ys" "py_tenantId row = Some t"
      "\<exists>ref. py_transactionReference row = Some ref \<and> endsWith ref ('':'' @ i)"
      "r = Inr (verifyResult i t row (py_status row'))"
      "T (w_db (tl_world s')) = (T (w_db (tl_world s)))\<lparr>t_payments := xs @ row' # ys\<rparr>"
      "row' = row \<or> \<not> terminal (py_status row) \<and> (py_status row' = PAID \<and> settled_by_provider wenv (referenceProvider row) i \<and>
         row' = settle_row (we_now wenv) PAID True row \<or> py_status row' = FAILED \<and> row' = settle_row (we_now wenv) FAILED False row)"
      "terminal (py_status row) \<longrightarrow> tl_calls s' = tl_calls s"
proof -
  let ?db = "w_db (tl_world s)"
  obtain q s1 where f: "findPayment P t i s = (q, s1)" by force
  have s1: "w_db (tl_world s1) = ?db" by (rule findPayment_db[OF t f])
  show ?thesis
  proof (cases "\<exists>row. q = Inr (Some row)")
    case False
    then have "\<exists>e. r = Inl e" "s' = s1" using run
      by (auto simp: verifyPayment_def Let_def andThen_def f throw_def split: sum.splits option.splits)
    then show ?thesis using failed s1 by metis
  next
    case True
    then obtain row where q: "q = Inr (Some row)" by blast
    note row = findPayment_Some[OF t f[unfolded q]]
    then obtain xs ys where split: "t_payments (T ?db) = xs @ row # ys" by (meson split_list)
    have same: "T ?db = (T ?db)\<lparr>t_payments := xs @ row # ys\<rparr>" by (simp add: split[symmetric])
    show ?thesis
    proof (cases "terminal (py_status row)")
      case True
      then have "r = Inr (verifyResult i t row (py_status row))" "s' = s1" using run
        by (auto simp: verifyPayment_def Let_def andThen_def f q return_def)
      then show ?thesis using answered[OF split, of row] row s1 same by simp
    next
      case nt: False
      obtain q2 s2 where p: "fetchProviderStatus wenv (referenceProvider row) i s1 = (q2, s2)" by force
      have s2: "tl_world s2 = tl_world s1" by (rule preservesD[OF fetchProviderStatus_world p])
      show ?thesis
      proof (cases q2)
        case (Inl e)
        then have "r = Inl e" "s' = s2" using run nt by (auto simp: verifyPayment_def Let_def andThen_def f q p)
        then show ?thesis using failed s1 s2 by simp
      next
        case (Inr st)
        let ?n = "if pv_settled st then PAID else if pv_failed st then FAILED else py_status row"
        show ?thesis
        proof (cases "?n = py_status row")
          case True
          then have "r = Inr (verifyResult i t row (py_status row))" "s' = s2" using run nt
            by (auto simp: verifyPayment_def Let_def andThen_def f q p Inr return_def Let_def)
          then show ?thesis using answered[OF split, of row] row s1 s2 same nt by simp
        next
          case False
          let ?up = "\<lambda>r. r\<lparr>py_status := ?n, py_completedAt := (if pv_settled st then Some (we_now wenv) else None)\<rparr>"
          obtain q3 d3 where u: "repo_update (tenant_ctx t) payment_model (extended (tenant_ctx t) payment_model (px_payment P))
              (py_id row) ?up ?db = (q3, d3)" by force
          have fin: "r = map_sum id (\<lambda>_. verifyResult i t row ?n) q3" "w_db (tl_world s') = d3" using run nt False u s1 s2
            by (auto simp: verifyPayment_def Let_def andThen_def f q p Inr return_def Let_def inWorld_liftDb_run split: sum.splits)
          have "row \<in> set (t_payments (T ?db))" using row by simp
          from u this uniq show ?thesis
          proof (cases rule: payment_update_effect[OF t, consumes 3, case_names failed written])
            case (failed e)
            then show ?thesis using that(1) fin by simp
          next
            case (written xs' ys')
            have "settled_by_provider wenv (referenceProvider row) i" if "pv_settled st"
              by (rule fetchProviderStatus_settled[OF p[unfolded Inr] that])
            then have "?up row = row \<or> \<not> terminal (py_status row) \<and> (py_status (?up row) = PAID \<and>
                settled_by_provider wenv (referenceProvider row) i \<and> ?up row = settle_row (we_now wenv) PAID True row \<or>
                py_status (?up row) = FAILED \<and> ?up row = settle_row (we_now wenv) FAILED False row)"
              using nt False by (cases "pv_settled st"; cases "pv_failed st") (simp_all add: settle_row_def)
            then show ?thesis using answered[OF written(2), of "?up row"] row nt fin written by simp
          qed
        qed
      qed
    qed
  qed
qed

end

end
