(* ===== verification/Payment_Properties.thy ===== *)
theory Payment_Properties
  imports Wallet_Correct Sample_Data
begin

text \<open>
  Properties of the payments, for every database client that behaves as documented and every
  answer of the providers, with their instances on a small till.
\<close>

definition sample_intent :: paymentIntent where
  "sample_intent = \<lparr>it_id = ''pi1'', it_status = ''succeeded'', it_client_secret = Some ''cs''\<rparr>"

definition sample_wallet :: walletEnv where
  "sample_wallet = \<lparr>we_now = 9, we_STRIPE_SECRET_KEY = Some ''sk'', we_TAP_PAYMENTS_SECRET_KEY = None,
     we_TAP_PAYMENTS_API_URL = None, we_stripe = (\<lambda>_. Inr sample_intent), we_fetch = (\<lambda>_. Inl (JsError ''offline'')),
     we_parseCharge = (\<lambda>_. Inl (JsError ''bad JSON''))\<rparr>"

definition sample_payment_dto :: CreateWalletPaymentRequestDto where
  "sample_payment_dto = \<lparr>wp_orderId = ''o1'', wp_paymentMethod = ''APPLE_PAY'', wp_walletType = None, wp_amount = Fin (1/128),
     wp_currency = None, wp_customerEmail = None, wp_customerPhone = None, wp_successUrl = None, wp_cancelUrl = None\<rparr>"

definition sample_payment :: payment where
  "sample_payment = \<lparr>py_id = ''p1'', py_tenantId = Some ''t1'', py_orderId = ''o1'', py_paymentMethod = APPLE_PAY,
     py_status = PaymentStatus.PENDING, py_amount = Fin 4, py_transactionReference = Some ''stripe:pi1'', py_completedAt = None\<rparr>"

definition sample_till :: "tables till" where
  "sample_till = \<lparr>tl_world = \<lparr>w_db = sample_tables\<lparr>t_payments := [sample_payment]\<rparr>, w_out = []\<rparr>, tl_calls = []\<rparr>"

text \<open>C19. A wallet payment charges the order's total: a request of a tenant makes at most one call to a
  provider, for the total stored in the order that was named, which is the tenant's own, finite and
  positive, whatever amount the request states (a total of n cents is charged as n minor units); when
  it returns, exactly one payment is recorded, pending, for that order, amount and reference; when it
  throws, the database is as it was.\<close>

theorem wallet_charges_order_total:
  assumes "prisma_client P T" "t \<noteq> []" "createWalletPayment P wenv dto t u s = (r, s')"
  shows "(\<exists>e. r = Inl e \<and> tl_calls s' = tl_calls s \<and> T (w_db (tl_world s')) = T (w_db (tl_world s))) \<or>
    (\<exists>ord cs. ord \<in> set (t_orders (T (w_db (tl_world s)))) \<and> od_id ord = wp_orderId dto \<and> od_tenantId ord = Some t \<and>
       isFinite (od_total ord) \<and> \<not> js_le (od_total ord) (Fin 0) \<and>
       tl_calls s' = tl_calls s @ cs \<and> length cs \<le> 1 \<and>
       (\<forall>c \<in> set cs. charge_of (od_total ord) c \<and>
          (\<forall>key q n. c = StripeCreate key q \<and> od_total ord = Fin (fl (of_int n / 100)) \<and> 0 \<le> n \<and> n \<le> 2 ^ 50 \<longrightarrow> si_amount q = Fin (of_int n))) \<and>
       (case r of
          Inl e \<Rightarrow> T (w_db (tl_world s')) = T (w_db (tl_world s))
        | Inr res \<Rightarrow> wr_amount res = od_total ord \<and> (\<exists>i. T (w_db (tl_world s')) =
            (T (w_db (tl_world s)))\<lparr>t_payments := t_payments (T (w_db (tl_world s))) @
              [\<lparr>py_id = i, py_tenantId = Some t, py_orderId = wp_orderId dto, py_paymentMethod = toPaymentMethod (walletTypeOf dto),
                py_status = PaymentStatus.PENDING, py_amount = od_total ord,
                py_transactionReference = Some (wr_provider res @ '':'' @ wr_paymentId res), py_completedAt = None\<rparr>]\<rparr>)))"
proof (cases rule: prisma_client.createWalletPayment_effect[OF assms, case_names refused charged])
  case (charged ord cs)
  have "\<forall>c \<in> set cs. charge_of (od_total ord) c \<and>
      (\<forall>key q n. c = StripeCreate key q \<and> od_total ord = Fin (fl (of_int n / 100)) \<and> 0 \<le> n \<and> n \<le> 2 ^ 50 \<longrightarrow> si_amount q = Fin (of_int n))"
    using charged(8) minor_units by (auto simp: charge_of_def)
  then show ?thesis using charged by (intro disjI2 exI[of _ ord] exI[of _ cs]) (auto split: sum.split)
qed auto

theorem wallet_charges_order_total_witness:
  "\<exists>res s'. createWalletPayment mem_prisma sample_wallet sample_payment_dto ''t1'' ''u1'' sample_till = (Inr res, s') \<and>
     (\<exists>p. t_payments (w_db (tl_world s')) = [sample_payment, p] \<and> py_amount p = wr_amount res) \<and> length (tl_calls s') \<le> 1"
proof -
  let ?m = "createWalletPayment mem_prisma sample_wallet sample_payment_dto ''t1'' ''u1''"
  obtain r s' where run: "?m sample_till = (r, s')" by force
  have "case fst (?m sample_till) of Inl _ \<Rightarrow> False | Inr _ \<Rightarrow> True" by code_simp
  then obtain res where r: "r = Inr res" using run by (cases r) auto
  from wallet_charges_order_total[OF mem.prisma_client_axioms _ run[unfolded r]] show ?thesis
    using run r by (auto simp: sample_till_def)
qed

text \<open>C20. A payment is verified only when it is paid: verification answers for a payment of the tenant that
  carries the reference; it reports \<^verbatim>\<open>verified\<close> exactly when the payment is now stored as paid, and
  a payment becomes paid only when the provider, asked about that reference, says it is settled; a
  payment in a terminal state is not changed and the provider is not asked; no other row changes, and
  when verification throws the database is as it was.\<close>

theorem verified_only_when_paid:
  assumes "prisma_client P T" "t \<noteq> []" "distinct (map py_id (t_payments (T (w_db (tl_world s)))))"
    and "verifyPayment P wenv i t s = (r, s')"
  shows "case r of
      Inl e \<Rightarrow> T (w_db (tl_world s')) = T (w_db (tl_world s))
    | Inr res \<Rightarrow> \<exists>xs row ys row'. t_payments (T (w_db (tl_world s))) = xs @ row # ys \<and> py_tenantId row = Some t \<and>
        (\<exists>ref. py_transactionReference row = Some ref \<and> suffix ('':'' @ i) ref) \<and>
        T (w_db (tl_world s')) = (T (w_db (tl_world s)))\<lparr>t_payments := xs @ row' # ys\<rparr> \<and>
        vp_orderId res = py_orderId row \<and> vp_amount res = py_amount row \<and> py_amount row' = py_amount row \<and>
        vp_status res = py_status row' \<and> (vp_verified res \<longleftrightarrow> py_status row' = PAID) \<and>
        (py_status row' = PAID \<longrightarrow> py_status row = PAID \<or> settled_by_provider wenv (referenceProvider row) i) \<and>
        (terminal (py_status row) \<longrightarrow> row' = row \<and> tl_calls s' = tl_calls s)"
proof (cases rule: prisma_client.verifyPayment_effect[OF assms, case_names failed answered])
  case (answered row xs ys row')
  have "(py_status row' = PAID \<longrightarrow> py_status row = PAID \<or> settled_by_provider wenv (referenceProvider row) i) \<and>
      (terminal (py_status row) \<longrightarrow> row' = row) \<and> py_amount row' = py_amount row"
    using answered(6) by (auto simp: settle_row_def)
  then show ?thesis using answered(1-3,5,7) unfolding answered(4) sum.case
    by (intro exI[of _ xs] exI[of _ row] exI[of _ ys] exI[of _ row'] conjI) (simp_all add: verifyResult_def endsWith_def)
qed simp

theorem verified_only_when_paid_witness:
  "\<exists>res s'. verifyPayment mem_prisma sample_wallet ''pi1'' ''t1'' sample_till = (Inr res, s') \<and> vp_status res = PAID \<and>
     vp_verified res \<and> settled_by_provider sample_wallet ''stripe'' ''pi1''"
proof -
  let ?m = "verifyPayment mem_prisma sample_wallet ''pi1'' ''t1''"
  obtain r s' where run: "?m sample_till = (r, s')" by force
  have "case fst (?m sample_till) of Inl _ \<Rightarrow> False | Inr res \<Rightarrow> vp_status res = PAID" by code_simp
  then obtain res where r: "r = Inr res" "vp_status res = PAID" using run by (cases r) auto
  have "distinct (map py_id (t_payments (w_db (tl_world sample_till))))" by (simp add: sample_till_def)
  note paid = verified_only_when_paid[OF mem.prisma_client_axioms _ this run[unfolded r(1)], unfolded sum.case r(2)]
  obtain xs row ys where at: "t_payments (w_db (tl_world sample_till)) = xs @ row # ys" "vp_verified res"
      "py_status row = PAID \<or> settled_by_provider sample_wallet (referenceProvider row) ''pi1''"
    using paid by force
  then have row: "row \<in> set (t_payments (w_db (tl_world sample_till)))" "vp_verified res"
      "py_status row = PAID \<or> settled_by_provider sample_wallet (referenceProvider row) ''pi1''" by simp_all
  have "row = sample_payment" using row(1) by (simp add: sample_till_def)
  then show ?thesis using run r row(2,3) by (simp add: sample_payment_def referenceProvider_def or_else_def)
qed

end
