(* ===== verification/Fixed_Window.thy ===== *)
theory Fixed_Window
  imports Prelude
begin

text \<open>
  The interface between a counter of requests and the guard that trusts it: a window opened by a
  request stays open for the whole duration and its count only grows while it is open. The bound on
  the admitted requests of a client is proved from these laws alone.
\<close>

text \<open>How many of the requests \<open>rs\<close>, served one after the other from \<open>s\<close>, satisfy \<open>adm\<close>.\<close>

fun times_admitted :: "('r \<Rightarrow> 's \<Rightarrow> 's) \<Rightarrow> ('r \<Rightarrow> 's \<Rightarrow> bool) \<Rightarrow> 'r list \<Rightarrow> 's \<Rightarrow> int" where
  "times_admitted step adm [] s = 0"
| "times_admitted step adm (r # rs) s = (if adm r s then 1 else 0) + times_admitted step adm rs (step r s)"

lemma times_admitted_nonneg: "0 \<le> times_admitted step adm rs s"
  by (induction rs arbitrary: s) simp_all

lemma times_admitted_disj:
  assumes "\<And>r s. r \<in> set rs \<Longrightarrow> adm r s \<Longrightarrow> one r s \<or> two r s"
  shows "times_admitted step adm rs s \<le> times_admitted step one rs s + times_admitted step two rs s"
  using assms
proof (induction rs arbitrary: s)
  case (Cons r rs)
  have "times_admitted step adm rs (step r s) \<le> times_admitted step one rs (step r s) + times_admitted step two rs (step r s)"
    by (rule Cons.IH) (simp add: Cons.prems)
  moreover have "adm r s \<Longrightarrow> one r s \<or> two r s" using Cons.prems by simp
  ultimately show ?case by auto
qed simp

text \<open>The requests are served one after the other, from \<open>a\<close> on and before \<open>b\<close>.\<close>

fun ordered :: "('r \<Rightarrow> int) \<Rightarrow> ('r \<Rightarrow> int) \<Rightarrow> int \<Rightarrow> int \<Rightarrow> 'r list \<Rightarrow> bool" where
  "ordered at til a b [] \<longleftrightarrow> True"
| "ordered at til a b (r # rs) \<longleftrightarrow> a \<le> at r \<and> at r \<le> til r \<and> til r < b \<and> ordered at til (til r) b rs"

lemma ordered_later:
  assumes "ordered at til a b rs" and "\<And>r. r \<in> set rs \<Longrightarrow> at r \<le> at' r \<and> at' r \<le> til r"
  shows "ordered at' til a b rs"
  using assms by (induction rs arbitrary: a) force+

text \<open>
  \<open>view s t\<close> is the count of the client's window if it is still open at \<open>t\<close> (as far as is known in
  state \<open>s\<close>). A request that finds it open at \<open>at r\<close> is counted in it, and times_admitted only within the
  limit; one that finds none opens one for the whole duration, or leaves none. Every other step
  keeps it.
\<close>

locale fixed_window =
  fixes view :: "'s \<Rightarrow> int \<Rightarrow> int option" and limit :: int and duration :: int
    and at :: "'r \<Rightarrow> int" and til :: "'r \<Rightarrow> int" and ok :: "'r \<Rightarrow> bool" and mine :: "'r \<Rightarrow> bool"
    and step :: "'r \<Rightarrow> 's \<Rightarrow> 's" and adm :: "'r \<Rightarrow> 's \<Rightarrow> bool"
  assumes earlier: "view s t = Some n \<Longrightarrow> t' \<le> t \<Longrightarrow> view s t' = Some n"
    and limit_positive: "1 \<le> limit"
    and joins: "ok r \<Longrightarrow> mine r \<Longrightarrow> view s (at r) = Some n \<Longrightarrow> 1 \<le> n \<Longrightarrow>
      \<exists>n' \<ge> n. (\<forall>t \<ge> til r. view (step r s) t = Some n' \<or> view s t = None \<and> view (step r s) t = None) \<and>
        (adm r s \<longrightarrow> n < n' \<and> n' \<le> limit)"
    and opens: "ok r \<Longrightarrow> mine r \<Longrightarrow> view s (at r) = None \<Longrightarrow>
      (\<not> adm r s \<and> (\<forall>t \<ge> til r. view (step r s) t = None)) \<or>
      (\<exists>n \<ge> 1. \<forall>t. til r \<le> t \<and> t < at r + duration \<longrightarrow> view (step r s) t = Some n)"
    and others: "ok r \<Longrightarrow> \<not> mine r \<Longrightarrow> til r \<le> t \<Longrightarrow> view (step r s) t = view s t \<and> \<not> adm r s"
begin

lemma open_window:
  assumes "ordered at til a b rs" and "\<forall>r \<in> set rs. ok r" and "1 \<le> n" and "\<And>t. a \<le> t \<Longrightarrow> t < b \<Longrightarrow> view s t = Some n"
  shows "times_admitted step adm rs s \<le> max 0 (limit - n)"
  using assms
proof (induction rs arbitrary: a n s)
  case (Cons r rs)
  have at: "a \<le> at r" "at r \<le> til r" "til r < b" "ordered at til (til r) b rs" "ok r" using Cons.prems(1,2) by simp_all
  have still: "view s t = Some n" if "at r \<le> t" "t < b" for t using Cons.prems(4)[of t] at(1) that by simp
  have now: "view s (at r) = Some n" using still at by simp
  obtain n' where n': "n \<le> n'" "\<And>t. til r \<le> t \<Longrightarrow> t < b \<Longrightarrow> view (step r s) t = Some n'" "adm r s \<Longrightarrow> n < n' \<and> n' \<le> limit"
  proof (cases "mine r")
    case True
    obtain n' where "n \<le> n'" and keep: "\<forall>t \<ge> til r. view (step r s) t = Some n' \<or> view s t = None \<and> view (step r s) t = None"
        and "adm r s \<longrightarrow> n < n' \<and> n' \<le> limit"
      using joins[OF at(5) True now Cons.prems(3)] by blast
    moreover have "view s t \<noteq> None" if "til r \<le> t" "t < b" for t using still[of t] at(2) that by simp
    ultimately show thesis using that[of n'] by blast
  next
    case False
    show thesis
      by (rule that[of n]) (use others[OF at(5) False] still at(2) in auto)
  qed
  have "times_admitted step adm rs (step r s) \<le> max 0 (limit - n')"
    by (rule Cons.IH[OF at(4)]) (use Cons.prems(2,3) n' in auto)
  then show ?case using n' by auto
qed simp

lemma two_windows:
  assumes "ordered at til t b rs" and "b \<le> t + duration" and "\<forall>r \<in> set rs. ok r" and "\<And>n. view s t = Some n \<Longrightarrow> 1 \<le> n"
  shows "times_admitted step adm rs s \<le> limit + (case view s t of None \<Rightarrow> 0 | Some n \<Rightarrow> max 0 (limit - n))"
  using assms
proof (induction rs arbitrary: t s)
  case Nil
  then show ?case using limit_positive by (auto split: option.splits)
next
  case (Cons r rs)
  have at: "t \<le> at r" "at r \<le> til r" "til r < b" "ordered at til (til r) b rs" "ok r" "b \<le> til r + duration"
      "b \<le> at r + duration" and ok: "\<forall>r \<in> set rs. ok r"
    using Cons.prems(1,2,3) by simp_all
  let ?s = "step r s"
  have IH: "times_admitted step adm rs ?s \<le> limit + (case view ?s (til r) of None \<Rightarrow> 0 | Some n \<Rightarrow> max 0 (limit - n))"
    if "\<And>n. view ?s (til r) = Some n \<Longrightarrow> 1 \<le> n" by (rule Cons.IH[OF at(4,6) ok that])
  show ?case
  proof (cases "view s (at r)")
    case (Some n)
    have was: "view s t = Some n" by (rule earlier[OF Some at(1)])
    have n: "1 \<le> n" by (rule Cons.prems(4)[OF was])
    obtain n' where n': "n \<le> n'" "view ?s (til r) = Some n' \<or> view ?s (til r) = None" "adm r s \<longrightarrow> n < n' \<and> n' \<le> limit"
    proof (cases "mine r")
      case True
      obtain n' where "n \<le> n'" "\<forall>t \<ge> til r. view ?s t = Some n' \<or> view s t = None \<and> view ?s t = None"
          "adm r s \<longrightarrow> n < n' \<and> n' \<le> limit"
        using joins[OF at(5) True Some n] by blast
      then show thesis by (intro that[of n']) auto
    next
      case False
      have "view s (til r) = Some n \<or> view s (til r) = None"
        using earlier[of s "til r" _ "at r"] Some at(2) by (cases "view s (til r)") auto
      then show thesis using others[OF at(5) False, of "til r" s] by (intro that[of n]) auto
    qed
    have "1 \<le> n'" using n n'(1) by linarith
    then have "times_admitted step adm rs ?s \<le> limit + max 0 (limit - n')" using IH n'(2) by auto
    moreover have "(if adm r s then 1 else 0) + max 0 (limit - n') \<le> max 0 (limit - n)"
      using n'(1,3) by (cases "adm r s") simp_all
    ultimately show ?thesis by (simp add: was)
  next
    case None
    have "view s (til r) = None" using earlier[of s "til r" _ "at r"] None at(2) by (cases "view s (til r)") auto
    have "times_admitted step adm (r # rs) s \<le> limit"
    proof (cases "mine r")
      case mine: True
      consider "\<not> adm r s" "\<forall>t \<ge> til r. view ?s t = None"
        | n where "1 \<le> n" "\<forall>t. til r \<le> t \<and> t < at r + duration \<longrightarrow> view ?s t = Some n"
        using opens[OF at(5) mine None] by (elim disjE exE conjE) blast+
      then show ?thesis
      proof cases
        case 1
        then show ?thesis using IH by simp
      next
        case (2 n)
        have "times_admitted step adm rs ?s \<le> max 0 (limit - n)"
          by (rule open_window[OF at(4) ok]) (use 2 at(7) in auto)
        then show ?thesis using 2(1) limit_positive by auto
      qed
    next
      case False
      then show ?thesis using IH others[OF at(5) False, of "til r" s] \<open>view s (til r) = None\<close> by simp
    qed
    moreover have "0 \<le> (case view s t of None \<Rightarrow> 0 | Some n \<Rightarrow> max 0 (limit - n))" by (simp split: option.split)
    ultimately show ?thesis by linarith
  qed
qed

lemma at_most_twice:
  assumes "ordered at til t b rs" and "b \<le> t + duration" and "\<forall>r \<in> set rs. ok r" and "\<And>n. view s t = Some n \<Longrightarrow> 1 \<le> n"
  shows "times_admitted step adm rs s \<le> 2 * limit"
  using two_windows[OF assms] assms(4) limit_positive by (force split: option.splits)

end

end
