(* ===== verification/Rate_Limit.thy ===== *)
theory Rate_Limit
  imports Request_Context Fixed_Window
begin

text \<open>
  \<^verbatim>\<open>apps/api/src/common/rate-limit\<close>: the fixed-window limiter, on counters in Redis when it is
  connected and in the memory of the process otherwise, and the guard that asks it. The three Redis
  commands of a request run at times of their own. Both counters are instances of the
  interface \<open>fixed_window\<close>, in which the bound on admitted requests is proved. The Redis server
  is a parameter: \<open>counter_store\<close> states what its commands promise, failing ones included.
\<close>

section \<open>The service\<close>

record RateLimitConfig =
  rc_limit :: int
  rc_windowMs :: int
  rc_keyPrefix :: string

record memoryEntry =
  me_count :: int
  me_resetTime :: int

record rateLimitResult =
  rr_limited :: bool
  rr_remaining :: int
  rr_resetTime :: int

text \<open>\<^verbatim>\<open>INCR\<close>, \<^verbatim>\<open>EXPIRE\<close> and \<^verbatim>\<open>TTL\<close> at a time.\<close>

record 's counterClient =
  cc_incr :: "int \<Rightarrow> string \<Rightarrow> ('s, int) prog"
  cc_expire :: "int \<Rightarrow> string \<Rightarrow> int \<Rightarrow> ('s, unit) prog"
  cc_ttl :: "int \<Rightarrow> string \<Rightarrow> ('s, int) prog"

record 's limiter =
  lm_cache :: "'s cache"
  lm_memoryStore :: "string \<rightharpoonup> memoryEntry"

text \<open>\<^verbatim>\<open>Date.now()\<close> at the start of a request and when its commands run.\<close>

record requestTimes =
  rt_now :: int
  rt_incr :: int
  rt_expire :: int
  rt_ttl :: int

definition onCounter :: "('s, 'a) prog \<Rightarrow> ('s limiter, 'a) prog" where
  "onCounter m = (\<lambda>l. case m (ca_store (lm_cache l)) of
     (r, x) \<Rightarrow> (r, l\<lparr>lm_cache := (lm_cache l)\<lparr>ca_store := x\<rparr>\<rparr>))"

definition windowSec :: "RateLimitConfig \<Rightarrow> int" where
  "windowSec config = \<lceil>(of_int (rc_windowMs config) / 1000 :: rat)\<rceil>"

definition fullKeyOf :: "RateLimitConfig \<Rightarrow> string \<Rightarrow> string" where
  "fullKeyOf config key = ''ratelimit:'' @ rc_keyPrefix config @ '':'' @ key"

definition redisHit ::
  "'s counterClient \<Rightarrow> requestTimes \<Rightarrow> string \<Rightarrow> RateLimitConfig \<Rightarrow> ('s limiter, rateLimitResult) prog" where
  "redisHit C tm fullKey config =
     andThen (onCounter (cc_incr C (rt_incr tm) fullKey)) (\<lambda>count.
     andThen (if count = 1 then onCounter (cc_expire C (rt_expire tm) fullKey (windowSec config)) else return ()) (\<lambda>_.
     andThen (onCounter (cc_ttl C (rt_ttl tm) fullKey)) (\<lambda>ttl.
     return \<lparr>rr_limited = (rc_limit config < count), rr_remaining = max 0 (rc_limit config - count),
             rr_resetTime = rt_now tm + ttl * 1000\<rparr>)))"

definition memoryHit :: "int \<Rightarrow> string \<Rightarrow> RateLimitConfig \<Rightarrow> ('s limiter, rateLimitResult) prog" where
  "memoryHit now fullKey config = (\<lambda>l.
     let fresh = (Inr \<lparr>rr_limited = False, rr_remaining = rc_limit config - 1, rr_resetTime = now + rc_windowMs config\<rparr>,
                  l\<lparr>lm_memoryStore := (lm_memoryStore l)(fullKey \<mapsto> \<lparr>me_count = 1, me_resetTime = now + rc_windowMs config\<rparr>)\<rparr>) in
     case lm_memoryStore l fullKey of
       None \<Rightarrow> fresh
     | Some entry \<Rightarrow>
         if me_resetTime entry < now then fresh
         else let count = me_count entry + 1 in
              (Inr \<lparr>rr_limited = (rc_limit config < count), rr_remaining = max 0 (rc_limit config - count),
                    rr_resetTime = me_resetTime entry\<rparr>,
               l\<lparr>lm_memoryStore := (lm_memoryStore l)(fullKey \<mapsto> entry\<lparr>me_count := count\<rparr>)\<rparr>))"

definition isRateLimited ::
  "'s counterClient \<Rightarrow> requestTimes \<Rightarrow> string \<Rightarrow> RateLimitConfig \<Rightarrow> ('s limiter, rateLimitResult) prog" where
  "isRateLimited C tm key config =
     (let fullKey = fullKeyOf config key in
      (\<lambda>l. if isCacheActive (lm_cache l) \<and> ca_redisClient (lm_cache l) \<and> ca_isConnected (lm_cache l)
           then try_catch (redisHit C tm fullKey config) (\<lambda>err. memoryHit (rt_now tm) fullKey config) l
           else memoryHit (rt_now tm) fullKey config l))"

definition getTierConfig :: "string \<Rightarrow> RateLimitConfig" where
  "getTierConfig tier =
     (if tier = ''public'' then \<lparr>rc_limit = 120, rc_windowMs = 60 * 1000, rc_keyPrefix = ''public''\<rparr>
      else if tier = ''checkout'' then \<lparr>rc_limit = 30, rc_windowMs = 60 * 1000, rc_keyPrefix = ''checkout''\<rparr>
      else if tier = ''auth'' then \<lparr>rc_limit = 10, rc_windowMs = 60 * 1000, rc_keyPrefix = ''auth''\<rparr>
      else \<lparr>rc_limit = 120, rc_windowMs = 60 * 1000, rc_keyPrefix = ''default''\<rparr>)"

definition limiter_cleanup :: "int \<Rightarrow> 's limiter \<Rightarrow> 's limiter" where
  "limiter_cleanup now l = l\<lparr>lm_memoryStore := (\<lambda>key. case lm_memoryStore l key of
     None \<Rightarrow> None | Some entry \<Rightarrow> if me_resetTime entry < now then None else Some entry)\<rparr>"

section \<open>The guard\<close>

record rateLimitMeta =
  rm_tier :: string
  rm_customLimit :: "int option"
  rm_customWindowMs :: "int option"

record limitedRequest =
  lr_ip :: "string option"
  lr_forwardedFor :: "string option"
  lr_remoteAddress :: "string option"
  lr_userId :: "string option"
  lr_userSub :: "string option"

text \<open>The headers set on the response, when there is one.\<close>

record limitHeaders =
  lh_limit :: int
  lh_remaining :: int
  lh_reset :: int
  lh_retryAfter :: "int option"

definition ceil_seconds :: "int \<Rightarrow> int" where
  "ceil_seconds ms = \<lceil>(of_int ms / 1000 :: rat)\<rceil>"

definition show_signed :: "int \<Rightarrow> string" where
  "show_signed n = (if n < 0 then CHR ''-'' # show_int (- n) else show_int n)"

text \<open>A number of milliseconds divided by 1000, as JavaScript prints it: three decimals at most, no trailing zeros.\<close>

definition show_seconds :: "int \<Rightarrow> string" where
  "show_seconds ms =
     (let n = \<bar>ms\<bar>; frac = n mod 1000;
          digits = tl (show_int (1000 + frac));
          dec = rev (dropWhile (\<lambda>c. c = CHR ''0'') (rev digits)) in
      (if ms < 0 then ''-'' else []) @ show_int (n div 1000) @ (if frac = 0 then [] else CHR ''.'' # dec))"

definition or_number :: "int option \<Rightarrow> int \<Rightarrow> int" where
  "or_number x d = (case x of None \<Rightarrow> d | Some n \<Rightarrow> if n = 0 then d else n)"

definition clientKey :: "limitedRequest \<Rightarrow> string" where
  "clientKey request =
     (let ip = or_else (lr_ip request) (or_else (lr_forwardedFor request) (or_else (lr_remoteAddress request) ''unknown-ip''));
          userId = or_else (lr_userId request) (or_else (lr_userSub request) []) in
      if userId \<noteq> [] then ip @ '':'' @ userId else ip)"

definition effectiveConfig :: "rateLimitMeta \<Rightarrow> RateLimitConfig" where
  "effectiveConfig m = (let tierConfig = getTierConfig (rm_tier m) in
     \<lparr>rc_limit = or_number (rm_customLimit m) (rc_limit tierConfig),
      rc_windowMs = or_number (rm_customWindowMs m) (rc_windowMs tierConfig), rc_keyPrefix = rc_keyPrefix tierConfig\<rparr>)"

text \<open>\<open>later\<close> is \<^verbatim>\<open>Date.now()\<close> after the check; the headers are returned with the outcome.\<close>

definition rateLimitGuard ::
  "'s counterClient \<Rightarrow> requestTimes \<Rightarrow> int \<Rightarrow> rateLimitMeta option \<Rightarrow> limitedRequest \<Rightarrow> 's limiter \<Rightarrow>
   ((exn + bool) \<times> limitHeaders option) \<times> 's limiter" where
  "rateLimitGuard C tm later metadata request l =
     (case metadata of
        None \<Rightarrow> ((Inr True, None), l)
      | Some m \<Rightarrow>
          let config = effectiveConfig m in
          case isRateLimited C tm (clientKey request) config l of
            (Inl e, l') \<Rightarrow> ((Inl e, None), l')
          | (Inr r, l') \<Rightarrow>
              let retryAfter = ceil_seconds (rr_resetTime r - later);
                  headers = \<lparr>lh_limit = rc_limit config, lh_remaining = rr_remaining r, lh_reset = ceil_seconds (rr_resetTime r),
                             lh_retryAfter = (if rr_limited r then Some retryAfter else None)\<rparr> in
              if rr_limited r
              then ((Inl (TooManyRequests (''Rate limit exceeded. Max '' @ show_signed (rc_limit config) @ '' requests per '' @
                      show_seconds (rc_windowMs config) @ ''s. Retry after '' @ show_signed retryAfter @ ''s'')), Some headers), l')
              else ((Inr True, Some headers), l'))"

section \<open>The counters as windows\<close>

text \<open>What happens to the limiter: requests, the clean-up of the memory, events of the connection to Redis.\<close>

datatype limiterEvent =
    Request requestTimes string RateLimitConfig
  | Cleanup int
  | Connection int redisEvent

fun limiterStep :: "'s counterClient \<Rightarrow> limiterEvent \<Rightarrow> 's limiter \<Rightarrow> 's limiter" where
  "limiterStep C (Request tm key config) l = snd (isRateLimited C tm key config l)"
| "limiterStep C (Cleanup now) l = limiter_cleanup now l"
| "limiterStep C (Connection now ev) l = l\<lparr>lm_cache := cache_on ev (lm_cache l)\<rparr>"

text \<open>A request of the client with the key \<open>fk\<close> that is let through.\<close>

fun letsThrough :: "'s counterClient \<Rightarrow> string \<Rightarrow> limiterEvent \<Rightarrow> 's limiter \<Rightarrow> bool" where
  "letsThrough C fk (Request tm key config) l \<longleftrightarrow> fullKeyOf config key = fk \<and>
     (case fst (isRateLimited C tm key config l) of Inr r \<Rightarrow> \<not> rr_limited r | Inl e \<Rightarrow> False)"
| "letsThrough C fk _ l \<longleftrightarrow> False"

fun requestOf :: "string \<Rightarrow> limiterEvent \<Rightarrow> bool" where
  "requestOf fk (Request tm key config) \<longleftrightarrow> fullKeyOf config key = fk"
| "requestOf fk _ \<longleftrightarrow> False"

fun startTime :: "limiterEvent \<Rightarrow> int" where
  "startTime (Request tm key config) = rt_now tm"
| "startTime (Cleanup now) = now"
| "startTime (Connection now ev) = now"

fun endTime :: "limiterEvent \<Rightarrow> int" where
  "endTime (Request tm key config) = rt_ttl tm"
| "endTime (Cleanup now) = now"
| "endTime (Connection now ev) = now"

fun counterTime :: "limiterEvent \<Rightarrow> int" where
  "counterTime (Request tm key config) = rt_incr tm"
| "counterTime (Cleanup now) = now"
| "counterTime (Connection now ev) = now"

text \<open>The commands of a request run in order, and the requests of one client are limited in one way.\<close>

fun regular :: "string \<Rightarrow> RateLimitConfig \<Rightarrow> limiterEvent \<Rightarrow> bool" where
  "regular fk cfg (Request tm key config) \<longleftrightarrow>
     rt_now tm \<le> rt_incr tm \<and> rt_incr tm \<le> rt_expire tm \<and> rt_expire tm \<le> rt_ttl tm \<and> (fullKeyOf config key = fk \<longrightarrow> config = cfg)"
| "regular fk cfg _ \<longleftrightarrow> True"

definition memoryCount :: "string \<Rightarrow> 's limiter \<Rightarrow> int \<Rightarrow> int option" where
  "memoryCount fk l t = (case lm_memoryStore l fk of
     None \<Rightarrow> None | Some entry \<Rightarrow> if me_resetTime entry < t then None else Some (me_count entry))"

definition counterCount :: "('s \<Rightarrow> int \<Rightarrow> string \<Rightarrow> int option) \<Rightarrow> string \<Rightarrow> 's limiter \<Rightarrow> int \<Rightarrow> int option" where
  "counterCount V fk l t = V (ca_store (lm_cache l)) t fk"

definition redisServes :: "'s counterClient \<Rightarrow> requestTimes \<Rightarrow> string \<Rightarrow> RateLimitConfig \<Rightarrow> 's limiter \<Rightarrow> bool" where
  "redisServes C tm fk config l \<longleftrightarrow> isCacheActive (lm_cache l) \<and> ca_redisClient (lm_cache l) \<and> ca_isConnected (lm_cache l) \<and>
     (case fst (redisHit C tm fk config l) of Inr r \<Rightarrow> True | Inl e \<Rightarrow> False)"

fun throughRedis :: "'s counterClient \<Rightarrow> string \<Rightarrow> limiterEvent \<Rightarrow> 's limiter \<Rightarrow> bool" where
  "throughRedis C fk (Request tm key config) l \<longleftrightarrow>
     letsThrough C fk (Request tm key config) l \<and> redisServes C tm fk config l"
| "throughRedis C fk _ l \<longleftrightarrow> False"

fun throughMemory :: "'s counterClient \<Rightarrow> string \<Rightarrow> limiterEvent \<Rightarrow> 's limiter \<Rightarrow> bool" where
  "throughMemory C fk (Request tm key config) l \<longleftrightarrow>
     letsThrough C fk (Request tm key config) l \<and> \<not> redisServes C tm fk config l"
| "throughMemory C fk _ l \<longleftrightarrow> False"

text \<open>
  A counter that does not exist counts from 1 and lives until it is told to expire. A command that
  failed has been executed or not.
\<close>

definition expiring :: "int \<Rightarrow> int \<Rightarrow> int option \<Rightarrow> int \<Rightarrow> int option" where
  "expiring now ttl v t = (if t < now + 1000 * ttl then v else None)"

locale counter_store =
  fixes C :: "'s counterClient" and V :: "'s \<Rightarrow> int \<Rightarrow> string \<Rightarrow> int option"
  assumes V_earlier: "V s t k = Some n \<Longrightarrow> t' \<le> t \<Longrightarrow> V s t' k = Some n"
    and incr_other: "cc_incr C now k s = (r, s') \<Longrightarrow> k' \<noteq> k \<Longrightarrow> now \<le> t \<Longrightarrow> V s' t k' = V s t k'"
    and incr_Inr: "cc_incr C now k s = (Inr n, s') \<Longrightarrow> n = (case V s now k of None \<Rightarrow> 1 | Some m \<Rightarrow> m + 1)"
    and incr_view: "cc_incr C now k s = (r, s') \<Longrightarrow>
      (\<forall>t \<ge> now. V s' t k = (case V s now k of None \<Rightarrow> Some 1 | Some m \<Rightarrow> map_option (\<lambda>i. i + 1) (V s t k))) \<or>
      isl r \<and> (\<forall>t \<ge> now. V s' t k = V s t k)"
    and expire_other: "cc_expire C now k ttl s = (u, s') \<Longrightarrow> k' \<noteq> k \<Longrightarrow> now \<le> t \<Longrightarrow> V s' t k' = V s t k'"
    and expire_view: "0 < ttl \<Longrightarrow> V s now k = Some n \<Longrightarrow> cc_expire C now k ttl s = (u, s') \<Longrightarrow>
      (\<forall>t \<ge> now. V s' t k = expiring now ttl (Some n) t) \<or> isl u \<and> (\<forall>t \<ge> now. V s' t k = V s t k)"
    and ttl_view: "cc_ttl C now k s = (r, s') \<Longrightarrow> now \<le> t \<Longrightarrow> V s' t k' = V s t k'"

text \<open>Counters in memory, with the time they expire.\<close>

type_synonym mem_counters = "(string \<times> int \<times> int option) list"

definition counter_view :: "mem_counters \<Rightarrow> int \<Rightarrow> string \<Rightarrow> int option" where
  "counter_view s t k = (case map_of s k of None \<Rightarrow> None | Some (n, expiry) \<Rightarrow>
     (case expiry of None \<Rightarrow> Some n | Some x \<Rightarrow> if t < x then Some n else None))"

definition mem_counters :: "mem_counters counterClient" where
  "mem_counters = \<lparr>
     cc_incr = (\<lambda>now k s. case counter_view s now k of
       None \<Rightarrow> (Inr 1, AList.update k (1, None) s)
     | Some n \<Rightarrow> (Inr (n + 1), AList.update k (n + 1, snd (the (map_of s k))) s)),
     cc_expire = (\<lambda>now k ttl s. case counter_view s now k of
       None \<Rightarrow> (Inr (), s) | Some n \<Rightarrow> (Inr (), AList.update k (n, Some (now + 1000 * ttl)) s)),
     cc_ttl = (\<lambda>now k s. (Inr (case counter_view s now k of None \<Rightarrow> - 2 | Some n \<Rightarrow>
       (case snd (the (map_of s k)) of None \<Rightarrow> - 1 | Some x \<Rightarrow> ceil_seconds (x - now))), s))\<rparr>"

interpretation mem_counters: counter_store mem_counters counter_view
  by unfold_locales
    (auto simp: mem_counters_def counter_view_def expiring_def map_of_update_spread split: option.splits if_splits)

section \<open>What a request does to the counters\<close>

lemma windowSec_covers: "rc_windowMs config \<le> 1000 * windowSec config"
proof -
  have "(of_int (rc_windowMs config) :: rat) / 1000 \<le> of_int (windowSec config)" by (simp add: windowSec_def)
  then have "(of_int (rc_windowMs config) :: rat) \<le> of_int (1000 * windowSec config)" by simp
  then show ?thesis by (simp only: of_int_le_iff)
qed

lemma windowSec_positive: "1 \<le> rc_windowMs config \<Longrightarrow> 0 < windowSec config"
  using windowSec_covers[of config] by simp

lemma onCounter_apply: "m (ca_store (lm_cache l)) = (r, x) \<Longrightarrow> onCounter m l = (r, l\<lparr>lm_cache := (lm_cache l)\<lparr>ca_store := x\<rparr>\<rparr>)"
  by (simp add: onCounter_def)

lemma redisHit_memory [simp]: "lm_memoryStore (snd (redisHit C tm k cfg l)) = lm_memoryStore l"
  by (simp add: redisHit_def andThen_def onCounter_def return_apply split: prod.split sum.split)

lemma isRateLimited_cases:
  obtains (redis) r l' where "redisServes C tm (fullKeyOf cfg key) cfg l" "redisHit C tm (fullKeyOf cfg key) cfg l = (Inr r, l')"
      "isRateLimited C tm key cfg l = (Inr r, l')" "lm_memoryStore l' = lm_memoryStore l"
  | (memory) l1 where "\<not> redisServes C tm (fullKeyOf cfg key) cfg l" "lm_memoryStore l1 = lm_memoryStore l"
      "isRateLimited C tm key cfg l = memoryHit (rt_now tm) (fullKeyOf cfg key) cfg l1"
      "l1 = l \<or> (\<exists>e. redisHit C tm (fullKeyOf cfg key) cfg l = (Inl e, l1))"
proof -
  let ?on = "isCacheActive (lm_cache l) \<and> ca_redisClient (lm_cache l) \<and> ca_isConnected (lm_cache l)"
  obtain x l' where hit: "redisHit C tm (fullKeyOf cfg key) cfg l = (x, l')" by (meson surj_pair)
  have mem: "lm_memoryStore l' = lm_memoryStore l" using redisHit_memory[of C tm "fullKeyOf cfg key" cfg l] hit by simp
  show thesis
  proof (cases ?on)
    case on: True
    show thesis
    proof (cases x)
      case (Inl e)
      then show thesis using hit on mem
        by (intro memory[of l']) (simp_all add: redisServes_def isRateLimited_def try_catch_def Let_def)
    next
      case (Inr r)
      then show thesis using hit on mem
        by (intro redis[of r l']) (simp_all add: redisServes_def isRateLimited_def try_catch_def Let_def)
    qed
  next
    case False
    then show thesis by (intro memory[of l]) (auto simp: redisServes_def isRateLimited_def Let_def)
  qed
qed

lemma memoryHit_store: "lm_cache (snd (memoryHit now k cfg l)) = lm_cache l"
  by (simp add: memoryHit_def Let_def split: option.split)

lemma memoryHit_other: "k' \<noteq> k \<Longrightarrow> memoryCount k' (snd (memoryHit now k cfg l)) t = memoryCount k' l t"
  by (auto simp: memoryHit_def memoryCount_def Let_def split: option.splits)

lemma memoryHit_joins:
  assumes "memoryCount k l now = Some n"
  shows "memoryCount k (snd (memoryHit now k cfg l)) t = map_option (\<lambda>i. i + 1) (memoryCount k l t)"
    and "\<exists>r. fst (memoryHit now k cfg l) = Inr r \<and> rr_limited r = (rc_limit cfg < n + 1)"
  using assms by (auto simp: memoryHit_def memoryCount_def Let_def split: option.splits if_splits)

lemma memoryHit_opens:
  assumes "memoryCount k l now = None"
  shows "memoryCount k (snd (memoryHit now k cfg l)) t = (if t \<le> now + rc_windowMs cfg then Some 1 else None)"
  using assms by (auto simp: memoryHit_def memoryCount_def Let_def split: option.splits if_splits)

lemma memoryCount_store: "lm_memoryStore l1 = lm_memoryStore l \<Longrightarrow> memoryCount k l1 t = memoryCount k l t"
  by (simp add: memoryCount_def)

lemma memoryCount_cleanup: "now \<le> t \<Longrightarrow> memoryCount k (limiter_cleanup now l) t = memoryCount k l t"
  by (auto simp: memoryCount_def limiter_cleanup_def split: option.split)

text \<open>The commands of a request on the Redis counter, up to the one that failed.\<close>

lemma redisHit_run:
  assumes "redisHit C tm k cfg l = (x, l')"
  obtains (failed) e where "cc_incr C (rt_incr tm) k (ca_store (lm_cache l)) = (Inl e, ca_store (lm_cache l'))" "x = Inl e"
  | (counted) n s1 s2 u y where "cc_incr C (rt_incr tm) k (ca_store (lm_cache l)) = (Inr n, s1)"
      "if n = 1 then cc_expire C (rt_expire tm) k (windowSec cfg) s1 = (u, s2) else u = Inr () \<and> s2 = s1"
      "isl u \<and> ca_store (lm_cache l') = s2 \<or> cc_ttl C (rt_ttl tm) k s2 = (y, ca_store (lm_cache l'))"
      "\<And>r. x = Inr r \<Longrightarrow> u = Inr () \<and> rr_limited r = (rc_limit cfg < n)"
proof -
  obtain a s1 where a: "cc_incr C (rt_incr tm) k (ca_store (lm_cache l)) = (a, s1)" by (meson surj_pair)
  show thesis
  proof (cases a)
    case (Inl e)
    then show thesis using assms a by (intro failed[of e]) (auto simp: redisHit_def andThen_def onCounter_def)
  next
    case (Inr n)
    define u where "u = (if n = 1 then fst (cc_expire C (rt_expire tm) k (windowSec cfg) s1) else Inr ())"
    define s2 where "s2 = (if n = 1 then snd (cc_expire C (rt_expire tm) k (windowSec cfg) s1) else s1)"
    obtain y s3 where y: "cc_ttl C (rt_ttl tm) k s2 = (y, s3)" by (meson surj_pair)
    have ex: "n = 1 \<Longrightarrow> cc_expire C (rt_expire tm) k (windowSec cfg) s1 = (u, s2)" by (simp add: u_def s2_def)
    have skip: "n \<noteq> 1 \<Longrightarrow> u = Inr () \<and> s2 = s1" by (simp add: u_def s2_def)
    show thesis
    proof (cases u)
      case (Inl e)
      then have n: "n = 1" using skip by auto
      show thesis
        by (rule counted[of n s1 u s2 y])
          (use assms a Inr Inl n ex[OF n] in \<open>auto simp: redisHit_def andThen_def onCounter_def\<close>)
    next
      case u: (Inr ok)
      have "redisHit C tm k cfg l = (case y of Inl e \<Rightarrow> Inl e | Inr ttl \<Rightarrow>
          Inr \<lparr>rr_limited = (rc_limit cfg < n), rr_remaining = max 0 (rc_limit cfg - n), rr_resetTime = rt_now tm + ttl * 1000\<rparr>,
          l\<lparr>lm_cache := (lm_cache l)\<lparr>ca_store := s3\<rparr>\<rparr>)"
        using a Inr u y ex skip
        by (cases "n = 1") (simp_all add: redisHit_def andThen_def onCounter_def return_apply split: sum.split)
      then show thesis using assms a Inr u y ex skip
        by (intro counted[of n s1 u s2 y]) (auto split: sum.splits)
    qed
  qed
qed

context counter_store begin

lemma redisHit_other:
  assumes "redisHit C tm k cfg l = (x, l')" and "regular k0 cfg0 (Request tm key cfg)" and "k' \<noteq> k" and "rt_ttl tm \<le> t"
  shows "counterCount V k' l' t = counterCount V k' l t"
  using assms(1)
proof (cases rule: redisHit_run)
  case (failed e)
  then show ?thesis using incr_other assms(2-4) by (fastforce simp: counterCount_def)
next
  case (counted n s1 s2 u y)
  have le: "rt_incr tm \<le> t" "rt_expire tm \<le> t" using assms(2,4) by simp_all
  have "V s1 t k' = V (ca_store (lm_cache l)) t k'" by (rule incr_other[OF counted(1) assms(3) le(1)])
  moreover have "V s2 t k' = V s1 t k'" using counted(2) expire_other[OF _ assms(3) le(2)] by (auto split: if_splits)
  moreover have "V (ca_store (lm_cache l')) t k' = V s2 t k'" using counted(3) ttl_view[OF _ assms(4)] by auto
  ultimately show ?thesis by (simp add: counterCount_def)
qed

lemma redisHit_joins:
  assumes run: "redisHit C tm k cfg l = (x, l')" and "regular k0 cfg0 (Request tm key cfg)"
    and live: "counterCount V k l (rt_incr tm) = Some n" and "1 \<le> n"
  obtains n' where "n \<le> n'" "\<And>t. rt_ttl tm \<le> t \<Longrightarrow> counterCount V k l' t = map_option (\<lambda>i. n') (counterCount V k l t)"
    "\<And>r. x = Inr r \<Longrightarrow> n' = n + 1 \<and> rr_limited r = (rc_limit cfg < n + 1)"
proof -
  define s where "s = ca_store (lm_cache l)"
  have now: "V s (rt_incr tm) k = Some n" using live by (simp add: counterCount_def s_def)
  have count: "V s t k = Some m \<Longrightarrow> rt_incr tm \<le> t \<Longrightarrow> m = n" for t m using V_earlier[of s t k m "rt_incr tm"] now by simp
  have le: "rt_ttl tm \<le> t \<Longrightarrow> rt_incr tm \<le> t" for t using assms(2) by simp
  show thesis
    using run
  proof (cases rule: redisHit_run)
    case (failed e)
    let ?s = "ca_store (lm_cache l')"
    have "(\<forall>t \<ge> rt_incr tm. V ?s t k = map_option (\<lambda>i. i + 1) (V s t k)) \<or> (\<forall>t \<ge> rt_incr tm. V ?s t k = V s t k)"
      using incr_view[OF failed(1)] by (auto simp: now simp flip: s_def)
    then obtain d where "0 \<le> d" and d: "\<And>t. rt_incr tm \<le> t \<Longrightarrow> V ?s t k = map_option (\<lambda>i. i + d) (V s t k)"
      by (metis (no_types, lifting) add_0_right map_option_cong option.map_ident zero_le_one order_refl)
    show thesis
    proof (rule that[of "n + d"])
      show "counterCount V k l' t = map_option (\<lambda>i. n + d) (counterCount V k l t)" if "rt_ttl tm \<le> t" for t
        using d[OF le[OF that]] count[OF _ le[OF that]] by (cases "V s t k") (simp_all add: counterCount_def flip: s_def)
    qed (use \<open>0 \<le> d\<close> failed(2) in auto)
  next
    case (counted m s1 s2 u y)
    have m: "m = n + 1" using incr_Inr[OF counted(1)] by (simp add: now flip: s_def)
    have s1: "V s1 t k = map_option (\<lambda>i. i + 1) (V s t k)" if "rt_incr tm \<le> t" for t
      using incr_view[OF counted(1)] that by (simp add: now flip: s_def)
    have s2: "s2 = s1" using counted(2) m \<open>1 \<le> n\<close> by (simp split: if_splits)
    show thesis
    proof (rule that[of "n + 1"])
      show "counterCount V k l' t = map_option (\<lambda>i. n + 1) (counterCount V k l t)" if "rt_ttl tm \<le> t" for t
      proof -
        have "V (ca_store (lm_cache l')) t k = V s1 t k" using counted(3) ttl_view[OF _ that] s2 by auto
        then show ?thesis using s1[OF le[OF that]] count[OF _ le[OF that]]
          by (cases "V s t k") (simp_all add: counterCount_def flip: s_def)
      qed
    qed (use m counted(4) in auto)
  qed
qed

lemma redisHit_opens:
  assumes run: "redisHit C tm k cfg l = (x, l')" and "regular k0 cfg0 (Request tm key cfg)" and "1 \<le> rc_windowMs cfg"
    and none: "counterCount V k l (rt_incr tm) = None"
  shows "isl x \<and> (\<forall>t \<ge> rt_ttl tm. counterCount V k l' t = None) \<or>
    (\<forall>t. rt_ttl tm \<le> t \<and> t < rt_incr tm + rc_windowMs cfg \<longrightarrow> counterCount V k l' t = Some 1)"
proof -
  define s where "s = ca_store (lm_cache l)"
  have now: "V s (rt_incr tm) k = None" using none by (simp add: counterCount_def s_def)
  have later: "V s t k = None" if "rt_incr tm \<le> t" for t using V_earlier[of s t k _ "rt_incr tm"] now that by (cases "V s t k") auto
  have times: "rt_incr tm \<le> rt_expire tm" "rt_expire tm \<le> rt_ttl tm" using assms(2) by simp_all
  show ?thesis
    using run
  proof (cases rule: redisHit_run)
    case (failed e)
    then show ?thesis using incr_view[OF failed(1)] later times by (auto simp: now counterCount_def simp flip: s_def)
  next
    case (counted m s1 s2 u y)
    have m: "m = 1" using incr_Inr[OF counted(1)] by (simp add: now flip: s_def)
    have s1: "V s1 t k = Some 1" if "rt_incr tm \<le> t" for t
      using incr_view[OF counted(1)] that by (simp add: now flip: s_def)
    have ex: "cc_expire C (rt_expire tm) k (windowSec cfg) s1 = (u, s2)" using counted(2) m by simp
    have "counterCount V k l' t = Some 1" if t: "rt_ttl tm \<le> t" "t < rt_incr tm + rc_windowMs cfg" for t
    proof -
      have "t < rt_expire tm + 1000 * windowSec cfg" using t(2) times windowSec_covers[of cfg] by linarith
      then have "V s2 t k = Some 1"
        using expire_view[OF windowSec_positive[OF assms(3)] s1[OF times(1)] ex] s1 t(1) times
        by (auto simp: expiring_def)
      moreover have "V (ca_store (lm_cache l')) t k = V s2 t k" using counted(3) ttl_view[OF _ t(1)] by auto
      ultimately show ?thesis by (simp add: counterCount_def)
    qed
    then show ?thesis by blast
  qed
qed

end

section \<open>Both counters are windows\<close>

lemma counterCount_cache: "ca_store (lm_cache l') = ca_store (lm_cache l) \<Longrightarrow> counterCount V k l' t = counterCount V k l t"
  by (simp add: counterCount_def)

lemma requestOfE:
  assumes "requestOf fk ev"
  obtains tm key config where "ev = Request tm key config" "fullKeyOf config key = fk"
  using assms by (cases ev) simp_all

locale limited_client = counter_store C V for C :: "'s counterClient" and V +
  fixes fk :: string and cfg :: RateLimitConfig
  assumes limit: "1 \<le> rc_limit cfg" and duration: "1 \<le> rc_windowMs cfg"
begin

lemma memory_joins:
  assumes ok: "regular fk cfg ev" and mine: "requestOf fk ev" and live: "memoryCount fk l (startTime ev) = Some n"
  shows "\<exists>n' \<ge> n. (\<forall>t \<ge> endTime ev. memoryCount fk (limiterStep C ev l) t = Some n' \<or>
      memoryCount fk l t = None \<and> memoryCount fk (limiterStep C ev l) t = None) \<and> (throughMemory C fk ev l \<longrightarrow> n < n' \<and> n' \<le> rc_limit cfg)"
proof -
  obtain tm key where ev: "ev = Request tm key cfg" and fk: "fullKeyOf cfg key = fk"
    using mine ok by (elim requestOfE) auto
  have count: "memoryCount fk l t \<in> {Some n, None}" for t
    using live by (auto simp: memoryCount_def split: option.splits if_splits)
  show ?thesis
  proof (cases rule: isRateLimited_cases[of C tm cfg key l])
    case (redis r l')
    then have "memoryCount fk (limiterStep C ev l) t = memoryCount fk l t" for t by (simp add: ev memoryCount_def)
    then show ?thesis using redis(1) count by (intro exI[of _ n]) (auto simp: ev fk)
  next
    case (memory l1)
    have live1: "memoryCount fk l1 (rt_now tm) = Some n" using live memoryCount_store[OF memory(2)] by (simp add: ev)
    have step: "limiterStep C ev l = snd (memoryHit (rt_now tm) fk cfg l1)" using memory(3) by (simp add: ev fk)
    have "memoryCount fk (limiterStep C ev l) t = map_option (\<lambda>i. i + 1) (memoryCount fk l t)" for t
      using memoryHit_joins(1)[OF live1] memoryCount_store[OF memory(2)] by (simp add: step)
    then have "memoryCount fk (limiterStep C ev l) t = Some (n + 1) \<or> memoryCount fk l t = None \<and> memoryCount fk (limiterStep C ev l) t = None" for t
      using count[of t] by auto
    moreover obtain r where "fst (memoryHit (rt_now tm) fk cfg l1) = Inr r" "rr_limited r = (rc_limit cfg < n + 1)"
      using memoryHit_joins(2)[OF live1, of cfg] by blast
    then have "throughMemory C fk ev l \<Longrightarrow> n + 1 \<le> rc_limit cfg" using memory(3) by (simp add: ev fk)
    ultimately show ?thesis by (intro exI[of _ "n + 1"]) simp
  qed
qed

lemma memory_opens:
  assumes ok: "regular fk cfg ev" and mine: "requestOf fk ev" and none: "memoryCount fk l (startTime ev) = None"
  shows "\<not> throughMemory C fk ev l \<and> (\<forall>t \<ge> endTime ev. memoryCount fk (limiterStep C ev l) t = None) \<or>
    (\<exists>n \<ge> 1. \<forall>t. endTime ev \<le> t \<and> t < startTime ev + rc_windowMs cfg \<longrightarrow> memoryCount fk (limiterStep C ev l) t = Some n)"
proof -
  obtain tm key where ev: "ev = Request tm key cfg" and fk: "fullKeyOf cfg key = fk"
    using mine ok by (elim requestOfE) auto
  have count: "rt_now tm \<le> t \<Longrightarrow> memoryCount fk l t = None" for t
    using none by (auto simp: ev memoryCount_def split: option.splits if_splits)
  show ?thesis
  proof (cases rule: isRateLimited_cases[of C tm cfg key l])
    case (redis r l')
    then have "memoryCount fk (limiterStep C ev l) t = memoryCount fk l t" for t by (simp add: ev memoryCount_def)
    then show ?thesis using redis(1) count ok by (auto simp: ev fk)
  next
    case (memory l1)
    have "memoryCount fk l1 (rt_now tm) = None" using none memoryCount_store[OF memory(2)] by (simp add: ev)
    from memoryHit_opens[OF this, of cfg] show ?thesis
      using memory(3) by (intro disjI2 exI[of _ 1]) (simp add: ev fk)
  qed
qed

lemma memory_others:
  assumes ok: "regular fk cfg ev" and other: "\<not> requestOf fk ev" and "endTime ev \<le> t"
  shows "memoryCount fk (limiterStep C ev l) t = memoryCount fk l t \<and> \<not> throughMemory C fk ev l"
proof (cases ev)
  case (Request tm key config)
  then have neq: "fk \<noteq> fullKeyOf config key" using other by auto
  show ?thesis
  proof (cases rule: isRateLimited_cases[of C tm config key l])
    case (redis r l')
    then show ?thesis using neq memoryCount_store[OF redis(4)] by (simp add: Request)
  next
    case (memory l1)
    then show ?thesis using neq memoryCount_store[OF memory(2)] by (simp add: Request memoryHit_other)
  qed
qed (use assms in \<open>simp_all add: memoryCount_cleanup, simp add: memoryCount_def\<close>)

lemma redis_joins:
  assumes ok: "regular fk cfg ev" and mine: "requestOf fk ev" and live: "counterCount V fk l (counterTime ev) = Some n" and "1 \<le> n"
  shows "\<exists>n' \<ge> n. (\<forall>t \<ge> endTime ev. counterCount V fk (limiterStep C ev l) t = Some n' \<or>
      counterCount V fk l t = None \<and> counterCount V fk (limiterStep C ev l) t = None) \<and> (throughRedis C fk ev l \<longrightarrow> n < n' \<and> n' \<le> rc_limit cfg)"
proof -
  obtain tm key where ev: "ev = Request tm key cfg" and fk: "fullKeyOf cfg key = fk"
    using mine ok by (elim requestOfE) auto
  have live: "counterCount V fk l (rt_incr tm) = Some n" using live by (simp add: ev)
  have count: "endTime ev \<le> t \<Longrightarrow> counterCount V fk l t = Some m \<Longrightarrow> m = n" for t m
    using V_earlier[of "ca_store (lm_cache l)" t fk m "rt_incr tm"] live ok by (simp add: counterCount_def ev)
  show ?thesis
  proof (cases rule: isRateLimited_cases[of C tm cfg key l])
    case (redis r l')
    obtain n' where n': "n \<le> n'" "\<And>t. rt_ttl tm \<le> t \<Longrightarrow> counterCount V fk l' t = map_option (\<lambda>i. n') (counterCount V fk l t)"
        "n' = n + 1 \<and> rr_limited r = (rc_limit cfg < n + 1)"
      using redisHit_joins[OF redis(2)[unfolded fk] ok[unfolded ev] live \<open>1 \<le> n\<close>] by metis
    then show ?thesis using redis(3) by (intro exI[of _ n']) (auto simp: ev fk)
  next
    case (memory l1)
    have step: "counterCount V fk (limiterStep C ev l) t = counterCount V fk l1 t" for t
      using memoryHit_store[of "rt_now tm" fk cfg l1] memory(3) by (simp add: ev fk counterCount_def)
    show ?thesis
      using memory(4)
    proof
      assume "l1 = l"
      then show ?thesis using memory(1) count step by (intro exI[of _ n]) (auto simp: ev fk)
    next
      assume "\<exists>e. redisHit C tm (fullKeyOf cfg key) cfg l = (Inl e, l1)"
      then obtain e where hit: "redisHit C tm fk cfg l = (Inl e, l1)" using fk by auto
      obtain n' where n': "n \<le> n'" "\<And>t. rt_ttl tm \<le> t \<Longrightarrow> counterCount V fk l1 t = map_option (\<lambda>i. n') (counterCount V fk l t)"
        using redisHit_joins[OF hit ok[unfolded ev] live \<open>1 \<le> n\<close>] by metis
      then show ?thesis using memory(1) step by (intro exI[of _ n']) (auto simp: ev fk)
    qed
  qed
qed

lemma redis_opens:
  assumes ok: "regular fk cfg ev" and mine: "requestOf fk ev" and none: "counterCount V fk l (counterTime ev) = None"
  shows "\<not> throughRedis C fk ev l \<and> (\<forall>t \<ge> endTime ev. counterCount V fk (limiterStep C ev l) t = None) \<or>
    (\<exists>n \<ge> 1. \<forall>t. endTime ev \<le> t \<and> t < counterTime ev + rc_windowMs cfg \<longrightarrow> counterCount V fk (limiterStep C ev l) t = Some n)"
proof -
  obtain tm key where ev: "ev = Request tm key cfg" and fk: "fullKeyOf cfg key = fk"
    using mine ok by (elim requestOfE) auto
  have none: "counterCount V fk l (rt_incr tm) = None" using none by (simp add: ev)
  have later: "rt_incr tm \<le> t \<Longrightarrow> counterCount V fk l t = None" for t
    using V_earlier[of "ca_store (lm_cache l)" t fk _ "rt_incr tm"] none by (cases "counterCount V fk l t") (auto simp: counterCount_def)
  show ?thesis
  proof (cases rule: isRateLimited_cases[of C tm cfg key l])
    case (redis r l')
    have "\<forall>t. rt_ttl tm \<le> t \<and> t < rt_incr tm + rc_windowMs cfg \<longrightarrow> counterCount V fk l' t = Some 1"
      using redisHit_opens[OF redis(2)[unfolded fk] ok[unfolded ev] duration none] by simp
    then show ?thesis using redis(3) by (intro disjI2 exI[of _ 1]) (simp add: ev)
  next
    case (memory l1)
    have step: "counterCount V fk (limiterStep C ev l) t = counterCount V fk l1 t" for t
      using memoryHit_store[of "rt_now tm" fk cfg l1] memory(3) by (simp add: ev fk counterCount_def)
    have quiet: "\<not> throughRedis C fk ev l" using memory(1) by (simp add: ev fk)
    show ?thesis
      using memory(4)
    proof
      assume "l1 = l"
      then show ?thesis using quiet later step ok by (auto simp: ev)
    next
      assume "\<exists>e. redisHit C tm (fullKeyOf cfg key) cfg l = (Inl e, l1)"
      then obtain e where hit: "redisHit C tm fk cfg l = (Inl e, l1)" using fk by auto
      from redisHit_opens[OF hit ok[unfolded ev] duration none] show ?thesis
      proof
        assume "isl (Inl e :: exn + rateLimitResult) \<and> (\<forall>t \<ge> rt_ttl tm. counterCount V fk l1 t = None)"
        then show ?thesis using quiet step by (simp add: ev)
      next
        assume "\<forall>t. rt_ttl tm \<le> t \<and> t < rt_incr tm + rc_windowMs cfg \<longrightarrow> counterCount V fk l1 t = Some 1"
        then show ?thesis using step by (intro disjI2 exI[of _ 1]) (simp add: ev)
      qed
    qed
  qed
qed

lemma redis_others:
  assumes ok: "regular fk cfg ev" and other: "\<not> requestOf fk ev" and "endTime ev \<le> t"
  shows "counterCount V fk (limiterStep C ev l) t = counterCount V fk l t \<and> \<not> throughRedis C fk ev l"
proof (cases ev)
  case (Request tm key config)
  let ?k = "fullKeyOf config key"
  have neq: "fk \<noteq> ?k" and reg: "regular ?k config (Request tm key config)" and t: "rt_ttl tm \<le> t"
    using assms Request by auto
  show ?thesis
  proof (cases rule: isRateLimited_cases[of C tm config key l])
    case (redis r l')
    then show ?thesis using redisHit_other[OF redis(2) reg neq t] neq by (simp add: Request)
  next
    case (memory l1)
    have "counterCount V fk (limiterStep C ev l) t = counterCount V fk l1 t"
      using memoryHit_store[of "rt_now tm" ?k config l1] memory(3) by (simp add: Request counterCount_def)
    moreover have "counterCount V fk l1 t = counterCount V fk l t"
      using memory(4)
    proof
      assume "\<exists>e. redisHit C tm ?k config l = (Inl e, l1)"
      then obtain e where hit: "redisHit C tm ?k config l = (Inl e, l1)" by blast
      show ?thesis by (rule redisHit_other[OF hit reg neq t])
    qed simp
    ultimately show ?thesis using neq by (simp add: Request)
  qed
qed (simp_all add: counterCount_def limiter_cleanup_def cache_on_def)

end

sublocale limited_client \<subseteq> memory: fixed_window "memoryCount fk" "rc_limit cfg" "rc_windowMs cfg" startTime endTime
    "regular fk cfg" "requestOf fk" "limiterStep C" "throughMemory C fk"
proof unfold_locales
  show "memoryCount fk s t' = Some n" if "memoryCount fk s t = Some n" "t' \<le> t" for s :: "'a limiter" and t n t'
    using that by (auto simp: memoryCount_def split: option.splits if_splits)
qed (rule limit, rule memory_joins, assumption+, rule memory_opens, assumption+, rule memory_others, assumption+)

sublocale limited_client \<subseteq> redis: fixed_window "counterCount V fk" "rc_limit cfg" "rc_windowMs cfg" counterTime endTime
    "regular fk cfg" "requestOf fk" "limiterStep C" "throughRedis C fk"
proof unfold_locales
  show "counterCount V fk s t' = Some n" if "counterCount V fk s t = Some n" "t' \<le> t" for s t n t'
    using V_earlier[OF that(1)[unfolded counterCount_def] that(2)] by (simp add: counterCount_def)
qed (rule limit, rule redis_joins, assumption+, rule redis_opens, assumption+, rule redis_others, assumption+)

context limited_client begin

text \<open>In any interval of the length of a window at most two windows of each kind are met.\<close>

lemmas memory_twice = memory.at_most_twice
lemmas redis_twice = redis.at_most_twice

end

interpretation auth_tier: limited_client mem_counters counter_view "''ratelimit:auth:10.0.0.1''" "getTierConfig ''auth''"
  by unfold_locales (simp_all add: getTierConfig_def)

end
