(* ===== verification/Csrf.thy ===== *)
theory Csrf
  imports Request_Context
begin

text \<open>
  \<^verbatim>\<open>apps/api/src/common/csrf\<close>: the CSRF token of a user, kept in Redis as 64 hexadecimal digits, and
  the guard that asks for it. The values under the keys of the service are the strings it writes.
  The lemmas relate hexadecimal text and bytes, and say what a validation that succeeds has read.
\<close>

section \<open>The service\<close>

definition CSRF_TOKEN_TTL :: int where
  "CSRF_TOKEN_TTL = 7 * 24 * 60 * 60"

definition csrfKey :: "string \<Rightarrow> string" where
  "csrfKey userId = ''csrf:token:'' @ userId"

text \<open>\<^verbatim>\<open>Buffer.from(s, 'hex')\<close>: pairs of digits, up to the first pair that is none.\<close>

fun hex_decode :: "string \<Rightarrow> 8 word list" where
  "hex_decode (a # b # cs) = (case (hex_val a, hex_val b) of
     (Some x, Some y) \<Rightarrow> word_of_nat (16 * x + y) # hex_decode cs
   | _ \<Rightarrow> [])"
| "hex_decode _ = []"

text \<open>\<^verbatim>\<open>crypto.timingSafeEqual\<close> throws on buffers of different lengths.\<close>

definition timingSafeEqual :: "8 word list \<Rightarrow> 8 word list \<Rightarrow> exn + bool" where
  "timingSafeEqual a b = (if length a \<noteq> length b then Inl (JsError ''Input buffers must have the same byte length'') else Inr (a = b))"

definition csrf_generateToken :: "'s redis \<Rightarrow> authEnv \<Rightarrow> string \<Rightarrow> (('s, 'w) site, string) prog" where
  "csrf_generateToken R env userId =
     (let token = hex_string (ae_randomBytes env 0 32) in
      andThen (cache_set R (ae_now env) (csrfKey userId) (JStr token) CSRF_TOKEN_TTL) (\<lambda>_. return token))"

definition compareTokens :: "json \<Rightarrow> string \<Rightarrow> exn + bool" where
  "compareTokens storedToken token = (case storedToken of
     JStr kept \<Rightarrow>
       (let storedBuf = hex_decode kept; submittedBuf = hex_decode token in
        if length storedBuf \<noteq> length submittedBuf then Inr False else timingSafeEqual storedBuf submittedBuf)
   | _ \<Rightarrow> Inl (JsError ''The first argument must be of type string''))"

definition csrf_validateToken :: "'s redis \<Rightarrow> authEnv \<Rightarrow> string \<Rightarrow> string \<Rightarrow> (('s, 'w) site, bool) prog" where
  "csrf_validateToken R env userId token =
     (if token = [] then return False
      else andThen (cache_get R (ae_now env) (csrfKey userId) (return JNull) 7200) (\<lambda>storedToken.
           if \<not> json_truthy storedToken then return False
           else try_catch (of_result (compareTokens storedToken token)) (\<lambda>_. return False)))"

definition csrf_deleteToken :: "'s redis \<Rightarrow> authEnv \<Rightarrow> string \<Rightarrow> (('s, 'w) site, unit) prog" where
  "csrf_deleteToken R env userId = cache_del R (ae_now env) (csrfKey userId)"

section \<open>The guard\<close>

record csrfRequest =
  cr_method :: string
  cr_user :: "string option"
  cr_authorization :: "string option"
  cr_csrfToken :: "string option"

definition MUTATING_METHODS :: "string list" where
  "MUTATING_METHODS = [''POST'', ''PUT'', ''DELETE'', ''PATCH'']"

definition resolveUserId :: "authEnv \<Rightarrow> csrfRequest \<Rightarrow> string option" where
  "resolveUserId env request =
     (if truthy (cr_user request) then cr_user request
      else case cr_authorization request of
        None \<Rightarrow> None
      | Some header \<Rightarrow>
          if header = [] \<or> \<not> startsWith header ''Bearer '' then None
          else let token = js_trim (drop (length ''Bearer '') header) in
            if token = [] then None
            else (case jw_verifyAsync (ae_jwt env) (ae_accessTokenSecret env) (now_seconds env) token of
                    Inl err \<Rightarrow> None
                  | Inr payload \<Rightarrow> Some (cl_sub payload)))"

definition csrfGuard :: "'s redis \<Rightarrow> authEnv \<Rightarrow> bool \<Rightarrow> csrfRequest \<Rightarrow> (('s, 'w) site, bool) prog" where
  "csrfGuard R env isPublic request =
     (if cr_method request \<notin> set MUTATING_METHODS then return True
      else if isPublic then return True
      else let userId = resolveUserId env request in
        if \<not> truthy userId then return True
        else if \<not> truthy (cr_csrfToken request) then throw (ForbiddenException ''CSRF token is required for mutating requests'')
        else andThen (csrf_validateToken R env (the userId) (the (cr_csrfToken request))) (\<lambda>isValid.
             if \<not> isValid then throw (ForbiddenException ''CSRF token validation failed'') else return True))"

section \<open>Hexadecimal text\<close>

lemma hex_val_hex_digit: "n < 16 \<Longrightarrow> hex_val (hex_digit n) = Some n"
  by (auto simp: hex_val_def hex_digit_def)

lemma hex_decode_string: "hex_decode (hex_string bs @ cs) = bs @ hex_decode cs"
proof (induction bs)
  case (Cons b bs)
  have "unat b < 2 ^ LENGTH(8)" by (rule unsigned_less)
  then have lt: "unat b div 16 < 16" "unat b mod 16 < 16" by auto
  have "16 * (unat b div 16) + unat b mod 16 = unat b" by presburger
  then show ?case using Cons by (simp add: hex_string_def hex_val_hex_digit lt)
qed (simp add: hex_string_def)

lemma hex_decode_take: "hex_decode (take (2 * n) s) = take n (hex_decode s)"
proof (induction n arbitrary: s)
  case (Suc n)
  show ?case
  proof (cases s rule: hex_decode.cases)
    case (1 a b cs)
    then show ?thesis using Suc[of cs] by (simp split: option.split)
  qed simp_all
qed simp

lemma length_hex_decode: "2 * length (hex_decode s) \<le> length s"
  by (induction s rule: hex_decode.induct) (auto split: option.splits)

lemma length_hex_string: "length (hex_string bs) = 2 * length bs"
  by (induction bs) (simp_all add: hex_string_def)

lemma compareTokens_iff: "compareTokens (JStr kept) token = Inr (hex_decode kept = hex_decode token)"
  by (auto simp: compareTokens_def timingSafeEqual_def Let_def)

section \<open>What a successful validation has read\<close>

context redis_store begin

text \<open>A cached read whose fetch gives nothing: what it returns, if anything, was in the store.\<close>

lemma cache_get_stored:
  assumes "cache_get R now k (return JNull) ttl s = (Inr v, s')" and "json_truthy v"
  shows "\<exists>x. view s now k = Some x \<and> json_parse x = Inr v"
proof -
  have fresh: "v = JNull" if "return JNull s1 = (Inr v, s1')" for s1 s1' :: "('a, 'b) site"
    using that by (simp add: return_def)
  show ?thesis
  proof (cases "online s")
    case False
    then show ?thesis using assms by (auto simp: if_online_def cache_get_def return_def)
  next
    case True
    obtain y x where x: "rd_get R now k (ca_store (st_cache s)) = (y, x)" by force
    note run = assms(1) True liftRedis_apply[of "rd_get R now k", OF x]
    show ?thesis
    proof (cases y)
      case (Inl e)
      then show ?thesis using run assms(2) by (auto simp: if_online_def cache_get_def try_catch_def andThen_def return_def)
    next
      case (Inr c)
      have c: "c = view s now k" using get_Inr[OF x[unfolded Inr]] by simp
      show ?thesis
      proof (cases c)
        case None
        obtain u s2 where "cache_set R now k JNull ttl (s\<lparr>st_cache := (st_cache s)\<lparr>ca_store := x\<rparr>\<rparr>) = (Inr u, s2)"
          using cache_set_never_fails[of R now k JNull ttl] unfolding never_fails_def by blast
        then show ?thesis using run assms(2) Inr None
          by (auto simp: if_online_def cache_get_def try_catch_def andThen_def return_def)
      next
        case (Some str)
        then have "json_parse str = Inr v" using run assms(2) Inr
          by (cases "json_parse str") (auto simp: if_online_def cache_get_def try_catch_def andThen_def of_result_def return_def)
        then show ?thesis using c Some by (intro exI[of _ str]) simp
      qed
    qed
  qed
qed

lemma csrf_validateToken_True:
  assumes "csrf_validateToken R env userId token s = (Inr True, s')"
  obtains x kept where "view s (ae_now env) (csrfKey userId) = Some x" "json_parse x = Inr (JStr kept)"
    "kept \<noteq> []" "hex_decode kept = hex_decode token"
proof -
  obtain v s1 where get: "cache_get R (ae_now env) (csrfKey userId) (return JNull) 7200 s = (Inr v, s1)"
    and v: "json_truthy v" and cmp: "try_catch (of_result (compareTokens v token)) (\<lambda>_. return False) s1 = (Inr True, s')"
    using assms by (auto simp: csrf_validateToken_def andThen_eq_Inr_iff return_def split: if_splits)
  have eq: "compareTokens v token = Inr True"
    using cmp by (cases "compareTokens v token") (simp_all add: try_catch_def of_result_def return_def)
  then obtain kept where kept: "v = JStr kept" by (cases v) (simp_all add: compareTokens_def)
  show thesis using cache_get_stored[OF get v] that kept v eq by (auto simp: compareTokens_iff)
qed

text \<open>A token that was stored is accepted as long as it lives.\<close>

lemma csrf_validateToken_stored:
  assumes "online s" "view s (ae_now env) (csrfKey userId) = Some (stringify (JStr kept))" "kept \<noteq> []" "token \<noteq> []"
    and "fst (rd_get R (ae_now env) (csrfKey userId) (ca_store (st_cache s))) = Inr y"
  shows "\<exists>s'. csrf_validateToken R env userId token s = (Inr (hex_decode kept = hex_decode token), s')"
proof -
  obtain s1 where "cache_get R (ae_now env) (csrfKey userId) (return JNull) 7200 s = (Inr (JStr kept), s1)"
    using cache_get_hit[OF assms(1,2,5)] by blast
  then show ?thesis using assms(3,4)
    by (simp add: csrf_validateToken_def andThen_def compareTokens_iff try_catch_def of_result_def)
qed

end

end
