(* ===== verification/Guard_Properties.thy ===== *)
theory Guard_Properties
  imports Rate_Limit Csrf Access_Properties
begin

text \<open>
  Properties of the guards that stand before every handler: the rate limiter, for every store of
  counters that behaves as documented, and the CSRF guard, for every Redis client that does.
\<close>

section \<open>Rate limiting\<close>

definition redis_absent :: "'s limiter \<Rightarrow> bool" where
  "redis_absent l \<longleftrightarrow> \<not> ca_redisClient (lm_cache l)"

lemma limiterStep_absent: "redis_absent (limiterStep C ev l) = redis_absent l"
proof (cases ev)
  case (Request tm key config)
  have "ca_redisClient (lm_cache (snd (redisHit C tm k config l))) = ca_redisClient (lm_cache l)" for k
    by (simp add: redisHit_def andThen_def onCounter_def return_apply split: prod.split sum.split)
  then show ?thesis
    by (simp add: Request redis_absent_def isRateLimited_def try_catch_def memoryHit_store Let_def split: prod.split sum.split)
      (metis snd_conv)
qed (simp_all add: redis_absent_def limiter_cleanup_def cache_on_def)

lemma throughRedis_absent: "redis_absent l \<Longrightarrow> times_admitted (limiterStep C) (throughRedis C fk) events l = 0"
proof (induction events arbitrary: l)
  case (Cons ev events)
  have "\<not> throughRedis C fk ev l" using Cons.prems by (cases ev) (auto simp: redisServes_def redis_absent_def)
  then show ?case using Cons limiterStep_absent[of C ev l] by simp
qed simp

text \<open>C21. The limit holds, up to the two windows an interval can meet and the two places a counter can be
  in: of the requests of one client in any interval of the length of the window, however they are
  mixed with other clients' requests, clean-ups, failures and changes of the connection, at most twice
  the limit are let through on the counters of one kind, four times in all, and twice when no Redis
  client is configured.\<close>

theorem rate_limit_bound:
  assumes "counter_store C V" "1 \<le> rc_limit cfg" "1 \<le> rc_windowMs cfg"
    and "ordered startTime endTime a (a + rc_windowMs cfg) events" "\<forall>ev \<in> set events. regular fk cfg ev"
    and "\<And>n. memoryCount fk l a = Some n \<Longrightarrow> 1 \<le> n" "\<And>n. counterCount V fk l a = Some n \<Longrightarrow> 1 \<le> n"
  shows "times_admitted (limiterStep C) (throughRedis C fk) events l \<le> 2 * rc_limit cfg \<and>
    times_admitted (limiterStep C) (throughMemory C fk) events l \<le> 2 * rc_limit cfg \<and>
    times_admitted (limiterStep C) (letsThrough C fk) events l \<le> (if ca_redisClient (lm_cache l) then 4 else 2) * rc_limit cfg"
proof -
  have client: "limited_client C V cfg" using assms(1-3) by (simp add: limited_client_def limited_client_axioms_def)
  have mem: "times_admitted (limiterStep C) (throughMemory C fk) events l \<le> 2 * rc_limit cfg"
    using limited_client.memory_twice[OF client assms(4) order_refl assms(5,6)] .
  have "ordered counterTime endTime a (a + rc_windowMs cfg) events"
  proof (rule ordered_later[OF assms(4)])
    show "startTime ev \<le> counterTime ev \<and> counterTime ev \<le> endTime ev" if "ev \<in> set events" for ev
      using bspec[OF assms(5) that] by (cases ev) simp_all
  qed
  then have red: "times_admitted (limiterStep C) (throughRedis C fk) events l \<le> 2 * rc_limit cfg"
    using limited_client.redis_twice[OF client _ order_refl assms(5,7)] by blast
  have "times_admitted (limiterStep C) (letsThrough C fk) events l
      \<le> times_admitted (limiterStep C) (throughRedis C fk) events l + times_admitted (limiterStep C) (throughMemory C fk) events l"
    by (rule times_admitted_disj) (case_tac r; simp)
  then show ?thesis using mem red throughRedis_absent[of l C fk events] by (auto simp: redis_absent_def)
qed

definition sample_limit :: RateLimitConfig where
  "sample_limit = \<lparr>rc_limit = 2, rc_windowMs = 1000, rc_keyPrefix = ''auth''\<rparr>"

definition sample_hit :: "int \<Rightarrow> limiterEvent" where
  "sample_hit t = Request \<lparr>rt_now = t, rt_incr = t, rt_expire = t, rt_ttl = t + 1\<rparr> ''ip'' sample_limit"

definition sample_limiter :: "mem_counters limiter" where
  "sample_limiter = \<lparr>lm_cache = \<lparr>ca_redisClient = True, ca_isConnected = True, ca_store = []\<rparr>, lm_memoryStore = (\<lambda>_. None)\<rparr>"

definition sample_hits :: "limiterEvent list" where
  "sample_hits = [sample_hit 0, sample_hit 10, sample_hit 20, Connection 30 RedisError, sample_hit 40, Cleanup 50, sample_hit 60, sample_hit 70]"

theorem rate_limit_bound_witness:
  "times_admitted (limiterStep mem_counters) (letsThrough mem_counters ''ratelimit:auth:ip'') sample_hits sample_limiter = 4 \<and>
   times_admitted (limiterStep mem_counters) (throughRedis mem_counters ''ratelimit:auth:ip'') sample_hits sample_limiter \<le> 4"
proof
  show "times_admitted (limiterStep mem_counters) (letsThrough mem_counters ''ratelimit:auth:ip'') sample_hits sample_limiter = 4"
    by code_simp
  have "ordered startTime endTime 0 (0 + rc_windowMs sample_limit) sample_hits"
    by (simp add: sample_hits_def sample_hit_def sample_limit_def)
  moreover have "\<forall>ev \<in> set sample_hits. regular ''ratelimit:auth:ip'' sample_limit ev"
    by (simp add: sample_hits_def sample_hit_def)
  ultimately show "times_admitted (limiterStep mem_counters) (throughRedis mem_counters ''ratelimit:auth:ip'') sample_hits sample_limiter \<le> 4"
    using rate_limit_bound[OF mem_counters.counter_store_axioms, of sample_limit 0 sample_hits "''ratelimit:auth:ip''" sample_limiter]
    by (simp add: sample_limit_def sample_limiter_def memoryCount_def counterCount_def counter_view_def)
qed

section \<open>CSRF tokens\<close>

text \<open>A changing request needs the user's token: when the guard lets a POST, PUT, PATCH or DELETE of a
  route that is not public pass, and the request identifies a user, then it carries a token, a
  token of that user is in the store and has not expired, and the two have the same bytes. Without
  a store that answers nothing passes.\<close>

theorem csrf_token_required:
  assumes "redis_store R V" "csrfGuard R env False request s = (Inr True, s')"
    and "cr_method request \<in> {''POST'', ''PUT'', ''DELETE'', ''PATCH''}" "resolveUserId env request = Some uid" "uid \<noteq> []"
  shows "online s \<and> (\<exists>token x kept. cr_csrfToken request = Some token \<and> token \<noteq> [] \<and>
    V (ca_store (st_cache s)) (ae_now env) (''csrf:token:'' @ uid) = Some x \<and> json_parse x = Inr (JStr kept) \<and> kept \<noteq> [] \<and>
    hex_decode kept = hex_decode token)"
proof -
  obtain token where token: "cr_csrfToken request = Some token" "token \<noteq> []" "csrf_validateToken R env uid token s = (Inr True, s')"
    using assms(2-5)
    by (cases "cr_csrfToken request") (auto simp: csrfGuard_def MUTATING_METHODS_def Let_def return_apply throw_apply
        elim!: andThen_InrE split: if_splits)
  have "online s"
  proof (rule ccontr)
    assume "\<not> online s"
    then show False using token(2,3)
      by (simp add: csrf_validateToken_def cache_get_def if_online_def andThen_def return_def)
  qed
  obtain x kept where "V (ca_store (st_cache s)) (ae_now env) (csrfKey uid) = Some x" "json_parse x = Inr (JStr kept)"
      "kept \<noteq> []" "hex_decode kept = hex_decode token"
    by (rule redis_store.csrf_validateToken_True[OF assms(1) token(3)])
  then show ?thesis using token(1,2) \<open>online s\<close> unfolding csrfKey_def by blast
qed

definition sample_csrfRequest :: "string \<Rightarrow> csrfRequest" where
  "sample_csrfRequest token = \<lparr>cr_method = ''POST'', cr_user = Some ''u1'', cr_authorization = None, cr_csrfToken = Some token\<rparr>"

definition sample_csrfSite :: "(mem_store, tables world) site" where
  "sample_csrfSite = sample_site\<lparr>st_cache := \<lparr>ca_redisClient = True, ca_isConnected = True,
     ca_store = [(''csrf:token:u1'', stringify (JStr ''0aff''), 1000)]\<rparr>\<rparr>"

theorem csrf_token_required_witness:
  "\<exists>s'. csrfGuard mem_redis (sample_auth 0) False (sample_csrfRequest ''0AFF'') sample_csrfSite = (Inr True, s') \<and> online sample_csrfSite \<and>
     (\<exists>x. mem_view (ca_store (st_cache sample_csrfSite)) 0 ''csrf:token:u1'' = Some x)"
proof -
  let ?m = "csrfGuard mem_redis (sample_auth 0) False (sample_csrfRequest ''0AFF'') sample_csrfSite"
  have "fst ?m = Inr True" by code_simp
  then obtain s' where run: "?m = (Inr True, s')" by (metis prod.collapse)
  have "resolveUserId (sample_auth 0) (sample_csrfRequest ''0AFF'') = Some ''u1''"
    by (simp add: resolveUserId_def sample_csrfRequest_def)
  from csrf_token_required[OF mem_redis.redis_store_axioms run _ this] show ?thesis
    using run by (auto simp: sample_csrfRequest_def sample_auth_def)
qed

text \<open>A token that was issued is accepted for as long as it lives, and only it: after a token has been
  generated for a user while Redis answers, and for seven days, the guard lets a changing request
  of the user with that token pass, and refuses one whose token has other bytes.\<close>

theorem csrf_token_accepted:
  assumes "redis_store R V" "online s" "csrf_generateToken R env uid s = (Inr token, s1)" "uid \<noteq> []"
    and "fst (rd_set R (ae_now env) (''csrf:token:'' @ uid) (stringify (JStr token)) CSRF_TOKEN_TTL (ca_store (st_cache s))) = Inr ()"
    and "\<And>x. \<exists>y. fst (rd_get R (ae_now env') (''csrf:token:'' @ uid) x) = Inr y" "length (ae_randomBytes env 0 32) = 32"
    and "ae_now env \<le> ae_now env'" "ae_now env' < ae_now env + 7 * 24 * 60 * 60 * 1000"
    and "cr_method request \<in> {''POST'', ''PUT'', ''DELETE'', ''PATCH''}" "resolveUserId env' request = Some uid"
    and "cr_csrfToken request = Some submitted" "submitted \<noteq> []"
  shows "fst (csrfGuard R env' isPublic request s1) =
    (if isPublic \<or> hex_decode submitted = ae_randomBytes env 0 32 then Inr True
     else Inl (ForbiddenException ''CSRF token validation failed'')) \<and>
    hex_decode token = ae_randomBytes env 0 32"
proof -
  let ?k = "csrfKey uid"
  have token: "token = hex_string (ae_randomBytes env 0 32)" and set: "cache_set R (ae_now env) ?k (JStr token) CSRF_TOKEN_TTL s = (Inr (), s1)"
    using assms(3) by (auto simp: csrf_generateToken_def Let_def elim!: andThen_InrE return_InrE)
  have dec: "hex_decode token = ae_randomBytes env 0 32" using hex_decode_string[of _ "[]"] by (simp add: token)
  obtain x where x: "rd_set R (ae_now env) ?k (stringify (JStr token)) CSRF_TOKEN_TTL (ca_store (st_cache s)) = (Inr (), x)"
    using assms(5) by (metis csrfKey_def prod.collapse)
  have s1: "s1 = s\<lparr>st_cache := (st_cache s)\<lparr>ca_store := x\<rparr>\<rparr>"
    using assms(2) set liftRedis_apply[of "rd_set R (ae_now env) ?k (stringify (JStr token)) CSRF_TOKEN_TTL", OF x]
    by (simp add: cache_set_def if_online_def try_catch_def)
  have hit: "V (ca_store (st_cache s1)) (ae_now env') ?k = Some (stringify (JStr token))"
    using redis_store.set_Inr[OF assms(1) x assms(8)] assms(9) by (simp add: s1 stored_def CSRF_TOKEN_TTL_def)
  obtain y where "fst (rd_get R (ae_now env') ?k (ca_store (st_cache s1))) = Inr y" using assms(6) unfolding csrfKey_def by blast
  moreover have "token \<noteq> []" using length_hex_string[of "ae_randomBytes env 0 32"] assms(7) by (auto simp: token)
  moreover have "online s1" using assms(2) by (simp add: s1)
  ultimately obtain s2 where "csrf_validateToken R env' uid submitted s1 = (Inr (ae_randomBytes env 0 32 = hex_decode submitted), s2)"
    using redis_store.csrf_validateToken_stored[OF assms(1) _ hit _ assms(13), of y] by (auto simp: dec)
  then show ?thesis
    using assms(4,10-13) by (auto simp: csrfGuard_def MUTATING_METHODS_def Let_def return_apply throw_apply andThen_def dec)
qed

theorem csrf_token_accepted_witness:
  "\<exists>token s1. csrf_generateToken mem_redis (sample_auth 0) ''u1'' sample_site = (Inr token, s1) \<and>
     fst (csrfGuard mem_redis (sample_auth 604799999) False (sample_csrfRequest token) s1) = Inr True \<and>
     fst (csrfGuard mem_redis (sample_auth 604799999) False (sample_csrfRequest ''00'') s1) \<noteq> Inr True"
proof -
  obtain r s1 where m: "csrf_generateToken mem_redis (sample_auth 0) ''u1'' sample_site = (r, s1)" by force
  have "r \<in> range Inr" using m
    by (auto simp: csrf_generateToken_def cache_set_def if_online_def try_catch_def return_def andThen_def Let_def split: sum.splits prod.splits if_splits)
  then obtain token where run: "csrf_generateToken mem_redis (sample_auth 0) ''u1'' sample_site = (Inr token, s1)" using m by auto
  have ok: "online sample_site" "fst (rd_set mem_redis now k v CSRF_TOKEN_TTL x) = Inr ()" "\<exists>y. fst (rd_get mem_redis now k x) = Inr y"
    "length (ae_randomBytes (sample_auth 0) 0 32) = 32" for now k v x
    by (simp_all add: online_def sample_site_def mem_redis_def CSRF_TOKEN_TTL_def sample_auth_def)
  have res: "resolveUserId (sample_auth 604799999) (sample_csrfRequest tok) = Some ''u1''" for tok
    by (simp add: resolveUserId_def sample_csrfRequest_def)
  have "ae_now (sample_auth n) = n" for n by (simp add: sample_auth_def)
  note times = this[of 0] this[of 604799999]
  have "hex_string bs = [] \<longleftrightarrow> bs = []" for bs by (simp add: hex_string_def)
  moreover have "token = hex_string (ae_randomBytes (sample_auth 0) 0 32)" using run
    by (auto simp: csrf_generateToken_def Let_def elim!: andThen_InrE return_InrE)
  ultimately have "token \<noteq> []" using ok(4) by (metis length_0_conv zero_neq_numeral)
  moreover have "hex_decode ''00'' \<noteq> ae_randomBytes (sample_auth 0) 0 32" using ok(4) by (auto dest: arg_cong[of _ _ length])
  ultimately have bytes: "token \<noteq> []" "hex_decode ''00'' \<noteq> ae_randomBytes (sample_auth 0) 0 32" by blast+
  have guard: "fst (csrfGuard mem_redis (sample_auth 604799999) False (sample_csrfRequest tok) s1) =
      (if False \<or> hex_decode tok = ae_randomBytes (sample_auth 0) 0 32 then Inr True
       else Inl (ForbiddenException ''CSRF token validation failed'')) \<and> hex_decode token = ae_randomBytes (sample_auth 0) 0 32" if "tok \<noteq> []" for tok
    by (rule csrf_token_accepted[OF mem_redis.redis_store_axioms ok(1) run _ ok(2) ok(3,4) _ _ _ res _ that])
      (simp_all only: times, simp_all add: sample_csrfRequest_def)
  from guard[OF bytes(1)] guard[of "''00''"] bytes(2) run show ?thesis by auto
qed

end
