(* ===== verification/Subscription_Service.thy ===== *)
theory Subscription_Service
  imports Database
begin

text \<open>
  \<^verbatim>\<open>apps/api/src/subscription\<close>: the checks of a tenant's subscription and of the limits of its plan,
  and the guard that runs them before a handler. The lemmas show what holds of the database when a
  check passes, and that checking changes nothing.
\<close>

section \<open>Checks\<close>

fun show_subscriptionStatus :: "SubscriptionStatus \<Rightarrow> string" where
  "show_subscriptionStatus SubscriptionStatus.TRIALING = ''TRIALING''"
| "show_subscriptionStatus SubscriptionStatus.ACTIVE = ''ACTIVE''"
| "show_subscriptionStatus SubscriptionStatus.PAST_DUE = ''PAST_DUE''"
| "show_subscriptionStatus SubscriptionStatus.UNPAID = ''UNPAID''"
| "show_subscriptionStatus SubscriptionStatus.CANCELED = ''CANCELED''"

text \<open>\<open>c\<close> is the tenant context of the request; the plan comes with the newest subscription.\<close>

definition getActiveSubscription :: "'d prisma \<Rightarrow> ctx \<Rightarrow> string \<Rightarrow> ('d, subscription \<times> subscriptionPlan option) prog" where
  "getActiveSubscription P c tenantId =
     andThen (allOperations c subscription_model ''findFirst'' (w_args [(''tenantId'', Is (CStr tenantId))])
                (\<lambda>a. px_subscription_findFirstJoined P (a_where a))) (\<lambda>subscription.
     case subscription of
       None \<Rightarrow> throw (NotFoundException (''No subscription found for tenant ['' @ tenantId @ '']''))
     | Some sub \<Rightarrow> return sub)"

definition blocked :: "SubscriptionStatus \<Rightarrow> TenantStatus option \<Rightarrow> bool" where
  "blocked status tenantStatus \<longleftrightarrow> status = SubscriptionStatus.UNPAID \<or> status = SubscriptionStatus.CANCELED \<or>
     tenantStatus = Some TenantStatus.UNPAID \<or> tenantStatus = Some TenantStatus.CANCELED"

definition checkSubscriptionStatus :: "'d prisma \<Rightarrow> ctx \<Rightarrow> string \<Rightarrow> ('d, subscription \<times> subscriptionPlan option) prog" where
  "checkSubscriptionStatus P c tenantId =
     andThen (getActiveSubscription P c tenantId) (\<lambda>sub.
     let status = sb_status (fst sub) in
     andThen (px_tenant_findUnique P tenantId) (\<lambda>tenant.
     if blocked status (map_option tn_status tenant)
     then throw (ForbiddenException (''Subscription '' @ show_subscriptionStatus status @
            '' - Access restricted. Please update billing to restore access. Current status: '' @ show_subscriptionStatus status))
     else return sub))"

definition with_plan :: "'d prisma \<Rightarrow> ctx \<Rightarrow> string \<Rightarrow> (subscriptionPlan \<Rightarrow> ('d, 'a) prog) \<Rightarrow> ('d, 'a) prog" where
  "with_plan P c tenantId f =
     andThen (checkSubscriptionStatus P c tenantId) (\<lambda>sub. case snd sub of
       None \<Rightarrow> throw (NotFoundException ''Subscription plan not found'')
     | Some plan \<Rightarrow> f plan)"

definition fraction :: "nat \<Rightarrow> int \<Rightarrow> string" where
  "fraction n m = ''('' @ show_int (int n) @ ''/'' @ (if m < 0 then CHR ''-'' # show_int (- m) else show_int m) @ '')''"

definition checkBranchLimit :: "'d prisma \<Rightarrow> ctx \<Rightarrow> string \<Rightarrow> ('d, nat \<times> int) prog" where
  "checkBranchLimit P c tenantId = with_plan P c tenantId (\<lambda>plan.
     let maxBranches = sp_maxBranches plan; tc = tenant_ctx tenantId in
     andThen (repo_count tc branch_model (extended tc branch_model (px_branch P)) []) (\<lambda>currentCount.
     if maxBranches \<le> int currentCount
     then throw (ForbiddenException (''Branch limit reached '' @ fraction currentCount maxBranches @
            ''. Please upgrade to a higher tier. Current plan: '' @ sp_name plan))
     else return (currentCount, maxBranches)))"

text \<open>The branch is not used: every product of the tenant counts.\<close>

definition checkProductLimit :: "'d prisma \<Rightarrow> ctx \<Rightarrow> string \<Rightarrow> string option \<Rightarrow> ('d, nat \<times> int) prog" where
  "checkProductLimit P c tenantId branchId = with_plan P c tenantId (\<lambda>plan.
     let maxProducts = sp_maxProductsPerBranch plan; tc = tenant_ctx tenantId in
     andThen (repo_count tc product_model (extended tc product_model (px_product P)) []) (\<lambda>currentCount.
     if maxProducts \<le> int currentCount
     then throw (ForbiddenException (''Product limit reached '' @ fraction currentCount maxProducts @
            '' per branch. Please upgrade. Plan: '' @ sp_name plan))
     else return (currentCount, maxProducts)))"

definition checkCustomDomainAllowed :: "'d prisma \<Rightarrow> ctx \<Rightarrow> string \<Rightarrow> ('d, bool) prog" where
  "checkCustomDomainAllowed P c tenantId = with_plan P c tenantId (\<lambda>plan.
     if \<not> sp_allowCustomDomains plan
     then throw (ForbiddenException (''Custom domains not allowed on current plan ['' @ sp_name plan @ '']. Please upgrade to a higher tier.''))
     else return True)"

definition checkOnlinePaymentsAllowed :: "'d prisma \<Rightarrow> ctx \<Rightarrow> string \<Rightarrow> ('d, bool) prog" where
  "checkOnlinePaymentsAllowed P c tenantId = with_plan P c tenantId (\<lambda>plan.
     if \<not> sp_allowOnlinePayments plan
     then throw (ForbiddenException (''Online payments not allowed on current plan ['' @ sp_name plan @ '']. Please upgrade.''))
     else return True)"

definition checkAnalyticsAllowed :: "'d prisma \<Rightarrow> ctx \<Rightarrow> string \<Rightarrow> ('d, bool) prog" where
  "checkAnalyticsAllowed P c tenantId = with_plan P c tenantId (\<lambda>plan.
     if \<not> sp_allowAnalytics plan
     then throw (ForbiddenException (''Analytics not allowed on current plan ['' @ sp_name plan @ '']. Please upgrade.''))
     else return True)"

section \<open>The guard\<close>

datatype subscriptionCheck = BranchCheck | ProductCheck | CustomDomainCheck | OnlinePaymentCheck | AnalyticsCheck | StatusCheck

record subscriptionRequest =
  sr_userTenantId :: "string option"
  sr_tenantId :: "string option"
  sr_bodyBranchId :: "string option"
  sr_queryBranchId :: "string option"

definition guardTenant :: "subscriptionRequest \<Rightarrow> string option" where
  "guardTenant request = (if truthy (sr_userTenantId request) then sr_userTenantId request else or_null (sr_tenantId request))"

definition runCheck :: "'d prisma \<Rightarrow> ctx \<Rightarrow> subscriptionRequest \<Rightarrow> string \<Rightarrow> subscriptionCheck \<Rightarrow> ('d, unit) prog" where
  "runCheck P c request tenantId check = (case check of
       BranchCheck \<Rightarrow> andThen (checkBranchLimit P c tenantId) (\<lambda>_. return ())
     | ProductCheck \<Rightarrow> andThen (checkProductLimit P c tenantId
           (if truthy (sr_bodyBranchId request) then sr_bodyBranchId request else sr_queryBranchId request)) (\<lambda>_. return ())
     | CustomDomainCheck \<Rightarrow> andThen (checkCustomDomainAllowed P c tenantId) (\<lambda>_. return ())
     | OnlinePaymentCheck \<Rightarrow> andThen (checkOnlinePaymentsAllowed P c tenantId) (\<lambda>_. return ())
     | AnalyticsCheck \<Rightarrow> andThen (checkAnalyticsAllowed P c tenantId) (\<lambda>_. return ())
     | StatusCheck \<Rightarrow> return ())"

definition subscriptionGuard :: "'d prisma \<Rightarrow> ctx \<Rightarrow> subscriptionCheck option \<Rightarrow> subscriptionRequest \<Rightarrow> ('d, bool) prog" where
  "subscriptionGuard P c check request = (case check of
       None \<Rightarrow> return True
     | Some chk \<Rightarrow>
         let tenantId = guardTenant request in
         if \<not> truthy tenantId then throw (ForbiddenException ''Tenant context missing for subscription check'')
         else andThen (checkSubscriptionStatus P c (the tenantId)) (\<lambda>_.
              andThen (runCheck P c request (the tenantId) chk) (\<lambda>_. return True)))"

section \<open>What a check that passes has seen\<close>

definition live_of :: "'r model \<Rightarrow> string \<Rightarrow> 'r list \<Rightarrow> 'r list" where
  "live_of md t rs = filter (\<lambda>r. md_tenant md r = Some t \<and> md_deletedAt md r = None) rs"

text \<open>The newest subscription of the tenant, neither it nor the tenant blocked.\<close>

definition in_good_standing :: "tables \<Rightarrow> string \<Rightarrow> subscription \<times> subscriptionPlan option \<Rightarrow> bool" where
  "in_good_standing X t sub \<longleftrightarrow> fst sub \<in> set (t_subscriptions X) \<and> sb_tenantId (fst sub) = Some t \<and>
     (\<forall>x \<in> set (t_subscriptions X). sb_tenantId x = Some t \<longrightarrow> sb_createdAt x \<le> sb_createdAt (fst sub)) \<and>
     (\<forall>p. snd sub = Some p \<longrightarrow> p \<in> set (t_plans X) \<and> sp_id p = sb_planId (fst sub)) \<and>
     (\<exists>to. (case to of None \<Rightarrow> \<forall>x \<in> set (t_tenants X). tn_id x \<noteq> t | Some x \<Rightarrow> x \<in> set (t_tenants X) \<and> tn_id x = t) \<and>
        \<not> blocked (sb_status (fst sub)) (map_option tn_status to))"

context tenant_repository begin

lemma repo_count_live:
  assumes "t \<noteq> []" and "md_softDeletable md" and "repo_count (tenant_ctx t) md (extended (tenant_ctx t) md D) [] s = (Inr n, s')"
  shows "s' = s \<and> n = length (live_of md t (rows s))"
proof -
  let ?w = "AList.update ''tenantId'' (Is (CStr t)) (scopedWhere md [] (Some t))"
  have run: "dg_count D ?w s = (Inr n, s')" using assms by (simp add: repo_count_def ext_count)
  have "sat md ?w r \<longleftrightarrow> md_tenant md r = Some t \<and> md_deletedAt md r = None" for r
    using assms(1,2) col_deletedAt[OF assms(2), of r]
    by (cases "md_tenant md r") (auto simp: scopedWhere_def sat_def opt_cell_def)
  then have "filter (sat md ?w) (rows s) = live_of md t (rows s)" unfolding live_of_def by (intro filter_cong refl)
  then show ?thesis using count_state[of ?w s] count_value[of ?w s n] run by simp
qed

end

context prisma_client begin

lemma getActiveSubscription_tenant:
  assumes "t \<noteq> []" and "getActiveSubscription P (tenant_ctx t) t d = (Inr sub, d')"
  shows "d' = d \<and> fst sub \<in> set (t_subscriptions (T d)) \<and> sb_tenantId (fst sub) = Some t \<and>
     (\<forall>x \<in> set (t_subscriptions (T d)). sb_tenantId x = Some t \<longrightarrow> sb_createdAt x \<le> sb_createdAt (fst sub)) \<and>
     (\<forall>p. snd sub = Some p \<longrightarrow> p \<in> set (t_plans (T d)) \<and> sp_id p = sb_planId (fst sub))"
proof -
  let ?w = "[(''tenantId'', Is (CStr t))]"
  obtain sub' plan where sub: "sub = (sub', plan)" by (meson surj_pair)
  have run: "px_subscription_findFirstJoined P ?w d = (Inr (Some sub), d')"
    using assms by (auto simp: getActiveSubscription_def allOperations_scoped scopedOperations_def w_args_def return_def throw_def
        elim!: andThen_InrE split: option.splits)
  have sat: "sat subscription_model ?w x \<longleftrightarrow> sb_tenantId x = Some t" for x
    by (cases "sb_tenantId x") (simp_all add: sat_def subscription_model_def subscription_col_def opt_cell_def)
  have "d' = d" using subscriptionJoin_state[of ?w d] run by simp
  then show ?thesis using subscriptionJoin_Some[of ?w d sub' plan] run sat by (simp add: sub)
qed

lemma checkSubscriptionStatus_tenant:
  assumes "t \<noteq> []" and "checkSubscriptionStatus P (tenant_ctx t) t d = (Inr sub, d')"
  shows "d' = d \<and> in_good_standing (T d) t sub"
proof -
  obtain d1 to where get: "getActiveSubscription P (tenant_ctx t) t d = (Inr sub, d1)"
    and tn: "px_tenant_findUnique P t d1 = (Inr to, d')" and ok: "\<not> blocked (sb_status (fst sub)) (map_option tn_status to)"
    using assms(2) by (auto simp: checkSubscriptionStatus_def Let_def return_def throw_def elim!: andThen_InrE split: if_splits)
  note sub = getActiveSubscription_tenant[OF assms(1) get]
  have "d' = d" using tenant_state[of t d1] tn sub by simp
  moreover have "case to of None \<Rightarrow> \<forall>x \<in> set (t_tenants (T d)). tn_id x \<noteq> t | Some x \<Rightarrow> x \<in> set (t_tenants (T d)) \<and> tn_id x = t"
    using tenant_Some[of t d] tenant_None[of t d] tn sub by (auto split: option.split)
  ultimately show ?thesis using sub ok unfolding in_good_standing_def by blast
qed

lemma with_plan_tenant:
  assumes "t \<noteq> []" and "with_plan P (tenant_ctx t) t f d = (Inr y, d')"
  obtains sub plan where "in_good_standing (T d) t sub" "snd sub = Some plan" "f plan d = (Inr y, d')"
proof -
  obtain sub d1 where check: "checkSubscriptionStatus P (tenant_ctx t) t d = (Inr sub, d1)"
    and f: "(case snd sub of None \<Rightarrow> throw (NotFoundException ''Subscription plan not found'') | Some plan \<Rightarrow> f plan) d1 = (Inr y, d')"
    using assms(2) by (auto simp: with_plan_def elim: andThen_InrE)
  show thesis using checkSubscriptionStatus_tenant[OF assms(1) check] f
    by (cases "snd sub") (auto simp: throw_def intro: that)
qed

lemma checkBranchLimit_tenant:
  assumes "t \<noteq> []" and "checkBranchLimit P (tenant_ctx t) t d = (Inr y, d')"
  shows "d' = d \<and> (\<exists>sub plan. in_good_standing (T d) t sub \<and> snd sub = Some plan \<and>
    int (length (live_of branch_model t (t_branches (T d)))) < sp_maxBranches plan)"
proof -
  obtain sub plan where ok: "in_good_standing (T d) t sub" "snd sub = Some plan"
    and run: "andThen (repo_count (tenant_ctx t) branch_model (extended (tenant_ctx t) branch_model (px_branch P)) [])
      (\<lambda>n. if sp_maxBranches plan \<le> int n
        then throw (ForbiddenException (''Branch limit reached '' @ fraction n (sp_maxBranches plan) @
            ''. Please upgrade to a higher tier. Current plan: '' @ sp_name plan))
        else return (n, sp_maxBranches plan)) d = (Inr y, d')"
    using assms(2) unfolding checkBranchLimit_def by (elim with_plan_tenant[OF assms(1)]) (simp add: Let_def)
  obtain n d1 where count: "repo_count (tenant_ctx t) branch_model (extended (tenant_ctx t) branch_model (px_branch P)) [] d = (Inr n, d1)"
    and n: "\<not> sp_maxBranches plan \<le> int n" "d' = d1"
    using run by (auto simp: throw_def return_def elim!: andThen_InrE split: if_splits)
  then show ?thesis using branches.repo_count_live[OF assms(1) _ count] ok
    by (intro conjI exI[of _ sub] exI[of _ plan]) simp_all
qed

end

end
