(* ===== verification/Billing_Service.thy ===== *)
theory Billing_Service
  imports Subscription_Service Request_Context
begin

text \<open>
  \<^verbatim>\<open>apps/api/src/billing\<close>: checkout sessions and the webhook by which Stripe reports on
  subscriptions, with its idempotency keys in Redis, and the listener of the events it emits. The
  \<^verbatim>\<open>stripe\<close> library is a field of the environment; an event enters with the properties of its JSON
  the code reads. \<open>c\<close> is the tenant context the request runs in.
\<close>

section \<open>Events and environment\<close>

record stripeObject =
  so_object :: "string option"
  so_id :: "string option"
  so_customer :: "string option"
  so_subscription :: "string option"
  so_metadataTenantId :: "string option"
  so_status :: "string option"
  so_current_period_start :: "int option"
  so_current_period_end :: "int option"
  so_cancel_at_period_end :: "bool option"
  so_canceled_at :: "int option"

record stripeEvent =
  se_type :: "string option"
  se_id :: "string option"
  se_object :: "stripeObject option"

record webhookOutcome =
  wo_eventType :: "string option"
  wo_eventId :: "string option"
  wo_tenantId :: "string option"
  wo_newSubscriptionStatus :: "SubscriptionStatus option"
  wo_newTenantStatus :: "TenantStatus option"
  wo_action :: string

record CreateBillingSessionRequestDto =
  cb_planId :: string
  cb_successUrl :: string
  cb_cancelUrl :: string

record stripeSession =
  ss_customer :: "string option"
  ss_price :: string
  ss_success_url :: string
  ss_cancel_url :: string
  ss_tenantId :: string
  ss_planId :: string
  ss_userId :: string

record billingEnv =
  be_now :: int
  be_STRIPE_SECRET_KEY :: "string option"
  be_STRIPE_WEBHOOK_SECRET :: "string option"
  be_stripe_session :: "string \<Rightarrow> stripeSession \<Rightarrow> exn + string \<times> string"
  be_stripe_constructEvent :: "string \<Rightarrow> string \<Rightarrow> string \<Rightarrow> exn + stripeEvent"
  be_parseEvent :: "string \<Rightarrow> exn + stripeEvent"
  be_random36 :: "nat \<Rightarrow> string"

definition IDEMPOTENCY_TTL_SECONDS :: int where
  "IDEMPOTENCY_TTL_SECONDS = 30 * 24 * 60 * 60"

definition idempotencyKey :: "string \<Rightarrow> string" where
  "idempotencyKey eventId = ''stripe:webhook:'' @ eventId"

section \<open>Checkout sessions\<close>

definition createCheckoutSession ::
  "'d prisma \<Rightarrow> billingEnv \<Rightarrow> CreateBillingSessionRequestDto \<Rightarrow> string \<Rightarrow> string \<Rightarrow> ('d, string \<times> string) prog" where
  "createCheckoutSession P env dto tenantId userId =
     andThen (px_subscriptionPlan_findUnique P (cb_planId dto)) (\<lambda>plan. case plan of
       None \<Rightarrow> throw (NotFoundException (''Subscription plan with ID ['' @ cb_planId dto @ ''] not found.''))
     | Some p \<Rightarrow>
         andThen (px_tenant_findUnique P tenantId) (\<lambda>tenant. case tenant of
           None \<Rightarrow> throw (NotFoundException (''Tenant with ID ['' @ tenantId @ ''] not found.''))
         | Some tn \<Rightarrow>
             if \<not> truthy (be_STRIPE_SECRET_KEY env)
             then let mockSessionId = ''cs_test_'' @ be_random36 env 0 @ be_random36 env 1 in
                  return (mockSessionId, ''https://checkout.stripe.com/c/pay/'' @ mockSessionId)
             else (case be_stripe_session env (the (be_STRIPE_SECRET_KEY env))
                      \<lparr>ss_customer = or_null (tn_stripeCustomerId tn), ss_price = sp_stripePriceId p, ss_success_url = cb_successUrl dto,
                       ss_cancel_url = cb_cancelUrl dto, ss_tenantId = tenantId, ss_planId = cb_planId dto, ss_userId = userId\<rparr> of
                Inr session \<Rightarrow> return session
              | Inl err \<Rightarrow> throw (BadRequestException (''Failed to create Stripe checkout session: '' @ exn_message err)))))"

section \<open>The webhook\<close>

definition subscription_findFirst :: "'d prisma \<Rightarrow> ctx \<Rightarrow> where_clause \<Rightarrow> ('d, subscription option) prog" where
  "subscription_findFirst P c w = dg_findFirst (extended c subscription_model (px_subscription P)) w"

definition subscription_updateMany ::
  "'d prisma \<Rightarrow> ctx \<Rightarrow> where_clause \<Rightarrow> (subscription \<Rightarrow> subscription) \<Rightarrow> ('d, nat) prog" where
  "subscription_updateMany P c w data = allOperations c subscription_model ''updateMany'' ((w_args w)\<lparr>a_patch := data\<rparr>)
     (\<lambda>a. px_subscription_updateMany P (a_where a) (a_patch a))"

definition where_stripeSubscription :: "string option \<Rightarrow> where_clause" where
  "where_stripeSubscription stripeSubscriptionId = [(''stripeSubscriptionId'', Is (opt_cell stripeSubscriptionId))]"

definition where_tenant :: "string \<Rightarrow> where_clause" where
  "where_tenant tenantId = [(''tenantId'', Is (CStr tenantId))]"

text \<open>By the customer, by the subscription, by the metadata.\<close>

definition resolveStripeTenant ::
  "'d prisma \<Rightarrow> ctx \<Rightarrow> string option \<Rightarrow> string option \<Rightarrow> string option \<Rightarrow> ('d, string option) prog" where
  "resolveStripeTenant P c stripeCustomerId stripeSubscriptionId metadataTenantId =
     andThen (if truthy stripeCustomerId
              then andThen (px_tenant_findByStripeCustomer P (the stripeCustomerId)) (\<lambda>tn. return (map_option tn_id tn))
              else return None) (\<lambda>tenantId.
     andThen (if \<not> truthy tenantId \<and> truthy stripeSubscriptionId
              then andThen (subscription_findFirst P c (where_stripeSubscription stripeSubscriptionId)) (\<lambda>subscription.
                   return (case subscription of None \<Rightarrow> tenantId | Some sub \<Rightarrow> sb_tenantId sub))
              else return tenantId) (\<lambda>tenantId.
     return (if \<not> truthy tenantId \<and> truthy metadataTenantId then metadataTenantId else tenantId)))"

definition stripeIds :: "stripeObject \<Rightarrow> string option \<times> string option" where
  "stripeIds x =
     (if so_object x = Some ''subscription'' then (so_customer x, so_id x)
      else if so_object x = Some ''invoice'' then (so_customer x, so_subscription x)
      else if truthy (so_customer x)
      then (so_customer x, if truthy (so_subscription x) then so_subscription x else so_id x)
      else (None, None))"

text \<open>The statuses an event stands for; \<open>None\<close> when the type is not handled.\<close>

definition newStatuses :: "string option \<Rightarrow> stripeObject \<Rightarrow> (SubscriptionStatus \<times> TenantStatus) option option" where
  "newStatuses eventType x =
     (if eventType = Some ''invoice.payment_succeeded'' then Some (Some (SubscriptionStatus.ACTIVE, TenantStatus.ACTIVE))
      else if eventType = Some ''invoice.payment_failed'' then Some (Some (SubscriptionStatus.PAST_DUE, TenantStatus.PAST_DUE))
      else if eventType = Some ''customer.subscription.deleted'' then Some (Some (SubscriptionStatus.CANCELED, TenantStatus.CANCELED))
      else if eventType = Some ''customer.subscription.updated'' then Some
        (if so_status x = Some ''active'' then Some (SubscriptionStatus.ACTIVE, TenantStatus.ACTIVE)
         else if so_status x = Some ''past_due'' then Some (SubscriptionStatus.PAST_DUE, TenantStatus.PAST_DUE)
         else if so_status x = Some ''unpaid'' then Some (SubscriptionStatus.UNPAID, TenantStatus.UNPAID)
         else if so_status x = Some ''canceled'' then Some (SubscriptionStatus.CANCELED, TenantStatus.CANCELED)
         else None)
      else None)"

text \<open>A Unix time that is present and not 0, in milliseconds.\<close>

definition set_date :: "int option \<Rightarrow> (int \<Rightarrow> 'r \<Rightarrow> 'r) \<Rightarrow> 'r \<Rightarrow> 'r" where
  "set_date x f r = (case x of None \<Rightarrow> r | Some n \<Rightarrow> if n = 0 then r else f (n * 1000) r)"

definition subscriptionData :: "string option \<Rightarrow> stripeObject \<Rightarrow> SubscriptionStatus \<Rightarrow> subscription \<Rightarrow> subscription" where
  "subscriptionData eventType x status sub =
     (let sub = sub\<lparr>sb_status := status\<rparr> in
      if eventType = Some ''customer.subscription.updated'' then
        set_date (so_canceled_at x) (\<lambda>t. sb_canceledAt_update (\<lambda>_. Some t))
          (sb_cancelAtPeriodEnd_update (\<lambda>b. case so_cancel_at_period_end x of None \<Rightarrow> b | Some b' \<Rightarrow> b')
            (set_date (so_current_period_end x) (\<lambda>t. sb_currentPeriodEnd_update (\<lambda>_. t))
              (set_date (so_current_period_start x) (\<lambda>t. sb_currentPeriodStart_update (\<lambda>_. t)) sub)))
      else sub)"

text \<open>Which subscriptions the transaction changes, and how.\<close>

definition statusWhere :: "string option \<Rightarrow> string \<Rightarrow> where_clause" where
  "statusWhere stripeSubscriptionId tenantId =
     (if truthy stripeSubscriptionId then where_stripeSubscription stripeSubscriptionId else where_tenant tenantId)"

definition statusPatch :: "string option \<Rightarrow> stripeObject \<Rightarrow> string option \<Rightarrow> SubscriptionStatus \<Rightarrow> subscription \<Rightarrow> subscription" where
  "statusPatch eventType x stripeSubscriptionId status =
     (if truthy stripeSubscriptionId then subscriptionData eventType x status else sb_status_update (\<lambda>_. status))"

text \<open>The body of the transaction returns the previous status.\<close>

definition statusTransaction ::
  "'d prisma \<Rightarrow> ctx \<Rightarrow> string option \<Rightarrow> stripeObject \<Rightarrow> string option \<Rightarrow> string \<Rightarrow> SubscriptionStatus \<Rightarrow> TenantStatus \<Rightarrow>
   ('d, SubscriptionStatus option) prog" where
  "statusTransaction P c eventType x stripeSubscriptionId tenantId status tenantStatus =
     (let wh = statusWhere stripeSubscriptionId tenantId in
      andThen (subscription_findFirst P c wh) (\<lambda>current.
      andThen (subscription_updateMany P c wh (statusPatch eventType x stripeSubscriptionId status)) (\<lambda>_.
      andThen (px_tenant_update P tenantId (tn_status_update (\<lambda>_. tenantStatus))) (\<lambda>_.
      return (map_option sb_status current)))))"

definition markProcessed :: "'s redis \<Rightarrow> int \<Rightarrow> string option \<Rightarrow> (('s, 'w) site, unit) prog" where
  "markProcessed R now eventId =
     (if truthy eventId then cache_set R now (idempotencyKey (the eventId)) (JBool True) IDEMPOTENCY_TTL_SECONDS else return ())"

definition outcome_of :: "stripeEvent \<Rightarrow> string option \<Rightarrow> string \<Rightarrow> webhookOutcome" where
  "outcome_of event tenantId action = \<lparr>wo_eventType = se_type event, wo_eventId = se_id event, wo_tenantId = tenantId,
     wo_newSubscriptionStatus = None, wo_newTenantStatus = None, wo_action = action\<rparr>"

definition emitStatusChanged :: "string \<Rightarrow> string \<Rightarrow> string \<Rightarrow> stripeEvent \<Rightarrow> int \<Rightarrow> (('s, 'd world) site, unit) prog" where
  "emitStatusChanged tenantId previous new event now = liftWorld (send (BillingStatusChanged
     \<lparr>bs_tenantId = tenantId, bs_previousStatus = previous, bs_newStatus = new,
      bs_eventType = (case se_type event of None \<Rightarrow> [] | Some ty \<Rightarrow> ty), bs_eventId = or_else (se_id event) [], bs_timestamp = now\<rparr>))"

definition handleCheckoutSessionCompleted ::
  "'d prisma \<Rightarrow> 's redis \<Rightarrow> int \<Rightarrow> ctx \<Rightarrow> stripeEvent \<Rightarrow> stripeObject \<Rightarrow> (('s, 'd world) site, webhookOutcome) prog" where
  "handleCheckoutSessionCompleted P R now c event x =
     (if \<not> truthy (so_metadataTenantId x) then return (outcome_of event None ''no_tenant_metadata'')
      else let metadataTenantId = the (so_metadataTenantId x) in
        andThen (liftWorld (liftDb (px_tenant_findUnique P metadataTenantId))) (\<lambda>tenant. case tenant of
          None \<Rightarrow> return (outcome_of event None ''tenant_not_found'')
        | Some tn \<Rightarrow>
            andThen (try_catch
              (liftWorld (liftDb (transaction P
                (andThen (if truthy (so_customer x) \<and> \<not> truthy (tn_stripeCustomerId tn)
                          then andThen (px_tenant_update P metadataTenantId (tn_stripeCustomerId_update (\<lambda>_. so_customer x))) (\<lambda>_. return ())
                          else return ()) (\<lambda>_.
                 if truthy (so_subscription x)
                 then andThen (subscription_findFirst P c (where_tenant metadataTenantId)) (\<lambda>subscription. case subscription of
                        None \<Rightarrow> return ()
                      | Some sub \<Rightarrow> if truthy (sb_stripeSubscriptionId sub) then return ()
                          else andThen (dg_update (extended c subscription_model (px_subscription P)) (where_id (sb_id sub))
                                 (sb_stripeSubscriptionId_update (\<lambda>_. so_subscription x))) (\<lambda>_. return ()))
                 else return ())))))
              (\<lambda>err. return ())) (\<lambda>_.
            andThen (markProcessed R now (se_id event)) (\<lambda>_.
            return (outcome_of event (Some metadataTenantId) ''stripe_ids_persisted'')))))"

definition handleTrialWillEnd ::
  "'d prisma \<Rightarrow> 's redis \<Rightarrow> int \<Rightarrow> ctx \<Rightarrow> stripeEvent \<Rightarrow> stripeObject \<Rightarrow> (('s, 'd world) site, webhookOutcome) prog" where
  "handleTrialWillEnd P R now c event x =
     andThen (liftWorld (liftDb (resolveStripeTenant P c (so_customer x) (so_id x) (so_metadataTenantId x)))) (\<lambda>tenantId.
     if \<not> truthy tenantId then return (outcome_of event None ''no_tenant_resolved'')
     else andThen (emitStatusChanged (the tenantId) ''TRIALING'' ''TRIALING'' event now) (\<lambda>_.
          andThen (markProcessed R now (se_id event)) (\<lambda>_.
          return (outcome_of event tenantId ''trial_expiry_notification_emitted''))))"

definition applyStatuses ::
  "'d prisma \<Rightarrow> int \<Rightarrow> ctx \<Rightarrow> stripeEvent \<Rightarrow> stripeObject \<Rightarrow> string option \<Rightarrow> string \<Rightarrow> SubscriptionStatus \<times> TenantStatus \<Rightarrow>
   (('s, 'd world) site, unit) prog" where
  "applyStatuses P now c event x stripeSubscriptionId tenantId statuses =
     try_catch
       (andThen (liftWorld (liftDb (transaction P
          (statusTransaction P c (se_type event) x stripeSubscriptionId tenantId (fst statuses) (snd statuses))))) (\<lambda>previous.
        emitStatusChanged tenantId (case previous of None \<Rightarrow> ''UNKNOWN'' | Some s \<Rightarrow> show_subscriptionStatus s)
          (show_subscriptionStatus (fst statuses)) event now))
       (\<lambda>err. return ())"

definition handleSubscriptionEvent ::
  "'d prisma \<Rightarrow> 's redis \<Rightarrow> int \<Rightarrow> ctx \<Rightarrow> stripeEvent \<Rightarrow> stripeObject \<Rightarrow> (('s, 'd world) site, webhookOutcome) prog" where
  "handleSubscriptionEvent P R now c event x =
     (let (stripeCustomerId, stripeSubscriptionId) = stripeIds x in
      andThen (liftWorld (liftDb (resolveStripeTenant P c stripeCustomerId stripeSubscriptionId (so_metadataTenantId x)))) (\<lambda>tenantId.
      if \<not> truthy tenantId then return (outcome_of event None ''no_tenant_resolved'')
      else case newStatuses (se_type event) x of
        None \<Rightarrow> return (outcome_of event tenantId ''ignored'')
      | Some statuses \<Rightarrow>
          andThen (case statuses of None \<Rightarrow> return ()
                   | Some st \<Rightarrow> applyStatuses P now c event x stripeSubscriptionId (the tenantId) st) (\<lambda>_.
          andThen (markProcessed R now (se_id event)) (\<lambda>_.
          return ((outcome_of event tenantId ''processed'')\<lparr>
            wo_newSubscriptionStatus := map_option fst statuses, wo_newTenantStatus := map_option snd statuses\<rparr>)))))"

definition handleStripeWebhook ::
  "'d prisma \<Rightarrow> 's redis \<Rightarrow> int \<Rightarrow> ctx \<Rightarrow> stripeEvent \<Rightarrow> (('s, 'd world) site, webhookOutcome) prog" where
  "handleStripeWebhook P R now c event = (case se_object event of
     None \<Rightarrow> throw (BadRequestException ''Invalid Stripe webhook payload: missing data.object'')
   | Some x \<Rightarrow>
       andThen (if truthy (se_id event)
                then cache_get R now (idempotencyKey (the (se_id event))) (return (JBool False)) IDEMPOTENCY_TTL_SECONDS
                else return (JBool False)) (\<lambda>alreadyProcessed.
       if json_truthy alreadyProcessed then return (outcome_of event None ''duplicate'')
       else if se_type event = Some ''checkout.session.completed'' then handleCheckoutSessionCompleted P R now c event x
       else if se_type event = Some ''customer.subscription.trial_will_end'' then handleTrialWillEnd P R now c event x
       else handleSubscriptionEvent P R now c event x))"

section \<open>The controller\<close>

text \<open>A body that is not JSON is passed on as it is, and has no \<^verbatim>\<open>data\<close>.\<close>

definition verifyWebhookSignature :: "billingEnv \<Rightarrow> string \<Rightarrow> string option \<Rightarrow> exn + stripeEvent" where
  "verifyWebhookSignature env rawBody signature =
     (if \<not> truthy (be_STRIPE_WEBHOOK_SECRET env) then
        (case be_parseEvent env rawBody of
           Inr event \<Rightarrow> Inr event
         | Inl _ \<Rightarrow> Inr \<lparr>se_type = None, se_id = None, se_object = None\<rparr>)
      else if \<not> truthy signature then Inl (BadRequestException ''Missing Stripe signature header'')
      else (case be_stripe_constructEvent env rawBody (the signature) (the (be_STRIPE_WEBHOOK_SECRET env)) of
              Inr event \<Rightarrow> Inr event
            | Inl err \<Rightarrow> Inl (BadRequestException (''Webhook signature verification failed: '' @ exn_message err))))"

definition handleWebhook ::
  "'d prisma \<Rightarrow> 's redis \<Rightarrow> billingEnv \<Rightarrow> ctx \<Rightarrow> string option \<Rightarrow> string option \<Rightarrow> (('s, 'd world) site, webhookOutcome) prog" where
  "handleWebhook P R env c rawBody signature = (case rawBody of
     None \<Rightarrow> return \<lparr>wo_eventType = None, wo_eventId = None, wo_tenantId = None,
               wo_newSubscriptionStatus = None, wo_newTenantStatus = None, wo_action = ''missing_raw_body''\<rparr>
   | Some body \<Rightarrow>
       andThen (of_result (verifyWebhookSignature env body signature)) (\<lambda>event.
       handleStripeWebhook P R (be_now env) c event))"

section \<open>The listener\<close>

definition mapStatusToNotificationType :: "string \<Rightarrow> string \<Rightarrow> string option" where
  "mapStatusToNotificationType newStatus eventType =
     (if newStatus = ''PAST_DUE'' then Some ''billing.grace_period_warning''
      else if newStatus = ''CANCELED'' then Some ''billing.subscription_canceled''
      else if newStatus = ''UNPAID'' then Some ''billing.payment_required''
      else if eventType = ''customer.subscription.trial_will_end'' then Some ''billing.trial_expiring''
      else None)"

text \<open>\<open>dispatch\<close> is the notification queue; its errors are the listener's.\<close>

definition billing_handleStatusChanged ::
  "(string \<Rightarrow> string \<Rightarrow> string \<Rightarrow> BillingStatusChangedEvent \<Rightarrow> ('q, unit) prog) \<Rightarrow> BillingStatusChangedEvent \<Rightarrow> ('q, unit) prog" where
  "billing_handleStatusChanged dispatch event =
     (case mapStatusToNotificationType (bs_newStatus event) (bs_eventType event) of
        None \<Rightarrow> return ()
      | Some notificationType \<Rightarrow> dispatch (bs_tenantId event) ''email'' notificationType event)"

section \<open>What an event does to the database\<close>

text \<open>Every context but the platform owner's without a tenant.\<close>

definition confined :: "ctx \<Rightarrow> bool" where
  "confined c \<longleftrightarrow> truthy (ctx_tenantId c) \<or> \<not> ctx_isPlatformOwner c"

lemma updateMany_confined:
  assumes "confined c"
  obtains msg where "subscription_updateMany P c w g = throw (JsError msg)"
proof (cases "truthy (ctx_tenantId c)")
  case True
  then show thesis
    using allOperations_unsupported[of c "''updateMany''" subscription_model] that
    by (auto simp: subscription_updateMany_def unsupportedOperations_def)
next
  case False
  then show thesis
    using assms allOperations_no_context[of c subscription_model] that
    by (auto simp: subscription_updateMany_def confined_def)
qed

lemma updateMany_free: "\<not> confined c \<Longrightarrow> subscription_updateMany P c w g = px_subscription_updateMany P w g"
  by (auto simp: subscription_updateMany_def confined_def allOperations_def Let_def w_args_def)

text \<open>The tables after an event that was applied.\<close>

definition statuses_applied :: "tables \<Rightarrow> string option \<Rightarrow> stripeObject \<Rightarrow> string option \<Rightarrow> string \<Rightarrow>
    SubscriptionStatus \<times> TenantStatus \<Rightarrow> tables \<Rightarrow> bool" where
  "statuses_applied X eventType x subId t st X' \<longleftrightarrow> (\<exists>xs tn ys. t_tenants X = xs @ tn # ys \<and> tn_id tn = t \<and>
     X' = X\<lparr>t_subscriptions := map (\<lambda>sub. if sat subscription_model (statusWhere subId t) sub
                then statusPatch eventType x subId (fst st) sub else sub) (t_subscriptions X),
            t_tenants := xs @ tn\<lparr>tn_status := snd st\<rparr> # ys\<rparr>)"

text \<open>Tables and messages before and after an event.\<close>

definition all_or_nothing :: "ctx \<Rightarrow> stripeEvent \<Rightarrow> stripeObject \<Rightarrow> string option \<Rightarrow> string \<Rightarrow> SubscriptionStatus \<times> TenantStatus \<Rightarrow>
    tables \<times> message list \<Rightarrow> tables \<times> message list \<Rightarrow> bool" where
  "all_or_nothing c event x subId t st before after \<longleftrightarrow> after = before \<or>
     \<not> confined c \<and> statuses_applied (fst before) (se_type event) x subId t st (fst after) \<and>
     (\<exists>b. bs_tenantId b = t \<and> bs_newStatus b = show_subscriptionStatus (fst st) \<and> snd after = snd before @ [BillingStatusChanged b])"

context prisma_client begin

lemma subscription_findFirst_reads [preserves_intros]: "preserves f (subscription_findFirst P c w)"
  by (auto simp: subscription_findFirst_def extended_def allOperations_def Let_def intro!: preserves_intros subscriptions.read_preserves)

lemma stripeCustomer_read [preserves_intros]: "preserves f (px_tenant_findByStripeCustomer P i)"
  by (metis preserves_def snd_conv stripeCustomer_state)

lemma resolveStripeTenant_reads [preserves_intros]: "preserves f (resolveStripeTenant P c cust sub meta)"
  unfolding resolveStripeTenant_def by (intro preserves_intros)

lemma statusTransaction_Inr:
  assumes "statusTransaction P c eventType x subId t st ts d = (Inr prev, d')"
  shows "\<not> confined c \<and> statuses_applied (T d) eventType x subId t (st, ts) (T d')"
proof -
  let ?wh = "statusWhere subId t" and ?g = "statusPatch eventType x subId st"
  obtain cur d1 n d2 tn where run: "subscription_findFirst P c ?wh d = (Inr cur, d1)" "subscription_updateMany P c ?wh ?g d1 = (Inr n, d2)"
      "px_tenant_update P t (tn_status_update (\<lambda>_. ts)) d2 = (Inr tn, d')"
    using assms by (auto simp: statusTransaction_def Let_def return_def elim!: andThen_InrE)
  have free: "\<not> confined c"
  proof
    assume "confined c"
    then obtain msg where "subscription_updateMany P c ?wh ?g = throw (JsError msg)" by (rule updateMany_confined)
    then show False using run(2) by (simp add: throw_def)
  qed
  have d1: "d1 = d" using preservesD[OF subscription_findFirst_reads[of "\<lambda>d. d"] run(1)] by simp
  have d2: "T d2 = (T d)\<lparr>t_subscriptions := map (\<lambda>x. if sat subscription_model ?wh x then ?g x else x) (t_subscriptions (T d))\<rparr>"
    using subscriptionMany_Inr[OF run(2)[unfolded updateMany_free[OF free] d1]] .
  obtain xs x' ys where "t_tenants (T d2) = xs @ x' # ys" "tn_id x' = t"
      "T d' = (T d2)\<lparr>t_tenants := xs @ tn_status_update (\<lambda>_. ts) x' # ys\<rparr>"
    using tenant_update_Inr[OF run(3)] by blast
  then have "statuses_applied (T d) eventType x subId t (st, ts) (T d')" unfolding statuses_applied_def
    by (intro exI[of _ xs] exI[of _ x'] exI[of _ ys]) (simp add: d2)
  then show ?thesis using free by simp
qed

text \<open>One event: the statuses of the tenant and of its subscriptions with one message, or nothing at all.\<close>

lemma applyStatuses_cases:
  assumes "applyStatuses P now c event x subId t st s = (r, s')"
  shows "r = Inr () \<and> all_or_nothing c event x subId t st (T (w_db (st_world s)), w_out (st_world s)) (T (w_db (st_world s')), w_out (st_world s'))"
proof -
  let ?m = "transaction P (statusTransaction P c (se_type event) x subId t (fst st) (snd st))"
  obtain y d where m: "?m (w_db (st_world s)) = (y, d)" by (meson surj_pair)
  show ?thesis
  proof (cases y)
    case (Inl e)
    have "T d = T (w_db (st_world s))" by (rule transaction_Inl[OF m[unfolded Inl]])
    then show ?thesis using assms m Inl
      by (auto simp: all_or_nothing_def applyStatuses_def try_catch_def andThen_def liftWorld_def liftDb_def return_def)
  next
    case (Inr prev)
    obtain d1 where d1: "statusTransaction P c (se_type event) x subId t (fst st) (snd st) (w_db (st_world s)) = (Inr prev, d1)" "T d = T d1"
      using transaction_Inr[OF m[unfolded Inr]] by blast
    have "\<not> confined c \<and> statuses_applied (T (w_db (st_world s))) (se_type event) x subId t st (T d)"
      using statusTransaction_Inr[OF d1(1)] d1(2) by simp
    then show ?thesis using assms m Inr
      by (auto simp: all_or_nothing_def applyStatuses_def try_catch_def andThen_def liftWorld_def liftDb_def return_def emitStatusChanged_def send_def modify_def)
  qed
qed

lemma markProcessed_world [preserves_intros]: "preserves (\<lambda>s. f (st_world s)) (markProcessed R now i)"
  unfolding markProcessed_def by (intro preserves_intros)

lemma resolve_lift:
  assumes "liftWorld (liftDb (resolveStripeTenant P c cust sub meta)) s = (r, s')"
  shows "s' = s"
proof -
  obtain y d where run: "resolveStripeTenant P c cust sub meta (w_db (st_world s)) = (y, d)" by (meson surj_pair)
  have "d = w_db (st_world s)" by (rule preservesD[OF resolveStripeTenant_reads run])
  then show ?thesis using assms run by (simp add: liftWorld_def liftDb_def)
qed

lemma handleSubscriptionEvent_cases:
  assumes "handleSubscriptionEvent P R now c event x s = (r, s')"
  shows "T (w_db (st_world s')) = T (w_db (st_world s)) \<and> w_out (st_world s') = w_out (st_world s) \<or>
    (\<exists>st t. newStatuses (se_type event) x = Some (Some st) \<and> all_or_nothing c event x (snd (stripeIds x)) t st
      (T (w_db (st_world s)), w_out (st_world s)) (T (w_db (st_world s')), w_out (st_world s')))"
proof -
  obtain cust sub where ids: "stripeIds x = (cust, sub)" by (meson surj_pair)
  obtain y s1 where res: "liftWorld (liftDb (resolveStripeTenant P c cust sub (so_metadataTenantId x))) s = (y, s1)" by (meson surj_pair)
  have s1: "s1 = s" by (rule resolve_lift[OF res])
  show ?thesis
  proof (cases "\<exists>t st. y = Inr (Some t) \<and> t \<noteq> [] \<and> newStatuses (se_type event) x = Some (Some st)")
    case False
    have "st_world s' = st_world s"
    proof (cases "\<exists>t. y = Inr (Some t) \<and> t \<noteq> [] \<and> newStatuses (se_type event) x = Some None")
      case True
      then obtain u s2 where "markProcessed R now (se_id event) s = (u, s2)" by (meson surj_pair)
      moreover have "st_world s2 = st_world s" using preservesD[OF markProcessed_world[of "\<lambda>w. w"] calculation] .
      ultimately show ?thesis using True assms res ids s1
        by (auto simp: handleSubscriptionEvent_def andThen_def return_def split: sum.splits)
    next
      case none: False
      then show ?thesis using False assms res ids s1
        by (auto simp: handleSubscriptionEvent_def andThen_def return_def truthy_iff split: sum.splits if_splits option.splits)
    qed
    then show ?thesis by simp
  next
    case True
    then obtain t st where y: "y = Inr (Some t)" "t \<noteq> []" and st: "newStatuses (se_type event) x = Some (Some st)" by blast
    obtain u s2 where app: "applyStatuses P now c event x sub t st s = (u, s2)" by (meson surj_pair)
    obtain v s3 where mark: "markProcessed R now (se_id event) s2 = (v, s3)" by (meson surj_pair)
    have w: "st_world s3 = st_world s2" using preservesD[OF markProcessed_world[of "\<lambda>w. w"] mark] .
    have "s' = s3" using assms res ids s1 y st app applyStatuses_cases[OF app] mark
      by (auto simp: handleSubscriptionEvent_def andThen_def return_def split: sum.splits)
    then show ?thesis using applyStatuses_cases[OF app] w st ids by auto
  qed
qed

lemma handleStripeWebhook_cases:
  assumes run: "handleStripeWebhook P R now c event s = (r, s')"
    and type: "se_type event \<notin> {Some ''checkout.session.completed'', Some ''customer.subscription.trial_will_end''}"
  shows "T (w_db (st_world s')) = T (w_db (st_world s)) \<and> w_out (st_world s') = w_out (st_world s) \<or>
    (\<exists>x st t. se_object event = Some x \<and> newStatuses (se_type event) x = Some (Some st) \<and>
      all_or_nothing c event x (snd (stripeIds x)) t st
        (T (w_db (st_world s)), w_out (st_world s)) (T (w_db (st_world s')), w_out (st_world s')))"
proof (cases "se_object event")
  case None
  then show ?thesis using run by (simp add: handleStripeWebhook_def throw_def)
next
  case (Some x)
  let ?read = "if truthy (se_id event)
    then cache_get R now (idempotencyKey (the (se_id event))) (return (JBool False)) IDEMPOTENCY_TTL_SECONDS
    else return (JBool False)"
  obtain y s1 where read: "?read s = (y, s1)" by (meson surj_pair)
  have keep: "preserves (\<lambda>s. st_world s) ?read" by (intro preserves_intros)
  have w: "st_world s1 = st_world s" by (rule preservesD[OF keep read])
  show ?thesis
  proof (cases "\<exists>v. y = Inr v \<and> \<not> json_truthy v")
    case False
    then have "s' = s1" using run Some read by (auto simp: handleStripeWebhook_def andThen_def return_def split: sum.splits if_splits)
    then show ?thesis by (simp add: w)
  next
    case True
    then have "handleSubscriptionEvent P R now c event x s1 = (r, s')"
      using run Some read type by (auto simp: handleStripeWebhook_def andThen_def return_def split: if_splits)
    from handleSubscriptionEvent_cases[OF this] show ?thesis using Some w by auto
  qed
qed

end

lemma tenantContext_confined:
  assumes "tenantContext_use P R env req s = (Inr (c, t), s')" and "\<not> isPlatformOwnerToken env (rq_authorization req)"
  shows "confined c"
  using assms by (elim tenantContext_use_InrE) (simp add: confined_def ctx_isPlatformOwner_def)

text \<open>A key that holds \<^verbatim>\<open>true\<close> stops the event.\<close>

context redis_store begin

lemma handleStripeWebhook_duplicate:
  assumes "se_object event \<noteq> None" "se_id event = Some i" "i \<noteq> []" "online s"
    and "view s now (idempotencyKey i) = Some (stringify (JBool True))"
    and "fst (rd_get R now (idempotencyKey i) (ca_store (st_cache s))) = Inr y"
  shows "\<exists>s'. handleStripeWebhook P R now c event s = (Inr (outcome_of event None ''duplicate''), s') \<and>
    st_world s' = st_world s \<and> view s' = view s"
proof -
  obtain s' where "cache_get R now (idempotencyKey i) (return (JBool False)) IDEMPOTENCY_TTL_SECONDS s = (Inr (JBool True), s')"
      "st_world s' = st_world s" "view s' = view s"
    using cache_get_hit[OF assms(4-6)] by blast
  then show ?thesis using assms(1-3) by (auto simp: handleStripeWebhook_def andThen_def return_def)
qed

end

end
