(* ===== verification/Cascade.thy ===== *)
theory Cascade
  imports Tenant_Repository
begin

text \<open>
  The loop by which a deletion takes dependent rows along: \<^verbatim>\<open>branch.service.ts\<close> has it for the tables of
  a branch, \<^verbatim>\<open>menu.service.ts\<close> for the products of a category. The code does not bound it, so it is a
  partial function, whose result \<open>None\<close> is a loop that never ends. The locale \<open>cascading\<close> says what
  the rows and the change must satisfy: what is changed is not found again. Then the loop ends.
\<close>

definition CASCADE_BATCH_SIZE :: nat where
  "CASCADE_BATCH_SIZE = 200"

definition cascadeBatch :: "('d, 'r) delegate \<Rightarrow> 'r model \<Rightarrow> ('r \<Rightarrow> 'r) \<Rightarrow> 'r list \<Rightarrow> ('d, unit) prog" where
  "cascadeBatch E md patch batch = foldProg (\<lambda>row _.
     andThen (dg_update E (where_id (md_id md row)) patch) (\<lambda>_. return ())) batch ()"

partial_function (option) cascadeLoop ::
  "('d, 'r) delegate \<Rightarrow> 'r model \<Rightarrow> where_clause \<Rightarrow> ('r \<Rightarrow> 'r) \<Rightarrow> 'd \<Rightarrow> ((exn + unit) \<times> 'd) option" where
  "cascadeLoop E md wh patch d =
     (case dg_findMany E wh CASCADE_BATCH_SIZE 0 d of
        (Inl e, d1) \<Rightarrow> Some (Inl e, d1)
      | (Inr batch, d1) \<Rightarrow>
          if batch = [] then Some (Inr (), d1)
          else (case cascadeBatch E md patch batch d1 of
                  (Inl e, d2) \<Rightarrow> Some (Inl e, d2)
                | (Inr u, d2) \<Rightarrow>
                    if length batch < CASCADE_BATCH_SIZE then Some (Inr (), d2)
                    else cascadeLoop E md wh patch d2))"

declare cascadeLoop.simps [code]

section \<open>Updating by primary key\<close>

text \<open>What an update of the row with an id does to a table whose ids are distinct.\<close>

lemma update_by_id:
  assumes "distinct (map f (xs @ r # ys))" and "f r = i"
  shows "xs @ g r # ys = map (\<lambda>x. if f x = i then g x else x) (xs @ r # ys)"
proof -
  have "x \<in> set xs \<union> set ys \<Longrightarrow> f x \<noteq> i" for x using assms by (force simp: image_iff)
  then have "map (\<lambda>x. if f x = i then g x else x) xs = xs" "map (\<lambda>x. if f x = i then g x else x) ys = ys"
    by (simp_all add: map_idI)
  then show ?thesis using assms(2) by simp
qed

section \<open>The loop ends\<close>

locale cascading = tenant_repository md D rows rest
  for md :: "'r model" and D :: "('d, 'r) delegate" and rows :: "'d \<Rightarrow> 'r list" and rest :: "'d \<Rightarrow> 'o" +
  fixes t :: string and wh :: where_clause and patch :: "'r \<Rightarrow> 'r" and picked :: "'r \<Rightarrow> bool"
  assumes sat_picked: "sat md (AList.update ''tenantId'' (Is (CStr t)) wh) r \<longleftrightarrow> picked r"
    and patch_id: "md_id md (patch r) = md_id md r"
    and patch_twice: "patch (patch r) = patch r"
    and patch_unpicked: "\<not> picked (patch r)"
begin

text \<open>The rows with an id in \<open>S\<close> changed.\<close>

definition patched :: "string set \<Rightarrow> 'r list \<Rightarrow> 'r list" where
  "patched S rs = map (\<lambda>x. if md_id md x \<in> S then patch x else x) rs"

lemma patched_ids [simp]: "map (md_id md) (patched S rs) = map (md_id md) rs"
  by (simp add: patched_def patch_id)

lemma patched_empty [simp]: "patched {} rs = rs"
  by (simp add: patched_def)

lemma patched_twice: "patched S' (patched S rs) = patched (S \<union> S') rs"
  by (auto simp: patched_def patch_id patch_twice)

lemma picked_patched: "filter picked (patched S rs) = filter (\<lambda>x. md_id md x \<notin> S) (filter picked rs)"
  by (induction rs) (auto simp: patched_def patch_unpicked)

lemma patched_picked:
  assumes "distinct (map (md_id md) rs)"
  shows "patched (md_id md ` set (filter picked rs)) rs = map (\<lambda>x. if picked x then patch x else x) rs"
proof -
  have "md_id md x \<in> md_id md ` set (filter picked rs) \<longleftrightarrow> picked x" if "x \<in> set rs" for x
    using that unique_row[OF assms] by auto
  then show ?thesis unfolding patched_def by (intro map_cong[OF refl]) simp
qed

lemma fewer_picked:
  assumes "x \<in> set rs" and "picked x" and "md_id md x \<in> S"
  shows "length (filter picked (patched S rs)) < length (filter picked rs)"
  unfolding picked_patched by (rule length_filter_less[of x]) (use assms in simp_all)

lemma update_patched:
  assumes "t \<noteq> []" and "distinct (map (md_id md) (rows s))"
    and "dg_update (extended (tenant_ctx t) md D) (where_id i) patch s = (Inr r, s')"
  shows "rows s' = patched {i} (rows s) \<and> rest s' = rest s"
proof -
  have run: "dg_update D (AList.update ''tenantId'' (Is (CStr t)) (where_id i)) patch s = (Inr r, s')"
    using assms by (simp add: ext_update)
  obtain xs y ys where "rows s = xs @ y # ys" "rows s' = xs @ patch y # ys" "rest s' = rest s" "md_id md y = i"
    using update_Inr[OF run] by (auto simp: sat_id_tenant)
  then show ?thesis using update_by_id[of "md_id md" xs y ys i patch] assms(2) by (simp add: patched_def)
qed

lemma cascadeBatch_rows:
  assumes "t \<noteq> []" and "distinct (map (md_id md) (rows s))"
    and "cascadeBatch (extended (tenant_ctx t) md D) md patch batch s = (Inr u, s')"
  shows "rows s' = patched (md_id md ` set batch) (rows s) \<and> rest s' = rest s"
  using assms(2,3)
proof (induction batch arbitrary: s)
  case Nil
  then show ?case by (simp add: cascadeBatch_def return_def)
next
  case (Cons x batch)
  obtain r s1 where upd: "dg_update (extended (tenant_ctx t) md D) (where_id (md_id md x)) patch s = (Inr r, s1)"
    and again: "cascadeBatch (extended (tenant_ctx t) md D) md patch batch s1 = (Inr u, s')"
    using Cons.prems(2) by (auto simp: cascadeBatch_def return_def elim!: andThen_InrE)
  note s1 = update_patched[OF assms(1) Cons.prems(1) upd]
  then have "distinct (map (md_id md) (rows s1))" using Cons.prems(1) by simp
  from Cons.IH[OF this again] show ?case using s1 by (simp add: patched_twice)
qed

text \<open>A batch: rows that are to be changed; all of them, when it is not full.\<close>

lemma batch_picked:
  assumes "t \<noteq> []" and "dg_findMany (extended (tenant_ctx t) md D) wh CASCADE_BATCH_SIZE 0 s = (Inr batch, s')"
  shows "s' = s" and "set batch \<subseteq> set (filter picked (rows s))"
    and "length batch < CASCADE_BATCH_SIZE \<Longrightarrow> set batch = set (filter picked (rows s))"
proof -
  let ?w = "AList.update ''tenantId'' (Is (CStr t)) wh"
  have run: "dg_findMany D ?w CASCADE_BATCH_SIZE 0 s = (Inr batch, s')"
    using assms by (simp add: ext_findMany)
  show "s' = s" using findMany_state[of ?w CASCADE_BATCH_SIZE 0 s] run by simp
  show sub: "set batch \<subseteq> set (filter picked (rows s))"
    using findMany_sound[of ?w CASCADE_BATCH_SIZE 0 s batch] run sat_picked by auto
  show "set batch = set (filter picked (rows s))" if "length batch < CASCADE_BATCH_SIZE"
    using sub findMany_complete[of ?w CASCADE_BATCH_SIZE s batch] run that sat_picked by auto
qed

text \<open>The loop ends, and when no query failed exactly the rows to be changed were.\<close>

lemma cascadeLoop_patched:
  assumes "t \<noteq> []" and "distinct (map (md_id md) (rows s))"
  shows "\<exists>r s'. cascadeLoop (extended (tenant_ctx t) md D) md wh patch s = Some (r, s') \<and>
    (r = Inr () \<longrightarrow> rows s' = patched (md_id md ` set (filter picked (rows s))) (rows s) \<and> rest s' = rest s)"
  using assms(2)
proof (induction "length (filter picked (rows s))" arbitrary: s rule: less_induct)
  case less
  let ?E = "extended (tenant_ctx t) md D" and ?ids = "\<lambda>s. md_id md ` set (filter picked (rows s))"
  obtain y s1 where find: "dg_findMany ?E wh CASCADE_BATCH_SIZE 0 s = (y, s1)" by (meson surj_pair)
  note unfold = cascadeLoop.simps[of ?E md wh patch s]
  show ?case
  proof (cases y)
    case (Inl e)
    then show ?thesis using find by (simp add: unfold)
  next
    case (Inr batch)
    note batch = batch_picked[OF assms(1) find[unfolded Inr]]
    show ?thesis
    proof (cases "batch = []")
      case True
      then have "filter picked (rows s) = []" using batch(3) by (simp add: CASCADE_BATCH_SIZE_def)
      then show ?thesis using find Inr True batch(1) by (simp add: unfold)
    next
      case False
      obtain z s2 where del: "cascadeBatch ?E md patch batch s1 = (z, s2)" by (meson surj_pair)
      show ?thesis
      proof (cases z)
        case (Inl e)
        then show ?thesis using find Inr False del by (simp add: unfold)
      next
        case z: (Inr u)
        have s2: "rows s2 = patched (md_id md ` set batch) (rows s) \<and> rest s2 = rest s"
          using cascadeBatch_rows[OF assms(1) _ del[unfolded z]] less.prems batch(1) by simp
        show ?thesis
        proof (cases "length batch < CASCADE_BATCH_SIZE")
          case True
          then show ?thesis using find Inr False del z s2 batch(3) by (simp add: unfold)
        next
          case full: False
          obtain x where x: "x \<in> set batch" using False by (cases batch) auto
          then have "x \<in> set (rows s)" "picked x" using batch(2) by auto
          then have fewer: "length (filter picked (rows s2)) < length (filter picked (rows s))"
            using fewer_picked[of x "rows s" "md_id md ` set batch"] x s2 by simp
          have "distinct (map (md_id md) (rows s2))" using less.prems s2 by simp
          from less.hyps[OF fewer this] obtain r s' where again: "cascadeLoop ?E md wh patch s2 = Some (r, s')"
            and rest: "r = Inr () \<longrightarrow> rows s' = patched (?ids s2) (rows s2) \<and> rest s' = rest s2"
            by blast
          have "md_id md ` set batch \<union> ?ids s2 = ?ids s" using batch(2) s2 by (auto simp: picked_patched)
          then have "r = Inr () \<longrightarrow> rows s' = patched (?ids s) (rows s) \<and> rest s' = rest s"
            using rest s2 by (simp add: patched_twice)
          then show ?thesis using find Inr False del z full again by (simp add: unfold)
        qed
      qed
    qed
  qed
qed

lemma cascadeLoop_ends:
  assumes "t \<noteq> []" and "distinct (map (md_id md) (rows s))"
  obtains r s' where "cascadeLoop (extended (tenant_ctx t) md D) md wh patch s = Some (r, s')"
    "r = Inr () \<Longrightarrow> rows s' = map (\<lambda>x. if picked x then patch x else x) (rows s) \<and> rest s' = rest s"
  using cascadeLoop_patched[OF assms] patched_picked[OF assms(2)] by fastforce

end

end
