(* ===== verification/Branch_Service.thy ===== *)
theory Branch_Service
  imports Order_Service Cascade
begin

text \<open>
  \<^verbatim>\<open>apps/api/src/branch/branch.service.ts\<close>: branches and their tables, with the signed QR token of a
  table and the deletion of a branch that takes its tables along. \<open>c\<close> is the tenant context of the
  request.
\<close>

definition ACTIVE_ORDER_STATUSES :: "OrderStatus list" where
  "ACTIVE_ORDER_STATUSES = [OrderStatus.DRAFT, OrderStatus.PENDING, OrderStatus.ACCEPTED, OrderStatus.PREPARING, OrderStatus.READY]"

section \<open>QR tokens\<close>

record pepperEnv =
  pe_SYSTEM_PEPPER :: "string option"
  pe_production :: bool

definition resolveSystemPepper :: "pepperEnv \<Rightarrow> exn + string" where
  "resolveSystemPepper env =
     (if truthy (pe_SYSTEM_PEPPER env) then Inr (the (pe_SYSTEM_PEPPER env))
      else if pe_production env
      then Inl (JsError ''FATAL: SYSTEM_PEPPER must be set in production. Refusing to sign QR tokens with a default pepper.'')
      else Inr ''zayjar-default-pepper-999!'')"

definition signaturePayload :: "string option \<Rightarrow> string \<Rightarrow> string \<Rightarrow> string" where
  "signaturePayload tenantId branchId number =
     (case tenantId of None \<Rightarrow> ''null'' | Some t \<Rightarrow> t) @ '':'' @ branchId @ '':'' @ number"

section \<open>Branches\<close>

record CreateBranchRequestDto =
  bd_restaurantId :: string
  bd_name :: string
  bd_address :: string
  bd_latitude :: "rat option"
  bd_longitude :: "rat option"
  bd_phoneNumber :: string
  bd_operatingHours :: string

record UpdateBranchRequestDto =
  ub_name :: "string option"
  ub_address :: "string option"
  ub_latitude :: "rat option"
  ub_longitude :: "rat option"
  ub_phoneNumber :: "string option"
  ub_operatingHours :: "string option"
  ub_isActive :: "bool option"

abbreviation branchRepo :: "'d prisma \<Rightarrow> ctx \<Rightarrow> ('d, branch) delegate" where
  "branchRepo P c \<equiv> extended c branch_model (px_branch P)"

abbreviation tableRepo :: "'d prisma \<Rightarrow> ctx \<Rightarrow> ('d, dining_table) delegate" where
  "tableRepo P c \<equiv> extended c dining_table_model (px_table P)"

definition requested :: "string \<Rightarrow> string \<Rightarrow> exn" where
  "requested what i = NotFoundException (''The requested '' @ what @ '' with ID ['' @ i @ ''] was not found.'')"

definition createBranch :: "'d prisma \<Rightarrow> ctx \<Rightarrow> int \<Rightarrow> CreateBranchRequestDto \<Rightarrow> ('d, branch) prog" where
  "createBranch P c now dto =
     andThen (findById c restaurant_model (extended c restaurant_model (px_restaurant P)) (bd_restaurantId dto)) (\<lambda>restaurant.
     case restaurant of
       None \<Rightarrow> throw (requested ''Restaurant'' (bd_restaurantId dto))
     | Some _ \<Rightarrow> repo_create c branch_model (branchRepo P c)
         \<lparr>br_id = [], br_tenantId = None, br_restaurantId = bd_restaurantId dto, br_name = bd_name dto,
          br_address = bd_address dto, br_latitude = bd_latitude dto, br_longitude = bd_longitude dto,
          br_phoneNumber = bd_phoneNumber dto, br_operatingHours = bd_operatingHours dto, br_isActive = True,
          br_createdAt = now, br_updatedAt = now, br_deletedAt = None\<rparr>)"

definition includingDeleted :: "bool \<Rightarrow> where_clause \<Rightarrow> where_clause" where
  "includingDeleted includeDeleted wh = (if includeDeleted then wh @ [(''deletedAt'', Undef)] else wh)"

definition getBranches :: "'d prisma \<Rightarrow> ctx \<Rightarrow> bool \<Rightarrow> ('d, branch list) prog" where
  "getBranches P c includeDeleted = findMany c branch_model (branchRepo P c) (includingDeleted includeDeleted []) None None"

text \<open>A field that is \<^verbatim>\<open>undefined\<close> is left as it is.\<close>

definition defined_field :: "'a option \<Rightarrow> ('a \<Rightarrow> 'r \<Rightarrow> 'r) \<Rightarrow> 'r \<Rightarrow> 'r" where
  "defined_field x f r = (case x of None \<Rightarrow> r | Some v \<Rightarrow> f v r)"

definition branchData :: "UpdateBranchRequestDto \<Rightarrow> branch \<Rightarrow> branch" where
  "branchData dto =
     defined_field (ub_isActive dto) (\<lambda>v. br_isActive_update (\<lambda>_. v)) \<circ>
     defined_field (ub_operatingHours dto) (\<lambda>v. br_operatingHours_update (\<lambda>_. v)) \<circ>
     defined_field (ub_phoneNumber dto) (\<lambda>v. br_phoneNumber_update (\<lambda>_. v)) \<circ>
     defined_field (ub_longitude dto) (\<lambda>v. br_longitude_update (\<lambda>_. Some v)) \<circ>
     defined_field (ub_latitude dto) (\<lambda>v. br_latitude_update (\<lambda>_. Some v)) \<circ>
     defined_field (ub_address dto) (\<lambda>v. br_address_update (\<lambda>_. v)) \<circ>
     defined_field (ub_name dto) (\<lambda>v. br_name_update (\<lambda>_. v))"

definition noBranchData :: "UpdateBranchRequestDto \<Rightarrow> bool" where
  "noBranchData dto \<longleftrightarrow> ub_name dto = None \<and> ub_address dto = None \<and> ub_latitude dto = None \<and> ub_longitude dto = None \<and>
     ub_phoneNumber dto = None \<and> ub_operatingHours dto = None \<and> ub_isActive dto = None"

definition updateBranch :: "'d prisma \<Rightarrow> ctx \<Rightarrow> string \<Rightarrow> UpdateBranchRequestDto \<Rightarrow> ('d, branch) prog" where
  "updateBranch P c i dto =
     andThen (findById c branch_model (branchRepo P c) i) (\<lambda>existing. case existing of
       None \<Rightarrow> throw (requested ''Branch'' i)
     | Some b \<Rightarrow> if noBranchData dto then return b
                else repo_update c branch_model (branchRepo P c) i (branchData dto))"

definition countActiveOrders ::
  "'d prisma \<Rightarrow> ctx \<Rightarrow> string option \<Rightarrow> string option \<Rightarrow> string option \<Rightarrow> ('d, nat) prog" where
  "countActiveOrders P c branchId tableId tenantId =
     dg_count (extended c order_model (px_order P))
       ((if truthy branchId then [(''branchId'', Is (opt_cell branchId))] else []) @
        (if truthy tableId then [(''tableId'', Is (opt_cell tableId))] else []) @
        [(''tenantId'', Is (opt_cell tenantId)),
         (''status'', OneOf (map (\<lambda>s. CStr (show_status s)) ACTIVE_ORDER_STATUSES))])"

definition in_progress :: "string \<Rightarrow> nat \<Rightarrow> exn" where
  "in_progress what n = ConflictException (''This '' @ what @ '' cannot be deleted while it has '' @ show_int (int n) @
     '' order(s) in progress. Complete or cancel them first.'')"

definition cascadeWhere :: "string \<Rightarrow> string option \<Rightarrow> where_clause" where
  "cascadeWhere i tenantId = [(''branchId'', Is (CStr i)), (''tenantId'', Is (opt_cell tenantId)), (''deletedAt'', Is CNull)]"

definition cascadeTables ::
  "'d prisma \<Rightarrow> ctx \<Rightarrow> int \<Rightarrow> string \<Rightarrow> string option \<Rightarrow> 'd \<Rightarrow> ((exn + unit) \<times> 'd) option" where
  "cascadeTables P c now i tenantId =
     cascadeLoop (tableRepo P c) dining_table_model (cascadeWhere i tenantId) (tb_deletedAt_update (\<lambda>_. Some now))"

text \<open>The body of the transaction, and the transaction.\<close>

definition cascade :: "'d prisma \<Rightarrow> ctx \<Rightarrow> int \<Rightarrow> string \<Rightarrow> string option \<Rightarrow> 'd \<Rightarrow> ((exn + unit) \<times> 'd) option" where
  "cascade P c now i tenantId d = (case cascadeTables P c now i tenantId d of
     None \<Rightarrow> None
   | Some (Inl e, d1) \<Rightarrow> Some (Inl e, d1)
   | Some (Inr u, d1) \<Rightarrow> Some (andThen (dg_update (branchRepo P c) (where_id i)
        (\<lambda>b. b\<lparr>br_deletedAt := Some now, br_isActive := False\<rparr>)) (\<lambda>_. return ()) d1))"

definition deleteBranch :: "'d prisma \<Rightarrow> ctx \<Rightarrow> int \<Rightarrow> string \<Rightarrow> 'd \<Rightarrow> ((exn + string) \<times> 'd) option" where
  "deleteBranch P c now i d =
     (case andThen (findById c branch_model (branchRepo P c) i) (\<lambda>existing. case existing of
             None \<Rightarrow> throw (requested ''Branch'' i)
           | Some b \<Rightarrow> andThen (countActiveOrders P c (Some i) None (br_tenantId b)) (\<lambda>activeOrders.
               if 0 < activeOrders then throw (in_progress ''branch'' activeOrders) else return b)) d of
        (Inl e, d1) \<Rightarrow> Some (Inl e, d1)
      | (Inr b, d1) \<Rightarrow> (case cascade P c now i (br_tenantId b) d1 of
            None \<Rightarrow> None
          | Some body \<Rightarrow> Some (andThen (transaction P (\<lambda>_. body)) (\<lambda>_. return i) d1)))"

definition restoreBranch :: "'d prisma \<Rightarrow> ctx \<Rightarrow> string \<Rightarrow> ('d, string) prog" where
  "restoreBranch P c i =
     andThen (findByIdIncludingDeleted c branch_model (branchRepo P c) i) (\<lambda>existing. case existing of
       None \<Rightarrow> throw (requested ''Branch'' i)
     | Some _ \<Rightarrow> andThen (restore c branch_model (branchRepo P c) i (br_isActive_update (\<lambda>_. True))) (\<lambda>_. return i))"

section \<open>Tables\<close>

record CreateTableRequestDto =
  tq_branchId :: string
  tq_number :: string
  tq_seatingCapacity :: int

record UpdateTableRequestDto =
  ut_seatingCapacity :: "int option"
  ut_status :: "TableStatus option"

definition createTable ::
  "'d prisma \<Rightarrow> ctx \<Rightarrow> (string \<Rightarrow> string \<Rightarrow> string) \<Rightarrow> pepperEnv \<Rightarrow> int \<Rightarrow> CreateTableRequestDto \<Rightarrow> ('d, dining_table) prog" where
  "createTable P c hmac env now dto =
     andThen (findById c branch_model (branchRepo P c) (tq_branchId dto)) (\<lambda>branch. case branch of
       None \<Rightarrow> throw (requested ''Branch'' (tq_branchId dto))
     | Some b \<Rightarrow>
         andThen (of_result (resolveSystemPepper env)) (\<lambda>pepper.
         let qrCodeToken = hmac pepper (signaturePayload (br_tenantId b) (tq_branchId dto) (tq_number dto)) in
         repo_create c dining_table_model (tableRepo P c)
           \<lparr>tb_id = [], tb_tenantId = None, tb_branchId = tq_branchId dto, tb_number = tq_number dto,
            tb_seatingCapacity = tq_seatingCapacity dto, tb_qrCodeToken = qrCodeToken, tb_status = VACANT,
            tb_createdAt = now, tb_updatedAt = now, tb_deletedAt = None\<rparr>))"

definition getTables :: "'d prisma \<Rightarrow> ctx \<Rightarrow> string option \<Rightarrow> bool \<Rightarrow> ('d, dining_table list) prog" where
  "getTables P c branchId includeDeleted = findMany c dining_table_model (tableRepo P c)
     (includingDeleted includeDeleted (if truthy branchId then [(''branchId'', Is (opt_cell branchId))] else [])) None None"

definition updateTable :: "'d prisma \<Rightarrow> ctx \<Rightarrow> string \<Rightarrow> UpdateTableRequestDto \<Rightarrow> ('d, dining_table) prog" where
  "updateTable P c i dto =
     andThen (findById c dining_table_model (tableRepo P c) i) (\<lambda>existing. case existing of
       None \<Rightarrow> throw (requested ''Table'' i)
     | Some tb \<Rightarrow>
         if ut_seatingCapacity dto = None \<and> ut_status dto = None then return tb
         else repo_update c dining_table_model (tableRepo P c) i
                (defined_field (ut_status dto) (\<lambda>v. tb_status_update (\<lambda>_. v)) \<circ>
                 defined_field (ut_seatingCapacity dto) (\<lambda>v. tb_seatingCapacity_update (\<lambda>_. v))))"

definition deleteTable :: "'d prisma \<Rightarrow> ctx \<Rightarrow> int \<Rightarrow> string \<Rightarrow> ('d, string) prog" where
  "deleteTable P c now i =
     andThen (findById c dining_table_model (tableRepo P c) i) (\<lambda>existing. case existing of
       None \<Rightarrow> throw (requested ''Table'' i)
     | Some tb \<Rightarrow>
         andThen (countActiveOrders P c None (Some i) (tb_tenantId tb)) (\<lambda>activeOrders.
         if 0 < activeOrders then throw (in_progress ''table'' activeOrders)
         else andThen (softDelete c dining_table_model (tableRepo P c) now i (\<lambda>r. r)) (\<lambda>_. return i)))"

definition restoreTable :: "'d prisma \<Rightarrow> ctx \<Rightarrow> string \<Rightarrow> ('d, string) prog" where
  "restoreTable P c i =
     andThen (findByIdIncludingDeleted c dining_table_model (tableRepo P c) i) (\<lambda>existing. case existing of
       None \<Rightarrow> throw (requested ''Table'' i)
     | Some tb \<Rightarrow>
         andThen (findById c branch_model (branchRepo P c) (tb_branchId tb)) (\<lambda>branch. case branch of
           None \<Rightarrow> throw (ConflictException
             ''This table cannot be restored because its branch is deleted. Restore the branch first.'')
         | Some _ \<Rightarrow>
             andThen (findByQrCodeToken P c (tb_qrCodeToken tb)) (\<lambda>conflict.
             if (case conflict of None \<Rightarrow> False | Some x \<Rightarrow> tb_id x \<noteq> i)
             then throw (ConflictException (''Table number ['' @ tb_number tb @
               ''] has already been recreated at this branch. Delete the replacement before restoring this record.''))
             else andThen (restore c dining_table_model (tableRepo P c) i (\<lambda>r. r)) (\<lambda>_. return i))))"

end
