(* ===== verification/Live_Keys.thy ===== *)
theory Live_Keys
  imports Subscription_Service
begin

text \<open>
  The interface of the services that keep a column unique among the live rows of a tenant: they
  look for a row with the value before they create, change or restore one. \<open>tenant_key\<close> says what
  such a column is, and \<open>live_key\<close> adds soft deletion; the lemmas, proved once, say that the checked
  writes keep it unique. The ids of a table are its primary key. E-mail addresses of customers, QR
  tokens of tables and the tokens of devices, which are not deleted softly, are instances.
\<close>

definition unique_live :: "'r model \<Rightarrow> ('r \<Rightarrow> string) \<Rightarrow> string \<Rightarrow> 'r list \<Rightarrow> bool" where
  "unique_live md key t rs \<longleftrightarrow> distinct (map key (live_of md t rs))"

lemma live_of_append [simp]: "live_of md t (xs @ ys) = live_of md t xs @ live_of md t ys"
  by (simp add: live_of_def)

lemma live_of_Cons [simp]:
  "live_of md t (x # xs) = (if md_tenant md x = Some t \<and> md_deletedAt md x = None then x # live_of md t xs else live_of md t xs)"
  by (simp add: live_of_def)

lemma live_of_Nil [simp]: "live_of md t [] = []"
  by (simp add: live_of_def)

lemma set_live_of: "x \<in> set (live_of md t rs) \<longleftrightarrow> x \<in> set rs \<and> md_tenant md x = Some t \<and> md_deletedAt md x = None"
  by (auto simp: live_of_def)

text \<open>One row replaced by another.\<close>

lemma unique_live_replace:
  assumes "unique_live md key t (xs @ x # ys)"
    and "md_tenant md y = Some t \<Longrightarrow> md_deletedAt md y = None \<Longrightarrow>
      md_tenant md x = Some t \<and> md_deletedAt md x = None \<and> key y = key x \<or>
      (key y \<notin> key ` set (live_of md t (xs @ ys)))"
  shows "unique_live md key t (xs @ y # ys)"
proof (cases "md_tenant md y = Some t \<and> md_deletedAt md y = None")
  case True
  have "md_tenant md x = Some t \<and> md_deletedAt md x = None \<and> key y = key x \<or>
      (key y \<notin> key ` set (live_of md t (xs @ ys)))" by (rule assms(2)) (use True in simp_all)
  then show ?thesis
  proof
    assume "md_tenant md x = Some t \<and> md_deletedAt md x = None \<and> key y = key x"
    then show ?thesis using assms(1) True by (simp add: unique_live_def)
  next
    assume "key y \<notin> key ` set (live_of md t (xs @ ys))"
    then show ?thesis using assms(1) True by (auto simp: unique_live_def split: if_splits)
  qed
next
  case False
  then show ?thesis using assms(1) by (auto simp: unique_live_def split: if_splits)
qed

lemma unique_live_append:
  assumes "unique_live md key t rs" and "key y \<notin> key ` set (live_of md t rs)"
  shows "unique_live md key t (rs @ [y])"
  using assms by (auto simp: unique_live_def)

context tenant_repository begin

text \<open>What a deletion does.\<close>

lemma delete_row:
  assumes t: "t \<noteq> []" and run: "repo_delete (tenant_ctx t) md (extended (tenant_ctx t) md D) i s = (Inr x, s')"
  shows "\<exists>xs ys. rows s = xs @ x # ys \<and> md_id md x = i \<and> md_tenant md x = Some t \<and> rows s' = xs @ ys \<and> rest s' = rest s"
proof -
  let ?E = "extended (tenant_ctx t) md D"
  obtain e s1 where f1: "dg_findFirst ?E (scopedWhere md (where_id i) (Some t)) s = (Inr (Some e), s1)"
    and d1: "dg_delete ?E (where_id (md_id md e)) s1 = (Inr x, s')"
    using run t by (auto simp: repo_delete_def prog_elims throw_apply split: option.splits)
  have e: "s1 = s" "md_id md e = i" using findFirst_eqD[OF f1[unfolded ext_findFirst[OF t]]] t by (simp_all add: sat_scoped_id)
  show ?thesis using delete_Inr[OF d1[unfolded ext_delete[OF t]]] e by (auto simp: sat_id_tenant)
qed

lemma delete_failed:
  assumes t: "t \<noteq> []" and run: "repo_delete (tenant_ctx t) md (extended (tenant_ctx t) md D) i s = (Inl e, s')"
  shows "rows s' = rows s \<and> rest s' = rest s"
proof -
  let ?E = "extended (tenant_ctx t) md D"
  obtain r s1 where r: "dg_findFirst ?E (scopedWhere md (where_id i) (Some t)) s = (r, s1)" by force
  have s1: "s1 = s" using r findFirst_state by (metis ext_findFirst[OF t] snd_conv)
  consider (stop) "s' = s" | (del) x where "dg_delete ?E (where_id (md_id md x)) s = (Inl e, s')"
    using assms r s1 by (auto simp: repo_delete_def andThen_def of_result_def throw_apply split: sum.splits option.splits)
  then show ?thesis
  proof cases
    case del
    then show ?thesis using delete_Inl by (simp add: ext_delete t)
  qed simp
qed

text \<open>What a restoration and a deletion by id do, when ids are distinct.\<close>

lemma restore_row:
  assumes t: "t \<noteq> []" and uniq: "distinct (map (md_id md) (rows s))"
    and run: "restore (tenant_ctx t) md (extended (tenant_ctx t) md D) i f s = (r, s')"
  obtains (same) "rows s' = rows s" "rest s' = rest s"
  | (revived) xs x ys where "rows s = xs @ x # ys" "md_id md x = i" "md_tenant md x = Some t" "md_deletedAt md x \<noteq> None"
      "rows s' = xs @ md_with_deletedAt md None (f x) # ys" "rest s' = rest s"
proof -
  let ?E = "extended (tenant_ctx t) md D"
  obtain y s1 where find: "findByIdIncludingDeleted (tenant_ctx t) md ?E i s = (y, s1)" by (meson surj_pair)
  have s1: "s1 = s"
    using preservesD[OF repo_reads_preserve(2)[OF t, where g = "\<lambda>s. s"] find] by simp
  consider (stop) "s' = s"
    | (upd) e where "y = Inr (Some e)" "md_deletedAt md e \<noteq> None"
        "dg_update ?E (where_id (md_id md e)) (\<lambda>r. md_with_deletedAt md None (f r)) s = (r, s')"
    using run find s1
    by (cases y) (auto simp: restore_def andThen_def throw_apply return_apply split: option.splits if_splits)
  then show thesis
  proof cases
    case stop
    then show thesis using same by simp
  next
    case (upd e)
    have e: "e \<in> set (rows s)" "md_id md e = i" using findByIdIncludingDeleted_Some[OF t find[unfolded upd(1)]] by simp_all
    have u: "dg_update D (AList.update ''tenantId'' (Is (CStr t)) (where_id i)) (\<lambda>r. md_with_deletedAt md None (f r)) s = (r, s')"
      using upd(3) e by (simp add: ext_update t)
    show thesis
    proof (cases r)
      case (Inl err)
      then show thesis using update_Inl[OF u[unfolded Inl]] same by simp
    next
      case (Inr z)
      obtain xs x ys where row: "rows s = xs @ x # ys" "md_id md x = i" "md_tenant md x = Some t"
          "rows s' = xs @ md_with_deletedAt md None (f x) # ys" "rest s' = rest s"
        using update_Inr[OF u[unfolded Inr]] by (auto simp: sat_id_tenant)
      have "x = e" using unique_row[OF uniq, of x e] row e by simp
      then show thesis using revived row upd(2) by blast
    qed
  qed
qed

lemma softDelete_row:
  assumes t: "t \<noteq> []" and uniq: "distinct (map (md_id md) (rows s))"
    and run: "softDelete (tenant_ctx t) md (extended (tenant_ctx t) md D) now i f s = (r, s')"
  obtains (same) "rows s' = rows s" "rest s' = rest s"
  | (gone) xs x ys where "rows s = xs @ x # ys" "md_id md x = i" "md_tenant md x = Some t"
      "rows s' = xs @ md_with_deletedAt md (Some now) (f x) # ys" "rest s' = rest s"
proof -
  let ?E = "extended (tenant_ctx t) md D"
  obtain y s1 where find: "findByIdIncludingDeleted (tenant_ctx t) md ?E i s = (y, s1)" by (meson surj_pair)
  have s1: "s1 = s"
    using preservesD[OF repo_reads_preserve(2)[OF t, where g = "\<lambda>s. s"] find] by simp
  consider (stop) "s' = s"
    | (upd) e where "y = Inr (Some e)" "dg_update ?E (where_id (md_id md e)) (\<lambda>r. md_with_deletedAt md (Some now) (f r)) s = (r, s')"
    using run find s1
    by (cases y) (auto simp: softDelete_def andThen_def throw_apply return_apply split: option.splits if_splits)
  then show thesis
  proof cases
    case stop
    then show thesis using same by simp
  next
    case (upd e)
    have e: "md_id md e = i" using findByIdIncludingDeleted_Some[OF t find[unfolded upd(1)]] by simp
    have u: "dg_update D (AList.update ''tenantId'' (Is (CStr t)) (where_id i)) (\<lambda>r. md_with_deletedAt md (Some now) (f r)) s = (r, s')"
      using upd(2) e by (simp add: ext_update t)
    show thesis
    proof (cases r)
      case (Inl err)
      then show thesis using update_Inl[OF u[unfolded Inl]] same by simp
    next
      case (Inr x)
      then show thesis using update_Inr[OF u[unfolded Inr]] gone by (auto simp: sat_id_tenant)
    qed
  qed
qed

end

section \<open>A key among the rows of a tenant\<close>

locale tenant_key = tenant_repository md D rows rest
  for md :: "'r model" and D :: "('d, 'r) delegate" and rows :: "'d \<Rightarrow> 'r list" and rest :: "'d \<Rightarrow> 'o" +
  fixes key :: "'r \<Rightarrow> string" and column :: string
  assumes lives: "md_softDeletable md \<or> md_deletedAt md r = None"
    and col_key: "md_col md column r = CStr (key r)"
    and column: "column \<noteq> ''tenantId''" "column \<noteq> ''deletedAt''"
    and key_id: "key (md_with_id md i r) = key r"
    and key_tenant: "key (md_with_tenant md x r) = key r"
begin

abbreviation lookup :: "string \<Rightarrow> string \<Rightarrow> ('d, 'r list) prog" where
  "lookup t k \<equiv> findMany (tenant_ctx t) md (extended (tenant_ctx t) md D) [(column, Is (CStr k))] None None"

text \<open>A lookup returns live rows with the key, and nothing only when there is none.\<close>

lemma lookup_run:
  assumes t: "t \<noteq> []" and run: "lookup t k s = (Inr rs, s')"
  shows "s' = s" and "r \<in> set rs \<Longrightarrow> r \<in> set (live_of md t (rows s)) \<and> key r = k"
    and "rs = [] \<Longrightarrow> k \<notin> key ` set (live_of md t (rows s))"
proof -
  let ?w = "AList.update ''tenantId'' (Is (CStr t)) (scopedWhere md [(column, Is (CStr k))] (Some t))"
  have eq: "dg_findMany D ?w DEFAULT_MAX_ROWS 0 s = (Inr rs, s')"
    using t run by (simp add: findMany_def ext_findMany)
  have sat: "sat md ?w r \<longleftrightarrow> md_tenant md r = Some t \<and> md_deletedAt md r = None \<and> key r = k" for r
  proof (cases "md_softDeletable md")
    case True
    then show ?thesis using t column col_deletedAt[OF True, of r]
      by (cases "md_tenant md r") (auto simp: scopedWhere_def sat_def opt_cell_def col_key)
  next
    case False
    then show ?thesis using t column lives[of r]
      by (cases "md_tenant md r") (auto simp: scopedWhere_def sat_def opt_cell_def col_key)
  qed
  show "s' = s" using findMany_state[of ?w DEFAULT_MAX_ROWS 0 s] eq by simp
  show "r \<in> set (live_of md t (rows s)) \<and> key r = k" if "r \<in> set rs"
    using findMany_memD[OF eq that] sat[of r] by (simp add: set_live_of)
  show "k \<notin> key ` set (live_of md t (rows s))" if "rs = []"
  proof
    assume "k \<in> key ` set (live_of md t (rows s))"
    then obtain z where z: "z \<in> set (live_of md t (rows s))" "key z = k" by auto
    then have "z \<in> set rs"
      using sat[of z] eq that by (intro findMany_complete[of ?w DEFAULT_MAX_ROWS s rs]) (simp_all add: set_live_of DEFAULT_MAX_ROWS_def)
    then show False using that by simp
  qed
qed

text \<open>A lookup that finds nothing but a row that cannot be there has found nothing.\<close>

lemma lookup_own:
  assumes t: "t \<noteq> []" and run: "lookup t k s = (Inr rs, s')" and own: "\<forall>r \<in> set rs. md_id md r = i"
    and absent: "\<And>r. r \<in> set (live_of md t (rows s)) \<Longrightarrow> md_id md r = i \<Longrightarrow> key r \<noteq> k"
  shows "k \<notin> key ` set (live_of md t (rows s))"
proof (cases rs)
  case Nil
  then show ?thesis by (rule lookup_run(3)[OF t run])
next
  case (Cons r rs')
  then show ?thesis using lookup_run(2)[OF t run, of r] own absent[of r] by simp
qed

text \<open>What is kept: primary keys, and the key among the live rows of the tenant.\<close>

abbreviation keyed :: "string \<Rightarrow> 'd \<Rightarrow> bool" where
  "keyed t s \<equiv> distinct (map (md_id md) (rows s)) \<and> unique_live md key t (rows s)"

lemma create_keeps:
  assumes "t \<noteq> []" and "keyed t s" and "key d \<notin> key ` set (live_of md t (rows s))"
    and "repo_create (tenant_ctx t) md (extended (tenant_ctx t) md D) d s = (r, s')"
  shows "keyed t s'"
proof (cases r)
  case (Inl e)
  have "rows s' = rows s"
    using assms(1,4) Inl create_Inl by (auto simp: repo_create_def ext_create throw_apply split: if_splits)
  then show ?thesis using assms(2) by simp
next
  case (Inr x)
  obtain i where x: "rows s' = rows s @ [x]" "x = md_with_id md i (md_with_tenant md (Some t) (md_with_tenant md (Some t) d))"
      "\<forall>x \<in> set (rows s). md_id md x \<noteq> i"
    using create_row[OF assms(1) assms(4)[unfolded Inr]] by blast
  have "key x = key d" using x(2) by (simp add: key_id key_tenant)
  moreover have "md_id md x \<notin> md_id md ` set (rows s)" using x(2,3) by auto
  ultimately show ?thesis using unique_live_append[of md key t "rows s" x] assms(2,3) x(1) by simp
qed

lemma update_keeps:
  assumes "t \<noteq> []" and "keyed t s"
    and keep: "\<And>r. md_id md (f r) = md_id md r" "\<And>r. md_tenant md (f r) = md_tenant md r" "\<And>r. md_deletedAt md (f r) = md_deletedAt md r"
    and new: "\<And>x. x \<in> set (rows s) \<Longrightarrow> md_id md x = i \<Longrightarrow> md_tenant md x = Some t \<Longrightarrow>
      key (f x) = key x \<or> (key (f x) \<notin> key ` set (live_of md t (rows s)))"
    and "repo_update (tenant_ctx t) md (extended (tenant_ctx t) md D) i f s = (r, s')"
  shows "keyed t s'"
proof (cases r)
  case (Inl e)
  then show ?thesis using update_failed[OF assms(1) assms(7)[unfolded Inl]] assms(2) by simp
next
  case (Inr y)
  obtain xs x ys where row: "rows s = xs @ x # ys" "rows s' = xs @ f x # ys" "md_id md x = i" "md_tenant md x = Some t"
    using update_row[OF assms(1) assms(7)[unfolded Inr]] by blast
  have "key (f x) = key x \<or> (key (f x) \<notin> key ` set (live_of md t (rows s)))" by (rule new) (use row in simp_all)
  then have old: "md_tenant md x = Some t \<and> md_deletedAt md x = None \<and> key (f x) = key x \<or>
      (key (f x) \<notin> key ` set (live_of md t (xs @ ys)))" if "md_deletedAt md x = None"
    using that row(1,4) by (auto simp: set_live_of)
  have "unique_live md key t (xs @ f x # ys)"
    by (rule unique_live_replace[of md key t xs x ys]) (use assms(2) row(1) keep(3)[of x] old in simp_all)
  then show ?thesis using assms(2) keep row(1,2) by simp
qed

lemma delete_keeps:
  assumes "t \<noteq> []" and "keyed t s" and "repo_delete (tenant_ctx t) md (extended (tenant_ctx t) md D) i s = (r, s')"
  shows "keyed t s'"
proof (cases r)
  case (Inl e)
  then show ?thesis using delete_failed[OF assms(1) assms(3)[unfolded Inl]] assms(2) by simp
next
  case (Inr x)
  then obtain xs ys where "rows s = xs @ x # ys" "rows s' = xs @ ys"
    using delete_row[OF assms(1) assms(3)[unfolded Inr]] by blast
  then show ?thesis using assms(2) by (auto simp: unique_live_def split: if_splits)
qed

end

section \<open>A key among live rows of a model with soft deletion\<close>

locale live_key = tenant_key md D rows rest key column
  for md :: "'r model" and D :: "('d, 'r) delegate" and rows :: "'d \<Rightarrow> 'r list" and rest :: "'d \<Rightarrow> 'o"
    and key :: "'r \<Rightarrow> string" and column :: string +
  assumes soft: "md_softDeletable md"
    and key_deletedAt: "key (md_with_deletedAt md z r) = key r"
begin

lemma softDelete_keeps:
  assumes "t \<noteq> []" and "keyed t s"
    and "softDelete (tenant_ctx t) md (extended (tenant_ctx t) md D) now i (\<lambda>r. r) s = (r, s')"
  shows "keyed t s'"
proof -
  have ids: "distinct (map (md_id md) (rows s))" using assms(2) by simp
  show ?thesis
    using assms(1) ids assms(3)
  proof (cases rule: softDelete_row)
    case same
    then show ?thesis using assms(2) by simp
  next
    case (gone xs x ys)
    have "unique_live md key t (rows s')" unfolding gone(4)
      by (rule unique_live_replace[of md key t xs x ys]) (use assms(2) gone(1) soft in simp_all)
    then show ?thesis using assms(2) gone(1,4) by simp
  qed
qed

lemma restore_keeps:
  assumes "t \<noteq> []" and "keyed t s"
    and free: "\<And>x. x \<in> set (rows s) \<Longrightarrow> md_id md x = i \<Longrightarrow> md_tenant md x = Some t \<Longrightarrow> md_deletedAt md x \<noteq> None \<Longrightarrow>
      key x \<notin> key ` set (live_of md t (rows s))"
    and "restore (tenant_ctx t) md (extended (tenant_ctx t) md D) i (\<lambda>r. r) s = (r, s')"
  shows "keyed t s'"
proof -
  have ids: "distinct (map (md_id md) (rows s))" using assms(2) by simp
  show ?thesis
    using assms(1) ids assms(4)
  proof (cases rule: restore_row)
    case same
    then show ?thesis using assms(2) by simp
  next
    case (revived xs x ys)
    have new: "key x \<notin> key ` set (live_of md t (rows s))" by (rule free) (use revived in simp_all)
    have "unique_live md key t (rows s')" unfolding revived(5)
      by (rule unique_live_replace[of md key t xs x ys]) (use assms(2) revived(1) new in \<open>auto simp: key_deletedAt split: if_splits\<close>)
    then show ?thesis using assms(2) revived(1,5) by simp
  qed
qed

end

sublocale prisma_client \<subseteq> email: live_key customer_model "px_customer P" "\<lambda>d. t_customers (T d)" "\<lambda>d. (T d)\<lparr>t_customers := []\<rparr>"
    cu_email "''email''"
  by unfold_locales (simp_all add: customer_model_def customer_col_def)

sublocale prisma_client \<subseteq> pushToken: tenant_key deviceToken_model "px_deviceToken P" "\<lambda>d. t_deviceTokens (T d)" "\<lambda>d. (T d)\<lparr>t_deviceTokens := []\<rparr>"
    dt_token "''token''"
  by unfold_locales (simp_all add: deviceToken_model_def deviceToken_col_def)

sublocale prisma_client \<subseteq> qrToken: live_key dining_table_model "px_table P" "\<lambda>d. t_diningTables (T d)" "\<lambda>d. (T d)\<lparr>t_diningTables := []\<rparr>"
    tb_qrCodeToken "''qrCodeToken''"
  by unfold_locales (simp_all add: dining_table_model_def dining_table_col_def)

end
