(* ===== verification/Branch_Correct.thy ===== *)
theory Branch_Correct
  imports Branch_Service Live_Keys Order_Lifecycle
begin

text \<open>
  The deletion of a branch: its loop over the tables ends, whatever the database answers, because
  every full batch leaves fewer live tables; and it is all or nothing. Ids are primary keys.
\<close>

section \<open>The cascade\<close>

text \<open>The live tables of a branch, closed at \<open>now\<close>.\<close>

definition live_table :: "string \<Rightarrow> string \<Rightarrow> dining_table \<Rightarrow> bool" where
  "live_table t b x \<longleftrightarrow> tb_branchId x = b \<and> tb_tenantId x = Some t \<and> tb_deletedAt x = None"

definition tables_closed :: "int \<Rightarrow> string \<Rightarrow> string \<Rightarrow> dining_table list \<Rightarrow> dining_table list" where
  "tables_closed now t b rs = map (\<lambda>x. if live_table t b x then x\<lparr>tb_deletedAt := Some now\<rparr> else x) rs"

lemma sat_cascade:
  "sat dining_table_model (AList.update ''tenantId'' (Is (CStr t)) (cascadeWhere i (Some t))) r \<longleftrightarrow> live_table t i r"
  by (cases "tb_tenantId r"; cases "tb_deletedAt r")
    (simp_all add: live_table_def cascadeWhere_def sat_def dining_table_model_def dining_table_col_def opt_cell_def date_cell_def)

sublocale prisma_client \<subseteq> tableCascade: cascading dining_table_model "px_table P" "\<lambda>d. t_diningTables (T d)" "\<lambda>d. (T d)\<lparr>t_diningTables := []\<rparr>"
    t "cascadeWhere i (Some t)" "tb_deletedAt_update (\<lambda>_. Some now)" "live_table t i"
  for t i now
  by unfold_locales (simp_all add: sat_cascade, simp_all add: live_table_def)

context prisma_client begin

text \<open>The loop ends, and when no query failed the tables of the branch are closed and nothing else changed.\<close>

lemma cascadeTables_ends:
  assumes "t \<noteq> []" and "distinct (map tb_id (t_diningTables (T d)))"
  obtains r d' where "cascadeTables P (tenant_ctx t) now i (Some t) d = Some (r, d')"
    "r = Inr () \<Longrightarrow> T d' = (T d)\<lparr>t_diningTables := tables_closed now t i (t_diningTables (T d))\<rparr>"
proof -
  obtain r d' where loop: "cascadeTables P (tenant_ctx t) now i (Some t) d = Some (r, d')"
    and ok: "r = Inr () \<Longrightarrow> t_diningTables (T d') = tables_closed now t i (t_diningTables (T d)) \<and>
      (T d')\<lparr>t_diningTables := []\<rparr> = (T d)\<lparr>t_diningTables := []\<rparr>"
    using tableCascade.cascadeLoop_ends[OF assms(1), of d i now] assms(2) by (auto simp: cascadeTables_def tables_closed_def)
  show thesis
  proof (rule that[OF loop])
    assume "r = Inr ()"
    then show "T d' = (T d)\<lparr>t_diningTables := tables_closed now t i (t_diningTables (T d))\<rparr>"
      using ok diningTables_only[of "T d'" "T d"] by simp
  qed
qed

end

section \<open>Deleting a branch\<close>

definition open_orders :: "(order \<Rightarrow> bool) \<Rightarrow> string \<Rightarrow> order list \<Rightarrow> order list" where
  "open_orders Q t rs = filter (\<lambda>x. Q x \<and> od_tenantId x = Some t \<and> od_status x \<in> set ACTIVE_ORDER_STATUSES) rs"

lemma show_status_inj: "show_status x = show_status y \<longleftrightarrow> x = y"
  by (cases x; cases y) simp_all

text \<open>The tables of the database after the branch with an id was deleted.\<close>

definition branch_deleted :: "int \<Rightarrow> string \<Rightarrow> string \<Rightarrow> tables \<Rightarrow> tables \<Rightarrow> bool" where
  "branch_deleted now t i X X' \<longleftrightarrow> (\<exists>xs b ys. t_branches X = xs @ b # ys \<and> br_id b = i \<and> br_tenantId b = Some t \<and>
     X' = X\<lparr>t_branches := xs @ b\<lparr>br_deletedAt := Some now, br_isActive := False\<rparr> # ys,
            t_diningTables := tables_closed now t i (t_diningTables X)\<rparr>)"

context prisma_client begin

lemma countActiveOrders_value:
  assumes "t \<noteq> []" and "countActiveOrders P (tenant_ctx t) b tb (Some t) d = (Inr n, d')"
  shows "d' = d \<and> n = length (open_orders (\<lambda>x. (truthy b \<longrightarrow> Some (od_branchId x) = b) \<and> (truthy tb \<longrightarrow> od_tableId x = tb)) t (t_orders (T d)))"
proof -
  let ?w = "AList.update ''tenantId'' (Is (CStr t)) ((if truthy b then [(''branchId'', Is (opt_cell b))] else []) @
        (if truthy tb then [(''tableId'', Is (opt_cell tb))] else []) @
        [(''tenantId'', Is (opt_cell (Some t))), (''status'', OneOf (map (\<lambda>s. CStr (show_status s)) ACTIVE_ORDER_STATUSES))])"
  have run: "dg_count (px_order P) ?w d = (Inr n, d')"
    using assms by (simp add: countActiveOrders_def orders.ext_count)
  have "sat order_model ?w x \<longleftrightarrow> ((truthy b \<longrightarrow> Some (od_branchId x) = b) \<and> (truthy tb \<longrightarrow> od_tableId x = tb)) \<and>
      od_tenantId x = Some t \<and> od_status x \<in> set ACTIVE_ORDER_STATUSES" for x
    by (cases b; cases tb; cases "od_tenantId x"; cases "od_tableId x")
      (auto simp: sat_def order_model_def order_col_def opt_cell_def image_iff show_status_inj)
  then have "filter (sat order_model ?w) (t_orders (T d)) =
      open_orders (\<lambda>x. (truthy b \<longrightarrow> Some (od_branchId x) = b) \<and> (truthy tb \<longrightarrow> od_tableId x = tb)) t (t_orders (T d))"
    unfolding open_orders_def by (intro filter_cong refl)
  then show ?thesis using orders.count_state[of ?w d] orders.count_value[of ?w d n] run by simp
qed

lemma cascade_run:
  assumes "t \<noteq> []" and "distinct (map tb_id (t_diningTables (T d)))"
  obtains r d' where "cascade P (tenant_ctx t) now i (Some t) d = Some (r, d')"
    "r = Inr () \<Longrightarrow> branch_deleted now t i (T d) (T d')"
proof -
  obtain r1 d1 where loop: "cascadeTables P (tenant_ctx t) now i (Some t) d = Some (r1, d1)"
    and closed: "r1 = Inr () \<Longrightarrow> T d1 = (T d)\<lparr>t_diningTables := tables_closed now t i (t_diningTables (T d))\<rparr>"
    using cascadeTables_ends[OF assms] by blast
  show thesis
  proof (cases r1)
    case (Inl e)
    then show thesis using loop by (intro that[of "Inl e" d1]) (simp_all add: cascade_def)
  next
    case (Inr u)
    let ?g = "\<lambda>b :: branch. b\<lparr>br_deletedAt := Some now, br_isActive := False\<rparr>"
    let ?m = "andThen (dg_update (branchRepo P (tenant_ctx t)) (where_id i) ?g) (\<lambda>_. return ())"
    obtain r d' where run: "?m d1 = (r, d')" by (meson surj_pair)
    have "branch_deleted now t i (T d) (T d')" if ok: "r = Inr ()"
    proof -
      obtain x where upd: "dg_update (px_branch P) (AList.update ''tenantId'' (Is (CStr t)) (where_id i)) ?g d1 = (Inr x, d')"
        using run[unfolded ok branches.ext_update[OF assms(1)]] by (elim andThen_InrE return_InrE) simp
      obtain xs b ys where rows: "t_branches (T d1) = xs @ b # ys" "t_branches (T d') = xs @ ?g b # ys"
          "(T d')\<lparr>t_branches := []\<rparr> = (T d1)\<lparr>t_branches := []\<rparr>"
        and sat: "sat branch_model (AList.update ''tenantId'' (Is (CStr t)) (where_id i)) b"
        using branches.update_Inr[OF upd] by blast
      have b: "br_id b = i \<and> br_tenantId b = Some t" using sat branches.sat_id_tenant[of t i b] by simp
      show ?thesis unfolding branch_deleted_def
        by (intro exI[of _ xs] exI[of _ b] exI[of _ ys]) (use b rows branches_only[OF rows(3)] closed Inr in simp)
    qed
    then show thesis using loop Inr run by (intro that[of r d']) (simp_all add: cascade_def)
  qed
qed

lemma deleteBranch_run:
  assumes "t \<noteq> []" "i \<noteq> []" and "distinct (map tb_id (t_diningTables (T d)))"
  obtains r d' where "deleteBranch P (tenant_ctx t) now i d = Some (r, d')"
    "\<And>e. r = Inl e \<Longrightarrow> T d' = T d"
    "\<And>j. r = Inr j \<Longrightarrow> j = i \<and> open_orders (\<lambda>x. od_branchId x = i) t (t_orders (T d)) = [] \<and> branch_deleted now t i (T d) (T d')"
proof -
  let ?c = "tenant_ctx t"
  let ?m = "andThen (findById ?c branch_model (branchRepo P ?c) i) (\<lambda>existing. case existing of
             None \<Rightarrow> throw (requested ''Branch'' i)
           | Some b \<Rightarrow> andThen (countActiveOrders P ?c (Some i) None (br_tenantId b)) (\<lambda>activeOrders.
               if 0 < activeOrders then throw (in_progress ''branch'' activeOrders) else return b))"
  obtain y d1 where m: "?m d = (y, d1)" by (meson surj_pair)
  have reads: "preserves (\<lambda>d. d) ?m"
    by (auto simp: countActiveOrders_def intro!: preserves_intros branches.repo_reads_preserve orders.ext_read_others assms(1))
  have d1: "d1 = d" using preservesD[OF reads m] by simp
  show thesis
  proof (cases y)
    case (Inl e)
    then show thesis using m d1 by (intro that[of "Inl e" d]) (simp_all add: deleteBranch_def)
  next
    case (Inr b)
    obtain d2 n where find: "findById ?c branch_model (branchRepo P ?c) i d = (Inr (Some b), d2)"
      and count: "countActiveOrders P ?c (Some i) None (br_tenantId b) d2 = (Inr n, d1)" and n: "n = 0"
      using m Inr by (auto simp: throw_def return_def elim!: andThen_InrE split: option.splits if_splits)
    have b: "d2 = d" "br_tenantId b = Some t" using branches.findById_Some[OF assms(1) find] by auto
    have none: "open_orders (\<lambda>x. od_branchId x = i) t (t_orders (T d)) = []"
      using countActiveOrders_value[OF assms(1) count[unfolded b]] n assms(2) by simp
    obtain r2 d3 where body: "cascade P ?c now i (Some t) d = Some (r2, d3)"
        "r2 = Inr () \<Longrightarrow> branch_deleted now t i (T d) (T d3)"
      using cascade_run[OF assms(1,3)] by blast
    obtain r d' where tx: "transaction P (\<lambda>_. (r2, d3)) d = (r, d')" by (meson surj_pair)
    have del: "deleteBranch P ?c now i d = Some (case r of Inl e \<Rightarrow> Inl e | Inr u \<Rightarrow> Inr i, d')"
      using m d1 Inr b(2) body(1) tx by (simp add: deleteBranch_def andThen_def return_def split: sum.split)
    show thesis
    proof (cases r)
      case (Inl e)
      then show thesis using del transaction_Inl[OF tx[unfolded Inl]] by (intro that[of "Inl e" d']) simp_all
    next
      case (Inr u)
      have "r2 = Inr ()" "T d' = T d3" using transaction_Inr[OF tx[unfolded Inr]] by auto
      then show thesis using del Inr body(2) none by (intro that[of "Inr i" d']) simp_all
    qed
  qed
qed

end

section \<open>The branches of a plan\<close>

text \<open>\<^verbatim>\<open>POST branches\<close> and \<^verbatim>\<open>POST branches/:id/restore\<close> of \<^verbatim>\<open>branch.controller.ts\<close>, from its subscription guard
  on: only the first has a check.\<close>

definition post_branches :: "'d prisma \<Rightarrow> ctx \<Rightarrow> subscriptionRequest \<Rightarrow> int \<Rightarrow> CreateBranchRequestDto \<Rightarrow> ('d, branch) prog" where
  "post_branches P c request now dto =
     andThen (subscriptionGuard P c (Some BranchCheck) request) (\<lambda>_. createBranch P c now dto)"

definition post_branch_restore :: "'d prisma \<Rightarrow> ctx \<Rightarrow> subscriptionRequest \<Rightarrow> string \<Rightarrow> ('d, string) prog" where
  "post_branch_restore P c request i =
     andThen (subscriptionGuard P c None request) (\<lambda>_. restoreBranch P c i)"

definition live_branches :: "string \<Rightarrow> tables \<Rightarrow> nat" where
  "live_branches t X = length (live_of branch_model t (t_branches X))"

lemma branch_deletedAt [simp]: "md_deletedAt branch_model = br_deletedAt"
  by (simp add: branch_model_def)

context prisma_client begin

lemma branchGuard_tenant:
  assumes "t \<noteq> []" and "guardTenant request = Some t" and "subscriptionGuard P (tenant_ctx t) (Some BranchCheck) request d = (Inr y, d')"
  shows "d' = d \<and> (\<exists>sub plan. in_good_standing (T d) t sub \<and> snd sub = Some plan \<and> int (live_branches t (T d)) < sp_maxBranches plan)"
proof -
  obtain sub d1 z where check: "checkSubscriptionStatus P (tenant_ctx t) t d = (Inr sub, d1)"
    and limit: "checkBranchLimit P (tenant_ctx t) t d1 = (Inr z, d')"
    using assms by (auto simp: subscriptionGuard_def Let_def runCheck_def return_def elim!: andThen_InrE)
  have "d1 = d" using checkSubscriptionStatus_tenant[OF assms(1) check] by simp
  then show ?thesis using checkBranchLimit_tenant[OF assms(1) limit] by (simp add: live_branches_def)
qed

lemma post_branches_run:
  assumes "t \<noteq> []" and "guardTenant request = Some t" and "post_branches P (tenant_ctx t) request now dto d = (Inr b, d')"
  shows "\<exists>sub plan. in_good_standing (T d) t sub \<and> snd sub = Some plan \<and> int (live_branches t (T d')) \<le> sp_maxBranches plan"
    and "live_branches t (T d') = Suc (live_branches t (T d))"
proof -
  obtain y d1 where grd: "subscriptionGuard P (tenant_ctx t) (Some BranchCheck) request d = (Inr y, d1)"
    and create: "createBranch P (tenant_ctx t) now dto d1 = (Inr b, d')"
    using assms(3) by (auto simp: post_branches_def elim: andThen_InrE)
  note ok = branchGuard_tenant[OF assms(1,2) grd]
  obtain r d2 where find: "findById (tenant_ctx t) restaurant_model (extended (tenant_ctx t) restaurant_model (px_restaurant P)) (bd_restaurantId dto) d = (Inr (Some r), d2)"
    and row: "repo_create (tenant_ctx t) branch_model (branchRepo P (tenant_ctx t))
       \<lparr>br_id = [], br_tenantId = None, br_restaurantId = bd_restaurantId dto, br_name = bd_name dto,
        br_address = bd_address dto, br_latitude = bd_latitude dto, br_longitude = bd_longitude dto,
        br_phoneNumber = bd_phoneNumber dto, br_operatingHours = bd_operatingHours dto, br_isActive = True,
        br_createdAt = now, br_updatedAt = now, br_deletedAt = None\<rparr> d2 = (Inr b, d')"
    using create ok by (auto simp: createBranch_def throw_def elim!: andThen_InrE split: option.splits)
  have d2: "d2 = d" using restaurants.findById_Some[OF assms(1) find] by simp
  have "t_branches (T d') = t_branches (T d) @ [b]" "br_tenantId b = Some t" "br_deletedAt b = None"
    using branches.create_row[OF assms(1) row] d2 by (auto simp: branch_model_def)
  then show *: "live_branches t (T d') = Suc (live_branches t (T d))" by (simp add: live_branches_def)
  show "\<exists>sub plan. in_good_standing (T d) t sub \<and> snd sub = Some plan \<and> int (live_branches t (T d')) \<le> sp_maxBranches plan"
  proof -
    obtain sub plan where "in_good_standing (T d) t sub" "snd sub = Some plan" "int (live_branches t (T d)) < sp_maxBranches plan"
      using ok by blast
    then show ?thesis by (intro exI[of _ sub] exI[of _ plan]) (simp add: *)
  qed
qed

text \<open>A restoration is not checked: an archived branch is one more live branch.\<close>

lemma post_branch_restore_run:
  assumes t: "t \<noteq> []" and uniq: "distinct (map br_id (t_branches (T d)))"
    and gone: "b \<in> set (t_branches (T d))" "br_id b = i" "br_deletedAt b \<noteq> None"
    and run: "post_branch_restore P (tenant_ctx t) request i d = (Inr j, d')"
  shows "live_branches t (T d') = Suc (live_branches t (T d))"
proof -
  let ?c = "tenant_ctx t"
  obtain e d1 z where find: "findByIdIncludingDeleted ?c branch_model (branchRepo P ?c) i d = (Inr (Some e), d1)"
    and res: "restore ?c branch_model (branchRepo P ?c) i (br_isActive_update (\<lambda>_. True)) d1 = (z, d')"
    and z: "\<exists>r. z = Inr r"
    using run by (auto simp: post_branch_restore_def subscriptionGuard_def restoreBranch_def throw_def return_def elim!: andThen_InrE split: option.splits)
  have e: "e \<in> set (t_branches (T d))" "br_id e = i" "d1 = d" "br_tenantId e = Some t"
    using branches.findByIdIncludingDeleted_Some[OF t find] by simp_all
  have eb: "e = b" using branches.unique_row[of "t_branches (T d)" e b] uniq e gone by simp
  have uniq': "distinct (map (md_id branch_model) (t_branches (T d)))" using uniq by simp
  show ?thesis
    using t uniq' res[unfolded e(3)]
  proof (cases rule: branches.restore_row)
    case same
    obtain r where r: "z = Inr r" using z by blast
    have upd: "dg_update (px_branch P) (AList.update ''tenantId'' (Is (CStr t)) (where_id i))
        (\<lambda>r. md_with_deletedAt branch_model None (br_isActive_update (\<lambda>_. True) r)) d = (Inr r, d')"
      using res find e(2,3) eb gone(3) r by (simp add: restore_def andThen_def branches.ext_update[OF t])
    obtain xs x ys where "t_branches (T d) = xs @ x # ys" "br_id x = i"
        "t_branches (T d') = xs @ md_with_deletedAt branch_model None (br_isActive_update (\<lambda>_. True) x) # ys"
      using branches.update_Inr[OF upd] by (auto simp: branches.sat_id_tenant)
    then have "x = b" "x = md_with_deletedAt branch_model None (br_isActive_update (\<lambda>_. True) x)"
      using same(1) branches.unique_row[of "t_branches (T d)" x b] uniq gone by simp_all
    then show ?thesis using gone(3) by (metis branch.select_convs(13) branch.surjective branch.update_convs(13) branch_deletedAt branches.deletedAt_with_deletedAt branch_model_simps(1))
  next
    case (revived xs x ys)
    then show ?thesis by (simp add: live_branches_def branch_model_def)
  qed
qed

section \<open>The tokens of live tables\<close>

abbreviation tokened :: "string \<Rightarrow> 'd \<Rightarrow> bool" where
  "tokened t d \<equiv> distinct (map tb_id (t_diningTables (T d))) \<and> unique_live dining_table_model tb_qrCodeToken t (t_diningTables (T d))"

lemma table_deletedAt [simp]: "md_deletedAt dining_table_model = tb_deletedAt"
  by (simp add: dining_table_model_def)

lemma findByQrCodeToken_None:
  assumes "t \<noteq> []" "findByQrCodeToken P (tenant_ctx t) q d = (Inr None, d')"
  shows "q \<notin> tb_qrCodeToken ` set (live_of dining_table_model t (t_diningTables (T d)))"
proof -
  have run: "dg_findFirst (px_table P) [(''qrCodeToken'', Is (CStr q)), (''tenantId'', Is (CStr t)), (''deletedAt'', Is CNull)] d = (Inr None, d')"
    using assms by (simp add: findByQrCodeToken_def diningTables.ext_findFirst opt_cell_def)
  show ?thesis
  proof
    assume "q \<in> tb_qrCodeToken ` set (live_of dining_table_model t (t_diningTables (T d)))"
    then obtain x where x: "x \<in> set (t_diningTables (T d))" "tb_tenantId x = Some t" "tb_deletedAt x = None" "tb_qrCodeToken x = q"
      by (auto simp: set_live_of)
    then show False using diningTables.findFirst_None[of "[(''qrCodeToken'', Is (CStr q)), (''tenantId'', Is (CStr t)), (''deletedAt'', Is CNull)]" d x] run
      by (simp add: sat_qr)
  qed
qed

lemma restoreTable_keeps:
  assumes t: "t \<noteq> []"
  shows "keeps (tokened t) (restoreTable P (tenant_ctx t) i)"
  unfolding restoreTable_def
proof (rule keeps_found[OF diningTables.repo_reads_preserve(2)[OF t]])
  fix tb :: dining_table and s r s'
  let ?c = "tenant_ctx t"
  let ?res = "restore ?c dining_table_model (tableRepo P ?c) i (\<lambda>r. r)"
  let ?refuse = "throw (ConflictException (''Table number ['' @ tb_number tb @
               ''] has already been recreated at this branch. Delete the replacement before restoring this record.''))"
  assume found: "findByIdIncludingDeleted ?c dining_table_model (tableRepo P ?c) i s = (Inr (Some tb), s)" and I: "tokened t s"
    and run: "andThen (findById ?c branch_model (branchRepo P ?c) (tb_branchId tb)) (\<lambda>branch. case branch of
           None \<Rightarrow> throw (ConflictException ''This table cannot be restored because its branch is deleted. Restore the branch first.'')
         | Some _ \<Rightarrow> andThen (findByQrCodeToken P ?c (tb_qrCodeToken tb)) (\<lambda>conflict.
             if (case conflict of None \<Rightarrow> False | Some x \<Rightarrow> tb_id x \<noteq> i) then ?refuse else andThen ?res (\<lambda>_. return i))) s = (r, s')"
  have tb: "tb \<in> set (t_diningTables (T s))" "tb_id tb = i" using diningTables.findByIdIncludingDeleted_Some[OF t found] by simp_all
  have same: "x = tb" if "x \<in> set (t_diningTables (T s))" "tb_id x = i" for x
    using diningTables.unique_row[of "t_diningTables (T s)" x tb] I tb that by simp
  obtain y s1 where look: "findById ?c branch_model (branchRepo P ?c) (tb_branchId tb) s = (y, s1)" by (meson surj_pair)
  have s1: "s1 = s" using preservesD[OF branches.repo_reads_preserve(1)[OF t, where g = "\<lambda>s. s"] look] by simp
  obtain z s2 where qr: "findByQrCodeToken P ?c (tb_qrCodeToken tb) s = (z, s2)" by (meson surj_pair)
  have "preserves (\<lambda>s. s) (findByQrCodeToken P ?c (tb_qrCodeToken tb))"
    by (auto simp: findByQrCodeToken_def intro!: preserves_intros diningTables.ext_read_others t)
  then have s2: "s2 = s" using qr by (auto dest: preservesD)
  show "tokened t s'"
  proof (cases "(\<exists>b. y = Inr (Some b)) \<and> (z = Inr None \<or> (\<exists>x. z = Inr (Some x) \<and> tb_id x = i))")
    case False
    then have "s' = s" using run look s1 qr s2 by (auto simp: andThen_def throw_def split: sum.splits option.splits if_splits)
    then show ?thesis using I by simp
  next
    case True
    then obtain w where res: "?res s = (w, s')"
      using run look s1 qr s2 by (auto simp: andThen_def return_def split: prod.splits sum.splits)
    have "tb_qrCodeToken tb \<notin> tb_qrCodeToken ` set (live_of dining_table_model t (t_diningTables (T s)))" if "tb_deletedAt tb \<noteq> None"
    proof (cases "z = Inr None")
      case True
      then show ?thesis using findByQrCodeToken_None[OF t qr[unfolded True]] by simp
    next
      case False
      then obtain x where "z = Inr (Some x)" "tb_id x = i" using True by auto
      then show ?thesis using findByQrCodeToken_Some[OF t qr[unfolded \<open>z = Inr (Some x)\<close>]] same[of x] that by simp
    qed
    then show ?thesis using qrToken.restore_keeps[OF t _ _ res] I same by auto
  qed
qed

end

end
