(* ===== verification/Billing_Properties.thy ===== *)
theory Billing_Properties
  imports Billing_Service Branch_Correct Access_Properties
begin

text \<open>
  Properties of the billing: the limits of the plan a tenant has subscribed to, and what the events
  by which Stripe reports on its subscription do.
\<close>

section \<open>The limit on branches\<close>

text \<open>C22. The limit is kept where it is checked, and only there: a branch is created by \<^verbatim>\<open>POST branches\<close> only
  for a tenant whose newest subscription and whose own status are not blocked, and the tenant then
  has at most as many live branches as the plan allows; the restoration of an archived branch, which
  no check guards, adds a live branch whatever the plan says.\<close>

theorem branch_limit_kept_by_creation_only:
  assumes "prisma_client P T" "t \<noteq> []" "guardTenant request = Some t"
  shows "(post_branches P (tenant_ctx t) request now dto d = (Inr b, d') \<longrightarrow>
      live_branches t (T d') = Suc (live_branches t (T d)) \<and>
      (\<exists>sub plan. in_good_standing (T d) t sub \<and> snd sub = Some plan \<and> int (live_branches t (T d')) \<le> sp_maxBranches plan)) \<and>
    (post_branch_restore P (tenant_ctx t) request i d = (Inr j, d') \<and> distinct (map br_id (t_branches (T d))) \<and>
      (\<exists>b \<in> set (t_branches (T d)). br_id b = i \<and> br_deletedAt b \<noteq> None) \<longrightarrow>
      live_branches t (T d') = Suc (live_branches t (T d)))"
  using prisma_client.post_branches_run[OF assms] prisma_client.post_branch_restore_run[OF assms(1,2)] by blast

definition sample_branches :: tables where
  "sample_branches = sample_tables\<lparr>t_branches := [sample_branch, sample_branch\<lparr>br_id := ''b2''\<rparr>,
     sample_branch\<lparr>br_id := ''b3'', br_deletedAt := Some 5\<rparr>]\<rparr>"

definition sample_guarded :: subscriptionRequest where
  "sample_guarded = \<lparr>sr_userTenantId = Some ''t1'', sr_tenantId = None, sr_bodyBranchId = None, sr_queryBranchId = None\<rparr>"

definition sample_branch_dto :: CreateBranchRequestDto where
  "sample_branch_dto = \<lparr>bd_restaurantId = ''r1'', bd_name = ''New'', bd_address = ''Lane'', bd_latitude = None, bd_longitude = None,
     bd_phoneNumber = ''2'', bd_operatingHours = ''all''\<rparr>"

theorem branch_limit_kept_by_creation_only_witness:
  "(\<exists>b d'. post_branches mem_prisma (tenant_ctx ''t1'') sample_guarded 9 sample_branch_dto sample_tables = (Inr b, d') \<and>
      live_branches ''t1'' d' = 2 \<and> (\<exists>sub plan. in_good_standing sample_tables ''t1'' sub \<and> snd sub = Some plan \<and> 2 \<le> sp_maxBranches plan)) \<and>
   (\<exists>e d'. post_branches mem_prisma (tenant_ctx ''t1'') sample_guarded 9 sample_branch_dto sample_branches = (Inl e, d')) \<and>
   (\<exists>j d'. post_branch_restore mem_prisma (tenant_ctx ''t1'') sample_guarded ''b3'' sample_branches = (Inr j, d') \<and>
      live_branches ''t1'' d' = 3) \<and> sp_maxBranches sample_plan = 2"
proof -
  let ?post = "post_branches mem_prisma (tenant_ctx ''t1'') sample_guarded 9 sample_branch_dto"
  let ?restore = "post_branch_restore mem_prisma (tenant_ctx ''t1'') sample_guarded ''b3''"
  have "case fst (?post sample_tables) of Inl e \<Rightarrow> False | Inr b \<Rightarrow> True" by code_simp
  then obtain b d1 where post: "?post sample_tables = (Inr b, d1)" by (cases "?post sample_tables") (auto split: sum.splits)
  have "case fst (?post sample_branches) of Inl e \<Rightarrow> True | Inr b \<Rightarrow> False" by code_simp
  then have refused: "\<exists>e d'. ?post sample_branches = (Inl e, d')" by (cases "?post sample_branches") (auto split: sum.splits)
  have "case fst (?restore sample_branches) of Inl e \<Rightarrow> False | Inr b \<Rightarrow> True" by code_simp
  then obtain j d2 where restore: "?restore sample_branches = (Inr j, d2)" by (cases "?restore sample_branches") (auto split: sum.splits)
  have "guardTenant sample_guarded = Some ''t1''" by (simp add: guardTenant_def sample_guarded_def)
  note both = branch_limit_kept_by_creation_only[OF mem.prisma_client_axioms _ this]
  have "live_branches ''t1'' sample_tables = 1" "live_branches ''t1'' sample_branches = 2"
    by (simp_all add: live_branches_def sample_branches_def sample_tables_def sample_branch_def branch_model_def)
  moreover have "distinct (map br_id (t_branches sample_branches))"
    "\<exists>b \<in> set (t_branches sample_branches). br_id b = ''b3'' \<and> br_deletedAt b \<noteq> None"
    by (simp_all add: sample_branches_def sample_branch_def)
  ultimately have n: "live_branches ''t1'' d1 = 2" "live_branches ''t1'' d2 = 3"
    using mp[OF conjunct1[OF both] post] both restore by simp_all
  have "\<exists>sub plan. in_good_standing sample_tables ''t1'' sub \<and> snd sub = Some plan \<and> int (live_branches ''t1'' d1) \<le> sp_maxBranches plan"
    by (rule conjunct2[OF mp[OF conjunct1[OF both] post]]) simp
  then have "\<exists>sub plan. in_good_standing sample_tables ''t1'' sub \<and> snd sub = Some plan \<and> 2 \<le> sp_maxBranches plan" by (simp add: n)
  moreover have "sp_maxBranches sample_plan = 2" by (simp add: sample_plan_def)
  ultimately show ?thesis using post refused restore n by blast
qed

section \<open>What Stripe reports\<close>


definition sample_stripeObject :: stripeObject where
  "sample_stripeObject = \<lparr>so_object = Some ''invoice'', so_id = Some ''in1'', so_customer = Some ''cus1'', so_subscription = None,
     so_metadataTenantId = None, so_status = None, so_current_period_start = None, so_current_period_end = None,
     so_cancel_at_period_end = None, so_canceled_at = None\<rparr>"

definition sample_stripeEvent :: stripeEvent where
  "sample_stripeEvent = \<lparr>se_type = Some ''invoice.payment_failed'', se_id = Some ''evt1'', se_object = Some sample_stripeObject\<rparr>"

definition sample_billing :: billingEnv where
  "sample_billing = \<lparr>be_now = 0, be_STRIPE_SECRET_KEY = None, be_STRIPE_WEBHOOK_SECRET = Some ''whsec'',
     be_stripe_session = (\<lambda>_ _. Inl (JsError ''offline'')),
     be_stripe_constructEvent = (\<lambda>body sig key. if sig = key then Inr sample_stripeEvent else Inl (JsError ''bad signature'')),
     be_parseEvent = (\<lambda>_. Inl (JsError ''bad JSON'')), be_random36 = (\<lambda>_. ''x'')\<rparr>"

definition sample_billed :: "(mem_store, tables world) site" where
  "sample_billed = sample_site\<lparr>st_world := sample_world\<lparr>w_db := sample_tables\<lparr>t_tenants :=
     [(sample_tenant ''t1'')\<lparr>tn_stripeCustomerId := Some ''cus1''\<rparr>]\<rparr>\<rparr>\<rparr>"

definition owner_ctx :: ctx where
  "owner_ctx = Some \<lparr>tc_tenantId = None, tc_isPlatformOwner = True\<rparr>"


text \<open>Events sent by Stripe itself are not applied: in the context the middleware gives a request
  that does not carry the token of a platform owner, an event about a subscription or an invoice leaves
  every table and the messages as they were, since the tenant-scoped client refuses the update in
  the transaction and the error is swallowed; the answer says that the event was processed all the
  same, and a delivery that is repeated is taken for a duplicate.\<close>

theorem stripe_event_lost:
  assumes "prisma_client P T" "tenantContext_use P R env req s0 = (Inr (c, rt), s)"
    and "\<not> isPlatformOwnerToken env (rq_authorization req)"
    and "se_type event \<notin> {Some ''checkout.session.completed'', Some ''customer.subscription.trial_will_end''}"
    and "handleStripeWebhook P R now c event s = (r, s')"
  shows "T (w_db (st_world s')) = T (w_db (st_world s)) \<and> w_out (st_world s') = w_out (st_world s)"
  using prisma_client.handleStripeWebhook_cases[OF assms(1,5,4)] tenantContext_confined[OF assms(2,3)]
  by (auto simp: all_or_nothing_def)

definition sample_stripeRequest :: httpRequest where
  "sample_stripeRequest = \<lparr>rq_host = Some ''t1.zayjar.com'', rq_authorization = None, rq_xTenantId = None\<rparr>"

theorem stripe_event_lost_witness:
  "\<exists>c rt s res s' s''. tenantContext_use mem_prisma mem_redis (sample_auth 0) sample_stripeRequest sample_billed = (Inr (c, rt), s) \<and>
     handleStripeWebhook mem_prisma mem_redis 0 c sample_stripeEvent s = (Inr res, s') \<and> wo_action res = ''processed'' \<and>
     wo_newTenantStatus res = Some TenantStatus.PAST_DUE \<and> w_db (st_world s') = w_db (st_world sample_billed) \<and>
     handleStripeWebhook mem_prisma mem_redis 9 c sample_stripeEvent s' = (Inr (outcome_of sample_stripeEvent None ''duplicate''), s'')"
proof -
  let ?use = "tenantContext_use mem_prisma mem_redis (sample_auth 0) sample_stripeRequest"
  let ?ctx = "Some \<lparr>tc_tenantId = Some ''t1'', tc_isPlatformOwner = False\<rparr>"
  let ?run = "\<lambda>now. handleStripeWebhook mem_prisma mem_redis now ?ctx sample_stripeEvent"
  have "fst (?use sample_billed) = Inr (?ctx, Some ''t1'')" by code_simp
  then obtain s where use: "?use sample_billed = (Inr (?ctx, Some ''t1''), s)" by (metis prod.collapse)
  have "case fst (?run 0 (snd (?use sample_billed))) of Inl e \<Rightarrow> False
      | Inr res \<Rightarrow> wo_action res = ''processed'' \<and> wo_newTenantStatus res = Some TenantStatus.PAST_DUE" by code_simp
  then obtain res s' where run: "?run 0 s = (Inr res, s')" "wo_action res = ''processed''" "wo_newTenantStatus res = Some TenantStatus.PAST_DUE"
    using use by (cases "?run 0 s") (auto split: sum.splits)
  have "fst (?run 9 (snd (?run 0 (snd (?use sample_billed))))) = Inr (outcome_of sample_stripeEvent None ''duplicate'')" by code_simp
  then obtain s'' where again: "?run 9 s' = (Inr (outcome_of sample_stripeEvent None ''duplicate''), s'')"
    using use run(1) by (cases "?run 9 s'") simp
  have "w_db (st_world (snd (?use sample_billed))) = w_db (st_world sample_billed)" by code_simp
  then have kept: "w_db (st_world s) = w_db (st_world sample_billed)" using use by simp
  have "\<not> isPlatformOwnerToken (sample_auth 0) (rq_authorization sample_stripeRequest)"
    by (simp add: isPlatformOwnerToken_def sample_stripeRequest_def)
  from stripe_event_lost[OF mem.prisma_client_axioms use this _ run(1)]
  have "w_db (st_world s') = w_db (st_world sample_billed)" by (simp add: sample_stripeEvent_def kept)
  then show ?thesis using use run again by blast
qed

section \<open>Redelivery\<close>

text \<open>Nothing the handler does changes the connection to Redis, and marking the event is the last thing it does.\<close>

lemma online_liftRedis [preserves_intros]: "preserves online (liftRedis m)"
  by (rule preservesI) (auto elim!: liftRedisE)

lemma online_liftWorld [preserves_intros]: "preserves online (liftWorld m)"
  by (rule preservesI) (auto elim!: liftWorldE)

lemma online_cache_set [preserves_intros]: "preserves online (cache_set R now k v ttl)"
  unfolding cache_set_def by (intro preserves_intros)

lemma online_cache_get [preserves_intros]: "preserves online fetch \<Longrightarrow> preserves online (cache_get R now k fetch ttl)"
  unfolding cache_get_def by (intro preserves_intros)

lemma online_applyStatuses [preserves_intros]: "preserves online (applyStatuses P now c event x subId t st)"
  unfolding applyStatuses_def emitStatusChanged_def by (intro preserves_intros)

definition handled_actions :: "string list" where
  "handled_actions = [''processed'', ''stripe_ids_persisted'', ''trial_expiry_notification_emitted'']"

lemma outcome_action [simp]: "wo_action (outcome_of event t a) = a"
  by (simp add: outcome_of_def)

lemma last_marked:
  assumes "andThen m (\<lambda>x. andThen (markProcessed R now i) (\<lambda>_. return (res x))) s = (Inr y, s')" and "preserves online m"
  shows "\<exists>sa. markProcessed R now i sa = (Inr (), s') \<and> online sa = online s"
proof -
  obtain x sa where "m s = (Inr x, sa)" "markProcessed R now i sa = (Inr (), s')"
    using assms(1) by (elim andThen_InrE return_InrE) simp
  then show ?thesis using preservesD[OF assms(2)] by blast
qed

lemma handler_marks:
  assumes "handleStripeWebhook P R now c event s = (Inr res, s')" and "wo_action res \<in> set handled_actions"
  shows "\<exists>sa. markProcessed R now (se_id event) sa = (Inr (), s') \<and> online sa = online s"
proof -
  obtain x v s1 where x: "se_object event = Some x"
    and read: "(if truthy (se_id event) then cache_get R now (idempotencyKey (the (se_id event))) (return (JBool False)) IDEMPOTENCY_TTL_SECONDS
        else return (JBool False)) s = (Inr v, s1)" and v: "\<not> json_truthy v"
    and rest: "(if se_type event = Some ''checkout.session.completed'' then handleCheckoutSessionCompleted P R now c event x
      else if se_type event = Some ''customer.subscription.trial_will_end'' then handleTrialWillEnd P R now c event x
      else handleSubscriptionEvent P R now c event x) s1 = (Inr res, s')"
    using assms by (auto simp: handleStripeWebhook_def throw_def return_def handled_actions_def elim!: andThen_InrE split: option.splits if_splits)
  have "preserves online (if truthy (se_id event)
      then cache_get R now (idempotencyKey (the (se_id event))) (return (JBool False)) IDEMPOTENCY_TTL_SECONDS else return (JBool False))"
    by (intro preserves_intros)
  from preservesD[OF this read] have on: "online s1 = online s" .
  consider "handleCheckoutSessionCompleted P R now c event x s1 = (Inr res, s')" | "handleTrialWillEnd P R now c event x s1 = (Inr res, s')"
    | "handleSubscriptionEvent P R now c event x s1 = (Inr res, s')" using rest by (auto split: if_splits)
  then show ?thesis
  proof cases
    case 1
    obtain tn s2 where tn: "liftWorld (liftDb (px_tenant_findUnique P (the (so_metadataTenantId x)))) s1 = (Inr (Some tn), s2)"
      using 1 assms(2) by (auto simp: handleCheckoutSessionCompleted_def Let_def return_def handled_actions_def elim!: andThen_InrE split: option.splits if_splits)
    have on2: "online s2 = online s1" by (rule preservesD[OF online_liftWorld tn])
    have "truthy (so_metadataTenantId x)" using 1 assms(2)
      by (cases "truthy (so_metadataTenantId x)") (auto simp: handleCheckoutSessionCompleted_def return_def handled_actions_def)
    then show ?thesis using 1 on on2 unfolding handleCheckoutSessionCompleted_def
      by (simp add: Let_def andThen_def[of "liftWorld (liftDb (px_tenant_findUnique _ _))"] tn)
        (drule last_marked, intro preserves_intros, simp)
  next
    case 2
    obtain tid s2 where tid: "liftWorld (liftDb (resolveStripeTenant P c (so_customer x) (so_id x) (so_metadataTenantId x))) s1 = (Inr tid, s2)"
      "truthy tid"
      using 2 assms(2) by (auto simp: handleTrialWillEnd_def return_def handled_actions_def elim!: andThen_InrE split: if_splits)
    have on2: "online s2 = online s1" by (rule preservesD[OF online_liftWorld tid(1)])
    then show ?thesis using 2 on on2 tid(2) unfolding handleTrialWillEnd_def emitStatusChanged_def
      by (simp add: andThen_def[of "liftWorld (liftDb _)"] tid(1)) (drule last_marked, intro preserves_intros, simp)
  next
    case 3
    obtain cust sub where ids: "stripeIds x = (cust, sub)" by (meson surj_pair)
    obtain tid s2 where tid: "liftWorld (liftDb (resolveStripeTenant P c cust sub (so_metadataTenantId x))) s1 = (Inr tid, s2)" "truthy tid"
      using 3 assms(2) ids by (auto simp: handleSubscriptionEvent_def return_def handled_actions_def elim!: andThen_InrE split: if_splits)
    have on2: "online s2 = online s1" by (rule preservesD[OF online_liftWorld tid(1)])
    obtain sts where sts: "newStatuses (se_type event) x = Some sts"
      using 3 assms(2) ids tid by (auto simp: handleSubscriptionEvent_def andThen_def return_def handled_actions_def split: option.splits)
    have "preserves online (case sts of None \<Rightarrow> return () | Some st \<Rightarrow> applyStatuses P now c event x sub (the tid) st)"
      by (intro preserves_intros)
    then show ?thesis using 3 on on2 tid(2) ids sts unfolding handleSubscriptionEvent_def
      by (simp add: andThen_def[of "liftWorld (liftDb _)"] tid(1)) (drule last_marked, assumption, simp)
  qed
qed

text \<open>An event is applied once: when the webhook has handled an event while Redis answers, the same event
  delivered again within thirty days, to this or another request, is answered as a duplicate and
  changes nothing.\<close>

theorem stripe_event_once:
  assumes "redis_store R V" "online s" "handleStripeWebhook P R now c event s = (Inr res, s1)" "wo_action res \<in> set handled_actions"
    and "se_id event = Some i" "i \<noteq> []" "now \<le> now'" "now' < now + 30 * 24 * 60 * 60 * 1000"
    and "\<And>k v ttl x. 0 < ttl \<Longrightarrow> fst (rd_set R now k v ttl x) = Inr ()" "\<And>k x. \<exists>y. fst (rd_get R now' k x) = Inr y"
  shows "\<exists>s2. handleStripeWebhook P R now' c' event s1 = (Inr (outcome_of event None ''duplicate''), s2) \<and> st_world s2 = st_world s1"
proof -
  obtain sa where mark: "markProcessed R now (se_id event) sa = (Inr (), s1)" and on: "online sa" using handler_marks[OF assms(3,4)] assms(2) by auto
  let ?k = "idempotencyKey i" and ?v = "stringify (JBool True)"
  obtain x where x: "rd_set R now ?k ?v IDEMPOTENCY_TTL_SECONDS (ca_store (st_cache sa)) = (Inr (), x)"
    using assms(9)[of IDEMPOTENCY_TTL_SECONDS ?k ?v] by (metis IDEMPOTENCY_TTL_SECONDS_def prod.collapse zero_less_numeral mult_pos_pos)
  have s1: "s1 = sa\<lparr>st_cache := (st_cache sa)\<lparr>ca_store := x\<rparr>\<rparr>"
    using mark on assms(5,6) liftRedis_apply[of "rd_set R now ?k ?v IDEMPOTENCY_TTL_SECONDS", OF x]
    by (simp add: markProcessed_def cache_set_def if_online_def try_catch_def)
  have hit: "V (ca_store (st_cache s1)) now' ?k = Some ?v"
    using redis_store.set_Inr[OF assms(1) x assms(7)] assms(8) by (simp add: s1 stored_def IDEMPOTENCY_TTL_SECONDS_def)
  obtain y where "fst (rd_get R now' ?k (ca_store (st_cache s1))) = Inr y" using assms(10) by blast
  moreover have "se_object event \<noteq> None" using assms(3) by (cases "se_object event") (simp_all add: handleStripeWebhook_def throw_def)
  ultimately show ?thesis
    using redis_store.handleStripeWebhook_duplicate[OF assms(1) _ assms(5,6) _ hit, of y] on by (auto simp: s1)
qed

theorem stripe_event_once_witness:
  "\<exists>res s1 s2. handleStripeWebhook mem_prisma mem_redis 0 owner_ctx sample_stripeEvent sample_billed = (Inr res, s1) \<and>
     handleStripeWebhook mem_prisma mem_redis 2591999999 owner_ctx sample_stripeEvent s1 = (Inr (outcome_of sample_stripeEvent None ''duplicate''), s2) \<and>
     st_world s2 = st_world s1"
proof -
  let ?run = "handleStripeWebhook mem_prisma mem_redis 0 owner_ctx sample_stripeEvent sample_billed"
  have "case fst ?run of Inl e \<Rightarrow> False | Inr res \<Rightarrow> wo_action res = ''processed''" by code_simp
  then obtain res s1 where run: "?run = (Inr res, s1)" "wo_action res \<in> set handled_actions"
    by (cases ?run) (auto simp: handled_actions_def split: sum.splits)
  have "online sample_billed" by (simp add: sample_billed_def sample_site_def online_def)
  from stripe_event_once[OF mem_redis.redis_store_axioms this run, of "''evt1''" 2591999999] run(1) show ?thesis
    by (auto simp: sample_stripeEvent_def mem_redis_def)
qed

end
