(* ===== verification/Customer_Service.thy ===== *)
theory Customer_Service
  imports Branch_Service Live_Keys
begin

text \<open>
  \<^verbatim>\<open>apps/api/src/customer/customer.service.ts\<close>: the customers of a tenant. \<open>c\<close> is the tenant context
  of the request. The lemmas show that every operation keeps the e-mail addresses of the live
  customers distinct, for every result, so that any sequence of them does.
\<close>

record CreateCustomerRequestDto =
  cc_firstName :: string
  cc_lastName :: string
  cc_email :: string
  cc_phoneNumber :: "string option"

record UpdateCustomerRequestDto =
  uc_firstName :: "string option"
  uc_lastName :: "string option"
  uc_email :: "string option"
  uc_phoneNumber :: "string option"
  uc_loyaltyPoints :: "int option"

record customerView =
  cv_id :: string
  cv_firstName :: string
  cv_lastName :: string
  cv_email :: string
  cv_loyaltyPoints :: int
  cv_createdAt :: int

abbreviation customerRepo :: "'d prisma \<Rightarrow> ctx \<Rightarrow> ('d, customer) delegate" where
  "customerRepo P c \<equiv> extended c customer_model (px_customer P)"

definition where_email :: "string \<Rightarrow> where_clause" where
  "where_email email = [(''email'', Is (CStr email))]"

definition email_taken :: "string \<Rightarrow> exn" where
  "email_taken email = ConflictException (''Customer with email ['' @ email @ ''] already exists under this tenant context.'')"

definition newCustomer :: "int \<Rightarrow> CreateCustomerRequestDto \<Rightarrow> customer" where
  "newCustomer now dto = \<lparr>cu_id = [], cu_tenantId = None, cu_firstName = cc_firstName dto, cu_lastName = cc_lastName dto,
     cu_email = cc_email dto, cu_phoneNumber = or_null (cc_phoneNumber dto), cu_loyaltyPoints = 0,
     cu_createdAt = now, cu_updatedAt = now, cu_deletedAt = None\<rparr>"

definition createCustomer :: "'d prisma \<Rightarrow> ctx \<Rightarrow> int \<Rightarrow> CreateCustomerRequestDto \<Rightarrow> ('d, customerView) prog" where
  "createCustomer P c now dto =
     andThen (findMany c customer_model (customerRepo P c) (where_email (cc_email dto)) None None) (\<lambda>existing.
     if 0 < length existing then throw (email_taken (cc_email dto))
     else andThen (repo_create c customer_model (customerRepo P c) (newCustomer now dto)) (\<lambda>customer.
          return \<lparr>cv_id = cu_id customer, cv_firstName = cu_firstName customer, cv_lastName = cu_lastName customer,
                  cv_email = cu_email customer, cv_loyaltyPoints = cu_loyaltyPoints customer, cv_createdAt = cu_createdAt customer\<rparr>))"

definition getCustomers :: "'d prisma \<Rightarrow> ctx \<Rightarrow> bool \<Rightarrow> ('d, customer list) prog" where
  "getCustomers P c includeDeleted = findMany c customer_model (customerRepo P c) (includingDeleted includeDeleted []) None None"

definition customer_findOne :: "'d prisma \<Rightarrow> ctx \<Rightarrow> string \<Rightarrow> ('d, customer) prog" where
  "customer_findOne P c i =
     andThen (findById c customer_model (customerRepo P c) i) (\<lambda>customer. case customer of
       None \<Rightarrow> throw (requested ''Customer'' i)
     | Some cu \<Rightarrow> return cu)"

definition customerData :: "UpdateCustomerRequestDto \<Rightarrow> customer \<Rightarrow> customer" where
  "customerData dto =
     defined_field (uc_loyaltyPoints dto) (\<lambda>v. cu_loyaltyPoints_update (\<lambda>_. v)) \<circ>
     defined_field (uc_phoneNumber dto) (\<lambda>v. cu_phoneNumber_update (\<lambda>_. Some v)) \<circ>
     defined_field (uc_email dto) (\<lambda>v. cu_email_update (\<lambda>_. v)) \<circ>
     defined_field (uc_lastName dto) (\<lambda>v. cu_lastName_update (\<lambda>_. v)) \<circ>
     defined_field (uc_firstName dto) (\<lambda>v. cu_firstName_update (\<lambda>_. v))"

definition noCustomerData :: "UpdateCustomerRequestDto \<Rightarrow> bool" where
  "noCustomerData dto \<longleftrightarrow> uc_firstName dto = None \<and> uc_lastName dto = None \<and> uc_email dto = None \<and>
     uc_phoneNumber dto = None \<and> uc_loyaltyPoints dto = None"

definition updateCustomer :: "'d prisma \<Rightarrow> ctx \<Rightarrow> string \<Rightarrow> UpdateCustomerRequestDto \<Rightarrow> ('d, customer) prog" where
  "updateCustomer P c i dto =
     andThen (findById c customer_model (customerRepo P c) i) (\<lambda>existing. case existing of
       None \<Rightarrow> throw (requested ''Customer'' i)
     | Some cu \<Rightarrow>
         andThen (if uc_email dto \<noteq> None \<and> uc_email dto \<noteq> Some (cu_email cu)
                  then andThen (findMany c customer_model (customerRepo P c) (where_email (the (uc_email dto))) None None) (\<lambda>clash.
                       if list_ex (\<lambda>x. cu_id x \<noteq> i) clash then throw (email_taken (the (uc_email dto))) else return ())
                  else return ()) (\<lambda>_.
         if noCustomerData dto then return cu
         else repo_update c customer_model (customerRepo P c) i (customerData dto)))"

definition customer_countActiveOrders :: "'d prisma \<Rightarrow> ctx \<Rightarrow> string \<Rightarrow> string option \<Rightarrow> ('d, nat) prog" where
  "customer_countActiveOrders P c customerId tenantId =
     dg_count (extended c order_model (px_order P))
       [(''customerId'', Is (CStr customerId)), (''tenantId'', Is (opt_cell tenantId)),
        (''status'', OneOf (map (\<lambda>s. CStr (show_status s)) ACTIVE_ORDER_STATUSES))]"

definition deleteCustomer :: "'d prisma \<Rightarrow> ctx \<Rightarrow> int \<Rightarrow> string \<Rightarrow> ('d, string) prog" where
  "deleteCustomer P c now i =
     andThen (findById c customer_model (customerRepo P c) i) (\<lambda>existing. case existing of
       None \<Rightarrow> throw (requested ''Customer'' i)
     | Some cu \<Rightarrow>
         andThen (customer_countActiveOrders P c i (cu_tenantId cu)) (\<lambda>activeOrders.
         if 0 < activeOrders
         then throw (ConflictException (''This customer cannot be deleted while they have '' @ show_int (int activeOrders) @
                '' order(s) in progress. Complete or cancel them first.''))
         else andThen (softDelete c customer_model (customerRepo P c) now i (\<lambda>r. r)) (\<lambda>_. return i)))"

definition restoreCustomer :: "'d prisma \<Rightarrow> ctx \<Rightarrow> string \<Rightarrow> ('d, string) prog" where
  "restoreCustomer P c i =
     andThen (findByIdIncludingDeleted c customer_model (customerRepo P c) i) (\<lambda>existing. case existing of
       None \<Rightarrow> throw (requested ''Customer'' i)
     | Some cu \<Rightarrow>
         andThen (findMany c customer_model (customerRepo P c) (where_email (cu_email cu)) None None) (\<lambda>clash.
         if list_ex (\<lambda>x. cu_id x \<noteq> i) clash
         then throw (ConflictException (''A live customer already uses ['' @ cu_email cu @ '']. Resolve the duplicate before restoring this record.''))
         else andThen (restore c customer_model (customerRepo P c) i (\<lambda>r. r)) (\<lambda>_. return i)))"

section \<open>Sequences of requests\<close>

datatype customerCall =
    CreateCustomer int CreateCustomerRequestDto
  | GetCustomers bool
  | FindOne string
  | UpdateCustomer string UpdateCustomerRequestDto
  | DeleteCustomer int string
  | RestoreCustomer string

fun customerStep :: "'d prisma \<Rightarrow> ctx \<Rightarrow> customerCall \<Rightarrow> 'd \<Rightarrow> 'd" where
  "customerStep P c (CreateCustomer now dto) d = snd (createCustomer P c now dto d)"
| "customerStep P c (GetCustomers b) d = snd (getCustomers P c b d)"
| "customerStep P c (FindOne i) d = snd (customer_findOne P c i d)"
| "customerStep P c (UpdateCustomer i dto) d = snd (updateCustomer P c i dto d)"
| "customerStep P c (DeleteCustomer now i) d = snd (deleteCustomer P c now i d)"
| "customerStep P c (RestoreCustomer i) d = snd (restoreCustomer P c i d)"

section \<open>Distinct addresses\<close>

lemma customerData_fields [simp]:
  "cu_id (customerData dto r) = cu_id r" "cu_tenantId (customerData dto r) = cu_tenantId r" "cu_deletedAt (customerData dto r) = cu_deletedAt r"
  "cu_email (customerData dto r) = (case uc_email dto of None \<Rightarrow> cu_email r | Some x \<Rightarrow> x)"
  by (simp_all add: customerData_def defined_field_def split: option.split)

lemma customer_deletedAt [simp]: "md_deletedAt customer_model = cu_deletedAt"
  by (simp add: customer_model_def)

context prisma_client begin

abbreviation addressed :: "string \<Rightarrow> 'd \<Rightarrow> bool" where
  "addressed t d \<equiv> distinct (map cu_id (t_customers (T d))) \<and> unique_live customer_model cu_email t (t_customers (T d))"

lemma customer_reads:
  assumes "t \<noteq> []"
  shows "preserves f (findMany (tenant_ctx t) customer_model (customerRepo P (tenant_ctx t)) w n k)"
    and "preserves f (findById (tenant_ctx t) customer_model (customerRepo P (tenant_ctx t)) i)"
    and "preserves f (findByIdIncludingDeleted (tenant_ctx t) customer_model (customerRepo P (tenant_ctx t)) i)"
  by (rule customers.repo_reads_preserve[OF assms])+

lemma createCustomer_keeps:
  assumes t: "t \<noteq> []"
  shows "keeps (addressed t) (createCustomer P (tenant_ctx t) now dto)"
  unfolding createCustomer_def
proof (rule keeps_read_then[OF customer_reads(1)[OF t]])
  fix existing :: "customer list" and s r s'
  let ?m = "andThen (repo_create (tenant_ctx t) customer_model (customerRepo P (tenant_ctx t)) (newCustomer now dto)) (\<lambda>customer.
      return \<lparr>cv_id = cu_id customer, cv_firstName = cu_firstName customer, cv_lastName = cu_lastName customer,
              cv_email = cu_email customer, cv_loyaltyPoints = cu_loyaltyPoints customer, cv_createdAt = cu_createdAt customer\<rparr>)"
  assume find: "findMany (tenant_ctx t) customer_model (customerRepo P (tenant_ctx t)) (where_email (cc_email dto)) None None s = (Inr existing, s)"
    and I: "addressed t s" and run: "(if 0 < length existing then throw (email_taken (cc_email dto)) else ?m) s = (r, s')"
  show "addressed t s'"
  proof (cases "existing = []")
    case False
    then show ?thesis using run I by (simp add: throw_def)
  next
    case True
    have free: "cc_email dto \<notin> cu_email ` set (live_of customer_model t (t_customers (T s)))"
      by (rule email.lookup_run(3)[OF t find[unfolded where_email_def] True])
    obtain y where "repo_create (tenant_ctx t) customer_model (customerRepo P (tenant_ctx t)) (newCustomer now dto) s = (y, s')"
      using run True by (auto simp: andThen_def return_def split: prod.splits sum.splits)
    from email.create_keeps[OF t _ _ this] show ?thesis using I free by (simp add: newCustomer_def)
  qed
qed

lemma updateCustomer_keeps:
  assumes t: "t \<noteq> []"
  shows "keeps (addressed t) (updateCustomer P (tenant_ctx t) i dto)"
  unfolding updateCustomer_def
proof (rule keeps_found[OF customer_reads(2)[OF t]])
  fix cu :: customer and s r s'
  let ?find = "\<lambda>k. findMany (tenant_ctx t) customer_model (customerRepo P (tenant_ctx t)) (where_email k) None None"
  let ?check = "if uc_email dto \<noteq> None \<and> uc_email dto \<noteq> Some (cu_email cu)
    then andThen (?find (the (uc_email dto))) (\<lambda>clash. if list_ex (\<lambda>x. cu_id x \<noteq> i) clash then throw (email_taken (the (uc_email dto))) else return ())
    else return ()"
  let ?upd = "if noCustomerData dto then return cu else repo_update (tenant_ctx t) customer_model (customerRepo P (tenant_ctx t)) i (customerData dto)"
  assume found: "findById (tenant_ctx t) customer_model (customerRepo P (tenant_ctx t)) i s = (Inr (Some cu), s)"
    and I: "addressed t s" and run: "andThen ?check (\<lambda>_. ?upd) s = (r, s')"
  have cu: "cu \<in> set (t_customers (T s))" "cu_id cu = i" using customers.findById_Some[OF t found] by simp_all
  have same: "x = cu" if "x \<in> set (t_customers (T s))" "cu_id x = i" for x
    using customers.unique_row[of "t_customers (T s)" x cu] I cu that by simp
  obtain y s1 where check: "?check s = (y, s1)" by (meson surj_pair)
  have "preserves (\<lambda>s. s) ?check" by (auto intro!: preserves_intros customer_reads[OF t])
  then have s1: "s1 = s" using check by (auto dest: preservesD)
  show "addressed t s'"
  proof (cases y)
    case (Inl e)
    then show ?thesis using run check s1 I by (simp add: andThen_def)
  next
    case (Inr u)
    then have wrote: "?upd s = (r, s')" using run check s1 by (simp add: andThen_def)
    have new: "cu_email (customerData dto x) = cu_email x \<or>
        cu_email (customerData dto x) \<notin> cu_email ` set (live_of customer_model t (t_customers (T s)))"
      if "x \<in> set (t_customers (T s))" "cu_id x = i" for x
    proof (cases "uc_email dto \<noteq> None \<and> uc_email dto \<noteq> Some (cu_email cu)")
      case True
      then obtain k where k: "uc_email dto = Some k" "k \<noteq> cu_email cu" by auto
      obtain clash s2 where look: "?find k s = (Inr clash, s2)" and own: "\<not> list_ex (\<lambda>x. cu_id x \<noteq> i) clash"
        using check Inr True k(1) by (auto simp: andThen_def throw_def split: prod.splits sum.splits if_splits)
      have "k \<notin> cu_email ` set (live_of customer_model t (t_customers (T s)))"
      proof (rule email.lookup_own[OF t look[unfolded where_email_def]])
        show "\<forall>r \<in> set clash. md_id customer_model r = i" using own by (auto simp: list_ex_iff)
        show "cu_email x \<noteq> k" if "x \<in> set (live_of customer_model t (t_customers (T s)))" "md_id customer_model x = i" for x
          using same[of x] that k(2) by (simp add: set_live_of)
      qed
      then show ?thesis using k(1) by simp
    next
      case False
      then show ?thesis using same[OF that] by (auto split: option.splits)
    qed
    show ?thesis
    proof (cases "noCustomerData dto")
      case True
      then show ?thesis using wrote I by (simp add: return_def)
    next
      case False
      then have "repo_update (tenant_ctx t) customer_model (customerRepo P (tenant_ctx t)) i (customerData dto) s = (r, s')"
        using wrote by simp
      from email.update_keeps[OF t _ _ _ _ _ this] show ?thesis using I new by simp
    qed
  qed
qed

lemma deleteCustomer_keeps:
  assumes t: "t \<noteq> []"
  shows "keeps (addressed t) (deleteCustomer P (tenant_ctx t) now i)"
proof -
  have del: "keeps (addressed t) (softDelete (tenant_ctx t) customer_model (customerRepo P (tenant_ctx t)) now i (\<lambda>r. r))"
  proof (rule keepsI)
    fix s r s'
    assume I: "addressed t s" and run: "softDelete (tenant_ctx t) customer_model (customerRepo P (tenant_ctx t)) now i (\<lambda>r. r) s = (r, s')"
    show "addressed t s'" using email.softDelete_keeps[OF t _ run] I by simp
  qed
  have count: "keeps (addressed t) (customer_countActiveOrders P (tenant_ctx t) i u)" for u
    by (rule keeps_reads) (simp add: customer_countActiveOrders_def orders.ext_read_others t)
  show ?thesis unfolding deleteCustomer_def
    by (intro keeps_intros del count keeps_reads[OF customer_reads(2)[OF t]])
qed

lemma restoreCustomer_keeps:
  assumes t: "t \<noteq> []"
  shows "keeps (addressed t) (restoreCustomer P (tenant_ctx t) i)"
  unfolding restoreCustomer_def
proof (rule keeps_found[OF customer_reads(3)[OF t]])
  fix cu :: customer and s r s'
  let ?find = "findMany (tenant_ctx t) customer_model (customerRepo P (tenant_ctx t)) (where_email (cu_email cu)) None None"
  let ?res = "restore (tenant_ctx t) customer_model (customerRepo P (tenant_ctx t)) i (\<lambda>r. r)"
  let ?refuse = "throw (ConflictException (''A live customer already uses ['' @ cu_email cu @ '']. Resolve the duplicate before restoring this record.''))"
  assume found: "findByIdIncludingDeleted (tenant_ctx t) customer_model (customerRepo P (tenant_ctx t)) i s = (Inr (Some cu), s)"
    and I: "addressed t s"
    and run: "andThen ?find (\<lambda>clash. if list_ex (\<lambda>x. cu_id x \<noteq> i) clash then ?refuse else andThen ?res (\<lambda>_. return i)) s = (r, s')"
  have cu: "cu \<in> set (t_customers (T s))" "cu_id cu = i" using customers.findByIdIncludingDeleted_Some[OF t found] by simp_all
  have same: "x = cu" if "x \<in> set (t_customers (T s))" "cu_id x = i" for x
    using customers.unique_row[of "t_customers (T s)" x cu] I cu that by simp
  obtain y s1 where look: "?find s = (y, s1)" by (meson surj_pair)
  have s1: "s1 = s" using preservesD[OF customer_reads(1)[OF t, where f = "\<lambda>s. s"] look] by simp
  show "addressed t s'"
  proof (cases "\<exists>clash. y = Inr clash \<and> \<not> list_ex (\<lambda>x. cu_id x \<noteq> i) clash")
    case False
    then show ?thesis using run look s1 I by (auto simp: andThen_def throw_def split: sum.splits if_splits)
  next
    case True
    then obtain clash where y: "y = Inr clash" "\<not> list_ex (\<lambda>x. cu_id x \<noteq> i) clash" by blast
    obtain z where res: "?res s = (z, s')"
      using run look s1 y by (auto simp: andThen_def return_def split: prod.splits sum.splits)
    show ?thesis
    proof (cases "cu_deletedAt cu = None")
      case True
      have "\<not> md_deletedAt customer_model x \<noteq> None" if "x \<in> set (t_customers (T s))" "md_id customer_model x = i" for x
        using same[of x] that True by simp
      then show ?thesis using email.restore_keeps[OF t _ _ res] I by auto
    next
      case False
      have "cu_email cu \<notin> cu_email ` set (live_of customer_model t (t_customers (T s)))"
      proof (rule email.lookup_own[OF t look[unfolded y(1) where_email_def]])
        show "\<forall>r \<in> set clash. md_id customer_model r = i" using y(2) by (auto simp: list_ex_iff)
        show "cu_email x \<noteq> cu_email cu" if "x \<in> set (live_of customer_model t (t_customers (T s)))" "md_id customer_model x = i" for x
          using same[of x] that False by (auto simp: set_live_of)
      qed
      then show ?thesis using email.restore_keeps[OF t _ _ res] I same by auto
    qed
  qed
qed

lemma customerStep_keeps:
  assumes t: "t \<noteq> []" and I: "addressed t d"
  shows "addressed t (customerStep P (tenant_ctx t) call d)"
proof (cases call)
  case (FindOne i)
  have "preserves (\<lambda>s. s) (customer_findOne P (tenant_ctx t) i)"
    by (auto simp: customer_findOne_def intro!: preserves_intros customer_reads[OF t])
  then show ?thesis using I FindOne by (simp add: preserves_def)
next
  case (GetCustomers b)
  then show ?thesis using I customer_reads(1)[OF t, of "\<lambda>s. s"] by (simp add: getCustomers_def preserves_def)
qed (use I keepsD[OF createCustomer_keeps[OF t] I prod.collapse[symmetric]] keepsD[OF updateCustomer_keeps[OF t] I prod.collapse[symmetric]]
      keepsD[OF deleteCustomer_keeps[OF t] I prod.collapse[symmetric]] keepsD[OF restoreCustomer_keeps[OF t] I prod.collapse[symmetric]] in simp_all)

lemma customerSteps_keep:
  assumes "t \<noteq> []" and "addressed t d"
  shows "addressed t (fold (customerStep P (tenant_ctx t)) calls d)"
  using assms(2)
proof (induction calls arbitrary: d)
  case (Cons call calls)
  then show ?case using customerStep_keeps[OF assms(1)] by simp
qed simp

end

end
