(* ===== verification/Webhook_Service.thy ===== *)
theory Webhook_Service
  imports World
begin

text \<open>
  \<^verbatim>\<open>apps/api/src/webhook/webhook.service.ts\<close>: the subscriptions of a tenant to its events, and the
  signed delivery of an event with retries. The network is a parameter that answers a post from
  everything that was posted and waited for before; a payload enters as what \<^verbatim>\<open>JSON.stringify\<close>
  makes of it, and HMAC-SHA256 is a parameter. The retry loop terminates by a measure.
\<close>

section \<open>Deliveries\<close>

record delivery =
  dv_targetUrl :: string
  dv_signature :: string
  dv_event :: string
  dv_body :: string

datatype netEvent = Post delivery | Wait int

text \<open>The database, and what has been posted and waited for.\<close>

record 'd courier =
  co_db :: 'd
  co_log :: "netEvent list"

text \<open>The status of a response, or the error of \<^verbatim>\<open>fetch\<close> (the abort after five seconds included).\<close>

type_synonym network = "netEvent list \<Rightarrow> delivery \<Rightarrow> exn + int"

definition onDb :: "('d, 'a) prog \<Rightarrow> ('d courier, 'a) prog" where
  "onDb m = (\<lambda>s. case m (co_db s) of (r, d) \<Rightarrow> (r, s\<lparr>co_db := d\<rparr>))"

definition generateSignature :: "(string \<Rightarrow> string \<Rightarrow> string) \<Rightarrow> exn + string \<Rightarrow> string \<Rightarrow> exn + string" where
  "generateSignature hmac payload secret = (case payload of Inl e \<Rightarrow> Inl e | Inr payloadString \<Rightarrow> Inr (hmac secret payloadString))"

definition backoffMs :: "nat \<Rightarrow> int" where
  "backoffMs attempts = min (1000 * 2 ^ (attempts - 1)) 5000"

function sendLoop :: "network \<Rightarrow> delivery \<Rightarrow> nat \<Rightarrow> nat \<Rightarrow> netEvent list \<Rightarrow> (bool \<times> nat) \<times> netEvent list" where
  "sendLoop fetch d maxAttempts attempts past =
     (if \<not> attempts < maxAttempts then ((False, attempts), past)
      else let attempts = attempts + 1; again = sendLoop fetch d maxAttempts attempts (past @ [Post d, Wait (backoffMs attempts)]) in
        case fetch past d of
          Inl err \<Rightarrow> again
        | Inr status \<Rightarrow>
            if 200 \<le> status \<and> status < 300 then ((True, attempts), past @ [Post d])
            else if 400 \<le> status \<and> status < 500 \<and> status \<noteq> 429 then ((False, attempts), past @ [Post d])
            else again)"
  by pat_completeness auto

termination by (relation "measure (\<lambda>(fetch, d, maxAttempts, attempts, past). maxAttempts - attempts)") auto

declare sendLoop.simps [simp del]

definition sendWithRetry ::
  "network \<Rightarrow> string \<Rightarrow> string \<Rightarrow> exn + string \<Rightarrow> string \<Rightarrow> ('d courier, bool \<times> nat) prog" where
  "sendWithRetry fetch targetUrl eventName payload signature = (\<lambda>s.
     let d = \<lparr>dv_targetUrl = targetUrl, dv_signature = signature, dv_event = eventName,
              dv_body = (case payload of Inr body \<Rightarrow> body | Inl e \<Rightarrow> [])\<rparr>;
         (result, past) = sendLoop fetch d 5 0 (co_log s) in
     (Inr result, s\<lparr>co_log := past\<rparr>))"

section \<open>The service\<close>

record CreateWebhookRequestDto =
  cw_targetUrl :: string
  cw_secretKey :: string
  cw_events :: "string list"
  cw_isActive :: "bool option"

record webhookView =
  wv_id :: string
  wv_targetUrl :: string
  wv_events :: "string list"
  wv_isActive :: bool
  wv_createdAt :: int

definition webhook_view :: "webhook \<Rightarrow> webhookView" where
  "webhook_view wh = \<lparr>wv_id = wh_id wh, wv_targetUrl = wh_targetUrl wh, wv_events = wh_events wh,
     wv_isActive = wh_isActive wh, wv_createdAt = wh_createdAt wh\<rparr>"

abbreviation webhookRepo :: "'d prisma \<Rightarrow> ctx \<Rightarrow> ('d, webhook) delegate" where
  "webhookRepo P c \<equiv> extended c webhook_model (px_webhook P)"

definition createWebhook :: "'d prisma \<Rightarrow> int \<Rightarrow> CreateWebhookRequestDto \<Rightarrow> string \<Rightarrow> ('d courier, webhookView) prog" where
  "createWebhook P now dto tenantId =
     (let c = tenant_ctx tenantId in
      andThen (onDb (repo_create c webhook_model (webhookRepo P c)
        \<lparr>wh_id = [], wh_tenantId = None, wh_targetUrl = cw_targetUrl dto, wh_secretKey = cw_secretKey dto,
         wh_events = cw_events dto, wh_isActive = (case cw_isActive dto of Some b \<Rightarrow> b | None \<Rightarrow> True), wh_createdAt = now\<rparr>))
      (\<lambda>webhook. return (webhook_view webhook)))"

definition listWebhooks :: "'d prisma \<Rightarrow> string \<Rightarrow> ('d courier, webhookView list) prog" where
  "listWebhooks P tenantId =
     (let c = tenant_ctx tenantId in
      andThen (onDb (findMany c webhook_model (webhookRepo P c) [(''isActive'', Is (CBool True))] None None))
      (\<lambda>webhooks. return (map webhook_view webhooks)))"

definition deleteWebhook :: "'d prisma \<Rightarrow> string \<Rightarrow> string \<Rightarrow> ('d courier, string) prog" where
  "deleteWebhook P i tenantId =
     (let c = tenant_ctx tenantId in
      andThen (onDb (findById c webhook_model (webhookRepo P c) i)) (\<lambda>existing.
      case existing of
        None \<Rightarrow> throw (NotFoundException (''Webhook with ID ['' @ i @ ''] not found''))
      | Some _ \<Rightarrow> andThen (onDb (repo_delete c webhook_model (webhookRepo P c) i)) (\<lambda>_. return i)))"

record dispatchResult =
  dr_webhookId :: string
  dr_targetUrl :: string
  dr_success :: bool
  dr_attempts :: nat

definition dispatchOne ::
  "network \<Rightarrow> (string \<Rightarrow> string \<Rightarrow> string) \<Rightarrow> string \<Rightarrow> exn + string \<Rightarrow> webhook \<Rightarrow> dispatchResult list \<Rightarrow>
   ('d courier, dispatchResult list) prog" where
  "dispatchOne fetch hmac eventName payload wh results =
     andThen (of_result (generateSignature hmac payload (wh_secretKey wh))) (\<lambda>signature.
     andThen (sendWithRetry fetch (wh_targetUrl wh) eventName payload signature) (\<lambda>result.
     return (results @ [\<lparr>dr_webhookId = wh_id wh, dr_targetUrl = wh_targetUrl wh,
                         dr_success = fst result, dr_attempts = snd result\<rparr>])))"

definition dispatchEvent ::
  "'d prisma \<Rightarrow> network \<Rightarrow> (string \<Rightarrow> string \<Rightarrow> string) \<Rightarrow> string \<Rightarrow> string \<Rightarrow> exn + string \<Rightarrow>
   ('d courier, dispatchResult list) prog" where
  "dispatchEvent P fetch hmac tenantId eventName payload =
     (let c = tenant_ctx tenantId in
      andThen (onDb (findMany c webhook_model (webhookRepo P c) [] None None)) (\<lambda>webhooks.
      let relevant = filter (\<lambda>wh. wh_isActive wh \<and> eventName \<in> set (wh_events wh)) webhooks in
      if relevant = [] then return []
      else foldProg (dispatchOne fetch hmac eventName payload) relevant []))"

section \<open>One delivery\<close>

fun posts :: "netEvent list \<Rightarrow> delivery list" where
  "posts [] = []"
| "posts (Post d # es) = d # posts es"
| "posts (Wait ms # es) = posts es"

fun waited :: "netEvent list \<Rightarrow> int" where
  "waited [] = 0"
| "waited (Post d # es) = waited es"
| "waited (Wait ms # es) = ms + waited es"

lemma posts_append [simp]: "posts (xs @ ys) = posts xs @ posts ys"
  by (induction xs rule: posts.induct) simp_all

lemma waited_append [simp]: "waited (xs @ ys) = waited xs + waited ys"
  by (induction xs rule: waited.induct) simp_all

text \<open>The status the last post got, when nothing was waited for after it.\<close>

definition last_status :: "network \<Rightarrow> netEvent list \<Rightarrow> int option" where
  "last_status fetch past = (case rev past of
     Post d # before \<Rightarrow> (case fetch (rev before) d of Inr status \<Rightarrow> Some status | Inl e \<Rightarrow> None)
   | _ \<Rightarrow> None)"

definition accepted :: "int \<Rightarrow> bool" where
  "accepted status \<longleftrightarrow> 200 \<le> status \<and> status < 300"

definition rejected :: "int \<Rightarrow> bool" where
  "rejected status \<longleftrightarrow> 400 \<le> status \<and> status < 500 \<and> status \<noteq> 429"

text \<open>Success when the last post was accepted; giving up before the limit only when it was rejected.\<close>

definition outcome :: "network \<Rightarrow> nat \<Rightarrow> netEvent list \<Rightarrow> bool \<times> nat \<Rightarrow> bool" where
  "outcome fetch m past r \<longleftrightarrow>
     (fst r \<longleftrightarrow> (\<exists>status. last_status fetch past = Some status \<and> accepted status)) \<and>
     (\<not> fst r \<and> snd r < m \<longrightarrow> (\<exists>status. last_status fetch past = Some status \<and> rejected status))"

text \<open>From \<open>k\<close> attempts on: the same post again and again, five seconds between two of them at most.\<close>

definition delivery_run :: "network \<Rightarrow> delivery \<Rightarrow> nat \<Rightarrow> nat \<Rightarrow> netEvent list \<Rightarrow> bool \<times> nat \<Rightarrow> netEvent list \<Rightarrow> bool" where
  "delivery_run fetch d m k past r past' \<longleftrightarrow> (\<exists>trail. past' = past @ trail \<and> posts trail = replicate (snd r - k) d \<and>
     k < snd r \<and> snd r \<le> m \<and> waited trail \<le> 5000 * int (snd r - k) \<and> outcome fetch m past' r)"

lemma last_status_post [simp]: "last_status fetch (past @ [Post d]) = (case fetch past d of Inr status \<Rightarrow> Some status | Inl e \<Rightarrow> None)"
  by (simp add: last_status_def)

lemma last_status_wait: "last_status fetch (past @ [Post d, Wait ms]) = None"
  by (simp add: last_status_def)

lemma backoffMs_le: "backoffMs n \<le> 5000"
  by (simp add: backoffMs_def)

lemma delivery_run_again:
  assumes "delivery_run fetch d m (Suc k) (past @ [Post d, Wait ms]) r past'" and "ms \<le> 5000"
  shows "delivery_run fetch d m k past r past'"
proof -
  from assms(1) obtain trail where trail: "past' = past @ [Post d, Wait ms] @ trail" "posts trail = replicate (snd r - Suc k) d"
      "waited trail \<le> 5000 * int (snd r - Suc k)"
    and rest: "Suc k < snd r" "snd r \<le> m" "outcome fetch m past' r"
    unfolding delivery_run_def by auto
  have n: "snd r - k = Suc (snd r - Suc k)" using rest(1) by simp
  show ?thesis unfolding delivery_run_def
    by (rule exI[of _ "[Post d, Wait ms] @ trail"]) (use trail rest n assms(2) in simp)
qed

lemma sendLoop_run:
  "k < m \<Longrightarrow> sendLoop fetch d m k past = (r, past') \<Longrightarrow> delivery_run fetch d m k past r past'"
proof (induction fetch d m k past rule: sendLoop.induct)
  case (1 fetch d m k past)
  let ?wait = "backoffMs (k + 1)"
  let ?past = "past @ [Post d, Wait ?wait]"
  have again: "delivery_run fetch d m k past r past'"
    if "sendLoop fetch d m (k + 1) ?past = (r, past')"
  proof (cases "k + 1 < m")
    case True
    show ?thesis
      by (rule delivery_run_again[OF _ backoffMs_le]) (use 1 True that in simp)
  next
    case False
    then have "r = (False, k + 1)" "past' = ?past" using that by (simp_all add: sendLoop.simps)
    then show ?thesis using \<open>k < m\<close> backoffMs_le[of "k + 1"] False
      by (simp add: delivery_run_def outcome_def last_status_wait)
  qed
  have run: "(case fetch past d of Inl err \<Rightarrow> sendLoop fetch d m (k + 1) ?past
      | Inr status \<Rightarrow> if accepted status then ((True, k + 1), past @ [Post d])
          else if rejected status then ((False, k + 1), past @ [Post d])
          else sendLoop fetch d m (k + 1) ?past) = (r, past')"
    using \<open>k < m\<close> 1(3) by (cases "fetch past d") (auto simp: sendLoop.simps[of fetch d m k] Let_def accepted_def rejected_def split: if_splits)
  show ?case
  proof (cases "fetch past d")
    case (Inl e)
    then show ?thesis using again run by simp
  next
    case (Inr status)
    show ?thesis
    proof (cases "accepted status \<or> rejected status")
      case True
      then have "r = (accepted status, k + 1)" "past' = past @ [Post d]" using run Inr by (auto split: if_splits)
      then show ?thesis using True Inr \<open>k < m\<close> by (auto simp: delivery_run_def outcome_def)
    next
      case False
      then show ?thesis using again run Inr by simp
    qed
  qed
qed

section \<open>A dispatch\<close>

definition delivered :: "network \<Rightarrow> (string \<Rightarrow> string \<Rightarrow> string) \<Rightarrow> string \<Rightarrow> string \<Rightarrow> webhook \<Rightarrow> netEvent list \<Rightarrow>
    dispatchResult \<Rightarrow> netEvent list \<Rightarrow> bool" where
  "delivered fetch hmac eventName body wh past res past' \<longleftrightarrow>
     dr_webhookId res = wh_id wh \<and> dr_targetUrl res = wh_targetUrl wh \<and>
     delivery_run fetch \<lparr>dv_targetUrl = wh_targetUrl wh, dv_signature = hmac (wh_secretKey wh) body, dv_event = eventName,
       dv_body = body\<rparr> 5 0 past (dr_success res, dr_attempts res) past'"

text \<open>The deliveries of an event to \<open>whs\<close>, one after the other.\<close>

fun deliveries :: "network \<Rightarrow> (string \<Rightarrow> string \<Rightarrow> string) \<Rightarrow> string \<Rightarrow> string \<Rightarrow> webhook list \<Rightarrow> netEvent list \<Rightarrow>
    dispatchResult list \<Rightarrow> netEvent list \<Rightarrow> bool" where
  "deliveries fetch hmac eventName body [] past rs past' \<longleftrightarrow> rs = [] \<and> past' = past"
| "deliveries fetch hmac eventName body (wh # whs) past rs past' \<longleftrightarrow> (\<exists>r rs' mid. rs = r # rs' \<and>
     delivered fetch hmac eventName body wh past r mid \<and> deliveries fetch hmac eventName body whs mid rs' past')"

lemma deliveries_results:
  "deliveries fetch hmac eventName body whs past rs past' \<Longrightarrow>
     map dr_webhookId rs = map wh_id whs \<and> (\<forall>r \<in> set rs. 1 \<le> dr_attempts r \<and> dr_attempts r \<le> 5)"
  by (induction whs arbitrary: past rs) (fastforce simp: delivered_def delivery_run_def)+

lemma dispatchOne_run:
  "\<exists>r past'. dispatchOne fetch hmac eventName (Inr body) wh rs s = (Inr (rs @ [r]), s\<lparr>co_log := past'\<rparr>) \<and>
     delivered fetch hmac eventName body wh (co_log s) r past'"
proof -
  let ?d = "\<lparr>dv_targetUrl = wh_targetUrl wh, dv_signature = hmac (wh_secretKey wh) body, dv_event = eventName, dv_body = body\<rparr>"
  obtain ok n past' where loop: "sendLoop fetch ?d 5 0 (co_log s) = ((ok, n), past')" by (metis surj_pair)
  have "delivery_run fetch ?d 5 0 (co_log s) (ok, n) past'" by (rule sendLoop_run[OF _ loop]) simp
  then show ?thesis using loop
    by (intro exI[of _ "\<lparr>dr_webhookId = wh_id wh, dr_targetUrl = wh_targetUrl wh, dr_success = ok, dr_attempts = n\<rparr>"] exI[of _ past'])
      (simp add: dispatchOne_def generateSignature_def sendWithRetry_def andThen_def return_def of_result_def delivered_def)
qed

lemma dispatch_run:
  "\<exists>rs' past'. foldProg (dispatchOne fetch hmac eventName (Inr body)) whs rs s = (Inr (rs @ rs'), s\<lparr>co_log := past'\<rparr>) \<and>
     deliveries fetch hmac eventName body whs (co_log s) rs' past'"
proof (induction whs arbitrary: rs s)
  case Nil
  then show ?case by (intro exI[of _ "[]"] exI[of _ "co_log s"]) (simp add: return_def)
next
  case (Cons wh whs)
  obtain r mid where r: "dispatchOne fetch hmac eventName (Inr body) wh rs s = (Inr (rs @ [r]), s\<lparr>co_log := mid\<rparr>)"
      "delivered fetch hmac eventName body wh (co_log s) r mid"
    using dispatchOne_run by blast
  from Cons.IH[of "rs @ [r]" "s\<lparr>co_log := mid\<rparr>"] obtain rs' past' where
    rs': "foldProg (dispatchOne fetch hmac eventName (Inr body)) whs (rs @ [r]) (s\<lparr>co_log := mid\<rparr>) =
      (Inr (rs @ r # rs'), s\<lparr>co_log := past'\<rparr>)" "deliveries fetch hmac eventName body whs mid rs' past'"
    by auto
  show ?case
    by (rule exI[of _ "r # rs'"], rule exI[of _ past']) (use r rs' in \<open>simp add: andThen_def, blast\<close>)
qed

text \<open>Whatever happens, a dispatch returns when the database and \<^verbatim>\<open>JSON.stringify\<close> do.\<close>

context prisma_client begin

lemma dispatchEvent_run:
  assumes "t \<noteq> []" and "findMany (tenant_ctx t) webhook_model (webhookRepo P (tenant_ctx t)) [] None None (co_db s) = (Inr whs, d)"
  obtains rs past' where "dispatchEvent P fetch hmac t eventName (Inr body) s = (Inr rs, s\<lparr>co_log := past'\<rparr>)"
    "deliveries fetch hmac eventName body (filter (\<lambda>wh. wh_isActive wh \<and> eventName \<in> set (wh_events wh)) whs) (co_log s) rs past'"
    "\<And>wh. wh \<in> set whs \<Longrightarrow> wh \<in> set (t_webhooks (T (co_db s))) \<and> wh_tenantId wh = Some t"
proof -
  have rows: "d = co_db s" "\<And>wh. wh \<in> set whs \<Longrightarrow> wh \<in> set (t_webhooks (T (co_db s))) \<and> wh_tenantId wh = Some t"
    using webhooks.findMany_rows[OF assms(1) assms(2)] by auto
  let ?whs = "filter (\<lambda>wh. wh_isActive wh \<and> eventName \<in> set (wh_events wh)) whs"
  have s: "s\<lparr>co_db := d\<rparr> = s" using rows(1) by simp
  obtain rs past' where "foldProg (dispatchOne fetch hmac eventName (Inr body)) ?whs [] s = (Inr rs, s\<lparr>co_log := past'\<rparr>)"
      "deliveries fetch hmac eventName body ?whs (co_log s) rs past'"
    using dispatch_run[of fetch hmac eventName body ?whs "[]" s] by auto
  then show thesis using assms(2) s rows
    by (intro that[of rs past']) (auto simp: dispatchEvent_def Let_def andThen_def onDb_def return_def)
qed

end

end
