(* ===== verification/Admin_Properties.thy ===== *)
theory Admin_Properties
  imports Branch_Correct Customer_Service Webhook_Service Sample_Data
begin

text \<open>
  Properties of the administration of branches, tables and customers, and of the delivery of
  events to the webhooks of a tenant.
\<close>

section \<open>Branches and tables\<close>

text \<open>Deleting a branch ends: the loop over its tables, which the code does not bound, stops for every
  number of tables, so a request to delete a branch always returns. When it reports success, the
  branch had no order in progress, is archived and inactive, its live tables are archived with it,
  and nothing else has changed; when it throws, the database is as it was.\<close>

theorem delete_branch_returns:
  assumes "prisma_client P T" "t \<noteq> []" "i \<noteq> []" "distinct (map tb_id (t_diningTables (T d)))"
  shows "\<exists>r d'. deleteBranch P (tenant_ctx t) now i d = Some (r, d') \<and>
    (case r of Inl e \<Rightarrow> T d' = T d
     | Inr j \<Rightarrow> j = i \<and>
         (\<forall>x \<in> set (t_orders (T d)). od_branchId x = i \<and> od_tenantId x = Some t \<longrightarrow> od_status x \<notin> set ACTIVE_ORDER_STATUSES) \<and>
         (\<exists>xs b ys. t_branches (T d) = xs @ b # ys \<and> br_id b = i \<and> br_tenantId b = Some t \<and>
            T d' = (T d)\<lparr>t_branches := xs @ b\<lparr>br_deletedAt := Some now, br_isActive := False\<rparr> # ys,
              t_diningTables := map (\<lambda>x. if tb_branchId x = i \<and> tb_tenantId x = Some t \<and> tb_deletedAt x = None
                then x\<lparr>tb_deletedAt := Some now\<rparr> else x) (t_diningTables (T d))\<rparr>))"
proof (cases rule: prisma_client.deleteBranch_run[OF assms, of now, case_names run])
  case (run r d')
  show ?thesis using run
    by (intro exI[of _ r] exI[of _ d']) (auto simp: branch_deleted_def tables_closed_def live_table_def open_orders_def filter_empty_conv split: sum.split)
qed

definition sample_quiet :: tables where
  "sample_quiet = sample_tables\<lparr>t_orders := [sample_order ''t1'' ''o1'' OrderStatus.COMPLETED]\<rparr>"

theorem delete_branch_returns_witness:
  "(\<exists>d'. deleteBranch mem_prisma (tenant_ctx ''t1'') 7 ''b1'' sample_quiet = Some (Inr ''b1'', d') \<and>
      (\<exists>x. t_diningTables d' = [x] \<and> tb_deletedAt x = Some 7)) \<and>
   (\<exists>e d'. deleteBranch mem_prisma (tenant_ctx ''t1'') 7 ''b1'' sample_tables = Some (Inl e, d') \<and> d' = sample_tables)"
proof -
  have ids: "distinct (map tb_id (t_diningTables sample_quiet))" "distinct (map tb_id (t_diningTables sample_tables))"
    by (simp_all add: sample_quiet_def sample_tables_def)
  note run = delete_branch_returns[OF mem.prisma_client_axioms, of "''t1''" "''b1''", OF _ _ ids(1)]
    delete_branch_returns[OF mem.prisma_client_axioms, of "''t1''" "''b1''", OF _ _ ids(2)]
  let ?quiet = "deleteBranch mem_prisma (tenant_ctx ''t1'') 7 ''b1'' sample_quiet"
  let ?busy = "deleteBranch mem_prisma (tenant_ctx ''t1'') 7 ''b1'' sample_tables"
  have "case ?quiet of Some (Inr j, d') \<Rightarrow> True | _ \<Rightarrow> False" by code_simp
  then obtain j d' where quiet: "?quiet = Some (Inr j, d')" by (auto split: option.splits sum.splits)
  have "case ?busy of Some (Inl e, d') \<Rightarrow> True | _ \<Rightarrow> False" by code_simp
  then obtain e d2 where busy: "?busy = Some (Inl e, d2)" by (auto split: option.splits sum.splits)
  have "j = ''b1'' \<and> (\<exists>x. t_diningTables d' = [x] \<and> tb_deletedAt x = Some 7)"
  proof -
    have "t_diningTables sample_quiet = [sample_table]" by (simp add: sample_quiet_def sample_tables_def)
    then show ?thesis using run(1)[of 7] quiet by (auto simp: sample_table_def)
  qed
  moreover have "d2 = sample_tables" using run(2)[of 7] busy by auto
  ultimately show ?thesis using quiet busy by auto
qed

section \<open>Customers\<close>

text \<open>No two live customers of a tenant share an e-mail address: whatever sequence of requests creates,
  reads, changes, archives and restores customers of the tenant, with whatever results, the
  addresses of its live customers stay distinct when they were.\<close>

theorem customers_distinct_emails:
  assumes "prisma_client P T" "t \<noteq> []" "distinct (map cu_id (t_customers (T d)))"
    and "distinct (map cu_email (filter (\<lambda>x. cu_tenantId x = Some t \<and> cu_deletedAt x = None) (t_customers (T d))))"
  shows "distinct (map cu_email (filter (\<lambda>x. cu_tenantId x = Some t \<and> cu_deletedAt x = None)
    (t_customers (T (fold (customerStep P (tenant_ctx t)) calls d)))))"
proof -
  have "unique_live customer_model cu_email t rs \<longleftrightarrow>
      distinct (map cu_email (filter (\<lambda>x. cu_tenantId x = Some t \<and> cu_deletedAt x = None) rs))" for rs
    by (simp add: unique_live_def live_of_def)
  then show ?thesis using prisma_client.customerSteps_keep[OF assms(1,2), of d calls] assms(3,4) by simp
qed

definition sample_signup :: "string \<Rightarrow> CreateCustomerRequestDto" where
  "sample_signup email = \<lparr>cc_firstName = ''A'', cc_lastName = ''B'', cc_email = email, cc_phoneNumber = None\<rparr>"

theorem customers_distinct_emails_witness:
  "length (t_customers (fold (customerStep mem_prisma (tenant_ctx ''t1''))
      [CreateCustomer 1 (sample_signup ''a@x''), CreateCustomer 2 (sample_signup ''a@x''), CreateCustomer 3 (sample_signup ''b@x'')] sample_tables)) = 2 \<and>
   distinct (map cu_email (filter (\<lambda>x. cu_tenantId x = Some ''t1'' \<and> cu_deletedAt x = None)
      (t_customers (fold (customerStep mem_prisma (tenant_ctx ''t1''))
        [CreateCustomer 1 (sample_signup ''a@x''), CreateCustomer 2 (sample_signup ''a@x''), CreateCustomer 3 (sample_signup ''b@x'')] sample_tables))))"
proof
  show "length (t_customers (fold (customerStep mem_prisma (tenant_ctx ''t1''))
      [CreateCustomer 1 (sample_signup ''a@x''), CreateCustomer 2 (sample_signup ''a@x''), CreateCustomer 3 (sample_signup ''b@x'')] sample_tables)) = 2"
    by code_simp
  have "t_customers sample_tables = []" by (simp add: sample_tables_def)
  then show "distinct (map cu_email (filter (\<lambda>x. cu_tenantId x = Some ''t1'' \<and> cu_deletedAt x = None)
      (t_customers (fold (customerStep mem_prisma (tenant_ctx ''t1''))
        [CreateCustomer 1 (sample_signup ''a@x''), CreateCustomer 2 (sample_signup ''a@x''), CreateCustomer 3 (sample_signup ''b@x'')] sample_tables))))"
    by (intro customers_distinct_emails[OF mem.prisma_client_axioms]) simp_all
qed

section \<open>Webhooks\<close>

text \<open>C24. Every event is delivered or given up, in bounded time: when the webhooks of the tenant can be read and
  the payload is JSON, a dispatch returns, one result for every active webhook of the tenant that
  subscribes to the event, in their order; each got the same signed post between one and five
  times, waiting at most five seconds after each, and counts as delivered exactly when its last post was
  answered with a status of 200 to 299; fewer than five posts that did not succeed end with a 4xx
  other than 429.\<close>

theorem dispatch_delivers:
  assumes "prisma_client P T" "t \<noteq> []"
    and "findMany (tenant_ctx t) webhook_model (webhookRepo P (tenant_ctx t)) [] None None (co_db s) = (Inr whs, d)"
  shows "\<exists>rs past'. dispatchEvent P fetch hmac t eventName (Inr body) s = (Inr rs, s\<lparr>co_log := past'\<rparr>) \<and>
    (let relevant = filter (\<lambda>wh. wh_isActive wh \<and> eventName \<in> set (wh_events wh)) whs in
     deliveries fetch hmac eventName body relevant (co_log s) rs past' \<and>
     map dr_webhookId rs = map wh_id relevant \<and> (\<forall>r \<in> set rs. 1 \<le> dr_attempts r \<and> dr_attempts r \<le> 5) \<and>
     (\<forall>wh \<in> set relevant. wh \<in> set (t_webhooks (T (co_db s))) \<and> wh_tenantId wh = Some t))"
proof (cases rule: prisma_client.dispatchEvent_run[OF assms, of fetch hmac eventName body, case_names run])
  case (run rs past')
  then show ?thesis using deliveries_results[OF run(2)] by (intro exI[of _ rs] exI[of _ past']) (simp add: Let_def)
qed

definition sample_webhook :: "string \<Rightarrow> bool \<Rightarrow> webhook" where
  "sample_webhook i active = \<lparr>wh_id = i, wh_tenantId = Some ''t1'', wh_targetUrl = i, wh_secretKey = ''k'',
     wh_events = [''order.created''], wh_isActive = active, wh_createdAt = 0\<rparr>"

definition sample_courier :: "tables courier" where
  "sample_courier = \<lparr>co_db = sample_tables\<lparr>t_webhooks := [sample_webhook ''w1'' True, sample_webhook ''w2'' False, sample_webhook ''w3'' True]\<rparr>,
     co_log = []\<rparr>"

text \<open>A network on which the first webhook answers 503 and then 200, and the others refuse.\<close>

definition sample_network :: network where
  "sample_network past d = (if dv_targetUrl d = ''w1'' then Inr (if past = [] then 503 else 200) else Inr 410)"

theorem dispatch_delivers_witness:
  "\<exists>rs s'. dispatchEvent mem_prisma sample_network (\<lambda>k x. k @ x) ''t1'' ''order.created'' (Inr ''{}'') sample_courier = (Inr rs, s') \<and>
     map dr_webhookId rs = [''w1'', ''w3''] \<and> map dr_attempts rs = [2, 1] \<and> map dr_success rs = [True, False]"
proof -
  let ?find = "findMany (tenant_ctx ''t1'') webhook_model (webhookRepo mem_prisma (tenant_ctx ''t1'')) [] None None (co_db sample_courier)"
  let ?run = "dispatchEvent mem_prisma sample_network (\<lambda>k x. k @ x) ''t1'' ''order.created'' (Inr ''{}'') sample_courier"
  have "fst ?find = Inr [sample_webhook ''w1'' True, sample_webhook ''w2'' False, sample_webhook ''w3'' True]" by code_simp
  then obtain d where find: "?find = (Inr [sample_webhook ''w1'' True, sample_webhook ''w2'' False, sample_webhook ''w3'' True], d)"
    by (metis prod.collapse)
  obtain rs past' where run: "?run = (Inr rs, sample_courier\<lparr>co_log := past'\<rparr>)" "map dr_webhookId rs = [''w1'', ''w3'']"
    using dispatch_delivers[OF mem.prisma_client_axioms _ find, of sample_network "\<lambda>k x. k @ x" "''order.created''" "''{}''"]
    by (auto simp: sample_webhook_def Let_def)
  have "case fst ?run of Inl e \<Rightarrow> False | Inr rs \<Rightarrow> map dr_attempts rs = [2, 1] \<and> map dr_success rs = [True, False]" by code_simp
  then show ?thesis using run by simp
qed

end
