(* ===== verification/Menu_Service.thy ===== *)
theory Menu_Service
  imports Branch_Service
begin

text \<open>
  \<^verbatim>\<open>apps/api/src/menu/menu.service.ts\<close>: the categories of a restaurant, their products, and the sizes,
  addon groups and addon choices of a product. \<open>c\<close> is the tenant context of the request. A field of
  an update that is \<open>None\<close> was left out.
\<close>

abbreviation categoryRepo :: "'d prisma \<Rightarrow> ctx \<Rightarrow> ('d, category) delegate" where
  "categoryRepo P c \<equiv> extended c category_model (px_category P)"

abbreviation productRepo :: "'d prisma \<Rightarrow> ctx \<Rightarrow> ('d, product) delegate" where
  "productRepo P c \<equiv> extended c product_model (px_product P)"

section \<open>Categories\<close>

record CreateCategoryRequestDto =
  cd_restaurantId :: string
  cd_name :: string
  cd_sortOrder :: int

record UpdateCategoryRequestDto =
  ug_name :: "string option"
  ug_sortOrder :: "int option"
  ug_isActive :: "bool option"

definition createCategory :: "'d prisma \<Rightarrow> ctx \<Rightarrow> int \<Rightarrow> CreateCategoryRequestDto \<Rightarrow> ('d, category) prog" where
  "createCategory P c now dto =
     andThen (findById c restaurant_model (extended c restaurant_model (px_restaurant P)) (cd_restaurantId dto)) (\<lambda>restaurant.
     case restaurant of
       None \<Rightarrow> throw (requested ''Restaurant'' (cd_restaurantId dto))
     | Some _ \<Rightarrow> repo_create c category_model (categoryRepo P c)
         \<lparr>ct_id = [], ct_tenantId = None, ct_restaurantId = cd_restaurantId dto, ct_name = cd_name dto,
          ct_sortOrder = cd_sortOrder dto, ct_isActive = True, ct_createdAt = now, ct_updatedAt = now, ct_deletedAt = None\<rparr>)"

definition getCategories :: "'d prisma \<Rightarrow> ctx \<Rightarrow> bool \<Rightarrow> ('d, category list) prog" where
  "getCategories P c includeDeleted =
     findMany c category_model (categoryRepo P c) (includingDeleted includeDeleted []) None None"

definition categoryData :: "UpdateCategoryRequestDto \<Rightarrow> category \<Rightarrow> category" where
  "categoryData dto =
     defined_field (ug_isActive dto) (\<lambda>v. ct_isActive_update (\<lambda>_. v)) \<circ>
     defined_field (ug_sortOrder dto) (\<lambda>v. ct_sortOrder_update (\<lambda>_. v)) \<circ>
     defined_field (ug_name dto) (\<lambda>v. ct_name_update (\<lambda>_. v))"

definition updateCategory :: "'d prisma \<Rightarrow> ctx \<Rightarrow> string \<Rightarrow> UpdateCategoryRequestDto \<Rightarrow> ('d, category) prog" where
  "updateCategory P c i dto =
     andThen (findById c category_model (categoryRepo P c) i) (\<lambda>existing. case existing of
       None \<Rightarrow> throw (requested ''Category'' i)
     | Some ct \<Rightarrow>
         if ug_name dto = None \<and> ug_sortOrder dto = None \<and> ug_isActive dto = None then return ct
         else repo_update c category_model (categoryRepo P c) i (categoryData dto))"

definition cascadeProductsWhere :: "string \<Rightarrow> string option \<Rightarrow> where_clause" where
  "cascadeProductsWhere i tenantId = [(''categoryId'', Is (CStr i)), (''tenantId'', Is (opt_cell tenantId)), (''deletedAt'', Is CNull)]"

definition cascadeProducts ::
  "'d prisma \<Rightarrow> ctx \<Rightarrow> int \<Rightarrow> string \<Rightarrow> string option \<Rightarrow> 'd \<Rightarrow> ((exn + unit) \<times> 'd) option" where
  "cascadeProducts P c now i tenantId =
     cascadeLoop (productRepo P c) product_model (cascadeProductsWhere i tenantId)
       (\<lambda>p. p\<lparr>pr_deletedAt := Some now, pr_isAvailable := False\<rparr>)"

text \<open>The body of the transaction, and the transaction.\<close>

definition cascadeCategory :: "'d prisma \<Rightarrow> ctx \<Rightarrow> int \<Rightarrow> string \<Rightarrow> string option \<Rightarrow> 'd \<Rightarrow> ((exn + unit) \<times> 'd) option" where
  "cascadeCategory P c now i tenantId d = (case cascadeProducts P c now i tenantId d of
     None \<Rightarrow> None
   | Some (Inl e, d1) \<Rightarrow> Some (Inl e, d1)
   | Some (Inr u, d1) \<Rightarrow> Some (andThen (dg_update (categoryRepo P c) (where_id i)
        (\<lambda>ct. ct\<lparr>ct_deletedAt := Some now, ct_isActive := False\<rparr>)) (\<lambda>_. return ()) d1))"

definition deleteCategory :: "'d prisma \<Rightarrow> ctx \<Rightarrow> int \<Rightarrow> string \<Rightarrow> 'd \<Rightarrow> ((exn + string) \<times> 'd) option" where
  "deleteCategory P c now i d =
     (case andThen (findById c category_model (categoryRepo P c) i) (\<lambda>existing. case existing of
             None \<Rightarrow> throw (requested ''Category'' i)
           | Some ct \<Rightarrow> return ct) d of
        (Inl e, d1) \<Rightarrow> Some (Inl e, d1)
      | (Inr ct, d1) \<Rightarrow> (case cascadeCategory P c now i (ct_tenantId ct) d1 of
            None \<Rightarrow> None
          | Some body \<Rightarrow> Some (andThen (transaction P (\<lambda>_. body)) (\<lambda>_. return i) d1)))"

definition restoreCategory :: "'d prisma \<Rightarrow> ctx \<Rightarrow> string \<Rightarrow> ('d, string) prog" where
  "restoreCategory P c i =
     andThen (findByIdIncludingDeleted c category_model (categoryRepo P c) i) (\<lambda>existing. case existing of
       None \<Rightarrow> throw (requested ''Category'' i)
     | Some _ \<Rightarrow> andThen (restore c category_model (categoryRepo P c) i (\<lambda>r. r)) (\<lambda>_. return i))"

section \<open>Products\<close>

record CreateProductRequestDto =
  pd_categoryId :: string
  pd_name :: string
  pd_description :: "string option"
  pd_imageUrl :: "string option"
  pd_basePrice :: rat
  pd_calories :: "int option"
  pd_preparationTime :: "int option"

record UpdateProductRequestDto =
  ux_categoryId :: "string option"
  ux_name :: "string option"
  ux_description :: "string option"
  ux_imageUrl :: "string option"
  ux_basePrice :: "rat option"
  ux_isAvailable :: "bool option"
  ux_calories :: "int option"
  ux_preparationTime :: "int option"

text \<open>\<^verbatim>\<open>x || null\<close> and \<^verbatim>\<open>x || 15\<close> of a number that may be missing.\<close>

definition number_or_null :: "int option \<Rightarrow> int option" where
  "number_or_null x = (if x = Some 0 then None else x)"

definition newProduct :: "int \<Rightarrow> CreateProductRequestDto \<Rightarrow> product" where
  "newProduct now dto =
     \<lparr>pr_id = [], pr_tenantId = None, pr_categoryId = pd_categoryId dto, pr_name = pd_name dto,
      pr_description = or_null (pd_description dto), pr_imageUrl = or_null (pd_imageUrl dto), pr_basePrice = pd_basePrice dto,
      pr_isAvailable = True, pr_calories = number_or_null (pd_calories dto),
      pr_preparationTime = (case number_or_null (pd_preparationTime dto) of None \<Rightarrow> 15 | Some n \<Rightarrow> n),
      pr_createdAt = now, pr_updatedAt = now, pr_deletedAt = None\<rparr>"

definition createProduct :: "'d prisma \<Rightarrow> ctx \<Rightarrow> int \<Rightarrow> CreateProductRequestDto \<Rightarrow> ('d, product) prog" where
  "createProduct P c now dto = repo_create c product_model (productRepo P c) (newProduct now dto)"

definition getProducts :: "'d prisma \<Rightarrow> ctx \<Rightarrow> string option \<Rightarrow> bool \<Rightarrow> ('d, product list) prog" where
  "getProducts P c categoryId includeDeleted = findMany c product_model (productRepo P c)
     (includingDeleted includeDeleted (if truthy categoryId then [(''categoryId'', Is (opt_cell categoryId))] else [])) None None"

definition productData :: "UpdateProductRequestDto \<Rightarrow> product \<Rightarrow> product" where
  "productData dto =
     defined_field (ux_preparationTime dto) (\<lambda>v. pr_preparationTime_update (\<lambda>_. v)) \<circ>
     defined_field (ux_calories dto) (\<lambda>v. pr_calories_update (\<lambda>_. Some v)) \<circ>
     defined_field (ux_isAvailable dto) (\<lambda>v. pr_isAvailable_update (\<lambda>_. v)) \<circ>
     defined_field (ux_basePrice dto) (\<lambda>v. pr_basePrice_update (\<lambda>_. v)) \<circ>
     defined_field (ux_imageUrl dto) (\<lambda>v. pr_imageUrl_update (\<lambda>_. Some v)) \<circ>
     defined_field (ux_description dto) (\<lambda>v. pr_description_update (\<lambda>_. Some v)) \<circ>
     defined_field (ux_name dto) (\<lambda>v. pr_name_update (\<lambda>_. v)) \<circ>
     defined_field (ux_categoryId dto) (\<lambda>v. pr_categoryId_update (\<lambda>_. v))"

definition noProductData :: "UpdateProductRequestDto \<Rightarrow> bool" where
  "noProductData dto \<longleftrightarrow> ux_categoryId dto = None \<and> ux_name dto = None \<and> ux_description dto = None \<and>
     ux_imageUrl dto = None \<and> ux_basePrice dto = None \<and> ux_isAvailable dto = None \<and> ux_calories dto = None \<and>
     ux_preparationTime dto = None"

definition updateProduct :: "'d prisma \<Rightarrow> ctx \<Rightarrow> string \<Rightarrow> UpdateProductRequestDto \<Rightarrow> ('d, product) prog" where
  "updateProduct P c i dto =
     andThen (findById c product_model (productRepo P c) i) (\<lambda>existing. case existing of
       None \<Rightarrow> throw (requested ''Product'' i)
     | Some p \<Rightarrow>
         andThen (case ux_categoryId dto of
             None \<Rightarrow> return ()
           | Some k \<Rightarrow> andThen (findById c category_model (categoryRepo P c) k) (\<lambda>category. case category of
                 None \<Rightarrow> throw (requested ''Category'' k)
               | Some _ \<Rightarrow> return ())) (\<lambda>_.
         if noProductData dto then return p
         else repo_update c product_model (productRepo P c) i (productData dto)))"

definition deleteProduct :: "'d prisma \<Rightarrow> ctx \<Rightarrow> int \<Rightarrow> string \<Rightarrow> ('d, string) prog" where
  "deleteProduct P c now i =
     andThen (findById c product_model (productRepo P c) i) (\<lambda>existing. case existing of
       None \<Rightarrow> throw (requested ''Product'' i)
     | Some _ \<Rightarrow> andThen (softDelete c product_model (productRepo P c) now i (pr_isAvailable_update (\<lambda>_. False))) (\<lambda>_. return i))"

definition restoreProduct :: "'d prisma \<Rightarrow> ctx \<Rightarrow> string \<Rightarrow> ('d, string) prog" where
  "restoreProduct P c i =
     andThen (findByIdIncludingDeleted c product_model (productRepo P c) i) (\<lambda>existing. case existing of
       None \<Rightarrow> throw (requested ''Product'' i)
     | Some p \<Rightarrow>
         andThen (findById c category_model (categoryRepo P c) (pr_categoryId p)) (\<lambda>category. case category of
           None \<Rightarrow> throw (ConflictException
             ''This product cannot be restored because its category is deleted. Restore the category first.'')
         | Some _ \<Rightarrow>
             andThen (restore c product_model (productRepo P c) i (pr_isAvailable_update (\<lambda>_. True))) (\<lambda>_. return i)))"

section \<open>Options of a product\<close>

definition createProductSize :: "'d prisma \<Rightarrow> ctx \<Rightarrow> string \<Rightarrow> string \<Rightarrow> rat \<Rightarrow> ('d, productSize) prog" where
  "createProductSize P c productId name priceAdjustment =
     repo_create c productSize_model (extended c productSize_model (px_productSize P))
       \<lparr>ps_id = [], ps_tenantId = None, ps_productId = productId, ps_name = name, ps_priceAdjustment = priceAdjustment\<rparr>"

definition createProductAddon ::
  "'d prisma \<Rightarrow> ctx \<Rightarrow> string \<Rightarrow> string \<Rightarrow> int option \<Rightarrow> int option \<Rightarrow> ('d, productAddon) prog" where
  "createProductAddon P c productId name minSelections maxSelections =
     repo_create c productAddon_model (extended c productAddon_model (px_productAddon P))
       \<lparr>pa_id = [], pa_tenantId = None, pa_productId = productId, pa_name = name,
        pa_minSelections = (case minSelections of None \<Rightarrow> 0 | Some n \<Rightarrow> n),
        pa_maxSelections = (case maxSelections of None \<Rightarrow> 1 | Some n \<Rightarrow> n)\<rparr>"

definition createAddonItem :: "'d prisma \<Rightarrow> ctx \<Rightarrow> string \<Rightarrow> string \<Rightarrow> rat \<Rightarrow> ('d, addonItem) prog" where
  "createAddonItem P c addonGroupId name price =
     repo_create c addonItem_model (extended c addonItem_model (px_addonItem P))
       \<lparr>ai_id = [], ai_tenantId = None, ai_addonGroupId = addonGroupId, ai_name = name, ai_price = price, ai_isAvailable = True\<rparr>"

end
