(* ===== verification/Public_Menu.thy ===== *)
theory Public_Menu
  imports Menu_Service
begin

text \<open>
  \<^verbatim>\<open>apps/api/src/menu/public-menu.service.ts\<close>: what a guest who scanned the QR code of a table sees.
  The menu is read by one nested query; the tenant filter is on its outermost level only.
\<close>

record PublicTenantBranding =
  ptb_name :: string
  ptb_logoUrl :: "string option"
  ptb_bannerUrl :: "string option"
  ptb_primaryColor :: string
  ptb_secondaryColor :: string

record PublicAddonOption =
  pao_id :: string
  pao_name :: string
  pao_price :: jsnum
  pao_isAvailable :: bool

record PublicAddonGroup =
  pag_id :: string
  pag_name :: string
  pag_minSelections :: int
  pag_maxSelections :: int
  pag_options :: "PublicAddonOption list"

record PublicProductSize =
  pps_id :: string
  pps_name :: string
  pps_priceAdjustment :: jsnum

record PublicProductVariant =
  ppv_id :: string
  ppv_name :: string
  ppv_price :: jsnum
  ppv_stockQuantity :: int

record PublicProduct =
  pp_id :: string
  pp_name :: string
  pp_description :: "string option"
  pp_imageUrl :: "string option"
  pp_basePrice :: jsnum
  pp_calories :: "int option"
  pp_preparationTime :: int
  pp_isAvailable :: bool
  pp_sizes :: "PublicProductSize list"
  pp_variants :: "PublicProductVariant list"
  pp_addons :: "PublicAddonGroup list"

record PublicCategory =
  pc_id :: string
  pc_name :: string
  pc_products :: "PublicProduct list"

record TableContextResponse =
  tcr_tableNumber :: string
  tcr_branchId :: string
  tcr_branchName :: string
  tcr_restaurantName :: string
  tcr_currency :: string
  tcr_tenant :: PublicTenantBranding

record PublicMenuResponse = TableContextResponse +
  pmr_categories :: "PublicCategory list"

definition MAX_CATEGORIES :: nat where
  "MAX_CATEGORIES = 100"

definition MAX_PRODUCTS_PER_CATEGORY :: nat where
  "MAX_PRODUCTS_PER_CATEGORY = 200"

section \<open>Whose table it is\<close>

definition unresolved :: exn where
  "unresolved = NotFoundException ''The scanned QR code could not be resolved.''"

definition unavailable :: exn where
  "unavailable = NotFoundException ''The scanned QR code is currently unavailable.''"

definition resolveTableByToken :: "'d prisma \<Rightarrow> ctx \<Rightarrow> string option \<Rightarrow> ('d, dining_table \<times> branch \<times> restaurant) prog" where
  "resolveTableByToken P c token =
     (if \<not> truthy token \<or> js_trim (the token) = [] then throw unresolved
      else andThen (dg_findFirst (tableRepo P c) [(''qrCodeToken'', Is (opt_cell token)), (''deletedAt'', Is CNull)]) (\<lambda>table.
        case table of
          None \<Rightarrow> throw unresolved
        | Some tb \<Rightarrow>
            andThen (dg_findFirst (branchRepo P c)
              [(''id'', Is (CStr (tb_branchId tb))), (''isActive'', Is (CBool True)), (''deletedAt'', Is CNull)]) (\<lambda>branch.
            case branch of
              None \<Rightarrow> throw unavailable
            | Some b \<Rightarrow>
                andThen (dg_findFirst (extended c restaurant_model (px_restaurant P)) [(''id'', Is (CStr (br_restaurantId b)))]) (\<lambda>restaurant.
                case restaurant of
                  None \<Rightarrow> throw unavailable
                | Some r \<Rightarrow> return (tb, b, r)))))"

definition getTenantRecord :: "'d prisma \<Rightarrow> string \<Rightarrow> ('d, tenant) prog" where
  "getTenantRecord P tenantId =
     (if tenantId = [] then throw (BadRequestException ''Tenant context is required to resolve QR menu data.'')
      else andThen (px_tenant_findUnique P tenantId) (\<lambda>tenant. case tenant of
        None \<Rightarrow> throw (NotFoundException ''The requested restaurant could not be resolved.'')
      | Some tn \<Rightarrow> return tn))"

definition assertGuestOrderingAllowed :: "TenantStatus \<Rightarrow> ('d, unit) prog" where
  "assertGuestOrderingAllowed status =
     (if status = TenantStatus.UNPAID \<or> status = TenantStatus.CANCELED
      then throw (ForbiddenException ''Online ordering is temporarily unavailable for this restaurant.'')
      else return ())"

definition toBranding :: "tenant \<Rightarrow> PublicTenantBranding" where
  "toBranding tn = \<lparr>ptb_name = tn_name tn, ptb_logoUrl = tn_logoUrl tn, ptb_bannerUrl = tn_bannerUrl tn,
     ptb_primaryColor = tn_primaryColor tn, ptb_secondaryColor = tn_secondaryColor tn\<rparr>"

definition getTableContext :: "'d prisma \<Rightarrow> string option \<Rightarrow> string \<Rightarrow> ('d, TableContextResponse) prog" where
  "getTableContext P token tenantId =
     andThen (resolveTableByToken P (tenant_ctx tenantId) token) (\<lambda>(tb, b, r).
     andThen (getTenantRecord P tenantId) (\<lambda>tenant.
     andThen (assertGuestOrderingAllowed (tn_status tenant)) (\<lambda>_.
     return \<lparr>tcr_tableNumber = tb_number tb, tcr_branchId = br_id b, tcr_branchName = br_name b,
       tcr_restaurantName = rs_name r, tcr_currency = rs_currency r, tcr_tenant = toBranding tenant\<rparr>)))"

section \<open>The menu\<close>

definition publicGroup :: "addonJoin \<Rightarrow> PublicAddonGroup" where
  "publicGroup g = \<lparr>pag_id = pa_id (aj_group g), pag_name = pa_name (aj_group g),
     pag_minSelections = pa_minSelections (aj_group g), pag_maxSelections = pa_maxSelections (aj_group g),
     pag_options = map (\<lambda>x. \<lparr>pao_id = ai_id x, pao_name = ai_name x, pao_price = Fin (ai_price x), pao_isAvailable = ai_isAvailable x\<rparr>)
       (aj_items g)\<rparr>"

definition publicProduct :: "productJoin \<Rightarrow> PublicProduct" where
  "publicProduct j = (let p = pj_product j in
     \<lparr>pp_id = pr_id p, pp_name = pr_name p, pp_description = pr_description p, pp_imageUrl = pr_imageUrl p,
      pp_basePrice = Fin (pr_basePrice p), pp_calories = pr_calories p, pp_preparationTime = pr_preparationTime p,
      pp_isAvailable = pr_isAvailable p,
      pp_sizes = map (\<lambda>x. \<lparr>pps_id = ps_id x, pps_name = ps_name x, pps_priceAdjustment = Fin (ps_priceAdjustment x)\<rparr>) (pj_sizes j),
      pp_variants = map (\<lambda>x. \<lparr>ppv_id = pv_id x, ppv_name = pv_name x, ppv_price = Fin (pv_price x), ppv_stockQuantity = pv_stockQuantity x\<rparr>)
        (pj_variants j),
      pp_addons = map publicGroup (pj_addons j)\<rparr>)"

definition publicCategories :: "categoryJoin list \<Rightarrow> PublicCategory list" where
  "publicCategories cs = filter (\<lambda>pc. pc_products pc \<noteq> [])
     (map (\<lambda>j. \<lparr>pc_id = ct_id (cj_category j), pc_name = ct_name (cj_category j), pc_products = map publicProduct (cj_products j)\<rparr>) cs)"

definition menuWhere :: "string \<Rightarrow> where_clause" where
  "menuWhere restaurantId = [(''restaurantId'', Is (CStr restaurantId)), (''isActive'', Is (CBool True)), (''deletedAt'', Is CNull)]"

definition getPublicMenu :: "'d prisma \<Rightarrow> string option \<Rightarrow> string \<Rightarrow> ('d, PublicMenuResponse) prog" where
  "getPublicMenu P token tenantId = (let c = tenant_ctx tenantId in
     andThen (resolveTableByToken P c token) (\<lambda>(tb, b, r).
     andThen (getTenantRecord P tenantId) (\<lambda>tenant.
     andThen (assertGuestOrderingAllowed (tn_status tenant)) (\<lambda>_.
     andThen (allOperations c category_model ''findMany'' (w_args (menuWhere (br_restaurantId b)))
                (\<lambda>a. px_category_findManyMenu P (a_where a) MAX_CATEGORIES MAX_PRODUCTS_PER_CATEGORY)) (\<lambda>categories.
     return \<lparr>tcr_tableNumber = tb_number tb, tcr_branchId = br_id b, tcr_branchName = br_name b,
       tcr_restaurantName = rs_name r, tcr_currency = rs_currency r, tcr_tenant = toBranding tenant,
       pmr_categories = publicCategories categories\<rparr>)))))"

end
