(* ===== verification/Menu_Correct.thy ===== *)
theory Menu_Correct
  imports Public_Menu Branch_Correct
begin

text \<open>
  The deletion of a category, whose loop over the products ends like the one of a branch; what the
  public menu lists; and where a product's category is checked.
\<close>

section \<open>Deleting a category\<close>

definition live_product :: "string \<Rightarrow> string \<Rightarrow> product \<Rightarrow> bool" where
  "live_product t i x \<longleftrightarrow> pr_categoryId x = i \<and> pr_tenantId x = Some t \<and> pr_deletedAt x = None"

definition products_archived :: "int \<Rightarrow> string \<Rightarrow> string \<Rightarrow> product list \<Rightarrow> product list" where
  "products_archived now t i rs = map (\<lambda>x. if live_product t i x then x\<lparr>pr_deletedAt := Some now, pr_isAvailable := False\<rparr> else x) rs"

lemma sat_cascadeProducts:
  "sat product_model (AList.update ''tenantId'' (Is (CStr t)) (cascadeProductsWhere i (Some t))) r \<longleftrightarrow> live_product t i r"
  by (cases "pr_tenantId r"; cases "pr_deletedAt r")
    (simp_all add: live_product_def cascadeProductsWhere_def sat_def product_model_def product_col_def opt_cell_def date_cell_def)

sublocale prisma_client \<subseteq> productCascade: cascading product_model "px_product P" "\<lambda>d. t_products (T d)" "\<lambda>d. (T d)\<lparr>t_products := []\<rparr>"
    t "cascadeProductsWhere i (Some t)" "\<lambda>p. p\<lparr>pr_deletedAt := Some now, pr_isAvailable := False\<rparr>" "live_product t i"
  for t i now
  by unfold_locales (simp_all add: sat_cascadeProducts, simp_all add: live_product_def)

text \<open>The tables of the database after the category with an id was deleted.\<close>

definition category_deleted :: "int \<Rightarrow> string \<Rightarrow> string \<Rightarrow> tables \<Rightarrow> tables \<Rightarrow> bool" where
  "category_deleted now t i X X' \<longleftrightarrow> (\<exists>xs ct ys. t_categories X = xs @ ct # ys \<and> ct_id ct = i \<and> ct_tenantId ct = Some t \<and>
     X' = X\<lparr>t_categories := xs @ ct\<lparr>ct_deletedAt := Some now, ct_isActive := False\<rparr> # ys,
            t_products := products_archived now t i (t_products X)\<rparr>)"

context prisma_client begin

lemma cascadeProducts_ends:
  assumes "t \<noteq> []" and "distinct (map pr_id (t_products (T d)))"
  obtains r d' where "cascadeProducts P (tenant_ctx t) now i (Some t) d = Some (r, d')"
    "r = Inr () \<Longrightarrow> T d' = (T d)\<lparr>t_products := products_archived now t i (t_products (T d))\<rparr>"
proof -
  obtain r d' where loop: "cascadeProducts P (tenant_ctx t) now i (Some t) d = Some (r, d')"
    and ok: "r = Inr () \<Longrightarrow> t_products (T d') = products_archived now t i (t_products (T d)) \<and>
      (T d')\<lparr>t_products := []\<rparr> = (T d)\<lparr>t_products := []\<rparr>"
    using productCascade.cascadeLoop_ends[OF assms(1), of d i now] assms(2) by (auto simp: cascadeProducts_def products_archived_def)
  show thesis
  proof (rule that[OF loop])
    assume "r = Inr ()"
    then show "T d' = (T d)\<lparr>t_products := products_archived now t i (t_products (T d))\<rparr>"
      using ok products_only[of "T d'" "T d"] by simp
  qed
qed

lemma cascadeCategory_run:
  assumes "t \<noteq> []" and "distinct (map pr_id (t_products (T d)))"
  obtains r d' where "cascadeCategory P (tenant_ctx t) now i (Some t) d = Some (r, d')"
    "r = Inr () \<Longrightarrow> category_deleted now t i (T d) (T d')"
proof (cases rule: cascadeProducts_ends[OF assms, of now i, case_names loop])
  case (loop r1 d1)
  show thesis
  proof (cases r1)
    case (Inl e)
    then show thesis using loop by (intro that[of "Inl e" d1]) (simp_all add: cascadeCategory_def)
  next
    case (Inr u)
    let ?g = "\<lambda>ct :: category. ct\<lparr>ct_deletedAt := Some now, ct_isActive := False\<rparr>"
    let ?m = "andThen (dg_update (categoryRepo P (tenant_ctx t)) (where_id i) ?g) (\<lambda>_. return ())"
    obtain r d' where run: "?m d1 = (r, d')" by (meson surj_pair)
    have "category_deleted now t i (T d) (T d')" if ok: "r = Inr ()"
    proof -
      obtain x where upd: "dg_update (px_category P) (AList.update ''tenantId'' (Is (CStr t)) (where_id i)) ?g d1 = (Inr x, d')"
        using run[unfolded ok categories.ext_update[OF assms(1)]] by (elim andThen_InrE return_InrE) simp
      obtain xs ct ys where rows: "t_categories (T d1) = xs @ ct # ys" "t_categories (T d') = xs @ ?g ct # ys"
          "(T d')\<lparr>t_categories := []\<rparr> = (T d1)\<lparr>t_categories := []\<rparr>"
        and sat: "sat category_model (AList.update ''tenantId'' (Is (CStr t)) (where_id i)) ct"
        using categories.update_Inr[OF upd] by blast
      have ct: "ct_id ct = i \<and> ct_tenantId ct = Some t" using sat categories.sat_id_tenant[of t i ct] by simp
      have d1: "T d1 = (T d)\<lparr>t_products := products_archived now t i (t_products (T d))\<rparr>" using loop(2) Inr by simp
      have "T d' = (T d1)\<lparr>t_categories := xs @ ?g ct # ys\<rparr>" using categories_only[OF rows(3)] by (simp only: rows(2))
      moreover have "t_categories (T d) = xs @ ct # ys" using rows(1) by (simp add: d1)
      ultimately show ?thesis unfolding category_deleted_def
        by (intro exI[of _ xs] exI[of _ ct] exI[of _ ys]) (simp add: ct d1)
    qed
    then show thesis using loop Inr run by (intro that[of r d']) (simp_all add: cascadeCategory_def)
  qed
qed

lemma deleteCategory_run:
  assumes "t \<noteq> []" and "distinct (map pr_id (t_products (T d)))"
  obtains r d' where "deleteCategory P (tenant_ctx t) now i d = Some (r, d')"
    "\<And>e. r = Inl e \<Longrightarrow> T d' = T d"
    "\<And>j. r = Inr j \<Longrightarrow> j = i \<and> category_deleted now t i (T d) (T d')"
proof -
  let ?c = "tenant_ctx t"
  let ?m = "andThen (findById ?c category_model (categoryRepo P ?c) i) (\<lambda>existing. case existing of
             None \<Rightarrow> throw (requested ''Category'' i)
           | Some ct \<Rightarrow> return ct)"
  obtain y d1 where m: "?m d = (y, d1)" by (meson surj_pair)
  have reads: "preserves (\<lambda>d. d) ?m"
    by (auto intro!: preserves_intros categories.repo_reads_preserve assms(1))
  have d1: "d1 = d" using preservesD[OF reads m] by simp
  show thesis
  proof (cases y)
    case (Inl e)
    then show thesis using m d1 by (intro that[of "Inl e" d]) (simp_all add: deleteCategory_def)
  next
    case (Inr ct)
    obtain d2 where find: "findById ?c category_model (categoryRepo P ?c) i d = (Inr (Some ct), d2)"
      using m Inr by (auto simp: throw_def return_def elim!: andThen_InrE split: option.splits)
    have ct: "ct_tenantId ct = Some t" using categories.findById_Some[OF assms(1) find] by auto
    obtain r2 d3 where body: "cascadeCategory P ?c now i (Some t) d = Some (r2, d3)"
        "r2 = Inr () \<Longrightarrow> category_deleted now t i (T d) (T d3)"
      using cascadeCategory_run[OF assms] by blast
    obtain r d' where tx: "transaction P (\<lambda>_. (r2, d3)) d = (r, d')" by (meson surj_pair)
    have del: "deleteCategory P ?c now i d = Some (case r of Inl e \<Rightarrow> Inl e | Inr u \<Rightarrow> Inr i, d')"
      using m d1 Inr ct body(1) tx by (simp add: deleteCategory_def andThen_def return_def split: sum.split)
    show thesis
    proof (cases r)
      case (Inl e)
      then show thesis using del transaction_Inl[OF tx[unfolded Inl]] by (intro that[of "Inl e" d']) simp_all
    next
      case (Inr u)
      have "r2 = Inr ()" "T d' = T d3" using transaction_Inr[OF tx[unfolded Inr]] by auto
      then show thesis using del Inr body(2) by (intro that[of "Inr i" d']) simp_all
    qed
  qed
qed

end

section \<open>The public menu\<close>

text \<open>What a scanned code stands for, in the database.\<close>

definition table_scanned :: "tables \<Rightarrow> string \<Rightarrow> string \<Rightarrow> dining_table \<Rightarrow> branch \<Rightarrow> restaurant \<Rightarrow> bool" where
  "table_scanned X t q tb b r \<longleftrightarrow>
     tb \<in> set (t_diningTables X) \<and> tb_tenantId tb = Some t \<and> tb_qrCodeToken tb = q \<and> tb_deletedAt tb = None \<and>
     b \<in> set (t_branches X) \<and> br_tenantId b = Some t \<and> br_id b = tb_branchId tb \<and> br_isActive b \<and> br_deletedAt b = None \<and>
     r \<in> set (t_restaurants X) \<and> rs_tenantId r = Some t \<and> rs_id r = br_restaurantId b"

text \<open>A tenant whose guests are served.\<close>

definition serves_guests :: "tables \<Rightarrow> string \<Rightarrow> tenant \<Rightarrow> bool" where
  "serves_guests X t tn \<longleftrightarrow> tn \<in> set (t_tenants X) \<and> tn_id tn = t \<and> tn_status tn \<noteq> TenantStatus.UNPAID \<and> tn_status tn \<noteq> TenantStatus.CANCELED"

definition shown_category :: "tables \<Rightarrow> string \<Rightarrow> string \<Rightarrow> category \<Rightarrow> bool" where
  "shown_category X t ri ct \<longleftrightarrow> ct \<in> set (t_categories X) \<and> ct_tenantId ct = Some t \<and> ct_restaurantId ct = ri \<and> ct_isActive ct \<and> ct_deletedAt ct = None"

text \<open>A product as the guest sees it, and the category it is listed in.\<close>

definition shown_product :: "tables \<Rightarrow> string \<Rightarrow> PublicProduct \<Rightarrow> bool" where
  "shown_product X ci pp \<longleftrightarrow> pp_isAvailable pp \<and>
     (\<exists>p \<in> set (t_products X). pr_categoryId p = ci \<and> pr_isAvailable p \<and> pr_deletedAt p = None \<and>
        pp_id pp = pr_id p \<and> pp_name pp = pr_name p \<and> pp_basePrice pp = Fin (pr_basePrice p)) \<and>
     (\<forall>g \<in> set (pp_addons pp). \<forall>x \<in> set (pag_options g). pao_isAvailable x)"

definition shown_listing :: "tables \<Rightarrow> string \<Rightarrow> string \<Rightarrow> PublicCategory \<Rightarrow> bool" where
  "shown_listing X t ri pc \<longleftrightarrow> (\<exists>ct. shown_category X t ri ct \<and> pc_id pc = ct_id ct \<and> pc_name pc = ct_name ct) \<and>
     1 \<le> length (pc_products pc) \<and> length (pc_products pc) \<le> 200 \<and>
     (\<forall>pp \<in> set (pc_products pc). shown_product X (pc_id pc) pp)"

lemma publicProduct_shown: "product_join X c j \<Longrightarrow> shown_product X c (publicProduct j)"
  by (auto simp: shown_product_def product_join_def publicProduct_def publicGroup_def addon_join_def Let_def)

lemma publicCategories_shown:
  assumes "\<And>j. j \<in> set cs \<Longrightarrow> category_join X MAX_PRODUCTS_PER_CATEGORY j \<and> shown_category X t ri (cj_category j)"
    and "pc \<in> set (publicCategories cs)"
  shows "shown_listing X t ri pc"
proof -
  obtain j where j: "j \<in> set cs" "pc_id pc = ct_id (cj_category j)" "pc_name pc = ct_name (cj_category j)"
      "pc_products pc = map publicProduct (cj_products j)" "pc_products pc \<noteq> []"
    using assms(2) by (auto simp: publicCategories_def)
  note join = assms(1)[OF j(1)]
  have len: "length (pc_products pc) \<le> 200" using join j(4) by (simp add: category_join_def MAX_PRODUCTS_PER_CATEGORY_def)
  have "\<forall>pp \<in> set (pc_products pc). shown_product X (pc_id pc) pp"
    using join j(2,4) by (auto simp: category_join_def intro: publicProduct_shown)
  moreover have "1 \<le> length (pc_products pc)" using j(5) by (cases "pc_products pc") simp_all
  ultimately show ?thesis unfolding shown_listing_def using len join j(2,3) by blast
qed

context prisma_client begin

lemma sat_qrToken:
  "sat dining_table_model (AList.update ''tenantId'' (Is (CStr t)) [(''qrCodeToken'', Is (opt_cell (Some q))), (''deletedAt'', Is CNull)]) tb \<longleftrightarrow>
     tb_qrCodeToken tb = q \<and> tb_deletedAt tb = None \<and> tb_tenantId tb = Some t"
  by (cases "tb_tenantId tb") (auto simp: sat_def dining_table_model_def dining_table_col_def opt_cell_def)

lemma sat_openBranch:
  "sat branch_model (AList.update ''tenantId'' (Is (CStr t)) [(''id'', Is (CStr i)), (''isActive'', Is (CBool True)), (''deletedAt'', Is CNull)]) b \<longleftrightarrow>
     br_id b = i \<and> br_isActive b \<and> br_deletedAt b = None \<and> br_tenantId b = Some t"
  by (cases "br_tenantId b") (auto simp: sat_def branch_model_def branch_col_def opt_cell_def)

lemma resolveTableByToken_Inr:
  assumes t: "t \<noteq> []" and run: "resolveTableByToken P (tenant_ctx t) token d = (Inr (tb, b, r), d')"
  shows "d' = d \<and> table_scanned (T d) t (the token) tb b r"
proof -
  obtain q where q: "token = Some q" using run by (cases token) (auto simp: resolveTableByToken_def throw_def)
  obtain d1 d2 where
      1: "dg_findFirst (px_table P) (AList.update ''tenantId'' (Is (CStr t)) [(''qrCodeToken'', Is (opt_cell (Some q))), (''deletedAt'', Is CNull)]) d = (Inr (Some tb), d1)"
    and 2: "dg_findFirst (px_branch P) (AList.update ''tenantId'' (Is (CStr t)) [(''id'', Is (CStr (tb_branchId tb))), (''isActive'', Is (CBool True)), (''deletedAt'', Is CNull)]) d1 = (Inr (Some b), d2)"
    and 3: "dg_findFirst (px_restaurant P) (AList.update ''tenantId'' (Is (CStr t)) (where_id (br_restaurantId b))) d2 = (Inr (Some r), d')"
    using run unfolding resolveTableByToken_def q
    by (auto simp: diningTables.ext_findFirst[OF t] branches.ext_findFirst[OF t] restaurants.ext_findFirst[OF t] throw_def return_def where_id_def
        elim!: andThen_InrE split: if_splits option.splits)
  note r1 = diningTables.findFirst_eqD[OF 1] and r2 = branches.findFirst_eqD[OF 2] and r3 = restaurants.findFirst_eqD[OF 3]
  have "d1 = d" "d2 = d" "d' = d" using r1 r2 r3 by simp_all
  moreover have "rs_id r = br_restaurantId b \<and> rs_tenantId r = Some t"
    using r3 restaurants.sat_id_tenant[of t "br_restaurantId b" r] by simp
  ultimately show ?thesis using q r1[unfolded sat_qrToken] r2[unfolded sat_openBranch] r3 by (simp add: table_scanned_def)
qed

lemma getTenantRecord_Inr:
  assumes "getTenantRecord P t d = (Inr tn, d')"
  shows "d' = d \<and> tn \<in> set (t_tenants (T d)) \<and> tn_id tn = t"
proof -
  have run: "px_tenant_findUnique P t d = (Inr (Some tn), d')"
    using assms by (auto simp: getTenantRecord_def throw_def return_def elim!: andThen_InrE split: if_splits option.splits)
  then show ?thesis using tenant_state[of t d] tenant_Some[of t d tn] by simp
qed

lemma sat_menu:
  "sat category_model (AList.update ''tenantId'' (Is (CStr t)) (menuWhere ri)) ct \<longleftrightarrow>
     ct_restaurantId ct = ri \<and> ct_isActive ct \<and> ct_deletedAt ct = None \<and> ct_tenantId ct = Some t"
  by (cases "ct_tenantId ct"; cases "ct_deletedAt ct")
    (auto simp: menuWhere_def sat_def category_model_def category_col_def opt_cell_def date_cell_def)

lemma getPublicMenu_run:
  assumes t: "t \<noteq> []" and run: "getPublicMenu P token t d = (Inr menu, d')"
  obtains tb b r tn cs where "d' = d" "table_scanned (T d) t (the token) tb b r" "serves_guests (T d) t tn"
    "menu = \<lparr>tcr_tableNumber = tb_number tb, tcr_branchId = br_id b, tcr_branchName = br_name b,
       tcr_restaurantName = rs_name r, tcr_currency = rs_currency r, tcr_tenant = toBranding tn, pmr_categories = publicCategories cs\<rparr>"
    "length cs \<le> MAX_CATEGORIES"
    "\<And>j. j \<in> set cs \<Longrightarrow> category_join (T d) MAX_PRODUCTS_PER_CATEGORY j \<and> shown_category (T d) t (br_restaurantId b) (cj_category j)"
proof -
  let ?query = "\<lambda>b. allOperations (tenant_ctx t) category_model ''findMany'' (w_args (menuWhere (br_restaurantId b)))
                (\<lambda>a. px_category_findManyMenu P (a_where a) MAX_CATEGORIES MAX_PRODUCTS_PER_CATEGORY)"
  obtain tb b r d1 tn d2 cs where 1: "resolveTableByToken P (tenant_ctx t) token d = (Inr (tb, b, r), d1)"
    and 2: "getTenantRecord P t d1 = (Inr tn, d2)"
    and ok: "tn_status tn \<noteq> TenantStatus.UNPAID" "tn_status tn \<noteq> TenantStatus.CANCELED"
    and 3: "?query b d2 = (Inr cs, d')"
    and menu: "menu = \<lparr>tcr_tableNumber = tb_number tb, tcr_branchId = br_id b, tcr_branchName = br_name b,
       tcr_restaurantName = rs_name r, tcr_currency = rs_currency r, tcr_tenant = toBranding tn, pmr_categories = publicCategories cs\<rparr>"
    using run by (auto simp: getPublicMenu_def assertGuestOrderingAllowed_def throw_def return_def Let_def elim!: andThen_InrE split: if_splits)
  let ?w = "AList.update ''tenantId'' (Is (CStr t)) (menuWhere (br_restaurantId b))"
  note s1 = resolveTableByToken_Inr[OF t 1] and s2 = getTenantRecord_Inr[OF 2]
  have q: "px_category_findManyMenu P ?w MAX_CATEGORIES MAX_PRODUCTS_PER_CATEGORY d = (Inr cs, d')"
    using 3 s1 s2 t by (simp add: allOperations_scoped scopedOperations_def w_args_def)
  have "d' = d" using menuJoin_state[of ?w MAX_CATEGORIES MAX_PRODUCTS_PER_CATEGORY d] q by simp
  then show thesis
    using that[of tb b r tn cs] s1 s2 ok menu menuJoin_sound[of ?w MAX_CATEGORIES MAX_PRODUCTS_PER_CATEGORY d cs] q sat_menu
    by (auto simp: serves_guests_def shown_category_def category_join_def)
qed

text \<open>A live, available product is on every menu that lists its category and has room.\<close>

lemma product_listed:
  assumes u: "u \<noteq> []" and menu: "getPublicMenu P token u d = (Inr menu, d')"
    and p: "p \<in> set (t_products (T d))" "pr_isAvailable p" "pr_deletedAt p = None"
    and pc: "pc \<in> set (pmr_categories menu)" "pc_id pc = pr_categoryId p" "length (pc_products pc) < MAX_PRODUCTS_PER_CATEGORY"
  shows "(\<exists>ct \<in> set (t_categories (T d)). ct_id ct = pc_id pc \<and> ct_tenantId ct = Some u) \<and>
    (\<exists>pp \<in> set (pc_products pc). pp_id pp = pr_id p \<and> pp_name pp = pr_name p \<and> pp_basePrice pp = Fin (pr_basePrice p))"
  using u menu
proof (cases rule: getPublicMenu_run)
  case (1 tb b r tn cs)
  have cats: "pmr_categories menu = publicCategories cs" using 1(4) by simp
  obtain j where j: "j \<in> set cs" "pc_id pc = ct_id (cj_category j)" "pc_products pc = map publicProduct (cj_products j)"
    using pc(1) by (auto simp: cats publicCategories_def)
  note join = 1(6)[OF j(1)]
  have ct: "cj_category j \<in> set (t_categories (T d))" "ct_tenantId (cj_category j) = Some u"
    using join by (simp_all add: shown_category_def)
  have "p \<in> pj_product ` set (cj_products j)"
    using conjunct1[OF join] pc(2,3) j(2,3) p by (simp add: category_join_def)
  then obtain q where q: "q \<in> set (cj_products j)" "pj_product q = p" by auto
  have "publicProduct q \<in> set (pc_products pc)" using q(1) j(3) by simp
  then show ?thesis using ct j(2) q(2) by (intro conjI bexI[of _ "cj_category j"] bexI[of _ "publicProduct q"]) (simp_all add: publicProduct_def Let_def)
qed

lemma createProduct_row:
  assumes t: "t \<noteq> []" and run: "createProduct P (tenant_ctx t) now dto d = (Inr p, d')"
  shows "p \<in> set (t_products (T d')) \<and> pr_tenantId p = Some t \<and> pr_categoryId p = pd_categoryId dto \<and> pr_name p = pd_name dto \<and>
    pr_basePrice p = pd_basePrice dto \<and> pr_isAvailable p \<and> pr_deletedAt p = None"
proof -
  obtain i where "t_products (T d') = t_products (T d) @ [p]"
      "p = md_with_id product_model i (md_with_tenant product_model (Some t) (md_with_tenant product_model (Some t) (newProduct now dto)))"
    using products.create_row[OF t run[unfolded createProduct_def]] by blast
  then show ?thesis by (simp add: product_model_def newProduct_def)
qed

lemma updateProduct_category:
  assumes t: "t \<noteq> []" and run: "updateProduct P (tenant_ctx t) i dto d = (Inr p, d')" and k: "ux_categoryId dto = Some k"
  shows "\<exists>ct \<in> set (t_categories (T d)). ct_id ct = k \<and> ct_tenantId ct = Some t \<and> ct_deletedAt ct = None"
proof -
  obtain q d1 ct d2 where 1: "findById (tenant_ctx t) product_model (productRepo P (tenant_ctx t)) i d = (Inr (Some q), d1)"
    and 2: "findById (tenant_ctx t) category_model (categoryRepo P (tenant_ctx t)) k d1 = (Inr (Some ct), d2)"
    using run k by (auto simp: updateProduct_def throw_def elim!: andThen_InrE split: option.splits)
  have "d1 = d" using products.findById_Some[OF t 1] by simp
  then show ?thesis using categories.findById_Some[OF t 2] by (auto simp: category_model_def)
qed

end

end
