(* ===== verification/Menu_Properties.thy ===== *)
theory Menu_Properties
  imports Menu_Correct Sample_Data
begin

text \<open>
  Properties of the menu: its administration by a tenant and what guests are shown.
\<close>

section \<open>What guests see\<close>


definition sample_category :: "string \<Rightarrow> string \<Rightarrow> category" where
  "sample_category t i = \<lparr>ct_id = i, ct_tenantId = Some t, ct_restaurantId = ''r1'', ct_name = ''Starters'', ct_sortOrder = 1,
     ct_isActive = True, ct_createdAt = 0, ct_updatedAt = 0, ct_deletedAt = None\<rparr>"

definition sample_menu :: tables where
  "sample_menu = sample_tables\<lparr>t_categories := [sample_category ''t1'' ''c1'']\<rparr>"


section \<open>Whose menu a product is on\<close>

text \<open>C26. A product can be put on the menu of another tenant: creating a product does not look at its
  category, so a product of the tenant \<open>t\<close> whose category id is one that the menu of a table of any
  tenant \<open>u\<close> lists is on that menu afterwards, with its name and price, unless the category is full.
  Changing the category of a product is refused unless it is a live category of the product's own tenant.\<close>

theorem product_on_foreign_menu:
  assumes "prisma_client P T" "t \<noteq> []" "u \<noteq> []"
  shows "(\<forall>now dto d p d1 token menu d2 pc.
      createProduct P (tenant_ctx t) now dto d = (Inr p, d1) \<and> getPublicMenu P token u d1 = (Inr menu, d2) \<and>
      pc \<in> set (pmr_categories menu) \<and> pc_id pc = pd_categoryId dto \<and> length (pc_products pc) < 200 \<longrightarrow>
      pr_tenantId p = Some t \<and> (\<exists>ct \<in> set (t_categories (T d1)). ct_id ct = pc_id pc \<and> ct_tenantId ct = Some u) \<and>
      (\<exists>pp \<in> set (pc_products pc). pp_id pp = pr_id p \<and> pp_name pp = pd_name dto \<and> pp_basePrice pp = Fin (pd_basePrice dto))) \<and>
    (\<forall>i dto k d p d1. updateProduct P (tenant_ctx t) i dto d = (Inr p, d1) \<and> ux_categoryId dto = Some k \<longrightarrow>
      (\<exists>ct \<in> set (t_categories (T d)). ct_id ct = k \<and> ct_tenantId ct = Some t \<and> ct_deletedAt ct = None))"
proof (rule conjI; intro allI impI)
  fix now dto d p d1 token menu d2 pc
  assume all: "createProduct P (tenant_ctx t) now dto d = (Inr p, d1) \<and> getPublicMenu P token u d1 = (Inr menu, d2) \<and>
      pc \<in> set (pmr_categories menu) \<and> pc_id pc = pd_categoryId dto \<and> length (pc_products pc) < 200"
  then have run: "createProduct P (tenant_ctx t) now dto d = (Inr p, d1)" "getPublicMenu P token u d1 = (Inr menu, d2)"
    and pc: "pc \<in> set (pmr_categories menu)" "pc_id pc = pd_categoryId dto" "length (pc_products pc) < 200" by blast+
  note row = prisma_client.createProduct_row[OF assms(1,2) run(1)]
  have "p \<in> set (t_products (T d1))" "pr_isAvailable p" "pr_deletedAt p = None" "pc_id pc = pr_categoryId p"
      "length (pc_products pc) < MAX_PRODUCTS_PER_CATEGORY"
    using row pc by (simp_all add: MAX_PRODUCTS_PER_CATEGORY_def)
  from prisma_client.product_listed[OF assms(1,3) run(2) this(1-3) pc(1) this(4,5)] show "pr_tenantId p = Some t \<and>
      (\<exists>ct \<in> set (t_categories (T d1)). ct_id ct = pc_id pc \<and> ct_tenantId ct = Some u) \<and>
      (\<exists>pp \<in> set (pc_products pc). pp_id pp = pr_id p \<and> pp_name pp = pd_name dto \<and> pp_basePrice pp = Fin (pd_basePrice dto))"
    using row by simp
next
  fix i dto k d p d1
  assume "updateProduct P (tenant_ctx t) i dto d = (Inr p, d1) \<and> ux_categoryId dto = Some k"
  then have "updateProduct P (tenant_ctx t) i dto d = (Inr p, d1)" "ux_categoryId dto = Some k" by blast+
  then show "\<exists>ct \<in> set (t_categories (T d)). ct_id ct = k \<and> ct_tenantId ct = Some t \<and> ct_deletedAt ct = None"
    by (rule prisma_client.updateProduct_category[OF assms(1,2)])
qed

definition sample_intruder :: CreateProductRequestDto where
  "sample_intruder = \<lparr>pd_categoryId = ''c1'', pd_name = ''Stew'', pd_description = None, pd_imageUrl = None, pd_basePrice = 1,
     pd_calories = None, pd_preparationTime = None\<rparr>"

theorem product_on_foreign_menu_witness:
  "\<exists>p d1 menu d2 pc. createProduct mem_prisma (tenant_ctx ''t2'') 5 sample_intruder sample_menu = (Inr p, d1) \<and>
     getPublicMenu mem_prisma (Some ''qr1'') ''t1'' d1 = (Inr menu, d2) \<and> pmr_categories menu = [pc] \<and>
     pr_tenantId p = Some ''t2'' \<and> (\<exists>pp \<in> set (pc_products pc). pp_id pp = pr_id p \<and> pp_name pp = ''Stew'')"
proof -
  let ?made = "createProduct mem_prisma (tenant_ctx ''t2'') 5 sample_intruder sample_menu"
  let ?shown = "getPublicMenu mem_prisma (Some ''qr1'') ''t1'' (snd ?made)"
  have "case fst ?made of Inr p \<Rightarrow> True | _ \<Rightarrow> False" by code_simp
  then obtain p d1 where made: "?made = (Inr p, d1)" by (cases ?made) (auto split: sum.splits)
  have "case fst ?shown of Inr menu \<Rightarrow> map (\<lambda>pc. (pc_id pc, length (pc_products pc))) (pmr_categories menu) = [(''c1'', 2)] | _ \<Rightarrow> False"
    by code_simp
  then obtain menu d2 where shown: "getPublicMenu mem_prisma (Some ''qr1'') ''t1'' d1 = (Inr menu, d2)"
      "map (\<lambda>pc. (pc_id pc, length (pc_products pc))) (pmr_categories menu) = [(''c1'', 2)]"
    unfolding made snd_conv by (cases "getPublicMenu mem_prisma (Some ''qr1'') ''t1'' d1") (auto split: sum.splits)
  then obtain pc where pc: "pmr_categories menu = [pc]" "pc_id pc = ''c1''" "length (pc_products pc) = 2" by auto
  have t: "''t2'' \<noteq> []" "''t1'' \<noteq> []" by simp_all
  have "pr_tenantId p = Some ''t2'' \<and> (\<exists>ct \<in> set (t_categories d1). ct_id ct = pc_id pc \<and> ct_tenantId ct = Some ''t1'') \<and>
      (\<exists>pp \<in> set (pc_products pc). pp_id pp = pr_id p \<and> pp_name pp = pd_name sample_intruder \<and> pp_basePrice pp = Fin (pd_basePrice sample_intruder))"
    using conjunct1[OF product_on_foreign_menu[OF mem.prisma_client_axioms t], rule_format,
        of 5 sample_intruder sample_menu p d1 "Some ''qr1''" menu d2 pc] made shown(1) pc by (simp add: sample_intruder_def)
  then have "pr_tenantId p = Some ''t2'' \<and> (\<exists>pp \<in> set (pc_products pc). pp_id pp = pr_id p \<and> pp_name pp = ''Stew'')"
    by (auto simp: sample_intruder_def)
  then show ?thesis using made shown(1) pc(1) by blast
qed

section \<open>Deleting a category\<close>

text \<open>Deleting a category ends, for every number of products, and is all or nothing: on success
  the category is archived and inactive and exactly its live products are archived and unavailable;
  when it throws, the database is as it was.\<close>

theorem delete_category_returns:
  assumes "prisma_client P T" "t \<noteq> []" "distinct (map pr_id (t_products (T d)))"
  shows "\<exists>r d'. deleteCategory P (tenant_ctx t) now i d = Some (r, d') \<and>
    (case r of Inl e \<Rightarrow> T d' = T d
     | Inr j \<Rightarrow> j = i \<and> (\<exists>xs ct ys. t_categories (T d) = xs @ ct # ys \<and> ct_id ct = i \<and> ct_tenantId ct = Some t \<and>
          T d' = (T d)\<lparr>t_categories := xs @ ct\<lparr>ct_deletedAt := Some now, ct_isActive := False\<rparr> # ys,
            t_products := map (\<lambda>x. if pr_categoryId x = i \<and> pr_tenantId x = Some t \<and> pr_deletedAt x = None
              then x\<lparr>pr_deletedAt := Some now, pr_isAvailable := False\<rparr> else x) (t_products (T d))\<rparr>))"
proof (cases rule: prisma_client.deleteCategory_run[OF assms, of now i, case_names run])
  case (run r d')
  note deleted = run(3)[unfolded category_deleted_def products_archived_def live_product_def]
  show ?thesis
  proof (cases r)
    case (Inl e)
    show ?thesis using run(1) run(2)[OF Inl] unfolding Inl by (intro exI conjI) (assumption, simp only: sum.case)
  next
    case (Inr j)
    show ?thesis using run(1) deleted[OF Inr] unfolding Inr by (intro exI[of _ "Inr j"] exI[of _ d'] conjI) (assumption, simp only: sum.case)
  qed
qed

theorem delete_category_returns_witness:
  "\<exists>r d'. deleteCategory mem_prisma (tenant_ctx ''t1'') 7 ''c1'' sample_menu = Some (r, d') \<and>
     r = Inr ''c1'' \<and> map pr_deletedAt (t_products d') = [Some 7]"
proof -
  let ?run = "deleteCategory mem_prisma (tenant_ctx ''t1'') 7 ''c1'' sample_menu"
  have ids: "''t1'' \<noteq> []" "distinct (map pr_id (t_products sample_menu))" by (simp_all add: sample_menu_def sample_tables_def)
  obtain r d' where run: "?run = Some (r, d')" and ok: "case r of Inl e \<Rightarrow> d' = sample_menu
     | Inr j \<Rightarrow> j = ''c1'' \<and> (\<exists>xs ct ys. t_categories sample_menu = xs @ ct # ys \<and> ct_id ct = ''c1'' \<and> ct_tenantId ct = Some ''t1'' \<and>
          d' = sample_menu\<lparr>t_categories := xs @ ct\<lparr>ct_deletedAt := Some 7, ct_isActive := False\<rparr> # ys,
            t_products := map (\<lambda>x. if pr_categoryId x = ''c1'' \<and> pr_tenantId x = Some ''t1'' \<and> pr_deletedAt x = None
              then x\<lparr>pr_deletedAt := Some 7, pr_isAvailable := False\<rparr> else x) (t_products sample_menu)\<rparr>)"
    using delete_category_returns[OF mem.prisma_client_axioms ids, of 7 "''c1''"] by blast
  have "case ?run of Some (Inr j, d) \<Rightarrow> True | _ \<Rightarrow> False" by code_simp
  then obtain j where r: "r = Inr j" using run by (cases r) simp_all
  have "t_products sample_menu = [sample_product]" by (simp add: sample_menu_def sample_tables_def)
  then show ?thesis using run ok r by (auto simp: sample_product_def)
qed

end
