(* ===== verification/Media_Storage.thy ===== *)
theory Media_Storage
  imports Database
begin

text \<open>
  \<^verbatim>\<open>apps/api/src/media/storage\<close>: what the media service keeps its files in. \<open>StorageProvider\<close> is the
  interface; \<open>storage_provider\<close> says what its users rely on, and the two providers of the code keep
  it: files below a directory, over the calls of \<^verbatim>\<open>fs/promises\<close>, and objects of an S3 bucket, over the
  commands of its client. Both are parameters, with their documented behaviour as locales. Buffers
  are strings, and the set of keys is what a state of the storage holds.
\<close>

record StorageUploadResult =
  ur_storageKey :: string
  ur_url :: string
  ur_size :: int

record DeleteBatchResult =
  dr_deleted :: "string list"
  dr_failed :: "(string \<times> string) list"

record 'f StorageProvider =
  sp_upload :: "string \<Rightarrow> string \<Rightarrow> string \<Rightarrow> ('f, StorageUploadResult) prog"
  sp_deleteBatch :: "string list \<Rightarrow> ('f, DeleteBatchResult) prog"
  sp_className :: string

locale storage_provider =
  fixes S :: "'f StorageProvider" and keys :: "'f \<Rightarrow> string set"
  assumes upload_Inr: "sp_upload S k b m f = (Inr u, f') \<Longrightarrow> ur_storageKey u = k \<and> ur_size u = int (length b) \<and> keys f' = insert k (keys f)"
    and upload_Inl: "sp_upload S k b m f = (Inl e, f') \<Longrightarrow> keys f \<subseteq> keys f' \<and> keys f' \<subseteq> insert k (keys f)"
    and deleteBatch_Inr: "sp_deleteBatch S ks f = (Inr res, f') \<Longrightarrow>
          set (dr_deleted res) \<union> fst ` set (dr_failed res) = set ks \<and> keys f' \<inter> set (dr_deleted res) = {} \<and>
          keys f - set ks \<subseteq> keys f' \<and> keys f' \<subseteq> keys f"
    and deleteBatch_Inl: "sp_deleteBatch S ks f = (Inl e, f') \<Longrightarrow> keys f - set ks \<subseteq> keys f' \<and> keys f' \<subseteq> keys f"
begin

lemma upload_keys: "sp_upload S k b m f = (r, f') \<Longrightarrow> keys f \<subseteq> keys f' \<and> keys f' \<subseteq> insert k (keys f)"
  using upload_Inr[of k b m f _ f'] upload_Inl[of k b m f _ f'] by (cases r) auto

end

section \<open>Files\<close>

datatype unlinked = Unlinked | Enoent | UnlinkFailed string

record 'f fileSystem =
  fs_writeFile :: "string \<Rightarrow> string \<Rightarrow> ('f, unit) prog"
  fs_unlink :: "string \<Rightarrow> 'f \<Rightarrow> unlinked \<times> 'f"

locale file_system =
  fixes F :: "'f fileSystem" and paths :: "'f \<Rightarrow> string set"
  assumes writeFile_Inr: "fs_writeFile F p b f = (Inr u, f') \<Longrightarrow> paths f' = insert p (paths f)"
    and writeFile_Inl: "fs_writeFile F p b f = (Inl e, f') \<Longrightarrow> paths f \<subseteq> paths f' \<and> paths f' \<subseteq> insert p (paths f)"
    and unlink_done: "fs_unlink F p f = (Unlinked, f') \<Longrightarrow> paths f' = paths f - {p}"
    and unlink_enoent: "fs_unlink F p f = (Enoent, f') \<Longrightarrow> p \<notin> paths f \<and> paths f' = paths f"
    and unlink_failed: "fs_unlink F p f = (UnlinkFailed m, f') \<Longrightarrow> paths f' = paths f"

text \<open>\<^verbatim>\<open>path.join\<close> of keys without \<^verbatim>\<open>.\<close> and \<^verbatim>\<open>..\<close> segments, as the media service makes them.\<close>

definition path_join :: "string \<Rightarrow> string \<Rightarrow> string" where
  "path_join base key = base @ ''/'' @ key"

definition local_upload :: "'f fileSystem \<Rightarrow> string \<Rightarrow> string \<Rightarrow> string \<Rightarrow> string \<Rightarrow> ('f, StorageUploadResult) prog" where
  "local_upload F basePath key buffer mimeType =
     andThen (fs_writeFile F (path_join basePath key) buffer) (\<lambda>_.
     return \<lparr>ur_storageKey = key, ur_url = ''/uploads/'' @ key, ur_size = int (length buffer)\<rparr>)"

definition local_delete :: "'f fileSystem \<Rightarrow> string \<Rightarrow> string \<Rightarrow> ('f, unit) prog" where
  "local_delete F basePath key f = (Inr (), snd (fs_unlink F (path_join basePath key) f))"

text \<open>A file that is not there counts as deleted.\<close>

fun local_deleteBatch :: "'f fileSystem \<Rightarrow> string \<Rightarrow> string list \<Rightarrow> ('f, DeleteBatchResult) prog" where
  "local_deleteBatch F basePath [] f = (Inr \<lparr>dr_deleted = [], dr_failed = []\<rparr>, f)"
| "local_deleteBatch F basePath (key # ks) f =
     (let (r, f1) = fs_unlink F (path_join basePath key) f in
      case local_deleteBatch F basePath ks f1 of
        (Inl e, f2) \<Rightarrow> (Inl e, f2)
      | (Inr res, f2) \<Rightarrow> (Inr (case r of
            UnlinkFailed reason \<Rightarrow> res\<lparr>dr_failed := (key, reason) # dr_failed res\<rparr>
          | _ \<Rightarrow> res\<lparr>dr_deleted := key # dr_deleted res\<rparr>), f2))"

definition localStorage :: "'f fileSystem \<Rightarrow> string \<Rightarrow> 'f StorageProvider" where
  "localStorage F basePath = \<lparr>sp_upload = local_upload F basePath, sp_deleteBatch = local_deleteBatch F basePath,
     sp_className = ''LocalStorageProvider''\<rparr>"

context file_system begin

definition files :: "string \<Rightarrow> 'f \<Rightarrow> string set" where
  "files base f = {k. path_join base k \<in> paths f}"

lemma path_join_inj [simp]: "path_join base k = path_join base k' \<longleftrightarrow> k = k'"
  by (simp add: path_join_def)

lemma unlink_files:
  "fs_unlink F (path_join base k) f = (r, f') \<Longrightarrow>
     files base f' = (case r of UnlinkFailed m \<Rightarrow> files base f | _ \<Rightarrow> files base f - {k})"
  using unlink_done[of "path_join base k" f f'] unlink_enoent[of "path_join base k" f f'] unlink_failed[of "path_join base k" f _ f']
  by (cases r) (auto simp: files_def)

lemma local_deleteBatch_files:
  "local_deleteBatch F base ks f = (r, f') \<Longrightarrow> \<exists>res. r = Inr res \<and>
     set (dr_deleted res) \<union> fst ` set (dr_failed res) = set ks \<and> files base f' \<inter> set (dr_deleted res) = {} \<and>
     files base f - set ks \<subseteq> files base f' \<and> files base f' \<subseteq> files base f"
proof (induction ks arbitrary: f r)
  case (Cons k ks)
  obtain u f1 where u: "fs_unlink F (path_join base k) f = (u, f1)" by (meson surj_pair)
  obtain r2 f2 where rest: "local_deleteBatch F base ks f1 = (r2, f2)" by (meson surj_pair)
  have f2: "f2 = f'" using Cons.prems u rest by (auto split: sum.splits)
  obtain res where res: "r2 = Inr res" "set (dr_deleted res) \<union> fst ` set (dr_failed res) = set ks"
      "files base f' \<inter> set (dr_deleted res) = {}" "files base f1 - set ks \<subseteq> files base f'" "files base f' \<subseteq> files base f1"
    using Cons.IH[OF rest[unfolded f2]] by blast
  have r: "r = Inr (case u of UnlinkFailed reason \<Rightarrow> res\<lparr>dr_failed := (k, reason) # dr_failed res\<rparr>
      | _ \<Rightarrow> res\<lparr>dr_deleted := k # dr_deleted res\<rparr>)"
    using Cons.prems u rest res(1) by (simp split: prod.splits)
  show ?case unfolding r using unlink_files[OF u] res(2-5)
    by (cases u) auto
qed (auto simp: files_def)

end

sublocale file_system \<subseteq> local: storage_provider "localStorage F basePath" "files basePath" for basePath
proof unfold_locales
  fix k b m f u f'
  assume "sp_upload (localStorage F basePath) k b m f = (Inr u, f')"
  then have "fs_writeFile F (path_join basePath k) b f = (Inr (), f')" "ur_storageKey u = k \<and> ur_size u = int (length b)"
    by (auto simp: localStorage_def local_upload_def return_def elim!: andThen_InrE)
  then show "ur_storageKey u = k \<and> ur_size u = int (length b) \<and> files basePath f' = insert k (files basePath f)"
    using writeFile_Inr[of "path_join basePath k" b f "()" f'] by (auto simp: files_def)
next
  fix k b m f e f'
  assume "sp_upload (localStorage F basePath) k b m f = (Inl e, f')"
  then have "fs_writeFile F (path_join basePath k) b f = (Inl e, f')"
    by (auto simp: localStorage_def local_upload_def return_def andThen_def split: prod.splits sum.splits)
  then show "files basePath f \<subseteq> files basePath f' \<and> files basePath f' \<subseteq> insert k (files basePath f)"
    using writeFile_Inl[of "path_join basePath k" b f e f'] by (auto simp: files_def)
qed (auto simp: localStorage_def dest!: local_deleteBatch_files)

text \<open>A file system in memory on which every call succeeds but the removal of the files in \<open>locked\<close>.\<close>

definition mem_fs :: "string list \<Rightarrow> (string \<times> string) list fileSystem" where
  "mem_fs locked = \<lparr>fs_writeFile = (\<lambda>p b f. (Inr (), AList.update p b f)),
     fs_unlink = (\<lambda>p f. if p \<in> set locked then (UnlinkFailed ''EACCES'', f)
        else if p \<in> fst ` set f then (Unlinked, filter (\<lambda>x. fst x \<noteq> p) f) else (Enoent, f))\<rparr>"

interpretation mem_files: file_system "mem_fs locked" "\<lambda>f. fst ` set f" for locked
  by unfold_locales (auto simp: mem_fs_def dom_update split: if_splits)

section \<open>Objects of a bucket\<close>

record 'f s3Client =
  s3_put :: "string \<Rightarrow> string \<Rightarrow> ('f, unit) prog"
  s3_delete :: "string \<Rightarrow> ('f, unit) prog"
  s3_deleteObjects :: "string list \<Rightarrow> ('f, string list \<times> (string \<times> string option) list) prog"

text \<open>The response to \<^verbatim>\<open>DeleteObjects\<close> names every object as deleted or failed.\<close>

locale s3_client =
  fixes C :: "'f s3Client" and objects :: "'f \<Rightarrow> string set"
  assumes put_Inr: "s3_put C k b f = (Inr u, f') \<Longrightarrow> objects f' = insert k (objects f)"
    and put_Inl: "s3_put C k b f = (Inl e, f') \<Longrightarrow> objects f \<subseteq> objects f' \<and> objects f' \<subseteq> insert k (objects f)"
    and delete_Inr: "s3_delete C k f = (Inr u, f') \<Longrightarrow> objects f' = objects f - {k}"
    and delete_Inl: "s3_delete C k f = (Inl e, f') \<Longrightarrow> objects f - {k} \<subseteq> objects f' \<and> objects f' \<subseteq> objects f"
    and deleteObjects_Inr: "s3_deleteObjects C ks f = (Inr (ds, es), f') \<Longrightarrow>
          set ds \<union> fst ` set es = set ks \<and> objects f' \<inter> set ds = {} \<and> objects f - set ks \<subseteq> objects f' \<and> objects f' \<subseteq> objects f"
    and deleteObjects_Inl: "s3_deleteObjects C ks f = (Inl e, f') \<Longrightarrow> objects f - set ks \<subseteq> objects f' \<and> objects f' \<subseteq> objects f"

definition s3_upload :: "'f s3Client \<Rightarrow> string \<Rightarrow> string \<Rightarrow> string \<Rightarrow> string \<Rightarrow> string \<Rightarrow> ('f, StorageUploadResult) prog" where
  "s3_upload C bucket region key buffer mimeType =
     andThen (s3_put C key buffer) (\<lambda>_.
     return \<lparr>ur_storageKey = key, ur_url = ''https://'' @ bucket @ ''.s3.'' @ region @ ''.amazonaws.com/'' @ key, ur_size = int (length buffer)\<rparr>)"

definition s3_deleteObject :: "'f s3Client \<Rightarrow> string \<Rightarrow> ('f, unit) prog" where
  "s3_deleteObject C key = try_catch (s3_delete C key) (\<lambda>_. return ())"

text \<open>The individual deletes after a batch request that failed.\<close>

fun s3_deleteEach :: "'f s3Client \<Rightarrow> string list \<Rightarrow> 'f \<Rightarrow> DeleteBatchResult \<times> 'f" where
  "s3_deleteEach C [] f = (\<lparr>dr_deleted = [], dr_failed = []\<rparr>, f)"
| "s3_deleteEach C (key # ks) f =
     (let (r, f1) = s3_delete C key f; (res, f2) = s3_deleteEach C ks f1 in
      (case r of Inl e \<Rightarrow> res\<lparr>dr_failed := (key, exn_message e) # dr_failed res\<rparr>
       | Inr _ \<Rightarrow> res\<lparr>dr_deleted := key # dr_deleted res\<rparr>, f2))"

definition s3_deleteBatch :: "'f s3Client \<Rightarrow> string list \<Rightarrow> ('f, DeleteBatchResult) prog" where
  "s3_deleteBatch C ks f = (case s3_deleteObjects C ks f of
     (Inr (ds, es), f1) \<Rightarrow> (Inr \<lparr>dr_deleted = ds, dr_failed = map (\<lambda>(k, m). (k, or_else m ''Unknown S3 error'')) es\<rparr>, f1)
   | (Inl e, f1) \<Rightarrow> (let (res, f2) = s3_deleteEach C ks f1 in (Inr res, f2)))"

definition s3Storage :: "'f s3Client \<Rightarrow> string \<Rightarrow> string \<Rightarrow> 'f StorageProvider" where
  "s3Storage C bucket region = \<lparr>sp_upload = s3_upload C bucket region, sp_deleteBatch = s3_deleteBatch C, sp_className = ''S3StorageProvider''\<rparr>"

context s3_client begin

lemma deleteEach_objects:
  "s3_deleteEach C ks f = (res, f') \<Longrightarrow> set (dr_deleted res) \<union> fst ` set (dr_failed res) = set ks \<and>
     objects f' \<inter> set (dr_deleted res) = {} \<and> objects f - set ks \<subseteq> objects f' \<and> objects f' \<subseteq> objects f"
proof (induction ks arbitrary: f res)
  case (Cons k ks)
  obtain r f1 where r: "s3_delete C k f = (r, f1)" by (meson surj_pair)
  obtain res2 f2 where rest: "s3_deleteEach C ks f1 = (res2, f2)" by (meson surj_pair)
  have eq: "f2 = f'" "res = (case r of Inl e \<Rightarrow> res2\<lparr>dr_failed := (k, exn_message e) # dr_failed res2\<rparr>
       | Inr _ \<Rightarrow> res2\<lparr>dr_deleted := k # dr_deleted res2\<rparr>)"
    using Cons.prems r rest by simp_all
  note IH = Cons.IH[OF rest[unfolded eq(1)]]
  show ?case unfolding eq(2) using IH delete_Inl[of k f _ f1] delete_Inr[of k f _ f1] r
    by (cases r) auto
qed auto

lemma s3_deleteBatch_objects:
  assumes "s3_deleteBatch C ks f = (r, f')"
  shows "\<exists>res. r = Inr res \<and> set (dr_deleted res) \<union> fst ` set (dr_failed res) = set ks \<and>
     objects f' \<inter> set (dr_deleted res) = {} \<and> objects f - set ks \<subseteq> objects f' \<and> objects f' \<subseteq> objects f"
proof -
  obtain y f1 where y: "s3_deleteObjects C ks f = (y, f1)" by (meson surj_pair)
  show ?thesis
  proof (cases y)
    case (Inl e)
    obtain res f2 where each: "s3_deleteEach C ks f1 = (res, f2)" by (meson surj_pair)
    have "r = Inr res" "f' = f2" using assms y Inl each by (simp_all add: s3_deleteBatch_def)
    then show ?thesis using deleteEach_objects[OF each] deleteObjects_Inl[OF y[unfolded Inl]] by auto
  next
    case (Inr p)
    obtain ds es where p: "p = (ds, es)" by (cases p)
    have r: "r = Inr \<lparr>dr_deleted = ds, dr_failed = map (\<lambda>(k, m). (k, or_else m ''Unknown S3 error'')) es\<rparr>" "f' = f1"
      using assms y Inr p by (simp_all add: s3_deleteBatch_def)
    have "fst ` set (map (\<lambda>(k, m). (k, or_else m ''Unknown S3 error'')) es) = fst ` set es" by force
    then show ?thesis using deleteObjects_Inr[OF y[unfolded Inr p]] r by simp
  qed
qed

end

sublocale s3_client \<subseteq> s3: storage_provider "s3Storage C bucket region" objects for bucket region
proof unfold_locales
  fix k b m f u f'
  assume "sp_upload (s3Storage C bucket region) k b m f = (Inr u, f')"
  then have "s3_put C k b f = (Inr (), f')" "ur_storageKey u = k \<and> ur_size u = int (length b)"
    by (auto simp: s3Storage_def s3_upload_def return_def elim!: andThen_InrE)
  then show "ur_storageKey u = k \<and> ur_size u = int (length b) \<and> objects f' = insert k (objects f)"
    using put_Inr[of k b f "()" f'] by simp
next
  fix k b m f e f'
  assume "sp_upload (s3Storage C bucket region) k b m f = (Inl e, f')"
  then have "s3_put C k b f = (Inl e, f')"
    by (auto simp: s3Storage_def s3_upload_def return_def andThen_def split: prod.splits sum.splits)
  then show "objects f \<subseteq> objects f' \<and> objects f' \<subseteq> insert k (objects f)" using put_Inl[of k b f e f'] by simp
qed (auto simp: s3Storage_def dest!: s3_deleteBatch_objects)

text \<open>A bucket in memory.\<close>

definition mem_s3 :: "(string \<times> string) list s3Client" where
  "mem_s3 = \<lparr>s3_put = (\<lambda>k b f. (Inr (), AList.update k b f)),
     s3_delete = (\<lambda>k f. (Inr (), filter (\<lambda>x. fst x \<noteq> k) f)),
     s3_deleteObjects = (\<lambda>ks f. (Inr (ks, []), filter (\<lambda>x. fst x \<notin> set ks) f))\<rparr>"

interpretation mem_bucket: s3_client mem_s3 "\<lambda>f. fst ` set f"
  by unfold_locales (auto simp: mem_s3_def dom_update)

end
