(* ===== verification/Media_Service.thy ===== *)
theory Media_Service
  imports Media_Storage
begin

text \<open>
  \<^verbatim>\<open>apps/api/src/media\<close>: uploads of images and documents, with the retried serializable transaction
  that records them and the queue of files to be deleted. The image library (\<^verbatim>\<open>sharp\<close>), the hash and
  the error codes of the database driver are parameters.
\<close>

section \<open>Media types\<close>

record dimension =
  dm_width :: int
  dm_height :: int
  dm_fit :: string

record mediaTypeConfig =
  mc_maxSize :: int
  mc_allowedTypes :: "string list"
  mc_dimensions :: "(dimension \<times> dimension \<times> dimension) option"

definition imageTypes :: "string list" where
  "imageTypes = [''image/jpeg'', ''image/png'', ''image/webp'']"

text \<open>Thumbnail, medium and large.\<close>

fun MEDIA_TYPE_CONFIG :: "MediaType \<Rightarrow> mediaTypeConfig" where
  "MEDIA_TYPE_CONFIG IMAGE = \<lparr>mc_maxSize = 5 * 1024 * 1024, mc_allowedTypes = imageTypes, mc_dimensions = Some
     (\<lparr>dm_width = 200, dm_height = 200, dm_fit = ''cover''\<rparr>, \<lparr>dm_width = 600, dm_height = 600, dm_fit = ''inside''\<rparr>,
      \<lparr>dm_width = 1200, dm_height = 1200, dm_fit = ''inside''\<rparr>)\<rparr>"
| "MEDIA_TYPE_CONFIG LOGO = \<lparr>mc_maxSize = 2 * 1024 * 1024, mc_allowedTypes = imageTypes, mc_dimensions = Some
     (\<lparr>dm_width = 128, dm_height = 128, dm_fit = ''cover''\<rparr>, \<lparr>dm_width = 256, dm_height = 256, dm_fit = ''cover''\<rparr>,
      \<lparr>dm_width = 512, dm_height = 512, dm_fit = ''cover''\<rparr>)\<rparr>"
| "MEDIA_TYPE_CONFIG BANNER = \<lparr>mc_maxSize = 4 * 1024 * 1024, mc_allowedTypes = imageTypes, mc_dimensions = Some
     (\<lparr>dm_width = 400, dm_height = 200, dm_fit = ''cover''\<rparr>, \<lparr>dm_width = 800, dm_height = 400, dm_fit = ''cover''\<rparr>,
      \<lparr>dm_width = 1920, dm_height = 960, dm_fit = ''cover''\<rparr>)\<rparr>"
| "MEDIA_TYPE_CONFIG AVATAR = \<lparr>mc_maxSize = 2 * 1024 * 1024, mc_allowedTypes = imageTypes, mc_dimensions = Some
     (\<lparr>dm_width = 96, dm_height = 96, dm_fit = ''cover''\<rparr>, \<lparr>dm_width = 192, dm_height = 192, dm_fit = ''cover''\<rparr>,
      \<lparr>dm_width = 384, dm_height = 384, dm_fit = ''cover''\<rparr>)\<rparr>"
| "MEDIA_TYPE_CONFIG DOCUMENT = \<lparr>mc_maxSize = 10 * 1024 * 1024, mc_allowedTypes = [''application/pdf''], mc_dimensions = None\<rparr>"

text \<open>The key of a request, as a type.\<close>

definition media_type :: "string \<Rightarrow> MediaType option" where
  "media_type s = List.find (\<lambda>x. show_mediaType x = s) [IMAGE, LOGO, BANNER, AVATAR, DOCUMENT]"

record uploadedFile =
  uf_buffer :: string
  uf_mimetype :: string
  uf_size :: int
  uf_originalname :: string

section \<open>Image processing\<close>

record ProcessedImage =
  pi_buffer :: string
  pi_width :: int
  pi_height :: int

record ImageProcessingResult =
  ir_original :: ProcessedImage
  ir_thumbnail :: ProcessedImage
  ir_medium :: ProcessedImage
  ir_large :: ProcessedImage

record mediaLib =
  ml_sharp :: "string \<Rightarrow> dimension \<Rightarrow> exn + ProcessedImage"
  ml_sha256 :: "string \<Rightarrow> string"
  ml_errorCode :: "exn \<Rightarrow> string option"
  ml_now :: "nat \<Rightarrow> int"
  ml_CDN_BASE_URL :: "string option"
  ml_parseUrl :: "string \<Rightarrow> (string \<times> string) option"

text \<open>\<^verbatim>\<open>new URL(url)\<close> gives the host and the path, or throws.\<close>

definition getPublicUrl :: "mediaLib \<Rightarrow> string \<Rightarrow> string" where
  "getPublicUrl L url =
     (if \<not> truthy (ml_CDN_BASE_URL L) then url
      else case ml_parseUrl L url of
        None \<Rightarrow> url
      | Some (hostname, pathname) \<Rightarrow>
          if startsWith hostname ''s3.'' \<or> startsWith hostname ''s3-'' \<or> endsWith hostname ''.s3.amazonaws.com''
          then rev (dropWhile (\<lambda>ch. ch = CHR ''/'') (rev (the (ml_CDN_BASE_URL L)))) @ pathname
          else url)"

definition toResponseDto :: "mediaLib \<Rightarrow> media \<Rightarrow> media" where
  "toResponseDto L m = m\<lparr>me_originalUrl := getPublicUrl L (me_originalUrl m),
     me_thumbnailUrl := map_option (getPublicUrl L) (or_null (me_thumbnailUrl m)),
     me_mediumUrl := map_option (getPublicUrl L) (or_null (me_mediumUrl m)),
     me_largeUrl := map_option (getPublicUrl L) (or_null (me_largeUrl m))\<rparr>"

text \<open>\<open>Inr None\<close> is the result for a document.\<close>

definition processImage :: "mediaLib \<Rightarrow> string \<Rightarrow> MediaType \<Rightarrow> exn + ImageProcessingResult option" where
  "processImage L inputBuffer mt =
     (if mt = DOCUMENT then Inr None
      else case mc_dimensions (MEDIA_TYPE_CONFIG mt) of
        None \<Rightarrow> Inl (BadRequestException (''No dimensions configured for media type: '' @ show_mediaType mt))
      | Some (th, md, lg) \<Rightarrow>
          (case ml_sharp L inputBuffer \<lparr>dm_width = dm_width lg * 2, dm_height = dm_height lg * 2, dm_fit = ''inside''\<rparr> of
             Inl e \<Rightarrow> Inl e
           | Inr original \<Rightarrow>
               (case (ml_sharp L inputBuffer th, ml_sharp L inputBuffer md, ml_sharp L inputBuffer lg) of
                  (Inr t, Inr m, Inr l) \<Rightarrow> Inr (Some \<lparr>ir_original = original, ir_thumbnail = t, ir_medium = m, ir_large = l\<rparr>)
                | (Inl e, _, _) \<Rightarrow> Inl e
                | (_, Inl e, _) \<Rightarrow> Inl e
                | (_, _, Inl e) \<Rightarrow> Inl e)))"

section \<open>State\<close>

datatype cleanupType = REPLACE | DELETE | ROLLBACK

record CleanupJob =
  kj_type :: cleanupType
  kj_storageKeys :: "string list"
  kj_attempts :: nat
  kj_nextRetryAt :: int

record ('d, 'f) mediaState =
  ms_db :: 'd
  ms_store :: 'f
  ms_queue :: "CleanupJob list"

definition liftMedia :: "('d, 'a) prog \<Rightarrow> (('d, 'f) mediaState, 'a) prog" where
  "liftMedia m s = (case m (ms_db s) of (r, d) \<Rightarrow> (r, s\<lparr>ms_db := d\<rparr>))"

definition liftStore :: "('f, 'a) prog \<Rightarrow> (('d, 'f) mediaState, 'a) prog" where
  "liftStore m s = (case m (ms_store s) of (r, f) \<Rightarrow> (r, s\<lparr>ms_store := f\<rparr>))"

definition enqueue :: "int \<Rightarrow> cleanupType \<Rightarrow> string list \<Rightarrow> (('d, 'f) mediaState, unit) prog" where
  "enqueue now ty ks = modify (\<lambda>s. s\<lparr>ms_queue := ms_queue s @
     [\<lparr>kj_type = ty, kj_storageKeys = ks, kj_attempts = 0, kj_nextRetryAt = now\<rparr>]\<rparr>)"

definition enqueueCleanup :: "int \<Rightarrow> string \<Rightarrow> cleanupType \<Rightarrow> (('d, 'f) mediaState, unit) prog" where
  "enqueueCleanup now storageKey ty = enqueue now ty
     ([storageKey @ ''-original.webp'', storageKey @ ''-thumbnail.webp'', storageKey @ ''-medium.webp'', storageKey @ ''-large.webp''] @
      (if endsWith storageKey ''.pdf'' then [storageKey] else []))"

definition rollbackFiles :: "int \<Rightarrow> string list \<Rightarrow> (('d, 'f) mediaState, unit) prog" where
  "rollbackFiles now ks = enqueue now ROLLBACK ks"

section \<open>Retries\<close>

definition PG_SERIALIZATION_ERROR :: string where "PG_SERIALIZATION_ERROR = ''40001''"
definition PG_DEADLOCK_ERROR :: string where "PG_DEADLOCK_ERROR = ''40P01''"
definition MAX_SERIALIZATION_RETRIES :: nat where "MAX_SERIALIZATION_RETRIES = 3"

definition retryable :: "mediaLib \<Rightarrow> exn \<Rightarrow> bool" where
  "retryable L e \<longleftrightarrow> ml_errorCode L e = Some PG_SERIALIZATION_ERROR \<or> ml_errorCode L e = Some PG_DEADLOCK_ERROR \<or>
     sublist ''serialization failure'' (exn_message e)"

text \<open>\<open>left\<close> attempts remain, of which this is number \<open>n\<close>.\<close>

fun retryLoop :: "mediaLib \<Rightarrow> (nat \<Rightarrow> ('s, 'a) prog) \<Rightarrow> nat \<Rightarrow> nat \<Rightarrow> ('s, 'a) prog" where
  "retryLoop L fn n 0 s = (Inl (JsError ''Unreachable: serializableRetry exceeded retries''), s)"
| "retryLoop L fn n (Suc left) s = (case fn n s of
     (Inr x, s') \<Rightarrow> (Inr x, s')
   | (Inl e, s') \<Rightarrow> if \<not> retryable L e \<or> left = 0 then (Inl e, s') else retryLoop L fn (Suc n) left s')"

definition serializableRetry :: "mediaLib \<Rightarrow> (nat \<Rightarrow> ('s, 'a) prog) \<Rightarrow> ('s, 'a) prog" where
  "serializableRetry L fn = retryLoop L fn 1 MAX_SERIALIZATION_RETRIES"

section \<open>The database\<close>

abbreviation mediaRepo :: "'d prisma \<Rightarrow> ctx \<Rightarrow> ('d, media) delegate" where
  "mediaRepo P c \<equiv> extended c media_model (px_media P)"

definition media_deleteMany :: "'d prisma \<Rightarrow> ctx \<Rightarrow> where_clause \<Rightarrow> ('d, nat) prog" where
  "media_deleteMany P c w = allOperations c media_model ''deleteMany'' (w_args w) (\<lambda>a. px_media_deleteMany P (a_where a))"

text \<open>\<^verbatim>\<open>ENTITY_URL_MAP\<close>, with the update it directs.\<close>

definition updateEntityUrl :: "'d prisma \<Rightarrow> ctx \<Rightarrow> string \<Rightarrow> string \<Rightarrow> string \<Rightarrow> MediaType \<Rightarrow> string option \<Rightarrow> ('d, unit) prog" where
  "updateEntityUrl P c tenantId entityType entityId mt url =
     (if entityType = ''restaurant'' \<and> mt = LOGO
      then andThen (px_tenant_update P tenantId (tn_logoUrl_update (\<lambda>_. url))) (\<lambda>_. return ())
      else if entityType = ''restaurant'' \<and> mt = BANNER
      then andThen (px_tenant_update P tenantId (tn_bannerUrl_update (\<lambda>_. url))) (\<lambda>_. return ())
      else if entityType = ''product'' \<and> mt = IMAGE
      then andThen (dg_update (extended c product_model (px_product P)) (where_id entityId) (pr_imageUrl_update (\<lambda>_. url))) (\<lambda>_. return ())
      else return ())"

definition readyWhere :: "string \<Rightarrow> where_clause" where
  "readyWhere storageKey = [(''storageKey'', Is (CStr storageKey)), (''status'', Is (CStr ''ready''))]"

text \<open>The transaction of an upload: the media created, whether the files of the one it replaces can go, and their key.\<close>

definition recordUpload ::
  "'d prisma \<Rightarrow> ctx \<Rightarrow> string \<Rightarrow> media \<Rightarrow> media option \<Rightarrow> ('d, media \<times> bool \<times> string option) prog" where
  "recordUpload P c tenantId new existingMedia =
     andThen (case existingMedia of
         None \<Rightarrow> return None
       | Some m \<Rightarrow> dg_findFirst (mediaRepo P c) [(''id'', Is (CStr (me_id m))), (''status'', Is (CStr ''ready''))]) (\<lambda>currentExisting.
     andThen (dg_create (mediaRepo P c) new) (\<lambda>created.
     andThen (updateEntityUrl P c tenantId (me_entityType new) (me_entityId new) (me_mediaType new) (Some (me_originalUrl new))) (\<lambda>_.
     case currentExisting of
       None \<Rightarrow> return (created, False, None)
     | Some m \<Rightarrow>
         andThen (media_deleteMany P c (where_id (me_id m))) (\<lambda>_.
         andThen (dg_count (mediaRepo P c) (readyWhere (me_storageKey m))) (\<lambda>remainingCount.
         return (created, remainingCount = 0, Some (me_storageKey m)))))))"

section \<open>Uploads\<close>

text \<open>The files of an attempt: where they are, and their data for the row.\<close>

record stored =
  so_storageKey :: string
  so_originalUrl :: string
  so_thumbnailUrl :: "string option"
  so_mediumUrl :: "string option"
  so_largeUrl :: "string option"
  so_width :: "int option"
  so_height :: "int option"
  so_fileSize :: int

text \<open>\<^verbatim>\<open>Promise.all\<close>: everything is started, whatever fails; the first failure is the result.\<close>

fun promise_all :: "('s, 'a) prog list \<Rightarrow> 's \<Rightarrow> (exn + 'a list) \<times> 's" where
  "promise_all [] s = (Inr [], s)"
| "promise_all (m # ms) s = (let (r, s1) = m s; (rs, s2) = promise_all ms s1 in
     (case r of Inl e \<Rightarrow> Inl e | Inr x \<Rightarrow> (case rs of Inl e \<Rightarrow> Inl e | Inr xs \<Rightarrow> Inr (x # xs)), s2))"

definition image_keys :: "string \<Rightarrow> string list" where
  "image_keys k = [k @ ''-original.webp'', k @ ''-thumbnail.webp'', k @ ''-medium.webp'', k @ ''-large.webp'']"

definition attempt_key :: "mediaLib \<Rightarrow> nat \<Rightarrow> string \<Rightarrow> MediaType \<Rightarrow> string \<Rightarrow> string" where
  "attempt_key L n tenantId mt checksum = ''tenants/'' @ tenantId @ ''/'' @ toLowerCase (show_mediaType mt) @ ''/'' @
     show_int (ml_now L n) @ ''-'' @ take 8 checksum"

text \<open>
  The files of attempt \<open>n\<close>, with the keys the handler of the attempt knows (\<^verbatim>\<open>attemptStorageKeys\<close>):
  a document's once it is stored, the four of an image before they are.
\<close>

definition storeFiles ::
  "mediaLib \<Rightarrow> 'f StorageProvider \<Rightarrow> nat \<Rightarrow> uploadedFile \<Rightarrow> string \<Rightarrow> MediaType \<Rightarrow> string \<Rightarrow> 'f \<Rightarrow> ((exn + stored) \<times> string list) \<times> 'f" where
  "storeFiles L S n file tenantId mt checksum f =
     (let key = attempt_key L n tenantId mt checksum in
      if mt = DOCUMENT then
        (case sp_upload S (key @ ''.pdf'') (uf_buffer file) (uf_mimetype file) f of
           (Inl e, f1) \<Rightarrow> ((Inl e, []), f1)
         | (Inr res, f1) \<Rightarrow> ((Inr \<lparr>so_storageKey = ur_storageKey res, so_originalUrl = ur_url res, so_thumbnailUrl = None,
              so_mediumUrl = None, so_largeUrl = None, so_width = None, so_height = None, so_fileSize = ur_size res\<rparr>,
              [ur_storageKey res]), f1))
      else (case processImage L (uf_buffer file) mt of
         Inl e \<Rightarrow> ((Inl e, []), f)
       | Inr None \<Rightarrow> ((Inl (BadRequestException ''Unexpected processing result''), []), f)
       | Inr (Some p) \<Rightarrow>
           (case promise_all (map (\<lambda>(k, b). sp_upload S k b ''image/webp'') (zip (image_keys key)
                   [pi_buffer (ir_original p), pi_buffer (ir_thumbnail p), pi_buffer (ir_medium p), pi_buffer (ir_large p)])) f of
              (Inl e, f1) \<Rightarrow> ((Inl e, image_keys key), f1)
            | (Inr rs, f1) \<Rightarrow> ((Inr \<lparr>so_storageKey = key, so_originalUrl = ur_url (rs ! 0), so_thumbnailUrl = Some (ur_url (rs ! 1)),
                so_mediumUrl = Some (ur_url (rs ! 2)), so_largeUrl = Some (ur_url (rs ! 3)), so_width = Some (pi_width (ir_original p)),
                so_height = Some (pi_height (ir_original p)), so_fileSize = ur_size (rs ! 0)\<rparr>, image_keys key), f1))))"

definition reuseFiles :: "media \<Rightarrow> stored" where
  "reuseFiles m = \<lparr>so_storageKey = me_storageKey m, so_originalUrl = me_originalUrl m, so_thumbnailUrl = me_thumbnailUrl m,
     so_mediumUrl = me_mediumUrl m, so_largeUrl = me_largeUrl m, so_width = me_width m, so_height = me_height m, so_fileSize = me_fileSize m\<rparr>"

definition newMedia ::
  "int \<Rightarrow> string \<Rightarrow> string \<Rightarrow> string \<Rightarrow> string \<Rightarrow> MediaType \<Rightarrow> uploadedFile \<Rightarrow> string \<Rightarrow> stored \<Rightarrow> media" where
  "newMedia now provider tenantId entityType entityId mt file checksum st =
     \<lparr>me_id = [], me_tenantId = Some tenantId, me_entityType = entityType, me_entityId = entityId, me_mediaType = mt,
      me_originalName = uf_originalname file, me_mimeType = uf_mimetype file, me_originalFileSize = uf_size file,
      me_fileSize = so_fileSize st, me_checksum = checksum, me_width = so_width st, me_height = so_height st,
      me_storageKey = so_storageKey st, me_storageProvider = provider, me_originalUrl = so_originalUrl st,
      me_thumbnailUrl = so_thumbnailUrl st, me_mediumUrl = so_mediumUrl st, me_largeUrl = so_largeUrl st, me_status = ''ready'',
      me_createdAt = now, me_updatedAt = now\<rparr>"

text \<open>The handler of an attempt: the files are deleted when the attempt will be repeated.\<close>

definition cleanAttempt ::
  "mediaLib \<Rightarrow> 'f StorageProvider \<Rightarrow> int \<Rightarrow> string list \<Rightarrow> exn \<Rightarrow> (('d, 'f) mediaState, 'a) prog" where
  "cleanAttempt L S now attemptKeys err =
     (if retryable L err \<and> attemptKeys \<noteq> []
      then andThen (liftStore (sp_deleteBatch S attemptKeys)) (\<lambda>result.
           andThen (if dr_failed result \<noteq> [] then enqueue now ROLLBACK (map fst (dr_failed result)) else return ()) (\<lambda>_. throw err))
      else throw err)"

definition uploadAttempt ::
  "mediaLib \<Rightarrow> 'f StorageProvider \<Rightarrow> 'd prisma \<Rightarrow> ctx \<Rightarrow> uploadedFile \<Rightarrow> string \<Rightarrow> string \<Rightarrow> MediaType \<Rightarrow> string \<Rightarrow> string \<Rightarrow>
   media option \<Rightarrow> media option \<Rightarrow> nat \<Rightarrow> (('d, 'f) mediaState, media \<times> bool \<times> string option) prog" where
  "uploadAttempt L S P c file entityType entityId mt tenantId checksum existingByChecksum existingMedia n s =
     (let ((prepared, attemptKeys), f) = (case existingByChecksum of
            Some m \<Rightarrow> ((Inr (reuseFiles m), []), ms_store s)
          | None \<Rightarrow> storeFiles L S n file tenantId mt checksum (ms_store s));
          now = ml_now L n in
      try_catch (case prepared of
          Inl e \<Rightarrow> throw e
        | Inr st \<Rightarrow> liftMedia (transaction P (recordUpload P c tenantId
            (newMedia now (sp_className S) tenantId entityType entityId mt file checksum st) existingMedia)))
        (cleanAttempt L S now attemptKeys) (s\<lparr>ms_store := f\<rparr>))"

definition byChecksum :: "string \<Rightarrow> string \<Rightarrow> where_clause" where
  "byChecksum tenantId checksum = [(''tenantId'', Is (CStr tenantId)), (''checksum'', Is (CStr checksum)), (''status'', Is (CStr ''ready''))]"

definition byEntity :: "string \<Rightarrow> string \<Rightarrow> string \<Rightarrow> MediaType \<Rightarrow> where_clause" where
  "byEntity tenantId entityType entityId mt = [(''tenantId'', Is (CStr tenantId)), (''entityType'', Is (CStr entityType)),
     (''entityId'', Is (CStr entityId)), (''mediaType'', Is (CStr (show_mediaType mt))), (''status'', Is (CStr ''ready''))]"

definition checkFile :: "uploadedFile \<Rightarrow> string \<Rightarrow> exn + MediaType" where
  "checkFile file mediaType = (case media_type mediaType of
     None \<Rightarrow> Inl (BadRequestException (''Invalid media type: '' @ mediaType))
   | Some mt \<Rightarrow> (let config = MEDIA_TYPE_CONFIG mt in
       if uf_mimetype file \<notin> set (mc_allowedTypes config)
       then Inl (BadRequestException (''Invalid file type '' @ [CHR 0x22] @ uf_mimetype file @ [CHR 0x22] @ ''. Allowed: '' @
              join_with '', '' (mc_allowedTypes config)))
       else if mc_maxSize config < uf_size file
       then Inl (BadRequestException (''File size '' @ show_int (uf_size file) @ '' exceeds maximum '' @
              show_int (mc_maxSize config) @ '' for '' @ mediaType))
       else Inr mt))"

definition media_upload ::
  "mediaLib \<Rightarrow> 'f StorageProvider \<Rightarrow> 'd prisma \<Rightarrow> ctx \<Rightarrow> uploadedFile \<Rightarrow> string \<Rightarrow> string \<Rightarrow> string \<Rightarrow> string \<Rightarrow>
   (('d, 'f) mediaState, media) prog" where
  "media_upload L S P c file entityType entityId mediaType tenantId =
     andThen (of_result (checkFile file mediaType)) (\<lambda>mt.
     let checksum = ml_sha256 L (uf_buffer file) in
     andThen (liftMedia (dg_findFirst (mediaRepo P c) (byChecksum tenantId checksum))) (\<lambda>existingByChecksum.
     andThen (liftMedia (dg_findFirst (mediaRepo P c) (byEntity tenantId entityType entityId mt))) (\<lambda>existingMedia.
     andThen (serializableRetry L (uploadAttempt L S P c file entityType entityId mt tenantId checksum existingByChecksum existingMedia))
       (\<lambda>(media, shouldDeleteOldFiles, oldStorageKey).
     andThen (if shouldDeleteOldFiles \<and> truthy oldStorageKey then enqueueCleanup (ml_now L 0) (the oldStorageKey) REPLACE else return ()) (\<lambda>_.
     return (toResponseDto L media))))))"

section \<open>Reading and removing\<close>

definition media_not_found :: "string \<Rightarrow> exn" where
  "media_not_found i = NotFoundException (''Media with ID '' @ [CHR 0x22] @ i @ [CHR 0x22] @ '' not found'')"

definition media_findAll :: "mediaLib \<Rightarrow> 'd prisma \<Rightarrow> ctx \<Rightarrow> string \<Rightarrow> string option \<Rightarrow> string option \<Rightarrow> ('d, media list) prog" where
  "media_findAll L P c tenantId entityType entityId = andThen (dg_findAll (mediaRepo P c)
     ([(''tenantId'', Is (CStr tenantId)), (''status'', Is (CStr ''ready''))] @
      (if truthy entityType then [(''entityType'', Is (opt_cell entityType))] else []) @
      (if truthy entityId then [(''entityId'', Is (opt_cell entityId))] else []))) (\<lambda>ms. return (map (toResponseDto L) ms))"

definition ofTenant :: "string \<Rightarrow> string \<Rightarrow> where_clause" where
  "ofTenant i tenantId = [(''id'', Is (CStr i)), (''tenantId'', Is (CStr tenantId))]"

definition media_findOne :: "mediaLib \<Rightarrow> 'd prisma \<Rightarrow> ctx \<Rightarrow> string \<Rightarrow> string \<Rightarrow> ('d, media) prog" where
  "media_findOne L P c i tenantId = andThen (dg_findFirst (mediaRepo P c) (ofTenant i tenantId)) (\<lambda>m. case m of
     None \<Rightarrow> throw (media_not_found i)
   | Some x \<Rightarrow> return (toResponseDto L x))"

definition removeRecord :: "'d prisma \<Rightarrow> ctx \<Rightarrow> string \<Rightarrow> string \<Rightarrow> ('d, bool) prog" where
  "removeRecord P c i tenantId =
     andThen (dg_findFirst (mediaRepo P c) (ofTenant i tenantId)) (\<lambda>currentMedia. case currentMedia of
       None \<Rightarrow> return False
     | Some m \<Rightarrow>
         andThen (updateEntityUrl P c tenantId (me_entityType m) (me_entityId m) (me_mediaType m) None) (\<lambda>_.
         andThen (media_deleteMany P c (where_id i)) (\<lambda>_.
         andThen (dg_count (mediaRepo P c) (readyWhere (me_storageKey m))) (\<lambda>remainingCount.
         return (remainingCount = 0)))))"

definition media_remove :: "mediaLib \<Rightarrow> 'd prisma \<Rightarrow> ctx \<Rightarrow> string \<Rightarrow> string \<Rightarrow> (('d, 'f) mediaState, unit) prog" where
  "media_remove L P c i tenantId =
     andThen (liftMedia (dg_findFirst (mediaRepo P c) (ofTenant i tenantId))) (\<lambda>m. case m of
       None \<Rightarrow> throw (media_not_found i)
     | Some media \<Rightarrow>
         andThen (serializableRetry L (\<lambda>_. liftMedia (transaction P (removeRecord P c i tenantId)))) (\<lambda>shouldDeleteFiles.
         if shouldDeleteFiles then enqueueCleanup (ml_now L 0) (me_storageKey media) DELETE else return ()))"

section \<open>The cleanup at startup\<close>

text \<open>
  It runs outside every request, so the tenant context is \<open>None\<close>. The raw query is a parameter: the
  ids it returns, or its error.
\<close>

definition cleanupStaleProcessingRecords :: "'d prisma \<Rightarrow> ctx \<Rightarrow> int \<Rightarrow> ('d, unit) prog" where
  "cleanupStaleProcessingRecords P c now =
     (let stale = [(''status'', Is (CStr ''processing'')), (''createdAt'', Below (now - 60 * 60 * 1000))] in
      try_catch (andThen (dg_findAll (mediaRepo P c) stale) (\<lambda>rows.
          if rows \<noteq> [] then andThen (media_deleteMany P c stale) (\<lambda>_. return ()) else return ())) (\<lambda>_. return ()))"

definition cleanupDeletedEntityReferences :: "'d prisma \<Rightarrow> ctx \<Rightarrow> (exn + string list) \<Rightarrow> ('d, unit) prog" where
  "cleanupDeletedEntityReferences P c orphanMedia =
     try_catch (andThen (of_result orphanMedia) (\<lambda>ids.
       if ids \<noteq> [] then andThen (media_deleteMany P c [(''id'', OneOf (map CStr ids))]) (\<lambda>_. return ()) else return ())) (\<lambda>_. return ())"

definition onApplicationBootstrap :: "'d prisma \<Rightarrow> ctx \<Rightarrow> string option \<Rightarrow> int \<Rightarrow> (exn + string list) \<Rightarrow> ('d, unit) prog" where
  "onApplicationBootstrap P c ENABLE_BACKGROUND_JOBS now orphanMedia =
     (if ENABLE_BACKGROUND_JOBS \<noteq> Some ''true'' then return ()
      else andThen (cleanupStaleProcessingRecords P c now) (\<lambda>_. cleanupDeletedEntityReferences P c orphanMedia))"

end
