(* ===== verification/Media_Correct.thy ===== *)
theory Media_Correct
  imports Media_Service
begin

text \<open>
  What uploads and removals of media do: a first upload is recorded with its files; replacing and
  removing are refused by the tenant-scoped client, which does not let \<^verbatim>\<open>deleteMany\<close> through; and the
  cleanup at startup has no tenant context to work in.
\<close>

section \<open>Retried attempts\<close>

lemma retryLoop_Inr:
  assumes "\<And>n s e s'. I s \<Longrightarrow> fn n s = (Inl e, s') \<Longrightarrow> I s'"
    and "retryLoop L fn n k s = (Inr x, s')" and "I s"
  shows "\<exists>m s1. I s1 \<and> fn m s1 = (Inr x, s')"
  using assms(2,3)
proof (induction k arbitrary: n s)
  case (Suc k)
  obtain r s1 where run: "fn n s = (r, s1)" by (meson surj_pair)
  show ?case
  proof (cases r)
    case (Inr y)
    then show ?thesis using Suc.prems run by (intro exI[of _ n] exI[of _ s]) simp
  next
    case (Inl e)
    have "I s1" by (rule assms(1)[OF Suc.prems(2) run[unfolded Inl]])
    moreover have "retryLoop L fn (Suc n) k s1 = (Inr x, s')" using Suc.prems(1) run Inl by (simp split: if_splits)
    ultimately show ?thesis using Suc.IH by blast
  qed
qed simp

lemma retryLoop_keeps:
  assumes "\<And>n s r s'. I s \<Longrightarrow> fn n s = (r, s') \<Longrightarrow> I s'"
    and "retryLoop L fn n k s = (r, s')" and "I s"
  shows "I s'"
  using assms(2,3)
proof (induction k arbitrary: n s)
  case (Suc k)
  obtain y s1 where run: "fn n s = (y, s1)" by (meson surj_pair)
  have I1: "I s1" by (rule assms(1)[OF Suc.prems(2) run])
  show ?case
  proof (cases "\<exists>e. y = Inl e \<and> retryable L e \<and> k \<noteq> 0")
    case True
    then have "retryLoop L fn (Suc n) k s1 = (r, s')" using Suc.prems(1) run by auto
    then show ?thesis using Suc.IH I1 by blast
  next
    case False
    then have "s' = s1" using Suc.prems(1) run by (auto split: sum.splits if_splits)
    then show ?thesis using I1 by simp
  qed
qed simp

text \<open>How often an attempt is made.\<close>

definition attempts_of :: "(nat \<Rightarrow> ('s, 'a) prog) \<Rightarrow> nat \<Rightarrow> (nat \<times> 's, 'a) prog" where
  "attempts_of fn n = (\<lambda>(k, s). case fn n s of (r, s') \<Rightarrow> (r, (Suc k, s')))"

lemma retryLoop_attempts:
  "\<exists>m. retryLoop L (attempts_of fn) n k (j, s) = (fst (retryLoop L fn n k s), (j + m, snd (retryLoop L fn n k s))) \<and> m \<le> k \<and> (0 < k \<longrightarrow> 0 < m)"
proof (induction k arbitrary: n j s)
  case (Suc k)
  obtain y s1 where run: "fn n s = (y, s1)" by (meson surj_pair)
  then have run': "attempts_of fn n (j, s) = (y, (Suc j, s1))" by (simp add: attempts_of_def)
  obtain m where m: "retryLoop L (attempts_of fn) (Suc n) k (Suc j, s1) =
      (fst (retryLoop L fn (Suc n) k s1), (Suc j + m, snd (retryLoop L fn (Suc n) k s1)))" "m \<le> k"
    using Suc.IH[of "Suc n" "Suc j" s1] by blast
  show ?case
  proof (cases "\<exists>e. y = Inl e \<and> retryable L e \<and> k \<noteq> 0")
    case True
    then show ?thesis using run run' m by (intro exI[of _ "Suc m"]) auto
  next
    case False
    then show ?thesis using run run' by (intro exI[of _ 1]) (auto split: sum.splits if_splits)
  qed
qed simp

section \<open>Files of an upload\<close>

text \<open>The keys of the files of stored media.\<close>

definition file_keys :: "MediaType \<Rightarrow> string \<Rightarrow> string list" where
  "file_keys mt k = (if mt = DOCUMENT then [k] else image_keys k)"

context storage_provider begin

lemma promise_all_uploads:
  "promise_all (map (\<lambda>(k, b). sp_upload S k b m) kbs) f = (r, f') \<Longrightarrow>
     keys f \<subseteq> keys f' \<and> (\<forall>us. r = Inr us \<longrightarrow> fst ` set kbs \<subseteq> keys f')"
proof (induction kbs arbitrary: f r)
  case (Cons kb kbs)
  obtain k b where kb: "kb = (k, b)" by (cases kb)
  obtain y f1 where up: "sp_upload S k b m f = (y, f1)" by (meson surj_pair)
  obtain r2 f2 where rest: "promise_all (map (\<lambda>(k, b). sp_upload S k b m) kbs) f1 = (r2, f2)" by (meson surj_pair)
  have f2: "f2 = f'" using Cons.prems up rest kb by simp
  note IH = Cons.IH[OF rest[unfolded f2]]
  show ?case
  proof (cases y)
    case (Inl e)
    then show ?thesis using Cons.prems up rest kb IH upload_keys[OF up] by auto
  next
    case (Inr u)
    then show ?thesis using Cons.prems up rest kb IH upload_Inr[OF up[unfolded Inr]] by (auto split: sum.splits)
  qed
qed simp

lemma storeFiles_keys:
  assumes "storeFiles L S n file u mt ck f = ((Inr st, ks), f')"
  shows "set (file_keys mt (so_storageKey st)) \<subseteq> keys f'"
proof (cases "mt = DOCUMENT")
  case True
  then obtain key b m res where "sp_upload S key b m f = (Inr res, f')" "so_storageKey st = ur_storageKey res"
    using assms by (auto simp: storeFiles_def Let_def split: prod.splits sum.splits)
  then show ?thesis using True upload_Inr by (fastforce simp: file_keys_def)
next
  case False
  let ?key = "attempt_key L n u mt ck"
  obtain p :: ImageProcessingResult and rs where all: "promise_all (map (\<lambda>(k, b). sp_upload S k b ''image/webp'') (zip (image_keys ?key)
          [pi_buffer (ir_original p), pi_buffer (ir_thumbnail p), pi_buffer (ir_medium p), pi_buffer (ir_large p)])) f = (Inr rs, f')"
      and st: "so_storageKey st = ?key"
    using assms False
    by (auto simp: storeFiles_def Let_def simp del: promise_all.simps split: prod.splits sum.splits option.splits)
  have "fst ` set (zip (image_keys ?key)
      [pi_buffer (ir_original p), pi_buffer (ir_thumbnail p), pi_buffer (ir_medium p), pi_buffer (ir_large p)]) = set (image_keys ?key)"
    by (simp add: image_keys_def)
  then show ?thesis using promise_all_uploads[OF all] st False by (simp add: file_keys_def)
qed

end

section \<open>The refusal\<close>

text \<open>
  An upload that returns has recorded media of the tenant for the entity, from a file of an allowed type and size,
  and its files are in the storage: those of this upload, or those of media with the same checksum.
\<close>

definition uploaded ::
  "mediaLib \<Rightarrow> ('f \<Rightarrow> string set) \<Rightarrow> uploadedFile \<Rightarrow> string \<Rightarrow> string \<Rightarrow> MediaType \<Rightarrow> string \<Rightarrow> media list \<Rightarrow> 'f \<Rightarrow> media \<Rightarrow> bool" where
  "uploaded L keys file et ei mt t before f row \<longleftrightarrow>
     me_tenantId row = Some t \<and> me_entityType row = et \<and> me_entityId row = ei \<and> me_mediaType row = mt \<and>
     me_status row = ''ready'' \<and> me_checksum row = ml_sha256 L (uf_buffer file) \<and> me_mimeType row = uf_mimetype file \<and>
     (set (file_keys mt (me_storageKey row)) \<subseteq> keys f \<or>
      (\<exists>x \<in> set before. me_tenantId x = Some t \<and> me_status x = ''ready'' \<and> me_checksum x = me_checksum row \<and>
         me_storageKey x = me_storageKey row \<and> me_originalUrl x = me_originalUrl row))"

lemma media_type_show: "media_type ty = Some mt \<Longrightarrow> show_mediaType mt = ty"
  by (auto simp: media_type_def split: if_splits)

lemma media_deleteMany_blocked:
  assumes "c = None \<or> c = tenant_ctx t" "t \<noteq> []"
  obtains msg where "media_deleteMany P c w = throw (JsError msg)"
  using assms(1)
proof
  assume "c = None"
  then show thesis
    using allOperations_no_context[of c media_model] that
    by (auto simp: media_deleteMany_def ctx_tenantId_def ctx_isPlatformOwner_def)
next
  assume "c = tenant_ctx t"
  then show thesis
    using allOperations_unsupported[of c "''deleteMany''" media_model] that assms(2)
    by (auto simp: media_deleteMany_def unsupportedOperations_def)
qed

context prisma_client begin

text \<open>The frame of the media of the tenant that an attempt reads.\<close>

lemma sat_ready:
  "sat media_model (AList.update ''tenantId'' (Is (CStr t)) [(''id'', Is (CStr i)), (''status'', Is (CStr ''ready''))]) m \<longleftrightarrow>
     me_id m = i \<and> me_status m = ''ready'' \<and> me_tenantId m = Some t"
  by (cases "me_tenantId m") (auto simp: sat_def media_model_def media_col_def opt_cell_def)

lemma show_mediaType_inj: "show_mediaType x = show_mediaType y \<longleftrightarrow> x = y"
  by (cases x; cases y) simp_all

lemma sat_byEntity:
  "sat media_model (AList.update ''tenantId'' (Is (CStr t)) (byEntity t et ei mt)) m \<longleftrightarrow>
     me_entityType m = et \<and> me_entityId m = ei \<and> me_mediaType m = mt \<and> me_status m = ''ready'' \<and> me_tenantId m = Some t"
  by (cases "me_tenantId m") (auto simp: byEntity_def sat_def media_model_def media_col_def opt_cell_def show_mediaType_inj)

lemma sat_ofTenant:
  "sat media_model (AList.update ''tenantId'' (Is (CStr t)) (ofTenant i t)) m \<longleftrightarrow> me_id m = i \<and> me_tenantId m = Some t"
  by (cases "me_tenantId m") (auto simp: ofTenant_def sat_def media_model_def media_col_def opt_cell_def)

lemma recordUpload_refused:
  assumes t: "t \<noteq> []" and m: "m \<in> set (t_medias (T d))" "me_id m = me_id x" "me_status m = ''ready''" "me_tenantId m = Some t"
  shows "recordUpload P (tenant_ctx t) u new (Some x) d \<noteq> (Inr y, d')"
proof
  assume run: "recordUpload P (tenant_ctx t) u new (Some x) d = (Inr y, d')"
  obtain cur d1 d2 d3 created z where
      find: "dg_findFirst (mediaRepo P (tenant_ctx t)) [(''id'', Is (CStr (me_id x))), (''status'', Is (CStr ''ready''))] d = (Inr cur, d1)"
    and rest: "(case cur of None \<Rightarrow> return (created, False, None)
       | Some m \<Rightarrow> andThen (media_deleteMany P (tenant_ctx t) (where_id (me_id m))) (\<lambda>_.
         andThen (dg_count (mediaRepo P (tenant_ctx t)) (readyWhere (me_storageKey m))) (\<lambda>remainingCount.
         return (created, remainingCount = 0, Some (me_storageKey m))))) d3 = (Inr y, d')"
    using run by (auto simp: recordUpload_def elim!: andThen_InrE)
  show False
  proof (cases cur)
    case None
    then have "dg_findFirst (px_media P) (AList.update ''tenantId'' (Is (CStr t)) [(''id'', Is (CStr (me_id x))), (''status'', Is (CStr ''ready''))]) d = (Inr None, d1)"
      using find by (simp add: medias.ext_findFirst[OF t])
    then have "\<not> sat media_model (AList.update ''tenantId'' (Is (CStr t)) [(''id'', Is (CStr (me_id x))), (''status'', Is (CStr ''ready''))]) m"
      by (intro medias.findFirst_None[OF _ m(1)]) simp
    then show False using m by (simp only: sat_ready) simp
  next
    case (Some c)
    obtain msg where "media_deleteMany P (tenant_ctx t) (where_id (me_id c)) = throw (JsError msg)"
      using media_deleteMany_blocked[of "tenant_ctx t" t P] t by metis
    then show False using rest Some by (simp add: throw_apply)
  qed
qed

text \<open>What a successful attempt records.\<close>

lemma recordUpload_row:
  assumes t: "t \<noteq> []" and new: "me_tenantId new = Some t"
    and run: "recordUpload P (tenant_ctx t) u new old d = (Inr (row, del, k), d')"
  shows "(\<exists>i. row = new\<lparr>me_id := i\<rparr>) \<and> row \<in> set (t_medias (T d'))"
proof -
  obtain cur d1 d2 d3 where find: "(case old of
         None \<Rightarrow> return None
       | Some m \<Rightarrow> dg_findFirst (mediaRepo P (tenant_ctx t)) [(''id'', Is (CStr (me_id m))), (''status'', Is (CStr ''ready''))]) d = (Inr cur, d1)"
    and made: "\<exists>created. dg_create (mediaRepo P (tenant_ctx t)) new d1 = (Inr created, d2) \<and>
       updateEntityUrl P (tenant_ctx t) u (me_entityType new) (me_entityId new) (me_mediaType new) (Some (me_originalUrl new)) d2 = (Inr (), d3) \<and>
       (case cur of None \<Rightarrow> return (created, False, None)
         | Some m \<Rightarrow> andThen (media_deleteMany P (tenant_ctx t) (where_id (me_id m))) (\<lambda>_.
           andThen (dg_count (mediaRepo P (tenant_ctx t)) (readyWhere (me_storageKey m))) (\<lambda>remainingCount.
           return (created, remainingCount = 0, Some (me_storageKey m))))) d3 = (Inr (row, del, k), d')"
    using run by (auto simp: recordUpload_def elim!: andThen_InrE)
  obtain msg where blocked: "\<And>w. \<exists>m. media_deleteMany P (tenant_ctx t) w = throw (JsError m)"
    using media_deleteMany_blocked[of "tenant_ctx t" t P] t by metis
  have cur: "cur = None"
  proof (rule ccontr)
    assume "cur \<noteq> None"
    then obtain c where c: "cur = Some c" by blast
    show False using made blocked[of "where_id (me_id c)"] c by (auto simp: throw_apply)
  qed
  have create: "dg_create (mediaRepo P (tenant_ctx t)) new d1 = (Inr row, d2)"
    and url: "updateEntityUrl P (tenant_ctx t) u (me_entityType new) (me_entityId new) (me_mediaType new) (Some (me_originalUrl new)) d2 = (Inr (), d3)"
    and d': "d' = d3"
    using made cur by (auto simp: return_def)
  have "dg_create (px_media P) (new\<lparr>me_tenantId := Some t\<rparr>) d1 = (Inr row, d2)"
  proof -
    have "md_tenant media_model new = Some t" "md_with_tenant media_model (Some t) new = new\<lparr>me_tenantId := Some t\<rparr>"
      using new by (simp_all add: media_model_def)
    then show ?thesis using create by (simp add: medias.ext_create[OF t])
  qed
  from medias.create_Inr[OF this] obtain i where row: "row = new\<lparr>me_tenantId := Some t, me_id := i\<rparr>" "row \<in> set (t_medias (T d2))"
    by (auto simp: media_model_def)
  have "new\<lparr>me_tenantId := Some t, me_id := i\<rparr> = new\<lparr>me_id := i\<rparr>" using new by (cases new) simp
  moreover have "t_medias (T d3) = t_medias (T d2)"
  proof -
    have "preserves (\<lambda>d. t_medias (T d)) (updateEntityUrl P (tenant_ctx t) u et ei mt url)" for et ei mt url
    proof -
      have tenant: "preserves (\<lambda>d. t_medias (T d)) (px_tenant_update P u f)" for f
      proof (rule preservesI)
        fix d r d' assume "px_tenant_update P u f d = (r, d')"
        then show "t_medias (T d') = t_medias (T d)" by (cases r) (auto dest: tenant_update_Inl tenant_update_Inr)
      qed
      have product: "preserves (\<lambda>d. t_medias (T d)) (dg_update (px_product P) w f)" for w f
      proof (rule preservesI)
        fix d r d' assume "dg_update (px_product P) w f d = (r, d')"
        then have "(T d')\<lparr>t_products := []\<rparr> = (T d)\<lparr>t_products := []\<rparr>" by (rule preservesD[OF products.update_rest])
        then have "t_medias ((T d')\<lparr>t_products := []\<rparr>) = t_medias ((T d)\<lparr>t_products := []\<rparr>)" by simp
        then show "t_medias (T d') = t_medias (T d)" by simp
      qed
      show ?thesis unfolding updateEntityUrl_def products.ext_update[OF t]
        by (intro preserves_intros tenant product)
    qed
    from preservesD[OF this url] show ?thesis by simp
  qed
  ultimately show ?thesis using row d' by (metis)
qed

text \<open>An attempt to replace media fails, and leaves the tables as they were.\<close>

lemma uploadAttempt_tables:
  assumes "uploadAttempt L S P c file et ei mt u checksum dup old n s = (Inl e, s')"
  shows "T (ms_db s') = T (ms_db s)"
proof -
  obtain prepared ks f where prep: "(case dup of Some m \<Rightarrow> ((Inr (reuseFiles m), []), ms_store s)
      | None \<Rightarrow> storeFiles L S n file u mt checksum (ms_store s)) = ((prepared, ks), f)" by (metis surj_pair)
  let ?body = "case prepared of Inl e \<Rightarrow> throw e
        | Inr st \<Rightarrow> liftMedia (transaction P (recordUpload P c u
            (newMedia (ml_now L n) (sp_className S) u et ei mt file checksum st) old))"
  obtain y s1 where body: "?body (s\<lparr>ms_store := f\<rparr>) = (y, s1)" by (meson surj_pair)
  have run: "try_catch ?body (cleanAttempt L S (ml_now L n) ks) (s\<lparr>ms_store := f\<rparr>) = (Inl e, s')"
    using assms by (simp add: uploadAttempt_def prep Let_def)
  then obtain err where y: "y = Inl err" using body by (cases y) (simp_all add: try_catch_def)
  have "T (ms_db s1) = T (ms_db s)"
  proof (cases prepared)
    case (Inl err)
    then show ?thesis using body by (auto simp: throw_def)
  next
    case (Inr st)
    then show ?thesis using body y
      by (auto simp: liftMedia_def split: prod.splits dest!: transaction_Inl)
  qed
  moreover have "ms_db s' = ms_db s1"
    using run body y by (auto simp: try_catch_def cleanAttempt_def liftStore_def enqueue_def modify_def andThen_def throw_def return_def
        split: if_splits prod.splits sum.splits)
  ultimately show ?thesis by simp
qed

lemma uploadAttempt_refused:
  assumes "t \<noteq> []" "m \<in> set (t_medias (T (ms_db s)))" "me_id m = me_id x" "me_status m = ''ready''" "me_tenantId m = Some t"
  shows "uploadAttempt L S P (tenant_ctx t) file et ei mt u checksum dup (Some x) n s \<noteq> (Inr y, s')"
proof
  assume run: "uploadAttempt L S P (tenant_ctx t) file et ei mt u checksum dup (Some x) n s = (Inr y, s')"
  obtain prepared ks f where prep: "(case dup of Some m \<Rightarrow> ((Inr (reuseFiles m), []), ms_store s)
      | None \<Rightarrow> storeFiles L S n file u mt checksum (ms_store s)) = ((prepared, ks), f)" by (metis surj_pair)
  let ?tx = "\<lambda>st. transaction P (recordUpload P (tenant_ctx t) u (newMedia (ml_now L n) (sp_className S) u et ei mt file checksum st) (Some x))"
  have never: "cleanAttempt L S now ks err s1 \<noteq> (Inr y, s')" for now err s1
    by (auto simp: cleanAttempt_def liftStore_def andThen_def throw_def split: if_splits prod.splits sum.splits)
  obtain st d' where tx: "?tx st (ms_db s) = (Inr y, d')"
    using run never by (cases prepared) (auto simp: uploadAttempt_def prep Let_def try_catch_def throw_def liftMedia_def split: prod.splits sum.splits)
  show False using transaction_Inr[OF tx] recordUpload_refused[OF assms] by blast
qed

lemma liftMedia_read:
  "t \<noteq> [] \<Longrightarrow> liftMedia (dg_findFirst (mediaRepo P (tenant_ctx t)) w) s = (y, s1) \<Longrightarrow> s1 = s"
  using preservesD[OF medias.ext_read_others(1)[of t "\<lambda>d. d" w], of "ms_db s"] by (auto simp: liftMedia_def split: prod.splits)

lemma media_upload_refused:
  assumes t: "t \<noteq> []" and m: "m \<in> set (t_medias (T (ms_db s)))" "me_tenantId m = Some t" "me_entityType m = et" "me_entityId m = ei"
      "show_mediaType (me_mediaType m) = ty" "me_status m = ''ready''"
    and run: "media_upload L S P (tenant_ctx t) file et ei ty t s = (r, s')"
  shows "(\<exists>e. r = Inl e) \<and> T (ms_db s') = T (ms_db s)"
proof (cases "checkFile file ty")
  case (Inl e)
  then show ?thesis using run by (auto simp: media_upload_def of_result_def andThen_def)
next
  case (Inr mt)
  have "media_type ty = Some mt" using Inr by (auto simp: checkFile_def Let_def split: option.splits if_splits)
  then have mt: "me_mediaType m = mt" using m(5) by (cases "me_mediaType m") (auto simp: media_type_def)
  let ?ck = "ml_sha256 L (uf_buffer file)"
  let ?rest = "\<lambda>dup. andThen (liftMedia (dg_findFirst (mediaRepo P (tenant_ctx t)) (byEntity t et ei mt))) (\<lambda>old.
     andThen (serializableRetry L (uploadAttempt L S P (tenant_ctx t) file et ei mt t ?ck dup old)) (\<lambda>(media, shouldDeleteOldFiles, oldStorageKey).
     andThen (if shouldDeleteOldFiles \<and> truthy oldStorageKey then enqueueCleanup (ml_now L 0) (the oldStorageKey) REPLACE else return ()) (\<lambda>_.
     return (toResponseDto L media))))"
  have run: "andThen (liftMedia (dg_findFirst (mediaRepo P (tenant_ctx t)) (byChecksum t ?ck))) ?rest s = (r, s')"
    using run Inr by (simp add: media_upload_def of_result_apply andThen_def Let_def)
  obtain dup s1 where 1: "liftMedia (dg_findFirst (mediaRepo P (tenant_ctx t)) (byChecksum t ?ck)) s = (dup, s1)" by (meson surj_pair)
  note s1 = liftMedia_read[OF t 1]
  show ?thesis
  proof (cases dup)
    case (Inl e)
    then show ?thesis using run 1 s1 by (auto simp: andThen_def)
  next
    case dup: (Inr du)
    obtain old s2 where 2: "liftMedia (dg_findFirst (mediaRepo P (tenant_ctx t)) (byEntity t et ei mt)) s1 = (old, s2)" by (meson surj_pair)
    note s2 = liftMedia_read[OF t 2]
    show ?thesis
    proof (cases old)
      case (Inl e)
      then show ?thesis using run 1 2 s1 s2 dup by (auto simp: andThen_def)
    next
      case (Inr ol)
      obtain d2 where look: "dg_findFirst (px_media P) (AList.update ''tenantId'' (Is (CStr t)) (byEntity t et ei mt)) (ms_db s1) = (Inr ol, d2)"
        using 2 Inr by (auto simp: liftMedia_def medias.ext_findFirst[OF t] split: prod.splits)
      have "ol \<noteq> None" using medias.findFirst_None[of "AList.update ''tenantId'' (Is (CStr t)) (byEntity t et ei mt)" "ms_db s1" m] look m s1 mt
        by (auto simp del: AList.update.simps simp: sat_byEntity)
      then obtain x where x: "ol = Some x" by blast
      have row: "x \<in> set (t_medias (T (ms_db s)))" "me_status x = ''ready''" "me_tenantId x = Some t"
        using medias.findFirst_eqD[OF look[unfolded x]] s1 by (auto simp del: AList.update.simps simp: sat_byEntity)
      obtain y s3 where retry: "serializableRetry L (uploadAttempt L S P (tenant_ctx t) file et ei mt t ?ck du (Some x)) s2 = (y, s3)" by (meson surj_pair)
      let ?I = "\<lambda>s3. T (ms_db s3) = T (ms_db s)"
      have fails: "\<exists>e. z = Inl e" if "?I s3" "uploadAttempt L S P (tenant_ctx t) file et ei mt t ?ck du (Some x) n s3 = (z, s4)" for n s3 z s4
        using uploadAttempt_refused[OF t _ refl row(2,3), of s3] that row(1) by (cases z) auto
      have keep: "?I s4" if "?I s3" "uploadAttempt L S P (tenant_ctx t) file et ei mt t ?ck du (Some x) n s3 = (z, s4)" for n s3 z s4
        using fails[OF that] uploadAttempt_tables that by metis
      have I2: "?I s2" using s1 s2 by simp
      let ?fn = "uploadAttempt L S P (tenant_ctx t) file et ei mt t ?ck du (Some x)"
      have I3: "?I s3" by (rule retryLoop_keeps[where I = ?I and fn = ?fn, OF keep retry[unfolded serializableRetry_def] I2])
      have "\<exists>e. y = Inl e"
      proof (cases y)
        case (Inr v)
        then obtain m s5 where "?I s5" "?fn m s5 = (Inr v, s3)"
          using retryLoop_Inr[where I = ?I and fn = ?fn, OF _ retry[unfolded serializableRetry_def Inr] I2] keep by blast
        then show ?thesis using fails by blast
      qed simp
      then show ?thesis using run 1 2 dup Inr x retry I3 by (auto simp: andThen_def)
    qed
  qed
qed

lemma sat_byChecksum:
  "sat media_model (AList.update ''tenantId'' (Is (CStr t)) (byChecksum t ck)) m \<longleftrightarrow>
     me_checksum m = ck \<and> me_status m = ''ready'' \<and> me_tenantId m = Some t"
  by (cases "me_tenantId m") (auto simp: byChecksum_def sat_def media_model_def media_col_def opt_cell_def)

lemma uploadAttempt_recorded:
  assumes S: "storage_provider S keys" and t: "t \<noteq> []"
    and dup: "\<And>x. dup = Some x \<Longrightarrow> x \<in> set before \<and> me_tenantId x = Some t \<and> me_status x = ''ready'' \<and> me_checksum x = ml_sha256 L (uf_buffer file)"
    and run: "uploadAttempt L S P (tenant_ctx t) file et ei mt t (ml_sha256 L (uf_buffer file)) dup old n s = (Inr (row, del, k), s')"
  shows "uploaded L keys file et ei mt t before (ms_store s') row \<and> row \<in> set (t_medias (T (ms_db s')))"
proof -
  let ?ck = "ml_sha256 L (uf_buffer file)"
  obtain prepared ks f where prep: "(case dup of Some m \<Rightarrow> ((Inr (reuseFiles m), []), ms_store s)
      | None \<Rightarrow> storeFiles L S n file t mt ?ck (ms_store s)) = ((prepared, ks), f)" by (metis surj_pair)
  let ?new = "newMedia (ml_now L n) (sp_className S) t et ei mt file ?ck"
  have never: "cleanAttempt L S now ks err s1 \<noteq> (Inr (row, del, k), s')" for now err s1
    by (auto simp: cleanAttempt_def liftStore_def andThen_def throw_def split: if_splits prod.splits sum.splits)
  obtain st d' where st: "prepared = Inr st" and tx: "transaction P (recordUpload P (tenant_ctx t) t (?new st) old) (ms_db s) = (Inr (row, del, k), d')"
      and s': "s' = s\<lparr>ms_store := f, ms_db := d'\<rparr>"
    using run never by (cases prepared) (auto simp: uploadAttempt_def prep Let_def try_catch_def throw_def liftMedia_def split: prod.splits sum.splits)
  obtain d1 where rec: "recordUpload P (tenant_ctx t) t (?new st) old (ms_db s) = (Inr (row, del, k), d1)" "T d' = T d1"
    using transaction_Inr[OF tx] by blast
  have "me_tenantId (?new st) = Some t" by (simp add: newMedia_def)
  from recordUpload_row[OF t this rec(1)] obtain i where row: "row = (?new st)\<lparr>me_id := i\<rparr>" "row \<in> set (t_medias (T d1))" by blast
  have files: "set (file_keys mt (so_storageKey st)) \<subseteq> keys f" if "dup = None"
  proof (rule storage_provider.storeFiles_keys[OF S])
    show "storeFiles L S n file t mt ?ck (ms_store s) = ((Inr st, ks), f)" using prep st that by simp
  qed
  have reuse: "st = reuseFiles x" if "dup = Some x" for x using prep st that by simp
  have "uploaded L keys file et ei mt t before f row"
  proof (cases dup)
    case None
    then show ?thesis using files row(1) by (simp add: uploaded_def newMedia_def)
  next
    case (Some x)
    then show ?thesis using dup[OF Some] reuse[OF Some] row(1) by (auto simp: uploaded_def newMedia_def reuseFiles_def)
  qed
  then show ?thesis using row(2) rec(2) s' by simp
qed

lemma media_upload_recorded:
  assumes S: "storage_provider S keys" and t: "t \<noteq> []"
    and run: "media_upload L S P (tenant_ctx t) file et ei ty t s = (Inr m, s')"
  shows "\<exists>mt row. checkFile file ty = Inr mt \<and> m = toResponseDto L row \<and> row \<in> set (t_medias (T (ms_db s'))) \<and>
    uploaded L keys file et ei mt t (t_medias (T (ms_db s))) (ms_store s') row"
proof -
  let ?ck = "ml_sha256 L (uf_buffer file)"
  obtain mt s0 dup s1 old s2 y s3 where mt: "of_result (checkFile file ty) s = (Inr mt, s0)"
    and 1: "liftMedia (dg_findFirst (mediaRepo P (tenant_ctx t)) (byChecksum t ?ck)) s0 = (Inr dup, s1)"
    and 2: "liftMedia (dg_findFirst (mediaRepo P (tenant_ctx t)) (byEntity t et ei mt)) s1 = (Inr old, s2)"
    and 3: "serializableRetry L (uploadAttempt L S P (tenant_ctx t) file et ei mt t ?ck dup old) s2 = (Inr y, s3)"
    and rest: "(case y of (media, shouldDeleteOldFiles, oldStorageKey) \<Rightarrow>
       andThen (if shouldDeleteOldFiles \<and> truthy oldStorageKey then enqueueCleanup (ml_now L 0) (the oldStorageKey) REPLACE else return ()) (\<lambda>_.
       return (toResponseDto L media))) s3 = (Inr m, s')"
    using run unfolding media_upload_def Let_def by (elim andThen_InrE) (rule that)
  obtain row del k where y: "y = (row, del, k)" by (cases y)
  have mt: "checkFile file ty = Inr mt" "s0 = s" using mt by (simp_all add: of_result_apply)
  note 1 = 1[unfolded mt(2)]
  have m: "m = toResponseDto L row" and same: "ms_db s' = ms_db s3" "ms_store s' = ms_store s3"
    using rest y by (auto simp: enqueueCleanup_def enqueue_def modify_def return_def elim!: andThen_InrE split: if_splits)
  let ?before = "t_medias (T (ms_db s))"
  have dup: "x \<in> set ?before \<and> me_tenantId x = Some t \<and> me_status x = ''ready'' \<and> me_checksum x = ?ck" if x: "dup = Some x" for x
  proof -
    obtain d1 where "dg_findFirst (px_media P) (AList.update ''tenantId'' (Is (CStr t)) (byChecksum t ?ck)) (ms_db s) = (Inr (Some x), d1)"
      using 1[unfolded x] by (auto simp: liftMedia_def medias.ext_findFirst[OF t] split: prod.splits)
    from medias.findFirst_eqD[OF this] show ?thesis by (auto simp del: AList.update.simps simp: sat_byChecksum)
  qed
  obtain n s4 where "uploadAttempt L S P (tenant_ctx t) file et ei mt t ?ck dup old n s4 = (Inr (row, del, k), s3)"
    using retryLoop_Inr[where I = "\<lambda>_. True", OF _ 3[unfolded serializableRetry_def y]] by blast
  from uploadAttempt_recorded[OF S t dup this] show ?thesis using mt m same by auto
qed

text \<open>Removing is refused too; neither the tables nor the files nor the queue change.\<close>

lemma removeRecord_refused:
  assumes t: "t \<noteq> []" and m: "m \<in> set (t_medias (T d))" "me_id m = i" "me_tenantId m = Some t"
  shows "removeRecord P (tenant_ctx t) i t d \<noteq> (Inr y, d')"
proof
  assume run: "removeRecord P (tenant_ctx t) i t d = (Inr y, d')"
  obtain cur d1 where find: "dg_findFirst (mediaRepo P (tenant_ctx t)) (ofTenant i t) d = (Inr cur, d1)"
    and rest: "(case cur of None \<Rightarrow> return False
     | Some m \<Rightarrow> andThen (updateEntityUrl P (tenant_ctx t) t (me_entityType m) (me_entityId m) (me_mediaType m) None) (\<lambda>_.
         andThen (media_deleteMany P (tenant_ctx t) (where_id i)) (\<lambda>_.
         andThen (dg_count (mediaRepo P (tenant_ctx t)) (readyWhere (me_storageKey m))) (\<lambda>remainingCount.
         return (remainingCount = 0))))) d1 = (Inr y, d')"
    using run unfolding removeRecord_def by (elim andThen_InrE)
  obtain msg where "media_deleteMany P (tenant_ctx t) (where_id i) = throw (JsError msg)"
    using media_deleteMany_blocked[of "tenant_ctx t" t P] t by metis
  moreover have "cur \<noteq> None"
    using medias.findFirst_None[of "AList.update ''tenantId'' (Is (CStr t)) (ofTenant i t)" d m] find m
    by (auto simp del: AList.update.simps simp: sat_ofTenant medias.ext_findFirst[OF t])
  ultimately show False using rest by (auto simp: throw_apply elim!: andThen_InrE)
qed

lemma media_remove_refused:
  assumes t: "t \<noteq> []" and m: "m \<in> set (t_medias (T (ms_db s)))" "me_id m = i" "me_tenantId m = Some t"
    and run: "media_remove L P (tenant_ctx t) i t s = (r, s')"
  shows "(\<exists>e. r = Inl e) \<and> T (ms_db s') = T (ms_db s) \<and> ms_store s' = ms_store s \<and> ms_queue s' = ms_queue s"
proof -
  obtain y s1 where find: "liftMedia (dg_findFirst (mediaRepo P (tenant_ctx t)) (ofTenant i t)) s = (y, s1)" by (meson surj_pair)
  let ?I = "\<lambda>s2. T (ms_db s2) = T (ms_db s) \<and> ms_store s2 = ms_store s \<and> ms_queue s2 = ms_queue s"
  have I1: "?I s1" using liftMedia_read[OF t find] by simp
  show ?thesis
  proof (cases "\<exists>x. y = Inr (Some x)")
    case False
    then show ?thesis using run find I1 by (auto simp: media_remove_def andThen_def throw_def split: sum.splits option.splits)
  next
    case True
    then obtain x where x: "y = Inr (Some x)" by blast
    let ?fn = "\<lambda>_ :: nat. liftMedia (transaction P (removeRecord P (tenant_ctx t) i t))"
    obtain z s2 where retry: "serializableRetry L ?fn s1 = (z, s2)" by (meson surj_pair)
    have fails: "?I s4 \<and> (\<exists>e. w = Inl e)" if I: "?I s3" and fn: "?fn n s3 = (w, s4)" for n s3 w s4
    proof -
      obtain d where tx: "transaction P (removeRecord P (tenant_ctx t) i t) (ms_db s3) = (w, d)" "s4 = s3\<lparr>ms_db := d\<rparr>"
        using fn by (auto simp: liftMedia_def split: prod.splits)
      have m': "m \<in> set (t_medias (T (ms_db s3)))" using m(1) I by simp
      show ?thesis
      proof (cases w)
        case (Inl e)
        then show ?thesis using I tx transaction_Inl[OF tx(1)[unfolded Inl]] by simp
      next
        case (Inr b)
        then show ?thesis using transaction_Inr[OF tx(1)[unfolded Inr]] removeRecord_refused[OF t m' m(2,3)] by blast
      qed
    qed
    have keep: "?I s4" if "?I s3" "?fn n s3 = (w, s4)" for n s3 w s4 using fails[OF that] by blast
    have I2: "?I s2" by (rule retryLoop_keeps[where I = ?I and fn = ?fn, OF keep retry[unfolded serializableRetry_def] I1])
    have "\<exists>e. z = Inl e"
    proof (cases z)
      case (Inr v)
      then obtain m s5 where "?I s5" "?fn m s5 = (Inr v, s2)"
        using retryLoop_Inr[where I = ?I and fn = ?fn, OF _ retry[unfolded serializableRetry_def Inr] I1] keep by blast
      then show ?thesis using fails by blast
    qed simp
    then show ?thesis using run find x retry I2 by (auto simp: media_remove_def andThen_def)
  qed
qed

section \<open>The cleanup at startup\<close>

lemma onApplicationBootstrap_idle: "onApplicationBootstrap P None flag now orphans d = (Inr (), d)"
proof -
  have del: "\<exists>e. media_deleteMany P None w d = (Inl e, d)" for w
  proof -
    have t: "''t'' \<noteq> []" by simp
    obtain msg where "media_deleteMany P None w = throw (JsError msg)" by (rule media_deleteMany_blocked[OF disjI1[OF refl] t])
    then show ?thesis by (simp add: throw_apply)
  qed
  have find: "\<exists>msg. dg_findAll (mediaRepo P None) w = throw (JsError msg)" for w
    using allOperations_no_context[of None media_model] by (auto simp: extended_def ctx_tenantId_def ctx_isPlatformOwner_def)
  have "cleanupStaleProcessingRecords P None now d = (Inr (), d)"
    using find[of "[(''status'', Is (CStr ''processing'')), (''createdAt'', Below (now - 60 * 60 * 1000))]"]
    by (auto simp: cleanupStaleProcessingRecords_def Let_def try_catch_def throw_apply return_def)
  moreover have "cleanupDeletedEntityReferences P None orphans d = (Inr (), d)"
    using del[of "[(''id'', OneOf (map CStr (projr orphans)))]"]
    by (cases orphans) (auto simp: cleanupDeletedEntityReferences_def of_result_def try_catch_def return_def andThen_def)
  ultimately show ?thesis by (simp add: onApplicationBootstrap_def return_def andThen_def)
qed

end

end
