(* ===== verification/Media_Queue.thy ===== *)
theory Media_Queue
  imports Media_Service
begin

text \<open>
  \<^verbatim>\<open>media/media-cleanup-queue.service.ts\<close>: the queue in memory of the files to delete. The loop
  \<open>processQueue\<close> runs over the operations of one turn; the step relation \<open>cleaner_step\<close> has the same
  turns with the calls that come in between, as the event loop interleaves them at every \<^verbatim>\<open>await\<close>.
\<close>

section \<open>State and operations\<close>

definition MAX_RETRIES :: nat where "MAX_RETRIES = 3"

text \<open>
  \<open>cq_current\<close> is the job whose deletion is awaited; \<open>cq_lost\<close> are the keys of the error log line for
  jobs that are given up.
\<close>

record 'f cleaner =
  cq_queue :: "CleanupJob list"
  cq_processing :: bool
  cq_timer :: bool
  cq_current :: "CleanupJob option"
  cq_store :: 'f
  cq_lost :: "string list"

definition scheduleProcessing :: "'f cleaner \<Rightarrow> 'f cleaner" where
  "scheduleProcessing c = (if cq_processing c then c else if cq_timer c then c else c\<lparr>cq_timer := True\<rparr>)"

definition queue_enqueue :: "int \<Rightarrow> cleanupType \<Rightarrow> string list \<Rightarrow> 'f cleaner \<Rightarrow> 'f cleaner" where
  "queue_enqueue now ty ks c = scheduleProcessing (c\<lparr>cq_queue := cq_queue c @
     [\<lparr>kj_type = ty, kj_storageKeys = ks, kj_attempts = 0, kj_nextRetryAt = now\<rparr>]\<rparr>)"

definition pendingCount :: "'f cleaner \<Rightarrow> nat" where
  "pendingCount c = length (cq_queue c)"

definition startProcessing :: "'f cleaner \<Rightarrow> 'f cleaner" where
  "startProcessing c = c\<lparr>cq_processing := True, cq_timer := False\<rparr>"

text \<open>A job that is not due goes to the end of the queue.\<close>

definition takeJob :: "int \<Rightarrow> CleanupJob \<Rightarrow> CleanupJob list \<Rightarrow> 'f cleaner \<Rightarrow> 'f cleaner" where
  "takeJob now job js c = (if now < kj_nextRetryAt job then c\<lparr>cq_queue := js @ [job]\<rparr>
     else c\<lparr>cq_queue := js, cq_current := Some job\<rparr>)"

definition retryJob :: "int \<Rightarrow> CleanupJob \<Rightarrow> string list \<Rightarrow> 'f cleaner \<Rightarrow> 'f cleaner" where
  "retryJob now job ks c = (let attempts = kj_attempts job + 1 in
     if attempts < MAX_RETRIES
     then c\<lparr>cq_queue := cq_queue c @ [job\<lparr>kj_attempts := attempts, kj_nextRetryAt := now + 2 ^ attempts * 1000, kj_storageKeys := ks\<rparr>]\<rparr>
     else c\<lparr>cq_lost := cq_lost c @ ks\<rparr>)"

definition settleJob :: "'f StorageProvider \<Rightarrow> int \<Rightarrow> CleanupJob \<Rightarrow> 'f cleaner \<Rightarrow> 'f cleaner" where
  "settleJob S now job c =
     (case sp_deleteBatch S (kj_storageKeys job) (cq_store c) of
        (Inr res, f) \<Rightarrow> (let c' = c\<lparr>cq_store := f, cq_current := None\<rparr> in
           if dr_failed res \<noteq> [] then retryJob now job (map fst (dr_failed res)) c' else c')
      | (Inl e, f) \<Rightarrow> retryJob now job (kj_storageKeys job) (c\<lparr>cq_store := f, cq_current := None\<rparr>))"

definition onModuleDestroy :: "'f cleaner \<Rightarrow> 'f cleaner" where
  "onModuleDestroy c = c\<lparr>cq_timer := False\<rparr>"

section \<open>The loop\<close>

definition tries_left :: "CleanupJob list \<Rightarrow> nat" where
  "tries_left js = sum_list (map (\<lambda>j. Suc (MAX_RETRIES - kj_attempts j)) js)"

definition waiting :: "int \<Rightarrow> CleanupJob list \<Rightarrow> nat" where
  "waiting now js = sum_list (map (\<lambda>j. nat (kj_nextRetryAt j - now)) js)"

lemma tries_left_simps [simp]:
  "tries_left [] = 0" "tries_left (j # js) = Suc (MAX_RETRIES - kj_attempts j) + tries_left js"
  "tries_left (js @ js') = tries_left js + tries_left js'"
  by (simp_all add: tries_left_def)

lemma waiting_simps [simp]:
  "waiting now [] = 0" "waiting now (j # js) = nat (kj_nextRetryAt j - now) + waiting now js"
  "waiting now (js @ js') = waiting now js + waiting now js'"
  by (simp_all add: waiting_def)

lemma waiting_mono: "now \<le> now' \<Longrightarrow> waiting now' js \<le> waiting now js"
  by (induction js) auto

lemma retryJob_tries: "tries_left (cq_queue (retryJob now job ks c)) < Suc (MAX_RETRIES - kj_attempts job) + tries_left (cq_queue c)"
  by (auto simp: retryJob_def Let_def MAX_RETRIES_def)

lemma settleJob_tries: "tries_left (cq_queue (settleJob S now job c)) < Suc (MAX_RETRIES - kj_attempts job) + tries_left (cq_queue c)"
  using retryJob_tries[of now job _ "c\<lparr>cq_store := f, cq_current := None\<rparr>" for f]
  by (auto simp: settleJob_def Let_def split: prod.splits sum.splits)

lemma deferred_waiting:
  assumes "now < kj_nextRetryAt job"
  shows "waiting (now + 100 + int k) (js @ [job]) < waiting now (job # js)"
proof -
  have "waiting (now + 100 + int k) js \<le> waiting now js" by (rule waiting_mono) simp
  then show ?thesis using assms by (simp add: nat_less_iff)
qed

text \<open>
  The clock is \<open>now\<close>; turn \<open>n\<close> takes \<open>late n\<close> milliseconds, beside the 100 of a sleep. A job is tried
  three times at most, and a job that is not due waits only until the clock reaches it.
\<close>

function processQueue :: "'f StorageProvider \<Rightarrow> (nat \<Rightarrow> nat) \<Rightarrow> nat \<Rightarrow> int \<Rightarrow> 'f cleaner \<Rightarrow> 'f cleaner" where
  "processQueue S late n now c = (case cq_queue c of
     [] \<Rightarrow> c\<lparr>cq_processing := False\<rparr>
   | job # js \<Rightarrow>
       if now < kj_nextRetryAt job then processQueue S late (Suc n) (now + 100 + int (late n)) (takeJob now job js c)
       else processQueue S late (Suc n) (now + int (late n)) (settleJob S (now + int (late n)) job (takeJob now job js c)))"
  by pat_completeness auto

termination
proof (relation "measures [\<lambda>(S, late, n, now, c). tries_left (cq_queue c), \<lambda>(S, late, n, now, c). waiting now (cq_queue c)]", goal_cases)
  case 1
  then show ?case by simp
next
  case (2 S late n now c job js)
  then show ?case using deferred_waiting[of now job "late n" js] by (simp add: takeJob_def)
next
  case (3 S late n now c job js)
  then show ?case using settleJob_tries[of S "now + int (late n)" job "takeJob now job js c"] by (simp add: takeJob_def)
qed

declare processQueue.simps [simp del]

section \<open>What becomes of a key\<close>

text \<open>A key is accounted for when its file is gone, its job is pending, or it has been reported.\<close>

definition pending_keys :: "'f cleaner \<Rightarrow> string set" where
  "pending_keys c = (\<Union>j \<in> set (cq_queue c) \<union> set_option (cq_current c). set (kj_storageKeys j))"

context storage_provider begin

definition accounted :: "string set \<Rightarrow> 'f cleaner \<Rightarrow> bool" where
  "accounted K c \<longleftrightarrow> K \<inter> keys (cq_store c) \<subseteq> pending_keys c \<union> set (cq_lost c)"

lemma retryJob_accounted:
  assumes "K \<inter> keys (cq_store c) \<subseteq> pending_keys c \<union> set ks \<union> set (cq_lost c)"
  shows "accounted K (retryJob now job ks c)"
  using assms by (auto simp: accounted_def retryJob_def Let_def pending_keys_def)

lemma settleJob_accounted:
  assumes "accounted K c" "cq_current c = Some job"
  shows "accounted K (settleJob S now job c)"
proof -
  obtain r f where del: "sp_deleteBatch S (kj_storageKeys job) (cq_store c) = (r, f)" by (meson surj_pair)
  let ?c = "c\<lparr>cq_store := f, cq_current := None\<rparr>"
  have before: "K \<inter> keys (cq_store c) \<subseteq> pending_keys ?c \<union> set (kj_storageKeys job) \<union> set (cq_lost ?c)"
    using assms by (auto simp: accounted_def pending_keys_def)
  show ?thesis
  proof (cases r)
    case (Inl e)
    have "keys f \<subseteq> keys (cq_store c)" using deleteBatch_Inl[OF del[unfolded Inl]] by blast
    then have "accounted K (retryJob now job (kj_storageKeys job) ?c)" using before by (intro retryJob_accounted) auto
    then show ?thesis using del Inl by (simp add: settleJob_def)
  next
    case (Inr res)
    note out = deleteBatch_Inr[OF del[unfolded Inr]]
    have "K \<inter> keys f \<subseteq> pending_keys ?c \<union> fst ` set (dr_failed res) \<union> set (cq_lost ?c)" using before out by blast
    then have "dr_failed res = [] \<Longrightarrow> accounted K ?c" "accounted K (retryJob now job (map fst (dr_failed res)) ?c)"
      by (simp_all add: accounted_def[of K ?c] retryJob_accounted)
    then show ?thesis using del Inr by (simp add: settleJob_def Let_def)
  qed
qed

lemma takeJob_accounted:
  "accounted K c \<Longrightarrow> cq_queue c = job # js \<Longrightarrow> cq_current c = None \<Longrightarrow> accounted K (takeJob now job js c)"
  by (auto simp: accounted_def takeJob_def pending_keys_def)

end

lemma settleJob_current: "cq_current (settleJob S now job c) = None"
  by (auto simp: settleJob_def retryJob_def Let_def split: prod.splits sum.splits)

lemma processQueue_accounted:
  assumes "storage_provider S keys" "storage_provider.accounted keys K c" "cq_current c = None"
  shows "storage_provider.accounted keys K (processQueue S late n now c) \<and> cq_queue (processQueue S late n now c) = [] \<and>
    cq_current (processQueue S late n now c) = None \<and> \<not> cq_processing (processQueue S late n now c)"
  using assms
proof (induction S late n now c rule: processQueue.induct)
  case (1 S late n now c)
  show ?case
  proof (cases "cq_queue c")
    case Nil
    have "storage_provider.accounted keys K (c\<lparr>cq_processing := False\<rparr>)"
      using 1(4) by (simp add: storage_provider.accounted_def[OF 1(3)] pending_keys_def)
    then show ?thesis using Nil 1(5) by (simp add: processQueue.simps[of S late n now c])
  next
    case (Cons job js)
    note take = storage_provider.takeJob_accounted[OF 1(3,4) Cons 1(5), of now]
    show ?thesis
    proof (cases "now < kj_nextRetryAt job")
      case True
      then show ?thesis using 1(1)[OF Cons True 1(3) take] Cons 1(5) by (simp add: processQueue.simps[of S late n now c] takeJob_def)
    next
      case False
      have "storage_provider.accounted keys K (settleJob S (now + int (late n)) job (takeJob now job js c))"
        by (rule storage_provider.settleJob_accounted[OF 1(3) take]) (use False in \<open>simp add: takeJob_def\<close>)
      from 1(2)[OF Cons False 1(3) this settleJob_current] show ?thesis
        using Cons False by (simp add: processQueue.simps[of S late n now c])
    qed
  qed
qed

text \<open>When every deletion succeeds nothing is given up.\<close>

definition always_deletes :: "'f StorageProvider \<Rightarrow> bool" where
  "always_deletes S \<longleftrightarrow> (\<forall>ks f. \<exists>res f'. sp_deleteBatch S ks f = (Inr res, f') \<and> dr_failed res = [])"

lemma settleJob_deletes: "always_deletes S \<Longrightarrow> cq_lost (settleJob S now job c) = cq_lost c"
  unfolding always_deletes_def by (drule spec[of _ "kj_storageKeys job"], drule spec[of _ "cq_store c"]) (auto simp: settleJob_def)

lemma processQueue_deletes: "always_deletes S \<Longrightarrow> cq_lost (processQueue S late n now c) = cq_lost c"
proof (induction S late n now c rule: processQueue.induct)
  case (1 S late n now c)
  show ?case
  proof (cases "cq_queue c")
    case Nil
    then show ?thesis by (simp add: processQueue.simps[of S late n now c])
  next
    case (Cons job js)
    then show ?thesis using 1(1)[OF Cons _ 1(3)] 1(2)[OF Cons _ 1(3)] settleJob_deletes[OF 1(3)]
      by (cases "now < kj_nextRetryAt job") (simp_all add: processQueue.simps[of S late n now c] takeJob_def)
  qed
qed

section \<open>Interleavings\<close>

text \<open>
  The steps of the event loop, with the set of the keys that have been queued so far.
\<close>

inductive cleaner_step :: "'f StorageProvider \<Rightarrow> string set \<times> 'f cleaner \<Rightarrow> string set \<times> 'f cleaner \<Rightarrow> bool" for S where
  Enqueue: "cleaner_step S (K, c) (K \<union> set ks, queue_enqueue now ty ks c)"
| Fire: "cq_timer c \<Longrightarrow> cleaner_step S (K, c) (K, startProcessing c)"
| Take: "cq_processing c \<Longrightarrow> cq_current c = None \<Longrightarrow> cq_queue c = job # js \<Longrightarrow> cleaner_step S (K, c) (K, takeJob now job js c)"
| Settle: "cq_processing c \<Longrightarrow> cq_current c = Some job \<Longrightarrow> cleaner_step S (K, c) (K, settleJob S now job c)"
| Finish: "cq_processing c \<Longrightarrow> cq_current c = None \<Longrightarrow> cq_queue c = [] \<Longrightarrow> cleaner_step S (K, c) (K, c\<lparr>cq_processing := False\<rparr>)"

inductive_cases cleaner_stepE: "cleaner_step S (K, c) (K', c')"

definition idle :: "'f \<Rightarrow> 'f cleaner" where
  "idle f = \<lparr>cq_queue = [], cq_processing = False, cq_timer = False, cq_current = None, cq_store = f, cq_lost = []\<rparr>"

definition cleaner_reachable :: "'f StorageProvider \<Rightarrow> 'f \<Rightarrow> string set \<Rightarrow> 'f cleaner \<Rightarrow> bool" where
  "cleaner_reachable S f K c \<longleftrightarrow> (cleaner_step S)\<^sup>*\<^sup>* ({}, idle f) (K, c)"

text \<open>
  Nothing is forgotten: there is a timer or a loop whenever there is work; there is one loop at a time;
  jobs wait only while they have tries left.
\<close>

definition cleaner_inv :: "'f cleaner \<Rightarrow> bool" where
  "cleaner_inv c \<longleftrightarrow> (cq_queue c \<noteq> [] \<longrightarrow> cq_processing c \<or> cq_timer c) \<and> (cq_current c \<noteq> None \<longrightarrow> cq_processing c) \<and>
     \<not> (cq_processing c \<and> cq_timer c) \<and> (\<forall>j \<in> set (cq_queue c) \<union> set_option (cq_current c). kj_attempts j < MAX_RETRIES)"

lemma retryJob_inv:
  "cleaner_inv c \<Longrightarrow> cq_processing c \<Longrightarrow> cleaner_inv (retryJob now job ks c)"
  by (auto simp: cleaner_inv_def retryJob_def Let_def)

lemma settleJob_inv:
  assumes "cleaner_inv c" "cq_processing c"
  shows "cleaner_inv (settleJob S now job c)"
proof -
  have "cleaner_inv (c\<lparr>cq_store := f, cq_current := None\<rparr>)" for f using assms by (simp add: cleaner_inv_def)
  then show ?thesis using assms(2) by (auto simp: settleJob_def Let_def intro!: retryJob_inv split: prod.splits sum.splits)
qed

lemma cleaner_step_inv: "cleaner_step S (K, c) (K', c') \<Longrightarrow> cleaner_inv c \<Longrightarrow> cleaner_inv c'"
  by (erule cleaner_stepE)
    (auto simp: settleJob_inv, auto simp: cleaner_inv_def queue_enqueue_def scheduleProcessing_def startProcessing_def takeJob_def MAX_RETRIES_def)

context storage_provider begin

lemma enqueue_accounted: "accounted K c \<Longrightarrow> accounted (K \<union> set ks) (queue_enqueue now ty ks c)"
  by (auto simp: accounted_def queue_enqueue_def scheduleProcessing_def pending_keys_def)

lemma step_accounted: "cleaner_step S (K, c) (K', c') \<Longrightarrow> accounted K c \<Longrightarrow> accounted K' c'"
  by (erule cleaner_stepE)
    (auto simp: enqueue_accounted settleJob_accounted takeJob_accounted, auto simp: accounted_def pending_keys_def startProcessing_def)

lemma reachable_accounted: "cleaner_reachable S f K c \<Longrightarrow> cleaner_inv c \<and> accounted K c"
  unfolding cleaner_reachable_def
proof (induction "(K, c)" arbitrary: K c rule: rtranclp_induct)
  case base
  then show ?case by (simp add: cleaner_inv_def idle_def accounted_def)
next
  case (step y)
  obtain K1 c1 where y: "y = (K1, c1)" by (cases y)
  then show ?case using step(3)[OF y] step(2) cleaner_step_inv[of S K1 c1 K c] step_accounted[of K1 c1 K c] by simp
qed

end

end
