(* ===== verification/Media_Properties.thy ===== *)
theory Media_Properties
  imports Media_Correct Media_Queue Sample_Data
begin

text \<open>
  Properties of the media service: what an upload leaves behind, and what it refuses.
\<close>

section \<open>Uploads\<close>

text \<open>C27. An upload that returns has recorded what it returns: the file is of a type and size its media type
  allows, the row is in the table as ready media of the tenant for the entity and with the checksum of
  the file, and the files the row points to are in the storage, unless media of the tenant with the same
  checksum were already stored, whose files the row shares; the entity had no ready media of this type.\<close>

theorem upload_recorded:
  assumes "prisma_client P T" "storage_provider S keys" "t \<noteq> []"
    and "media_upload L S P (tenant_ctx t) file et ei ty t s = (Inr m, s')"
  shows "\<exists>mt row. media_type ty = Some mt \<and> uf_mimetype file \<in> set (mc_allowedTypes (MEDIA_TYPE_CONFIG mt)) \<and>
    uf_size file \<le> mc_maxSize (MEDIA_TYPE_CONFIG mt) \<and> m = toResponseDto L row \<and> row \<in> set (t_medias (T (ms_db s'))) \<and>
    uploaded L keys file et ei mt t (t_medias (T (ms_db s))) (ms_store s') row \<and>
    (\<forall>x \<in> set (t_medias (T (ms_db s))). \<not> (me_tenantId x = Some t \<and> me_entityType x = et \<and> me_entityId x = ei \<and>
       me_mediaType x = mt \<and> me_status x = ''ready''))"
proof -
  from prisma_client.media_upload_recorded[OF assms] obtain mt row where row: "checkFile file ty = Inr mt"
      "m = toResponseDto L row" "row \<in> set (t_medias (T (ms_db s')))"
      "uploaded L keys file et ei mt t (t_medias (T (ms_db s))) (ms_store s') row" by blast
  have mt: "media_type ty = Some mt" "uf_mimetype file \<in> set (mc_allowedTypes (MEDIA_TYPE_CONFIG mt))"
      "uf_size file \<le> mc_maxSize (MEDIA_TYPE_CONFIG mt)"
    using row(1) by (auto simp: checkFile_def Let_def split: option.splits if_splits)
  have "show_mediaType mt = ty" using mt(1) by (simp add: media_type_show)
  then have "\<forall>x \<in> set (t_medias (T (ms_db s))). \<not> (me_tenantId x = Some t \<and> me_entityType x = et \<and> me_entityId x = ei \<and>
       me_mediaType x = mt \<and> me_status x = ''ready'')"
    using prisma_client.media_upload_refused[OF assms(1,3) _ _ _ _ _ _ assms(4)] by blast
  then show ?thesis using row mt by blast
qed

definition sample_lib :: mediaLib where
  "sample_lib = \<lparr>ml_sharp = (\<lambda>b d. Inr \<lparr>pi_buffer = b, pi_width = dm_width d, pi_height = dm_height d\<rparr>), ml_sha256 = (\<lambda>b. b),
     ml_errorCode = (\<lambda>e. None), ml_now = int, ml_CDN_BASE_URL = None, ml_parseUrl = (\<lambda>u. None)\<rparr>"

definition sample_file :: uploadedFile where
  "sample_file = \<lparr>uf_buffer = ''soup'', uf_mimetype = ''image/png'', uf_size = 4, uf_originalname = ''soup.png''\<rparr>"

definition sample_disk :: "(tables, (string \<times> string) list) mediaState" where
  "sample_disk = \<lparr>ms_db = sample_tables, ms_store = [], ms_queue = []\<rparr>"

abbreviation sample_storage :: "(string \<times> string) list StorageProvider" where
  "sample_storage \<equiv> localStorage (mem_fs []) ''/srv''"

theorem upload_recorded_witness:
  "\<exists>m s' row. media_upload sample_lib sample_storage mem_prisma (tenant_ctx ''t1'') sample_file ''product'' ''p1'' ''IMAGE'' ''t1'' sample_disk =
       (Inr m, s') \<and> row \<in> set (t_medias (ms_db s')) \<and> me_entityId row = ''p1'' \<and> length (ms_store s') = 4"
proof -
  let ?run = "media_upload sample_lib sample_storage mem_prisma (tenant_ctx ''t1'') sample_file ''product'' ''p1'' ''IMAGE'' ''t1'' sample_disk"
  have eval: "(case fst ?run of Inr m \<Rightarrow> True | _ \<Rightarrow> False) \<and> length (ms_store (snd ?run)) = 4" by code_simp
  then obtain m s' where run: "?run = (Inr m, s')" by (cases ?run) (auto split: sum.splits)
  have t: "''t1'' \<noteq> []" by simp
  from upload_recorded[OF mem.prisma_client_axioms mem_files.local.storage_provider_axioms t run]
  obtain row where "row \<in> set (t_medias (ms_db s'))" "me_entityId row = ''p1''" by (auto simp: uploaded_def)
  then show ?thesis using run eval by auto
qed

section \<open>Replacing and removing\<close>

text \<open>C28. No tenant can replace or remove its media: uploading for an entity that has ready media of this type
  always fails and leaves the tables as they were, and removing media that exists always fails and
  leaves the tables, the files and the queue as they were. Both delete with \<^verbatim>\<open>deleteMany\<close>, which the
  tenant-scoped client blocks.\<close>

theorem media_replace_and_remove_refused:
  assumes "prisma_client P T" "t \<noteq> []" "x \<in> set (t_medias (T (ms_db s)))" "me_tenantId x = Some t" "me_status x = ''ready''"
  shows "(\<forall>L S file r s'. media_upload L S P (tenant_ctx t) file (me_entityType x) (me_entityId x) (show_mediaType (me_mediaType x)) t s = (r, s') \<longrightarrow>
      (\<exists>e. r = Inl e) \<and> T (ms_db s') = T (ms_db s)) \<and>
    (\<forall>L r s'. media_remove L P (tenant_ctx t) (me_id x) t s = (r, s') \<longrightarrow>
      (\<exists>e. r = Inl e) \<and> T (ms_db s') = T (ms_db s) \<and> ms_store s' = ms_store s \<and> ms_queue s' = ms_queue s)"
proof (rule conjI; intro allI impI)
  fix L S fl r s'
  assume "media_upload L S P (tenant_ctx t) fl (me_entityType x) (me_entityId x) (show_mediaType (me_mediaType x)) t s = (r, s')"
  then show "(\<exists>e. r = Inl e) \<and> T (ms_db s') = T (ms_db s)"
    by (rule prisma_client.media_upload_refused[OF assms(1,2,3,4) refl refl refl assms(5)])
next
  fix L r s'
  assume "media_remove L P (tenant_ctx t) (me_id x) t s = (r, s')"
  then show "(\<exists>e. r = Inl e) \<and> T (ms_db s') = T (ms_db s) \<and> ms_store s' = ms_store s \<and> ms_queue s' = ms_queue s"
    by (rule prisma_client.media_remove_refused[OF assms(1,2,3) refl assms(4)])
qed

definition sample_media :: media where
  "sample_media = (newMedia 0 ''LocalStorageProvider'' ''t1'' ''product'' ''p1'' IMAGE sample_file ''old''
     \<lparr>so_storageKey = ''k'', so_originalUrl = ''/uploads/k'', so_thumbnailUrl = None, so_mediumUrl = None, so_largeUrl = None,
      so_width = None, so_height = None, so_fileSize = 3\<rparr>)\<lparr>me_id := ''m1''\<rparr>"

definition sample_shelf :: "(tables, (string \<times> string) list) mediaState" where
  "sample_shelf = sample_disk\<lparr>ms_db := sample_tables\<lparr>t_medias := [sample_media]\<rparr>\<rparr>"

text \<open>The four files of the refused upload stay: they are neither deleted nor queued.\<close>

theorem media_replace_and_remove_refused_witness:
  "(\<exists>e s'. media_upload sample_lib sample_storage mem_prisma (tenant_ctx ''t1'') sample_file ''product'' ''p1'' ''IMAGE'' ''t1'' sample_shelf = (Inl e, s') \<and>
      length (ms_store s') = 4 \<and> ms_queue s' = []) \<and>
   (\<exists>e s'. media_remove sample_lib mem_prisma (tenant_ctx ''t1'') ''m1'' ''t1'' sample_shelf = (Inl e, s') \<and> ms_store s' = ms_store sample_shelf)"
proof -
  let ?up = "media_upload sample_lib sample_storage mem_prisma (tenant_ctx ''t1'') sample_file ''product'' ''p1'' ''IMAGE'' ''t1'' sample_shelf"
  let ?rm = "media_remove sample_lib mem_prisma (tenant_ctx ''t1'') ''m1'' ''t1'' sample_shelf"
  have left: "length (ms_store (snd ?up)) = 4" "length (ms_queue (snd ?up)) = 0" by code_simp+
  have x: "sample_media \<in> set (t_medias (ms_db sample_shelf))" "me_tenantId sample_media = Some ''t1''" "me_status sample_media = ''ready''"
      "me_entityType sample_media = ''product''" "me_entityId sample_media = ''p1''" "show_mediaType (me_mediaType sample_media) = ''IMAGE''"
      "me_id sample_media = ''m1''"
    by (simp_all add: sample_shelf_def sample_disk_def sample_media_def newMedia_def)
  have t: "''t1'' \<noteq> []" by simp
  note refused = media_replace_and_remove_refused[OF mem.prisma_client_axioms t x(1-3), unfolded x(4-7)]
  obtain r s1 r2 s2 where runs: "?up = (r, s1)" "?rm = (r2, s2)" by (meson surj_pair)
  have "\<exists>e. r = Inl e" "\<exists>e. r2 = Inl e" "ms_store s2 = ms_store sample_shelf"
    using conjunct1[OF refused] conjunct2[OF refused] runs by blast+
  then show ?thesis using runs left by auto
qed

section \<open>The cleanup at startup\<close>

text \<open>The cleanup at startup never removes anything: it runs in no tenant context, where the client
  refuses every query, and it swallows the errors.\<close>

theorem media_cleanup_never_runs:
  assumes "prisma_client P T"
  shows "onApplicationBootstrap P None flag now orphans d = (Inr (), d)"
  by (rule prisma_client.onApplicationBootstrap_idle[OF assms])

theorem media_cleanup_never_runs_witness:
  "onApplicationBootstrap mem_prisma None (Some ''true'') 99999999 (Inr [''m1'']) (ms_db sample_shelf) = (Inr (), ms_db sample_shelf)"
  by (rule media_cleanup_never_runs[OF mem.prisma_client_axioms])

section \<open>The queue of files to delete\<close>

text \<open>C29. Every file that is queued is deleted or reported: in every reachable state of the queue, whatever is
  queued in between, there is a timer or a running loop while jobs are pending, and a key queued so far
  whose file is still there is pending or was reported as lost. The loop returns with an empty queue, so
  that then exactly the reported ones can remain, and it reports none when the storage deletes what it is asked to.\<close>

theorem cleanup_queue_complete:
  assumes "storage_provider S keys" "cleaner_reachable S f K c"
  shows "(cq_queue c \<noteq> [] \<longrightarrow> cq_processing c \<or> cq_timer c) \<and> K \<inter> keys (cq_store c) \<subseteq> pending_keys c \<union> set (cq_lost c) \<and>
    (cq_current c = None \<longrightarrow> (\<forall>late n now. let c' = processQueue S late n now c in
       cq_queue c' = [] \<and> \<not> cq_processing c' \<and> K \<inter> keys (cq_store c') \<subseteq> set (cq_lost c') \<and>
       (always_deletes S \<longrightarrow> cq_lost c' = cq_lost c)))"
proof -
  have inv: "cleaner_inv c" "storage_provider.accounted keys K c"
    using storage_provider.reachable_accounted[OF assms] by blast+
  have drained: "cq_queue c' = [] \<and> \<not> cq_processing c' \<and> K \<inter> keys (cq_store c') \<subseteq> set (cq_lost c') \<and> (always_deletes S \<longrightarrow> cq_lost c' = cq_lost c)"
    if "cq_current c = None" and c': "c' = processQueue S late n now c" for c' late n now
  proof -
    have "storage_provider.accounted keys K c'" "cq_queue c' = []" "cq_current c' = None" "\<not> cq_processing c'"
      using processQueue_accounted[OF assms(1) inv(2) that(1), of late n now] c' by simp_all
    then show ?thesis using processQueue_deletes[of S late n now c] c'
      by (simp add: storage_provider.accounted_def[OF assms(1)] pending_keys_def)
  qed
  show ?thesis using inv drained by (simp add: cleaner_inv_def storage_provider.accounted_def[OF assms(1)] Let_def)
qed

definition sample_cleaner :: "(string \<times> string) list cleaner" where
  "sample_cleaner = startProcessing (queue_enqueue 0 DELETE [''a'', ''b''] (idle [(''/srv/a'', ''x''), (''/srv/b'', ''y'')]))"

theorem cleanup_queue_complete_witness:
  "\<exists>c. c = processQueue (localStorage (mem_fs [''/srv/b'']) ''/srv'') (\<lambda>_. 5000) 0 0 sample_cleaner \<and>
     cq_queue c = [] \<and> cq_lost c = [''b''] \<and> map fst (cq_store c) = [''/srv/b'']"
proof -
  let ?S = "localStorage (mem_fs [''/srv/b'']) ''/srv''" and ?f = "[(''/srv/a'', ''x''), (''/srv/b'', ''y'')]"
  have "cleaner_step ?S ({}, idle ?f) ({} \<union> set [''a'', ''b''], queue_enqueue 0 DELETE [''a'', ''b''] (idle ?f))" by (rule Enqueue)
  moreover have "cleaner_step ?S ({} \<union> set [''a'', ''b''], queue_enqueue 0 DELETE [''a'', ''b''] (idle ?f)) ({} \<union> set [''a'', ''b''], sample_cleaner)"
    unfolding sample_cleaner_def by (rule Fire) (simp add: queue_enqueue_def scheduleProcessing_def idle_def)
  ultimately have "cleaner_reachable ?S ?f ({} \<union> set [''a'', ''b'']) sample_cleaner"
    unfolding cleaner_reachable_def by (meson r_into_rtranclp rtranclp.rtrancl_into_rtrancl)
  note complete = cleanup_queue_complete[OF mem_files.local.storage_provider_axioms this]
  have "cq_current sample_cleaner = None" by (simp add: sample_cleaner_def startProcessing_def queue_enqueue_def scheduleProcessing_def idle_def)
  then have "cq_queue (processQueue ?S (\<lambda>_. 5000) 0 0 sample_cleaner) = []" using complete unfolding Let_def by blast
  moreover have "cq_lost (processQueue ?S (\<lambda>_. 5000) 0 0 sample_cleaner) = [''b'']" by code_simp
  moreover have "map fst (cq_store (processQueue ?S (\<lambda>_. 5000) 0 0 sample_cleaner)) = [''/srv/b'']" by code_simp
  ultimately show ?thesis by (intro exI conjI) (rule refl)
qed

end
