(* ===== verification/Tenant_Service.thy ===== *)
theory Tenant_Service
  imports Auth_Service Branch_Service
begin

text \<open>
  \<^verbatim>\<open>apps/api/src/tenant/tenant.service.ts\<close>: the plans on offer, the onboarding of a restaurant in one
  transaction, and the profile of a tenant with its branding; and \<^verbatim>\<open>restaurant/restaurant.service.ts\<close>.
  Onboarding runs with the platform scope, since no tenant exists yet. The welcome mail is handed over
  inside the transaction.
\<close>

section \<open>Requests and answers\<close>

record BranchDetailsDto =
  bq_name :: string
  bq_address :: string
  bq_phoneNumber :: string
  bq_latitude :: "rat option"
  bq_longitude :: "rat option"
  bq_operatingHours :: "string option"

record CreateTenantRequestDto =
  tq_companyName :: string
  tq_subdomain :: string
  tq_ownerFirstName :: string
  tq_ownerLastName :: string
  tq_ownerEmail :: string
  tq_ownerPassword :: string
  tq_planId :: string
  tq_restaurantName :: "string option"
  tq_currency :: "string option"
  tq_timezone :: "string option"
  tq_taxPercentage :: "rat option"
  tq_branch :: "BranchDetailsDto option"

record BrandingDto =
  bq_logoUrl :: "string option"
  bq_bannerUrl :: "string option"
  bq_primaryColor :: "string option"
  bq_secondaryColor :: "string option"
  bq_dynamic :: "(string \<times> json) list option"

record UpdateTenantRequestDto =
  uq_name :: "string option"
  uq_customDomain :: "string option"
  uq_branding :: "BrandingDto option"

record requester =
  rq_tenantId :: "string option"
  rq_roles :: "string list"

record OnboardResponse =
  or_tenantId :: string
  or_tenantName :: string
  or_subdomain :: string
  or_status :: TenantStatus
  or_ownerId :: string
  or_ownerEmail :: string
  or_restaurantId :: string
  or_restaurantName :: string
  or_currency :: string
  or_timezone :: string
  or_branchId :: string
  or_branchName :: string

record TenantView =
  tv_id :: string
  tv_name :: string
  tv_subdomain :: string
  tv_customDomain :: "string option"
  tv_status :: TenantStatus
  tv_branding :: "(string \<times> json) list"

section \<open>Plans\<close>

definition getAvailablePlans :: "'d prisma \<Rightarrow> ('d, subscriptionPlan list) prog" where
  "getAvailablePlans P = px_subscriptionPlan_findMany P"

section \<open>Onboarding\<close>

record welcomeMail =
  wm_to :: string
  wm_companyName :: string
  wm_ownerFirstName :: string
  wm_ownerLastName :: string
  wm_subdomain :: string
  wm_status :: string

record 'd onboarding =
  on_db :: 'd
  on_mails :: "welcomeMail list"

definition defaultHours :: string where
  "defaultHours = stringify (JObj (map (\<lambda>(day, start, stop).
      (day, JObj [(''open'', JStr start), (''close'', JStr stop), (''closed'', JBool False)]))
    [(''monday'', ''09:00'', ''22:00''), (''tuesday'', ''09:00'', ''22:00''), (''wednesday'', ''09:00'', ''22:00''),
     (''thursday'', ''09:00'', ''22:00''), (''friday'', ''09:00'', ''23:00''), (''saturday'', ''10:00'', ''23:00''),
     (''sunday'', ''10:00'', ''21:00'')]))"

text \<open>The rows, with the defaults of \<^verbatim>\<open>schema.prisma\<close>; the database fills in the ids.\<close>

definition newTenant :: "int \<Rightarrow> CreateTenantRequestDto \<Rightarrow> tenant" where
  "newTenant now dto = \<lparr>tn_id = [], tn_name = tq_companyName dto, tn_subdomain = tq_subdomain dto, tn_customDomain = None,
     tn_status = TenantStatus.TRIALING, tn_logoUrl = None, tn_bannerUrl = None, tn_primaryColor = ''#000000'',
     tn_secondaryColor = ''#FFFFFF'', tn_stripeCustomerId = None, tn_branding = Some [], tn_createdAt = now, tn_updatedAt = now,
     tn_deletedAt = None\<rparr>"

definition trialSubscription :: "int \<Rightarrow> string \<Rightarrow> CreateTenantRequestDto \<Rightarrow> subscription" where
  "trialSubscription now tenantId dto = \<lparr>sb_id = [], sb_tenantId = Some tenantId, sb_planId = tq_planId dto,
     sb_stripeSubscriptionId = None, sb_status = SubscriptionStatus.TRIALING, sb_currentPeriodStart = now,
     sb_currentPeriodEnd = now + 14 * 24 * 60 * 60 * 1000, sb_cancelAtPeriodEnd = False, sb_canceledAt = None, sb_createdAt = now\<rparr>"

definition ownerUser :: "int \<Rightarrow> string \<Rightarrow> string \<Rightarrow> CreateTenantRequestDto \<Rightarrow> user" where
  "ownerUser now tenantId hashedPassword dto = \<lparr>us_id = [], us_tenantId = Some tenantId, us_firstName = tq_ownerFirstName dto,
     us_lastName = tq_ownerLastName dto, us_email = toLowerCase (tq_ownerEmail dto), us_passwordHash = hashedPassword,
     us_phoneNumber = None, us_isActive = True, us_mfaSecret = None, us_mfaEnabled = False, us_lastLoginAt = None,
     us_createdAt = now, us_updatedAt = now, us_deletedAt = None, us_userRoles = [], us_userBranches = []\<rparr>"

definition newOwnerRole :: "int \<Rightarrow> string \<Rightarrow> role" where
  "newOwnerRole now tenantId = \<lparr>ro_id = [], ro_tenantId = Some tenantId, ro_name = ''RESTAURANT_OWNER'',
     ro_displayName = ''Restaurant Owner'', ro_description = None, ro_createdAt = now, ro_rolePermissions = []\<rparr>"

definition firstRestaurant :: "int \<Rightarrow> string \<Rightarrow> CreateTenantRequestDto \<Rightarrow> restaurant" where
  "firstRestaurant now tenantId dto = \<lparr>rs_id = [], rs_tenantId = Some tenantId,
     rs_name = or_else (tq_restaurantName dto) (tq_companyName dto), rs_currency = or_else (tq_currency dto) ''USD'',
     rs_timezone = or_else (tq_timezone dto) ''UTC'', rs_taxPercentage = (case tq_taxPercentage dto of None \<Rightarrow> 0 | Some x \<Rightarrow> x),
     rs_createdAt = now, rs_updatedAt = now, rs_deletedAt = None\<rparr>"

definition firstBranch :: "int \<Rightarrow> string \<Rightarrow> string \<Rightarrow> BranchDetailsDto option \<Rightarrow> branch" where
  "firstBranch now tenantId restaurantId bo =
     (let located = (\<exists>b \<in> set_option bo. bq_latitude b \<noteq> None \<and> bq_longitude b \<noteq> None) in
      \<lparr>br_id = [], br_tenantId = Some tenantId, br_restaurantId = restaurantId,
       br_name = or_else (map_option bq_name bo) ''Main Branch'',
       br_address = or_else (map_option bq_address bo) ''Default Branch Address'',
       br_latitude = (if located then Option.bind bo bq_latitude else None),
       br_longitude = (if located then Option.bind bo bq_longitude else None),
       br_phoneNumber = or_else (map_option bq_phoneNumber bo) ''+15550199'',
       br_operatingHours = (case Option.bind bo bq_operatingHours of None \<Rightarrow> defaultHours | Some h \<Rightarrow> h),
       br_isActive = True, br_createdAt = now, br_updatedAt = now, br_deletedAt = None\<rparr>)"

definition grantOwnerPermissions :: "'d prisma \<Rightarrow> string \<Rightarrow> ('d, unit) prog" where
  "grantOwnerPermissions P roleId =
     andThen (px_role_findOldest P ''RESTAURANT_OWNER'' roleId) (\<lambda>canonicalOwnerRole.
     case canonicalOwnerRole of
       Some canonical \<Rightarrow>
         if ro_rolePermissions canonical \<noteq> [] then px_rolePermission_createMany P roleId (ro_rolePermissions canonical)
         else andThen (px_permission_findMany P) (\<lambda>allPermissions.
           if allPermissions \<noteq> [] then px_rolePermission_createMany P roleId allPermissions else return ())
     | None \<Rightarrow> andThen (px_permission_findMany P) (\<lambda>allPermissions.
           if allPermissions \<noteq> [] then px_rolePermission_createMany P roleId allPermissions else return ()))"

definition onboardResponse :: "tenant \<Rightarrow> user \<Rightarrow> restaurant \<Rightarrow> branch \<Rightarrow> OnboardResponse" where
  "onboardResponse tn u r b = \<lparr>or_tenantId = tn_id tn, or_tenantName = tn_name tn, or_subdomain = tn_subdomain tn,
     or_status = tn_status tn, or_ownerId = us_id u, or_ownerEmail = us_email u, or_restaurantId = rs_id r, or_restaurantName = rs_name r,
     or_currency = rs_currency r, or_timezone = rs_timezone r, or_branchId = br_id b, or_branchName = br_name b\<rparr>"

text \<open>Joined and joining models of a role have no tenant column; the platform scope lets their calls through.\<close>

definition provisionTenant :: "'d prisma \<Rightarrow> ctx \<Rightarrow> int \<Rightarrow> CreateTenantRequestDto \<Rightarrow> string \<Rightarrow> ('d, OnboardResponse) prog" where
  "provisionTenant P c now dto hashedPassword =
     andThen (px_tenant_create P (newTenant now dto)) (\<lambda>tenant.
     andThen (dg_create (extended c subscription_model (px_subscription P)) (trialSubscription now (tn_id tenant) dto)) (\<lambda>_.
     andThen (dg_create (extended c user_model (px_user P)) (ownerUser now (tn_id tenant) hashedPassword dto)) (\<lambda>owner.
     andThen (dg_create (extended c role_model (px_role P)) (newOwnerRole now (tn_id tenant))) (\<lambda>ownerRole.
     andThen (px_userRole_create P (us_id owner) (ro_id ownerRole)) (\<lambda>_.
     andThen (grantOwnerPermissions P (ro_id ownerRole)) (\<lambda>_.
     andThen (dg_create (extended c restaurant_model (px_restaurant P)) (firstRestaurant now (tn_id tenant) dto)) (\<lambda>restaurant.
     andThen (dg_create (extended c branch_model (px_branch P)) (firstBranch now (tn_id tenant) (rs_id restaurant) (tq_branch dto))) (\<lambda>branch.
     return (onboardResponse tenant owner restaurant branch)))))))))"

definition welcomeOf :: "CreateTenantRequestDto \<Rightarrow> welcomeMail" where
  "welcomeOf dto = \<lparr>wm_to = tq_ownerEmail dto, wm_companyName = tq_companyName dto, wm_ownerFirstName = tq_ownerFirstName dto,
     wm_ownerLastName = tq_ownerLastName dto, wm_subdomain = tq_subdomain dto, wm_status = ''TRIALING''\<rparr>"

definition liftOn :: "('d, 'a) prog \<Rightarrow> ('d onboarding, 'a) prog" where
  "liftOn m = (\<lambda>s. case m (on_db s) of (r, d) \<Rightarrow> (r, s\<lparr>on_db := d\<rparr>))"

text \<open>The mail goes out when the body of the transaction is through, before the commit.\<close>

definition onboardTransaction ::
  "'d prisma \<Rightarrow> ctx \<Rightarrow> bool \<Rightarrow> int \<Rightarrow> CreateTenantRequestDto \<Rightarrow> string \<Rightarrow> ('d onboarding, OnboardResponse) prog" where
  "onboardTransaction P c emailService now dto hashedPassword s =
     (let body = provisionTenant P c now dto hashedPassword;
          sent = emailService \<and> (case fst (body (on_db s)) of Inr _ \<Rightarrow> True | Inl _ \<Rightarrow> False) in
      liftOn (transaction P body) (if sent then s\<lparr>on_mails := on_mails s @ [welcomeOf dto]\<rparr> else s))"

definition executeOnboarding ::
  "'d prisma \<Rightarrow> ctx \<Rightarrow> authEnv \<Rightarrow> bool \<Rightarrow> CreateTenantRequestDto \<Rightarrow> ('d onboarding, OnboardResponse) prog" where
  "executeOnboarding P c env emailService dto =
     andThen (liftOn (px_tenant_findBySubdomain P (tq_subdomain dto))) (\<lambda>existingTenant.
     if existingTenant \<noteq> None then throw (ConflictException ''The requested subdomain is already registered.'')
     else andThen (liftOn (dg_findFirst (extended c user_model (px_user P))
            [(''email'', Is (CStr (toLowerCase (tq_ownerEmail dto)))), (''tenantId'', IsNot CNull)])) (\<lambda>existingUser.
     if existingUser \<noteq> None then throw (ConflictException ''An account with this email address already exists.'')
     else andThen (of_result (hashPassword env (tq_ownerPassword dto))) (\<lambda>hashedPassword.
     onboardTransaction P c emailService (ae_now env) dto hashedPassword)))"

definition onboard :: "'d prisma \<Rightarrow> authEnv \<Rightarrow> bool \<Rightarrow> CreateTenantRequestDto \<Rightarrow> ('d onboarding, OnboardResponse) prog" where
  "onboard P env emailService dto = executeOnboarding P platform_ctx env emailService dto"

section \<open>The profile\<close>

definition tenant_not_found :: "string \<Rightarrow> exn" where
  "tenant_not_found i = NotFoundException (''Tenant with ID ['' @ i @ ''] not found.'')"

definition foreignRequester :: "requester option \<Rightarrow> string \<Rightarrow> bool" where
  "foreignRequester rq i = (\<exists>r \<in> set_option rq. truthy (rq_tenantId r) \<and> ''PLATFORM_OWNER'' \<notin> set (rq_roles r) \<and> rq_tenantId r \<noteq> Some i)"

text \<open>Spreading an object over another: its keys replace those before.\<close>

definition spread :: "(string \<times> json) list \<Rightarrow> (string \<times> json) list \<Rightarrow> (string \<times> json) list" where
  "spread base over = fold (\<lambda>(k, v). AList.update k v) over base"

definition json_of_option :: "string option \<Rightarrow> json" where
  "json_of_option x = (case x of None \<Rightarrow> JNull | Some s \<Rightarrow> JStr s)"

definition tenantView :: "tenant \<Rightarrow> TenantView" where
  "tenantView tn = \<lparr>tv_id = tn_id tn, tv_name = tn_name tn, tv_subdomain = tn_subdomain tn, tv_customDomain = tn_customDomain tn,
     tv_status = tn_status tn,
     tv_branding = spread [(''logoUrl'', json_of_option (tn_logoUrl tn)), (''bannerUrl'', json_of_option (tn_bannerUrl tn)),
        (''primaryColor'', JStr (tn_primaryColor tn)), (''secondaryColor'', JStr (tn_secondaryColor tn))]
       (case tn_branding tn of None \<Rightarrow> [] | Some b \<Rightarrow> b)\<rparr>"

definition getTenantById :: "'d prisma \<Rightarrow> string \<Rightarrow> requester option \<Rightarrow> ('d, TenantView) prog" where
  "getTenantById P i rq =
     andThen (px_tenant_findUnique P i) (\<lambda>tenant. case tenant of
       None \<Rightarrow> throw (tenant_not_found i)
     | Some tn \<Rightarrow> if foreignRequester rq i then throw (ForbiddenException ''Access denied: Cannot access another tenant context'')
                  else return (tenantView tn))"

definition tenantData :: "int \<Rightarrow> tenant \<Rightarrow> UpdateTenantRequestDto \<Rightarrow> tenant \<Rightarrow> tenant" where
  "tenantData now existing dto =
     tn_updatedAt_update (\<lambda>_. now) \<circ>
     (case uq_branding dto of None \<Rightarrow> id | Some b \<Rightarrow>
        (case bq_dynamic b of None \<Rightarrow> id | Some dyn \<Rightarrow>
           tn_branding_update (\<lambda>_. Some (spread (case tn_branding existing of None \<Rightarrow> [] | Some x \<Rightarrow> x) dyn))) \<circ>
        defined_field (bq_secondaryColor b) (\<lambda>v. tn_secondaryColor_update (\<lambda>_. v)) \<circ>
        defined_field (bq_primaryColor b) (\<lambda>v. tn_primaryColor_update (\<lambda>_. v)) \<circ>
        defined_field (bq_bannerUrl b) (\<lambda>v. tn_bannerUrl_update (\<lambda>_. Some v)) \<circ>
        defined_field (bq_logoUrl b) (\<lambda>v. tn_logoUrl_update (\<lambda>_. Some v))) \<circ>
     defined_field (uq_customDomain dto) (\<lambda>v. tn_customDomain_update (\<lambda>_. Some v)) \<circ>
     defined_field (or_null (uq_name dto)) (\<lambda>v. tn_name_update (\<lambda>_. v))"

definition updateTenant :: "'d prisma \<Rightarrow> int \<Rightarrow> string \<Rightarrow> UpdateTenantRequestDto \<Rightarrow> requester option \<Rightarrow> ('d, TenantView) prog" where
  "updateTenant P now i dto rq =
     andThen (px_tenant_findUnique P i) (\<lambda>found. case found of
       None \<Rightarrow> throw (tenant_not_found i)
     | Some existing \<Rightarrow>
         if foreignRequester rq i then throw (ForbiddenException ''Access denied: Cannot modify another tenant'')
         else andThen (case or_null (uq_customDomain dto) of
                None \<Rightarrow> return ()
              | Some domain \<Rightarrow> andThen (px_tenant_findByCustomDomain P domain) (\<lambda>domainConflict.
                  if \<exists>x \<in> set_option domainConflict. tn_id x \<noteq> i
                  then throw (ConflictException (''Custom domain ['' @ domain @ ''] is already registered.'')) else return ())) (\<lambda>_.
         andThen (px_tenant_update P i (tenantData now existing dto)) (\<lambda>updated. return (tenantView updated))))"

section \<open>Restaurants\<close>

definition restaurant_findAll :: "'d prisma \<Rightarrow> ctx \<Rightarrow> bool \<Rightarrow> ('d, restaurant list) prog" where
  "restaurant_findAll P c includeDeleted = findMany c restaurant_model (extended c restaurant_model (px_restaurant P))
     (includingDeleted includeDeleted []) None None"

definition restaurant_findOne :: "'d prisma \<Rightarrow> ctx \<Rightarrow> string \<Rightarrow> ('d, restaurant) prog" where
  "restaurant_findOne P c i = andThen (findById c restaurant_model (extended c restaurant_model (px_restaurant P)) i) (\<lambda>restaurant.
     case restaurant of None \<Rightarrow> throw (requested ''Restaurant'' i) | Some r \<Rightarrow> return r)"

end
