(* ===== verification/Tenant_Correct.thy ===== *)
theory Tenant_Correct
  imports Tenant_Service
begin

text \<open>
  What onboarding leaves in the database, and what a change of a profile can reach.
\<close>

section \<open>The specification of onboarding\<close>

text \<open>The permissions of an owner: those of the oldest owner role there is, else all.\<close>

definition owner_grant :: "tables \<Rightarrow> permission list \<Rightarrow> bool" where
  "owner_grant X ps \<longleftrightarrow>
     (\<exists>r \<in> set (t_roles X). ro_name r = ''RESTAURANT_OWNER'' \<and> ro_rolePermissions r = ps \<and> ps \<noteq> [] \<and>
        (\<forall>x \<in> set (t_roles X). ro_name x = ''RESTAURANT_OWNER'' \<longrightarrow> ro_createdAt r \<le> ro_createdAt x)) \<or>
     set ps = set (t_permissions X)"

definition provisioned ::
  "tables \<Rightarrow> int \<Rightarrow> CreateTenantRequestDto \<Rightarrow> string \<Rightarrow> tenant \<Rightarrow> user \<Rightarrow> role \<Rightarrow> restaurant \<Rightarrow> branch \<Rightarrow> tables \<Rightarrow> bool" where
  "provisioned X now dto hash tn u r rs b X' \<longleftrightarrow>
     (\<exists>si. X' = X\<lparr>t_tenants := t_tenants X @ [tn],
        t_subscriptions := t_subscriptions X @ [(trialSubscription now (tn_id tn) dto)\<lparr>sb_id := si\<rparr>],
        t_users := t_users X @ [u], t_roles := t_roles X @ [r], t_restaurants := t_restaurants X @ [rs],
        t_branches := t_branches X @ [b]\<rparr>) \<and>
     tn = (newTenant now dto)\<lparr>tn_id := tn_id tn\<rparr> \<and> tn_id tn \<notin> tn_id ` set (t_tenants X) \<and>
     u = (ownerUser now (tn_id tn) hash dto)\<lparr>us_id := us_id u, us_userRoles := [ro_id r]\<rparr> \<and> us_id u \<notin> us_id ` set (t_users X) \<and>
     r = (newOwnerRole now (tn_id tn))\<lparr>ro_id := ro_id r, ro_rolePermissions := ro_rolePermissions r\<rparr> \<and>
     ro_id r \<notin> ro_id ` set (t_roles X) \<and> owner_grant X (ro_rolePermissions r) \<and>
     rs = (firstRestaurant now (tn_id tn) dto)\<lparr>rs_id := rs_id rs\<rparr> \<and>
     b = (firstBranch now (tn_id tn) (rs_id rs) (tq_branch dto))\<lparr>br_id := br_id b\<rparr>"

section \<open>The platform scope\<close>

lemma platform_create: "dg_create (extended platform_ctx md D) x = dg_create D x"
  by (simp add: extended_def allOperations_def platform_ctx_def ctx_tenantId_def ctx_isPlatformOwner_def Let_def w_args_def)

lemma platform_findFirst: "dg_findFirst (extended platform_ctx md D) w = dg_findFirst D w"
  by (simp add: extended_def allOperations_def platform_ctx_def ctx_tenantId_def ctx_isPlatformOwner_def Let_def w_args_def)

lemma map_last:
  "i \<notin> f ` set xs \<Longrightarrow> f y = i \<Longrightarrow> map (\<lambda>x. if f x = i then g x else x) (xs @ [y]) = xs @ [g y]"
  by (simp, rule map_idI) (auto simp: image_iff)

context prisma_client begin

lemma create_subscription:
  assumes "dg_create (px_subscription P) x d = (Inr y, d')"
  shows "\<exists>i. y = x\<lparr>sb_id := i\<rparr> \<and> T d' = (T d)\<lparr>t_subscriptions := t_subscriptions (T d) @ [y]\<rparr>"
  using subscriptions.create_Inr[OF assms] subscriptions_only[of "T d'" "T d"] by (auto simp: subscription_model_def)

lemma create_user:
  assumes "dg_create (px_user P) x d = (Inr y, d')"
  shows "\<exists>i. y = x\<lparr>us_id := i\<rparr> \<and> i \<notin> us_id ` set (t_users (T d)) \<and> T d' = (T d)\<lparr>t_users := t_users (T d) @ [y]\<rparr>"
  using users.create_Inr[OF assms] users_only[of "T d'" "T d"] by (force simp: user_model_def)

lemma create_role:
  assumes "dg_create (px_role P) x d = (Inr y, d')"
  shows "\<exists>i. y = x\<lparr>ro_id := i\<rparr> \<and> i \<notin> ro_id ` set (t_roles (T d)) \<and> T d' = (T d)\<lparr>t_roles := t_roles (T d) @ [y]\<rparr>"
  using roles.create_Inr[OF assms] roles_only[of "T d'" "T d"] by (force simp: role_model_def)

lemma create_restaurant:
  assumes "dg_create (px_restaurant P) x d = (Inr y, d')"
  shows "\<exists>i. y = x\<lparr>rs_id := i\<rparr> \<and> T d' = (T d)\<lparr>t_restaurants := t_restaurants (T d) @ [y]\<rparr>"
  using restaurants.create_Inr[OF assms] restaurants_only[of "T d'" "T d"] by (auto simp: restaurant_model_def)

lemma create_branch:
  assumes "dg_create (px_branch P) x d = (Inr y, d')"
  shows "\<exists>i. y = x\<lparr>br_id := i\<rparr> \<and> T d' = (T d)\<lparr>t_branches := t_branches (T d) @ [y]\<rparr>"
  using branches.create_Inr[OF assms] branches_only[of "T d'" "T d"] by (auto simp: branch_model_def)

text \<open>The grant, on the tables \<open>X\<close> before the role was added.\<close>

lemma grantOwnerPermissions_run:
  assumes run: "grantOwnerPermissions P i d = (Inr u, d')"
    and T: "t_roles (T d) = rs @ [r]" "ro_id r = i" "i \<notin> ro_id ` set rs" "ro_rolePermissions r = []"
    and X: "t_roles X = rs" "t_permissions X = t_permissions (T d)"
  shows "\<exists>ps. T d' = (T d)\<lparr>t_roles := rs @ [r\<lparr>ro_rolePermissions := ps\<rparr>]\<rparr> \<and> owner_grant X ps"
proof -
  have granted: "T d2 = (T d1)\<lparr>t_roles := rs @ [r\<lparr>ro_rolePermissions := ps\<rparr>]\<rparr>"
    if "px_rolePermission_createMany P i ps d1 = (Inr v, d2)" "T d1 = T d" for ps d1 d2 v
    using rolePermission_Inr[OF that(1)] map_last[of i ro_id rs r "\<lambda>x. x\<lparr>ro_rolePermissions := ro_rolePermissions x @ ps\<rparr>"] T that(2) by simp
  obtain cr d1 where find: "px_role_findOldest P ''RESTAURANT_OWNER'' i d = (Inr cr, d1)"
    and rest: "(case cr of
       Some canonical \<Rightarrow>
         if ro_rolePermissions canonical \<noteq> [] then px_rolePermission_createMany P i (ro_rolePermissions canonical)
         else andThen (px_permission_findMany P) (\<lambda>allPermissions.
           if allPermissions \<noteq> [] then px_rolePermission_createMany P i allPermissions else return ())
     | None \<Rightarrow> andThen (px_permission_findMany P) (\<lambda>allPermissions.
           if allPermissions \<noteq> [] then px_rolePermission_createMany P i allPermissions else return ())) d1 = (Inr u, d')"
    using run unfolding grantOwnerPermissions_def by (elim andThen_InrE)
  have d1: "d1 = d" using oldestRole_state[of "''RESTAURANT_OWNER''" i d] find by simp
  have all: "\<exists>ps. T d' = (T d)\<lparr>t_roles := rs @ [r\<lparr>ro_rolePermissions := ps\<rparr>]\<rparr> \<and> owner_grant X ps"
    if run: "andThen (px_permission_findMany P) (\<lambda>allPermissions.
           if allPermissions \<noteq> [] then px_rolePermission_createMany P i allPermissions else return ()) d = (Inr u, d')"
  proof -
    obtain ps d2 where ps: "px_permission_findMany P d = (Inr ps, d2)"
      and r2: "(if ps \<noteq> [] then px_rolePermission_createMany P i ps else return ()) d2 = (Inr u, d')"
      using run by (elim andThen_InrE)
    have d2: "d2 = d" "set ps = set (t_permissions (T d))"
      using permissions_state[of d] permissions_value[of d ps] ps by simp_all
    have "T d' = (T d)\<lparr>t_roles := rs @ [r\<lparr>ro_rolePermissions := ps\<rparr>]\<rparr>"
    proof (cases "ps = []")
      case True
      have "r\<lparr>ro_rolePermissions := []\<rparr> = r" using T(4) by (cases r) simp
      moreover have "T d = (T d)\<lparr>t_roles := rs @ [r]\<rparr>" using T(1) by (cases "T d") simp
      ultimately show ?thesis using True r2 d2 by (simp add: return_def)
    next
      case False
      then show ?thesis using r2 d2 granted[of ps d u d'] by simp
    qed
    then show ?thesis using d2(2) X by (auto simp: owner_grant_def)
  qed
  show ?thesis
  proof (cases "\<exists>canonical. cr = Some canonical \<and> ro_rolePermissions canonical \<noteq> []")
    case False
    then show ?thesis using rest d1 all by (cases cr) auto
  next
    case True
    then obtain canon where canon: "cr = Some canon" "ro_rolePermissions canon \<noteq> []" by blast
    have "canon \<in> set rs \<and> ro_name canon = ''RESTAURANT_OWNER'' \<and> (\<forall>x \<in> set rs. ro_name x = ''RESTAURANT_OWNER'' \<longrightarrow> ro_createdAt canon \<le> ro_createdAt x)"
      using oldestRole_Some[of "''RESTAURANT_OWNER''" i d canon] find canon(1) T by (auto simp: image_iff)
    then have "owner_grant X (ro_rolePermissions canon)" using canon(2) X(1) by (auto simp: owner_grant_def)
    then show ?thesis using granted[of "ro_rolePermissions canon" d1 u d'] rest canon d1 by auto
  qed
qed

lemma provisionTenant_run:
  assumes run: "provisionTenant P platform_ctx now dto hash d = (Inr res, d')"
  shows "\<exists>tn u r rs b. provisioned (T d) now dto hash tn u r rs b (T d') \<and> tn_id tn \<noteq> [] \<and> res = onboardResponse tn u rs b"
proof -
  obtain tn d1 sb d2 u d3 r d4 x1 d5 x2 d6 rs d7 b d8 where
      1: "px_tenant_create P (newTenant now dto) d = (Inr tn, d1)"
    and 2: "dg_create (px_subscription P) (trialSubscription now (tn_id tn) dto) d1 = (Inr sb, d2)"
    and 3: "dg_create (px_user P) (ownerUser now (tn_id tn) hash dto) d2 = (Inr u, d3)"
    and 4: "dg_create (px_role P) (newOwnerRole now (tn_id tn)) d3 = (Inr r, d4)"
    and 5: "px_userRole_create P (us_id u) (ro_id r) d4 = (Inr x1, d5)"
    and 6: "grantOwnerPermissions P (ro_id r) d5 = (Inr x2, d6)"
    and 7: "dg_create (px_restaurant P) (firstRestaurant now (tn_id tn) dto) d6 = (Inr rs, d7)"
    and 8: "dg_create (px_branch P) (firstBranch now (tn_id tn) (rs_id rs) (tq_branch dto)) d7 = (Inr b, d8)"
    and 9: "return (onboardResponse tn u rs b) d8 = (Inr res, d')"
    using run unfolding provisionTenant_def platform_create by (elim andThen_InrE)
  obtain ti where tn: "tn = (newTenant now dto)\<lparr>tn_id := ti\<rparr>" "ti \<noteq> []" "ti \<notin> tn_id ` set (t_tenants (T d))"
      "T d1 = (T d)\<lparr>t_tenants := t_tenants (T d) @ [tn]\<rparr>" using tenant_create_Inr[OF 1] by blast
  obtain si where sb: "sb = (trialSubscription now (tn_id tn) dto)\<lparr>sb_id := si\<rparr>"
      "T d2 = (T d1)\<lparr>t_subscriptions := t_subscriptions (T d1) @ [sb]\<rparr>" using create_subscription[OF 2] by blast
  obtain ui where u: "u = (ownerUser now (tn_id tn) hash dto)\<lparr>us_id := ui\<rparr>" "ui \<notin> us_id ` set (t_users (T d2))"
      "T d3 = (T d2)\<lparr>t_users := t_users (T d2) @ [u]\<rparr>" using create_user[OF 3] by blast
  obtain ri where r: "r = (newOwnerRole now (tn_id tn))\<lparr>ro_id := ri\<rparr>" "ri \<notin> ro_id ` set (t_roles (T d3))"
      "T d4 = (T d3)\<lparr>t_roles := t_roles (T d3) @ [r]\<rparr>" using create_role[OF 4] by blast
  have ids: "us_id u = ui" "ro_id r = ri" by (simp_all add: u(1) r(1))
  let ?u = "u\<lparr>us_userRoles := us_userRoles u @ [ri]\<rparr>"
  have 5: "T d5 = (T d4)\<lparr>t_users := t_users (T d2) @ [?u]\<rparr>"
    using userRole_Inr[OF 5, unfolded ids] map_last[OF u(2) ids(1), of "\<lambda>x. x\<lparr>us_userRoles := us_userRoles x @ [ri]\<rparr>"] u(3) r(3) by (simp del: map_append)
  have "\<exists>ps. T d6 = (T d5)\<lparr>t_roles := t_roles (T d3) @ [r\<lparr>ro_rolePermissions := ps\<rparr>]\<rparr> \<and> owner_grant (T d) ps"
  proof (rule grantOwnerPermissions_run[OF 6])
    show "t_roles (T d5) = t_roles (T d3) @ [r]" using 5 r(3) by simp
    show "ro_id r \<notin> ro_id ` set (t_roles (T d3))" using r(2) ids by simp
    show "ro_rolePermissions r = []" by (simp add: r(1) newOwnerRole_def)
    show "t_roles (T d) = t_roles (T d3)" "t_permissions (T d) = t_permissions (T d5)" using 5 r(3) u(3) sb(2) tn(4) by simp_all
  qed simp
  then obtain ps where ps: "T d6 = (T d5)\<lparr>t_roles := t_roles (T d3) @ [r\<lparr>ro_rolePermissions := ps\<rparr>]\<rparr>" "owner_grant (T d) ps" by blast
  obtain rsi where rs: "rs = (firstRestaurant now (tn_id tn) dto)\<lparr>rs_id := rsi\<rparr>"
      "T d7 = (T d6)\<lparr>t_restaurants := t_restaurants (T d6) @ [rs]\<rparr>" using create_restaurant[OF 7] by blast
  obtain bi where b: "b = (firstBranch now (tn_id tn) (rs_id rs) (tq_branch dto))\<lparr>br_id := bi\<rparr>"
      "T d8 = (T d7)\<lparr>t_branches := t_branches (T d7) @ [b]\<rparr>" using create_branch[OF 8] by blast
  let ?r = "r\<lparr>ro_rolePermissions := ps\<rparr>"
  have X: "T d' = (T d)\<lparr>t_tenants := t_tenants (T d) @ [tn], t_subscriptions := t_subscriptions (T d) @ [sb],
      t_users := t_users (T d) @ [?u], t_roles := t_roles (T d) @ [?r], t_restaurants := t_restaurants (T d) @ [rs],
      t_branches := t_branches (T d) @ [b]\<rparr>"
    using 9 b(2) rs(2) ps(1) 5 r(3) u(3) sb(2) tn(4) by (simp add: return_def)
  have "provisioned (T d) now dto hash tn ?u ?r rs b (T d')"
    unfolding provisioned_def
  proof (intro conjI)
    show "\<exists>si. T d' = (T d)\<lparr>t_tenants := t_tenants (T d) @ [tn],
        t_subscriptions := t_subscriptions (T d) @ [(trialSubscription now (tn_id tn) dto)\<lparr>sb_id := si\<rparr>],
        t_users := t_users (T d) @ [?u], t_roles := t_roles (T d) @ [?r], t_restaurants := t_restaurants (T d) @ [rs],
        t_branches := t_branches (T d) @ [b]\<rparr>" using X sb(1) by (intro exI[of _ si]) simp
    show "tn = (newTenant now dto)\<lparr>tn_id := tn_id tn\<rparr>" "tn_id tn \<notin> tn_id ` set (t_tenants (T d))" using tn by simp_all
    show "?u = (ownerUser now (tn_id tn) hash dto)\<lparr>us_id := us_id ?u, us_userRoles := [ro_id ?r]\<rparr>"
      using ids by (simp add: u(1) ownerUser_def)
    show "us_id ?u \<notin> us_id ` set (t_users (T d))" using u(2) ids sb(2) tn(4) by simp
    show "?r = (newOwnerRole now (tn_id tn))\<lparr>ro_id := ro_id ?r, ro_rolePermissions := ro_rolePermissions ?r\<rparr>" by (simp add: r(1))
    show "ro_id ?r \<notin> ro_id ` set (t_roles (T d))" using r(2) ids u(3) sb(2) tn(4) by simp
    show "owner_grant (T d) (ro_rolePermissions ?r)" using ps(2) by simp
    show "rs = (firstRestaurant now (tn_id tn) dto)\<lparr>rs_id := rs_id rs\<rparr>" by (simp add: rs(1))
    show "b = (firstBranch now (tn_id tn) (rs_id rs) (tq_branch dto))\<lparr>br_id := br_id b\<rparr>" by (simp add: b(1))
  qed
  moreover have "tn_id tn \<noteq> []" using tn(1,2) by simp
  moreover have "res = onboardResponse tn ?u rs b" using 9 by (simp add: return_def onboardResponse_def)
  ultimately show ?thesis by blast
qed

text \<open>Onboarding: what it needed and did, and that it does nothing else.\<close>

lemma liftOn_read: "preserves (\<lambda>x. x) m \<Longrightarrow> liftOn m s = (r, s') \<Longrightarrow> s' = s \<and> m (on_db s) = (r, on_db s)"
  using preservesD[of "\<lambda>x. x" m "on_db s"] by (auto simp: liftOn_def split: prod.splits)

lemma onboard_run:
  assumes run: "onboard P env mailer dto s = (Inr res, s')"
  shows "\<exists>hash tn u r rs b. ae_argon2_hash env (tq_ownerPassword dto) = Inr hash \<and>
     provisioned (T (on_db s)) (ae_now env) dto hash tn u r rs b (T (on_db s')) \<and> tn_id tn \<noteq> [] \<and> res = onboardResponse tn u rs b \<and>
     (\<forall>x \<in> set (t_tenants (T (on_db s))). tn_subdomain x \<noteq> tq_subdomain dto) \<and>
     (\<forall>x \<in> set (t_users (T (on_db s))). us_email x = toLowerCase (tq_ownerEmail dto) \<longrightarrow> us_tenantId x = None) \<and>
     on_mails s' = on_mails s @ (if mailer then [welcomeOf dto] else [])"
proof -
  let ?w = "[(''email'', Is (CStr (toLowerCase (tq_ownerEmail dto)))), (''tenantId'', IsNot CNull)]"
  obtain et s1 eu s2 hash s3 where
      1: "liftOn (px_tenant_findBySubdomain P (tq_subdomain dto)) s = (Inr et, s1)" "et = None"
    and 2: "liftOn (dg_findFirst (px_user P) ?w) s1 = (Inr eu, s2)" "eu = None"
    and 3: "of_result (hashPassword env (tq_ownerPassword dto)) s2 = (Inr hash, s3)"
    and 4: "onboardTransaction P platform_ctx mailer (ae_now env) dto hash s3 = (Inr res, s')"
    using run unfolding onboard_def executeOnboarding_def platform_findFirst
    by (elim andThen_InrE) (force simp: throw_apply split: if_splits elim!: andThen_InrE)
  have s1: "s1 = s" "px_tenant_findBySubdomain P (tq_subdomain dto) (on_db s) = (Inr None, on_db s)"
    using liftOn_read[OF _ 1(1)] 1(2) subdomain_state by (auto simp: preserves_def)
  have s2: "s2 = s" "dg_findFirst (px_user P) ?w (on_db s) = (Inr None, on_db s)"
    using liftOn_read[OF _ 2(1)] 2(2) s1(1) users.findFirst_state by (auto simp: preserves_def)
  have s3: "s3 = s" "ae_argon2_hash env (tq_ownerPassword dto) = Inr hash" using 3 s2(1) by (simp_all add: of_result_apply hashPassword_def)
  have free: "\<forall>x \<in> set (t_tenants (T (on_db s))). tn_subdomain x \<noteq> tq_subdomain dto"
    using subdomain_None[of "tq_subdomain dto" "on_db s"] s1(2) by auto
  have unused: "\<forall>x \<in> set (t_users (T (on_db s))). us_email x = toLowerCase (tq_ownerEmail dto) \<longrightarrow> us_tenantId x = None"
  proof (intro ballI impI)
    fix x assume x: "x \<in> set (t_users (T (on_db s)))" "us_email x = toLowerCase (tq_ownerEmail dto)"
    have "\<not> sat user_model ?w x" using users.findFirst_None[of ?w "on_db s" x] s2(2) x(1) by simp
    then show "us_tenantId x = None" using x(2) by (cases "us_tenantId x") (auto simp: sat_def user_model_def user_col_def opt_cell_def)
  qed
  let ?body = "provisionTenant P platform_ctx (ae_now env) dto hash"
  obtain d' where tx: "transaction P ?body (on_db s) = (Inr res, d')" "on_db s' = d'"
    and mails: "on_mails s' = on_mails s @ (if mailer \<and> (case fst (?body (on_db s)) of Inr _ \<Rightarrow> True | Inl _ \<Rightarrow> False) then [welcomeOf dto] else [])"
    using 4 s3(1) by (auto simp: onboardTransaction_def Let_def liftOn_def split: prod.splits if_splits)
  obtain d1 where body: "?body (on_db s) = (Inr res, d1)" "T d' = T d1" using transaction_Inr[OF tx(1)] by blast
  from provisionTenant_run[OF body(1)] obtain tn u r rs b where
      "provisioned (T (on_db s)) (ae_now env) dto hash tn u r rs b (T d1)" "tn_id tn \<noteq> []" "res = onboardResponse tn u rs b" by blast
  moreover have "on_mails s' = on_mails s @ (if mailer then [welcomeOf dto] else [])" using mails body(1) by simp
  ultimately show ?thesis using s3(2) free unused tx(2) body(2) by (intro exI conjI) auto
qed

lemma onboard_fails:
  assumes "onboard P env mailer dto s = (Inl e, s')"
  shows "T (on_db s') = T (on_db s)"
proof -
  have read: "preserves (\<lambda>s. T (on_db s)) (liftOn m)" if "preserves (\<lambda>x. x) m" for m :: "('d, 'z) prog"
    by (intro preservesI) (auto dest: liftOn_read[OF that])
  have tx: "fails_clean (\<lambda>s. T (on_db s)) (onboardTransaction P platform_ctx mailer now dto hash)" for now hash
    by (auto simp: fails_clean_def onboardTransaction_def Let_def liftOn_def split: prod.splits if_splits dest!: transaction_Inl)
  have "fails_clean (\<lambda>s. T (on_db s)) (onboard P env mailer dto)"
    unfolding onboard_def executeOnboarding_def platform_findFirst
    by (intro clean_intros fails_clean_read fails_clean_preserves[OF preserves_throw] read tx preserves_intros) (simp_all add: preserves_def subdomain_state users.findFirst_state)
  then show ?thesis using assms by (auto simp: fails_clean_def)
qed

end

section \<open>Changing a profile\<close>

text \<open>What a change of the profile leaves alone.\<close>

definition same_account :: "tenant \<Rightarrow> tenant \<Rightarrow> bool" where
  "same_account x y \<longleftrightarrow> tn_id x = tn_id y \<and> tn_subdomain x = tn_subdomain y \<and> tn_status x = tn_status y \<and>
     tn_stripeCustomerId x = tn_stripeCustomerId y \<and> tn_createdAt x = tn_createdAt y \<and> tn_deletedAt x = tn_deletedAt y"

definition domains_unique :: "tenant list \<Rightarrow> bool" where
  "domains_unique ts \<longleftrightarrow> (\<forall>x \<in> set ts. \<forall>y \<in> set ts. tn_customDomain x = tn_customDomain y \<longrightarrow> tn_customDomain x = None \<or> tn_id x = tn_id y)"

lemma tenantData_account: "same_account (tenantData now e dto x) x"
  by (auto simp: same_account_def tenantData_def defined_field_def split: option.splits)

lemma tenantData_domain:
  "tn_customDomain (tenantData now e dto x) = (case uq_customDomain dto of None \<Rightarrow> tn_customDomain x | Some v \<Rightarrow> Some v)"
  by (auto simp: tenantData_def defined_field_def split: option.splits)

context prisma_client begin

lemma updateTenant_run:
  assumes run: "updateTenant P now i dto rq d = (Inr v, d')"
  shows "\<not> foreignRequester rq i \<and>
    (\<exists>xs x ys e. t_tenants (T d) = xs @ x # ys \<and> tn_id x = i \<and> v = tenantView (tenantData now e dto x) \<and>
       T d' = (T d)\<lparr>t_tenants := xs @ tenantData now e dto x # ys\<rparr>) \<and>
    (\<forall>k. uq_customDomain dto = Some k \<and> k \<noteq> [] \<longrightarrow>
       (\<forall>y \<in> set (t_tenants (T d)). tn_customDomain y \<noteq> Some k) \<or>
       (\<exists>y \<in> set (t_tenants (T d)). tn_customDomain y = Some k \<and> tn_id y = i))"
proof -
  obtain e d1 where 1: "px_tenant_findUnique P i d = (Inr (Some e), d1)" and fr: "\<not> foreignRequester rq i"
    and rest: "andThen (case or_null (uq_customDomain dto) of
                None \<Rightarrow> return ()
              | Some domain \<Rightarrow> andThen (px_tenant_findByCustomDomain P domain) (\<lambda>domainConflict.
                  if \<exists>x \<in> set_option domainConflict. tn_id x \<noteq> i
                  then throw (ConflictException (''Custom domain ['' @ domain @ ''] is already registered.'')) else return ())) (\<lambda>_.
         andThen (px_tenant_update P i (tenantData now e dto)) (\<lambda>updated. return (tenantView updated))) d1 = (Inr v, d')"
    using run unfolding updateTenant_def
    by (elim andThen_InrE) (auto simp: throw_apply split: option.splits if_splits)
  have d1: "d1 = d" using tenant_state[of i d] 1 by simp
  obtain d2 u where check: "(case or_null (uq_customDomain dto) of
                None \<Rightarrow> return ()
              | Some domain \<Rightarrow> andThen (px_tenant_findByCustomDomain P domain) (\<lambda>domainConflict.
                  if \<exists>x \<in> set_option domainConflict. tn_id x \<noteq> i
                  then throw (ConflictException (''Custom domain ['' @ domain @ ''] is already registered.'')) else return ())) d = (Inr (), d2)"
    and upd: "px_tenant_update P i (tenantData now e dto) d2 = (Inr u, d')" "v = tenantView u"
    using rest d1 by (auto elim!: andThen_InrE simp: return_def)
  have d2: "d2 = d \<and> (\<forall>k. or_null (uq_customDomain dto) = Some k \<longrightarrow> (\<forall>y \<in> set (t_tenants (T d)). tn_customDomain y \<noteq> Some k) \<or>
       (\<exists>y \<in> set (t_tenants (T d)). tn_customDomain y = Some k \<and> tn_id y = i))"
  proof (cases "or_null (uq_customDomain dto)")
    case None
    then show ?thesis using check by (simp add: return_def)
  next
    case (Some k)
    obtain c where c: "px_tenant_findByCustomDomain P k d = (Inr c, d2)" "\<forall>x \<in> set_option c. tn_id x = i"
      using check Some by (auto simp: throw_apply return_def elim!: andThen_InrE split: if_splits)
    have "d2 = d" using customDomain_state[of k d] c(1) by simp
    then show ?thesis using c Some customDomain_None[of k d] customDomain_Some[of k d] by (cases c) auto
  qed
  obtain xs x ys where "t_tenants (T d) = xs @ x # ys" "tn_id x = i" "u = tenantData now e dto x"
      "T d' = (T d)\<lparr>t_tenants := xs @ tenantData now e dto x # ys\<rparr>"
    using tenant_update_Inr[OF upd(1)] d2 by blast
  then show ?thesis using fr d2 upd(2) by (auto simp: or_null_def)
qed

lemma updateTenant_fails: "updateTenant P now i dto rq d = (Inl e, d') \<Longrightarrow> T d' = T d"
proof -
  assume run: "updateTenant P now i dto rq d = (Inl e, d')"
  have upd: "fails_clean (\<lambda>d. T d) (andThen (px_tenant_update P i f) (\<lambda>u. return (tenantView u)))" for f
    by (intro fails_clean_write clean_intros) (auto simp: fails_clean_def dest: tenant_update_Inl)
  have "fails_clean (\<lambda>d. T d) (updateTenant P now i dto rq)"
    unfolding updateTenant_def
    by (intro clean_intros fails_clean_read upd preserves_intros) (simp_all add: preserves_def tenant_state customDomain_state)
  then show "T d' = T d" using run by (auto simp: fails_clean_def)
qed

lemma updateTenant_domains:
  assumes run: "updateTenant P now i dto rq d = (Inr v, d')"
    and u: "domains_unique (t_tenants (T d))" "distinct (map tn_id (t_tenants (T d)))" "uq_customDomain dto \<noteq> Some []"
  shows "domains_unique (t_tenants (T d'))"
proof -
  obtain xs x ys e where X: "t_tenants (T d) = xs @ x # ys" "tn_id x = i" "T d' = (T d)\<lparr>t_tenants := xs @ tenantData now e dto x # ys\<rparr>"
    and k: "\<And>k. uq_customDomain dto = Some k \<Longrightarrow> k \<noteq> [] \<Longrightarrow>
       (\<forall>y \<in> set (t_tenants (T d)). tn_customDomain y \<noteq> Some k) \<or> (\<exists>y \<in> set (t_tenants (T d)). tn_customDomain y = Some k \<and> tn_id y = i)"
    using updateTenant_run[OF run] by blast
  let ?x = "tenantData now e dto x"
  have id: "tn_id ?x = i" using tenantData_account[of now e dto x] X(2) by (simp add: same_account_def)
  have other: "tn_customDomain ?x = tn_customDomain y \<Longrightarrow> tn_customDomain y = None" if "y \<in> set xs \<union> set ys" for y
  proof (cases "uq_customDomain dto")
    case None
    assume "tn_customDomain ?x = tn_customDomain y"
    then have eq: "tn_customDomain x = tn_customDomain y" using None by (simp add: tenantData_domain)
    have "tn_id y \<noteq> tn_id x" using u(2) that X(1) by (auto simp: image_iff)
    then show "tn_customDomain y = None" using u(1) that X(1) eq by (auto simp: domains_unique_def)
  next
    case (Some k)
    assume "tn_customDomain ?x = tn_customDomain y"
    then have y: "tn_customDomain y = Some k" using Some by (simp add: tenantData_domain)
    have "tn_id y \<noteq> i" using u(2) that X(1,2) by (auto simp: image_iff)
    moreover have "tn_id y = i"
    proof -
      have mem: "y \<in> set (t_tenants (T d))" using that X(1) by auto
      obtain z where z: "z \<in> set (t_tenants (T d))" "tn_customDomain z = Some k" "tn_id z = i" using k[OF Some] Some u(3) y mem by auto
      have "tn_customDomain y = None \<or> tn_id y = tn_id z" using u(1) mem z(1,2) y unfolding domains_unique_def by (metis (no_types))
      then show ?thesis using y z(3) by simp
    qed
    ultimately show ?thesis by blast
  qed
  have inv: "tn_customDomain a = tn_customDomain b \<Longrightarrow> tn_customDomain a = None \<or> tn_id a = tn_id b" if "a \<in> set xs \<union> set ys" "b \<in> set xs \<union> set ys" for a b
    using u(1) that X(1) by (auto simp: domains_unique_def)
  show ?thesis unfolding domains_unique_def
  proof (intro ballI impI)
    fix a b assume ab: "a \<in> set (t_tenants (T d'))" "b \<in> set (t_tenants (T d'))" "tn_customDomain a = tn_customDomain b"
    then have "(a = ?x \<or> a \<in> set xs \<union> set ys) \<and> (b = ?x \<or> b \<in> set xs \<union> set ys)" using X(3) by auto
    then show "tn_customDomain a = None \<or> tn_id a = tn_id b" using other[of a] other[of b] inv[of a b] ab(3) by auto
  qed
qed

end

end
