(* ===== verification/Onboarding_Properties.thy ===== *)
theory Onboarding_Properties
  imports Tenant_Correct Auth_Properties
begin

text \<open>
  Properties of the accounts of the platform: how a tenant comes into being and who can change its profile.
\<close>

text \<open>C30. Onboarding provisions a tenant as a whole or not at all. When it returns, the subdomain was free and no
  user of a tenant had the e-mail address; the tables have grown by exactly one tenant with a new id, its
  trial of 14 days, its owner with the hashed password and the role RESTAURANT_OWNER, that role with the
  permissions of the oldest owner role of the platform or else all, a restaurant and a branch of it, and
  the answer describes these; one welcome mail was handed over. When it throws, no table has changed.\<close>

theorem onboarding_provisions:
  assumes "prisma_client P T" "onboard P env mailer dto s = (r, s')"
  shows "(\<forall>res. r = Inr res \<longrightarrow>
      (\<forall>x \<in> set (t_tenants (T (on_db s))). tn_subdomain x \<noteq> tq_subdomain dto) \<and>
      (\<forall>x \<in> set (t_users (T (on_db s))). us_email x = toLowerCase (tq_ownerEmail dto) \<longrightarrow> us_tenantId x = None) \<and>
      (\<exists>hash tn u ro rs b. ae_argon2_hash env (tq_ownerPassword dto) = Inr hash \<and>
         provisioned (T (on_db s)) (ae_now env) dto hash tn u ro rs b (T (on_db s')) \<and> tn_id tn \<noteq> [] \<and>
         res = onboardResponse tn u rs b) \<and>
      on_mails s' = on_mails s @ (if mailer then [welcomeOf dto] else [])) \<and>
    (\<forall>e. r = Inl e \<longrightarrow> T (on_db s') = T (on_db s))"
proof (rule conjI; intro allI impI)
  fix res assume "r = Inr res"
  from prisma_client.onboard_run[OF assms(1) assms(2)[unfolded this]]
  show "(\<forall>x \<in> set (t_tenants (T (on_db s))). tn_subdomain x \<noteq> tq_subdomain dto) \<and>
      (\<forall>x \<in> set (t_users (T (on_db s))). us_email x = toLowerCase (tq_ownerEmail dto) \<longrightarrow> us_tenantId x = None) \<and>
      (\<exists>hash tn u ro rs b. ae_argon2_hash env (tq_ownerPassword dto) = Inr hash \<and>
         provisioned (T (on_db s)) (ae_now env) dto hash tn u ro rs b (T (on_db s')) \<and> tn_id tn \<noteq> [] \<and>
         res = onboardResponse tn u rs b) \<and>
      on_mails s' = on_mails s @ (if mailer then [welcomeOf dto] else [])" by blast
next
  fix e assume "r = Inl e"
  then show "T (on_db s') = T (on_db s)" using prisma_client.onboard_fails[OF assms(1)] assms(2) by blast
qed

definition sample_signup :: CreateTenantRequestDto where
  "sample_signup = \<lparr>tq_companyName = ''Noodles'', tq_subdomain = ''noodles'', tq_ownerFirstName = ''Ann'', tq_ownerLastName = ''Lee'',
     tq_ownerEmail = ''Ann@x.y'', tq_ownerPassword = ''secret12'', tq_planId = ''pl1'', tq_restaurantName = None, tq_currency = None,
     tq_timezone = None, tq_taxPercentage = None, tq_branch = Some \<lparr>bq_name = ''Old Town'', bq_address = ''Street 1'', bq_phoneNumber = [],
       bq_latitude = Some 1, bq_longitude = None, bq_operatingHours = Some ''all''\<rparr>\<rparr>"

definition sample_platform :: "tables onboarding" where
  "sample_platform = \<lparr>on_db = sample_tables, on_mails = []\<rparr>"

theorem onboarding_provisions_witness:
  "\<exists>res s' tn u ro rs b hash. onboard mem_prisma (sample_auth 5) True sample_signup sample_platform = (Inr res, s') \<and>
     provisioned sample_tables 5 sample_signup hash tn u ro rs b (on_db s') \<and>
     or_restaurantName res = ''Noodles'' \<and> or_branchName res = ''Old Town'' \<and> length (on_mails s') = 1"
proof -
  let ?run = "onboard mem_prisma (sample_auth 5) True sample_signup sample_platform"
  let ?tx = "onboardTransaction mem_prisma platform_ctx True 5 sample_signup ''h:secret12'' sample_platform"
  have free: "liftOn (px_tenant_findBySubdomain mem_prisma (tq_subdomain sample_signup)) sample_platform = (Inr None, sample_platform)"
    by (simp add: liftOn_def mem_prisma_def the_id_def sample_platform_def sample_tables_def sample_tenant_def sample_signup_def)
  have unused: "liftOn (dg_findFirst (px_user mem_prisma) w) sample_platform = (Inr None, sample_platform)" for w
    by (simp add: liftOn_def mem_prisma_def mem_delegate_def sample_platform_def sample_tables_def)
  have "hashPassword (sample_auth 5) (tq_ownerPassword sample_signup) = Inr ''h:secret12''" "ae_now (sample_auth 5) = 5"
    by (simp_all add: hashPassword_def sample_auth_def sample_signup_def)
  then have step: "?run = ?tx"
    by (simp add: onboard_def executeOnboarding_def platform_findFirst free unused andThen_def of_result_apply)
  have "case fst ?tx of Inr res \<Rightarrow> or_restaurantName res = ''Noodles'' \<and> or_branchName res = ''Old Town'' | _ \<Rightarrow> False" by code_simp
  then have eval: "case fst ?run of Inr res \<Rightarrow> or_restaurantName res = ''Noodles'' \<and> or_branchName res = ''Old Town'' | _ \<Rightarrow> False"
    unfolding step .
  then obtain res s' where run: "?run = (Inr res, s')" by (cases ?run) (auto split: sum.splits)
  note all = onboarding_provisions[OF mem.prisma_client_axioms run]
  obtain hash tn u ro rs b where "provisioned (on_db sample_platform) (ae_now (sample_auth 5)) sample_signup hash tn u ro rs b (on_db s')"
      "on_mails s' = on_mails sample_platform @ [welcomeOf sample_signup]" using conjunct1[OF all] by auto
  then have "provisioned sample_tables 5 sample_signup hash tn u ro rs b (on_db s')" "length (on_mails s') = 1"
    by (simp_all add: sample_platform_def sample_auth_def)
  moreover have "or_restaurantName res = ''Noodles'' \<and> or_branchName res = ''Old Town''"
    using eval unfolding run by (simp only: fst_conv sum.case)
  ultimately show ?thesis using run by blast
qed

text \<open>C31. The profile of a tenant is changed only by those who may and only where it may be: when a change returns,
  the requester belongs to the tenant, or to none, or is a platform owner; one row has changed, that of the
  tenant, and its id, subdomain, status and payment account have not; the custom domains of different
  tenants stay different, unless the new one is empty. When it throws, nothing has changed.\<close>

theorem tenant_update_confined:
  assumes "prisma_client P T" "updateTenant P now i dto rq d = (r, d')"
  shows "(\<forall>v. r = Inr v \<longrightarrow>
      (\<forall>q. rq = Some q \<and> truthy (rq_tenantId q) \<and> ''PLATFORM_OWNER'' \<notin> set (rq_roles q) \<longrightarrow> rq_tenantId q = Some i) \<and>
      (\<exists>xs x y ys. t_tenants (T d) = xs @ x # ys \<and> tn_id x = i \<and> same_account y x \<and> v = tenantView y \<and>
         T d' = (T d)\<lparr>t_tenants := xs @ y # ys\<rparr>) \<and>
      (domains_unique (t_tenants (T d)) \<and> distinct (map tn_id (t_tenants (T d))) \<and> uq_customDomain dto \<noteq> Some [] \<longrightarrow>
         domains_unique (t_tenants (T d')))) \<and>
    (\<forall>e. r = Inl e \<longrightarrow> T d' = T d)"
proof (rule conjI; intro allI impI)
  fix v assume r: "r = Inr v"
  note run = prisma_client.updateTenant_run[OF assms(1) assms(2)[unfolded r]]
  have own: "\<forall>q. rq = Some q \<and> truthy (rq_tenantId q) \<and> ''PLATFORM_OWNER'' \<notin> set (rq_roles q) \<longrightarrow> rq_tenantId q = Some i"
    using conjunct1[OF run] by (auto simp: foreignRequester_def)
  obtain xs x ys e where X: "t_tenants (T d) = xs @ x # ys" "tn_id x = i" "v = tenantView (tenantData now e dto x)"
      "T d' = (T d)\<lparr>t_tenants := xs @ tenantData now e dto x # ys\<rparr>" using run by blast
  have "domains_unique (t_tenants (T d)) \<and> distinct (map tn_id (t_tenants (T d))) \<and> uq_customDomain dto \<noteq> Some [] \<longrightarrow> domains_unique (t_tenants (T d'))"
    using prisma_client.updateTenant_domains[OF assms(1) assms(2)[unfolded r]] by blast
  then show "(\<forall>q. rq = Some q \<and> truthy (rq_tenantId q) \<and> ''PLATFORM_OWNER'' \<notin> set (rq_roles q) \<longrightarrow> rq_tenantId q = Some i) \<and>
      (\<exists>xs x y ys. t_tenants (T d) = xs @ x # ys \<and> tn_id x = i \<and> same_account y x \<and> v = tenantView y \<and>
         T d' = (T d)\<lparr>t_tenants := xs @ y # ys\<rparr>) \<and>
      (domains_unique (t_tenants (T d)) \<and> distinct (map tn_id (t_tenants (T d))) \<and> uq_customDomain dto \<noteq> Some [] \<longrightarrow>
         domains_unique (t_tenants (T d')))"
    using own X tenantData_account[of now e dto x] by blast
next
  fix e assume "r = Inl e"
  then show "T d' = T d" using prisma_client.updateTenant_fails[OF assms(1)] assms(2) by blast
qed

definition sample_profile :: UpdateTenantRequestDto where
  "sample_profile = \<lparr>uq_name = Some ''Diner'', uq_customDomain = Some ''diner.io'', uq_branding = None\<rparr>"

text \<open>A requester without a tenant changes any tenant.\<close>

theorem tenant_update_confined_witness:
  "(\<exists>v d'. updateTenant mem_prisma 5 ''t1'' sample_profile (Some \<lparr>rq_tenantId = None, rq_roles = []\<rparr>) sample_tables = (Inr v, d') \<and>
      tv_name v = ''Diner'' \<and> domains_unique (t_tenants d')) \<and>
   (\<exists>e d'. updateTenant mem_prisma 5 ''t1'' sample_profile (Some \<lparr>rq_tenantId = Some ''t2'', rq_roles = []\<rparr>) sample_tables = (Inl e, d') \<and> d' = sample_tables)"
proof -
  let ?run = "\<lambda>q. updateTenant mem_prisma 5 ''t1'' sample_profile (Some q) sample_tables"
  let ?none = "\<lparr>rq_tenantId = None, rq_roles = []\<rparr>" and ?other = "\<lparr>rq_tenantId = Some ''t2'', rq_roles = []\<rparr>"
  have e1: "case fst (?run ?none) of Inr v \<Rightarrow> tv_name v = ''Diner'' | _ \<Rightarrow> False" by code_simp
  have e2: "case fst (?run ?other) of Inr v \<Rightarrow> False | _ \<Rightarrow> True" by code_simp
  obtain v d1 where r1: "?run ?none = (Inr v, d1)" using e1 by (cases "?run ?none") (auto split: sum.splits)
  obtain e d2 where r2: "?run ?other = (Inl e, d2)" using e2 by (cases "?run ?other") (auto split: sum.splits)
  have u: "domains_unique (t_tenants sample_tables)" "distinct (map tn_id (t_tenants sample_tables))" "uq_customDomain sample_profile \<noteq> Some []"
    by (simp_all add: domains_unique_def sample_tables_def sample_tenant_def sample_profile_def)
  have d1: "domains_unique (t_tenants d1)"
    using conjunct1[OF tenant_update_confined[OF mem.prisma_client_axioms r1]] u by blast
  have d2: "d2 = sample_tables" using conjunct2[OF tenant_update_confined[OF mem.prisma_client_axioms r2]] by blast
  have "tv_name v = ''Diner''" using e1 unfolding r1 by (simp only: fst_conv sum.case)
  then show ?thesis using r1 r2 d1 d2 by blast
qed

end
