(* ===== verification/Email_Service.thy ===== *)
theory Email_Service
  imports Auth_Service
begin

text \<open>
  \<^verbatim>\<open>notification/email/email.service.ts\<close>: mail with templates, and the addresses that bounced. The
  state is the blocklist in memory and the mails handed to SendGrid; the files of the templates,
  SendGrid and the configuration are the environment. The variables of a template are the entries of an
  object in the order of \<^verbatim>\<open>Object.entries\<close>.
\<close>

section \<open>JavaScript strings\<close>

text \<open>\<^verbatim>\<open>String(v)\<close>, and \<^verbatim>\<open>String(v ?? '')\<close>, which is also what an array makes of its elements.\<close>

fun js_String :: "json \<Rightarrow> string" where
  "js_String JNull = ''null''"
| "js_String (JBool b) = (if b then ''true'' else ''false'')"
| "js_String (JNum n) = stringify (JNum n)"
| "js_String (JStr s) = s"
| "js_String (JArr vs) = join_with '','' (map (\<lambda>v. if v = JNull then [] else js_String v) vs)"
| "js_String (JObj ms) = ''[object Object]''"

definition string_or_empty :: "json \<Rightarrow> string" where
  "string_or_empty v = (if v = JNull then [] else js_String v)"

text \<open>\<^verbatim>\<open>JSON.stringify(v, null, 2)\<close>; \<open>pad\<close> is the indentation so far.\<close>

fun pretty :: "string \<Rightarrow> json \<Rightarrow> string" where
  "pretty pad (JArr vs) = (if vs = [] then ''[]'' else ''['' @ CHR 0x0A #
     join_with ('','' @ [CHR 0x0A]) (map (\<lambda>v. pad @ ''  '' @ pretty (pad @ ''  '') v) vs) @ CHR 0x0A # pad @ '']'')"
| "pretty pad (JObj ms) = (if ms = [] then ''{}'' else ''{'' @ CHR 0x0A #
     join_with ('','' @ [CHR 0x0A]) (map (\<lambda>(k, v). pad @ ''  '' @ json_quote k @ '': '' @ pretty (pad @ ''  '') v) ms) @ CHR 0x0A # pad @ ''}'')"
| "pretty pad v = stringify v"

text \<open>
  The replacement text of \<^verbatim>\<open>String.prototype.replace\<close>: \<^verbatim>\<open>$$\<close>, and \<^verbatim>\<open>$&\<close>, \<^verbatim>\<open>$`\<close> and \<^verbatim>\<open>$'\<close> for the match and what
  is before and after it. There are no groups here, so other dollars stay.
\<close>

fun expand_dollar :: "string \<Rightarrow> string \<Rightarrow> string \<Rightarrow> string \<Rightarrow> string" where
  "expand_dollar before match after (a # b # cs) =
     (if a = CHR ''$'' \<and> b = CHR ''$'' then CHR ''$'' # expand_dollar before match after cs
      else if a = CHR ''$'' \<and> b = CHR ''&'' then match @ expand_dollar before match after cs
      else if a = CHR ''$'' \<and> b = CHR 0x60 then before @ expand_dollar before match after cs
      else if a = CHR ''$'' \<and> b = CHR 0x27 then after @ expand_dollar before match after cs
      else a # expand_dollar before match after (b # cs))"
| "expand_dollar before match after cs = cs"

text \<open>\<^verbatim>\<open>s.replace(new RegExp(pat, 'g'), rep)\<close> for a pattern that is matched as it stands.\<close>

function replace_all :: "string \<Rightarrow> string \<Rightarrow> string \<Rightarrow> string \<Rightarrow> string" where
  "replace_all pat rep before s =
     (if pat \<noteq> [] \<and> prefix pat s
      then expand_dollar before pat (drop (length pat) s) rep @ replace_all pat rep (before @ pat) (drop (length pat) s)
      else case s of [] \<Rightarrow> [] | c # cs \<Rightarrow> c # replace_all pat rep (before @ [c]) cs)"
  by pat_completeness auto

termination
  by (relation "measure (\<lambda>(pat, rep, before, s). length s)") (auto simp: prefix_def)

declare replace_all.simps [simp del]

text \<open>\<^verbatim>\<open>s.replace(/{{[^}]+}}/g, '')\<close>.\<close>

definition placeholder_at :: "string \<Rightarrow> string option" where
  "placeholder_at s = (let body = takeWhile (\<lambda>c. c \<noteq> CHR ''}'') (drop 2 s); rest = drop (2 + length body) s in
     if prefix ''{{'' s \<and> body \<noteq> [] \<and> prefix ''}}'' rest then Some (drop 2 rest) else None)"

lemma placeholder_at_shorter: "placeholder_at s = Some r \<Longrightarrow> length r < length s"
  by (auto simp: placeholder_at_def Let_def split: if_splits dest!: prefix_length_le)

function drop_placeholders :: "string \<Rightarrow> string" where
  "drop_placeholders s = (case placeholder_at s of
     Some r \<Rightarrow> drop_placeholders r
   | None \<Rightarrow> (case s of [] \<Rightarrow> [] | c # cs \<Rightarrow> c # drop_placeholders cs))"
  by pat_completeness auto

termination
  by (relation "measure length") (auto simp: placeholder_at_shorter)

declare drop_placeholders.simps [simp del]

section \<open>State and environment\<close>

record mail =
  ml_to :: string
  ml_from :: string
  ml_subject :: string
  ml_html :: string

record mailer =
  mr_bounced :: "string set"
  mr_sent :: "mail list"

type_synonym entries = "(string \<times> json) list"

text \<open>
  \<open>me_template\<close> is the file of a template, when there is one, or the error of reading it; \<open>me_regexp\<close> is
  the replacement for a key that means something in a regular expression; \<open>me_sendgrid\<close> is SendGrid.
\<close>

record mailEnv =
  me_template :: "string \<Rightarrow> (exn + string) option"
  me_regexp :: "string \<Rightarrow> string \<Rightarrow> string \<Rightarrow> exn + string"
  me_apiKey :: "string option"
  me_fromEmail :: "string option"
  me_sendgrid :: "mail \<Rightarrow> exn + string option"
  me_uuid :: string

record EmailResult =
  er_success :: bool
  er_blocked :: bool
  er_reason :: "string option"
  er_mocked :: bool
  er_to :: "string option"
  er_subject :: "string option"
  er_template :: "string option"
  er_messageId :: "string option"
  er_failover :: bool

section \<open>Templates\<close>

text \<open>A variable of an object, or what \<^verbatim>\<open>|| ''\<close> makes of it.\<close>

definition field :: "string \<Rightarrow> entries \<Rightarrow> json" where
  "field k vars = (case map_of vars k of None \<Rightarrow> JNull | Some v \<Rightarrow> v)"

definition text_or :: "json \<Rightarrow> string \<Rightarrow> string" where
  "text_or v d = (if json_truthy v then js_String v else d)"

definition word_char :: "char \<Rightarrow> bool" where
  "word_char c \<longleftrightarrow> (let n = of_char c :: nat in 48 \<le> n \<and> n \<le> 57 \<or> 65 \<le> n \<and> n \<le> 90 \<or> 97 \<le> n \<and> n \<le> 122 \<or> n = 95)"

definition plain_key :: "string \<Rightarrow> bool" where
  "plain_key k \<longleftrightarrow> k \<noteq> [] \<and> \<not> is_digit (hd k) \<and> list_all word_char k"

definition getEmbeddedTemplate :: "string \<Rightarrow> string" where
  "getEmbeddedTemplate templateName =
     (if templateName = ''welcome'' then ''<h1>Welcome to Zayjar, {{companyName}}!</h1><p>Hello {{ownerFirstName}} {{ownerLastName}}, your workspace {{subdomain}}.zayjar.com is {{status}}.</p>''
      else if templateName = ''invoice'' then ''<h2>Invoice {{invoiceNumber}}</h2><p>Order {{orderNumber}} total ${{total}}. PDF: {{pdfUrl}}</p>''
      else if templateName = ''password-reset'' then ''<h2>Password Reset</h2><p>Hello {{firstName}}, reset link: {{resetUrl}}</p>''
      else ''<p>Template '' @ templateName @ '': {}</p>'')"

fun substitute :: "mailEnv \<Rightarrow> entries \<Rightarrow> string \<Rightarrow> exn + string" where
  "substitute env [] compiled = Inr compiled"
| "substitute env ((key, v) # vars) compiled =
     (case (if plain_key key then Inr (replace_all (''{{'' @ key @ ''}}'') (string_or_empty v) [] compiled)
            else me_regexp env key (string_or_empty v) compiled) of
        Inl e \<Rightarrow> Inl e
      | Inr compiled' \<Rightarrow> substitute env vars compiled')"

definition compileTemplate :: "mailEnv \<Rightarrow> string \<Rightarrow> entries \<Rightarrow> string" where
  "compileTemplate env templateName vars =
     (let templateContent = (case me_template env templateName of None \<Rightarrow> Inr (getEmbeddedTemplate templateName) | Some r \<Rightarrow> r) in
      case (case templateContent of Inl e \<Rightarrow> Inl e | Inr t \<Rightarrow> substitute env vars t) of
        Inr compiled \<Rightarrow> drop_placeholders compiled
      | Inl err \<Rightarrow> ''Hello '' @ text_or (field ''firstName'' vars) [] @ '','' @ [CHR 0x0A, CHR 0x0A] @ ''This is a '' @ templateName @
          '' email.'' @ [CHR 0x0A, CHR 0x0A] @ pretty [] (JObj vars))"

definition getDefaultSubject :: "string \<Rightarrow> entries \<Rightarrow> string" where
  "getDefaultSubject templateName vars =
     (if templateName = ''welcome'' then ''Welcome to Zayjar, '' @ text_or (field ''companyName'' vars) ''your workspace'' @ ''!''
      else if templateName = ''invoice'' then ''Invoice '' @ text_or (field ''invoiceNumber'' vars) [] @ '' - Order '' @ text_or (field ''orderNumber'' vars) []
      else if templateName = ''password-reset'' then ''Password Reset Request - Zayjar''
      else if templateName = ''order-status'' then ''Order '' @ text_or (field ''orderNumber'' vars) [] @ '' is now '' @ text_or (field ''status'' vars) []
      else ''Zayjar Notification - '' @ templateName)"

section \<open>Sending\<close>

definition email_result :: "string \<Rightarrow> string \<Rightarrow> string \<Rightarrow> string option \<Rightarrow> bool \<Rightarrow> bool \<Rightarrow> EmailResult" where
  "email_result to sub template messageId mocked failover = \<lparr>er_success = True, er_blocked = False, er_reason = None,
     er_mocked = mocked, er_to = Some to, er_subject = Some sub, er_template = Some template,
     er_messageId = messageId, er_failover = failover\<rparr>"

definition blocked_result :: EmailResult where
  "blocked_result = \<lparr>er_success = False, er_blocked = True, er_reason = Some ''hard_bounce'', er_mocked = False,
     er_to = None, er_subject = None, er_template = None, er_messageId = None, er_failover = False\<rparr>"

text \<open>The second provider is a stub: after a failure of SendGrid the mail counts as sent.\<close>

definition sendEmail :: "mailEnv \<Rightarrow> string \<Rightarrow> string \<Rightarrow> entries \<Rightarrow> string option \<Rightarrow> (mailer, EmailResult) prog" where
  "sendEmail env to templateName vars sub s =
     (if toLowerCase to \<in> mr_bounced s then (Inr blocked_result, s)
      else let html = compileTemplate env templateName vars;
               emailSubject = or_else sub (getDefaultSubject templateName vars) in
        if \<not> truthy (me_apiKey env)
        then (Inr (email_result to emailSubject templateName (Some (''mock-'' @ me_uuid env)) True False), s)
        else let msg = \<lparr>ml_to = to, ml_from = or_else (me_fromEmail env) ''noreply@zayjar.com'', ml_subject = emailSubject, ml_html = html\<rparr>;
                 s' = s\<lparr>mr_sent := mr_sent s @ [msg]\<rparr> in
          case me_sendgrid env msg of
            Inr messageId \<Rightarrow> (Inr (email_result to emailSubject templateName messageId False False), s')
          | Inl err \<Rightarrow> (Inr (email_result to emailSubject templateName (Some (''failover-'' @ me_uuid env)) False True), s'))"

record deliveryEvent =
  de_event :: "string option"
  de_type :: "string option"
  de_email :: "string option"

definition handleDeliveryEvent :: "deliveryEvent \<Rightarrow> (mailer, string option) prog" where
  "handleDeliveryEvent event s =
     (case de_email event of
        None \<Rightarrow> (Inr None, s)
      | Some address \<Rightarrow>
          let email = toLowerCase address in
          if email = [] then (Inr None, s)
          else let s1 = (if de_event event = Some ''bounce'' \<and> de_type event = Some ''hard'' then s\<lparr>mr_bounced := insert email (mr_bounced s)\<rparr> else s);
                   s2 = (if de_event event = Some ''spamreport'' then s1\<lparr>mr_bounced := insert email (mr_bounced s1)\<rparr> else s1) in
               (Inr (Some email), s2))"

definition isEmailBlocked :: "string \<Rightarrow> mailer \<Rightarrow> bool" where
  "isEmailBlocked email s \<longleftrightarrow> toLowerCase email \<in> mr_bounced s"

definition sendWelcomeEmail :: "mailEnv \<Rightarrow> string \<Rightarrow> entries \<Rightarrow> (mailer, EmailResult) prog" where
  "sendWelcomeEmail env to vars = sendEmail env to ''welcome'' vars None"

definition sendInvoiceEmail :: "mailEnv \<Rightarrow> string \<Rightarrow> entries \<Rightarrow> (mailer, EmailResult) prog" where
  "sendInvoiceEmail env to vars = sendEmail env to ''invoice'' vars None"

definition sendPasswordResetEmail :: "mailEnv \<Rightarrow> string \<Rightarrow> entries \<Rightarrow> (mailer, EmailResult) prog" where
  "sendPasswordResetEmail env to vars = sendEmail env to ''password-reset'' vars None"

section \<open>What a template becomes\<close>

text \<open>A template as text and variables, how it is written and what it should become.\<close>

datatype segment = Lit string | Hole string

fun written :: "segment \<Rightarrow> string" where
  "written (Lit s) = s"
| "written (Hole k) = ''{{'' @ k @ ''}}''"

fun rendered :: "entries \<Rightarrow> segment \<Rightarrow> string" where
  "rendered vars (Lit s) = s"
| "rendered vars (Hole k) = string_or_empty (field k vars)"

definition braceless :: "string \<Rightarrow> bool" where
  "braceless s \<longleftrightarrow> CHR ''{'' \<notin> set s \<and> CHR ''}'' \<notin> set s"

fun tidy :: "segment \<Rightarrow> bool" where
  "tidy (Lit s) = braceless s"
| "tidy (Hole k) = (k \<noteq> [] \<and> braceless k)"

lemma expand_no_dollar: "CHR ''$'' \<notin> set cs \<Longrightarrow> expand_dollar before match after cs = cs"
  by (induction before match after cs rule: expand_dollar.induct) auto

lemma replace_all_Nil [simp]: "replace_all pat rep before [] = []"
  by (subst replace_all.simps) auto

lemma replace_all_other: "\<not> prefix pat (c # cs) \<Longrightarrow> replace_all pat rep before (c # cs) = c # replace_all pat rep (before @ [c]) cs"
  by (subst replace_all.simps) auto

lemma replace_all_match:
  "pat \<noteq> [] \<Longrightarrow> CHR ''$'' \<notin> set rep \<Longrightarrow> replace_all pat rep before (pat @ cs) = rep @ replace_all pat rep (before @ pat) cs"
  by (subst replace_all.simps) (simp add: expand_no_dollar)

lemma replace_all_braceless:
  "CHR ''{'' \<notin> set xs \<Longrightarrow> \<exists>b. replace_all (''{{'' @ k @ ''}}'') rep before (xs @ cs) = xs @ replace_all (''{{'' @ k @ ''}}'') rep b cs"
proof (induction xs arbitrary: before)
  case (Cons x xs)
  then have "\<not> prefix (''{{'' @ k @ ''}}'') (x # xs @ cs)" by auto
  then show ?case using Cons.IH[of "before @ [x]"] Cons.prems by (simp add: replace_all_other)
qed auto

lemma key_prefix: "braceless k \<Longrightarrow> braceless k' \<Longrightarrow> prefix (k @ CHR ''}'' # xs) (k' @ CHR ''}'' # ys) \<Longrightarrow> k = k'"
proof (induction k arbitrary: k')
  case Nil
  then show ?case by (cases k') (auto simp: braceless_def)
next
  case (Cons a k)
  then show ?case by (cases k') (auto simp: braceless_def)
qed

lemma replace_all_hole:
  assumes "k' \<noteq> k" "k' \<noteq> []" "braceless k" "braceless k'"
  shows "\<exists>b. replace_all (''{{'' @ k @ ''}}'') rep before (''{{'' @ k' @ ''}}'' @ cs) = ''{{'' @ k' @ ''}}'' @ replace_all (''{{'' @ k @ ''}}'') rep b cs"
proof -
  let ?p = "''{{'' @ k @ ''}}''"
  have no1: "\<not> prefix ?p (''{{'' @ k' @ ''}}'' @ cs)" using key_prefix[of k k' "''}''" "''}'' @ cs"] assms by auto
  have no2: "\<not> prefix ?p (''{'' @ k' @ ''}}'' @ cs)" using assms(2,4) by (cases k') (auto simp: braceless_def)
  have "CHR ''{'' \<notin> set (k' @ ''}}'')" using assms(4) by (simp add: braceless_def)
  then obtain b where b: "replace_all ?p rep (before @ ''{{'') ((k' @ ''}}'') @ cs) = (k' @ ''}}'') @ replace_all ?p rep b cs"
    using replace_all_braceless by blast
  show ?thesis using no1 no2 b by (intro exI[of _ b]) (simp add: replace_all_other)
qed

text \<open>One variable filled in.\<close>

fun fill :: "string \<Rightarrow> string \<Rightarrow> segment \<Rightarrow> segment" where
  "fill k v (Lit s) = Lit s"
| "fill k v (Hole k') = (if k' = k then Lit v else Hole k')"

lemma replace_all_segments:
  assumes "list_all tidy segs" "braceless k" "k \<noteq> []" "CHR ''$'' \<notin> set v"
  shows "replace_all (''{{'' @ k @ ''}}'') v before (concat (map written segs)) = concat (map (written \<circ> fill k v) segs)"
  using assms(1)
proof (induction segs arbitrary: before)
  case (Cons x segs)
  note IH = Cons.IH[OF conjunct2[OF Cons.prems[simplified]]]
  show ?case
  proof (cases x)
    case (Lit s)
    then obtain b where "replace_all (''{{'' @ k @ ''}}'') v before (s @ concat (map written segs)) =
        s @ replace_all (''{{'' @ k @ ''}}'') v b (concat (map written segs))"
      using replace_all_braceless Cons.prems by (fastforce simp: braceless_def)
    then show ?thesis using Lit IH by simp
  next
    case (Hole k')
    show ?thesis
    proof (cases "k' = k")
      case True
      then show ?thesis using Hole IH replace_all_match[of "''{{'' @ k @ ''}}''" v before "concat (map written segs)"] assms(4) by simp
    next
      case False
      then obtain b where "replace_all (''{{'' @ k @ ''}}'') v before (''{{'' @ k' @ ''}}'' @ concat (map written segs)) =
          ''{{'' @ k' @ ''}}'' @ replace_all (''{{'' @ k @ ''}}'') v b (concat (map written segs))"
        using replace_all_hole[of k' k] Cons.prems Hole assms(2) by fastforce
      then show ?thesis using Hole False IH by simp
    qed
  qed
qed simp

lemma drop_placeholders_Nil [simp]: "drop_placeholders [] = []"
  by (subst drop_placeholders.simps) (simp add: placeholder_at_def)

lemma drop_placeholders_braceless: "CHR ''{'' \<notin> set xs \<Longrightarrow> drop_placeholders (xs @ cs) = xs @ drop_placeholders cs"
proof (induction xs)
  case (Cons x xs)
  then have "placeholder_at (x # xs @ cs) = None" by (auto simp: placeholder_at_def Let_def)
  then show ?case using Cons by (subst append_Cons, subst drop_placeholders.simps) simp
qed simp

lemma drop_placeholders_hole:
  assumes "k \<noteq> []" "braceless k"
  shows "drop_placeholders (''{{'' @ k @ ''}}'' @ cs) = drop_placeholders cs"
proof -
  have "takeWhile (\<lambda>c. c \<noteq> CHR ''}'') (k @ ''}}'' @ cs) = k"
    using assms(2) by (subst takeWhile_append2) (auto simp: braceless_def)
  then have "placeholder_at (''{{'' @ k @ ''}}'' @ cs) = Some cs" using assms(1) by (simp add: placeholder_at_def Let_def)
  then show ?thesis by (subst drop_placeholders.simps) simp
qed

lemma drop_placeholders_segments:
  "list_all tidy segs \<Longrightarrow> drop_placeholders (concat (map written segs)) = concat (map (rendered []) segs)"
proof (induction segs)
  case (Cons x segs)
  then show ?case
    using drop_placeholders_hole by (cases x) (auto simp: drop_placeholders_braceless braceless_def field_def string_or_empty_def)
qed simp

lemma fill_tidy: "list_all tidy segs \<Longrightarrow> braceless v \<Longrightarrow> list_all tidy (map (fill k v) segs)"
  by (induction segs) (auto elim!: tidy.elims)

lemma field_Cons: "field k ((k', v) # vars) = (if k = k' then v else field k vars)"
  by (simp add: field_def)

lemma plain_key_braceless: "plain_key k \<Longrightarrow> braceless k \<and> k \<noteq> []"
  by (auto simp: plain_key_def braceless_def word_char_def list_all_iff)

text \<open>The variables may be substituted one after the other when no value reads as a template again.\<close>

definition harmless :: "entries \<Rightarrow> bool" where
  "harmless vars \<longleftrightarrow> (\<forall>(k, v) \<in> set vars. plain_key k \<and> braceless (string_or_empty v) \<and> CHR ''$'' \<notin> set (string_or_empty v))"

lemma substitute_segments:
  "list_all tidy segs \<Longrightarrow> harmless vars \<Longrightarrow>
   \<exists>segs'. substitute env vars (concat (map written segs)) = Inr (concat (map written segs')) \<and> list_all tidy segs' \<and>
     map (rendered []) segs' = map (rendered vars) segs"
proof (induction vars arbitrary: segs)
  case Nil
  then show ?case by auto
next
  case (Cons kv vars)
  obtain key v where kv: "kv = (key, v)" by fastforce
  let ?v = "string_or_empty v"
  let ?segs = "map (fill key ?v) segs"
  have k: "plain_key key" "braceless key" "key \<noteq> []" and v: "braceless ?v" "CHR ''$'' \<notin> set ?v" and vars: "harmless vars"
    using Cons.prems(2) plain_key_braceless by (auto simp: harmless_def kv)
  have step: "replace_all (''{{'' @ key @ ''}}'') ?v [] (concat (map written segs)) = concat (map written ?segs)"
    using replace_all_segments[OF Cons.prems(1) k(2,3) v(2)] by (simp add: comp_def)
  obtain segs' where segs': "substitute env vars (concat (map written ?segs)) = Inr (concat (map written segs'))" "list_all tidy segs'"
      "map (rendered []) segs' = map (rendered vars) ?segs"
    using Cons.IH[OF fill_tidy[OF Cons.prems(1) v(1)] vars] by blast
  have "rendered vars (fill key ?v x) = rendered (kv # vars) x" for x
    by (cases x) (simp_all add: field_Cons kv)
  then have "map (rendered vars) ?segs = map (rendered (kv # vars)) segs" by simp
  moreover have "substitute env (kv # vars) (concat (map written segs)) = Inr (concat (map written segs'))"
    using segs'(1) k(1) step by (simp add: kv)
  ultimately show ?case using segs'(2,3) by metis
qed

lemma compileTemplate_rendered:
  assumes "list_all tidy segs" "harmless vars"
    and "(case me_template env templateName of None \<Rightarrow> Inr (getEmbeddedTemplate templateName) | Some r \<Rightarrow> r) = Inr (concat (map written segs))"
  shows "compileTemplate env templateName vars = concat (map (rendered vars) segs)"
  using substitute_segments[OF assms(1,2), of env] assms(3) drop_placeholders_segments
  by (auto simp: compileTemplate_def)

section \<open>Bounced addresses\<close>

text \<open>The calls of the service, each with its environment.\<close>

datatype mailCall =
    SendEmail mailEnv string string entries "string option"
  | DeliveryEvent deliveryEvent

fun mailStep :: "mailer \<Rightarrow> mailCall \<Rightarrow> mailer" where
  "mailStep s (SendEmail env to templateName vars sub) = snd (sendEmail env to templateName vars sub s)"
| "mailStep s (DeliveryEvent event) = snd (handleDeliveryEvent event s)"

text \<open>An event that puts an address on the blocklist.\<close>

definition blocks :: "deliveryEvent \<Rightarrow> string \<Rightarrow> bool" where
  "blocks event email \<longleftrightarrow> de_email event = Some email \<and> email \<noteq> [] \<and>
     (de_event event = Some ''bounce'' \<and> de_type event = Some ''hard'' \<or> de_event event = Some ''spamreport'')"

lemma mailStep_bounced: "mr_bounced s \<subseteq> mr_bounced (mailStep s call)"
  by (cases call) (auto simp: sendEmail_def handleDeliveryEvent_def Let_def split: option.splits sum.splits)

lemma mailSteps_bounced: "mr_bounced s \<subseteq> mr_bounced (foldl mailStep s calls)"
  by (induction calls arbitrary: s) (auto dest: subsetD[OF mailStep_bounced])

lemma blocks_bounced: "blocks event email \<Longrightarrow> toLowerCase email \<in> mr_bounced (mailStep s (DeliveryEvent event))"
  by (auto simp: blocks_def handleDeliveryEvent_def Let_def toLowerCase_def)

text \<open>What is sent in one call: nothing, or one mail to the address asked for, which is not blocked.\<close>

lemma email_result_success [simp]: "er_success (email_result to sub template messageId mocked failover)"
  by (simp add: email_result_def)

lemma sendEmail_sent:
  "sendEmail env to templateName vars sub s = (r, s') \<Longrightarrow>
   (\<exists>res. r = Inr res \<and> (er_success res \<longleftrightarrow> toLowerCase to \<notin> mr_bounced s)) \<and> mr_bounced s' = mr_bounced s \<and>
   (mr_sent s' = mr_sent s \<or> toLowerCase to \<notin> mr_bounced s \<and> (\<exists>m. ml_to m = to \<and> ml_html m = compileTemplate env templateName vars \<and>
      mr_sent s' = mr_sent s @ [m]))"
proof (cases "toLowerCase to \<in> mr_bounced s")
  case True
  assume "sendEmail env to templateName vars sub s = (r, s')"
  then have "r = Inr blocked_result" "s' = s" using True by (simp_all add: sendEmail_def)
  then show ?thesis using True by (simp add: blocked_result_def)
next
  case False
  let ?msg = "\<lparr>ml_to = to, ml_from = or_else (me_fromEmail env) ''noreply@zayjar.com'', ml_subject = or_else sub (getDefaultSubject templateName vars),
      ml_html = compileTemplate env templateName vars\<rparr>"
  assume run: "sendEmail env to templateName vars sub s = (r, s')"
  have "(\<exists>res. r = Inr res \<and> er_success res) \<and> (s' = s \<or> s' = s\<lparr>mr_sent := mr_sent s @ [?msg]\<rparr>)"
  proof (cases "truthy (me_apiKey env)")
    case True
    then show ?thesis using run False
      by (cases "me_sendgrid env ?msg") (auto simp: sendEmail_def Let_def)
  next
    case mock: False
    then have "r = Inr (email_result to (or_else sub (getDefaultSubject templateName vars)) templateName (Some (''mock-'' @ me_uuid env)) True False)"
        "s' = s" using run False by (simp_all add: sendEmail_def Let_def)
    then show ?thesis using email_result_success by blast
  qed
  then obtain res where "r = Inr res" "er_success res" "s' = s \<or> s' = s\<lparr>mr_sent := mr_sent s @ [?msg]\<rparr>" by blast
  then show ?thesis using False by (elim disjE) simp_all
qed

lemma mailSteps_sent:
  "\<exists>ms. mr_sent (foldl mailStep s calls) = mr_sent s @ ms \<and> (\<forall>m \<in> set ms. toLowerCase (ml_to m) \<notin> mr_bounced s)"
proof (induction calls arbitrary: s)
  case (Cons call calls)
  obtain ms where ms: "mr_sent (foldl mailStep (mailStep s call) calls) = mr_sent (mailStep s call) @ ms"
      "\<forall>m \<in> set ms. toLowerCase (ml_to m) \<notin> mr_bounced (mailStep s call)" using Cons.IH by blast
  have more: "\<forall>m \<in> set ms. toLowerCase (ml_to m) \<notin> mr_bounced s" using ms(2) mailStep_bounced[of s call] by blast
  show ?case
  proof (cases call)
    case (SendEmail env to templateName vars sub)
    obtain r s' where run: "sendEmail env to templateName vars sub s = (r, s')" by (meson surj_pair)
    show ?thesis using sendEmail_sent[OF run] ms(1) more SendEmail run by auto
  next
    case (DeliveryEvent event)
    have "mr_sent (mailStep s call) = mr_sent s"
      by (auto simp: DeliveryEvent handleDeliveryEvent_def Let_def split: option.splits)
    then show ?thesis using ms(1) more by auto
  qed
qed simp

end
