(* ===== verification/Device_Token_Service.thy ===== *)
theory Device_Token_Service
  imports Email_Service Live_Keys
begin

text \<open>
  \<^verbatim>\<open>device-token/device-token.service.ts\<close> and \<^verbatim>\<open>fcm/fcm.service.ts\<close>: the registration tokens of the devices
  of a tenant, and pushes to the devices of a user. Firebase and the files of its credentials are the
  environment.
\<close>

section \<open>Firebase\<close>

record sendResponse =
  sd_success :: bool
  sd_code :: "string option"

record BatchResponse =
  bt_responses :: "sendResponse list"
  bt_successCount :: nat
  bt_failureCount :: nat

record multicast =
  mu_tokens :: "string list"
  mu_title :: string
  mu_body :: string
  mu_data :: "(string \<times> string) list option"

text \<open>\<open>fe_initialize\<close> parses the credential and starts the client.\<close>

record fcmEnv =
  fe_serviceAccount :: "string option"
  fe_serviceAccountPath :: "string option"
  fe_readFile :: "string \<Rightarrow> exn + string"
  fe_initialize :: "string \<Rightarrow> exn + unit"
  fe_multicast :: "multicast \<Rightarrow> exn + BatchResponse"

record fcmState =
  fc_app :: bool
  fc_initAttempted :: bool
  fc_sent :: "multicast list"

record FcmSendResult =
  fr_successCount :: nat
  fr_failureCount :: nat
  fr_unregisteredTokens :: "string list"

definition ensureInitialized :: "fcmEnv \<Rightarrow> fcmState \<Rightarrow> fcmState" where
  "ensureInitialized env s =
     (if fc_app s \<or> fc_initAttempted s then s
      else let s' = s\<lparr>fc_initAttempted := True\<rparr>;
               credential = (if truthy (fe_serviceAccount env) then Some (Inr (the (fe_serviceAccount env)))
                             else if truthy (fe_serviceAccountPath env) then Some (fe_readFile env (the (fe_serviceAccountPath env)))
                             else None) in
        case credential of
          None \<Rightarrow> s'
        | Some (Inl err) \<Rightarrow> s'
        | Some (Inr json) \<Rightarrow> (case fe_initialize env json of Inl err \<Rightarrow> s' | Inr _ \<Rightarrow> s'\<lparr>fc_app := True\<rparr>))"

definition isAvailable :: "fcmEnv \<Rightarrow> fcmState \<Rightarrow> bool \<times> fcmState" where
  "isAvailable env s = (let s' = ensureInitialized env s in (fc_app s', s'))"

definition not_registered :: string where
  "not_registered = ''messaging/registration-token-not-registered''"

text \<open>The tokens whose response says so; a response beyond the tokens has none.\<close>

definition unregisteredTokens :: "string list \<Rightarrow> sendResponse list \<Rightarrow> string list" where
  "unregisteredTokens tokens responses =
     map snd (filter (\<lambda>(response, token). \<not> sd_success response \<and> sd_code response = Some not_registered) (zip responses tokens))"

definition sendPush :: "fcmEnv \<Rightarrow> string list \<Rightarrow> string \<Rightarrow> string \<Rightarrow> entries option \<Rightarrow> (fcmState, FcmSendResult) prog" where
  "sendPush env tokens title body data s =
     (let s1 = ensureInitialized env s in
      if \<not> fc_app s1 \<or> tokens = []
      then (Inr \<lparr>fr_successCount = 0, fr_failureCount = length tokens, fr_unregisteredTokens = []\<rparr>, s1)
      else let msg = \<lparr>mu_tokens = tokens, mu_title = title, mu_body = body,
                      mu_data = map_option (map (\<lambda>(k, v). (k, js_String v))) data\<rparr>;
               s2 = s1\<lparr>fc_sent := fc_sent s1 @ [msg]\<rparr> in
        case fe_multicast env msg of
          Inr batch \<Rightarrow> (Inr \<lparr>fr_successCount = bt_successCount batch, fr_failureCount = bt_failureCount batch,
                            fr_unregisteredTokens = unregisteredTokens tokens (bt_responses batch)\<rparr>, s2)
        | Inl err \<Rightarrow> (Inr \<lparr>fr_successCount = 0, fr_failureCount = length tokens, fr_unregisteredTokens = []\<rparr>, s2))"

section \<open>The service\<close>

record CreateDeviceTokenRequestDto =
  dq_token :: string
  dq_deviceType :: string
  dq_userId :: "string option"

record tokenView =
  kv_id :: string
  kv_token :: string
  kv_deviceType :: string
  kv_userId :: string
  kv_createdAt :: "int option"

record 'd pusher =
  pu_db :: 'd
  pu_fcm :: fcmState

definition onPushDb :: "('d, 'a) prog \<Rightarrow> ('d pusher, 'a) prog" where
  "onPushDb m = (\<lambda>s. case m (pu_db s) of (r, d) \<Rightarrow> (r, s\<lparr>pu_db := d\<rparr>))"

definition onFcm :: "(fcmState, 'a) prog \<Rightarrow> ('d pusher, 'a) prog" where
  "onFcm m = (\<lambda>s. case m (pu_fcm s) of (r, f) \<Rightarrow> (r, s\<lparr>pu_fcm := f\<rparr>))"

abbreviation tokenRepo :: "'d prisma \<Rightarrow> ctx \<Rightarrow> ('d, deviceToken) delegate" where
  "tokenRepo P c \<equiv> extended c deviceToken_model (px_deviceToken P)"

definition newDeviceToken :: "int \<Rightarrow> CreateDeviceTokenRequestDto \<Rightarrow> string \<Rightarrow> deviceToken" where
  "newDeviceToken now dto userId = \<lparr>dt_id = [], dt_tenantId = None, dt_userId = userId, dt_token = dq_token dto,
     dt_deviceType = dq_deviceType dto, dt_createdAt = now, dt_updatedAt = now\<rparr>"

definition tokenData :: "int \<Rightarrow> CreateDeviceTokenRequestDto \<Rightarrow> string \<Rightarrow> deviceToken \<Rightarrow> deviceToken" where
  "tokenData now dto userId r = r\<lparr>dt_deviceType := dq_deviceType dto, dt_userId := userId, dt_updatedAt := now\<rparr>"

definition registerToken :: "'d prisma \<Rightarrow> int \<Rightarrow> CreateDeviceTokenRequestDto \<Rightarrow> string \<Rightarrow> string \<Rightarrow> ('d, tokenView) prog" where
  "registerToken P now dto tenantId requesterUserId =
     (let userId = or_else (dq_userId dto) requesterUserId; c = tenant_ctx tenantId in
      andThen (findMany c deviceToken_model (tokenRepo P c) [(''token'', Is (CStr (dq_token dto)))] None None) (\<lambda>found.
      case found of
        existing # _ \<Rightarrow>
          if dt_userId existing = userId
          then andThen (repo_update c deviceToken_model (tokenRepo P c) (dt_id existing) (tokenData now dto userId)) (\<lambda>updated.
               return \<lparr>kv_id = dt_id updated, kv_token = dt_token updated, kv_deviceType = dt_deviceType updated,
                       kv_userId = dt_userId updated, kv_createdAt = None\<rparr>)
          else throw (ConflictException ''Device token already registered for another user under this tenant'')
      | [] \<Rightarrow>
          andThen (repo_create c deviceToken_model (tokenRepo P c) (newDeviceToken now dto userId)) (\<lambda>created.
          return \<lparr>kv_id = dt_id created, kv_token = dt_token created, kv_deviceType = dt_deviceType created,
                  kv_userId = dt_userId created, kv_createdAt = Some (dt_createdAt created)\<rparr>)))"

definition listTokens :: "'d prisma \<Rightarrow> string \<Rightarrow> string option \<Rightarrow> ('d, tokenView list) prog" where
  "listTokens P tenantId userId =
     (let c = tenant_ctx tenantId in
      andThen (findMany c deviceToken_model (tokenRepo P c)
        (if truthy userId then [(''userId'', Is (CStr (the userId)))] else []) None None) (\<lambda>tokens.
      return (map (\<lambda>t. \<lparr>kv_id = dt_id t, kv_token = dt_token t, kv_deviceType = dt_deviceType t, kv_userId = dt_userId t,
        kv_createdAt = Some (dt_createdAt t)\<rparr>) tokens)))"

definition deleteToken :: "'d prisma \<Rightarrow> string \<Rightarrow> string \<Rightarrow> string \<Rightarrow> ('d, string) prog" where
  "deleteToken P i tenantId requesterUserId =
     (let c = tenant_ctx tenantId in
      andThen (findById c deviceToken_model (tokenRepo P c) i) (\<lambda>existing. case existing of
        None \<Rightarrow> throw (NotFoundException (''Device token with ID ['' @ i @ ''] not found''))
      | Some _ \<Rightarrow> andThen (repo_delete c deviceToken_model (tokenRepo P c) i) (\<lambda>_. return i)))"

section \<open>Pushes\<close>

definition newNotification :: "int \<Rightarrow> string \<Rightarrow> string \<Rightarrow> string \<Rightarrow> string \<Rightarrow> notification" where
  "newNotification now userId title body ty = \<lparr>nt_id = [], nt_tenantId = None, nt_recipientType = ''USER'', nt_recipientId = userId,
     nt_title = title, nt_body = body, nt_type = ty, nt_isRead = False, nt_createdAt = now\<rparr>"

definition persistNotification ::
  "'d prisma \<Rightarrow> int \<Rightarrow> string \<Rightarrow> string \<Rightarrow> string \<Rightarrow> string \<Rightarrow> string \<Rightarrow> ('d, unit) prog" where
  "persistNotification P now tenantId userId title body ty =
     (let c = tenant_ctx tenantId in
      try_catch (andThen (repo_create c notification_model (extended c notification_model (px_notification P)) (newNotification now userId title body ty))
        (\<lambda>_. return ())) (\<lambda>_. return ()))"

record pushMessage =
  pm_token :: string
  pm_title :: string
  pm_body :: string
  pm_data :: entries

record pushResult =
  pr_sent :: nat
  pr_payloads :: "pushMessage list option"

text \<open>The deletions run at the same time, each of one row; the order they finish in does not matter here.\<close>

definition pruneToken :: "'d prisma \<Rightarrow> string \<Rightarrow> tokenView list \<Rightarrow> string \<Rightarrow> unit \<Rightarrow> ('d, unit) prog" where
  "pruneToken P tenantId tokens token _ =
     (case List.find (\<lambda>t. kv_token t = token) tokens of
        None \<Rightarrow> return ()
      | Some match \<Rightarrow> let c = tenant_ctx tenantId in
          try_catch (andThen (repo_delete c deviceToken_model (tokenRepo P c) (kv_id match)) (\<lambda>_. return ())) (\<lambda>_. return ()))"

definition pushData :: "entries option \<Rightarrow> string \<Rightarrow> entries" where
  "pushData data tenantId = AList.update ''tenantId'' (JStr tenantId) (case data of None \<Rightarrow> [] | Some d \<Rightarrow> d)"

definition sendPushNotification ::
  "'d prisma \<Rightarrow> fcmEnv option \<Rightarrow> int \<Rightarrow> string \<Rightarrow> string \<Rightarrow> string \<Rightarrow> string \<Rightarrow> entries option \<Rightarrow>
   ('d pusher, pushResult) prog" where
  "sendPushNotification P fcmService now tenantId userId title body data =
     andThen (onPushDb (listTokens P tenantId (Some userId))) (\<lambda>tokens.
     if tokens = [] then return \<lparr>pr_sent = 0, pr_payloads = None\<rparr>
     else let payloads = map (\<lambda>t. \<lparr>pm_token = kv_token t, pm_title = title, pm_body = body, pm_data = pushData data tenantId\<rparr>) tokens in
       andThen (case fcmService of None \<Rightarrow> return False
                | Some env \<Rightarrow> onFcm (\<lambda>f. case isAvailable env f of (b, f') \<Rightarrow> (Inr b, f'))) (\<lambda>available.
       if available
       then andThen (onFcm (sendPush (the fcmService) (map kv_token tokens) title body (Some (pushData data tenantId)))) (\<lambda>res.
            andThen (if fr_unregisteredTokens res \<noteq> []
                     then onPushDb (foldProg (pruneToken P tenantId tokens) (fr_unregisteredTokens res) ()) else return ()) (\<lambda>_.
            andThen (onPushDb (persistNotification P now tenantId userId title body ''push'')) (\<lambda>_.
            return \<lparr>pr_sent = fr_successCount res, pr_payloads = Some payloads\<rparr>)))
       else return \<lparr>pr_sent = length payloads, pr_payloads = Some payloads\<rparr>))"

end
