(* ===== verification/Push_Correct.thy ===== *)
theory Push_Correct
  imports Device_Token_Service "HOL-Library.Multiset"
begin

text \<open>
  What the operations on the tokens of devices do: within a tenant a token stays with one user, and a
  push removes only tokens that Firebase reported as no longer registered.
\<close>

section \<open>Calls\<close>

datatype tokenCall =
    RegisterToken int CreateDeviceTokenRequestDto string
  | ListTokens "string option"
  | DeleteToken string string
  | PushNotification "fcmEnv option" int string string string "entries option"

fun tokenStep ::
  "'d prisma \<Rightarrow> string \<Rightarrow> 'd pusher \<Rightarrow> tokenCall \<Rightarrow> 'd pusher" where
  "tokenStep P t s (RegisterToken now dto u) = snd (onPushDb (registerToken P now dto t u) s)"
| "tokenStep P t s (ListTokens u) = snd (onPushDb (listTokens P t u) s)"
| "tokenStep P t s (DeleteToken i u) = snd (onPushDb (deleteToken P i t u) s)"
| "tokenStep P t s (PushNotification fcm now u title body data) = snd (sendPushNotification P fcm now t u title body data s)"

section \<open>Rows that go\<close>

text \<open>\<open>ys\<close> is \<open>xs\<close> without some rows, all of which are as \<open>bad\<close> says.\<close>

definition without :: "('r \<Rightarrow> bool) \<Rightarrow> 'r list \<Rightarrow> 'r list \<Rightarrow> bool" where
  "without bad xs ys \<longleftrightarrow> mset ys \<subseteq># mset xs \<and> (\<forall>x \<in># mset xs - mset ys. bad x)"

lemma without_refl: "without bad xs xs"
  by (simp add: without_def)

lemma without_trans:
  assumes "without bad xs ys" "without bad ys zs"
  shows "without bad xs zs"
proof -
  have le: "mset zs \<subseteq># mset ys" "mset ys \<subseteq># mset xs" using assms by (simp_all add: without_def)
  then have "mset xs - mset zs = (mset xs - mset ys) + (mset ys - mset zs)"
    by (metis add.commute subset_mset.add_diff_assoc2 subset_mset.diff_add)
  then have "x \<in># mset xs - mset zs \<Longrightarrow> x \<in># mset xs - mset ys \<or> x \<in># mset ys - mset zs" for x by simp
  moreover have "mset zs \<subseteq># mset xs" using le by (rule subset_mset.trans)
  ultimately show ?thesis using assms unfolding without_def by blast
qed

lemma without_one: "bad x \<Longrightarrow> without bad (xs @ x # ys) (xs @ ys)"
  by (simp add: without_def)

lemma without_set: "without bad xs ys \<Longrightarrow> set ys \<subseteq> set xs"
  by (auto simp: without_def dest: mset_subset_eqD)

text \<open>Pruning takes away rows of the user whose tokens are dead.\<close>

definition dead_row :: "string \<Rightarrow> string \<Rightarrow> string set \<Rightarrow> deviceToken \<Rightarrow> bool" where
  "dead_row t u dead r \<longleftrightarrow> dt_tenantId r = Some t \<and> dt_userId r = u \<and> dt_token r \<in> dead"

text \<open>What Firebase reports of a push: the response at the place of a token says that it is not registered.\<close>

definition fcm_dead :: "fcmEnv \<Rightarrow> multicast \<Rightarrow> string set" where
  "fcm_dead env msg = {token. \<exists>batch i. fe_multicast env msg = Inr batch \<and> i < length (mu_tokens msg) \<and> i < length (bt_responses batch) \<and>
     mu_tokens msg ! i = token \<and> \<not> sd_success (bt_responses batch ! i) \<and>
     sd_code (bt_responses batch ! i) = Some ''messaging/registration-token-not-registered''}"

definition fcm_count :: "fcmEnv \<Rightarrow> multicast \<Rightarrow> nat" where
  "fcm_count env msg = (case fe_multicast env msg of Inl e \<Rightarrow> 0 | Inr batch \<Rightarrow> bt_successCount batch)"

section \<open>The operations\<close>

lemma tokenData_fields [simp]:
  "dt_id (tokenData now dto u r) = dt_id r" "dt_tenantId (tokenData now dto u r) = dt_tenantId r"
  "dt_token (tokenData now dto u r) = dt_token r"
  by (simp_all add: tokenData_def)

lemma deviceToken_deletedAt [simp]: "md_deletedAt deviceToken_model r = None"
  by (simp add: deviceToken_model_def)

lemma keeps_onPushDb: "keeps I m \<Longrightarrow> keeps (\<lambda>s. I (pu_db s)) (onPushDb m)"
  by (rule keepsI) (auto simp: onPushDb_def split: prod.splits dest: keepsD)

lemma keeps_onFcm: "keeps (\<lambda>s. I (pu_db s)) (onFcm m)"
  by (rule keepsI) (auto simp: onFcm_def split: prod.splits)

lemma keeps_foldProg: "(\<And>x acc. keeps I (f x acc)) \<Longrightarrow> keeps I (foldProg f xs acc)"
  by (induction xs arbitrary: acc) (auto intro: keeps_intros)

lemma keeps_try_catch: "keeps I m \<Longrightarrow> (\<And>e. keeps I (h e)) \<Longrightarrow> keeps I (try_catch m h)"
  by (rule keepsI) (auto simp: try_catch_def split: prod.splits sum.splits dest: keepsD)

lemma notifications_only: "X'\<lparr>t_notifications := []\<rparr> = X\<lparr>t_notifications := []\<rparr> \<Longrightarrow> X' = X\<lparr>t_notifications := t_notifications X'\<rparr>"
  by (drule arg_cong[where f = "t_notifications_update (\<lambda>_. t_notifications X')"]) simp

context prisma_client begin

abbreviation tokened :: "string \<Rightarrow> 'd \<Rightarrow> bool" where
  "tokened t d \<equiv> distinct (map dt_id (t_deviceTokens (T d))) \<and> unique_live deviceToken_model dt_token t (t_deviceTokens (T d))"

lemma token_reads:
  assumes "t \<noteq> []"
  shows "preserves f (findMany (tenant_ctx t) deviceToken_model (tokenRepo P (tenant_ctx t)) w n k)"
    and "preserves f (findById (tenant_ctx t) deviceToken_model (tokenRepo P (tenant_ctx t)) i)"
  by (rule deviceTokens.repo_reads_preserve[OF assms])+

lemma registerToken_keeps:
  assumes t: "t \<noteq> []"
  shows "keeps (tokened t) (registerToken P now dto t u)"
  unfolding registerToken_def Let_def
proof (rule keeps_read_then[OF token_reads(1)[OF t]], goal_cases)
  case (1 found s r s')
  let ?user = "or_else (dq_userId dto) u"
  show ?case
  proof (cases found)
    case Nil
    have free: "dq_token dto \<notin> dt_token ` set (live_of deviceToken_model t (t_deviceTokens (T s)))"
      by (rule pushToken.lookup_run(3)[OF t 1(1) Nil])
    obtain y where "repo_create (tenant_ctx t) deviceToken_model (tokenRepo P (tenant_ctx t)) (newDeviceToken now dto ?user) s = (y, s')"
      using 1(3) Nil by (auto simp: andThen_def return_def split: prod.splits sum.splits)
    from pushToken.create_keeps[OF t _ _ this] show ?thesis using 1(2) free by (simp add: newDeviceToken_def)
  next
    case (Cons e es)
    show ?thesis
    proof (cases "dt_userId e = ?user")
      case True
      then obtain y where "repo_update (tenant_ctx t) deviceToken_model (tokenRepo P (tenant_ctx t)) (dt_id e) (tokenData now dto ?user) s = (y, s')"
        using 1(3) Cons by (auto simp: andThen_def return_def split: prod.splits sum.splits)
      from pushToken.update_keeps[OF t _ _ _ _ _ this] show ?thesis using 1(2) by simp
    next
      case False
      then show ?thesis using 1(2,3) Cons by (simp add: throw_def)
    qed
  qed
qed

lemma deleteToken_keeps:
  assumes t: "t \<noteq> []"
  shows "keeps (tokened t) (repo_delete (tenant_ctx t) deviceToken_model (tokenRepo P (tenant_ctx t)) i)"
    and "keeps (tokened t) (deleteToken P i t u)"
proof -
  show del: "keeps (tokened t) (repo_delete (tenant_ctx t) deviceToken_model (tokenRepo P (tenant_ctx t)) i)" for i
  proof (rule keepsI)
    fix s r s' assume I: "tokened t s" and run: "repo_delete (tenant_ctx t) deviceToken_model (tokenRepo P (tenant_ctx t)) i s = (r, s')"
    show "tokened t s'" using pushToken.delete_keeps[OF t _ run] I by simp
  qed
  show "keeps (tokened t) (deleteToken P i t u)" unfolding deleteToken_def Let_def
    by (intro keeps_intros del keeps_reads[OF token_reads(2)[OF t]])
qed

lemma listTokens_preserves: "t \<noteq> [] \<Longrightarrow> preserves f (listTokens P t u)"
  unfolding listTokens_def Let_def by (intro preserves_intros token_reads(1))

text \<open>The row in the table of notifications, which is not subject to the extension.\<close>

lemma persistNotification_run:
  assumes t: "t \<noteq> []" and run: "persistNotification P now t u title body ty d = (r, d')"
  shows "r = Inr () \<and> (\<exists>new. T d' = (T d)\<lparr>t_notifications := t_notifications (T d) @ new\<rparr> \<and> length new \<le> 1 \<and>
    (\<forall>x \<in> set new. nt_tenantId x = Some t \<and> nt_recipientId x = u \<and> nt_title x = title \<and> nt_body x = body \<and> nt_type x = ty \<and> \<not> nt_isRead x))"
proof -
  let ?row = "newNotification now u title body ty"
  let ?stored = "md_with_tenant notification_model (Some t) ?row"
  note passes = allOperations_def Let_def extended_def w_args_def
  obtain y d1 where create: "dg_create (px_notification P) ?stored d = (y, d1)" by (meson surj_pair)
  have "repo_create (tenant_ctx t) notification_model (extended (tenant_ctx t) notification_model (px_notification P)) ?row = dg_create (px_notification P) ?stored"
    using t by (simp add: repo_create_def passes newNotification_def)
  then have out: "r = Inr ()" "d' = d1" using run create
    by (auto simp: persistNotification_def Let_def try_catch_def andThen_def return_def split: sum.splits)
  show ?thesis
  proof (cases y)
    case (Inl e)
    have "t_notifications (T d1) = t_notifications (T d)" "(T d1)\<lparr>t_notifications := []\<rparr> = (T d)\<lparr>t_notifications := []\<rparr>"
      using prisma_delegate.create_Inl[OF notification_delegate create[unfolded Inl]] by simp_all
    then have "T d1 = (T d)\<lparr>t_notifications := t_notifications (T d) @ []\<rparr>" using notifications_only[of "T d1" "T d"] by simp
    then show ?thesis using out by (intro conjI exI[of _ "[]"]) simp_all
  next
    case (Inr x)
    obtain i where x: "x = md_with_id notification_model i ?stored" "t_notifications (T d1) = t_notifications (T d) @ [x]"
        "(T d1)\<lparr>t_notifications := []\<rparr> = (T d)\<lparr>t_notifications := []\<rparr>"
      using prisma_delegate.create_Inr[OF notification_delegate create[unfolded Inr]] by auto
    have "T d1 = (T d)\<lparr>t_notifications := t_notifications (T d) @ [x]\<rparr>" using notifications_only[OF x(3)] x(2) by simp
    then show ?thesis using out x(1) by (intro conjI exI[of _ "[x]"]) (simp_all add: notification_model_def newNotification_def)
  qed
qed

lemma persistNotification_keeps:
  assumes "t \<noteq> []"
  shows "keeps (tokened t') (persistNotification P now t u title body ty)"
proof (rule keepsI)
  fix d r d' assume "tokened t' d" "persistNotification P now t u title body ty d = (r, d')"
  moreover from persistNotification_run[OF assms this(2)] have "t_deviceTokens (T d') = t_deviceTokens (T d)" by auto
  ultimately show "tokened t' d'" by simp
qed

lemma sendPush_keeps:
  assumes t: "t \<noteq> []"
  shows "keeps (\<lambda>s. tokened t (pu_db s)) (sendPushNotification P fcm now t u title body data)"
proof -
  have prune: "keeps (tokened t) (pruneToken P t tokens token x)" for tokens token x
    unfolding pruneToken_def Let_def by (intro keeps_intros keeps_try_catch deleteToken_keeps(1)[OF t])
  show ?thesis unfolding sendPushNotification_def Let_def
    by (intro keeps_intros keeps_onPushDb keeps_onFcm keeps_foldProg prune persistNotification_keeps[OF t] keeps_reads[OF listTokens_preserves[OF t]])
qed

lemma tokenStep_keeps:
  fixes s :: "'d pusher"
  assumes t: "t \<noteq> []" and I: "tokened t (pu_db s)"
  shows "tokened t (pu_db (tokenStep P t s call))"
proof -
  have run: "keeps (\<lambda>s. tokened t (pu_db s)) m \<Longrightarrow> tokened t (pu_db (snd (m s)))" for m :: "('d pusher, 'b) prog"
    by (rule keepsD[where I = "\<lambda>s. tokened t (pu_db s)"]) (assumption, rule I, rule surjective_pairing)
  show ?thesis
  proof (cases call)
    case (RegisterToken now dto u)
    then show ?thesis using run[OF keeps_onPushDb[OF registerToken_keeps[OF t]]] by simp
  next
    case (ListTokens u)
    then show ?thesis using run[OF keeps_onPushDb[OF keeps_reads[OF listTokens_preserves[OF t]]]] by simp
  next
    case (DeleteToken i u)
    then show ?thesis using run[OF keeps_onPushDb[OF deleteToken_keeps(2)[OF t]]] by simp
  next
    case (PushNotification fcm now u title body data)
    then show ?thesis using run[OF sendPush_keeps[OF t]] by simp
  qed
qed

lemma tokenSteps_keep: "t \<noteq> [] \<Longrightarrow> tokened t (pu_db s) \<Longrightarrow> tokened t (pu_db (foldl (tokenStep P t) s calls))"
  by (induction calls arbitrary: s) (simp_all del: not_ex add: tokenStep_keeps)

lemma listTokens_user:
  assumes t: "t \<noteq> []" and u: "u \<noteq> []" and run: "listTokens P t (Some u) d = (Inr views, d')"
  shows "d' = d" and "v \<in> set views \<Longrightarrow> \<exists>r \<in> set (t_deviceTokens (T d)). dt_tenantId r = Some t \<and> dt_userId r = u \<and>
    dt_id r = kv_id v \<and> dt_token r = kv_token v"
proof -
  let ?w = "AList.update ''tenantId'' (Is (CStr t)) (scopedWhere deviceToken_model [(''userId'', Is (CStr u))] (Some t))"
  obtain rs where find: "dg_findMany (px_deviceToken P) ?w DEFAULT_MAX_ROWS 0 d = (Inr rs, d')"
      and views: "views = map (\<lambda>t. \<lparr>kv_id = dt_id t, kv_token = dt_token t, kv_deviceType = dt_deviceType t, kv_userId = dt_userId t,
        kv_createdAt = Some (dt_createdAt t)\<rparr>) rs"
    using run t u by (auto simp: listTokens_def Let_def findMany_def deviceTokens.ext_findMany andThen_eq_Inr_iff return_eq_iff)
  show "d' = d" using find deviceTokens.findMany_state[of ?w DEFAULT_MAX_ROWS 0 d] by simp
  assume "v \<in> set views"
  then obtain r where r: "r \<in> set rs" "kv_id v = dt_id r" "kv_token v = dt_token r" unfolding views by auto
  have "r \<in> set (t_deviceTokens (T d))" "sat deviceToken_model ?w r" using deviceTokens.findMany_memD[OF find r(1)] by simp_all
  moreover have "?w = [(''userId'', Is (CStr u)), (''tenantId'', Is (CStr t))]" using t by (simp add: scopedWhere_def opt_cell_def Let_def)
  moreover have "md_col deviceToken_model = deviceToken_col" by (simp add: deviceToken_model_def)
  ultimately have "dt_tenantId r = Some t" "dt_userId r = u" "r \<in> set (t_deviceTokens (T d))"
    by (auto simp: sat_def deviceToken_col_def opt_cell_def split: option.splits)
  then show "\<exists>r \<in> set (t_deviceTokens (T d)). dt_tenantId r = Some t \<and> dt_userId r = u \<and> dt_id r = kv_id v \<and> dt_token r = kv_token v"
    using r by metis
qed

lemma pruneToken_rows:
  assumes t: "t \<noteq> []" and ids: "distinct (map dt_id rows)" and views: "\<And>v. v \<in> set views \<Longrightarrow>
      \<exists>r \<in> set rows. dt_tenantId r = Some t \<and> dt_userId r = u \<and> dt_id r = kv_id v \<and> dt_token r = kv_token v"
    and before: "without (dead_row t u dead) rows (t_deviceTokens (T d))" and token: "token \<in> dead"
    and run: "pruneToken P t views token x d = (r, d')"
  shows "r = Inr () \<and> without (dead_row t u dead) rows (t_deviceTokens (T d')) \<and> (T d')\<lparr>t_deviceTokens := []\<rparr> = (T d)\<lparr>t_deviceTokens := []\<rparr>"
proof (cases "List.find (\<lambda>v. kv_token v = token) views")
  case None
  then show ?thesis using run before by (simp add: pruneToken_def return_def)
next
  case (Some v)
  have v: "v \<in> set views" "kv_token v = token" using find_SomeD[OF Some] by simp_all
  obtain y d1 where del: "repo_delete (tenant_ctx t) deviceToken_model (tokenRepo P (tenant_ctx t)) (kv_id v) d = (y, d1)" by (meson surj_pair)
  have out: "r = Inr ()" "d' = d1" using run Some del
    by (auto simp: pruneToken_def Let_def try_catch_def andThen_def return_def split: sum.splits)
  show ?thesis
  proof (cases y)
    case (Inl e)
    then show ?thesis using deviceTokens.delete_failed[OF t del[unfolded Inl]] before out by simp
  next
    case (Inr z)
    obtain xs ys where row: "t_deviceTokens (T d) = xs @ z # ys" "dt_id z = kv_id v" "t_deviceTokens (T d1) = xs @ ys"
        "(T d1)\<lparr>t_deviceTokens := []\<rparr> = (T d)\<lparr>t_deviceTokens := []\<rparr>"
      using deviceTokens.delete_row[OF t del[unfolded Inr]] by auto
    obtain q where q: "q \<in> set rows" "dt_tenantId q = Some t" "dt_userId q = u" "dt_id q = kv_id v" "dt_token q = kv_token v"
      using views[OF v(1)] by blast
    have "z \<in> set rows" using without_set[OF before] row(1) by auto
    then have "z = q" using deviceTokens.unique_row[of rows z q] ids q row(2) by simp
    then have "dead_row t u dead z" using q v token by (simp add: dead_row_def)
    then have "without (dead_row t u dead) rows (xs @ ys)" using without_trans[OF before[unfolded row(1)] without_one] by blast
    then show ?thesis using row out by simp
  qed
qed

lemma pruneTokens_rows:
  assumes t: "t \<noteq> []" and ids: "distinct (map dt_id rows)" and views: "\<And>v. v \<in> set views \<Longrightarrow>
      \<exists>r \<in> set rows. dt_tenantId r = Some t \<and> dt_userId r = u \<and> dt_id r = kv_id v \<and> dt_token r = kv_token v"
    and "without (dead_row t u dead) rows (t_deviceTokens (T d))" and "set tokens \<subseteq> dead"
    and "foldProg (pruneToken P t views) tokens x d = (r, d')"
  shows "r = Inr () \<and> without (dead_row t u dead) rows (t_deviceTokens (T d')) \<and> (T d')\<lparr>t_deviceTokens := []\<rparr> = (T d)\<lparr>t_deviceTokens := []\<rparr>"
  using assms(4-)
proof (induction tokens arbitrary: x d)
  case Nil
  then show ?case by (simp add: return_def)
next
  case (Cons token tokens)
  obtain y d1 where step: "pruneToken P t views token x d = (y, d1)" by (meson surj_pair)
  note one = pruneToken_rows[OF t ids views Cons.prems(1) _ step]
  have y: "y = Inr ()" and d1: "without (dead_row t u dead) rows (t_deviceTokens (T d1))"
      "(T d1)\<lparr>t_deviceTokens := []\<rparr> = (T d)\<lparr>t_deviceTokens := []\<rparr>" using one Cons.prems(2) by auto
  then have "foldProg (pruneToken P t views) tokens () d1 = (r, d')" using Cons.prems(3) step by (simp add: andThen_def)
  then show ?case using Cons.IH[OF d1(1)] Cons.prems(2) d1(2) by auto
qed

text \<open>
  A push: Firebase is asked at most once, with the tokens listed; what it reports decides what is pruned,
  and the notification row is written whatever it reports.
\<close>

lemma unregisteredTokens_dead:
  assumes "fe_multicast env msg = Inr batch"
  shows "set (unregisteredTokens (mu_tokens msg) (bt_responses batch)) = fcm_dead env msg"
proof -
  have "token \<in> set (unregisteredTokens tokens responses) \<longleftrightarrow> (\<exists>i. i < length tokens \<and> i < length responses \<and> tokens ! i = token \<and>
      \<not> sd_success (responses ! i) \<and> sd_code (responses ! i) = Some not_registered)" for token tokens responses
    by (force simp: unregisteredTokens_def set_zip)
  then show ?thesis using assms by (auto simp: fcm_dead_def not_registered_def)
qed

lemma sendPush_run:
  assumes "fc_app f" "tokens \<noteq> []"
    and "msg = \<lparr>mu_tokens = tokens, mu_title = title, mu_body = body, mu_data = map_option (map (\<lambda>(k, v). (k, js_String v))) data\<rparr>"
  shows "\<exists>res. sendPush env tokens title body data f = (Inr res, f\<lparr>fc_sent := fc_sent f @ [msg]\<rparr>) \<and>
    fr_successCount res = fcm_count env msg \<and> set (fr_unregisteredTokens res) = fcm_dead env msg"
proof (cases "fe_multicast env msg")
  case (Inl e)
  then have "fcm_dead env msg = {}" by (simp add: fcm_dead_def)
  then show ?thesis using assms(1,2) Inl by (simp add: sendPush_def ensureInitialized_def Let_def fcm_count_def assms(3))
next
  case (Inr batch)
  then show ?thesis using assms(1,2) unregisteredTokens_dead[OF Inr]
    by (simp add: sendPush_def ensureInitialized_def Let_def fcm_count_def assms(3))
qed

lemma ensureInitialized_sent: "fc_sent (ensureInitialized env f) = fc_sent f"
  by (auto simp: ensureInitialized_def Let_def split: option.splits sum.splits)

lemma push_run:
  assumes t: "t \<noteq> []" and u: "u \<noteq> []" and ids: "distinct (map dt_id (t_deviceTokens (T (pu_db s))))"
    and run: "sendPushNotification P fcm now t u title body data s = (r, s')"
  shows "(\<exists>e. r = Inl e \<and> s' = s) \<or>
    (\<exists>res asked. r = Inr res \<and> fc_sent (pu_fcm s') = fc_sent (pu_fcm s) @ asked \<and> length asked \<le> 1 \<and>
       (\<forall>msg \<in> set asked. \<exists>env. fcm = Some env \<and> pr_sent res = fcm_count env msg \<and> mu_title msg = title \<and> mu_body msg = body \<and>
          (\<forall>token \<in> set (mu_tokens msg). \<exists>row \<in> set (t_deviceTokens (T (pu_db s))). dt_token row = token \<and> dt_tenantId row = Some t \<and> dt_userId row = u) \<and>
          without (dead_row t u (fcm_dead env msg)) (t_deviceTokens (T (pu_db s))) (t_deviceTokens (T (pu_db s'))) \<and>
          (\<exists>new. T (pu_db s') = (T (pu_db s))\<lparr>t_deviceTokens := t_deviceTokens (T (pu_db s')), t_notifications := t_notifications (T (pu_db s)) @ new\<rparr> \<and>
             length new \<le> 1 \<and> (\<forall>x \<in> set new. nt_tenantId x = Some t \<and> nt_recipientId x = u \<and> nt_title x = title \<and> nt_body x = body))) \<and>
       (asked = [] \<longrightarrow> pu_db s' = pu_db s))"
proof -
  obtain y d where list: "listTokens P t (Some u) (pu_db s) = (y, d)" by (meson surj_pair)
  have d: "d = pu_db s" using preservesD[OF listTokens_preserves[OF t, of "\<lambda>d. d"] list] by simp
  show ?thesis
  proof (cases y)
    case (Inl e)
    then have "r = Inl e" "s' = s" using run list d by (simp_all add: sendPushNotification_def andThen_def onPushDb_def)
    then show ?thesis by blast
  next
    case (Inr views)
    note views = listTokens_user(2)[OF t u list[unfolded Inr]]
    show ?thesis
    proof (cases "views = []")
      case True
      then have "r = Inr \<lparr>pr_sent = 0, pr_payloads = None\<rparr>" "s' = s"
        using run list d Inr by (simp_all add: sendPushNotification_def andThen_def onPushDb_def return_def)
      then show ?thesis by (intro disjI2 exI[of _ "sum.projr r"] exI[of _ "[]"]) simp
    next
      case some: False
      let ?payloads = "map (\<lambda>v. \<lparr>pm_token = kv_token v, pm_title = title, pm_body = body, pm_data = pushData data t\<rparr>) views"
      show ?thesis
      proof (cases "\<exists>env. fcm = Some env \<and> fc_app (ensureInitialized env (pu_fcm s))")
        case False
        then have "r = Inr \<lparr>pr_sent = length ?payloads, pr_payloads = Some ?payloads\<rparr> \<and> pu_db s' = pu_db s \<and>
            fc_sent (pu_fcm s') = fc_sent (pu_fcm s)"
          using run list d Inr some
          by (auto simp: sendPushNotification_def Let_def andThen_def onPushDb_def onFcm_def isAvailable_def return_def ensureInitialized_sent split: option.splits)
        then show ?thesis by (intro disjI2 exI[of _ "sum.projr r"] exI[of _ "[]"]) simp
      next
        case True
        then obtain env where env: "fcm = Some env" "fc_app (ensureInitialized env (pu_fcm s))" by blast
        let ?f = "ensureInitialized env (pu_fcm s)" and ?tokens = "map kv_token views"
        let ?msg = "\<lparr>mu_tokens = ?tokens, mu_title = title, mu_body = body, mu_data = map_option (map (\<lambda>(k, v). (k, js_String v))) (Some (pushData data t))\<rparr>"
        obtain res where push: "sendPush env ?tokens title body (Some (pushData data t)) ?f = (Inr res, ?f\<lparr>fc_sent := fc_sent ?f @ [?msg]\<rparr>)"
            and res: "fr_successCount res = fcm_count env ?msg" "set (fr_unregisteredTokens res) = fcm_dead env ?msg"
          using sendPush_run[OF env(2), of ?tokens ?msg title body "Some (pushData data t)"] some by auto
        obtain z d1 where prune: "foldProg (pruneToken P t views) (fr_unregisteredTokens res) () (pu_db s) = (z, d1)" by (meson surj_pair)
        have d1: "z = Inr ()" "without (dead_row t u (fcm_dead env ?msg)) (t_deviceTokens (T (pu_db s))) (t_deviceTokens (T d1))"
            "(T d1)\<lparr>t_deviceTokens := []\<rparr> = (T (pu_db s))\<lparr>t_deviceTokens := []\<rparr>"
          using pruneTokens_rows[OF t ids views without_refl _ prune] res(2) by blast+
        obtain y d2 where inbox: "persistNotification P now t u title body ''push'' d1 = (y, d2)" by (meson surj_pair)
        note row = persistNotification_run[OF t inbox]
        then obtain new where new: "T d2 = (T d1)\<lparr>t_notifications := t_notifications (T d1) @ new\<rparr>" "length new \<le> 1"
            "\<forall>x \<in> set new. nt_tenantId x = Some t \<and> nt_recipientId x = u \<and> nt_title x = title \<and> nt_body x = body" by blast
        have "fr_unregisteredTokens res = [] \<Longrightarrow> d1 = pu_db s" using prune by (simp add: return_def)
        then have out: "r = Inr \<lparr>pr_sent = fr_successCount res, pr_payloads = Some ?payloads\<rparr>" "pu_db s' = d2"
            "fc_sent (pu_fcm s') = fc_sent (pu_fcm s) @ [?msg]"
          using run list d Inr some env push prune d1(1) inbox row
          by (auto simp: sendPushNotification_def Let_def andThen_def onPushDb_def onFcm_def isAvailable_def return_def ensureInitialized_sent
              split: if_splits)
        have rows: "\<forall>token \<in> set ?tokens. \<exists>row \<in> set (t_deviceTokens (T (pu_db s))). dt_token row = token \<and> dt_tenantId row = Some t \<and> dt_userId row = u"
          using views by fastforce
        have "T d1 = (T (pu_db s))\<lparr>t_deviceTokens := t_deviceTokens (T d1)\<rparr>" by (rule deviceTokens_only[OF d1(3)])
        then have tables: "T d2 = (T (pu_db s))\<lparr>t_deviceTokens := t_deviceTokens (T d2), t_notifications := t_notifications (T (pu_db s)) @ new\<rparr>"
            "t_deviceTokens (T d2) = t_deviceTokens (T d1)"
          unfolding new(1) by (metis tables.simps tables.surjective tables.update_convs)+
        show ?thesis using out d1(2) res(1) env(1) rows tables new(2,3)
          by (intro disjI2 exI[of _ "sum.projr r"] exI[of _ "[?msg]"]) auto
      qed
    qed
  qed
qed

end

end
