(* ===== verification/Sms_Service.thy ===== *)
theory Sms_Service
  imports Auth_Service
begin

text \<open>
  \<^verbatim>\<open>notification/sms/sms.service.ts\<close>: text messages with a provider by region and failover. The state is
  what was handed to Twilio. The regional provider and the last one are stubs that send nothing and
  always succeed; the random parts of their message ids are the environment.
\<close>

section \<open>Providers\<close>

record sms =
  sm_to :: string
  sm_from :: string
  sm_body :: string

record smsEnv =
  se_accountSid :: "string option"
  se_authToken :: "string option"
  se_fromNumber :: "string option"
  se_unifonicAppSid :: "string option"
  se_twilio :: "sms \<Rightarrow> exn + string"
  se_random :: string

record smsResult =
  sr_success :: bool
  sr_provider :: string
  sr_messageId :: "string option"
  sr_error :: "string option"

datatype smsProvider = Twilio | Unifonic | MockSms

definition MIDDLE_EAST_COUNTRY_CODES :: "string list" where
  "MIDDLE_EAST_COUNTRY_CODES = [''+966'', ''+973'', ''+965'', ''+968'', ''+974'', ''+971'', ''+962'', ''+961'', ''+963'', ''+964'', ''+20'', ''+90'']"

definition sms_sent :: "string \<Rightarrow> string \<Rightarrow> smsResult" where
  "sms_sent provider messageId = \<lparr>sr_success = True, sr_provider = provider, sr_messageId = Some messageId, sr_error = None\<rparr>"

definition sendViaTwilio :: "smsEnv \<Rightarrow> string \<Rightarrow> string \<Rightarrow> (sms list, smsResult) prog" where
  "sendViaTwilio env to message calls =
     (if \<not> truthy (se_accountSid env) \<or> \<not> truthy (se_authToken env)
      then (Inr (sms_sent ''twilio-mock'' (''twilio-mock-'' @ se_random env)), calls)
      else let msg = \<lparr>sm_to = to, sm_from = or_else (se_fromNumber env) ''+15005550006'', sm_body = message\<rparr> in
        case se_twilio env msg of
          Inr sid \<Rightarrow> (Inr (sms_sent ''twilio'' sid), calls @ [msg])
        | Inl err \<Rightarrow> (Inr \<lparr>sr_success = False, sr_provider = ''twilio'', sr_messageId = None, sr_error = Some (exn_message err)\<rparr>, calls @ [msg]))"

definition sendViaUnifonic :: "smsEnv \<Rightarrow> string \<Rightarrow> string \<Rightarrow> (sms list, smsResult) prog" where
  "sendViaUnifonic env to message =
     (if \<not> truthy (se_unifonicAppSid env) then return (sms_sent ''unifonic-mock'' (''unifonic-mock-'' @ se_random env))
      else return (sms_sent ''unifonic'' (''unifonic-'' @ se_random env)))"

definition sendViaMock :: "smsEnv \<Rightarrow> string \<Rightarrow> string \<Rightarrow> (sms list, smsResult) prog" where
  "sendViaMock env to message = return (sms_sent ''mock-sms'' (''mock-'' @ se_random env))"

fun provider_send :: "smsEnv \<Rightarrow> smsProvider \<Rightarrow> string \<Rightarrow> string \<Rightarrow> (sms list, smsResult) prog" where
  "provider_send env Twilio to message = sendViaTwilio env to message"
| "provider_send env Unifonic to message = sendViaUnifonic env to message"
| "provider_send env MockSms to message = sendViaMock env to message"

definition getOptimalProvider :: "string \<Rightarrow> smsProvider" where
  "getOptimalProvider to = (if list_ex (startsWith to) MIDDLE_EAST_COUNTRY_CODES then Unifonic else Twilio)"

section \<open>Sending\<close>

record SmsResponse =
  sp_success :: bool
  sp_provider :: string
  sp_messageId :: "string option"
  sp_attempts :: nat

text \<open>One provider: its answer when it succeeded, and \<open>None\<close> when it failed or threw.\<close>

definition tryProvider :: "smsEnv \<Rightarrow> smsProvider \<Rightarrow> string \<Rightarrow> string \<Rightarrow> nat \<Rightarrow> (sms list, SmsResponse option) prog" where
  "tryProvider env p to message attempts =
     try_catch (andThen (provider_send env p to message) (\<lambda>result.
       if sr_success result
       then return (Some \<lparr>sp_success = True, sp_provider = sr_provider result, sp_messageId = sr_messageId result, sp_attempts = attempts\<rparr>)
       else return None)) (\<lambda>_. return None)"

definition sendSms :: "smsEnv \<Rightarrow> string \<Rightarrow> string \<Rightarrow> (sms list, SmsResponse) prog" where
  "sendSms env to message =
     (if to = [] \<or> message = [] then throw (JsError ''Recipient phone number and message are required'')
      else if \<not> startsWith to ''+'' then throw (JsError ''Phone number must be in E.164 format (e.g., +12025550144)'')
      else let optimalProvider = getOptimalProvider to in
        andThen (tryProvider env optimalProvider to message 1) (\<lambda>first. case first of
          Some res \<Rightarrow> return res
        | None \<Rightarrow>
            andThen (if optimalProvider = Unifonic then tryProvider env Twilio to message 2 else return None) (\<lambda>second. case second of
              Some res \<Rightarrow> return res
            | None \<Rightarrow>
                let attempts = (if optimalProvider = Unifonic then 3 else 2) in
                andThen (tryProvider env MockSms to message attempts) (\<lambda>third. case third of
                  Some res \<Rightarrow> return res
                | None \<Rightarrow> return \<lparr>sp_success = False, sp_provider = ''none'', sp_messageId = None, sp_attempts = attempts\<rparr>))))"

definition sendOrderStatusSms :: "smsEnv \<Rightarrow> string \<Rightarrow> string \<Rightarrow> string \<Rightarrow> (sms list, SmsResponse) prog" where
  "sendOrderStatusSms env to orderNumber status = sendSms env to (''Zayjar: Order '' @ orderNumber @ '' is now '' @ status @ ''. Thank you!'')"

definition sendOtpSms :: "smsEnv \<Rightarrow> string \<Rightarrow> string \<Rightarrow> (sms list, SmsResponse) prog" where
  "sendOtpSms env to otp = sendSms env to (''Your Zayjar verification code is '' @ otp @ ''. Valid for 5 minutes.'')"

section \<open>What is reported\<close>

lemma tryProvider_mock:
  "tryProvider env MockSms to message n = return (Some \<lparr>sp_success = True, sp_provider = ''mock-sms'', sp_messageId = Some (''mock-'' @ se_random env), sp_attempts = n\<rparr>)"
  by (simp add: tryProvider_def try_catch_def andThen_def sendViaMock_def sms_sent_def return_def)

lemma tryProvider_unifonic:
  "\<exists>provider i. provider \<noteq> ''twilio'' \<and>
     tryProvider env Unifonic to message n = return (Some \<lparr>sp_success = True, sp_provider = provider, sp_messageId = i, sp_attempts = n\<rparr>)"
  by (cases "truthy (se_unifonicAppSid env)") (simp_all add: tryProvider_def try_catch_def andThen_def sendViaUnifonic_def sms_sent_def return_def fun_eq_iff)

lemma tryProvider_twilio:
  "tryProvider env Twilio to message n calls =
     (if \<not> truthy (se_accountSid env) \<or> \<not> truthy (se_authToken env)
      then (Inr (Some \<lparr>sp_success = True, sp_provider = ''twilio-mock'', sp_messageId = Some (''twilio-mock-'' @ se_random env), sp_attempts = n\<rparr>), calls)
      else let msg = \<lparr>sm_to = to, sm_from = or_else (se_fromNumber env) ''+15005550006'', sm_body = message\<rparr> in
        (case se_twilio env msg of
           Inr sid \<Rightarrow> (Inr (Some \<lparr>sp_success = True, sp_provider = ''twilio'', sp_messageId = Some sid, sp_attempts = n\<rparr>), calls @ [msg])
         | Inl err \<Rightarrow> (Inr None, calls @ [msg])))"
  by (auto simp: tryProvider_def try_catch_def andThen_def sendViaTwilio_def sms_sent_def return_def Let_def split: sum.splits)

text \<open>A message is refused, or reported as sent; Twilio was asked at most once, and its failure is not told.\<close>

lemma sendSms_run:
  assumes "sendSms env to message calls = (r, calls')"
  shows "(\<exists>e. r = Inl e \<and> calls' = calls \<and> (message = [] \<or> \<not> startsWith to ''+'')) \<or>
    (\<exists>res asked. r = Inr res \<and> sp_success res \<and> message \<noteq> [] \<and> startsWith to ''+'' \<and> sp_attempts res \<le> 2 \<and> calls' = calls @ asked \<and>
      (asked \<noteq> [] \<longleftrightarrow> getOptimalProvider to = Twilio \<and> truthy (se_accountSid env) \<and> truthy (se_authToken env)) \<and> length asked \<le> 1 \<and>
      (\<forall>m \<in> set asked. sm_to m = to \<and> sm_body m = message \<and>
         (sp_provider res = ''twilio'' \<longleftrightarrow> (\<exists>sid. se_twilio env m = Inr sid))) \<and>
      (asked = [] \<longrightarrow> sp_provider res \<noteq> ''twilio''))"
proof (cases "to = [] \<or> message = [] \<or> \<not> startsWith to ''+''")
  case True
  then show ?thesis using assms by (auto simp: sendSms_def throw_def startsWith_def split: if_splits)
next
  case False
  show ?thesis
  proof (cases "getOptimalProvider to = Twilio")
    case True
    have "sendSms env to message calls = (case tryProvider env Twilio to message 1 calls of
        (Inr (Some res), calls') \<Rightarrow> (Inr res, calls')
      | (Inr None, calls') \<Rightarrow> (Inr \<lparr>sp_success = True, sp_provider = ''mock-sms'', sp_messageId = Some (''mock-'' @ se_random env), sp_attempts = 2\<rparr>, calls')
      | (Inl e, calls') \<Rightarrow> (Inl e, calls'))"
      using False True by (simp add: sendSms_def Let_def andThen_def tryProvider_mock return_def split: prod.splits sum.splits option.splits)
    note step = this[unfolded assms tryProvider_twilio Let_def]
    let ?msg = "\<lparr>sm_to = to, sm_from = or_else (se_fromNumber env) ''+15005550006'', sm_body = message\<rparr>"
    show ?thesis
    proof (cases "truthy (se_accountSid env) \<and> truthy (se_authToken env)")
      case on: True
      show ?thesis
      proof (cases "se_twilio env ?msg")
        case (Inl err)
        then show ?thesis using step on False True by (intro disjI2 exI[of _ "sum.projr r"] exI[of _ "[?msg]"]) simp
      next
        case (Inr sid)
        then show ?thesis using step on False True by (intro disjI2 exI[of _ "sum.projr r"] exI[of _ "[?msg]"]) simp
      qed
    next
      case off: False
      then have "\<not> truthy (se_accountSid env) \<or> \<not> truthy (se_authToken env)" by blast
      then show ?thesis using step False True by (intro disjI2 exI[of _ "sum.projr r"] exI[of _ "[]"]) simp
    qed
  next
    case other: False
    then have "getOptimalProvider to = Unifonic" by (auto simp: getOptimalProvider_def split: if_splits)
    moreover obtain provider i where "provider \<noteq> ''twilio''"
        "tryProvider env Unifonic to message 1 = return (Some \<lparr>sp_success = True, sp_provider = provider, sp_messageId = i, sp_attempts = 1\<rparr>)"
      using tryProvider_unifonic[of env to message 1] by (elim exE conjE) (rule that)
    ultimately have "r = Inr \<lparr>sp_success = True, sp_provider = provider, sp_messageId = i, sp_attempts = 1\<rparr>" "calls' = calls"
      using False assms by (simp_all add: sendSms_def Let_def andThen_def return_def)
    then show ?thesis using False other \<open>provider \<noteq> ''twilio''\<close> by (intro disjI2 exI[of _ "sum.projr r"] exI[of _ "[]"]) simp
  qed
qed

end
