(* ===== verification/Dispatch_Service.thy ===== *)
theory Dispatch_Service
  imports Push_Correct Sms_Service Webhook_Service Billing_Service Kds_Broadcast
begin

text \<open>
  \<^verbatim>\<open>notification/dispatch/dispatch.service.ts\<close>: one event to one channel, through a queue. Without Redis the
  queue is in memory: \<open>processInMemoryQueue\<close> is the loop over it, and \<open>dispatch_step\<close> its turns with the
  calls that come in between, as the event loop interleaves them at the \<^verbatim>\<open>await\<close> of a channel. With Redis the jobs
  are handed to BullMQ, a library. A field of a payload that is used as text is converted when it is not a string.
\<close>

section \<open>Jobs\<close>

datatype NotificationChannel = Email | Sms | Push | Webhook | Websocket

datatype NotificationPriority = Low | Normal | High

record DispatchJob =
  dj_id :: string
  dj_tenantId :: string
  dj_channel :: NotificationChannel
  dj_event :: string
  dj_payload :: entries
  dj_priority :: NotificationPriority
  dj_attempts :: nat
  dj_maxAttempts :: nat
  dj_createdAt :: int

text \<open>A job of BullMQ: its name, data and options.\<close>

record bullJob =
  bj_name :: string
  bj_tenantId :: string
  bj_channel :: NotificationChannel
  bj_payload :: entries
  bj_priority :: int
  bj_attempts :: nat
  bj_backoffDelay :: int

fun mapPriorityToNumber :: "NotificationPriority \<Rightarrow> int" where
  "mapPriorityToNumber High = 1"
| "mapPriorityToNumber Low = 10"
| "mapPriorityToNumber Normal = 5"

definition RETRY_attempts :: nat where "RETRY_attempts = 3"

definition RETRY_delay :: int where "RETRY_delay = 1000"

section \<open>The services behind the channels\<close>

record 'd notifier =
  nf_world :: "'d world"
  nf_net :: "netEvent list"
  nf_fcm :: fcmState
  nf_mail :: mailer
  nf_sms :: "sms list"

record channelEnv =
  ce_env :: env
  ce_gateway :: gateway
  ce_mail :: mailEnv
  ce_sms :: smsEnv
  ce_fcm :: "fcmEnv option"
  ce_fetch :: network
  ce_hmac :: "string \<Rightarrow> string \<Rightarrow> string"

definition onMail :: "(mailer, 'a) prog \<Rightarrow> ('d notifier, 'a) prog" where
  "onMail m = (\<lambda>s. case m (nf_mail s) of (r, x) \<Rightarrow> (r, s\<lparr>nf_mail := x\<rparr>))"

definition onSms :: "(sms list, 'a) prog \<Rightarrow> ('d notifier, 'a) prog" where
  "onSms m = (\<lambda>s. case m (nf_sms s) of (r, x) \<Rightarrow> (r, s\<lparr>nf_sms := x\<rparr>))"

definition onPush :: "('d pusher, 'a) prog \<Rightarrow> ('d notifier, 'a) prog" where
  "onPush m = (\<lambda>s. case m \<lparr>pu_db = w_db (nf_world s), pu_fcm = nf_fcm s\<rparr> of
     (r, x) \<Rightarrow> (r, s\<lparr>nf_world := (nf_world s)\<lparr>w_db := pu_db x\<rparr>, nf_fcm := pu_fcm x\<rparr>))"

definition onCourier :: "('d courier, 'a) prog \<Rightarrow> ('d notifier, 'a) prog" where
  "onCourier m = (\<lambda>s. case m \<lparr>co_db = w_db (nf_world s), co_log = nf_net s\<rparr> of
     (r, x) \<Rightarrow> (r, s\<lparr>nf_world := (nf_world s)\<lparr>w_db := co_db x\<rparr>, nf_net := co_log x\<rparr>))"

definition onWorld :: "('d world, 'a) prog \<Rightarrow> ('d notifier, 'a) prog" where
  "onWorld m = (\<lambda>s. case m (nf_world s) of (r, x) \<Rightarrow> (r, s\<lparr>nf_world := x\<rparr>))"

section \<open>Channels\<close>

record channelResult =
  ch_success :: bool
  ch_provider :: "string option"

text \<open>\<^verbatim>\<open>s.includes(p)\<close>, and \<^verbatim>\<open>a || b\<close> of two values.\<close>

fun js_includes :: "string \<Rightarrow> string \<Rightarrow> bool" where
  "js_includes p [] \<longleftrightarrow> p = []"
| "js_includes p (c # cs) \<longleftrightarrow> prefix p (c # cs) \<or> js_includes p cs"

definition js_or :: "json \<Rightarrow> json \<Rightarrow> json" where
  "js_or a b = (if json_truthy a then a else b)"

definition not_a_string :: exn where
  "not_a_string = JsError ''is not a function''"

definition emailTemplate :: "string \<Rightarrow> string" where
  "emailTemplate event = (if js_includes ''invoice'' event then ''invoice'' else if js_includes ''order'' event then ''order-status'' else ''welcome'')"

definition emailAddress :: "entries \<Rightarrow> json" where
  "emailAddress payload = js_or (field ''email'' payload) (js_or (field ''customerEmail'' payload) (JStr ''customer@example.com''))"

definition phoneNumber :: "entries \<Rightarrow> json" where
  "phoneNumber payload = js_or (field ''phone'' payload) (js_or (field ''customerPhone'' payload) (JStr ''+12025550144''))"

definition smsText :: "string \<Rightarrow> entries \<Rightarrow> string" where
  "smsText event payload = text_or (field ''message'' payload) (''Zayjar: Event '' @ event @ '' for order '' @
     text_or (js_or (field ''orderNumber'' payload) (field ''id'' payload)) [])"

definition pushTitle :: "string \<Rightarrow> entries \<Rightarrow> string" where
  "pushTitle event payload = text_or (field ''title'' payload) (''Zayjar: '' @ event)"

definition pushBody :: "string \<Rightarrow> entries \<Rightarrow> string" where
  "pushBody event payload = text_or (js_or (field ''body'' payload) (field ''message'' payload)) (''Event '' @ event @ '' occurred'')"

definition channel_failed :: "channelResult" where
  "channel_failed = \<lparr>ch_success = False, ch_provider = None\<rparr>"

definition processChannel ::
  "'d prisma \<Rightarrow> channelEnv \<Rightarrow> NotificationChannel \<Rightarrow> string \<Rightarrow> entries \<Rightarrow> string \<Rightarrow>
   ('d notifier, channelResult) prog" where
  "processChannel P ce channel event payload tenantId =
     (case channel of
        Email \<Rightarrow>
          try_catch (case emailAddress payload of
              JStr emailTo \<Rightarrow> andThen (onMail (sendEmail (ce_mail ce) emailTo (emailTemplate event) payload None)) (\<lambda>result.
                 return \<lparr>ch_success = er_success result, ch_provider = Some ''sendgrid''\<rparr>)
            | _ \<Rightarrow> throw not_a_string) (\<lambda>_. return channel_failed)
      | Sms \<Rightarrow>
          try_catch (case phoneNumber payload of
              JStr phone \<Rightarrow> andThen (onSms (sendSms (ce_sms ce) phone (smsText event payload))) (\<lambda>result.
                 return \<lparr>ch_success = sp_success result, ch_provider = Some (sp_provider result)\<rparr>)
            | _ \<Rightarrow> throw not_a_string) (\<lambda>_. return channel_failed)
      | Push \<Rightarrow>
          (let userId = js_or (field ''userId'' payload) (field ''customerId'' payload) in
           try_catch (if \<not> json_truthy userId then return \<lparr>ch_success = False, ch_provider = Some ''fcm''\<rparr>
             else case userId of
               JStr user \<Rightarrow> andThen (onPush (sendPushNotification P (ce_fcm ce) (ev_now (ce_env ce)) tenantId user
                    (pushTitle event payload) (pushBody event payload) (Some payload))) (\<lambda>result.
                  return \<lparr>ch_success = 0 < pr_sent result, ch_provider = Some ''fcm''\<rparr>)
             | _ \<Rightarrow> throw not_a_string) (\<lambda>_. return channel_failed))
      | Webhook \<Rightarrow>
          try_catch (andThen (onCourier (dispatchEvent P (ce_fetch ce) (ce_hmac ce) tenantId event (Inr (stringify (JObj payload))))) (\<lambda>results.
            return \<lparr>ch_success = 0 < length (filter dr_success results) \<or> 0 < length results, ch_provider = Some ''webhook''\<rparr>))
            (\<lambda>_. return channel_failed)
      | Websocket \<Rightarrow>
          (let branchId = field ''branchId'' payload in
           try_catch (if \<not> json_truthy branchId then return \<lparr>ch_success = False, ch_provider = Some ''socket.io''\<rparr>
             else andThen (onWorld (broadcastOrderEvent (ce_env ce) (ce_gateway ce) tenantId (js_String branchId) event (RecordPayload payload))) (\<lambda>_.
               return \<lparr>ch_success = True, ch_provider = Some ''socket.io''\<rparr>)) (\<lambda>_. return channel_failed)))"

text \<open>\<^verbatim>\<open>worker.ts\<close> has the channels a second time, for a process of its own, and lets errors through.\<close>

definition worker_processChannel ::
  "'d prisma \<Rightarrow> channelEnv \<Rightarrow> NotificationChannel \<Rightarrow> string \<Rightarrow> entries \<Rightarrow> string \<Rightarrow> ('d notifier, channelResult) prog" where
  "worker_processChannel P ce channel event payload tenantId =
     (case channel of
        Email \<Rightarrow> (case emailAddress payload of
              JStr emailTo \<Rightarrow> andThen (onMail (sendEmail (ce_mail ce) emailTo (emailTemplate event) payload None)) (\<lambda>result.
                 return \<lparr>ch_success = er_success result, ch_provider = Some ''sendgrid''\<rparr>)
            | _ \<Rightarrow> throw not_a_string)
      | Sms \<Rightarrow> (case phoneNumber payload of
              JStr phone \<Rightarrow> andThen (onSms (sendSms (ce_sms ce) phone (smsText event payload))) (\<lambda>result.
                 return \<lparr>ch_success = sp_success result, ch_provider = Some (sp_provider result)\<rparr>)
            | _ \<Rightarrow> throw not_a_string)
      | Push \<Rightarrow>
          (let userId = js_or (field ''userId'' payload) (field ''customerId'' payload) in
           if \<not> json_truthy userId then return \<lparr>ch_success = False, ch_provider = Some ''fcm''\<rparr>
           else case userId of
               JStr user \<Rightarrow> andThen (onPush (sendPushNotification P (ce_fcm ce) (ev_now (ce_env ce)) tenantId user
                    (pushTitle event payload) (pushBody event payload) (Some payload))) (\<lambda>result.
                  return \<lparr>ch_success = 0 < pr_sent result, ch_provider = Some ''fcm''\<rparr>)
             | _ \<Rightarrow> throw not_a_string)
      | Webhook \<Rightarrow>
          andThen (onCourier (dispatchEvent P (ce_fetch ce) (ce_hmac ce) tenantId event (Inr (stringify (JObj payload))))) (\<lambda>results.
            return \<lparr>ch_success = 0 < length (filter dr_success results) \<or> 0 < length results, ch_provider = Some ''webhook''\<rparr>)
      | Websocket \<Rightarrow>
          (let branchId = field ''branchId'' payload in
           if \<not> json_truthy branchId then return \<lparr>ch_success = False, ch_provider = Some ''socket.io''\<rparr>
           else andThen (onWorld (broadcastOrderEvent (ce_env ce) (ce_gateway ce) tenantId (js_String branchId) event (RecordPayload payload))) (\<lambda>_.
               return \<lparr>ch_success = True, ch_provider = Some ''socket.io''\<rparr>)))"

lemma worker_mirrors_dispatch:
  "processChannel P ce channel event payload tenantId =
     try_catch (worker_processChannel P ce channel event payload tenantId) (\<lambda>_. return channel_failed)"
  by (cases channel) (simp_all add: processChannel_def worker_processChannel_def Let_def)

section \<open>The queue\<close>

text \<open>The queue of BullMQ: there when Redis is configured and the connection could be set up.\<close>

definition initializeBullMQ :: "string option \<Rightarrow> exn + (bullJob \<Rightarrow> exn + unit) \<Rightarrow> (bullJob \<Rightarrow> exn + unit) option" where
  "initializeBullMQ redisUrl setup = (if truthy redisUrl then (case setup of Inr queue \<Rightarrow> Some queue | Inl err \<Rightarrow> None) else None)"

text \<open>
  \<open>ds_ready\<close> counts the loops that \<^verbatim>\<open>setImmediate\<close> is to start and \<open>ds_flight\<close> holds the jobs whose channel a loop
  awaits; \<open>ds_timers\<close> the jobs under a timer, with its delay; \<open>ds_done\<close> the jobs whose attempt succeeded, which only
  the log knows.
\<close>

record 'd dispatcher =
  ds_notifier :: "'d notifier"
  ds_queue :: "DispatchJob list"
  ds_deadLetterQueue :: "DispatchJob list"
  ds_timers :: "(int \<times> DispatchJob) list"
  ds_ready :: nat
  ds_flight :: "DispatchJob list"
  ds_done :: "DispatchJob list"
  ds_bull :: "bullJob list"

record DispatchResponse =
  dp_jobId :: string
  dp_channel :: NotificationChannel
  dp_event :: string
  dp_fallback :: "string option"

text \<open>\<open>bullMQQueue\<close> is the queue of BullMQ, when Redis is configured, with the outcome of adding a job.\<close>

definition dispatch ::
  "(bullJob \<Rightarrow> exn + unit) option \<Rightarrow> int \<Rightarrow> string \<Rightarrow> string \<Rightarrow> NotificationChannel \<Rightarrow> string \<Rightarrow> entries \<Rightarrow> NotificationPriority \<Rightarrow>
   ('d dispatcher, DispatchResponse) prog" where
  "dispatch bullMQQueue now jobId tenantId channel event payload priority s =
     (let job = \<lparr>dj_id = jobId, dj_tenantId = tenantId, dj_channel = channel, dj_event = event, dj_payload = payload, dj_priority = priority,
                 dj_attempts = 0, dj_maxAttempts = 3, dj_createdAt = now\<rparr>;
          bj = \<lparr>bj_name = event, bj_tenantId = tenantId, bj_channel = channel, bj_payload = payload,
                bj_priority = mapPriorityToNumber priority, bj_attempts = RETRY_attempts, bj_backoffDelay = RETRY_delay\<rparr>;
          added = (case bullMQQueue of None \<Rightarrow> False | Some add \<Rightarrow> (case add bj of Inr _ \<Rightarrow> True | Inl _ \<Rightarrow> False)) in
      if added then (Inr \<lparr>dp_jobId = jobId, dp_channel = channel, dp_event = event, dp_fallback = None\<rparr>, s\<lparr>ds_bull := ds_bull s @ [bj]\<rparr>)
      else (Inr \<lparr>dp_jobId = jobId, dp_channel = channel, dp_event = event, dp_fallback = Some ''memory''\<rparr>,
            s\<lparr>ds_queue := ds_queue s @ [job], ds_ready := Suc (ds_ready s)\<rparr>))"

text \<open>\<open>jobIds\<close> are the ids the five jobs get.\<close>

definition dispatchToAllChannels ::
  "(bullJob \<Rightarrow> exn + unit) option \<Rightarrow> int \<Rightarrow> (NotificationChannel \<Rightarrow> string) \<Rightarrow> string \<Rightarrow> string \<Rightarrow> entries \<Rightarrow>
   ('d dispatcher, DispatchResponse list) prog" where
  "dispatchToAllChannels bullMQQueue now jobIds tenantId event payload =
     foldProg (\<lambda>channel results. andThen (dispatch bullMQQueue now (jobIds channel) tenantId channel event payload Normal) (\<lambda>result.
       return (results @ [result]))) [Email, Sms, Push, Webhook, Websocket] []"

definition takeNext :: "'d dispatcher \<Rightarrow> 'd dispatcher" where
  "takeNext s = (case ds_queue s of [] \<Rightarrow> s
     | job # js \<Rightarrow> s\<lparr>ds_queue := js, ds_flight := ds_flight s @ [job\<lparr>dj_attempts := Suc (dj_attempts job)\<rparr>]\<rparr>)"

definition settle ::
  "'d prisma \<Rightarrow> channelEnv \<Rightarrow> DispatchJob \<Rightarrow> 'd dispatcher \<Rightarrow> 'd dispatcher" where
  "settle P ce job s =
     (case processChannel P ce (dj_channel job) (dj_event job) (dj_payload job) (dj_tenantId job) (ds_notifier s) of
        (Inr result, n) \<Rightarrow> (let s' = s\<lparr>ds_notifier := n\<rparr> in
          if \<not> ch_success result \<and> dj_attempts job < dj_maxAttempts job
          then s'\<lparr>ds_timers := ds_timers s' @ [(2 ^ dj_attempts job * 1000, job)]\<rparr>
          else if \<not> ch_success result then s'\<lparr>ds_deadLetterQueue := ds_deadLetterQueue s' @ [job]\<rparr>
          else s'\<lparr>ds_done := ds_done s' @ [job]\<rparr>)
      | (Inl err, n) \<Rightarrow> (let s' = s\<lparr>ds_notifier := n\<rparr> in
          if dj_attempts job < dj_maxAttempts job then s'\<lparr>ds_queue := ds_queue s' @ [job]\<rparr>
          else s'\<lparr>ds_deadLetterQueue := ds_deadLetterQueue s' @ [job]\<rparr>))"

definition getQueueLength :: "'d dispatcher \<Rightarrow> nat" where
  "getQueueLength s = length (ds_queue s)"

definition getDeadLetterQueueLength :: "'d dispatcher \<Rightarrow> nat" where
  "getDeadLetterQueueLength s = length (ds_deadLetterQueue s)"

definition clearQueues :: "'d dispatcher \<Rightarrow> 'd dispatcher" where
  "clearQueues s = s\<lparr>ds_queue := [], ds_deadLetterQueue := []\<rparr>"

section \<open>The loop\<close>

definition tries :: "DispatchJob list \<Rightarrow> nat" where
  "tries js = sum_list (map (\<lambda>j. Suc (dj_maxAttempts j - dj_attempts j)) js)"

lemma tries_simps [simp]:
  "tries [] = 0" "tries (j # js) = Suc (dj_maxAttempts j - dj_attempts j) + tries js" "tries (js @ js') = tries js + tries js'"
  by (simp_all add: tries_def)

lemma settle_queue:
  "ds_queue (settle P ce job s) = ds_queue s \<or> ds_queue (settle P ce job s) = ds_queue s @ [job] \<and> dj_attempts job < dj_maxAttempts job"
  by (auto simp: settle_def Let_def split: prod.splits sum.splits)

text \<open>The channels of the turn \<open>n\<close> have the environment \<open>ces n\<close>; a job that throws is tried again at once.\<close>

function processInMemoryQueue ::
  "'d prisma \<Rightarrow> (nat \<Rightarrow> channelEnv) \<Rightarrow> nat \<Rightarrow> 'd dispatcher \<Rightarrow> 'd dispatcher" where
  "processInMemoryQueue P ces n s = (case ds_queue s of
     [] \<Rightarrow> s
   | job # js \<Rightarrow> processInMemoryQueue P ces (Suc n)
       (settle P (ces n) (job\<lparr>dj_attempts := Suc (dj_attempts job)\<rparr>) (s\<lparr>ds_queue := js\<rparr>)))"
  by pat_completeness auto

termination
proof (relation "measure (\<lambda>(P, ces, n, s). tries (ds_queue s))", goal_cases)
  case (2 P ces n s job js)
  then show ?case
    using settle_queue[of P "ces n" "job\<lparr>dj_attempts := Suc (dj_attempts job)\<rparr>" "s\<lparr>ds_queue := js\<rparr>"] by auto
qed simp

declare processInMemoryQueue.simps [simp del]

section \<open>Turns and calls in between\<close>

inductive dispatch_step ::
  "'d prisma \<Rightarrow> 'd dispatcher \<Rightarrow> 'd dispatcher \<Rightarrow> bool"
  for P :: "'d prisma" where
  Start: "ds_ready s = Suc n \<Longrightarrow> dispatch_step P s (takeNext (s\<lparr>ds_ready := n\<rparr>))"
| Settle: "ds_flight s = xs @ job # ys \<Longrightarrow> dispatch_step P s (takeNext (settle P ce job (s\<lparr>ds_flight := xs @ ys\<rparr>)))"
| Fire: "ds_timers s = xs @ (ms, job) # ys \<Longrightarrow> dispatch_step P s (s\<lparr>ds_timers := xs @ ys, ds_queue := ds_queue s @ [job]\<rparr>)"

inductive notify_step ::
  "'d prisma \<Rightarrow> 'd dispatcher \<Rightarrow> 'd dispatcher \<Rightarrow> bool"
  for P :: "'d prisma" where
  Turn: "dispatch_step P s s' \<Longrightarrow> notify_step P s s'"
| Dispatch: "dispatch bull now i t channel event payload priority s = (r, s') \<Longrightarrow> notify_step P s s'"

inductive_cases dispatch_stepE: "dispatch_step P s s'"
inductive_cases notify_stepE: "notify_step P s s'"

section \<open>Notices of the billing\<close>

text \<open>
  What \<^verbatim>\<open>BillingNotificationListener\<close> dispatches, over this service. The date of the event is printed in ISO format;
  it is not read here.
\<close>

definition billingPayload :: "(int \<Rightarrow> string) \<Rightarrow> BillingStatusChangedEvent \<Rightarrow> entries" where
  "billingPayload isoDate event = [(''tenantId'', JStr (bs_tenantId event)), (''previousStatus'', JStr (bs_previousStatus event)),
     (''newStatus'', JStr (bs_newStatus event)), (''eventType'', JStr (bs_eventType event)), (''timestamp'', JStr (isoDate (bs_timestamp event)))]"

definition billing_dispatch ::
  "(bullJob \<Rightarrow> exn + unit) option \<Rightarrow> (int \<Rightarrow> string) \<Rightarrow> int \<Rightarrow> string \<Rightarrow> string \<Rightarrow> string \<Rightarrow> string \<Rightarrow> BillingStatusChangedEvent \<Rightarrow>
   ('d dispatcher, unit) prog" where
  "billing_dispatch bull isoDate now jobId tenantId channel notificationType event =
     andThen (dispatch bull now jobId tenantId Email notificationType (billingPayload isoDate event) Normal) (\<lambda>_. return ())"

end
