(* ===== verification/Dispatch_Correct.thy ===== *)
theory Dispatch_Correct
  imports Dispatch_Service
begin

text \<open>
  Where a notification is: every job that was put into the queue in memory stays in exactly one place until
  it has succeeded or is in the dead letter queue; the loop over the queue is a run of the steps.
\<close>

section \<open>Channels do not throw\<close>

lemma processChannel_never_fails: "never_fails (processChannel P ce channel event payload tenantId)"
  unfolding processChannel_def Let_def by (cases channel) (simp_all add: clean_intros)

lemma settle_returns:
  obtains result n where "processChannel P ce (dj_channel job) (dj_event job) (dj_payload job) (dj_tenantId job) (ds_notifier s) = (Inr result, n)"
    "settle P ce job s = (if ch_success result then s\<lparr>ds_notifier := n, ds_done := ds_done s @ [job]\<rparr>
       else if dj_attempts job < dj_maxAttempts job then s\<lparr>ds_notifier := n, ds_timers := ds_timers s @ [(2 ^ dj_attempts job * 1000, job)]\<rparr>
       else s\<lparr>ds_notifier := n, ds_deadLetterQueue := ds_deadLetterQueue s @ [job]\<rparr>)"
proof -
  obtain result n where run: "processChannel P ce (dj_channel job) (dj_event job) (dj_payload job) (dj_tenantId job) (ds_notifier s) = (Inr result, n)"
    using processChannel_never_fails[of P ce] unfolding never_fails_def by blast
  show thesis by (rule that[OF run]) (simp add: settle_def Let_def run)
qed

section \<open>Every job is somewhere\<close>

definition jobs_of :: "'d dispatcher \<Rightarrow> DispatchJob multiset" where
  "jobs_of s = mset (ds_queue s) + mset (ds_flight s) + mset (map snd (ds_timers s)) + mset (ds_deadLetterQueue s) + mset (ds_done s)"

definition job_ids :: "'d dispatcher \<Rightarrow> string multiset" where
  "job_ids s = image_mset dj_id (jobs_of s)"

lemma takeNext_ids: "job_ids (takeNext s) = job_ids s"
  by (simp add: takeNext_def job_ids_def jobs_of_def split: list.split)

lemma settle_ids: "job_ids (settle P ce job s) = job_ids s + {#dj_id job#}"
  by (rule settle_returns[of P ce job s]) (simp add: job_ids_def jobs_of_def)

lemma dispatch_step_ids: "dispatch_step P s s' \<Longrightarrow> job_ids s' = job_ids s"
proof (induction rule: dispatch_step.induct)
  case (Start s n)
  then show ?case by (simp add: takeNext_ids) (simp add: job_ids_def jobs_of_def)
next
  case (Settle s xs job ys ce)
  then show ?case by (simp add: takeNext_ids settle_ids) (simp add: job_ids_def jobs_of_def)
next
  case (Fire s xs ms job ys)
  then show ?case by (simp add: job_ids_def jobs_of_def)
qed

text \<open>A dispatch: the job goes to BullMQ, or to the end of the queue and a loop is to start.\<close>

lemma dispatch_outcome:
  assumes "dispatch bull now i t channel event payload priority s = (r, s')"
  obtains (bull) res bj where "r = Inr res" "dp_fallback res = None" "s' = s\<lparr>ds_bull := ds_bull s @ [bj]\<rparr>"
  | (memory) res job where "r = Inr res" "dp_fallback res = Some ''memory''" "dj_id job = i" "dj_attempts job = 0" "dj_maxAttempts job = 3"
      "s' = s\<lparr>ds_queue := ds_queue s @ [job], ds_ready := Suc (ds_ready s)\<rparr>"
proof (cases "case bull of None \<Rightarrow> False | Some add \<Rightarrow> (case add \<lparr>bj_name = event, bj_tenantId = t, bj_channel = channel, bj_payload = payload,
      bj_priority = mapPriorityToNumber priority, bj_attempts = RETRY_attempts, bj_backoffDelay = RETRY_delay\<rparr> of Inr _ \<Rightarrow> True | Inl _ \<Rightarrow> False)")
  case True
  then show thesis using assms by (intro bull[of "sum.projr r"]) (simp_all add: dispatch_def Let_def, auto)
next
  case False
  then show thesis using assms
    by (intro memory[of "sum.projr r" "\<lparr>dj_id = i, dj_tenantId = t, dj_channel = channel, dj_event = event, dj_payload = payload,
      dj_priority = priority, dj_attempts = 0, dj_maxAttempts = 3, dj_createdAt = now\<rparr>"]) (simp_all add: dispatch_def Let_def, auto)
qed

lemma dispatch_ids:
  assumes "dispatch bull now i t channel event payload priority s = (r, s')"
  shows "\<exists>res. r = Inr res \<and> job_ids s' = (if dp_fallback res = None then job_ids s else job_ids s + {#i#})"
  using assms by (cases rule: dispatch_outcome) (simp_all add: job_ids_def jobs_of_def)

section \<open>How often a job is tried\<close>

definition tried_ok :: "'d dispatcher \<Rightarrow> bool" where
  "tried_ok s \<longleftrightarrow> (\<forall>j \<in># jobs_of s. dj_maxAttempts j = 3) \<and>
     (\<forall>j \<in> set (ds_queue s). dj_attempts j < 3) \<and> (\<forall>j \<in> set (ds_flight s). 1 \<le> dj_attempts j \<and> dj_attempts j \<le> 3) \<and>
     (\<forall>(ms, j) \<in> set (ds_timers s). 1 \<le> dj_attempts j \<and> dj_attempts j < 3 \<and> ms = 2 ^ dj_attempts j * 1000) \<and>
     (\<forall>j \<in> set (ds_deadLetterQueue s). dj_attempts j = 3) \<and> (\<forall>j \<in> set (ds_done s). 1 \<le> dj_attempts j \<and> dj_attempts j \<le> 3)"

lemma takeNext_tried: "tried_ok s \<Longrightarrow> tried_ok (takeNext s)"
  by (auto simp: takeNext_def tried_ok_def jobs_of_def split: list.split)

lemma settle_tried:
  "tried_ok s \<Longrightarrow> dj_maxAttempts job = 3 \<Longrightarrow> 1 \<le> dj_attempts job \<Longrightarrow> dj_attempts job \<le> 3 \<Longrightarrow> tried_ok (settle P ce job s)"
  by (rule settle_returns[of P ce job s]) (auto simp: tried_ok_def jobs_of_def)

lemma dispatch_step_tried: "dispatch_step P s s' \<Longrightarrow> tried_ok s \<Longrightarrow> tried_ok s'"
proof (induction rule: dispatch_step.induct)
  case (Start s n)
  then show ?case by (intro takeNext_tried) (simp add: tried_ok_def jobs_of_def)
next
  case (Settle s xs job ys ce)
  have job: "dj_maxAttempts job = 3" "1 \<le> dj_attempts job" "dj_attempts job \<le> 3"
    using Settle by (auto simp: tried_ok_def jobs_of_def)
  have "tried_ok (s\<lparr>ds_flight := xs @ ys\<rparr>)" using Settle by (auto simp: tried_ok_def jobs_of_def)
  then show ?case using takeNext_tried settle_tried job by blast
next
  case (Fire s xs ms job ys)
  then show ?case by (auto simp: tried_ok_def jobs_of_def)
qed

lemma notify_step_tried: "notify_step P s s' \<Longrightarrow> tried_ok s \<Longrightarrow> tried_ok s'"
proof (induction rule: notify_step.induct)
  case (Turn s s')
  then show ?case by (rule dispatch_step_tried)
next
  case (Dispatch bull now i t channel event payload priority s r s')
  from Dispatch(1) show ?case
  proof (cases rule: dispatch_outcome)
    case (bull res bj)
    then show ?thesis using Dispatch(2) by (simp add: tried_ok_def jobs_of_def)
  next
    case (memory res job)
    then show ?thesis using Dispatch(2) by (simp add: tried_ok_def jobs_of_def)
  qed
qed

lemma notify_steps_tried: "(notify_step P)\<^sup>*\<^sup>* s s' \<Longrightarrow> tried_ok s \<Longrightarrow> tried_ok s'"
  by (induction rule: rtranclp_induct) (auto dest: notify_step_tried)

section \<open>The loop is a run\<close>

lemma settle_flight: "ds_flight (settle P ce job s) = ds_flight s"
  by (rule settle_returns[of P ce job s]) simp

lemma loop_steps: "(dispatch_step P)\<^sup>*\<^sup>* (takeNext s) (processInMemoryQueue P ces n s)"
proof (induction P ces n s rule: processInMemoryQueue.induct)
  case (1 P ces n s)
  show ?case
  proof (cases "ds_queue s")
    case Nil
    then show ?thesis by (simp add: takeNext_def processInMemoryQueue.simps)
  next
    case (Cons job js)
    let ?job = "job\<lparr>dj_attempts := Suc (dj_attempts job)\<rparr>"
    let ?s = "settle P (ces n) ?job (s\<lparr>ds_queue := js\<rparr>)"
    have next_s: "takeNext s = s\<lparr>ds_queue := js, ds_flight := ds_flight s @ [?job]\<rparr>" using Cons by (simp add: takeNext_def)
    have "dispatch_step P (takeNext s) (takeNext (settle P (ces n) ?job ((takeNext s)\<lparr>ds_flight := ds_flight s @ []\<rparr>)))"
      by (rule dispatch_step.Settle) (simp add: next_s)
    moreover have "(takeNext s)\<lparr>ds_flight := ds_flight s @ []\<rparr> = s\<lparr>ds_queue := js\<rparr>" by (simp add: next_s)
    ultimately have "dispatch_step P (takeNext s) (takeNext ?s)" by simp
    moreover have "processInMemoryQueue P ces n s = processInMemoryQueue P ces (Suc n) ?s"
      using Cons by (subst processInMemoryQueue.simps) simp
    ultimately show ?thesis using 1[OF Cons] by (simp add: converse_rtranclp_into_rtranclp)
  qed
qed

lemma loop_started:
  assumes "ds_ready s = Suc k"
  shows "(dispatch_step P)\<^sup>*\<^sup>* s (processInMemoryQueue P ces n (s\<lparr>ds_ready := k\<rparr>))"
  by (rule converse_rtranclp_into_rtranclp[OF dispatch_step.Start[OF assms] loop_steps])

lemma dispatch_steps_ids: "(dispatch_step P)\<^sup>*\<^sup>* s s' \<Longrightarrow> job_ids s' = job_ids s"
  by (induction rule: rtranclp_induct) (auto dest: dispatch_step_ids)

lemma loop_queue: "ds_queue (processInMemoryQueue P ces n s) = []"
  by (induction P ces n s rule: processInMemoryQueue.induct)
    (subst processInMemoryQueue.simps, auto split: list.split)

section \<open>A state in which nothing runs\<close>

definition quiet :: "'d dispatcher \<Rightarrow> bool" where
  "quiet s \<longleftrightarrow> ds_ready s = 0 \<and> ds_flight s = []"

lemma quiet_step:
  "dispatch_step P s s' \<Longrightarrow> quiet s \<Longrightarrow> quiet s' \<and> ds_notifier s' = ds_notifier s \<and> ds_done s' = ds_done s \<and>
     ds_deadLetterQueue s' = ds_deadLetterQueue s \<and> length (ds_timers s') < length (ds_timers s)"
  by (induction rule: dispatch_step.induct) (auto simp: quiet_def)

lemma quiet_steps:
  "(dispatch_step P)\<^sup>*\<^sup>* s s' \<Longrightarrow> quiet s \<Longrightarrow> quiet s' \<and> ds_notifier s' = ds_notifier s \<and> ds_done s' = ds_done s \<and>
     ds_deadLetterQueue s' = ds_deadLetterQueue s"
  by (induction rule: rtranclp_induct) (auto dest: quiet_step)

lemma settle_ready: "ds_ready (settle P ce job s) = ds_ready s"
  by (rule settle_returns[of P ce job s]) simp

lemma loop_flight: "ds_flight (processInMemoryQueue P ces n s) = ds_flight s \<and> ds_ready (processInMemoryQueue P ces n s) = ds_ready s"
proof (induction P ces n s rule: processInMemoryQueue.induct)
  case (1 P ces n s)
  then show ?case
    by (cases "ds_queue s") (simp_all add: processInMemoryQueue.simps[of P ces n s] settle_flight settle_ready)
qed

section \<open>Notices of the billing\<close>

lemma billing_address: "emailAddress (billingPayload isoDate event) = JStr ''customer@example.com''"
  by (simp add: emailAddress_def billingPayload_def field_def js_or_def)

lemma billing_template: "mapStatusToNotificationType newStatus eventType = Some ty \<Longrightarrow> emailTemplate ty = ''welcome''"
  by (auto simp: mapStatusToNotificationType_def emailTemplate_def split: if_splits)

lemma billing_settled:
  assumes "dj_channel job = Email" "dj_payload job = billingPayload isoDate event" "emailTemplate (dj_event job) = ''welcome''"
  shows "\<exists>ms. mr_sent (nf_mail (ds_notifier (settle P ce job s))) = mr_sent (nf_mail (ds_notifier s)) @ ms \<and> length ms \<le> 1 \<and>
    (\<forall>m \<in> set ms. ml_to m = ''customer@example.com'' \<and> ml_html m = compileTemplate (ce_mail ce) ''welcome'' (dj_payload job))"
proof -
  obtain res n where run: "processChannel P ce (dj_channel job) (dj_event job) (dj_payload job) (dj_tenantId job) (ds_notifier s) = (Inr res, n)"
      "nf_mail (ds_notifier (settle P ce job s)) = nf_mail n" by (rule settle_returns[of P ce job s]) auto
  obtain r m' where sent: "sendEmail (ce_mail ce) ''customer@example.com'' ''welcome'' (dj_payload job) None (nf_mail (ds_notifier s)) = (r, m')"
    by (meson surj_pair)
  have "nf_mail n = m'" using run(1) sent assms
    by (auto simp: processChannel_def billing_address try_catch_def andThen_def onMail_def return_def split: sum.splits)
  moreover have "mr_sent m' = mr_sent (nf_mail (ds_notifier s)) \<or> (\<exists>m. ml_to m = ''customer@example.com'' \<and>
      ml_html m = compileTemplate (ce_mail ce) ''welcome'' (dj_payload job) \<and> mr_sent m' = mr_sent (nf_mail (ds_notifier s)) @ [m])"
    using sendEmail_sent[OF sent] by blast
  ultimately consider "mr_sent (nf_mail n) = mr_sent (nf_mail (ds_notifier s))"
    | m where "ml_to m = ''customer@example.com''" "ml_html m = compileTemplate (ce_mail ce) ''welcome'' (dj_payload job)"
        "mr_sent (nf_mail n) = mr_sent (nf_mail (ds_notifier s)) @ [m]" by metis
  then show ?thesis
  proof cases
    case 1
    then show ?thesis unfolding run(2) by (intro exI[of _ "[]"]) simp
  next
    case (2 m)
    then show ?thesis unfolding run(2) by (intro exI[of _ "[m]"]) simp
  qed
qed

end
