(* ===== verification/Notification_Properties.thy ===== *)
theory Notification_Properties
  imports Dispatch_Correct Sample_Data
begin

text \<open>
  Properties of the notifications: mail, text messages, pushes and the queue in front of them.
\<close>

text \<open>C32. An address that bounced or complained is not written to again: after the event, whatever the service is
  asked, no mail is handed over for the address in any case of its letters, and asking for one is answered
  as blocked.\<close>

theorem blocked_never_mailed:
  assumes "blocks event address"
  shows "(\<exists>ms. mr_sent (foldl mailStep s (before @ DeliveryEvent event # calls)) = mr_sent (foldl mailStep s (before @ [DeliveryEvent event])) @ ms \<and>
      (\<forall>m \<in> set ms. toLowerCase (ml_to m) \<noteq> toLowerCase address)) \<and>
    (toLowerCase to = toLowerCase address \<longrightarrow>
      fst (sendEmail env to templateName vars sub (foldl mailStep s (before @ DeliveryEvent event # calls))) = Inr blocked_result)"
proof -
  let ?s = "foldl mailStep s (before @ [DeliveryEvent event])"
  have bounced: "toLowerCase address \<in> mr_bounced ?s" using blocks_bounced[OF assms] by simp
  have run: "foldl mailStep s (before @ DeliveryEvent event # calls) = foldl mailStep ?s calls" by simp
  obtain ms where ms: "mr_sent (foldl mailStep ?s calls) = mr_sent ?s @ ms" "\<forall>m \<in> set ms. toLowerCase (ml_to m) \<notin> mr_bounced ?s"
    using mailSteps_sent by blast
  have "toLowerCase address \<in> mr_bounced (foldl mailStep ?s calls)" using mailSteps_bounced bounced by blast
  then show ?thesis unfolding run using ms bounced by (auto simp: sendEmail_def)
qed

definition sample_mailEnv :: mailEnv where
  "sample_mailEnv = \<lparr>me_template = (\<lambda>_. None), me_regexp = (\<lambda>_ _ _. Inl (JsError ''Invalid regular expression'')), me_apiKey = Some ''k'',
     me_fromEmail = None, me_sendgrid = (\<lambda>_. Inr None), me_uuid = ''u''\<rparr>"

definition sample_complaint :: deliveryEvent where
  "sample_complaint = \<lparr>de_event = Some ''spamreport'', de_type = None, de_email = Some ''Ann@x.y''\<rparr>"

theorem blocked_never_mailed_witness:
  "let s = foldl mailStep \<lparr>mr_bounced = {}, mr_sent = []\<rparr> [DeliveryEvent sample_complaint, SendEmail sample_mailEnv ''bob@x.y'' ''t'' [] None] in
     map ml_to (mr_sent s) = [''bob@x.y''] \<and> fst (sendEmail sample_mailEnv ''ANN@x.y'' ''t'' [] None s) = Inr blocked_result"
proof -
  let ?s = "foldl mailStep \<lparr>mr_bounced = {}, mr_sent = []\<rparr> ([] @ [DeliveryEvent sample_complaint, SendEmail sample_mailEnv ''bob@x.y'' ''t'' [] None])"
  have "blocks sample_complaint ''Ann@x.y''" by (simp add: blocks_def sample_complaint_def)
  note all = blocked_never_mailed[OF this, of "\<lparr>mr_bounced = {}, mr_sent = []\<rparr>" "[]" "[SendEmail sample_mailEnv ''bob@x.y'' ''t'' [] None]"
      "''ANN@x.y''" sample_mailEnv "''t''" "[]" None]
  have "toLowerCase ''ANN@x.y'' = toLowerCase ''Ann@x.y''" by code_simp
  then have "fst (sendEmail sample_mailEnv ''ANN@x.y'' ''t'' [] None ?s) = Inr blocked_result" using conjunct2[OF all] by blast
  moreover have "map ml_to (mr_sent ?s) = [''bob@x.y'']" by code_simp
  ultimately show ?thesis by (simp add: Let_def)
qed

text \<open>C33. A mail says what its template says: for a template of text and variables, and values in which nothing reads as a
  template or as a replacement pattern, the mail that is handed over has the text of the template with the
  value of each variable in its place, and nothing for a variable without a value.\<close>

theorem mail_rendered:
  assumes "(case me_template env templateName of None \<Rightarrow> Inr (getEmbeddedTemplate templateName) | Some r \<Rightarrow> r) = Inr (concat (map written segs))"
    and "list_all tidy segs" "harmless vars" "sendEmail env to templateName vars sub s = (r, s')"
  shows "mr_sent s' = mr_sent s \<or>
    (\<exists>m. mr_sent s' = mr_sent s @ [m] \<and> ml_to m = to \<and> ml_html m = concat (map (rendered vars) segs))"
  using sendEmail_sent[OF assms(4)] unfolding compileTemplate_rendered[OF assms(2,3,1)] by metis

definition sample_segments :: "segment list" where
  "sample_segments = [Lit ''<h2>Password Reset</h2><p>Hello '', Hole ''firstName'', Lit '', reset link: '', Hole ''resetUrl'', Lit ''</p>'']"

definition sample_vars :: entries where
  "sample_vars = [(''firstName'', JStr ''Ann''), (''email'', JStr ''a@b.c'')]"

theorem mail_rendered_witness:
  "map ml_html (mr_sent (snd (sendEmail sample_mailEnv ''a@b.c'' ''password-reset'' sample_vars None \<lparr>mr_bounced = {}, mr_sent = []\<rparr>))) =
     [''<h2>Password Reset</h2><p>Hello Ann, reset link: </p>'']"
proof -
  obtain r s' where run: "sendEmail sample_mailEnv ''a@b.c'' ''password-reset'' sample_vars None \<lparr>mr_bounced = {}, mr_sent = []\<rparr> = (r, s')"
    by (meson surj_pair)
  have "(case me_template sample_mailEnv ''password-reset'' of None \<Rightarrow> Inr (getEmbeddedTemplate ''password-reset'') | Some r \<Rightarrow> r) =
      Inr (concat (map written sample_segments))" by code_simp
  moreover have "list_all tidy sample_segments" "harmless sample_vars" by code_simp+
  ultimately have "mr_sent s' = [] \<or> (\<exists>m. mr_sent s' = [m] \<and> ml_html m = concat (map (rendered sample_vars) sample_segments))"
    using mail_rendered[OF _ _ _ run, of sample_segments] by auto
  moreover have "mr_sent s' \<noteq> []" using run by (auto simp: sendEmail_def sample_mailEnv_def Let_def)
  moreover have "concat (map (rendered sample_vars) sample_segments) = ''<h2>Password Reset</h2><p>Hello Ann, reset link: </p>''" by code_simp
  ultimately show ?thesis unfolding run by auto
qed

text \<open>A push to a user asks Firebase at most once, for tokens of that user in that tenant, and takes away only
  rows of the user whose token Firebase reported as no longer registered; the answer counts what Firebase
  counted; one notification for the user may be recorded, and nothing else changes. When nothing was asked
  or an error came back, nothing has changed.\<close>

theorem push_prunes_unregistered:
  assumes "prisma_client P T" "t \<noteq> []" "u \<noteq> []" "distinct (map dt_id (t_deviceTokens (T (pu_db s))))"
    and "sendPushNotification P fcm now t u title body data s = (r, s')"
  shows "(\<exists>e. r = Inl e \<and> s' = s) \<or>
    (\<exists>res asked. r = Inr res \<and> fc_sent (pu_fcm s') = fc_sent (pu_fcm s) @ asked \<and> length asked \<le> 1 \<and>
       (\<forall>msg \<in> set asked. \<exists>env. fcm = Some env \<and> pr_sent res = fcm_count env msg \<and> mu_title msg = title \<and> mu_body msg = body \<and>
          (\<forall>token \<in> set (mu_tokens msg). \<exists>row \<in> set (t_deviceTokens (T (pu_db s))). dt_token row = token \<and> dt_tenantId row = Some t \<and> dt_userId row = u) \<and>
          without (dead_row t u (fcm_dead env msg)) (t_deviceTokens (T (pu_db s))) (t_deviceTokens (T (pu_db s'))) \<and>
          (\<exists>new. T (pu_db s') = (T (pu_db s))\<lparr>t_deviceTokens := t_deviceTokens (T (pu_db s')), t_notifications := t_notifications (T (pu_db s)) @ new\<rparr> \<and>
             length new \<le> 1 \<and> (\<forall>x \<in> set new. nt_tenantId x = Some t \<and> nt_recipientId x = u \<and> nt_title x = title \<and> nt_body x = body))) \<and>
       (asked = [] \<longrightarrow> pu_db s' = pu_db s))"
  by (rule prisma_client.push_run[OF assms])

definition sample_device :: "string \<Rightarrow> string \<Rightarrow> deviceToken" where
  "sample_device i token = \<lparr>dt_id = i, dt_tenantId = Some ''t1'', dt_userId = ''u1'', dt_token = token, dt_deviceType = ''ios'', dt_createdAt = 0, dt_updatedAt = 0\<rparr>"

definition sample_fcm :: fcmEnv where
  "sample_fcm = \<lparr>fe_serviceAccount = Some ''account'', fe_serviceAccountPath = None, fe_readFile = (\<lambda>_. Inl (JsError ''ENOENT'')),
     fe_initialize = (\<lambda>_. Inr ()), fe_multicast = (\<lambda>_. Inr \<lparr>bt_responses = [\<lparr>sd_success = True, sd_code = None\<rparr>,
       \<lparr>sd_success = False, sd_code = Some not_registered\<rparr>], bt_successCount = 1, bt_failureCount = 1\<rparr>)\<rparr>"

definition sample_phones :: "tables pusher" where
  "sample_phones = \<lparr>pu_db = sample_tables\<lparr>t_deviceTokens := [sample_device ''d1'' ''a'', sample_device ''d2'' ''b'']\<rparr>,
     pu_fcm = \<lparr>fc_app = False, fc_initAttempted = False, fc_sent = []\<rparr>\<rparr>"

theorem push_prunes_unregistered_witness:
  "\<exists>res s'. sendPushNotification mem_prisma (Some sample_fcm) 5 ''t1'' ''u1'' ''Hello'' ''There'' None sample_phones = (Inr res, s') \<and>
     pr_sent res = 1 \<and> t_deviceTokens (pu_db s') = [sample_device ''d1'' ''a''] \<and> length (t_notifications (pu_db s')) \<le> 1"
proof -
  let ?run = "sendPushNotification mem_prisma (Some sample_fcm) 5 ''t1'' ''u1'' ''Hello'' ''There'' None sample_phones"
  have eval: "case ?run of (Inr res, s') \<Rightarrow> pr_sent res = 1 \<and> map dt_id (t_deviceTokens (pu_db s')) = [''d1''] \<and> length (fc_sent (pu_fcm s')) = 1
      | (Inl e, s') \<Rightarrow> False" by code_simp
  then obtain res s' where run: "?run = (Inr res, s')" "pr_sent res = 1" "map dt_id (t_deviceTokens (pu_db s')) = [''d1'']"
      "length (fc_sent (pu_fcm s')) = 1" by (auto split: prod.splits sum.splits)
  have before: "t_deviceTokens (pu_db sample_phones) = [sample_device ''d1'' ''a'', sample_device ''d2'' ''b'']"
      "t_notifications (pu_db sample_phones) = []" "fc_sent (pu_fcm sample_phones) = []"
    by (simp_all add: sample_phones_def sample_tables_def)
  have "distinct (map dt_id (t_deviceTokens (pu_db sample_phones)))" by (simp add: before sample_device_def)
  note all = push_prunes_unregistered[OF mem.prisma_client_axioms list.discI[OF refl] list.discI[OF refl] this run(1)]
  have "\<exists>asked. fc_sent (pu_fcm s') = fc_sent (pu_fcm sample_phones) @ asked \<and> (\<forall>msg \<in> set asked. \<exists>D new.
      without D (t_deviceTokens (pu_db sample_phones)) (t_deviceTokens (pu_db s')) \<and> length new \<le> 1 \<and>
      pu_db s' = (pu_db sample_phones)\<lparr>t_deviceTokens := t_deviceTokens (pu_db s'), t_notifications := t_notifications (pu_db sample_phones) @ new\<rparr>)"
    using all
  proof (elim disjE exE conjE)
    fix resa asked
    assume "fc_sent (pu_fcm s') = fc_sent (pu_fcm sample_phones) @ asked"
    moreover assume "\<forall>msg \<in> set asked. \<exists>env. Some sample_fcm = Some env \<and> pr_sent resa = fcm_count env msg \<and> mu_title msg = ''Hello'' \<and> mu_body msg = ''There'' \<and>
          (\<forall>token \<in> set (mu_tokens msg). \<exists>row \<in> set (t_deviceTokens (pu_db sample_phones)). dt_token row = token \<and> dt_tenantId row = Some ''t1'' \<and> dt_userId row = ''u1'') \<and>
          without (dead_row ''t1'' ''u1'' (fcm_dead env msg)) (t_deviceTokens (pu_db sample_phones)) (t_deviceTokens (pu_db s')) \<and>
          (\<exists>new. pu_db s' = (pu_db sample_phones)\<lparr>t_deviceTokens := t_deviceTokens (pu_db s'), t_notifications := t_notifications (pu_db sample_phones) @ new\<rparr> \<and>
             length new \<le> 1 \<and> (\<forall>x \<in> set new. nt_tenantId x = Some ''t1'' \<and> nt_recipientId x = ''u1'' \<and> nt_title x = ''Hello'' \<and> nt_body x = ''There''))"
    ultimately show ?thesis by blast
  qed simp
  then obtain asked where "fc_sent (pu_fcm s') = fc_sent (pu_fcm sample_phones) @ asked"
      and each: "\<forall>msg \<in> set asked. \<exists>D new. without D (t_deviceTokens (pu_db sample_phones)) (t_deviceTokens (pu_db s')) \<and> length new \<le> 1 \<and>
      pu_db s' = (pu_db sample_phones)\<lparr>t_deviceTokens := t_deviceTokens (pu_db s'), t_notifications := t_notifications (pu_db sample_phones) @ new\<rparr>" by blast
  then have "asked \<noteq> []" using run(4) before(3) by auto
  then obtain D new where rows: "without D (t_deviceTokens (pu_db sample_phones)) (t_deviceTokens (pu_db s'))" "length new \<le> 1"
      "pu_db s' = (pu_db sample_phones)\<lparr>t_deviceTokens := t_deviceTokens (pu_db s'), t_notifications := new\<rparr>"
    using each unfolding before(2) append_Nil by (meson last_in_set)
  obtain x where x: "t_deviceTokens (pu_db s') = [x]" "dt_id x = ''d1''" using run(3) by (cases "t_deviceTokens (pu_db s')") auto
  have "x \<in> set (t_deviceTokens (pu_db sample_phones))" using without_set[OF rows(1)] x(1) by auto
  then have "x = sample_device ''d1'' ''a''" using x(2) by (auto simp: before sample_device_def)
  moreover have "length (t_notifications (pu_db s')) \<le> 1" using rows(2) by (subst rows(3)) simp
  ultimately show ?thesis using run x by blast
qed

text \<open>Within a tenant a token stays with one device row, along every sequence of calls.\<close>

theorem device_token_one_row:
  assumes "prisma_client P T" "t \<noteq> []"
    and "distinct (map dt_id (t_deviceTokens (T (pu_db s))))" "unique_live deviceToken_model dt_token t (t_deviceTokens (T (pu_db s)))"
  shows "unique_live deviceToken_model dt_token t (t_deviceTokens (T (pu_db (foldl (tokenStep P t) s calls))))"
  using prisma_client.tokenSteps_keep[OF assms(1,2)] assms(3,4) by blast


definition sample_channels :: channelEnv where
  "sample_channels = \<lparr>ce_env = sample_env, ce_gateway = \<lparr>gw_server = None\<rparr>, ce_mail = sample_mailEnv, ce_sms = \<lparr>se_accountSid = None, se_authToken = None,
     se_fromNumber = None, se_unifonicAppSid = None, se_twilio = (\<lambda>_. Inr ''s''), se_random = ''r''\<rparr>, ce_fcm = None,
     ce_fetch = (\<lambda>_ _. Inr 200), ce_hmac = (\<lambda>_ _. ''h'')\<rparr>"

definition sample_dispatcher :: "tables dispatcher" where
  "sample_dispatcher = \<lparr>ds_notifier = \<lparr>nf_world = sample_world, nf_net = [], nf_fcm = \<lparr>fc_app = False, fc_initAttempted = False, fc_sent = []\<rparr>,
       nf_mail = \<lparr>mr_bounced = {}, mr_sent = []\<rparr>, nf_sms = []\<rparr>,
     ds_queue = [], ds_deadLetterQueue = [], ds_timers = [], ds_ready = 0, ds_flight = [], ds_done = [], ds_bull = []\<rparr>"


text \<open>Whatever the billing of a tenant reports, its notice is written to no one of the tenant: the loop over the queue
  hands over at most one mail, to customer@example.com, and it is the mail that welcomes a new tenant.\<close>

theorem billing_notice_misaddressed:
  assumes "ds_queue s = []" "billing_handleStatusChanged (billing_dispatch bull isoDate now jobId) event s = (r, s')"
  shows "\<exists>ms. mr_sent (nf_mail (ds_notifier (processInMemoryQueue P ces n s'))) = mr_sent (nf_mail (ds_notifier s)) @ ms \<and> length ms \<le> 1 \<and>
    (\<forall>m \<in> set ms. ml_to m = ''customer@example.com'' \<and>
       ml_html m = compileTemplate (ce_mail (ces n)) ''welcome'' (billingPayload isoDate event))"
proof (cases "ds_queue s' = []")
  case True
  have "ds_notifier s' = ds_notifier s" using assms(2)
    by (auto simp: billing_handleStatusChanged_def billing_dispatch_def dispatch_def Let_def andThen_def return_def split: option.splits if_splits)
  then show ?thesis using True by (intro exI[of _ "[]"]) (simp add: processInMemoryQueue.simps)
next
  case False
  then obtain ty where ty: "mapStatusToNotificationType (bs_newStatus event) (bs_eventType event) = Some ty"
    using assms by (cases "mapStatusToNotificationType (bs_newStatus event) (bs_eventType event)")
      (simp_all add: billing_handleStatusChanged_def return_def)
  define job where "job = \<lparr>dj_id = jobId, dj_tenantId = bs_tenantId event, dj_channel = Email, dj_event = ty, dj_payload = billingPayload isoDate event,
    dj_priority = Normal, dj_attempts = 0, dj_maxAttempts = 3, dj_createdAt = now\<rparr>"
  have "s' = s\<lparr>ds_queue := [job], ds_ready := Suc (ds_ready s)\<rparr>" using assms ty False
    by (simp add: billing_handleStatusChanged_def billing_dispatch_def dispatch_def Let_def andThen_def return_def job_def split: if_splits, auto)
  then have job: "dj_channel job = Email" "dj_payload job = billingPayload isoDate event" "dj_event job = ty" "ds_queue s' = [job]"
    and same: "ds_notifier s' = ds_notifier s" by (simp_all add: job_def)
  let ?job = "job\<lparr>dj_attempts := Suc (dj_attempts job)\<rparr>" and ?s = "s'\<lparr>ds_queue := []\<rparr>"
  have "ds_queue (settle P (ces n) ?job ?s) = []" by (rule settle_returns[of P "ces n" ?job ?s]) simp
  then have "processInMemoryQueue P ces n s' = settle P (ces n) ?job ?s" using job(4) by (simp add: processInMemoryQueue.simps)
  then show ?thesis
    using billing_settled[of ?job isoDate event P "ces n" ?s] job billing_template[OF ty] same by simp
qed

definition sample_statusChange :: BillingStatusChangedEvent where
  "sample_statusChange = \<lparr>bs_tenantId = ''t1'', bs_previousStatus = ''ACTIVE'', bs_newStatus = ''PAST_DUE'', bs_eventType = ''invoice.payment_failed'',
     bs_eventId = ''e1'', bs_timestamp = 5\<rparr>"

theorem billing_notice_misaddressed_witness:
  "let s = snd (billing_handleStatusChanged (billing_dispatch None (\<lambda>_. ''2026'') 0 ''j1'') sample_statusChange sample_dispatcher);
       ms = mr_sent (nf_mail (ds_notifier (processInMemoryQueue mem_prisma (\<lambda>_. sample_channels) 0 s))) in
     map ml_to ms = [''customer@example.com''] \<and> (\<forall>m \<in> set ms. ml_html m = compileTemplate sample_mailEnv ''welcome'' (billingPayload (\<lambda>_. ''2026'') sample_statusChange))"
proof -
  let ?run = "billing_handleStatusChanged (billing_dispatch None (\<lambda>_. ''2026'') 0 ''j1'') sample_statusChange sample_dispatcher"
  let ?ms = "mr_sent (nf_mail (ds_notifier (processInMemoryQueue mem_prisma (\<lambda>_. sample_channels) 0 (snd ?run))))"
  have "ds_queue sample_dispatcher = []" by (simp add: sample_dispatcher_def)
  from billing_notice_misaddressed[OF this, of None "\<lambda>_. ''2026''" 0 "''j1''" sample_statusChange "fst ?run" "snd ?run" mem_prisma "\<lambda>_. sample_channels" 0]
  have all: "length ?ms \<le> 1" "\<forall>m \<in> set ?ms. ml_to m = ''customer@example.com'' \<and>
      ml_html m = compileTemplate sample_mailEnv ''welcome'' (billingPayload (\<lambda>_. ''2026'') sample_statusChange)"
    by (auto simp: sample_dispatcher_def sample_channels_def)
  have "?ms \<noteq> []" by code_simp
  then show ?thesis using all by (cases ?ms) (simp_all add: Let_def)
qed

end
