(* ===== verification/Audit_Service.thy ===== *)
theory Audit_Service
  imports Request_Context Email_Service
begin

text \<open>
  \<^verbatim>\<open>audit/audit.service.ts\<close> and \<^verbatim>\<open>audit/audit.interceptor.ts\<close>: the table of audit records, the record the
  interceptor writes for every request that changes something, and what it leaves out of the body. The
  state is the table; whether the database accepts a row is for the column types of the schema to say
  (the locale \<open>audit_columns\<close>).
\<close>

section \<open>The service\<close>

record AuditLogEntry =
  al_tenantId :: "string option"
  al_userId :: "string option"
  al_action :: string
  al_entityName :: string
  al_entityId :: "string option"
  al_oldValues :: json
  al_newValues :: json
  al_ipAddress :: string
  al_userAgent :: string

record auditLog = AuditLogEntry +
  al_id :: string
  al_createdAt :: int

text \<open>\<open>at_refuses\<close> is the error the driver reports for a row, if any.\<close>

record auditEnv =
  at_refuses :: "AuditLogEntry \<Rightarrow> exn option"
  at_id :: string
  at_now :: int

definition or_json_null :: "json \<Rightarrow> json" where
  "or_json_null v = (if json_truthy v then v else JNull)"

definition audit_data :: "AuditLogEntry \<Rightarrow> AuditLogEntry" where
  "audit_data entry = entry\<lparr>al_tenantId := or_null (al_tenantId entry), al_userId := or_null (al_userId entry),
     al_entityId := or_null (al_entityId entry), al_oldValues := or_json_null (al_oldValues entry),
     al_newValues := or_json_null (al_newValues entry)\<rparr>"

definition audit_row :: "auditEnv \<Rightarrow> AuditLogEntry \<Rightarrow> auditLog" where
  "audit_row env e = AuditLogEntry.extend (AuditLogEntry.truncate e) (auditLog.fields (at_id env) (at_now env))"

definition audit_log :: "auditEnv \<Rightarrow> AuditLogEntry \<Rightarrow> (auditLog list, auditLog option) prog" where
  "audit_log env entry =
     try_catch
       (case at_refuses env (audit_data entry) of
          Some err \<Rightarrow> throw err
        | None \<Rightarrow> let row = audit_row env (audit_data entry) in
            andThen (modify (\<lambda>logs. logs @ [row])) (\<lambda>_. return (Some row)))
       (\<lambda>err. return None)"

record logFilters =
  lf_userId :: "string option"
  lf_entityName :: "string option"
  lf_limit :: "nat option"

definition getLogs :: "string \<Rightarrow> logFilters option \<Rightarrow> (auditLog list, auditLog list) prog" where
  "getLogs tenantId filters =
     (let wanted = (\<lambda>f. case filters of None \<Rightarrow> None | Some fs \<Rightarrow> or_null (f fs)) in
      andThen get_state (\<lambda>logs.
        return (take (case filters of None \<Rightarrow> 100 | Some fs \<Rightarrow> (case lf_limit fs of None \<Rightarrow> 100 | Some n \<Rightarrow> if n = 0 then 100 else n))
          (sort_key (\<lambda>r. - al_createdAt r)
            (filter (\<lambda>r. (tenantId \<noteq> [] \<longrightarrow> al_tenantId r = Some tenantId) \<and>
                         (\<forall>u \<in> set_option (wanted lf_userId). al_userId r = Some u) \<and>
                         (\<forall>n \<in> set_option (wanted lf_entityName). al_entityName r = n)) logs)))))"

definition audit_update :: "(auditLog list, unit) prog" where
  "audit_update = throw (JsError ''Audit logs are immutable: UPDATE operation is blocked per DOC-006 5.7'')"

definition audit_delete :: "(auditLog list, unit) prog" where
  "audit_delete = throw (JsError ''Audit logs are immutable: DELETE operation is blocked per DOC-006 5.7'')"

section \<open>The interceptor\<close>

record auditRequest =
  aq_method :: string
  aq_url :: string
  aq_user :: "authenticatedUser option"
  aq_tenantId :: "string option"
  aq_ip :: "string option"
  aq_forwardedFor :: "string option"
  aq_remoteAddress :: "string option"
  aq_userAgent :: "string option"
  aq_params :: entries
  aq_body :: json

text \<open>\<^verbatim>\<open>v.key\<close> of a value that came from or goes to JSON: \<open>JNull\<close> (undefined) where it has no such member.\<close>

definition member_of :: "json \<Rightarrow> string \<Rightarrow> json" where
  "member_of v k = (case json_prop k v of None \<Rightarrow> JNull | Some x \<Rightarrow> x)"

definition is_object :: "json \<Rightarrow> bool" where
  "is_object v = (case v of JObj _ \<Rightarrow> True | JArr _ \<Rightarrow> True | _ \<Rightarrow> False)"

definition entity_mapping :: "string \<rightharpoonup> string" where
  "entity_mapping = map_of [(''branches'', ''Branch''), (''tables'', ''Table''), (''categories'', ''Category''),
     (''products'', ''Product''), (''orders'', ''Order''), (''customers'', ''Customer''), (''tenants'', ''Tenant''),
     (''users'', ''User''), (''webhooks'', ''Webhook''), (''device-tokens'', ''DeviceToken''), (''billing'', ''Subscription''),
     (''admin'', ''Tenant''), (''assets'', ''Asset''), (''kds'', ''Order'')]"

text \<open>The part after the first that starts with \<^verbatim>\<open>v1\<close>, and the last part when there is none.\<close>

definition resource_of :: "string \<Rightarrow> string" where
  "resource_of url =
     (let parts = filter (\<lambda>p. p \<noteq> []) (split_on (CHR ''/'') url) in
      case dropWhile (\<lambda>p. \<not> startsWith p ''v1'') parts of
        _ # r # _ \<Rightarrow> r
      | _ \<Rightarrow> if parts \<noteq> [] then last parts else ''Unknown'')"

definition entity_id :: "entries \<Rightarrow> json \<Rightarrow> string option" where
  "entity_id params responseData =
     (if json_truthy (member_of (JObj params) ''id'') then Some (js_String (member_of (JObj params) ''id''))
      else if json_truthy (member_of (JObj params) ''orderItemId'') then Some (js_String (member_of (JObj params) ''orderItemId''))
      else if json_truthy (member_of responseData ''id'') then Some (js_String (member_of responseData ''id''))
      else if is_object (member_of responseData ''tenant'') then
        Some (case json_prop ''id'' (member_of responseData ''tenant'') of None \<Rightarrow> ''undefined'' | Some i \<Rightarrow> js_String i)
      else if json_truthy (member_of responseData ''orderId'') then Some (js_String (member_of responseData ''orderId''))
      else None)"

definition parseEntityFromUrl :: "string \<Rightarrow> entries \<Rightarrow> json \<Rightarrow> string \<times> string option" where
  "parseEntityFromUrl url params responseData =
     (let resource = resource_of url in
      (case entity_mapping resource of Some n \<Rightarrow> n | None \<Rightarrow> capitalize resource, entity_id params responseData))"

text \<open>\<^verbatim>\<open>{ ...values }\<close>: the members of an object, the elements of an array and the characters of a string by index.\<close>

fun spread :: "json \<Rightarrow> entries" where
  "spread (JObj ms) = ms"
| "spread (JArr vs) = map (\<lambda>(i, v). (show_int (int i), v)) (enumerate 0 vs)"
| "spread (JStr s) = map (\<lambda>(i, c). (show_int (int i), JStr [c])) (enumerate 0 s)"
| "spread _ = []"

definition sensitive_fields :: "string list" where
  "sensitive_fields = [''password'', ''passwordHash'', ''secret'', ''mfaSecret'', ''secretKey'']"

definition redact :: "string \<times> json \<Rightarrow> string \<times> json" where
  "redact m = (if fst m \<in> set sensitive_fields then (fst m, JStr ''[REDACTED]'') else m)"

definition sanitizeValues :: "json \<Rightarrow> json" where
  "sanitizeValues v =
     (if \<not> json_truthy v then JNull
      else let sanitized = JObj (map redact (spread v)); text = stringify sanitized in
        if 5000 < length text then JObj [(''_truncated'', JBool True), (''preview'', JStr (take 5000 text))]
        else sanitized)"

definition skipPaths :: "string list" where
  "skipPaths = [''/auth/login'', ''/auth/refresh'', ''/auth/logout'', ''/audit-logs'']"

definition audited :: "auditRequest \<Rightarrow> bool" where
  "audited rq \<longleftrightarrow> aq_method rq \<in> {''POST'', ''PUT'', ''DELETE'', ''PATCH''} \<and> \<not> list_ex (\<lambda>p. sublist p (aq_url rq)) skipPaths"

definition audit_subject :: "auditRequest \<Rightarrow> string option \<times> string option" where
  "audit_subject rq =
     (let user = aq_user rq; t = (case user of None \<Rightarrow> None | Some u \<Rightarrow> au_tenantId u) in
      (if truthy t then t else or_null (aq_tenantId rq), or_null (map_option au_id user)))"

definition request_entry :: "auditRequest \<Rightarrow> string \<Rightarrow> string \<Rightarrow> string option \<Rightarrow> AuditLogEntry" where
  "request_entry rq action entityName entityId =
     \<lparr>al_tenantId = fst (audit_subject rq), al_userId = snd (audit_subject rq), al_action = action,
      al_entityName = entityName, al_entityId = entityId, al_oldValues = JNull, al_newValues = sanitizeValues (aq_body rq),
      al_ipAddress = or_else (aq_ip rq) (or_else (aq_forwardedFor rq) (or_else (aq_remoteAddress rq) ''unknown'')),
      al_userAgent = take 512 (or_else (aq_userAgent rq) ''unknown'')\<rparr>"

definition success_entry :: "auditRequest \<Rightarrow> json \<Rightarrow> AuditLogEntry" where
  "success_entry rq responseData =
     (case parseEntityFromUrl (aq_url rq) (aq_params rq) responseData of
        (n, i) \<Rightarrow> request_entry rq (aq_method rq @ '':'' @ n) n i)"

definition failure_entry :: "auditRequest \<Rightarrow> AuditLogEntry" where
  "failure_entry rq = request_entry rq (aq_method rq @ '':'' @ aq_url rq @ '':FAILED'') ''Unknown'' None"

definition answer_entry :: "auditRequest \<Rightarrow> exn + json \<Rightarrow> AuditLogEntry" where
  "answer_entry rq r = (case r of Inr response \<Rightarrow> success_entry rq response | Inl err \<Rightarrow> failure_entry rq)"

text \<open>
  The request handler works on its own state; the record is written when it has answered. Nothing waits
  for the write: that it happens at once is an order the caller cannot tell from the others.
\<close>

definition intercept :: "auditEnv \<Rightarrow> auditRequest \<Rightarrow> ('w, json) prog \<Rightarrow> (auditLog list \<times> 'w, json) prog" where
  "intercept env rq handle = (\<lambda>(logs, w).
     case handle w of (r, w') \<Rightarrow>
       if audited rq
       then (r, (snd (audit_log env (answer_entry rq r) logs), w'))
       else (r, (logs, w')))"

section \<open>The column types\<close>

text \<open>
  Model \<^verbatim>\<open>AuditLog\<close> of the schema: the lengths of the columns, and an entity id that is a UUID. Of the forms
  of a UUID the database reads, all are written with these characters.
\<close>

definition uuid_char :: "char \<Rightarrow> bool" where
  "uuid_char c \<longleftrightarrow> hex_char c \<or> c \<in> set ''-{}urn:id''"

locale audit_columns =
  fixes refuses :: "AuditLogEntry \<Rightarrow> exn option"
  assumes entity_id_is_uuid: "al_entityId e = Some i \<Longrightarrow> \<not> list_all uuid_char i \<Longrightarrow> refuses e \<noteq> None"
    and action_length: "100 < length (al_action e) \<Longrightarrow> refuses e \<noteq> None"
    and address_length: "45 < length (al_ipAddress e) \<Longrightarrow> refuses e \<noteq> None"

definition AuditLog_columns :: "AuditLogEntry \<Rightarrow> exn option" where
  "AuditLog_columns e =
     (if list_all (list_all uuid_char) (map the (filter (\<lambda>x. x \<noteq> None) [al_tenantId e, al_userId e, al_entityId e])) \<and>
         length (al_action e) \<le> 100 \<and> length (al_entityName e) \<le> 100 \<and> length (al_ipAddress e) \<le> 45 \<and>
         length (al_userAgent e) \<le> 512
      then None else Some (JsError ''Inconsistent column data''))"

interpretation schema: audit_columns AuditLog_columns
  by unfold_locales (auto simp: AuditLog_columns_def)

section \<open>The audit trail\<close>

lemma audit_log_run:
  "audit_log env e logs =
     (case at_refuses env (audit_data e) of
        Some err \<Rightarrow> (Inr None, logs)
      | None \<Rightarrow> (Inr (Some (audit_row env (audit_data e))), logs @ [audit_row env (audit_data e)]))"
  by (simp add: audit_log_def try_catch_def andThen_def modify_def return_def throw_def Let_def split: option.splits)

lemma audit_log_appends: "prefix logs (snd (audit_log env e logs))"
  by (simp add: audit_log_run split: option.splits)

lemma audit_log_never_fails: "never_fails (audit_log env e)"
  by (simp add: never_fails_def audit_log_run split: option.splits)

text \<open>The handler answers as if nothing were recorded, and at most one row is added.\<close>

lemma intercept_run:
  "intercept env rq handle (logs, w) = (r, (logs', w')) \<longleftrightarrow>
     handle w = (r, w') \<and>
     logs' = (if audited rq then snd (audit_log env (answer_entry rq r) logs)
              else logs)"
  by (auto simp: intercept_def split: prod.splits)

datatype 'w auditCall =
    Record auditEnv AuditLogEntry
  | Read string "logFilters option"
  | Overwrite
  | Erase
  | Serve auditEnv auditRequest "('w, json) prog"

fun auditStep :: "'w auditCall \<Rightarrow> auditLog list \<times> 'w \<Rightarrow> auditLog list \<times> 'w" where
  "auditStep (Record env e) (logs, w) = (snd (audit_log env e logs), w)"
| "auditStep (Read t f) (logs, w) = (snd (getLogs t f logs), w)"
| "auditStep Overwrite (logs, w) = (snd (audit_update logs), w)"
| "auditStep Erase (logs, w) = (snd (audit_delete logs), w)"
| "auditStep (Serve env rq handle) s = snd (intercept env rq handle s)"

lemma auditStep_appends: "prefix (fst s) (fst (auditStep call s))"
proof (cases call)
  case (Serve env rq handle)
  obtain r logs' w' where i: "intercept env rq handle (fst s, snd s) = (r, (logs', w'))"
    by (metis surj_pair)
  then have "prefix (fst s) logs'"
    unfolding intercept_run by (simp add: audit_log_appends)
  with i Serve show ?thesis by simp
qed (cases s; simp add: audit_log_appends getLogs_def Let_def andThen_def get_state_def return_def
       audit_update_def audit_delete_def throw_def)+

lemma audit_trail_append_only: "prefix (fst s) (fst (foldl (\<lambda>t c. auditStep c t) s calls))"
proof (induction calls arbitrary: s)
  case (Cons c cs)
  show ?case using prefix_order.trans[OF auditStep_appends Cons.IH] by simp
qed simp

section \<open>What is left out\<close>

text \<open>Two bodies with the same members that differ in the values of the sensitive ones only.\<close>

definition same_but_secrets :: "entries \<Rightarrow> entries \<Rightarrow> bool" where
  "same_but_secrets = list_all2 (\<lambda>m m'. fst m = fst m' \<and> (snd m = snd m' \<or> fst m \<in> set sensitive_fields))"

lemma redact_same: "same_but_secrets ms ms' \<Longrightarrow> map redact ms = map redact ms'"
  unfolding same_but_secrets_def
  by (induction rule: list_all2_induct) (auto simp: redact_def prod_eq_iff)

lemma sanitizeValues_same:
  assumes "same_but_secrets ms ms'"
  shows "sanitizeValues (JObj ms) = sanitizeValues (JObj ms')"
  using redact_same[OF assms] by (simp add: sanitizeValues_def)

lemma audit_subject_body: "audit_subject (rq\<lparr>aq_body := b\<rparr>) = audit_subject rq"
  by (simp add: audit_subject_def Let_def)

lemma answer_entry_same:
  assumes "sanitizeValues b = sanitizeValues b'"
  shows "answer_entry (rq\<lparr>aq_body := b\<rparr>) r = answer_entry (rq\<lparr>aq_body := b'\<rparr>) r"
  using assms
  by (simp add: answer_entry_def success_entry_def failure_entry_def request_entry_def audit_subject_body split: sum.split)

lemma intercept_same:
  assumes "sanitizeValues b = sanitizeValues b'"
  shows "intercept env (rq\<lparr>aq_body := b\<rparr>) handle = intercept env (rq\<lparr>aq_body := b'\<rparr>) handle"
proof -
  have "audited (rq\<lparr>aq_body := b\<rparr>) = audited (rq\<lparr>aq_body := b'\<rparr>)" by (simp add: audited_def)
  then show ?thesis unfolding intercept_def answer_entry_same[OF assms] by (rule subst) (rule refl)
qed

text \<open>Every other member of a short body is stored as it is, whatever its name suggests.\<close>

lemma other_members_stored:
  assumes "(k, v) \<in> set ms" "k \<notin> set sensitive_fields" "length (stringify (JObj (map redact ms))) \<le> 5000"
  shows "\<exists>xs. sanitizeValues (JObj ms) = JObj xs \<and> (k, v) \<in> set xs"
proof -
  have "(k, v) \<in> set (map redact ms)" using assms(1,2) by (force simp: redact_def)
  moreover have "sanitizeValues (JObj ms) = JObj (map redact ms)" using assms(3) by (simp add: sanitizeValues_def)
  ultimately show ?thesis by blast
qed

section \<open>Records that are lost\<close>

context audit_columns begin

lemma foreign_id_lost:
  assumes "at_refuses env = refuses" "al_entityId e = Some i" "i \<noteq> []" "\<not> list_all uuid_char i"
  shows "audit_log env e logs = (Inr None, logs)"
proof -
  have "al_entityId (audit_data e) = Some i" using assms(2,3) by (simp add: audit_data_def or_null_def)
  from entity_id_is_uuid[OF this assms(4)] show ?thesis using assms(1) by (auto simp: audit_log_run)
qed

lemma long_failure_lost:
  assumes "at_refuses env = refuses" "handle w = (Inl err, w')"
    and "100 < length (aq_method rq) + length (aq_url rq) + 8"
  shows "intercept env rq handle (logs, w) = (Inl err, (logs, w'))"
proof -
  have "100 < length (al_action (audit_data (answer_entry rq (Inl err))))"
    using assms(3) by (simp add: audit_data_def answer_entry_def failure_entry_def request_entry_def)
  from action_length[OF this] show ?thesis using assms(1,2) by (auto simp: intercept_def audit_log_run)
qed

end

end
