(* ===== verification/Agent_Approvals.thy ===== *)
theory Agent_Approvals
  imports Audit_Service
begin

text \<open>
  \<^verbatim>\<open>eleva/eleva.service.ts\<close>: the state of the assistant, its capabilities and the approvals recorded for
  its actions, all in the memory of the process, and the audit records it hands over. A JavaScript
  \<^verbatim>\<open>Map\<close> is an association list in the order of insertion, updated in place. The date format and the
  audit service, which may be missing, are the environment of a call.
\<close>

section \<open>State\<close>

record agentEnv =
  ge_now :: int
  ge_iso :: "int \<Rightarrow> string"
  ge_auditService :: bool

datatype AgentStatus = IDLE | RUNNING | ERROR

fun show_agent_status :: "AgentStatus \<Rightarrow> string" where
  "show_agent_status IDLE = ''IDLE''"
| "show_agent_status RUNNING = ''RUNNING''"
| "show_agent_status ERROR = ''ERROR''"

record AgentCapabilityDefinition =
  cd_name :: string
  cd_description :: string
  cd_enabled :: bool

record approvalRecord =
  ap_approved :: bool
  ap_capability :: string
  ap_requestedAt :: int
  ap_approvedAt :: int
  ap_executedAt :: "int option"
  ap_revokedAt :: "int option"

record elevaState =
  el_status :: AgentStatus
  el_activeCapability :: "string option"
  el_updatedAt :: int
  el_capabilities :: "(string \<times> AgentCapabilityDefinition) list"
  el_approvals :: "(string \<times> approvalRecord) list"
  el_audit :: "AuditLogEntry list"

text \<open>What every service of the assistant hands to the audit service; members that are undefined are not in \<open>values\<close>.\<close>

definition agent_entry :: "string \<Rightarrow> string \<Rightarrow> string \<Rightarrow> string option \<Rightarrow> json \<Rightarrow> AuditLogEntry" where
  "agent_entry userAgent action entityName entityId values =
     \<lparr>al_tenantId = None, al_userId = None, al_action = action, al_entityName = entityName, al_entityId = entityId,
      al_oldValues = JNull, al_newValues = values, al_ipAddress = ''system'', al_userAgent = userAgent\<rparr>"

definition opt_str :: "string option \<Rightarrow> json" where
  "opt_str x = (case x of None \<Rightarrow> JNull | Some s \<Rightarrow> JStr s)"

text \<open>The members of an object whose values are not undefined.\<close>

definition defined :: "(string \<times> json option) list \<Rightarrow> entries" where
  "defined ms = concat (map (\<lambda>(k, v). case v of None \<Rightarrow> [] | Some x \<Rightarrow> [(k, x)]) ms)"

definition eleva_emitAudit :: "agentEnv \<Rightarrow> string \<Rightarrow> string \<Rightarrow> string option \<Rightarrow> entries \<Rightarrow> (elevaState, unit) prog" where
  "eleva_emitAudit env action entityName entityId values =
     (if \<not> ge_auditService env then return ()
      else modify (\<lambda>s. s\<lparr>el_audit := el_audit s @ [agent_entry ''eleva-service'' action entityName entityId (JObj values)]\<rparr>))"

section \<open>Status and capabilities\<close>

definition changeStatus :: "agentEnv \<Rightarrow> AgentStatus \<Rightarrow> string option \<Rightarrow> (elevaState, unit) prog" where
  "changeStatus env st capability =
     modify (\<lambda>s. s\<lparr>el_status := st, el_activeCapability := capability, el_updatedAt := ge_now env\<rparr>)"

definition setStatus :: "agentEnv \<Rightarrow> AgentStatus \<Rightarrow> string option \<Rightarrow> (elevaState, unit) prog" where
  "setStatus env st activeCapability =
     andThen get_state (\<lambda>previous.
     andThen (changeStatus env st activeCapability) (\<lambda>_.
     eleva_emitAudit env ''AGENT.SET_STATUS'' ''ElevaState'' None
       [(''previous'', JStr (show_agent_status (el_status previous))), (''status'', JStr (show_agent_status st)),
        (''activeCapability'', opt_str activeCapability)]))"

definition startCapability :: "agentEnv \<Rightarrow> string \<Rightarrow> (elevaState, unit) prog" where
  "startCapability env capability =
     andThen get_state (\<lambda>previous.
     case map_of (el_capabilities previous) capability of
       Some d \<Rightarrow>
         (if cd_enabled d then
            andThen (changeStatus env RUNNING (Some capability)) (\<lambda>_.
            eleva_emitAudit env ''AGENT.START_CAPABILITY'' ''ElevaCapability'' (Some capability)
              [(''previousStatus'', JStr (show_agent_status (el_status previous))), (''status'', JStr ''RUNNING''),
               (''capability'', JStr capability)])
          else return ())
     | None \<Rightarrow> return ())"

definition leaveCapability :: "agentEnv \<Rightarrow> string \<Rightarrow> AgentStatus \<Rightarrow> (elevaState, unit) prog" where
  "leaveCapability env action st =
     andThen get_state (\<lambda>previous.
     andThen (changeStatus env st None) (\<lambda>_.
     eleva_emitAudit env action ''ElevaCapability'' (el_activeCapability previous)
       [(''previousStatus'', JStr (show_agent_status (el_status previous))), (''status'', JStr (show_agent_status st))]))"

definition stopCapability :: "agentEnv \<Rightarrow> (elevaState, unit) prog" where
  "stopCapability env = leaveCapability env ''AGENT.STOP_CAPABILITY'' IDLE"

definition failCapability :: "agentEnv \<Rightarrow> (elevaState, unit) prog" where
  "failCapability env = leaveCapability env ''AGENT.FAIL_CAPABILITY'' ERROR"

definition registerCapability ::
  "agentEnv \<Rightarrow> AgentCapabilityDefinition \<Rightarrow> (elevaState, AgentCapabilityDefinition option) prog" where
  "registerCapability env d =
     andThen get_state (\<lambda>s.
     let existing = map_of (el_capabilities s) (cd_name d) in
     andThen (modify (\<lambda>s. s\<lparr>el_capabilities := AList.update (cd_name d) d (el_capabilities s)\<rparr>)) (\<lambda>_.
     andThen (eleva_emitAudit env ''AGENT.REGISTER_CAPABILITY'' ''ElevaCapability'' (Some (cd_name d))
       [(''enabled'', JBool (cd_enabled d)), (''description'', JStr (cd_description d))]) (\<lambda>_.
     return existing)))"

definition getCapabilities :: "elevaState \<Rightarrow> AgentCapabilityDefinition list" where
  "getCapabilities s = map snd (el_capabilities s)"

text \<open>The constructor.\<close>

definition default_capabilities :: "AgentCapabilityDefinition list" where
  "default_capabilities = map (\<lambda>(n, d). \<lparr>cd_name = n, cd_description = d, cd_enabled = True\<rparr>)
    [(''ACCOUNTING'', ''Finance, invoicing, revenue tracking''), (''SAFETY'', ''Operational safety and guardrails''),
     (''DEVELOPMENT'', ''Engineering execution and build support''), (''ANALYTICS'', ''Sales, orders, revenue analysis''),
     (''DEVOPS'', ''CI/CD, deployments, infrastructure''), (''QA'', ''Testing and quality assurance''),
     (''PROJECT_MANAGEMENT'', ''Project tracking and coordination''), (''MONITORING'', ''System monitoring and alerting''),
     (''BACKUP'', ''Backup and recovery operations''), (''SECURITY'', ''Security monitoring and response'')]"

definition new_eleva :: "agentEnv \<Rightarrow> elevaState" where
  "new_eleva env = foldl (\<lambda>s d. snd (registerCapability env d s))
     \<lparr>el_status = IDLE, el_activeCapability = None, el_updatedAt = ge_now env, el_capabilities = [], el_approvals = [], el_audit = []\<rparr>
     default_capabilities"

definition agent_permissions :: "(string \<times> string) list" where
  "agent_permissions = [(''read'', ''project''), (''analyze'', ''system''), (''propose'', ''change''), (''execute'', ''low-risk''),
     (''deploy'', ''production''), (''security'', ''policy''), (''read'', ''agent'')]"

definition hasPermission :: "string \<Rightarrow> string \<Rightarrow> bool" where
  "hasPermission action resource \<longleftrightarrow> (action, resource) \<in> set agent_permissions"

section \<open>Approvals\<close>

definition recordApproval :: "agentEnv \<Rightarrow> string \<Rightarrow> string \<Rightarrow> (elevaState, bool) prog" where
  "recordApproval env actionId capability =
     andThen (modify (\<lambda>s. s\<lparr>el_approvals := AList.update actionId
       \<lparr>ap_approved = True, ap_capability = capability, ap_requestedAt = ge_now env, ap_approvedAt = ge_now env,
        ap_executedAt = None, ap_revokedAt = None\<rparr> (el_approvals s)\<rparr>)) (\<lambda>_.
     andThen (eleva_emitAudit env ''AGENT.RECORD_APPROVAL'' ''ElevaApproval'' (Some actionId)
       [(''capability'', JStr capability), (''approved'', JBool True)]) (\<lambda>_.
     return True))"

definition revokeApproval :: "agentEnv \<Rightarrow> string \<Rightarrow> (elevaState, bool) prog" where
  "revokeApproval env actionId =
     andThen get_state (\<lambda>s.
     case map_of (el_approvals s) actionId of
       None \<Rightarrow> return False
     | Some existing \<Rightarrow>
         andThen (modify (\<lambda>s. s\<lparr>el_approvals := AList.update actionId
           (existing\<lparr>ap_approved := False, ap_revokedAt := Some (ge_now env)\<rparr>) (el_approvals s)\<rparr>)) (\<lambda>_.
         andThen (eleva_emitAudit env ''AGENT.REVOKE_APPROVAL'' ''ElevaApproval'' (Some actionId)
           [(''capability'', JStr (ap_capability existing)), (''approved'', JBool False)]) (\<lambda>_.
         return True)))"

definition markExecuted :: "agentEnv \<Rightarrow> string \<Rightarrow> (elevaState, bool) prog" where
  "markExecuted env actionId =
     andThen get_state (\<lambda>s.
     case map_of (el_approvals s) actionId of
       None \<Rightarrow> return False
     | Some existing \<Rightarrow>
         andThen (modify (\<lambda>s. s\<lparr>el_approvals := AList.update actionId
           (existing\<lparr>ap_executedAt := Some (ge_now env)\<rparr>) (el_approvals s)\<rparr>)) (\<lambda>_.
         andThen (eleva_emitAudit env ''AGENT.MARK_EXECUTED'' ''ElevaApproval'' (Some actionId)
           [(''capability'', JStr (ap_capability existing)), (''approvedAt'', JStr (ge_iso env (ap_approvedAt existing))),
            (''executedAt'', JStr (ge_iso env (ge_now env)))]) (\<lambda>_.
         return True)))"

definition isApproved :: "string \<Rightarrow> elevaState \<Rightarrow> bool" where
  "isApproved actionId s =
     (case map_of (el_approvals s) actionId of None \<Rightarrow> False
      | Some approval \<Rightarrow> ap_approved approval \<and> ap_revokedAt approval = None)"

record AgentApprovalResponse =
  av_actionId :: string
  av_approved :: bool
  av_capability :: "string option"
  av_approvedAt :: "string option"
  av_revokedAt :: "string option"
  av_executedAt :: "string option"

definition mapApproval :: "agentEnv \<Rightarrow> string \<Rightarrow> approvalRecord \<Rightarrow> AgentApprovalResponse" where
  "mapApproval env actionId r =
     \<lparr>av_actionId = actionId, av_approved = ap_approved r, av_capability = Some (ap_capability r),
      av_approvedAt = Some (ge_iso env (ap_approvedAt r)), av_revokedAt = map_option (ge_iso env) (ap_revokedAt r),
      av_executedAt = map_option (ge_iso env) (ap_executedAt r)\<rparr>"

definition listPendingApprovals :: "agentEnv \<Rightarrow> elevaState \<Rightarrow> AgentApprovalResponse list" where
  "listPendingApprovals env s =
     map (\<lambda>(i, r). mapApproval env i r)
       (filter (\<lambda>(i, r). ap_approved r \<and> ap_revokedAt r = None \<and> ap_executedAt r = None) (el_approvals s))"

definition getApproval :: "agentEnv \<Rightarrow> string \<Rightarrow> elevaState \<Rightarrow> AgentApprovalResponse" where
  "getApproval env actionId s =
     (case map_of (el_approvals s) actionId of
        None \<Rightarrow> \<lparr>av_actionId = actionId, av_approved = False, av_capability = None, av_approvedAt = None,
                 av_revokedAt = None, av_executedAt = None\<rparr>
      | Some r \<Rightarrow> mapApproval env actionId r)"

definition assertApproved :: "string \<Rightarrow> (elevaState, unit) prog" where
  "assertApproved actionId = andThen get_state (\<lambda>s. guard (isApproved actionId s) (JsError (''Action ['' @ actionId @
     ''] is not approved. Execute through the M2 approval pipeline before continuing.'')))"

definition assertActionVerified :: "bool \<Rightarrow> string \<Rightarrow> (elevaState, unit) prog" where
  "assertActionVerified verified actionId = guard verified (JsError (''Action ['' @ actionId @
     ''] verification failed. Unverified results must not be treated as verified.''))"

definition assertNotExecuted :: "string \<Rightarrow> (elevaState, unit) prog" where
  "assertNotExecuted actionId = andThen get_state (\<lambda>s.
     guard (\<not> (case map_of (el_approvals s) actionId of None \<Rightarrow> False | Some r \<Rightarrow> ap_approved r))
       (JsError (''Action ['' @ actionId @ ''] has already been approved as executed. Do not claim execution twice.'')))"

section \<open>An action in isolation\<close>

text \<open>The life of one action: never approved, or approved or not, and executed or not since it was approved.\<close>

datatype elevaCall =
    SetStatus AgentStatus "string option"
  | StartCapability string
  | StopCapability
  | FailCapability
  | RegisterCapability AgentCapabilityDefinition
  | RecordApproval string string
  | RevokeApproval string
  | MarkExecuted string

fun elevaStep :: "elevaState \<Rightarrow> agentEnv \<times> elevaCall \<Rightarrow> elevaState" where
  "elevaStep s (env, SetStatus st c) = snd (setStatus env st c s)"
| "elevaStep s (env, StartCapability c) = snd (startCapability env c s)"
| "elevaStep s (env, StopCapability) = snd (stopCapability env s)"
| "elevaStep s (env, FailCapability) = snd (failCapability env s)"
| "elevaStep s (env, RegisterCapability d) = snd (registerCapability env d s)"
| "elevaStep s (env, RecordApproval a c) = snd (recordApproval env a c s)"
| "elevaStep s (env, RevokeApproval a) = snd (revokeApproval env a s)"
| "elevaStep s (env, MarkExecuted a) = snd (markExecuted env a s)"

record standing =
  sd_approved :: bool
  sd_executed :: bool

fun standingStep :: "string \<Rightarrow> standing option \<Rightarrow> elevaCall \<Rightarrow> standing option" where
  "standingStep a v (RecordApproval b c) = (if a = b then Some \<lparr>sd_approved = True, sd_executed = False\<rparr> else v)"
| "standingStep a v (RevokeApproval b) = (if a = b then map_option (\<lambda>x. x\<lparr>sd_approved := False\<rparr>) v else v)"
| "standingStep a v (MarkExecuted b) = (if a = b then map_option (\<lambda>x. x\<lparr>sd_executed := True\<rparr>) v else v)"
| "standingStep a v _ = v"

definition standing_of :: "string \<Rightarrow> elevaCall list \<Rightarrow> standing option" where
  "standing_of a calls = foldl (standingStep a) None calls"

definition view :: "approvalRecord \<Rightarrow> standing" where
  "view r = \<lparr>sd_approved = ap_approved r, sd_executed = (ap_executedAt r \<noteq> None)\<rparr>"

text \<open>A record is revoked exactly when it is not approved, and no action has two.\<close>

definition coherent :: "approvalRecord \<Rightarrow> bool" where
  "coherent r \<longleftrightarrow> ap_approved r = (ap_revokedAt r = None)"

definition approvals_ok :: "elevaState \<Rightarrow> bool" where
  "approvals_ok s \<longleftrightarrow> distinct (map fst (el_approvals s)) \<and>
     (\<forall>r \<in> snd ` set (el_approvals s). coherent r)"

lemmas eleva_defs = setStatus_def startCapability_def stopCapability_def failCapability_def leaveCapability_def
  changeStatus_def registerCapability_def recordApproval_def revokeApproval_def markExecuted_def eleva_emitAudit_def

lemma preserves_approvals:
  "preserves el_approvals (setStatus env st c)" "preserves el_approvals (startCapability env x)"
  "preserves el_approvals (stopCapability env)" "preserves el_approvals (failCapability env)"
  "preserves el_approvals (registerCapability env d)"
  by (simp_all add: preserves_def eleva_defs andThen_def get_state_def modify_def return_def Let_def split: option.splits)

lemma recordApproval_approvals:
  "el_approvals (snd (recordApproval env a c s)) = AList.update a
     \<lparr>ap_approved = True, ap_capability = c, ap_requestedAt = ge_now env, ap_approvedAt = ge_now env,
      ap_executedAt = None, ap_revokedAt = None\<rparr> (el_approvals s)"
  by (simp add: eleva_defs andThen_def modify_def return_def)

lemma revokeApproval_approvals:
  "el_approvals (snd (revokeApproval env a s)) =
     (case map_of (el_approvals s) a of None \<Rightarrow> el_approvals s
      | Some r \<Rightarrow> AList.update a (r\<lparr>ap_approved := False, ap_revokedAt := Some (ge_now env)\<rparr>) (el_approvals s))"
  by (simp add: eleva_defs andThen_def get_state_def modify_def return_def split: option.splits)

lemma markExecuted_approvals:
  "el_approvals (snd (markExecuted env a s)) =
     (case map_of (el_approvals s) a of None \<Rightarrow> el_approvals s
      | Some r \<Rightarrow> AList.update a (r\<lparr>ap_executedAt := Some (ge_now env)\<rparr>) (el_approvals s))"
  by (simp add: eleva_defs andThen_def get_state_def modify_def return_def split: option.splits)

lemmas approvals_after = recordApproval_approvals revokeApproval_approvals markExecuted_approvals
  preserves_approvals[unfolded preserves_def, rule_format]

lemma elevaStep_view:
  "map_option view (map_of (el_approvals (elevaStep s (env, call))) a) =
   standingStep a (map_option view (map_of (el_approvals s) a)) call"
  by (cases call) (auto simp: approvals_after update_conv view_def split: option.splits)

lemma update_values: "snd ` set (AList.update k v al) \<subseteq> insert v (snd ` set al)"
  by (induction al) auto

lemma elevaStep_ok:
  assumes "approvals_ok s"
  shows "approvals_ok (elevaStep s c)"
proof -
  obtain env call where c: "c = (env, call)" by (cases c)
  have upd: "approvals_ok (s\<lparr>el_approvals := AList.update a r (el_approvals s)\<rparr>)" if "coherent r" for a r
    using assms that subsetD[OF update_values[of a r "el_approvals s"]]
    by (auto simp: approvals_ok_def distinct_update simp del: ball_simps)
  have same: "approvals_ok s' = approvals_ok (s\<lparr>el_approvals := el_approvals s'\<rparr>)" for s'
    by (simp add: approvals_ok_def)
  have old: "coherent r" if "map_of (el_approvals s) a = Some r" for a r
    using assms map_of_SomeD[OF that] by (force simp: approvals_ok_def)
  have upds: "coherent (r\<lparr>ap_approved := False, ap_revokedAt := Some t\<rparr>)"
      "coherent r \<Longrightarrow> coherent (r\<lparr>ap_executedAt := x\<rparr>)" for r t x
    by (simp_all add: coherent_def)
  have unchanged: "approvals_ok s'" if "el_approvals s' = el_approvals s" for s'
    using assms that by (simp add: approvals_ok_def)
  show ?thesis
  proof (cases call)
    case (RecordApproval a x)
    then show ?thesis unfolding c same[of "elevaStep s (env, call)"] by (simp add: approvals_after upd coherent_def)
  next
    case (RevokeApproval a)
    then show ?thesis unfolding c same[of "elevaStep s (env, call)"]
      by (cases "map_of (el_approvals s) a") (simp_all add: approvals_after upd upds assms)
  next
    case (MarkExecuted a)
    then show ?thesis unfolding c same[of "elevaStep s (env, call)"]
      by (cases "map_of (el_approvals s) a") (simp_all add: approvals_after upd upds(2)[OF old] assms)
  qed (simp_all add: c unchanged approvals_after)
qed

lemma new_eleva_approvals: "el_approvals (new_eleva env) = []"
  by (simp add: new_eleva_def default_capabilities_def approvals_after)

lemma run_view:
  "map_option view (map_of (el_approvals (foldl elevaStep s calls)) a) =
   foldl (standingStep a) (map_option view (map_of (el_approvals s) a)) (map snd calls)"
  by (induction calls arbitrary: s) (auto simp: elevaStep_view)

lemma run_ok: "approvals_ok s \<Longrightarrow> approvals_ok (foldl elevaStep s calls)"
  by (induction calls arbitrary: s) (auto intro: elevaStep_ok)

lemma isApproved_view:
  assumes "approvals_ok s"
  shows "isApproved a s \<longleftrightarrow> (\<exists>v. map_option view (map_of (el_approvals s) a) = Some v \<and> sd_approved v)"
proof (cases "map_of (el_approvals s) a")
  case (Some r)
  then have "coherent r" using assms map_of_SomeD[OF Some] by (force simp: approvals_ok_def)
  with Some show ?thesis by (auto simp: isApproved_def view_def coherent_def)
qed (simp add: isApproved_def)

lemma getApproval_approved:
  "av_approved (getApproval env a s) \<longleftrightarrow> (\<exists>v. map_option view (map_of (el_approvals s) a) = Some v \<and> sd_approved v)"
  by (auto simp: getApproval_def mapApproval_def view_def split: option.splits)

lemma listPendingApprovals_view:
  assumes "approvals_ok s"
  shows "a \<in> av_actionId ` set (listPendingApprovals env s) \<longleftrightarrow>
    map_option view (map_of (el_approvals s) a) = Some \<lparr>sd_approved = True, sd_executed = False\<rparr>"
proof -
  have ok: "ap_revokedAt r = None" if "(i, r) \<in> set (el_approvals s)" "ap_approved r" for i r
    using assms that by (force simp: approvals_ok_def coherent_def)
  have dist: "distinct (map fst (el_approvals s))" using assms by (simp add: approvals_ok_def)
  have "a \<in> av_actionId ` set (listPendingApprovals env s) \<longleftrightarrow>
    (\<exists>r. (a, r) \<in> set (el_approvals s) \<and> ap_approved r \<and> ap_executedAt r = None)"
    using ok by (fastforce simp: listPendingApprovals_def mapApproval_def image_iff)
  also have "\<dots> \<longleftrightarrow> (\<exists>r. map_of (el_approvals s) a = Some r \<and> ap_approved r \<and> ap_executedAt r = None)"
    using dist by simp
  finally show ?thesis by (auto simp: view_def)
qed

lemma run_standing:
  assumes "s = foldl elevaStep (new_eleva env0) calls"
  shows "isApproved a s \<longleftrightarrow> (\<exists>v. standing_of a (map snd calls) = Some v \<and> sd_approved v)"
    and "av_approved (getApproval env a s) \<longleftrightarrow> isApproved a s"
    and "a \<in> av_actionId ` set (listPendingApprovals env s) \<longleftrightarrow>
         standing_of a (map snd calls) = Some \<lparr>sd_approved = True, sd_executed = False\<rparr>"
proof -
  have ok: "approvals_ok s" unfolding assms by (rule run_ok) (simp add: approvals_ok_def new_eleva_approvals)
  have v: "map_option view (map_of (el_approvals s) a) = standing_of a (map snd calls)"
    by (simp add: assms run_view standing_of_def new_eleva_approvals)
  show "isApproved a s \<longleftrightarrow> (\<exists>v. standing_of a (map snd calls) = Some v \<and> sd_approved v)"
    using isApproved_view[OF ok, of a] v by simp
  show "av_approved (getApproval env a s) \<longleftrightarrow> isApproved a s"
    using isApproved_view[OF ok, of a] getApproval_approved[of env a s] by simp
  show "a \<in> av_actionId ` set (listPendingApprovals env s) \<longleftrightarrow>
         standing_of a (map snd calls) = Some \<lparr>sd_approved = True, sd_executed = False\<rparr>"
    using listPendingApprovals_view[OF ok, of a env] v by simp
qed

text \<open>Being executed does not use an approval up.\<close>

lemma markExecuted_keeps_approval: "isApproved a (snd (markExecuted env b s)) = isApproved a s"
  by (auto simp: isApproved_def approvals_after update_conv split: option.splits)

end
