(* ===== verification/Agent_Execution.thy ===== *)
theory Agent_Execution
  imports Agent_Approvals
begin

text \<open>
  \<^verbatim>\<open>eleva/agent.execution.ts\<close> with the types of \<^verbatim>\<open>eleva/agent.task.ts\<close>: the registry of tools and the
  pipeline a task goes through: authorisation, approval, validation, execution, verification, and an
  audit record at every exit. A tool works on a world of its own (the type \<open>'w\<close>); what it does, and what
  it verifies, is its own matter.
\<close>

section \<open>Tasks and tools\<close>

datatype AgentTaskStatus =
    Task_PENDING | Task_VALIDATED | Task_AUTHORIZED | Task_APPROVAL_REQUIRED | Task_APPROVAL_DENIED | Task_EXECUTING
  | Task_EXECUTED | Task_VERIFIED | Task_FAILED | Task_REJECTED | Task_AUDITED

datatype AgentTaskOutcome =
    Outcome_AUTHORIZED | Outcome_APPROVAL_REQUIRED | Outcome_APPROVAL_DENIED | Outcome_UNAUTHORIZED | Outcome_INVALID_INPUT
  | Outcome_TOOL_FAILURE | Outcome_VERIFICATION_FAILURE | Outcome_EXECUTED | Outcome_AUDITED

datatype AgentToolRisk = LOW | SENSITIVE | HIGH

fun show_task_status :: "AgentTaskStatus \<Rightarrow> string" where
  "show_task_status Task_PENDING = ''PENDING''"
| "show_task_status Task_VALIDATED = ''VALIDATED''"
| "show_task_status Task_AUTHORIZED = ''AUTHORIZED''"
| "show_task_status Task_APPROVAL_REQUIRED = ''APPROVAL_REQUIRED''"
| "show_task_status Task_APPROVAL_DENIED = ''APPROVAL_DENIED''"
| "show_task_status Task_EXECUTING = ''EXECUTING''"
| "show_task_status Task_EXECUTED = ''EXECUTED''"
| "show_task_status Task_VERIFIED = ''VERIFIED''"
| "show_task_status Task_FAILED = ''FAILED''"
| "show_task_status Task_REJECTED = ''REJECTED''"
| "show_task_status Task_AUDITED = ''AUDITED''"

fun show_outcome :: "AgentTaskOutcome \<Rightarrow> string" where
  "show_outcome Outcome_AUTHORIZED = ''AUTHORIZED''"
| "show_outcome Outcome_APPROVAL_REQUIRED = ''APPROVAL_REQUIRED''"
| "show_outcome Outcome_APPROVAL_DENIED = ''APPROVAL_DENIED''"
| "show_outcome Outcome_UNAUTHORIZED = ''UNAUTHORIZED''"
| "show_outcome Outcome_INVALID_INPUT = ''INVALID_INPUT''"
| "show_outcome Outcome_TOOL_FAILURE = ''TOOL_FAILURE''"
| "show_outcome Outcome_VERIFICATION_FAILURE = ''VERIFICATION_FAILURE''"
| "show_outcome Outcome_EXECUTED = ''EXECUTED''"
| "show_outcome Outcome_AUDITED = ''AUDITED''"

fun show_risk :: "AgentToolRisk \<Rightarrow> string" where
  "show_risk LOW = ''LOW''"
| "show_risk SENSITIVE = ''SENSITIVE''"
| "show_risk HIGH = ''HIGH''"

record AgentTaskRequest =
  rt_action :: string
  rt_toolName :: "string option"
  rt_capability :: "string option"
  rt_risk :: "AgentToolRisk option"
  rt_input :: "entries option"
  rt_approvalActionId :: "string option"

record 'w AgentToolDefinition =
  tl_name :: string
  tl_capability :: string
  tl_requiredPermission :: requiredPermission
  tl_risk :: AgentToolRisk
  tl_requiresApproval :: bool
  tl_inputContract :: entries
  tl_execute :: "entries \<Rightarrow> ('w, entries) prog"
  tl_verify :: "(entries \<Rightarrow> entries \<Rightarrow> ('w, bool) prog) option"

text \<open>The members \<^verbatim>\<open>auditAction\<close>, \<^verbatim>\<open>auditEntityName\<close>, \<^verbatim>\<open>auditEntityId\<close> and \<^verbatim>\<open>auditedAt\<close> of a result are never set.\<close>

record AgentTaskResult =
  tr_taskId :: string
  tr_status :: AgentTaskStatus
  tr_outcome :: AgentTaskOutcome
  tr_action :: string
  tr_toolName :: "string option"
  tr_requiredPermission :: "requiredPermission option"
  tr_risk :: "AgentToolRisk option"
  tr_approvalRequired :: "bool option"
  tr_approvalGranted :: "bool option"
  tr_authorizationError :: "string option"
  tr_validationError :: "string option"
  tr_toolError :: "string option"
  tr_verificationError :: "string option"
  tr_result :: "entries option"
  tr_verification :: "bool option"
  tr_executedAt :: "int option"

section \<open>The registry\<close>

type_synonym 'w registry = "(string \<times> 'w AgentToolDefinition) list"

definition SAFE_TOOL_NAME :: string where
  "SAFE_TOOL_NAME = ''agent.safe_demo_tool''"

definition message_text :: "entries \<Rightarrow> string" where
  "message_text ms = string_or_empty (member_of (JObj ms) ''message'')"

definition safe_tool :: "'w AgentToolDefinition" where
  "safe_tool = \<lparr>tl_name = SAFE_TOOL_NAME, tl_capability = ''DEVELOPMENT'',
     tl_requiredPermission = \<lparr>rp_action = ''execute'', rp_resource = ''low-risk''\<rparr>, tl_risk = LOW, tl_requiresApproval = False,
     tl_inputContract = [(''message'', JObj [(''type'', JStr ''string'')])],
     tl_execute = (\<lambda>input. return [(''echoed'', JStr (message_text input))]),
     tl_verify = Some (\<lambda>input result. return (member_of (JObj result) ''echoed'' = JStr (message_text input)))\<rparr>"

definition registerTool :: "'w AgentToolDefinition \<Rightarrow> 'w registry \<Rightarrow> 'w registry" where
  "registerTool tool tools = AList.update (tl_name tool) tool tools"

definition new_registry :: "'w registry" where
  "new_registry = registerTool safe_tool []"

definition getTool :: "'w registry \<Rightarrow> string \<Rightarrow> 'w AgentToolDefinition option" where
  "getTool tools n = map_of tools n"

definition listTools :: "'w registry \<Rightarrow> 'w AgentToolDefinition list" where
  "listTools tools = map snd tools"

section \<open>Abilities on a subject type\<close>

text \<open>
  \<^verbatim>\<open>ability.can(action, subject)\<close> with the name of a subject: a rule with conditions then counts without
  them when it grants, and not at all when it forbids.
\<close>

definition type_rule :: "string \<Rightarrow> string \<Rightarrow> rule \<Rightarrow> bool" where
  "type_rule action subj r \<longleftrightarrow>
     (ru_action r = action \<or> ru_action r = ''manage'') \<and> (ru_subject r = subj \<or> ru_subject r = ''all'') \<and>
     (ru_condition r \<noteq> None \<longrightarrow> \<not> ru_inverted r)"

type_synonym casl_type = "rule list \<Rightarrow> string \<Rightarrow> string \<Rightarrow> bool"

locale type_ability =
  fixes can :: casl_type
  assumes last_rule: "can rules action subj =
    (case List.find (type_rule action subj) (rev rules) of None \<Rightarrow> False | Some r \<Rightarrow> \<not> ru_inverted r)"

definition last_type_rule :: casl_type where
  "last_type_rule rules action subj =
    (case List.find (type_rule action subj) (rev rules) of None \<Rightarrow> False | Some r \<Rightarrow> \<not> ru_inverted r)"

interpretation last_type_rule: type_ability last_type_rule
  by unfold_locales (simp add: last_type_rule_def)

section \<open>The pipeline\<close>

record execEnv = agentEnv +
  ge_taskId :: string

record 'w agentSite =
  ag_world :: 'w
  ag_audit :: "AuditLogEntry list"

definition resolveTool :: "'w registry \<Rightarrow> AgentTaskRequest \<Rightarrow> exn + 'w AgentToolDefinition" where
  "resolveTool tools request =
     (let named = (if truthy (rt_toolName request) then getTool tools (the (rt_toolName request)) else None);
          capable = (if truthy (rt_capability request)
                     then List.find (\<lambda>t. tl_capability t = the (rt_capability request)) (listTools tools) else None) in
      case named of Some t \<Rightarrow> Inr t
      | None \<Rightarrow> (case capable of Some t \<Rightarrow> Inr t
      | None \<Rightarrow> (case getTool tools SAFE_TOOL_NAME of Some t \<Rightarrow> Inr t
      | None \<Rightarrow> Inl (NotFoundException ''No authorized ELEVA tool is available for the requested task.''))))"

definition requireUser :: "authenticatedUser option \<Rightarrow> exn + authenticatedUser" where
  "requireUser user = (case user of Some u \<Rightarrow> Inr u
     | None \<Rightarrow> Inl (ForbiddenException ''Authentication credentials were not resolved before the ELEVA task pipeline.''))"

text \<open>\<open>None\<close> when the task is allowed, and otherwise the error.\<close>

definition authorizeTask :: "casl_type \<Rightarrow> rule list \<Rightarrow> 'w AgentToolDefinition \<Rightarrow> string option" where
  "authorizeTask can ability tool =
     (let p = tl_requiredPermission tool in
      if can ability (rp_action p) (rp_resource p) then None
      else Some (''Access Denied: ELEVA task requires ['' @ rp_action p @ '' on '' @ rp_resource p @ ''] for tool ['' @ tl_name tool @ ''].''))"

definition evaluateApproval :: "authenticatedUser \<Rightarrow> string option \<Rightarrow> 'w AgentToolDefinition \<Rightarrow> bool" where
  "evaluateApproval user approvalActionId tool = True"

definition validateInput :: "entries \<Rightarrow> entries option \<Rightarrow> string + entries" where
  "validateInput contract input =
     (case input of Some i \<Rightarrow> Inr i
      | None \<Rightarrow> if contract = [] then Inr [] else Inl ''Missing required task input.'')"

definition task_values :: "execEnv \<Rightarrow> AgentTaskResult \<Rightarrow> entries" where
  "task_values env r = defined
     [(''taskId'', Some (JStr (ge_taskId env))), (''status'', Some (JStr (show_task_status (tr_status r)))),
      (''outcome'', Some (JStr (show_outcome (tr_outcome r)))), (''action'', Some (JStr (tr_action r))),
      (''toolName'', map_option JStr (tr_toolName r)), (''risk'', map_option (\<lambda>x. JStr (show_risk x)) (tr_risk r)),
      (''approvalRequired'', map_option JBool (tr_approvalRequired r)), (''approvalGranted'', map_option JBool (tr_approvalGranted r)),
      (''authorizationError'', map_option JStr (tr_authorizationError r)), (''validationError'', map_option JStr (tr_validationError r)),
      (''toolError'', map_option JStr (tr_toolError r)), (''verificationError'', map_option JStr (tr_verificationError r)),
      (''verification'', map_option (\<lambda>b. JObj [(''passed'', JBool b)]) (tr_verification r)),
      (''executedAt'', map_option (\<lambda>t. JStr (ge_iso env t)) (tr_executedAt r)), (''auditedAt'', Some (JStr (ge_iso env (ge_now env))))]"

definition task_entry :: "execEnv \<Rightarrow> AgentTaskResult \<Rightarrow> AuditLogEntry" where
  "task_entry env r =
     agent_entry ''eleva-execution-pipeline'' ''AGENT.TASK'' ''ElevaTask'' (Some (ge_taskId env)) (JObj (task_values env r))"

text \<open>The exit of every branch: the result is handed to the audit service, which never fails, and returned.\<close>

definition answer :: "execEnv \<Rightarrow> AgentTaskResult \<Rightarrow> ('w agentSite, AgentTaskResult) prog" where
  "answer env result =
     andThen (if \<not> ge_auditService env then return ()
              else modify (\<lambda>s. s\<lparr>ag_audit := ag_audit s @ [task_entry env result]\<rparr>)) (\<lambda>_. return result)"

definition liftTool :: "('w, 'a) prog \<Rightarrow> ('w agentSite, 'a) prog" where
  "liftTool m = (\<lambda>s. case m (ag_world s) of (r, w) \<Rightarrow> (r, s\<lparr>ag_world := w\<rparr>))"

definition attempt :: "('s, 'a) prog \<Rightarrow> ('s, exn + 'a) prog" where
  "attempt m = (\<lambda>s. case m s of (r, s') \<Rightarrow> (Inr r, s'))"

definition task_result ::
  "execEnv \<Rightarrow> AgentTaskRequest \<Rightarrow> 'w AgentToolDefinition \<Rightarrow> AgentTaskStatus \<Rightarrow> AgentTaskOutcome \<Rightarrow> bool option \<Rightarrow> AgentTaskResult" where
  "task_result env request tool st outcome granted =
     \<lparr>tr_taskId = ge_taskId env, tr_status = st, tr_outcome = outcome, tr_action = rt_action request,
      tr_toolName = Some (tl_name tool), tr_requiredPermission = Some (tl_requiredPermission tool), tr_risk = Some (tl_risk tool),
      tr_approvalRequired = Some (tl_requiresApproval tool), tr_approvalGranted = granted, tr_authorizationError = None,
      tr_validationError = None, tr_toolError = None, tr_verificationError = None, tr_result = None, tr_verification = None,
      tr_executedAt = None\<rparr>"

definition granted_if_required :: "'w AgentToolDefinition \<Rightarrow> bool option" where
  "granted_if_required tool = (if tl_requiresApproval tool then Some True else None)"

definition conclusion ::
  "execEnv \<Rightarrow> AgentTaskRequest \<Rightarrow> 'w AgentToolDefinition \<Rightarrow> entries \<Rightarrow> bool option \<Rightarrow> AgentTaskResult" where
  "conclusion env request tool executionResult verification =
     (let failed = (task_result env request tool Task_FAILED Outcome_VERIFICATION_FAILURE (granted_if_required tool))
            \<lparr>tr_result := Some executionResult, tr_verificationError := Some ''Verification failed'', tr_verification := verification\<rparr> in
      if verification = Some False then failed
      else if (tl_risk tool = HIGH \<or> tl_risk tool = SENSITIVE) \<and> verification \<noteq> Some True then failed
      else (task_result env request tool Task_EXECUTED Outcome_EXECUTED (granted_if_required tool))
             \<lparr>tr_result := Some executionResult, tr_verification := verification, tr_executedAt := Some (ge_now env)\<rparr>)"

text \<open>From the verification on; an exception of \<^verbatim>\<open>verify\<close> is not caught.\<close>

definition verifyTask ::
  "execEnv \<Rightarrow> AgentTaskRequest \<Rightarrow> 'w AgentToolDefinition \<Rightarrow> entries \<Rightarrow> entries \<Rightarrow> ('w agentSite, AgentTaskResult) prog" where
  "verifyTask env request tool input executionResult =
     andThen (case tl_verify tool of
                Some verify \<Rightarrow> andThen (liftTool (verify input executionResult)) (\<lambda>passed. return (Some passed))
              | None \<Rightarrow> return None) (\<lambda>verification.
     answer env (conclusion env request tool executionResult verification))"

text \<open>From the validation on.\<close>

definition performTask ::
  "execEnv \<Rightarrow> AgentTaskRequest \<Rightarrow> 'w AgentToolDefinition \<Rightarrow> ('w agentSite, AgentTaskResult) prog" where
  "performTask env request tool =
     (case validateInput (tl_inputContract tool) (rt_input request) of
        Inl err \<Rightarrow> answer env ((task_result env request tool Task_REJECTED Outcome_INVALID_INPUT (granted_if_required tool))
                     \<lparr>tr_validationError := Some err\<rparr>)
      | Inr input \<Rightarrow>
          andThen (attempt (liftTool (tl_execute tool input))) (\<lambda>r. case r of
            Inl err \<Rightarrow> answer env ((task_result env request tool Task_FAILED Outcome_TOOL_FAILURE (granted_if_required tool))
                         \<lparr>tr_toolError := Some (exn_message err)\<rparr>)
          | Inr executionResult \<Rightarrow> verifyTask env request tool input executionResult))"

definition executeTask ::
  "casl_type \<Rightarrow> execEnv \<Rightarrow> 'w registry \<Rightarrow> AgentTaskRequest \<Rightarrow> authenticatedUser option \<Rightarrow> ('w agentSite, AgentTaskResult) prog" where
  "executeTask can env tools request user =
     andThen (of_result (resolveTool tools request)) (\<lambda>tool.
     andThen (of_result (requireUser user)) (\<lambda>u.
     case authorizeTask can (createForUser u) tool of
       Some err \<Rightarrow> answer env ((task_result env request tool Task_REJECTED Outcome_UNAUTHORIZED None)\<lparr>tr_authorizationError := Some err\<rparr>)
     | None \<Rightarrow>
         if tl_requiresApproval tool \<and> \<not> truthy (rt_approvalActionId request)
         then answer env (task_result env request tool Task_APPROVAL_REQUIRED Outcome_APPROVAL_REQUIRED (Some False))
         else if tl_requiresApproval tool \<and> \<not> evaluateApproval u (rt_approvalActionId request) tool
         then answer env (task_result env request tool Task_APPROVAL_DENIED Outcome_APPROVAL_DENIED (Some False))
         else performTask env request tool))"

section \<open>What an executed task has passed\<close>

definition audit_added :: "execEnv \<Rightarrow> AgentTaskResult \<Rightarrow> 'w agentSite \<Rightarrow> 'w agentSite \<Rightarrow> bool" where
  "audit_added env res s s' \<longleftrightarrow> ag_audit s' = ag_audit s @ (if ge_auditService env then [task_entry env res] else [])"

lemma answer_returns:
  assumes "answer env r s = (x, s')"
  shows "x = Inr r" "ag_world s' = ag_world s" "audit_added env r s s'"
  using assms by (auto simp: answer_def andThen_def modify_def return_def audit_added_def split: if_splits)

lemma liftTool_run: "liftTool m s = (r, s') \<longleftrightarrow> (\<exists>w. m (ag_world s) = (r, w) \<and> s' = s\<lparr>ag_world := w\<rparr>)"
  by (auto simp: liftTool_def split: prod.splits)

lemma attempt_run: "attempt m s = (x, s') \<longleftrightarrow> (\<exists>r. m s = (r, s') \<and> x = Inr r)"
  by (auto simp: attempt_def split: prod.splits)

lemma audit_added_world: "audit_added env r (s\<lparr>ag_world := w\<rparr>) s' = audit_added env r s s'"
  by (simp add: audit_added_def)

lemma task_result_outcome: "tr_outcome (task_result env request tool st outcome granted) = outcome"
  by (simp add: task_result_def)

lemma conclusion_outcome:
  "tr_outcome (conclusion env request tool out v) =
     (if v = Some True \<or> v = None \<and> tl_risk tool = LOW then Outcome_EXECUTED else Outcome_VERIFICATION_FAILURE)"
  by (cases "tl_risk tool"; cases v) (auto simp: conclusion_def Let_def task_result_outcome)

lemma conclusion_result: "tr_result (conclusion env request tool out v) = Some out"
  by (simp add: conclusion_def Let_def)

text \<open>What the tool has done to its world, and what was said of it.\<close>

definition verified_run :: "'w AgentToolDefinition \<Rightarrow> entries \<Rightarrow> entries \<Rightarrow> bool option \<Rightarrow> 'w \<Rightarrow> 'w \<Rightarrow> bool" where
  "verified_run tool input out v w w' \<longleftrightarrow>
     (case tl_verify tool of None \<Rightarrow> v = None \<and> w' = w | Some verify \<Rightarrow> \<exists>passed. v = Some passed \<and> verify input out w = (Inr passed, w'))"

lemma verifyTask_returns:
  assumes "verifyTask env request tool input out s = (Inr res, s')"
  obtains v where "res = conclusion env request tool out v" "audit_added env res s s'"
    "verified_run tool input out v (ag_world s) (ag_world s')"
proof -
  from assms obtain v s1 where v: "(case tl_verify tool of
                Some verify \<Rightarrow> andThen (liftTool (verify input out)) (\<lambda>passed. return (Some passed))
              | None \<Rightarrow> return None) s = (Inr v, s1)"
    and a: "answer env (conclusion env request tool out v) s1 = (Inr res, s')"
    unfolding verifyTask_def by (rule andThen_InrE)
  note ret = answer_returns[OF a]
  have run: "verified_run tool input out v (ag_world s) (ag_world s1) \<and> ag_audit s1 = ag_audit s"
  proof (cases "tl_verify tool")
    case None
    then have "v = None" "s1 = s" using v by (simp_all add: return_apply)
    with None show ?thesis by (simp add: verified_run_def)
  next
    case (Some verify)
    then have "andThen (liftTool (verify input out)) (\<lambda>passed. return (Some passed)) s = (Inr v, s1)" using v by simp
    then obtain passed where p: "liftTool (verify input out) s = (Inr passed, s1)" "v = Some passed"
      by (elim andThen_InrE return_InrE) simp
    then obtain w where "verify input out (ag_world s) = (Inr passed, w)" "s1 = s\<lparr>ag_world := w\<rparr>"
      unfolding liftTool_run by (elim exE conjE)
    with Some p(2) show ?thesis by (simp add: verified_run_def)
  qed
  have eq: "res = conclusion env request tool out v" using ret(1) by simp
  moreover have "audit_added env res s s'" using ret(3) run unfolding eq audit_added_def by (simp only:)
  moreover have "verified_run tool input out v (ag_world s) (ag_world s')" using run ret(2) by (simp only:)
  ultimately show thesis by (rule that)
qed

lemma performTask_returns:
  assumes "performTask env request tool s = (Inr res, s')"
  shows "audit_added env res s s'" and
    "tr_outcome res = Outcome_INVALID_INPUT \<and> ag_world s' = ag_world s \<and> rt_input request = None \<or>
     (\<exists>input. validateInput (tl_inputContract tool) (rt_input request) = Inr input \<and>
       ((\<exists>err. tr_outcome res = Outcome_TOOL_FAILURE \<and> tl_execute tool input (ag_world s) = (Inl err, ag_world s')) \<or>
        (\<exists>out v w. tl_execute tool input (ag_world s) = (Inr out, w) \<and> verified_run tool input out v w (ag_world s') \<and>
           res = conclusion env request tool out v)))"
proof -
  consider err where "validateInput (tl_inputContract tool) (rt_input request) = Inl err"
    | input where "validateInput (tl_inputContract tool) (rt_input request) = Inr input"
    by (cases "validateInput (tl_inputContract tool) (rt_input request)") auto
  then have "audit_added env res s s' \<and> (tr_outcome res = Outcome_INVALID_INPUT \<and> ag_world s' = ag_world s \<and> rt_input request = None \<or>
     (\<exists>input. validateInput (tl_inputContract tool) (rt_input request) = Inr input \<and>
       ((\<exists>err. tr_outcome res = Outcome_TOOL_FAILURE \<and> tl_execute tool input (ag_world s) = (Inl err, ag_world s')) \<or>
        (\<exists>out v w. tl_execute tool input (ag_world s) = (Inr out, w) \<and> verified_run tool input out v w (ag_world s') \<and>
           res = conclusion env request tool out v))))"
  proof cases
    case 1
    then have i: "rt_input request = None" by (auto simp: validateInput_def split: option.splits)
    from assms 1 have "answer env ((task_result env request tool Task_REJECTED Outcome_INVALID_INPUT (granted_if_required tool))
                     \<lparr>tr_validationError := Some err\<rparr>) s = (Inr res, s')" by (simp add: performTask_def)
    from answer_returns[OF this] i show ?thesis by (auto simp: task_result_outcome)
  next
    case 2
    from assms 2 obtain r s1 where e: "liftTool (tl_execute tool input) s = (r, s1)"
      and k: "(case r of Inl err \<Rightarrow> answer env ((task_result env request tool Task_FAILED Outcome_TOOL_FAILURE (granted_if_required tool))
                         \<lparr>tr_toolError := Some (exn_message err)\<rparr>)
          | Inr out \<Rightarrow> verifyTask env request tool input out) s1 = (Inr res, s')"
      by (auto simp: performTask_def andThen_eq_Inr_iff attempt_run)
    from e obtain w where w: "tl_execute tool input (ag_world s) = (r, w)" "s1 = s\<lparr>ag_world := w\<rparr>" by (auto simp: liftTool_run)
    show ?thesis
    proof (cases r)
      case (Inl err)
      then have "answer env ((task_result env request tool Task_FAILED Outcome_TOOL_FAILURE (granted_if_required tool))
                         \<lparr>tr_toolError := Some (exn_message err)\<rparr>) s1 = (Inr res, s')" using k by simp
      from answer_returns[OF this] w Inl 2 show ?thesis by (auto simp: task_result_outcome audit_added_world)
    next
      case (Inr out)
      then have "verifyTask env request tool input out s1 = (Inr res, s')" using k by simp
      then obtain v where "res = conclusion env request tool out v" "audit_added env res s1 s'"
        "verified_run tool input out v (ag_world s1) (ag_world s')" by (rule verifyTask_returns)
      with w Inr 2 show ?thesis by (auto simp: audit_added_world)
    qed
  qed
  then show "audit_added env res s s'" and
    "tr_outcome res = Outcome_INVALID_INPUT \<and> ag_world s' = ag_world s \<and> rt_input request = None \<or>
     (\<exists>input. validateInput (tl_inputContract tool) (rt_input request) = Inr input \<and>
       ((\<exists>err. tr_outcome res = Outcome_TOOL_FAILURE \<and> tl_execute tool input (ag_world s) = (Inl err, ag_world s')) \<or>
        (\<exists>out v w. tl_execute tool input (ag_world s) = (Inr out, w) \<and> verified_run tool input out v w (ag_world s') \<and>
           res = conclusion env request tool out v)))" by blast+
qed

text \<open>Every task that is answered leaves one audit record, and was refused before the tool ran or has passed every gate.\<close>

lemma executeTask_returns:
  assumes "executeTask can env tools request user s = (Inr res, s')"
  obtains tool u where "resolveTool tools request = Inr tool" "user = Some u" "audit_added env res s s'"
    "tr_outcome res \<in> {Outcome_UNAUTHORIZED, Outcome_APPROVAL_REQUIRED} \<and> ag_world s' = ag_world s \<or>
     can (createForUser u) (rp_action (tl_requiredPermission tool)) (rp_resource (tl_requiredPermission tool)) \<and>
     (tl_requiresApproval tool \<longrightarrow> truthy (rt_approvalActionId request)) \<and> performTask env request tool s = (Inr res, s')"
proof -
  from assms obtain tool u where tool: "resolveTool tools request = Inr tool" and u: "requireUser user = Inr u"
    and k: "(case authorizeTask can (createForUser u) tool of
       Some err \<Rightarrow> answer env ((task_result env request tool Task_REJECTED Outcome_UNAUTHORIZED None)\<lparr>tr_authorizationError := Some err\<rparr>)
     | None \<Rightarrow>
         if tl_requiresApproval tool \<and> \<not> truthy (rt_approvalActionId request)
         then answer env (task_result env request tool Task_APPROVAL_REQUIRED Outcome_APPROVAL_REQUIRED (Some False))
         else if tl_requiresApproval tool \<and> \<not> evaluateApproval u (rt_approvalActionId request) tool
         then answer env (task_result env request tool Task_APPROVAL_DENIED Outcome_APPROVAL_DENIED (Some False))
         else performTask env request tool) s = (Inr res, s')"
    unfolding executeTask_def by (elim andThen_InrE of_result_InrE) simp
  have user: "user = Some u" using u by (auto simp: requireUser_def split: option.splits)
  show thesis
  proof (cases "authorizeTask can (createForUser u) tool")
    case (Some err)
    with k have "answer env ((task_result env request tool Task_REJECTED Outcome_UNAUTHORIZED None)\<lparr>tr_authorizationError := Some err\<rparr>) s
        = (Inr res, s')" by simp
    from answer_returns[OF this] that[OF tool user] show thesis by (simp add: task_result_outcome)
  next
    case None
    then have can: "can (createForUser u) (rp_action (tl_requiredPermission tool)) (rp_resource (tl_requiredPermission tool))"
      by (auto simp: authorizeTask_def Let_def split: if_splits)
    show thesis
    proof (cases "tl_requiresApproval tool \<and> \<not> truthy (rt_approvalActionId request)")
      case True
      with k None have "answer env (task_result env request tool Task_APPROVAL_REQUIRED Outcome_APPROVAL_REQUIRED (Some False)) s
          = (Inr res, s')" by simp
      from answer_returns[OF this] that[OF tool user] show thesis by (simp add: task_result_outcome)
    next
      case False
      with k None have "performTask env request tool s = (Inr res, s')" by (simp add: evaluateApproval_def split: if_splits)
      with False can performTask_returns(1)[OF this] show thesis by (intro that[OF tool user]) auto
    qed
  qed
qed

text \<open>Also when verification throws: a task that has touched the world has passed the gates.\<close>

lemma executeTask_touches:
  assumes "executeTask can env tools request user s = (r, s')" "ag_world s' \<noteq> ag_world s"
  obtains tool u where "resolveTool tools request = Inr tool" "user = Some u"
    "can (createForUser u) (rp_action (tl_requiredPermission tool)) (rp_resource (tl_requiredPermission tool))"
    "tl_requiresApproval tool \<Longrightarrow> truthy (rt_approvalActionId request)"
proof -
  obtain tool where tool: "resolveTool tools request = Inr tool"
    using assms by (cases "resolveTool tools request") (auto simp: executeTask_def andThen_def of_result_def)
  obtain u where u: "requireUser user = Inr u"
    using assms tool by (cases "requireUser user") (auto simp: executeTask_def andThen_def of_result_def)
  have user: "user = Some u" using u by (auto simp: requireUser_def split: option.splits)
  have silent: "ag_world (snd (answer env res s)) = ag_world s" for res
    using answer_returns(2)[of env res s] by (metis prod.collapse)
  have run: "s' = snd (case authorizeTask can (createForUser u) tool of
       Some err \<Rightarrow> answer env ((task_result env request tool Task_REJECTED Outcome_UNAUTHORIZED None)\<lparr>tr_authorizationError := Some err\<rparr>) s
     | None \<Rightarrow>
         if tl_requiresApproval tool \<and> \<not> truthy (rt_approvalActionId request)
         then answer env (task_result env request tool Task_APPROVAL_REQUIRED Outcome_APPROVAL_REQUIRED (Some False)) s
         else performTask env request tool s)"
    using assms(1) tool u
    by (simp add: executeTask_def andThen_def of_result_def evaluateApproval_def split: option.splits if_splits)
       (metis snd_conv)+
  have "authorizeTask can (createForUser u) tool = None"
    using run assms(2) silent by (cases "authorizeTask can (createForUser u) tool") auto
  moreover from this have "tl_requiresApproval tool \<Longrightarrow> truthy (rt_approvalActionId request)"
    using run assms(2) silent by (auto split: if_splits)
  ultimately show thesis by (intro that[OF tool user]) (auto simp: authorizeTask_def Let_def split: if_splits)
qed

lemma executeTask_allowed:
  assumes "resolveTool tools request = Inr tool"
    "can (createForUser u) (rp_action (tl_requiredPermission tool)) (rp_resource (tl_requiredPermission tool))"
    "tl_requiresApproval tool \<longrightarrow> truthy (rt_approvalActionId request)"
  shows "executeTask can env tools request (Some u) = performTask env request tool"
  using assms
  by (cases "tl_requiresApproval tool")
     (simp_all add: executeTask_def of_result_def andThen_def requireUser_def authorizeTask_def evaluateApproval_def)

text \<open>Which approval is named makes no difference, as long as one is.\<close>

lemma approval_fields:
  fixes request :: AgentTaskRequest
  shows "rt_input (request\<lparr>rt_approvalActionId := a\<rparr>) = rt_input request"
    "rt_approvalActionId (request\<lparr>rt_approvalActionId := a\<rparr>) = a"
    "task_result env (request\<lparr>rt_approvalActionId := a\<rparr>) = task_result env request"
    "rt_toolName (request\<lparr>rt_approvalActionId := a\<rparr>) = rt_toolName request"
    "rt_capability (request\<lparr>rt_approvalActionId := a\<rparr>) = rt_capability request"
  by (simp_all add: task_result_def fun_eq_iff)

lemma performTask_approval:
  "performTask env (request\<lparr>rt_approvalActionId := a\<rparr>) = performTask env request"
  unfolding fun_eq_iff[of "performTask env (request\<lparr>rt_approvalActionId := a\<rparr>)"] performTask_def verifyTask_def conclusion_def approval_fields
  by (intro allI refl)

lemma executeTask_any_approval:
  assumes "truthy a" "truthy b"
  shows "executeTask can env tools (request\<lparr>rt_approvalActionId := a\<rparr>) user = executeTask can env tools (request\<lparr>rt_approvalActionId := b\<rparr>) user"
proof -
  have "truthy a = truthy b" using assms by simp
  then show ?thesis unfolding executeTask_def resolveTool_def performTask_approval approval_fields evaluateApproval_def by (rule subst) (rule refl)
qed

section \<open>Subjects in lower case\<close>

text \<open>
  The factory capitalises the subject of every permission, so a permission never grants anything on a
  subject written in lower case, such as \<^verbatim>\<open>low-risk\<close> of the safe tool.
\<close>

definition lower_case :: "string \<Rightarrow> bool" where
  "lower_case s \<longleftrightarrow> s \<noteq> [] \<and> 97 \<le> (of_char (hd s) :: nat) \<and> (of_char (hd s) :: nat) \<le> 122"

lemma upper_char_not_lower: "\<not> (97 \<le> (of_char (upper_char c) :: nat) \<and> (of_char (upper_char c) :: nat) \<le> 122)"
  by (auto simp: upper_char_def)

lemma capitalize_not_lower: "\<not> lower_case (capitalize s)"
  by (cases s) (simp_all add: lower_case_def capitalize_def upper_char_not_lower)

lemma permission_subject: "r \<in> set (permissionRules perms) \<Longrightarrow> \<exists>x. ru_subject r = capitalize x \<and> \<not> ru_inverted r"
  by (fastforce simp: permissionRules_def can_rule_def split: list.splits)

context type_ability begin

lemma can_grants: "can rules action subj \<Longrightarrow> \<exists>r \<in> set rules. type_rule action subj r \<and> \<not> ru_inverted r"
  by (cases "List.find (type_rule action subj) (rev rules)") (auto simp: last_rule dest!: find_SomeD)

lemma lower_case_platform_only:
  assumes "lower_case subj"
  shows "can (createForUser u) action subj \<longleftrightarrow> ''PLATFORM_OWNER'' \<in> set (au_roles u)"
proof (cases "''PLATFORM_OWNER'' \<in> set (au_roles u)")
  case True
  then show ?thesis by (simp add: last_rule createForUser_def type_rule_def can_rule_def)
next
  case False
  have no_all: "\<not> lower_case ''Tenant''" "lower_case ''all''" by (simp_all add: lower_case_def)
  have "\<not> can (createForUser u) action subj"
  proof
    assume "can (createForUser u) action subj"
    then obtain r where r: "r \<in> set (createForUser u)" "type_rule action subj r" "\<not> ru_inverted r" using can_grants by blast
    then have "r \<in> set (permissionRules (au_permissions u)) \<or> ru_subject r = ''Tenant''"
      using False by (auto simp: createForUser_def can_rule_def cannot_rule_def split: if_splits)
    then have "\<not> lower_case (ru_subject r)" using permission_subject capitalize_not_lower no_all(1) by fastforce
    then show False using r(2) assms no_all(2) by (auto simp: type_rule_def)
  qed
  with False show ?thesis by simp
qed

end

end
