(* ===== verification/Agent_Memory.thy ===== *)
theory Agent_Memory
  imports Agent_Approvals
begin

text \<open>
  \<^verbatim>\<open>eleva/eleva.memory.ts\<close>: what the assistant remembers, by category and key, and its conversations, both
  in the memory of the process; and \<^verbatim>\<open>eleva/eleva.voice.service.ts\<close>, the states of a spoken interaction.
  The identifiers a call draws are its environment.
\<close>

section \<open>State\<close>

datatype MemoryCategory =
    PROJECT_CONTEXT | USER_PREFERENCE | PROJECT_GOAL | DECISION | DECISION_RATIONALE | REJECTED_ALTERNATIVE
  | IMPORTANT_CONVERSATION_CONTEXT | EXPLICIT_USER_INSTRUCTION | VERIFIED_PROJECT_FACT

fun show_category :: "MemoryCategory \<Rightarrow> string" where
  "show_category PROJECT_CONTEXT = ''PROJECT_CONTEXT''"
| "show_category USER_PREFERENCE = ''USER_PREFERENCE''"
| "show_category PROJECT_GOAL = ''PROJECT_GOAL''"
| "show_category DECISION = ''DECISION''"
| "show_category DECISION_RATIONALE = ''DECISION_RATIONALE''"
| "show_category REJECTED_ALTERNATIVE = ''REJECTED_ALTERNATIVE''"
| "show_category IMPORTANT_CONVERSATION_CONTEXT = ''IMPORTANT_CONVERSATION_CONTEXT''"
| "show_category EXPLICIT_USER_INSTRUCTION = ''EXPLICIT_USER_INSTRUCTION''"
| "show_category VERIFIED_PROJECT_FACT = ''VERIFIED_PROJECT_FACT''"

datatype MemoryEvidence = Verified | Evidence | Assumption | Recommendation | Unknown

fun show_evidence :: "MemoryEvidence \<Rightarrow> string" where
  "show_evidence Verified = ''VERIFIED''"
| "show_evidence Evidence = ''EVIDENCE''"
| "show_evidence Assumption = ''ASSUMPTION''"
| "show_evidence Recommendation = ''RECOMMENDATION''"
| "show_evidence Unknown = ''UNKNOWN''"

text \<open>The members \<^verbatim>\<open>location\<close>, \<^verbatim>\<open>confidence\<close> and \<^verbatim>\<open>limitations\<close> of a provenance are never read and left out.\<close>

record MemoryProvenance =
  mp_source :: "string option"
  mp_retrievedAt :: "int option"
  mp_evidenceClassification :: MemoryEvidence

record MemoryUpsertInput =
  mo_category :: MemoryCategory
  mo_key :: string
  mo_value :: string
  mo_provenance :: MemoryProvenance
  mo_conversationId :: "string option"
  mo_tags :: "string list option"

record MemoryEntry = MemoryUpsertInput +
  mo_id :: string
  mo_createdAt :: int
  mo_updatedAt :: int

datatype messageRole = User | Eleva

record ConversationMessage =
  cm_id :: string
  cm_role :: messageRole
  cm_content :: string
  cm_evidenceClassification :: "MemoryEvidence option"
  cm_reasoning :: "string option"
  cm_alternatives :: "string list option"
  cm_createdAt :: int

record ConversationContext =
  cc_messages :: "ConversationMessage list"
  cc_memoryKeys :: "string list"
  cc_createdAt :: int
  cc_updatedAt :: int

record memoryState =
  mm_entries :: "(string \<times> MemoryEntry) list"
  mm_conversations :: "(string \<times> ConversationContext) list"
  mm_audit :: "AuditLogEntry list"

record memoryEnv = agentEnv +
  ge_entryId :: string
  ge_messageId :: string

definition memory_emitAudit :: "memoryEnv \<Rightarrow> string \<Rightarrow> string \<Rightarrow> string \<Rightarrow> entries \<Rightarrow> (memoryState, unit) prog" where
  "memory_emitAudit env action entityName entityId values =
     (if \<not> ge_auditService env then return ()
      else modify (\<lambda>s. s\<lparr>mm_audit := mm_audit s @ [agent_entry ''eleva-memory'' action entityName (Some entityId) (JObj values)]\<rparr>))"

section \<open>Remembering\<close>

definition findByCategoryAndKey :: "MemoryCategory \<Rightarrow> string \<Rightarrow> memoryState \<Rightarrow> MemoryEntry option" where
  "findByCategoryAndKey category key s =
     List.find (\<lambda>e. mo_category e = category \<and> mo_key e = key) (map snd (mm_entries s))"

definition findByKey :: "string \<Rightarrow> memoryState \<Rightarrow> MemoryEntry option" where
  "findByKey key s = List.find (\<lambda>e. mo_key e = key) (map snd (mm_entries s))"

definition entry_for :: "memoryEnv \<Rightarrow> MemoryUpsertInput \<Rightarrow> MemoryEntry option \<Rightarrow> MemoryEntry" where
  "entry_for env input existing =
     MemoryUpsertInput.extend input (MemoryEntry.fields
       (case existing of None \<Rightarrow> ge_entryId env | Some e \<Rightarrow> mo_id e)
       (case existing of None \<Rightarrow> ge_now env | Some e \<Rightarrow> mo_createdAt e) (ge_now env))"

definition remember :: "memoryEnv \<Rightarrow> MemoryUpsertInput \<Rightarrow> (memoryState, MemoryEntry) prog" where
  "remember env input =
     andThen get_state (\<lambda>s.
     let entry = entry_for env input (findByCategoryAndKey (mo_category input) (mo_key input) s) in
     andThen (modify (\<lambda>s. s\<lparr>mm_entries := AList.update (mo_id entry) entry (mm_entries s)\<rparr>)) (\<lambda>_.
     andThen (memory_emitAudit env ''AGENT.MEMORY.UPSERT'' ''ElevaMemory'' (mo_id entry)
       (defined [(''category'', Some (JStr (show_category (mo_category input)))), (''key'', Some (JStr (mo_key input))),
         (''evidenceClassification'', Some (JStr (show_evidence (mp_evidenceClassification (mo_provenance input))))),
         (''conversationId'', map_option JStr (mo_conversationId input))])) (\<lambda>_.
     return entry)))"

definition recall :: "MemoryCategory option \<Rightarrow> string option \<Rightarrow> memoryState \<Rightarrow> MemoryEntry list" where
  "recall category tag s =
     sort_key (\<lambda>e. - mo_updatedAt e)
       (filter (\<lambda>e. (\<forall>c \<in> set_option category. mo_category e = c) \<and>
                    (\<forall>t \<in> set_option (or_null tag). t \<in> set (case mo_tags e of None \<Rightarrow> [] | Some ts \<Rightarrow> ts)))
         (map snd (mm_entries s)))"

section \<open>Conversations\<close>

definition last_user_message_key :: "string \<Rightarrow> string" where
  "last_user_message_key conversationId = ''conversation:'' @ conversationId @ '':last-user-message''"

definition startConversation :: "memoryEnv \<Rightarrow> string \<Rightarrow> string list \<Rightarrow> (memoryState, ConversationContext) prog" where
  "startConversation env conversationId initialMemoryKeys =
     (let ctx = \<lparr>cc_messages = [], cc_memoryKeys = rev (remdups (rev initialMemoryKeys)), cc_createdAt = ge_now env, cc_updatedAt = ge_now env\<rparr> in
      andThen (modify (\<lambda>s. s\<lparr>mm_conversations := AList.update conversationId ctx (mm_conversations s)\<rparr>)) (\<lambda>_.
      andThen (memory_emitAudit env ''AGENT.CONVERSATION.START'' ''ElevaConversation'' conversationId
        [(''memoryKeys'', JArr (map JStr (cc_memoryKeys ctx)))]) (\<lambda>_.
      return ctx)))"

definition user_message_input :: "memoryEnv \<Rightarrow> string \<Rightarrow> string \<Rightarrow> MemoryUpsertInput" where
  "user_message_input env conversationId content =
     \<lparr>mo_category = IMPORTANT_CONVERSATION_CONTEXT, mo_key = last_user_message_key conversationId, mo_value = content,
      mo_provenance = \<lparr>mp_source = Some ''conversation'', mp_retrievedAt = Some (ge_now env), mp_evidenceClassification = Verified\<rparr>,
      mo_conversationId = Some conversationId, mo_tags = Some [''conversation'', conversationId]\<rparr>"

text \<open>The message carries everything but its id and time, which the call gives it.\<close>

definition appendMessage ::
  "memoryEnv \<Rightarrow> string \<Rightarrow> ConversationMessage \<Rightarrow> (memoryState, ConversationContext option) prog" where
  "appendMessage env conversationId message =
     andThen get_state (\<lambda>s.
     case map_of (mm_conversations s) conversationId of
       None \<Rightarrow> return None
     | Some ctx \<Rightarrow>
         let m = message\<lparr>cm_id := ge_messageId env, cm_createdAt := ge_now env\<rparr>;
             first = (cm_role message = User \<and> last_user_message_key conversationId \<notin> set (cc_memoryKeys ctx));
             ctx' = ctx\<lparr>cc_messages := cc_messages ctx @ [m], cc_updatedAt := ge_now env,
                        cc_memoryKeys := cc_memoryKeys ctx @ (if first then [last_user_message_key conversationId] else [])\<rparr> in
         andThen (modify (\<lambda>s. s\<lparr>mm_conversations := AList.update conversationId ctx' (mm_conversations s)\<rparr>)) (\<lambda>_.
         andThen (if first then andThen (remember env (user_message_input env conversationId (cm_content message))) (\<lambda>_. return ())
                  else return ()) (\<lambda>_.
         andThen (memory_emitAudit env ''AGENT.CONVERSATION.MESSAGE'' ''ElevaConversation'' conversationId
           (defined [(''role'', Some (JStr (case cm_role m of User \<Rightarrow> ''user'' | Eleva \<Rightarrow> ''eleva''))),
             (''content'', Some (JStr (take 200 (cm_content m)))),
             (''evidenceClassification'', map_option (\<lambda>e. JStr (show_evidence e)) (cm_evidenceClassification m))])) (\<lambda>_.
         return (Some ctx')))))"

definition getConversation :: "string \<Rightarrow> memoryState \<Rightarrow> ConversationContext option" where
  "getConversation conversationId s = map_of (mm_conversations s) conversationId"

section \<open>One entry for a category and key\<close>

definition memory_ok :: "memoryState \<Rightarrow> bool" where
  "memory_ok s \<longleftrightarrow> distinct (map fst (mm_entries s)) \<and> (\<forall>(i, e) \<in> set (mm_entries s). mo_id e = i) \<and>
     distinct (map (\<lambda>(i, e). (mo_category e, mo_key e)) (mm_entries s))"

lemma find_unique:
  assumes "distinct (map f xs)" "x \<in> set xs"
  shows "List.find (\<lambda>y. f y = f x) xs = Some x"
  using assms by (induction xs) auto

lemma find_key_cong: "List.find (\<lambda>e. mo_category e = c \<and> mo_key e = k) es = List.find (\<lambda>e. (mo_category e, mo_key e) = (c, k)) es"
  by (induction es) auto

lemma findByCategoryAndKey_iff:
  assumes "memory_ok s"
  shows "findByCategoryAndKey c k s = Some e \<longleftrightarrow> (\<exists>i. (i, e) \<in> set (mm_entries s)) \<and> mo_category e = c \<and> mo_key e = k"
proof
  assume "findByCategoryAndKey c k s = Some e"
  then have "e \<in> snd ` set (mm_entries s)" "mo_category e = c \<and> mo_key e = k"
    unfolding findByCategoryAndKey_def by (auto dest!: find_SomeD)
  then show "(\<exists>i. (i, e) \<in> set (mm_entries s)) \<and> mo_category e = c \<and> mo_key e = k" by force
next
  assume r: "(\<exists>i. (i, e) \<in> set (mm_entries s)) \<and> mo_category e = c \<and> mo_key e = k"
  have "distinct (map (\<lambda>e. (mo_category e, mo_key e)) (map snd (mm_entries s)))"
    using assms by (simp add: memory_ok_def comp_def case_prod_unfold)
  moreover have "e \<in> set (map snd (mm_entries s))" using r by force
  ultimately have "List.find (\<lambda>y. (mo_category y, mo_key y) = (mo_category e, mo_key e)) (map snd (mm_entries s)) = Some e"
    by (rule find_unique)
  moreover have "c = mo_category e" "k = mo_key e" using r by simp_all
  ultimately show "findByCategoryAndKey c k s = Some e" unfolding findByCategoryAndKey_def find_key_cong by (simp only:)
qed

lemma update_new: "k \<notin> fst ` set al \<Longrightarrow> AList.update k v al = al @ [(k, v)]"
  by (induction al) auto

lemma set_update: "distinct (map fst al) \<Longrightarrow> set (AList.update k v al) = insert (k, v) {p \<in> set al. fst p \<noteq> k}"
  by (induction al) (auto simp: image_iff)

lemma map_update_same:
  "(k, w) \<in> set al \<Longrightarrow> distinct (map fst al) \<Longrightarrow> f v = f w \<Longrightarrow> map (\<lambda>(i, e). f e) (AList.update k v al) = map (\<lambda>(i, e). f e) al"
  by (induction al) (auto simp: image_iff rev_image_eqI)

lemma entry_for_fields:
  "mo_category (entry_for env input x) = mo_category input" "mo_key (entry_for env input x) = mo_key input"
  "mo_value (entry_for env input x) = mo_value input" "mo_tags (entry_for env input x) = mo_tags input"
  "mo_id (entry_for env input x) = (case x of None \<Rightarrow> ge_entryId env | Some e \<Rightarrow> mo_id e)"
  by (simp_all add: entry_for_def MemoryUpsertInput.defs MemoryEntry.defs)

lemma remember_run:
  assumes "remember env input s = (r, s')"
  defines "entry \<equiv> entry_for env input (findByCategoryAndKey (mo_category input) (mo_key input) s)"
  shows "r = Inr entry" "mm_entries s' = AList.update (mo_id entry) entry (mm_entries s)" "mm_conversations s' = mm_conversations s"
  using assms(1) by (auto simp: remember_def andThen_def get_state_def modify_def return_def Let_def memory_emitAudit_def
      simp flip: entry_def split: if_splits)

definition fresh_entry :: "memoryEnv \<Rightarrow> memoryState \<Rightarrow> bool" where
  "fresh_entry env s \<longleftrightarrow> ge_entryId env \<notin> fst ` set (mm_entries s)"

lemma remember_ok:
  assumes "memory_ok s" "fresh_entry env s" "remember env input s = (r, s')"
  shows "memory_ok s'"
proof -
  note run = remember_run[OF assms(3)]
  define entry where "entry = entry_for env input (findByCategoryAndKey (mo_category input) (mo_key input) s)"
  have d: "distinct (map fst (mm_entries s))" and ids: "\<forall>(i, e) \<in> set (mm_entries s). mo_id e = i"
    and keys: "distinct (map (\<lambda>(i, e). (mo_category e, mo_key e)) (mm_entries s))"
    using assms(1) by (auto simp: memory_ok_def)
  have entries: "mm_entries s' = AList.update (mo_id entry) entry (mm_entries s)" using run(2) by (simp add: entry_def)
  have "distinct (map (\<lambda>(i, e). (mo_category e, mo_key e)) (mm_entries s'))"
  proof (cases "findByCategoryAndKey (mo_category input) (mo_key input) s")
    case None
    then have "mo_id entry = ge_entryId env" by (simp add: entry_def entry_for_fields)
    then have new: "mm_entries s' = mm_entries s @ [(mo_id entry, entry)]"
      using assms(2) by (simp add: entries update_new fresh_entry_def)
    have "\<not> (mo_category e = mo_category input \<and> mo_key e = mo_key input)" if "(i, e) \<in> set (mm_entries s)" for i e
      using None that by (force simp: findByCategoryAndKey_def find_None_iff)
    then have "(mo_category input, mo_key input) \<notin> (\<lambda>(i, e). (mo_category e, mo_key e)) ` set (mm_entries s)" by force
    then show ?thesis using keys by (simp add: new entry_def entry_for_fields)
  next
    case (Some e)
    then obtain i where e: "(i, e) \<in> set (mm_entries s)" "mo_category e = mo_category input" "mo_key e = mo_key input"
      using findByCategoryAndKey_iff[OF assms(1)] by blast
    then have "mo_id entry = i" using Some ids by (auto simp: entry_def entry_for_fields)
    then show ?thesis using keys map_update_same[OF e(1) d, of "\<lambda>e. (mo_category e, mo_key e)" entry] e(2,3)
      by (simp add: entries entry_def entry_for_fields)
  qed
  then show ?thesis using d ids by (auto simp: memory_ok_def entries distinct_update set_update)
qed

lemma remember_finds:
  assumes "memory_ok s" "fresh_entry env s" "remember env input s = (r, s')"
  shows "findByCategoryAndKey c k s' =
    (if c = mo_category input \<and> k = mo_key input then Some (entry_for env input (findByCategoryAndKey c k s)) else findByCategoryAndKey c k s)"
proof -
  have d: "distinct (map fst (mm_entries s))" and ids: "\<forall>(i, e) \<in> set (mm_entries s). mo_id e = i"
    using assms(1) by (auto simp: memory_ok_def)
  note run = remember_run[OF assms(3)] and ok = remember_ok[OF assms]
  define entry where "entry = entry_for env input (findByCategoryAndKey (mo_category input) (mo_key input) s)"
  have set: "set (mm_entries s') = insert (mo_id entry, entry) {p \<in> set (mm_entries s). fst p \<noteq> mo_id entry}"
    using run(2) by (simp add: entry_def set_update[OF d])
  show ?thesis
  proof (cases "c = mo_category input \<and> k = mo_key input")
    case True
    then have "findByCategoryAndKey c k s' = Some entry"
      using findByCategoryAndKey_iff[OF ok] by (auto simp: set entry_def entry_for_fields)
    with True show ?thesis by (simp add: entry_def)
  next
    case False
    have replaced: "mo_category e = mo_category input \<and> mo_key e = mo_key input" if "(mo_id entry, e) \<in> set (mm_entries s)" for e
    proof (cases "findByCategoryAndKey (mo_category input) (mo_key input) s")
      case None
      then show ?thesis using that assms(2) by (force simp: entry_def entry_for_fields fresh_entry_def)
    next
      case (Some e')
      then obtain i where e': "(i, e') \<in> set (mm_entries s)" "mo_category e' = mo_category input" "mo_key e' = mo_key input"
        using findByCategoryAndKey_iff[OF assms(1)] by blast
      then have "mo_id entry = i" using Some ids by (auto simp: entry_def entry_for_fields)
      then have "e = e'" using that e'(1) d by (metis map_of_is_SomeI option.inject)
      then show ?thesis using e' by simp
    qed
    have "findByCategoryAndKey c k s' = Some e \<longleftrightarrow> findByCategoryAndKey c k s = Some e" for e
    proof -
      have "(\<exists>i. (i, e) \<in> set (mm_entries s')) \<longleftrightarrow> (\<exists>i. (i, e) \<in> set (mm_entries s))" if "mo_category e = c" "mo_key e = k"
        using False replaced that by (auto simp: set entry_def[symmetric]) (auto simp: entry_def entry_for_fields)
      then show ?thesis unfolding findByCategoryAndKey_iff[OF ok] findByCategoryAndKey_iff[OF assms(1)] by blast
    qed
    then have "findByCategoryAndKey c k s' = findByCategoryAndKey c k s" by (metis not_Some_eq)
    then show ?thesis unfolding if_not_P[OF False] .
  qed
qed

section \<open>The message that is remembered\<close>

lemma appendMessage_run:
  assumes "appendMessage env c message s = (r, s')" "map_of (mm_conversations s) c = Some ctx"
  defines "key \<equiv> last_user_message_key c"
  shows "\<exists>ctx'. map_of (mm_conversations s') c = Some ctx' \<and>
      set (cc_memoryKeys ctx') = set (cc_memoryKeys ctx) \<union> (if cm_role message = User then {key} else {})"
    and "cm_role message = User \<and> key \<notin> set (cc_memoryKeys ctx) \<Longrightarrow>
      \<exists>t u e. mm_entries t = mm_entries s \<and> remember env (user_message_input env c (cm_content message)) t = (Inr e, u) \<and> mm_entries s' = mm_entries u"
    and "\<not> (cm_role message = User \<and> key \<notin> set (cc_memoryKeys ctx)) \<Longrightarrow> mm_entries s' = mm_entries s"
proof -
  define first where "first = (cm_role message = User \<and> key \<notin> set (cc_memoryKeys ctx))"
  define ctx' where "ctx' = ctx\<lparr>cc_messages := cc_messages ctx @ [message\<lparr>cm_id := ge_messageId env, cm_createdAt := ge_now env\<rparr>],
    cc_updatedAt := ge_now env, cc_memoryKeys := cc_memoryKeys ctx @ (if first then [key] else [])\<rparr>"
  define t where "t = s\<lparr>mm_conversations := AList.update c ctx' (mm_conversations s)\<rparr>"
  have emit: "mm_entries (snd (memory_emitAudit env a n i v w)) = mm_entries w" "mm_conversations (snd (memory_emitAudit env a n i v w)) = mm_conversations w"
    "fst (memory_emitAudit env a n i v w) = Inr ()" for a n i v w
    by (simp_all add: memory_emitAudit_def return_def modify_def)
  obtain e u where rem: "remember env (user_message_input env c (cm_content message)) t = (e, u)" by (cases "remember env (user_message_input env c (cm_content message)) t")
  note run = remember_run[OF rem]
  define v where "v = (if first then u else t)"
  have "s' = snd (memory_emitAudit env ''AGENT.CONVERSATION.MESSAGE'' ''ElevaConversation'' c
           (defined [(''role'', Some (JStr (case cm_role message of User \<Rightarrow> ''user'' | Eleva \<Rightarrow> ''eleva''))),
             (''content'', Some (JStr (take 200 (cm_content message)))),
             (''evidenceClassification'', map_option (\<lambda>e. JStr (show_evidence e)) (cm_evidenceClassification message))]) v)"
    using assms(1,2) rem run(1) emit(3)
    by (auto simp: appendMessage_def andThen_def get_state_def modify_def return_def Let_def v_def t_def ctx'_def first_def key_def
        split: prod.splits sum.splits if_splits)
  then have s': "mm_entries s' = mm_entries v" "mm_conversations s' = mm_conversations v" by (simp_all add: emit)
  have "mm_conversations v = AList.update c ctx' (mm_conversations s)" using run(3) by (simp add: v_def t_def)
  then have "map_of (mm_conversations s') c = Some ctx'" by (simp add: s' update_conv)
  moreover have "set (cc_memoryKeys ctx') = set (cc_memoryKeys ctx) \<union> (if cm_role message = User then {key} else {})"
    by (auto simp: ctx'_def first_def)
  ultimately show "\<exists>ctx'. map_of (mm_conversations s') c = Some ctx' \<and>
      set (cc_memoryKeys ctx') = set (cc_memoryKeys ctx) \<union> (if cm_role message = User then {key} else {})" by blast
  have t: "mm_entries t = mm_entries s" by (simp add: t_def)
  show "\<exists>t u e. mm_entries t = mm_entries s \<and> remember env (user_message_input env c (cm_content message)) t = (Inr e, u) \<and> mm_entries s' = mm_entries u"
    if "cm_role message = User \<and> key \<notin> set (cc_memoryKeys ctx)"
    using that t rem run(1) s'(1) by (intro exI[of _ t] exI[of _ u] exI) (simp add: v_def first_def)
  show "mm_entries s' = mm_entries s" if "\<not> (cm_role message = User \<and> key \<notin> set (cc_memoryKeys ctx))"
    using that t s'(1) unfolding v_def first_def by (simp only: if_False)
qed

definition appendLater :: "string \<Rightarrow> memoryState \<Rightarrow> memoryEnv \<times> ConversationMessage \<Rightarrow> memoryState" where
  "appendLater c s x = (case x of (env, m) \<Rightarrow> snd (appendMessage env c m s))"

lemma later_messages_not_remembered:
  assumes "map_of (mm_conversations s) c = Some ctx" "last_user_message_key c \<in> set (cc_memoryKeys ctx)"
  shows "mm_entries (foldl (appendLater c) s later) = mm_entries s"
  using assms
proof (induction later arbitrary: s ctx)
  case (Cons x xs)
  obtain env m where x: "x = (env, m)" by (cases x)
  obtain r s' where a: "appendMessage env c m s = (r, s')" by (cases "appendMessage env c m s")
  note run = appendMessage_run[OF a Cons.prems(1)]
  from run(1) obtain ctx' where "map_of (mm_conversations s') c = Some ctx'" "last_user_message_key c \<in> set (cc_memoryKeys ctx')"
    using Cons.prems(2) by auto
  from Cons.IH[OF this] run(3) Cons.prems(2) show ?case by (simp add: x a appendLater_def)
qed simp

lemma first_user_message_kept:
  assumes "memory_ok s" "fresh_entry env s" "map_of (mm_conversations s) c = Some ctx"
    and "last_user_message_key c \<notin> set (cc_memoryKeys ctx)" "cm_role m = User"
  shows "map_option mo_value (findByCategoryAndKey IMPORTANT_CONVERSATION_CONTEXT (last_user_message_key c)
           (foldl (appendLater c) s ((env, m) # later))) = Some (cm_content m)"
proof -
  obtain r s' where a: "appendMessage env c m s = (r, s')" by (cases "appendMessage env c m s")
  note run = appendMessage_run[OF a assms(3)]
  from run(1) obtain ctx' where ctx': "map_of (mm_conversations s') c = Some ctx'" "last_user_message_key c \<in> set (cc_memoryKeys ctx')"
    using assms(5) by auto
  from run(2) assms(4,5) obtain t u e where t: "mm_entries t = mm_entries s"
    "remember env (user_message_input env c (cm_content m)) t = (Inr e, u)" "mm_entries s' = mm_entries u" by blast
  have "memory_ok t" "fresh_entry env t" using assms(1,2) t(1) by (simp_all add: memory_ok_def fresh_entry_def)
  from remember_finds[OF this t(2), of IMPORTANT_CONVERSATION_CONTEXT "last_user_message_key c"]
  have "map_option mo_value (findByCategoryAndKey IMPORTANT_CONVERSATION_CONTEXT (last_user_message_key c) u) = Some (cm_content m)"
    by (simp add: user_message_input_def entry_for_fields)
  moreover have "mm_entries (foldl (appendLater c) s ((env, m) # later)) = mm_entries u"
    using later_messages_not_remembered[OF ctx'] t(3) by (simp add: appendLater_def a)
  ultimately show ?thesis by (simp add: findByCategoryAndKey_def)
qed

section \<open>The states of a spoken interaction\<close>

datatype VoiceInteractionState = VoiceIDLE | VoiceWAKE_DETECTED | VoiceLISTENING | VoiceTHINKING | VoiceSPEAKING | VoiceSTOPPED | VoiceMUTED

text \<open>The events of the machine; the controller passes any text, and the rest are \<open>OtherEvent\<close>.\<close>

datatype VoiceEvent = WakeDetected | Stopped | Muted | Resume | OtherEvent string

fun voice_next :: "VoiceInteractionState \<Rightarrow> VoiceEvent \<Rightarrow> VoiceInteractionState" where
  "voice_next st WakeDetected = (if st = VoiceMUTED then VoiceMUTED else VoiceLISTENING)"
| "voice_next st Stopped = VoiceSTOPPED"
| "voice_next st Muted = VoiceMUTED"
| "voice_next st Resume = VoiceIDLE"
| "voice_next st (OtherEvent e) = VoiceIDLE"

record voiceState =
  vo_state :: VoiceInteractionState
  vo_updatedAt :: int
  vo_history :: "(VoiceInteractionState \<times> int \<times> VoiceEvent) list"

definition voice_transition :: "agentEnv \<Rightarrow> VoiceEvent \<Rightarrow> voiceState \<Rightarrow> voiceState" where
  "voice_transition env event s = s\<lparr>vo_state := voice_next (vo_state s) event, vo_updatedAt := ge_now env,
     vo_history := vo_history s @ [(vo_state s, ge_now env, event)]\<rparr>"

definition wakePhrases :: "string list" where
  "wakePhrases = [''ELEVA'', ''Hey ELEVA'']"

definition detectWakeWord :: "agentEnv \<Rightarrow> string \<Rightarrow> voiceState \<Rightarrow> bool \<times> voiceState" where
  "detectWakeWord env phrase s =
     (let detected = list_ex (\<lambda>w. toLowerCase (js_trim phrase) = toLowerCase w) wakePhrases in
      (detected, if detected then voice_transition env WakeDetected s else s))"

text \<open>No voice provider is supported, so \<^verbatim>\<open>speak\<close> returns at once.\<close>

definition voice_speak :: "string \<Rightarrow> voiceState \<Rightarrow> voiceState" where
  "voice_speak text s = s"

inductive voice_step :: "VoiceInteractionState \<Rightarrow> VoiceInteractionState \<Rightarrow> bool" where
  event: "voice_step st (voice_next st e)"
| wake: "voice_step (vo_state s) (vo_state (snd (detectWakeWord env phrase s)))"
| speak: "voice_step (vo_state s) (vo_state (voice_speak text s))"

lemma voice_reachable:
  assumes "voice_step\<^sup>*\<^sup>* VoiceIDLE st"
  shows "st \<in> {VoiceIDLE, VoiceLISTENING, VoiceSTOPPED, VoiceMUTED}"
  using assms
proof (induction rule: rtranclp_induct)
  case (step y z)
  have "voice_next y e \<in> {VoiceIDLE, VoiceLISTENING, VoiceSTOPPED, VoiceMUTED}" for y e by (cases e) auto
  note nexts = this
  from step.hyps(2) step.IH show ?case
    by (induction rule: voice_step.induct) (use nexts in \<open>auto simp: detectWakeWord_def voice_transition_def voice_speak_def Let_def\<close>)
qed simp

text \<open>A wake word never ends the silence of a muted assistant.\<close>

lemma muted_stays: "vo_state s = VoiceMUTED \<Longrightarrow> vo_state (snd (detectWakeWord env phrase s)) = VoiceMUTED"
  by (simp add: detectWakeWord_def voice_transition_def Let_def)

end
