(* ===== verification/Agent_Advisory.thy ===== *)
theory Agent_Advisory
  imports Agent_Approvals
begin

text \<open>
  \<^verbatim>\<open>eleva/eleva.advisory.ts\<close>: what kind of request a text is, the advice on it, and the checks on options,
  risks and plans. The advice is a fixed text; no language model is asked.
\<close>

section \<open>Intents\<close>

datatype AgentRequestIntent = QUESTION | ANALYSIS | RECOMMENDATION | DIAGNOSTIC | EXECUTION

text \<open>
  Whether the pattern \<^verbatim>\<open>\b(?:w)\b\<close> matches somewhere, for a \<open>w\<close> that starts and ends with a word character; \<open>inside\<close>
  tells whether the character before is one.
\<close>

fun has_word :: "string \<Rightarrow> bool \<Rightarrow> string \<Rightarrow> bool" where
  "has_word w inside [] = False"
| "has_word w inside (c # cs) =
     (\<not> inside \<and> prefix w (c # cs) \<and> (case drop (length w) (c # cs) of [] \<Rightarrow> True | d # _ \<Rightarrow> \<not> word_char d) \<or>
      has_word w (word_char c) cs)"

definition mentions :: "string list \<Rightarrow> string \<Rightarrow> bool" where
  "mentions ws s = list_ex (\<lambda>w. has_word w False s) ws"

definition isExecutionPhrase :: "string \<Rightarrow> bool" where
  "isExecutionPhrase normalized =
     list_ex (\<lambda>marker. sublist marker normalized) [''please do'', ''go ahead'', ''execute'', ''apply the'', ''make it so'']"

definition classifyIntent :: "string \<Rightarrow> AgentRequestIntent" where
  "classifyIntent request =
     (let normalized = toLowerCase (js_trim request) in
      if isExecutionPhrase normalized then EXECUTION
      else if mentions [''diagnostic'', ''failure'', ''error'', ''broken'', ''failing'', ''issue'', ''problem'', ''incident'', ''degrad''] normalized
      then DIAGNOSTIC
      else if mentions [''recommend'', ''suggest'', ''advise'', ''best'', ''prefer'', ''alternative'', ''instead'', ''should we''] normalized
      then RECOMMENDATION
      else if mentions [''analyze'', ''analyse'', ''diagnose'', ''debug'', ''inspect'', ''review'', ''audit'', ''compare'', ''trade-off'', ''plan''] normalized
      then ANALYSIS
      else QUESTION)"

section \<open>Advice\<close>

record EvidenceReference =
  ev_label :: string
  ev_source :: string
  ev_detail :: "string option"

record AnalysisFinding =
  af_finding :: string
  af_evidence :: "EvidenceReference list"
  af_benefits :: "string list option"
  af_recommendation :: "string option"
  af_unknowns :: "string list option"
  af_approvalRequired :: "bool option"

definition execution_finding :: AnalysisFinding where
  "execution_finding =
     \<lparr>af_finding = ''Execution request detected. The M3 advisory layer does not perform changes.'',
      af_evidence = [\<lparr>ev_label = ''verified'', ev_source = ''ELEVA_AGENT_SPEC.md'',
        ev_detail = Some (CHR 0xA7 # ''6.9 Human Decision / Approval; '' @ CHR 0xA7 # ''6.15 M2 Integration'')\<rparr>],
      af_benefits = None,
      af_recommendation = Some ''Route this request through the existing M2 approval/execution pipeline.'',
      af_unknowns = Some [''Exact M2 tool mapping is outside M3 advisory scope.''], af_approvalRequired = None\<rparr>"

definition advise :: "string \<Rightarrow> entries option \<Rightarrow> AnalysisFinding list" where
  "advise request repositoryFacts =
     (if classifyIntent request = EXECUTION then [execution_finding]
      else case repositoryFacts of
        Some (f # fs) \<Rightarrow>
          [\<lparr>af_finding = ''Repository context was supplied for grounding.'',
            af_evidence = [\<lparr>ev_label = ''verified'', ev_source = ''provided repositoryFacts'',
              ev_detail = Some (take 200 (stringify (JObj (f # fs))))\<rparr>],
            af_benefits = Some [''Reduces unknowns.'', ''Improves recommendation quality.''], af_recommendation = None,
            af_unknowns = Some [''Live runtime state may differ from static repository facts.''], af_approvalRequired = None\<rparr>]
      | _ \<Rightarrow>
          [\<lparr>af_finding = ''No repository facts were supplied for grounding.'',
            af_evidence = [\<lparr>ev_label = ''unverified'', ev_source = ''runtime context missing'', ev_detail = None\<rparr>],
            af_benefits = None,
            af_recommendation = Some ''Supply repository-verified facts or document this limitation before acting.'',
            af_unknowns = Some [''Static inspection cannot confirm runtime behavior.''], af_approvalRequired = None\<rparr>])"

section \<open>Options, risks and plans\<close>

record RiskEntry =
  re_classification :: string
  re_area :: string
  re_triggerOrEvidence :: string
  re_mitigation :: string

record OptionComparison =
  oc_options :: "string list"
  oc_recommendedOption :: "string option"
  oc_rationale :: "string option"

definition compareOptions :: "OptionComparison \<Rightarrow> exn + OptionComparison" where
  "compareOptions c =
     (case oc_options c of
        a # b # _ \<Rightarrow> Inr (c\<lparr>oc_recommendedOption := Some (case oc_recommendedOption c of None \<Rightarrow> a | Some r \<Rightarrow> r)\<rparr>)
      | _ \<Rightarrow> Inl (JsError ''Option comparison requires at least two options.''))"

definition risk_key :: "RiskEntry \<Rightarrow> string" where
  "risk_key r = re_classification r @ '':'' @ re_area r @ '':'' @ re_triggerOrEvidence r"

fun unseen :: "string list \<Rightarrow> RiskEntry list \<Rightarrow> RiskEntry list" where
  "unseen seen [] = []"
| "unseen seen (r # rs) = (if risk_key r \<in> set seen then unseen seen rs else r # unseen (risk_key r # seen) rs)"

definition assessRisks :: "RiskEntry list \<Rightarrow> RiskEntry list" where
  "assessRisks risks = unseen [] risks"

record ImplementationPlan =
  ip_objective :: string
  ip_affectedComponents :: "string list"
  ip_phases :: "string list"
  ip_dependencies :: "string list"
  ip_verificationRequirements :: "string list"
  ip_rollbackOrAbortCriteria :: "string list"

definition createPlan :: "ImplementationPlan \<Rightarrow> exn + ImplementationPlan" where
  "createPlan plan =
     (if js_trim (ip_objective plan) = [] then Inl (JsError ''Plan objective is required.'')
      else if ip_phases plan = [] then Inl (JsError ''Plan requires at least one phase.'')
      else Inr plan)"

section \<open>Rules\<close>

lemma advice_requires_no_approval: "\<not> list_ex (\<lambda>f. af_approvalRequired f = Some True) (advise request facts)"
  by (auto simp: advise_def execution_finding_def split: option.splits list.splits)

lemma advise_single: "length (advise request facts) = 1"
  by (auto simp: advise_def split: option.splits list.splits)

text \<open>The first risk of each key is kept, in the order given.\<close>

lemma unseen_keys: "distinct (map risk_key (unseen seen rs)) \<and> risk_key ` set (unseen seen rs) = risk_key ` set rs - set seen"
proof (induction rs arbitrary: seen)
  case (Cons r rs)
  show ?case using Cons.IH[of seen] Cons.IH[of "risk_key r # seen"] by auto
qed simp

lemma unseen_subseq: "subseq (unseen seen rs) rs"
  by (induction rs arbitrary: seen) auto

lemma assessRisks_spec:
  "distinct (map risk_key (assessRisks rs))" "risk_key ` set (assessRisks rs) = risk_key ` set rs" "subseq (assessRisks rs) rs"
  using unseen_keys[of "[]" rs] unseen_subseq by (simp_all add: assessRisks_def)

end
