(* ===== verification/Agent_Service.thy ===== *)
theory Agent_Service
  imports Agent_Execution Agent_Memory Agent_Advisory
begin

text \<open>
  \<^verbatim>\<open>eleva/eleva.agent.service.ts\<close>: the agent over the services before: its objective, plan and blockers,
  the tasks it ran, and the gate in front of the execution pipeline. The state holds theirs.
\<close>

section \<open>State\<close>

record AgentObjective =
  ob_objective :: string
  ob_createdAt :: int
  ob_updatedAt :: int

record AgentExecutionRecord =
  er_taskId :: string
  er_action :: string
  er_status :: AgentTaskStatus
  er_outcome :: AgentTaskOutcome
  er_executedAt :: "int option"
  er_verifiedAt :: "int option"
  er_result :: "entries option"
  er_verification :: "bool option"
  er_error :: "string option"

record 'w officeState =
  of_objective :: "AgentObjective option"
  of_executions :: "(string \<times> AgentExecutionRecord) list"
  of_executionOrder :: "string list"
  of_plan :: "string list"
  of_blockers :: "string list"
  of_pendingApprovalActionIds :: "string list"
  of_decisionReasons :: "(string \<times> string) list"
  of_eleva :: elevaState
  of_memory :: memoryState
  of_site :: "'w agentSite"
  of_audit :: "AuditLogEntry list"

text \<open>\<open>oe_taskId\<close> is the id this service draws for a task; the pipeline draws its own.\<close>

record officeEnv =
  oe_exec :: execEnv
  oe_memory :: memoryEnv
  oe_taskId :: string
  oe_decisionId :: string
  oe_agentExecutionService :: bool

abbreviation oe_now :: "officeEnv \<Rightarrow> int" where
  "oe_now env \<equiv> ge_now (oe_exec env)"

definition onMemory :: "(memoryState, 'a) prog \<Rightarrow> ('w officeState, 'a) prog" where
  "onMemory m = (\<lambda>s. case m (of_memory s) of (r, x) \<Rightarrow> (r, s\<lparr>of_memory := x\<rparr>))"

definition onSite :: "('w agentSite, 'a) prog \<Rightarrow> ('w officeState, 'a) prog" where
  "onSite m = (\<lambda>s. case m (of_site s) of (r, x) \<Rightarrow> (r, s\<lparr>of_site := x\<rparr>))"

definition office_emitAudit :: "officeEnv \<Rightarrow> string \<Rightarrow> string \<Rightarrow> string \<Rightarrow> entries \<Rightarrow> ('w officeState, unit) prog" where
  "office_emitAudit env action entityName entityId values =
     (if \<not> ge_auditService (oe_exec env) then return ()
      else modify (\<lambda>s. s\<lparr>of_audit := of_audit s @ [agent_entry ''eleva-agent'' action entityName (Some entityId) (JObj values)]\<rparr>))"

definition agent_memory :: "officeEnv \<Rightarrow> MemoryCategory \<Rightarrow> string \<Rightarrow> string \<Rightarrow> MemoryEvidence \<Rightarrow> string \<Rightarrow> MemoryUpsertInput" where
  "agent_memory env category key v evidence tag =
     \<lparr>mo_category = category, mo_key = key, mo_value = v,
      mo_provenance = \<lparr>mp_source = Some ''eleva-agent'', mp_retrievedAt = Some (oe_now env), mp_evidenceClassification = evidence\<rparr>,
      mo_conversationId = None, mo_tags = Some [''m9'', tag]\<rparr>"

definition rememberAs :: "officeEnv \<Rightarrow> MemoryUpsertInput \<Rightarrow> ('w officeState, unit) prog" where
  "rememberAs env input = andThen (onMemory (remember (oe_memory env) input)) (\<lambda>_. return ())"

section \<open>Objective, blockers and decisions\<close>

definition OBJECTIVE_MEMORY_KEY :: string where "OBJECTIVE_MEMORY_KEY = ''eleva-agent:current-objective''"
definition PLAN_MEMORY_KEY :: string where "PLAN_MEMORY_KEY = ''eleva-agent:plan''"
definition BLOCKER_MEMORY_KEY :: string where "BLOCKER_MEMORY_KEY = ''eleva-agent:blockers''"

definition setObjective :: "officeEnv \<Rightarrow> string \<Rightarrow> ('w officeState, AgentObjective) prog" where
  "setObjective env objective =
     andThen get_state (\<lambda>s.
     let ob = \<lparr>ob_objective = js_trim objective,
               ob_createdAt = (case of_objective s of None \<Rightarrow> oe_now env | Some x \<Rightarrow> ob_createdAt x), ob_updatedAt = oe_now env\<rparr> in
     andThen (modify (\<lambda>s. s\<lparr>of_objective := Some ob\<rparr>)) (\<lambda>_.
     andThen (rememberAs env (agent_memory env PROJECT_GOAL OBJECTIVE_MEMORY_KEY (ob_objective ob) Verified ''objective'')) (\<lambda>_.
     andThen (office_emitAudit env ''AGENT.M9.SET_OBJECTIVE'' ''ElevaAgentObjective'' OBJECTIVE_MEMORY_KEY
       [(''objective'', JStr (ob_objective ob))]) (\<lambda>_.
     return ob))))"

definition persistPlan :: "officeEnv \<Rightarrow> ('w officeState, unit) prog" where
  "persistPlan env = andThen get_state (\<lambda>s.
     rememberAs env (agent_memory env PROJECT_GOAL PLAN_MEMORY_KEY (stringify (JArr (map JStr (of_plan s)))) Verified ''plan''))"

definition persistBlockers :: "officeEnv \<Rightarrow> ('w officeState, unit) prog" where
  "persistBlockers env = andThen get_state (\<lambda>s.
     rememberAs env (agent_memory env PROJECT_GOAL BLOCKER_MEMORY_KEY (stringify (JArr (map JStr (of_blockers s)))) Unknown ''blocker''))"

definition persistBusinessMemory :: "officeEnv \<Rightarrow> string \<Rightarrow> entries \<Rightarrow> ('w officeState, unit) prog" where
  "persistBusinessMemory env key payload =
     rememberAs env (agent_memory env DECISION key (stringify (JObj payload)) Recommendation ''execution'')"

definition rememberOutcome :: "officeEnv \<Rightarrow> string \<Rightarrow> entries \<Rightarrow> ('w officeState, unit) prog" where
  "rememberOutcome env taskId outcome =
     andThen (rememberAs env (agent_memory env DECISION (''eleva-agent:outcome:'' @ taskId) (stringify (JObj outcome)) Verified ''outcome'')) (\<lambda>_.
     office_emitAudit env ''AGENT.M9.OUTCOME'' ''ElevaOutcome'' taskId outcome)"

record agentDecision =
  dn_summary :: string
  dn_rationale :: string
  dn_approvalStatus :: string
  dn_initiatedBy :: string

definition agent_recordDecision :: "officeEnv \<Rightarrow> agentDecision \<Rightarrow> ('w officeState, string) prog" where
  "agent_recordDecision env d =
     (let i = oe_decisionId env in
      andThen (modify (\<lambda>s. s\<lparr>of_decisionReasons := AList.update i (dn_rationale d) (of_decisionReasons s)\<rparr>)) (\<lambda>_.
      andThen (rememberAs env (agent_memory env DECISION i (dn_summary d) Recommendation ''decision'')) (\<lambda>_.
      andThen (office_emitAudit env ''AGENT.M9.DECISION'' ''ElevaDecision'' i
        [(''summary'', JStr (dn_summary d)), (''rationale'', JStr (dn_rationale d)),
         (''approvalStatus'', JStr (dn_approvalStatus d)), (''initiatedBy'', JStr (dn_initiatedBy d))]) (\<lambda>_.
      return i))))"

section \<open>Running a task\<close>

definition sensitive_words :: "string list" where
  "sensitive_words = [''deploy'', ''database'', ''migration'', ''payment'', ''billing'', ''security'', ''production'']"

definition isApprovalRequired :: "string option \<Rightarrow> AgentToolRisk option \<Rightarrow> bool" where
  "isApprovalRequired toolName risk \<longleftrightarrow>
     risk = Some HIGH \<or> risk = Some SENSITIVE \<or>
     truthy toolName \<and> list_ex (\<lambda>w. sublist w (toLowerCase (the toolName))) sensitive_words"

definition blank_result :: "string \<Rightarrow> AgentTaskRequest \<Rightarrow> AgentTaskStatus \<Rightarrow> AgentTaskOutcome \<Rightarrow> AgentTaskResult" where
  "blank_result taskId request st outcome =
     \<lparr>tr_taskId = taskId, tr_status = st, tr_outcome = outcome, tr_action = rt_action request, tr_toolName = rt_toolName request,
      tr_requiredPermission = None, tr_risk = None, tr_approvalRequired = None, tr_approvalGranted = None,
      tr_authorizationError = None, tr_validationError = None, tr_toolError = None, tr_verificationError = None, tr_result = None,
      tr_verification = None, tr_executedAt = None\<rparr>"

definition createRejectedResult :: "string \<Rightarrow> AgentTaskRequest \<Rightarrow> string \<Rightarrow> AgentTaskResult" where
  "createRejectedResult taskId request err =
     (blank_result taskId request Task_REJECTED Outcome_UNAUTHORIZED)\<lparr>tr_authorizationError := Some err\<rparr>"

definition createApprovalRequiredResult :: "string \<Rightarrow> AgentTaskRequest \<Rightarrow> AgentTaskResult" where
  "createApprovalRequiredResult taskId request =
     (blank_result taskId request Task_APPROVAL_REQUIRED Outcome_APPROVAL_REQUIRED)
       \<lparr>tr_risk := rt_risk request, tr_approvalRequired := Some True, tr_approvalGranted := Some False\<rparr>"

definition createToolFailureResult :: "string \<Rightarrow> AgentTaskRequest \<Rightarrow> string \<Rightarrow> AgentTaskResult" where
  "createToolFailureResult taskId request err =
     (blank_result taskId request Task_FAILED Outcome_TOOL_FAILURE)\<lparr>tr_toolError := Some err\<rparr>"

text \<open>The defined members of such a result, in the order they are written.\<close>

definition result_values :: "AgentTaskResult \<Rightarrow> entries" where
  "result_values r = defined
     [(''taskId'', Some (JStr (tr_taskId r))), (''status'', Some (JStr (show_task_status (tr_status r)))),
      (''outcome'', Some (JStr (show_outcome (tr_outcome r)))), (''action'', Some (JStr (tr_action r))),
      (''toolName'', map_option JStr (tr_toolName r)), (''risk'', map_option (\<lambda>x. JStr (show_risk x)) (tr_risk r)),
      (''approvalRequired'', map_option JBool (tr_approvalRequired r)), (''approvalGranted'', map_option JBool (tr_approvalGranted r)),
      (''authorizationError'', map_option JStr (tr_authorizationError r)), (''toolError'', map_option JStr (tr_toolError r))]"

text \<open>
  The record of a task. What is handed over after an execution is a record already, which has no
  \<^verbatim>\<open>toolError\<close> or \<^verbatim>\<open>verificationError\<close> to take the error from: \<open>err\<close> is then \<open>None\<close>.
\<close>

definition recordExecution :: "officeEnv \<Rightarrow> AgentTaskResult \<Rightarrow> string option \<Rightarrow> ('w officeState, unit) prog" where
  "recordExecution env r err =
     (let rec = \<lparr>er_taskId = oe_taskId env, er_action = tr_action r, er_status = tr_status r, er_outcome = tr_outcome r,
                 er_executedAt = tr_executedAt r, er_verifiedAt = (if tr_verification r = Some True then Some (oe_now env) else None),
                 er_result = tr_result r, er_verification = tr_verification r, er_error = err\<rparr> in
      modify (\<lambda>s. s\<lparr>of_executions := AList.update (oe_taskId env) rec (of_executions s),
                    of_executionOrder := of_executionOrder s @ [oe_taskId env]\<rparr>))"

definition or_option :: "'a option \<Rightarrow> 'a option \<Rightarrow> 'a option" where
  "or_option x y = (case x of None \<Rightarrow> y | Some a \<Rightarrow> Some a)"

definition add_pending :: "string \<Rightarrow> ('w officeState, unit) prog" where
  "add_pending i = modify (\<lambda>s. s\<lparr>of_pendingApprovalActionIds :=
     (if i \<in> set (of_pendingApprovalActionIds s) then of_pendingApprovalActionIds s else of_pendingApprovalActionIds s @ [i])\<rparr>)"

definition remove_pending :: "string \<Rightarrow> ('w officeState, unit) prog" where
  "remove_pending i = modify (\<lambda>s. s\<lparr>of_pendingApprovalActionIds := filter (\<lambda>j. j \<noteq> i) (of_pendingApprovalActionIds s)\<rparr>)"

definition pending_id :: "officeEnv \<Rightarrow> AgentTaskRequest \<Rightarrow> string" where
  "pending_id env request = ''pending:'' @ or_else (rt_toolName request) (rt_action request) @ '':'' @ oe_taskId env"

text \<open>A task that is not handed to the pipeline: recorded, reported and answered.\<close>

definition declineTask :: "officeEnv \<Rightarrow> AgentTaskResult \<Rightarrow> ('w officeState, AgentTaskResult) prog" where
  "declineTask env result =
     andThen (recordExecution env result (or_option (tr_toolError result) (tr_verificationError result))) (\<lambda>_.
     andThen (office_emitAudit env ''AGENT.M9.RUN_TASK'' ''ElevaTask'' (oe_taskId env) (result_values result)) (\<lambda>_.
     return result))"

definition awaitApproval :: "officeEnv \<Rightarrow> AgentTaskRequest \<Rightarrow> ('w officeState, AgentTaskResult) prog" where
  "awaitApproval env request =
     andThen (add_pending (pending_id env request)) (\<lambda>_.
     declineTask env (createApprovalRequiredResult (oe_taskId env) request))"

text \<open>What follows the pipeline.\<close>

definition finishTask ::
  "officeEnv \<Rightarrow> AgentTaskRequest \<Rightarrow> bool \<Rightarrow> AgentTaskResult \<Rightarrow> ('w officeState, AgentTaskResult) prog" where
  "finishTask env request approved r =
     (let err = or_option (tr_toolError r) (or_option (tr_verificationError r) (tr_authorizationError r)) in
      andThen (recordExecution env r None) (\<lambda>_.
      andThen (if tr_outcome r = Outcome_EXECUTED
               then persistBusinessMemory env (oe_taskId env @ '':executed'')
                 (defined [(''type'', Some (JStr ''task-executed'')), (''taskId'', Some (JStr (oe_taskId env))),
                   (''action'', Some (JStr (rt_action request))), (''toolName'', map_option JStr (rt_toolName request)),
                   (''outcome'', Some (JStr (show_outcome (tr_outcome r))))])
               else return ()) (\<lambda>_.
      andThen (if tr_outcome r = Outcome_VERIFICATION_FAILURE
               then andThen (modify (\<lambda>s. s\<lparr>of_blockers := of_blockers s @ [''Verification failure for task '' @ oe_taskId env @ '': '' @
                      (case err of None \<Rightarrow> ''undefined'' | Some e \<Rightarrow> e)]\<rparr>)) (\<lambda>_. persistBlockers env)
               else return ()) (\<lambda>_.
      andThen (if tr_outcome r = Outcome_APPROVAL_REQUIRED then add_pending (pending_id env request)
               else if approved then remove_pending (pending_id env request)
               else return ()) (\<lambda>_.
      andThen (office_emitAudit env ''AGENT.M9.RUN_TASK'' ''ElevaTask'' (oe_taskId env)
        (defined [(''taskId'', Some (JStr (oe_taskId env))), (''status'', Some (JStr (show_task_status (tr_status r)))),
          (''outcome'', Some (JStr (show_outcome (tr_outcome r)))), (''approvalRequired'', map_option JBool (tr_approvalRequired r)),
          (''approvalGranted'', map_option JBool (tr_approvalGranted r))])) (\<lambda>_.
      return r))))))"

text \<open>The approval the request names, as it stands in the service of approvals.\<close>

definition standing_approval :: "officeEnv \<Rightarrow> AgentTaskRequest \<Rightarrow> 'w officeState \<Rightarrow> bool" where
  "standing_approval env request s \<longleftrightarrow>
     truthy (rt_approvalActionId request) \<and>
     av_approved (getApproval (agentEnv.truncate (oe_exec env)) (the (rt_approvalActionId request)) (of_eleva s))"

definition runTask ::
  "casl_type \<Rightarrow> officeEnv \<Rightarrow> 'w registry \<Rightarrow> AgentTaskRequest \<Rightarrow> authenticatedUser option \<Rightarrow> entries option \<Rightarrow>
   ('w officeState, AgentTaskResult) prog" where
  "runTask can env tools request user repositoryContext =
     (case user of
        None \<Rightarrow> declineTask env (createRejectedResult (oe_taskId env) request
                  ''Authenticated user is required before executing an ELEVA task.'')
      | Some u \<Rightarrow>
          andThen get_state (\<lambda>s.
          let approved = standing_approval env request s in
          if truthy (rt_toolName request) \<and> \<not> approved \<and> isApprovalRequired (rt_toolName request) (rt_risk request)
          then awaitApproval env request
          else if list_ex (\<lambda>f. af_approvalRequired f = Some True) (advise (rt_action request) repositoryContext) \<and> \<not> approved
          then awaitApproval env request
          else if \<not> oe_agentExecutionService env
          then declineTask env (createToolFailureResult (oe_taskId env) request ''AgentExecutionService is not available.'')
          else andThen (onSite (executeTask can (oe_exec env) tools request (Some u))) (finishTask env request approved)))"

section \<open>The next action\<close>

definition is_failure :: "AgentExecutionRecord \<Rightarrow> bool" where
  "is_failure r \<longleftrightarrow> er_outcome r = Outcome_VERIFICATION_FAILURE \<or> er_outcome r = Outcome_TOOL_FAILURE"

definition determineNextAction :: "'w officeState \<Rightarrow> string list \<times> string list" where
  "determineNextAction s =
     (case of_objective s of
        None \<Rightarrow> ([], of_blockers s @ [''No active objective is set. The agent cannot continue without an objective.''])
      | Some ob \<Rightarrow>
          (case filter (\<lambda>b. \<not> startsWith b ''No active objective'') (of_blockers s) of
             b # bs \<Rightarrow> ([''Resolve blocker: '' @ b], b # bs)
           | [] \<Rightarrow>
               (case filter is_failure (map (\<lambda>i. the (map_of (of_executions s) i)) (of_executionOrder s)) of
                  f # fs \<Rightarrow> ([''Investigate failure evidence for task '' @ er_taskId f @ ''.'',
                             ''Retry or route through approval only when bounded and justified.''], of_blockers s)
                | [] \<Rightarrow> ([''Continue objective: '' @ ob_objective ob], of_blockers s))))"

section \<open>The gate in front of the pipeline\<close>

text \<open>Everything but the execution leaves the world of the tools and the approvals alone.\<close>

definition same_world :: "'w officeState \<Rightarrow> 'w officeState \<Rightarrow> bool" where
  "same_world s s' \<longleftrightarrow> of_site s' = of_site s \<and> of_eleva s' = of_eleva s"

interpretation world: change same_world
  by unfold_locales (auto simp: same_world_def)

text \<open>Of the ids that wait for an approval, at most \<open>i\<close> is taken away.\<close>

definition still_pending :: "string \<Rightarrow> 'w officeState \<Rightarrow> 'w officeState \<Rightarrow> bool" where
  "still_pending i s s' \<longleftrightarrow> set (of_pendingApprovalActionIds s) - {i} \<subseteq> set (of_pendingApprovalActionIds s')"

interpretation pending: change "still_pending i"
  by unfold_locales (auto simp: still_pending_def)

lemmas office_steps = recordExecution_def office_emitAudit_def add_pending_def remove_pending_def rememberAs_def onMemory_def

lemma along_same_world:
  "along same_world (recordExecution env r err)" "along same_world (office_emitAudit env a n i v)"
  "along same_world (add_pending i)" "along same_world (remove_pending i)" "along same_world (rememberAs env input)"
  "along same_world (modify (\<lambda>s. s\<lparr>of_blockers := f s\<rparr>))" "along same_world get_state"
  by (simp_all add: along_def same_world_def office_steps andThen_def modify_def return_def get_state_def Let_def split: prod.splits sum.splits)

lemma along_still_pending:
  "along (still_pending j) (recordExecution env r err)" "along (still_pending j) (office_emitAudit env a n i v)"
  "along (still_pending j) (add_pending i)" "along (still_pending i) (remove_pending i)"
  "along (still_pending j) (rememberAs env input)"
  "along (still_pending j) (modify (\<lambda>s. s\<lparr>of_blockers := f s\<rparr>))" "along (still_pending j) get_state"
  "along (still_pending j) (onSite m)"
  by (auto simp: along_def still_pending_def office_steps onSite_def andThen_def modify_def return_def get_state_def Let_def
      split: prod.splits sum.splits)

lemma declineTask_world: "along same_world (declineTask env r)"
  unfolding declineTask_def by (intro world.along_intros along_same_world)

lemma awaitApproval_world: "along same_world (awaitApproval env request)"
  unfolding awaitApproval_def by (intro world.along_intros along_same_world declineTask_world)

lemma finishTask_world: "along same_world (finishTask env request approved r)"
  unfolding finishTask_def persistBusinessMemory_def persistBlockers_def Let_def
  by (intro world.along_intros along_same_world)

lemma declineTask_pending: "along (still_pending j) (declineTask env r)"
  unfolding declineTask_def by (intro pending.along_intros along_still_pending)

lemma awaitApproval_pending: "along (still_pending j) (awaitApproval env request)"
  unfolding awaitApproval_def by (intro pending.along_intros along_still_pending declineTask_pending)

lemma finishTask_pending: "along (still_pending (pending_id env request)) (finishTask env request approved r)"
  unfolding finishTask_def persistBusinessMemory_def persistBlockers_def Let_def
  by (intro pending.along_intros along_still_pending)

lemma runTask_pending: "along (still_pending (pending_id env request)) (runTask can env tools request user facts)"
  unfolding runTask_def Let_def
  by (intro pending.along_intros along_still_pending declineTask_pending awaitApproval_pending finishTask_pending)

text \<open>A run that reaches the world of the tools was handed to the pipeline.\<close>

definition gated :: "officeEnv \<Rightarrow> AgentTaskRequest \<Rightarrow> 'w officeState \<Rightarrow> bool" where
  "gated env request s \<longleftrightarrow>
     truthy (rt_toolName request) \<and> \<not> standing_approval env request s \<and> isApprovalRequired (rt_toolName request) (rt_risk request)"

lemma runTask_open_b:
  assumes "standing_approval env request s = b" "\<not> (truthy (rt_toolName request) \<and> \<not> b \<and> isApprovalRequired (rt_toolName request) (rt_risk request))"
    "oe_agentExecutionService env"
  shows "runTask can env tools request (Some u) facts s =
    andThen (onSite (executeTask can (oe_exec env) tools request (Some u))) (finishTask env request b) s"
  using assms advice_requires_no_approval[of "rt_action request" facts]
  by (cases "truthy (rt_toolName request)"; cases b)
     (simp_all add: runTask_def andThen_def get_state_def Let_def split: prod.split sum.split)

lemma runTask_open:
  assumes "\<not> gated env request s" "oe_agentExecutionService env"
  shows "runTask can env tools request (Some u) facts s =
    andThen (onSite (executeTask can (oe_exec env) tools request (Some u))) (finishTask env request (standing_approval env request s)) s"
  by (rule runTask_open_b[OF refl assms(1)[unfolded gated_def] assms(2)])

lemma runTask_gated:
  assumes "gated env request s"
  shows "runTask can env tools request (Some u) facts s = awaitApproval env request s"
  using assms by (simp add: runTask_def andThen_def get_state_def Let_def gated_def)

lemma awaitApproval_answer:
  "\<exists>res s'. awaitApproval env request s = (Inr res, s') \<and> tr_outcome res = Outcome_APPROVAL_REQUIRED \<and>
     pending_id env request \<in> set (of_pendingApprovalActionIds s')"
  by (simp add: awaitApproval_def declineTask_def office_steps andThen_def modify_def return_def Let_def
      createApprovalRequiredResult_def blank_result_def)

lemma same_world_site: "along same_world m \<Longrightarrow> of_site (snd (m s)) = of_site s"
  by (simp add: along_def same_world_def)

lemma handed_over_world:
  "of_site (snd (andThen (onSite m) (finishTask env request b) s)) = snd (m (of_site s))"
proof (cases "m (of_site s)")
  case (Pair r t)
  then show ?thesis by (cases r) (simp_all add: andThen_def onSite_def same_world_site[OF finishTask_world])
qed

lemma runTask_world:
  assumes "ag_world (of_site (snd (runTask can env tools request user facts s))) \<noteq> ag_world (of_site s)"
  obtains u where "user = Some u" "\<not> gated env request s" "oe_agentExecutionService env"
    "of_site (snd (runTask can env tools request user facts s)) = snd (executeTask can (oe_exec env) tools request (Some u) (of_site s))"
proof -
  have quiet: "of_site (snd (declineTask env r s)) = of_site s" "of_site (snd (awaitApproval env request s)) = of_site s" for r
    by (rule same_world_site[OF declineTask_world] same_world_site[OF awaitApproval_world])+
  obtain u where u: "user = Some u" using assms quiet by (cases user) (auto simp: runTask_def)
  have open_: "\<not> gated env request s" using assms quiet runTask_gated[of env request s] u by auto
  have service: "oe_agentExecutionService env"
  proof (rule ccontr)
    assume "\<not> oe_agentExecutionService env"
    then have "runTask can env tools request user facts s =
        declineTask env (createToolFailureResult (oe_taskId env) request ''AgentExecutionService is not available.'') s"
      using open_ advice_requires_no_approval[of "rt_action request" facts]
      by (cases "truthy (rt_toolName request)"; cases "standing_approval env request s")
         (simp_all add: runTask_def u andThen_def get_state_def Let_def gated_def)
    with assms quiet show False by simp
  qed
  show thesis using that[OF u open_ service] runTask_open[OF open_ service, of can tools u facts] by (simp add: u handed_over_world)
qed

end
