(* ===== verification/Intelligence_Service.thy ===== *)
theory Intelligence_Service
  imports Agent_Advisory "HOL-Library.Word" "HOL-Library.Char_ord" "HOL-Library.List_Lexorder" "HOL-Library.Multiset"
begin

text \<open>
  \<^verbatim>\<open>eleva/eleva.intelligence.ts\<close>: signals, the events made of them, the situations events are correlated
  to, and the rules that look for anomalies, all in the memory of the process. The members \<^verbatim>\<open>knownImpact\<close>
  and \<^verbatim>\<open>analysis\<close> of a situation are never set. A service that throws has changed nothing.
\<close>

section \<open>State\<close>

datatype SignalStatus = RECEIVED | VALID | INVALID | REJECTED
datatype SituationState = DETECTED | INVESTIGATING | ACTIVE_SITUATION | RESOLVED
datatype Severity = SevLOW | SevMEDIUM | SevHIGH | SevCRITICAL

fun show_severity :: "Severity \<Rightarrow> string" where
  "show_severity SevLOW = ''LOW''"
| "show_severity SevMEDIUM = ''MEDIUM''"
| "show_severity SevHIGH = ''HIGH''"
| "show_severity SevCRITICAL = ''CRITICAL''"

fun show_situation_state :: "SituationState \<Rightarrow> string" where
  "show_situation_state DETECTED = ''DETECTED''"
| "show_situation_state INVESTIGATING = ''INVESTIGATING''"
| "show_situation_state ACTIVE_SITUATION = ''ACTIVE''"
| "show_situation_state RESOLVED = ''RESOLVED''"

record Signal =
  si_id :: string
  si_source :: string
  si_type :: string
  si_receivedAt :: int
  si_status :: SignalStatus
  si_raw :: entries
  si_evidence :: "entries option"

record Event =
  en_id :: string
  en_signalId :: string
  en_source :: string
  en_category :: string
  en_type :: string
  en_receivedAt :: int
  en_data :: entries
  en_correlationKey :: "string option"

record RecommendationM7 =
  rc_id :: string
  rc_situationId :: string
  rc_summary :: string
  rc_proposedAction :: string
  rc_reason :: string
  rc_risk :: RiskEntry
  rc_approvalRequired :: bool
  rc_status :: string
  rc_createdAt :: int

record AlertM7 =
  at_alertId :: string
  at_situationId :: string
  at_severity :: Severity
  at_reason :: string
  at_evidence :: entries

record Situation =
  sn_id :: string
  sn_state :: SituationState
  sn_severity :: Severity
  sn_eventIds :: "string list"
  sn_correlationReason :: string
  sn_detectedAt :: int
  sn_lastUpdatedAt :: int
  sn_recommendations :: "RecommendationM7 list"
  sn_alerts :: "AlertM7 list"
  sn_resolution :: "string option"

text \<open>What a rule that was triggered reports.\<close>

record anomaly =
  an_reason :: string
  an_evidence :: entries

record situationMemory =
  sm_memoryKey :: string
  sm_value :: string
  sm_evidenceClassification :: string
  sm_updatedAt :: int

record intelligence =
  in_signals :: "(string \<times> Signal) list"
  in_events :: "(string \<times> Event) list"
  in_situations :: "(string \<times> Situation) list"
  in_recommendations :: "(string \<times> RecommendationM7) list"
  in_alerts :: "(string \<times> AlertM7) list"
  in_rules :: "(string \<times> (Event list \<Rightarrow> anomaly option)) list"
  in_memory :: "(string \<times> situationMemory list) list"
  in_providers :: "(string \<times> bool \<times> string option) list"
  in_audit :: "AuditLogEntry list"

record intelligenceEnv = agentEnv +
  ge_newId :: string

definition intel_emitAudit :: "intelligenceEnv \<Rightarrow> string \<Rightarrow> string \<Rightarrow> string \<Rightarrow> entries \<Rightarrow> (intelligence, unit) prog" where
  "intel_emitAudit env action entityName entityId values =
     (if \<not> ge_auditService env then return ()
      else modify (\<lambda>s. s\<lparr>in_audit := in_audit s @ [agent_entry ''eleva-intelligence'' action entityName (Some entityId) (JObj values)]\<rparr>))"

section \<open>Signals and events\<close>

definition ingestSignal :: "intelligenceEnv \<Rightarrow> string \<Rightarrow> string \<Rightarrow> entries \<Rightarrow> entries option \<Rightarrow> (intelligence, Signal) prog" where
  "ingestSignal env source type raw evidence =
     (let sg = \<lparr>si_id = ge_newId env, si_source = source, si_type = type, si_receivedAt = ge_now env, si_status = RECEIVED,
                si_raw = raw, si_evidence = evidence\<rparr> in
      andThen (modify (\<lambda>s. s\<lparr>in_signals := AList.update (ge_newId env) sg (in_signals s)\<rparr>)) (\<lambda>_.
      andThen (intel_emitAudit env ''AGENT.M7.SIGNAL_RECEIVED'' ''ElevaSignal'' (ge_newId env)
        [(''source'', JStr source), (''type'', JStr type), (''status'', JStr ''RECEIVED'')]) (\<lambda>_.
      return sg)))"

definition requireSignal :: "string \<Rightarrow> intelligence \<Rightarrow> exn + Signal" where
  "requireSignal i s = (case map_of (in_signals s) i of None \<Rightarrow> Inl (JsError (''Signal ['' @ i @ ''] was not found.'')) | Some x \<Rightarrow> Inr x)"

definition requireEvent :: "string \<Rightarrow> intelligence \<Rightarrow> exn + Event" where
  "requireEvent i s = (case map_of (in_events s) i of None \<Rightarrow> Inl (JsError (''Event ['' @ i @ ''] was not found.'')) | Some x \<Rightarrow> Inr x)"

definition requireSituation :: "string \<Rightarrow> intelligence \<Rightarrow> exn + Situation" where
  "requireSituation i s =
     (case map_of (in_situations s) i of None \<Rightarrow> Inl (JsError (''Situation ['' @ i @ ''] was not found.'')) | Some x \<Rightarrow> Inr x)"

text \<open>After the check no status is left that would be changed to valid.\<close>

definition convertSignalToEvent :: "intelligenceEnv \<Rightarrow> string \<Rightarrow> string \<Rightarrow> string option \<Rightarrow> (intelligence, Event) prog" where
  "convertSignalToEvent env signalId category correlationKey =
     andThen get_state (\<lambda>s. andThen (of_result (requireSignal signalId s)) (\<lambda>sg.
     if si_status sg = INVALID \<or> si_status sg = REJECTED
     then throw (JsError (''Signal ['' @ signalId @ ''] is not valid and cannot be converted to an event.''))
     else
     let status = (if si_status sg \<in> {RECEIVED, VALID} then si_status sg else VALID);
         ev = \<lparr>en_id = ge_newId env, en_signalId = signalId, en_source = si_source sg, en_category = category, en_type = si_type sg,
               en_receivedAt = ge_now env, en_data = si_raw sg, en_correlationKey = correlationKey\<rparr> in
     andThen (modify (\<lambda>s. s\<lparr>in_signals := AList.update signalId (sg\<lparr>si_status := status\<rparr>) (in_signals s),
                            in_events := AList.update (ge_newId env) ev (in_events s)\<rparr>)) (\<lambda>_.
     andThen (intel_emitAudit env ''AGENT.M7.EVENT_CREATED'' ''ElevaEvent'' (ge_newId env)
       (defined [(''signalId'', Some (JStr signalId)), (''category'', Some (JStr category)), (''type'', Some (JStr (en_type ev))),
         (''correlationKey'', map_option JStr correlationKey)])) (\<lambda>_.
     return ev))))"

section \<open>Situations\<close>

fun digits36 :: "nat \<Rightarrow> string" where
  "digits36 n = (if n < 36 then [char_of (if n < 10 then 48 + n else 87 + n)]
                 else digits36 (n div 36) @ [char_of (if n mod 36 < 10 then 48 + n mod 36 else 87 + n mod 36)])"

declare digits36.simps [simp del]

text \<open>One turn of the hash: \<^verbatim>\<open>((hash << 5) - hash + code) | 0\<close> on 32-bit integers.\<close>

definition hash_step :: "32 word \<Rightarrow> char \<Rightarrow> 32 word" where
  "hash_step hash c = push_bit 5 hash - hash + of_nat (of_char c)"

definition situation_hash :: "string \<Rightarrow> 32 word" where
  "situation_hash s = foldl hash_step 0 s"

definition deriveSituationId :: "int \<Rightarrow> string list \<Rightarrow> json \<Rightarrow> string" where
  "deriveSituationId now eventIds criteria =
     (let hash = foldl hash_step (situation_hash (join_with ''|'' (sort eventIds))) (stringify criteria) in
      ''situation:'' @ digits36 (nat \<bar>sint hash\<bar>) @ '':'' @ digits36 (nat now))"

definition correlateEvents :: "intelligenceEnv \<Rightarrow> string list \<Rightarrow> string \<Rightarrow> json \<Rightarrow> (intelligence, string) prog" where
  "correlateEvents env eventIds reason criteria =
     (if eventIds = [] then throw (JsError ''Event correlation requires at least one event.'')
      else if js_trim reason = [] then throw (JsError ''correlationReason is required for event correlation.'')
      else
      let i = deriveSituationId (ge_now env) eventIds criteria in
      andThen get_state (\<lambda>s.
      let related = rev (remdups (rev ((case map_of (in_situations s) i of None \<Rightarrow> [] | Some x \<Rightarrow> sn_eventIds x) @ sort eventIds)));
          base = (case map_of (in_situations s) i of
             None \<Rightarrow> \<lparr>sn_id = i, sn_state = DETECTED, sn_severity = SevLOW, sn_eventIds = [], sn_correlationReason = [],
                      sn_detectedAt = ge_now env, sn_lastUpdatedAt = ge_now env, sn_recommendations = [], sn_alerts = [], sn_resolution = None\<rparr>
           | Some x \<Rightarrow> x) in
      andThen (modify (\<lambda>s. s\<lparr>in_situations := AList.update i
        (base\<lparr>sn_eventIds := related, sn_correlationReason := js_trim reason, sn_lastUpdatedAt := ge_now env\<rparr>) (in_situations s)\<rparr>)) (\<lambda>_.
      andThen (intel_emitAudit env ''AGENT.M7.EVENTS_CORRELATED'' ''ElevaSituation'' i
        [(''eventIds'', JArr (map JStr related)), (''reason'', JStr (js_trim reason)), (''criteria'', criteria)]) (\<lambda>_.
      return i))))"

text \<open>A change of one situation: looked up, changed, stamped, stored and reported.\<close>

definition updateSituation ::
  "intelligenceEnv \<Rightarrow> string \<Rightarrow> (Situation \<Rightarrow> Situation) \<Rightarrow> (intelligence, Situation) prog" where
  "updateSituation env situationId f =
     andThen get_state (\<lambda>s. andThen (of_result (requireSituation situationId s)) (\<lambda>sn.
     let sn' = (f sn)\<lparr>sn_lastUpdatedAt := ge_now env\<rparr> in
     andThen (modify (\<lambda>s. s\<lparr>in_situations := AList.update situationId sn' (in_situations s)\<rparr>)) (\<lambda>_. return sn')))"

definition assessSituationSeverity ::
  "intelligenceEnv \<Rightarrow> string \<Rightarrow> Severity \<Rightarrow> string \<Rightarrow> entries \<Rightarrow> (intelligence, Situation) prog" where
  "assessSituationSeverity env situationId severity reason evidence =
     andThen get_state (\<lambda>s. andThen (of_result (requireSituation situationId s)) (\<lambda>_.
     andThen (guard (\<not> (severity \<in> {SevHIGH, SevCRITICAL} \<and> (js_trim reason = [] \<or> evidence = [])))
       (JsError ''HIGH/CRITICAL severity assessments must include a reason and supporting evidence.'')) (\<lambda>_.
     andThen (updateSituation env situationId (\<lambda>sn. sn\<lparr>sn_severity := severity\<rparr>)) (\<lambda>sn.
     andThen (intel_emitAudit env ''AGENT.M7.SEVERITY_ASSESSED'' ''ElevaSituation'' situationId
       [(''severity'', JStr (show_severity severity)), (''reason'', JStr reason), (''evidenceKeys'', JArr (map (\<lambda>(k, v). JStr k) evidence))]) (\<lambda>_.
     return sn)))))"

record recommendationInput =
  ri_summary :: string
  ri_proposedAction :: string
  ri_reason :: string
  ri_risk :: RiskEntry
  ri_approvalRequired :: bool

definition createRecommendation ::
  "intelligenceEnv \<Rightarrow> string \<Rightarrow> recommendationInput \<Rightarrow> (intelligence, RecommendationM7) prog" where
  "createRecommendation env situationId input =
     (let rec = \<lparr>rc_id = ge_newId env, rc_situationId = situationId, rc_summary = ri_summary input, rc_proposedAction = ri_proposedAction input,
                 rc_reason = ri_reason input, rc_risk = ri_risk input, rc_approvalRequired = ri_approvalRequired input,
                 rc_status = ''PENDING'', rc_createdAt = ge_now env\<rparr> in
      andThen (updateSituation env situationId (\<lambda>sn. sn\<lparr>sn_recommendations := sn_recommendations sn @ [rec]\<rparr>)) (\<lambda>_.
      andThen (modify (\<lambda>s. s\<lparr>in_recommendations := AList.update (ge_newId env) rec (in_recommendations s)\<rparr>)) (\<lambda>_.
      andThen (intel_emitAudit env ''AGENT.M7.RECOMMENDATION_CREATED'' ''ElevaRecommendation'' (ge_newId env)
        [(''situationId'', JStr situationId), (''approvalRequired'', JBool (ri_approvalRequired input))]) (\<lambda>_.
      return rec))))"

definition alertForSituation :: "intelligenceEnv \<Rightarrow> string \<Rightarrow> string \<Rightarrow> entries \<Rightarrow> (intelligence, AlertM7) prog" where
  "alertForSituation env situationId reason evidence =
     andThen get_state (\<lambda>s. andThen (of_result (requireSituation situationId s)) (\<lambda>sn.
     let alert = \<lparr>at_alertId = ge_newId env, at_situationId = situationId, at_severity = sn_severity sn, at_reason = reason, at_evidence = evidence\<rparr> in
     andThen (updateSituation env situationId (\<lambda>sn. sn\<lparr>sn_alerts := sn_alerts sn @ [alert]\<rparr>)) (\<lambda>_.
     andThen (modify (\<lambda>s. s\<lparr>in_alerts := AList.update (ge_newId env) alert (in_alerts s)\<rparr>)) (\<lambda>_.
     andThen (intel_emitAudit env ''AGENT.M7.ALERT_CREATED'' ''ElevaAlert'' (ge_newId env)
       [(''situationId'', JStr situationId), (''severity'', JStr (show_severity (sn_severity sn))), (''reason'', JStr reason)]) (\<lambda>_.
     return alert)))))"

definition advanceSituationState :: "intelligenceEnv \<Rightarrow> string \<Rightarrow> SituationState \<Rightarrow> (intelligence, Situation) prog" where
  "advanceSituationState env situationId st =
     andThen (updateSituation env situationId (\<lambda>sn. sn\<lparr>sn_state := st,
       sn_resolution := (if st = RESOLVED then Some ''Situation marked resolved by operator.'' else sn_resolution sn)\<rparr>)) (\<lambda>sn.
     andThen (intel_emitAudit env ''AGENT.M7.SITUATION_STATE_ADVANCED'' ''ElevaSituation'' situationId
       [(''state'', JStr (show_situation_state st))]) (\<lambda>_.
     return sn))"

section \<open>Anomalies\<close>

definition repeated_failures_window :: "Event list \<Rightarrow> anomaly option" where
  "repeated_failures_window events =
     (let failureEvents = filter (\<lambda>e. en_type e = ''system.failure'') events in
      if length failureEvents < 3 then None
      else
      let timestamps = sort (map en_receivedAt failureEvents);
          arr = drop (length timestamps - 3) timestamps;
          withinWindow = list_all (\<lambda>t. arr ! 0 - t \<le> 5 * 60 * 1000) arr in
      if withinWindow
      then Some \<lparr>an_reason = ''3 or more system.failure events occurred within 5 minutes.'',
        an_evidence = [(''eventIds'', JArr (map (\<lambda>e. JStr (en_id e)) failureEvents)), (''count'', JNum (int (length failureEvents))),
          (''windowMs'', JNum (5 * 60 * 1000))]\<rparr>
      else None)"

definition error_message :: "Event \<Rightarrow> string" where
  "error_message e =
     (case member_of (JObj (en_data e)) ''message'' of
        JStr m \<Rightarrow> m
      | JNull \<Rightarrow> stringify (JObj (en_data e))
      | v \<Rightarrow> stringify v)"

text \<open>The groups, in the order of their first event.\<close>

definition group_step :: "(string \<times> string list) list \<Rightarrow> Event \<Rightarrow> (string \<times> string list) list" where
  "group_step grouped e =
     (if en_type e \<noteq> ''system.error'' then grouped
      else AList.update (error_message e)
        ((case map_of grouped (error_message e) of None \<Rightarrow> [] | Some ids \<Rightarrow> ids) @ [en_id e]) grouped)"

definition repeated_identical_errors :: "Event list \<Rightarrow> anomaly option" where
  "repeated_identical_errors events =
     (case List.find (\<lambda>(m, ids). 5 \<le> length ids) (foldl group_step [] events) of
        None \<Rightarrow> None
      | Some (m, ids) \<Rightarrow> Some \<lparr>an_reason = ''The same system error message occurred 5 or more times.'',
          an_evidence = [(''eventIds'', JArr (map JStr ids)), (''count'', JNum (int (length ids)))]\<rparr>)"

definition registerAnomalyRule ::
  "intelligenceEnv \<Rightarrow> string \<Rightarrow> string \<Rightarrow> (Event list \<Rightarrow> anomaly option) \<Rightarrow> (intelligence, unit) prog" where
  "registerAnomalyRule env i name evaluate =
     andThen (modify (\<lambda>s. s\<lparr>in_rules := AList.update i evaluate (in_rules s)\<rparr>)) (\<lambda>_.
     intel_emitAudit env ''AGENT.M7.ANOMALY_RULE_REGISTERED'' ''ElevaAnomalyRule'' i [(''name'', JStr name)])"

definition new_intelligence :: "intelligenceEnv \<Rightarrow> intelligence" where
  "new_intelligence env =
     snd (andThen (registerAnomalyRule env ''repeated-failures-window'' ''Repeated failures within a configured window'' repeated_failures_window)
       (\<lambda>_. registerAnomalyRule env ''repeated-identical-errors'' ''Repeated identical errors'' repeated_identical_errors)
       \<lparr>in_signals = [], in_events = [], in_situations = [], in_recommendations = [], in_alerts = [], in_rules = [], in_memory = [],
        in_providers = [], in_audit = []\<rparr>)"

definition detectAnomalies :: "string list \<Rightarrow> (intelligence, (string \<times> anomaly) list) prog" where
  "detectAnomalies eventIds =
     andThen get_state (\<lambda>s.
     andThen (foldProg (\<lambda>i evs. andThen (of_result (requireEvent i s)) (\<lambda>e. return (evs @ [e]))) eventIds []) (\<lambda>events.
     return (concat (map (\<lambda>(i, evaluate). case evaluate events of None \<Rightarrow> [] | Some a \<Rightarrow> [(i, a)]) (in_rules s)))))"

section \<open>Scheduled checks and memory\<close>

record ScheduledCheckResult =
  sk_provider :: string
  sk_available :: bool
  sk_error :: "string option"

definition setProviderAvailability :: "string \<Rightarrow> bool \<Rightarrow> string option \<Rightarrow> (intelligence, unit) prog" where
  "setProviderAvailability provider available reason =
     modify (\<lambda>s. s\<lparr>in_providers := AList.update provider (available, reason) (in_providers s)\<rparr>)"

definition executeScheduledCheck :: "intelligenceEnv \<Rightarrow> string \<Rightarrow> (intelligence, ScheduledCheckResult) prog" where
  "executeScheduledCheck env provider =
     andThen get_state (\<lambda>s.
     case (case map_of (in_providers s) provider of
             None \<Rightarrow> (False, Some ''Provider has not been configured for scheduled checks.'') | Some a \<Rightarrow> a) of
       (available, reason) \<Rightarrow>
         if \<not> available then
           let err = (case reason of None \<Rightarrow> ''Provider is unavailable.'' | Some r \<Rightarrow> r) in
           andThen (intel_emitAudit env ''AGENT.M7.SCHEDULED_CHECK_UNAVAILABLE'' ''ElevaScheduledCheck'' (ge_newId env)
             [(''provider'', JStr provider), (''reason'', JStr err)]) (\<lambda>_.
           return \<lparr>sk_provider = provider, sk_available = False, sk_error = Some err\<rparr>)
         else
           andThen (intel_emitAudit env ''AGENT.M7.SCHEDULED_CHECK_EXECUTED'' ''ElevaScheduledCheck'' (ge_newId env)
             [(''provider'', JStr provider)]) (\<lambda>_.
           return \<lparr>sk_provider = provider, sk_available = True, sk_error = None\<rparr>))"

definition rememberSituationMemory :: "intelligenceEnv \<Rightarrow> string \<Rightarrow> situationMemory \<Rightarrow> (intelligence, unit) prog" where
  "rememberSituationMemory env situationId r =
     andThen get_state (\<lambda>s.
     let existing = (case map_of (in_memory s) situationId of None \<Rightarrow> [] | Some xs \<Rightarrow> xs);
         stamped = r\<lparr>sm_updatedAt := ge_now env\<rparr>;
         replaced = map (\<lambda>x. if sm_memoryKey x = sm_memoryKey r then stamped else x) existing;
         updated = (if list_ex (\<lambda>x. sm_memoryKey x = sm_memoryKey r) replaced then replaced else replaced @ [stamped]) in
     andThen (modify (\<lambda>s. s\<lparr>in_memory := AList.update situationId updated (in_memory s)\<rparr>)) (\<lambda>_.
     intel_emitAudit env ''AGENT.M7.SITUATION_MEMORY'' ''ElevaSituationMemory'' situationId
       [(''memoryKey'', JStr (sm_memoryKey r)), (''evidenceClassification'', JStr (sm_evidenceClassification r))]))"

definition recallSituationMemory :: "string \<Rightarrow> intelligence \<Rightarrow> situationMemory list" where
  "recallSituationMemory situationId s = (case map_of (in_memory s) situationId of None \<Rightarrow> [] | Some xs \<Rightarrow> xs)"

section \<open>What the rules look at\<close>

text \<open>The window is no window: of the last three timestamps, the first minus any is never positive.\<close>

lemma repeated_failures_iff:
  "repeated_failures_window events \<noteq> None \<longleftrightarrow> 3 \<le> length (filter (\<lambda>e. en_type e = ''system.failure'') events)"
proof -
  define ts where "ts = sort (map en_receivedAt (filter (\<lambda>e. en_type e = ''system.failure'') events))"
  have "list_all (\<lambda>t. drop (length ts - 3) ts ! 0 - t \<le> 5 * 60 * 1000) (drop (length ts - 3) ts)" if "3 \<le> length ts"
  proof -
    define arr where "arr = drop (length ts - 3) ts"
    have sorted: "sorted arr" by (simp add: arr_def ts_def sorted_wrt_drop)
    have "arr ! 0 \<le> t" if "t \<in> set arr" for t
    proof -
      from that obtain i where "i < length arr" "t = arr ! i" by (metis in_set_conv_nth)
      then show ?thesis using sorted_nth_mono[OF sorted, of 0 i] by simp
    qed
    then show ?thesis unfolding arr_def[symmetric] list_all_iff by force
  qed
  then show ?thesis by (auto simp: repeated_failures_window_def Let_def ts_def)
qed

definition errors_saying :: "string \<Rightarrow> Event list \<Rightarrow> Event list" where
  "errors_saying m events = filter (\<lambda>e. en_type e = ''system.error'' \<and> error_message e = m) events"

lemma groups_spec:
  "distinct (map fst (foldl group_step [] events)) \<and>
   (\<forall>m. map_of (foldl group_step [] events) m =
      (if errors_saying m events = [] then None else Some (map en_id (errors_saying m events))))"
proof (induction events rule: rev_induct)
  case Nil
  then show ?case by (simp add: errors_saying_def)
next
  case (snoc e events)
  then show ?case by (auto simp: group_step_def errors_saying_def distinct_update update_conv)
qed

lemma find_assoc:
  assumes "distinct (map fst al)" "List.find (\<lambda>(m, x). P x) al = Some (m, x)"
  shows "map_of al m = Some x \<and> P x"
  using find_SomeD[OF assms(2)] assms(1) by (auto simp: map_of_eq_Some_iff)

lemma repeated_errors_Some:
  assumes "repeated_identical_errors events = Some a"
  obtains m where "5 \<le> length (errors_saying m events)"
    "an_evidence a = [(''eventIds'', JArr (map (\<lambda>e. JStr (en_id e)) (errors_saying m events))), (''count'', JNum (int (length (errors_saying m events))))]"
proof -
  from assms obtain m ids where f: "List.find (\<lambda>(m, ids). 5 \<le> length ids) (foldl group_step [] events) = Some (m, ids)"
    and a: "an_evidence a = [(''eventIds'', JArr (map JStr ids)), (''count'', JNum (int (length ids)))]"
    by (auto simp: repeated_identical_errors_def split: option.splits)
  have "map_of (foldl group_step [] events) m = Some ids \<and> 5 \<le> length ids"
    using groups_spec[of events] f by (intro find_assoc) auto
  then have "ids = map en_id (errors_saying m events)" "5 \<le> length ids"
    using groups_spec[of events] by (auto split: if_splits)
  with a that show thesis by (simp add: comp_def)
qed

lemma repeated_errors_iff:
  "repeated_identical_errors events \<noteq> None \<longleftrightarrow> (\<exists>m. 5 \<le> length (errors_saying m events))"
proof
  assume "repeated_identical_errors events \<noteq> None"
  then show "\<exists>m. 5 \<le> length (errors_saying m events)" using repeated_errors_Some by blast
next
  assume "\<exists>m. 5 \<le> length (errors_saying m events)"
  then obtain m where m: "5 \<le> length (errors_saying m events)" ..
  then have "map_of (foldl group_step [] events) m = Some (map en_id (errors_saying m events))" using groups_spec[of events] by auto
  then have "(m, map en_id (errors_saying m events)) \<in> set (foldl group_step [] events)" by (rule map_of_SomeD)
  moreover have "case (m, map en_id (errors_saying m events)) of (m, ids) \<Rightarrow> 5 \<le> length ids" using m by simp
  ultimately have "List.find (\<lambda>(m, ids). 5 \<le> length ids) (foldl group_step [] events) \<noteq> None"
    unfolding find_None_iff by blast
  then show "repeated_identical_errors events \<noteq> None" by (auto simp: repeated_identical_errors_def)
qed

section \<open>The id of a situation\<close>

definition digit36_val :: "char \<Rightarrow> nat" where
  "digit36_val c = (if (of_char c :: nat) < 58 then of_char c - 48 else of_char c - 87)"

lemma digit36_char: "d < 36 \<Longrightarrow> digit36_val (char_of (if d < 10 then 48 + d else 87 + d)) = d"
  by (auto simp: digit36_val_def)

lemma digits36_val: "foldl (\<lambda>a c. a * 36 + digit36_val c) 0 (digits36 n) = n"
proof (induction n rule: digits36.induct)
  case (1 n)
  show ?case
  proof (cases "n < 36")
    case True
    then show ?thesis by (subst digits36.simps) (simp add: digit36_char)
  next
    case False
    then show ?thesis using 1[OF False] by (subst digits36.simps) (simp add: digit36_char)
  qed
qed

lemma digits36_inj: "digits36 m = digits36 n \<longleftrightarrow> m = n"
  using digits36_val[of m] digits36_val[of n] by metis

lemma digits36_no_colon: "CHR '':'' \<notin> set (digits36 n)"
proof (induction n rule: digits36.induct)
  case (1 n)
  have no: "CHR '':'' \<noteq> char_of (if d < 10 then 48 + d else 87 + d)" if "d < 36" for d :: nat
  proof
    assume "CHR '':'' = char_of (if d < 10 then 48 + d else 87 + d)"
    then have "(of_char (CHR '':'') :: nat) = of_char (char_of (if d < 10 then 48 + d else 87 + d))" by (rule arg_cong)
    with that show False by (auto split: if_splits)
  qed
  show ?case using 1 no[of n] no[of "n mod 36"] by (subst digits36.simps) auto
qed

lemma situation_ids_differ:
  assumes "0 \<le> t" "0 \<le> t'" "t \<noteq> t'"
  shows "deriveSituationId t ids c \<noteq> deriveSituationId t' ids' c'"
proof
  assume eq: "deriveSituationId t ids c = deriveSituationId t' ids' c'"
  have shape: "split_on (CHR '':'') (''situation:'' @ digits36 m @ '':'' @ digits36 n) = [''situation'', digits36 m, digits36 n]" for m n
    using split_on_append_sep[of "CHR '':''" "''situation''" "digits36 m @ CHR '':'' # digits36 n"]
      split_on_append_sep[OF digits36_no_colon, of m "digits36 n"] split_on_no_sep[OF digits36_no_colon, of n] by simp
  from arg_cong[OF eq, of "split_on (CHR '':'')"] have "digits36 (nat t) = digits36 (nat t')"
    by (simp only: deriveSituationId_def Let_def shape list.inject)
  then show False using assms by (simp add: digits36_inj)
qed

lemma situation_id_order:
  assumes "mset ids = mset ids'"
  shows "deriveSituationId t ids c = deriveSituationId t ids' c"
proof -
  have "sort ids = sort ids'" by (rule properties_for_sort) (simp_all add: assms)
  then show ?thesis by (simp add: deriveSituationId_def)
qed

section \<open>Signals are never refused\<close>

text \<open>Nothing marks a signal as invalid or rejected, so the check before the conversion never fires.\<close>

definition all_received :: "intelligence \<Rightarrow> bool" where
  "all_received s \<longleftrightarrow> (\<forall>x \<in> snd ` set (in_signals s). si_status x = RECEIVED)"

definition keeps_received :: "intelligence \<Rightarrow> intelligence \<Rightarrow> bool" where
  "keeps_received s s' \<longleftrightarrow> (all_received s \<longrightarrow> all_received s')"

interpretation received: change keeps_received
  by unfold_locales (auto simp: keeps_received_def)

lemma received_same: "in_signals s' = in_signals s \<Longrightarrow> keeps_received s s'"
  by (simp add: keeps_received_def all_received_def)

lemma received_modify: "(\<And>s. in_signals (f s) = in_signals s) \<Longrightarrow> along keeps_received (modify f)"
  by (simp add: along_def modify_def received_same)

lemma received_emit: "along keeps_received (intel_emitAudit env a n i v)"
  unfolding intel_emitAudit_def by (intro received.along_intros received_modify) simp

lemma received_get: "along keeps_received get_state"
  by (simp add: along_def get_state_def received.stays)

lemma received_guard: "along keeps_received (guard b e)"
  by (simp add: along_def guard_apply received.stays)

lemma received_update: "along keeps_received (updateSituation env i f)"
  unfolding updateSituation_def Let_def by (intro received.along_intros received_get received_modify) simp

lemma received_ingest: "along keeps_received (ingestSignal env source type raw evidence)"
proof -
  have "along keeps_received (modify (\<lambda>s. s\<lparr>in_signals := AList.update k sg (in_signals s)\<rparr>))" if "si_status sg = RECEIVED" for k sg
    using that update_values[of k sg] by (fastforce simp: along_def modify_def keeps_received_def all_received_def)
  then show ?thesis unfolding ingestSignal_def Let_def by (intro received.along_intros received_emit) simp
qed

lemma convertSignal_run:
  assumes "all_received s" "map_of (in_signals s) i = Some sg"
  shows "\<exists>ev s'. convertSignalToEvent env i c k s = (Inr ev, s') \<and> en_signalId ev = i \<and> in_signals s' = AList.update i sg (in_signals s)"
proof -
  have st: "si_status sg = RECEIVED" using assms map_of_SomeD[OF assms(2)] by (force simp: all_received_def)
  have eq: "sg\<lparr>si_status := RECEIVED\<rparr> = sg" using st by simp
  show ?thesis using assms(2)
    by (simp add: st eq convertSignalToEvent_def andThen_def get_state_def of_result_def requireSignal_def modify_def intel_emitAudit_def return_def Let_def)
qed

lemma received_convert: "along keeps_received (convertSignalToEvent env i c k)"
proof (rule alongI)
  fix s r s' assume run: "convertSignalToEvent env i c k s = (r, s')"
  show "keeps_received s s'"
  proof (cases "map_of (in_signals s) i")
    case None
    then have "s' = s" using run by (simp add: convertSignalToEvent_def andThen_def get_state_def of_result_def requireSignal_def)
    then show ?thesis by (simp add: received.stays)
  next
    case (Some sg)
    have "all_received s'" if ok: "all_received s"
    proof -
      from convertSignal_run[OF ok Some, of env c k] run have "in_signals s' = AList.update i sg (in_signals s)" by auto
      moreover have "si_status sg = RECEIVED" using ok map_of_SomeD[OF Some] by (force simp: all_received_def)
      ultimately show ?thesis using ok update_values[of i sg "in_signals s"] by (fastforce simp: all_received_def)
    qed
    then show ?thesis by (simp add: keeps_received_def)
  qed
qed

text \<open>The calls that the controllers make, whether they return or throw.\<close>

inductive intel_step :: "intelligence \<Rightarrow> intelligence \<Rightarrow> bool" where
  ingest: "intel_step s (snd (ingestSignal env source type raw evidence s))"
| convert: "intel_step s (snd (convertSignalToEvent env i c k s))"
| correlate: "intel_step s (snd (correlateEvents env ids reason criteria s))"
| assess: "intel_step s (snd (assessSituationSeverity env i severity reason evidence s))"
| recommend: "intel_step s (snd (createRecommendation env i input s))"
| alert: "intel_step s (snd (alertForSituation env i reason evidence s))"
| advance: "intel_step s (snd (advanceSituationState env i st s))"
| register: "intel_step s (snd (registerAnomalyRule env i name evaluate s))"
| check: "intel_step s (snd (executeScheduledCheck env provider s))"
| availability: "intel_step s (snd (setProviderAvailability provider available why s))"
| remember: "intel_step s (snd (rememberSituationMemory env i r s))"

lemma received_others:
  "along keeps_received (correlateEvents env ids reason criteria)"
  "along keeps_received (assessSituationSeverity env i severity reason evidence)"
  "along keeps_received (createRecommendation env i input)"
  "along keeps_received (alertForSituation env i reason evidence)"
  "along keeps_received (advanceSituationState env i st)"
  "along keeps_received (registerAnomalyRule env i name evaluate)"
  "along keeps_received (setProviderAvailability provider available why)"
  "along keeps_received (rememberSituationMemory env i r)"
  unfolding correlateEvents_def assessSituationSeverity_def createRecommendation_def alertForSituation_def advanceSituationState_def
    registerAnomalyRule_def setProviderAvailability_def rememberSituationMemory_def Let_def
  by (intro received.along_intros received_emit received_get received_guard received_update received_modify; simp)+

lemma received_check: "along keeps_received (executeScheduledCheck env provider)"
  by (simp add: along_def executeScheduledCheck_def andThen_def get_state_def return_def intel_emitAudit_def modify_def Let_def
      received_same split: prod.splits)

lemma all_received_reachable:
  assumes "intel_step\<^sup>*\<^sup>* (new_intelligence env) s"
  shows "all_received s"
  using assms
proof (induction rule: rtranclp_induct)
  case base
  show ?case by (simp add: new_intelligence_def registerAnomalyRule_def andThen_def modify_def intel_emitAudit_def return_def all_received_def)
next
  case (step s s')
  from step.hyps(2) have "keeps_received s s'"
    by cases (use received_ingest received_convert received_others received_check in \<open>simp_all add: along_def\<close>)
  with step.IH show ?case by (simp add: keeps_received_def)
qed

text \<open>A grave assessment has a reason and evidence.\<close>

lemma assess_returns:
  assumes "assessSituationSeverity env i severity reason evidence s = (Inr sn, s')"
  shows "severity \<in> {SevHIGH, SevCRITICAL} \<Longrightarrow> js_trim reason \<noteq> [] \<and> evidence \<noteq> []" and "sn_severity sn = severity"
  using assms by (auto simp: assessSituationSeverity_def updateSituation_def Let_def prog_elims of_result_apply get_state_apply modify_apply)

end
