(* ===== verification/Agent_Properties.thy ===== *)
theory Agent_Properties
  imports Agent_Service Intelligence_Service
begin

text \<open>
  Properties of the audit trail and of the assistant: what is left out of the records, which approvals
  stand, which tasks run, what is remembered and which anomalies are reported.
\<close>

text \<open>C35. What the audit trail keeps of a request does not depend on the values of the five sensitive members of its body:
  two bodies that differ in nothing else leave the same table. Being recorded changes neither the answer
  nor the effect of the request, and adds at most one row.\<close>

theorem audit_keeps_secrets:
  assumes "same_but_secrets ms ms'"
  shows "intercept env (rq\<lparr>aq_body := JObj ms\<rparr>) handle (logs, w) = intercept env (rq\<lparr>aq_body := JObj ms'\<rparr>) handle (logs, w) \<and>
    (\<exists>rows. length rows \<le> 1 \<and> intercept env (rq\<lparr>aq_body := JObj ms\<rparr>) handle (logs, w) = (fst (handle w), (logs @ rows, snd (handle w))))"
proof -
  let ?rq = "rq\<lparr>aq_body := JObj ms\<rparr>"
  obtain r w' where h: "handle w = (r, w')" by (cases "handle w")
  have "\<exists>rows. length rows \<le> 1 \<and> snd (audit_log env e logs) = logs @ rows" for e
  proof (cases "at_refuses env (audit_data e)")
    case None
    then show ?thesis by (intro exI[of _ "[audit_row env (audit_data e)]"]) (simp add: audit_log_run)
  next
    case (Some err)
    then show ?thesis by (intro exI[of _ "[]"]) (simp add: audit_log_run)
  qed
  then obtain rows where rows: "length rows \<le> 1" "snd (audit_log env (answer_entry ?rq r) logs) = logs @ rows" by blast
  have "\<exists>rows. length rows \<le> 1 \<and> intercept env ?rq handle (logs, w) = (r, (logs @ rows, w'))"
  proof (cases "audited ?rq")
    case True
    then show ?thesis using rows h by (intro exI[of _ rows]) (simp add: intercept_run)
  next
    case False
    then show ?thesis using h by (intro exI[of _ "[]"]) (simp add: intercept_run)
  qed
  with intercept_same[OF sanitizeValues_same[OF assms], of env rq handle] h show ?thesis by simp
qed

definition sample_auditEnv :: auditEnv where
  "sample_auditEnv = \<lparr>at_refuses = AuditLog_columns, at_id = ''r1'', at_now = 5\<rparr>"

definition sample_auditRequest :: auditRequest where
  "sample_auditRequest = \<lparr>aq_method = ''POST'', aq_url = ''/api/v1/users'', aq_user = None, aq_tenantId = None, aq_ip = Some ''10.0.0.1'',
     aq_forwardedFor = None, aq_remoteAddress = None, aq_userAgent = None, aq_params = [], aq_body = JNull\<rparr>"

theorem audit_keeps_secrets_witness:
  "same_but_secrets [(''email'', JStr ''a''), (''password'', JStr ''x'')] [(''email'', JStr ''a''), (''password'', JStr ''y'')] \<and>
   intercept sample_auditEnv (sample_auditRequest\<lparr>aq_body := JObj [(''email'', JStr ''a''), (''password'', JStr ''x'')]\<rparr>)
     (return (JObj [])) ([], ()) =
   intercept sample_auditEnv (sample_auditRequest\<lparr>aq_body := JObj [(''email'', JStr ''a''), (''password'', JStr ''y'')]\<rparr>)
     (return (JObj [])) ([], ()) \<and>
   length (fst (snd (intercept sample_auditEnv (sample_auditRequest\<lparr>aq_body := JObj [(''email'', JStr ''a''), (''password'', JStr ''x'')]\<rparr>)
     (return (JObj [])) ([], ())))) = 1"
proof (intro conjI)
  show s: "same_but_secrets [(''email'', JStr ''a''), (''password'', JStr ''x'')] [(''email'', JStr ''a''), (''password'', JStr ''y'')]"
    by (simp add: same_but_secrets_def sensitive_fields_def)
  show "intercept sample_auditEnv (sample_auditRequest\<lparr>aq_body := JObj [(''email'', JStr ''a''), (''password'', JStr ''x'')]\<rparr>)
     (return (JObj [])) ([], ()) =
   intercept sample_auditEnv (sample_auditRequest\<lparr>aq_body := JObj [(''email'', JStr ''a''), (''password'', JStr ''y'')]\<rparr>)
     (return (JObj [])) ([], ())"
    by (rule conjunct1[OF audit_keeps_secrets[OF s]])
  show "length (fst (snd (intercept sample_auditEnv (sample_auditRequest\<lparr>aq_body := JObj [(''email'', JStr ''a''), (''password'', JStr ''x'')]\<rparr>)
     (return (JObj [])) ([], ())))) = 1"
    by code_simp
qed

text \<open>C36. Approvals follow the calls: after any sequence of calls of the assistant an action is approved, for the check and in
  the answer to a query, exactly when it was recorded and not revoked since; it is listed as pending when in
  addition it was not executed since. Being executed does not use an approval up.\<close>

theorem approvals_follow_calls:
  "let s = foldl elevaStep (new_eleva env0) calls; v = standing_of a (map snd calls) in
     (isApproved a s \<longleftrightarrow> (\<exists>x. v = Some x \<and> sd_approved x)) \<and>
     (av_approved (getApproval env a s) \<longleftrightarrow> isApproved a s) \<and>
     (a \<in> av_actionId ` set (listPendingApprovals env s) \<longleftrightarrow> v = Some \<lparr>sd_approved = True, sd_executed = False\<rparr>)"
  by (simp add: Let_def run_standing[OF refl])


definition sample_tool :: "nat AgentToolDefinition" where
  "sample_tool = \<lparr>tl_name = ''ledger.close'', tl_capability = ''ACCOUNTING'',
     tl_requiredPermission = \<lparr>rp_action = ''update'', rp_resource = ''Order''\<rparr>, tl_risk = HIGH, tl_requiresApproval = True,
     tl_inputContract = [], tl_execute = (\<lambda>_ w. (Inr [], Suc w)), tl_verify = Some (\<lambda>_ _. return True)\<rparr>"

definition sample_clerk :: authenticatedUser where
  "sample_clerk = \<lparr>au_id = ''u1'', au_email = ''e'', au_tenantId = Some ''t1'', au_roles = [], au_permissions = [''order:update''], au_branches = None\<rparr>"

definition sample_agentEnv :: agentEnv where
  "sample_agentEnv = \<lparr>ge_now = 7, ge_iso = show_int, ge_auditService = True\<rparr>"

definition sample_officeEnv :: officeEnv where
  "sample_officeEnv = \<lparr>oe_exec = \<lparr>ge_now = 7, ge_iso = show_int, ge_auditService = True, ge_taskId = ''task-1''\<rparr>,
     oe_memory = \<lparr>ge_now = 7, ge_iso = show_int, ge_auditService = True, ge_entryId = ''mem-1'', ge_messageId = ''mem-2''\<rparr>,
     oe_taskId = ''eleva-task-1'', oe_decisionId = ''d1'', oe_agentExecutionService = True\<rparr>"

definition sample_office :: "nat officeState" where
  "sample_office = \<lparr>of_objective = None, of_executions = [], of_executionOrder = [], of_plan = [], of_blockers = [],
     of_pendingApprovalActionIds = [], of_decisionReasons = [],
     of_eleva = \<lparr>el_status = IDLE, el_activeCapability = None, el_updatedAt = 0, el_capabilities = [], el_approvals = [], el_audit = []\<rparr>,
     of_memory = \<lparr>mm_entries = [], mm_conversations = [], mm_audit = []\<rparr>, of_site = \<lparr>ag_world = 0, ag_audit = []\<rparr>, of_audit = []\<rparr>"

definition sample_task :: AgentTaskRequest where
  "sample_task = \<lparr>rt_action = ''close the books'', rt_toolName = Some ''ledger.close'', rt_capability = None, rt_risk = Some LOW,
     rt_input = Some [], rt_approvalActionId = Some ''made-up''\<rparr>"

definition sample_tools :: "nat registry" where
  "sample_tools = registerTool sample_tool new_registry"

lemma sample_task_runs:
  "ag_world (of_site (snd (runTask last_type_rule sample_officeEnv sample_tools sample_task (Some sample_clerk) None sample_office))) = 1"
  by code_simp


text \<open>The safe tool is for platform owners only: nobody else can be given its permission.\<close>

lemma safe_tool_platform_only:
  "authorizeTask last_type_rule (createForUser u) safe_tool = None \<longleftrightarrow> ''PLATFORM_OWNER'' \<in> set (au_roles u)"
proof -
  have "lower_case ''low-risk''" by (simp add: lower_case_def)
  from last_type_rule.lower_case_platform_only[OF this, of u "''execute''"]
  show ?thesis by (simp add: authorizeTask_def safe_tool_def Let_def)
qed

text \<open>The id of a task is no UUID, so the database refuses the audit record of every task.\<close>

lemma task_audit_lost:
  assumes "at_refuses trail = AuditLog_columns" "ge_taskId env = ''task-'' @ x"
  shows "audit_log trail (task_entry env r) logs = (Inr None, logs)"
proof (rule schema.foreign_id_lost[OF assms(1)])
  show "al_entityId (task_entry env r) = Some (''task-'' @ x)" by (simp add: task_entry_def agent_entry_def assms(2))
  show "\<not> list_all uuid_char (''task-'' @ x)" by (simp add: uuid_char_def hex_char_def hex_val_def)
qed simp

text \<open>C38. The approval a tool requires is not looked up: a task that calls itself harmless and names any approval at all runs a
  tool that requires one, whatever approvals are recorded or revoked, and whatever the risk of the tool.\<close>

theorem agent_approval_not_checked:
  assumes "resolveTool tools request = Inr tool" "tl_requiresApproval tool"
    and "can (createForUser u) (rp_action (tl_requiredPermission tool)) (rp_resource (tl_requiredPermission tool))"
    and "truthy (rt_approvalActionId request)" "\<not> isApprovalRequired (rt_toolName request) (rt_risk request)"
    and "oe_agentExecutionService env"
  shows "of_site (snd (runTask can env tools request (Some u) facts (s\<lparr>of_eleva := approvals\<rparr>))) =
    snd (performTask (oe_exec env) request tool (of_site s))"
proof -
  have "\<not> gated env request (s\<lparr>of_eleva := approvals\<rparr>)" using assms(5) by (simp add: gated_def)
  from runTask_open[OF this assms(6), of can tools u facts]
  show ?thesis using assms(4)
    by (simp add: handed_over_world executeTask_allowed[where can = can, OF assms(1,3)])
qed

theorem agent_approval_not_checked_witness:
  "\<not> isApproved ''made-up'' (of_eleva sample_office) \<and> tl_requiresApproval sample_tool \<and> tl_risk sample_tool = HIGH \<and>
   of_site (snd (runTask last_type_rule sample_officeEnv sample_tools sample_task (Some sample_clerk) None sample_office)) =
     snd (performTask (oe_exec sample_officeEnv) sample_task sample_tool (of_site sample_office))"
proof -
  have r: "resolveTool sample_tools sample_task = Inr sample_tool"
    by (simp add: resolveTool_def sample_tools_def registerTool_def new_registry_def sample_task_def sample_tool_def getTool_def
        safe_tool_def SAFE_TOOL_NAME_def Let_def)
  have a: "tl_requiresApproval sample_tool" by (simp add: sample_tool_def)
  have c: "last_type_rule (createForUser sample_clerk) (rp_action (tl_requiredPermission sample_tool)) (rp_resource (tl_requiredPermission sample_tool))"
    by code_simp
  have t: "truthy (rt_approvalActionId sample_task)" "oe_agentExecutionService sample_officeEnv"
    by (simp_all add: sample_task_def sample_officeEnv_def)
  have n: "\<not> isApprovalRequired (rt_toolName sample_task) (rt_risk sample_task)" by code_simp
  have "of_site (snd (runTask last_type_rule sample_officeEnv sample_tools sample_task (Some sample_clerk) None
      (sample_office\<lparr>of_eleva := of_eleva sample_office\<rparr>))) = snd (performTask (oe_exec sample_officeEnv) sample_task sample_tool (of_site sample_office))"
    by (rule agent_approval_not_checked[where can = last_type_rule, OF r a c t(1) n t(2)])
  moreover have "\<not> isApproved ''made-up'' (of_eleva sample_office)" by (simp add: sample_office_def isApproved_def)
  ultimately show ?thesis using a by (simp add: sample_tool_def)
qed

text \<open>C39. What the assistant remembers is well formed: no two entries share an id, or a category and a key. Remembering keeps that,
  is found under its category and key, and leaves every other category and key as it was.\<close>

theorem memory_upsert:
  assumes "memory_ok s" "fresh_entry env s" "remember env input s = (r, s')"
  shows "memory_ok s' \<and> map_option mo_value (findByCategoryAndKey (mo_category input) (mo_key input) s') = Some (mo_value input) \<and>
    (\<forall>c k. (c, k) \<noteq> (mo_category input, mo_key input) \<longrightarrow> findByCategoryAndKey c k s' = findByCategoryAndKey c k s)"
  using remember_ok[OF assms] remember_finds[OF assms] by (auto simp: entry_for_fields)

definition sample_memory :: MemoryUpsertInput where
  "sample_memory = \<lparr>mo_category = PROJECT_GOAL, mo_key = ''k'', mo_value = ''open'',
     mo_provenance = \<lparr>mp_source = None, mp_retrievedAt = None, mp_evidenceClassification = Verified\<rparr>, mo_conversationId = None, mo_tags = None\<rparr>"

theorem memory_upsert_witness:
  "memory_ok (snd (remember (oe_memory sample_officeEnv) sample_memory (of_memory sample_office)))"
proof -
  have "memory_ok (of_memory sample_office)" "fresh_entry (oe_memory sample_officeEnv) (of_memory sample_office)"
    by (simp_all add: memory_ok_def fresh_entry_def sample_office_def)
  from memory_upsert[OF this prod.collapse[symmetric]] show ?thesis by blast
qed

text \<open>C40. The rules a new assistant has report repeated failures exactly when three of the events are failures of the system,
  whenever they happened, and repeated errors exactly when five errors say the same; looking for anomalies
  changes nothing.\<close>

theorem anomalies_found:
  assumes "detectAnomalies ids s = (Inr found, s')" "in_rules s = in_rules (new_intelligence env)"
  shows "s' = s \<and> (\<exists>events. list_all2 (\<lambda>i e. map_of (in_events s) i = Some e) ids events \<and>
    (''repeated-failures-window'' \<in> fst ` set found \<longleftrightarrow> 3 \<le> length (filter (\<lambda>e. en_type e = ''system.failure'') events)) \<and>
    (''repeated-identical-errors'' \<in> fst ` set found \<longleftrightarrow> (\<exists>m. 5 \<le> length (errors_saying m events))))"
proof -
  obtain events where loop: "foldProg (\<lambda>i evs. andThen (of_result (requireEvent i s)) (\<lambda>e. return (evs @ [e]))) ids [] s = (Inr events, s')"
    and found: "found = concat (map (\<lambda>(i, evaluate). case evaluate events of None \<Rightarrow> [] | Some a \<Rightarrow> [(i, a)]) (in_rules s))"
    using assms(1) by (auto simp: detectAnomalies_def andThen_eq_Inr_iff get_state_apply return_apply)
  have "s' = s \<and> (\<exists>es. events = acc @ es \<and> list_all2 (\<lambda>i e. map_of (in_events s) i = Some e) ids es)"
    if "foldProg (\<lambda>i evs. andThen (of_result (requireEvent i s)) (\<lambda>e. return (evs @ [e]))) ids acc s = (Inr events, s')" for acc
    using that
  proof (induction ids arbitrary: acc)
    case Nil
    then show ?case by (simp add: return_apply)
  next
    case (Cons i ids)
    then obtain e where e: "map_of (in_events s) i = Some e"
      by (cases "map_of (in_events s) i") (auto simp: andThen_def of_result_def requireEvent_def)
    with Cons show ?case by (fastforce simp: andThen_def of_result_def requireEvent_def return_def)
  qed
  from this[OF loop] have events: "s' = s" "list_all2 (\<lambda>i e. map_of (in_events s) i = Some e) ids events" by auto
  have rules: "in_rules s = [(''repeated-failures-window'', repeated_failures_window), (''repeated-identical-errors'', repeated_identical_errors)]"
    using assms(2) by (simp add: new_intelligence_def registerAnomalyRule_def andThen_def modify_def intel_emitAudit_def return_def)
  have "''repeated-failures-window'' \<in> fst ` set found \<longleftrightarrow> repeated_failures_window events \<noteq> None"
    "''repeated-identical-errors'' \<in> fst ` set found \<longleftrightarrow> repeated_identical_errors events \<noteq> None"
    by (cases "repeated_failures_window events"; cases "repeated_identical_errors events"; simp add: found rules)+
  with events show ?thesis unfolding repeated_failures_iff repeated_errors_iff by blast
qed

definition sample_failure :: "string \<Rightarrow> int \<Rightarrow> string \<times> Event" where
  "sample_failure i t = (i, \<lparr>en_id = i, en_signalId = ''s'', en_source = ''db'', en_category = ''SYSTEM'', en_type = ''system.failure'',
     en_receivedAt = t, en_data = [], en_correlationKey = None\<rparr>)"

definition sample_intelEnv :: intelligenceEnv where
  "sample_intelEnv = \<lparr>ge_now = 7, ge_iso = show_int, ge_auditService = False, ge_newId = ''x''\<rparr>"

definition sample_intelligence :: intelligence where
  "sample_intelligence = (new_intelligence sample_intelEnv)\<lparr>in_events := [sample_failure ''e1'' 0, sample_failure ''e2'' 100000000, sample_failure ''e3'' 900000000]\<rparr>"

theorem anomalies_found_witness:
  "\<exists>found. detectAnomalies [''e1'', ''e2'', ''e3''] sample_intelligence = (Inr found, sample_intelligence) \<and>
     ''repeated-failures-window'' \<in> fst ` set found"
proof -
  have rules: "in_rules sample_intelligence = in_rules (new_intelligence sample_intelEnv)" by (simp add: sample_intelligence_def)
  have ev: "map_of (in_events sample_intelligence) ''e1'' = Some (snd (sample_failure ''e1'' 0))"
    "map_of (in_events sample_intelligence) ''e2'' = Some (snd (sample_failure ''e2'' 100000000))"
    "map_of (in_events sample_intelligence) ''e3'' = Some (snd (sample_failure ''e3'' 900000000))"
    by (simp_all add: sample_intelligence_def sample_failure_def)
  have "\<exists>found s'. detectAnomalies [''e1'', ''e2'', ''e3''] sample_intelligence = (Inr found, s')"
    by (simp add: detectAnomalies_def andThen_def get_state_def return_def of_result_def requireEvent_def ev)
  then obtain found s' where d: "detectAnomalies [''e1'', ''e2'', ''e3''] sample_intelligence = (Inr found, s')" by blast
  from anomalies_found[OF d rules] obtain events where s': "s' = sample_intelligence"
    and e: "list_all2 (\<lambda>i e. map_of (in_events sample_intelligence) i = Some e) [''e1'', ''e2'', ''e3''] events"
    and f: "''repeated-failures-window'' \<in> fst ` set found \<longleftrightarrow> 3 \<le> length (filter (\<lambda>e. en_type e = ''system.failure'') events)" by blast
  from e have "events = [snd (sample_failure ''e1'' 0), snd (sample_failure ''e2'' 100000000), snd (sample_failure ''e3'' 900000000)]"
    by (auto simp: list_all2_Cons1 ev)
  with f d s' show ?thesis by (auto simp: sample_failure_def)
qed

end
