(* ===== verification/Spec2Isabelle.thy ===== *)
theory Spec2Isabelle
  imports Tenant_Properties Order_Properties Kds_Properties Auth_Properties Access_Properties User_Properties
    Gateway_Properties Payment_Properties Guard_Properties Billing_Properties Admin_Properties Menu_Properties Media_Properties
    Onboarding_Properties Notification_Properties Agent_Properties
begin

text \<open>
  A model of the server side of the multi-tenant restaurant platform, and the properties that make
  it correct. Every restaurant chain is a tenant; all tenants share one database, one process and one
  Redis, so most of what matters is that a request acts for one tenant, on that tenant's rows, with
  the rights its user has, and that orders, tickets and payments only move the way they should.

  How the program is put together. A request passes \<^verbatim>\<open>TenantContextMiddleware\<close> (which tenant do the
  headers and the host name claim), \<^verbatim>\<open>JwtStrategy\<close> (whose token is it, and which tenant does it carry)
  and \<^verbatim>\<open>RbacPermissionGuard\<close> (may the user do this to that record). A controller then calls a service.
  Services reach the database through the repositories of \<^verbatim>\<open>packages/db\<close>, whose Prisma client is
  extended so that each operation is checked and scoped to the tenant in the asynchronous context.
  After a change they notify: socket rooms of the kitchen display, webhooks, SMS, e-mail, pushes. Tokens
  are revoked through Redis. Guests read the menu of the table whose code they scanned; images go to a
  disk or to S3.

  Conventions. A computation (\<open>prog\<close>, theory \<open>Prelude\<close>) takes a state and gives an error or a value,
  and the state it reached in both cases: an exception does not undo what happened before it. The
  tenant context is an argument, because \<^verbatim>\<open>dbTenantContext.run\<close> fixes it for a dynamic extent. Numbers
  of JavaScript are binary64 values, written out in \<open>JS_Number\<close> as rationals with rounding to
  nearest-even, infinities and NaN (there is one zero). Strings are lists of characters with code
  points below 256, dates are milliseconds since the epoch.

  Theories, what they model, and what their lemmas show.
  \<^item> \<open>Tenant_Db\<close>: \<^verbatim>\<open>packages/db/src/index.ts\<close>, the extension around every database operation. Prisma's
    query functions for one model are a \<open>delegate\<close>; the locale \<open>prisma_delegate\<close> states their documented
    behaviour. \<open>Tenant_Repository\<close>: \<^verbatim>\<open>repositories/BaseTenantRepository.ts\<close>, every method, with isolation,
    effect and failure lemmas proved once for every model. \<open>Memory_Db\<close> interprets the locale on tables in
    memory. Properties: \<open>Tenant_Properties\<close>.
  \<^item> \<open>Schema\<close>, \<open>Database\<close>, \<open>World\<close>: the enumerations and rows of \<^verbatim>\<open>packages/types\<close> and \<^verbatim>\<open>schema.prisma\<close>, the
    whole client with its joined queries and transactions (locale \<open>prisma_client\<close>, interpreted on
    \<open>mem_prisma\<close>), and the state of the services: the database and the messages sent.
  \<^item> \<open>Discount\<close>: \<^verbatim>\<open>discount/discount.service.ts\<close>. \<open>Order_Service\<close>: \<^verbatim>\<open>order/order.service.ts\<close>, whole.
    \<open>Order_Correct\<close> proves isolation, atomicity and refinement of an abstract checkout, \<open>Order_Total\<close>
    bounds the rounding errors of a total, \<open>Order_Lifecycle\<close> has the state machine, \<open>Order_Messages\<close> the
    notifications. Properties: \<open>Order_Properties\<close>.
  \<^item> \<open>Kds_Broadcast\<close>, \<open>Kds_Service\<close>, \<open>Kds_Gateway\<close>: \<^verbatim>\<open>kds/kds.gateway.ts\<close> and \<^verbatim>\<open>kds/kds.service.ts\<close>: the rooms,
    the tickets with their escalation and the cooking state machine, and the sockets as a step relation.
    Properties: \<open>Kds_Properties\<close>, \<open>Gateway_Properties\<close>.
  \<^item> \<open>Json\<close>, \<open>Cache\<close>: \<^verbatim>\<open>common/cache/cache.service.ts\<close> over a Redis client that may fail, time out or
    disconnect at any call (locale \<open>redis_store\<close> states what it stores). \<open>Base32\<close>, \<open>Auth_Service\<close>,
    \<open>Auth_Correct\<close>: \<^verbatim>\<open>auth/auth.service.ts\<close>, whole; the JWT library is a locale. Properties: \<open>Auth_Properties\<close>.
  \<^item> \<open>Request_Context\<close>: \<^verbatim>\<open>common/middleware/tenant-context.middleware.ts\<close>, \<^verbatim>\<open>auth/strategies/jwt.strategy.ts\<close>,
    \<^verbatim>\<open>auth/casl-ability.factory.ts\<close> and \<^verbatim>\<open>auth/guards/rbac-permission.guard.ts\<close>. Properties:
    \<open>Access_Properties\<close>.
  \<^item> \<open>User_Service\<close>, \<open>User_Correct\<close>: \<^verbatim>\<open>user/user.service.ts\<close>, whole, with the outcome of each operation and
    the invariant that a tenant keeps an owner. Properties: \<open>User_Properties\<close>.
  \<^item> \<open>Wallet_Service\<close>, \<open>Wallet_Correct\<close>: \<^verbatim>\<open>payment/wallet.service.ts\<close>, whole, with the calls made to the
    payment providers in the state. Properties: \<open>Payment_Properties\<close>.
  \<^item> \<open>Rate_Limit\<close>, \<open>Csrf\<close>: \<^verbatim>\<open>common/rate-limit\<close> and \<^verbatim>\<open>common/csrf\<close>, services and guards. \<open>Fixed_Window\<close> bounds
    the requests a fixed window lets through, from what its counter promises; the counters in Redis and in
    the memory of the process are both shown to keep the promise. Properties: \<open>Guard_Properties\<close>.
  \<^item> \<open>Subscription_Service\<close>: \<^verbatim>\<open>subscription/\<close>, the checks and the guard. \<open>Billing_Service\<close>: \<^verbatim>\<open>billing/\<close>, the
    checkout session, the webhook of Stripe and its listener; the lemmas say what an event can change in
    which tenant context. Properties: \<open>Billing_Properties\<close>.
  \<^item> \<open>Branch_Service\<close>, \<open>Branch_Correct\<close>: \<^verbatim>\<open>branch/branch.service.ts\<close>, whole; the deletion of a branch ends.
    \<open>Cascade\<close> is the loop over the live rows below a deleted one. \<open>Live_Keys\<close>, \<open>Customer_Service\<close>:
    \<^verbatim>\<open>customer/customer.service.ts\<close>, whole, on a column that the checks of the service keep unique.
    \<open>Webhook_Service\<close>: \<^verbatim>\<open>webhook/webhook.service.ts\<close>, whole, with the retries of a delivery. Properties:
    \<open>Admin_Properties\<close>.
  \<^item> \<open>Menu_Service\<close>, \<open>Public_Menu\<close>, \<open>Menu_Correct\<close>: \<^verbatim>\<open>menu/menu.service.ts\<close> with the cascade from a category to
    its products, and \<^verbatim>\<open>menu/public-menu.service.ts\<close>, what a guest is shown. Properties: \<open>Menu_Properties\<close>.
  \<^item> \<open>Media_Storage\<close>, \<open>Media_Service\<close>, \<open>Media_Correct\<close>, \<open>Media_Queue\<close>: \<^verbatim>\<open>media/\<close>: the storage providers (locale
    \<open>storage_provider\<close>, interpreted on both), the upload with its retried serializable transaction, and the
    queue of files to delete as a loop and as a step relation. Properties: \<open>Media_Properties\<close>.
  \<^item> \<open>Tenant_Service\<close>, \<open>Tenant_Correct\<close>: \<^verbatim>\<open>tenant/tenant.service.ts\<close> and \<^verbatim>\<open>restaurant/restaurant.service.ts\<close>,
    whole: onboarding in one transaction and the profile of a tenant. Properties: \<open>Onboarding_Properties\<close>.
  \<^item> \<open>Email_Service\<close>, \<open>Sms_Service\<close>: \<^verbatim>\<open>notification/email\<close> and \<^verbatim>\<open>notification/sms\<close>; the lemmas compare the
    substitution in a template with a reference rendering. \<open>Device_Token_Service\<close>, \<open>Push_Correct\<close>:
    \<^verbatim>\<open>device-token/\<close> and \<^verbatim>\<open>fcm/\<close>. \<open>Dispatch_Service\<close>, \<open>Dispatch_Correct\<close>: \<^verbatim>\<open>notification/dispatch\<close>, the queue in memory
    as a loop and as a step relation of which the loop is a run, the channels over all the services behind them,
    and those of \<^verbatim>\<open>worker.ts\<close>. Properties: \<open>Notification_Properties\<close>.
  \<^item> \<open>Audit_Service\<close>: \<^verbatim>\<open>audit/\<close>, the table of records, the interceptor and what it redacts. \<open>Agent_Approvals\<close>,
    \<open>Agent_Execution\<close>, \<open>Agent_Memory\<close>, \<open>Agent_Advisory\<close>, \<open>Agent_Service\<close>, \<open>Intelligence_Service\<close>: the assistant,
    \<^verbatim>\<open>eleva/eleva.service.ts\<close>, \<^verbatim>\<open>agent.execution.ts\<close>, \<^verbatim>\<open>eleva.memory.ts\<close> and \<^verbatim>\<open>eleva.voice.service.ts\<close>,
    \<^verbatim>\<open>eleva.advisory.ts\<close>, \<^verbatim>\<open>eleva.agent.service.ts\<close> and \<^verbatim>\<open>eleva.intelligence.ts\<close>: approvals against a reference
    that follows the calls, the gates a task passes before its tool runs, the memory by category and key, and the
    signals as a step relation. Properties: \<open>Agent_Properties\<close>.
  \<^item> \<open>Sample_Data\<close> and \<open>Sample_Runs\<close>: a small restaurant, on which the witnesses evaluate.

  Interfaces. \<open>tenant_model\<close>, \<open>prisma_delegate\<close>, \<open>tenant_repository\<close> and \<open>prisma_client\<close> are the database;
  \<open>table_lens\<close> is a table inside the memory database, \<open>prisma_live\<close> a client whose calls succeed; \<open>redis_store\<close>
  is the cache's store, \<open>counter_store\<close> the counters beside it; \<open>fixed_window\<close> is what a rate limit needs of a counter and
  \<open>limited_client\<close> one client of the limiter; \<open>tenant_key\<close> a column the checks of a service keep unique in a
  tenant and \<open>live_key\<close> the same with soft deletion; \<open>storage_provider\<close> where files are kept; \<open>jwt_library\<close> the
  tokens; \<open>casl_ability\<close> and \<open>type_ability\<close> the matching of access rules on a record and on the name of a subject;
  \<open>audit_columns\<close> the column types of the audit table; \<open>change\<close> a reflexive and transitive
  relation between states, with which a handler is shown to do only allowed things. Each is
  interpreted on definitions of the model: those of the database on the in-memory client, \<open>change\<close> on
  the relations of the components.

  Bounds. The JSON parser runs on fuel, the length of its input, and what is printed parses back
  within it. The theorems on totals bound prices and quantities as stated there; minor units are
  exact up to \<open>2 ^ 50\<close> cents. Loops are over lists, or recursive functions with a measure (the retries of
  a delivery and of a transaction, the queues in memory, replacement in a template), or, for a cascade of
  deletions, a partial function that is shown to return.

  Concurrency. Operations run one after another; a process and its clients interleave at the
  granularity of an operation (\<open>hub_step\<close>, \<open>staff_step\<close>, \<open>order_step\<close>) or of a turn of a queue (\<open>cleaner_step\<close>,
  \<open>dispatch_step\<close>). The Postgres advisory lock with which the user service serialises owner changes is a
  parameter that changes no row. An adversary between two database calls of one operation is not modelled.

  Not modelled. The browser applications and controllers beyond their guards; logging, metrics,
  secrets and the start of the processes; the optimisation of images; of the assistant its reports and
  research over providers that are not connected, its answer to a message, and the state it loads as unchecked
  JSON; seed data; and the generated database client, which is a parameter here, as are
  Stripe, Tap, SendGrid, Twilio, Firebase, BullMQ, S3, the file system and the cryptographic libraries.
\<close>

end
